(* ===== verification/Prelude.thy ===== *)
theory Prelude
  imports Main
begin

section \<open>Shared vocabulary of the development\<close>

text \<open>
  This theory holds what every component uses: the exceptions the Python code raises as one
  datatype, the result type of code that may raise, the two loop shapes that stop at the first
  exception, the string operations of Python the code calls (\<^verbatim>\<open>startswith\<close>, decimal
  \<^verbatim>\<open>str\<close> of an integer, \<^verbatim>\<open>in\<close> on strings), and the generic lemmas about them.

  An exception is a constructor named after its Python class. Its string is the fixed text of
  the message that identifies the raise site; interpolated values are left out. No code of the
  repository branches on a message.
\<close>

named_theorems res_simps \<open>rewriting the result type and its combinators\<close>
named_theorems loop_simps \<open>what the loops over a list that may raise return\<close>


subsection \<open>Exceptions and results\<close>

datatype exn =
    ValueError string
  | KeyError string
  | IndexError string
  | RuntimeError string
  | SessionError string
  | PipelineError string
  | ProtocolError string
  | SequencingError string
  | ModelSourceError string
  | UnsupportedArchitectureError string
  | WeightError string
  | MissingWeightsError string
  | ModelStoreError string
  | ManifestError string
  | MockMasterError string
  | DriverError string
  | ControlProtocolError string
  | DeviceBusyError string
  | SessionRefused string
  | AioRpcError string
  | OSError string
  | AssertionError string
  | ProfileStoreError string

type_synonym 'a res = "exn + 'a"

definition raise_if :: "bool \<Rightarrow> exn \<Rightarrow> unit res" where
  "raise_if b e = (if b then Inl e else Inr ())"

definition then_res :: "'a res \<Rightarrow> 'b res \<Rightarrow> 'b res" where
  "then_res x y = (case x of Inl e \<Rightarrow> Inl e | Inr _ \<Rightarrow> y)"

definition bind_res :: "'a res \<Rightarrow> ('a \<Rightarrow> 'b res) \<Rightarrow> 'b res" where
  "bind_res x f = (case x of Inl e \<Rightarrow> Inl e | Inr a \<Rightarrow> f a)"

definition map_res :: "('a \<Rightarrow> 'b) \<Rightarrow> 'a res \<Rightarrow> 'b res" where
  "map_res f x = (case x of Inl e \<Rightarrow> Inl e | Inr a \<Rightarrow> Inr (f a))"

definition is_ok :: "'a res \<Rightarrow> bool" where
  "is_ok x = (case x of Inl _ \<Rightarrow> False | Inr _ \<Rightarrow> True)"

lemma raise_if_simps [simp]:
  "raise_if True e = Inl e" "raise_if False e = Inr ()"
  by (simp_all add: raise_if_def)

lemma raise_if_Inr [simp, res_simps]: "raise_if b e = Inr u \<longleftrightarrow> \<not> b"
  by (simp add: raise_if_def)

lemma raise_if_Inl [simp, res_simps]: "raise_if b e = Inl e' \<longleftrightarrow> b \<and> e' = e"
  by (auto simp: raise_if_def)

lemma then_res_simps [simp]:
  "then_res (Inl e) y = Inl e" "then_res (Inr a) y = y"
  by (simp_all add: then_res_def)

lemma then_res_Inr [simp, res_simps]:
  "then_res x y = Inr b \<longleftrightarrow> (\<exists>a. x = Inr a) \<and> y = Inr b"
  by (cases x) auto

lemma bind_res_simps [simp]:
  "bind_res (Inl e) f = Inl e" "bind_res (Inr a) f = f a"
  by (simp_all add: bind_res_def)

lemma bind_res_Inr [res_simps]:
  "bind_res x f = Inr b \<longleftrightarrow> (\<exists>a. x = Inr a \<and> f a = Inr b)"
  by (cases x) auto

lemma map_res_simps [simp]:
  "map_res f (Inl e) = Inl e" "map_res f (Inr a) = Inr (f a)"
  by (simp_all add: map_res_def)

lemma map_res_Inr [simp, res_simps]: "map_res f x = Inr b \<longleftrightarrow> (\<exists>a. x = Inr a \<and> b = f a)"
  by (cases x) auto

lemma is_ok_simps [simp]: "is_ok (Inl e) = False" "is_ok (Inr a) = True"
  by (simp_all add: is_ok_def)

lemma is_ok_iff [res_simps]: "is_ok x \<longleftrightarrow> (\<exists>a. x = Inr a)"
  by (cases x) auto


subsection \<open>Loops that stop at the first exception\<close>

text \<open>\<open>for_res\<close> is a \<^verbatim>\<open>for\<close> loop whose body only checks; \<open>traverse_res\<close> collects a value per
  round, as a list comprehension does.\<close>

fun for_res :: "('a \<Rightarrow> unit res) \<Rightarrow> 'a list \<Rightarrow> unit res" where
  "for_res f [] = Inr ()"
| "for_res f (x # xs) = then_res (f x) (for_res f xs)"

fun traverse_res :: "('a \<Rightarrow> 'b res) \<Rightarrow> 'a list \<Rightarrow> 'b list res" where
  "traverse_res f [] = Inr []"
| "traverse_res f (x # xs) =
     bind_res (f x) (\<lambda>y. map_res (\<lambda>ys. y # ys) (traverse_res f xs))"

lemma for_res_Inr [loop_simps]: "for_res f xs = Inr u \<longleftrightarrow> (\<forall>x\<in>set xs. f x = Inr ())"
  by (induction xs) auto

lemma for_res_raise_if [loop_simps]:
  "for_res (\<lambda>x. raise_if (P x) (e x)) xs = Inr u \<longleftrightarrow> (\<forall>x\<in>set xs. \<not> P x)"
  by (simp add: for_res_Inr)

lemma traverse_res_Inr [loop_simps]:
  "traverse_res f xs = Inr ys \<longleftrightarrow> list_all2 (\<lambda>x y. f x = Inr y) xs ys"
proof (induction xs arbitrary: ys)
  case Nil
  then show ?case by auto
next
  case (Cons x xs)
  show ?case
    by (auto simp: bind_res_Inr Cons.IH list_all2_Cons1)
qed

lemma traverse_res_total:
  assumes "\<And>x. x \<in> set xs \<Longrightarrow> f x = Inr (g x)"
  shows "traverse_res f xs = Inr (map g xs)"
  using assms by (induction xs) auto

lemma traverse_res_length: "traverse_res f xs = Inr ys \<Longrightarrow> length ys = length xs"
  by (simp add: traverse_res_Inr list_all2_lengthD)

lemma traverse_res_set:
  assumes "traverse_res f xs = Inr ys" and "y \<in> set ys"
  shows "\<exists>x\<in>set xs. f x = Inr y"
proof -
  from assms obtain i where "length xs = length ys" "i < length ys" "y = ys ! i"
    "f (xs ! i) = Inr (ys ! i)"
    by (auto simp: traverse_res_Inr list_all2_conv_all_nth in_set_conv_nth)
  then show ?thesis by (intro bexI [of _ "xs ! i"]) simp_all
qed


subsection \<open>Stateful code that may raise\<close>

text \<open>A call that changes a state and then returns or raises is a pair of the state it leaves and its
  result: effects before a raise stay. \<open>bind_st\<close> runs the continuation on the state left behind.\<close>

definition bind_st :: "'s \<times> 'a res \<Rightarrow> ('a \<Rightarrow> 's \<Rightarrow> 's \<times> 'b res) \<Rightarrow> 's \<times> 'b res" where
  "bind_st p f = (case p of (s, Inl e) \<Rightarrow> (s, Inl e) | (s, Inr a) \<Rightarrow> f a s)"

definition lift_st :: "'a res \<Rightarrow> 's \<Rightarrow> 's \<times> 'a res" where
  "lift_st r s = (s, r)"

lemma bind_st_simps [simp]:
  "bind_st (s, Inl e) f = (s, Inl e)" "bind_st (s, Inr a) f = f a s"
  by (simp_all add: bind_st_def)

lemma bind_lift_st [simp]: "bind_st (lift_st r s) f = (case r of Inl e \<Rightarrow> (s, Inl e) | Inr a \<Rightarrow> f a s)"
  by (simp add: lift_st_def split: sum.split)


subsection \<open>Integer fields of wire messages\<close>

text \<open>The generated protobuf classes refuse an integer outside the range of its field.\<close>

definition int32 :: "int \<Rightarrow> bool" where "int32 i \<longleftrightarrow> - (2 ^ 31) \<le> i \<and> i < 2 ^ 31"

definition int64 :: "int \<Rightarrow> bool" where "int64 i \<longleftrightarrow> - (2 ^ 63) \<le> i \<and> i < 2 ^ 63"

subsection \<open>Consecutive pairs\<close>

text \<open>\<^verbatim>\<open>itertools.pairwise\<close>.\<close>

fun pairwise :: "'a list \<Rightarrow> ('a \<times> 'a) list" where
  "pairwise (x # y # zs) = (x, y) # pairwise (y # zs)"
| "pairwise _ = []"

lemma pairwise_Cons:
  "pairwise (x # xs) = (case xs of [] \<Rightarrow> [] | y # _ \<Rightarrow> (x, y) # pairwise xs)"
  by (cases xs) auto

lemma pairwise_map: "pairwise (map f xs) = map (\<lambda>(x, y). (f x, f y)) (pairwise xs)"
  by (induction xs rule: pairwise.induct) auto

lemma in_pairwise_nth:
  "(x, y) \<in> set (pairwise xs) \<longleftrightarrow> (\<exists>i. Suc i < length xs \<and> xs ! i = x \<and> xs ! Suc i = y)"
proof (induction xs rule: pairwise.induct)
  case (1 a b zs)
  have split: "(\<exists>i. P i) \<longleftrightarrow> P 0 \<or> (\<exists>i. P (Suc i))" for P :: "nat \<Rightarrow> bool"
    by (metis not0_implies_Suc)
  show ?case
    by (subst split) (auto simp: "1.IH")
qed auto


subsection \<open>Lists\<close>

lemma distinct_iff_card: "length (remdups xs) = length xs \<longleftrightarrow> distinct xs"
  by (metis distinct_remdups length_remdups_eq remdups_id_iff_distinct)

lemma list_all2_eq_mapD: "list_all2 (\<lambda>x y. y = f x) xs ys \<Longrightarrow> ys = map f xs"
  by (induction rule: list_all2_induct) simp_all

lemma map_upd_delete_fresh: "m k = None \<Longrightarrow> (m(k \<mapsto> v))(k := None) = m"
  by auto

lemma lookup_map_of_key:
  assumes "distinct (map f xs)" and "x \<in> set xs"
  shows "map_of (map (\<lambda>y. (f y, y)) xs) (f x) = Some x"
  using assms by (intro map_of_is_SomeI) (auto simp: comp_def)


subsection \<open>Dicts\<close>

text \<open>A dict built from pairs: a later pair replaces the value of an earlier one.\<close>

definition dict_of :: "('k \<times> 'v) list \<Rightarrow> 'k \<rightharpoonup> 'v" where
  "dict_of kvs = map_of (rev kvs)"

definition dict_fromkeys :: "'a list \<Rightarrow> 'a list" where
  "dict_fromkeys xs = rev (remdups (rev xs))"

lemma dict_fromkeys_props [simp]: "distinct (dict_fromkeys xs)" "set (dict_fromkeys xs) = set xs" "dict_fromkeys xs = [] \<longleftrightarrow> xs = []"
  by (simp_all add: dict_fromkeys_def)

end
