(* ===== verification/Model_Spec.thy ===== *)
theory Model_Spec
  imports Prelude
begin

section \<open>Block ranges, shard specifications and model layouts\<close>

text \<open>
  The static description of a model and of the part of it a shard executes:
  \<^verbatim>\<open>model/spec.py\<close> (\<^verbatim>\<open>BlockRange\<close>, \<^verbatim>\<open>ShardSpec\<close>) and \<^verbatim>\<open>model/layout.py\<close>
  (\<^verbatim>\<open>ModelLayout\<close>). Ranges are half-open intervals over Python integers. A constructor that
  validates is a function into the result type. Strings are lists of characters; the
  whitespace test covers the code points a character here can hold.
\<close>


subsection \<open>Python strings\<close>

definition startswith :: "string \<Rightarrow> string \<Rightarrow> bool" where
  "startswith s p = (take (length p) s = p)"

fun occurs_in :: "string \<Rightarrow> string \<Rightarrow> bool" where
  "occurs_in p [] = (p = [])"
| "occurs_in p (c # s) = (startswith (c # s) p \<or> occurs_in p s)"

definition is_space :: "char \<Rightarrow> bool" where
  "is_space c = (let n = (of_char c :: nat) in
     (9 \<le> n \<and> n \<le> 13) \<or> (28 \<le> n \<and> n \<le> 32) \<or> n = 133 \<or> n = 160)"

text \<open>\<^verbatim>\<open>not value.strip()\<close>.\<close>

definition blank :: "string \<Rightarrow> bool" where
  "blank s = list_all is_space s"

text \<open>Decimal digits of a non-negative integer, as \<^verbatim>\<open>str\<close> and \<^verbatim>\<open>format\<close> print it.\<close>

definition digit_char :: "nat \<Rightarrow> char" where
  "digit_char d = char_of (48 + d)"

fun nat_str :: "nat \<Rightarrow> string" where
  "nat_str n = (if n < 10 then [digit_char n] else nat_str (n div 10) @ [digit_char (n mod 10)])"

declare nat_str.simps [simp del]

definition int_str :: "int \<Rightarrow> string" where
  "int_str i = (if i < 0 then ''-'' @ nat_str (nat (- i)) else nat_str (nat i))"

text \<open>\<^verbatim>\<open>template.format(index=v)\<close>: doubled braces are literal, \<^verbatim>\<open>{index}\<close> is the value, any other
  replacement field has no argument and a lone closing brace is malformed.\<close>

function py_format :: "string \<Rightarrow> string \<Rightarrow> string res" where
  "py_format v s =
     (if s = [] then Inr []
      else if startswith s ''{{'' then map_res (\<lambda>r. CHR ''{'' # r) (py_format v (drop 2 s))
      else if startswith s ''{index}'' then map_res (\<lambda>r. v @ r) (py_format v (drop 7 s))
      else if startswith s ''{'' then Inl (KeyError ''replacement field'')
      else if startswith s ''}}'' then map_res (\<lambda>r. CHR ''}'' # r) (py_format v (drop 2 s))
      else if startswith s ''}'' then Inl (ValueError ''single closing brace'')
      else map_res (\<lambda>r. hd s # r) (py_format v (tl s)))"
  by pat_completeness auto
termination
  by (relation "measure (\<lambda>(v, s). length s)") auto

declare py_format.simps [simp del]


lemma py_format_Nil [simp]: "py_format v [] = Inr []"
  by (simp add: py_format.simps)

lemma py_format_literal:
  assumes "CHR ''{'' \<notin> set p" and "CHR ''}'' \<notin> set p"
  shows "py_format v (p @ s) = map_res (\<lambda>r. p @ r) (py_format v s)"
  using assms
proof (induction p)
  case Nil
  then show ?case by (cases "py_format v s") simp_all
next
  case (Cons c p)
  then have "py_format v ((c # p) @ s) = map_res (\<lambda>r. c # r) (py_format v (p @ s))"
    by (subst py_format.simps) (auto simp: startswith_def)
  with Cons show ?case by (cases "py_format v s") simp_all
qed

lemma py_format_field: "py_format v (''{index}'' @ s) = map_res (\<lambda>r. v @ r) (py_format v s)"
  by (subst py_format.simps) (simp add: startswith_def)


subsection \<open>Block ranges and shard specifications\<close>

record block_range =
  br_start :: int
  br_end :: int

definition make_block_range :: "int \<Rightarrow> int \<Rightarrow> block_range res" where
  "make_block_range s e =
     (if s < 0 \<or> e \<le> s then Inl (ValueError ''invalid block range'')
      else Inr \<lparr>br_start = s, br_end = e\<rparr>)"

definition block_len :: "block_range \<Rightarrow> int" where
  "block_len r = br_end r - br_start r"

definition block_contains :: "block_range \<Rightarrow> int \<Rightarrow> bool" where
  "block_contains r i = (br_start r \<le> i \<and> i < br_end r)"

definition range_ok :: "block_range \<Rightarrow> bool" where
  "range_ok r = (0 \<le> br_start r \<and> br_start r < br_end r)"

text \<open>\<^verbatim>\<open>range(blocks.start, blocks.end)\<close>.\<close>

definition block_indices :: "block_range \<Rightarrow> int list" where
  "block_indices r = [br_start r..br_end r - 1]"

record shard_spec =
  spec_model_id :: string
  spec_blocks :: block_range
  include_input_stage :: bool
  include_output_stage :: bool

definition validate_bounds :: "shard_spec \<Rightarrow> int \<Rightarrow> unit res" where
  "validate_bounds s num_blocks =
     raise_if (br_end (spec_blocks s) > num_blocks) (ValueError ''shard block range exceeds'')"


subsection \<open>Model layouts\<close>

record model_layout =
  lay_model_type :: string
  num_blocks :: int
  hidden_size :: int
  intermediate_size :: int
  num_attention_heads :: int
  num_kv_heads :: int
  embedding_prefix :: string
  block_prefix_template :: string
  final_norm_prefix :: string
  lm_head_prefix :: string
  tied_word_embeddings :: bool

definition layout_valid :: "model_layout \<Rightarrow> bool" where
  "layout_valid l =
     (\<not> blank (lay_model_type l) \<and> \<not> blank (embedding_prefix l)
      \<and> \<not> blank (block_prefix_template l) \<and> \<not> blank (final_norm_prefix l)
      \<and> \<not> blank (lm_head_prefix l)
      \<and> occurs_in ''{index}'' (block_prefix_template l)
      \<and> 0 < num_blocks l \<and> 0 < hidden_size l \<and> 0 < intermediate_size l
      \<and> 0 < num_attention_heads l \<and> 0 < num_kv_heads l
      \<and> num_attention_heads l mod num_kv_heads l = 0)"

definition make_layout :: "model_layout \<Rightarrow> model_layout res" where
  "make_layout l = (if layout_valid l then Inr l else Inl (ValueError ''invalid layout''))"

definition block_prefix :: "model_layout \<Rightarrow> int \<Rightarrow> string res" where
  "block_prefix l i =
     (if \<not> (0 \<le> i \<and> i < num_blocks l) then Inl (ValueError ''block index out of range'')
      else py_format (int_str i) (block_prefix_template l))"


subsection \<open>Ranges\<close>

lemma make_block_range_Inr [res_simps]:
  "make_block_range s e = Inr r \<longleftrightarrow> 0 \<le> s \<and> s < e \<and> r = \<lparr>br_start = s, br_end = e\<rparr>"
  by (auto simp: make_block_range_def)

lemma make_block_range_ok: "make_block_range s e = Inr r \<Longrightarrow> range_ok r"
  by (auto simp: make_block_range_Inr range_ok_def)

lemma set_block_indices [simp]: "set (block_indices r) = {i. block_contains r i}"
  by (auto simp: block_indices_def block_contains_def)

lemma length_block_indices: "range_ok r \<Longrightarrow> int (length (block_indices r)) = block_len r"
  by (simp add: block_indices_def block_len_def range_ok_def)

lemma distinct_block_indices [simp]: "distinct (block_indices r)"
  by (simp add: block_indices_def)


subsection \<open>Decimal printing is injective\<close>

lemma of_char_digit: "d < 10 \<Longrightarrow> (of_char (digit_char d) :: nat) = 48 + d"
  by (simp add: digit_char_def)

lemma digit_char_inj: "\<lbrakk>d < 10; e < 10; digit_char d = digit_char e\<rbrakk> \<Longrightarrow> d = e"
  by (metis add_left_cancel of_char_digit)

lemma nat_str_not_Nil [simp]: "nat_str n \<noteq> []"
  by (subst nat_str.simps) simp

lemma nat_str_digits: "c \<in> set (nat_str n) \<Longrightarrow> 48 \<le> (of_char c :: nat) \<and> (of_char c :: nat) < 58"
proof (induction n rule: nat_str.induct)
  case (1 n)
  show ?case
  proof (cases "n < 10")
    case True
    with "1.prems" show ?thesis by (simp add: nat_str.simps [of n] of_char_digit)
  next
    case False
    with "1.prems" have "c \<in> set (nat_str (n div 10)) \<or> c = digit_char (n mod 10)"
      by (simp add: nat_str.simps [of n] disj_commute)
    with "1.IH" [OF False] show ?thesis by (auto simp: of_char_digit)
  qed
qed

fun str_nat :: "string \<Rightarrow> nat \<Rightarrow> nat" where
  "str_nat [] acc = acc"
| "str_nat (c # s) acc = str_nat s (10 * acc + (of_char c - 48))"

lemma str_nat_append: "str_nat (s @ t) acc = str_nat t (str_nat s acc)"
  by (induction s arbitrary: acc) auto

lemma str_nat_nat_str: "str_nat (nat_str n) 0 = n"
proof (induction n rule: nat_str.induct)
  case (1 n)
  show ?case
  proof (cases "n < 10")
    case True
    then show ?thesis by (simp add: nat_str.simps [of n] of_char_digit)
  next
    case False
    have "n mod 10 < 10" by simp
    with "1.IH" [OF False] False show ?thesis
      by (simp add: nat_str.simps [of n] str_nat_append of_char_digit)
  qed
qed

lemma nat_str_inject [simp]: "nat_str m = nat_str n \<longleftrightarrow> m = n"
  by (metis str_nat_nat_str)

text \<open>Evaluation works on binary integers.\<close>

function pos_str :: "int \<Rightarrow> string" where
  "pos_str i = (if i < 10 then [digit_char (nat i)] else pos_str (i div 10) @ [digit_char (nat (i mod 10))])"
  by pat_completeness auto
termination
  by (relation "measure nat") auto

declare pos_str.simps [simp del]

lemma pos_str_nat_str: "0 \<le> i \<Longrightarrow> pos_str i = nat_str (nat i)"
proof (induction i rule: pos_str.induct)
  case (1 i)
  show ?case
  proof (cases "i < 10")
    case True
    with 1 show ?thesis by (simp add: pos_str.simps [of i] nat_str.simps [of "nat i"])
  next
    case False
    with 1 have "pos_str (i div 10) = nat_str (nat i div 10)" by (simp add: nat_div_distrib)
    with False show ?thesis by (simp add: pos_str.simps [of i] nat_str.simps [of "nat i"] nat_mod_distrib)
  qed
qed

lemma int_str_code [code]: "int_str i = (if i < 0 then ''-'' @ pos_str (- i) else pos_str i)"
  by (simp add: int_str_def pos_str_nat_str)

lemma int_str_inject: "\<lbrakk>0 \<le> i; 0 \<le> j; int_str i = int_str j\<rbrakk> \<Longrightarrow> i = j"
  by (auto simp: int_str_def split: if_splits)

lemma int_str_no_dot: "0 \<le> i \<Longrightarrow> CHR ''.'' \<notin> set (int_str i)"
proof
  assume "0 \<le> i" and "CHR ''.'' \<in> set (int_str i)"
  then have "48 \<le> (of_char CHR ''.'' :: nat)"
    using nat_str_digits [of "CHR ''.''" "nat i"] by (simp add: int_str_def)
  then show False by simp
qed


subsection \<open>Prefixes\<close>

lemma startswith_append [simp]: "startswith (p @ s) p"
  by (simp add: startswith_def)

lemma startswith_iff: "startswith s p \<longleftrightarrow> (\<exists>t. s = p @ t)"
  by (metis append_eq_conv_conj append_take_drop_id startswith_def)

text \<open>Two dotted prefixes of one string, whose last segments have no dot, agree: a tensor name
  lies under at most one block.\<close>

lemma dotted_segment_unique:
  assumes "d @ CHR ''.'' # s = e @ CHR ''.'' # t"
    and "CHR ''.'' \<notin> set d" and "CHR ''.'' \<notin> set e"
  shows "d = e \<and> s = t"
  using assms
proof (induction d arbitrary: e)
  case Nil
  then show ?case by (cases e) auto
next
  case (Cons c d)
  then show ?case by (cases e) auto
qed

end
