(* ===== verification/Weights.thy ===== *)
theory Weights
  imports Model_Spec "HOL-Library.AList"
begin

section \<open>Selecting and loading one shard's checkpoint tensors\<close>

text \<open>
  \<^verbatim>\<open>model/weights/safetensors.py\<close>: the checkpoint index, the selection of exactly the tensors a
  shard needs, the renaming of global blocks to the skeleton's local layers, and the load loop.
  A Python dictionary is an association list in insertion order, updated with
  \<^const>\<open>AList.update\<close>. The files of the snapshot directory, the tensor a file stores under a
  name and the strict key check of \<^verbatim>\<open>torch.nn.Module.load_state_dict\<close> are not code of the
  repository: the directory is a record the caller supplies, the stored tensors are the
  function \<open>get_tensor\<close>, and the module's own parameter names are the list \<open>expected\<close>.
\<close>


subsection \<open>The checkpoint index\<close>

type_synonym index = "(string \<times> string) list"

text \<open>A snapshot directory: the parsed \<^verbatim>\<open>weight_map\<close> of the index file (if the file exists; \<open>None\<close>
  inside when the entry is missing or not an object) and the sorted \<^verbatim>\<open>*.safetensors\<close> files with
  the tensor names of their headers.\<close>

record snapshot_dir =
  snap_weight_map :: "index option option"
  snap_files :: "(string \<times> string list) list"

definition make_index :: "index \<Rightarrow> index res" where
  "make_index m = (if m = [] then Inl (WeightError ''checkpoint index is empty'') else Inr m)"

definition index_from_source :: "snapshot_dir \<Rightarrow> index res" where
  "index_from_source d =
     (case snap_weight_map d of
        Some None \<Rightarrow> Inl (WeightError ''malformed weight map'')
      | Some (Some []) \<Rightarrow> Inl (WeightError ''malformed weight map'')
      | Some (Some m) \<Rightarrow> make_index m
      | None \<Rightarrow>
          (case snap_files d of
             [] \<Rightarrow> Inl (WeightError ''no safetensors checkpoint found'')
           | [(file, names)] \<Rightarrow> make_index (map (\<lambda>n. (n, file)) names)
           | _ \<Rightarrow> Inl (WeightError ''multiple safetensors files without index'')))"

definition tensor_names :: "index \<Rightarrow> string list" where
  "tensor_names idx = map fst idx"

definition file_for :: "index \<Rightarrow> string \<Rightarrow> string res" where
  "file_for idx n = (case map_of idx n of None \<Rightarrow> Inl (WeightError ''tensor not found'') | Some f \<Rightarrow> Inr f)"


subsection \<open>Selection\<close>

fun take_names :: "index \<Rightarrow> (string \<times> string) list \<Rightarrow> string list \<Rightarrow> (string \<times> string) list res" where
  "take_names idx sel [] = Inr sel"
| "take_names idx sel (n # ns) =
     bind_res (file_for idx n) (\<lambda>f. take_names idx (AList.update n f sel) ns)"

definition take_prefix :: "index \<Rightarrow> (string \<times> string) list \<Rightarrow> string \<Rightarrow> (string \<times> string) list res" where
  "take_prefix idx sel p =
     (let matches = filter (\<lambda>n. startswith n (p @ ''.'')) (tensor_names idx)
      in if matches = [] then Inl (MissingWeightsError ''no tensors under prefix'')
         else take_names idx sel matches)"

fun take_prefixes ::
    "index \<Rightarrow> (string \<times> string) list \<Rightarrow> string res list \<Rightarrow> (string \<times> string) list res" where
  "take_prefixes idx sel [] = Inr sel"
| "take_prefixes idx sel (p # ps) =
     bind_res p (\<lambda>q. bind_res (take_prefix idx sel q) (\<lambda>sel'. take_prefixes idx sel' ps))"

definition shard_prefixes :: "model_layout \<Rightarrow> shard_spec \<Rightarrow> string res list" where
  "shard_prefixes lay sh =
     map (block_prefix lay) (block_indices (spec_blocks sh))
     @ (if include_input_stage sh then [Inr (embedding_prefix lay)] else [])
     @ (if include_output_stage sh
        then [Inr (final_norm_prefix lay),
              Inr (if tied_word_embeddings lay then embedding_prefix lay else lm_head_prefix lay)]
        else [])"

definition select_shard_tensors ::
    "model_layout \<Rightarrow> shard_spec \<Rightarrow> index \<Rightarrow> (string \<times> string) list res" where
  "select_shard_tensors lay sh idx =
     then_res (validate_bounds sh (num_blocks lay)) (take_prefixes idx [] (shard_prefixes lay sh))"


subsection \<open>Skeleton keys and the load loop\<close>

fun block_key :: "model_layout \<Rightarrow> shard_spec \<Rightarrow> string \<Rightarrow> int list \<Rightarrow> string option res" where
  "block_key lay sh n [] = Inr None"
| "block_key lay sh n (g # gs) =
     bind_res (block_prefix lay g) (\<lambda>p.
       if startswith n (p @ ''.'')
       then map_res (\<lambda>q. Some (q @ ''.'' @ drop (length p + 1) n))
              (block_prefix lay (g - br_start (spec_blocks sh)))
       else block_key lay sh n gs)"

definition skeleton_keys :: "model_layout \<Rightarrow> shard_spec \<Rightarrow> string \<Rightarrow> string list res" where
  "skeleton_keys lay sh n =
     bind_res (block_key lay sh n (block_indices (spec_blocks sh))) (\<lambda>k.
       case k of
         Some key \<Rightarrow> Inr [key]
       | None \<Rightarrow>
           if startswith n (embedding_prefix lay @ ''.'')
           then let suffix = drop (length (embedding_prefix lay)) n
                in Inr ((if include_input_stage sh then [embedding_prefix lay @ suffix] else [])
                        @ (if include_output_stage sh \<and> tied_word_embeddings lay
                           then [lm_head_prefix lay @ suffix] else []))
           else if include_output_stage sh
                   \<and> (startswith n (final_norm_prefix lay @ ''.'')
                      \<or> startswith n (lm_head_prefix lay @ ''.''))
           then Inr [n]
           else Inl (WeightError ''tensor is not part of shard''))"

text \<open>\<^verbatim>\<open>by_file.setdefault(filename, []).append(name)\<close>.\<close>

fun group_by_file ::
    "(string \<times> string list) list \<Rightarrow> (string \<times> string) list \<Rightarrow> (string \<times> string list) list" where
  "group_by_file acc [] = acc"
| "group_by_file acc ((n, f) # rest) =
     group_by_file
       (AList.update f ((case map_of acc f of None \<Rightarrow> [] | Some ns \<Rightarrow> ns) @ [n]) acc) rest"

text \<open>One tensor into the state dictionary, under each of its keys.\<close>

definition put_tensor ::
    "model_layout \<Rightarrow> shard_spec \<Rightarrow> (string \<Rightarrow> string \<Rightarrow> 't) \<Rightarrow> string \<Rightarrow> string
     \<Rightarrow> (string \<times> 't) list \<Rightarrow> (string \<times> 't) list res" where
  "put_tensor lay sh get_tensor f n st =
     map_res (\<lambda>ks. foldl (\<lambda>acc k. AList.update k (get_tensor f n) acc) st ks)
       (skeleton_keys lay sh n)"

fun put_tensors ::
    "model_layout \<Rightarrow> shard_spec \<Rightarrow> (string \<Rightarrow> string \<Rightarrow> 't) \<Rightarrow> (string \<times> string) list
     \<Rightarrow> (string \<times> 't) list \<Rightarrow> (string \<times> 't) list res" where
  "put_tensors lay sh get_tensor [] st = Inr st"
| "put_tensors lay sh get_tensor ((f, n) # rest) st =
     bind_res (put_tensor lay sh get_tensor f n st) (put_tensors lay sh get_tensor rest)"

text \<open>The load order: files in order of first selection would do; the code sorts the file names.
  \<open>sort_files\<close> is that sort of the grouped files by name.\<close>

fun str_less :: "string \<Rightarrow> string \<Rightarrow> bool" where
  "str_less [] [] = False"
| "str_less [] (_ # _) = True"
| "str_less (_ # _) [] = False"
| "str_less (a # s) (b # t) =
     ((of_char a :: nat) < of_char b \<or> (a = b \<and> str_less s t))"

fun insert_file ::
    "string \<times> string list \<Rightarrow> (string \<times> string list) list \<Rightarrow> (string \<times> string list) list" where
  "insert_file x [] = [x]"
| "insert_file x (y # ys) = (if str_less (fst x) (fst y) then x # y # ys else y # insert_file x ys)"

definition sort_files :: "(string \<times> string list) list \<Rightarrow> (string \<times> string list) list" where
  "sort_files fs = foldr insert_file fs []"

definition load_state ::
    "model_layout \<Rightarrow> shard_spec \<Rightarrow> (string \<Rightarrow> string \<Rightarrow> 't) \<Rightarrow> (string \<times> string) list
     \<Rightarrow> (string \<times> 't) list res" where
  "load_state lay sh get_tensor sel =
     put_tensors lay sh get_tensor
       (concat (map (\<lambda>(f, ns). map (\<lambda>n. (f, n)) ns) (sort_files (group_by_file [] sel)))) []"

definition load_shard ::
    "string list \<Rightarrow> snapshot_dir \<Rightarrow> model_layout \<Rightarrow> shard_spec \<Rightarrow> (string \<Rightarrow> string \<Rightarrow> 't)
     \<Rightarrow> (string \<times> 't) list res" where
  "load_shard expected d lay sh get_tensor =
     then_res (validate_bounds sh (num_blocks lay))
       (bind_res (index_from_source d) (\<lambda>idx.
          bind_res (select_shard_tensors lay sh idx) (\<lambda>sel.
            bind_res (load_state lay sh get_tensor sel) (\<lambda>st.
              if set (map fst st) = set expected then Inr st
              else Inl (RuntimeError ''load_state_dict strict'')))))"


subsection \<open>What the selection returns\<close>

text \<open>\<open>needed lay sh n\<close>: some prefix of the shard covers the tensor name.\<close>

definition needed :: "model_layout \<Rightarrow> shard_spec \<Rightarrow> string \<Rightarrow> bool" where
  "needed lay sh n = list_ex (\<lambda>p. case p of Inl _ \<Rightarrow> False | Inr q \<Rightarrow> startswith n (q @ ''.''))
     (shard_prefixes lay sh)"

lemma needed_iff:
  "needed lay sh n \<longleftrightarrow> (\<exists>q. Inr q \<in> set (shard_prefixes lay sh) \<and> startswith n (q @ ''.''))"
proof -
  have "(case p of Inl _ \<Rightarrow> False | Inr q \<Rightarrow> startswith n (q @ ''.'')) \<longleftrightarrow>
      (\<exists>q. p = Inr q \<and> startswith n (q @ ''.''))" for p :: "string res"
    by (cases p) simp_all
  then show ?thesis by (auto simp: needed_def list_ex_iff)
qed

lemma map_of_update [simp]: "map_of (AList.update k v al) = (map_of al)(k \<mapsto> v)"
  by (rule update_conv')

lemma take_names_Inr:
  assumes "set ns \<subseteq> set (tensor_names idx)"
  shows "\<exists>sel'. take_names idx sel ns = Inr sel'
    \<and> map_of sel' = (\<lambda>n. if n \<in> set ns then map_of idx n else map_of sel n)
    \<and> (distinct (map fst sel) \<longrightarrow> distinct (map fst sel'))"
  using assms
proof (induction ns arbitrary: sel)
  case Nil
  then show ?case by simp
next
  case (Cons n ns)
  then obtain f where f: "map_of idx n = Some f"
    by (auto simp: tensor_names_def map_of_eq_None_iff dest!: weak_map_of_SomeI)
  from Cons obtain sel' where "take_names idx (AList.update n f sel) ns = Inr sel'"
    "map_of sel' = (\<lambda>m. if m \<in> set ns then map_of idx m else map_of (AList.update n f sel) m)"
    "distinct (map fst (AList.update n f sel)) \<longrightarrow> distinct (map fst sel')"
    by (meson list.set_intros(2) subset_iff)
  then show ?case using f by (auto simp: file_for_def fun_eq_iff distinct_update)
qed

lemma take_prefix_Inr:
  "take_prefix idx sel p = Inr sel' \<Longrightarrow>
   (\<exists>n\<in>set (tensor_names idx). startswith n (p @ ''.''))
   \<and> map_of sel' = (\<lambda>n. if n \<in> set (tensor_names idx) \<and> startswith n (p @ ''.'')
                        then map_of idx n else map_of sel n)
   \<and> (distinct (map fst sel) \<longrightarrow> distinct (map fst sel'))"
  using take_names_Inr [of "filter (\<lambda>n. startswith n (p @ ''.'')) (tensor_names idx)" idx sel]
  by (auto simp: take_prefix_def Let_def filter_empty_conv split: if_splits)

lemma take_prefixes_Inr:
  assumes "take_prefixes idx sel ps = Inr sel'"
  shows "map_of sel' = (\<lambda>n. if n \<in> set (tensor_names idx)
             \<and> (\<exists>q. Inr q \<in> set ps \<and> startswith n (q @ ''.''))
           then map_of idx n else map_of sel n)
    \<and> (distinct (map fst sel) \<longrightarrow> distinct (map fst sel'))"
  using assms
proof (induction ps arbitrary: sel)
  case Nil
  then show ?case by simp
next
  case (Cons p ps)
  then obtain q sel1 where q: "p = Inr q" and t: "take_prefix idx sel q = Inr sel1"
    and rest: "take_prefixes idx sel1 ps = Inr sel'"
    by (auto simp: bind_res_Inr)
  from Cons.IH [OF rest] take_prefix_Inr [OF t] show ?case
    by (auto simp: q fun_eq_iff)
qed

lemma take_prefix_ok_iff:
  "(\<exists>sel'. take_prefix idx sel p = Inr sel') \<longleftrightarrow>
     (\<exists>n\<in>set (tensor_names idx). startswith n (p @ ''.''))"
proof -
  have "\<exists>sel'. take_names idx sel (filter (\<lambda>n. startswith n (p @ ''.'')) (tensor_names idx)) = Inr sel'"
    using take_names_Inr [of "filter (\<lambda>n. startswith n (p @ ''.'')) (tensor_names idx)" idx sel]
    by auto
  then show ?thesis by (auto simp: take_prefix_def Let_def filter_empty_conv)
qed

lemma take_prefixes_ok_iff:
  "is_ok (take_prefixes idx sel ps) \<longleftrightarrow>
     (\<forall>p\<in>set ps. \<exists>q. p = Inr q \<and> (\<exists>n\<in>set (tensor_names idx). startswith n (q @ ''.'')))"
proof (induction ps arbitrary: sel)
  case Nil
  then show ?case by simp
next
  case (Cons p ps)
  show ?case
  proof (cases p)
    case (Inl e)
    then show ?thesis by simp
  next
    case (Inr q)
    have "is_ok (take_prefixes idx sel (p # ps)) \<longleftrightarrow>
        (\<exists>sel'. take_prefix idx sel q = Inr sel' \<and> is_ok (take_prefixes idx sel' ps))"
      by (cases "take_prefix idx sel q") (simp_all add: Inr)
    with take_prefix_ok_iff [of idx sel q] Cons.IH show ?thesis by (auto simp: Inr)
  qed
qed

lemma map_of_select:
  assumes "select_shard_tensors lay sh idx = Inr sel"
  shows "map_of sel n = (if needed lay sh n then map_of idx n else None)"
    and "distinct (map fst sel)"
proof -
  from assms have t: "take_prefixes idx [] (shard_prefixes lay sh) = Inr sel"
    by (simp add: select_shard_tensors_def)
  have none: "n \<notin> set (tensor_names idx) \<Longrightarrow> map_of idx n = None"
    by (simp add: tensor_names_def map_of_eq_None_iff)
  from take_prefixes_Inr [OF t] none
  show "map_of sel n = (if needed lay sh n then map_of idx n else None)"
    by (auto simp: needed_iff fun_eq_iff)
  from take_prefixes_Inr [OF t] show "distinct (map fst sel)" by simp
qed


subsection \<open>The standard decoder layout\<close>

text \<open>The weight-name prefixes of \<^verbatim>\<open>StandardDecoderLMAdapter\<close>.\<close>

definition std_embedding :: string where "std_embedding = ''model.embed_tokens''"
definition std_template :: string where "std_template = ''model.layers.{index}''"
definition std_norm :: string where "std_norm = ''model.norm''"
definition std_head :: string where "std_head = ''lm_head''"
definition std_block :: "int \<Rightarrow> string" where "std_block i = ''model.layers.'' @ int_str i"

definition standard_layout :: "model_layout \<Rightarrow> bool" where
  "standard_layout l \<longleftrightarrow> embedding_prefix l = std_embedding
     \<and> block_prefix_template l = std_template
     \<and> final_norm_prefix l = std_norm \<and> lm_head_prefix l = std_head"

definition shard_in_bounds :: "model_layout \<Rightarrow> shard_spec \<Rightarrow> bool" where
  "shard_in_bounds lay sh \<longleftrightarrow>
     range_ok (spec_blocks sh) \<and> br_end (spec_blocks sh) \<le> num_blocks lay"

lemma standard_block_prefix:
  assumes "standard_layout lay" and "0 \<le> i" and "i < num_blocks lay"
  shows "block_prefix lay i = Inr (std_block i)"
proof -
  have "std_template = ''model.layers.'' @ ''{index}'' @ []"
    by (simp add: std_template_def)
  moreover have "py_format v (''model.layers.'' @ ''{index}'' @ []) = Inr (''model.layers.'' @ v)"
    for v
    by (subst py_format_literal, simp, simp, subst py_format_field, simp)
  ultimately have "py_format v std_template = Inr (''model.layers.'' @ v)" for v
    by simp
  with assms show ?thesis
    by (simp add: standard_layout_def block_prefix_def std_block_def)
qed

lemma under_std_block:
  "startswith n (std_block i @ ''.'') \<longleftrightarrow> (\<exists>s. n = std_block i @ CHR ''.'' # s)"
  by (simp add: startswith_iff)

lemma std_block_dot_inj:
  assumes "0 \<le> i" and "0 \<le> j" and "std_block i @ CHR ''.'' # s = std_block j @ CHR ''.'' # t"
  shows "i = j \<and> s = t"
proof -
  from assms(3) have "int_str i @ CHR ''.'' # s = int_str j @ CHR ''.'' # t"
    by (simp add: std_block_def)
  then have "int_str i = int_str j \<and> s = t"
    by (rule dotted_segment_unique) (simp_all add: int_str_no_dot assms(1,2))
  with assms(1,2) show ?thesis by (auto intro: int_str_inject)
qed

lemma block_names_disjoint:
  assumes "0 \<le> i" and "0 \<le> j"
    and "startswith n (std_block i @ ''.'')" and "startswith n (std_block j @ ''.'')"
  shows "i = j"
proof -
  from assms(3,4) obtain s t where "std_block i @ CHR ''.'' # s = std_block j @ CHR ''.'' # t"
    unfolding under_std_block by metis
  from std_block_dot_inj [OF assms(1,2) this] show ?thesis by simp
qed

text \<open>The stage names are not block names and not names of one another.\<close>

lemma stage_name_not_block:
  "startswith n (std_embedding @ ''.'') \<Longrightarrow> \<not> startswith n (std_block i @ ''.'')"
  "startswith n (std_norm @ ''.'') \<Longrightarrow> \<not> startswith n (std_block i @ ''.'')"
  "startswith n (std_head @ ''.'') \<Longrightarrow> \<not> startswith n (std_block i @ ''.'')"
  by (auto simp: startswith_iff std_embedding_def std_norm_def std_head_def std_block_def)

lemma stage_names_disjoint:
  "startswith n (std_norm @ ''.'') \<Longrightarrow> \<not> startswith n (std_embedding @ ''.'')"
  "startswith n (std_head @ ''.'') \<Longrightarrow> \<not> startswith n (std_embedding @ ''.'')"
  "startswith n (std_head @ ''.'') \<Longrightarrow> \<not> startswith n (std_norm @ ''.'')"
  by (auto simp: startswith_iff std_embedding_def std_norm_def std_head_def)

lemma standard_prefix_of_block:
  assumes "standard_layout lay" and "shard_in_bounds lay sh" and "block_contains (spec_blocks sh) i"
  shows "block_prefix lay i = Inr (std_block i)" and "0 \<le> i"
  using assms
  by (auto simp: shard_in_bounds_def range_ok_def block_contains_def intro!: standard_block_prefix)

lemma standard_prefixes:
  assumes "standard_layout lay" and "shard_in_bounds lay sh"
  shows "Inr q \<in> set (shard_prefixes lay sh) \<longleftrightarrow>
     (\<exists>i. block_contains (spec_blocks sh) i \<and> q = std_block i)
     \<or> (include_input_stage sh \<and> q = std_embedding)
     \<or> (include_output_stage sh \<and> q = std_norm)
     \<or> (include_output_stage sh
        \<and> q = (if tied_word_embeddings lay then std_embedding else std_head))"
proof -
  have blocks: "Inr q \<in> block_prefix lay ` {i. block_contains (spec_blocks sh) i} \<longleftrightarrow>
    (\<exists>i. block_contains (spec_blocks sh) i \<and> q = std_block i)"
    using standard_prefix_of_block(1) [OF assms] by (auto simp: image_iff)
  show ?thesis
    using assms(1) by (auto simp: shard_prefixes_def blocks standard_layout_def)
qed

lemma standard_needed:
  assumes "standard_layout lay" and "shard_in_bounds lay sh"
  shows "needed lay sh n \<longleftrightarrow>
     (\<exists>i. block_contains (spec_blocks sh) i \<and> startswith n (std_block i @ ''.''))
     \<or> (include_input_stage sh \<and> startswith n (std_embedding @ ''.''))
     \<or> (include_output_stage sh \<and> startswith n (std_norm @ ''.''))
     \<or> (include_output_stage sh \<and> startswith n
          ((if tied_word_embeddings lay then std_embedding else std_head) @ ''.''))"
  unfolding needed_iff standard_prefixes [OF assms] by blast

lemma needed_block_iff:
  assumes std: "standard_layout lay" and sh: "shard_in_bounds lay sh" and "0 \<le> i"
    and n: "startswith n (std_block i @ ''.'')"
  shows "needed lay sh n \<longleftrightarrow> block_contains (spec_blocks sh) i"
proof
  assume "needed lay sh n"
  then obtain j where "block_contains (spec_blocks sh) j" "startswith n (std_block j @ ''.'')"
    using n stage_name_not_block by (auto simp: standard_needed [OF std sh] split: if_splits)
  with standard_prefix_of_block(2) [OF std sh] block_names_disjoint [OF \<open>0 \<le> i\<close> _ n]
  show "block_contains (spec_blocks sh) i" by metis
next
  assume "block_contains (spec_blocks sh) i"
  with n show "needed lay sh n" by (auto simp: standard_needed [OF std sh])
qed


subsection \<open>The skeleton keys of a needed tensor\<close>

lemma std_names_neq [simp]:
  "std_block i @ CHR ''.'' # s \<noteq> std_embedding @ CHR ''.'' # t"
  "std_block i @ CHR ''.'' # s \<noteq> std_norm @ CHR ''.'' # t"
  "std_block i @ CHR ''.'' # s \<noteq> std_head @ CHR ''.'' # t"
  "std_embedding @ CHR ''.'' # t \<noteq> std_block i @ CHR ''.'' # s"
  "std_norm @ CHR ''.'' # t \<noteq> std_block i @ CHR ''.'' # s"
  "std_head @ CHR ''.'' # t \<noteq> std_block i @ CHR ''.'' # s"
  "std_embedding @ CHR ''.'' # s \<noteq> std_norm @ CHR ''.'' # t"
  "std_embedding @ CHR ''.'' # s \<noteq> std_head @ CHR ''.'' # t"
  "std_norm @ CHR ''.'' # s \<noteq> std_embedding @ CHR ''.'' # t"
  "std_norm @ CHR ''.'' # s \<noteq> std_head @ CHR ''.'' # t"
  "std_head @ CHR ''.'' # s \<noteq> std_embedding @ CHR ''.'' # t"
  "std_head @ CHR ''.'' # s \<noteq> std_norm @ CHR ''.'' # t"
  by (simp_all add: std_block_def std_embedding_def std_norm_def std_head_def)

lemma block_key_none:
  assumes "standard_layout lay" and "shard_in_bounds lay sh"
    and "\<And>g. g \<in> set gs \<Longrightarrow> block_contains (spec_blocks sh) g \<and> \<not> startswith n (std_block g @ ''.'')"
  shows "block_key lay sh n gs = Inr None"
  using assms(3)
proof (induction gs)
  case Nil
  then show ?case by simp
next
  case (Cons g gs)
  then show ?case using standard_prefix_of_block(1) [OF assms(1,2)] by simp
qed

lemma block_key_found:
  assumes std: "standard_layout lay" and sh: "shard_in_bounds lay sh"
    and "\<And>g. g \<in> set gs \<Longrightarrow> block_contains (spec_blocks sh) g" and "i \<in> set gs"
    and n: "n = std_block i @ CHR ''.'' # s"
  shows "block_key lay sh n gs = Inr (Some (std_block (i - br_start (spec_blocks sh)) @ CHR ''.'' # s))"
  using assms(3,4)
proof (induction gs)
  case Nil
  then show ?case by simp
next
  case (Cons g gs)
  from Cons.prems have g: "block_contains (spec_blocks sh) g" and i: "block_contains (spec_blocks sh) i"
    by auto
  note pre = standard_prefix_of_block [OF std sh]
  have under: "startswith n (std_block g @ ''.'') \<longleftrightarrow> g = i"
    using std_block_dot_inj [OF pre(2) [OF i] pre(2) [OF g]] n by (auto simp: under_std_block)
  have "block_prefix lay (i - br_start (spec_blocks sh)) = Inr (std_block (i - br_start (spec_blocks sh)))"
    using i sh by (intro standard_block_prefix [OF std])
      (auto simp: block_contains_def shard_in_bounds_def range_ok_def)
  with Cons under pre(1) [OF g] show ?case by (auto simp: n)
qed

lemma skeleton_keys_cases:
  assumes std: "standard_layout lay" and sh: "shard_in_bounds lay sh" and "needed lay sh n"
  shows "(\<exists>i s. block_contains (spec_blocks sh) i \<and> n = std_block i @ CHR ''.'' # s
            \<and> skeleton_keys lay sh n = Inr [std_block (i - br_start (spec_blocks sh)) @ CHR ''.'' # s])
    \<or> (\<exists>s. n = std_embedding @ CHR ''.'' # s
            \<and> (include_input_stage sh \<or> include_output_stage sh \<and> tied_word_embeddings lay)
            \<and> skeleton_keys lay sh n = Inr ((if include_input_stage sh then [n] else [])
                @ (if include_output_stage sh \<and> tied_word_embeddings lay
                   then [std_head @ CHR ''.'' # s] else [])))
    \<or> (\<exists>s. n = std_norm @ CHR ''.'' # s \<and> include_output_stage sh \<and> skeleton_keys lay sh n = Inr [n])
    \<or> (\<exists>s. n = std_head @ CHR ''.'' # s \<and> include_output_stage sh
            \<and> \<not> tied_word_embeddings lay \<and> skeleton_keys lay sh n = Inr [n])"
proof -
  note names = startswith_iff std_names_neq
  have none: "block_key lay sh n (block_indices (spec_blocks sh)) = Inr None"
    if "\<And>i. \<not> startswith n (std_block i @ ''.'')"
    using that by (intro block_key_none [OF std sh]) auto
  from assms(3) consider
      (block) i s where "block_contains (spec_blocks sh) i" "n = std_block i @ CHR ''.'' # s"
    | (emb) s where "n = std_embedding @ CHR ''.'' # s"
        "include_input_stage sh \<or> include_output_stage sh \<and> tied_word_embeddings lay"
    | (norm) s where "n = std_norm @ CHR ''.'' # s" "include_output_stage sh"
    | (head) s where "n = std_head @ CHR ''.'' # s" "include_output_stage sh" "\<not> tied_word_embeddings lay"
    unfolding standard_needed [OF std sh] by (auto simp: startswith_iff split: if_splits)
  then show ?thesis
  proof cases
    case block
    then have "skeleton_keys lay sh n = Inr [std_block (i - br_start (spec_blocks sh)) @ CHR ''.'' # s]"
      using block_key_found [OF std sh, of "block_indices (spec_blocks sh)" i n s]
      by (simp add: skeleton_keys_def)
    with block show ?thesis by blast
  next
    case emb
    with none std show ?thesis
      by (intro disjI2 disjI1 exI [of _ s])
        (auto simp: skeleton_keys_def standard_layout_def names Let_def)
  next
    case norm
    with none std show ?thesis
      by (intro disjI2 disjI1 exI [of _ s]) (auto simp: skeleton_keys_def standard_layout_def names Let_def)
  next
    case head
    with none std show ?thesis
      by (intro disjI2 exI [of _ s]) (auto simp: skeleton_keys_def standard_layout_def names Let_def)
  qed
qed

lemma skeleton_keys_needed:
  assumes "standard_layout lay" and "shard_in_bounds lay sh" and "needed lay sh n"
  obtains ks where "skeleton_keys lay sh n = Inr ks" and "ks \<noteq> []"
  using skeleton_keys_cases [OF assms] by (auto split: if_splits)

lemma skeleton_keys_disjoint:
  assumes std: "standard_layout lay" and sh: "shard_in_bounds lay sh"
    and n: "needed lay sh n" "skeleton_keys lay sh n = Inr ks" "k \<in> set ks"
    and m: "needed lay sh m" "skeleton_keys lay sh m = Inr ls" "k \<in> set ls"
  shows "n = m"
proof -
  have local_inj: "i = j \<and> s = t"
    if "block_contains (spec_blocks sh) i" "block_contains (spec_blocks sh) j"
      "std_block (i - br_start (spec_blocks sh)) @ CHR ''.'' # s
       = std_block (j - br_start (spec_blocks sh)) @ CHR ''.'' # t" for i j s t
    using std_block_dot_inj [OF _ _ that(3)] that(1,2) by (auto simp: block_contains_def)
  from skeleton_keys_cases [OF std sh n(1)] skeleton_keys_cases [OF std sh m(1)] n(2,3) m(2,3)
  show ?thesis
    by (elim disjE exE conjE) (auto split: if_splits dest: local_inj)
qed


subsection \<open>The loaded state dictionary\<close>

abbreviation flat_files :: "(string \<times> string list) list \<Rightarrow> (string \<times> string) list" where
  "flat_files fs \<equiv> concat (map (\<lambda>(f, ns). map (\<lambda>n. (f, n)) ns) fs)"

lemma set_insert_file [simp]: "set (insert_file x fs) = insert x (set fs)"
  by (induction fs) auto

lemma set_sort_files [simp]: "set (sort_files fs) = set fs"
  by (induction fs) (auto simp: sort_files_def)

lemma set_flat_files_update:
  assumes "distinct (map fst acc)"
  shows "set (flat_files (AList.update f
             ((case map_of acc f of None \<Rightarrow> [] | Some ns \<Rightarrow> ns) @ [n]) acc))
    = insert (f, n) (set (flat_files acc))"
  using assms
proof (induction acc)
  case Nil
  then show ?case by simp
next
  case (Cons a acc)
  then show ?case by (cases a) (auto simp: map_of_eq_None_iff split: option.splits)
qed

lemma set_group_by_file:
  assumes "distinct (map fst acc)"
  shows "set (flat_files (group_by_file acc sel))
    = set (flat_files acc) \<union> (\<lambda>(n, f). (f, n)) ` set sel"
  using assms
proof (induction acc sel rule: group_by_file.induct)
  case (1 acc)
  then show ?case by simp
next
  case (2 acc n f rest)
  then show ?case
    by (simp only: group_by_file.simps set_flat_files_update distinct_update) auto
qed

lemma map_of_fold_update:
  "map_of (foldl (\<lambda>acc k. AList.update k v acc) st ks)
   = (\<lambda>k. if k \<in> set ks then Some v else map_of st k)"
  by (induction ks arbitrary: st) (auto simp: fun_eq_iff)

text \<open>The order of the load loop does not matter as long as two listed tensors never share a key.\<close>

lemma put_tensors_Inr:
  assumes "\<And>f n. (f, n) \<in> set fns \<Longrightarrow> skeleton_keys lay sh n = Inr (keys n)"
    and "\<And>f n g m k. \<lbrakk>(f, n) \<in> set fns; (g, m) \<in> set fns; k \<in> set (keys n); k \<in> set (keys m)\<rbrakk>
           \<Longrightarrow> f = g \<and> n = m"
  shows "\<exists>st'. put_tensors lay sh get_tensor fns st = Inr st'
    \<and> (\<forall>f n k. (f, n) \<in> set fns \<longrightarrow> k \<in> set (keys n) \<longrightarrow> map_of st' k = Some (get_tensor f n))
    \<and> (\<forall>k. (\<forall>f n. (f, n) \<in> set fns \<longrightarrow> k \<notin> set (keys n)) \<longrightarrow> map_of st' k = map_of st k)"
  using assms
proof (induction fns arbitrary: st)
  case Nil
  then show ?case by simp
next
  case (Cons p fns)
  obtain f n where p: "p = (f, n)" by (cases p)
  define st1 where "st1 = foldl (\<lambda>acc k. AList.update k (get_tensor f n) acc) st (keys n)"
  from Cons.prems(1) [of f n] have "put_tensor lay sh get_tensor f n st = Inr st1"
    by (simp add: p put_tensor_def st1_def)
  moreover from Cons.prems have "\<And>f n. (f, n) \<in> set fns \<Longrightarrow> skeleton_keys lay sh n = Inr (keys n)"
    and "\<And>f n g m k. \<lbrakk>(f, n) \<in> set fns; (g, m) \<in> set fns; k \<in> set (keys n); k \<in> set (keys m)\<rbrakk>
           \<Longrightarrow> f = g \<and> n = m"
    by (meson list.set_intros(2))+
  then obtain st' where st': "put_tensors lay sh get_tensor fns st1 = Inr st'"
    "\<And>f n k. \<lbrakk>(f, n) \<in> set fns; k \<in> set (keys n)\<rbrakk> \<Longrightarrow> map_of st' k = Some (get_tensor f n)"
    "\<And>k. (\<And>f n. (f, n) \<in> set fns \<Longrightarrow> k \<notin> set (keys n)) \<Longrightarrow> map_of st' k = map_of st1 k"
    using Cons.IH [of st1] by blast
  moreover have st1: "map_of st1 k = (if k \<in> set (keys n) then Some (get_tensor f n) else map_of st k)" for k
    by (simp add: st1_def map_of_fold_update)
  moreover have "map_of st' k = Some (get_tensor f n)" if "k \<in> set (keys n)" for k
  proof (cases "\<exists>g m. (g, m) \<in> set fns \<and> k \<in> set (keys m)")
    case True
    then obtain g m where gm: "(g, m) \<in> set fns" "k \<in> set (keys m)" by blast
    with Cons.prems(2) [of f n g m k] that have "f = g \<and> n = m" by (simp add: p)
    with st'(2) [OF gm] show ?thesis by simp
  next
    case False
    with st'(3) [of k] st1 [of k] that show ?thesis by auto
  qed
  ultimately show ?case by (intro exI [of _ st']) (auto simp: p)
qed

lemma load_state_Inr:
  assumes std: "standard_layout lay" and sh: "shard_in_bounds lay sh"
    and sel: "select_shard_tensors lay sh idx = Inr sel"
  shows "\<exists>st. load_state lay sh get_tensor sel = Inr st
    \<and> (\<forall>n f ks k. needed lay sh n \<longrightarrow> map_of idx n = Some f \<longrightarrow> skeleton_keys lay sh n = Inr ks
          \<longrightarrow> k \<in> set ks \<longrightarrow> map_of st k = Some (get_tensor f n))
    \<and> (\<forall>k. k \<in> set (map fst st) \<longrightarrow>
          (\<exists>n ks. needed lay sh n \<and> n \<in> set (tensor_names idx)
             \<and> skeleton_keys lay sh n = Inr ks \<and> k \<in> set ks))"
proof -
  note sel_map = map_of_select [OF sel]
  have pairs: "(f, n) \<in> set (flat_files (sort_files (group_by_file [] sel)))
      \<longleftrightarrow> needed lay sh n \<and> map_of idx n = Some f" for f n
  proof -
    have "set (flat_files (sort_files (group_by_file [] sel)))
        = set (flat_files (group_by_file [] sel))" by simp
    also have "\<dots> = (\<lambda>(n, f). (f, n)) ` set sel" by (subst set_group_by_file) simp_all
    finally have "(f, n) \<in> set (flat_files (sort_files (group_by_file [] sel))) \<longleftrightarrow> (n, f) \<in> set sel"
      by auto
    also have "\<dots> \<longleftrightarrow> map_of sel n = Some f" using sel_map(2) by simp
    finally show ?thesis by (auto simp: sel_map(1) split: if_splits)
  qed
  define keys where "keys n = projr (skeleton_keys lay sh n)" for n
  have keys: "skeleton_keys lay sh n = Inr (keys n)" if "needed lay sh n" for n
    using skeleton_keys_needed [OF std sh that] by (metis keys_def sum.sel(2))
  have disj: "f = g \<and> n = m" if "(f, n) \<in> set (flat_files (sort_files (group_by_file [] sel)))"
    "(g, m) \<in> set (flat_files (sort_files (group_by_file [] sel)))"
    "k \<in> set (keys n)" "k \<in> set (keys m)" for f n g m k
    using that(1,2) [unfolded pairs] that(3,4) keys
      skeleton_keys_disjoint [OF std sh, of n "keys n" k m "keys m"] by auto
  have "\<exists>st. load_state lay sh get_tensor sel = Inr st
    \<and> (\<forall>f n k. needed lay sh n \<and> map_of idx n = Some f \<longrightarrow> k \<in> set (keys n)
          \<longrightarrow> map_of st k = Some (get_tensor f n))
    \<and> (\<forall>k. (\<forall>f n. needed lay sh n \<and> map_of idx n = Some f \<longrightarrow> k \<notin> set (keys n)) \<longrightarrow> map_of st k = None)"
    using put_tensors_Inr [of "flat_files (sort_files (group_by_file [] sel))" lay sh keys get_tensor "[]"]
      keys disj unfolding load_state_def pairs by auto
  then obtain st where st: "load_state lay sh get_tensor sel = Inr st"
    "\<And>f n k. \<lbrakk>needed lay sh n; map_of idx n = Some f; k \<in> set (keys n)\<rbrakk> \<Longrightarrow> map_of st k = Some (get_tensor f n)"
    "\<And>k. (\<And>f n. \<lbrakk>needed lay sh n; map_of idx n = Some f\<rbrakk> \<Longrightarrow> k \<notin> set (keys n)) \<Longrightarrow> map_of st k = None"
    by blast
  have dom: "\<exists>n ks. needed lay sh n \<and> n \<in> set (tensor_names idx)
      \<and> skeleton_keys lay sh n = Inr ks \<and> k \<in> set ks" if "k \<in> set (map fst st)" for k
  proof -
    from that have "map_of st k \<noteq> None" by (simp add: map_of_eq_None_iff)
    with st(3) [of k] obtain f n where "needed lay sh n" "map_of idx n = Some f" "k \<in> set (keys n)"
      by blast
    with keys show ?thesis by (force simp: tensor_names_def dest: map_of_SomeD)
  qed
  from st(1,2) dom show ?thesis
    by (intro exI [of _ st]) (auto simp: keys_def)
qed


text \<open>What a checkpoint stores under a name.\<close>

definition stored :: "index \<Rightarrow> (string \<Rightarrow> string \<Rightarrow> 't) \<Rightarrow> string \<Rightarrow> 't option" where
  "stored idx get_tensor n = map_option (\<lambda>f. get_tensor f n) (map_of idx n)"

lemma load_state_lookup:
  assumes std: "standard_layout lay" and sh: "shard_in_bounds lay sh"
    and sel: "select_shard_tensors lay sh idx = Inr sel"
    and st: "load_state lay sh get_tensor sel = Inr st"
    and n: "needed lay sh n" "skeleton_keys lay sh n = Inr ks" "k \<in> set ks"
  shows "map_of st k = stored idx get_tensor n"
proof (cases "map_of idx n")
  case (Some f)
  with load_state_Inr [OF std sh sel, of get_tensor] st n show ?thesis
    by (auto simp: stored_def)
next
  case None
  have "k \<notin> set (map fst st)"
  proof
    assume "k \<in> set (map fst st)"
    with load_state_Inr [OF std sh sel, of get_tensor] st obtain m ls
      where m: "needed lay sh m" "m \<in> set (tensor_names idx)" "skeleton_keys lay sh m = Inr ls" "k \<in> set ls"
      by auto
    with skeleton_keys_disjoint [OF std sh n m(1,3,4)] None show False
      by (simp add: tensor_names_def map_of_eq_None_iff)
  qed
  then have "map_of st k = None" by (simp add: map_of_eq_None_iff)
  with None show ?thesis by (simp add: stored_def)
qed

lemma load_shard_Inr:
  assumes "load_shard expected d lay sh get_tensor = Inr st"
  obtains idx sel where "index_from_source d = Inr idx" "select_shard_tensors lay sh idx = Inr sel"
    "load_state lay sh get_tensor sel = Inr st" "set (map fst st) = set expected"
    "br_end (spec_blocks sh) \<le> num_blocks lay"
  using assms by (auto simp: load_shard_def bind_res_Inr validate_bounds_def not_less split: if_splits)

lemma block_skeleton_key:
  assumes "standard_layout lay" and "shard_in_bounds lay sh" and "block_contains (spec_blocks sh) i"
  shows "skeleton_keys lay sh (std_block i @ CHR ''.'' # s)
    = Inr [std_block (i - br_start (spec_blocks sh)) @ CHR ''.'' # s]"
  using block_key_found [OF assms(1,2), of "block_indices (spec_blocks sh)" i] assms(3)
  by (simp add: skeleton_keys_def)

lemma loaded_block:
  assumes std: "standard_layout lay" and rng: "range_ok (spec_blocks sh)"
    and load: "load_shard expected d lay sh get_tensor = Inr st" and idx: "index_from_source d = Inr idx"
    and i: "0 \<le> i" "i < block_len (spec_blocks sh)"
  shows "map_of st (std_block i @ CHR ''.'' # s)
    = stored idx get_tensor (std_block (br_start (spec_blocks sh) + i) @ CHR ''.'' # s)"
proof -
  let ?j = "br_start (spec_blocks sh) + i"
  from load obtain sel where sel: "select_shard_tensors lay sh idx = Inr sel"
    "load_state lay sh get_tensor sel = Inr st" "br_end (spec_blocks sh) \<le> num_blocks lay"
    by (rule load_shard_Inr) (simp add: idx)
  with rng have sh: "shard_in_bounds lay sh" by (simp add: shard_in_bounds_def)
  from i have j: "block_contains (spec_blocks sh) ?j" by (simp add: block_contains_def block_len_def)
  from standard_prefix_of_block(2) [OF std sh j] have "0 \<le> ?j" .
  then have "needed lay sh (std_block ?j @ CHR ''.'' # s)"
    using j by (subst needed_block_iff [OF std sh]) (auto simp: under_std_block)
  from load_state_lookup [OF std sh sel(1,2) this block_skeleton_key [OF std sh j]]
  show ?thesis by simp
qed

lemma loaded_stage:
  assumes std: "standard_layout lay" and rng: "range_ok (spec_blocks sh)"
    and load: "load_shard expected d lay sh get_tensor = Inr st" and idx: "index_from_source d = Inr idx"
  shows "include_input_stage sh \<Longrightarrow>
      map_of st (std_embedding @ CHR ''.'' # s) = stored idx get_tensor (std_embedding @ CHR ''.'' # s)"
    and "include_output_stage sh \<Longrightarrow>
      map_of st (std_norm @ CHR ''.'' # s) = stored idx get_tensor (std_norm @ CHR ''.'' # s)"
    and "include_output_stage sh \<Longrightarrow>
      map_of st (std_head @ CHR ''.'' # s) = stored idx get_tensor
        ((if tied_word_embeddings lay then std_embedding else std_head) @ CHR ''.'' # s)"
proof -
  from load obtain sel where sel: "select_shard_tensors lay sh idx = Inr sel"
    "load_state lay sh get_tensor sel = Inr st" "br_end (spec_blocks sh) \<le> num_blocks lay"
    by (rule load_shard_Inr) (simp add: idx)
  with rng have sh: "shard_in_bounds lay sh" by (simp add: shard_in_bounds_def)
  have look: "map_of st k = stored idx get_tensor n"
    if "needed lay sh n" "k \<in> set (projr (skeleton_keys lay sh n))" for n k
    using load_state_lookup [OF std sh sel(1,2) that(1) _ that(2)] skeleton_keys_needed [OF std sh that(1)]
    by (metis sum.sel(2))
  have keys: "k \<in> set (projr (skeleton_keys lay sh n))"
    if "needed lay sh n"
      "n = std_embedding @ CHR ''.'' # s \<and> (k = n \<and> include_input_stage sh
         \<or> k = std_head @ CHR ''.'' # s \<and> include_output_stage sh \<and> tied_word_embeddings lay)
       \<or> k = n \<and> n = std_norm @ CHR ''.'' # s \<or> k = n \<and> n = std_head @ CHR ''.'' # s" for n k
    using skeleton_keys_cases [OF std sh that(1)] that(2) by (elim disjE exE conjE) auto
  show "map_of st (std_embedding @ CHR ''.'' # s) = stored idx get_tensor (std_embedding @ CHR ''.'' # s)"
    if "include_input_stage sh"
    using that by (intro look keys) (auto simp: standard_needed [OF std sh] startswith_iff)
  show "map_of st (std_norm @ CHR ''.'' # s) = stored idx get_tensor (std_norm @ CHR ''.'' # s)"
    if "include_output_stage sh"
    using that by (intro look keys) (auto simp: standard_needed [OF std sh] startswith_iff)
  show "map_of st (std_head @ CHR ''.'' # s) = stored idx get_tensor
        ((if tied_word_embeddings lay then std_embedding else std_head) @ CHR ''.'' # s)"
    if "include_output_stage sh"
    using that by (intro look keys) (auto simp: standard_needed [OF std sh] startswith_iff)
qed



subsection \<open>Properties\<close>

text \<open>\<open>has_tensors idx p\<close>: the checkpoint stores something under the prefix.\<close>

definition has_tensors :: "index \<Rightarrow> string \<Rightarrow> bool" where
  "has_tensors idx p = list_ex (\<lambda>n. startswith n (p @ ''.'')) (tensor_names idx)"

lemma select_ok_prefixes:
  assumes "standard_layout lay" and "range_ok (spec_blocks sh)"
  shows "is_ok (select_shard_tensors lay sh idx) \<longleftrightarrow>
    br_end (spec_blocks sh) \<le> num_blocks lay
    \<and> (\<forall>p\<in>set (shard_prefixes lay sh). \<exists>q. p = Inr q \<and> has_tensors idx q)"
  by (auto simp: select_shard_tensors_def validate_bounds_def then_res_def raise_if_def
      take_prefixes_ok_iff has_tensors_def list_ex_iff)

lemma all_blocks_prefix:
  assumes "standard_layout lay" and "shard_in_bounds lay sh"
  shows "(\<forall>i. block_contains (spec_blocks sh) i \<longrightarrow> (\<exists>q. block_prefix lay i = Inr q \<and> P q)) \<longleftrightarrow>
    (\<forall>i. block_contains (spec_blocks sh) i \<longrightarrow> P (std_block i))"
  using standard_prefix_of_block(1) [OF assms] by auto

text \<open>\<^verbatim>\<open>select_shard_tensors\<close> succeeds exactly when the shard's blocks exist in the model and the
  checkpoint stores at least one tensor for every block of the shard and for each of the stage
  modules the shard owns; otherwise it raises.\<close>

lemma select_shard_tensors_succeeds_iff:
  assumes "standard_layout lay" and "range_ok (spec_blocks sh)"
  shows "is_ok (select_shard_tensors lay sh idx) \<longleftrightarrow>
    br_end (spec_blocks sh) \<le> num_blocks lay
    \<and> (\<forall>i. block_contains (spec_blocks sh) i \<longrightarrow> has_tensors idx (std_block i))
    \<and> (include_input_stage sh \<longrightarrow> has_tensors idx std_embedding)
    \<and> (include_output_stage sh \<longrightarrow> has_tensors idx std_norm
        \<and> has_tensors idx (if tied_word_embeddings lay then std_embedding else std_head))"
proof (cases "br_end (spec_blocks sh) \<le> num_blocks lay")
  case True
  with assms(2) have "shard_in_bounds lay sh" by (simp add: shard_in_bounds_def)
  note blocks = all_blocks_prefix [OF assms(1) this, of "has_tensors idx"]
  have "(\<forall>p\<in>set (shard_prefixes lay sh). \<exists>q. p = Inr q \<and> has_tensors idx q) \<longleftrightarrow>
    (\<forall>i. block_contains (spec_blocks sh) i \<longrightarrow> (\<exists>q. block_prefix lay i = Inr q \<and> has_tensors idx q))
    \<and> (include_input_stage sh \<longrightarrow> has_tensors idx std_embedding)
    \<and> (include_output_stage sh \<longrightarrow> has_tensors idx std_norm
        \<and> has_tensors idx (if tied_word_embeddings lay then std_embedding else std_head))"
    using assms(1) by (auto simp: shard_prefixes_def standard_layout_def)
  with True show ?thesis by (simp add: select_ok_prefixes [OF assms] blocks)
next
  case False
  then show ?thesis by (simp add: select_ok_prefixes [OF assms])
qed

text \<open>A two-block checkpoint in one file, for the witnesses.\<close>

definition demo_layout :: model_layout where
  "demo_layout = \<lparr>lay_model_type = ''llama'', num_blocks = 2, hidden_size = 4, intermediate_size = 8,
     num_attention_heads = 2, num_kv_heads = 1, embedding_prefix = std_embedding,
     block_prefix_template = std_template, final_norm_prefix = std_norm, lm_head_prefix = std_head,
     tied_word_embeddings = True\<rparr>"

definition demo_index :: index where
  "demo_index = [(''model.embed_tokens.weight'', ''a''), (''model.layers.0.w'', ''a''),
     (''model.layers.1.w'', ''b''), (''model.norm.weight'', ''b'')]"

definition demo_snapshot :: snapshot_dir where
  "demo_snapshot = \<lparr>snap_weight_map = Some (Some demo_index), snap_files = []\<rparr>"

definition demo_shard :: shard_spec where
  "demo_shard = \<lparr>spec_model_id = ''m'', spec_blocks = \<lparr>br_start = 1, br_end = 2\<rparr>,
     include_input_stage = False, include_output_stage = True\<rparr>"

lemma demo_standard: "standard_layout demo_layout" "range_ok (spec_blocks demo_shard)"
  by (simp_all add: standard_layout_def demo_layout_def range_ok_def demo_shard_def)

lemma demo_load:
  "index_from_source demo_snapshot = Inr demo_index"
  "select_shard_tensors demo_layout demo_shard demo_index =
     Inr [(''model.layers.1.w'', ''b''), (''model.norm.weight'', ''b''), (''model.embed_tokens.weight'', ''a'')]"
  "load_shard [''model.layers.0.w'', ''model.norm.weight'', ''lm_head.weight''] demo_snapshot
     demo_layout demo_shard (\<lambda>f n. f @ n) =
     Inr [(''lm_head.weight'', ''amodel.embed_tokens.weight''), (''model.layers.0.w'', ''bmodel.layers.1.w''),
          (''model.norm.weight'', ''bmodel.norm.weight'')]"
  by code_simp+

text \<open>The selection is exact: a tensor name is selected if and only if the checkpoint stores it
  and it belongs to a block of the shard, to the embedding of an input shard, or to the final norm
  or the head of an output shard (the embedding when the head is tied); each selected name maps to
  the file that stores it, once.\<close>

lemma select_shard_tensors_exact:
  assumes "standard_layout lay" and "range_ok (spec_blocks sh)"
    and "select_shard_tensors lay sh idx = Inr sel"
  shows "distinct (map fst sel)
    \<and> (\<forall>n f. (n, f) \<in> set sel \<longleftrightarrow> map_of idx n = Some f
         \<and> ((\<exists>i. block_contains (spec_blocks sh) i \<and> startswith n (std_block i @ ''.''))
            \<or> include_input_stage sh \<and> startswith n (std_embedding @ ''.'')
            \<or> include_output_stage sh \<and> startswith n (std_norm @ ''.'')
            \<or> include_output_stage sh \<and> startswith n
                ((if tied_word_embeddings lay then std_embedding else std_head) @ ''.'')))"
proof -
  from assms(2,3) have "shard_in_bounds lay sh"
    by (simp add: select_shard_tensors_def validate_bounds_def shard_in_bounds_def not_less)
  note needed = standard_needed [OF assms(1) this]
  note sel = map_of_select [OF assms(3)]
  have "(n, f) \<in> set sel \<longleftrightarrow> map_of idx n = Some f \<and> needed lay sh n" for n f
  proof -
    have "(n, f) \<in> set sel \<longleftrightarrow> map_of sel n = Some f" using sel(2) by simp
    then show ?thesis by (auto simp: sel(1) split: if_splits)
  qed
  with sel(2) show ?thesis by (simp add: needed)
qed

text \<open>[C11] Loading a shard puts block \<open>start + i\<close> of the checkpoint at layer \<open>i\<close> of the skeleton, the
  embedding, the final norm and the head (the embedding when tied) at their own names, each with
  exactly the checkpoint's tensors, and loads no other key than the skeleton has.\<close>

theorem load_shard_places_tensors:
  assumes "standard_layout lay" and "range_ok (spec_blocks sh)"
    and "index_from_source d = Inr idx" and "load_shard expected d lay sh get_tensor = Inr st"
  shows "set (map fst st) = set expected
    \<and> (\<forall>i s. 0 \<le> i \<longrightarrow> i < block_len (spec_blocks sh) \<longrightarrow>
         map_of st (std_block i @ CHR ''.'' # s)
         = stored idx get_tensor (std_block (br_start (spec_blocks sh) + i) @ CHR ''.'' # s))
    \<and> (include_input_stage sh \<longrightarrow> (\<forall>s. map_of st (std_embedding @ CHR ''.'' # s)
         = stored idx get_tensor (std_embedding @ CHR ''.'' # s)))
    \<and> (include_output_stage sh \<longrightarrow> (\<forall>s. map_of st (std_norm @ CHR ''.'' # s)
         = stored idx get_tensor (std_norm @ CHR ''.'' # s)
       \<and> map_of st (std_head @ CHR ''.'' # s) = stored idx get_tensor
           ((if tied_word_embeddings lay then std_embedding else std_head) @ CHR ''.'' # s)))"
proof -
  have "set (map fst st) = set expected" using assms(4) by (rule load_shard_Inr)
  then show ?thesis
    using loaded_block [OF assms(1,2,4,3)] loaded_stage [OF assms(1,2,4,3)] by blast
qed

theorem load_shard_places_tensors_witness:
  "map_of [(''lm_head.weight'', ''amodel.embed_tokens.weight''), (''model.layers.0.w'', ''bmodel.layers.1.w''),
           (''model.norm.weight'', ''bmodel.norm.weight'')] (std_block 0 @ ''.w'')
   = stored demo_index (\<lambda>f n. f @ n) (std_block 1 @ ''.w'')"
proof -
  note load = load_shard_places_tensors [OF demo_standard demo_load(1) demo_load(3)]
  have "br_start (spec_blocks demo_shard) + 0 = 1" "(0::int) < block_len (spec_blocks demo_shard)"
    by (simp_all add: demo_shard_def block_len_def)
  with load [THEN conjunct2, THEN conjunct1, rule_format, of 0 "''w''"] show ?thesis by simp
qed

end
