(* ===== verification/Shard.thy ===== *)
theory Shard
  imports Weights
begin

section \<open>Adapters, sessions and the shard execution unit\<close>

text \<open>
  \<^verbatim>\<open>model/adapters\<close> (structure discovery, skeleton construction, execution hooks, the registry),
  \<^verbatim>\<open>inference/state.py\<close>, \<^verbatim>\<open>inference/session.py\<close> and \<^verbatim>\<open>inference/shard.py\<close> (\<^verbatim>\<open>ShardModule\<close>).

  The tensors of the code are [batch, sequence] of integers (token ids, positions) or
  [batch, sequence, feature] (hidden states, logits). A tensor here is the list of its batch rows, a
  row the list of its positions, and a position holds a long integer or a feature vector, which is
  left abstract (\<open>'x\<close>); as in torch one type covers both. Tensors handed to a shard are copied to its
  device, which keeps their values and does not appear.

  Hugging Face and torch are not code of the repository. What the adapters call of them is the
  record \<open>hf\<close>, an argument of every definition: the embedding module, the backbone forward with
  the KV cache it updates, the LM head, the empty cache and the cache's sequence length. They
  receive the module (skeleton and loaded state dictionary) as the code passes it. \<open>hf_cast\<close> is the
  conversion of a parameter by \<^verbatim>\<open>module.to(dtype=...)\<close>, \<open>hf_has_device\<close> says whether torch can place a
  module on a device. The rotary frequency table, which \<^verbatim>\<open>restore_high_precision_buffers\<close> recomputes in
  float32 after the conversion, is no parameter of the checkpoint and stays inside \<open>hf_backbone\<close>.
\<close>


subsection \<open>Tensors and execution state\<close>

datatype 'x cell = Long int | Feat 'x

type_synonym 'x tensor = "'x cell list list"

definition shape0 :: "'x tensor \<Rightarrow> int" where
  "shape0 t = int (length t)"

definition shape1 :: "'x tensor \<Rightarrow> int" where
  "shape1 t = (case t of [] \<Rightarrow> 0 | row # _ \<Rightarrow> int (length row))"

text \<open>\<^verbatim>\<open>hidden[:, -1:, :]\<close>.\<close>

definition last_position :: "'x tensor \<Rightarrow> 'x tensor" where
  "last_position t = map (\<lambda>row. drop (length row - 1) row) t"

text \<open>\<^verbatim>\<open>torch.arange(a, b)\<close>.\<close>

definition arange :: "int \<Rightarrow> int \<Rightarrow> int list" where
  "arange a b = [a..b - 1]"

datatype phase = PREFILL | DECODE

datatype logits_mode = FULL | LAST_TOKEN

record 'x exec_context =
  ctx_phase :: phase
  ctx_step :: int
  ctx_batch_size :: int
  ctx_sequence_lengths :: "int list"
  ctx_past_length :: int
  ctx_positions :: "'x tensor option"

record 'x shard_state =
  ss_hidden :: "'x tensor"
  ss_context :: "'x exec_context"

record 'x logits_output =
  lo_logits :: "'x tensor"
  lo_context :: "'x exec_context"

datatype 'x shard_result = StateResult "'x shard_state" | LogitsResult "'x logits_output"


subsection \<open>Skeletons and adapter hooks\<close>

text \<open>What \<^verbatim>\<open>build_skeleton\<close> leaves of the model: whether the embedding, the final norm and the LM
  head are the real modules or \<^verbatim>\<open>nn.Identity\<close>, and the retained layers by their
  \<^verbatim>\<open>self_attn.layer_idx\<close>.\<close>

record skeleton =
  sk_embed :: bool
  sk_layers :: "int list"
  sk_norm :: bool
  sk_head :: bool

record 't torch_module =
  tm_skeleton :: skeleton
  tm_state :: "(string \<times> 't) list"

text \<open>\<^verbatim>\<open>torch.dtype\<close> and \<^verbatim>\<open>torch.device\<close>, as far as a runtime configuration names them.\<close>

datatype dtype = Fp32 | Fp16 | Bf16

datatype torch_device = CpuDevice | CudaDevice int

record ('x, 'c, 't) hf =
  hf_embed :: "'t torch_module \<Rightarrow> 'x tensor \<Rightarrow> 'x tensor"
  hf_backbone :: "'t torch_module \<Rightarrow> 'x tensor \<Rightarrow> 'x tensor \<Rightarrow> int list \<Rightarrow> 'c \<Rightarrow> 'x tensor \<times> 'c"
  hf_head :: "'t torch_module \<Rightarrow> 'x tensor \<Rightarrow> 'x tensor"
  hf_new_cache :: 'c
  hf_seq_length :: "'c \<Rightarrow> int"
  hf_cast :: "dtype \<Rightarrow> 't \<Rightarrow> 't"
  hf_has_device :: "torch_device \<Rightarrow> bool"

text \<open>The fields of \<^verbatim>\<open>config.json\<close> the adapters read.\<close>

record model_config =
  cfg_model_type :: "string option"
  cfg_architectures :: "string list"
  cfg_num_hidden_layers :: int
  cfg_hidden_size :: int
  cfg_intermediate_size :: int
  cfg_num_attention_heads :: int
  cfg_num_key_value_heads :: "int option"
  cfg_tie_word_embeddings :: bool

record adapter =
  ad_model_type :: string
  ad_architectures :: "string list"

definition llama_adapter :: adapter where
  "llama_adapter = \<lparr>ad_model_type = ''llama'', ad_architectures = [''LlamaForCausalLM'']\<rparr>"

definition qwen2_adapter :: adapter where
  "qwen2_adapter = \<lparr>ad_model_type = ''qwen2'', ad_architectures = [''Qwen2ForCausalLM'']\<rparr>"

text \<open>\<^verbatim>\<open>num_kv_heads or num_attention_heads\<close>: a missing or zero value falls back.\<close>

definition inspect :: "adapter \<Rightarrow> model_config \<Rightarrow> model_layout res" where
  "inspect ad cfg = make_layout
     \<lparr>lay_model_type = ad_model_type ad, num_blocks = cfg_num_hidden_layers cfg,
      hidden_size = cfg_hidden_size cfg, intermediate_size = cfg_intermediate_size cfg,
      num_attention_heads = cfg_num_attention_heads cfg,
      num_kv_heads = (case cfg_num_key_value_heads cfg of
                        None \<Rightarrow> cfg_num_attention_heads cfg
                      | Some k \<Rightarrow> if k = 0 then cfg_num_attention_heads cfg else k),
      embedding_prefix = std_embedding, block_prefix_template = std_template,
      final_norm_prefix = std_norm, lm_head_prefix = std_head,
      tied_word_embeddings = cfg_tie_word_embeddings cfg\<rparr>"

definition keep_layer_range :: "int list \<Rightarrow> block_range \<Rightarrow> int list res" where
  "keep_layer_range layers r =
     (if br_start r < 0 \<or> int (length layers) < br_end r
      then Inl (ValueError ''block range does not fit layers'')
      else Inr (drop (nat (br_start r)) (take (nat (br_end r)) layers)))"

definition build_skeleton :: "adapter \<Rightarrow> model_config \<Rightarrow> shard_spec \<Rightarrow> skeleton res" where
  "build_skeleton ad cfg sh =
     bind_res (inspect ad cfg) (\<lambda>lay.
       then_res (validate_bounds sh (num_blocks lay))
         (bind_res (keep_layer_range [0..cfg_num_hidden_layers cfg - 1] (spec_blocks sh)) (\<lambda>kept.
            Inr \<lparr>sk_embed = include_input_stage sh,
                 sk_layers = map int [0..<length kept],
                 sk_norm = include_output_stage sh, sk_head = include_output_stage sh\<rparr>)))"

definition embed_tokens ::
    "('x, 'c, 't) hf \<Rightarrow> 't torch_module \<Rightarrow> 'x tensor \<Rightarrow> 'x tensor" where
  "embed_tokens hf m ids = hf_embed hf m ids"

definition forward_blocks ::
    "('x, 'c, 't) hf \<Rightarrow> 't torch_module \<Rightarrow> 'x tensor \<Rightarrow> 'x tensor \<Rightarrow> 'c \<Rightarrow> 'x tensor \<times> 'c" where
  "forward_blocks hf m hidden positions cache =
     (let q_len = shape1 hidden; past_length = hf_seq_length hf cache
      in hf_backbone hf m hidden positions (arange past_length (past_length + q_len)) cache)"

definition finalize :: "('x, 'c, 't) hf \<Rightarrow> 't torch_module \<Rightarrow> 'x tensor \<Rightarrow> 'x tensor" where
  "finalize hf m hidden = hf_head hf m hidden"


subsection \<open>The adapter registry\<close>

record registry =
  by_model_type :: "string \<rightharpoonup> adapter"
  by_architecture :: "string \<rightharpoonup> adapter"

definition empty_registry :: registry where
  "empty_registry = \<lparr>by_model_type = Map.empty, by_architecture = Map.empty\<rparr>"

fun register_architectures :: "adapter \<Rightarrow> string list \<Rightarrow> registry \<Rightarrow> registry \<times> unit res" where
  "register_architectures ad [] r = (r, Inr ())"
| "register_architectures ad (a # as) r =
     (if by_architecture r a \<noteq> None
      then (r, Inl (ValueError ''adapter for architecture is already registered''))
      else register_architectures ad as (r\<lparr>by_architecture := (by_architecture r)(a \<mapsto> ad)\<rparr>))"

definition register :: "registry \<Rightarrow> adapter \<Rightarrow> registry \<times> unit res" where
  "register r ad =
     (if by_model_type r (ad_model_type ad) \<noteq> None
      then (r, Inl (ValueError ''adapter for model_type is already registered''))
      else register_architectures ad (ad_architectures ad)
             (r\<lparr>by_model_type := (by_model_type r)(ad_model_type ad \<mapsto> ad)\<rparr>))"

fun first_architecture :: "registry \<Rightarrow> string list \<Rightarrow> adapter res" where
  "first_architecture r [] = Inl (UnsupportedArchitectureError ''no adapter registered'')"
| "first_architecture r (a # as) =
     (case by_architecture r a of Some ad \<Rightarrow> Inr ad | None \<Rightarrow> first_architecture r as)"

definition resolve :: "registry \<Rightarrow> string option \<Rightarrow> string list \<Rightarrow> adapter res" where
  "resolve r model_type archs =
     (case model_type of
        None \<Rightarrow> first_architecture r archs
      | Some t \<Rightarrow> (case by_model_type r t of
                     Some ad \<Rightarrow> Inr ad
                   | None \<Rightarrow> first_architecture r archs))"

definition default_registry :: registry where
  "default_registry = fst (register (fst (register empty_registry llama_adapter)) qwen2_adapter)"

definition resolve_adapter_for_source :: "model_config \<Rightarrow> registry \<Rightarrow> adapter res" where
  "resolve_adapter_for_source cfg r = resolve r (cfg_model_type cfg) (cfg_architectures cfg)"


subsection \<open>Sessions and the shard module\<close>

record 'c shard_session =
  sess_id :: string
  kv_cache :: 'c
  sequence_length :: int
  sess_step :: int

record ('x, 'c, 't) shard_module =
  sm_hf :: "('x, 'c, 't) hf"
  sm_module :: "'t torch_module"
  sm_layout :: model_layout
  sm_shard :: shard_spec
  sm_device :: torch_device
  sm_dtype :: dtype
  sm_sessions :: "string \<rightharpoonup> 'c shard_session"

text \<open>\<^verbatim>\<open>module.to(device=..., dtype=...)\<close>: every loaded parameter is converted; torch refuses a device it
  does not have.\<close>

definition module_to ::
    "('x, 'c, 't) hf \<Rightarrow> torch_device \<Rightarrow> dtype \<Rightarrow> (string \<times> 't) list \<Rightarrow> (string \<times> 't) list res" where
  "module_to hf dev dt st =
     then_res (raise_if (\<not> hf_has_device hf dev) (RuntimeError ''invalid device''))
       (Inr (map (apsnd (hf_cast hf dt)) st))"

text \<open>\<^verbatim>\<open>ShardModule.build\<close>, from the parsed configuration, the snapshot directory, the stored tensors
  and the parameter names torch reports for a skeleton.\<close>

definition shard_build ::
    "('x, 'c, 't) hf \<Rightarrow> (skeleton \<Rightarrow> string list) \<Rightarrow> model_config \<Rightarrow> snapshot_dir
     \<Rightarrow> (string \<Rightarrow> string \<Rightarrow> 't) \<Rightarrow> dtype \<Rightarrow> torch_device \<Rightarrow> shard_spec \<Rightarrow> ('x, 'c, 't) shard_module res" where
  "shard_build hf params cfg d get_tensor dt dev sh =
     bind_res (resolve_adapter_for_source cfg default_registry) (\<lambda>ad.
       bind_res (inspect ad cfg) (\<lambda>lay.
         then_res (validate_bounds sh (num_blocks lay))
           (bind_res (build_skeleton ad cfg sh) (\<lambda>sk.
              bind_res (load_shard (params sk) d lay sh get_tensor) (\<lambda>st.
                bind_res (module_to hf dev dt st) (\<lambda>placed.
                  Inr \<lparr>sm_hf = hf, sm_module = \<lparr>tm_skeleton = sk, tm_state = placed\<rparr>,
                       sm_layout = lay, sm_shard = sh, sm_device = dev, sm_dtype = dt,
                       sm_sessions = Map.empty\<rparr>))))))"

definition sm_create_session ::
    "('x, 'c, 't) shard_module \<Rightarrow> string \<Rightarrow> ('x, 'c, 't) shard_module res" where
  "sm_create_session m sid =
     (if sm_sessions m sid \<noteq> None then Inl (SessionError ''session already exists'')
      else Inr (m\<lparr>sm_sessions := (sm_sessions m)(sid \<mapsto>
             \<lparr>sess_id = sid, kv_cache = hf_new_cache (sm_hf m), sequence_length = 0, sess_step = 0\<rparr>)\<rparr>))"

definition sm_close_session ::
    "('x, 'c, 't) shard_module \<Rightarrow> string \<Rightarrow> ('x, 'c, 't) shard_module res" where
  "sm_close_session m sid =
     (if sm_sessions m sid = None then Inl (SessionError ''no such session'')
      else Inr (m\<lparr>sm_sessions := (sm_sessions m)(sid := None)\<rparr>))"

definition sm_session :: "('x, 'c, 't) shard_module \<Rightarrow> string \<Rightarrow> 'c shard_session res" where
  "sm_session m sid =
     (case sm_sessions m sid of None \<Rightarrow> Inl (SessionError ''no such session'') | Some s \<Rightarrow> Inr s)"

definition step_positions :: "int \<Rightarrow> int \<Rightarrow> 'x tensor" where
  "step_positions past q =
     [map Long (if q = 1 then [past] else arange past (past + q))]"

definition sm_advance ::
    "('x, 'c, 't) shard_module \<Rightarrow> string \<Rightarrow> 'c shard_session \<Rightarrow> 'x tensor \<Rightarrow> phase \<Rightarrow> logits_mode
     \<Rightarrow> ('x, 'c, 't) shard_module \<times> 'x shard_result" where
  "sm_advance m sid s hidden ph mode =
     (let q_len = shape1 hidden; past_length = sequence_length s;
          positions = step_positions past_length q_len;
          (hidden', cache') = forward_blocks (sm_hf m) (sm_module m) hidden positions (kv_cache s);
          s' = s\<lparr>kv_cache := cache', sequence_length := past_length + q_len, sess_step := sess_step s + 1\<rparr>;
          context = \<lparr>ctx_phase = ph, ctx_step = sess_step s', ctx_batch_size = shape0 hidden',
                     ctx_sequence_lengths = [sequence_length s'], ctx_past_length = past_length,
                     ctx_positions = Some positions\<rparr>;
          m' = m\<lparr>sm_sessions := (sm_sessions m)(sid \<mapsto> s')\<rparr>
      in (m', if include_output_stage (sm_shard m)
              then LogitsResult
                     \<lparr>lo_logits = finalize (sm_hf m) (sm_module m)
                        (if mode = LAST_TOKEN \<and> shape1 hidden' > 1 then last_position hidden' else hidden'),
                      lo_context = context\<rparr>
              else StateResult \<lparr>ss_hidden = hidden', ss_context = context\<rparr>))"

definition sm_enter ::
    "('x, 'c, 't) shard_module \<Rightarrow> 'x tensor option \<Rightarrow> 'x tensor option \<Rightarrow> 'x tensor res" where
  "sm_enter m input_ids hidden_states =
     (if include_input_stage (sm_shard m)
      then (case (input_ids, hidden_states) of
              (Some ids, None) \<Rightarrow> Inr (embed_tokens (sm_hf m) (sm_module m) ids)
            | _ \<Rightarrow> Inl (ValueError ''input shard prefill expects exactly one input_ids''))
      else (case (hidden_states, input_ids) of
              (Some h, None) \<Rightarrow> Inr h
            | _ \<Rightarrow> Inl (ValueError ''middle/last shard prefill expects exactly one hidden_states'')))"

definition sm_prefill ::
    "('x, 'c, 't) shard_module \<Rightarrow> string \<Rightarrow> 'x tensor option \<Rightarrow> 'x tensor option \<Rightarrow> logits_mode
     \<Rightarrow> (('x, 'c, 't) shard_module \<times> 'x shard_result) res" where
  "sm_prefill m sid input_ids hidden_states mode =
     bind_res (sm_session m sid) (\<lambda>s.
       if sess_step s \<noteq> 0 then Inl (SessionError ''prefill after step'')
       else bind_res (sm_enter m input_ids hidden_states) (\<lambda>hidden.
              Inr (sm_advance m sid s hidden PREFILL mode)))"

definition sm_decode ::
    "('x, 'c, 't) shard_module \<Rightarrow> string \<Rightarrow> int option \<Rightarrow> 'x tensor option
     \<Rightarrow> (('x, 'c, 't) shard_module \<times> 'x shard_result) res" where
  "sm_decode m sid token_id hidden_states =
     bind_res (sm_session m sid) (\<lambda>s.
       if sess_step s = 0 then Inl (SessionError ''decode before prefill'')
       else if include_input_stage (sm_shard m)
       then (case (token_id, hidden_states) of
               (Some t, None) \<Rightarrow>
                 Inr (sm_advance m sid s (embed_tokens (sm_hf m) (sm_module m) [[Long t]]) DECODE FULL)
             | _ \<Rightarrow> Inl (ValueError ''input shard decode expects exactly one token_id''))
       else (case (hidden_states, token_id) of
               (Some h, None) \<Rightarrow> Inr (sm_advance m sid s h DECODE FULL)
             | _ \<Rightarrow> Inl (ValueError ''middle/last shard decode expects exactly one hidden_states'')))"



subsection \<open>The session table as an interface\<close>

text \<open>What the pipeline and the runtime server rely on: a session is created only when absent and
  closed only when present, neither touches another session, and closing what was just created
  restores the module.\<close>

locale session_table =
  fixes lookup :: "'m \<Rightarrow> string \<Rightarrow> 's option"
    and create :: "'m \<Rightarrow> string \<Rightarrow> 'm res"
    and close :: "'m \<Rightarrow> string \<Rightarrow> 'm res"
  assumes create_ok: "is_ok (create m sid) \<longleftrightarrow> lookup m sid = None"
    and create_lookup: "create m sid = Inr m' \<Longrightarrow> lookup m' t \<noteq> None \<longleftrightarrow> t = sid \<or> lookup m t \<noteq> None"
    and create_other: "\<lbrakk>create m sid = Inr m'; t \<noteq> sid\<rbrakk> \<Longrightarrow> lookup m' t = lookup m t"
    and close_ok: "is_ok (close m sid) \<longleftrightarrow> lookup m sid \<noteq> None"
    and close_lookup: "close m sid = Inr m' \<Longrightarrow> lookup m' t = (if t = sid then None else lookup m t)"
    and close_create: "create m sid = Inr m' \<Longrightarrow> close m' sid = Inr m"
begin

lemma create_twice: "create m sid = Inr m' \<Longrightarrow> \<exists>e. create m' sid = Inl e"
  using create_ok [of m' sid] create_lookup [of m sid m' sid] by (cases "create m' sid") auto

lemma close_twice: "close m sid = Inr m' \<Longrightarrow> \<exists>e. close m' sid = Inl e"
  using close_ok [of m' sid] close_lookup [of m sid m' sid] by (cases "close m' sid") auto

end

lemma sm_sessions_restore [simp]:
  "sm_sessions m sid = None \<Longrightarrow> m\<lparr>sm_sessions := (sm_sessions m)(sid := None)\<rparr> = m"
  by (simp add: fun_upd_idem)

interpretation shard_sessions: session_table sm_sessions sm_create_session sm_close_session
  by unfold_locales
    (auto simp: sm_create_session_def sm_close_session_def map_upd_delete_fresh split: if_splits)

end
