(* ===== verification/Wire.thy ===== *)
theory Wire
  imports Shard
begin

section \<open>The shard protocol: messages, wire mapping and the serialized boundary\<close>

text \<open>
  \<^verbatim>\<open>protocol/domain.py\<close> (messages and their validation), \<^verbatim>\<open>protocol/tensor_codec.py\<close>,
  \<^verbatim>\<open>protocol/protobuf_mapper.py\<close> and \<^verbatim>\<open>protocol/boundary.py\<close>.

  The generated protobuf classes, safetensors and \<^verbatim>\<open>uuid4\<close> are not code of the repository. They are
  the record \<open>wire_env\<close>: \<^verbatim>\<open>SerializeToString\<close> and \<^verbatim>\<open>FromString\<close> of a forward message, \<^verbatim>\<open>save\<close> and
  \<^verbatim>\<open>load\<close> of a tensor bundle (their bytes are opaque types, with the empty bundle named) and the
  fresh identifier of a message. \<open>wire_env_ok\<close> is what they
  document: parsing what was serialized gives the message back, loading what was saved gives the
  same named tensors, an identifier is not empty. Building a protobuf message checks the range of
  its int32 and int64 fields and raises \<open>ValueError\<close>; that check is written out. \<^verbatim>\<open>ForwardRequest\<close>
  and \<^verbatim>\<open>ForwardReply\<close> have the same fields and share one record.
\<close>


subsection \<open>Messages\<close>

definition PROTOCOL_VERSION :: int where "PROTOCOL_VERSION = 1"

definition MASTER_STAGE :: int where "MASTER_STAGE = - 1"

definition TENSOR_KEY_POSITIONS :: string where "TENSOR_KEY_POSITIONS = ''positions''"
definition TENSOR_KEY_HIDDEN_STATES :: string where "TENSOR_KEY_HIDDEN_STATES = ''hidden_states''"
definition TENSOR_KEY_LOGITS :: string where "TENSOR_KEY_LOGITS = ''logits''"

datatype 'x payload =
    TokenPayload "int list"
  | HiddenStatePayload "'x tensor"
  | LogitsPayload "'x tensor"

definition make_token_payload :: "int list \<Rightarrow> 'x payload res" where
  "make_token_payload ids =
     (if ids = [] then Inl (ValueError ''token payload must carry at least one token'')
      else Inr (TokenPayload ids))"

record message_header =
  protocol_version :: int
  execution_id :: string
  session_id :: string
  request_id :: string
  hdr_phase :: phase
  hdr_step :: int
  source_stage :: int
  target_stage :: int
  hdr_logits_mode :: logits_mode

record 'x shard_message =
  msg_header :: message_header
  msg_context :: "'x exec_context"
  msg_payload :: "'x payload"

record expectation =
  exp_execution_id :: string
  exp_stage_index :: int
  exp_next_step :: int
  exp_session_open :: bool

definition validate_forward_message :: "'x shard_message \<Rightarrow> expectation \<Rightarrow> unit res" where
  "validate_forward_message m ex =
     (let h = msg_header m;
          expected_source = exp_stage_index ex - 1;
          expected_phase = (if hdr_step h = 0 then PREFILL else DECODE)
      in then_res (raise_if (protocol_version h \<noteq> PROTOCOL_VERSION) (ProtocolError ''unsupported protocol version''))
        (then_res (raise_if (execution_id h = []) (ProtocolError ''empty execution_id''))
        (then_res (raise_if (session_id h = []) (ProtocolError ''empty session_id''))
        (then_res (raise_if (request_id h = []) (ProtocolError ''empty request_id''))
        (then_res (raise_if (execution_id h \<noteq> exp_execution_id ex) (ProtocolError ''wrong execution ID''))
        (then_res (raise_if (\<not> exp_session_open ex) (ProtocolError ''session is closed''))
        (then_res (raise_if (target_stage h \<noteq> exp_stage_index ex) (ProtocolError ''wrong target stage''))
        (then_res (raise_if (source_stage h \<noteq> expected_source) (ProtocolError ''wrong source stage''))
        (then_res (raise_if (hdr_step h < 0) (SequencingError ''negative step''))
        (then_res (raise_if (hdr_phase h \<noteq> expected_phase) (SequencingError ''phase does not match step''))
        (then_res (raise_if (hdr_step h \<noteq> exp_next_step ex) (SequencingError ''out-of-order step''))
        (raise_if (ctx_phase (msg_context m) \<noteq> hdr_phase h) (ProtocolError ''header/context phase mismatch'')))))))))))))"


subsection \<open>Wire messages and the libraries that carry them\<close>

record wire_header =
  wh_protocol_version :: int
  wh_execution_id :: string
  wh_session_id :: string
  wh_request_id :: string
  wh_phase :: int
  wh_step :: int
  wh_source_stage :: int
  wh_target_stage :: int
  wh_logits_mode :: int

record wire_context =
  wc_phase :: int
  wc_step :: int
  wc_batch_size :: int
  wc_sequence_lengths :: "int list"
  wc_past_length :: int

datatype wire_payload = NoValue | WireToken "int list" | WireHidden string | WireLogits string

record 'b forward_wire =
  fw_header :: wire_header
  fw_context :: wire_context
  fw_payload :: wire_payload
  fw_tensor_bundle :: 'b

record ('x, 'b, 'w) wire_env =
  we_serialize :: "'b forward_wire \<Rightarrow> 'w"
  we_parse :: "'w \<Rightarrow> 'b forward_wire option"
  we_empty :: 'b
  we_save :: "(string \<times> 'x tensor) list \<Rightarrow> 'b"
  we_load :: "'b \<Rightarrow> (string \<times> 'x tensor) list option"
  we_uuid :: "string \<Rightarrow> int \<Rightarrow> int \<Rightarrow> string"

definition wire_env_ok :: "('x, 'b, 'w) wire_env \<Rightarrow> bool" where
  "wire_env_ok env \<longleftrightarrow>
     (\<forall>w. we_parse env (we_serialize env w) = Some w)
     \<and> (\<forall>ts. ts \<noteq> [] \<longrightarrow> distinct (map fst ts) \<longrightarrow> we_save env ts \<noteq> we_empty env
          \<and> (\<exists>ts'. we_load env (we_save env ts) = Some ts' \<and> map_of ts' = map_of ts))
     \<and> (\<forall>s i j. we_uuid env s i j \<noteq> [])"

definition out_of_range :: exn where "out_of_range = ValueError ''value out of range''"


subsection \<open>The tensor bundle codec\<close>

definition encode_tensors :: "('x, 'b, 'w) wire_env \<Rightarrow> (string \<times> 'x tensor) list \<Rightarrow> 'b" where
  "encode_tensors env ts = (if ts = [] then we_empty env else we_save env ts)"

definition decode_tensors :: "('x, 'b, 'w) wire_env \<Rightarrow> 'b \<Rightarrow> (string \<times> 'x tensor) list res" where
  "decode_tensors env bytes =
     (if bytes = we_empty env then Inr []
      else case we_load env bytes of
             None \<Rightarrow> Inl (ProtocolError ''invalid tensor bundle'')
           | Some ts \<Rightarrow> Inr ts)"


subsection \<open>The mapper\<close>

fun phase_to_wire :: "phase \<Rightarrow> int" where
  "phase_to_wire PREFILL = 1"
| "phase_to_wire DECODE = 2"

definition wire_to_phase :: "int \<Rightarrow> phase option" where
  "wire_to_phase i = (if i = 1 then Some PREFILL else if i = 2 then Some DECODE else None)"

fun logits_mode_to_wire :: "logits_mode \<Rightarrow> int" where
  "logits_mode_to_wire FULL = 0"
| "logits_mode_to_wire LAST_TOKEN = 1"

definition wire_to_logits_mode :: "int \<Rightarrow> logits_mode option" where
  "wire_to_logits_mode i = (if i = 0 then Some FULL else if i = 1 then Some LAST_TOKEN else None)"

definition header_to_wire :: "message_header \<Rightarrow> wire_header res" where
  "header_to_wire h =
     then_res (raise_if (\<not> (int32 (protocol_version h) \<and> int32 (hdr_step h) \<and> int32 (source_stage h)
                           \<and> int32 (target_stage h))) out_of_range)
       (Inr \<lparr>wh_protocol_version = protocol_version h, wh_execution_id = execution_id h,
             wh_session_id = session_id h, wh_request_id = request_id h,
             wh_phase = phase_to_wire (hdr_phase h), wh_step = hdr_step h,
             wh_source_stage = source_stage h, wh_target_stage = target_stage h,
             wh_logits_mode = logits_mode_to_wire (hdr_logits_mode h)\<rparr>)"

definition header_from_wire :: "wire_header \<Rightarrow> message_header res" where
  "header_from_wire w =
     (case wire_to_phase (wh_phase w) of
        None \<Rightarrow> Inl (ProtocolError ''unknown wire phase'')
      | Some ph \<Rightarrow>
          (case wire_to_logits_mode (wh_logits_mode w) of
             None \<Rightarrow> Inl (ProtocolError ''unknown wire logits mode'')
           | Some lm \<Rightarrow>
               Inr \<lparr>protocol_version = wh_protocol_version w, execution_id = wh_execution_id w,
                    session_id = wh_session_id w, request_id = wh_request_id w, hdr_phase = ph,
                    hdr_step = wh_step w, source_stage = wh_source_stage w,
                    target_stage = wh_target_stage w, hdr_logits_mode = lm\<rparr>))"

definition context_to_wire :: "'x exec_context \<Rightarrow> wire_context res" where
  "context_to_wire c =
     then_res (raise_if (\<not> (int32 (ctx_step c) \<and> int32 (ctx_batch_size c)
                           \<and> list_all int64 (ctx_sequence_lengths c) \<and> int64 (ctx_past_length c))) out_of_range)
       (Inr \<lparr>wc_phase = phase_to_wire (ctx_phase c), wc_step = ctx_step c,
             wc_batch_size = ctx_batch_size c, wc_sequence_lengths = ctx_sequence_lengths c,
             wc_past_length = ctx_past_length c\<rparr>)"

definition context_from_wire :: "wire_context \<Rightarrow> 'x tensor option \<Rightarrow> 'x exec_context res" where
  "context_from_wire w positions =
     (case wire_to_phase (wc_phase w) of
        None \<Rightarrow> Inl (ProtocolError ''unknown wire phase'')
      | Some ph \<Rightarrow>
          Inr \<lparr>ctx_phase = ph, ctx_step = wc_step w, ctx_batch_size = wc_batch_size w,
               ctx_sequence_lengths = wc_sequence_lengths w, ctx_past_length = wc_past_length w,
               ctx_positions = positions\<rparr>)"

fun payload_to_wire :: "'x payload \<Rightarrow> (wire_payload \<times> (string \<times> 'x tensor) list) res" where
  "payload_to_wire (TokenPayload ids) =
     then_res (raise_if (\<not> list_all int64 ids) out_of_range) (Inr (WireToken ids, []))"
| "payload_to_wire (HiddenStatePayload t) =
     Inr (WireHidden TENSOR_KEY_HIDDEN_STATES, [(TENSOR_KEY_HIDDEN_STATES, t)])"
| "payload_to_wire (LogitsPayload t) =
     Inr (WireLogits TENSOR_KEY_LOGITS, [(TENSOR_KEY_LOGITS, t)])"

definition declared_tensor :: "string \<Rightarrow> (string \<rightharpoonup> 'x tensor) \<Rightarrow> 'x tensor res" where
  "declared_tensor key tensors =
     (if key = [] then Inl (ProtocolError ''payload declares no tensor key'')
      else case tensors key of
             None \<Rightarrow> Inl (ProtocolError ''tensor bundle lacks payload tensor'')
           | Some t \<Rightarrow> Inr t)"

fun payload_from_wire :: "wire_payload \<Rightarrow> (string \<rightharpoonup> 'x tensor) \<Rightarrow> 'x payload res" where
  "payload_from_wire (WireToken ids) tensors =
     (if ids = [] then Inl (ProtocolError ''token payload carries no tokens'')
      else make_token_payload ids)"
| "payload_from_wire (WireHidden key) tensors = map_res HiddenStatePayload (declared_tensor key tensors)"
| "payload_from_wire (WireLogits key) tensors = map_res LogitsPayload (declared_tensor key tensors)"
| "payload_from_wire NoValue tensors = Inl (ProtocolError ''forward message carries no payload'')"

definition message_to_forward_request :: "('x, 'b, 'w) wire_env \<Rightarrow> 'x shard_message \<Rightarrow> 'b forward_wire res" where
  "message_to_forward_request env m =
     bind_res (payload_to_wire (msg_payload m)) (\<lambda>(payload, tensors).
       let tensors' = (case ctx_positions (msg_context m) of
                         None \<Rightarrow> tensors
                       | Some p \<Rightarrow> AList.update TENSOR_KEY_POSITIONS p tensors)
       in bind_res (header_to_wire (msg_header m)) (\<lambda>h.
            bind_res (context_to_wire (msg_context m)) (\<lambda>c.
              Inr \<lparr>fw_header = h, fw_context = c, fw_payload = payload,
                   fw_tensor_bundle = encode_tensors env tensors'\<rparr>)))"

definition message_from_parts :: "('x, 'b, 'w) wire_env \<Rightarrow> wire_header \<Rightarrow> wire_context \<Rightarrow> wire_payload \<Rightarrow> 'b
     \<Rightarrow> 'x shard_message res" where
  "message_from_parts env hw cw pw bundle =
     bind_res (header_from_wire hw) (\<lambda>h.
       then_res (raise_if (protocol_version h \<noteq> PROTOCOL_VERSION) (ProtocolError ''unsupported protocol version''))
         (bind_res (decode_tensors env bundle) (\<lambda>ts.
            let positions = map_of ts TENSOR_KEY_POSITIONS;
                tensors = (map_of ts)(TENSOR_KEY_POSITIONS := None)
            in bind_res (context_from_wire cw positions) (\<lambda>c.
                 bind_res (payload_from_wire pw tensors) (\<lambda>p.
                   Inr \<lparr>msg_header = h, msg_context = c, msg_payload = p\<rparr>)))))"

definition forward_request_to_message :: "('x, 'b, 'w) wire_env \<Rightarrow> 'b forward_wire \<Rightarrow> 'x shard_message res" where
  "forward_request_to_message env w =
     message_from_parts env (fw_header w) (fw_context w) (fw_payload w) (fw_tensor_bundle w)"

definition message_to_forward_reply :: "('x, 'b, 'w) wire_env \<Rightarrow> 'x shard_message \<Rightarrow> 'b forward_wire res" where
  "message_to_forward_reply env m =
     bind_res (payload_to_wire (msg_payload m)) (\<lambda>(payload, tensors).
       let tensors' = (case ctx_positions (msg_context m) of
                         None \<Rightarrow> tensors
                       | Some p \<Rightarrow> AList.update TENSOR_KEY_POSITIONS p tensors)
       in bind_res (header_to_wire (msg_header m)) (\<lambda>h.
            bind_res (context_to_wire (msg_context m)) (\<lambda>c.
              Inr \<lparr>fw_header = h, fw_context = c, fw_payload = payload,
                   fw_tensor_bundle = encode_tensors env tensors'\<rparr>)))"

definition forward_reply_to_message :: "('x, 'b, 'w) wire_env \<Rightarrow> 'b forward_wire \<Rightarrow> 'x shard_message res" where
  "forward_reply_to_message env w =
     message_from_parts env (fw_header w) (fw_context w) (fw_payload w) (fw_tensor_bundle w)"


subsection \<open>The serialized stage boundary\<close>

text \<open>Bytes that do not parse raise the library's \<^verbatim>\<open>DecodeError\<close>.\<close>

definition through_bytes :: "('x, 'b, 'w) wire_env \<Rightarrow> 'b forward_wire \<Rightarrow> 'b forward_wire res" where
  "through_bytes env w =
     (case we_parse env (we_serialize env w) of
        None \<Rightarrow> Inl (RuntimeError ''DecodeError'')
      | Some w' \<Rightarrow> Inr w')"

definition boundary_message ::
    "('x, 'b, 'w) wire_env \<Rightarrow> string \<Rightarrow> string \<Rightarrow> phase \<Rightarrow> int \<Rightarrow> int \<Rightarrow> int \<Rightarrow> 'x exec_context \<Rightarrow> 'x payload
     \<Rightarrow> 'x shard_message" where
  "boundary_message env eid sid ph step src tgt ctx pl =
     \<lparr>msg_header = \<lparr>protocol_version = PROTOCOL_VERSION, execution_id = eid, session_id = sid,
        request_id = we_uuid env sid step src, hdr_phase = ph, hdr_step = step, source_stage = src,
        target_stage = tgt, hdr_logits_mode = FULL\<rparr>,
      msg_context = ctx, msg_payload = pl\<rparr>"

definition boundary_roundtrip ::
    "('x, 'b, 'w) wire_env \<Rightarrow> string \<Rightarrow> 'x shard_message \<Rightarrow> int \<Rightarrow> int \<Rightarrow> 'x shard_message res" where
  "boundary_roundtrip env eid m tgt step =
     bind_res (message_to_forward_request env m) (\<lambda>w.
       bind_res (through_bytes env w) (\<lambda>w'.
         bind_res (forward_request_to_message env w') (\<lambda>restored.
           then_res (validate_forward_message restored
                       \<lparr>exp_execution_id = eid, exp_stage_index = tgt, exp_next_step = step,
                        exp_session_open = True\<rparr>)
             (Inr restored))))"

definition carry_state ::
    "('x, 'b, 'w) wire_env \<Rightarrow> string \<Rightarrow> string \<Rightarrow> phase \<Rightarrow> int \<Rightarrow> int \<Rightarrow> int \<Rightarrow> 'x shard_state \<Rightarrow> 'x shard_state res" where
  "carry_state env eid sid ph step src tgt st =
     bind_res (boundary_roundtrip env eid
                 (boundary_message env eid sid ph step src tgt (ss_context st)
                    (HiddenStatePayload (ss_hidden st))) tgt step) (\<lambda>restored.
       case msg_payload restored of
         HiddenStatePayload t \<Rightarrow> Inr \<lparr>ss_hidden = t, ss_context = msg_context restored\<rparr>
       | _ \<Rightarrow> Inl (ProtocolError ''hidden-state hop restored a non-hidden-state payload''))"

definition carry_token ::
    "('x, 'b, 'w) wire_env \<Rightarrow> string \<Rightarrow> string \<Rightarrow> int \<Rightarrow> int \<Rightarrow> 'x exec_context \<Rightarrow> int res" where
  "carry_token env eid sid step token ctx =
     bind_res (make_token_payload [token]) (\<lambda>pl.
       bind_res (boundary_roundtrip env eid
                   (boundary_message env eid sid DECODE step MASTER_STAGE 0 ctx pl) 0 step) (\<lambda>restored.
         case msg_payload restored of
           TokenPayload ids \<Rightarrow>
             if ids \<noteq> [token] then Inl (ProtocolError ''token hop changed the sampled token'')
             else Inr (hd ids)
         | _ \<Rightarrow> Inl (ProtocolError ''token hop restored a non-token payload'')))"

definition carry_reply ::
    "('x, 'b, 'w) wire_env \<Rightarrow> string \<Rightarrow> string \<Rightarrow> phase \<Rightarrow> int \<Rightarrow> int \<Rightarrow> 'x logits_output \<Rightarrow> 'x logits_output res" where
  "carry_reply env eid sid ph step src out =
     bind_res (message_to_forward_reply env
                 (boundary_message env eid sid ph step src MASTER_STAGE (lo_context out)
                    (LogitsPayload (lo_logits out)))) (\<lambda>w.
       bind_res (through_bytes env w) (\<lambda>w'.
         bind_res (forward_reply_to_message env w') (\<lambda>restored.
           case msg_payload restored of
             LogitsPayload t \<Rightarrow> Inr \<lparr>lo_logits = t, lo_context = msg_context restored\<rparr>
           | _ \<Rightarrow> Inl (ProtocolError ''reply hop restored a non-logits payload''))))"



subsection \<open>What fits the wire\<close>

definition header_in_range :: "message_header \<Rightarrow> bool" where
  "header_in_range h \<longleftrightarrow> int32 (protocol_version h) \<and> int32 (hdr_step h) \<and> int32 (source_stage h)
     \<and> int32 (target_stage h)"

definition context_in_range :: "'x exec_context \<Rightarrow> bool" where
  "context_in_range c \<longleftrightarrow> int32 (ctx_step c) \<and> int32 (ctx_batch_size c)
     \<and> list_all int64 (ctx_sequence_lengths c) \<and> int64 (ctx_past_length c)"

fun payload_in_range :: "'x payload \<Rightarrow> bool" where
  "payload_in_range (TokenPayload ids) = list_all int64 ids"
| "payload_in_range _ = True"

definition message_in_range :: "'x shard_message \<Rightarrow> bool" where
  "message_in_range m \<longleftrightarrow> header_in_range (msg_header m) \<and> context_in_range (msg_context m)
     \<and> payload_in_range (msg_payload m)"

text \<open>A payload the constructor admits: a token payload has a token.\<close>

fun payload_valid :: "'x payload \<Rightarrow> bool" where
  "payload_valid (TokenPayload ids) = (ids \<noteq> [])"
| "payload_valid _ = True"

lemma make_token_payload_valid: "make_token_payload ids = Inr p \<Longrightarrow> payload_valid p"
  by (auto simp: make_token_payload_def split: if_splits)

lemma phase_round_trip [simp]: "wire_to_phase (phase_to_wire ph) = Some ph"
  by (cases ph) (simp_all add: wire_to_phase_def)

lemma logits_mode_round_trip [simp]: "wire_to_logits_mode (logits_mode_to_wire lm) = Some lm"
  by (cases lm) (simp_all add: wire_to_logits_mode_def)

lemma header_round_trip:
  assumes "header_to_wire h = Inr w"
  shows "header_from_wire w = Inr h"
  using assms by (auto simp: header_to_wire_def header_from_wire_def)

lemma context_round_trip:
  assumes "context_to_wire c = Inr w"
  shows "context_from_wire w (ctx_positions c) = Inr c"
  using assms by (auto simp: context_to_wire_def context_from_wire_def)

lemma header_to_wire_ok: "is_ok (header_to_wire h) \<longleftrightarrow> header_in_range h"
  by (simp add: header_to_wire_def header_in_range_def raise_if_def)

lemma context_to_wire_ok: "is_ok (context_to_wire c) \<longleftrightarrow> context_in_range c"
  by (simp add: context_to_wire_def context_in_range_def raise_if_def)

lemma payload_to_wire_ok: "is_ok (payload_to_wire p) \<longleftrightarrow> payload_in_range p"
  by (cases p) (simp_all add: raise_if_def)

lemma tensor_keys_distinct [simp]:
  "TENSOR_KEY_HIDDEN_STATES \<noteq> TENSOR_KEY_POSITIONS" "TENSOR_KEY_POSITIONS \<noteq> TENSOR_KEY_HIDDEN_STATES"
  "TENSOR_KEY_LOGITS \<noteq> TENSOR_KEY_POSITIONS" "TENSOR_KEY_POSITIONS \<noteq> TENSOR_KEY_LOGITS"
  "TENSOR_KEY_HIDDEN_STATES \<noteq> []" "TENSOR_KEY_LOGITS \<noteq> []"
  by (simp_all add: TENSOR_KEY_HIDDEN_STATES_def TENSOR_KEY_POSITIONS_def TENSOR_KEY_LOGITS_def)

lemma payload_tensors:
  assumes "payload_to_wire p = Inr (pw, ts)"
  shows "distinct (map fst ts)" and "map_of ts TENSOR_KEY_POSITIONS = None"
    and "payload_valid p \<Longrightarrow> payload_from_wire pw (map_of ts) = Inr p"
  using assms by (cases p; auto simp: make_token_payload_def declared_tensor_def)+

lemma codec_round_trip:
  assumes "wire_env_ok env" and "distinct (map fst ts)"
  obtains ts' where "decode_tensors env (encode_tensors env ts) = Inr ts'" "map_of ts' = map_of ts"
proof (cases "ts = []")
  case True
  then show ?thesis using that by (simp add: encode_tensors_def decode_tensors_def)
next
  case False
  with assms obtain ts' where "we_save env ts \<noteq> we_empty env" "we_load env (we_save env ts) = Some ts'"
    "map_of ts' = map_of ts"
    unfolding wire_env_ok_def by blast
  with False show ?thesis using that by (simp add: encode_tensors_def decode_tensors_def)
qed

lemma message_to_forward_request_ok:
  "is_ok (message_to_forward_request env m) \<longleftrightarrow> message_in_range m"
proof -
  have "is_ok (message_to_forward_request env m) \<longleftrightarrow>
      is_ok (payload_to_wire (msg_payload m)) \<and> is_ok (header_to_wire (msg_header m))
      \<and> is_ok (context_to_wire (msg_context m))"
    by (auto simp: message_to_forward_request_def bind_res_def Let_def split: sum.splits prod.splits)
  then show ?thesis
    by (auto simp: header_to_wire_ok context_to_wire_ok payload_to_wire_ok message_in_range_def)
qed

lemma reply_is_request: "message_to_forward_reply env m = message_to_forward_request env m"
  by (simp add: message_to_forward_reply_def message_to_forward_request_def)

lemma reply_from_is_request: "forward_reply_to_message env w = forward_request_to_message env w"
  by (simp add: forward_reply_to_message_def forward_request_to_message_def)

lemma request_round_trip:
  assumes env: "wire_env_ok env" and "payload_valid (msg_payload m)"
    and "protocol_version (msg_header m) = PROTOCOL_VERSION"
    and w: "message_to_forward_request env m = Inr w"
  shows "forward_request_to_message env w = Inr m"
proof -
  from w obtain pw ts hw cw where p: "payload_to_wire (msg_payload m) = Inr (pw, ts)"
    and h: "header_to_wire (msg_header m) = Inr hw" and c: "context_to_wire (msg_context m) = Inr cw"
    and w': "w = \<lparr>fw_header = hw, fw_context = cw, fw_payload = pw,
       fw_tensor_bundle = encode_tensors env (case ctx_positions (msg_context m) of
         None \<Rightarrow> ts | Some p \<Rightarrow> AList.update TENSOR_KEY_POSITIONS p ts)\<rparr>"
    by (auto simp: message_to_forward_request_def bind_res_Inr Let_def)
  define ts1 where "ts1 = (case ctx_positions (msg_context m) of
      None \<Rightarrow> ts | Some p \<Rightarrow> AList.update TENSOR_KEY_POSITIONS p ts)"
  note pt = payload_tensors [OF p]
  have "distinct (map fst ts1)"
    using pt(1) by (auto simp: ts1_def distinct_update split: option.splits)
  then obtain ts' where dec: "decode_tensors env (encode_tensors env ts1) = Inr ts'"
    and ts': "map_of ts' = map_of ts1" by (rule codec_round_trip [OF env])
  have pos: "map_of ts1 TENSOR_KEY_POSITIONS = ctx_positions (msg_context m)"
    using pt(2) by (simp add: ts1_def split: option.splits)
  have rest: "(map_of ts1)(TENSOR_KEY_POSITIONS := None) = map_of ts"
    using pt(2) by (auto simp: ts1_def fun_eq_iff split: option.splits)
  show ?thesis
    using header_round_trip [OF h] context_round_trip [OF c] pt(3) assms(2,3)
    by (simp add: w' forward_request_to_message_def message_from_parts_def dec ts' pos rest
        flip: ts1_def)
qed


lemma other_version_refused:
  assumes "protocol_version (msg_header m) \<noteq> PROTOCOL_VERSION" and "message_to_forward_request env m = Inr w"
  shows "forward_request_to_message env w = Inl (ProtocolError ''unsupported protocol version'')"
proof -
  from assms(2) obtain hw where h: "header_to_wire (msg_header m) = Inr hw" "fw_header w = hw"
    by (auto simp: message_to_forward_request_def bind_res_Inr Let_def)
  show ?thesis
    using header_round_trip [OF h(1)] assms(1) h(2) by (simp add: forward_request_to_message_def message_from_parts_def)
qed


subsection \<open>Validation\<close>

lemma validate_forward_message_Inr [res_simps]:
  "validate_forward_message m ex = Inr () \<longleftrightarrow>
     (let h = msg_header m in
        protocol_version h = PROTOCOL_VERSION \<and> session_id h \<noteq> [] \<and> request_id h \<noteq> []
        \<and> execution_id h \<noteq> [] \<and> execution_id h = exp_execution_id ex \<and> exp_session_open ex
        \<and> target_stage h = exp_stage_index ex \<and> source_stage h = exp_stage_index ex - 1
        \<and> 0 \<le> hdr_step h \<and> hdr_phase h = (if hdr_step h = 0 then PREFILL else DECODE)
        \<and> hdr_step h = exp_next_step ex \<and> ctx_phase (msg_context m) = hdr_phase h)"
  by (auto simp: validate_forward_message_def Let_def)

text \<open>[C14] A message whose integers fit the wire fields is encoded, and decoding what was encoded gives
  back the same message when it carries the protocol version of this program; a message of another version
  is encoded too, but refused on decoding. A message with an integer that does not fit is refused by the
  encoder, never truncated. The payload is one the constructors admit.\<close>

theorem mapper_round_trip:
  assumes "wire_env_ok env" and "payload_valid (msg_payload m)"
  shows "if message_in_range m
    then \<exists>w. message_to_forward_request env m = Inr w
      \<and> forward_request_to_message env w = (if protocol_version (msg_header m) = PROTOCOL_VERSION then Inr m
          else Inl (ProtocolError ''unsupported protocol version''))
    else \<exists>e. message_to_forward_request env m = Inl e"
  using message_to_forward_request_ok [of env m] request_round_trip [OF assms] other_version_refused [of m env]
  by (cases "message_to_forward_request env m") auto


text \<open>A stand-in for the libraries, for the witnesses: bytes are the values themselves.\<close>

definition demo_env :: "('x, (string \<times> 'x tensor) list, (string \<times> 'x tensor) list forward_wire) wire_env" where
  "demo_env = \<lparr>we_serialize = id, we_parse = Some, we_empty = [], we_save = id, we_load = Some,
     we_uuid = (\<lambda>_ _ _. ''id'')\<rparr>"

lemma demo_env_ok: "wire_env_ok demo_env"
  by (simp add: wire_env_ok_def demo_env_def)

definition demo_message :: "int \<Rightarrow> nat shard_message" where
  "demo_message step = \<lparr>msg_header = \<lparr>protocol_version = 1, execution_id = ''e'', session_id = ''s'',
       request_id = ''r'', hdr_phase = DECODE, hdr_step = step, source_stage = 0, target_stage = 1,
       hdr_logits_mode = FULL\<rparr>,
     msg_context = \<lparr>ctx_phase = DECODE, ctx_step = 4, ctx_batch_size = 1, ctx_sequence_lengths = [7],
       ctx_past_length = 6, ctx_positions = Some [[Long 6]]\<rparr>,
     msg_payload = HiddenStatePayload [[Feat 5]]\<rparr>"

definition versioned :: "int \<Rightarrow> 'x shard_message \<Rightarrow> 'x shard_message" where
  "versioned v m = m\<lparr>msg_header := (msg_header m)\<lparr>protocol_version := v\<rparr>\<rparr>"

theorem mapper_round_trip_witness:
  "(\<exists>w. message_to_forward_request demo_env (demo_message 3) = Inr w
      \<and> forward_request_to_message demo_env w = Inr (demo_message 3))
   \<and> (\<exists>w. message_to_forward_request demo_env (versioned 2 (demo_message 3)) = Inr w
      \<and> forward_request_to_message demo_env w = Inl (ProtocolError ''unsupported protocol version''))
   \<and> (\<exists>e. message_to_forward_request demo_env (demo_message (2 ^ 31)) = Inl e)"
proof -
  have "message_in_range (demo_message 3)" "message_in_range (versioned 2 (demo_message 3))"
    "\<not> message_in_range (demo_message (2 ^ 31))"
    by (simp_all add: versioned_def demo_message_def message_in_range_def header_in_range_def context_in_range_def
        int32_def int64_def)
  moreover have "payload_valid (msg_payload (demo_message s))" "payload_valid (msg_payload (versioned v (demo_message s)))"
    "protocol_version (msg_header (demo_message s)) = PROTOCOL_VERSION"
    "protocol_version (msg_header (versioned 2 (demo_message s))) \<noteq> PROTOCOL_VERSION" for s v
    by (simp_all add: demo_message_def versioned_def PROTOCOL_VERSION_def)
  ultimately show ?thesis
    using mapper_round_trip [OF demo_env_ok, of "demo_message 3"] mapper_round_trip [OF demo_env_ok, of "versioned 2 (demo_message 3)"]
      mapper_round_trip [OF demo_env_ok, of "demo_message (2 ^ 31)"] by simp
qed

end
