(* ===== verification/Pipeline.thy ===== *)
theory Pipeline
  imports Shard
begin

section \<open>The local pipeline and greedy generation\<close>

text \<open>
  \<^verbatim>\<open>inference/pipeline.py\<close> (\<^verbatim>\<open>LocalPipeline\<close>, \<^verbatim>\<open>_validate_partition\<close>, the \<^verbatim>\<open>StageTransport\<close> port) and
  \<^verbatim>\<open>inference/generation.py\<close> (\<^verbatim>\<open>GenerationDriver\<close>).

  The stages are shard modules that the operations mutate, also when they raise half way: an
  operation returns the stages as it leaves them together with its result or exception.
  \<^verbatim>\<open>argmax\<close> of a logits vector is a parameter.
\<close>


subsection \<open>The transport port and the pipeline\<close>

record 'x transport =
  tr_carry_state :: "string \<Rightarrow> phase \<Rightarrow> int \<Rightarrow> int \<Rightarrow> int \<Rightarrow> 'x shard_state \<Rightarrow> 'x shard_state res"
  tr_carry_token :: "string \<Rightarrow> int \<Rightarrow> int \<Rightarrow> 'x exec_context \<Rightarrow> int res"
  tr_carry_reply :: "string \<Rightarrow> phase \<Rightarrow> int \<Rightarrow> int \<Rightarrow> 'x logits_output \<Rightarrow> 'x logits_output res"

record ('x, 'c, 't) pipeline =
  pl_execution_id :: string
  pl_stages :: "('x, 'c, 't) shard_module list"
  pl_transport :: "'x transport"

definition check_stage ::
    "('x, 'c, 't) shard_module \<Rightarrow> nat \<Rightarrow> nat \<times> ('x, 'c, 't) shard_module \<Rightarrow> unit res" where
  "check_stage first count =
     (\<lambda>(index, shard).
        then_res (raise_if (num_blocks (sm_layout shard) \<noteq> num_blocks (sm_layout first)
                            \<or> lay_model_type (sm_layout shard) \<noteq> lay_model_type (sm_layout first))
                   (PipelineError ''stage belongs to a different model''))
        (then_res (raise_if (index = 0 \<and> \<not> include_input_stage (sm_shard shard))
                   (PipelineError ''first stage must include the input stage''))
        (then_res (raise_if (index = count - 1 \<and> \<not> include_output_stage (sm_shard shard))
                   (PipelineError ''last stage must include the output stage''))
        (then_res (raise_if (index \<noteq> 0 \<and> include_input_stage (sm_shard shard))
                   (PipelineError ''only the first stage may include the input stage''))
        (raise_if (index \<noteq> count - 1 \<and> include_output_stage (sm_shard shard))
                   (PipelineError ''only the last stage may include the output stage''))))))"

definition validate_partition :: "('x, 'c, 't) shard_module list \<Rightarrow> unit res" where
  "validate_partition stages =
     (case stages of
        [] \<Rightarrow> Inl (PipelineError ''pipeline needs at least one stage'')
      | first # _ \<Rightarrow>
          then_res (for_res (check_stage first (length stages)) (enumerate 0 stages))
          (then_res (raise_if (br_start (spec_blocks (sm_shard first)) \<noteq> 0)
                     (PipelineError ''partition must start at block 0''))
          (then_res (raise_if (br_end (spec_blocks (sm_shard (last stages))) \<noteq> num_blocks (sm_layout first))
                     (PipelineError ''partition must end at the last block''))
          (for_res (\<lambda>(previous, current).
               raise_if (br_start (spec_blocks (sm_shard current)) \<noteq> br_end (spec_blocks (sm_shard previous)))
                 (PipelineError ''gap between blocks''))
             (pairwise stages)))))"

definition make_pipeline ::
    "string \<Rightarrow> ('x, 'c, 't) shard_module list \<Rightarrow> 'x transport \<Rightarrow> ('x, 'c, 't) pipeline res" where
  "make_pipeline eid stages tr =
     then_res (validate_partition stages)
       (Inr \<lparr>pl_execution_id = eid, pl_stages = stages, pl_transport = tr\<rparr>)"


subsection \<open>Sessions over all stages\<close>

text \<open>The two loops, over any modules with a create and a close operation.\<close>

fun close_stages ::
    "('m \<Rightarrow> string \<Rightarrow> 'm res) \<Rightarrow> string \<Rightarrow> 'm list \<Rightarrow> 'm list \<times> unit res" where
  "close_stages close sid [] = ([], Inr ())"
| "close_stages close sid (m # ms) =
     (case close m sid of
        Inl e \<Rightarrow> (m # ms, Inl e)
      | Inr m' \<Rightarrow> (let (ms', r) = close_stages close sid ms in (m' # ms', r)))"

fun create_stages ::
    "('m \<Rightarrow> string \<Rightarrow> 'm res) \<Rightarrow> ('m \<Rightarrow> string \<Rightarrow> 'm res) \<Rightarrow> string \<Rightarrow> 'm list \<Rightarrow> 'm list
     \<Rightarrow> 'm list \<times> unit res" where
  "create_stages create close sid created [] = (created, Inr ())"
| "create_stages create close sid created (m # ms) =
     (case create m sid of
        Inr m' \<Rightarrow> create_stages create close sid (created @ [m']) ms
      | Inl e \<Rightarrow> (let (created', r) = close_stages close sid created
                 in (created' @ m # ms, then_res r (Inl e))))"

definition pl_create_session ::
    "('x, 'c, 't) pipeline \<Rightarrow> string \<Rightarrow> ('x, 'c, 't) pipeline \<times> unit res" where
  "pl_create_session p sid =
     (let (stages, r) = create_stages sm_create_session sm_close_session sid [] (pl_stages p) in (p\<lparr>pl_stages := stages\<rparr>, r))"

definition pl_close_session ::
    "('x, 'c, 't) pipeline \<Rightarrow> string \<Rightarrow> ('x, 'c, 't) pipeline \<times> unit res" where
  "pl_close_session p sid =
     (let (stages, r) = close_stages sm_close_session sid (pl_stages p) in (p\<lparr>pl_stages := stages\<rparr>, r))"


subsection \<open>Prefill and decode\<close>

text \<open>The loop over the stages after the first: \<open>carry target state\<close> is the hop into stage
  \<open>target\<close>, \<open>exec\<close> the stage's own prefill or decode on the hidden states that arrive.\<close>

fun run_stages ::
    "(('x, 'c, 't) shard_module \<Rightarrow> 'x tensor \<Rightarrow> (('x, 'c, 't) shard_module \<times> 'x shard_result) res)
     \<Rightarrow> (int \<Rightarrow> 'x shard_state \<Rightarrow> 'x shard_state res) \<Rightarrow> int \<Rightarrow> 'x shard_result
     \<Rightarrow> ('x, 'c, 't) shard_module list \<Rightarrow> ('x, 'c, 't) shard_module list \<times> 'x shard_result res" where
  "run_stages exec carry target result [] = ([], Inr result)"
| "run_stages exec carry target result (m # ms) =
     (case result of
        LogitsResult _ \<Rightarrow> (m # ms, Inl (PipelineError ''non-final stage produced logits''))
      | StateResult st \<Rightarrow>
          (case carry target st of
             Inl e \<Rightarrow> (m # ms, Inl e)
           | Inr st' \<Rightarrow>
               (case exec m (ss_hidden st') of
                  Inl e \<Rightarrow> (m # ms, Inl e)
                | Inr (m', result') \<Rightarrow>
                    (let (ms', r) = run_stages exec carry (target + 1) result' ms in (m' # ms', r)))))"

definition pl_finish ::
    "'x transport \<Rightarrow> string \<Rightarrow> phase \<Rightarrow> int \<Rightarrow> int \<Rightarrow> 'x shard_result res \<Rightarrow> 'x logits_output res" where
  "pl_finish tr sid ph step source r =
     bind_res r (\<lambda>result.
       case result of
         StateResult _ \<Rightarrow> Inl (PipelineError ''final stage produced no logits'')
       | LogitsResult out \<Rightarrow> tr_carry_reply tr sid ph step source out)"

definition pl_prefill ::
    "('x, 'c, 't) pipeline \<Rightarrow> string \<Rightarrow> 'x tensor \<Rightarrow> logits_mode
     \<Rightarrow> ('x, 'c, 't) pipeline \<times> 'x logits_output res" where
  "pl_prefill p sid input_ids mode =
     (case pl_stages p of
        [] \<Rightarrow> (p, Inl (IndexError ''tuple index out of range''))
      | m # ms \<Rightarrow>
          (case sm_prefill m sid (Some input_ids) None mode of
             Inl e \<Rightarrow> (p, Inl e)
           | Inr (m', result) \<Rightarrow>
               (let (ms', r) = run_stages (\<lambda>stage h. sm_prefill stage sid None (Some h) mode)
                      (\<lambda>target st. tr_carry_state (pl_transport p) sid PREFILL 0 (target - 1) target st)
                      1 result ms
                in (p\<lparr>pl_stages := m' # ms'\<rparr>,
                    pl_finish (pl_transport p) sid PREFILL 0 (int (length (m # ms)) - 1) r))))"

definition pl_decode ::
    "('x, 'c, 't) pipeline \<Rightarrow> string \<Rightarrow> int \<Rightarrow> ('x, 'c, 't) pipeline \<times> 'x logits_output res" where
  "pl_decode p sid token_id =
     (case pl_stages p of
        [] \<Rightarrow> (p, Inl (IndexError ''tuple index out of range''))
      | m # ms \<Rightarrow>
          (case sm_session m sid of
             Inl e \<Rightarrow> (p, Inl e)
           | Inr entry \<Rightarrow>
               (let step = sess_step entry;
                    ctx = \<lparr>ctx_phase = DECODE, ctx_step = step, ctx_batch_size = 1,
                           ctx_sequence_lengths = [sequence_length entry],
                           ctx_past_length = sequence_length entry, ctx_positions = None\<rparr>
                in case tr_carry_token (pl_transport p) sid step token_id ctx of
                     Inl e \<Rightarrow> (p, Inl e)
                   | Inr token \<Rightarrow>
                       (case sm_decode m sid (Some token) None of
                          Inl e \<Rightarrow> (p, Inl e)
                        | Inr (m', result) \<Rightarrow>
                            (let (ms', r) = run_stages (\<lambda>stage h. sm_decode stage sid None (Some h))
                                   (\<lambda>target st. tr_carry_state (pl_transport p) sid DECODE step (target - 1) target st)
                                   1 result ms
                             in (p\<lparr>pl_stages := m' # ms'\<rparr>,
                                 pl_finish (pl_transport p) sid DECODE step (int (length (m # ms)) - 1) r))))))"


subsection \<open>Greedy generation\<close>

text \<open>\<^verbatim>\<open>int(output.logits[0, -1].argmax())\<close>.\<close>

definition sample :: "('x cell \<Rightarrow> int) \<Rightarrow> 'x logits_output \<Rightarrow> int res" where
  "sample argmax out =
     (case lo_logits out of
        [] \<Rightarrow> Inl (IndexError ''index 0 is out of bounds'')
      | row # _ \<Rightarrow> if row = [] then Inl (IndexError ''index -1 is out of bounds'')
                    else Inr (argmax (last row)))"

text \<open>\<open>n\<close> further rounds of decode and sample.\<close>

fun decode_rounds ::
    "('x cell \<Rightarrow> int) \<Rightarrow> string \<Rightarrow> nat \<Rightarrow> int \<Rightarrow> ('x, 'c, 't) pipeline
     \<Rightarrow> ('x, 'c, 't) pipeline \<times> int list res" where
  "decode_rounds argmax sid 0 token p = (p, Inr [])"
| "decode_rounds argmax sid (Suc n) token p =
     (case pl_decode p sid token of
        (p', Inl e) \<Rightarrow> (p', Inl e)
      | (p', Inr out) \<Rightarrow>
          (case sample argmax out of
             Inl e \<Rightarrow> (p', Inl e)
           | Inr token' \<Rightarrow>
               (let (p'', r) = decode_rounds argmax sid n token' p'
                in (p'', map_res (\<lambda>ts. token' # ts) r))))"

definition generate ::
    "('x cell \<Rightarrow> int) \<Rightarrow> ('x, 'c, 't) pipeline \<Rightarrow> string \<Rightarrow> 'x tensor \<Rightarrow> int
     \<Rightarrow> ('x, 'c, 't) pipeline \<times> int list res" where
  "generate argmax p sid input_ids max_new_tokens =
     (if max_new_tokens < 0 then (p, Inl (ValueError ''max_new_tokens must be >= 0''))
      else case pl_prefill p sid input_ids LAST_TOKEN of
             (p', Inl e) \<Rightarrow> (p', Inl e)
           | (p', Inr out) \<Rightarrow>
               (case sample argmax out of
                  Inl e \<Rightarrow> (p', Inl e)
                | Inr token \<Rightarrow>
                    (let (p'', r) = decode_rounds argmax sid (nat (max_new_tokens - 1)) token p'
                     in (p'', map_res (\<lambda>ts. take (nat max_new_tokens) (token # ts)) r))))"



lemma length_run_stages: "length (fst (run_stages exec carry target result ms)) = length ms"
  by (induction ms arbitrary: target result)
    (simp_all add: split_beta split: shard_result.splits sum.splits)


subsection \<open>The contract of the transport\<close>

text \<open>A context whose step and batch size are below \<open>small\<close> and whose lengths are below \<open>wide\<close>.\<close>

definition context_below :: "int \<Rightarrow> int \<Rightarrow> 'x exec_context \<Rightarrow> bool" where
  "context_below small wide c \<longleftrightarrow> 0 \<le> ctx_step c \<and> ctx_step c < small
     \<and> 0 \<le> ctx_batch_size c \<and> ctx_batch_size c < small
     \<and> list_all (\<lambda>n. 0 \<le> n \<and> n < wide) (ctx_sequence_lengths c)
     \<and> 0 \<le> ctx_past_length c \<and> ctx_past_length c < wide"

text \<open>What the pipeline relies on: for a session the transport is ready for, a hop that is in order
  (from a stage to the next, phase as the step demands) and in range delivers what was sent.\<close>

locale stage_transport =
  fixes tr :: "'x transport" and ready :: "string \<Rightarrow> bool" and small :: int and wide :: int
  assumes carry_state_same:
      "\<lbrakk>ready sid; 0 \<le> step; step < small; 0 \<le> src; src + 1 < small;
        ph = (if step = 0 then PREFILL else DECODE); ctx_phase (ss_context st) = ph;
        context_below small wide (ss_context st)\<rbrakk>
       \<Longrightarrow> tr_carry_state tr sid ph step src (src + 1) st = Inr st"
    and carry_token_same:
      "\<lbrakk>ready sid; 0 < step; step < small; - wide \<le> token; token < wide; ctx_phase ctx = DECODE;
        context_below small wide ctx\<rbrakk>
       \<Longrightarrow> tr_carry_token tr sid step token ctx = Inr token"
    and carry_reply_same:
      "\<lbrakk>ready sid; 0 \<le> step; step < small; 0 \<le> src; src < small;
        context_below small wide (lo_context out)\<rbrakk>
       \<Longrightarrow> tr_carry_reply tr sid ph step src out = Inr out"


subsection \<open>Sessions over all stages: the rollback\<close>

context session_table
begin

lemma close_stages_created:
  assumes "list_all2 (\<lambda>m m'. create m sid = Inr m') ms ms'"
  shows "close_stages close sid ms' = (ms, Inr ())"
  using assms by (induction rule: list_all2_induct) (simp_all add: close_create)

lemma create_stages_result:
  assumes "list_all2 (\<lambda>m m'. create m sid = Inr m') orig created"
  shows "(\<exists>out. create_stages create close sid created ms = (out, Inr ())
        \<and> list_all2 (\<lambda>m m'. create m sid = Inr m') (orig @ ms) out)
    \<or> (\<exists>e. create_stages create close sid created ms = (orig @ ms, Inl e)
        \<and> (\<exists>m\<in>set ms. lookup m sid \<noteq> None))"
  using assms
proof (induction ms arbitrary: orig created)
  case Nil
  then show ?case by simp
next
  case (Cons m ms)
  show ?case
  proof (cases "create m sid")
    case (Inl e)
    with create_ok [of m sid] close_stages_created [OF Cons.prems] show ?thesis by simp
  next
    case (Inr m')
    with Cons.prems have "list_all2 (\<lambda>m m'. create m sid = Inr m') (orig @ [m]) (created @ [m'])"
      by (simp add: list_all2_appendI)
    from Cons.IH [OF this] Inr show ?thesis by auto
  qed
qed

lemma create_stages_ok:
  assumes "\<forall>m\<in>set ms. lookup m sid = None"
  shows "\<exists>ms'. create_stages create close sid [] ms = (ms', Inr ())
    \<and> list_all2 (\<lambda>m m'. create m sid = Inr m') ms ms'"
  using create_stages_result [of sid "[]" "[]" ms] assms by auto

lemma create_stages_fail:
  assumes "m \<in> set ms" and "lookup m sid \<noteq> None"
  shows "\<exists>e. create_stages create close sid [] ms = (ms, Inl e)"
proof -
  have "\<not> list_all2 (\<lambda>m m'. create m sid = Inr m') ms out" for out
  proof
    assume "list_all2 (\<lambda>m m'. create m sid = Inr m') ms out"
    with assms(1) obtain m' where "create m sid = Inr m'"
      by (auto simp: list_all2_conv_all_nth in_set_conv_nth)
    with create_ok [of m sid] assms(2) show False by simp
  qed
  with create_stages_result [of sid "[]" "[]" ms] show ?thesis by auto
qed

end

lemma pl_create_session_cases:
  "if (\<exists>m\<in>set (pl_stages p). sm_sessions m sid \<noteq> None)
   then \<exists>e. pl_create_session p sid = (p, Inl e)
   else pl_create_session p sid =
     (p\<lparr>pl_stages := map (\<lambda>m. m\<lparr>sm_sessions := (sm_sessions m)(sid \<mapsto>
          \<lparr>sess_id = sid, kv_cache = hf_new_cache (sm_hf m), sequence_length = 0, sess_step = 0\<rparr>)\<rparr>)
        (pl_stages p)\<rparr>, Inr ())"
proof (cases "\<exists>m\<in>set (pl_stages p). sm_sessions m sid \<noteq> None")
  case True
  then obtain e where "create_stages sm_create_session sm_close_session sid [] (pl_stages p) = (pl_stages p, Inl e)"
    using shard_sessions.create_stages_fail [of _ "pl_stages p" sid] by blast
  with True show ?thesis by (simp add: pl_create_session_def)
next
  case False
  let ?new = "\<lambda>m. m\<lparr>sm_sessions := (sm_sessions m)(sid \<mapsto>
          \<lparr>sess_id = sid, kv_cache = hf_new_cache (sm_hf m), sequence_length = 0, sess_step = 0\<rparr>)\<rparr>"
  from False obtain ms' where "create_stages sm_create_session sm_close_session sid [] (pl_stages p) = (ms', Inr ())"
    and ms': "list_all2 (\<lambda>m m'. sm_create_session m sid = Inr m') (pl_stages p) ms'"
    using shard_sessions.create_stages_ok [of "pl_stages p" sid] by auto
  moreover from ms' have "list_all2 (\<lambda>m m'. m' = ?new m) (pl_stages p) ms'"
    by (rule list_all2_mono) (simp add: sm_create_session_def split: if_splits)
  then have "ms' = map ?new (pl_stages p)" by (rule list_all2_eq_mapD)
  ultimately show ?thesis using False by (simp add: pl_create_session_def)
qed

text \<open>[C4] Opening a session on the pipeline is atomic: if no stage knows the identifier it is opened
  fresh on every stage and nothing else changes; if some stage knows it, an exception is raised and
  every stage is left exactly as it was.\<close>

theorem pl_create_session_atomic:
  "if (\<exists>m\<in>set (pl_stages p). sm_sessions m sid \<noteq> None)
   then \<exists>e. pl_create_session p sid = (p, Inl e)
   else pl_create_session p sid =
     (p\<lparr>pl_stages := map (\<lambda>m. m\<lparr>sm_sessions := (sm_sessions m)(sid \<mapsto>
          \<lparr>sess_id = sid, kv_cache = hf_new_cache (sm_hf m), sequence_length = 0, sess_step = 0\<rparr>)\<rparr>)
        (pl_stages p)\<rparr>, Inr ())"
  by (rule pl_create_session_cases)

end
