(* ===== verification/Reference.thy ===== *)
theory Reference
  imports Pipeline
begin

section \<open>The undivided decoder and the stages that implement it\<close>

text \<open>
  The specification the pipeline is compared with: a causal decoder run as one model. A decoder is
  its embedding, layer, norm and head as functions of their own parameters; a layer reads and
  writes its own KV-cache entry. \<open>runs_decoder\<close> says that the Hugging Face module executes such a
  decoder: the backbone runs the retained layers in order, each with the parameters stored under
  its module name and the cache entry of its \<^verbatim>\<open>layer_idx\<close>, then the norm unless it was replaced by
  the identity; \<^verbatim>\<open>get_seq_length\<close> reads the cache entry of layer 0. The decoder itself is a parameter.
\<close>


subsection \<open>The decoder\<close>

record ('x, 'k, 't) decoder =
  dec_embed :: "(string \<rightharpoonup> 't) \<Rightarrow> 'x tensor \<Rightarrow> 'x tensor"
  dec_layer :: "(string \<rightharpoonup> 't) \<Rightarrow> 'k \<Rightarrow> 'x tensor \<Rightarrow> 'x tensor \<Rightarrow> int list \<Rightarrow> 'x tensor \<times> 'k"
  dec_norm :: "(string \<rightharpoonup> 't) \<Rightarrow> 'x tensor \<Rightarrow> 'x tensor"
  dec_head :: "(string \<rightharpoonup> 't) \<Rightarrow> 'x tensor \<Rightarrow> 'x tensor"
  dec_empty :: 'k
  dec_len :: "'k \<Rightarrow> int"

definition shape :: "'x tensor \<Rightarrow> nat list" where
  "shape t = map length t"

text \<open>The parameters under a module name.\<close>

definition params_under :: "(string \<rightharpoonup> 't) \<Rightarrow> string \<Rightarrow> (string \<rightharpoonup> 't)" where
  "params_under ck p s = ck (p @ CHR ''.'' # s)"

definition decoder_ok :: "('x, 'k, 't) decoder \<Rightarrow> bool" where
  "decoder_ok d \<longleftrightarrow>
     (\<forall>p k h pos cp. shape (fst (dec_layer d p k h pos cp)) = shape h
        \<and> dec_len d (snd (dec_layer d p k h pos cp)) = dec_len d k + shape1 h)
     \<and> dec_len d (dec_empty d) = 0
     \<and> (\<forall>p ids. shape (dec_embed d p ids) = shape ids)
     \<and> (\<forall>p h. shape (dec_norm d p h) = shape h)
     \<and> (\<forall>p h. shape (dec_head d p h) = shape h)"

fun run_layers ::
    "('x, 'k, 't) decoder \<Rightarrow> (int \<Rightarrow> string \<rightharpoonup> 't) \<Rightarrow> 'x tensor \<Rightarrow> int list \<Rightarrow> int list
     \<Rightarrow> 'x tensor \<Rightarrow> (int \<Rightarrow> 'k) \<Rightarrow> 'x tensor \<times> (int \<Rightarrow> 'k)" where
  "run_layers d ps pos cp [] h c = (h, c)"
| "run_layers d ps pos cp (i # is) h c =
     (let (h', k) = dec_layer d (ps i) (c i) h pos cp in run_layers d ps pos cp is h' (c(i := k)))"

definition runs_decoder :: "('x, int \<Rightarrow> 'k, 't) hf \<Rightarrow> ('x, 'k, 't) decoder \<Rightarrow> bool" where
  "runs_decoder hf d \<longleftrightarrow>
     (\<forall>m ids. sk_embed (tm_skeleton m) \<longrightarrow>
        hf_embed hf m ids = dec_embed d (params_under (map_of (tm_state m)) std_embedding) ids)
     \<and> (\<forall>m n h pos cp c. sk_layers (tm_skeleton m) = map int [0..<n] \<longrightarrow>
        hf_backbone hf m h pos cp c =
          (let (h', c') = run_layers d (\<lambda>i. params_under (map_of (tm_state m)) (std_block i)) pos cp
                            (map int [0..<n]) h c
           in (if sk_norm (tm_skeleton m)
               then dec_norm d (params_under (map_of (tm_state m)) std_norm) h' else h', c')))
     \<and> (\<forall>m h. sk_head (tm_skeleton m) \<longrightarrow>
        hf_head hf m h = dec_head d (params_under (map_of (tm_state m)) std_head) h)
     \<and> hf_new_cache hf = (\<lambda>_. dec_empty d)
     \<and> (\<forall>c. hf_seq_length hf c = dec_len d (c 0))"


subsection \<open>The reference run\<close>

text \<open>One forward pass of the whole model: \<open>ck\<close> is the checkpoint, \<open>L\<close> the number of blocks, \<open>past\<close> the
  tokens already cached. \<open>ref_tokens\<close> and \<open>ref_generate\<close> are greedy generation with it.\<close>

definition ref_layers ::
    "('x, 'k, 't) decoder \<Rightarrow> (string \<rightharpoonup> 't) \<Rightarrow> int \<Rightarrow> int \<Rightarrow> int \<Rightarrow> 'x tensor \<Rightarrow> (int \<Rightarrow> 'k)
     \<Rightarrow> 'x tensor \<times> (int \<Rightarrow> 'k)" where
  "ref_layers d ck a b past h c =
     run_layers d (\<lambda>i. params_under ck (std_block i)) (step_positions past (shape1 h))
       (arange past (past + shape1 h)) [a..b - 1] h c"

definition ref_logits ::
    "('x, 'k, 't) decoder \<Rightarrow> (string \<rightharpoonup> 't) \<Rightarrow> bool \<Rightarrow> logits_mode \<Rightarrow> 'x tensor \<Rightarrow> 'x tensor" where
  "ref_logits d ck tied mode h =
     (let hn = dec_norm d (params_under ck std_norm) h
      in dec_head d (params_under ck (if tied then std_embedding else std_head))
           (if mode = LAST_TOKEN \<and> shape1 hn > 1 then last_position hn else hn))"

definition ref_step ::
    "('x, 'k, 't) decoder \<Rightarrow> (string \<rightharpoonup> 't) \<Rightarrow> bool \<Rightarrow> int \<Rightarrow> logits_mode \<Rightarrow> 'x tensor \<Rightarrow> int
     \<Rightarrow> (int \<Rightarrow> 'k) \<Rightarrow> 'x tensor \<times> (int \<Rightarrow> 'k)" where
  "ref_step d ck tied L mode ids past c =
     (let (h, c') = ref_layers d ck 0 L past (dec_embed d (params_under ck std_embedding) ids) c
      in (ref_logits d ck tied mode h, c'))"

fun ref_tokens ::
    "('x, 'k, 't) decoder \<Rightarrow> (string \<rightharpoonup> 't) \<Rightarrow> bool \<Rightarrow> int \<Rightarrow> ('x cell \<Rightarrow> int) \<Rightarrow> nat \<Rightarrow> int \<Rightarrow> int
     \<Rightarrow> (int \<Rightarrow> 'k) \<Rightarrow> int list" where
  "ref_tokens d ck tied L argmax 0 token past c = []"
| "ref_tokens d ck tied L argmax (Suc n) token past c =
     (let (lg, c') = ref_step d ck tied L FULL [[Long token]] past c;
          t = argmax (last (hd lg))
      in t # ref_tokens d ck tied L argmax n t (past + 1) c')"

definition ref_generate ::
    "('x, 'k, 't) decoder \<Rightarrow> (string \<rightharpoonup> 't) \<Rightarrow> bool \<Rightarrow> int \<Rightarrow> ('x cell \<Rightarrow> int) \<Rightarrow> 'x tensor \<Rightarrow> nat
     \<Rightarrow> int list" where
  "ref_generate d ck tied L argmax ids n =
     (let (lg, c) = ref_step d ck tied L LAST_TOKEN ids 0 (\<lambda>_. dec_empty d);
          t = argmax (last (hd lg))
      in take n (t # ref_tokens d ck tied L argmax (n - 1) t (shape1 ids) c))"


subsection \<open>Running a range of layers\<close>

lemma shape1_shape: "shape1 t = (case shape t of [] \<Rightarrow> 0 | n # _ \<Rightarrow> int n)"
  by (cases t) (simp_all add: shape1_def shape_def)

lemma shape0_shape: "shape0 t = int (length (shape t))"
  by (simp add: shape0_def shape_def)

lemma run_layers_append:
  "run_layers d ps pos cp (is @ js) h c =
     (let (h', c') = run_layers d ps pos cp is h c in run_layers d ps pos cp js h' c')"
  by (induction "is" arbitrary: h c) (simp_all add: Let_def split: prod.splits)

lemma run_layers_shape:
  assumes "decoder_ok d"
  shows "shape (fst (run_layers d ps pos cp is h c)) = shape h"
proof (induction "is" arbitrary: h c)
  case Nil
  then show ?case by simp
next
  case (Cons i "is")
  have "shape (fst (dec_layer d (ps i) (c i) h pos cp)) = shape h"
    using assms by (simp add: decoder_ok_def)
  with Cons show ?case by (simp add: split_beta)
qed

lemma run_layers_frame:
  "j \<notin> set is \<Longrightarrow> snd (run_layers d ps pos cp is h c) j = c j"
  by (induction "is" arbitrary: h c) (simp_all add: split_beta)

lemma run_layers_len:
  assumes d: "decoder_ok d"
  shows "\<lbrakk>distinct is; j \<in> set is\<rbrakk> \<Longrightarrow>
    dec_len d (snd (run_layers d ps pos cp is h c) j) = dec_len d (c j) + shape1 h"
proof (induction "is" arbitrary: h c)
  case Nil
  then show ?case by simp
next
  case (Cons i "is")
  let ?r = "dec_layer d (ps i) (c i) h pos cp"
  have r: "shape (fst ?r) = shape h" "dec_len d (snd ?r) = dec_len d (c i) + shape1 h"
    using d by (simp_all add: decoder_ok_def)
  then have "shape1 (fst ?r) = shape1 h" by (simp add: shape1_shape)
  with Cons r(2) show ?case
    by (cases "j = i") (simp_all add: split_beta run_layers_frame)
qed

text \<open>A stage's own numbering: layers \<open>is\<close> with the cache and parameters of the layers shifted by \<open>a\<close>.\<close>

lemma run_layers_shift:
  assumes "\<forall>i\<in>set is. qs i = ps (a + i)" and "\<forall>i\<in>S. c i = C (a + i)" and "set is \<subseteq> S"
  shows "fst (run_layers d qs pos cp is h c) = fst (run_layers d ps pos cp (map ((+) a) is) h C)
    \<and> (\<forall>i\<in>S. snd (run_layers d qs pos cp is h c) i
              = snd (run_layers d ps pos cp (map ((+) a) is) h C) (a + i))"
  using assms
proof (induction "is" arbitrary: h c C)
  case Nil
  then show ?case by simp
next
  case (Cons i "is")
  let ?r = "dec_layer d (ps (a + i)) (C (a + i)) h pos cp"
  have upd: "\<forall>j\<in>S. (c(i := snd ?r)) j = (C(a + i := snd ?r)) (a + j)"
    using Cons.prems by simp
  from Cons.prems have rest: "\<forall>j\<in>set is. qs j = ps (a + j)" "set is \<subseteq> S"
    and i: "qs i = ps (a + i)" "c i = C (a + i)" by auto
  from Cons.IH [where h = "fst ?r" and c = "c(i := snd ?r)" and C = "C(a + i := snd ?r)"] rest upd show ?case
    by (simp add: split_beta i del: fun_upd_apply)
qed

lemma shift_upto: "map ((+) a) (map int [0..<n]) = [a..a + int n - 1]"
  by (rule nth_equalityI) simp_all

lemma ref_layers_split:
  assumes "a \<le> b" and "b \<le> e"
  shows "ref_layers d ck a e past h c =
    (let (h', c') = ref_layers d ck a b past h c
     in run_layers d (\<lambda>i. params_under ck (std_block i)) (step_positions past (shape1 h))
          (arange past (past + shape1 h)) [b..e - 1] h' c')"
proof -
  have "[a..e - 1] = [a..b - 1] @ [b..e - 1]"
  proof (cases "b = e")
    case False
    with assms show ?thesis by (intro upto_split1) simp_all
  qed simp
  then show ?thesis by (simp add: ref_layers_def run_layers_append)
qed

lemma ref_layers_compose:
  assumes "decoder_ok d" and "a \<le> b" and "b \<le> e" and "ref_layers d ck a b past h c = (h', c')"
  shows "ref_layers d ck a e past h c = ref_layers d ck b e past h' c'"
proof -
  from run_layers_shape [OF assms(1)] assms(4) have "shape h' = shape h"
    by (metis fst_conv ref_layers_def)
  then have "shape1 h' = shape1 h" by (simp add: shape1_shape)
  then show ?thesis
    by (simp add: ref_layers_split [OF assms(2,3)] assms(4)) (simp add: ref_layers_def)
qed

end
