(* ===== verification/Partition.thy ===== *)
theory Partition
  imports Reference
begin

section \<open>Any valid partition computes the undivided model\<close>

text \<open>
  The stages of a valid partition, built from one checkpoint, advance a session in lockstep and
  together compute what the undivided decoder computes. The transport between stages enters as
  the interface \<open>stage_transport\<close>; the serialized boundary provides it in \<^verbatim>\<open>Boundary\<close>.
\<close>


subsection \<open>A stage built from the checkpoint\<close>

text \<open>The checkpoint as a module of dtype \<open>dt\<close> holds it: every stored tensor converted.\<close>

definition stored_as ::
    "('x, 'c, 't) hf \<Rightarrow> dtype \<Rightarrow> index \<Rightarrow> (string \<Rightarrow> string \<Rightarrow> 't) \<Rightarrow> (string \<rightharpoonup> 't)" where
  "stored_as hf dt idx get_tensor = stored idx (\<lambda>f n. hf_cast hf dt (get_tensor f n))"

text \<open>\<open>stage_holds\<close>: the module runs on the Hugging Face library \<open>hf\<close>, has the skeleton of its shard and
  the parameters of its own blocks and stage modules, as the checkpoint \<open>ck\<close> stores them.\<close>

definition stage_holds ::
    "('x, int \<Rightarrow> 'k, 't) hf \<Rightarrow> (string \<rightharpoonup> 't) \<Rightarrow> bool \<Rightarrow> ('x, int \<Rightarrow> 'k, 't) shard_module \<Rightarrow> bool" where
  "stage_holds hf ck tied m \<longleftrightarrow>
     (let sh = sm_shard m; sk = tm_skeleton (sm_module m); st = map_of (tm_state (sm_module m)) in
        sm_hf m = hf \<and> range_ok (spec_blocks sh)
        \<and> sk_layers sk = map int [0..<nat (block_len (spec_blocks sh))]
        \<and> sk_embed sk = include_input_stage sh
        \<and> sk_norm sk = include_output_stage sh \<and> sk_head sk = include_output_stage sh
        \<and> (\<forall>i. 0 \<le> i \<and> i < block_len (spec_blocks sh) \<longrightarrow>
             params_under st (std_block i) = params_under ck (std_block (br_start (spec_blocks sh) + i)))
        \<and> (include_input_stage sh \<longrightarrow> params_under st std_embedding = params_under ck std_embedding)
        \<and> (include_output_stage sh \<longrightarrow> params_under st std_norm = params_under ck std_norm
             \<and> params_under st std_head = params_under ck (if tied then std_embedding else std_head)))"

lemma inspect_standard:
  assumes "inspect ad cfg = Inr lay"
  shows "standard_layout lay" and "num_blocks lay = cfg_num_hidden_layers cfg"
    and "tied_word_embeddings lay = cfg_tie_word_embeddings cfg" and "lay_model_type lay = ad_model_type ad"
  using assms by (auto simp: inspect_def make_layout_def standard_layout_def split: if_splits)

lemma build_skeleton_Inr:
  assumes "build_skeleton ad cfg sh = Inr sk" and "range_ok (spec_blocks sh)"
  shows "sk = \<lparr>sk_embed = include_input_stage sh,
     sk_layers = map int [0..<nat (block_len (spec_blocks sh))],
     sk_norm = include_output_stage sh, sk_head = include_output_stage sh\<rparr>"
proof -
  from assms obtain kept where kept: "keep_layer_range [0..cfg_num_hidden_layers cfg - 1] (spec_blocks sh) = Inr kept"
    and sk: "sk = \<lparr>sk_embed = include_input_stage sh, sk_layers = map int [0..<length kept],
      sk_norm = include_output_stage sh, sk_head = include_output_stage sh\<rparr>"
    by (auto simp: build_skeleton_def bind_res_Inr)
  have "length kept = nat (block_len (spec_blocks sh))"
    using kept assms(2) by (auto simp: keep_layer_range_def range_ok_def block_len_def split: if_splits)
  with sk show ?thesis by simp
qed

text \<open>Converting the parameters after the load is loading converted tensors.\<close>

lemma update_apsnd: "map (apsnd g) (AList.update k v al) = AList.update k (g v) (map (apsnd g) al)"
  by (induction al) auto

lemma put_tensor_cast:
  "put_tensor lay sh (\<lambda>f n. g (get_tensor f n)) f n (map (apsnd g) st) = map_res (map (apsnd g)) (put_tensor lay sh get_tensor f n st)"
proof -
  have "foldl (\<lambda>acc k. AList.update k (g t) acc) (map (apsnd g) st) ks
      = map (apsnd g) (foldl (\<lambda>acc k. AList.update k t acc) st ks)" for t ks
    by (induction ks arbitrary: st) (simp_all add: update_apsnd [symmetric])
  then show ?thesis by (cases "skeleton_keys lay sh n") (simp_all add: put_tensor_def)
qed

lemma put_tensors_cast:
  "put_tensors lay sh (\<lambda>f n. g (get_tensor f n)) fns (map (apsnd g) st) = map_res (map (apsnd g)) (put_tensors lay sh get_tensor fns st)"
proof (induction lay sh get_tensor fns st rule: put_tensors.induct)
  case (2 lay sh get_tensor f n rest st)
  then show ?case
    by (cases "put_tensor lay sh get_tensor f n st") (simp_all add: put_tensor_cast)
qed simp

lemma load_shard_cast:
  assumes "load_shard expected d lay sh get_tensor = Inr st"
  shows "load_shard expected d lay sh (\<lambda>f n. g (get_tensor f n)) = Inr (map (apsnd g) st)"
proof -
  from assms obtain idx sel where "validate_bounds sh (num_blocks lay) = Inr ()" "index_from_source d = Inr idx"
    "select_shard_tensors lay sh idx = Inr sel" "load_state lay sh get_tensor sel = Inr st" "fst ` set st = set expected"
    by (auto simp: load_shard_def bind_res_Inr split: if_splits)
  moreover from this(4) have "load_state lay sh (\<lambda>f n. g (get_tensor f n)) sel = Inr (map (apsnd g) st)"
    using put_tensors_cast [of lay sh g get_tensor _ "[]"] by (simp add: load_state_def)
  ultimately show ?thesis by (simp add: load_shard_def image_image)
qed

lemma shard_build_Inr:
  assumes "shard_build hf params cfg dir get_tensor dt dev sh = Inr m"
  obtains ad lay sk st where "resolve_adapter_for_source cfg default_registry = Inr ad"
    "inspect ad cfg = Inr lay" "build_skeleton ad cfg sh = Inr sk"
    "load_shard (params sk) dir lay sh get_tensor = Inr st"
    "m = \<lparr>sm_hf = hf, sm_module = \<lparr>tm_skeleton = sk, tm_state = map (apsnd (hf_cast hf dt)) st\<rparr>, sm_layout = lay,
         sm_shard = sh, sm_device = dev, sm_dtype = dt, sm_sessions = Map.empty\<rparr>"
  using assms by (auto simp: shard_build_def module_to_def bind_res_Inr)

lemma shard_build_holds:
  assumes build: "shard_build hf params cfg dir get_tensor dt dev sh = Inr m"
    and rng: "range_ok (spec_blocks sh)" and idx: "index_from_source dir = Inr idx"
  shows "stage_holds hf (stored_as hf dt idx get_tensor) (cfg_tie_word_embeddings cfg) m"
    and "sm_shard m = sh" and "sm_sessions m = Map.empty"
    and "num_blocks (sm_layout m) = cfg_num_hidden_layers cfg"
proof -
  from build obtain ad lay sk st where ad: "inspect ad cfg = Inr lay" "build_skeleton ad cfg sh = Inr sk"
    and load: "load_shard (params sk) dir lay sh get_tensor = Inr st"
    and m: "m = \<lparr>sm_hf = hf, sm_module = \<lparr>tm_skeleton = sk, tm_state = map (apsnd (hf_cast hf dt)) st\<rparr>, sm_layout = lay,
       sm_shard = sh, sm_device = dev, sm_dtype = dt, sm_sessions = Map.empty\<rparr>"
    by (rule shard_build_Inr)
  note lay = inspect_standard [OF ad(1)]
  note sk = build_skeleton_Inr [OF ad(2) rng]
  note load = load_shard_cast [OF load, of "hf_cast hf dt"]
  note views = loaded_block [OF lay(1) rng load idx] loaded_stage [OF lay(1) rng load idx]
  show "stage_holds hf (stored_as hf dt idx get_tensor) (cfg_tie_word_embeddings cfg) m"
    using views rng by (auto simp: stage_holds_def stored_as_def m sk Let_def params_under_def fun_eq_iff lay(3))
  show "sm_shard m = sh" "sm_sessions m = Map.empty"
    "num_blocks (sm_layout m) = cfg_num_hidden_layers cfg" by (simp_all add: m lay(2))
qed


subsection \<open>One stage in lockstep with the reference cache\<close>

definition lockstep ::
    "string \<Rightarrow> (int \<Rightarrow> 'k) \<Rightarrow> int \<Rightarrow> int \<Rightarrow> ('x, int \<Rightarrow> 'k, 't) shard_module \<Rightarrow> bool" where
  "lockstep sid C past step m \<longleftrightarrow>
     (\<exists>s. sm_sessions m sid = Some s \<and> sess_step s = step \<and> sequence_length s = past
        \<and> (\<forall>i. 0 \<le> i \<and> i < block_len (spec_blocks (sm_shard m)) \<longrightarrow>
             kv_cache s i = C (br_start (spec_blocks (sm_shard m)) + i)))"

definition step_context :: "phase \<Rightarrow> int \<Rightarrow> int \<Rightarrow> int \<Rightarrow> int \<Rightarrow> 'x exec_context" where
  "step_context ph step batch past q =
     \<lparr>ctx_phase = ph, ctx_step = step + 1, ctx_batch_size = batch, ctx_sequence_lengths = [past + q],
      ctx_past_length = past, ctx_positions = Some (step_positions past q)\<rparr>"

lemma lockstep_cong:
  assumes "lockstep sid C past step m"
    and "\<And>j. block_contains (spec_blocks (sm_shard m)) j \<Longrightarrow> C' j = C j"
  shows "lockstep sid C' past step m"
  using assms by (auto simp: lockstep_def block_contains_def block_len_def)

lemma stage_backbone:
  assumes d: "decoder_ok d" and hf: "runs_decoder hf d" and m: "stage_holds hf ck tied m"
    and s: "\<forall>i. 0 \<le> i \<and> i < block_len (spec_blocks (sm_shard m)) \<longrightarrow>
             c i = C (br_start (spec_blocks (sm_shard m)) + i)"
    and len: "dec_len d (C (br_start (spec_blocks (sm_shard m)))) = past"
    and ref: "ref_layers d ck (br_start (spec_blocks (sm_shard m))) (br_end (spec_blocks (sm_shard m))) past h C
              = (h', C')"
  shows "\<exists>c'. forward_blocks hf (sm_module m) h (step_positions past (shape1 h)) c
         = (if include_output_stage (sm_shard m) then dec_norm d (params_under ck std_norm) h' else h', c')
       \<and> (\<forall>i. 0 \<le> i \<and> i < block_len (spec_blocks (sm_shard m)) \<longrightarrow>
             c' i = C' (br_start (spec_blocks (sm_shard m)) + i))"
proof -
  let ?a = "br_start (spec_blocks (sm_shard m))" and ?n = "block_len (spec_blocks (sm_shard m))"
  let ?st = "map_of (tm_state (sm_module m))"
  let ?pos = "step_positions past (shape1 h) :: 'a tensor" and ?cp = "arange past (past + shape1 h)"
  from m have n: "0 < ?n" by (simp add: stage_holds_def Let_def range_ok_def block_len_def)
  define r where "r = run_layers d (\<lambda>i. params_under ?st (std_block i)) ?pos ?cp (map int [0..<nat ?n]) h c"
  have "fst r = fst (run_layers d (\<lambda>i. params_under ck (std_block i)) ?pos ?cp
            (map ((+) ?a) (map int [0..<nat ?n])) h C)
    \<and> (\<forall>i\<in>{0..<?n}. snd r i = snd (run_layers d (\<lambda>i. params_under ck (std_block i)) ?pos ?cp
            (map ((+) ?a) (map int [0..<nat ?n])) h C) (?a + i))"
    unfolding r_def by (rule run_layers_shift) (use m s in \<open>auto simp: stage_holds_def Let_def\<close>)
  moreover have "map ((+) ?a) (map int [0..<nat ?n]) = [?a..br_end (spec_blocks (sm_shard m)) - 1]"
    using n by (simp only: shift_upto) (simp add: block_len_def)
  ultimately have r: "fst r = h'" "\<forall>i\<in>{0..<?n}. snd r i = C' (?a + i)"
    using ref by (simp_all add: ref_layers_def)
  from s n len hf have "hf_seq_length hf c = past" by (simp add: runs_decoder_def)
  moreover have "hf_backbone hf (sm_module m) h ?pos ?cp c
      = (if sk_norm (tm_skeleton (sm_module m)) then dec_norm d (params_under ?st std_norm) (fst r) else fst r, snd r)"
    using hf m by (simp add: runs_decoder_def stage_holds_def Let_def r_def split_beta)
  ultimately have "forward_blocks hf (sm_module m) h ?pos c
      = (if include_output_stage (sm_shard m) then dec_norm d (params_under ck std_norm) h' else h', snd r)"
    using m r(1) by (auto simp: forward_blocks_def Let_def stage_holds_def)
  with r(2) show ?thesis by auto
qed


lemma ref_layers_shape:
  assumes "decoder_ok d" and "ref_layers d ck a b past h C = (h', C')"
  shows "shape h' = shape h" and "shape1 h' = shape1 h" and "shape0 h' = shape0 h"
proof -
  show "shape h' = shape h"
    using run_layers_shape [OF assms(1)] assms(2) by (metis fst_conv ref_layers_def)
  then show "shape1 h' = shape1 h" "shape0 h' = shape0 h" by (simp_all add: shape1_shape shape0_shape)
qed

lemma ref_layers_frame:
  assumes "ref_layers d ck a b past h C = (h', C')" and "j < a \<or> b \<le> j"
  shows "C' j = C j"
proof -
  have "j \<notin> set [a..b - 1]" using assms(2) by auto
  from run_layers_frame [OF this] assms(1) show ?thesis by (metis ref_layers_def snd_conv)
qed

lemma ref_layers_len:
  assumes "decoder_ok d" and "ref_layers d ck a b past h C = (h', C')" and "a \<le> j" and "j < b"
  shows "dec_len d (C' j) = dec_len d (C j) + shape1 h"
  using run_layers_len [OF assms(1), of "[a..b - 1]" j] assms(2,3,4)
  by (metis atLeastAtMost_iff distinct_upto ref_layers_def set_upto snd_conv zle_diff1_eq)

text \<open>What a stage is after a step: the same shard of the same checkpoint, its session one step
  further with the reference cache, other sessions untouched.\<close>

definition stepped ::
    "('x, int \<Rightarrow> 'k, 't) hf \<Rightarrow> (string \<rightharpoonup> 't) \<Rightarrow> bool \<Rightarrow> string \<Rightarrow> (int \<Rightarrow> 'k) \<Rightarrow> int \<Rightarrow> int
     \<Rightarrow> ('x, int \<Rightarrow> 'k, 't) shard_module \<Rightarrow> ('x, int \<Rightarrow> 'k, 't) shard_module \<Rightarrow> bool" where
  "stepped hf ck tied sid C past step m m' \<longleftrightarrow>
     sm_shard m' = sm_shard m \<and> sm_layout m' = sm_layout m \<and> stage_holds hf ck tied m'
     \<and> lockstep sid C past step m' \<and> (\<forall>t. t \<noteq> sid \<longrightarrow> sm_sessions m' t = sm_sessions m t)"

lemma stage_advance:
  assumes d: "decoder_ok d" and hf: "runs_decoder hf d" and m: "stage_holds hf ck tied m"
    and s: "sm_sessions m sid = Some s" and lock: "lockstep sid C past step m"
    and len: "dec_len d (C (br_start (spec_blocks (sm_shard m)))) = past"
    and ref: "ref_layers d ck (br_start (spec_blocks (sm_shard m))) (br_end (spec_blocks (sm_shard m))) past h C
              = (h', C')"
  shows "\<exists>m'. sm_advance m sid s h ph mode =
      (m', let ctx = step_context ph step (shape0 h) past (shape1 h) in
           if include_output_stage (sm_shard m)
           then LogitsResult \<lparr>lo_logits = ref_logits d ck tied mode h', lo_context = ctx\<rparr>
           else StateResult \<lparr>ss_hidden = h', ss_context = ctx\<rparr>)
    \<and> stepped hf ck tied sid C' (past + shape1 h) (step + 1) m m'"
proof -
  from lock s have s': "sess_step s = step" "sequence_length s = past"
    "\<forall>i. 0 \<le> i \<and> i < block_len (spec_blocks (sm_shard m)) \<longrightarrow>
       kv_cache s i = C (br_start (spec_blocks (sm_shard m)) + i)" by (auto simp: lockstep_def)
  from stage_backbone [OF d hf m s'(3) len ref] obtain c' where
    fb: "forward_blocks hf (sm_module m) h (step_positions past (shape1 h)) (kv_cache s)
      = (if include_output_stage (sm_shard m) then dec_norm d (params_under ck std_norm) h' else h', c')"
    and c': "\<forall>i. 0 \<le> i \<and> i < block_len (spec_blocks (sm_shard m)) \<longrightarrow>
             c' i = C' (br_start (spec_blocks (sm_shard m)) + i)" by blast
  note sh = ref_layers_shape [OF d ref]
  have norm: "shape0 (dec_norm d p h') = shape0 h" for p
    using d sh(1) by (simp add: decoder_ok_def shape0_shape)
  have head: "include_output_stage (sm_shard m) \<Longrightarrow>
      hf_head hf (sm_module m) x = dec_head d (params_under ck (if tied then std_embedding else std_head)) x" for x
    using hf m by (simp add: runs_decoder_def stage_holds_def Let_def)
  have m': "sm_hf m = hf" using m by (simp add: stage_holds_def Let_def)
  show ?thesis
    unfolding sm_advance_def Let_def s' m' fb prod.case
    using m c' sh(3) s'
    by (auto simp: finalize_def head ref_logits_def Let_def norm step_context_def stepped_def
        stage_holds_def lockstep_def)
qed


subsection \<open>A chain of stages\<close>

fun chain :: "int \<Rightarrow> ('x, 'c, 't) shard_module list \<Rightarrow> int \<Rightarrow> bool" where
  "chain a [] e \<longleftrightarrow> a = e"
| "chain a (m # ms) e \<longleftrightarrow> br_start (spec_blocks (sm_shard m)) = a
     \<and> chain (br_end (spec_blocks (sm_shard m))) ms e"

lemma chain_bounds:
  assumes "chain a ms e" and "\<forall>m\<in>set ms. range_ok (spec_blocks (sm_shard m))"
  shows "a \<le> e" and "\<forall>m\<in>set ms. a \<le> br_start (spec_blocks (sm_shard m)) \<and> br_end (spec_blocks (sm_shard m)) \<le> e"
proof -
  have "a \<le> e \<and> (\<forall>m\<in>set ms. a \<le> br_start (spec_blocks (sm_shard m)) \<and> br_end (spec_blocks (sm_shard m)) \<le> e)"
    using assms
  proof (induction a ms e rule: chain.induct)
    case (2 a m ms e)
    then have "range_ok (spec_blocks (sm_shard m))" "br_start (spec_blocks (sm_shard m)) = a" by simp_all
    moreover from 2 have "br_end (spec_blocks (sm_shard m)) \<le> e
      \<and> (\<forall>n\<in>set ms. br_end (spec_blocks (sm_shard m)) \<le> br_start (spec_blocks (sm_shard n))
           \<and> br_end (spec_blocks (sm_shard n)) \<le> e)" by simp
    ultimately show ?case by (auto simp: range_ok_def)
  qed simp
  then show "a \<le> e"
    "\<forall>m\<in>set ms. a \<le> br_start (spec_blocks (sm_shard m)) \<and> br_end (spec_blocks (sm_shard m)) \<le> e" by auto
qed

lemma stepped_cong:
  assumes "stepped hf ck tied sid C past step m m'"
    and "\<And>j. block_contains (spec_blocks (sm_shard m)) j \<Longrightarrow> C' j = C j"
  shows "stepped hf ck tied sid C' past step m m'"
  using assms by (auto simp: stepped_def intro: lockstep_cong)


text \<open>The stages that have not run yet: they hold the checkpoint, are in lockstep, take no tokens and
  only the last of them produces logits.\<close>

definition pending ::
    "('x, int \<Rightarrow> 'k, 't) hf \<Rightarrow> (string \<rightharpoonup> 't) \<Rightarrow> bool \<Rightarrow> string \<Rightarrow> (int \<Rightarrow> 'k) \<Rightarrow> int \<Rightarrow> int
     \<Rightarrow> ('x, int \<Rightarrow> 'k, 't) shard_module list \<Rightarrow> bool" where
  "pending hf ck tied sid C past step ms \<longleftrightarrow>
     (\<forall>m\<in>set ms. stage_holds hf ck tied m \<and> lockstep sid C past step m)
     \<and> (\<forall>m\<in>set (butlast ms). \<not> include_output_stage (sm_shard m))
     \<and> (ms \<noteq> [] \<longrightarrow> include_output_stage (sm_shard (last ms)))"

lemma pending_range: "pending hf ck tied sid C past step ms \<Longrightarrow> \<forall>m\<in>set ms. range_ok (spec_blocks (sm_shard m))"
  by (simp add: pending_def stage_holds_def Let_def)

lemma pending_tail:
  assumes "pending hf ck tied sid C past step (m # ms)" and "chain b ms e"
    and "\<And>j. b \<le> j \<Longrightarrow> C' j = C j"
  shows "pending hf ck tied sid C' past step ms"
proof -
  from assms(1) have rng: "\<forall>n\<in>set ms. range_ok (spec_blocks (sm_shard n))"
    by (simp add: pending_def stage_holds_def Let_def)
  have "lockstep sid C' past step n" if "n \<in> set ms" for n
  proof (rule lockstep_cong)
    show "lockstep sid C past step n" using that assms(1) by (simp add: pending_def)
    show "\<And>j. block_contains (spec_blocks (sm_shard n)) j \<Longrightarrow> C' j = C j"
      using chain_bounds(2) [OF assms(2) rng] that by (intro assms(3)) (force simp: block_contains_def)
  qed
  with assms(1) show ?thesis by (auto simp: pending_def split: if_splits)
qed

text \<open>The next stage of the chain runs: it steps to the final reference cache, and either it was the
  last and returns the reference logits, or the rest of the chain is ready for its hidden states.\<close>

lemma head_stage:
  assumes d: "decoder_ok d" and hf: "runs_decoder hf d"
    and pend: "pending hf ck tied sid C past step (m # ms)" and chn: "chain a (m # ms) L"
    and len: "\<forall>j. a \<le> j \<and> j < L \<longrightarrow> dec_len d (C j) = past"
    and sh: "shape0 h = batch" "shape1 h = q"
    and ref: "ref_layers d ck a L past h C = (h', C')" and s: "sm_sessions m sid = Some s"
  shows "\<exists>m' h1 C1. sm_advance m sid s h ph mode =
      (m', let ctx = step_context ph step batch past q in
           if ms = [] then LogitsResult \<lparr>lo_logits = ref_logits d ck tied mode h', lo_context = ctx\<rparr>
           else StateResult \<lparr>ss_hidden = h1, ss_context = ctx\<rparr>)
    \<and> stepped hf ck tied sid C' (past + q) (step + 1) m m'
    \<and> (ms \<noteq> [] \<longrightarrow> pending hf ck tied sid C1 past step ms
         \<and> chain (br_end (spec_blocks (sm_shard m))) ms L
         \<and> (\<forall>j. br_end (spec_blocks (sm_shard m)) \<le> j \<and> j < L \<longrightarrow> dec_len d (C1 j) = past)
         \<and> shape0 h1 = batch \<and> shape1 h1 = q
         \<and> ref_layers d ck (br_end (spec_blocks (sm_shard m))) L past h1 C1 = (h', C'))"
proof -
  let ?b = "br_end (spec_blocks (sm_shard m))"
  from pend have hold: "stage_holds hf ck tied m" and lock: "lockstep sid C past step m"
    and rng: "\<forall>n\<in>set (m # ms). range_ok (spec_blocks (sm_shard n))"
    by (auto simp: pending_def stage_holds_def Let_def)
  from chn have a: "br_start (spec_blocks (sm_shard m)) = a" and ch: "chain ?b ms L" by simp_all
  from rng a have ab: "a < ?b" by (simp add: range_ok_def)
  have bL: "?b \<le> L" using chain_bounds(1) [OF ch] rng by simp
  obtain h1 C1 where ref1: "ref_layers d ck a ?b past h C = (h1, C1)" by fastforce
  have comp: "ref_layers d ck ?b L past h1 C1 = (h', C')"
    using ref_layers_compose [OF d _ bL ref1] ab ref by simp
  have "dec_len d (C a) = past" using len ab bL by simp
  from stage_advance [OF d hf hold s lock, of h h1 C1 ph mode] this ref1 a sh
  obtain m' where adv: "sm_advance m sid s h ph mode = (m', let ctx = step_context ph step batch past q in
       if include_output_stage (sm_shard m)
       then LogitsResult \<lparr>lo_logits = ref_logits d ck tied mode h1, lo_context = ctx\<rparr>
       else StateResult \<lparr>ss_hidden = h1, ss_context = ctx\<rparr>)"
    and st: "stepped hf ck tied sid C1 (past + q) (step + 1) m m'" by (auto simp: Let_def)
  note fr1 = ref_layers_frame [OF ref1] and fr2 = ref_layers_frame [OF comp]
  have st': "stepped hf ck tied sid C' (past + q) (step + 1) m m'"
    using fr2 by (intro stepped_cong [OF st]) (simp add: block_contains_def)
  have out: "include_output_stage (sm_shard m) \<longleftrightarrow> ms = []"
    using pend by (cases "ms = []") (simp_all add: pending_def)
  have last: "ms = [] \<Longrightarrow> h1 = h'" using ch ref ref1 by simp
  have "pending hf ck tied sid C1 past step ms" using fr1 by (intro pending_tail [OF pend ch]) simp
  moreover have "\<forall>j. ?b \<le> j \<and> j < L \<longrightarrow> dec_len d (C1 j) = past" using fr1 len ab by simp
  ultimately show ?thesis
    using adv st' out last ch comp ref_layers_shape [OF d ref1] sh
    by (intro exI [of _ m'] exI [of _ h1] exI [of _ C1]) (auto simp: Let_def)
qed

lemma run_stages_reference:
  assumes d: "decoder_ok d" and hf: "runs_decoder hf d"
    and exec: "\<And>m s x. \<lbrakk>sm_sessions m sid = Some s; sess_step s = step; \<not> include_input_stage (sm_shard m)\<rbrakk>
                 \<Longrightarrow> exec m x = Inr (sm_advance m sid s x ph mode)"
    and carry: "\<And>target st. \<lbrakk>ss_context st = step_context ph step batch past q; lo \<le> target; target < hi\<rbrakk>
                 \<Longrightarrow> carry target st = Inr st"
  shows "\<lbrakk>pending hf ck tied sid C past step ms; ms \<noteq> []; chain a ms L;
      \<forall>m\<in>set ms. \<not> include_input_stage (sm_shard m); \<forall>j. a \<le> j \<and> j < L \<longrightarrow> dec_len d (C j) = past;
      shape0 h = batch; shape1 h = q; lo \<le> target; target + int (length ms) \<le> hi;
      ref_layers d ck a L past h C = (h', C')\<rbrakk> \<Longrightarrow>
    \<exists>ms'. run_stages exec carry target (StateResult \<lparr>ss_hidden = h, ss_context = step_context ph step batch past q\<rparr>) ms
      = (ms', Inr (LogitsResult \<lparr>lo_logits = ref_logits d ck tied mode h', lo_context = step_context ph step batch past q\<rparr>))
      \<and> list_all2 (stepped hf ck tied sid C' (past + q) (step + 1)) ms ms'"
proof (induction ms arbitrary: a h C target)
  case Nil
  then show ?case by simp
next
  case (Cons m ms)
  let ?ctx = "step_context ph step batch past q"
  from Cons.prems(1) obtain s where s: "sm_sessions m sid = Some s" "sess_step s = step"
    by (auto simp: pending_def lockstep_def)
  from head_stage [OF d hf Cons.prems(1,3,5,6,7,10) s(1), of ph mode]
  obtain m' h1 C1 where adv: "sm_advance m sid s h ph mode = (m', if ms = []
       then LogitsResult \<lparr>lo_logits = ref_logits d ck tied mode h', lo_context = ?ctx\<rparr>
       else StateResult \<lparr>ss_hidden = h1, ss_context = ?ctx\<rparr>)"
    and st: "stepped hf ck tied sid C' (past + q) (step + 1) m m'"
    and rest: "ms \<noteq> [] \<Longrightarrow> pending hf ck tied sid C1 past step ms
       \<and> chain (br_end (spec_blocks (sm_shard m))) ms L
       \<and> (\<forall>j. br_end (spec_blocks (sm_shard m)) \<le> j \<and> j < L \<longrightarrow> dec_len d (C1 j) = past)
       \<and> shape0 h1 = batch \<and> shape1 h1 = q
       \<and> ref_layers d ck (br_end (spec_blocks (sm_shard m))) L past h1 C1 = (h', C')"
    by (auto simp: Let_def)
  from exec [OF s] Cons.prems(4) adv have ex: "exec m h = Inr (m', if ms = []
       then LogitsResult \<lparr>lo_logits = ref_logits d ck tied mode h', lo_context = ?ctx\<rparr>
       else StateResult \<lparr>ss_hidden = h1, ss_context = ?ctx\<rparr>)" by simp
  have car: "carry target \<lparr>ss_hidden = h, ss_context = ?ctx\<rparr> = Inr \<lparr>ss_hidden = h, ss_context = ?ctx\<rparr>"
    using Cons.prems(8,9) by (intro carry) simp_all
  show ?case
  proof (cases "ms = []")
    case True
    with st show ?thesis by (simp add: car ex)
  next
    case False
    from rest [OF False] Cons.prems(4,8,9) obtain ms' where
      "run_stages exec carry (target + 1) (StateResult \<lparr>ss_hidden = h1, ss_context = ?ctx\<rparr>) ms
        = (ms', Inr (LogitsResult \<lparr>lo_logits = ref_logits d ck tied mode h', lo_context = ?ctx\<rparr>))"
        "list_all2 (stepped hf ck tied sid C' (past + q) (step + 1)) ms ms'"
      using Cons.IH [of C1 "br_end (spec_blocks (sm_shard m))" h1 "target + 1"] False by auto
    with st False show ?thesis by (simp add: car ex)
  qed
qed


subsection \<open>The whole pipeline in lockstep\<close>

definition running ::
    "('x, int \<Rightarrow> 'k, 't) hf \<Rightarrow> ('x, 'k, 't) decoder \<Rightarrow> (string \<rightharpoonup> 't) \<Rightarrow> bool \<Rightarrow> int \<Rightarrow> string
     \<Rightarrow> (int \<Rightarrow> 'k) \<Rightarrow> int \<Rightarrow> int \<Rightarrow> ('x, int \<Rightarrow> 'k, 't) shard_module list \<Rightarrow> bool" where
  "running hf d ck tied L sid C past step ms \<longleftrightarrow>
     ms \<noteq> [] \<and> chain 0 ms L \<and> include_input_stage (sm_shard (hd ms))
     \<and> (\<forall>m\<in>set (tl ms). \<not> include_input_stage (sm_shard m))
     \<and> pending hf ck tied sid C past step ms \<and> (\<forall>j. 0 \<le> j \<and> j < L \<longrightarrow> dec_len d (C j) = past)"

text \<open>Stages that hold the checkpoint and have just opened the session are at the start.\<close>

lemma running_start:
  assumes d: "decoder_ok d" and hf: "runs_decoder hf d" and ne: "ms \<noteq> []" and chn: "chain 0 ms L"
    and hold: "\<forall>m\<in>set ms. stage_holds hf ck tied m"
    and roles: "\<And>i. i < length ms \<Longrightarrow> (include_input_stage (sm_shard (ms ! i)) \<longleftrightarrow> i = 0)
      \<and> (include_output_stage (sm_shard (ms ! i)) \<longleftrightarrow> i = length ms - 1)"
    and fresh: "\<forall>m\<in>set ms. \<exists>s. sm_sessions m sid = Some s \<and> kv_cache s = hf_new_cache (sm_hf m)
      \<and> sequence_length s = 0 \<and> sess_step s = 0"
  shows "running hf d ck tied L sid (\<lambda>_. dec_empty d) 0 0 ms"
proof -
  have "\<forall>m\<in>set (tl ms). \<not> include_input_stage (sm_shard m)"
    using roles by (auto simp: in_set_conv_nth nth_tl)
  moreover have "\<forall>m\<in>set (butlast ms). \<not> include_output_stage (sm_shard m)"
    using roles by (auto simp: in_set_conv_nth nth_butlast)
  moreover have "include_input_stage (sm_shard (hd ms))" "include_output_stage (sm_shard (last ms))"
    using roles [of 0] roles [of "length ms - 1"] ne by (simp_all add: hd_conv_nth last_conv_nth)
  moreover have "lockstep sid (\<lambda>_. dec_empty d) 0 0 m" if "m \<in> set ms" for m
  proof -
    from that hold hf have "hf_new_cache (sm_hf m) = (\<lambda>_. dec_empty d)"
      by (simp add: stage_holds_def Let_def runs_decoder_def)
    with that fresh show ?thesis by (auto simp: lockstep_def)
  qed
  ultimately show ?thesis using ne chn hold d by (simp add: running_def pending_def decoder_ok_def)
qed

lemma chain_stepped:
  "list_all2 (stepped hf ck tied sid C past step) ms ms' \<Longrightarrow> chain a ms' e \<longleftrightarrow> chain a ms e"
  by (induction arbitrary: a rule: list_all2_induct) (auto simp: stepped_def)

lemma running_stepped:
  assumes run: "running hf d ck tied L sid C past step ms" and d: "decoder_ok d"
    and st: "list_all2 (stepped hf ck tied sid C' (past + shape1 h) step') ms ms'"
    and ref: "ref_layers d ck 0 L past h C = (h', C')"
  shows "running hf d ck tied L sid C' (past + shape1 h) step' ms'"
proof -
  have all: "\<forall>m'\<in>set ms'. stage_holds hf ck tied m' \<and> lockstep sid C' (past + shape1 h) step' m'"
    using st by (induction rule: list_all2_induct) (auto simp: stepped_def)
  have shards: "map sm_shard ms' = map sm_shard ms"
    using st by (induction rule: list_all2_induct) (auto simp: stepped_def)
  have bl: "map sm_shard (butlast ms') = map sm_shard (butlast ms)" using shards by (metis map_butlast)
  have tl: "map sm_shard (tl ms') = map sm_shard (tl ms)" using shards by (metis map_tl)
  have "ms' \<noteq> []" "sm_shard (hd ms') = sm_shard (hd ms)" "sm_shard (last ms') = sm_shard (last ms)"
    using shards run by (auto simp: running_def) (metis hd_map last_map list.map_disc_iff)+
  moreover have "\<forall>m\<in>set (butlast ms'). \<not> include_output_stage (sm_shard m)"
    using run bl by (metis (mono_tags, lifting) image_iff list.set_map pending_def running_def)
  moreover have "\<forall>m\<in>set (tl ms'). \<not> include_input_stage (sm_shard m)"
    using run tl by (metis (mono_tags, lifting) image_iff list.set_map running_def)
  moreover have "\<forall>j. 0 \<le> j \<and> j < L \<longrightarrow> dec_len d (C' j) = past + shape1 h"
    using ref_layers_len [OF d ref] run by (simp add: running_def)
  ultimately show ?thesis
    using run all chain_stepped [OF st] by (simp add: running_def pending_def)
qed


lemma pipeline_reference:
  assumes run: "running hf d ck tied L sid C past step (m # ms)"
    and d: "decoder_ok d" and hf: "runs_decoder hf d" and s: "sm_sessions m sid = Some s"
    and exec: "\<And>m s x. \<lbrakk>sm_sessions m sid = Some s; sess_step s = step; \<not> include_input_stage (sm_shard m)\<rbrakk>
                 \<Longrightarrow> exec m x = Inr (sm_advance m sid s x ph mode)"
    and carry: "\<And>target st. \<lbrakk>ss_context st = step_context ph step (shape0 h) past (shape1 h);
                   1 \<le> target; target < int (length (m # ms))\<rbrakk> \<Longrightarrow> carry target st = Inr st"
    and ref: "ref_layers d ck 0 L past h C = (h', C')"
  shows "\<exists>m' result ms'. sm_advance m sid s h ph mode = (m', result)
    \<and> run_stages exec carry 1 result ms = (ms', Inr (LogitsResult
        \<lparr>lo_logits = ref_logits d ck tied mode h', lo_context = step_context ph step (shape0 h) past (shape1 h)\<rparr>))
    \<and> running hf d ck tied L sid C' (past + shape1 h) (step + 1) (m' # ms')"
proof -
  let ?ctx = "step_context ph step (shape0 h) past (shape1 h)"
  from run have pend: "pending hf ck tied sid C past step (m # ms)" and chn: "chain 0 (m # ms) L"
    and inp: "\<forall>n\<in>set ms. \<not> include_input_stage (sm_shard n)"
    and len: "\<forall>j. 0 \<le> j \<and> j < L \<longrightarrow> dec_len d (C j) = past" by (simp_all add: running_def)
  from head_stage [OF d hf pend chn len refl refl ref s, of ph mode]
  obtain m' h1 C1 where adv: "sm_advance m sid s h ph mode = (m', if ms = []
       then LogitsResult \<lparr>lo_logits = ref_logits d ck tied mode h', lo_context = ?ctx\<rparr>
       else StateResult \<lparr>ss_hidden = h1, ss_context = ?ctx\<rparr>)"
    and st: "stepped hf ck tied sid C' (past + shape1 h) (step + 1) m m'"
    and rest: "ms \<noteq> [] \<Longrightarrow> pending hf ck tied sid C1 past step ms
       \<and> chain (br_end (spec_blocks (sm_shard m))) ms L
       \<and> (\<forall>j. br_end (spec_blocks (sm_shard m)) \<le> j \<and> j < L \<longrightarrow> dec_len d (C1 j) = past)
       \<and> shape0 h1 = shape0 h \<and> shape1 h1 = shape1 h
       \<and> ref_layers d ck (br_end (spec_blocks (sm_shard m))) L past h1 C1 = (h', C')"
    by (auto simp: Let_def)
  have "\<exists>ms'. run_stages exec carry 1 (snd (sm_advance m sid s h ph mode)) ms = (ms', Inr (LogitsResult
        \<lparr>lo_logits = ref_logits d ck tied mode h', lo_context = ?ctx\<rparr>))
      \<and> list_all2 (stepped hf ck tied sid C' (past + shape1 h) (step + 1)) ms ms'"
  proof (cases "ms = []")
    case False
    note rest = rest [OF False]
    have "\<exists>ms'. run_stages exec carry 1 (StateResult \<lparr>ss_hidden = h1, ss_context = ?ctx\<rparr>) ms
        = (ms', Inr (LogitsResult \<lparr>lo_logits = ref_logits d ck tied mode h', lo_context = ?ctx\<rparr>))
      \<and> list_all2 (stepped hf ck tied sid C' (past + shape1 h) (step + 1)) ms ms'"
      using rest inp False
      by (intro run_stages_reference [OF d hf exec carry, where a = "br_end (spec_blocks (sm_shard m))" and C = C1 and L = L])
        (simp_all del: order_refl, (rule order_refl)+)
    with False show ?thesis by (simp add: adv)
  qed (simp add: adv)
  then obtain ms' where ms': "run_stages exec carry 1 (snd (sm_advance m sid s h ph mode)) ms = (ms', Inr (LogitsResult
        \<lparr>lo_logits = ref_logits d ck tied mode h', lo_context = ?ctx\<rparr>))"
      "list_all2 (stepped hf ck tied sid C' (past + shape1 h) (step + 1)) ms ms'" by blast
  with st have "list_all2 (stepped hf ck tied sid C' (past + shape1 h) (step + 1)) (m # ms) (m' # ms')" by simp
  from running_stepped [OF run d this ref] ms'(1) adv show ?thesis by auto
qed



subsection \<open>Prefill, decode and generation over a transport\<close>

lemma sm_prefill_entry:
  assumes "sm_sessions m sid = Some s" and "sess_step s = 0" and "include_input_stage (sm_shard m)"
  shows "sm_prefill m sid (Some ids) None mode
    = Inr (sm_advance m sid s (hf_embed (sm_hf m) (sm_module m) ids) PREFILL mode)"
  using assms by (simp add: sm_prefill_def sm_session_def sm_enter_def embed_tokens_def)

lemma sm_prefill_inner:
  assumes "sm_sessions m sid = Some s" and "sess_step s = 0" and "\<not> include_input_stage (sm_shard m)"
  shows "sm_prefill m sid None (Some h) mode = Inr (sm_advance m sid s h PREFILL mode)"
  using assms by (simp add: sm_prefill_def sm_session_def sm_enter_def)

lemma sm_decode_entry:
  assumes "sm_sessions m sid = Some s" and "sess_step s \<noteq> 0" and "include_input_stage (sm_shard m)"
  shows "sm_decode m sid (Some t) None
    = Inr (sm_advance m sid s (hf_embed (sm_hf m) (sm_module m) [[Long t]]) DECODE FULL)"
  using assms by (simp add: sm_decode_def sm_session_def embed_tokens_def)

lemma sm_decode_inner:
  assumes "sm_sessions m sid = Some s" and "sess_step s \<noteq> 0" and "\<not> include_input_stage (sm_shard m)"
  shows "sm_decode m sid None (Some h) = Inr (sm_advance m sid s h DECODE FULL)"
  using assms by (simp add: sm_decode_def sm_session_def)

lemma running_entry:
  assumes "running hf d ck tied L sid C past step ms"
  obtains m ms' s where "ms = m # ms'" "sm_sessions m sid = Some s" "sess_step s = step"
    "sequence_length s = past" "include_input_stage (sm_shard m)" "stage_holds hf ck tied m"
  using assms that by (cases ms) (auto simp: running_def pending_def lockstep_def)

lemma entry_embed:
  assumes "runs_decoder hf d" and "stage_holds hf ck tied m" and "include_input_stage (sm_shard m)"
  shows "hf_embed (sm_hf m) (sm_module m) ids = dec_embed d (params_under ck std_embedding) ids"
  using assms by (simp add: runs_decoder_def stage_holds_def Let_def)

lemma embed_shape:
  assumes "decoder_ok d"
  shows "shape0 (dec_embed d p ids) = shape0 ids" and "shape1 (dec_embed d p ids) = shape1 ids"
  using assms by (simp_all add: decoder_ok_def shape0_shape shape1_shape)

lemma ref_step_row:
  assumes d: "decoder_ok d" and "ref_step d ck tied L mode [row] past C = (lg, C')" and "row \<noteq> []"
  obtains r where "lg = [r]" "r \<noteq> []"
proof -
  let ?h = "dec_embed d (params_under ck std_embedding) [row]"
  from assms(2) obtain h where h: "ref_layers d ck 0 L past ?h C = (h, C')" and lg: "lg = ref_logits d ck tied mode h"
    by (auto simp: ref_step_def split: prod.splits)
  define hn where "hn = dec_norm d (params_under ck std_norm) h"
  have "shape hn = [length row]"
    using d ref_layers_shape(1) [OF d h] by (simp add: hn_def decoder_ok_def) (simp add: shape_def)
  then obtain r0 where hn: "hn = [r0]" "length r0 = length row" by (auto simp: shape_def)
  have "shape lg = shape (if mode = LAST_TOKEN \<and> shape1 hn > 1 then last_position hn else hn)"
    using d by (simp add: lg ref_logits_def Let_def decoder_ok_def flip: hn_def)
  also have "\<dots> = [if mode = LAST_TOKEN \<and> length row > 1 then 1 else length row]"
    using hn by (auto simp: shape_def shape1_def last_position_def)
  finally obtain r where r: "lg = [r]" "length r = (if mode = LAST_TOKEN \<and> length row > 1 then 1 else length row)"
    by (auto simp: shape_def)
  with assms(3) have "r \<noteq> []" by (cases r) (auto split: if_splits)
  with r(1) show ?thesis by (rule that)
qed

context stage_transport
begin

lemma pl_prefill_reference:
  assumes run: "running hf d ck tied L sid C 0 0 (pl_stages p)" and tr: "pl_transport p = tr"
    and d: "decoder_ok d" and hf: "runs_decoder hf d" and rdy: "ready sid"
    and small: "int (length (pl_stages p)) < small" "1 < small" "shape0 ids < small" and wide: "shape1 ids < wide"
    and ref: "ref_step d ck tied L mode ids 0 C = (lg, C')"
  shows "\<exists>ms. pl_prefill p sid ids mode = (p\<lparr>pl_stages := ms\<rparr>,
        Inr \<lparr>lo_logits = lg, lo_context = step_context PREFILL 0 (shape0 ids) 0 (shape1 ids)\<rparr>)
      \<and> running hf d ck tied L sid C' (shape1 ids) 1 ms \<and> length ms = length (pl_stages p)"
proof -
  let ?h = "dec_embed d (params_under ck std_embedding) ids"
  let ?ctx = "step_context PREFILL 0 (shape0 ids) 0 (shape1 ids)"
  from running_entry [OF run] obtain m ms s where ms: "pl_stages p = m # ms" "sm_sessions m sid = Some s"
    "sess_step s = 0" "include_input_stage (sm_shard m)" "stage_holds hf ck tied m" by metis
  have ctx: "context_below small wide ?ctx"
    using small wide by (auto simp: context_below_def step_context_def shape0_def shape1_def split: list.splits)
  obtain h' where h': "ref_layers d ck 0 L 0 ?h C = (h', C')" "lg = ref_logits d ck tied mode h'"
    using ref by (auto simp: ref_step_def split: prod.splits)
  have "\<exists>m' result ms'. sm_advance m sid s ?h PREFILL mode = (m', result)
    \<and> run_stages (\<lambda>stage h. sm_prefill stage sid None (Some h) mode)
        (\<lambda>target st. tr_carry_state tr sid PREFILL 0 (target - 1) target st) 1 result ms
      = (ms', Inr (LogitsResult \<lparr>lo_logits = ref_logits d ck tied mode h',
           lo_context = step_context PREFILL 0 (shape0 ?h) 0 (shape1 ?h)\<rparr>))
    \<and> running hf d ck tied L sid C' (0 + shape1 ?h) (0 + 1) (m' # ms')"
  proof (rule pipeline_reference [OF _ d hf ms(2) _ _ h'(1)])
    show "running hf d ck tied L sid C 0 0 (m # ms)" using run ms(1) by simp
    show "sm_prefill stage sid None (Some h) mode = Inr (sm_advance stage sid s h PREFILL mode)"
      if "sm_sessions stage sid = Some s" "sess_step s = 0" "\<not> include_input_stage (sm_shard stage)" for stage s h
      using that by (rule sm_prefill_inner)
    show "tr_carry_state tr sid PREFILL 0 (target - 1) target st = Inr st"
      if "ss_context st = step_context PREFILL 0 (shape0 ?h) 0 (shape1 ?h)" "1 \<le> target"
        "target < int (length (m # ms))" for target st
      using carry_state_same [of sid 0 "target - 1" PREFILL st] that ctx rdy small ms(1)
      by (simp add: embed_shape [OF d] step_context_def)
  qed
  then obtain m' result ms' where r: "sm_advance m sid s ?h PREFILL mode = (m', result)"
    "run_stages (\<lambda>stage h. sm_prefill stage sid None (Some h) mode)
        (\<lambda>target st. tr_carry_state tr sid PREFILL 0 (target - 1) target st) 1 result ms
      = (ms', Inr (LogitsResult \<lparr>lo_logits = lg, lo_context = ?ctx\<rparr>))"
    "running hf d ck tied L sid C' (shape1 ids) 1 (m' # ms')"
    by (auto simp: embed_shape [OF d] h'(2))
  have "tr_carry_reply tr sid PREFILL 0 (int (length (m # ms)) - 1) \<lparr>lo_logits = lg, lo_context = ?ctx\<rparr>
      = Inr \<lparr>lo_logits = lg, lo_context = ?ctx\<rparr>"
    using small ms(1) by (intro carry_reply_same [OF rdy]) (simp_all add: ctx)
  moreover have "length ms' = length ms" using arg_cong [OF r(2), of "\<lambda>x. length (fst x)"]
    by (simp add: length_run_stages)
  ultimately show ?thesis
    using r by (intro exI [of _ "m' # ms'"]) (simp add: pl_prefill_def ms(1) sm_prefill_entry [OF ms(2,3,4)]
        entry_embed [OF hf ms(5,4)] pl_finish_def tr)
qed

lemma pl_decode_reference:
  assumes run: "running hf d ck tied L sid C past step (pl_stages p)" and tr: "pl_transport p = tr"
    and d: "decoder_ok d" and hf: "runs_decoder hf d" and rdy: "ready sid" and step: "0 < step" "0 \<le> past"
    and small: "int (length (pl_stages p)) < small" "step + 1 < small" and wide: "past + 1 < wide"
    and token: "- wide \<le> token" "token < wide"
    and ref: "ref_step d ck tied L FULL [[Long token]] past C = (lg, C')"
  shows "\<exists>ms. pl_decode p sid token = (p\<lparr>pl_stages := ms\<rparr>,
        Inr \<lparr>lo_logits = lg, lo_context = step_context DECODE step 1 past 1\<rparr>)
      \<and> running hf d ck tied L sid C' (past + 1) (step + 1) ms \<and> length ms = length (pl_stages p)"
proof -
  let ?h = "dec_embed d (params_under ck std_embedding) [[Long token]]"
  let ?ctx = "step_context DECODE step 1 past 1"
  from running_entry [OF run] obtain m ms s where ms: "pl_stages p = m # ms" "sm_sessions m sid = Some s"
    "sess_step s = step" "include_input_stage (sm_shard m)" "stage_holds hf ck tied m" "sequence_length s = past"
    by metis
  have sh: "shape0 ?h = 1" "shape1 ?h = 1"
    by (simp_all only: embed_shape [OF d]) (simp_all add: shape0_def shape1_def)
  have ctx: "context_below small wide ?ctx" using small wide step by (simp add: context_below_def step_context_def)
  obtain h' where h': "ref_layers d ck 0 L past ?h C = (h', C')" "lg = ref_logits d ck tied FULL h'"
    using ref by (auto simp: ref_step_def split: prod.splits)
  have "\<exists>m' result ms'. sm_advance m sid s ?h DECODE FULL = (m', result)
    \<and> run_stages (\<lambda>stage h. sm_decode stage sid None (Some h))
        (\<lambda>target st. tr_carry_state tr sid DECODE step (target - 1) target st) 1 result ms
      = (ms', Inr (LogitsResult \<lparr>lo_logits = ref_logits d ck tied FULL h',
           lo_context = step_context DECODE step (shape0 ?h) past (shape1 ?h)\<rparr>))
    \<and> running hf d ck tied L sid C' (past + shape1 ?h) (step + 1) (m' # ms')"
  proof (rule pipeline_reference [OF _ d hf ms(2) _ _ h'(1)])
    show "running hf d ck tied L sid C past step (m # ms)" using run ms(1) by simp
    show "sm_decode stage sid None (Some h) = Inr (sm_advance stage sid s h DECODE FULL)"
      if "sm_sessions stage sid = Some s" "sess_step s = step" "\<not> include_input_stage (sm_shard stage)" for stage s h
      using that step by (intro sm_decode_inner) simp_all
    show "tr_carry_state tr sid DECODE step (target - 1) target st = Inr st"
      if "ss_context st = step_context DECODE step (shape0 ?h) past (shape1 ?h)" "1 \<le> target"
        "target < int (length (m # ms))" for target st
      using carry_state_same [of sid step "target - 1" DECODE st] that ctx rdy small step ms(1)
      by (simp add: sh step_context_def)
  qed
  then obtain m' result ms' where r: "sm_advance m sid s ?h DECODE FULL = (m', result)"
    "run_stages (\<lambda>stage h. sm_decode stage sid None (Some h))
        (\<lambda>target st. tr_carry_state tr sid DECODE step (target - 1) target st) 1 result ms
      = (ms', Inr (LogitsResult \<lparr>lo_logits = lg, lo_context = ?ctx\<rparr>))"
    "running hf d ck tied L sid C' (past + 1) (step + 1) (m' # ms')"
    by (auto simp: sh h'(2))
  have "tr_carry_reply tr sid DECODE step (int (length (m # ms)) - 1) \<lparr>lo_logits = lg, lo_context = ?ctx\<rparr>
      = Inr \<lparr>lo_logits = lg, lo_context = ?ctx\<rparr>"
    using small step ms(1) by (intro carry_reply_same [OF rdy]) (simp_all add: ctx)
  moreover have "tr_carry_token tr sid step token \<lparr>ctx_phase = DECODE, ctx_step = step, ctx_batch_size = 1,
      ctx_sequence_lengths = [past], ctx_past_length = past, ctx_positions = None\<rparr> = Inr token"
    using small step wide token by (intro carry_token_same [OF rdy]) (simp_all add: context_below_def)
  moreover have "length ms' = length ms" using arg_cong [OF r(2), of "\<lambda>x. length (fst x)"]
    by (simp add: length_run_stages)
  moreover have "sess_step s \<noteq> 0" using ms(3) step by simp
  note dec = sm_decode_entry [OF ms(2) this ms(4)]
  ultimately show ?thesis
    using r ms(3,6) by (intro exI [of _ "m' # ms'"]) (simp add: pl_decode_def ms(1,2) sm_session_def dec
        entry_embed [OF hf ms(5,4)] pl_finish_def tr Let_def)
qed

lemma decode_rounds_reference:
  assumes d: "decoder_ok d" and hf: "runs_decoder hf d" and rdy: "ready sid"
    and argmax: "\<forall>x. - wide \<le> argmax x \<and> argmax x < wide"
  shows "\<lbrakk>running hf d ck tied L sid C past step (pl_stages p); pl_transport p = tr; 0 < step; 0 \<le> past;
      int (length (pl_stages p)) < small; step + int n < small; past + int n < wide;
      - wide \<le> token; token < wide\<rbrakk>
    \<Longrightarrow> \<exists>p'. decode_rounds argmax sid n token p = (p', Inr (ref_tokens d ck tied L argmax n token past C))"
proof (induction n arbitrary: token past step C p)
  case 0
  then show ?case by simp
next
  case (Suc n)
  obtain lg C' where ref: "ref_step d ck tied L FULL [[Long token]] past C = (lg, C')" by fastforce
  from pl_decode_reference [OF Suc.prems(1,2) d hf rdy Suc.prems(3,4,5) _ _ Suc.prems(8,9) ref] Suc.prems(6,7)
  obtain ms where dec: "pl_decode p sid token = (p\<lparr>pl_stages := ms\<rparr>,
        Inr \<lparr>lo_logits = lg, lo_context = step_context DECODE step 1 past 1\<rparr>)"
    and run: "running hf d ck tied L sid C' (past + 1) (step + 1) ms" "length ms = length (pl_stages p)"
    by auto
  from ref_step_row [OF d ref] obtain r where lg: "lg = [r]" "r \<noteq> []" by auto
  let ?t = "argmax (last r)"
  from Suc.IH [of C' "past + 1" "step + 1" "p\<lparr>pl_stages := ms\<rparr>" ?t] run Suc.prems argmax
  obtain p' where "decode_rounds argmax sid n ?t (p\<lparr>pl_stages := ms\<rparr>)
      = (p', Inr (ref_tokens d ck tied L argmax n ?t (past + 1) C'))" by auto
  with dec lg show ?case by (simp add: sample_def ref Let_def)
qed

lemma generate_reference:
  assumes d: "decoder_ok d" and hf: "runs_decoder hf d" and rdy: "ready sid"
    and argmax: "\<forall>x. - wide \<le> argmax x \<and> argmax x < wide"
    and run: "running hf d ck tied L sid (\<lambda>_. dec_empty d) 0 0 (pl_stages p)" and tr: "pl_transport p = tr"
    and row: "row \<noteq> []" and n: "0 \<le> n"
    and small: "int (length (pl_stages p)) < small" "n + 1 < small" and wide: "int (length row) + n < wide"
  shows "\<exists>p'. generate argmax p sid [row] n = (p', Inr (ref_generate d ck tied L argmax [row] (nat n)))"
proof -
  obtain lg C where ref: "ref_step d ck tied L LAST_TOKEN [row] 0 (\<lambda>_. dec_empty d) = (lg, C)" by fastforce
  have q: "shape1 [row] = int (length row)" "shape0 [row] = 1" by (simp_all add: shape1_def shape0_def)
  from pl_prefill_reference [OF run tr d hf rdy small(1) _ _ _ ref] small n wide q
  obtain ms ctx where pre: "pl_prefill p sid [row] LAST_TOKEN = (p\<lparr>pl_stages := ms\<rparr>,
        Inr \<lparr>lo_logits = lg, lo_context = ctx\<rparr>)"
    and ms: "running hf d ck tied L sid C (int (length row)) 1 ms" "length ms = length (pl_stages p)" by auto
  from ref_step_row [OF d ref row] obtain r where lg: "lg = [r]" "r \<noteq> []" by auto
  let ?t = "argmax (last r)"
  have "int (nat (n - 1)) \<le> n" using n by simp
  with decode_rounds_reference [OF d hf rdy argmax, of ck tied L C "int (length row)" 1 "p\<lparr>pl_stages := ms\<rparr>"
      "nat (n - 1)" ?t] ms tr small wide argmax
  obtain p' where "decode_rounds argmax sid (nat (n - 1)) ?t (p\<lparr>pl_stages := ms\<rparr>)
      = (p', Inr (ref_tokens d ck tied L argmax (nat (n - 1)) ?t (int (length row)) C))" by (auto simp del: int_nat_eq)
  moreover have "nat n - 1 = nat (n - 1)" by simp
  ultimately show ?thesis
    using n lg by (simp add: generate_def pre sample_def ref_generate_def ref q Let_def)
qed

end

end
