(* ===== verification/Boundary.thy ===== *)
theory Boundary
  imports Wire Partition
begin

section \<open>The serialized pipeline from checkpoint to tokens\<close>

text \<open>
  \<^verbatim>\<open>SerializedStageBoundary\<close> provides the transport contract of the pipeline; with it, the pipeline
  built from a checkpoint over any valid partition generates the tokens of the undivided model.
\<close>


subsection \<open>The serialized boundary is a stage transport\<close>

definition serialized_boundary :: "('x, 'b, 'w) wire_env \<Rightarrow> string \<Rightarrow> 'x transport" where
  "serialized_boundary env eid =
     \<lparr>tr_carry_state = carry_state env eid, tr_carry_token = carry_token env eid,
      tr_carry_reply = carry_reply env eid\<rparr>"

definition boundary_ready :: "('x, 'b, 'w) wire_env \<Rightarrow> string \<Rightarrow> string \<Rightarrow> bool" where
  "boundary_ready env eid sid \<longleftrightarrow> wire_env_ok env \<and> eid \<noteq> [] \<and> sid \<noteq> []"

lemma context_below_in_range: "context_below (2 ^ 31) (2 ^ 63) c \<Longrightarrow> context_in_range c"
  by (auto simp: context_below_def context_in_range_def int32_def int64_def list_all_iff)

lemma through_bytes_same: "wire_env_ok env \<Longrightarrow> through_bytes env w = Inr w"
  by (simp add: through_bytes_def wire_env_ok_def)

lemma encode_message:
  assumes "wire_env_ok env" and "payload_valid (msg_payload m)"
    and "protocol_version (msg_header m) = PROTOCOL_VERSION" and "message_in_range m"
  obtains w where "message_to_forward_request env m = Inr w" "forward_request_to_message env w = Inr m"
proof (cases "message_to_forward_request env m")
  case (Inl e)
  with message_to_forward_request_ok [of env m] assms(4) show ?thesis by simp
next
  case (Inr w)
  then show ?thesis using request_round_trip [OF assms(1-3) Inr] by (rule that)
qed

lemma boundary_roundtrip_same:
  assumes "boundary_ready env eid sid" and "payload_valid pl" and "payload_in_range pl"
    and "0 \<le> step" and "step < 2 ^ 31" and "- 1 \<le> src" and "src + 1 < 2 ^ 31"
    and "ph = (if step = 0 then PREFILL else DECODE)" and "ctx_phase ctx = ph" and "context_in_range ctx"
  shows "boundary_roundtrip env eid (boundary_message env eid sid ph step src (src + 1) ctx pl) (src + 1) step
    = Inr (boundary_message env eid sid ph step src (src + 1) ctx pl)"
proof -
  let ?m = "boundary_message env eid sid ph step src (src + 1) ctx pl"
  from assms(1) have env: "wire_env_ok env" by (simp add: boundary_ready_def)
  have "message_in_range ?m"
    using assms by (simp add: message_in_range_def boundary_message_def header_in_range_def int32_def
        PROTOCOL_VERSION_def)
  then obtain w where "message_to_forward_request env ?m = Inr w" "forward_request_to_message env w = Inr ?m"
    using encode_message [OF env, of ?m] assms(2) by (auto simp: boundary_message_def)
  moreover have "validate_forward_message ?m \<lparr>exp_execution_id = eid, exp_stage_index = src + 1,
      exp_next_step = step, exp_session_open = True\<rparr> = Inr ()"
    using assms env by (auto simp: validate_forward_message_Inr boundary_message_def boundary_ready_def wire_env_ok_def)
  ultimately show ?thesis by (simp add: boundary_roundtrip_def through_bytes_same [OF env])
qed

interpretation boundary: stage_transport "serialized_boundary env eid" "boundary_ready env eid" "2 ^ 31" "2 ^ 63"
  for env :: "('x, 'b, 'w) wire_env" and eid :: string
proof
  fix sid and step src :: int and ph and st :: "'x shard_state"
  assume "boundary_ready env eid sid" "0 \<le> step" "step < 2 ^ 31" "0 \<le> src" "src + 1 < 2 ^ 31"
    "ph = (if step = 0 then PREFILL else DECODE)" "ctx_phase (ss_context st) = ph"
    "context_below (2 ^ 31) (2 ^ 63) (ss_context st)"
  then have "boundary_roundtrip env eid (boundary_message env eid sid ph step src (src + 1) (ss_context st)
        (HiddenStatePayload (ss_hidden st))) (src + 1) step
      = Inr (boundary_message env eid sid ph step src (src + 1) (ss_context st) (HiddenStatePayload (ss_hidden st)))"
    by (intro boundary_roundtrip_same context_below_in_range) simp_all
  then show "tr_carry_state (serialized_boundary env eid) sid ph step src (src + 1) st = Inr st"
    by (simp add: serialized_boundary_def carry_state_def boundary_message_def)
next
  fix sid and step token :: int and ctx :: "'x exec_context"
  assume "boundary_ready env eid sid" "0 < step" "step < 2 ^ 31" "- (2 ^ 63) \<le> token" "token < 2 ^ 63"
    "ctx_phase ctx = DECODE" "context_below (2 ^ 31) (2 ^ 63) ctx"
  then have "boundary_roundtrip env eid (boundary_message env eid sid DECODE step (- 1) (- 1 + 1) ctx
        (TokenPayload [token])) (- 1 + 1) step
      = Inr (boundary_message env eid sid DECODE step (- 1) (- 1 + 1) ctx (TokenPayload [token]))"
    by (intro boundary_roundtrip_same context_below_in_range) (simp_all add: int64_def)
  then show "tr_carry_token (serialized_boundary env eid) sid step token ctx = Inr token"
    by (simp add: serialized_boundary_def carry_token_def make_token_payload_def MASTER_STAGE_def boundary_message_def)
next
  fix sid and step src :: int and ph and out :: "'x logits_output"
  assume a: "boundary_ready env eid sid" "0 \<le> step" "step < 2 ^ 31" "0 \<le> src" "src < 2 ^ 31"
    "context_below (2 ^ 31) (2 ^ 63) (lo_context out)"
  let ?m = "boundary_message env eid sid ph step src MASTER_STAGE (lo_context out) (LogitsPayload (lo_logits out))"
  from a(1) have env: "wire_env_ok env" by (simp add: boundary_ready_def)
  have "message_in_range ?m"
    using a context_below_in_range [OF a(6)] by (simp add: message_in_range_def boundary_message_def
        header_in_range_def int32_def PROTOCOL_VERSION_def MASTER_STAGE_def)
  then obtain w where "message_to_forward_request env ?m = Inr w" "forward_request_to_message env w = Inr ?m"
    using encode_message [OF env, of ?m] by (auto simp: boundary_message_def)
  then show "tr_carry_reply (serialized_boundary env eid) sid ph step src out = Inr out"
    by (simp add: serialized_boundary_def carry_reply_def reply_is_request reply_from_is_request
        through_bytes_same [OF env]) (simp add: boundary_message_def)
qed



subsection \<open>Valid partitions\<close>

lemma chain_concat:
  assumes "\<forall>m\<in>set ms. range_ok (spec_blocks (sm_shard m))"
  shows "chain a ms e \<longleftrightarrow> a \<le> e \<and> concat (map (\<lambda>m. block_indices (spec_blocks (sm_shard m))) ms) = [a..e - 1]"
  using assms
proof (induction ms arbitrary: a)
  case Nil
  then show ?case by auto
next
  case (Cons m ms)
  let ?s = "br_start (spec_blocks (sm_shard m))" and ?b = "br_end (spec_blocks (sm_shard m))"
  from Cons.prems have sb: "?s < ?b" by (simp add: range_ok_def)
  have "[?s..?b - 1] @ xs = [a..e - 1] \<longleftrightarrow> ?s = a \<and> ?b \<le> e \<and> xs = [?b..e - 1]" (is "?l \<longleftrightarrow> ?r") for xs
  proof
    assume l: ?l
    have "a \<le> e - 1" using l sb by (cases "a \<le> e - 1") auto
    with l sb have s: "?s = a" by (metis (no_types, lifting) append_Cons list.inject upto_rec1 zle_diff1_eq)
    have "?b - 1 \<in> set ([?s..?b - 1] @ xs)" using sb by simp
    then have be: "?b \<le> e" using l by simp
    then have "[a..e - 1] = [?s..?b - 1] @ [?b..e - 1]"
      using s sb by (cases "?b = e") (simp_all add: upto_split1 [of a ?b "e - 1"])
    with l s be show ?r by simp
  next
    assume r: ?r
    then have "[a..e - 1] = [?s..?b - 1] @ [?b..e - 1]"
      using sb by (cases "?b = e") (simp_all add: upto_split1 [of a ?b "e - 1"])
    with r show ?l by simp
  qed
  with Cons sb show ?case by (auto simp: block_indices_def)
qed

lemma pairwise_chain:
  "chain (br_start (spec_blocks (sm_shard m))) (m # ms) e \<longleftrightarrow>
     br_end (spec_blocks (sm_shard (last (m # ms)))) = e
     \<and> (\<forall>(x, y)\<in>set (pairwise (m # ms)). br_start (spec_blocks (sm_shard y)) = br_end (spec_blocks (sm_shard x)))"
proof (induction ms arbitrary: m)
  case Nil
  then show ?case by simp
next
  case (Cons n ms)
  have "chain b (n # ms) e \<longleftrightarrow> b = br_start (spec_blocks (sm_shard n)) \<and> chain b (n # ms) e" for b by auto
  with Cons [of n] show ?case by (auto simp: eq_commute)
qed

lemma enumerate_all: "(\<forall>x\<in>set (enumerate 0 xs). P x) \<longleftrightarrow> (\<forall>i<length xs. P (i, xs ! i))"
  by (simp add: all_set_conv_all_nth nth_enumerate_eq)

lemma validate_partition_nth:
  assumes "stages \<noteq> []"
  shows "validate_partition stages = Inr () \<longleftrightarrow>
    (\<forall>i<length stages.
        num_blocks (sm_layout (stages ! i)) = num_blocks (sm_layout (hd stages))
        \<and> lay_model_type (sm_layout (stages ! i)) = lay_model_type (sm_layout (hd stages))
        \<and> (include_input_stage (sm_shard (stages ! i)) \<longleftrightarrow> i = 0)
        \<and> (include_output_stage (sm_shard (stages ! i)) \<longleftrightarrow> i = length stages - 1))
    \<and> chain 0 stages (num_blocks (sm_layout (hd stages)))"
proof -
  obtain m ms where st: "stages = m # ms" using assms by (cases stages) auto
  have chk: "(\<forall>x\<in>set (enumerate 0 stages). check_stage m (length stages) x = Inr ()) \<longleftrightarrow>
    (\<forall>i<length stages.
        num_blocks (sm_layout (stages ! i)) = num_blocks (sm_layout (hd stages))
        \<and> lay_model_type (sm_layout (stages ! i)) = lay_model_type (sm_layout (hd stages))
        \<and> (include_input_stage (sm_shard (stages ! i)) \<longleftrightarrow> i = 0)
        \<and> (include_output_stage (sm_shard (stages ! i)) \<longleftrightarrow> i = length stages - 1))"
    unfolding enumerate_all by (rule all_cong) (auto simp: check_stage_def st)
  have "chain 0 stages e \<longleftrightarrow> br_start (spec_blocks (sm_shard m)) = 0
      \<and> chain (br_start (spec_blocks (sm_shard m))) (m # ms) e" for e by (auto simp: st)
  note ch = this [unfolded pairwise_chain]
  have "validate_partition stages = Inr () \<longleftrightarrow>
      (\<forall>x\<in>set (enumerate 0 stages). check_stage m (length stages) x = Inr ())
      \<and> br_start (spec_blocks (sm_shard m)) = 0 \<and> br_end (spec_blocks (sm_shard (last stages))) = num_blocks (sm_layout m)
      \<and> (\<forall>(x, y)\<in>set (pairwise stages). br_start (spec_blocks (sm_shard y)) = br_end (spec_blocks (sm_shard x)))"
    by (auto simp: validate_partition_def st for_res_Inr simp del: enumerate_simps)
  then show ?thesis unfolding chk ch by (auto simp: st)
qed


subsection \<open>A two-stage instance\<close>

text \<open>A decoder over strings whose layers append their parameter, run as the library would, and the
  two-block checkpoint of \<^verbatim>\<open>Weights\<close> cut after block 0.\<close>

definition demo_decoder :: "(string, int, string) decoder" where
  "demo_decoder = \<lparr>dec_embed = (\<lambda>p ids. map (map (\<lambda>_. Feat [])) ids),
     dec_layer = (\<lambda>p k h pos cp.
        (map (map (\<lambda>c. Feat (case_cell (\<lambda>_. []) (\<lambda>x. x) c @ (case p ''w'' of None \<Rightarrow> [] | Some w \<Rightarrow> w)))) h,
         k + shape1 h)),
     dec_norm = (\<lambda>p h. h), dec_head = (\<lambda>p h. h), dec_empty = 0, dec_len = id\<rparr>"

definition hf_of :: "(dtype \<Rightarrow> 't \<Rightarrow> 't) \<Rightarrow> ('x, 'k, 't) decoder \<Rightarrow> ('x, int \<Rightarrow> 'k, 't) hf" where
  "hf_of cast d = \<lparr>hf_embed = (\<lambda>m. dec_embed d (params_under (map_of (tm_state m)) std_embedding)),
     hf_backbone = (\<lambda>m h pos cp c.
        let (h', c') = run_layers d (\<lambda>i. params_under (map_of (tm_state m)) (std_block i)) pos cp
                         (sk_layers (tm_skeleton m)) h c
        in (if sk_norm (tm_skeleton m) then dec_norm d (params_under (map_of (tm_state m)) std_norm) h' else h', c')),
     hf_head = (\<lambda>m. dec_head d (params_under (map_of (tm_state m)) std_head)),
     hf_new_cache = (\<lambda>_. dec_empty d), hf_seq_length = (\<lambda>c. dec_len d (c 0)),
     hf_cast = cast, hf_has_device = (\<lambda>dev. dev = CpuDevice)\<rparr>"

definition demo_cast :: "dtype \<Rightarrow> string \<Rightarrow> string" where
  "demo_cast dt t = (if dt = Fp32 then t else t @ ''~'')"

definition demo_hf :: "(string, int \<Rightarrow> int, string) hf" where
  "demo_hf = hf_of demo_cast demo_decoder"

definition demo_config :: model_config where
  "demo_config = \<lparr>cfg_model_type = Some ''llama'', cfg_architectures = [], cfg_num_hidden_layers = 2,
     cfg_hidden_size = 4, cfg_intermediate_size = 8, cfg_num_attention_heads = 2,
     cfg_num_key_value_heads = Some 1, cfg_tie_word_embeddings = True\<rparr>"

definition demo_params :: "skeleton \<Rightarrow> string list" where
  "demo_params sk = (if sk_embed sk then [''model.embed_tokens.weight'', ''model.layers.0.w'']
     else [''model.layers.0.w'', ''model.norm.weight'', ''lm_head.weight''])"

definition demo_build :: "shard_spec \<Rightarrow> (string, int \<Rightarrow> int, string) shard_module res" where
  "demo_build sh = shard_build demo_hf demo_params demo_config demo_snapshot (\<lambda>f n. n) Bf16 CpuDevice sh"

definition demo_first :: shard_spec where
  "demo_first = \<lparr>spec_model_id = ''m'', spec_blocks = \<lparr>br_start = 0, br_end = 1\<rparr>,
     include_input_stage = True, include_output_stage = False\<rparr>"

definition demo_stages :: "(string, int \<Rightarrow> int, string) shard_module list" where
  "demo_stages = map (\<lambda>sh. projr (demo_build sh)) [demo_first, demo_shard]"

definition demo_pipeline :: "(string, int \<Rightarrow> int, string) pipeline" where
  "demo_pipeline = projr (make_pipeline ''e'' demo_stages (serialized_boundary demo_env ''e''))"

definition demo_opened :: "(string, int \<Rightarrow> int, string) pipeline" where
  "demo_opened = fst (pl_create_session demo_pipeline ''s'')"

definition demo_argmax :: "string cell \<Rightarrow> int" where
  "demo_argmax c = (case c of Long i \<Rightarrow> 0 | Feat x \<Rightarrow> min 1000 (int (length x)))"

lemma hf_of_runs: "runs_decoder (hf_of cast d) d"
  by (simp add: runs_decoder_def hf_of_def)

lemma demo_hf_runs: "runs_decoder demo_hf demo_decoder"
  by (simp add: demo_hf_def hf_of_runs)

lemma demo_decoder_ok: "decoder_ok demo_decoder"
  by (simp add: decoder_ok_def demo_decoder_def shape_def comp_def)

lemma demo_build_ok: "is_ok (demo_build demo_first)" "is_ok (demo_build demo_shard)"
  by code_simp+

lemma demo_pipeline_ok: "is_ok (make_pipeline ''e'' demo_stages (serialized_boundary demo_env ''e''))"
  "snd (pl_create_session demo_pipeline ''s'') = Inr ()"
  by code_simp+

lemma demo_stages_build:
  "list_all2 (\<lambda>sh m. range_ok (spec_blocks sh) \<and> (\<exists>dev. shard_build demo_hf demo_params demo_config
     demo_snapshot (\<lambda>f n. n) Bf16 dev sh = Inr m)) [demo_first, demo_shard] demo_stages"
proof -
  have "range_ok (spec_blocks demo_first)" "range_ok (spec_blocks demo_shard)" by code_simp+
  with demo_build_ok show ?thesis by (auto simp: demo_stages_def demo_build_def is_ok_iff)
qed

lemma demo_stages_range: "\<forall>m\<in>set demo_stages. range_ok (spec_blocks (sm_shard m))"
proof -
  have "list_all (\<lambda>m. range_ok (spec_blocks (sm_shard m))) demo_stages" by code_simp
  then show ?thesis by (simp add: list_all_iff)
qed

lemma demo_compose:
  "make_pipeline ''e'' demo_stages (serialized_boundary demo_env ''e'') = Inr demo_pipeline"
  "pl_create_session demo_pipeline ''s'' = (demo_opened, Inr ())"
  using demo_pipeline_ok by (auto simp: demo_pipeline_def demo_opened_def is_ok_iff prod_eq_iff)


subsection \<open>Properties\<close>

text \<open>[C3] For stages with well-formed block ranges, the pipeline constructor accepts them exactly when
  they reassemble one model: there is a stage, all describe the same model, only the first takes
  tokens, only the last produces logits, and their blocks concatenated in order are the model's
  blocks, each once.\<close>

theorem make_pipeline_accepts_iff:
  assumes "\<forall>m\<in>set stages. range_ok (spec_blocks (sm_shard m))"
  shows "is_ok (make_pipeline eid stages tr) \<longleftrightarrow>
    stages \<noteq> []
    \<and> (\<forall>i<length stages.
        num_blocks (sm_layout (stages ! i)) = num_blocks (sm_layout (hd stages))
        \<and> lay_model_type (sm_layout (stages ! i)) = lay_model_type (sm_layout (hd stages))
        \<and> (include_input_stage (sm_shard (stages ! i)) \<longleftrightarrow> i = 0)
        \<and> (include_output_stage (sm_shard (stages ! i)) \<longleftrightarrow> i = length stages - 1))
    \<and> concat (map (\<lambda>m. block_indices (spec_blocks (sm_shard m))) stages)
        = [0..num_blocks (sm_layout (hd stages)) - 1]"
proof -
  have ok: "is_ok (make_pipeline eid stages tr) \<longleftrightarrow> validate_partition stages = Inr ()"
    by (cases "validate_partition stages") (simp_all add: make_pipeline_def)
  show ?thesis
  proof (cases "stages = []")
    case True
    then show ?thesis by (simp add: make_pipeline_def validate_partition_def)
  next
    case False
    then obtain m ms where st: "stages = m # ms" by (cases stages) auto
    with assms have "block_indices (spec_blocks (sm_shard m)) \<noteq> []"
      by (auto simp: block_indices_def range_ok_def)
    then have "concat (map (\<lambda>m. block_indices (spec_blocks (sm_shard m))) stages) = [0..n - 1] \<Longrightarrow> 0 \<le> n" for n
      by (cases "0 \<le> n") (auto simp: st)
    with False show ?thesis
      by (simp only: ok validate_partition_nth [OF False] chain_concat [OF assms]) blast
  qed
qed


theorem make_pipeline_accepts_iff_witness:
  "concat (map (\<lambda>m. block_indices (spec_blocks (sm_shard m))) demo_stages) = [0..num_blocks (sm_layout (hd demo_stages)) - 1]"
proof -
  have "is_ok (make_pipeline ''e'' demo_stages (serialized_boundary demo_env ''e''))" by (simp add: demo_compose(1))
  then show ?thesis unfolding make_pipeline_accepts_iff [OF demo_stages_range] by blast
qed


subsection \<open>From checkpoint to tokens\<close>

lemma opened_running:
  assumes d: "decoder_ok d" and hf: "runs_decoder hf d" and idx: "index_from_source dir = Inr idx"
    and build: "list_all2 (\<lambda>sh m. range_ok (spec_blocks sh) \<and> (\<exists>dev. shard_build hf params cfg dir get_tensor dt dev sh = Inr m)) shs stages"
    and pipe: "make_pipeline eid stages tr = Inr p" and created: "pl_create_session p sid = (p1, Inr ())"
  shows "running hf d (stored_as hf dt idx get_tensor) (cfg_tie_word_embeddings cfg) (cfg_num_hidden_layers cfg) sid
      (\<lambda>_. dec_empty d) 0 0 (pl_stages p1)"
    and "pl_transport p1 = tr" and "length (pl_stages p1) = length shs"
proof -
  let ?new = "\<lambda>m. m\<lparr>sm_sessions := (sm_sessions m)(sid \<mapsto>
          \<lparr>sess_id = sid, kv_cache = hf_new_cache (sm_hf m), sequence_length = 0, sess_step = 0\<rparr>)\<rparr>"
  from pipe have p: "p = \<lparr>pl_execution_id = eid, pl_stages = stages, pl_transport = tr\<rparr>"
    and valid: "validate_partition stages = Inr ()" by (simp_all add: make_pipeline_def)
  then have ne: "stages \<noteq> []" by (auto simp: validate_partition_def)
  note part = validate_partition_nth [OF ne, THEN iffD1, OF valid]
  have hold: "\<forall>m\<in>set stages. stage_holds hf (stored_as hf dt idx get_tensor) (cfg_tie_word_embeddings cfg) m
      \<and> num_blocks (sm_layout m) = cfg_num_hidden_layers cfg"
    using build shard_build_holds(1,4) [OF _ _ idx] by (induction rule: list_all2_induct) auto
  have p1: "p1 = p\<lparr>pl_stages := map ?new stages\<rparr>"
    using pl_create_session_cases [of p sid] created by (auto simp: p split: if_splits)
  have "chain a (map ?new ms) e \<longleftrightarrow> chain a ms e" for a e ms by (induction ms arbitrary: a) auto
  with part hold ne have chn: "chain 0 (map ?new stages) (cfg_num_hidden_layers cfg)" by auto
  show "running hf d (stored_as hf dt idx get_tensor) (cfg_tie_word_embeddings cfg) (cfg_num_hidden_layers cfg) sid
      (\<lambda>_. dec_empty d) 0 0 (pl_stages p1)"
  proof -
    have "\<forall>m\<in>set (map ?new stages). stage_holds hf (stored_as hf dt idx get_tensor) (cfg_tie_word_embeddings cfg) m"
      using hold by (auto simp: stage_holds_def Let_def)
    moreover have "(include_input_stage (sm_shard (map ?new stages ! i)) \<longleftrightarrow> i = 0)
        \<and> (include_output_stage (sm_shard (map ?new stages ! i)) \<longleftrightarrow> i = length (map ?new stages) - 1)"
      if "i < length (map ?new stages)" for i using part that by simp
    moreover have "\<forall>m\<in>set (map ?new stages). \<exists>s. sm_sessions m sid = Some s \<and> kv_cache s = hf_new_cache (sm_hf m)
        \<and> sequence_length s = 0 \<and> sess_step s = 0" by auto
    ultimately have "running hf d (stored_as hf dt idx get_tensor) (cfg_tie_word_embeddings cfg) (cfg_num_hidden_layers cfg) sid
        (\<lambda>_. dec_empty d) 0 0 (map ?new stages)"
      using ne by (intro running_start [OF d hf _ chn]) simp_all
    then show ?thesis by (simp add: p1)
  qed
  show "pl_transport p1 = tr" "length (pl_stages p1) = length shs"
    using build by (simp_all add: p1 p list_all2_lengthD)
qed

text \<open>[C1] Generation is invariant under partitioning. Build the shards of any block partition from one
  checkpoint in one dtype, each on any device torch has, compose them into a pipeline over the serialized
  boundary, open a session and generate: the tokens are those of the undivided decoder on that checkpoint
  converted to that dtype, whatever the number of stages and wherever the cuts are. Nothing raises, as long as
  the step count stays below
  2^31 and the sequence length and the token ids below 2^63.\<close>

theorem generate_partition_invariant:
  assumes "decoder_ok d" and "runs_decoder hf d" and "wire_env_ok env" and "eid \<noteq> []" and "sid \<noteq> []"
    and "index_from_source dir = Inr idx"
    and "list_all2 (\<lambda>sh m. range_ok (spec_blocks sh) \<and> (\<exists>dev. shard_build hf params cfg dir get_tensor dt dev sh = Inr m)) shs stages"
    and "make_pipeline eid stages (serialized_boundary env eid) = Inr p"
    and "pl_create_session p sid = (p1, Inr ())"
    and "prompt \<noteq> []" and "0 \<le> n" and "n + 1 < 2 ^ 31" and "int (length prompt) + n < 2 ^ 63"
    and "int (length shs) < 2 ^ 31" and "\<forall>x. - (2 ^ 63) \<le> argmax x \<and> argmax x < 2 ^ 63"
  shows "\<exists>p2. generate argmax p1 sid [prompt] n
    = (p2, Inr (ref_generate d (stored_as hf dt idx get_tensor) (cfg_tie_word_embeddings cfg)
                  (cfg_num_hidden_layers cfg) argmax [prompt] (nat n)))"
proof -
  note run = opened_running [OF assms(1,2,6-9)]
  show ?thesis
    by (rule boundary.generate_reference [OF assms(1,2) _ assms(15) run(1,2) assms(10,11)])
      (use run(3) assms in \<open>simp_all add: boundary_ready_def\<close>)
qed

theorem generate_partition_invariant_witness:
  "\<exists>p2. generate demo_argmax demo_opened ''s'' [[Long 1, Long 2]] 3
     = (p2, Inr (ref_generate demo_decoder (stored_as demo_hf Bf16 demo_index (\<lambda>f n. n)) True 2 demo_argmax [[Long 1, Long 2]] 3))"
proof -
  have "\<forall>x. - (2 ^ 63) \<le> demo_argmax x \<and> demo_argmax x < 2 ^ 63"
    by (auto simp: demo_argmax_def split: cell.splits)
  from generate_partition_invariant [OF demo_decoder_ok demo_hf_runs demo_env_ok _ _ demo_load(1)
      demo_stages_build demo_compose _ _ _ _ _ this, of "[Long 1, Long 2]" 3]
  show ?thesis by (simp add: demo_config_def)
qed

end
