(* ===== verification/Runtime_Config.thy ===== *)
theory Runtime_Config
  imports Wire
begin

section \<open>Runtime configuration, runtime info and model names\<close>

text \<open>
  \<^verbatim>\<open>runtime/config.py\<close> (the validated sections of one shard runtime's configuration),
  \<^verbatim>\<open>runtime/info.py\<close> (the static description a runtime reports, and its wire form) and the local model
  names of \<^verbatim>\<open>runtime/model_store.py\<close>. A pydantic model is a record together with the function that
  checks it; a \<^verbatim>\<open>Path\<close> is its text. The sidecar metadata of a snapshot is file input and is left out.
\<close>


subsection \<open>Local model names\<close>

definition MODEL_MOUNT :: string where "MODEL_MOUNT = ''/models''"

definition validate_local_name :: "string \<Rightarrow> string res" where
  "validate_local_name n =
     (if n = [] then Inl (ModelStoreError ''model local name must be non-empty'')
      else if CHR ''/'' \<in> set n \<or> CHR 0x5C \<in> set n
      then Inl (ModelStoreError ''model local name must be a single path segment'')
      else if n = ''.'' \<or> n = ''..'' then Inl (ModelStoreError ''must not name a parent directory'')
      else if list_ex is_space n then Inl (ModelStoreError ''must not contain whitespace'')
      else Inr n)"

definition container_model_path :: "string \<Rightarrow> string res" where
  "container_model_path n = map_res (\<lambda>s. MODEL_MOUNT @ ''/'' @ s) (validate_local_name n)"

definition host_path :: "string \<Rightarrow> string \<Rightarrow> string res" where
  "host_path root n = map_res (\<lambda>s. root @ ''/'' @ s) (validate_local_name n)"


subsection \<open>The configuration sections\<close>

definition BACKEND_SHARD :: string where "BACKEND_SHARD = ''edgeshard_shard''"
definition BACKEND_VLLM :: string where "BACKEND_VLLM = ''vllm''"

record runtime_section =
  rs_backend :: string
  rs_runtime_id :: string
  rs_execution_id :: string

record model_section =
  ms_id :: string
  ms_path :: string

record shard_section =
  sc_start_block :: int
  sc_end_block :: int
  sc_include_input_stage :: bool
  sc_include_output_stage :: bool

record pipeline_section =
  ps_stage_index :: int
  ps_stage_count :: int
  ps_next_endpoint :: "string option"

datatype device_kind = Cpu | Cuda

record device_section =
  ds_type :: device_kind
  ds_index :: "int option"

record server_section =
  sv_listen_host :: string
  sv_listen_port :: int

record runtime_config =
  rc_runtime :: runtime_section
  rc_model :: model_section
  rc_shard :: shard_section
  rc_pipeline :: pipeline_section
  rc_device :: device_section
  rc_dtype :: dtype
  rc_server :: server_section

definition check_ids :: "runtime_section \<Rightarrow> unit res" where
  "check_ids r =
     then_res (raise_if (rs_backend r \<noteq> BACKEND_SHARD) (ValueError ''backend literal''))
       (raise_if (rs_runtime_id r = [] \<or> rs_execution_id r = [])
          (ValueError ''runtime_id and execution_id must be non-empty''))"

text \<open>\<^verbatim>\<open>not self.next_endpoint\<close>: absent or empty.\<close>

definition no_endpoint :: "string option \<Rightarrow> bool" where
  "no_endpoint e = (case e of None \<Rightarrow> True | Some s \<Rightarrow> s = [])"

definition check_stages :: "pipeline_section \<Rightarrow> unit res" where
  "check_stages p =
     then_res (raise_if (ps_stage_count p < 1) (ValueError ''stage_count must be >= 1''))
     (then_res (raise_if (\<not> (0 \<le> ps_stage_index p \<and> ps_stage_index p < ps_stage_count p))
                  (ValueError ''stage_index must be within range''))
     (then_res (raise_if (ps_stage_index p < ps_stage_count p - 1 \<and> no_endpoint (ps_next_endpoint p))
                  (ValueError ''non-final stages require next_endpoint''))
     (raise_if (ps_stage_index p = ps_stage_count p - 1 \<and> \<not> no_endpoint (ps_next_endpoint p))
                  (ValueError ''the final stage must not declare next_endpoint''))))"

definition check_port :: "server_section \<Rightarrow> unit res" where
  "check_port s = raise_if (\<not> (0 \<le> sv_listen_port s \<and> sv_listen_port s \<le> 65535)) (ValueError ''listen_port out of range'')"

definition validate_config :: "runtime_config \<Rightarrow> runtime_config res" where
  "validate_config c =
     then_res (check_ids (rc_runtime c))
       (then_res (check_stages (rc_pipeline c)) (then_res (check_port (rc_server c)) (Inr c)))"

definition is_final_stage :: "runtime_config \<Rightarrow> bool" where
  "is_final_stage c = (ps_stage_index (rc_pipeline c) = ps_stage_count (rc_pipeline c) - 1)"

text \<open>\<^verbatim>\<open>DeviceSection.torch_device\<close>: \<^verbatim>\<open>torch.device\<close> refuses a negative index.\<close>

definition device_of_section :: "device_section \<Rightarrow> torch_device res" where
  "device_of_section s =
     (case ds_type s of
        Cpu \<Rightarrow> Inr CpuDevice
      | Cuda \<Rightarrow> (let i = (case ds_index s of None \<Rightarrow> 0 | Some i \<Rightarrow> i) in
                 then_res (raise_if (i < 0) (RuntimeError ''invalid device string'')) (Inr (CudaDevice i))))"

definition section_blocks :: "shard_section \<Rightarrow> block_range res" where
  "section_blocks s = make_block_range (sc_start_block s) (sc_end_block s)"


subsection \<open>Runtime info\<close>

record runtime_info =
  ri_runtime_id :: string
  ri_model_id :: string
  ri_stage_index :: int
  ri_stage_count :: int
  ri_blocks :: block_range
  ri_include_input_stage :: bool
  ri_include_output_stage :: bool
  ri_protocol_version :: int

record info_wire =
  iw_runtime_id :: string
  iw_model_id :: string
  iw_stage_index :: int
  iw_stage_count :: int
  iw_block_start :: int
  iw_block_end :: int
  iw_include_input_stage :: bool
  iw_include_output_stage :: bool
  iw_protocol_version :: int

definition runtime_info_from_config :: "runtime_config \<Rightarrow> runtime_info res" where
  "runtime_info_from_config c =
     bind_res (section_blocks (rc_shard c)) (\<lambda>b.
       Inr \<lparr>ri_runtime_id = rs_runtime_id (rc_runtime c), ri_model_id = ms_id (rc_model c),
            ri_stage_index = ps_stage_index (rc_pipeline c), ri_stage_count = ps_stage_count (rc_pipeline c),
            ri_blocks = b, ri_include_input_stage = sc_include_input_stage (rc_shard c),
            ri_include_output_stage = sc_include_output_stage (rc_shard c),
            ri_protocol_version = PROTOCOL_VERSION\<rparr>)"

definition runtime_info_to_wire :: "runtime_info \<Rightarrow> info_wire res" where
  "runtime_info_to_wire i =
     then_res (raise_if (\<not> (int32 (ri_stage_index i) \<and> int32 (ri_stage_count i)
                           \<and> int32 (br_start (ri_blocks i)) \<and> int32 (br_end (ri_blocks i))
                           \<and> int32 (ri_protocol_version i))) out_of_range)
       (Inr \<lparr>iw_runtime_id = ri_runtime_id i, iw_model_id = ri_model_id i,
             iw_stage_index = ri_stage_index i, iw_stage_count = ri_stage_count i,
             iw_block_start = br_start (ri_blocks i), iw_block_end = br_end (ri_blocks i),
             iw_include_input_stage = ri_include_input_stage i,
             iw_include_output_stage = ri_include_output_stage i,
             iw_protocol_version = ri_protocol_version i\<rparr>)"

definition runtime_info_from_wire :: "info_wire \<Rightarrow> runtime_info res" where
  "runtime_info_from_wire w =
     bind_res (make_block_range (iw_block_start w) (iw_block_end w)) (\<lambda>b.
       Inr \<lparr>ri_runtime_id = iw_runtime_id w, ri_model_id = iw_model_id w,
            ri_stage_index = iw_stage_index w, ri_stage_count = iw_stage_count w, ri_blocks = b,
            ri_include_input_stage = iw_include_input_stage w,
            ri_include_output_stage = iw_include_output_stage w,
            ri_protocol_version = iw_protocol_version w\<rparr>)"


subsection \<open>Lemmas\<close>

lemma no_endpoint_simps [simp]: "no_endpoint None" "no_endpoint (Some s) \<longleftrightarrow> s = []"
  by (simp_all add: no_endpoint_def)

lemma validate_config_Inr [res_simps]:
  "validate_config c = Inr c' \<longleftrightarrow> c' = c
     \<and> rs_backend (rc_runtime c) = BACKEND_SHARD \<and> rs_runtime_id (rc_runtime c) \<noteq> []
     \<and> rs_execution_id (rc_runtime c) \<noteq> []
     \<and> 0 \<le> ps_stage_index (rc_pipeline c) \<and> ps_stage_index (rc_pipeline c) < ps_stage_count (rc_pipeline c)
     \<and> (no_endpoint (ps_next_endpoint (rc_pipeline c)) \<longleftrightarrow> is_final_stage c)
     \<and> 0 \<le> sv_listen_port (rc_server c) \<and> sv_listen_port (rc_server c) \<le> 65535"
  by (auto simp: validate_config_def check_ids_def check_stages_def check_port_def is_final_stage_def)

lemma info_round_trip:
  assumes "runtime_info_to_wire i = Inr w" and "range_ok (ri_blocks i)"
  shows "runtime_info_from_wire w = Inr i"
  using assms by (auto simp: runtime_info_to_wire_def runtime_info_from_wire_def make_block_range_def range_ok_def)

text \<open>The info a runtime reports survives the wire: from any configuration whose description can be
  built and encoded, decoding the reply gives the description back.\<close>

lemma runtime_info_wire_round_trip:
  assumes "runtime_info_from_config c = Inr i" and "runtime_info_to_wire i = Inr w"
  shows "runtime_info_from_wire w = Inr i
    \<and> br_start (ri_blocks i) = sc_start_block (rc_shard c) \<and> br_end (ri_blocks i) = sc_end_block (rc_shard c)"
proof -
  have b: "section_blocks (rc_shard c) = Inr (ri_blocks i)"
    using assms(1) by (auto simp: runtime_info_from_config_def bind_res_Inr)
  then have "range_ok (ri_blocks i)" by (auto simp: section_blocks_def dest: make_block_range_ok)
  with info_round_trip [OF assms(2)] b show ?thesis
    by (auto simp: section_blocks_def make_block_range_Inr)
qed

end
