(* ===== verification/Manifest.thy ===== *)
theory Manifest
  imports Runtime_Config
begin

section \<open>Deployment manifests and the configurations generated from them\<close>

text \<open>
  \<^verbatim>\<open>control/mock/manifest.py\<close> (the manifest and its topology check) and \<^verbatim>\<open>control/mock/deployment.py\<close>
  (one runtime configuration per pipeline stage). \<^verbatim>\<open>write_runtime_configs\<close> is modelled by the
  configurations it writes, keyed by runtime id in pipeline order; reading and writing YAML is left out.
\<close>


subsection \<open>The manifest\<close>

record manifest_shard =
  mf_start :: int
  mf_end :: int
  mf_include_input_stage :: bool
  mf_include_output_stage :: bool

record manifest_vllm =
  mv_max_model_len :: "int option"
  mv_tensor_parallel_size :: "int option"

record manifest_model =
  mm_id :: string
  mm_local_name :: "string option"

record manifest_runtime =
  mr_id :: string
  mr_backend :: string
  mr_image :: "string option"
  mr_shard :: "manifest_shard option"
  mr_vllm :: "manifest_vllm option"
  mr_device :: device_section
  mr_dtype :: dtype

record manifest =
  man_execution_id :: string
  man_model :: manifest_model
  man_runtimes :: "manifest_runtime list"
  man_pipeline :: "string list"

definition check_bounds :: "manifest_shard \<Rightarrow> unit res" where
  "check_bounds s =
     then_res (raise_if (mf_start s < 0) (ValueError ''shard start must be >= 0''))
       (raise_if (mf_end s \<le> mf_start s) (ValueError ''shard range must be non-empty''))"

definition below_one :: "int option \<Rightarrow> bool" where
  "below_one v = (case v of None \<Rightarrow> False | Some i \<Rightarrow> i < 1)"

definition check_vllm :: "manifest_vllm \<Rightarrow> unit res" where
  "check_vllm v =
     then_res (raise_if (below_one (mv_max_model_len v)) (ValueError ''max_model_len must be >= 1''))
       (raise_if (below_one (mv_tensor_parallel_size v)) (ValueError ''tensor_parallel_size must be >= 1''))"

text \<open>\<^verbatim>\<open>self.id.replace("/", "-")\<close>, and the model with its local name filled in.\<close>

definition default_local_name :: "string \<Rightarrow> string" where
  "default_local_name i = map (\<lambda>c. if c = CHR ''/'' then CHR ''-'' else c) i"

definition check_model :: "manifest_model \<Rightarrow> manifest_model res" where
  "check_model mm =
     then_res (raise_if (mm_id mm = []) (ValueError ''model id must be non-empty''))
       (let name = (case mm_local_name mm of None \<Rightarrow> default_local_name (mm_id mm) | Some n \<Rightarrow> n)
        in case validate_local_name name of
             Inl _ \<Rightarrow> Inl (ValueError ''model local name'')
           | Inr _ \<Rightarrow> Inr (mm\<lparr>mm_local_name := Some name\<rparr>))"

definition resolved_local_name :: "manifest_model \<Rightarrow> string res" where
  "resolved_local_name mm =
     (case mm_local_name mm of None \<Rightarrow> Inl (ValueError ''manifest model has no local name'') | Some n \<Rightarrow> Inr n)"

definition check_backend_sections :: "manifest_runtime \<Rightarrow> unit res" where
  "check_backend_sections r =
     then_res (raise_if (mr_backend r \<noteq> BACKEND_SHARD \<and> mr_backend r \<noteq> BACKEND_VLLM) (ValueError ''backend literal''))
     (then_res (raise_if (mr_id r = []) (ValueError ''runtime id must be non-empty''))
     (if mr_backend r = BACKEND_SHARD
      then then_res (raise_if (mr_shard r = None) (ValueError ''backend edgeshard_shard requires a shard section''))
             (raise_if (mr_vllm r \<noteq> None) (ValueError ''the vllm section is only valid on vllm runtimes''))
      else raise_if (mr_shard r \<noteq> None) (ValueError ''a shard section is not allowed'')))"

definition check_runtime :: "manifest_runtime \<Rightarrow> unit res" where
  "check_runtime r =
     then_res (case mr_shard r of None \<Rightarrow> Inr () | Some s \<Rightarrow> check_bounds s)
     (then_res (case mr_vllm r of None \<Rightarrow> Inr () | Some v \<Rightarrow> check_vllm v) (check_backend_sections r))"


subsection \<open>The topology check\<close>

text \<open>\<^verbatim>\<open>manifest.runtime(id)\<close>: the first runtime with the id.\<close>

fun find_runtime :: "manifest_runtime list \<Rightarrow> string \<Rightarrow> manifest_runtime res" where
  "find_runtime [] rid = Inl (KeyError ''unknown runtime id'')"
| "find_runtime (r # rs) rid = (if mr_id r = rid then Inr r else find_runtime rs rid)"

text \<open>\<^verbatim>\<open>{runtime.id: runtime for runtime in runtimes}\<close>.\<close>

definition by_id :: "manifest_runtime list \<Rightarrow> string \<rightharpoonup> manifest_runtime" where
  "by_id rs = map_of (rev (map (\<lambda>r. (mr_id r, r)) rs))"

definition shard_of :: "(string \<rightharpoonup> manifest_runtime) \<Rightarrow> string \<Rightarrow> manifest_shard res" where
  "shard_of ids rid =
     (case ids rid of
        None \<Rightarrow> Inl (KeyError rid)
      | Some r \<Rightarrow> (case mr_shard r of None \<Rightarrow> Inl (ValueError ''runtime has no shard section'') | Some s \<Rightarrow> Inr s))"

definition is_shard_id :: "(string \<rightharpoonup> manifest_runtime) \<Rightarrow> string \<Rightarrow> bool" where
  "is_shard_id ids rid = (case ids rid of None \<Rightarrow> False | Some r \<Rightarrow> mr_backend r = BACKEND_SHARD)"

definition check_order :: "manifest_shard list \<Rightarrow> unit res" where
  "check_order ordered =
     then_res (raise_if (mf_start (hd ordered) \<noteq> 0) (ValueError ''the partition must start at block 0''))
     (then_res (raise_if (\<not> mf_include_input_stage (hd ordered)) (ValueError ''first runtime must include the input stage''))
     (then_res (raise_if (\<not> mf_include_output_stage (last ordered)) (ValueError ''last runtime must include the output stage''))
     (then_res (for_res (\<lambda>s. raise_if (mf_include_input_stage s)
                   (ValueError ''only the first runtime may include the input stage'')) (tl ordered))
     (then_res (for_res (\<lambda>s. raise_if (mf_include_output_stage s)
                   (ValueError ''only the last runtime may include the output stage'')) (butlast ordered))
     (for_res (\<lambda>(previous, current). raise_if (mf_start current \<noteq> mf_end previous) (ValueError ''partition gap''))
        (pairwise ordered))))))"

definition check_topology :: "manifest \<Rightarrow> unit res" where
  "check_topology man =
     (let ids = map mr_id (man_runtimes man);
          shard_ids = map mr_id (filter (\<lambda>r. mr_backend r = BACKEND_SHARD) (man_runtimes man));
          byid = by_id (man_runtimes man)
      in then_res (raise_if (man_execution_id man = []) (ValueError ''execution_id must be non-empty''))
         (then_res (raise_if (man_runtimes man = []) (ValueError ''manifest needs at least one runtime''))
         (then_res (raise_if (\<not> distinct ids) (ValueError ''duplicate runtime ids''))
         (if man_pipeline man = []
          then raise_if (shard_ids \<noteq> []) (ValueError ''pipeline must order every edgeshard_shard runtime'')
          else then_res (raise_if (\<not> distinct (man_pipeline man)) (ValueError ''pipeline lists runtimes more than once''))
               (then_res (raise_if (\<not> set (man_pipeline man) \<subseteq> set ids) (ValueError ''pipeline references unknown runtimes''))
               (then_res (raise_if (list_ex (\<lambda>rid. \<not> is_shard_id byid rid) (man_pipeline man))
                            (ValueError ''pipeline orders shard runtimes only''))
               (then_res (raise_if (\<not> set shard_ids \<subseteq> set (man_pipeline man))
                            (ValueError ''edgeshard_shard runtimes not in the pipeline''))
               (bind_res (traverse_res (shard_of byid) (man_pipeline man)) check_order))))))))"

text \<open>\<^verbatim>\<open>DeploymentManifest.model_validate\<close>: the parts first, then the whole.\<close>

definition validate_manifest :: "manifest \<Rightarrow> manifest res" where
  "validate_manifest man =
     bind_res (check_model (man_model man)) (\<lambda>mm.
       then_res (for_res check_runtime (man_runtimes man))
         (then_res (check_topology man) (Inr (man\<lparr>man_model := mm\<rparr>))))"

definition pipeline_runtimes :: "manifest \<Rightarrow> manifest_runtime list res" where
  "pipeline_runtimes man = traverse_res (find_runtime (man_runtimes man)) (man_pipeline man)"

definition standalone_runtimes :: "manifest \<Rightarrow> manifest_runtime list" where
  "standalone_runtimes man = filter (\<lambda>r. mr_backend r \<noteq> BACKEND_SHARD) (man_runtimes man)"


subsection \<open>Generated configurations\<close>

definition SHARD_LISTEN_PORT :: int where "SHARD_LISTEN_PORT = 50051"

definition network_name :: "string \<Rightarrow> string" where
  "network_name eid = ''edgeshard-exec-'' @ eid"

definition host_model_path :: "manifest \<Rightarrow> string \<Rightarrow> string res" where
  "host_model_path man root = bind_res (resolved_local_name (man_model man)) (host_path root)"

definition build_runtime_config_payload :: "manifest \<Rightarrow> nat \<Rightarrow> runtime_config res" where
  "build_runtime_config_payload man stage =
     bind_res (pipeline_runtimes man) (\<lambda>rts.
       if length rts \<le> stage then Inl (IndexError ''list index out of range'')
       else let r = rts ! stage
            in case mr_shard r of
                 None \<Rightarrow> Inl (ManifestError ''runtime has no shard section'')
               | Some s \<Rightarrow>
                   bind_res (resolved_local_name (man_model man)) (\<lambda>name.
                     bind_res (container_model_path name) (\<lambda>path.
                       Inr \<lparr>rc_runtime = \<lparr>rs_backend = mr_backend r, rs_runtime_id = mr_id r,
                               rs_execution_id = man_execution_id man\<rparr>,
                            rc_model = \<lparr>ms_id = mm_id (man_model man), ms_path = path\<rparr>,
                            rc_shard = \<lparr>sc_start_block = mf_start s, sc_end_block = mf_end s,
                               sc_include_input_stage = mf_include_input_stage s,
                               sc_include_output_stage = mf_include_output_stage s\<rparr>,
                            rc_pipeline = \<lparr>ps_stage_index = int stage, ps_stage_count = int (length rts),
                               ps_next_endpoint = (if stage + 1 < length rts
                                 then Some (man_pipeline man ! (stage + 1) @ '':'' @ int_str SHARD_LISTEN_PORT)
                                 else None)\<rparr>,
                            rc_device = mr_device r, rc_dtype = mr_dtype r,
                            rc_server = \<lparr>sv_listen_host = ''0.0.0.0'', sv_listen_port = SHARD_LISTEN_PORT\<rparr>\<rparr>)))"

definition write_runtime_configs :: "manifest \<Rightarrow> (string \<times> runtime_config) list res" where
  "write_runtime_configs man =
     traverse_res (\<lambda>(stage, rid).
         bind_res (build_runtime_config_payload man stage) (\<lambda>payload.
           map_res (\<lambda>c. (rid, c)) (validate_config payload)))
       (enumerate 0 (man_pipeline man))"


text \<open>\<^verbatim>\<open>MockMaster._validate_partition_bounds\<close>, on the parsed \<^verbatim>\<open>config.json\<close> of the model.\<close>

definition validate_partition_bounds :: "model_config \<Rightarrow> manifest \<Rightarrow> unit res" where
  "validate_partition_bounds cfg man =
     bind_res (resolve_adapter_for_source cfg default_registry) (\<lambda>ad.
       bind_res (inspect ad cfg) (\<lambda>lay.
         bind_res (pipeline_runtimes man) (\<lambda>rts.
           if rts = [] then Inl (IndexError ''list index out of range'')
           else case mr_shard (last rts) of
                  None \<Rightarrow> Inl (ManifestError ''runtime has no shard section'')
                | Some s \<Rightarrow> raise_if (mf_end s \<noteq> num_blocks lay) (ManifestError ''partition ends at another block''))))"


subsection \<open>What an accepted manifest guarantees\<close>

lemma check_bounds_Inr: "check_bounds s = Inr () \<longleftrightarrow> 0 \<le> mf_start s \<and> mf_start s < mf_end s"
  by (auto simp: check_bounds_def)

lemma check_model_Inr:
  assumes "check_model mm = Inr mm'"
  obtains n where "resolved_local_name mm' = Inr n" "validate_local_name n = Inr n" "mm_id mm' = mm_id mm"
  using assms that by (auto simp: check_model_def Let_def resolved_local_name_def validate_local_name_def
      split: sum.splits if_splits)

lemma by_id_find:
  assumes "distinct (map mr_id rs)"
  shows "find_runtime rs rid = (case by_id rs rid of None \<Rightarrow> Inl (KeyError ''unknown runtime id'') | Some r \<Rightarrow> Inr r)"
proof -
  have "by_id rs = map_of (map (\<lambda>r. (mr_id r, r)) rs)"
    using assms unfolding by_id_def by (subst map_of_inject_set) (simp_all add: comp_def flip: rev_map)
  moreover have "find_runtime rs rid = (case map_of (map (\<lambda>r. (mr_id r, r)) rs) rid of
      None \<Rightarrow> Inl (KeyError ''unknown runtime id'') | Some r \<Rightarrow> Inr r)"
    by (induction rs) auto
  ultimately show ?thesis by simp
qed


text \<open>The runtimes of the pipeline in order, with their shards.\<close>

definition staged :: "manifest \<Rightarrow> manifest_runtime list \<Rightarrow> manifest_shard list \<Rightarrow> bool" where
  "staged man rts shards \<longleftrightarrow>
     pipeline_runtimes man = Inr rts \<and> map mr_id rts = man_pipeline man \<and> map mr_shard rts = map Some shards
     \<and> (\<forall>r\<in>set rts. mr_backend r = BACKEND_SHARD \<and> mr_id r \<noteq> [])
     \<and> (\<forall>s\<in>set shards. 0 \<le> mf_start s \<and> mf_start s < mf_end s)
     \<and> (shards \<noteq> [] \<longrightarrow> check_order shards = Inr ())"

lemma stage_lookup:
  assumes dist: "distinct (map mr_id rs)" and ok: "\<forall>r\<in>set rs. check_runtime r = Inr ()"
    and shard: "is_shard_id (by_id rs) rid"
  obtains r s where "find_runtime rs rid = Inr r" "shard_of (by_id rs) rid = Inr s" "mr_shard r = Some s"
    "mr_id r = rid" "mr_backend r = BACKEND_SHARD" "rid \<noteq> []" "0 \<le> mf_start s" "mf_start s < mf_end s"
proof -
  from shard obtain r where r: "by_id rs rid = Some r" "mr_backend r = BACKEND_SHARD"
    by (auto simp: is_shard_id_def split: option.splits)
  then have mem: "r \<in> set rs" "mr_id r = rid" by (auto simp: by_id_def dest!: map_of_SomeD)
  with ok have chk: "check_runtime r = Inr ()" by blast
  then obtain s where s: "mr_shard r = Some s" "0 \<le> mf_start s" "mf_start s < mf_end s" "mr_id r \<noteq> []"
    using r(2) by (auto simp: check_runtime_def check_backend_sections_def check_bounds_Inr split: option.splits)
  with r mem that [of r s] show ?thesis by (simp add: by_id_find [OF dist] shard_of_def)
qed

lemma staged_exists:
  assumes top: "check_topology man = Inr ()" and ok: "\<forall>r\<in>set (man_runtimes man). check_runtime r = Inr ()"
  obtains rts shards where "staged man rts shards"
proof -
  let ?rs = "man_runtimes man"
  from top have dist: "distinct (map mr_id ?rs)" by (simp add: check_topology_def Let_def)
  from top have all: "rid \<in> set (man_pipeline man) \<Longrightarrow> is_shard_id (by_id ?rs) rid" for rid
    by (auto simp: check_topology_def Let_def list_ex_iff split: if_splits)
  define rt where "rt rid = projr (find_runtime ?rs rid)" for rid
  define sh where "sh rid = projr (shard_of (by_id ?rs) rid)" for rid
  have st: "find_runtime ?rs rid = Inr (rt rid) \<and> shard_of (by_id ?rs) rid = Inr (sh rid)
      \<and> mr_shard (rt rid) = Some (sh rid) \<and> mr_id (rt rid) = rid \<and> mr_backend (rt rid) = BACKEND_SHARD
      \<and> rid \<noteq> [] \<and> 0 \<le> mf_start (sh rid) \<and> mf_start (sh rid) < mf_end (sh rid)"
    if "rid \<in> set (man_pipeline man)" for rid
    using stage_lookup [OF dist ok all [OF that]] by (metis rt_def sh_def sum.sel(2))
  have "check_order (map sh (man_pipeline man)) = Inr ()" if "man_pipeline man \<noteq> []"
    using top that traverse_res_total [of "man_pipeline man" "shard_of (by_id ?rs)" sh] st
    by (simp add: check_topology_def Let_def)
  with st have "staged man (map rt (man_pipeline man)) (map sh (man_pipeline man))"
    using traverse_res_total [of "man_pipeline man" "find_runtime ?rs" rt]
    by (auto simp: staged_def pipeline_runtimes_def intro!: map_idI)
  then show ?thesis by (rule that)
qed


lemma staged_nth:
  assumes "staged man rts shards"
  shows "length rts = length (man_pipeline man)" and "length shards = length (man_pipeline man)"
    and "i < length (man_pipeline man) \<Longrightarrow> mr_id (rts ! i) = man_pipeline man ! i
      \<and> mr_shard (rts ! i) = Some (shards ! i) \<and> mr_backend (rts ! i) = BACKEND_SHARD \<and> man_pipeline man ! i \<noteq> []"
proof -
  from assms have m: "map mr_id rts = man_pipeline man" "map mr_shard rts = map Some shards"
    by (simp_all add: staged_def)
  then show len: "length rts = length (man_pipeline man)" "length shards = length (man_pipeline man)"
    using map_eq_imp_length_eq by (metis length_map)+
  show "mr_id (rts ! i) = man_pipeline man ! i
      \<and> mr_shard (rts ! i) = Some (shards ! i) \<and> mr_backend (rts ! i) = BACKEND_SHARD \<and> man_pipeline man ! i \<noteq> []"
    if i: "i < length (man_pipeline man)"
  proof -
    have "rts ! i \<in> set rts" using i len(1) by simp
    then have "mr_backend (rts ! i) = BACKEND_SHARD" "mr_id (rts ! i) \<noteq> []"
      using assms unfolding staged_def by blast+
    moreover have "mr_id (rts ! i) = man_pipeline man ! i" using m(1) i len(1) by (metis nth_map)
    moreover have "mr_shard (rts ! i) = Some (shards ! i)" using m(2) i len by (metis nth_map)
    ultimately show ?thesis by simp
  qed
qed

text \<open>The configuration of one stage.\<close>

definition stage_config :: "manifest \<Rightarrow> string \<Rightarrow> manifest_runtime list \<Rightarrow> manifest_shard list \<Rightarrow> nat \<Rightarrow> runtime_config" where
  "stage_config man name rts shards i =
     \<lparr>rc_runtime = \<lparr>rs_backend = BACKEND_SHARD, rs_runtime_id = man_pipeline man ! i,
         rs_execution_id = man_execution_id man\<rparr>,
      rc_model = \<lparr>ms_id = mm_id (man_model man), ms_path = MODEL_MOUNT @ ''/'' @ name\<rparr>,
      rc_shard = \<lparr>sc_start_block = mf_start (shards ! i), sc_end_block = mf_end (shards ! i),
         sc_include_input_stage = mf_include_input_stage (shards ! i),
         sc_include_output_stage = mf_include_output_stage (shards ! i)\<rparr>,
      rc_pipeline = \<lparr>ps_stage_index = int i, ps_stage_count = int (length (man_pipeline man)),
         ps_next_endpoint = (if i + 1 < length (man_pipeline man)
           then Some (man_pipeline man ! (i + 1) @ '':'' @ int_str SHARD_LISTEN_PORT) else None)\<rparr>,
      rc_device = mr_device (rts ! i), rc_dtype = mr_dtype (rts ! i),
      rc_server = \<lparr>sv_listen_host = ''0.0.0.0'', sv_listen_port = SHARD_LISTEN_PORT\<rparr>\<rparr>"

lemma stage_config_valid:
  assumes "staged man rts shards" and "i < length (man_pipeline man)" and "man_execution_id man \<noteq> []"
  shows "validate_config (stage_config man name rts shards i) = Inr (stage_config man name rts shards i)"
  using staged_nth(3) [OF assms(1,2)] assms(2,3)
  by (auto simp: validate_config_Inr stage_config_def is_final_stage_def SHARD_LISTEN_PORT_def)

lemma write_runtime_configs_staged:
  assumes st: "staged man rts shards" and eid: "man_execution_id man \<noteq> []"
    and name: "resolved_local_name (man_model man) = Inr n" "validate_local_name n = Inr n"
  shows "write_runtime_configs man
    = Inr (map (\<lambda>i. (man_pipeline man ! i, stage_config man n rts shards i)) [0..<length (man_pipeline man)])"
proof -
  note nth = staged_nth [OF st]
  have build: "build_runtime_config_payload man i = Inr (stage_config man n rts shards i)"
    if "i < length (man_pipeline man)" for i
    using that nth(1) nth(3) [OF that] st name
    by (simp add: build_runtime_config_payload_def staged_def stage_config_def container_model_path_def Let_def)
  let ?f = "\<lambda>(i, rid). bind_res (build_runtime_config_payload man i)
      (\<lambda>payload. map_res (\<lambda>c. (rid, c)) (validate_config payload))"
  have "traverse_res ?f (enumerate 0 (man_pipeline man))
      = Inr (map (\<lambda>(i, rid). (rid, stage_config man n rts shards i)) (enumerate 0 (man_pipeline man)))"
  proof (rule traverse_res_total)
    fix x assume "x \<in> set (enumerate 0 (man_pipeline man))"
    then obtain i where "i < length (man_pipeline man)" "x = (i, man_pipeline man ! i)"
      by (auto simp: in_set_enumerate_eq)
    with build stage_config_valid [OF st _ eid] show "?f x = Inr (case x of (i, rid) \<Rightarrow> (rid, stage_config man n rts shards i))"
      by simp
  qed
  moreover have "map (\<lambda>(i, rid). (rid, stage_config man n rts shards i)) (enumerate 0 (man_pipeline man))
      = map (\<lambda>i. (man_pipeline man ! i, stage_config man n rts shards i)) [0..<length (man_pipeline man)]"
    by (rule nth_equalityI) (simp_all add: nth_enumerate_eq)
  ultimately show ?thesis by (simp add: write_runtime_configs_def)
qed

text \<open>The blocks a list of shard sections covers, in order.\<close>

definition shard_blocks :: "manifest_shard \<Rightarrow> int list" where
  "shard_blocks s = [mf_start s..mf_end s - 1]"

lemma concat_shard_blocks:
  assumes "\<forall>s\<in>set ss. mf_start s < mf_end s" and "ss \<noteq> []"
    and "\<forall>(x, y)\<in>set (pairwise ss). mf_start y = mf_end x"
  shows "mf_start (hd ss) < mf_end (last ss)
    \<and> concat (map shard_blocks ss) = [mf_start (hd ss)..mf_end (last ss) - 1]"
  using assms
proof (induction ss)
  case Nil
  then show ?case by simp
next
  case (Cons s ss)
  show ?case
  proof (cases ss)
    case Nil
    with Cons.prems show ?thesis by (simp add: shard_blocks_def)
  next
    case (Cons t ts)
    with Cons.prems have t: "mf_start t = mf_end s" "mf_start s < mf_end s" by simp_all
    from Cons Cons.prems Cons.IH have ih: "mf_end s < mf_end (last ss)"
      "concat (map shard_blocks ss) = [mf_end s..mf_end (last ss) - 1]" by (simp_all add: t(1))
    have "[mf_start s..mf_end (last ss) - 1] = [mf_start s..mf_end s - 1] @ [mf_end s..mf_end (last ss) - 1]"
      using t(2) ih(1) by (intro upto_split1) simp_all
    moreover have "last (s # ss) = last ss" using Cons by simp
    ultimately show ?thesis using ih t(2) by (simp add: shard_blocks_def [of s])
  qed
qed



lemma check_order_Inr:
  assumes "ss \<noteq> []"
  shows "check_order ss = Inr () \<longleftrightarrow>
    mf_start (hd ss) = 0 \<and> (\<forall>(x, y)\<in>set (pairwise ss). mf_start y = mf_end x)
    \<and> (\<forall>i<length ss. (mf_include_input_stage (ss ! i) \<longleftrightarrow> i = 0) \<and> (mf_include_output_stage (ss ! i) \<longleftrightarrow> i = length ss - 1))"
    (is "?l \<longleftrightarrow> ?r")
proof
  assume l: ?l
  then have tl: "\<forall>s\<in>set (tl ss). \<not> mf_include_input_stage s" and bl: "\<forall>s\<in>set (butlast ss). \<not> mf_include_output_stage s"
    and hd: "mf_include_input_stage (hd ss)" "mf_include_output_stage (last ss)"
    by (auto simp: check_order_def for_res_Inr)
  have "mf_include_input_stage (ss ! i) \<longleftrightarrow> i = 0" "mf_include_output_stage (ss ! i) \<longleftrightarrow> i = length ss - 1"
    if "i < length ss" for i
  proof -
    show "mf_include_input_stage (ss ! i) \<longleftrightarrow> i = 0"
    proof (cases i)
      case (Suc j)
      with that have "tl ss ! j = ss ! i" "j < length (tl ss)" by (simp_all add: nth_tl)
      with tl Suc show ?thesis by (metis nat.distinct(1) nth_mem)
    qed (use hd assms in \<open>simp add: hd_conv_nth\<close>)
    show "mf_include_output_stage (ss ! i) \<longleftrightarrow> i = length ss - 1"
    proof (cases "i = length ss - 1")
      case False
      with that have "butlast ss ! i = ss ! i" "i < length (butlast ss)" by (simp_all add: nth_butlast)
      with bl False show ?thesis by (metis nth_mem)
    qed (use hd assms in \<open>simp add: last_conv_nth\<close>)
  qed
  with l show ?r by (auto simp: check_order_def for_res_Inr)
next
  assume r: ?r
  have "\<not> mf_include_input_stage s" if "s \<in> set (tl ss)" for s
    using that r by (auto simp: in_set_conv_nth nth_tl)
  moreover have "\<not> mf_include_output_stage s" if "s \<in> set (butlast ss)" for s
    using that r by (auto simp: in_set_conv_nth nth_butlast)
  moreover have "mf_include_input_stage (hd ss)" "mf_include_output_stage (last ss)"
    using r assms by (simp_all add: hd_conv_nth last_conv_nth)
  ultimately show ?l using r by (auto simp: check_order_def for_res_Inr)
qed

lemma check_topology_model [simp]: "check_topology (man\<lparr>man_model := mm\<rparr>) = check_topology man"
  by (simp add: check_topology_def cong: if_cong)

lemma listen_port: "int_str SHARD_LISTEN_PORT = ''50051''"
  by (simp add: int_str_def SHARD_LISTEN_PORT_def digit_char_def nat_str.simps [of 50051] nat_str.simps [of 5005]
      nat_str.simps [of 500] nat_str.simps [of 50] nat_str.simps [of 5] char_of_def bit_0)

lemma staged_cover:
  assumes st: "staged man rts shards" and ne: "shards \<noteq> []"
  shows "concat (map shard_blocks shards) = [0..mf_end (last shards) - 1]"
    and "i < length shards \<Longrightarrow> (mf_include_input_stage (shards ! i) \<longleftrightarrow> i = 0)
      \<and> (mf_include_output_stage (shards ! i) \<longleftrightarrow> i = length shards - 1)"
proof -
  from st ne have "check_order shards = Inr ()" by (simp add: staged_def)
  note ord = this [unfolded check_order_Inr [OF ne]]
  have rng: "\<forall>s\<in>set shards. mf_start s < mf_end s" using st by (simp add: staged_def)
  from concat_shard_blocks [OF rng ne] ord
  show "concat (map shard_blocks shards) = [0..mf_end (last shards) - 1]" by simp
  show "i < length shards \<Longrightarrow> (mf_include_input_stage (shards ! i) \<longleftrightarrow> i = 0)
      \<and> (mf_include_output_stage (shards ! i) \<longleftrightarrow> i = length shards - 1)" using ord by blast
qed

lemma validate_manifest_Inr:
  assumes "validate_manifest man = Inr man'"
  obtains n rts shards where "resolved_local_name (man_model man') = Inr n" "validate_local_name n = Inr n"
    "staged man' rts shards" "man_execution_id man' \<noteq> []" "check_topology man' = Inr ()"
proof -
  from assms obtain mm where mm: "check_model (man_model man) = Inr mm" and man': "man' = man\<lparr>man_model := mm\<rparr>"
    and rt: "\<forall>r\<in>set (man_runtimes man). check_runtime r = Inr ()" and top: "check_topology man = Inr ()"
    by (auto simp: validate_manifest_def bind_res_Inr for_res_Inr)
  from mm obtain n where n: "resolved_local_name mm = Inr n" "validate_local_name n = Inr n" by (rule check_model_Inr)
  from top have top': "check_topology man' = Inr ()" by (simp add: man')
  from rt have "\<forall>r\<in>set (man_runtimes man'). check_runtime r = Inr ()" by (simp add: man')
  from staged_exists [OF top' this] obtain rts shards where "staged man' rts shards" .
  moreover have "man_execution_id man' \<noteq> []" using top' by (simp add: check_topology_def Let_def)
  ultimately show ?thesis using that n top' by (simp add: man')
qed

lemma manifest_configs:
  assumes "validate_manifest man = Inr man'"
  shows "\<exists>cfgs. write_runtime_configs man' = Inr cfgs \<and> map fst cfgs = man_pipeline man'
    \<and> (\<forall>i<length cfgs. let c = snd (cfgs ! i) in
         validate_config c = Inr c \<and> rs_runtime_id (rc_runtime c) = man_pipeline man' ! i
         \<and> rs_execution_id (rc_runtime c) = man_execution_id man'
         \<and> ps_stage_index (rc_pipeline c) = int i \<and> ps_stage_count (rc_pipeline c) = int (length cfgs)
         \<and> ps_next_endpoint (rc_pipeline c) =
             (if i + 1 < length cfgs then Some (man_pipeline man' ! (i + 1) @ '':50051'') else None)
         \<and> sc_start_block (rc_shard c) < sc_end_block (rc_shard c)
         \<and> (sc_include_input_stage (rc_shard c) \<longleftrightarrow> i = 0)
         \<and> (sc_include_output_stage (rc_shard c) \<longleftrightarrow> i = length cfgs - 1))
    \<and> (cfgs \<noteq> [] \<longrightarrow> concat (map (\<lambda>(rid, c). [sc_start_block (rc_shard c)..sc_end_block (rc_shard c) - 1]) cfgs)
         = [0..sc_end_block (rc_shard (snd (last cfgs))) - 1])"
proof -
  from validate_manifest_Inr [OF assms] obtain n rts shards where n: "resolved_local_name (man_model man') = Inr n"
    "validate_local_name n = Inr n" and st: "staged man' rts shards" and eid: "man_execution_id man' \<noteq> []" by metis
  let ?N = "length (man_pipeline man')" and ?c = "\<lambda>i. (man_pipeline man' ! i, stage_config man' n rts shards i)"
  note nth = staged_nth [OF st]
  let ?cfgs = "map ?c [0..<?N]"
  have rng: "\<forall>s\<in>set shards. mf_start s < mf_end s" using st by (simp add: staged_def)
  have roles: "(mf_include_input_stage (shards ! i) \<longleftrightarrow> i = 0) \<and> (mf_include_output_stage (shards ! i) \<longleftrightarrow> i = ?N - 1)"
    if "i < ?N" for i
  proof -
    have "shards \<noteq> []" using that nth(2) by auto
    from staged_cover(2) [OF st this, of i] that show ?thesis by (simp add: nth(2))
  qed
  have blocks: "map (\<lambda>(rid, c). [sc_start_block (rc_shard c)..sc_end_block (rc_shard c) - 1]) ?cfgs
      = map shard_blocks shards"
    by (rule nth_equalityI) (simp_all add: nth(2) stage_config_def shard_blocks_def)
  have cover: "concat (map (\<lambda>(rid, c). [sc_start_block (rc_shard c)..sc_end_block (rc_shard c) - 1]) ?cfgs)
         = [0..sc_end_block (rc_shard (snd (last ?cfgs))) - 1]" if "?cfgs \<noteq> []"
  proof -
    from that have "man_pipeline man' \<noteq> []" by auto
    then have ne: "shards \<noteq> []" using nth(2) by auto
    moreover have "last ?cfgs = ?c (?N - 1)" using that by (simp add: last_map)
    ultimately have "sc_end_block (rc_shard (snd (last ?cfgs))) = mf_end (last shards)"
      using nth(2) by (simp add: last_conv_nth) (simp add: stage_config_def)
    then show ?thesis by (simp only: blocks staged_cover(1) [OF st ne])
  qed
  have each: "let c = snd (?cfgs ! i) in
         validate_config c = Inr c \<and> rs_runtime_id (rc_runtime c) = man_pipeline man' ! i
         \<and> rs_execution_id (rc_runtime c) = man_execution_id man'
         \<and> ps_stage_index (rc_pipeline c) = int i \<and> ps_stage_count (rc_pipeline c) = int (length ?cfgs)
         \<and> ps_next_endpoint (rc_pipeline c) =
             (if i + 1 < length ?cfgs then Some (man_pipeline man' ! (i + 1) @ '':50051'') else None)
         \<and> sc_start_block (rc_shard c) < sc_end_block (rc_shard c)
         \<and> (sc_include_input_stage (rc_shard c) \<longleftrightarrow> i = 0)
         \<and> (sc_include_output_stage (rc_shard c) \<longleftrightarrow> i = length ?cfgs - 1)" if "i < length ?cfgs" for i
    using stage_config_valid [OF st _ eid, of i n] roles [of i] rng nth(2) that
    by (simp add: Let_def) (simp add: stage_config_def listen_port)
  have keys: "map fst ?cfgs = man_pipeline man'" by (simp add: comp_def map_nth)
  show ?thesis
    by (rule exI [of _ ?cfgs]) (use write_runtime_configs_staged [OF st eid n] keys each cover in blast)
qed


text \<open>[C13] An accepted manifest can be deployed: configurations are generated for every pipeline runtime
  in order, each passes the runtime's own validation, carries its stage position and the address of
  the next stage (none for the last), and together their block ranges cover a model from block 0
  without gap or overlap, with the token and logits roles exactly at the ends.\<close>

theorem accepted_manifest_configs:
  assumes "validate_manifest man = Inr man'"
  shows "\<exists>cfgs. write_runtime_configs man' = Inr cfgs \<and> map fst cfgs = man_pipeline man'
    \<and> (\<forall>i<length cfgs. let c = snd (cfgs ! i) in
         validate_config c = Inr c \<and> rs_runtime_id (rc_runtime c) = man_pipeline man' ! i
         \<and> rs_execution_id (rc_runtime c) = man_execution_id man'
         \<and> ps_stage_index (rc_pipeline c) = int i \<and> ps_stage_count (rc_pipeline c) = int (length cfgs)
         \<and> ps_next_endpoint (rc_pipeline c) =
             (if i + 1 < length cfgs then Some (man_pipeline man' ! (i + 1) @ '':50051'') else None)
         \<and> sc_start_block (rc_shard c) < sc_end_block (rc_shard c)
         \<and> (sc_include_input_stage (rc_shard c) \<longleftrightarrow> i = 0)
         \<and> (sc_include_output_stage (rc_shard c) \<longleftrightarrow> i = length cfgs - 1))
    \<and> (cfgs \<noteq> [] \<longrightarrow> concat (map (\<lambda>(rid, c). [sc_start_block (rc_shard c)..sc_end_block (rc_shard c) - 1]) cfgs)
         = [0..sc_end_block (rc_shard (snd (last cfgs))) - 1])"
  by (rule manifest_configs [OF assms])

definition demo_manifest :: manifest where
  "demo_manifest = \<lparr>man_execution_id = ''e'', man_model = \<lparr>mm_id = ''tiny/llama'', mm_local_name = None\<rparr>,
     man_runtimes =
       [\<lparr>mr_id = ''r1'', mr_backend = BACKEND_SHARD, mr_image = None,
         mr_shard = Some \<lparr>mf_start = 1, mf_end = 2, mf_include_input_stage = False, mf_include_output_stage = True\<rparr>,
         mr_vllm = None, mr_device = \<lparr>ds_type = Cpu, ds_index = None\<rparr>, mr_dtype = Bf16\<rparr>,
        \<lparr>mr_id = ''r0'', mr_backend = BACKEND_SHARD, mr_image = None,
         mr_shard = Some \<lparr>mf_start = 0, mf_end = 1, mf_include_input_stage = True, mf_include_output_stage = False\<rparr>,
         mr_vllm = None, mr_device = \<lparr>ds_type = Cpu, ds_index = None\<rparr>, mr_dtype = Bf16\<rparr>],
     man_pipeline = [''r0'', ''r1'']\<rparr>"

definition demo_accepted :: manifest where
  "demo_accepted = demo_manifest\<lparr>man_model := \<lparr>mm_id = ''tiny/llama'', mm_local_name = Some ''tiny-llama''\<rparr>\<rparr>"

lemma demo_manifest_accepted: "validate_manifest demo_manifest = Inr demo_accepted"
  by code_simp

theorem accepted_manifest_configs_witness:
  "\<exists>cfgs. write_runtime_configs demo_accepted = Inr cfgs \<and> map fst cfgs = [''r0'', ''r1'']"
proof -
  have "man_pipeline demo_accepted = [''r0'', ''r1'']" by code_simp
  with accepted_manifest_configs [OF demo_manifest_accepted] show ?thesis by auto
qed

end
