(* ===== verification/Shard_Server.thy ===== *)
theory Shard_Server
  imports Partition Runtime_Config
begin

section \<open>The shard runtime servers of one pipeline\<close>

text \<open>
  \<^verbatim>\<open>runtime/shard_server.py\<close> (\<^verbatim>\<open>ShardRuntimeHandler\<close>), \<^verbatim>\<open>protocol/grpc_server.py\<close> (the servicer) and
  \<^verbatim>\<open>protocol/grpc_client.py\<close> (the client of one endpoint). Each runtime is one process with its own
  configuration and shard module, and calls only the next one; the processes of a pipeline are a
  list in stage order, and a handler that calls downstream acts on the rest of the list.

  gRPC is not code of the repository: \<open>delivery\<close> says what happens to one call, delivered, the request
  lost, or the reply lost after the server acted. A lost call, like any exception the servicer turns
  into an abort, is an \<open>AioRpcError\<close> at the caller. Serving, waiting for the downstream endpoint and
  shutting down are process lifecycle and are left out.
\<close>


subsection \<open>Calls between processes\<close>

datatype delivery = Delivered | RequestLost | ReplyLost

definition rpc_error :: exn where "rpc_error = AioRpcError ''rpc failed''"

text \<open>\<open>deliver d s out\<close>: \<open>s\<close> is the callee's state, \<open>out\<close> what the servicer does with it.\<close>

fun deliver :: "delivery \<Rightarrow> 's \<Rightarrow> 's \<times> 'a res \<Rightarrow> 's \<times> 'a res" where
  "deliver Delivered s out = out"
| "deliver RequestLost s out = (s, Inl rpc_error)"
| "deliver ReplyLost s out = (fst out, Inl rpc_error)"

text \<open>The exceptions derived from \<^verbatim>\<open>EdgeShardError\<close>, and what the servicer catches: \<^verbatim>\<open>CreateSession\<close> and
  \<^verbatim>\<open>CloseSession\<close> answer \<^verbatim>\<open>ok=False\<close>, anything else ends the call with an error status.\<close>

fun edgeshard_error :: "exn \<Rightarrow> bool" where
  "edgeshard_error (ValueError _) = False"
| "edgeshard_error (KeyError _) = False"
| "edgeshard_error (IndexError _) = False"
| "edgeshard_error (RuntimeError _) = False"
| "edgeshard_error (AioRpcError _) = False"
| "edgeshard_error (OSError _) = False"
| "edgeshard_error (SessionRefused _) = False"
| "edgeshard_error (AssertionError _) = False"
| "edgeshard_error _ = True"

fun is_value_error :: "exn \<Rightarrow> bool" where
  "is_value_error (ValueError _) = True"
| "is_value_error _ = False"

text \<open>\<^verbatim>\<open>ShardRuntimeClient.create_session\<close> and \<^verbatim>\<open>close_session\<close> on the servicer's answer.\<close>

definition session_reply :: "string \<Rightarrow> unit res \<Rightarrow> unit res" where
  "session_reply what r =
     (case r of
        Inr u \<Rightarrow> Inr ()
      | Inl e \<Rightarrow> if edgeshard_error e \<or> is_value_error e then Inl (ProtocolError what) else Inl rpc_error)"

text \<open>\<^verbatim>\<open>_forward\<close> aborts or fails on every exception.\<close>

definition forward_status :: "'a res \<Rightarrow> 'a res" where
  "forward_status r = (case r of Inr a \<Rightarrow> Inr a | Inl e \<Rightarrow> Inl rpc_error)"


subsection \<open>One runtime process\<close>

record ('x, 'c, 't) runtime_node =
  nd_config :: runtime_config
  nd_module :: "('x, 'c, 't) shard_module"

definition check_execution_id :: "runtime_config \<Rightarrow> string \<Rightarrow> unit res" where
  "check_execution_id c eid = raise_if (eid \<noteq> rs_execution_id (rc_runtime c)) (ProtocolError ''wrong execution ID'')"

definition build_shard_module ::
    "('x, 'c, 't) hf \<Rightarrow> (skeleton \<Rightarrow> string list) \<Rightarrow> model_config \<Rightarrow> snapshot_dir
     \<Rightarrow> (string \<Rightarrow> string \<Rightarrow> 't) \<Rightarrow> runtime_config \<Rightarrow> ('x, 'c, 't) shard_module res" where
  "build_shard_module hf params cfg dir get_tensor c =
     bind_res (section_blocks (rc_shard c)) (\<lambda>b.
     bind_res (device_of_section (rc_device c)) (\<lambda>dev.
       shard_build hf params cfg dir get_tensor (rc_dtype c) dev
         \<lparr>spec_model_id = ms_id (rc_model c), spec_blocks = b,
          include_input_stage = sc_include_input_stage (rc_shard c),
          include_output_stage = sc_include_output_stage (rc_shard c)\<rparr>))"

text \<open>\<^verbatim>\<open>ShardRuntimeServer.create\<close> up to serving: the module is built, then the handler checks that a
  downstream client is there exactly for a non-final stage.\<close>

definition make_node ::
    "('x, 'c, 't) hf \<Rightarrow> (skeleton \<Rightarrow> string list) \<Rightarrow> model_config \<Rightarrow> snapshot_dir
     \<Rightarrow> (string \<Rightarrow> string \<Rightarrow> 't) \<Rightarrow> runtime_config \<Rightarrow> ('x, 'c, 't) runtime_node res" where
  "make_node hf params cfg dir get_tensor c =
     bind_res (build_shard_module hf params cfg dir get_tensor c) (\<lambda>m.
       let downstream = \<not> no_endpoint (ps_next_endpoint (rc_pipeline c))
       in then_res (raise_if (is_final_stage c \<and> downstream)
                      (ValueError ''the final stage must not have a downstream client''))
          (then_res (raise_if (\<not> is_final_stage c \<and> \<not> downstream)
                      (ValueError ''non-final stages require a downstream client''))
          (Inr \<lparr>nd_config = c, nd_module = m\<rparr>)))"

definition has_downstream :: "('x, 'c, 't) runtime_node \<Rightarrow> bool" where
  "has_downstream n = (\<not> no_endpoint (ps_next_endpoint (rc_pipeline (nd_config n))))"

definition node_stage :: "('x, 'c, 't) runtime_node \<Rightarrow> int" where
  "node_stage n = ps_stage_index (rc_pipeline (nd_config n))"


subsection \<open>Sessions along the pipeline\<close>

text \<open>\<open>link k\<close> is the fate of the call into stage \<open>k\<close>.\<close>

fun srv_create_session ::
    "(int \<Rightarrow> delivery) \<Rightarrow> string \<Rightarrow> string \<Rightarrow> ('x, 'c, 't) runtime_node list
     \<Rightarrow> ('x, 'c, 't) runtime_node list \<times> unit res" where
  "srv_create_session link eid sid [] = ([], Inl rpc_error)"
| "srv_create_session link eid sid (n # rest) =
     (case then_res (check_execution_id (nd_config n) eid) (sm_create_session (nd_module n) sid) of
        Inl e \<Rightarrow> (n # rest, Inl e)
      | Inr m \<Rightarrow>
          if has_downstream n
          then case deliver (link (node_stage n + 1)) rest
                      (let (rest', r) = srv_create_session link eid sid rest
                       in (rest', session_reply ''create session failed'' r)) of
                 (rest', Inr u) \<Rightarrow> (n\<lparr>nd_module := m\<rparr> # rest', Inr ())
               | (rest', Inl e) \<Rightarrow>
                   (case sm_close_session m sid of
                      Inl e' \<Rightarrow> (n\<lparr>nd_module := m\<rparr> # rest', Inl e')
                    | Inr m' \<Rightarrow> (n\<lparr>nd_module := m'\<rparr> # rest', Inl e))
          else (n\<lparr>nd_module := m\<rparr> # rest, Inr ()))"

fun srv_close_session ::
    "(int \<Rightarrow> delivery) \<Rightarrow> string \<Rightarrow> string \<Rightarrow> ('x, 'c, 't) runtime_node list
     \<Rightarrow> ('x, 'c, 't) runtime_node list \<times> unit res" where
  "srv_close_session link eid sid [] = ([], Inl rpc_error)"
| "srv_close_session link eid sid (n # rest) =
     (case then_res (check_execution_id (nd_config n) eid) (sm_close_session (nd_module n) sid) of
        Inl e \<Rightarrow> (n # rest, Inl e)
      | Inr m \<Rightarrow>
          if has_downstream n
          then let (rest', r) = deliver (link (node_stage n + 1)) rest
                      (let (rest', r) = srv_close_session link eid sid rest
                       in (rest', session_reply ''close session failed'' r))
               in (n\<lparr>nd_module := m\<rparr> # rest', r)
          else (n\<lparr>nd_module := m\<rparr> # rest, Inr ()))"


subsection \<open>Executing a forward message\<close>

definition srv_run_local ::
    "('x, 'c, 't) shard_module \<Rightarrow> 'x shard_message \<Rightarrow> bool \<Rightarrow> (('x, 'c, 't) shard_module \<times> 'x shard_result) res" where
  "srv_run_local m msg decode =
     (let sid = session_id (msg_header msg); mode = hdr_logits_mode (msg_header msg) in
      if include_input_stage (sm_shard m)
      then (case msg_payload msg of
              TokenPayload ids \<Rightarrow>
                if decode
                then if length ids \<noteq> 1 then Inl (ProtocolError ''decode expects exactly one token'')
                     else sm_decode m sid (Some (hd ids)) None
                else sm_prefill m sid (Some [map Long ids]) None mode
            | _ \<Rightarrow> Inl (ProtocolError ''input stage expects a token payload''))
      else (case msg_payload msg of
              HiddenStatePayload h \<Rightarrow>
                if decode then sm_decode m sid None (Some h)
                else sm_prefill m sid None (Some h) mode
            | _ \<Rightarrow> Inl (ProtocolError ''non-input stage expects a hidden-state payload'')))"

definition srv_message ::
    "('x, 'b, 'w) wire_env \<Rightarrow> message_header \<Rightarrow> int \<Rightarrow> int \<Rightarrow> 'x exec_context \<Rightarrow> 'x payload \<Rightarrow> 'x shard_message" where
  "srv_message env h src tgt ctx pl =
     \<lparr>msg_header = \<lparr>protocol_version = PROTOCOL_VERSION, execution_id = execution_id h, session_id = session_id h,
        request_id = we_uuid env (session_id h) (hdr_step h) src, hdr_phase = hdr_phase h, hdr_step = hdr_step h,
        source_stage = src, target_stage = tgt, hdr_logits_mode = hdr_logits_mode h\<rparr>,
      msg_context = ctx, msg_payload = pl\<rparr>"

text \<open>The client side of \<^verbatim>\<open>Prefill\<close> and \<^verbatim>\<open>Decode\<close>: the request mapped and serialized; the reply parsed and
  mapped back. The servicer maps the request, runs the handler and maps its reply.\<close>

definition client_request :: "('x, 'b, 'w) wire_env \<Rightarrow> 'x shard_message \<Rightarrow> 'b forward_wire res" where
  "client_request env msg = bind_res (message_to_forward_request env msg) (through_bytes env)"

definition client_reply :: "('x, 'b, 'w) wire_env \<Rightarrow> 'b forward_wire res \<Rightarrow> 'x shard_message res" where
  "client_reply env r = bind_res (bind_res r (through_bytes env)) (forward_reply_to_message env)"

fun srv_execute ::
    "('x, 'b, 'w) wire_env \<Rightarrow> (int \<Rightarrow> delivery) \<Rightarrow> bool \<Rightarrow> 'x shard_message \<Rightarrow> ('x, 'c, 't) runtime_node list
     \<Rightarrow> ('x, 'c, 't) runtime_node list \<times> 'x shard_message res" where
  "srv_execute env link decode msg [] = ([], Inl rpc_error)"
| "srv_execute env link decode msg (n # rest) =
     (let h = msg_header msg in
      case sm_session (nd_module n) (session_id h) of
        Inl e \<Rightarrow> (n # rest, Inl e)
      | Inr s \<Rightarrow>
          case then_res (validate_forward_message msg
                 \<lparr>exp_execution_id = rs_execution_id (rc_runtime (nd_config n)), exp_stage_index = node_stage n,
                  exp_next_step = sess_step s, exp_session_open = True\<rparr>)
                 (srv_run_local (nd_module n) msg decode) of
            Inl e \<Rightarrow> (n # rest, Inl e)
          | Inr (m, output) \<Rightarrow>
              let n' = n\<lparr>nd_module := m\<rparr> in
              if is_final_stage (nd_config n)
              then (n' # rest,
                    case output of
                      StateResult _ \<Rightarrow> Inl (ProtocolError ''final stage produced no logits'')
                    | LogitsResult out \<Rightarrow>
                        Inr (srv_message env h (node_stage n) MASTER_STAGE (lo_context out) (LogitsPayload (lo_logits out))))
              else case output of
                     LogitsResult _ \<Rightarrow> (n' # rest, Inl (ProtocolError ''non-final stage must not produce logits''))
                   | StateResult st \<Rightarrow>
                       (case client_request env (srv_message env h (node_stage n) (node_stage n + 1) (ss_context st)
                               (HiddenStatePayload (ss_hidden st))) of
                          Inl e \<Rightarrow> (n' # rest, Inl e)
                        | Inr req \<Rightarrow>
                            (let (rest', r) = deliver (link (node_stage n + 1)) rest
                               (case forward_request_to_message env req of
                                  Inl e \<Rightarrow> (rest, Inl rpc_error)
                                | Inr msg' \<Rightarrow>
                                    (let (rest'', r') = srv_execute env link decode msg' rest
                                     in (rest'', forward_status (bind_res r' (message_to_forward_reply env)))))
                             in (n' # rest', client_reply env r))))"



subsection \<open>Wired pipelines\<close>

text \<open>The processes of one deployment: consecutive stages from \<open>k\<close>, each with a downstream endpoint
  except the final one.\<close>

fun wired :: "int \<Rightarrow> ('x, 'c, 't) runtime_node list \<Rightarrow> bool" where
  "wired k [] = False"
| "wired k [n] = (node_stage n = k \<and> \<not> has_downstream n \<and> is_final_stage (nd_config n))"
| "wired k (n # n' # rest) =
     (node_stage n = k \<and> has_downstream n \<and> \<not> is_final_stage (nd_config n) \<and> wired (k + 1) (n' # rest))"

lemma wired_Cons:
  "wired k (n # rest) \<longleftrightarrow> node_stage n = k
     \<and> (if rest = [] then \<not> has_downstream n \<and> is_final_stage (nd_config n)
        else has_downstream n \<and> \<not> is_final_stage (nd_config n) \<and> wired (k + 1) rest)"
  by (cases rest) auto

lemma deliver_unchanged:
  assumes "d \<noteq> ReplyLost" and "deliver d s out = (s', Inl e)" and "\<And>e'. snd out = Inl e' \<Longrightarrow> fst out = s"
  shows "s' = s"
  using assms by (cases d) auto

lemma session_reply_Inr [simp]: "session_reply w r = Inr u \<longleftrightarrow> r = Inr ()"
  by (auto simp: session_reply_def split: sum.splits)

definition opened :: "string \<Rightarrow> ('x, 'c, 't) runtime_node \<Rightarrow> ('x, 'c, 't) runtime_node" where
  "opened sid n = n\<lparr>nd_module := (nd_module n)\<lparr>sm_sessions := (sm_sessions (nd_module n))(sid \<mapsto>
     \<lparr>sess_id = sid, kv_cache = hf_new_cache (sm_hf (nd_module n)), sequence_length = 0, sess_step = 0\<rparr>)\<rparr>\<rparr>"

lemma create_module:
  "then_res (check_execution_id (nd_config n) eid) (sm_create_session (nd_module n) sid) =
     (if eid \<noteq> rs_execution_id (rc_runtime (nd_config n)) then Inl (ProtocolError ''wrong execution ID'')
      else if sm_sessions (nd_module n) sid \<noteq> None then Inl (SessionError ''session already exists'')
      else Inr (nd_module (opened sid n)))"
  by (simp add: check_execution_id_def sm_create_session_def opened_def)

lemma opened_module: "n\<lparr>nd_module := nd_module (opened sid n)\<rparr> = opened sid n"
  by (simp add: opened_def)

lemma close_opened:
  assumes "sm_sessions (nd_module n) sid = None"
  shows "sm_close_session (nd_module (opened sid n)) sid = Inr (nd_module n)"
proof -
  have "sm_create_session (nd_module n) sid = Inr (nd_module (opened sid n))"
    using assms by (simp add: sm_create_session_def opened_def)
  then show ?thesis by (rule shard_sessions.close_create)
qed

lemma srv_create_unchanged:
  assumes link: "\<forall>k. link k \<noteq> ReplyLost"
  shows "srv_create_session link eid sid nodes = (nodes', Inl e) \<Longrightarrow> nodes' = nodes"
proof (induction nodes arbitrary: nodes' e)
  case Nil
  then show ?case by simp
next
  case (Cons n rest)
  show ?case
  proof (cases "then_res (check_execution_id (nd_config n) eid) (sm_create_session (nd_module n) sid)")
    case (Inl e')
    with Cons.prems show ?thesis by simp
  next
    case (Inr m)
    then have m: "m = nd_module (opened sid n)" and none: "sm_sessions (nd_module n) sid = None"
      by (auto simp: create_module split: if_splits)
    let ?down = "let (rest', r) = srv_create_session link eid sid rest in (rest', session_reply ''create session failed'' r)"
    from Cons.prems Inr obtain rest' e' where del: "deliver (link (node_stage n + 1)) rest ?down = (rest', Inl e')"
      and out: "nodes' = n\<lparr>nd_module := nd_module n\<rparr> # rest'"
      by (auto simp: m close_opened [OF none] split: if_splits prod.splits sum.splits)
    have "rest' = rest"
    proof (rule deliver_unchanged [OF _ del])
      show "link (node_stage n + 1) \<noteq> ReplyLost" using link by simp
      fix e'' assume "snd ?down = Inl e''"
      then obtain e0 where "snd (srv_create_session link eid sid rest) = Inl e0"
        by (cases "snd (srv_create_session link eid sid rest)") (auto simp: split_beta session_reply_def)
      then have "srv_create_session link eid sid rest = (fst (srv_create_session link eid sid rest), Inl e0)"
        by (simp add: prod_eq_iff)
      from Cons.IH [OF this] show "fst ?down = rest" by (simp add: split_beta)
    qed
    with out show ?thesis by simp
  qed
qed

lemma deliver_Inr: "deliver d s out = (s', Inr u) \<longleftrightarrow> d = Delivered \<and> out = (s', Inr u)"
  by (cases d) auto

lemma srv_create_success:
  assumes "wired k nodes"
  shows "srv_create_session link eid sid nodes = (nodes', Inr ()) \<longleftrightarrow>
      nodes' = map (opened sid) nodes
      \<and> (\<forall>n\<in>set nodes. rs_execution_id (rc_runtime (nd_config n)) = eid \<and> sm_sessions (nd_module n) sid = None)
      \<and> (\<forall>j. k < j \<and> j < k + int (length nodes) \<longrightarrow> link j = Delivered)"
  using assms
proof (induction nodes arbitrary: k nodes')
  case Nil
  then show ?case by simp
next
  case (Cons n rest)
  let ?ok = "rs_execution_id (rc_runtime (nd_config n)) = eid \<and> sm_sessions (nd_module n) sid = None"
  let ?down = "let (rest', r) = srv_create_session link eid sid rest in (rest', session_reply ''create session failed'' r)"
  have entry: "then_res (check_execution_id (nd_config n) eid) (sm_create_session (nd_module n) sid) =
      (if ?ok then Inr (nd_module (opened sid n)) else Inl (if eid \<noteq> rs_execution_id (rc_runtime (nd_config n))
         then ProtocolError ''wrong execution ID'' else SessionError ''session already exists''))"
    by (auto simp: create_module)
  show ?case
  proof (cases "rest = []")
    case True
    with Cons.prems show ?thesis by (auto simp: entry opened_module)
  next
    case False
    with Cons.prems have w: "node_stage n = k" "has_downstream n" "wired (k + 1) rest" by (simp_all add: wired_Cons)
    have step: "srv_create_session link eid sid (n # rest) = (nodes', Inr ()) \<longleftrightarrow>
        ?ok \<and> (\<exists>rest'. deliver (link (k + 1)) rest ?down = (rest', Inr ()) \<and> nodes' = opened sid n # rest')"
      by (auto simp: entry w opened_module close_opened split: prod.splits sum.splits)
    have down: "?down = (rest', Inr ()) \<longleftrightarrow> srv_create_session link eid sid rest = (rest', Inr ())" for rest'
      by (auto split: prod.splits)
    have links: "(\<forall>j. k < j \<and> j < k + int (length (n # rest)) \<longrightarrow> link j = Delivered) \<longleftrightarrow>
        link (k + 1) = Delivered \<and> (\<forall>j. k + 1 < j \<and> j < k + 1 + int (length rest) \<longrightarrow> link j = Delivered)"
    proof -
      have "0 < length rest" using False by simp
      then have "k < j \<and> j < k + int (length (n # rest)) \<longleftrightarrow> j = k + 1 \<or> k + 1 < j \<and> j < k + 1 + int (length rest)" for j
        by auto
      then show ?thesis by metis
    qed
    show ?thesis
      unfolding step deliver_Inr down Cons.IH [OF w(3)] links by auto
  qed
qed

text \<open>[C12] Opening a session across the runtime processes is all-or-nothing. If every process belongs to the
  execution, none knows the session and every call is delivered, the session is opened fresh on every
  process; otherwise the caller gets an exception and, unless a reply is lost, every process is
  exactly as before.\<close>

theorem srv_create_session_all_or_nothing:
  assumes "wired 0 nodes" and "\<forall>k. link k \<noteq> ReplyLost"
  shows "if (\<forall>n\<in>set nodes. rs_execution_id (rc_runtime (nd_config n)) = eid \<and> sm_sessions (nd_module n) sid = None)
      \<and> (\<forall>k. 0 < k \<and> k < int (length nodes) \<longrightarrow> link k = Delivered)
    then srv_create_session link eid sid nodes = (map (opened sid) nodes, Inr ())
    else \<exists>e. srv_create_session link eid sid nodes = (nodes, Inl e)"
  using srv_create_success [OF assms(1), of link eid sid] srv_create_unchanged [OF assms(2), of eid sid nodes]
  by (cases "srv_create_session link eid sid nodes"; cases "snd (srv_create_session link eid sid nodes)") auto



subsection \<open>A forward pass through the processes\<close>

text \<open>A message addressed to stage \<open>k\<close> for a step of a session.\<close>

definition addressed ::
    "string \<Rightarrow> string \<Rightarrow> phase \<Rightarrow> int \<Rightarrow> int \<Rightarrow> logits_mode \<Rightarrow> 'x shard_message \<Rightarrow> bool" where
  "addressed eid sid ph step k lm msg \<longleftrightarrow>
     protocol_version (msg_header msg) = PROTOCOL_VERSION \<and> execution_id (msg_header msg) = eid
     \<and> session_id (msg_header msg) = sid \<and> request_id (msg_header msg) \<noteq> [] \<and> hdr_phase (msg_header msg) = ph
     \<and> hdr_step (msg_header msg) = step \<and> source_stage (msg_header msg) = k - 1
     \<and> target_stage (msg_header msg) = k \<and> hdr_logits_mode (msg_header msg) = lm
     \<and> ctx_phase (msg_context msg) = ph"

definition phase_of :: "int \<Rightarrow> phase" where
  "phase_of step = (if step = 0 then PREFILL else DECODE)"

definition mode_of :: "int \<Rightarrow> logits_mode \<Rightarrow> logits_mode" where
  "mode_of step lm = (if step = 0 then lm else FULL)"

lemma srv_run_local_inner:
  assumes "addressed eid sid (phase_of step) step k lm msg" and "msg_payload msg = HiddenStatePayload h"
    and "sm_sessions m sid = Some s" and "sess_step s = step" and "\<not> include_input_stage (sm_shard m)"
  shows "srv_run_local m msg (step \<noteq> 0) = Inr (sm_advance m sid s h (phase_of step) (mode_of step lm))"
  using assms by (auto simp: srv_run_local_def addressed_def phase_of_def mode_of_def Let_def
      sm_prefill_inner sm_decode_inner)

lemma message_round_trip:
  assumes env: "wire_env_ok env" and "payload_valid (msg_payload m)"
    and "protocol_version (msg_header m) = PROTOCOL_VERSION" and "message_in_range m"
  obtains w where "client_request env m = Inr w" "forward_request_to_message env w = Inr m"
    "message_to_forward_reply env m = Inr w" "client_reply env (Inr w) = Inr m"
proof -
  obtain w where "message_to_forward_request env m = Inr w"
    using message_to_forward_request_ok [of env m] assms(4) by (auto simp: is_ok_iff)
  with request_round_trip [OF assms(1-3) this] env that [of w] show ?thesis
    by (simp add: client_request_def client_reply_def through_bytes_def wire_env_ok_def reply_is_request
        reply_from_is_request)
qed

lemma srv_message_in_range:
  assumes "context_in_range ctx" and "payload_in_range pl" and "int32 (hdr_step h)" and "int32 src" and "int32 tgt"
  shows "message_in_range (srv_message env h src tgt ctx pl)"
  using assms by (simp add: message_in_range_def srv_message_def header_in_range_def PROTOCOL_VERSION_def int32_def)

lemma srv_entry:
  assumes "addressed eid sid (phase_of step) step k lm msg" and "sm_sessions (nd_module n) sid = Some s"
    and "sess_step s = step" and "0 \<le> step" and "node_stage n = k" and "eid \<noteq> []" and "sid \<noteq> []"
    and "rs_execution_id (rc_runtime (nd_config n)) = eid"
  shows "sm_session (nd_module n) (session_id (msg_header msg)) = Inr s"
    and "validate_forward_message msg \<lparr>exp_execution_id = rs_execution_id (rc_runtime (nd_config n)),
       exp_stage_index = node_stage n, exp_next_step = sess_step s, exp_session_open = True\<rparr> = Inr ()"
  using assms by (auto simp: sm_session_def addressed_def validate_forward_message_Inr phase_of_def Let_def)

text \<open>The reply the last process sends back to the master.\<close>

definition answers :: "'x tensor \<Rightarrow> 'x exec_context \<Rightarrow> 'x shard_message \<Rightarrow> bool" where
  "answers lg ctx reply \<longleftrightarrow> msg_payload reply = LogitsPayload lg \<and> msg_context reply = ctx
     \<and> protocol_version (msg_header reply) = PROTOCOL_VERSION \<and> message_in_range reply"

lemma answers_round_trip:
  assumes "wire_env_ok env" and "answers lg ctx reply"
  shows "client_reply env (forward_status (bind_res (Inr reply) (message_to_forward_reply env))) = Inr reply"
proof -
  have "payload_valid (msg_payload reply)" "protocol_version (msg_header reply) = PROTOCOL_VERSION" "message_in_range reply"
    using assms(2) by (simp_all add: answers_def)
  from message_round_trip [OF assms(1) this] obtain w where "message_to_forward_reply env reply = Inr w"
    "client_reply env (Inr w) = Inr reply" by metis
  then show ?thesis by (simp add: forward_status_def)
qed

lemma srv_execute_reference:
  assumes d: "decoder_ok d" and hf: "runs_decoder hf d" and env: "wire_env_ok env"
    and link: "\<forall>j. link j = Delivered" and ids: "eid \<noteq> []" "sid \<noteq> []"
    and step: "0 \<le> step" "step < 2 ^ 31" and ctx: "context_in_range (step_context (phase_of step) step batch past q :: 'x exec_context)"
  shows "\<lbrakk>pending hf ck tied sid C past step (map nd_module nodes); wired k nodes; chain a (map nd_module nodes) L;
      \<forall>n\<in>set nodes. rs_execution_id (rc_runtime (nd_config n)) = eid;
      \<forall>n\<in>set (tl nodes). \<not> include_input_stage (sm_shard (nd_module n));
      \<forall>j. a \<le> j \<and> j < L \<longrightarrow> dec_len d (C j) = past; shape0 h = batch; shape1 h = q;
      0 \<le> k; k + int (length nodes) < 2 ^ 31; ref_layers d ck a L past h C = (h', C');
      addressed eid sid (phase_of step) step k lm msg;
      \<And>s. sm_sessions (nd_module (hd nodes)) sid = Some s \<Longrightarrow> sess_step s = step \<Longrightarrow>
        srv_run_local (nd_module (hd nodes)) msg (step \<noteq> 0)
        = Inr (sm_advance (nd_module (hd nodes)) sid s h (phase_of step) (mode_of step lm))\<rbrakk>
    \<Longrightarrow> \<exists>nodes' reply. srv_execute env link (step \<noteq> 0) msg nodes = (nodes', Inr (reply :: 'x shard_message))
      \<and> answers (ref_logits d ck tied (mode_of step lm) h') (step_context (phase_of step) step batch past q) reply
      \<and> list_all2 (stepped hf ck tied sid C' (past + q) (step + 1)) (map nd_module nodes) (map nd_module nodes')
      \<and> map nd_config nodes' = map nd_config nodes"
proof (induction nodes arbitrary: k a h C msg)
  case Nil
  then show ?case by simp
next
  case (Cons n rest)
  let ?m = "nd_module n" and ?ctx = "step_context (phase_of step) step batch past q :: 'x exec_context"
  let ?lg = "ref_logits d ck tied (mode_of step lm) h'" and ?hd = "msg_header msg"
  from Cons.prems(1) obtain s where s: "sm_sessions ?m sid = Some s" "sess_step s = step"
    by (auto simp: pending_def lockstep_def)
  have w: "node_stage n = k" using Cons.prems(2) by (simp add: wired_Cons)
  have i32: "int32 (hdr_step ?hd)" "int32 k" "int32 (k + 1)" "int32 MASTER_STAGE"
    using Cons.prems(9,10,12) step by (auto simp: int32_def addressed_def MASTER_STAGE_def)
  note entry = srv_entry [OF Cons.prems(12) s step(1) w ids] Cons.prems(4)
  have run: "srv_run_local ?m msg (step \<noteq> 0) = Inr (sm_advance ?m sid s h (phase_of step) (mode_of step lm))"
    using Cons.prems(13) [of s] s by simp
  have pend: "pending hf ck tied sid C past step (?m # map nd_module rest)" and chn: "chain a (?m # map nd_module rest) L"
    using Cons.prems(1,3) by simp_all
  from head_stage [OF d hf pend chn Cons.prems(6,7,8,11) s(1), of "phase_of step" "mode_of step lm"]
  obtain m' h1 C1 where adv: "sm_advance ?m sid s h (phase_of step) (mode_of step lm) = (m', if rest = []
       then LogitsResult \<lparr>lo_logits = ?lg, lo_context = ?ctx\<rparr> else StateResult \<lparr>ss_hidden = h1, ss_context = ?ctx\<rparr>)"
    and st: "stepped hf ck tied sid C' (past + q) (step + 1) ?m m'"
    and tail: "rest \<noteq> [] \<Longrightarrow> pending hf ck tied sid C1 past step (map nd_module rest)
       \<and> chain (br_end (spec_blocks (sm_shard ?m))) (map nd_module rest) L
       \<and> (\<forall>j. br_end (spec_blocks (sm_shard ?m)) \<le> j \<and> j < L \<longrightarrow> dec_len d (C1 j) = past)
       \<and> shape0 h1 = batch \<and> shape1 h1 = q
       \<and> ref_layers d ck (br_end (spec_blocks (sm_shard ?m))) L past h1 C1 = (h', C')"
    by (auto simp: Let_def)
  show ?case
  proof (cases "rest = []")
    case True
    let ?reply = "srv_message env ?hd k MASTER_STAGE ?ctx (LogitsPayload ?lg)"
    have "answers ?lg ?ctx ?reply"
      using srv_message_in_range [OF ctx _ i32(1,2,4), of "LogitsPayload ?lg"]
      by (simp add: answers_def) (simp add: srv_message_def)
    with True Cons.prems(2,4) entry st show ?thesis
      by (simp add: run adv w)
  next
    case False
    let ?next = "srv_message env ?hd k (k + 1) ?ctx (HiddenStatePayload h1)"
    from False Cons.prems(2) have wr: "wired (k + 1) rest" "\<not> is_final_stage (nd_config n)" by (simp_all add: wired_Cons)
    have "message_in_range ?next" by (rule srv_message_in_range [OF ctx _ i32(1,2,3)]) simp
    then obtain req where req: "client_request env ?next = Inr req" "forward_request_to_message env req = Inr ?next"
      using message_round_trip [OF env, of ?next] by (auto simp: srv_message_def)
    have addr: "addressed eid sid (phase_of step) step (k + 1) lm ?next"
      using Cons.prems(12) env by (simp add: addressed_def srv_message_def step_context_def wire_env_ok_def)
    have inner: "\<not> include_input_stage (sm_shard (nd_module (hd rest)))" using Cons.prems(5) False by simp
    have "\<exists>rest' reply. srv_execute env link (step \<noteq> 0) ?next rest = (rest', Inr reply) \<and> answers ?lg ?ctx reply
        \<and> list_all2 (stepped hf ck tied sid C' (past + q) (step + 1)) (map nd_module rest) (map nd_module rest')
        \<and> map nd_config rest' = map nd_config rest"
    proof (rule Cons.IH [where k = "k + 1" and a = "br_end (spec_blocks (sm_shard ?m))" and C = C1 and h = h1])
      show "srv_run_local (nd_module (hd rest)) ?next (step \<noteq> 0)
          = Inr (sm_advance (nd_module (hd rest)) sid s h1 (phase_of step) (mode_of step lm))"
        if "sm_sessions (nd_module (hd rest)) sid = Some s" "sess_step s = step" for s
        using srv_run_local_inner [OF addr _ that inner] by (simp add: srv_message_def)
      show "\<forall>n\<in>set (tl rest). \<not> include_input_stage (sm_shard (nd_module n))"
        using Cons.prems(5) False by (metis list.sel(3) list.set_sel(2))
    qed (use tail [OF False] wr addr Cons.prems(4,9,10) in simp_all)
    then obtain rest' reply where ih: "srv_execute env link (step \<noteq> 0) ?next rest = (rest', Inr reply)"
      "answers ?lg ?ctx reply"
      "list_all2 (stepped hf ck tied sid C' (past + q) (step + 1)) (map nd_module rest) (map nd_module rest')"
      "map nd_config rest' = map nd_config rest" by blast
    have "link (k + 1) = Delivered" using link ..
    with answers_round_trip [OF env ih(2)] ih False entry Cons.prems(4) st wr show ?thesis
      by (simp add: run adv w req)
  qed
qed

end
