(* ===== verification/Remote.thy ===== *)
theory Remote
  imports Shard_Server
begin

section \<open>Driving a deployed pipeline from the master\<close>

text \<open>
  \<^verbatim>\<open>control/mock/client.py\<close>: \<^verbatim>\<open>RemotePipeline\<close> with its session clocks, and
  \<^verbatim>\<open>RemoteGenerationDriver\<close>. The remote pipeline holds the execution id, the clocks and, standing
  for the deployment it calls, the runtime processes. \<^verbatim>\<open>VLLMClient\<close> only issues HTTP requests and is
  left out.
\<close>


subsection \<open>The remote pipeline\<close>

record clock =
  ck_step :: int
  ck_past_length :: int

record ('x, 'c, 't) remote_pipeline =
  rp_execution_id :: string
  rp_clocks :: "string \<rightharpoonup> clock"
  rp_nodes :: "('x, 'c, 't) runtime_node list"

definition rp_create_session ::
    "(int \<Rightarrow> delivery) \<Rightarrow> ('x, 'c, 't) remote_pipeline \<Rightarrow> string \<Rightarrow> ('x, 'c, 't) remote_pipeline \<times> unit res" where
  "rp_create_session link rp sid =
     (let (nodes, r) = deliver (link 0) (rp_nodes rp)
            (let (nodes', r') = srv_create_session link (rp_execution_id rp) sid (rp_nodes rp)
             in (nodes', session_reply ''create session failed'' r'))
      in (rp\<lparr>rp_nodes := nodes\<rparr>, r))"

definition rp_close_session ::
    "(int \<Rightarrow> delivery) \<Rightarrow> ('x, 'c, 't) remote_pipeline \<Rightarrow> string \<Rightarrow> ('x, 'c, 't) remote_pipeline \<times> unit res" where
  "rp_close_session link rp sid =
     (let (nodes, r) = deliver (link 0) (rp_nodes rp)
            (let (nodes', r') = srv_close_session link (rp_execution_id rp) sid (rp_nodes rp)
             in (nodes', session_reply ''close session failed'' r'));
          rp' = rp\<lparr>rp_nodes := nodes\<rparr>
      in case r of
           Inl e \<Rightarrow> (rp', Inl e)
         | Inr u \<Rightarrow> (rp'\<lparr>rp_clocks := (rp_clocks rp)(sid := None)\<rparr>, Inr ()))"

definition token_message ::
    "('x, 'b, 'w) wire_env \<Rightarrow> string \<Rightarrow> string \<Rightarrow> int list \<Rightarrow> phase \<Rightarrow> int \<Rightarrow> int \<Rightarrow> logits_mode \<Rightarrow> 'x shard_message res" where
  "token_message env eid sid ids ph step past lm =
     bind_res (make_token_payload ids) (\<lambda>pl.
       Inr \<lparr>msg_header = \<lparr>protocol_version = PROTOCOL_VERSION, execution_id = eid, session_id = sid,
              request_id = we_uuid env sid step MASTER_STAGE, hdr_phase = ph, hdr_step = step,
              source_stage = MASTER_STAGE, target_stage = 0, hdr_logits_mode = lm\<rparr>,
            msg_context = \<lparr>ctx_phase = ph, ctx_step = step, ctx_batch_size = 1,
              ctx_sequence_lengths = [past + int (length ids)], ctx_past_length = past, ctx_positions = None\<rparr>,
            msg_payload = pl\<rparr>)"

definition as_logits :: "'x shard_message \<Rightarrow> 'x logits_output res" where
  "as_logits reply =
     (case msg_payload reply of
        LogitsPayload lg \<Rightarrow> Inr \<lparr>lo_logits = lg, lo_context = msg_context reply\<rparr>
      | _ \<Rightarrow> Inl (ProtocolError ''entry runtime reply carries no logits payload''))"

text \<open>One forward call to the entry runtime.\<close>

definition rp_call ::
    "('x, 'b, 'w) wire_env \<Rightarrow> (int \<Rightarrow> delivery) \<Rightarrow> bool \<Rightarrow> 'x shard_message \<Rightarrow> ('x, 'c, 't) runtime_node list
     \<Rightarrow> ('x, 'c, 't) runtime_node list \<times> 'x shard_message res" where
  "rp_call env link decode msg nodes =
     (case client_request env msg of
        Inl e \<Rightarrow> (nodes, Inl e)
      | Inr req \<Rightarrow>
          (let (nodes', r) = deliver (link 0) nodes
             (case forward_request_to_message env req of
                Inl e \<Rightarrow> (nodes, Inl rpc_error)
              | Inr msg' \<Rightarrow>
                  (let (nodes'', r') = srv_execute env link decode msg' nodes
                   in (nodes'', forward_status (bind_res r' (message_to_forward_reply env)))))
           in (nodes', client_reply env r)))"

text \<open>Token ids are a [1, L] tensor of integers; a third dimension fails the shape check.\<close>

definition as_int :: "'x cell \<Rightarrow> int res" where
  "as_int c = (case c of Long i \<Rightarrow> Inr i | Feat x \<Rightarrow> Inl (ValueError ''Phase 0 is batch_size=1''))"

definition rp_prefill ::
    "('x, 'b, 'w) wire_env \<Rightarrow> (int \<Rightarrow> delivery) \<Rightarrow> ('x, 'c, 't) remote_pipeline \<Rightarrow> string \<Rightarrow> 'x tensor
     \<Rightarrow> logits_mode \<Rightarrow> ('x, 'c, 't) remote_pipeline \<times> 'x logits_output res" where
  "rp_prefill env link rp sid input_ids lm =
     (case input_ids of
        [row] \<Rightarrow>
          (case bind_res (traverse_res as_int row) (\<lambda>ids.
                  map_res (\<lambda>msg. (ids, msg)) (token_message env (rp_execution_id rp) sid ids PREFILL 0 0 lm)) of
             Inl e \<Rightarrow> (rp, Inl e)
           | Inr (ids, msg) \<Rightarrow>
               (let (nodes, r) = rp_call env link False msg (rp_nodes rp); rp' = rp\<lparr>rp_nodes := nodes\<rparr>
                in case r of
                     Inl e \<Rightarrow> (rp', Inl e)
                   | Inr reply \<Rightarrow>
                       (rp'\<lparr>rp_clocks := (rp_clocks rp)(sid \<mapsto> \<lparr>ck_step = 1, ck_past_length = int (length ids)\<rparr>)\<rparr>,
                        as_logits reply)))
      | _ \<Rightarrow> (rp, Inl (ValueError ''Phase 0 is batch_size=1'')))"

definition rp_decode ::
    "('x, 'b, 'w) wire_env \<Rightarrow> (int \<Rightarrow> delivery) \<Rightarrow> ('x, 'c, 't) remote_pipeline \<Rightarrow> string \<Rightarrow> int
     \<Rightarrow> ('x, 'c, 't) remote_pipeline \<times> 'x logits_output res" where
  "rp_decode env link rp sid token =
     (case rp_clocks rp sid of
        None \<Rightarrow> (rp, Inl (ValueError ''session must be prefilled before decode''))
      | Some c \<Rightarrow>
          (case token_message env (rp_execution_id rp) sid [token] DECODE (ck_step c) (ck_past_length c) FULL of
             Inl e \<Rightarrow> (rp, Inl e)
           | Inr msg \<Rightarrow>
               (let (nodes, r) = rp_call env link True msg (rp_nodes rp); rp' = rp\<lparr>rp_nodes := nodes\<rparr>
                in case r of
                     Inl e \<Rightarrow> (rp', Inl e)
                   | Inr reply \<Rightarrow>
                       (rp'\<lparr>rp_clocks := (rp_clocks rp)(sid \<mapsto>
                          \<lparr>ck_step = ck_step c + 1, ck_past_length = ck_past_length c + 1\<rparr>)\<rparr>,
                        as_logits reply))))"


subsection \<open>The remote generation driver\<close>

fun remote_rounds ::
    "('x, 'b, 'w) wire_env \<Rightarrow> (int \<Rightarrow> delivery) \<Rightarrow> ('x cell \<Rightarrow> int) \<Rightarrow> string \<Rightarrow> nat \<Rightarrow> int
     \<Rightarrow> ('x, 'c, 't) remote_pipeline \<Rightarrow> ('x, 'c, 't) remote_pipeline \<times> int list res" where
  "remote_rounds env link argmax sid 0 token rp = (rp, Inr [])"
| "remote_rounds env link argmax sid (Suc n) token rp =
     (case rp_decode env link rp sid token of
        (rp', Inl e) \<Rightarrow> (rp', Inl e)
      | (rp', Inr out) \<Rightarrow>
          (case sample argmax out of
             Inl e \<Rightarrow> (rp', Inl e)
           | Inr token' \<Rightarrow>
               (let (rp'', r) = remote_rounds env link argmax sid n token' rp'
                in (rp'', map_res (\<lambda>ts. token' # ts) r))))"

definition remote_generate ::
    "('x, 'b, 'w) wire_env \<Rightarrow> (int \<Rightarrow> delivery) \<Rightarrow> ('x cell \<Rightarrow> int) \<Rightarrow> ('x, 'c, 't) remote_pipeline \<Rightarrow> string
     \<Rightarrow> 'x tensor \<Rightarrow> int \<Rightarrow> ('x, 'c, 't) remote_pipeline \<times> int list res" where
  "remote_generate env link argmax rp sid input_ids max_new_tokens =
     (if max_new_tokens < 0 then (rp, Inl (ValueError ''max_new_tokens must be >= 0''))
      else case rp_prefill env link rp sid input_ids LAST_TOKEN of
             (rp', Inl e) \<Rightarrow> (rp', Inl e)
           | (rp', Inr out) \<Rightarrow>
               (case sample argmax out of
                  Inl e \<Rightarrow> (rp', Inl e)
                | Inr token \<Rightarrow>
                    (let (rp'', r) = remote_rounds env link argmax sid (nat (max_new_tokens - 1)) token rp'
                     in (rp'', map_res (\<lambda>ts. take (nat max_new_tokens) (token # ts)) r))))"



subsection \<open>The processes in lockstep with the reference\<close>

lemma wired_cong: "map nd_config nodes' = map nd_config nodes \<Longrightarrow> wired k nodes' \<longleftrightarrow> wired k nodes"
proof (induction nodes arbitrary: nodes' k)
  case Nil
  then show ?case by simp
next
  case (Cons n rest)
  then obtain n' rest' where n': "nodes' = n' # rest'" "nd_config n' = nd_config n" "map nd_config rest' = map nd_config rest"
    by (cases nodes') auto
  then have "rest' = [] \<longleftrightarrow> rest = []" by auto
  with n' Cons.IH [OF n'(3)] show ?case by (simp add: wired_Cons node_stage_def has_downstream_def)
qed

definition serving ::
    "('x, int \<Rightarrow> 'k, 't) hf \<Rightarrow> ('x, 'k, 't) decoder \<Rightarrow> (string \<rightharpoonup> 't) \<Rightarrow> bool \<Rightarrow> int \<Rightarrow> string \<Rightarrow> string
     \<Rightarrow> (int \<Rightarrow> 'k) \<Rightarrow> int \<Rightarrow> int \<Rightarrow> ('x, int \<Rightarrow> 'k, 't) runtime_node list \<Rightarrow> bool" where
  "serving hf d ck tied L eid sid C past step nodes \<longleftrightarrow>
     wired 0 nodes \<and> (\<forall>n\<in>set nodes. rs_execution_id (rc_runtime (nd_config n)) = eid)
     \<and> running hf d ck tied L sid C past step (map nd_module nodes)"

lemma serving_stepped:
  assumes "serving hf d ck tied L eid sid C past step nodes" and "decoder_ok d"
    and "list_all2 (stepped hf ck tied sid C' (past + shape1 h) step') (map nd_module nodes) (map nd_module nodes')"
    and "map nd_config nodes' = map nd_config nodes" and "ref_layers d ck 0 L past h C = (h', C')"
  shows "serving hf d ck tied L eid sid C' (past + shape1 h) step' nodes'"
proof -
  have "nd_config ` set nodes' = nd_config ` set nodes" using assms(4) by (metis list.set_map)
  then have "\<forall>n\<in>set nodes'. rs_execution_id (rc_runtime (nd_config n)) = eid"
    using assms(1) unfolding serving_def by (metis (mono_tags, lifting) image_iff)
  moreover have "running hf d ck tied L sid C past step (map nd_module nodes)" using assms(1) by (simp add: serving_def)
  from running_stepped [OF this assms(2,3,5)]
  have "running hf d ck tied L sid C' (past + shape1 h) step' (map nd_module nodes')" .
  moreover have "wired 0 nodes'" using assms(1) wired_cong [OF assms(4)] by (simp add: serving_def)
  ultimately show ?thesis by (simp add: serving_def)
qed

lemma rp_call_reference:
  assumes srv: "serving hf d ck tied L eid sid C past step nodes"
    and d: "decoder_ok d" and hf: "runs_decoder hf d" and env: "wire_env_ok env" and link: "\<forall>j. link j = Delivered"
    and ids: "eid \<noteq> []" "sid \<noteq> []" and step: "0 \<le> step" "step + 1 < 2 ^ 31" and past: "0 \<le> past"
    and toks: "toks \<noteq> []" "step = 0 \<or> length toks = 1" "list_all int64 toks" "past + int (length toks) < 2 ^ 63"
    and cnt: "int (length nodes) < 2 ^ 31"
    and msg: "token_message env eid sid toks (phase_of step) step past lm = Inr (msg :: 'x shard_message)"
    and ref: "ref_step d ck tied L (mode_of step lm) [map Long toks] past C = (lg, C')"
  shows "\<exists>nodes' reply. rp_call env link (step \<noteq> 0) msg nodes = (nodes', Inr reply)
      \<and> msg_payload reply = LogitsPayload lg
      \<and> serving hf d ck tied L eid sid C' (past + int (length toks)) (step + 1) nodes' \<and> length nodes' = length nodes"
proof -
  let ?h = "dec_embed d (params_under ck std_embedding) [map Long toks]"
  let ?ctx = "step_context (phase_of step) step 1 past (int (length toks)) :: 'x exec_context"
  from msg toks(1) have m: "msg_payload msg = TokenPayload toks" "addressed eid sid (phase_of step) step 0 lm msg"
    and mr: "message_in_range msg" "protocol_version (msg_header msg) = PROTOCOL_VERSION"
    using env step past toks(3,4) by (auto simp: token_message_def make_token_payload_def addressed_def wire_env_ok_def
        message_in_range_def header_in_range_def context_in_range_def int32_def int64_def PROTOCOL_VERSION_def MASTER_STAGE_def)
  have ctx: "context_in_range ?ctx" using step past toks(4)
    by (simp add: context_in_range_def step_context_def int32_def int64_def)
  have sh: "shape0 ?h = 1" "shape1 ?h = int (length toks)"
    by (simp_all only: embed_shape [OF d]) (simp_all add: shape0_def shape1_def)
  obtain h' where h': "ref_layers d ck 0 L past ?h C = (h', C')" "lg = ref_logits d ck tied (mode_of step lm) h'"
    using ref by (auto simp: ref_step_def split: prod.splits)
  from srv have run: "running hf d ck tied L sid C past step (map nd_module nodes)" "wired 0 nodes"
    "\<forall>n\<in>set nodes. rs_execution_id (rc_runtime (nd_config n)) = eid" by (simp_all add: serving_def)
  from running_entry [OF run(1)] obtain m0 where m0: "nd_module (hd nodes) = m0" "include_input_stage (sm_shard m0)"
    "stage_holds hf ck tied m0" by (metis list.map_disc_iff list.map_sel(1) list.sel(1) neq_Nil_conv)
  have local: "srv_run_local m0 msg (step \<noteq> 0) = Inr (sm_advance m0 sid s ?h (phase_of step) (mode_of step lm))"
    if "sm_sessions m0 sid = Some s" "sess_step s = step" for s
    using m toks(2) that m0 entry_embed [OF hf m0(3,2)]
    by (auto simp: srv_run_local_def addressed_def Let_def sm_prefill_entry sm_decode_entry phase_of_def mode_of_def
        length_Suc_conv)
  have "\<exists>nodes' reply. srv_execute env link (step \<noteq> 0) msg nodes = (nodes', Inr (reply :: 'x shard_message))
      \<and> answers lg ?ctx reply
      \<and> list_all2 (stepped hf ck tied sid C' (past + int (length toks)) (step + 1)) (map nd_module nodes) (map nd_module nodes')
      \<and> map nd_config nodes' = map nd_config nodes"
    unfolding h'(2)
    by (rule srv_execute_reference [OF d hf env link ids step(1) _ ctx _ run(2) _ run(3) _ _ sh _ _ h'(1) m(2)])
      (use step cnt run(1) local m0(1) in \<open>auto simp: running_def map_tl [symmetric] simp del: map_tl\<close>)
  then obtain nodes' reply where ex: "srv_execute env link (step \<noteq> 0) msg nodes = (nodes', Inr reply)"
    "answers lg ?ctx reply" "list_all2 (stepped hf ck tied sid C' (past + int (length toks)) (step + 1)) (map nd_module nodes) (map nd_module nodes')"
    "map nd_config nodes' = map nd_config nodes" by blast
  have "payload_valid (msg_payload msg)" using m(1) toks(1) by simp
  from message_round_trip [OF env this mr(2,1)] obtain w where w: "client_request env msg = Inr w"
    "forward_request_to_message env w = Inr msg" by metis
  have lk: "link 0 = Delivered" using link ..
  have "serving hf d ck tied L eid sid C' (past + shape1 ?h) (step + 1) nodes'"
    using serving_stepped [OF srv d _ ex(4) h'(1)] ex(3) by (simp add: sh)
  moreover have "length nodes' = length nodes" using ex(4) by (metis length_map)
  ultimately show ?thesis
    using answers_round_trip [OF env ex(2)] ex(1,2) by (simp add: rp_call_def w lk answers_def sh)
qed


lemma traverse_Long [simp]: "traverse_res as_int (map Long ids) = Inr ids"
  by (induction ids) (simp_all add: as_int_def)

lemma token_message_ok: "ids \<noteq> [] \<Longrightarrow> \<exists>msg. token_message env eid sid ids ph step past lm = Inr msg"
  by (simp add: token_message_def make_token_payload_def)

lemma rp_prefill_reference:
  assumes srv: "serving hf d ck tied L (rp_execution_id rp) sid C 0 0 (rp_nodes rp)"
    and env: "decoder_ok d" "runs_decoder hf d" "wire_env_ok env" "\<forall>j. link j = Delivered" "rp_execution_id rp \<noteq> []" "sid \<noteq> []"
    and toks: "toks \<noteq> []" "list_all int64 toks" "int (length toks) < 2 ^ 63" and cnt: "int (length (rp_nodes rp)) < 2 ^ 31"
    and ref: "ref_step d ck tied L lm [map Long toks] 0 C = (lg, C')"
  shows "\<exists>rp' out. rp_prefill env link rp sid [map Long toks] lm = (rp', Inr out) \<and> lo_logits out = lg
      \<and> rp_execution_id rp' = rp_execution_id rp \<and> length (rp_nodes rp') = length (rp_nodes rp)
      \<and> rp_clocks rp' sid = Some \<lparr>ck_step = 1, ck_past_length = int (length toks)\<rparr>
      \<and> serving hf d ck tied L (rp_execution_id rp) sid C' (int (length toks)) 1 (rp_nodes rp')"
proof -
  from token_message_ok [OF toks(1)] obtain msg where
    msg: "token_message env (rp_execution_id rp) sid toks PREFILL 0 0 lm = Inr msg" by blast
  obtain nodes' reply where call: "rp_call env link False msg (rp_nodes rp) = (nodes', Inr reply)"
      "msg_payload reply = LogitsPayload lg"
      "serving hf d ck tied L (rp_execution_id rp) sid C' (int (length toks)) 1 nodes'" "length nodes' = length (rp_nodes rp)"
    using rp_call_reference [OF srv env, of toks lm msg lg C'] toks cnt msg ref by (auto simp: phase_of_def mode_of_def)
  then show ?thesis by (simp add: rp_prefill_def msg as_logits_def)
qed

lemma rp_decode_reference:
  assumes srv: "serving hf d ck tied L (rp_execution_id rp) sid C past step (rp_nodes rp)"
    and clk: "rp_clocks rp sid = Some \<lparr>ck_step = step, ck_past_length = past\<rparr>"
    and env: "decoder_ok d" "runs_decoder hf d" "wire_env_ok env" "\<forall>j. link j = Delivered" "rp_execution_id rp \<noteq> []" "sid \<noteq> []"
    and step: "0 < step" "step + 1 < 2 ^ 31" "0 \<le> past" "past + 1 < 2 ^ 63" and tok: "int64 token"
    and cnt: "int (length (rp_nodes rp)) < 2 ^ 31"
    and ref: "ref_step d ck tied L FULL [[Long token]] past C = (lg, C')"
  shows "\<exists>rp' out. rp_decode env link rp sid token = (rp', Inr out) \<and> lo_logits out = lg
      \<and> rp_execution_id rp' = rp_execution_id rp \<and> length (rp_nodes rp') = length (rp_nodes rp)
      \<and> rp_clocks rp' sid = Some \<lparr>ck_step = step + 1, ck_past_length = past + 1\<rparr>
      \<and> serving hf d ck tied L (rp_execution_id rp) sid C' (past + 1) (step + 1) (rp_nodes rp')"
proof -
  from token_message_ok [of "[token]"] obtain msg where
    msg: "token_message env (rp_execution_id rp) sid [token] DECODE step past FULL = Inr msg" by blast
  have "phase_of step = DECODE" "mode_of step FULL = FULL" "step \<noteq> 0" using step(1) by (simp_all add: phase_of_def mode_of_def)
  then obtain nodes' reply where "rp_call env link True msg (rp_nodes rp) = (nodes', Inr reply)"
      "msg_payload reply = LogitsPayload lg"
      "serving hf d ck tied L (rp_execution_id rp) sid C' (past + 1) (step + 1) nodes'" "length nodes' = length (rp_nodes rp)"
    using rp_call_reference [OF srv env _ step(2,3), of "[token]" FULL msg lg C'] step tok cnt msg ref by auto
  then show ?thesis by (simp add: rp_decode_def clk msg as_logits_def)
qed

lemma remote_rounds_reference:
  assumes env: "decoder_ok d" "runs_decoder hf d" "wire_env_ok env" "\<forall>j. link j = Delivered" "eid \<noteq> []" "sid \<noteq> []"
    and argmax: "\<forall>x. int64 (argmax x)"
  shows "\<lbrakk>serving hf d ck tied L eid sid C past step (rp_nodes rp); rp_execution_id rp = eid;
      rp_clocks rp sid = Some \<lparr>ck_step = step, ck_past_length = past\<rparr>; 0 < step; 0 \<le> past;
      int (length (rp_nodes rp)) < 2 ^ 31; step + int n < 2 ^ 31; past + int n < 2 ^ 63; int64 token\<rbrakk>
    \<Longrightarrow> \<exists>rp'. remote_rounds env link argmax sid n token rp = (rp', Inr (ref_tokens d ck tied L argmax n token past C))"
proof (induction n arbitrary: token past step C rp)
  case 0
  then show ?case by simp
next
  case (Suc n)
  obtain lg C' where ref: "ref_step d ck tied L FULL [[Long token]] past C = (lg, C')" by fastforce
  have "\<exists>rp' out. rp_decode env link rp sid token = (rp', Inr out) \<and> lo_logits out = lg
      \<and> rp_execution_id rp' = rp_execution_id rp \<and> length (rp_nodes rp') = length (rp_nodes rp)
      \<and> rp_clocks rp' sid = Some \<lparr>ck_step = step + 1, ck_past_length = past + 1\<rparr>
      \<and> serving hf d ck tied L (rp_execution_id rp) sid C' (past + 1) (step + 1) (rp_nodes rp')"
    using Suc.prems env by (intro rp_decode_reference [OF _ _ _ _ _ _ _ _ _ _ _ _ _ _ ref]) simp_all
  then obtain rp1 out where dec: "rp_decode env link rp sid token = (rp1, Inr out)" "lo_logits out = lg"
    and rp1: "rp_execution_id rp1 = eid" "length (rp_nodes rp1) = length (rp_nodes rp)"
      "rp_clocks rp1 sid = Some \<lparr>ck_step = step + 1, ck_past_length = past + 1\<rparr>"
      "serving hf d ck tied L eid sid C' (past + 1) (step + 1) (rp_nodes rp1)" using Suc.prems(2) by auto
  from ref_step_row [OF env(1) ref] obtain r where lg: "lg = [r]" "r \<noteq> []" by auto
  from Suc.IH [OF rp1(4,1,3), of "argmax (last r)"] rp1(2) Suc.prems(4-8) argmax
  obtain rp' where "remote_rounds env link argmax sid n (argmax (last r)) rp1
      = (rp', Inr (ref_tokens d ck tied L argmax n (argmax (last r)) (past + 1) C'))" by auto
  with dec lg show ?case by (simp add: sample_def ref Let_def)
qed

lemma remote_generate_reference:
  assumes env: "decoder_ok d" "runs_decoder hf d" "wire_env_ok env" "\<forall>j. link j = Delivered" "eid \<noteq> []" "sid \<noteq> []"
    and argmax: "\<forall>x. int64 (argmax x)"
    and srv: "serving hf d ck tied L eid sid (\<lambda>_. dec_empty d) 0 0 (rp_nodes rp)" and rp: "rp_execution_id rp = eid"
    and prompt: "prompt \<noteq> []" "list_all int64 prompt" and n: "0 \<le> n" "n + 1 < 2 ^ 31" "int (length prompt) + n < 2 ^ 63"
    and cnt: "int (length (rp_nodes rp)) < 2 ^ 31"
  shows "\<exists>rp'. remote_generate env link argmax rp sid [map Long prompt] n
    = (rp', Inr (ref_generate d ck tied L argmax [map Long prompt] (nat n)))"
proof -
  obtain lg C where ref: "ref_step d ck tied L LAST_TOKEN [map Long prompt] 0 (\<lambda>_. dec_empty d) = (lg, C)" by fastforce
  from rp_prefill_reference [of hf d ck tied L rp sid _ env link prompt, OF _ env(1-4) _ env(6) prompt _ cnt ref] srv rp env(5) n
  obtain rp1 out where pre: "rp_prefill env link rp sid [map Long prompt] LAST_TOKEN = (rp1, Inr out)" "lo_logits out = lg"
    and rp1: "rp_execution_id rp1 = eid" "length (rp_nodes rp1) = length (rp_nodes rp)"
      "rp_clocks rp1 sid = Some \<lparr>ck_step = 1, ck_past_length = int (length prompt)\<rparr>"
      "serving hf d ck tied L eid sid C (int (length prompt)) 1 (rp_nodes rp1)" by auto
  from ref_step_row [OF env(1) ref] prompt(1) obtain r where lg: "lg = [r]" "r \<noteq> []" by auto
  have "int (nat (n - 1)) \<le> n" using n(1) by simp
  with remote_rounds_reference [OF env argmax rp1(4,1,3), of "nat (n - 1)" "argmax (last r)"] rp1(2) cnt n argmax
  obtain rp' where "remote_rounds env link argmax sid (nat (n - 1)) (argmax (last r)) rp1
      = (rp', Inr (ref_tokens d ck tied L argmax (nat (n - 1)) (argmax (last r)) (int (length prompt)) C))"
    by (auto simp del: int_nat_eq)
  moreover have "nat n - 1 = nat (n - 1)" "shape1 [map Long prompt :: 'a cell list] = int (length prompt)"
    by (simp_all add: shape1_def)
  ultimately show ?thesis
    using n lg pre by (simp add: remote_generate_def sample_def ref_generate_def ref Let_def)
qed

end
