(* ===== verification/Canonical_Json.thy ===== *)
theory Canonical_Json
  imports Model_Spec "HOL-Library.Char_ord" "HOL-Library.List_Lexorder" "HOL-Library.Multiset"
begin

section \<open>Canonical JSON text\<close>

text \<open>
  The identities of the control plane are hashes of canonical JSON text:
  \<^verbatim>\<open>json.dumps(value, sort_keys=True, separators=(",", ":"))\<close>, used by \<^verbatim>\<open>cluster/capability.py\<close> and
  \<^verbatim>\<open>profiling/domain/hashing.py\<close>. This theory holds the values, the text, and the proof that values with
  the same text are equal up to the order of object keys: the text can be read back.
\<close>


subsection \<open>Values and their text\<close>

datatype json = JNull | JBool bool | JInt int | JNum string | JStr string | JList "json list" | JObj "(string \<times> json) list"

text \<open>\<open>JNum\<close> is a floating-point number, given by its \<^verbatim>\<open>repr\<close>.

  \<^verbatim>\<open>json.dumps(value, sort_keys=True, separators=(",", ":"))\<close> with the default \<^verbatim>\<open>ensure_ascii\<close>: a
  character outside the printable ASCII range is written as a four-digit escape, unless it has a
  short one.\<close>

definition hex_digit :: "nat \<Rightarrow> char" where
  "hex_digit n = char_of (if n < 10 then 48 + n else 87 + n)"

definition json_char :: "char \<Rightarrow> string" where
  "json_char c = (let n = of_char c :: nat in
     if n = 34 then [CHR 0x5C, CHR 0x22]
     else if n = 92 then [CHR 0x5C, CHR 0x5C]
     else if n = 10 then [CHR 0x5C, CHR ''n'']
     else if n = 13 then [CHR 0x5C, CHR ''r'']
     else if n = 9 then [CHR 0x5C, CHR ''t'']
     else if n = 12 then [CHR 0x5C, CHR ''f'']
     else if n = 8 then [CHR 0x5C, CHR ''b'']
     else if 32 \<le> n \<and> n \<le> 126 then [c]
     else [CHR 0x5C, CHR ''u'', CHR ''0'', CHR ''0'', hex_digit (n div 16), hex_digit (n mod 16)])"

definition json_string :: "string \<Rightarrow> string" where
  "json_string s = [CHR 0x22] @ concat (map json_char s) @ [CHR 0x22]"

fun comma_join :: "string list \<Rightarrow> string" where
  "comma_join [] = []"
| "comma_join [x] = x"
| "comma_join (x # y # r) = x @ '','' @ comma_join (y # r)"

fun dumps :: "json \<Rightarrow> string" where
  "dumps JNull = ''null''"
| "dumps (JBool b) = (if b then ''true'' else ''false'')"
| "dumps (JInt i) = int_str i"
| "dumps (JNum t) = t"
| "dumps (JStr s) = json_string s"
| "dumps (JList xs) = ''['' @ comma_join (map dumps xs) @ '']''"
| "dumps (JObj kvs) = ''{'' @ comma_join (map (\<lambda>(k, t). json_string k @ '':'' @ t)
     (sort_key fst (map (\<lambda>(k, v). (k, dumps v)) kvs))) @ ''}''"


subsection \<open>Congruence\<close>

lemma map_sort_key: "map f (sort_key f xs) = sort (map f xs)"
  by (rule properties_for_sort [symmetric]) simp_all

lemma dumps_obj_cong:
  "list_all2 (\<lambda>(k, v) (k', v'). k = k' \<and> dumps v = dumps v') kvs kvs' \<Longrightarrow> dumps (JObj kvs) = dumps (JObj kvs')"
proof -
  assume "list_all2 (\<lambda>(k, v) (k', v'). k = k' \<and> dumps v = dumps v') kvs kvs'"
  then have "map (\<lambda>(k, v). (k, dumps v)) kvs = map (\<lambda>(k, v). (k, dumps v)) kvs'"
    by (induction rule: list_all2_induct) auto
  then show ?thesis by simp
qed


subsection \<open>Strings can be read back\<close>

definition unhex :: "char \<Rightarrow> nat" where
  "unhex c = (let n = of_char c in if n < 58 then n - 48 else n - 87)"

fun json_uncode :: "string \<Rightarrow> (char \<times> string) option" where
  "json_uncode [] = None"
| "json_uncode (a # r) =
     (if a = CHR 0x5C then
        (case r of [] \<Rightarrow> None
         | b # r' \<Rightarrow>
             if b = CHR ''n'' then Some (char_of (10 :: nat), r')
             else if b = CHR ''r'' then Some (char_of (13 :: nat), r')
             else if b = CHR ''t'' then Some (char_of (9 :: nat), r')
             else if b = CHR ''f'' then Some (char_of (12 :: nat), r')
             else if b = CHR ''b'' then Some (char_of (8 :: nat), r')
             else if b = CHR ''u'' then
               (case r' of _ # _ # h # l # q \<Rightarrow> Some (char_of (16 * unhex h + unhex l), q) | _ \<Rightarrow> None)
             else Some (b, r'))
      else Some (a, r))"

lemma unhex_hex_digit: "n < 16 \<Longrightarrow> unhex (hex_digit n) = n"
  by (simp add: unhex_def hex_digit_def of_char_of take_bit_eq_mod Let_def)

lemma of_char_eq_iff: "of_char c = (n :: nat) \<longleftrightarrow> n < 256 \<and> c = char_of n"
  by (metis char_of_char nat_of_char_less_256 of_char_of mod_less)

lemma json_char_cases [case_names quote backslash newline return tab feed bell plain hex]:
  obtains "c = CHR 0x22" | "c = CHR 0x5C" | "c = CHR 0x0A" | "c = CHR 0x0D" | "c = CHR 0x09" | "c = CHR 0x0C" | "c = CHR 0x08"
  | "c \<noteq> CHR 0x22" "c \<noteq> CHR 0x5C" "json_char c = [c]"
  | "json_char c = [CHR 0x5C, CHR ''u'', CHR ''0'', CHR ''0'', hex_digit (of_char c div 16), hex_digit (of_char c mod 16)]"
proof -
  have special: "of_char c = (34 :: nat) \<longleftrightarrow> c = CHR 0x22" "of_char c = (92 :: nat) \<longleftrightarrow> c = CHR 0x5C"
    "of_char c = (10 :: nat) \<longleftrightarrow> c = CHR 0x0A" "of_char c = (13 :: nat) \<longleftrightarrow> c = CHR 0x0D"
    "of_char c = (9 :: nat) \<longleftrightarrow> c = CHR 0x09" "of_char c = (12 :: nat) \<longleftrightarrow> c = CHR 0x0C"
    "of_char c = (8 :: nat) \<longleftrightarrow> c = CHR 0x08"
    by (simp_all add: of_char_eq_iff char_of_def bit_simps)
  show thesis
    using that unfolding json_char_def Let_def special by (smt (verit))
qed

lemma json_uncode_char: "json_uncode (json_char c @ r) = Some (c, r)"
proof (cases c rule: json_char_cases)
  case hex
  have "char_of (16 * (of_char c div 16) + of_char c mod 16 :: nat) = c" by simp
  moreover have "of_char c div 16 < (16 :: nat)" "of_char c mod 16 < (16 :: nat)" by (simp_all add: less_mult_imp_div_less)
  ultimately show ?thesis by (simp add: hex unhex_hex_digit)
qed (simp_all add: json_char_def char_of_def bit_simps)

lemma json_char_head: "\<exists>a s. json_char c = a # s \<and> a \<noteq> CHR 0x22"
  by (cases c rule: json_char_cases) (simp_all add: json_char_def)

lemma json_string_inject: "json_string s @ r = json_string t @ q \<Longrightarrow> s = t \<and> r = q"
proof -
  have "concat (map json_char s) @ CHR 0x22 # r = concat (map json_char t) @ CHR 0x22 # q \<Longrightarrow> s = t \<and> r = q"
  proof (induction s arbitrary: t)
    case Nil
    then show ?case using json_char_head by (cases t) (auto, metis append_Cons list.inject)
  next
    case (Cons c s)
    show ?case
    proof (cases t)
      case Nil
      with Cons.prems show ?thesis using json_char_head [of c] by auto
    next
      case (Cons d t')
      with Cons.prems have "json_char c @ concat (map json_char s) @ CHR 0x22 # r = json_char d @ concat (map json_char t') @ CHR 0x22 # q"
        by simp
      then have "c = d" "concat (map json_char s) @ CHR 0x22 # r = concat (map json_char t') @ CHR 0x22 # q"
        using json_uncode_char by (metis option.inject prod.inject)+
      with Cons.IH Cons show ?thesis by auto
    qed
  qed
  then show "json_string s @ r = json_string t @ q \<Longrightarrow> s = t \<and> r = q" by (simp add: json_string_def)
qed


subsection \<open>Values can be read back\<close>

text \<open>What may follow a value inside a text: nothing, a comma or a closing bracket.\<close>

definition delimited :: "string \<Rightarrow> bool" where
  "delimited r \<longleftrightarrow> (case r of [] \<Rightarrow> True | c # _ \<Rightarrow> c = CHR '','' \<or> c = CHR '']'' \<or> c = CHR ''}'')"

definition digit :: "char \<Rightarrow> bool" where
  "digit c \<longleftrightarrow> 48 \<le> (of_char c :: nat) \<and> (of_char c :: nat) < 58"

lemma takeWhile_nat_str: "delimited r \<Longrightarrow> takeWhile digit (nat_str n @ r) = nat_str n"
  using nat_str_digits by (subst takeWhile_append2) (auto simp: digit_def delimited_def split: list.splits)

lemma nat_str_delimited: "\<lbrakk>nat_str m @ r = nat_str n @ q; delimited r; delimited q\<rbrakk> \<Longrightarrow> m = n \<and> r = q"
  by (metis takeWhile_nat_str nat_str_inject same_append_eq)

lemma nat_str_head: "\<exists>c s. nat_str n = c # s \<and> digit c"
  using nat_str_not_Nil nat_str_digits by (metis digit_def list.set_intros(1) neq_Nil_conv)

lemma int_str_delimited:
  assumes "int_str i @ r = int_str j @ q" "delimited r" "delimited q"
  shows "i = j \<and> r = q"
proof -
  have sign: "nat_str m @ x \<noteq> CHR ''-'' # y" for m x y
    using nat_str_head [of m] by (auto simp: digit_def)
  show ?thesis
  proof (cases "i < 0"; cases "j < 0")
    assume "i < 0" "j < 0"
    with assms nat_str_delimited [of "nat (- i)" r "nat (- j)" q] show ?thesis by (auto simp: int_str_def eq_nat_nat_iff)
  next
    assume "i < 0" "\<not> j < 0"
    with assms(1) sign [of "nat j" q] show ?thesis by (metis append_Cons append_Nil int_str_def)
  next
    assume "\<not> i < 0" "j < 0"
    with assms(1) sign [of "nat i" r] show ?thesis by (metis append_Cons append_Nil int_str_def)
  next
    assume "\<not> i < 0" "\<not> j < 0"
    with assms nat_str_delimited [of "nat i" r "nat j" q] show ?thesis by (auto simp: int_str_def eq_nat_nat_iff)
  qed
qed

lemma int_str_head: "\<exists>c s. int_str i = c # s \<and> (digit c \<or> c = CHR ''-'')"
  using nat_str_head by (simp add: int_str_def) (metis digit_def)

text \<open>The text of a floating-point number: unlike that of an integer it has a point or an exponent.\<close>

definition number_char :: "char \<Rightarrow> bool" where
  "number_char c \<longleftrightarrow> digit c \<or> c = CHR ''-'' \<or> c = CHR ''+'' \<or> c = CHR ''.'' \<or> c = CHR ''e''"

definition float_text :: "string \<Rightarrow> bool" where
  "float_text t \<longleftrightarrow> (case t of [] \<Rightarrow> False | c # _ \<Rightarrow> digit c \<or> c = CHR ''-'') \<and> list_all number_char t
     \<and> (CHR ''.'' \<in> set t \<or> CHR ''e'' \<in> set t)"

lemma number_delimited:
  assumes "s @ r = t @ q" "list_all number_char s" "list_all number_char t" "delimited r" "delimited q"
  shows "s = t \<and> r = q"
proof -
  have "takeWhile number_char (x @ y) = x" if "list_all number_char x" "delimited y" for x y
    using that by (subst takeWhile_append2) (auto simp: list_all_iff delimited_def number_char_def digit_def split: list.splits)
  with assms show ?thesis by (metis same_append_eq)
qed

lemma int_str_chars: "c \<in> set (int_str i) \<Longrightarrow> digit c \<or> c = CHR ''-''"
  using nat_str_digits by (auto simp: int_str_def digit_def split: if_splits)

lemma int_str_not_float: "\<lbrakk>int_str i @ r = t @ q; float_text t; delimited r; delimited q\<rbrakk> \<Longrightarrow> False"
proof -
  assume *: "int_str i @ r = t @ q" "float_text t" "delimited r" "delimited q"
  have "list_all number_char (int_str i)" using int_str_chars by (auto simp: list_all_iff number_char_def)
  with * have "int_str i = t" using number_delimited [of "int_str i" r t q] unfolding float_text_def by blast
  with *(2) have "CHR ''.'' \<in> set (int_str i) \<or> CHR ''e'' \<in> set (int_str i)" unfolding float_text_def by blast
  then show False using int_str_chars [of "CHR ''.''" i] int_str_chars [of "CHR ''e''" i] by (auto simp: digit_def)
qed

text \<open>Objects with their keys in increasing order, all the way down; and the form in which any value is
  printed.\<close>

fun normal :: "json \<Rightarrow> bool" where
  "normal (JList xs) = list_all normal xs"
| "normal (JObj kvs) = (sorted_wrt (<) (map fst kvs) \<and> list_all normal (map snd kvs))"
| "normal (JNum t) = float_text t"
| "normal _ = True"

fun key_sorted :: "json \<Rightarrow> json" where
  "key_sorted (JList xs) = JList (map key_sorted xs)"
| "key_sorted (JObj kvs) = JObj (sort_key fst (map (\<lambda>(k, v). (k, key_sorted v)) kvs))"
| "key_sorted v = v"

lemma comma_join_Cons: "comma_join (x # xs) = x @ (if xs = [] then [] else CHR '','' # comma_join xs)"
  by (cases xs) simp_all

lemma join_inject:
  assumes "\<And>u v r q. \<lbrakk>u \<in> set us; v \<in> set vs; delimited r; delimited q; p u @ r = p v @ q\<rbrakk> \<Longrightarrow> u = v \<and> r = q"
    and "\<And>v. v \<in> set us \<union> set vs \<Longrightarrow> \<exists>c s. p v = c # s \<and> c \<noteq> close"
    and "close = CHR '']'' \<or> close = CHR ''}''"
    and "comma_join (map p us) @ close # r = comma_join (map p vs) @ close # q"
  shows "us = vs \<and> r = q"
  using assms(1,2,4)
proof (induction us arbitrary: vs)
  case Nil
  then show ?case by (cases vs) (force simp: comma_join_Cons)+
next
  case (Cons u us)
  show ?case
  proof (cases vs)
    case Nil
    with Cons.prems(2) [of u] Cons.prems(3) show ?thesis by (auto simp: comma_join_Cons)
  next
    case vs: (Cons v vs')
    let ?rest = "\<lambda>xs y. (if xs = [] then [] else CHR '','' # comma_join (map p xs)) @ close # y"
    have d: "delimited (?rest xs y)" for xs y using assms(3) by (auto simp: delimited_def)
    from Cons.prems(3) vs have "p u @ ?rest us r = p v @ ?rest vs' q" by (simp add: comma_join_Cons)
    then have uv: "u = v" "?rest us r = ?rest vs' q"
      using Cons.prems(1) [of u v "?rest us r" "?rest vs' q"] d [of us r] d [of vs' q] vs by simp_all
    show ?thesis
    proof (cases "us = []"; cases "vs' = []")
      assume ne: "us \<noteq> []" "vs' \<noteq> []"
      with uv(2) have "comma_join (map p us) @ close # r = comma_join (map p vs') @ close # q" by simp
      with Cons.IH [of vs'] Cons.prems(1,2) vs have "us = vs' \<and> r = q" by (metis UnCI list.set_intros(2) UnE)
      with uv vs show ?thesis by simp
    qed (use uv vs assms(3) in auto)
  qed
qed

text \<open>The first character of a text tells the kind of the value.\<close>

fun json_tag :: "json \<Rightarrow> nat" where
  "json_tag JNull = 0" | "json_tag (JBool b) = (if b then 1 else 2)" | "json_tag (JInt _) = 3" | "json_tag (JNum _) = 3"
| "json_tag (JStr _) = 4" | "json_tag (JList _) = 5" | "json_tag (JObj _) = 6"

definition char_tag :: "char \<Rightarrow> nat" where
  "char_tag c = (if c = CHR ''n'' then 0 else if c = CHR ''t'' then 1 else if c = CHR ''f'' then 2
     else if c = CHR 0x22 then 4 else if c = CHR ''['' then 5 else if c = CHR ''{'' then 6
     else if digit c \<or> c = CHR ''-'' then 3 else 7)"

lemma digit_char_tag: "digit c \<or> c = CHR ''-'' \<Longrightarrow> char_tag c = 3"
  by (auto simp: char_tag_def digit_def)

lemma dumps_head: "normal v \<Longrightarrow> \<exists>c s. dumps v = c # s \<and> char_tag c = json_tag v"
proof (cases v)
  case (JInt i)
  with int_str_head [of i] show ?thesis by (auto simp: digit_char_tag)
next
  case (JNum t)
  then show "normal v \<Longrightarrow> \<exists>c s. dumps v = c # s \<and> char_tag c = json_tag v" by (auto simp: float_text_def digit_char_tag split: list.splits)
qed (auto simp: char_tag_def json_string_def)

lemma dumps_tag: "\<lbrakk>dumps u @ r = dumps v @ q; normal u; normal v\<rbrakk> \<Longrightarrow> json_tag u = json_tag v"
  using dumps_head [of u] dumps_head [of v] by auto

lemma json_tag_le: "json_tag v \<le> 6"
  by (cases v) simp_all

lemma dumps_not_close: "normal v \<Longrightarrow> \<exists>c s. dumps v = c # s \<and> c \<noteq> CHR '']'' \<and> c \<noteq> CHR ''}''"
proof -
  have "char_tag (CHR '']'') = 7" "char_tag (CHR ''}'') = 7" by (simp_all add: char_tag_def digit_def)
  with dumps_head [of v] json_tag_le [of v] show "normal v \<Longrightarrow> ?thesis" by force
qed

lemma dumps_normal_obj: "normal (JObj kvs) \<Longrightarrow>
    dumps (JObj kvs) = ''{'' @ comma_join (map (\<lambda>(k, v). json_string k @ '':'' @ dumps v) kvs) @ ''}''"
proof -
  assume "normal (JObj kvs)"
  then have "sorted (map fst (map (\<lambda>(k, v). (k, dumps v)) kvs))"
    by (simp add: comp_def case_prod_unfold strict_sorted_imp_sorted)
  then have "sort_key fst (map (\<lambda>(k, v). (k, dumps v)) kvs) = map (\<lambda>(k, v). (k, dumps v)) kvs"
    by (rule sort_key_id_if_sorted)
  then show ?thesis by (simp add: comp_def case_prod_unfold)
qed

lemma json_tag_eq:
  "json_tag v = json_tag JNull \<Longrightarrow> v = JNull" "json_tag v = json_tag (JBool b) \<Longrightarrow> v = JBool b"
  "json_tag v = 3 \<Longrightarrow> (\<exists>j. v = JInt j) \<or> (\<exists>t. v = JNum t)" "json_tag v = json_tag (JStr s) \<Longrightarrow> \<exists>t. v = JStr t"
  "json_tag v = json_tag (JList xs) \<Longrightarrow> \<exists>ys. v = JList ys" "json_tag v = json_tag (JObj xs') \<Longrightarrow> \<exists>ys. v = JObj ys"
  by (cases v; simp split: if_splits)+

lemma dumps_inject_delimited:
  "\<lbrakk>dumps u @ r = dumps v @ q; normal u; normal v; delimited r; delimited q\<rbrakk> \<Longrightarrow> u = v \<and> r = q"
proof (induction u arbitrary: v r q)
  case (JList us)
  then obtain vs where v: "v = JList vs" using dumps_tag json_tag_eq(5) by metis
  have "us = vs \<and> r = q"
  proof (rule join_inject [where p = dumps and close = "CHR '']''"])
    show "comma_join (map dumps us) @ CHR '']'' # r = comma_join (map dumps vs) @ CHR '']'' # q"
      using JList.prems(1) v by simp
    fix x y r' q' assume "x \<in> set us" "y \<in> set vs" "delimited r'" "delimited q'" "dumps x @ r' = dumps y @ q'"
    with JList v show "x = y \<and> r' = q'" by (auto simp: list_all_iff)
  next
    fix x assume "x \<in> set us \<union> set vs"
    then show "\<exists>c s. dumps x = c # s \<and> c \<noteq> CHR '']''" using dumps_not_close [of x] JList.prems(2,3) v by (auto simp: list_all_iff)
  qed simp
  with v show ?case by simp
next
  case (JObj us)
  then obtain vs where v: "v = JObj vs" using dumps_tag json_tag_eq(6) by metis
  let ?p = "\<lambda>(k, x). json_string k @ '':'' @ dumps x"
  have "us = vs \<and> r = q"
  proof (rule join_inject [where p = ?p and close = "CHR ''}''"])
    show "comma_join (map ?p us) @ CHR ''}'' # r = comma_join (map ?p vs) @ CHR ''}'' # q"
      using JObj.prems(1-3) v by (simp add: dumps_normal_obj del: dumps.simps)
    fix x y r' q' assume xy: "x \<in> set us" "y \<in> set vs" "delimited r'" "delimited q'" "?p x @ r' = ?p y @ q'"
    obtain k a l b where kl: "x = (k, a)" "y = (l, b)" by (cases x; cases y)
    with xy(5) have "k = l" "dumps a @ r' = dumps b @ q'" using json_string_inject [of k _ l] by auto
    moreover have "normal a" "normal b" using JObj.prems(2,3) v xy(1,2) kl by (auto simp: list_all_iff)
    ultimately show "x = y \<and> r' = q'"
      using JObj.IH [OF xy(1), of a] xy(3,4) kl by (auto simp: snds.simps)
  qed (auto simp: json_string_def)
  with v show ?case by simp
next
  case (JInt i)
  then have "json_tag v = 3" using dumps_tag [OF JInt.prems(1-3)] by simp
  then consider j where "v = JInt j" | t where "v = JNum t" using json_tag_eq(3) by blast
  then show ?case
  proof cases
    case 1
    with JInt show ?thesis using int_str_delimited [of i r _ q] by simp
  next
    case 2
    with JInt show ?thesis using int_str_not_float [of i r _ q] by auto
  qed
next
  case (JNum s)
  then have "json_tag v = 3" using dumps_tag [OF JNum.prems(1-3)] by simp
  then consider j where "v = JInt j" | t where "v = JNum t" using json_tag_eq(3) by blast
  then show ?case
  proof cases
    case 1
    with JNum show ?thesis using int_str_not_float [of _ q s r] by auto
  next
    case 2
    with JNum show ?thesis using number_delimited [of s r _ q] by (auto simp: float_text_def)
  qed
next
  case (JStr s)
  then obtain t where "v = JStr t" using dumps_tag json_tag_eq(4) by metis
  with JStr show ?case using json_string_inject [of s r t q] by simp
next
  case JNull
  then have "v = JNull" using dumps_tag json_tag_eq(1) by metis
  with JNull show ?case by simp
next
  case (JBool b)
  then have "v = JBool b" using dumps_tag json_tag_eq(2) by metis
  with JBool show ?case by simp
qed

lemma map_insort_key: "map g (insort_key (\<lambda>a. f (g a)) x xs) = insort_key f (g x) (map g xs)"
  by (induction xs) simp_all

lemma sort_key_map: "sort_key f (map g xs) = map g (sort_key (\<lambda>a. f (g a)) xs)"
  by (induction xs) (simp_all add: map_insort_key)

lemma sort_key_idem: "sort_key f (sort_key f xs) = sort_key f xs"
  by (rule sort_key_id_if_sorted) simp

lemma dumps_key_sorted: "dumps (key_sorted v) = dumps v"
proof (induction v rule: key_sorted.induct)
  case (2 kvs)
  then have "map (\<lambda>(k, v). (k, dumps (key_sorted v))) (sort_key fst kvs) = map (\<lambda>(k, v). (k, dumps v)) (sort_key fst kvs)"
    by auto
  then show ?case
    by (simp add: sort_key_map sort_key_idem comp_def case_prod_unfold)
      (rule arg_cong [of _ _ comma_join], rule map_cong, auto)
next
  case (1 xs)
  then have "map (dumps \<circ> key_sorted) xs = map dumps xs" by simp
  then show ?case by (simp only: key_sorted.simps dumps.simps list.map_comp)
qed simp_all

fun distinct_keys :: "json \<Rightarrow> bool" where
  "distinct_keys (JList xs) = list_all distinct_keys xs"
| "distinct_keys (JObj kvs) = (distinct (map fst kvs) \<and> list_all distinct_keys (map snd kvs))"
| "distinct_keys (JNum t) = float_text t"
| "distinct_keys _ = True"

lemma normal_key_sorted: "distinct_keys v \<Longrightarrow> normal (key_sorted v)"
proof (induction v rule: key_sorted.induct)
  case (2 kvs)
  let ?kvs = "sort_key fst (map (\<lambda>(k, v). (k, key_sorted v)) kvs)"
  have keys: "map fst ?kvs = sort (map fst kvs)"
    by (simp add: map_sort_key comp_def case_prod_unfold)
  then have "sorted_wrt (<) (map fst ?kvs)"
    using 2 by (simp add: strict_sorted_iff)
  moreover have "list_all normal (map snd ?kvs)" using 2 by (auto simp: list_all_iff)
  ultimately show ?case by simp
qed (simp_all add: list_all_iff)

lemma dumps_reads_back:
  assumes "distinct_keys u" "distinct_keys v"
  shows "dumps u = dumps v \<longleftrightarrow> key_sorted u = key_sorted v"
proof
  assume "dumps u = dumps v"
  then have "dumps (key_sorted u) @ [] = dumps (key_sorted v) @ []" by (simp add: dumps_key_sorted)
  from dumps_inject_delimited [OF this normal_key_sorted normal_key_sorted] assms
  show "key_sorted u = key_sorted v" by (simp add: delimited_def)
next
  assume "key_sorted u = key_sorted v"
  then show "dumps u = dumps v" by (metis dumps_key_sorted)
qed

text \<open>Objects with the same keys in the same order, as two instances of one dataclass give: the values
  agree field by field.\<close>

lemma map_snd_lookup: "distinct (map fst xs) \<Longrightarrow> map snd xs = map (\<lambda>k. the (map_of xs k)) (map fst xs)"
  by simp (metis map_of_is_SomeI option.sel prod.collapse)

lemma key_sorted_obj_fields:
  assumes "key_sorted (JObj kvs) = key_sorted (JObj kvs')" "map fst kvs = map fst kvs'" "distinct (map fst kvs)"
  shows "map (key_sorted \<circ> snd) kvs = map (key_sorted \<circ> snd) kvs'"
proof -
  let ?h = "map (\<lambda>(k, v). (k, key_sorted v))"
  from assms(1) have "sort_key fst (?h kvs) = sort_key fst (?h kvs')" by simp
  then have "mset (?h kvs) = mset (?h kvs')" by (metis mset_sort)
  moreover have keys: "map fst (?h kvs) = map fst kvs" "map fst (?h kvs') = map fst kvs'"
    by (simp_all add: comp_def case_prod_unfold)
  ultimately have m: "map_of (?h kvs) = map_of (?h kvs')"
    using assms(2,3) by (metis map_of_inject_set mset_eq_setD)
  have "map snd (?h kvs) = map snd (?h kvs')"
    using map_snd_lookup [of "?h kvs"] map_snd_lookup [of "?h kvs'"] m keys assms(2,3) by metis
  then show ?thesis by (simp add: comp_def case_prod_unfold)
qed

lemma mset_map_eqD:
  assumes "mset (map g xs) = mset (map g ys)"
  shows "\<exists>zs. mset zs = mset ys \<and> map g xs = map g zs"
  using assms
proof (induction xs arbitrary: ys)
  case (Cons x xs)
  then have "g x \<in> set (map g ys)" by (metis list.set_intros(1) list.simps(9) mset_eq_setD)
  then obtain y where y: "y \<in> set ys" "g y = g x" by auto
  then obtain ys1 ys2 where ys: "ys = ys1 @ y # ys2" by (auto simp: in_set_conv_decomp)
  with Cons.prems y have "mset (map g xs) = mset (map g (ys1 @ ys2))" by simp
  from Cons.IH [OF this] obtain zs where "mset zs = mset (ys1 @ ys2)" "map g xs = map g zs" by blast
  with y ys show ?case by (intro exI [of _ "y # zs"]) simp
qed simp

lemma map_eq_list_all2: "map g xs = map g ys \<Longrightarrow> list_all2 (\<lambda>x y. g x = g y) xs ys"
  by (induction xs arbitrary: ys) (auto simp: Cons_eq_map_conv)

end
