(* ===== verification/Cluster.thy ===== *)
theory Cluster
  imports Canonical_Json Complex_Main
begin

section \<open>The cluster domain: identity, capability, state and snapshots\<close>

text \<open>
  \<^verbatim>\<open>cluster/identity.py\<close>, \<^verbatim>\<open>cluster/capability.py\<close>, \<^verbatim>\<open>cluster/inventory.py\<close>, \<^verbatim>\<open>cluster/state.py\<close> and
  \<^verbatim>\<open>cluster/snapshot.py\<close>. Each dataclass is a record, its \<^verbatim>\<open>__post_init__\<close> a check into the result
  type. Floating-point telemetry is a rational (a finite double is one). A timestamp is its value
  with the flag whether it carries a time zone.

  The revision of a capability is the SHA-256 of its canonical JSON text. The canonical value and
  its text are translated; SHA-256 itself is a parameter.
\<close>


subsection \<open>Identity\<close>

definition non_empty :: "string \<Rightarrow> string \<Rightarrow> unit res" where
  "non_empty what s = raise_if (s = []) (ValueError what)"

lemma non_empty_Inr [simp, res_simps]: "non_empty what s = Inr u \<longleftrightarrow> s \<noteq> []"
  by (simp add: non_empty_def)

record worker_identity =
  wi_worker_id :: string
  wi_hostname :: string
  wi_agent_version :: string
  wi_protocol_version :: string

definition check_worker_identity :: "worker_identity \<Rightarrow> unit res" where
  "check_worker_identity i =
     then_res (non_empty ''worker_id'' (wi_worker_id i))
     (then_res (non_empty ''hostname'' (wi_hostname i))
     (then_res (non_empty ''agent_version'' (wi_agent_version i))
     (non_empty ''protocol_version'' (wi_protocol_version i))))"

datatype dev_kind = CPU | GPU | NPU | OTHER

record device_identity =
  di_device_id :: string
  di_kind :: dev_kind
  di_local_locator :: string

definition check_device_identity :: "device_identity \<Rightarrow> unit res" where
  "check_device_identity d =
     then_res (non_empty ''device_id'' (di_device_id d)) (non_empty ''local_locator'' (di_local_locator d))"


subsection \<open>Capability\<close>

datatype memory_model = DISCRETE | SHARED

record memory_pool_capability =
  mp_memory_pool_id :: string
  mp_model :: memory_model
  mp_total_bytes :: int

definition check_memory_pool :: "memory_pool_capability \<Rightarrow> unit res" where
  "check_memory_pool p =
     then_res (non_empty ''memory_pool_id'' (mp_memory_pool_id p))
       (raise_if (mp_total_bytes p \<le> 0) (ValueError ''total_bytes must be positive''))"

record os_info =
  os_name :: string
  os_version :: "string option"
  os_kernel :: "string option"

definition check_os_info :: "os_info \<Rightarrow> unit res" where
  "check_os_info i = non_empty ''os name'' (os_name i)"

record container_runtime_capability =
  cr_runtime :: string
  cr_version :: "string option"
  cr_nvidia_runtime_available :: bool

definition check_container_runtime :: "container_runtime_capability \<Rightarrow> unit res" where
  "check_container_runtime c = non_empty ''container runtime name'' (cr_runtime c)"

record network_interface_capability =
  ni_interface_id :: string
  ni_name :: string
  ni_addresses :: "string list"
  ni_mtu :: "int option"

definition check_network_interface :: "network_interface_capability \<Rightarrow> unit res" where
  "check_network_interface n =
     then_res (non_empty ''interface_id'' (ni_interface_id n)) (non_empty ''interface name'' (ni_name n))"

record runtime_platform_capability =
  rpl_backend :: string
  rpl_platform :: string
  rpl_image :: "string option"

definition check_runtime_platform :: "runtime_platform_capability \<Rightarrow> unit res" where
  "check_runtime_platform p =
     then_res (non_empty ''backend'' (rpl_backend p)) (non_empty ''platform'' (rpl_platform p))"

record device_capability =
  dc_identity :: device_identity
  dc_vendor :: string
  dc_model :: string
  dc_compute_capability :: "string option"
  dc_memory_pool_id :: "string option"
  dc_supported_dtypes :: "string list"
  dc_driver_version :: "string option"
  dc_platform_tags :: "string list"

definition check_device_capability :: "device_capability \<Rightarrow> unit res" where
  "check_device_capability d =
     then_res (check_device_identity (dc_identity d))
     (then_res (non_empty ''device vendor'' (dc_vendor d)) (non_empty ''device model'' (dc_model d)))"

record worker_capability =
  wc_architecture :: string
  wc_os :: os_info
  wc_container_runtime :: "container_runtime_capability option"
  wc_network_interfaces :: "network_interface_capability list"
  wc_devices :: "device_capability list"
  wc_memory_pools :: "memory_pool_capability list"
  wc_runtime_platforms :: "runtime_platform_capability list"
  wc_capability_revision :: string

definition device_ids :: "worker_capability \<Rightarrow> string list" where
  "device_ids c = map (di_device_id \<circ> dc_identity) (wc_devices c)"

definition pool_ids :: "worker_capability \<Rightarrow> string list" where
  "pool_ids c = map mp_memory_pool_id (wc_memory_pools c)"

definition check_worker_capability :: "worker_capability \<Rightarrow> unit res" where
  "check_worker_capability c =
     then_res (check_os_info (wc_os c))
     (then_res (case wc_container_runtime c of None \<Rightarrow> Inr () | Some r \<Rightarrow> check_container_runtime r)
     (then_res (for_res check_network_interface (wc_network_interfaces c))
     (then_res (for_res check_device_capability (wc_devices c))
     (then_res (for_res check_memory_pool (wc_memory_pools c))
     (then_res (for_res check_runtime_platform (wc_runtime_platforms c))
     (then_res (non_empty ''architecture'' (wc_architecture c))
     (then_res (raise_if (\<not> distinct (pool_ids c)) (ValueError ''duplicate memory_pool_id in memory_pools''))
     (then_res (raise_if (\<not> distinct (device_ids c)) (ValueError ''duplicate device_id in devices''))
     (for_res (\<lambda>d. raise_if (case dc_memory_pool_id d of None \<Rightarrow> False | Some p \<Rightarrow> p \<notin> set (pool_ids c))
                (ValueError ''device references unknown memory pool'')) (wc_devices c))))))))))"


subsection \<open>The canonical value and its revision\<close>

definition jopt :: "('a \<Rightarrow> json) \<Rightarrow> 'a option \<Rightarrow> json" where
  "jopt f v = (case v of None \<Rightarrow> JNull | Some x \<Rightarrow> f x)"

text \<open>\<open>jset\<close> is a field of \<^verbatim>\<open>_ORDER_INSENSITIVE_FIELDS\<close>: the items sorted by their JSON text.\<close>

definition jset :: "json list \<Rightarrow> json" where
  "jset items = JList (sort_key dumps items)"

fun dev_kind_value :: "dev_kind \<Rightarrow> string" where
  "dev_kind_value CPU = ''cpu''" | "dev_kind_value GPU = ''gpu''"
| "dev_kind_value NPU = ''npu''" | "dev_kind_value OTHER = ''other''"

fun memory_model_value :: "memory_model \<Rightarrow> string" where
  "memory_model_value DISCRETE = ''discrete''" | "memory_model_value SHARED = ''shared''"

definition canonical_os :: "os_info \<Rightarrow> json" where
  "canonical_os o1 = JObj [(''name'', JStr (os_name o1)), (''version'', jopt JStr (os_version o1)),
     (''kernel'', jopt JStr (os_kernel o1))]"

definition canonical_container :: "container_runtime_capability \<Rightarrow> json" where
  "canonical_container c = JObj [(''runtime'', JStr (cr_runtime c)), (''version'', jopt JStr (cr_version c)),
     (''nvidia_runtime_available'', JBool (cr_nvidia_runtime_available c))]"

definition canonical_interface :: "network_interface_capability \<Rightarrow> json" where
  "canonical_interface n = JObj [(''interface_id'', JStr (ni_interface_id n)), (''name'', JStr (ni_name n)),
     (''addresses'', jset (map JStr (ni_addresses n))), (''mtu'', jopt JInt (ni_mtu n))]"

definition canonical_device :: "device_capability \<Rightarrow> json" where
  "canonical_device d = JObj
     [(''identity'', JObj [(''device_id'', JStr (di_device_id (dc_identity d))),
         (''kind'', JStr (dev_kind_value (di_kind (dc_identity d)))),
         (''local_locator'', JStr (di_local_locator (dc_identity d)))]),
      (''vendor'', JStr (dc_vendor d)), (''model'', JStr (dc_model d)),
      (''compute_capability'', jopt JStr (dc_compute_capability d)),
      (''memory_pool_id'', jopt JStr (dc_memory_pool_id d)),
      (''supported_dtypes'', jset (map JStr (dc_supported_dtypes d))),
      (''driver_version'', jopt JStr (dc_driver_version d)),
      (''platform_tags'', jset (map JStr (dc_platform_tags d)))]"

definition canonical_pool :: "memory_pool_capability \<Rightarrow> json" where
  "canonical_pool p = JObj [(''memory_pool_id'', JStr (mp_memory_pool_id p)),
     (''model'', JStr (memory_model_value (mp_model p))), (''total_bytes'', JInt (mp_total_bytes p))]"

definition canonical_platform :: "runtime_platform_capability \<Rightarrow> json" where
  "canonical_platform p = JObj [(''backend'', JStr (rpl_backend p)), (''platform'', JStr (rpl_platform p)),
     (''image'', jopt JStr (rpl_image p))]"

text \<open>The mapping after \<^verbatim>\<open>pop("capability_revision")\<close>.\<close>

definition canonical_capability :: "worker_capability \<Rightarrow> json" where
  "canonical_capability c = JObj
     [(''architecture'', JStr (wc_architecture c)), (''os'', canonical_os (wc_os c)),
      (''container_runtime'', jopt canonical_container (wc_container_runtime c)),
      (''network_interfaces'', jset (map (canonical_interface) (wc_network_interfaces c))),
      (''devices'', jset (map (canonical_device) (wc_devices c))),
      (''memory_pools'', jset (map canonical_pool (wc_memory_pools c))),
      (''runtime_platforms'', jset (map canonical_platform (wc_runtime_platforms c)))]"

definition compute_capability_revision :: "(string \<Rightarrow> string) \<Rightarrow> worker_capability \<Rightarrow> string" where
  "compute_capability_revision sha256 c = sha256 (dumps (canonical_capability c))"


subsection \<open>Inventory and dynamic state\<close>

datatype runtime_status = CREATED | RUNNING | STOPPED | FAILED | UNKNOWN_STATUS

record runtime_instance_state =
  rt_runtime_id :: string
  rt_backend :: string
  rt_execution_id :: "string option"
  rt_status :: runtime_status
  rt_device_ids :: "string list"
  rt_container_id :: "string option"
  rt_endpoint :: "string option"
  rt_model_local_name :: "string option"

definition check_runtime_instance :: "runtime_instance_state \<Rightarrow> unit res" where
  "check_runtime_instance r = then_res (non_empty ''runtime_id'' (rt_runtime_id r)) (non_empty ''backend'' (rt_backend r))"

datatype model_availability = READY | INCOMPLETE | INVALID

record model_inventory_entry =
  me_local_name :: string
  me_model_id :: "string option"
  me_revision :: "string option"
  me_size_bytes :: "int option"
  me_status :: model_availability

definition negative :: "int option \<Rightarrow> bool" where
  "negative v = (case v of None \<Rightarrow> False | Some i \<Rightarrow> i < 0)"

definition check_model_entry :: "model_inventory_entry \<Rightarrow> unit res" where
  "check_model_entry m =
     then_res (non_empty ''local_name'' (me_local_name m))
       (raise_if (negative (me_size_bytes m)) (ValueError ''size_bytes must not be negative''))"

datatype device_availability = AVAILABLE | UNAVAILABLE | UNKNOWN_AVAILABILITY

record device_state =
  dv_device_id :: string
  dv_utilization :: "rat option"
  dv_temperature_c :: "rat option"
  dv_power_w :: "rat option"
  dv_availability :: device_availability
  dv_running_runtime_ids :: "string list"

definition check_device_state :: "device_state \<Rightarrow> unit res" where
  "check_device_state d =
     then_res (non_empty ''device_id'' (dv_device_id d))
       (raise_if (case dv_utilization d of None \<Rightarrow> False | Some u \<Rightarrow> \<not> (0 \<le> u \<and> u \<le> 100))
          (ValueError ''utilization must be within [0, 100]''))"

record memory_pool_state =
  mps_memory_pool_id :: string
  mps_available_bytes :: "int option"

definition check_memory_pool_state :: "memory_pool_state \<Rightarrow> unit res" where
  "check_memory_pool_state m =
     then_res (non_empty ''memory_pool_id'' (mps_memory_pool_id m))
       (raise_if (negative (mps_available_bytes m)) (ValueError ''available_bytes must not be negative''))"

datatype worker_status = ONLINE | SUSPECT | OFFLINE

record worker_state =
  ws_worker_id :: string
  ws_device_states :: "device_state list"
  ws_memory_states :: "memory_pool_state list"
  ws_runtime_instances :: "runtime_instance_state list"
  ws_models :: "model_inventory_entry list"

definition check_worker_state :: "worker_state \<Rightarrow> unit res" where
  "check_worker_state s =
     then_res (for_res check_device_state (ws_device_states s))
     (then_res (for_res check_memory_pool_state (ws_memory_states s))
     (then_res (for_res check_runtime_instance (ws_runtime_instances s))
     (then_res (for_res check_model_entry (ws_models s))
     (then_res (non_empty ''worker_id'' (ws_worker_id s))
     (then_res (raise_if (\<not> distinct (map dv_device_id (ws_device_states s))) (ValueError ''duplicate device_id in device_states''))
     (raise_if (\<not> distinct (map mps_memory_pool_id (ws_memory_states s)))
        (ValueError ''duplicate memory_pool_id in memory_states'')))))))"


subsection \<open>Snapshots\<close>

record timestamp =
  ts_value :: int
  ts_aware :: bool

definition require_aware :: "timestamp \<Rightarrow> string \<Rightarrow> unit res" where
  "require_aware t field = raise_if (\<not> ts_aware t) (ValueError field)"

definition validate_state_against_capability :: "worker_state \<Rightarrow> worker_capability \<Rightarrow> unit res" where
  "validate_state_against_capability s c =
     then_res (for_res (\<lambda>d. raise_if (dv_device_id d \<notin> set (device_ids c)) (ValueError ''device state references unknown device''))
                 (ws_device_states s))
     (then_res (for_res (\<lambda>m. raise_if (mps_memory_pool_id m \<notin> set (pool_ids c)) (ValueError ''memory state references unknown memory pool''))
                 (ws_memory_states s))
     (for_res (\<lambda>r. raise_if (filter (\<lambda>d. d \<notin> set (device_ids c)) (rt_device_ids r) \<noteq> [])
                 (ValueError ''runtime instance references unknown device'')) (ws_runtime_instances s)))"

record worker_snapshot =
  sn_identity :: worker_identity
  sn_capability :: worker_capability
  sn_state :: worker_state
  sn_status :: worker_status
  sn_session_id :: "string option"
  sn_last_seen_at :: "timestamp option"

definition make_worker_snapshot :: "worker_snapshot \<Rightarrow> worker_snapshot res" where
  "make_worker_snapshot w =
     then_res (raise_if (wi_worker_id (sn_identity w) \<noteq> ws_worker_id (sn_state w)) (ValueError ''identity/state worker_id mismatch''))
     (then_res (raise_if (sn_session_id w = Some []) (ValueError ''session_id must not be empty when present''))
     (then_res (case sn_last_seen_at w of None \<Rightarrow> Inr () | Some t \<Rightarrow> require_aware t ''last_seen_at'')
     (then_res (validate_state_against_capability (sn_state w) (sn_capability w)) (Inr w))))"

record cluster_snapshot =
  cs_snapshot_id :: string
  cs_created_at :: timestamp
  cs_workers :: "worker_snapshot list"

definition make_cluster_snapshot :: "cluster_snapshot \<Rightarrow> cluster_snapshot res" where
  "make_cluster_snapshot s =
     then_res (non_empty ''snapshot_id'' (cs_snapshot_id s))
     (then_res (require_aware (cs_created_at s) ''created_at'')
     (then_res (raise_if (\<not> distinct (map (wi_worker_id \<circ> sn_identity) (cs_workers s))) (ValueError ''duplicate worker_id in snapshot''))
     (Inr s)))"


subsection \<open>References resolve\<close>

lemma validate_state_Inr [res_simps]:
  "validate_state_against_capability s c = Inr () \<longleftrightarrow>
     (\<forall>d\<in>set (ws_device_states s). dv_device_id d \<in> set (device_ids c))
     \<and> (\<forall>m\<in>set (ws_memory_states s). mps_memory_pool_id m \<in> set (pool_ids c))
     \<and> (\<forall>r\<in>set (ws_runtime_instances s). set (rt_device_ids r) \<subseteq> set (device_ids c))"
  by (auto simp: validate_state_against_capability_def for_res_Inr filter_empty_conv)


subsection \<open>The revision ignores enumeration order\<close>

text \<open>The text of a sorted collection depends only on the multiset of its items' texts: items that
  share a text may stay in either order.\<close>

lemma dumps_jset: "dumps (jset xs) = ''['' @ comma_join (sort (map dumps xs)) @ '']''"
  by (simp add: jset_def map_sort_key)

lemma dumps_jset_mset: "mset (map dumps xs) = mset (map dumps ys) \<Longrightarrow> dumps (jset xs) = dumps (jset ys)"
proof -
  assume "mset (map dumps xs) = mset (map dumps ys)"
  then have "sort (map dumps xs) = sort (map dumps ys)"
    by (intro properties_for_sort) (simp_all flip: mset_map)
  then show ?thesis by (simp only: dumps_jset)
qed

text \<open>Two capabilities that differ only in the order of their unordered collections, also inside the
  interfaces and devices.\<close>

definition same_interface :: "network_interface_capability \<Rightarrow> network_interface_capability \<Rightarrow> bool" where
  "same_interface a b \<longleftrightarrow> mset (ni_addresses a) = mset (ni_addresses b)
     \<and> a\<lparr>ni_addresses := []\<rparr> = b\<lparr>ni_addresses := []\<rparr>"

definition same_device :: "device_capability \<Rightarrow> device_capability \<Rightarrow> bool" where
  "same_device a b \<longleftrightarrow> mset (dc_supported_dtypes a) = mset (dc_supported_dtypes b)
     \<and> mset (dc_platform_tags a) = mset (dc_platform_tags b)
     \<and> a\<lparr>dc_supported_dtypes := [], dc_platform_tags := []\<rparr> = b\<lparr>dc_supported_dtypes := [], dc_platform_tags := []\<rparr>"

definition same_up_to_order :: "('a \<Rightarrow> 'a \<Rightarrow> bool) \<Rightarrow> 'a list \<Rightarrow> 'a list \<Rightarrow> bool" where
  "same_up_to_order r xs ys \<longleftrightarrow> (\<exists>zs. mset zs = mset ys \<and> list_all2 r xs zs)"

definition same_capability :: "worker_capability \<Rightarrow> worker_capability \<Rightarrow> bool" where
  "same_capability a b \<longleftrightarrow> wc_architecture a = wc_architecture b \<and> wc_os a = wc_os b
     \<and> wc_container_runtime a = wc_container_runtime b
     \<and> same_up_to_order same_interface (wc_network_interfaces a) (wc_network_interfaces b)
     \<and> same_up_to_order same_device (wc_devices a) (wc_devices b)
     \<and> mset (wc_memory_pools a) = mset (wc_memory_pools b)
     \<and> mset (wc_runtime_platforms a) = mset (wc_runtime_platforms b)"

lemma dumps_jset_perm: "mset xs = mset ys \<Longrightarrow> dumps (jset (map f xs)) = dumps (jset (map f ys))"
  by (rule dumps_jset_mset) (simp only: mset_map)

lemma canonical_interface_same:
  "same_interface a b \<Longrightarrow> dumps (canonical_interface a) = dumps (canonical_interface b)"
  unfolding canonical_interface_def
  by (rule dumps_obj_cong, cases a, cases b) (auto simp: same_interface_def simp del: dumps.simps intro!: dumps_jset_perm)

lemma canonical_device_same:
  "same_device a b \<Longrightarrow> dumps (canonical_device a) = dumps (canonical_device b)"
  unfolding canonical_device_def
  by (rule dumps_obj_cong, cases a, cases b) (auto simp: same_device_def simp del: dumps.simps intro!: dumps_jset_perm)

lemma dumps_same_up_to_order:
  assumes "same_up_to_order r xs ys" and "\<And>x y. r x y \<Longrightarrow> dumps (f x) = dumps (f y)"
  shows "dumps (jset (map f xs)) = dumps (jset (map f ys))"
proof (rule dumps_jset_mset)
  from assms(1) obtain zs where "mset zs = mset ys" "list_all2 r xs zs" by (auto simp: same_up_to_order_def)
  moreover from this(2) have "map (dumps \<circ> f) xs = map (dumps \<circ> f) zs"
    by (induction rule: list_all2_induct) (simp_all add: assms(2))
  ultimately show "mset (map dumps (map f xs)) = mset (map dumps (map f ys))" by (simp only: list.map_comp mset_map)
qed

lemma revision_same:
  assumes "same_capability a b"
  shows "compute_capability_revision sha256 a = compute_capability_revision sha256 b"
proof -
  note s = assms [unfolded same_capability_def]
  have i: "dumps (jset (map canonical_interface (wc_network_interfaces a)))
      = dumps (jset (map canonical_interface (wc_network_interfaces b)))"
    using s by (auto intro: dumps_same_up_to_order canonical_interface_same)
  have d: "dumps (jset (map canonical_device (wc_devices a))) = dumps (jset (map canonical_device (wc_devices b)))"
    using s by (auto intro: dumps_same_up_to_order canonical_device_same)
  have "dumps (canonical_capability a) = dumps (canonical_capability b)"
    unfolding canonical_capability_def
    by (rule dumps_obj_cong) (use s i d in \<open>simp del: dumps.simps add: dumps_jset_perm [of "wc_memory_pools a"]
        dumps_jset_perm [of "wc_runtime_platforms a"]\<close>)
  then show ?thesis by (simp add: compute_capability_revision_def)
qed


subsection \<open>The revision sees every other change\<close>

lemma jset_readback:
  assumes "key_sorted (jset (map f xs)) = key_sorted (jset (map f ys))" "\<And>x y. key_sorted (f x) = key_sorted (f y) \<Longrightarrow> r x y"
  shows "same_up_to_order r xs ys"
proof -
  from assms(1) have "map key_sorted (sort_key dumps (map f xs)) = map key_sorted (sort_key dumps (map f ys))"
    by (simp add: jset_def)
  then have "mset (map key_sorted (map f xs)) = mset (map key_sorted (map f ys))"
    by (metis mset_map mset_sort)
  then obtain zs where "mset zs = mset ys" "map (key_sorted \<circ> f) xs = map (key_sorted \<circ> f) zs"
    using mset_map_eqD [of "key_sorted \<circ> f" xs ys] by auto
  moreover from this(2) have "list_all2 (\<lambda>x y. (key_sorted \<circ> f) x = (key_sorted \<circ> f) y) xs zs"
    by (rule map_eq_list_all2)
  then have "list_all2 r xs zs" by (rule list_all2_mono) (use assms(2) in simp)
  ultimately show ?thesis unfolding same_up_to_order_def by blast
qed

lemma jset_strings_readback: "key_sorted (jset (map JStr xs)) = key_sorted (jset (map JStr ys)) \<Longrightarrow> mset xs = mset ys"
proof -
  assume "key_sorted (jset (map JStr xs)) = key_sorted (jset (map JStr ys))"
  then have "same_up_to_order (=) xs ys" by (rule jset_readback) simp
  then show ?thesis by (auto simp: same_up_to_order_def list.rel_eq)
qed

lemma jopt_readback [simp]:
  "key_sorted (jopt JStr v) = key_sorted (jopt JStr u) \<longleftrightarrow> v = u"
  "key_sorted (jopt JInt i) = key_sorted (jopt JInt j) \<longleftrightarrow> i = j"
  by (auto simp: jopt_def split: option.splits)

text \<open>Reading an object back field by field.\<close>

lemma obj_readback:
  assumes "key_sorted (JObj kvs) = key_sorted (JObj kvs')" "map fst kvs = ks" "map fst kvs' = ks" "distinct ks"
  shows "list_all2 (\<lambda>x y. key_sorted (snd x) = key_sorted (snd y)) kvs kvs'"
proof -
  have "map (key_sorted \<circ> snd) kvs = map (key_sorted \<circ> snd) kvs'"
    by (rule key_sorted_obj_fields [OF assms(1)]) (simp_all add: assms)
  then have "list_all2 (\<lambda>x y. (key_sorted \<circ> snd) x = (key_sorted \<circ> snd) y) kvs kvs'"
    by (rule map_eq_list_all2)
  then show ?thesis by simp
qed

lemma canonical_interface_readback:
  assumes "key_sorted (canonical_interface a) = key_sorted (canonical_interface b)"
  shows "same_interface a b"
  using obj_readback [OF assms [unfolded canonical_interface_def] refl]
  by (cases a; cases b) (auto simp: same_interface_def simp del: key_sorted.simps(1,2) dest!: jset_strings_readback)

lemma value_inject [simp]:
  "dev_kind_value k = dev_kind_value l \<longleftrightarrow> k = l" "memory_model_value x = memory_model_value y \<longleftrightarrow> x = y"
  by (cases k; cases l; simp) (cases x; cases y; simp)

lemma canonical_device_readback:
  assumes "key_sorted (canonical_device a) = key_sorted (canonical_device b)"
  shows "same_device a b"
proof -
  note f = obj_readback [OF assms [unfolded canonical_device_def] refl, simplified, simplified]
  have "dc_identity a = dc_identity b"
    using f by (cases "dc_identity a"; cases "dc_identity b") simp
  with f show ?thesis
    by (cases a; cases b) (auto simp: same_device_def simp del: key_sorted.simps(1,2) dest!: jset_strings_readback)
qed

lemma canonical_pool_readback: "key_sorted (canonical_pool a) = key_sorted (canonical_pool b) \<Longrightarrow> a = b"
  using obj_readback [of "[(''memory_pool_id'', JStr (mp_memory_pool_id a)),
     (''model'', JStr (memory_model_value (mp_model a))), (''total_bytes'', JInt (mp_total_bytes a))]"
     "[(''memory_pool_id'', JStr (mp_memory_pool_id b)),
     (''model'', JStr (memory_model_value (mp_model b))), (''total_bytes'', JInt (mp_total_bytes b))]"]
  by (cases a; cases b) (simp add: canonical_pool_def del: key_sorted.simps(1,2))

lemma canonical_platform_readback:
  assumes "key_sorted (canonical_platform a) = key_sorted (canonical_platform b)"
  shows "a = b"
  using obj_readback [OF assms [unfolded canonical_platform_def] refl] by (cases a; cases b) simp

lemma canonical_os_readback:
  assumes "key_sorted (canonical_os a) = key_sorted (canonical_os b)"
  shows "a = b"
  using obj_readback [OF assms [unfolded canonical_os_def] refl] by (cases a; cases b) simp

lemma canonical_container_readback:
  assumes "key_sorted (canonical_container a) = key_sorted (canonical_container b)"
  shows "a = b"
  using obj_readback [OF assms [unfolded canonical_container_def] refl] by (cases a; cases b) simp

lemma jopt_container_readback:
  "key_sorted (jopt canonical_container u) = key_sorted (jopt canonical_container v) \<Longrightarrow> u = v"
  by (auto simp: jopt_def canonical_container_def simp del: key_sorted.simps(2) split: option.splits
      dest!: canonical_container_readback [unfolded canonical_container_def]) (auto simp: canonical_container_def)

lemma canonical_distinct_keys [simp]: "distinct_keys (canonical_capability c)"
proof -
  have strs: "distinct_keys (jset (map JStr xs))" for xs by (auto simp: jset_def list_all_iff)
  have jset: "distinct_keys (jset (map f xs))" if "\<And>x. distinct_keys (f x)" for f :: "'z \<Rightarrow> json" and xs
    using that by (auto simp: jset_def list_all_iff)
  have opt: "distinct_keys (jopt JStr v)" "distinct_keys (jopt JInt i)" "distinct_keys (jopt canonical_container u)" for v i u
    by (auto simp: jopt_def canonical_container_def split: option.splits)
  have "distinct_keys (canonical_interface n)" "distinct_keys (canonical_device d)" "distinct_keys (canonical_pool p)"
    "distinct_keys (canonical_platform q)" "distinct_keys (canonical_os k)" for n d p q k
    by (simp_all add: canonical_interface_def canonical_device_def canonical_pool_def canonical_platform_def canonical_os_def strs opt)
  then show ?thesis by (simp add: canonical_capability_def jset opt)
qed

lemma revision_readback:
  assumes "compute_capability_revision sha256 a = compute_capability_revision sha256 b"
    and "\<And>s t. sha256 s = sha256 t \<Longrightarrow> s = t"
  shows "same_capability a b"
proof -
  from assms have "dumps (canonical_capability a) = dumps (canonical_capability b)"
    by (simp add: compute_capability_revision_def)
  then have ks: "key_sorted (canonical_capability a) = key_sorted (canonical_capability b)"
    by (simp add: dumps_reads_back)
  have f: "list_all2 (\<lambda>x y. key_sorted (snd x) = key_sorted (snd y))
      [(''architecture'', JStr (wc_architecture a)), (''os'', canonical_os (wc_os a)),
       (''container_runtime'', jopt canonical_container (wc_container_runtime a)),
       (''network_interfaces'', jset (map canonical_interface (wc_network_interfaces a))),
       (''devices'', jset (map canonical_device (wc_devices a))),
       (''memory_pools'', jset (map canonical_pool (wc_memory_pools a))),
       (''runtime_platforms'', jset (map canonical_platform (wc_runtime_platforms a)))]
      [(''architecture'', JStr (wc_architecture b)), (''os'', canonical_os (wc_os b)),
       (''container_runtime'', jopt canonical_container (wc_container_runtime b)),
       (''network_interfaces'', jset (map canonical_interface (wc_network_interfaces b))),
       (''devices'', jset (map canonical_device (wc_devices b))),
       (''memory_pools'', jset (map canonical_pool (wc_memory_pools b))),
       (''runtime_platforms'', jset (map canonical_platform (wc_runtime_platforms b)))]"
    by (rule obj_readback [OF ks [unfolded canonical_capability_def] refl]) simp_all
  then have "wc_architecture a = wc_architecture b" "wc_os a = wc_os b" "wc_container_runtime a = wc_container_runtime b"
    using canonical_os_readback jopt_container_readback by simp_all
  moreover have "same_up_to_order same_interface (wc_network_interfaces a) (wc_network_interfaces b)"
    "same_up_to_order same_device (wc_devices a) (wc_devices b)"
    "same_up_to_order (=) (wc_memory_pools a) (wc_memory_pools b)"
    "same_up_to_order (=) (wc_runtime_platforms a) (wc_runtime_platforms b)"
    using f by (auto intro!: jset_readback canonical_interface_readback canonical_device_readback canonical_pool_readback
        canonical_platform_readback simp del: key_sorted.simps)
  ultimately show ?thesis by (auto simp: same_capability_def same_up_to_order_def list.rel_eq)
qed

lemma revision_excludes_itself [simp]:
  "compute_capability_revision sha256 (c\<lparr>wc_capability_revision := r\<rparr>) = compute_capability_revision sha256 c"
  by (simp add: compute_capability_revision_def canonical_capability_def)


subsection \<open>An example worker\<close>

definition demo_pool :: memory_pool_capability where
  "demo_pool = \<lparr>mp_memory_pool_id = ''pool-0'', mp_model = SHARED, mp_total_bytes = 8\<rparr>"

definition demo_device :: "string \<Rightarrow> dev_kind \<Rightarrow> string list \<Rightarrow> device_capability" where
  "demo_device i k dtypes = \<lparr>dc_identity = \<lparr>di_device_id = i, di_kind = k, di_local_locator = ''0000:01''\<rparr>, dc_vendor = ''nvidia'',
     dc_model = ''orin'', dc_compute_capability = None, dc_memory_pool_id = Some ''pool-0'', dc_supported_dtypes = dtypes,
     dc_driver_version = None, dc_platform_tags = []\<rparr>"

definition demo_base :: "device_capability list \<Rightarrow> worker_capability" where
  "demo_base ds = \<lparr>wc_architecture = ''aarch64'', wc_os = \<lparr>os_name = ''linux'', os_version = None, os_kernel = None\<rparr>,
     wc_container_runtime = None, wc_network_interfaces = [], wc_devices = ds, wc_memory_pools = [demo_pool],
     wc_runtime_platforms = [], wc_capability_revision = []\<rparr>"

definition demo_hash :: "string \<Rightarrow> string" where
  "demo_hash s = CHR ''h'' # s"

definition demo_capability :: worker_capability where
  "demo_capability = (demo_base [demo_device ''gpu-0'' GPU [''fp16'']])
     \<lparr>wc_capability_revision := compute_capability_revision demo_hash (demo_base [demo_device ''gpu-0'' GPU [''fp16'']])\<rparr>"

definition demo_state :: worker_state where
  "demo_state = \<lparr>ws_worker_id = ''w'',
     ws_device_states = [\<lparr>dv_device_id = ''gpu-0'', dv_utilization = Some 50, dv_temperature_c = None, dv_power_w = None,
       dv_availability = AVAILABLE, dv_running_runtime_ids = []\<rparr>],
     ws_memory_states = [\<lparr>mps_memory_pool_id = ''pool-0'', mps_available_bytes = Some 4\<rparr>],
     ws_runtime_instances = [], ws_models = []\<rparr>"

definition demo_identity :: worker_identity where
  "demo_identity = \<lparr>wi_worker_id = ''w'', wi_hostname = ''host'', wi_agent_version = ''0.1'', wi_protocol_version = ''1''\<rparr>"

lemmas demo_worker_defs = demo_pool_def demo_device_def demo_base_def demo_capability_def demo_state_def demo_identity_def

lemma demo_capability_revision [simp]:
  "wc_capability_revision demo_capability = compute_capability_revision demo_hash demo_capability"
  "compute_capability_revision demo_hash c \<noteq> []"
  by (simp_all add: demo_capability_def compute_capability_revision_def [of _ c] demo_hash_def)

lemma demo_worker_ok [simp]:
  "check_worker_identity demo_identity = Inr ()" "check_worker_capability demo_capability = Inr ()"
  "check_worker_state demo_state = Inr ()" "validate_state_against_capability demo_state demo_capability = Inr ()"
  by (simp_all add: demo_worker_defs check_worker_identity_def check_worker_capability_def check_os_info_def check_device_capability_def
      check_device_identity_def check_memory_pool_def device_ids_def pool_ids_def check_worker_state_def check_device_state_def
      check_memory_pool_state_def negative_def validate_state_Inr non_empty_def)


subsection \<open>Properties\<close>

text \<open>[C15] The revision of a capability does not depend on the order in which the probes enumerate
  devices, memory pools, interfaces and runtime platforms, nor on the order of the addresses inside an
  interface and of the data types and tags inside a device, whatever the hash function; nor on the
  revision field itself.\<close>

theorem revision_ignores_order:
  assumes "same_capability a b"
  shows "compute_capability_revision sha256 a = compute_capability_revision sha256 b"
    using assms by (rule revision_same)

theorem revision_ignores_order_witness:
  "compute_capability_revision demo_hash (demo_base [demo_device ''gpu-0'' GPU [''fp16'', ''bf16''], demo_device ''cpu-0'' CPU []])
   = compute_capability_revision demo_hash (demo_base [demo_device ''cpu-0'' CPU [], demo_device ''gpu-0'' GPU [''bf16'', ''fp16'']])"
proof (rule revision_ignores_order)
  have "same_up_to_order same_device [demo_device ''gpu-0'' GPU [''fp16'', ''bf16''], demo_device ''cpu-0'' CPU []]
      [demo_device ''cpu-0'' CPU [], demo_device ''gpu-0'' GPU [''bf16'', ''fp16'']]"
    unfolding same_up_to_order_def
    by (rule exI [of _ "[demo_device ''gpu-0'' GPU [''bf16'', ''fp16''], demo_device ''cpu-0'' CPU []]"])
      (simp add: same_device_def demo_device_def add_mset_commute)
  then show "same_capability (demo_base [demo_device ''gpu-0'' GPU [''fp16'', ''bf16''], demo_device ''cpu-0'' CPU []])
      (demo_base [demo_device ''cpu-0'' CPU [], demo_device ''gpu-0'' GPU [''bf16'', ''fp16'']])"
    by (simp add: same_capability_def demo_base_def same_up_to_order_def)
qed

text \<open>[C16] Any other change of a capability changes its revision, for a hash without collisions: two
  capabilities with the same revision are equal up to the order of their unordered collections. The canonical
  text determines every field.\<close>

theorem revision_detects_change:
  assumes "\<And>s t. sha256 s = sha256 t \<Longrightarrow> s = t"
    and "compute_capability_revision sha256 a = compute_capability_revision sha256 b"
  shows "same_capability a b"
  using assms(2,1) by (rule revision_readback)

theorem revision_detects_change_witness:
  "compute_capability_revision demo_hash (demo_base [demo_device ''gpu-0'' GPU []])
   \<noteq> compute_capability_revision demo_hash (demo_base [demo_device ''gpu-1'' GPU []])"
proof
  assume "compute_capability_revision demo_hash (demo_base [demo_device ''gpu-0'' GPU []])
   = compute_capability_revision demo_hash (demo_base [demo_device ''gpu-1'' GPU []])"
  then have "same_capability (demo_base [demo_device ''gpu-0'' GPU []]) (demo_base [demo_device ''gpu-1'' GPU []])"
    by (rule revision_detects_change [rotated]) (simp add: demo_hash_def)
  then show False
    by (auto simp: same_capability_def demo_base_def same_up_to_order_def same_device_def demo_device_def list_all2_Cons1)
qed

end
