(* ===== verification/Control_Messages.thy ===== *)
theory Control_Messages
  imports Cluster
begin

section \<open>The messages of the worker control plane\<close>

text \<open>
  The domain requests and responses of \<^verbatim>\<open>protocol/control/mapper.py\<close>: a record per dataclass and a
  check per \<^verbatim>\<open>__post_init__\<close>. The check of a message includes the checks of the cluster objects it
  carries, since those are constructed first.
\<close>

definition CONTROL_PROTOCOL_VERSION :: string where
  "CONTROL_PROTOCOL_VERSION = ''1''"

datatype rejection_reason = UNKNOWN_WORKER | STALE_SESSION | INSTANCE_MISMATCH | OUT_OF_ORDER | REREGISTER_REQUIRED

definition absent_or_non_empty :: "string \<Rightarrow> string option \<Rightarrow> unit res" where
  "absent_or_non_empty what v = raise_if (v = Some []) (ValueError what)"

lemma absent_or_non_empty_Inr [simp, res_simps]: "absent_or_non_empty what v = Inr u \<longleftrightarrow> v \<noteq> Some []"
  by (simp add: absent_or_non_empty_def)

record register_request =
  rr_protocol_version :: string
  rr_instance_id :: string
  rr_identity :: worker_identity
  rr_capability :: worker_capability
  rr_initial_state :: worker_state
  rr_profiling_endpoint :: "string option"

definition check_register_request :: "register_request \<Rightarrow> unit res" where
  "check_register_request r =
     then_res (check_worker_identity (rr_identity r))
     (then_res (check_worker_capability (rr_capability r))
     (then_res (check_worker_state (rr_initial_state r))
     (then_res (raise_if (rr_protocol_version r \<noteq> CONTROL_PROTOCOL_VERSION)
                  (ControlProtocolError ''unsupported control protocol version''))
     (then_res (raise_if (wi_protocol_version (rr_identity r) \<noteq> rr_protocol_version r)
                  (ControlProtocolError ''identity protocol_version does not match''))
     (then_res (non_empty ''instance_id'' (rr_instance_id r))
     (then_res (raise_if (wi_worker_id (rr_identity r) \<noteq> ws_worker_id (rr_initial_state r))
                  (ValueError ''identity/state worker_id mismatch''))
     (absent_or_non_empty ''profiling_endpoint'' (rr_profiling_endpoint r))))))))"

record register_response =
  rp_session_id :: string
  rp_heartbeat_interval_ms :: int
  rp_server_protocol_version :: string

definition make_register_response :: "register_response \<Rightarrow> register_response res" where
  "make_register_response r =
     then_res (non_empty ''session_id'' (rp_session_id r))
     (then_res (raise_if (rp_heartbeat_interval_ms r \<le> 0) (ValueError ''heartbeat_interval_ms must be positive''))
     (then_res (raise_if (rp_server_protocol_version r \<noteq> CONTROL_PROTOCOL_VERSION)
                  (ControlProtocolError ''invalid registration response''))
     (Inr r)))"

record heartbeat_request =
  hb_worker_id :: string
  hb_instance_id :: string
  hb_session_id :: string
  hb_sequence_number :: int
  hb_capability_revision :: string
  hb_state :: worker_state
  hb_worker_reported_at :: "timestamp option"

definition check_heartbeat_request :: "heartbeat_request \<Rightarrow> unit res" where
  "check_heartbeat_request r =
     then_res (check_worker_state (hb_state r))
     (then_res (non_empty ''worker_id'' (hb_worker_id r))
     (then_res (non_empty ''instance_id'' (hb_instance_id r))
     (then_res (non_empty ''session_id'' (hb_session_id r))
     (then_res (raise_if (hb_sequence_number r < 1) (ValueError ''sequence_number must start at 1 and increase''))
     (then_res (non_empty ''capability_revision'' (hb_capability_revision r))
     (then_res (raise_if (hb_worker_id r \<noteq> ws_worker_id (hb_state r)) (ValueError ''heartbeat/state worker_id mismatch''))
     (case hb_worker_reported_at r of None \<Rightarrow> Inr () | Some t \<Rightarrow> require_aware t ''worker_reported_at'')))))))"

record verdict =
  vd_accepted :: bool
  vd_detail :: string
  vd_reason :: "rejection_reason option"

text \<open>\<^verbatim>\<open>HeartbeatResponse\<close> and \<^verbatim>\<open>UpdateCapabilityResponse\<close> have the same fields and the same rules.\<close>

definition make_verdict :: "string \<Rightarrow> verdict \<Rightarrow> verdict res" where
  "make_verdict what v =
     then_res (if \<not> vd_accepted v
               then then_res (raise_if (vd_detail v = []) (ValueError (what @ '' must carry a detail'')))
                      (raise_if (vd_reason v = None) (ValueError (what @ '' must carry a reason'')))
               else raise_if (vd_reason v \<noteq> None) (ValueError (what @ '' must not carry a reason'')))
     (Inr v)"

record update_request =
  uc_worker_id :: string
  uc_instance_id :: string
  uc_session_id :: string
  uc_capability :: worker_capability
  uc_state :: worker_state

definition check_update_request :: "update_request \<Rightarrow> unit res" where
  "check_update_request r =
     then_res (check_worker_capability (uc_capability r))
     (then_res (check_worker_state (uc_state r))
     (then_res (non_empty ''worker_id'' (uc_worker_id r))
     (then_res (non_empty ''instance_id'' (uc_instance_id r))
     (then_res (non_empty ''session_id'' (uc_session_id r))
     (raise_if (uc_worker_id r \<noteq> ws_worker_id (uc_state r)) (ValueError ''capability update/state worker_id mismatch''))))))"

lemma make_verdict_accepted [simp]: "make_verdict what \<lparr>vd_accepted = True, vd_detail = d, vd_reason = None\<rparr>
    = Inr \<lparr>vd_accepted = True, vd_detail = d, vd_reason = None\<rparr>"
  by (simp add: make_verdict_def)

lemma make_verdict_rejected [simp]: "d \<noteq> [] \<Longrightarrow> make_verdict what \<lparr>vd_accepted = False, vd_detail = d, vd_reason = Some r\<rparr>
    = Inr \<lparr>vd_accepted = False, vd_detail = d, vd_reason = Some r\<rparr>"
  by (simp add: make_verdict_def)

end
