(* ===== verification/Master_Service.thy ===== *)
theory Master_Service
  imports Control_Messages "HOL-Library.AList"
begin

section \<open>The Master of the worker control plane\<close>

text \<open>
  \<^verbatim>\<open>control/master\<close>: \<^verbatim>\<open>config.py\<close>, \<^verbatim>\<open>registry.py\<close>, \<^verbatim>\<open>sessions.py\<close>, \<^verbatim>\<open>state_store.py\<close>,
  \<^verbatim>\<open>liveness.py\<close>, \<^verbatim>\<open>snapshot.py\<close> and \<^verbatim>\<open>service.py\<close>. The four stateful components are the fields of one
  record; a Python dict is an association list updated by \<^const>\<open>AList.update\<close>, which keeps insertion
  order. A handler returns the Master it leaves and its reply or exception.

  The clocks and the identifier factories a call reads (\<^verbatim>\<open>time.monotonic\<close>, \<^verbatim>\<open>datetime.now(UTC)\<close>,
  \<^verbatim>\<open>uuid4\<close>) are the record \<open>call_env\<close>, an argument of the call. Seconds are rationals.
\<close>


subsection \<open>Configuration\<close>

record master_config =
  mc_heartbeat_interval_ms :: int
  mc_suspect_after_ms :: int
  mc_offline_after_ms :: int
  mc_liveness_tick_ms :: int

definition check_master_config :: "master_config \<Rightarrow> unit res" where
  "check_master_config c =
     then_res (raise_if (mc_heartbeat_interval_ms c \<le> 0) (ValueError ''heartbeat_interval_ms must be positive''))
     (then_res (raise_if (mc_suspect_after_ms c \<le> 0) (ValueError ''suspect_after_ms must be positive''))
     (then_res (raise_if (mc_offline_after_ms c \<le> mc_suspect_after_ms c)
                  (ValueError ''offline_after_ms must be greater than suspect_after_ms''))
     (then_res (raise_if (mc_liveness_tick_ms c \<le> 0) (ValueError ''liveness_tick_ms must be positive''))
     (raise_if (mc_suspect_after_ms c < mc_heartbeat_interval_ms c)
                  (ValueError ''suspect_after_ms must be at least one heartbeat interval'')))))"

record call_env =
  ce_monotonic :: rat
  ce_wall :: timestamp
  ce_fresh :: string

record worker_record =
  wr_identity :: worker_identity
  wr_capability :: worker_capability
  wr_profiling_endpoint :: "string option"

record session_info =
  si_worker_id :: string
  si_instance_id :: string
  si_session_id :: string
  si_last_accepted_sequence :: int

record stored_state =
  ss_state :: worker_state
  ss_received_monotonic :: rat
  ss_received_wall :: timestamp

record master =
  ms_config :: master_config
  ms_registry :: "(string \<times> worker_record) list"
  ms_sessions :: "(string \<times> session_info) list"
  ms_states :: "(string \<times> stored_state) list"
  ms_last_logged :: "(string \<times> worker_status) list"

definition master_init :: "master_config \<Rightarrow> master" where
  "master_init c = \<lparr>ms_config = c, ms_registry = [], ms_sessions = [], ms_states = [], ms_last_logged = []\<rparr>"


subsection \<open>Registry\<close>

definition check_worker_record :: "worker_record \<Rightarrow> unit res" where
  "check_worker_record r =
     then_res (non_empty ''worker_id'' (wi_worker_id (wr_identity r)))
       (absent_or_non_empty ''profiling_endpoint'' (wr_profiling_endpoint r))"

definition registry_upsert :: "worker_identity \<Rightarrow> worker_capability \<Rightarrow> string option \<Rightarrow> master \<Rightarrow> master \<times> worker_record res" where
  "registry_upsert i c e m =
     (let r = \<lparr>wr_identity = i, wr_capability = c, wr_profiling_endpoint = e\<rparr> in
      case check_worker_record r of Inl x \<Rightarrow> (m, Inl x)
      | Inr _ \<Rightarrow> (m\<lparr>ms_registry := AList.update (wi_worker_id i) r (ms_registry m)\<rparr>, Inr r))"

definition registry_get :: "string \<Rightarrow> master \<Rightarrow> worker_record res" where
  "registry_get w m = (case map_of (ms_registry m) w of None \<Rightarrow> Inl (KeyError w) | Some r \<Rightarrow> Inr r)"

definition list_workers :: "master \<Rightarrow> worker_record list" where
  "list_workers m = map (\<lambda>k. the (map_of (ms_registry m) k)) (sort (map fst (ms_registry m)))"


subsection \<open>Sessions\<close>

record rejection =
  rj_reason :: rejection_reason
  rj_detail :: string

definition check_session_info :: "session_info \<Rightarrow> unit res" where
  "check_session_info s =
     then_res (non_empty ''worker_id'' (si_worker_id s))
     (then_res (non_empty ''instance_id'' (si_instance_id s))
     (then_res (non_empty ''session_id'' (si_session_id s))
     (raise_if (si_last_accepted_sequence s < 0) (ValueError ''last_accepted_sequence must not be negative''))))"

definition open_session :: "string \<Rightarrow> string \<Rightarrow> string \<Rightarrow> master \<Rightarrow> master \<times> session_info res" where
  "open_session w i fresh m =
     (let s = \<lparr>si_worker_id = w, si_instance_id = i, si_session_id = fresh, si_last_accepted_sequence = 0\<rparr> in
      case check_session_info s of Inl x \<Rightarrow> (m, Inl x)
      | Inr _ \<Rightarrow> (m\<lparr>ms_sessions := AList.update w s (ms_sessions m)\<rparr>, Inr s))"

definition check_heartbeat :: "string \<Rightarrow> string \<Rightarrow> string \<Rightarrow> int \<Rightarrow> master \<Rightarrow> rejection option" where
  "check_heartbeat w i sid n m =
     (case map_of (ms_sessions m) w of
        None \<Rightarrow> Some \<lparr>rj_reason = UNKNOWN_WORKER, rj_detail = ''unknown worker''\<rparr>
      | Some s \<Rightarrow>
          if si_session_id s \<noteq> sid then Some \<lparr>rj_reason = STALE_SESSION, rj_detail = ''stale session''\<rparr>
          else if si_instance_id s \<noteq> i then Some \<lparr>rj_reason = INSTANCE_MISMATCH, rj_detail = ''instance mismatch''\<rparr>
          else if n \<le> si_last_accepted_sequence s then Some \<lparr>rj_reason = OUT_OF_ORDER, rj_detail = ''out-of-order heartbeat''\<rparr>
          else None)"

definition check_session :: "string \<Rightarrow> string \<Rightarrow> string \<Rightarrow> master \<Rightarrow> rejection option" where
  "check_session w i sid m =
     (case map_of (ms_sessions m) w of
        None \<Rightarrow> Some \<lparr>rj_reason = UNKNOWN_WORKER, rj_detail = ''unknown worker''\<rparr>
      | Some s \<Rightarrow>
          if si_session_id s \<noteq> sid then Some \<lparr>rj_reason = STALE_SESSION, rj_detail = ''stale session''\<rparr>
          else if si_instance_id s \<noteq> i then Some \<lparr>rj_reason = INSTANCE_MISMATCH, rj_detail = ''instance mismatch''\<rparr>
          else None)"

definition record_accepted_sequence :: "string \<Rightarrow> int \<Rightarrow> master \<Rightarrow> master \<times> unit res" where
  "record_accepted_sequence w n m =
     (case map_of (ms_sessions m) w of
        None \<Rightarrow> (m, Inl (KeyError w))
      | Some s \<Rightarrow>
          if n \<le> si_last_accepted_sequence s then (m, Inl (ValueError ''sequence does not advance last accepted''))
          else (m\<lparr>ms_sessions := AList.update w (s\<lparr>si_last_accepted_sequence := n\<rparr>) (ms_sessions m)\<rparr>, Inr ()))"


subsection \<open>State store\<close>

definition states_record :: "string \<Rightarrow> worker_state \<Rightarrow> call_env \<Rightarrow> master \<Rightarrow> master \<times> stored_state res" where
  "states_record w st env m =
     (if ws_worker_id st \<noteq> w then (m, Inl (ValueError ''state worker_id mismatch''))
      else (let e = \<lparr>ss_state = st, ss_received_monotonic = ce_monotonic env, ss_received_wall = ce_wall env\<rparr> in
        case require_aware (ce_wall env) ''received_wall'' of Inl x \<Rightarrow> (m, Inl x)
        | Inr _ \<Rightarrow> (m\<lparr>ms_states := AList.update w e (ms_states m)\<rparr>, Inr e)))"


subsection \<open>Liveness\<close>

definition classify :: "master_config \<Rightarrow> rat \<Rightarrow> worker_status" where
  "classify c elapsed =
     (if elapsed * 1000 \<le> of_int (mc_suspect_after_ms c) then ONLINE
      else if elapsed * 1000 \<le> of_int (mc_offline_after_ms c) then SUSPECT
      else OFFLINE)"

definition status_at :: "string \<Rightarrow> rat \<Rightarrow> master \<Rightarrow> worker_status res" where
  "status_at w now m =
     (case map_of (ms_states m) w of None \<Rightarrow> Inl (KeyError w)
      | Some e \<Rightarrow> Inr (classify (ms_config m) (now - ss_received_monotonic e)))"

definition statuses_at :: "rat \<Rightarrow> master \<Rightarrow> (string \<times> worker_status) list" where
  "statuses_at now m = map (\<lambda>(w, e). (w, classify (ms_config m) (now - ss_received_monotonic e))) (sort_key fst (ms_states m))"

datatype log_level = WARNING | INFO

text \<open>The lines the tick logs: the level, the worker and its new status.\<close>

fun log_transitions :: "(string \<times> worker_status) list \<Rightarrow> (string \<times> worker_status) list
    \<Rightarrow> (string \<times> worker_status) list \<times> (log_level \<times> string \<times> worker_status) list" where
  "log_transitions [] logged = (logged, [])"
| "log_transitions ((w, s) # r) logged =
     (if map_of logged w = Some s then log_transitions r logged
      else (let (logged', lines) = log_transitions r (AList.update w s logged)
            in (logged', (if s = SUSPECT then WARNING else INFO, w, s) # lines)))"

definition evaluate :: "rat \<Rightarrow> master \<Rightarrow> master \<times> (log_level \<times> string \<times> worker_status) list" where
  "evaluate now m = (let (logged, lines) = log_transitions (statuses_at now m) (ms_last_logged m)
                     in (m\<lparr>ms_last_logged := logged\<rparr>, lines))"


subsection \<open>Snapshots\<close>

definition build_worker :: "worker_record \<Rightarrow> rat \<Rightarrow> master \<Rightarrow> worker_snapshot res" where
  "build_worker r now m =
     (let w = wi_worker_id (wr_identity r) in
      case map_of (ms_states m) w of None \<Rightarrow> Inl (ValueError ''registry worker has no stored state'')
      | Some e \<Rightarrow> bind_res (status_at w now m) (\<lambda>status.
          make_worker_snapshot \<lparr>sn_identity = wr_identity r, sn_capability = wr_capability r, sn_state = ss_state e,
            sn_status = status, sn_session_id = map_option si_session_id (map_of (ms_sessions m) w),
            sn_last_seen_at = Some (ss_received_wall e)\<rparr>))"

definition build_snapshot :: "call_env \<Rightarrow> master \<Rightarrow> cluster_snapshot res" where
  "build_snapshot env m =
     bind_res (traverse_res (\<lambda>r. build_worker r (ce_monotonic env) m) (list_workers m)) (\<lambda>ws.
       make_cluster_snapshot \<lparr>cs_snapshot_id = ce_fresh env, cs_created_at = ce_wall env, cs_workers = ws\<rparr>)"


subsection \<open>The service\<close>

definition check_capability_revision :: "(string \<Rightarrow> string) \<Rightarrow> worker_capability \<Rightarrow> unit res" where
  "check_capability_revision sha256 c =
     raise_if (wc_capability_revision c \<noteq> compute_capability_revision sha256 c)
       (ControlProtocolError ''capability_revision mismatch'')"

definition check_state_consistency :: "worker_state \<Rightarrow> worker_capability \<Rightarrow> unit res" where
  "check_state_consistency s c =
     (case validate_state_against_capability s c of
        Inl (ValueError x) \<Rightarrow> Inl (ControlProtocolError ''state/capability mismatch'')
      | r \<Rightarrow> r)"

definition register_worker :: "(string \<Rightarrow> string) \<Rightarrow> call_env \<Rightarrow> register_request \<Rightarrow> master \<Rightarrow> master \<times> register_response res" where
  "register_worker sha256 env req m =
     bind_st (lift_st (then_res (check_capability_revision sha256 (rr_capability req))
                         (check_state_consistency (rr_initial_state req) (rr_capability req))) m) (\<lambda>_ m.
     bind_st (registry_upsert (rr_identity req) (rr_capability req) (rr_profiling_endpoint req) m) (\<lambda>_ m.
     bind_st (open_session (wi_worker_id (rr_identity req)) (rr_instance_id req) (ce_fresh env) m) (\<lambda>session m.
     bind_st (states_record (wi_worker_id (rr_identity req)) (rr_initial_state req) env m) (\<lambda>_ m.
       lift_st (make_register_response \<lparr>rp_session_id = si_session_id session,
         rp_heartbeat_interval_ms = mc_heartbeat_interval_ms (ms_config m),
         rp_server_protocol_version = CONTROL_PROTOCOL_VERSION\<rparr>) m))))"

definition check_heartbeat_revision :: "heartbeat_request \<Rightarrow> master \<Rightarrow> rejection option" where
  "check_heartbeat_revision req m =
     (case map_of (ms_registry m) (hb_worker_id req) of
        None \<Rightarrow> Some \<lparr>rj_reason = UNKNOWN_WORKER, rj_detail = ''unknown worker''\<rparr>
      | Some r \<Rightarrow>
          if wc_capability_revision (wr_capability r) \<noteq> hb_capability_revision req
          then Some \<lparr>rj_reason = REREGISTER_REQUIRED, rj_detail = ''capability revision mismatch''\<rparr>
          else None)"

definition heartbeat :: "call_env \<Rightarrow> heartbeat_request \<Rightarrow> master \<Rightarrow> master \<times> verdict res" where
  "heartbeat env req m =
     (let r1 = check_heartbeat (hb_worker_id req) (hb_instance_id req) (hb_session_id req) (hb_sequence_number req) m;
          r2 = (case r1 of None \<Rightarrow> check_heartbeat_revision req m | Some _ \<Rightarrow> r1)
      in case r2 of
        Some rj \<Rightarrow> (m, make_verdict ''a rejected heartbeat''
                        \<lparr>vd_accepted = False, vd_detail = rj_detail rj, vd_reason = Some (rj_reason rj)\<rparr>)
      | None \<Rightarrow>
          bind_st (lift_st (registry_get (hb_worker_id req) m) m) (\<lambda>record m.
          bind_st (lift_st (check_state_consistency (hb_state req) (wr_capability record)) m) (\<lambda>_ m.
          bind_st (record_accepted_sequence (hb_worker_id req) (hb_sequence_number req) m) (\<lambda>_ m.
          bind_st (states_record (hb_worker_id req) (hb_state req) env m) (\<lambda>_ m.
            lift_st (make_verdict ''an accepted heartbeat'' \<lparr>vd_accepted = True, vd_detail = [], vd_reason = None\<rparr>) m)))))"

definition update_capability :: "(string \<Rightarrow> string) \<Rightarrow> call_env \<Rightarrow> update_request \<Rightarrow> master \<Rightarrow> master \<times> verdict res" where
  "update_capability sha256 env req m =
     (case check_session (uc_worker_id req) (uc_instance_id req) (uc_session_id req) m of
        Some rj \<Rightarrow> (m, make_verdict ''a rejected capability update''
                        \<lparr>vd_accepted = False, vd_detail = rj_detail rj, vd_reason = Some (rj_reason rj)\<rparr>)
      | None \<Rightarrow>
          bind_st (lift_st (then_res (check_capability_revision sha256 (uc_capability req))
                              (check_state_consistency (uc_state req) (uc_capability req))) m) (\<lambda>_ m.
          bind_st (lift_st (registry_get (uc_worker_id req) m) m) (\<lambda>record m.
          bind_st (registry_upsert (wr_identity record) (uc_capability req) (wr_profiling_endpoint record) m) (\<lambda>_ m.
          bind_st (states_record (uc_worker_id req) (uc_state req) env m) (\<lambda>_ m.
            lift_st (make_verdict ''an accepted capability update'' \<lparr>vd_accepted = True, vd_detail = [], vd_reason = None\<rparr>) m)))))"


subsection \<open>Calls on the Master\<close>

datatype call = Register register_request | Heartbeat heartbeat_request | Update update_request | Tick

datatype reply = Registered register_response | Verdict verdict | Logged "(log_level \<times> string \<times> worker_status) list"

text \<open>The transport constructs the request object before it calls the handler, so a request that
  reaches the service satisfies its checks. Every handler runs without awaiting: calls do not
  interleave.\<close>

fun call_ok :: "call \<Rightarrow> bool" where
  "call_ok (Register r) = (check_register_request r = Inr ())"
| "call_ok (Heartbeat r) = (check_heartbeat_request r = Inr ())"
| "call_ok (Update r) = (check_update_request r = Inr ())"
| "call_ok Tick = True"

fun handle :: "(string \<Rightarrow> string) \<Rightarrow> call_env \<Rightarrow> call \<Rightarrow> master \<Rightarrow> master \<times> reply res" where
  "handle sha256 env (Register r) m = (let (m', v) = register_worker sha256 env r m in (m', map_res Registered v))"
| "handle sha256 env (Heartbeat r) m = (let (m', v) = heartbeat env r m in (m', map_res Verdict v))"
| "handle sha256 env (Update r) m = (let (m', v) = update_capability sha256 env r m in (m', map_res Verdict v))"
| "handle sha256 env Tick m = (let (m', ls) = evaluate (ce_monotonic env) m in (m', Inr (Logged ls)))"

definition env_ok :: "call_env \<Rightarrow> bool" where
  "env_ok env \<longleftrightarrow> ts_aware (ce_wall env) \<and> ce_fresh env \<noteq> []"

inductive reachable :: "(string \<Rightarrow> string) \<Rightarrow> master \<Rightarrow> bool" for sha256 where
  start: "check_master_config c = Inr () \<Longrightarrow> reachable sha256 (master_init c)"
| step: "\<lbrakk>reachable sha256 m; call_ok c; env_ok env\<rbrakk> \<Longrightarrow> reachable sha256 (fst (handle sha256 env c m))"

inductive_cases reachable_elim: "reachable sha256 m"


subsection \<open>The effect of a call\<close>

text \<open>What is stored for a worker: its record, its session and its state agree with each other.\<close>

definition entry_ok :: "(string \<Rightarrow> string) \<Rightarrow> string \<Rightarrow> worker_record \<Rightarrow> session_info \<Rightarrow> stored_state \<Rightarrow> bool" where
  "entry_ok sha256 w r s e \<longleftrightarrow>
     w \<noteq> [] \<and> wi_worker_id (wr_identity r) = w \<and> wi_hostname (wr_identity r) \<noteq> [] \<and> wr_profiling_endpoint r \<noteq> Some []
     \<and> wc_capability_revision (wr_capability r) = compute_capability_revision sha256 (wr_capability r)
     \<and> check_worker_capability (wr_capability r) = Inr ()
     \<and> si_worker_id s = w \<and> si_session_id s \<noteq> [] \<and> si_instance_id s \<noteq> [] \<and> 0 \<le> si_last_accepted_sequence s
     \<and> ws_worker_id (ss_state e) = w \<and> ts_aware (ss_received_wall e)
     \<and> validate_state_against_capability (ss_state e) (wr_capability r) = Inr ()"

definition master_ok :: "(string \<Rightarrow> string) \<Rightarrow> master \<Rightarrow> bool" where
  "master_ok sha256 m \<longleftrightarrow>
     check_master_config (ms_config m) = Inr ()
     \<and> distinct (map fst (ms_registry m)) \<and> distinct (map fst (ms_sessions m)) \<and> distinct (map fst (ms_states m))
     \<and> dom (map_of (ms_sessions m)) = dom (map_of (ms_registry m))
     \<and> dom (map_of (ms_states m)) = dom (map_of (ms_registry m))
     \<and> (\<forall>w r s e. map_of (ms_registry m) w = Some r \<longrightarrow> map_of (ms_sessions m) w = Some s
          \<longrightarrow> map_of (ms_states m) w = Some e \<longrightarrow> entry_ok sha256 w r s e)"

lemma master_okD:
  assumes "master_ok sha256 m" and "map_of (ms_registry m) w = Some r"
  obtains s e where "map_of (ms_sessions m) w = Some s" "map_of (ms_states m) w = Some e" "entry_ok sha256 w r s e"
  using assms unfolding master_ok_def by (metis domD domI)

lemma master_ok_session:
  assumes "master_ok sha256 m" and "map_of (ms_sessions m) w = Some s"
  obtains r e where "map_of (ms_registry m) w = Some r" "map_of (ms_states m) w = Some e" "entry_ok sha256 w r s e"
  using assms unfolding master_ok_def by (metis domD domI)

lemma check_state_consistency_Inr [simp, res_simps]:
  "check_state_consistency s c = Inr u \<longleftrightarrow> validate_state_against_capability s c = Inr u"
  by (simp add: check_state_consistency_def split: sum.splits exn.splits)

lemma require_aware_Inr [simp, res_simps]: "require_aware t f = Inr u \<longleftrightarrow> ts_aware t"
  by (simp add: require_aware_def)

definition stored_now :: "worker_state \<Rightarrow> call_env \<Rightarrow> stored_state" where
  "stored_now st env = \<lparr>ss_state = st, ss_received_monotonic = ce_monotonic env, ss_received_wall = ce_wall env\<rparr>"

lemma states_record_ok: "\<lbrakk>ws_worker_id st = w; env_ok env\<rbrakk> \<Longrightarrow>
    states_record w st env m = (m\<lparr>ms_states := AList.update w (stored_now st env) (ms_states m)\<rparr>, Inr (stored_now st env))"
  by (auto simp: states_record_def stored_now_def env_ok_def require_aware_def Let_def)

lemma open_session_ok: "\<lbrakk>w \<noteq> []; i \<noteq> []; f \<noteq> []\<rbrakk> \<Longrightarrow> open_session w i f m =
    (m\<lparr>ms_sessions := AList.update w \<lparr>si_worker_id = w, si_instance_id = i, si_session_id = f, si_last_accepted_sequence = 0\<rparr>
        (ms_sessions m)\<rparr>,
     Inr \<lparr>si_worker_id = w, si_instance_id = i, si_session_id = f, si_last_accepted_sequence = 0\<rparr>)"
  by (simp add: open_session_def check_session_info_def non_empty_def Let_def)

lemma registry_upsert_ok: "\<lbrakk>wi_worker_id i \<noteq> []; e \<noteq> Some []\<rbrakk> \<Longrightarrow> registry_upsert i c e m =
    (m\<lparr>ms_registry := AList.update (wi_worker_id i) \<lparr>wr_identity = i, wr_capability = c, wr_profiling_endpoint = e\<rparr> (ms_registry m)\<rparr>,
     Inr \<lparr>wr_identity = i, wr_capability = c, wr_profiling_endpoint = e\<rparr>)"
  by (simp add: registry_upsert_def check_worker_record_def non_empty_def absent_or_non_empty_def Let_def)

definition registered :: "call_env \<Rightarrow> register_request \<Rightarrow> master \<Rightarrow> master" where
  "registered env req m = (let w = wi_worker_id (rr_identity req) in
     m\<lparr>ms_registry := AList.update w \<lparr>wr_identity = rr_identity req, wr_capability = rr_capability req,
           wr_profiling_endpoint = rr_profiling_endpoint req\<rparr> (ms_registry m),
       ms_sessions := AList.update w \<lparr>si_worker_id = w, si_instance_id = rr_instance_id req,
           si_session_id = ce_fresh env, si_last_accepted_sequence = 0\<rparr> (ms_sessions m),
       ms_states := AList.update w (stored_now (rr_initial_state req) env) (ms_states m)\<rparr>)"

definition beaten :: "call_env \<Rightarrow> heartbeat_request \<Rightarrow> session_info \<Rightarrow> master \<Rightarrow> master" where
  "beaten env req s m = m\<lparr>ms_sessions := AList.update (hb_worker_id req)
         (s\<lparr>si_last_accepted_sequence := hb_sequence_number req\<rparr>) (ms_sessions m),
       ms_states := AList.update (hb_worker_id req) (stored_now (hb_state req) env) (ms_states m)\<rparr>"

definition updated :: "call_env \<Rightarrow> update_request \<Rightarrow> worker_record \<Rightarrow> master \<Rightarrow> master" where
  "updated env req r m = m\<lparr>ms_registry := AList.update (uc_worker_id req) (r\<lparr>wr_capability := uc_capability req\<rparr>) (ms_registry m),
       ms_states := AList.update (uc_worker_id req) (stored_now (uc_state req) env) (ms_states m)\<rparr>"

definition register_admits :: "(string \<Rightarrow> string) \<Rightarrow> register_request \<Rightarrow> bool" where
  "register_admits sha256 req \<longleftrightarrow>
     wc_capability_revision (rr_capability req) = compute_capability_revision sha256 (rr_capability req)
     \<and> validate_state_against_capability (rr_initial_state req) (rr_capability req) = Inr ()"

lemma register_worker_admitted:
  assumes "check_register_request req = Inr ()" "env_ok env" "check_master_config (ms_config m) = Inr ()"
    and "register_admits sha256 req"
  shows "register_worker sha256 env req m = (registered env req m,
     Inr \<lparr>rp_session_id = ce_fresh env, rp_heartbeat_interval_ms = mc_heartbeat_interval_ms (ms_config m),
          rp_server_protocol_version = CONTROL_PROTOCOL_VERSION\<rparr>)"
proof -
  have rq: "wi_worker_id (rr_identity req) \<noteq> []" "rr_instance_id req \<noteq> []" "rr_profiling_endpoint req \<noteq> Some []"
    "ws_worker_id (rr_initial_state req) = wi_worker_id (rr_identity req)"
    using assms(1) by (auto simp: check_register_request_def check_worker_identity_def)
  have cons: "check_capability_revision sha256 (rr_capability req) = Inr ()"
    "check_state_consistency (rr_initial_state req) (rr_capability req) = Inr ()"
    using assms(4) by (auto simp: register_admits_def check_capability_revision_def)
  have env: "ce_fresh env \<noteq> []" using assms(2) by (simp add: env_ok_def)
  have "mc_heartbeat_interval_ms (ms_config m) > 0"
    using assms(3) by (simp add: check_master_config_def)
  then show ?thesis
    by (simp add: register_worker_def cons registry_upsert_ok rq open_session_ok env states_record_ok assms(2)
        lift_st_def make_register_response_def non_empty_def registered_def Let_def)
qed

lemma register_worker_refused:
  assumes "\<not> register_admits sha256 req"
  obtains e where "register_worker sha256 env req m = (m, Inl e)"
proof -
  from assms obtain e where "then_res (check_capability_revision sha256 (rr_capability req))
      (check_state_consistency (rr_initial_state req) (rr_capability req)) = Inl e"
    by (cases "then_res (check_capability_revision sha256 (rr_capability req))
      (check_state_consistency (rr_initial_state req) (rr_capability req))")
      (auto simp: register_admits_def check_capability_revision_def)
  then show thesis by (intro that [of e]) (simp add: register_worker_def)
qed

text \<open>When the service accepts a heartbeat: the four conditions of the session check, the revision the
  Master stores, and a state whose references resolve.\<close>

definition heartbeat_admits :: "heartbeat_request \<Rightarrow> session_info \<Rightarrow> worker_record \<Rightarrow> bool" where
  "heartbeat_admits req s r \<longleftrightarrow>
     si_session_id s = hb_session_id req \<and> si_instance_id s = hb_instance_id req
     \<and> si_last_accepted_sequence s < hb_sequence_number req
     \<and> wc_capability_revision (wr_capability r) = hb_capability_revision req
     \<and> validate_state_against_capability (hb_state req) (wr_capability r) = Inr ()"

lemma heartbeat_accepted:
  assumes "ws_worker_id (hb_state req) = hb_worker_id req" "env_ok env"
    and "map_of (ms_sessions m) (hb_worker_id req) = Some s" "map_of (ms_registry m) (hb_worker_id req) = Some r"
    and "heartbeat_admits req s r"
  shows "heartbeat env req m = (beaten env req s m, Inr \<lparr>vd_accepted = True, vd_detail = [], vd_reason = None\<rparr>)"
proof -
  have cons: "check_state_consistency (hb_state req) (wr_capability r) = Inr ()" using assms(5) by (simp add: heartbeat_admits_def)
  from assms show ?thesis
    by (simp add: cons heartbeat_def check_heartbeat_def check_heartbeat_revision_def heartbeat_admits_def Let_def registry_get_def
        record_accepted_sequence_def states_record_ok lift_st_def beaten_def)
qed

definition heartbeat_rejection :: "heartbeat_request \<Rightarrow> master \<Rightarrow> rejection option" where
  "heartbeat_rejection req m =
     (case check_heartbeat (hb_worker_id req) (hb_instance_id req) (hb_session_id req) (hb_sequence_number req) m of
        None \<Rightarrow> check_heartbeat_revision req m | Some rj \<Rightarrow> Some rj)"

lemma heartbeat_rejected:
  assumes "heartbeat_rejection req m = Some rj"
  shows "heartbeat env req m = (m, Inr \<lparr>vd_accepted = False, vd_detail = rj_detail rj, vd_reason = Some (rj_reason rj)\<rparr>)"
proof -
  have "rj_detail rj \<noteq> []"
    using assms by (auto simp: heartbeat_rejection_def check_heartbeat_def check_heartbeat_revision_def split: option.splits if_splits)
  with assms show ?thesis
    by (auto simp: heartbeat_def heartbeat_rejection_def Let_def split: option.splits)
qed

lemma heartbeat_rejection_None:
  "heartbeat_rejection req m = None \<longleftrightarrow> (\<exists>s r. map_of (ms_sessions m) (hb_worker_id req) = Some s
     \<and> map_of (ms_registry m) (hb_worker_id req) = Some r \<and> si_session_id s = hb_session_id req
     \<and> si_instance_id s = hb_instance_id req \<and> si_last_accepted_sequence s < hb_sequence_number req
     \<and> wc_capability_revision (wr_capability r) = hb_capability_revision req)"
  by (auto simp: heartbeat_rejection_def check_heartbeat_def check_heartbeat_revision_def split: option.splits)

lemma heartbeat_dangling:
  assumes "heartbeat_rejection req m = None" "map_of (ms_registry m) (hb_worker_id req) = Some r"
    and "validate_state_against_capability (hb_state req) (wr_capability r) \<noteq> Inr ()"
  obtains e where "heartbeat env req m = (m, Inl e)"
proof -
  obtain e where "check_state_consistency (hb_state req) (wr_capability r) = Inl e"
    using assms(3) by (cases "check_state_consistency (hb_state req) (wr_capability r)") auto
  with assms(1,2) show thesis
    by (intro that [of e]) (auto simp: heartbeat_def heartbeat_rejection_def Let_def registry_get_def split: option.splits)
qed

lemma heartbeat_not_accepted:
  assumes "\<And>s r. \<lbrakk>map_of (ms_sessions m) (hb_worker_id req) = Some s; map_of (ms_registry m) (hb_worker_id req) = Some r\<rbrakk>
      \<Longrightarrow> \<not> heartbeat_admits req s r"
  obtains v where "heartbeat env req m = (m, v)" "\<And>u. v = Inr u \<Longrightarrow> \<not> vd_accepted u"
proof (cases "heartbeat_rejection req m")
  case None
  then obtain s r where sr: "map_of (ms_sessions m) (hb_worker_id req) = Some s" "map_of (ms_registry m) (hb_worker_id req) = Some r"
    "si_session_id s = hb_session_id req" "si_instance_id s = hb_instance_id req"
    "si_last_accepted_sequence s < hb_sequence_number req" "wc_capability_revision (wr_capability r) = hb_capability_revision req"
    by (auto simp: heartbeat_rejection_None)
  with assms have "validate_state_against_capability (hb_state req) (wr_capability r) \<noteq> Inr ()"
    by (auto simp: heartbeat_admits_def)
  with None sr(2) obtain e where "heartbeat env req m = (m, Inl e)" by (rule heartbeat_dangling)
  then show thesis by (intro that [of "Inl e"]) auto
next
  case (Some rj)
  from heartbeat_rejected [OF this] show thesis by (rule that) auto
qed

definition update_admits :: "(string \<Rightarrow> string) \<Rightarrow> update_request \<Rightarrow> session_info \<Rightarrow> bool" where
  "update_admits sha256 req s \<longleftrightarrow>
     si_session_id s = uc_session_id req \<and> si_instance_id s = uc_instance_id req
     \<and> wc_capability_revision (uc_capability req) = compute_capability_revision sha256 (uc_capability req)
     \<and> validate_state_against_capability (uc_state req) (uc_capability req) = Inr ()"

lemma update_capability_accepted:
  assumes "ws_worker_id (uc_state req) = uc_worker_id req" "env_ok env"
    and "map_of (ms_sessions m) (uc_worker_id req) = Some s" "map_of (ms_registry m) (uc_worker_id req) = Some r"
    and "wi_worker_id (wr_identity r) = uc_worker_id req" "uc_worker_id req \<noteq> []" "wr_profiling_endpoint r \<noteq> Some []"
    and "update_admits sha256 req s"
  shows "update_capability sha256 env req m = (updated env req r m, Inr \<lparr>vd_accepted = True, vd_detail = [], vd_reason = None\<rparr>)"
proof -
  have cons: "check_capability_revision sha256 (uc_capability req) = Inr ()"
    "check_state_consistency (uc_state req) (uc_capability req) = Inr ()"
    using assms(8) by (auto simp: update_admits_def check_capability_revision_def)
  show ?thesis
    using assms(1-8)
    by (cases r) (simp add: update_capability_def check_session_def update_admits_def cons registry_get_def registry_upsert_ok
        states_record_ok lift_st_def updated_def)
qed

lemma update_capability_not_accepted:
  assumes "\<And>s. map_of (ms_sessions m) (uc_worker_id req) = Some s \<Longrightarrow> \<not> update_admits sha256 req s"
  obtains v where "update_capability sha256 env req m = (m, v)" "\<And>u. v = Inr u \<Longrightarrow> \<not> vd_accepted u"
proof (cases "map_of (ms_sessions m) (uc_worker_id req)")
  case None
  then show thesis by (intro that) (auto simp: update_capability_def check_session_def)
next
  case (Some s)
  with assms have na: "\<not> update_admits sha256 req s" by blast
  show thesis
  proof (cases "check_session (uc_worker_id req) (uc_instance_id req) (uc_session_id req) m")
    case None
    with na Some obtain e where "then_res (check_capability_revision sha256 (uc_capability req))
        (check_state_consistency (uc_state req) (uc_capability req)) = Inl e"
      by (cases "then_res (check_capability_revision sha256 (uc_capability req))
        (check_state_consistency (uc_state req) (uc_capability req))")
        (auto simp: update_admits_def check_capability_revision_def check_session_def split: if_splits)
    with None show thesis by (intro that) (auto simp: update_capability_def)
  next
    case (Some rj)
    then have "rj_detail rj \<noteq> []" by (auto simp: check_session_def split: option.splits if_splits)
    with Some show thesis by (intro that) (auto simp: update_capability_def)
  qed
qed


subsection \<open>The invariant\<close>

lemma master_ok_put:
  assumes "master_ok sha256 m" and "entry_ok sha256 w r s e"
    and "ms_config m' = ms_config m" "ms_registry m' = AList.update w r (ms_registry m)"
    and "ms_sessions m' = AList.update w s (ms_sessions m)" "ms_states m' = AList.update w e (ms_states m)"
  shows "master_ok sha256 m'"
  using assms unfolding master_ok_def
  by (simp add: distinct_update update_conv')

lemma master_ok_init: "check_master_config c = Inr () \<Longrightarrow> master_ok sha256 (master_init c)"
  by (simp add: master_ok_def master_init_def)

lemma master_ok_register:
  assumes "master_ok sha256 m" "check_register_request req = Inr ()" "env_ok env" "register_admits sha256 req"
  shows "master_ok sha256 (registered env req m)"
proof (rule master_ok_put [OF assms(1)])
  show "entry_ok sha256 (wi_worker_id (rr_identity req))
      \<lparr>wr_identity = rr_identity req, wr_capability = rr_capability req, wr_profiling_endpoint = rr_profiling_endpoint req\<rparr>
      \<lparr>si_worker_id = wi_worker_id (rr_identity req), si_instance_id = rr_instance_id req,
           si_session_id = ce_fresh env, si_last_accepted_sequence = 0\<rparr> (stored_now (rr_initial_state req) env)"
    using assms(2-4)
    by (auto simp: entry_ok_def check_register_request_def check_worker_identity_def stored_now_def env_ok_def register_admits_def)
qed (simp_all add: registered_def Let_def)

lemma master_ok_heartbeat:
  assumes "master_ok sha256 m" "check_heartbeat_request req = Inr ()" "env_ok env"
    and "map_of (ms_sessions m) (hb_worker_id req) = Some s" "map_of (ms_registry m) (hb_worker_id req) = Some r"
    and "heartbeat_admits req s r"
  shows "master_ok sha256 (beaten env req s m)"
proof (rule master_ok_put [OF assms(1)])
  obtain e where "entry_ok sha256 (hb_worker_id req) r s e" using master_okD [OF assms(1,5)] assms(4) by force
  then show "entry_ok sha256 (hb_worker_id req) r (s\<lparr>si_last_accepted_sequence := hb_sequence_number req\<rparr>) (stored_now (hb_state req) env)"
    using assms(2,3,6) by (auto simp: entry_ok_def check_heartbeat_request_def stored_now_def env_ok_def heartbeat_admits_def)
qed (use assms(5) in \<open>simp_all add: beaten_def update_triv\<close>)

lemma master_ok_update:
  assumes "master_ok sha256 m" "check_update_request req = Inr ()" "env_ok env"
    and "map_of (ms_sessions m) (uc_worker_id req) = Some s" "map_of (ms_registry m) (uc_worker_id req) = Some r"
    and "update_admits sha256 req s"
  shows "master_ok sha256 (updated env req r m)"
proof (rule master_ok_put [OF assms(1)])
  obtain e where "entry_ok sha256 (uc_worker_id req) r s e" using master_okD [OF assms(1,5)] assms(4) by force
  then show "entry_ok sha256 (uc_worker_id req) (r\<lparr>wr_capability := uc_capability req\<rparr>) s (stored_now (uc_state req) env)"
    using assms(2,3,6) by (auto simp: entry_ok_def check_update_request_def stored_now_def env_ok_def update_admits_def)
qed (use assms(4) in \<open>simp_all add: updated_def update_triv\<close>)

lemma master_ok_evaluate: "master_ok sha256 m \<Longrightarrow> master_ok sha256 (fst (evaluate now m))"
  by (simp add: evaluate_def master_ok_def case_prod_unfold Let_def)

lemma master_ok_handle:
  assumes "master_ok sha256 m" "call_ok c" "env_ok env"
  shows "master_ok sha256 (fst (handle sha256 env c m))"
proof (cases c)
  case (Register req)
  show ?thesis
  proof (cases "register_admits sha256 req")
    case True
    with Register assms show ?thesis
      by (simp add: register_worker_admitted master_ok_register [OF assms(1)] master_ok_def [of _ m])
  next
    case False
    then obtain e where "register_worker sha256 env req m = (m, Inl e)" by (rule register_worker_refused)
    with Register assms(1) show ?thesis by simp
  qed
next
  case (Heartbeat req)
  show ?thesis
  proof (cases "\<exists>s r. map_of (ms_sessions m) (hb_worker_id req) = Some s \<and> map_of (ms_registry m) (hb_worker_id req) = Some r
      \<and> heartbeat_admits req s r")
    case True
    then obtain s r where sr: "map_of (ms_sessions m) (hb_worker_id req) = Some s"
      "map_of (ms_registry m) (hb_worker_id req) = Some r" "heartbeat_admits req s r" by blast
    moreover have "ws_worker_id (hb_state req) = hb_worker_id req"
      using assms(2) Heartbeat by (auto simp: check_heartbeat_request_def)
    ultimately show ?thesis
      using Heartbeat assms master_ok_heartbeat [OF assms(1) _ assms(3) sr] by (simp add: heartbeat_accepted)
  next
    case False
    then obtain v where "heartbeat env req m = (m, v)" by (metis heartbeat_not_accepted)
    with Heartbeat assms(1) show ?thesis by simp
  qed
next
  case (Update req)
  show ?thesis
  proof (cases "\<exists>s. map_of (ms_sessions m) (uc_worker_id req) = Some s \<and> update_admits sha256 req s")
    case True
    then obtain s where s: "map_of (ms_sessions m) (uc_worker_id req) = Some s" "update_admits sha256 req s" by blast
    obtain r e where r: "map_of (ms_registry m) (uc_worker_id req) = Some r" "entry_ok sha256 (uc_worker_id req) r s e"
      using master_ok_session [OF assms(1) s(1)] by metis
    moreover have "ws_worker_id (uc_state req) = uc_worker_id req"
      using assms(2) Update by (auto simp: check_update_request_def)
    ultimately have "update_capability sha256 env req m = (updated env req r m, Inr \<lparr>vd_accepted = True, vd_detail = [], vd_reason = None\<rparr>)"
      using s assms(3) by (intro update_capability_accepted) (auto simp: entry_ok_def)
    then show ?thesis
      using Update assms(2) master_ok_update [OF assms(1) _ assms(3) s(1) r(1) s(2)] by simp
  next
    case False
    then obtain v where "update_capability sha256 env req m = (m, v)" by (metis update_capability_not_accepted)
    with Update assms(1) show ?thesis by simp
  qed
next
  case Tick
  with master_ok_evaluate [OF assms(1)] show ?thesis by (simp add: case_prod_unfold Let_def)
qed

lemma reachable_ok: "reachable sha256 m \<Longrightarrow> master_ok sha256 m"
  by (induction rule: reachable.induct) (simp_all add: master_ok_init master_ok_handle)


subsection \<open>Snapshots of a reachable Master\<close>

text \<open>What the snapshot says of a registered worker.\<close>

definition snapshot_of :: "call_env \<Rightarrow> master \<Rightarrow> string \<Rightarrow> worker_snapshot" where
  "snapshot_of env m w = \<lparr>sn_identity = wr_identity (the (map_of (ms_registry m) w)),
     sn_capability = wr_capability (the (map_of (ms_registry m) w)), sn_state = ss_state (the (map_of (ms_states m) w)),
     sn_status = classify (ms_config m) (ce_monotonic env - ss_received_monotonic (the (map_of (ms_states m) w))),
     sn_session_id = Some (si_session_id (the (map_of (ms_sessions m) w))),
     sn_last_seen_at = Some (ss_received_wall (the (map_of (ms_states m) w)))\<rparr>"

lemma build_worker_ok:
  assumes "master_ok sha256 m" "map_of (ms_registry m) w = Some r"
  shows "build_worker r (ce_monotonic env) m = Inr (snapshot_of env m w)"
proof -
  from master_okD [OF assms] obtain s e where se: "map_of (ms_sessions m) w = Some s" "map_of (ms_states m) w = Some e"
    "entry_ok sha256 w r s e" by metis
  then show ?thesis
    by (simp add: build_worker_def entry_ok_def status_at_def snapshot_of_def assms(2) Let_def make_worker_snapshot_def
        require_aware_def)
qed

lemma build_snapshot_ok:
  assumes "master_ok sha256 m" "env_ok env"
  shows "build_snapshot env m = Inr \<lparr>cs_snapshot_id = ce_fresh env, cs_created_at = ce_wall env,
           cs_workers = map (snapshot_of env m) (sort (map fst (ms_registry m)))\<rparr>"
proof -
  let ?ks = "sort (map fst (ms_registry m))"
  have known: "\<exists>r. map_of (ms_registry m) w = Some r" if "w \<in> set ?ks" for w
    using that by (metis domD dom_map_of_conv_image_fst list.set_map set_sort)
  have "traverse_res (\<lambda>r. build_worker r (ce_monotonic env) m) (list_workers m) = Inr (map (snapshot_of env m) ?ks)"
    unfolding list_workers_def traverse_res_Inr list_all2_map1 list_all2_map2
    by (rule list.rel_refl_strong) (use known build_worker_ok [OF assms(1)] in force)
  moreover have ids: "wi_worker_id (sn_identity (snapshot_of env m w)) = w" if "w \<in> set ?ks" for w
    using known [OF that] master_okD [OF assms(1)] by (metis entry_ok_def option.sel select_convs(1) snapshot_of_def worker_snapshot.select_convs(1))
  have "map (wi_worker_id \<circ> sn_identity) (map (snapshot_of env m) ?ks) = ?ks"
    unfolding list.map_comp by (rule map_idI) (use ids in simp)
  moreover have "distinct ?ks" using assms(1) by (simp add: master_ok_def)
  ultimately show ?thesis
    using assms(2) by (simp only: build_snapshot_def bind_res_simps make_cluster_snapshot_def)
      (simp add: env_ok_def non_empty_def require_aware_def)
qed


subsection \<open>Sequences of calls\<close>

text \<open>A run is a list of calls with what each reads of the environment. \<open>beats\<close> is the accepted
  heartbeats of a run in order: worker, session, sequence number. \<open>issued\<close> is the session identifiers
  the factory hands out on the way.\<close>

definition accepted_beat :: "call_env \<Rightarrow> call \<Rightarrow> master \<Rightarrow> (string \<times> string \<times> int) list" where
  "accepted_beat env c m = (case c of
     Heartbeat req \<Rightarrow> (case snd (heartbeat env req m) of
         Inr v \<Rightarrow> if vd_accepted v then [(hb_worker_id req, hb_session_id req, hb_sequence_number req)] else []
       | Inl _ \<Rightarrow> [])
   | _ \<Rightarrow> [])"

fun run_calls :: "(string \<Rightarrow> string) \<Rightarrow> (call_env \<times> call) list \<Rightarrow> master \<Rightarrow> master" where
  "run_calls sha256 [] m = m"
| "run_calls sha256 ((env, c) # evs) m = run_calls sha256 evs (fst (handle sha256 env c m))"

fun beats :: "(string \<Rightarrow> string) \<Rightarrow> (call_env \<times> call) list \<Rightarrow> master \<Rightarrow> (string \<times> string \<times> int) list" where
  "beats sha256 [] m = []"
| "beats sha256 ((env, c) # evs) m = accepted_beat env c m @ beats sha256 evs (fst (handle sha256 env c m))"

fun issued :: "(call_env \<times> call) list \<Rightarrow> string list" where
  "issued [] = []"
| "issued ((env, Register r) # evs) = ce_fresh env # issued evs"
| "issued ((env, c) # evs) = issued evs"

definition run_ok :: "(call_env \<times> call) list \<Rightarrow> bool" where
  "run_ok evs \<longleftrightarrow> (\<forall>(env, c)\<in>set evs. env_ok env \<and> call_ok c)"

definition beats_of :: "string \<Rightarrow> string \<Rightarrow> (string \<times> string \<times> int) list \<Rightarrow> int list" where
  "beats_of w sid bs = map (\<lambda>(_, _, n). n) (filter (\<lambda>(w', s, _). w' = w \<and> s = sid) bs)"

lemma beats_of_simps [simp]:
  "beats_of w sid [] = []" "beats_of w sid (xs @ ys) = beats_of w sid xs @ beats_of w sid ys"
  by (simp_all add: beats_of_def)

text \<open>What one call does to the session of a worker.\<close>

lemma handle_session [consumes 3, case_names same opened beat]:
  assumes "master_ok sha256 m" "call_ok c" "env_ok env"
  obtains
    (same) "map_of (ms_sessions (fst (handle sha256 env c m))) w = map_of (ms_sessions m) w"
      "\<And>sid. beats_of w sid (accepted_beat env c m) = []"
  | (opened) req where "c = Register req" "wi_worker_id (rr_identity req) = w"
      "map_of (ms_sessions (fst (handle sha256 env c m))) w = Some \<lparr>si_worker_id = w, si_instance_id = rr_instance_id req,
           si_session_id = ce_fresh env, si_last_accepted_sequence = 0\<rparr>"
      "accepted_beat env c m = []"
  | (beat) req s where "c = Heartbeat req" "hb_worker_id req = w" "map_of (ms_sessions m) w = Some s"
      "si_session_id s = hb_session_id req" "si_last_accepted_sequence s < hb_sequence_number req"
      "map_of (ms_sessions (fst (handle sha256 env c m))) w = Some (s\<lparr>si_last_accepted_sequence := hb_sequence_number req\<rparr>)"
      "accepted_beat env c m = [(w, hb_session_id req, hb_sequence_number req)]"
proof (cases c)
  case (Register req)
  show thesis
  proof (cases "register_admits sha256 req")
    case True
    with Register assms have "handle sha256 env c m = (registered env req m, snd (handle sha256 env c m))"
      by (simp add: register_worker_admitted master_ok_def)
    then have h: "fst (handle sha256 env c m) = registered env req m" by (metis fst_conv)
    show thesis
    proof (cases "wi_worker_id (rr_identity req) = w")
      case True
      with h Register show thesis
        by (intro opened) (auto simp: registered_def Let_def update_conv' accepted_beat_def)
    next
      case False
      with h Register show thesis
        by (intro same) (auto simp: registered_def Let_def update_conv' accepted_beat_def)
    qed
  next
    case False
    then obtain e where "register_worker sha256 env req m = (m, Inl e)" by (rule register_worker_refused)
    with Register show thesis by (intro same) (auto simp: accepted_beat_def)
  qed
next
  case (Heartbeat req)
  show thesis
  proof (cases "\<exists>s r. map_of (ms_sessions m) (hb_worker_id req) = Some s \<and> map_of (ms_registry m) (hb_worker_id req) = Some r
      \<and> heartbeat_admits req s r")
    case True
    then obtain s r where sr: "map_of (ms_sessions m) (hb_worker_id req) = Some s"
      "map_of (ms_registry m) (hb_worker_id req) = Some r" "heartbeat_admits req s r" by blast
    have st: "ws_worker_id (hb_state req) = hb_worker_id req"
      using assms(2) Heartbeat by (auto simp: check_heartbeat_request_def)
    note hb = heartbeat_accepted [OF st assms(3) sr]
    show thesis
    proof (cases "hb_worker_id req = w")
      case True
      show thesis
        by (rule beat [of req s]) (use Heartbeat hb sr True in
          \<open>auto simp: accepted_beat_def beaten_def update_conv' heartbeat_admits_def\<close>)
    next
      case False
      show thesis
        by (rule same) (use Heartbeat hb False in \<open>auto simp: accepted_beat_def beaten_def update_conv' beats_of_def\<close>)
    qed
  next
    case False
    then obtain v where "heartbeat env req m = (m, v)" "\<And>u. v = Inr u \<Longrightarrow> \<not> vd_accepted u"
      by (metis heartbeat_not_accepted)
    with Heartbeat show thesis by (intro same) (auto simp: accepted_beat_def split: sum.splits)
  qed
next
  case (Update req)
  have "ms_sessions (fst (update_capability sha256 env req m)) = ms_sessions m"
    by (auto simp: update_capability_def registry_upsert_def states_record_def lift_st_def Let_def bind_st_def
        split: option.splits sum.splits)
  with Update show thesis by (intro same) (auto simp: accepted_beat_def case_prod_unfold Let_def)
next
  case Tick
  then show thesis by (intro same) (auto simp: accepted_beat_def evaluate_def case_prod_unfold Let_def)
qed

lemma run_ok_Cons [simp]: "run_ok ((env, c) # evs) \<longleftrightarrow> env_ok env \<and> call_ok c \<and> run_ok evs"
  by (auto simp: run_ok_def)

lemma issued_Cons: "issued ((env, c) # evs) = (case c of Register _ \<Rightarrow> [ce_fresh env] | _ \<Rightarrow> []) @ issued evs"
  by (cases c) simp_all

text \<open>A session that is not the current one of the worker and is never issued again has no accepted
  heartbeat.\<close>

lemma beats_not_current:
  assumes "master_ok sha256 m" "run_ok evs" "map_option si_session_id (map_of (ms_sessions m) w) \<noteq> Some sid"
    and "sid \<notin> set (issued evs)"
  shows "beats_of w sid (beats sha256 evs m) = []"
  using assms
proof (induction evs arbitrary: m)
  case (Cons ev evs)
  obtain env c where ev: "ev = (env, c)" by (cases ev)
  with Cons.prems(2) have ok: "call_ok c" "env_ok env" by simp_all
  have IH: "beats_of w sid (beats sha256 evs (fst (handle sha256 env c m))) = []"
    if "map_option si_session_id (map_of (ms_sessions (fst (handle sha256 env c m))) w) \<noteq> Some sid"
    using Cons.IH [OF master_ok_handle [OF Cons.prems(1) ok] _ that] Cons.prems(2,4) by (simp add: ev issued_Cons)
  from Cons.prems(1) ok show ?case
  proof (cases rule: handle_session [where w = w])
    case same
    with IH Cons.prems(3) show ?thesis by (simp add: ev)
  next
    case (opened req)
    with IH Cons.prems(4) show ?thesis by (auto simp: ev)
  next
    case (beat req s)
    with IH Cons.prems(3) show ?thesis by (auto simp: ev beats_of_def)
  qed
qed simp

lemma beats_current:
  assumes "master_ok sha256 m" "run_ok evs" "map_of (ms_sessions m) w = Some s" "si_session_id s = sid"
    and "sid \<notin> set (issued evs)"
  shows "sorted_wrt (<) (si_last_accepted_sequence s # beats_of w sid (beats sha256 evs m))"
  using assms
proof (induction evs arbitrary: m s)
  case (Cons ev evs)
  obtain env c where ev: "ev = (env, c)" by (cases ev)
  with Cons.prems(2) have ok: "call_ok c" "env_ok env" by simp_all
  have run: "run_ok evs" "sid \<notin> set (issued evs)" using Cons.prems(2,5) by (simp_all add: ev issued_Cons)
  note ok' = master_ok_handle [OF Cons.prems(1) ok]
  from Cons.prems(1) ok show ?case
  proof (cases rule: handle_session [where w = w])
    case same
    with Cons.IH [OF ok' run(1) _ Cons.prems(4) run(2)] Cons.prems(3) show ?thesis by (simp add: ev)
  next
    case (opened req)
    with Cons.prems(5) have "ce_fresh env \<noteq> sid" by (auto simp: ev)
    with opened beats_not_current [OF ok' run(1) _ run(2), of w] show ?thesis by (simp add: ev)
  next
    case (beat req s')
    with Cons.prems(3,4) have "s' = s" "hb_session_id req = sid" by auto
    with beat Cons.IH [OF ok' run(1) beat(6) _ run(2)] Cons.prems(4) show ?thesis
      by (auto simp: ev beats_of_def)
  qed
qed simp

lemma beats_increase:
  assumes "master_ok sha256 m" "run_ok evs" "distinct (issued evs)"
    and "\<And>s. map_of (ms_sessions m) w = Some s \<Longrightarrow> si_session_id s \<notin> set (issued evs)"
  shows "sorted_wrt (<) (beats_of w sid (beats sha256 evs m))"
  using assms
proof (induction evs arbitrary: m)
  case (Cons ev evs)
  obtain env c where ev: "ev = (env, c)" by (cases ev)
  with Cons.prems(2) have ok: "call_ok c" "env_ok env" by simp_all
  have run: "run_ok evs" "distinct (issued evs)" using Cons.prems(2,3) by (simp_all add: ev issued_Cons)
  note IH = Cons.IH [OF master_ok_handle [OF Cons.prems(1) ok] run]
  have rest: "si_session_id s \<notin> set (issued evs)" if "map_of (ms_sessions m) w = Some s" for s
    using Cons.prems(4) [OF that] by (simp add: ev issued_Cons)
  show ?case
  proof (cases "map_option si_session_id (map_of (ms_sessions m) w) = Some sid")
    case True
    then obtain s where s: "map_of (ms_sessions m) w = Some s" "si_session_id s = sid" by auto
    with Cons.prems(4) have "sid \<notin> set (issued (ev # evs))" by auto
    from beats_current [OF Cons.prems(1,2) s this] show ?thesis by simp
  next
    case cur: False
    from Cons.prems(1) ok show ?thesis
    proof (cases rule: handle_session [where w = w])
      case same
      with IH rest show ?thesis by (simp add: ev)
    next
      case (opened req)
      with IH Cons.prems(3) show ?thesis by (simp add: ev)
    next
      case (beat req s)
      with IH rest [of s] cur show ?thesis by (simp add: ev beats_of_def)
    qed
  qed
qed simp

lemma master_ok_run: "\<lbrakk>master_ok sha256 m; run_ok evs\<rbrakk> \<Longrightarrow> master_ok sha256 (run_calls sha256 evs m)"
  by (induction evs arbitrary: m) (auto simp: master_ok_handle)


subsection \<open>Liveness\<close>

lemma classify_mono:
  assumes "check_master_config c = Inr ()" "a \<le> b"
  shows "classify c b = ONLINE \<Longrightarrow> classify c a = ONLINE" "classify c a = OFFLINE \<Longrightarrow> classify c b = OFFLINE"
proof -
  have le: "a * 1000 \<le> b * 1000" using assms(2) by simp
  show "classify c b = ONLINE \<Longrightarrow> classify c a = ONLINE"
    using le by (auto simp: classify_def split: if_splits)
  have lt: "(of_int (mc_suspect_after_ms c) :: rat) < of_int (mc_offline_after_ms c)"
    using assms(1) by (simp add: check_master_config_def)
  show "classify c a = OFFLINE \<Longrightarrow> classify c b = OFFLINE"
    using le lt by (auto simp: classify_def split: if_splits)
qed

lemma classify_ONLINE: "classify c t = ONLINE \<longleftrightarrow> t \<le> of_int (mc_suspect_after_ms c) / 1000"
  by (simp add: classify_def field_simps)

lemma classify_OFFLINE:
  assumes "check_master_config c = Inr ()"
  shows "classify c t = OFFLINE \<longleftrightarrow> of_int (mc_offline_after_ms c) / 1000 < t"
proof -
  have "(of_int (mc_suspect_after_ms c) :: rat) < of_int (mc_offline_after_ms c)"
    using assms by (simp add: check_master_config_def)
  then show ?thesis unfolding classify_def by (auto simp: pos_divide_less_eq)
qed

lemma log_transitions_spec:
  assumes "distinct (map fst sts)"
  shows "map snd (snd (log_transitions sts logged)) = filter (\<lambda>(w, s). map_of logged w \<noteq> Some s) sts"
    and "map_of (fst (log_transitions sts logged)) = map_of logged ++ map_of sts"
  using assms
proof (induction sts logged rule: log_transitions.induct)
  case (2 w s r logged)
  { case 1
    have "filter (\<lambda>(w', s'). map_of (AList.update w s logged) w' \<noteq> Some s') r = filter (\<lambda>(w', s'). map_of logged w' \<noteq> Some s') r"
      using 1 by (intro filter_cong refl) (force simp: update_conv' split: if_splits)
    with 2 1 show ?case by (auto simp: case_prod_unfold Let_def)
  next
    case 2
    then have "w \<notin> dom (map_of r)" by (auto simp: dom_map_of_conv_image_fst)
    with "2.IH" 2 show ?case
      by (auto simp: case_prod_unfold Let_def update_conv' map_add_upd_left map_add_def fun_eq_iff split: option.splits) }
qed simp_all


subsection \<open>An example Master\<close>

definition demo_master_config :: master_config where
  "demo_master_config = \<lparr>mc_heartbeat_interval_ms = 5000, mc_suspect_after_ms = 10000, mc_offline_after_ms = 20000, mc_liveness_tick_ms = 1000\<rparr>"

definition demo_call :: "rat \<Rightarrow> string \<Rightarrow> call_env" where
  "demo_call t fresh = \<lparr>ce_monotonic = t, ce_wall = \<lparr>ts_value = 0, ts_aware = True\<rparr>, ce_fresh = fresh\<rparr>"

definition demo_register :: register_request where
  "demo_register = \<lparr>rr_protocol_version = ''1'', rr_instance_id = ''i'', rr_identity = demo_identity, rr_capability = demo_capability,
     rr_initial_state = demo_state, rr_profiling_endpoint = None\<rparr>"

definition demo_beat :: "string \<Rightarrow> int \<Rightarrow> heartbeat_request" where
  "demo_beat sid n = \<lparr>hb_worker_id = ''w'', hb_instance_id = ''i'', hb_session_id = sid, hb_sequence_number = n,
     hb_capability_revision = wc_capability_revision demo_capability, hb_state = demo_state, hb_worker_reported_at = None\<rparr>"

definition demo_master :: master where
  "demo_master = fst (handle demo_hash (demo_call 0 ''s1'') (Register demo_register) (master_init demo_master_config))"

lemma demo_master_config_ok [simp]: "check_master_config demo_master_config = Inr ()"
  by (simp add: check_master_config_def demo_master_config_def)

lemma demo_call_ok [simp]: "env_ok (demo_call t f) \<longleftrightarrow> f \<noteq> []" "ce_monotonic (demo_call t f) = t"
  "ce_fresh (demo_call t f) = f"
  by (simp_all add: env_ok_def demo_call_def)

lemma demo_ids [simp]: "wi_worker_id demo_identity = ''w''" "ws_worker_id demo_state = ''w''" "wi_protocol_version demo_identity = ''1''"
  by (simp_all add: demo_identity_def demo_state_def)

lemma demo_register_ok [simp]: "check_register_request demo_register = Inr ()" "register_admits demo_hash demo_register"
  by (simp_all add: check_register_request_def demo_register_def CONTROL_PROTOCOL_VERSION_def register_admits_def non_empty_def
      absent_or_non_empty_def)

lemma demo_beat_fields [simp]: "hb_worker_id (demo_beat sid n) = ''w''" "hb_instance_id (demo_beat sid n) = ''i''"
  "hb_session_id (demo_beat sid n) = sid" "hb_sequence_number (demo_beat sid n) = n" "hb_state (demo_beat sid n) = demo_state"
  "hb_capability_revision (demo_beat sid n) = wc_capability_revision demo_capability"
  by (simp_all add: demo_beat_def)

lemma demo_beat_ok [simp]: "\<lbrakk>sid \<noteq> []; 1 \<le> n\<rbrakk> \<Longrightarrow> check_heartbeat_request (demo_beat sid n) = Inr ()"
  by (simp add: check_heartbeat_request_def demo_beat_def non_empty_def)

lemma demo_master_reachable [simp]: "reachable demo_hash demo_master"
  unfolding demo_master_def by (rule reachable.step [OF reachable.start]) simp_all

lemma demo_master_eq: "demo_master = registered (demo_call 0 ''s1'') demo_register (master_init demo_master_config)"
  by (simp add: demo_master_def register_worker_admitted master_init_def)

lemma demo_master_fields:
  "ms_registry demo_master = [(''w'', \<lparr>wr_identity = demo_identity, wr_capability = demo_capability, wr_profiling_endpoint = None\<rparr>)]"
  "ms_sessions demo_master = [(''w'', \<lparr>si_worker_id = ''w'', si_instance_id = ''i'', si_session_id = ''s1'', si_last_accepted_sequence = 0\<rparr>)]"
  "ms_states demo_master = [(''w'', stored_now demo_state (demo_call 0 ''s1''))]"
  "ms_config demo_master = demo_master_config" "ms_last_logged demo_master = []"
  by (simp_all add: demo_master_eq registered_def master_init_def demo_register_def Let_def)


subsection \<open>Properties\<close>

text \<open>[C5] Any sequence of registrations, heartbeats, capability updates and liveness ticks, accepted or
  refused, leaves the Master in a state from which a snapshot can be built: no registered worker lacks a
  state or a session, and no stored state names a device, pool or runtime device its stored capability
  does not have. The snapshot lists every registered worker once, in the order of the identifiers, with
  the capability, state, session and last-seen time that are stored and the status of that one instant.\<close>

theorem reachable_snapshot:
  assumes "reachable sha256 m" "env_ok env"
  shows "build_snapshot env m = Inr \<lparr>cs_snapshot_id = ce_fresh env, cs_created_at = ce_wall env,
           cs_workers = map (snapshot_of env m) (sort (map fst (ms_registry m)))\<rparr>"
  using assms by (intro build_snapshot_ok reachable_ok)

theorem reachable_snapshot_witness:
  "\<exists>snap. build_snapshot (demo_call 12 ''snap'') demo_master = Inr snap
     \<and> map (\<lambda>x. (wi_worker_id (sn_identity x), sn_status x, sn_session_id x)) (cs_workers snap) = [(''w'', SUSPECT, Some ''s1'')]"
  using reachable_snapshot [OF demo_master_reachable, of "demo_call 12 ''snap''"]
  by (simp add: demo_master_fields snapshot_of_def classify_def demo_master_config_def stored_now_def)

text \<open>[C10] A heartbeat is accepted exactly when the worker has a session, the session and instance are
  the current ones, the sequence number is beyond the last accepted one, the reported revision is the
  stored one and every reference of the state resolves; then only that worker's sequence number and state
  are replaced. In every other case, an exception included, nothing of the Master changes.\<close>

theorem heartbeat_all_or_nothing:
  assumes "reachable sha256 m" "check_heartbeat_request req = Inr ()" "env_ok env"
  shows "(case (map_of (ms_sessions m) (hb_worker_id req), map_of (ms_registry m) (hb_worker_id req)) of
       (Some s, Some r) \<Rightarrow>
         if heartbeat_admits req s r
         then heartbeat env req m = (beaten env req s m, Inr \<lparr>vd_accepted = True, vd_detail = [], vd_reason = None\<rparr>)
         else fst (heartbeat env req m) = m \<and> (\<forall>v. snd (heartbeat env req m) = Inr v \<longrightarrow> \<not> vd_accepted v)
     | _ \<Rightarrow> heartbeat env req m = (m, Inr \<lparr>vd_accepted = False, vd_detail = ''unknown worker'', vd_reason = Some UNKNOWN_WORKER\<rparr>))"
proof (cases "map_of (ms_sessions m) (hb_worker_id req)")
  case None
  then have "heartbeat_rejection req m = Some \<lparr>rj_reason = UNKNOWN_WORKER, rj_detail = ''unknown worker''\<rparr>"
    by (simp add: heartbeat_rejection_def check_heartbeat_def)
  with None show ?thesis by (simp add: heartbeat_rejected)
next
  case (Some s)
  with master_ok_session [OF reachable_ok [OF assms(1)]] obtain r where r: "map_of (ms_registry m) (hb_worker_id req) = Some r"
    by metis
  have st: "ws_worker_id (hb_state req) = hb_worker_id req"
    using assms(2) by (auto simp: check_heartbeat_request_def)
  have "fst (heartbeat env req m) = m \<and> (\<forall>v. snd (heartbeat env req m) = Inr v \<longrightarrow> \<not> vd_accepted v)"
    if "\<not> heartbeat_admits req s r"
    using that Some r heartbeat_not_accepted [of m req env] by (metis fst_conv option.inject snd_conv)
  with Some r show ?thesis by (simp add: heartbeat_accepted [OF st assms(3)])
qed

theorem heartbeat_all_or_nothing_witness:
  "snd (heartbeat (demo_call 5 ''x'') (demo_beat ''s1'' 1) demo_master) = Inr \<lparr>vd_accepted = True, vd_detail = [], vd_reason = None\<rparr>
   \<and> fst (heartbeat (demo_call 5 ''x'') (demo_beat ''s0'' 1) demo_master) = demo_master"
  using heartbeat_all_or_nothing [OF demo_master_reachable, of "demo_beat ''s1'' 1" "demo_call 5 ''x''"]
    heartbeat_all_or_nothing [OF demo_master_reachable, of "demo_beat ''s0'' 1" "demo_call 5 ''x''"]
  by (simp add: demo_master_fields heartbeat_admits_def)

text \<open>[C7] Within a session the sequence numbers of the accepted heartbeats strictly increase along any
  sequence of calls from a fresh Master, whatever other workers, re-registrations, updates, duplicates and
  late heartbeats come in between, as long as the factory never issues a session identifier twice.\<close>

theorem accepted_sequences_increase:
  assumes "check_master_config c = Inr ()" "run_ok evs" "distinct (issued evs)"
  shows "sorted_wrt (<) (beats_of w sid (beats sha256 evs (master_init c)))"
  by (rule beats_increase [OF master_ok_init [OF assms(1)] assms(2,3)]) (simp add: master_init_def)

definition demo_run :: "(call_env \<times> call) list" where
  "demo_run = [(demo_call 0 ''s1'', Register demo_register), (demo_call 1 ''x'', Heartbeat (demo_beat ''s1'' 1)),
     (demo_call 2 ''x'', Heartbeat (demo_beat ''s1'' 1)), (demo_call 3 ''x'', Heartbeat (demo_beat ''s1'' 3)),
     (demo_call 4 ''s2'', Register demo_register)]"

theorem accepted_sequences_increase_witness:
  "sorted_wrt (<) (beats_of ''w'' ''s1'' (beats demo_hash demo_run (master_init demo_master_config)))"
  by (rule accepted_sequences_increase) (simp_all add: demo_run_def run_ok_def)

text \<open>[C6] A registration supersedes the previous session of the worker at once: from then on no
  heartbeat of the old session is accepted, in any further sequence of calls that does not issue the old
  identifier again.\<close>

theorem superseded_session_never_accepted:
  assumes "reachable sha256 m" "check_register_request req = Inr ()" "env_ok env" "register_admits sha256 req"
    and "run_ok evs" "sid \<notin> set (issued ((env, Register req) # evs))"
  shows "beats_of (wi_worker_id (rr_identity req)) sid (beats sha256 evs (fst (register_worker sha256 env req m))) = []"
proof -
  note ok = reachable_ok [OF assms(1)]
  then have "fst (register_worker sha256 env req m) = registered env req m"
    using assms by (simp add: register_worker_admitted master_ok_def)
  then show ?thesis
    using assms(6) beats_not_current [OF master_ok_register [OF ok assms(2-4)] assms(5)]
    by (auto simp: registered_def Let_def update_conv')
qed

theorem superseded_session_never_accepted_witness:
  "beats_of ''w'' ''s1'' (beats demo_hash [(demo_call 6 ''x'', Heartbeat (demo_beat ''s1'' 2))]
     (fst (register_worker demo_hash (demo_call 5 ''s2'') demo_register demo_master))) = []"
  using superseded_session_never_accepted [OF demo_master_reachable demo_register_ok(1) _ demo_register_ok(2),
      of "demo_call 5 ''s2''" "[(demo_call 6 ''x'', Heartbeat (demo_beat ''s1'' 2))]" "''s1''"]
  by (simp add: run_ok_def demo_register_def)

text \<open>The status of a worker depends only on the Master's own clock since the last accepted report:
  it is online up to and including the suspect threshold, suspect beyond it up to the offline threshold,
  offline beyond; a worker that reports at the interval the Master asked for is online at every instant up
  to its next report, and time alone never improves a status.\<close>

lemma liveness_thresholds:
  assumes "check_master_config (ms_config m) = Inr ()" "map_of (ms_states m) w = Some e"
    and "t = now - ss_received_monotonic e"
  shows "(status_at w now m = Inr ONLINE \<longleftrightarrow> t \<le> of_int (mc_suspect_after_ms (ms_config m)) / 1000)
    \<and> (status_at w now m = Inr OFFLINE \<longleftrightarrow> of_int (mc_offline_after_ms (ms_config m)) / 1000 < t)
    \<and> (t \<le> of_int (mc_heartbeat_interval_ms (ms_config m)) / 1000 \<longrightarrow> status_at w now m = Inr ONLINE)
    \<and> (\<forall>later \<ge> now. (status_at w later m = Inr ONLINE \<longrightarrow> status_at w now m = Inr ONLINE)
         \<and> (status_at w now m = Inr OFFLINE \<longrightarrow> status_at w later m = Inr OFFLINE))"
proof -
  let ?c = "ms_config m"
  have st: "status_at w l m = Inr (classify ?c (l - ss_received_monotonic e))" for l using assms(2) by (simp add: status_at_def)
  have le: "now - ss_received_monotonic e \<le> l - ss_received_monotonic e" if "now \<le> l" for l using that by simp
  have "(of_int (mc_heartbeat_interval_ms ?c) / 1000 :: rat) \<le> of_int (mc_suspect_after_ms ?c) / 1000"
    using assms(1) by (simp add: check_master_config_def divide_right_mono)
  then show ?thesis
    unfolding st sum.inject assms(3)
    using classify_mono [OF assms(1) le] by (auto simp: classify_ONLINE classify_OFFLINE [OF assms(1)])
qed

text \<open>A liveness tick logs exactly the workers whose status differs from the one last logged for
  them, in the order of the identifiers, and remembers the status of every worker, so that a second tick at
  the same instant logs nothing.\<close>

lemma tick_logs_transitions:
  assumes "reachable sha256 m"
  shows "map snd (snd (evaluate now m)) = filter (\<lambda>(w, s). map_of (ms_last_logged m) w \<noteq> Some s) (statuses_at now m)
    \<and> snd (evaluate now (fst (evaluate now m))) = []"
proof -
  have ds: "distinct (map fst (statuses_at now m))"
  proof -
    have "map fst (statuses_at now m) = map fst (sort_key fst (ms_states m))"
      by (simp add: statuses_at_def case_prod_unfold)
    then show ?thesis
      using reachable_ok [OF assms] by (simp add: master_ok_def distinct_map)
  qed
  have log: "map_of (ms_last_logged (fst (evaluate now m))) = map_of (ms_last_logged m) ++ map_of (statuses_at now m)"
    by (simp add: evaluate_def case_prod_unfold Let_def log_transitions_spec(2) [OF ds])
  have "map snd (snd (evaluate now (fst (evaluate now m))))
      = filter (\<lambda>(w, s). map_of (ms_last_logged (fst (evaluate now m))) w \<noteq> Some s) (statuses_at now m)"
    using log_transitions_spec(1) [OF ds]
    by (simp add: evaluate_def [of _ "fst (evaluate now m)"] case_prod_unfold Let_def) (simp add: evaluate_def statuses_at_def case_prod_unfold Let_def)
  also have "\<dots> = []" unfolding log using ds by (auto simp: filter_empty_conv map_add_def)
  finally show ?thesis
    using log_transitions_spec(1) [OF ds] by (simp add: evaluate_def case_prod_unfold Let_def)
qed

end
