(* ===== verification/Worker_Agent.thy ===== *)
theory Worker_Agent
  imports Master_Service
begin

section \<open>The worker agent and its conversation with the Master\<close>

text \<open>
  \<^verbatim>\<open>control/worker/master_client.py\<close> (registration, heartbeat and reconnect loops), the assembly of a
  capability and of device states in \<^verbatim>\<open>control/worker/agent.py\<close>, and the servicer of
  \<^verbatim>\<open>protocol/control/grpc_server.py\<close>.

  Everything the agent touches outside itself is a record of operations on a world \<open>'s\<close>: the three
  calls of the \<^verbatim>\<open>ControlClient\<close> protocol, the inspector, sleeping (during which other processes run),
  the clock, and the stop flag that \<^verbatim>\<open>request_stop\<close> sets from outside. The loops run under a bound on
  their rounds, and running out of it is a result of its own.
\<close>


subsection \<open>Assembling a capability\<close>

record capability_fragment =
  cf_architecture :: "string option"
  cf_os :: "os_info option"
  cf_container_runtime :: "container_runtime_capability option"
  cf_network_interfaces :: "network_interface_capability list"
  cf_devices :: "device_capability list"
  cf_memory_pools :: "memory_pool_capability list"
  cf_runtime_platforms :: "runtime_platform_capability list"

text \<open>\<^verbatim>\<open>_single\<close>: the values the probes provide must agree.\<close>

definition single :: "(capability_fragment \<Rightarrow> 'a option) \<Rightarrow> capability_fragment list \<Rightarrow> 'a option res" where
  "single f frs = (case List.map_filter f frs of
       [] \<Rightarrow> Inr None
     | x # r \<Rightarrow> if list_ex (\<lambda>y. y \<noteq> x) r then Inl (ValueError ''conflicting capability facts'') else Inr (Some x))"

definition assemble_capability :: "(string \<Rightarrow> string) \<Rightarrow> capability_fragment list \<Rightarrow> worker_capability res" where
  "assemble_capability sha256 frs =
     bind_res (single cf_architecture frs) (\<lambda>arch.
     bind_res (single cf_os frs) (\<lambda>os.
     case arch of None \<Rightarrow> Inl (ValueError ''no probe reported an architecture'')
     | Some a \<Rightarrow> if a = [] then Inl (ValueError ''no probe reported an architecture'') else
       (case os of None \<Rightarrow> Inl (ValueError ''no probe reported OS information'')
        | Some i \<Rightarrow>
          bind_res (single cf_container_runtime frs) (\<lambda>cr.
            let c = \<lparr>wc_architecture = a, wc_os = i, wc_container_runtime = cr,
                     wc_network_interfaces = concat (map cf_network_interfaces frs),
                     wc_devices = concat (map cf_devices frs), wc_memory_pools = concat (map cf_memory_pools frs),
                     wc_runtime_platforms = concat (map cf_runtime_platforms frs), wc_capability_revision = []\<rparr>
            in then_res (check_worker_capability c)
                 (Inr (c\<lparr>wc_capability_revision := compute_capability_revision sha256 c\<rparr>))))))"

text \<open>\<^verbatim>\<open>enrich_device_states\<close>: the runtimes observed on each device, in the order of the inventory; a
  runtime that lists a device twice appears twice.\<close>

definition runtimes_on :: "string \<Rightarrow> runtime_instance_state list \<Rightarrow> string list" where
  "runtimes_on d rs = concat (map (\<lambda>r. map (\<lambda>_. rt_runtime_id r) (filter (\<lambda>x. x = d) (rt_device_ids r))) rs)"

definition enrich_device_states :: "device_state list \<Rightarrow> runtime_instance_state list \<Rightarrow> device_state list" where
  "enrich_device_states ds rs = map (\<lambda>d. d\<lparr>dv_running_runtime_ids := runtimes_on (dv_device_id d) rs\<rparr>) ds"


subsection \<open>What the agent talks to\<close>

record local_inspection =
  li_identity :: worker_identity
  li_capability :: worker_capability
  li_state :: worker_state

record 's control_client =
  cc_register :: "register_request \<Rightarrow> 's \<Rightarrow> 's \<times> register_response res"
  cc_heartbeat :: "heartbeat_request \<Rightarrow> 's \<Rightarrow> 's \<times> verdict res"
  cc_update :: "update_request \<Rightarrow> 's \<Rightarrow> 's \<times> verdict res"
  cc_inspect :: "'s \<Rightarrow> 's \<times> local_inspection res"
  cc_sleep :: "rat \<Rightarrow> 's \<Rightarrow> 's"
  cc_clock :: "'s \<Rightarrow> timestamp"
  cc_stopping :: "'s \<Rightarrow> bool"

text \<open>The three exceptions that steer the loops, and every other one.\<close>

datatype agent_exn = MasterUnavailable | SessionInvalid | Superseded | Fatal exn

type_synonym 'a ares = "agent_exn + 'a"

definition INVALID_ARGUMENT :: string where "INVALID_ARGUMENT = ''INVALID_ARGUMENT''"

fun agent_call_exn :: "exn \<Rightarrow> agent_exn" where
  "agent_call_exn (AioRpcError code) =
     (if code = INVALID_ARGUMENT then Fatal (RuntimeError ''WorkerAgentError: master rejected as a protocol violation'')
      else MasterUnavailable)"
| "agent_call_exn (OSError _) = MasterUnavailable"
| "agent_call_exn e = Fatal e"

definition agent_call :: "'s \<times> 'a res \<Rightarrow> 's \<times> 'a ares" where
  "agent_call p = (case p of (s, Inl e) \<Rightarrow> (s, Inl (agent_call_exn e)) | (s, Inr a) \<Rightarrow> (s, Inr a))"

fun raise_for_rejection :: "rejection_reason option \<Rightarrow> agent_exn" where
  "raise_for_rejection (Some UNKNOWN_WORKER) = SessionInvalid"
| "raise_for_rejection (Some REREGISTER_REQUIRED) = SessionInvalid"
| "raise_for_rejection (Some STALE_SESSION) = Superseded"
| "raise_for_rejection _ = Fatal (RuntimeError ''WorkerAgentError: rejected with non-recoverable reason'')"


subsection \<open>The loops\<close>

record agent_session =
  ag_worker_id :: string
  ag_session_id :: string
  ag_interval_s :: rat
  ag_acknowledged_revision :: string

record agent_config =
  ac_instance_id :: string
  ac_profiling_endpoint :: "string option"
  ac_initial_delay_s :: rat
  ac_max_delay_s :: rat

definition check_reconnect :: "agent_config \<Rightarrow> unit res" where
  "check_reconnect c =
     then_res (raise_if (ac_initial_delay_s c \<le> 0 \<or> ac_max_delay_s c \<le> 0) (ValueError ''reconnect delays must be positive''))
       (raise_if (ac_max_delay_s c < ac_initial_delay_s c) (ValueError ''max_delay_s must be >= initial_delay_s''))"

definition agent_register :: "'s control_client \<Rightarrow> agent_config \<Rightarrow> 's \<Rightarrow> 's \<times> agent_session ares" where
  "agent_register cc ac s =
     (case cc_inspect cc s of (s1, Inl e) \<Rightarrow> (s1, Inl (Fatal e))
      | (s1, Inr li) \<Rightarrow>
         let req = \<lparr>rr_protocol_version = CONTROL_PROTOCOL_VERSION, rr_instance_id = ac_instance_id ac, rr_identity = li_identity li,
                    rr_capability = li_capability li, rr_initial_state = li_state li, rr_profiling_endpoint = ac_profiling_endpoint ac\<rparr>
         in (case check_register_request req of Inl e \<Rightarrow> (s1, Inl (Fatal e))
             | Inr _ \<Rightarrow> (case agent_call (cc_register cc req s1) of (s2, Inl e) \<Rightarrow> (s2, Inl e)
                 | (s2, Inr resp) \<Rightarrow> (s2, Inr \<lparr>ag_worker_id = wi_worker_id (li_identity li), ag_session_id = rp_session_id resp,
                      ag_interval_s = of_int (rp_heartbeat_interval_ms resp) / 1000,
                      ag_acknowledged_revision = wc_capability_revision (li_capability li)\<rparr>))))"

definition agent_update_capability :: "'s control_client \<Rightarrow> agent_config \<Rightarrow> agent_session \<Rightarrow> local_inspection \<Rightarrow> 's \<Rightarrow> 's \<times> unit ares" where
  "agent_update_capability cc ac session li s =
     (let req = \<lparr>uc_worker_id = ag_worker_id session, uc_instance_id = ac_instance_id ac, uc_session_id = ag_session_id session,
                 uc_capability = li_capability li, uc_state = li_state li\<rparr>
      in (case check_update_request req of Inl e \<Rightarrow> (s, Inl (Fatal e))
          | Inr _ \<Rightarrow> (case agent_call (cc_update cc req s) of (s1, Inl e) \<Rightarrow> (s1, Inl e)
              | (s1, Inr v) \<Rightarrow> if vd_accepted v then (s1, Inr ()) else (s1, Inl (raise_for_rejection (vd_reason v))))))"

text \<open>One round after the sleep: inspect, retransmit the capability if its revision changed, heartbeat.\<close>

definition agent_beat :: "'s control_client \<Rightarrow> agent_config \<Rightarrow> int \<Rightarrow> agent_session \<Rightarrow> 's \<Rightarrow> 's \<times> agent_session ares" where
  "agent_beat cc ac sequence session s =
     (case cc_inspect cc s of (s1, Inl e) \<Rightarrow> (s1, Inl (Fatal e))
      | (s1, Inr li) \<Rightarrow>
         let revision = wc_capability_revision (li_capability li) in
         (case (if revision \<noteq> ag_acknowledged_revision session then agent_update_capability cc ac session li s1 else (s1, Inr ())) of
            (s2, Inl e) \<Rightarrow> (s2, Inl e)
          | (s2, Inr _) \<Rightarrow>
             let session' = session\<lparr>ag_acknowledged_revision := revision\<rparr>;
                 req = \<lparr>hb_worker_id = ag_worker_id session, hb_instance_id = ac_instance_id ac, hb_session_id = ag_session_id session,
                        hb_sequence_number = sequence, hb_capability_revision = revision, hb_state = li_state li,
                        hb_worker_reported_at = Some (cc_clock cc s2)\<rparr>
             in (case check_heartbeat_request req of Inl e \<Rightarrow> (s2, Inl (Fatal e))
                 | Inr _ \<Rightarrow> (case agent_call (cc_heartbeat cc req s2) of (s3, Inl e) \<Rightarrow> (s3, Inl e)
                     | (s3, Inr v) \<Rightarrow> if vd_accepted v then (s3, Inr session') else (s3, Inl (raise_for_rejection (vd_reason v)))))))"

datatype loop_end = Stopped | Running agent_session int

fun heartbeat_loop :: "'s control_client \<Rightarrow> agent_config \<Rightarrow> nat \<Rightarrow> int \<Rightarrow> agent_session \<Rightarrow> 's \<Rightarrow> 's \<times> loop_end ares" where
  "heartbeat_loop cc ac 0 sequence session s = (s, Inr (Running session sequence))"
| "heartbeat_loop cc ac (Suc n) sequence session s =
     (if cc_stopping cc s then (s, Inr Stopped)
      else let s1 = cc_sleep cc (ag_interval_s session) s in
        if cc_stopping cc s1 then (s1, Inr Stopped)
        else (case agent_beat cc ac sequence session s1 of (s2, Inl e) \<Rightarrow> (s2, Inl e)
              | (s2, Inr session') \<Rightarrow> heartbeat_loop cc ac n (sequence + 1) session' s2))"

text \<open>The end of \<^verbatim>\<open>run\<close>: it returned, it raised, or the bound on registrations or rounds was reached, in which
  case the live session is the one the profiling plane sees. On every other end the \<^verbatim>\<open>finally\<close> clears it.\<close>

datatype run_end = Returned | Raised exn | Unfinished "agent_session option"

fun agent_run :: "'s control_client \<Rightarrow> agent_config \<Rightarrow> nat \<Rightarrow> nat \<Rightarrow> rat \<Rightarrow> 's \<Rightarrow> 's \<times> run_end" where
  "agent_run cc ac 0 n delay s = (s, Unfinished None)"
| "agent_run cc ac (Suc k) n delay s =
     (if cc_stopping cc s then (s, Returned)
      else case agent_register cc ac s of
        (s1, Inl MasterUnavailable) \<Rightarrow> agent_run cc ac k n (min (delay * 2) (ac_max_delay_s ac)) (cc_sleep cc delay s1)
      | (s1, Inl (Fatal e)) \<Rightarrow> (s1, Raised e)
      | (s1, Inl e) \<Rightarrow> (s1, Raised (RuntimeError ''uncaught''))
      | (s1, Inr session) \<Rightarrow>
          let delay = ac_initial_delay_s ac in
          (case heartbeat_loop cc ac n 1 session s1 of
             (s2, Inr Stopped) \<Rightarrow> agent_run cc ac k n delay s2
           | (s2, Inr (Running session' sequence)) \<Rightarrow> (s2, Unfinished (Some session'))
           | (s2, Inl MasterUnavailable) \<Rightarrow> agent_run cc ac k n (min (delay * 2) (ac_max_delay_s ac)) (cc_sleep cc delay s2)
           | (s2, Inl SessionInvalid) \<Rightarrow> agent_run cc ac k n delay s2
           | (s2, Inl Superseded) \<Rightarrow> (s2, Returned)
           | (s2, Inl (Fatal e)) \<Rightarrow> (s2, Raised e)))"


subsection \<open>What the agent relies on\<close>

text \<open>What a Master holds for one worker, as far as its agent can tell.\<close>

record service_view =
  sv_instance :: string
  sv_session :: string
  sv_last :: int
  sv_capability :: worker_capability

text \<open>An inspection of worker \<open>w\<close> whose parts fit together, as the inspector assembles it.\<close>

definition sound_inspection :: "(string \<Rightarrow> string) \<Rightarrow> string \<Rightarrow> local_inspection \<Rightarrow> bool" where
  "sound_inspection sha256 w li \<longleftrightarrow>
     check_worker_identity (li_identity li) = Inr () \<and> wi_worker_id (li_identity li) = w
     \<and> wi_protocol_version (li_identity li) = CONTROL_PROTOCOL_VERSION
     \<and> check_worker_capability (li_capability li) = Inr () \<and> wc_capability_revision (li_capability li) \<noteq> []
     \<and> wc_capability_revision (li_capability li) = compute_capability_revision sha256 (li_capability li)
     \<and> check_worker_state (li_state li) = Inr () \<and> ws_worker_id (li_state li) = w
     \<and> validate_state_against_capability (li_state li) (li_capability li) = Inr ()"

text \<open>
  The contract of the control plane towards the agent of worker \<open>w\<close>, on the worlds \<open>ok\<close> where calls
  are delivered and no other agent speaks for \<open>w\<close>: an admissible registration is granted a session at
  sequence zero, a heartbeat or update within the session is accepted and recorded, and sleeping leaves
  the registration alone. \<open>possible\<close> is what the inspector may report; equal revisions mean equal
  devices and pools.
\<close>

lemma validate_state_cong:
  assumes "validate_state_against_capability st c = Inr ()" "set (device_ids c) = set (device_ids c')" "set (pool_ids c) = set (pool_ids c')"
  shows "validate_state_against_capability st c' = Inr ()"
  using assms by (simp add: validate_state_Inr)

locale control_service =
  fixes cc :: "'s control_client" and sha256 :: "string \<Rightarrow> string" and w :: string
    and view :: "'s \<Rightarrow> service_view option" and ok :: "'s \<Rightarrow> bool" and possible :: "local_inspection \<Rightarrow> bool"
  assumes possible_sound: "possible li \<Longrightarrow> sound_inspection sha256 w li"
    and possible_revision: "\<lbrakk>possible li; possible li';
      wc_capability_revision (li_capability li) = wc_capability_revision (li_capability li')\<rbrakk>
      \<Longrightarrow> set (device_ids (li_capability li)) = set (device_ids (li_capability li'))
        \<and> set (pool_ids (li_capability li)) = set (pool_ids (li_capability li'))"
    and inspect: "ok s \<Longrightarrow> \<exists>s' li. cc_inspect cc s = (s', Inr li) \<and> possible li \<and> ok s' \<and> view s' = view s"
    and register: "\<lbrakk>ok s; check_register_request req = Inr (); wi_worker_id (rr_identity req) = w;
        wc_capability_revision (rr_capability req) = compute_capability_revision sha256 (rr_capability req);
        validate_state_against_capability (rr_initial_state req) (rr_capability req) = Inr ()\<rbrakk>
      \<Longrightarrow> \<exists>s' resp. cc_register cc req s = (s', Inr resp) \<and> ok s' \<and> rp_session_id resp \<noteq> []
        \<and> view s' = Some \<lparr>sv_instance = rr_instance_id req, sv_session = rp_session_id resp, sv_last = 0, sv_capability = rr_capability req\<rparr>"
    and heartbeat: "\<lbrakk>ok s; check_heartbeat_request hq = Inr (); hb_worker_id hq = w; view s = Some v;
        sv_instance v = hb_instance_id hq; sv_session v = hb_session_id hq; sv_last v < hb_sequence_number hq;
        wc_capability_revision (sv_capability v) = hb_capability_revision hq;
        validate_state_against_capability (hb_state hq) (sv_capability v) = Inr ()\<rbrakk>
      \<Longrightarrow> \<exists>s' u. cc_heartbeat cc hq s = (s', Inr u) \<and> vd_accepted u \<and> ok s'
        \<and> view s' = Some (v\<lparr>sv_last := hb_sequence_number hq\<rparr>)"
    and update: "\<lbrakk>ok s; check_update_request uq = Inr (); uc_worker_id uq = w; view s = Some v;
        sv_instance v = uc_instance_id uq; sv_session v = uc_session_id uq;
        wc_capability_revision (uc_capability uq) = compute_capability_revision sha256 (uc_capability uq);
        validate_state_against_capability (uc_state uq) (uc_capability uq) = Inr ()\<rbrakk>
      \<Longrightarrow> \<exists>s' u. cc_update cc uq s = (s', Inr u) \<and> vd_accepted u \<and> ok s' \<and> view s' = Some (v\<lparr>sv_capability := uc_capability uq\<rparr>)"
    and sleep: "ok s \<Longrightarrow> ok (cc_sleep cc d s) \<and> view (cc_sleep cc d s) = view s"
    and clock: "ok s \<Longrightarrow> ts_aware (cc_clock cc s)"
begin

text \<open>The agent and the service agree: the next sequence number is one beyond the last accepted one and
  the acknowledged revision is that of the stored capability.\<close>

definition in_sync :: "agent_config \<Rightarrow> int \<Rightarrow> agent_session \<Rightarrow> 's \<Rightarrow> bool" where
  "in_sync ac n session s \<longleftrightarrow> ok s \<and> 1 \<le> n \<and> ac_instance_id ac \<noteq> [] \<and> ag_worker_id session = w \<and> ag_session_id session \<noteq> []
     \<and> (\<exists>li. possible li \<and> ag_acknowledged_revision session = wc_capability_revision (li_capability li)
          \<and> view s = Some \<lparr>sv_instance = ac_instance_id ac, sv_session = ag_session_id session, sv_last = n - 1,
               sv_capability = li_capability li\<rparr>)"

lemma agent_register_in_sync:
  assumes "ok s" "ac_instance_id ac \<noteq> []" "ac_profiling_endpoint ac \<noteq> Some []"
  obtains s' session where "agent_register cc ac s = (s', Inr session)" "in_sync ac 1 session s'"
proof -
  obtain s1 li where i: "cc_inspect cc s = (s1, Inr li)" "possible li" "ok s1" using inspect [OF assms(1)] by blast
  define req where "req = \<lparr>rr_protocol_version = CONTROL_PROTOCOL_VERSION, rr_instance_id = ac_instance_id ac, rr_identity = li_identity li,
      rr_capability = li_capability li, rr_initial_state = li_state li, rr_profiling_endpoint = ac_profiling_endpoint ac\<rparr>"
  note snd = possible_sound [OF i(2), unfolded sound_inspection_def]
  have chk: "check_register_request req = Inr ()"
    using snd assms by (simp add: check_register_request_def req_def non_empty_def absent_or_non_empty_def)
  obtain s2 resp where r: "cc_register cc req s1 = (s2, Inr resp)" "ok s2" "rp_session_id resp \<noteq> []"
      "view s2 = Some \<lparr>sv_instance = rr_instance_id req, sv_session = rp_session_id resp, sv_last = 0, sv_capability = rr_capability req\<rparr>"
    using register [OF i(3) chk] snd by (auto simp: req_def)
  show thesis
    by (rule that) (use i r chk assms(2) snd in \<open>auto simp: agent_register_def Let_def agent_call_def in_sync_def simp flip: req_def,
      auto simp: req_def\<close>)
qed

lemma agent_update_in_sync:
  assumes "in_sync ac n session s" "possible li"
  obtains s' where "agent_update_capability cc ac session li s = (s', Inr ())"
    "in_sync ac n (session\<lparr>ag_acknowledged_revision := wc_capability_revision (li_capability li)\<rparr>) s'"
proof -
  define req where "req = \<lparr>uc_worker_id = ag_worker_id session, uc_instance_id = ac_instance_id ac, uc_session_id = ag_session_id session,
                 uc_capability = li_capability li, uc_state = li_state li\<rparr>"
  note snd = possible_sound [OF assms(2), unfolded sound_inspection_def]
  from assms(1) obtain v where v: "ok s" "view s = Some v" "sv_instance v = ac_instance_id ac" "sv_session v = ag_session_id session"
    "sv_last v = n - 1" "1 \<le> n" "ac_instance_id ac \<noteq> []" "ag_worker_id session = w" "ag_session_id session \<noteq> []" "w \<noteq> []"
    using snd by (auto simp: in_sync_def check_worker_identity_def)
  have chk: "check_update_request req = Inr ()"
    using snd v by (simp add: check_update_request_def req_def non_empty_def)
  obtain s' u where u: "cc_update cc req s = (s', Inr u)" "vd_accepted u" "ok s'" "view s' = Some (v\<lparr>sv_capability := uc_capability req\<rparr>)"
    using update [OF v(1) chk _ v(2)] v snd by (auto simp: req_def)
  show thesis
  proof (rule that)
    show "agent_update_capability cc ac session li s = (s', Inr ())"
      using u(1,2) chk by (simp add: agent_update_capability_def Let_def agent_call_def flip: req_def)
    show "in_sync ac n (session\<lparr>ag_acknowledged_revision := wc_capability_revision (li_capability li)\<rparr>) s'"
      using u(3,4) v assms(2) by (auto simp: in_sync_def req_def)
  qed
qed

lemma agent_beat_in_sync:
  assumes "in_sync ac n session s"
  obtains s' session' where "agent_beat cc ac n session s = (s', Inr session')" "in_sync ac (n + 1) session' s'"
    "ag_session_id session' = ag_session_id session"
proof -
  obtain s1 li where i: "cc_inspect cc s = (s1, Inr li)" "possible li" "ok s1" "view s1 = view s"
    using inspect assms unfolding in_sync_def by blast
  have sync1: "in_sync ac n session s1" using assms i(3,4) by (simp add: in_sync_def)
  define rev where "rev = wc_capability_revision (li_capability li)"
  define session' where "session' = session\<lparr>ag_acknowledged_revision := rev\<rparr>"
  obtain s2 where s2: "(if rev \<noteq> ag_acknowledged_revision session then agent_update_capability cc ac session li s1 else (s1, Inr ())) = (s2, Inr ())"
    "in_sync ac n session' s2"
  proof (cases "rev = ag_acknowledged_revision session")
    case True
    with sync1 show thesis by (intro that [of s1]) (simp_all add: session'_def)
  next
    case False
    from agent_update_in_sync [OF sync1 i(2)] False show thesis
      by (metis rev_def session'_def that)
  qed
  from s2(2) obtain li' where v: "ok s2" "1 \<le> n" "ac_instance_id ac \<noteq> []" "ag_worker_id session' = w" "ag_session_id session' \<noteq> []"
    "possible li'" "ag_acknowledged_revision session' = wc_capability_revision (li_capability li')"
    "view s2 = Some \<lparr>sv_instance = ac_instance_id ac, sv_session = ag_session_id session', sv_last = n - 1, sv_capability = li_capability li'\<rparr>"
    by (auto simp: in_sync_def)
  then have same_rev: "wc_capability_revision (li_capability li) = wc_capability_revision (li_capability li')"
    by (simp add: session'_def rev_def)
  note snd = possible_sound [OF i(2), unfolded sound_inspection_def]
  have valid: "validate_state_against_capability (li_state li) (li_capability li') = Inr ()"
    using validate_state_cong possible_revision [OF i(2) v(6) same_rev] snd by blast
  define req where "req = \<lparr>hb_worker_id = ag_worker_id session, hb_instance_id = ac_instance_id ac, hb_session_id = ag_session_id session,
      hb_sequence_number = n, hb_capability_revision = rev, hb_state = li_state li, hb_worker_reported_at = Some (cc_clock cc s2)\<rparr>"
  have chk: "check_heartbeat_request req = Inr ()"
    using snd v clock [OF v(1)] by (auto simp: check_heartbeat_request_def req_def non_empty_def session'_def rev_def check_worker_identity_def require_aware_def)
  obtain s3 u where u: "cc_heartbeat cc req s2 = (s3, Inr u)" "vd_accepted u" "ok s3"
    "view s3 = Some \<lparr>sv_instance = ac_instance_id ac, sv_session = ag_session_id session', sv_last = n, sv_capability = li_capability li'\<rparr>"
    using heartbeat [OF v(1) chk _ v(8)] v same_rev valid by (auto simp: req_def session'_def rev_def)
  show thesis
  proof (rule that)
    show "agent_beat cc ac n session s = (s3, Inr session')"
      using i(1) s2(1) chk u(1,2) by (simp add: agent_beat_def Let_def agent_call_def flip: rev_def req_def session'_def)
    show "in_sync ac (n + 1) session' s3"
      using u v by (auto simp: in_sync_def)
  qed (simp add: session'_def)
qed

lemma heartbeat_loop_in_sync:
  assumes "in_sync ac n session s" "\<And>s. ok s \<Longrightarrow> \<not> cc_stopping cc s"
  obtains s' session' where "heartbeat_loop cc ac k n session s = (s', Inr (Running session' (n + int k)))"
    "in_sync ac (n + int k) session' s'" "ag_session_id session' = ag_session_id session"
proof -
  have "\<exists>s' session'. heartbeat_loop cc ac k n session s = (s', Inr (Running session' (n + int k)))
      \<and> in_sync ac (n + int k) session' s' \<and> ag_session_id session' = ag_session_id session"
    using assms(1)
  proof (induction k arbitrary: n session s)
    case (Suc k)
    have "ok s" using Suc.prems by (simp add: in_sync_def)
    note oks = assms(2) [OF this] assms(2) [OF conjunct1 [OF sleep [OF this]]]
    have "in_sync ac n session (cc_sleep cc (ag_interval_s session) s)"
      using Suc.prems sleep by (auto simp: in_sync_def)
    from agent_beat_in_sync [OF this] obtain s2 session2 where
      b: "agent_beat cc ac n session (cc_sleep cc (ag_interval_s session) s) = (s2, Inr session2)" "in_sync ac (n + 1) session2 s2"
      "ag_session_id session2 = ag_session_id session" by metis
    from Suc.IH [OF b(2)] obtain s' session' where
      "heartbeat_loop cc ac k (n + 1) session2 s2 = (s', Inr (Running session' (n + 1 + int k)))"
      "in_sync ac (n + 1 + int k) session' s'" "ag_session_id session' = ag_session_id session2" by blast
    with b show ?case by (simp add: oks Let_def add.assoc add.commute [of 1])
  qed simp
  then show thesis using that by blast
qed

lemma agent_run_in_sync:
  assumes "ok s" "ac_instance_id ac \<noteq> []" "ac_profiling_endpoint ac \<noteq> Some []" "\<And>s. ok s \<Longrightarrow> \<not> cc_stopping cc s"
  obtains s' session where "agent_run cc ac (Suc k) n delay s = (s', Unfinished (Some session))" "in_sync ac (int n + 1) session s'"
proof -
  obtain s1 session where r: "agent_register cc ac s = (s1, Inr session)" "in_sync ac 1 session s1"
    using agent_register_in_sync [OF assms(1-3)] .
  obtain s' session' where "heartbeat_loop cc ac n 1 session s1 = (s', Inr (Running session' (1 + int n)))"
    "in_sync ac (1 + int n) session' s'"
    using heartbeat_loop_in_sync [OF r(2) assms(4)] .
  with r(1) show thesis by (intro that [of s' session']) (simp_all add: assms(1,4) add.commute)
qed

end


subsection \<open>Agents and a Master in one world\<close>

text \<open>The servicer turns the two kinds of refusal into an abort with \<^verbatim>\<open>INVALID_ARGUMENT\<close>; any other
  exception of a handler reaches the client as \<^verbatim>\<open>UNKNOWN\<close>.\<close>

fun servicer_status :: "'a res \<Rightarrow> 'a res" where
  "servicer_status (Inl (ControlProtocolError x)) = Inl (AioRpcError INVALID_ARGUMENT)"
| "servicer_status (Inl (ValueError x)) = Inl (AioRpcError INVALID_ARGUMENT)"
| "servicer_status (Inl e) = Inl (AioRpcError ''UNKNOWN'')"
| "servicer_status (Inr a) = Inr a"

datatype link = Up | CallLost | ReplyLost

text \<open>One agent's surroundings: the Master, and for every step of the agent what the clocks read, what
  the inspector reports, what the other processes send to the Master while the agent sleeps, whether a
  call gets through, and whether the agent has been asked to stop.\<close>

record world =
  wd_master :: master
  wd_tick :: nat
  wd_env :: "nat \<Rightarrow> call_env"
  wd_inspect :: "nat \<Rightarrow> local_inspection res"
  wd_others :: "nat \<Rightarrow> (call_env \<times> call) list"
  wd_link :: "nat \<Rightarrow> link"
  wd_stop :: "nat \<Rightarrow> bool"
  wd_slept :: "rat list"

definition world_call :: "(call_env \<Rightarrow> master \<Rightarrow> master \<times> 'a res) \<Rightarrow> world \<Rightarrow> world \<times> 'a res" where
  "world_call f s =
     (let (m, r) = f (wd_env s (wd_tick s)) (wd_master s); s' = s\<lparr>wd_tick := wd_tick s + 1\<rparr> in
      case wd_link s (wd_tick s) of
        Up \<Rightarrow> (s'\<lparr>wd_master := m\<rparr>, servicer_status r)
      | CallLost \<Rightarrow> (s', Inl (AioRpcError ''UNAVAILABLE''))
      | ReplyLost \<Rightarrow> (s'\<lparr>wd_master := m\<rparr>, Inl (AioRpcError ''UNAVAILABLE'')))"

definition world_client :: "(string \<Rightarrow> string) \<Rightarrow> world control_client" where
  "world_client sha256 = \<lparr>
     cc_register = (\<lambda>req. world_call (\<lambda>env. register_worker sha256 env req)),
     cc_heartbeat = (\<lambda>req. world_call (\<lambda>env. heartbeat env req)),
     cc_update = (\<lambda>req. world_call (\<lambda>env. update_capability sha256 env req)),
     cc_inspect = (\<lambda>s. (s\<lparr>wd_tick := wd_tick s + 1\<rparr>, wd_inspect s (wd_tick s))),
     cc_sleep = (\<lambda>d s. s\<lparr>wd_tick := wd_tick s + 1, wd_slept := wd_slept s @ [d],
                         wd_master := run_calls sha256 (wd_others s (wd_tick s)) (wd_master s)\<rparr>),
     cc_clock = (\<lambda>s. ce_wall (wd_env s (wd_tick s))),
     cc_stopping = (\<lambda>s. wd_stop s (wd_tick s))\<rparr>"

fun concerns :: "string \<Rightarrow> call \<Rightarrow> bool" where
  "concerns w (Register r) = (wi_worker_id (rr_identity r) = w)"
| "concerns w (Heartbeat r) = (hb_worker_id r = w)"
| "concerns w (Update r) = (uc_worker_id r = w)"
| "concerns w Tick = False"

definition master_view :: "string \<Rightarrow> master \<Rightarrow> service_view option" where
  "master_view w m = (case (map_of (ms_sessions m) w, map_of (ms_registry m) w) of
     (Some se, Some r) \<Rightarrow> Some \<lparr>sv_instance = si_instance_id se, sv_session = si_session_id se,
        sv_last = si_last_accepted_sequence se, sv_capability = wr_capability r\<rparr>
   | _ \<Rightarrow> None)"

text \<open>An inspector that always reports a sound inspection of \<open>w\<close> and never gives two capabilities with
  different devices or pools the same revision.\<close>

definition honest_inspector :: "(string \<Rightarrow> string) \<Rightarrow> string \<Rightarrow> (nat \<Rightarrow> local_inspection res) \<Rightarrow> bool" where
  "honest_inspector sha256 w insp \<longleftrightarrow>
     (\<forall>t. \<exists>li. insp t = Inr li \<and> sound_inspection sha256 w li)
     \<and> (\<forall>t t' li li'. insp t = Inr li \<longrightarrow> insp t' = Inr li'
          \<longrightarrow> wc_capability_revision (li_capability li) = wc_capability_revision (li_capability li')
          \<longrightarrow> set (device_ids (li_capability li)) = set (device_ids (li_capability li'))
            \<and> set (pool_ids (li_capability li)) = set (pool_ids (li_capability li')))"

definition reports :: "(string \<Rightarrow> string) \<Rightarrow> string \<Rightarrow> (nat \<Rightarrow> local_inspection res) \<Rightarrow> local_inspection \<Rightarrow> bool" where
  "reports sha256 w insp li \<longleftrightarrow> honest_inspector sha256 w insp \<and> (\<exists>t. insp t = Inr li)"

text \<open>A world in which the agent of \<open>w\<close> is left alone: calls get through, nobody asks it to stop, and
  what the other processes send does not concern \<open>w\<close>.\<close>

definition quiet_world :: "(string \<Rightarrow> string) \<Rightarrow> string \<Rightarrow> (nat \<Rightarrow> local_inspection res) \<Rightarrow> world \<Rightarrow> bool" where
  "quiet_world sha256 w insp s \<longleftrightarrow>
     master_ok sha256 (wd_master s) \<and> honest_inspector sha256 w insp \<and> wd_inspect s = insp
     \<and> (\<forall>t. env_ok (wd_env s t) \<and> wd_link s t = Up \<and> \<not> wd_stop s t
          \<and> run_ok (wd_others s t) \<and> (\<forall>(env, c)\<in>set (wd_others s t). \<not> concerns w c))"

lemma handle_other:
  assumes "\<not> concerns w c" "master_ok sha256 m"
  shows "map_of (ms_sessions (fst (handle sha256 env c m))) w = map_of (ms_sessions m) w"
    and "map_of (ms_registry (fst (handle sha256 env c m))) w = map_of (ms_registry m) w"
proof -
  have id: "wi_worker_id (wr_identity r) = k" if "map_of (ms_registry m) k = Some r" for k r
    using master_okD [OF assms(2) that] by (auto simp: entry_ok_def)
  note unf = registry_upsert_def open_session_def states_record_def record_accepted_sequence_def registry_get_def
    lift_st_def bind_st_def Let_def
  show "map_of (ms_sessions (fst (handle sha256 env c m))) w = map_of (ms_sessions m) w"
    using assms(1)
    by (cases c) (auto simp: register_worker_def heartbeat_def update_capability_def evaluate_def unf update_conv'
        split: sum.splits option.splits prod.splits)
  show "map_of (ms_registry (fst (handle sha256 env c m))) w = map_of (ms_registry m) w"
    using assms(1) id
    by (cases c) (auto simp: register_worker_def heartbeat_def update_capability_def evaluate_def unf update_conv'
        split: sum.splits option.splits prod.splits)
qed

lemma run_calls_other:
  assumes "master_ok sha256 m" "run_ok evs" "\<forall>(env, c)\<in>set evs. \<not> concerns w c"
  shows "master_view w (run_calls sha256 evs m) = master_view w m"
  using assms
proof (induction evs arbitrary: m)
  case (Cons ev evs)
  obtain env c where ev: "ev = (env, c)" by (cases ev)
  with Cons.prems have c: "\<not> concerns w c" "call_ok c" "env_ok env" "run_ok evs" "\<forall>(env, c)\<in>set evs. \<not> concerns w c" by auto
  from Cons.IH [OF master_ok_handle [OF Cons.prems(1) c(2,3)] c(4,5)] handle_other [OF c(1) Cons.prems(1), of env]
  show ?case by (simp add: ev master_view_def)
qed simp

lemma world_client_simps [simp]:
  "cc_register (world_client sha256) rq = world_call (\<lambda>env. register_worker sha256 env rq)"
  "cc_heartbeat (world_client sha256) hq = world_call (\<lambda>env. heartbeat env hq)"
  "cc_update (world_client sha256) uq = world_call (\<lambda>env. update_capability sha256 env uq)"
  "cc_inspect (world_client sha256) s = (s\<lparr>wd_tick := wd_tick s + 1\<rparr>, wd_inspect s (wd_tick s))"
  "cc_sleep (world_client sha256) d s = s\<lparr>wd_tick := wd_tick s + 1, wd_slept := wd_slept s @ [d],
     wd_master := run_calls sha256 (wd_others s (wd_tick s)) (wd_master s)\<rparr>"
  "cc_clock (world_client sha256) s = ce_wall (wd_env s (wd_tick s))"
  "cc_stopping (world_client sha256) s = wd_stop s (wd_tick s)"
  by (simp_all add: world_client_def)

lemma world_call_up:
  assumes "wd_link s (wd_tick s) = Up" "f (wd_env s (wd_tick s)) (wd_master s) = (m, Inr a)"
  shows "world_call f s = (s\<lparr>wd_tick := wd_tick s + 1, wd_master := m\<rparr>, Inr a)"
  using assms by (simp add: world_call_def)

lemma quiet_world_put: "\<lbrakk>quiet_world sha256 w insp s; master_ok sha256 m\<rbrakk>
    \<Longrightarrow> quiet_world sha256 w insp (s\<lparr>wd_tick := t, wd_master := m\<rparr>)"
  by (simp add: quiet_world_def)

interpretation agent_master: control_service "world_client sha256" sha256 w "\<lambda>s. master_view w (wd_master s)"
    "quiet_world sha256 w insp" "reports sha256 w insp" for sha256 w insp
proof unfold_locales
  fix li assume "reports sha256 w insp li"
  then show "sound_inspection sha256 w li" unfolding reports_def honest_inspector_def by (metis sum.inject(2))
next
  fix li li' assume "reports sha256 w insp li" "reports sha256 w insp li'"
    "wc_capability_revision (li_capability li) = wc_capability_revision (li_capability li')"
  then show "set (device_ids (li_capability li)) = set (device_ids (li_capability li'))
        \<and> set (pool_ids (li_capability li)) = set (pool_ids (li_capability li'))"
    unfolding reports_def honest_inspector_def by blast
next
  fix s assume q: "quiet_world sha256 w insp s"
  then obtain li where "wd_inspect s (wd_tick s) = Inr li" "reports sha256 w insp li"
    unfolding quiet_world_def reports_def honest_inspector_def by metis
  with q show "\<exists>s' li. cc_inspect (world_client sha256) s = (s', Inr li) \<and> reports sha256 w insp li
      \<and> quiet_world sha256 w insp s' \<and> master_view w (wd_master s') = master_view w (wd_master s)"
    by (intro exI [of _ "s\<lparr>wd_tick := wd_tick s + 1\<rparr>"] exI [of _ li]) (simp add: quiet_world_def)
next
  fix s and req :: register_request
  assume q: "quiet_world sha256 w insp s" and chk: "check_register_request req = Inr ()" and id: "wi_worker_id (rr_identity req) = w"
    and adm: "wc_capability_revision (rr_capability req) = compute_capability_revision sha256 (rr_capability req)"
      "validate_state_against_capability (rr_initial_state req) (rr_capability req) = Inr ()"
  let ?env = "wd_env s (wd_tick s)" and ?m = "wd_master s"
  from q have ok: "master_ok sha256 ?m" "env_ok ?env" "wd_link s (wd_tick s) = Up" by (auto simp: quiet_world_def)
  have ra: "register_admits sha256 req" using adm by (simp add: register_admits_def)
  have cfg: "check_master_config (ms_config ?m) = Inr ()" using ok(1) by (simp add: master_ok_def)
  note call = world_call_up [where f = "\<lambda>env. register_worker sha256 env req", OF ok(3) register_worker_admitted [OF chk ok(2) cfg ra]]
  show "\<exists>s' resp. cc_register (world_client sha256) req s = (s', Inr resp) \<and> quiet_world sha256 w insp s' \<and> rp_session_id resp \<noteq> []
        \<and> master_view w (wd_master s') = Some \<lparr>sv_instance = rr_instance_id req, sv_session = rp_session_id resp, sv_last = 0,
            sv_capability = rr_capability req\<rparr>"
    using call quiet_world_put [OF q master_ok_register [OF ok(1) chk ok(2) ra]] id ok(2)
    by (simp add: master_view_def registered_def Let_def update_conv' env_ok_def)
next
  fix s v and req :: heartbeat_request
  assume q: "quiet_world sha256 w insp s" and chk: "check_heartbeat_request req = Inr ()" and id: "hb_worker_id req = w"
    and v: "master_view w (wd_master s) = Some v"
      "sv_instance v = hb_instance_id req" "sv_session v = hb_session_id req" "sv_last v < hb_sequence_number req"
      "wc_capability_revision (sv_capability v) = hb_capability_revision req"
      "validate_state_against_capability (hb_state req) (sv_capability v) = Inr ()"
  let ?env = "wd_env s (wd_tick s)" and ?m = "wd_master s"
  from q have ok: "master_ok sha256 ?m" "env_ok ?env" "wd_link s (wd_tick s) = Up" by (auto simp: quiet_world_def)
  from v id obtain se r where sr: "map_of (ms_sessions ?m) (hb_worker_id req) = Some se" "map_of (ms_registry ?m) (hb_worker_id req) = Some r"
    "v = \<lparr>sv_instance = si_instance_id se, sv_session = si_session_id se,
        sv_last = si_last_accepted_sequence se, sv_capability = wr_capability r\<rparr>"
    by (auto simp: master_view_def split: option.splits)
  have ha: "heartbeat_admits req se r" using v sr(3) by (simp add: heartbeat_admits_def)
  have st: "ws_worker_id (hb_state req) = hb_worker_id req" using chk by (auto simp: check_heartbeat_request_def)
  note call = world_call_up [where f = "\<lambda>env. heartbeat env req", OF ok(3) heartbeat_accepted [OF st ok(2) sr(1,2) ha]]
  show "\<exists>s' u. cc_heartbeat (world_client sha256) req s = (s', Inr u) \<and> vd_accepted u \<and> quiet_world sha256 w insp s'
        \<and> master_view w (wd_master s') = Some (v\<lparr>sv_last := hb_sequence_number req\<rparr>)"
    using call quiet_world_put [OF q master_ok_heartbeat [OF ok(1) chk ok(2) sr(1,2) ha]] id sr
    by (simp add: master_view_def beaten_def update_conv')
next
  fix s v and req :: update_request
  assume q: "quiet_world sha256 w insp s" and chk: "check_update_request req = Inr ()" and id: "uc_worker_id req = w"
    and v: "master_view w (wd_master s) = Some v"
      "sv_instance v = uc_instance_id req" "sv_session v = uc_session_id req"
      "wc_capability_revision (uc_capability req) = compute_capability_revision sha256 (uc_capability req)"
      "validate_state_against_capability (uc_state req) (uc_capability req) = Inr ()"
  let ?env = "wd_env s (wd_tick s)" and ?m = "wd_master s"
  from q have ok: "master_ok sha256 ?m" "env_ok ?env" "wd_link s (wd_tick s) = Up" by (auto simp: quiet_world_def)
  from v id obtain se r where sr: "map_of (ms_sessions ?m) (uc_worker_id req) = Some se" "map_of (ms_registry ?m) (uc_worker_id req) = Some r"
    "v = \<lparr>sv_instance = si_instance_id se, sv_session = si_session_id se,
        sv_last = si_last_accepted_sequence se, sv_capability = wr_capability r\<rparr>"
    by (auto simp: master_view_def split: option.splits)
  have ua: "update_admits sha256 req se" using v sr(3) by (simp add: update_admits_def)
  obtain e where "entry_ok sha256 (uc_worker_id req) r se e" using master_okD [OF ok(1) sr(2)] sr(1) by force
  then have en: "wi_worker_id (wr_identity r) = uc_worker_id req" "uc_worker_id req \<noteq> []" "wr_profiling_endpoint r \<noteq> Some []"
    by (auto simp: entry_ok_def)
  have st: "ws_worker_id (uc_state req) = uc_worker_id req" using chk by (auto simp: check_update_request_def)
  note call = world_call_up [where f = "\<lambda>env. update_capability sha256 env req", OF ok(3) update_capability_accepted [OF st ok(2) sr(1,2) en ua]]
  show "\<exists>s' u. cc_update (world_client sha256) req s = (s', Inr u) \<and> vd_accepted u \<and> quiet_world sha256 w insp s'
        \<and> master_view w (wd_master s') = Some (v\<lparr>sv_capability := uc_capability req\<rparr>)"
    using call quiet_world_put [OF q master_ok_update [OF ok(1) chk ok(2) sr(1,2) ua]] id sr
    by (simp add: master_view_def updated_def update_conv')
next
  fix s and d :: rat assume q: "quiet_world sha256 w insp s"
  then have others: "master_ok sha256 (wd_master s)" "run_ok (wd_others s (wd_tick s))"
    "\<forall>(env, c)\<in>set (wd_others s (wd_tick s)). \<not> concerns w c" by (auto simp: quiet_world_def)
  show "quiet_world sha256 w insp (cc_sleep (world_client sha256) d s)
      \<and> master_view w (wd_master (cc_sleep (world_client sha256) d s)) = master_view w (wd_master s)"
    using q run_calls_other [OF others] master_ok_run [OF others(1,2)] by (simp add: quiet_world_def)
next
  fix s assume "quiet_world sha256 w insp s"
  then show "ts_aware (cc_clock (world_client sha256) s)" by (simp add: quiet_world_def env_ok_def)
qed


subsection \<open>A superseded agent\<close>

text \<open>A call that the Master refuses because another registration owns the session leaves it unchanged
  and ends the agent's loop.\<close>

lemma stale_heartbeat:
  assumes "map_of (ms_sessions m) (hb_worker_id req) = Some se" "si_session_id se \<noteq> hb_session_id req"
  shows "heartbeat env req m = (m, Inr \<lparr>vd_accepted = False, vd_detail = ''stale session'', vd_reason = Some STALE_SESSION\<rparr>)"
  using heartbeat_rejected [of req m "\<lparr>rj_reason = STALE_SESSION, rj_detail = ''stale session''\<rparr>"] assms
  by (simp add: heartbeat_rejection_def check_heartbeat_def)

lemma stale_update:
  assumes "map_of (ms_sessions m) (uc_worker_id req) = Some se" "si_session_id se \<noteq> uc_session_id req"
  shows "update_capability sha256 env req m = (m, Inr \<lparr>vd_accepted = False, vd_detail = ''stale session'', vd_reason = Some STALE_SESSION\<rparr>)"
  using assms by (simp add: update_capability_def check_session_def)

lemma agent_beat_superseded:
  assumes "sound_inspection sha256 (ag_worker_id session) li" "wd_inspect s (wd_tick s) = Inr li"
    and "\<And>t. wd_link s t = Up \<and> env_ok (wd_env s t)" "ac_instance_id ac \<noteq> []" "ag_session_id session \<noteq> []"
    and "map_of (ms_sessions (wd_master s)) (ag_worker_id session) = Some se" "si_session_id se \<noteq> ag_session_id session"
  obtains s' where "\<forall>n\<ge>1. agent_beat (world_client sha256) ac n session s = (s', Inl Superseded)" "wd_master s' = wd_master s"
proof -
  note snd = assms(1) [unfolded sound_inspection_def]
  define s1 where "s1 = s\<lparr>wd_tick := wd_tick s + 1\<rparr>"
  have w: "ag_worker_id session \<noteq> []" using snd by (auto simp: check_worker_identity_def)
  have aware: "ts_aware (ce_wall (wd_env s (Suc (wd_tick s))))" using assms(3) by (simp add: env_ok_def)
  note up = assms(3) [THEN conjunct1] and se = assms(6,7)
  show thesis
  proof (cases "wc_capability_revision (li_capability li) = ag_acknowledged_revision session")
    case True
    with assms(2) snd assms(4,5) w aware up show thesis
      by (intro that [of "s1\<lparr>wd_tick := wd_tick s1 + 1, wd_master := wd_master s1\<rparr>"])
        (auto simp: agent_beat_def Let_def s1_def check_heartbeat_request_def non_empty_def require_aware_def agent_call_def
          world_call_def stale_heartbeat [where se = se] se)
  next
    case False
    with assms(2) snd assms(4,5) w up show thesis
      by (intro that [of "s1\<lparr>wd_tick := wd_tick s1 + 1, wd_master := wd_master s1\<rparr>"])
        (auto simp: agent_beat_def Let_def s1_def check_update_request_def non_empty_def agent_call_def agent_update_capability_def
          world_call_def stale_update [where se = se] se)
  qed
qed


text \<open>A larger bound on the rounds continues a loop that the smaller one cut off, and changes no other end.\<close>

lemma heartbeat_loop_add:
  "heartbeat_loop cc ac (n + m) q session s =
     (case heartbeat_loop cc ac n q session s of
        (s', Inr (Running session' q')) \<Rightarrow> heartbeat_loop cc ac m q' session' s'
      | other \<Rightarrow> other)"
  by (induction n arbitrary: q session s) (simp_all add: Let_def split: prod.split sum.split)

lemma agent_beat_session:
  "agent_beat cc ac q session s = (s', Inr session') \<Longrightarrow>
   ag_worker_id session' = ag_worker_id session \<and> ag_session_id session' = ag_session_id session
   \<and> ag_interval_s session' = ag_interval_s session"
  by (auto simp: agent_beat_def Let_def split: prod.splits sum.splits if_splits)

lemma heartbeat_loop_session:
  "heartbeat_loop cc ac n q session s = (s', Inr (Running session' q')) \<Longrightarrow>
   q' = q + int n \<and> ag_session_id session' = ag_session_id session"
proof (induction n arbitrary: q session s)
  case (Suc n)
  then obtain s2 session2 where b: "agent_beat cc ac q session (cc_sleep cc (ag_interval_s session) s) = (s2, Inr session2)"
    "heartbeat_loop cc ac n (q + 1) session2 s2 = (s', Inr (Running session' q'))"
    by (auto simp: Let_def split: prod.splits sum.splits if_splits)
  from Suc.IH [OF b(2)] agent_beat_session [OF b(1)] show ?case by simp
qed simp

lemma agent_run_superseded:
  assumes "agent_run cc ac k n delay s = (s1, Unfinished (Some session))"
    and "\<And>q. 1 \<le> q \<Longrightarrow> heartbeat_loop cc ac (Suc m) q session s1 = (s', Inl Superseded)"
  shows "agent_run cc ac k (n + Suc m) delay s = (s', Returned)"
  using assms(1)
proof (induction k arbitrary: delay s)
  case (Suc k)
  show ?case
  proof (cases "agent_register cc ac s")
    case (Pair sr r)
    show ?thesis
    proof (cases r)
      case (Inl e)
      with Suc Pair show ?thesis by (cases e) (simp_all split: if_splits)
    next
      case (Inr session0)
      obtain sl e where loop: "heartbeat_loop cc ac n 1 session0 sr = (sl, e)" by (cases "heartbeat_loop cc ac n 1 session0 sr")
      note more = heartbeat_loop_add [of cc ac n "Suc m" 1 session0 sr, unfolded loop]
      show ?thesis
      proof (cases "\<exists>session' q. e = Inr (Running session' q)")
        case True
        then obtain session' q where e: "e = Inr (Running session' q)" by blast
        with Suc.prems Pair Inr loop have "session' = session" "sl = s1" "\<not> cc_stopping cc s" by (auto split: if_splits)
        with more e assms(2) [of q] heartbeat_loop_session [OF loop [unfolded e]] Pair Inr show ?thesis by simp
      next
        case False
        have end': "(\<exists>x. e = Inl x) \<or> e = Inr Stopped"
        proof (cases e)
          case (Inr b)
          with False show ?thesis by (cases b) auto
        qed simp
        with more have "heartbeat_loop cc ac (n + Suc m) 1 session0 sr = (sl, e)" by auto
        with Suc Pair Inr loop end' show ?thesis by (auto simp: Let_def split: if_splits agent_exn.splits)
      qed
    qed
  qed
qed simp


subsection \<open>Backoff\<close>

definition backoff :: "agent_config \<Rightarrow> rat \<Rightarrow> nat \<Rightarrow> rat" where
  "backoff ac delay i = (if i = 0 then delay else min (delay * 2 ^ i) (ac_max_delay_s ac))"

lemma backoff_Suc: "backoff ac (min (delay * 2) (ac_max_delay_s ac)) i = backoff ac delay (Suc i)"
  if "0 < delay" "0 < ac_max_delay_s ac"
proof -
  have "min (min (delay * 2) (ac_max_delay_s ac) * 2 ^ i) (ac_max_delay_s ac) = min (delay * 2 * 2 ^ i) (ac_max_delay_s ac)"
  proof (cases "delay * 2 \<le> ac_max_delay_s ac")
    case False
    have "ac_max_delay_s ac \<le> ac_max_delay_s ac * 2 ^ i" using that(2) by simp
    moreover have "ac_max_delay_s ac * 2 ^ i \<le> delay * 2 * 2 ^ i" using False by (intro mult_right_mono) auto
    ultimately have "ac_max_delay_s ac \<le> delay * 2 * 2 ^ i" "ac_max_delay_s ac \<le> ac_max_delay_s ac * 2 ^ i" by linarith+
    then show ?thesis using False by (simp only: min_absorb2 not_le less_imp_le)
  qed (simp add: min_def)
  then show ?thesis by (simp add: backoff_def mult.assoc)
qed

lemma agent_register_unreachable:
  assumes "sound_inspection sha256 w li" "wd_inspect s (wd_tick s) = Inr li" "\<And>t. wd_link s t = CallLost"
    and "ac_instance_id ac \<noteq> []" "ac_profiling_endpoint ac \<noteq> Some []"
  shows "agent_register (world_client sha256) ac s = (s\<lparr>wd_tick := wd_tick s + 2\<rparr>, Inl MasterUnavailable)"
  using assms
  by (auto simp: agent_register_def Let_def sound_inspection_def check_register_request_def non_empty_def absent_or_non_empty_def
      agent_call_def world_call_def case_prod_unfold INVALID_ARGUMENT_def)

lemma agent_run_unreachable:
  assumes "\<And>t. \<exists>li. wd_inspect s t = Inr li \<and> sound_inspection sha256 w li" "\<And>t. wd_link s t = CallLost \<and> \<not> wd_stop s t"
    and "ac_instance_id ac \<noteq> []" "ac_profiling_endpoint ac \<noteq> Some []" "0 < delay" "0 < ac_max_delay_s ac"
  shows "\<exists>s'. agent_run (world_client sha256) ac k n delay s = (s', Unfinished None)
    \<and> wd_slept s' = wd_slept s @ map (backoff ac delay) [0..<k]"
  using assms(1,2,5)
proof (induction k arbitrary: s delay)
  case (Suc k)
  let ?s = "s\<lparr>wd_tick := wd_tick s + 2\<rparr>" and ?cc = "world_client sha256"
  obtain li where li: "wd_inspect s (wd_tick s) = Inr li" "sound_inspection sha256 w li" using Suc.prems(1) by blast
  have reg: "agent_register ?cc ac s = (?s, Inl MasterUnavailable)"
    using agent_register_unreachable [OF li(2,1) _ assms(3,4)] Suc.prems(2) by blast
  have pos: "0 < min (delay * 2) (ac_max_delay_s ac)" using Suc.prems(3) assms(6) by simp
  obtain s' where s': "agent_run ?cc ac k n (min (delay * 2) (ac_max_delay_s ac)) (cc_sleep ?cc delay ?s) = (s', Unfinished None)"
    "wd_slept s' = wd_slept s @ [delay] @ map (backoff ac (min (delay * 2) (ac_max_delay_s ac))) [0..<k]"
    using Suc.IH [of "cc_sleep ?cc delay ?s", OF _ _ pos] Suc.prems(1,2) by auto
  have "map (backoff ac delay) [0..<Suc k] = delay # map (\<lambda>i. backoff ac delay (Suc i)) [0..<k]"
    by (simp add: backoff_def map_upt_Suc del: upt_Suc)
  with s' reg Suc.prems(2,3) assms(6) show ?case by (simp add: backoff_Suc del: upt_Suc)
qed simp


subsection \<open>Assembly does not depend on the order of the probes\<close>

lemma set_map_filter: "set (List.map_filter f xs) = {y. \<exists>x\<in>set xs. f x = Some y}"
  by (induction xs) (auto simp: List.map_filter_simps split: option.splits)

lemma single_None: "single f frs = Inr None \<longleftrightarrow> {y. \<exists>x\<in>set frs. f x = Some y} = {}"
  unfolding single_def set_map_filter [symmetric] by (auto split: list.split)

lemma single_Some: "single f frs = Inr (Some v) \<longleftrightarrow> {y. \<exists>x\<in>set frs. f x = Some y} = {v}"
  unfolding single_def set_map_filter [symmetric] by (auto simp: list_ex_iff split: list.split)

lemma single_perm: "set frs = set frs' \<Longrightarrow> single f frs = Inr r \<Longrightarrow> single f frs' = Inr r"
  by (cases r) (simp_all add: single_None single_Some)

lemma mset_concat_map: "mset frs = mset frs' \<Longrightarrow> mset (concat (map f frs)) = mset (concat (map f frs'))"
  unfolding mset_concat map_map comp_def
  by (metis mset_map sum_mset_sum_list)

lemma check_worker_capability_perm:
  assumes "check_worker_capability a = Inr ()" "wc_architecture b = wc_architecture a" "wc_os b = wc_os a"
    "wc_container_runtime b = wc_container_runtime a" "mset (wc_network_interfaces b) = mset (wc_network_interfaces a)"
    "mset (wc_devices b) = mset (wc_devices a)" "mset (wc_memory_pools b) = mset (wc_memory_pools a)"
    "mset (wc_runtime_platforms b) = mset (wc_runtime_platforms a)"
  shows "check_worker_capability b = Inr ()"
proof -
  have sets: "set (wc_network_interfaces b) = set (wc_network_interfaces a)" "set (wc_devices b) = set (wc_devices a)"
    "set (wc_memory_pools b) = set (wc_memory_pools a)" "set (wc_runtime_platforms b) = set (wc_runtime_platforms a)"
    using assms(5-8) mset_eq_setD by blast+
  have ids: "mset (device_ids b) = mset (device_ids a)" "mset (pool_ids b) = mset (pool_ids a)"
    using assms(6,7) by (simp_all add: device_ids_def pool_ids_def)
  then have "distinct (device_ids b) = distinct (device_ids a)" "distinct (pool_ids b) = distinct (pool_ids a)"
    "set (pool_ids b) = set (pool_ids a)"
    using mset_eq_imp_distinct_iff mset_eq_setD by blast+
  with assms(1-4) sets show ?thesis by (simp add: check_worker_capability_def for_res_Inr cong: option.case_cong)
qed

lemma same_up_to_order_perm:
  assumes "mset xs = mset ys" "\<And>x. r x x"
  shows "same_up_to_order r xs ys"
  unfolding same_up_to_order_def using assms by (intro exI [of _ xs]) (simp add: list.rel_refl_strong)


subsection \<open>An example world\<close>

definition demo_inspection :: local_inspection where
  "demo_inspection = \<lparr>li_identity = demo_identity, li_capability = demo_capability, li_state = demo_state\<rparr>"

definition demo_world :: "(nat \<Rightarrow> link) \<Rightarrow> (nat \<Rightarrow> (call_env \<times> call) list) \<Rightarrow> world" where
  "demo_world l others = \<lparr>wd_master = master_init demo_master_config, wd_tick = 0,
     wd_env = (\<lambda>t. demo_call (of_nat t) (CHR ''s'' # replicate t (CHR ''x''))), wd_inspect = (\<lambda>_. Inr demo_inspection),
     wd_others = others, wd_link = l, wd_stop = (\<lambda>_. False), wd_slept = []\<rparr>"

definition demo_agent :: agent_config where
  "demo_agent = \<lparr>ac_instance_id = ''i'', ac_profiling_endpoint = None, ac_initial_delay_s = 1, ac_max_delay_s = 30\<rparr>"

lemma demo_inspection_sound [simp]: "sound_inspection demo_hash ''w'' demo_inspection"
  by (simp add: sound_inspection_def demo_inspection_def CONTROL_PROTOCOL_VERSION_def)

lemma demo_quiet: "quiet_world demo_hash ''w'' (\<lambda>_. Inr demo_inspection) (demo_world (\<lambda>_. Up) (\<lambda>_. []))"
  by (simp add: quiet_world_def demo_world_def master_ok_init honest_inspector_def run_ok_def)


subsection \<open>Properties\<close>

text \<open>[C8] An agent and the Master stay in step: in a world where its calls get through and nobody else
  registers as its worker, whatever other workers do meanwhile and however often the agent's own
  capability changes, the agent registers once and each of its next n rounds is accepted. It never raises
  and never registers again, and after the n rounds the Master holds its session at sequence n with the
  capability the agent last acknowledged.\<close>

theorem agent_and_master_in_step:
  assumes "quiet_world sha256 w insp s" "ac_instance_id ac \<noteq> []" "ac_profiling_endpoint ac \<noteq> Some []"
  shows "\<exists>s' session se r. agent_run (world_client sha256) ac (Suc k) n delay s = (s', Unfinished (Some session))
    \<and> map_of (ms_sessions (wd_master s')) w = Some se \<and> si_instance_id se = ac_instance_id ac
    \<and> si_session_id se = ag_session_id session \<and> si_last_accepted_sequence se = int n
    \<and> map_of (ms_registry (wd_master s')) w = Some r
    \<and> wc_capability_revision (wr_capability r) = ag_acknowledged_revision session"
proof -
  have "\<not> cc_stopping (world_client sha256) s'" if "quiet_world sha256 w insp s'" for s'
    using that by (simp add: quiet_world_def)
  from agent_master.agent_run_in_sync [OF assms this] obtain s' session where
    run: "agent_run (world_client sha256) ac (Suc k) n delay s = (s', Unfinished (Some session))"
      "agent_master.in_sync w sha256 insp ac (int n + 1) session s'" by blast
  from run(2) have "\<exists>c. ag_acknowledged_revision session = wc_capability_revision c
    \<and> master_view w (wd_master s') = Some \<lparr>sv_instance = ac_instance_id ac, sv_session = ag_session_id session, sv_last = int n,
       sv_capability = c\<rparr>"
    unfolding agent_master.in_sync_def by auto
  then obtain c where "ag_acknowledged_revision session = wc_capability_revision c"
    "master_view w (wd_master s') = Some \<lparr>sv_instance = ac_instance_id ac, sv_session = ag_session_id session, sv_last = int n,
       sv_capability = c\<rparr>" by blast
  moreover from this(2) obtain se r where "map_of (ms_sessions (wd_master s')) w = Some se" "map_of (ms_registry (wd_master s')) w = Some r"
    by (auto simp: master_view_def split: option.splits)
  ultimately show ?thesis using run(1) by (auto simp: master_view_def simp del: agent_run.simps)
qed

theorem agent_and_master_in_step_witness:
  "\<exists>s' session se. agent_run (world_client demo_hash) demo_agent 1 3 1 (demo_world (\<lambda>_. Up) (\<lambda>_. [])) = (s', Unfinished (Some session))
    \<and> map_of (ms_sessions (wd_master s')) ''w'' = Some se \<and> si_last_accepted_sequence se = 3"
  using agent_and_master_in_step [OF demo_quiet, of demo_agent 0 3 1] by (auto simp: demo_agent_def)

text \<open>[C9] An agent that another registration has superseded stops instead of taking the session back. Take
  any run of the agent up to some point after any number of registrations and accepted heartbeats; if the
  Master holds another session for the worker when the agent wakes up next, with the calls of that round
  getting through and its inspection sound, then the run, continued for any number of further rounds,
  returns there without registering again, and the Master stays as the other registration left it.\<close>

theorem superseded_agent_stops:
  assumes "agent_run (world_client sha256) ac k n delay s = (s1, Unfinished (Some session))"
    and "s2 = cc_sleep (world_client sha256) (ag_interval_s session) s1"
    and "map_of (ms_sessions (wd_master s2)) (ag_worker_id session) = Some se" "si_session_id se \<noteq> ag_session_id session"
    and "\<And>t. \<not> wd_stop s1 t" "\<And>t. wd_link s1 t = Up \<and> env_ok (wd_env s1 t)"
    and "\<And>t. \<exists>li. wd_inspect s1 t = Inr li \<and> sound_inspection sha256 (ag_worker_id session) li"
    and "ac_instance_id ac \<noteq> []" "ag_session_id session \<noteq> []"
  shows "\<exists>s'. agent_run (world_client sha256) ac k (n + Suc m) delay s = (s', Returned) \<and> wd_master s' = wd_master s2"
proof -
  have world: "wd_inspect s2 = wd_inspect s1" "wd_link s2 = wd_link s1" "wd_env s2 = wd_env s1" "wd_stop s2 = wd_stop s1"
    using assms(2) by simp_all
  obtain li where li: "wd_inspect s2 (wd_tick s2) = Inr li" "sound_inspection sha256 (ag_worker_id session) li"
    using assms(7) world by metis
  have up: "\<And>t. wd_link s2 t = Up \<and> env_ok (wd_env s2 t)" using assms(6) world by simp
  have "\<exists>s'. (\<forall>q\<ge>1. agent_beat (world_client sha256) ac q session s2 = (s', Inl Superseded)) \<and> wd_master s' = wd_master s2"
    by (rule agent_beat_superseded [OF li(2,1) up assms(8,9,3,4)]) blast
  then obtain s' where b: "\<And>q. 1 \<le> q \<Longrightarrow> agent_beat (world_client sha256) ac q session s2 = (s', Inl Superseded)"
    "wd_master s' = wd_master s2" by blast
  have "heartbeat_loop (world_client sha256) ac (Suc m) q session s1 = (s', Inl Superseded)" if "1 \<le> q" for q
    using assms(5) world b(1) [OF that] by (simp add: Let_def assms(2) [symmetric] del: world_client_simps(5))
  from agent_run_superseded [OF assms(1) this] b(2) show ?thesis by blast
qed

text \<open>An instance where the other registration arrives after one accepted heartbeat.\<close>

definition superseding_world :: world where
  "superseding_world = demo_world (\<lambda>_. Up) (\<lambda>t. if t = 5 then [(demo_call 5 ''new'', Register demo_register)] else [])"

definition demo_session :: agent_session where
  "demo_session = \<lparr>ag_worker_id = ''w'', ag_session_id = ''sx'', ag_interval_s = 5,
     ag_acknowledged_revision = wc_capability_revision demo_capability\<rparr>"

definition admitted_world :: world where
  "admitted_world = superseding_world\<lparr>wd_tick := 2,
     wd_master := registered (demo_call 1 ''sx'') demo_register (master_init demo_master_config)\<rparr>"

lemma admitted_world_simps [simp]:
  "wd_tick admitted_world = 2" "wd_slept admitted_world = []" "wd_stop admitted_world t \<longleftrightarrow> False" "wd_link admitted_world t = Up"
  "wd_inspect admitted_world t = Inr demo_inspection" "env_ok (wd_env admitted_world t)"
  "wd_env admitted_world t = demo_call (of_nat t) (CHR ''s'' # replicate t (CHR ''x''))"
  "wd_others admitted_world 2 = []" "wd_others admitted_world 5 = [(demo_call 5 ''new'', Register demo_register)]"
  "wd_master admitted_world = registered (demo_call 1 ''sx'') demo_register (master_init demo_master_config)"
  by (simp_all add: admitted_world_def superseding_world_def demo_world_def)

lemma demo_agent_admitted:
  "agent_register (world_client demo_hash) demo_agent superseding_world = (admitted_world, Inr demo_session)"
proof -
  have req: "\<lparr>rr_protocol_version = CONTROL_PROTOCOL_VERSION, rr_instance_id = ''i'', rr_identity = demo_identity,
       rr_capability = demo_capability, rr_initial_state = demo_state, rr_profiling_endpoint = None\<rparr> = demo_register"
    by (simp add: demo_register_def CONTROL_PROTOCOL_VERSION_def)
  show ?thesis
    by (simp add: agent_register_def demo_world_def superseding_world_def demo_inspection_def demo_agent_def req world_call_def
        agent_call_def register_worker_admitted master_init_def admitted_world_def demo_session_def)
      (simp add: demo_master_config_def)
qed

definition beaten_world :: world where
  "beaten_world = admitted_world\<lparr>wd_tick := 5, wd_slept := [5],
     wd_master := beaten (demo_call 4 ''sxxxx'') ((demo_beat ''sx'' 1)\<lparr>hb_worker_reported_at := Some \<lparr>ts_value = 0, ts_aware = True\<rparr>\<rparr>)
       \<lparr>si_worker_id = ''w'', si_instance_id = ''i'', si_session_id = ''sx'', si_last_accepted_sequence = 0\<rparr> (wd_master admitted_world)\<rparr>"

lemma demo_agent_beats:
  "agent_beat (world_client demo_hash) demo_agent 1 demo_session (cc_sleep (world_client demo_hash) 5 admitted_world)
     = (beaten_world, Inr demo_session)"
proof -
  let ?req = "(demo_beat ''sx'' 1)\<lparr>hb_worker_reported_at := Some \<lparr>ts_value = 0, ts_aware = True\<rparr>\<rparr>"
  let ?se = "\<lparr>si_worker_id = ''w'', si_instance_id = ''i'', si_session_id = ''sx'', si_last_accepted_sequence = 0\<rparr>"
  let ?r = "\<lparr>wr_identity = demo_identity, wr_capability = demo_capability, wr_profiling_endpoint = None\<rparr>"
  have req: "\<lparr>hb_worker_id = ''w'', hb_instance_id = ''i'', hb_session_id = ''sx'', hb_sequence_number = 1,
      hb_capability_revision = compute_capability_revision demo_hash demo_capability, hb_state = demo_state,
      hb_worker_reported_at = Some (ce_wall (demo_call 4 f))\<rparr> = ?req" for f
    by (simp add: demo_beat_def demo_call_def)
  have rep: "replicate 4 (CHR ''x'') = ''xxxx''" by (simp add: eval_nat_numeral)
  have chk: "check_heartbeat_request ?req = Inr ()"
    by (simp add: check_heartbeat_request_def demo_beat_def non_empty_def require_aware_def)
  have "heartbeat (demo_call 4 ''sxxxx'') ?req (wd_master admitted_world)
      = (beaten (demo_call 4 ''sxxxx'') ?req ?se (wd_master admitted_world), Inr \<lparr>vd_accepted = True, vd_detail = [], vd_reason = None\<rparr>)"
    by (rule heartbeat_accepted [where r = ?r])
      (simp_all add: registered_def Let_def demo_register_def update_conv' heartbeat_admits_def)
  then show ?thesis
    by (simp add: agent_beat_def Let_def demo_session_def demo_inspection_def demo_agent_def world_call_def agent_call_def req chk
        rep beaten_world_def)
qed

theorem superseded_agent_stops_witness:
  "\<exists>s'. agent_run (world_client demo_hash) demo_agent 1 3 1 superseding_world = (s', Returned)
     \<and> map_option si_session_id (map_of (ms_sessions (wd_master s')) ''w'') = Some ''new''"
proof -
  let ?s2 = "cc_sleep (world_client demo_hash) (ag_interval_s demo_session) beaten_world"
  have run: "agent_run (world_client demo_hash) demo_agent 1 1 1 superseding_world = (beaten_world, Unfinished (Some demo_session))"
    using demo_agent_beats
    by (simp add: demo_agent_admitted Let_def demo_session_def) (simp add: superseding_world_def demo_world_def)
  have "check_master_config (ms_config (wd_master beaten_world)) = Inr ()"
    by (simp add: beaten_world_def beaten_def registered_def Let_def master_init_def)
  then have m2: "wd_master ?s2 = registered (demo_call 5 ''new'') demo_register (wd_master beaten_world)"
    using register_worker_admitted [OF demo_register_ok(1) _ _ demo_register_ok(2), of "demo_call 5 ''new''" "wd_master beaten_world"]
    by (simp add: beaten_world_def)
  then have se: "map_of (ms_sessions (wd_master ?s2)) (ag_worker_id demo_session) = Some \<lparr>si_worker_id = ''w'', si_instance_id = ''i'',
      si_session_id = ''new'', si_last_accepted_sequence = 0\<rparr>"
    by (simp add: registered_def Let_def demo_register_def update_conv' demo_session_def)
  have "\<exists>s'. agent_run (world_client demo_hash) demo_agent 1 (1 + Suc 1) 1 superseding_world = (s', Returned) \<and> wd_master s' = wd_master ?s2"
    by (rule superseded_agent_stops [OF run refl se]) (simp_all add: demo_session_def demo_agent_def beaten_world_def)
  with se show ?thesis by (auto simp: demo_session_def numeral_3_eq_3 simp del: agent_run.simps)
qed

text \<open>[C18] An agent whose Master is unreachable keeps retrying, and waits for the initial delay first and
  then for twice as long each time, never longer than the maximum.\<close>

theorem unreachable_master_backoff:
  assumes "\<And>t. \<exists>li. wd_inspect s t = Inr li \<and> sound_inspection sha256 w li" "\<And>t. wd_link s t = CallLost \<and> \<not> wd_stop s t"
    and "ac_instance_id ac \<noteq> []" "ac_profiling_endpoint ac \<noteq> Some []" "check_reconnect ac = Inr ()"
  shows "\<exists>s'. agent_run (world_client sha256) ac k n (ac_initial_delay_s ac) s = (s', Unfinished None)
    \<and> wd_slept s' = wd_slept s @ map (\<lambda>i. min (ac_initial_delay_s ac * 2 ^ i) (ac_max_delay_s ac)) [0..<k]"
proof -
  from assms(5) have d: "0 < ac_initial_delay_s ac" "0 < ac_max_delay_s ac" "ac_initial_delay_s ac \<le> ac_max_delay_s ac"
    by (auto simp: check_reconnect_def)
  have "backoff ac (ac_initial_delay_s ac) = (\<lambda>i. min (ac_initial_delay_s ac * 2 ^ i) (ac_max_delay_s ac))"
    using d(3) by (auto simp: backoff_def)
  then show ?thesis using agent_run_unreachable [OF assms(1-4) d(1,2), of k n] by simp
qed

theorem unreachable_master_backoff_witness:
  "\<exists>s'. agent_run (world_client demo_hash) demo_agent 6 0 1 (demo_world (\<lambda>_. CallLost) (\<lambda>_. [])) = (s', Unfinished None)
    \<and> wd_slept s' = [1, 2, 4, 8, 16, 30]"
  using unreachable_master_backoff [of "demo_world (\<lambda>_. CallLost) (\<lambda>_. [])" demo_hash "''w''" demo_agent 6 0]
  by (simp add: demo_world_def demo_agent_def check_reconnect_def upt_rec)

text \<open>The capability that the probes' fragments assemble to is valid, carries its own revision, and
  is the same up to enumeration order, with the same revision, for every order in which the probes report.\<close>

lemma assemble_capability_order:
  assumes "assemble_capability sha256 frs = Inr c" "mset frs = mset frs'"
  shows "check_worker_capability c = Inr () \<and> check_capability_revision sha256 c = Inr ()
    \<and> (\<exists>c'. assemble_capability sha256 frs' = Inr c' \<and> same_capability c c' \<and> wc_capability_revision c' = wc_capability_revision c)"
proof -
  define cap where "cap = (\<lambda>a i cr (fs :: capability_fragment list). \<lparr>wc_architecture = a, wc_os = i, wc_container_runtime = cr,
                     wc_network_interfaces = concat (map cf_network_interfaces fs),
                     wc_devices = concat (map cf_devices fs), wc_memory_pools = concat (map cf_memory_pools fs),
                     wc_runtime_platforms = concat (map cf_runtime_platforms fs), wc_capability_revision = []\<rparr>)"
  let ?final = "\<lambda>c. c\<lparr>wc_capability_revision := compute_capability_revision sha256 c\<rparr>"
  from assms(1) obtain a i cr where parts: "single cf_architecture frs = Inr (Some a)" "a \<noteq> []" "single cf_os frs = Inr (Some i)"
    "single cf_container_runtime frs = Inr cr" "check_worker_capability (cap a i cr frs) = Inr ()" "c = ?final (cap a i cr frs)"
  proof -
    from assms(1) obtain arch os where o: "single cf_architecture frs = Inr arch" "single cf_os frs = Inr os"
      unfolding assemble_capability_def bind_res_Inr by blast
    with assms(1) obtain a i where ai: "arch = Some a" "a \<noteq> []" "os = Some i"
      by (auto simp: assemble_capability_def split: option.splits if_splits)
    with assms(1) o obtain cr where "single cf_container_runtime frs = Inr cr"
      by (cases "single cf_container_runtime frs") (simp_all add: assemble_capability_def)
    with assms(1) o ai show thesis
      by (intro that [of a i cr]) (simp_all add: assemble_capability_def cap_def Let_def)
  qed
  have sets: "set frs = set frs'" using assms(2) by (rule mset_eq_setD)
  have lists: "mset (concat (map f frs)) = mset (concat (map f frs'))" for f :: "capability_fragment \<Rightarrow> 'z list"
    using assms(2) by (rule mset_concat_map)
  have chk': "check_worker_capability (cap a i cr frs') = Inr ()"
    by (rule check_worker_capability_perm [OF parts(5)]) (simp_all add: cap_def mset_concat_map [OF assms(2)])
  have asm': "assemble_capability sha256 frs' = Inr (?final (cap a i cr frs'))"
    using parts(2) chk' single_perm [OF sets parts(1)] single_perm [OF sets parts(3)] single_perm [OF sets parts(4)]
    by (simp add: assemble_capability_def Let_def cap_def)
  have same: "same_capability c (?final (cap a i cr frs'))"
    unfolding same_capability_def parts(6)
    by (auto simp: cap_def mset_concat_map [OF assms(2)] same_interface_def same_device_def intro!: same_up_to_order_perm)
  then have "wc_capability_revision (?final (cap a i cr frs')) = wc_capability_revision c"
    using revision_same [OF same, of sha256] parts(6) by simp
  moreover have "check_worker_capability c = Inr ()"
    by (rule check_worker_capability_perm [OF parts(5)]) (simp_all add: parts(6))
  moreover have "check_capability_revision sha256 c = Inr ()"
    by (simp add: check_capability_revision_def parts(6))
  ultimately show ?thesis using asm' same by blast
qed

end
