(* ===== verification/Codec.thy ===== *)
theory Codec
  imports Prelude
begin

section \<open>Encoding to and decoding from wire messages\<close>

text \<open>
  What the two hand-written mappers (\<^verbatim>\<open>protocol/control/mapper.py\<close>, \<^verbatim>\<open>protocol/profiling/mapper.py\<close>) share: reading
  an absent message field, assigning an integer to a field of bounded width, optional fields,
  enumeration tables and their inversion, and the construction of a checked object. The locale
  \<open>codec\<close> is the contract of one encoder with its decoder: what is admitted is encoded, and decoding
  gives it back. Lists and optional values inherit the contract.
\<close>

definition present :: "'a \<Rightarrow> 'a option \<Rightarrow> 'a" where
  "present d v = (case v of None \<Rightarrow> d | Some x \<Rightarrow> x)"

lemma present_Some [simp]: "present d (Some x) = x"
  by (simp add: present_def)

definition set_int32 :: "int \<Rightarrow> int res" where
  "set_int32 i = (if int32 i then Inr i else Inl (ValueError ''value out of range''))"

definition set_int64 :: "int \<Rightarrow> int res" where
  "set_int64 i = (if int64 i then Inr i else Inl (ValueError ''value out of range''))"

definition set_optional :: "('a \<Rightarrow> 'b res) \<Rightarrow> 'a option \<Rightarrow> 'b option res" where
  "set_optional f v = (case v of None \<Rightarrow> Inr None | Some x \<Rightarrow> map_res Some (f x))"


text \<open>The decoding tables are the inverted encoding tables.\<close>

definition inverted :: "('a \<Rightarrow> int) \<Rightarrow> 'a list \<Rightarrow> int \<Rightarrow> 'a option" where
  "inverted f ks v = map_of (map (\<lambda>k. (f k, k)) ks) v"

definition decode_enum :: "(int \<Rightarrow> 'a option) \<Rightarrow> int \<Rightarrow> string \<Rightarrow> 'a res" where
  "decode_enum table v field = (case table v of None \<Rightarrow> Inl (ControlProtocolError field) | Some k \<Rightarrow> Inr k)"

definition checked :: "('a \<Rightarrow> unit res) \<Rightarrow> 'a \<Rightarrow> 'a res" where
  "checked check x = then_res (check x) (Inr x)"

lemma checked_Inr [simp, res_simps]: "checked check x = Inr y \<longleftrightarrow> check x = Inr () \<and> y = x"
  by (auto simp: checked_def)



subsection \<open>The contract of an encoder and its decoder\<close>

lemma int_field_simps [simp]:
  "int32 i \<Longrightarrow> set_int32 i = Inr i" "\<not> int32 i \<Longrightarrow> set_int32 i = Inl (ValueError ''value out of range'')"
  "int64 i \<Longrightarrow> set_int64 i = Inr i" "\<not> int64 i \<Longrightarrow> set_int64 i = Inl (ValueError ''value out of range'')"
  by (simp_all add: set_int32_def set_int64_def)

lemma set_optional_simps [simp]:
  "set_optional f None = Inr None" "set_optional f (Some x) = map_res Some (f x)"
  by (simp_all add: set_optional_def)

lemma set_optional_total: "pred_option (\<lambda>x. f x = Inr (g x)) v \<Longrightarrow> set_optional f v = Inr (map_option g v)"
  by (cases v) simp_all

lemma traverse_res_Inr_map [simp]: "traverse_res (\<lambda>x. Inr (f x)) xs = Inr (map f xs)"
  by (rule traverse_res_total) simp

lemma inverted_mem:
  assumes "inj_on f (set ks)" and "k \<in> set ks"
  shows "inverted f ks (f k) = Some k"
  using assms by (induction ks) (auto simp: inverted_def inj_on_def)

lemma inverted_Some: "inverted f ks v = Some k \<Longrightarrow> f k = v \<and> k \<in> set ks"
  by (auto simp: inverted_def dest!: map_of_SomeD)

locale codec =
  fixes to_wire :: "'a \<Rightarrow> 'w res"
    and from_wire :: "'w \<Rightarrow> 'a res"
    and admits :: "'a \<Rightarrow> bool"
  assumes reads_back: "admits x \<Longrightarrow> \<exists>w. to_wire x = Inr w \<and> from_wire w = Inr x"
begin

lemma list_reads_back:
  "list_all admits xs \<Longrightarrow> \<exists>ws. traverse_res to_wire xs = Inr ws \<and> traverse_res from_wire ws = Inr xs"
proof (induction xs)
  case (Cons x xs)
  then obtain ws where "traverse_res to_wire xs = Inr ws" "traverse_res from_wire ws = Inr xs" by auto
  moreover obtain w where "to_wire x = Inr w" "from_wire w = Inr x" using Cons.prems reads_back by auto
  ultimately show ?case by (intro exI [of _ "w # ws"]) simp
qed simp

lemma option_reads_back:
  "pred_option admits v \<Longrightarrow> \<exists>w. set_optional to_wire v = Inr w \<and> set_optional from_wire w = Inr v"
  using reads_back by (cases v) fastforce+

lemma round_trip: "admits x \<Longrightarrow> bind_res (to_wire x) from_wire = Inr x"
  using reads_back by fastforce

end

text \<open>Most encoders cannot fail; their contract speaks of the plain function.\<close>

locale total_codec =
  fixes to_wire :: "'a \<Rightarrow> 'w"
    and from_wire :: "'w \<Rightarrow> 'a res"
    and admits :: "'a \<Rightarrow> bool"
  assumes decodes: "admits x \<Longrightarrow> from_wire (to_wire x) = Inr x"

sublocale total_codec \<subseteq> codec "\<lambda>x. Inr (to_wire x)" from_wire admits
  by unfold_locales (simp add: decodes)

context total_codec
begin

lemma list_decodes: "list_all admits xs \<Longrightarrow> traverse_res from_wire (map to_wire xs) = Inr xs"
  by (induction xs) (simp_all add: decodes)

lemma option_decodes: "pred_option admits v \<Longrightarrow> set_optional from_wire (map_option to_wire v) = Inr v"
  by (cases v) (simp_all add: decodes)

end

end
