(* ===== verification/Control_Mapper.thy ===== *)
theory Control_Mapper
  imports Worker_Agent Codec
begin

section \<open>The wire form of the worker control plane\<close>

text \<open>
  The mapping part of \<^verbatim>\<open>protocol/control/mapper.py\<close> with the message types of \<^verbatim>\<open>worker_control.proto\<close>, and the
  servicer and client that use it (\<^verbatim>\<open>protocol/control/grpc_server.py\<close>, \<^verbatim>\<open>grpc_client.py\<close>).

  A wire message is a record. A message field and a proto3 \<^verbatim>\<open>optional\<close> scalar may be absent; reading an
  absent message gives the default one. An enumeration is its number. Assigning an integer that does
  not fit its field raises \<^verbatim>\<open>ValueError\<close>. The milliseconds of a timestamp come from floating-point
  arithmetic, so that conversion is a parameter; nothing reads the result.
\<close>


subsection \<open>Wire messages\<close>

record pb_worker_identity =
  pwi_worker_id :: string
  pwi_hostname :: string
  pwi_agent_version :: string
  pwi_protocol_version :: string

record pb_device_identity =
  pdi_device_id :: string
  pdi_kind :: int
  pdi_local_locator :: string

record pb_memory_pool =
  pmp_memory_pool_id :: string
  pmp_model :: int
  pmp_total_bytes :: int

record pb_os_info =
  pos_name :: string
  pos_version :: "string option"
  pos_kernel :: "string option"

record pb_container_runtime =
  pcr_runtime :: string
  pcr_version :: "string option"
  pcr_nvidia_runtime_available :: bool

record pb_network_interface =
  pni_interface_id :: string
  pni_name :: string
  pni_addresses :: "string list"
  pni_mtu :: "int option"

record pb_runtime_platform =
  prp_backend :: string
  prp_platform :: string
  prp_image :: "string option"

record pb_device =
  pdc_identity :: "pb_device_identity option"
  pdc_vendor :: string
  pdc_model :: string
  pdc_compute_capability :: "string option"
  pdc_memory_pool_id :: "string option"
  pdc_supported_dtypes :: "string list"
  pdc_driver_version :: "string option"
  pdc_platform_tags :: "string list"

record pb_worker_capability =
  pwc_architecture :: string
  pwc_os :: "pb_os_info option"
  pwc_container_runtime :: "pb_container_runtime option"
  pwc_network_interfaces :: "pb_network_interface list"
  pwc_devices :: "pb_device list"
  pwc_memory_pools :: "pb_memory_pool list"
  pwc_runtime_platforms :: "pb_runtime_platform list"
  pwc_capability_revision :: string

record pb_device_state =
  pds_device_id :: string
  pds_utilization :: "rat option"
  pds_temperature_c :: "rat option"
  pds_power_w :: "rat option"
  pds_availability :: int
  pds_running_runtime_ids :: "string list"

record pb_memory_state =
  pms_memory_pool_id :: string
  pms_available_bytes :: "int option"

record pb_runtime_instance =
  pri_runtime_id :: string
  pri_backend :: string
  pri_execution_id :: "string option"
  pri_status :: int
  pri_device_ids :: "string list"
  pri_container_id :: "string option"
  pri_endpoint :: "string option"
  pri_model_local_name :: "string option"

record pb_model_entry =
  pme_local_name :: string
  pme_model_id :: "string option"
  pme_revision :: "string option"
  pme_size_bytes :: "int option"
  pme_status :: int

record pb_worker_state =
  pws_worker_id :: string
  pws_device_states :: "pb_device_state list"
  pws_memory_states :: "pb_memory_state list"
  pws_runtime_instances :: "pb_runtime_instance list"
  pws_models :: "pb_model_entry list"

record pb_register_request =
  prr_protocol_version :: string
  prr_worker_id :: string
  prr_instance_id :: string
  prr_identity :: "pb_worker_identity option"
  prr_capability_revision :: string
  prr_capability :: "pb_worker_capability option"
  prr_initial_state :: "pb_worker_state option"
  prr_profiling_endpoint :: "string option"

record pb_register_response =
  prs_session_id :: string
  prs_heartbeat_interval_ms :: int
  prs_server_protocol_version :: string

record pb_heartbeat_request =
  phb_worker_id :: string
  phb_instance_id :: string
  phb_session_id :: string
  phb_sequence_number :: int
  phb_worker_reported_at_ms :: "int option"
  phb_capability_revision :: string
  phb_state :: "pb_worker_state option"

record pb_verdict =
  pvd_accepted :: bool
  pvd_detail :: string
  pvd_reason :: int

record pb_update_request =
  puc_worker_id :: string
  puc_instance_id :: string
  puc_session_id :: string
  puc_capability :: "pb_worker_capability option"
  puc_state :: "pb_worker_state option"

text \<open>Reading an absent message.\<close>

definition pb_worker_identity_default :: pb_worker_identity where
  "pb_worker_identity_default = \<lparr>pwi_worker_id = [], pwi_hostname = [], pwi_agent_version = [], pwi_protocol_version = []\<rparr>"

definition pb_device_identity_default :: pb_device_identity where
  "pb_device_identity_default = \<lparr>pdi_device_id = [], pdi_kind = 0, pdi_local_locator = []\<rparr>"

definition pb_os_info_default :: pb_os_info where
  "pb_os_info_default = \<lparr>pos_name = [], pos_version = None, pos_kernel = None\<rparr>"

definition pb_worker_capability_default :: pb_worker_capability where
  "pb_worker_capability_default = \<lparr>pwc_architecture = [], pwc_os = None, pwc_container_runtime = None, pwc_network_interfaces = [],
     pwc_devices = [], pwc_memory_pools = [], pwc_runtime_platforms = [], pwc_capability_revision = []\<rparr>"

definition pb_worker_state_default :: pb_worker_state where
  "pb_worker_state_default = \<lparr>pws_worker_id = [], pws_device_states = [], pws_memory_states = [], pws_runtime_instances = [], pws_models = []\<rparr>"

subsection \<open>Enumerations\<close>

fun device_kind_to_wire :: "dev_kind \<Rightarrow> int" where
  "device_kind_to_wire CPU = 1" | "device_kind_to_wire GPU = 2" | "device_kind_to_wire NPU = 3" | "device_kind_to_wire OTHER = 4"

fun memory_model_to_wire :: "memory_model \<Rightarrow> int" where
  "memory_model_to_wire DISCRETE = 1" | "memory_model_to_wire SHARED = 2"

fun availability_to_wire :: "device_availability \<Rightarrow> int" where
  "availability_to_wire AVAILABLE = 1" | "availability_to_wire UNAVAILABLE = 2" | "availability_to_wire UNKNOWN_AVAILABILITY = 3"

fun runtime_status_to_wire :: "runtime_status \<Rightarrow> int" where
  "runtime_status_to_wire CREATED = 1" | "runtime_status_to_wire RUNNING = 2" | "runtime_status_to_wire STOPPED = 3"
| "runtime_status_to_wire FAILED = 4" | "runtime_status_to_wire UNKNOWN_STATUS = 5"

fun model_availability_to_wire :: "model_availability \<Rightarrow> int" where
  "model_availability_to_wire READY = 1" | "model_availability_to_wire INCOMPLETE = 2" | "model_availability_to_wire INVALID = 3"

fun rejection_reason_to_wire :: "rejection_reason option \<Rightarrow> int" where
  "rejection_reason_to_wire None = 0"
| "rejection_reason_to_wire (Some UNKNOWN_WORKER) = 1"
| "rejection_reason_to_wire (Some STALE_SESSION) = 2"
| "rejection_reason_to_wire (Some INSTANCE_MISMATCH) = 3"
| "rejection_reason_to_wire (Some OUT_OF_ORDER) = 4"
| "rejection_reason_to_wire (Some REREGISTER_REQUIRED) = 5"

definition wire_to_device_kind :: "int \<Rightarrow> dev_kind option" where
  "wire_to_device_kind = inverted device_kind_to_wire [CPU, GPU, NPU, OTHER]"

definition wire_to_memory_model :: "int \<Rightarrow> memory_model option" where
  "wire_to_memory_model = inverted memory_model_to_wire [DISCRETE, SHARED]"

definition wire_to_availability :: "int \<Rightarrow> device_availability option" where
  "wire_to_availability = inverted availability_to_wire [AVAILABLE, UNAVAILABLE, UNKNOWN_AVAILABILITY]"

definition wire_to_runtime_status :: "int \<Rightarrow> runtime_status option" where
  "wire_to_runtime_status = inverted runtime_status_to_wire [CREATED, RUNNING, STOPPED, FAILED, UNKNOWN_STATUS]"

definition wire_to_model_availability :: "int \<Rightarrow> model_availability option" where
  "wire_to_model_availability = inverted model_availability_to_wire [READY, INCOMPLETE, INVALID]"

definition wire_to_rejection_reason :: "int \<Rightarrow> rejection_reason option" where
  "wire_to_rejection_reason = inverted (rejection_reason_to_wire \<circ> Some)
     [UNKNOWN_WORKER, STALE_SESSION, INSTANCE_MISMATCH, OUT_OF_ORDER, REREGISTER_REQUIRED]"

subsection \<open>Identity and capability\<close>

definition identity_to_wire :: "worker_identity \<Rightarrow> pb_worker_identity" where
  "identity_to_wire i = \<lparr>pwi_worker_id = wi_worker_id i, pwi_hostname = wi_hostname i, pwi_agent_version = wi_agent_version i,
     pwi_protocol_version = wi_protocol_version i\<rparr>"

definition identity_from_wire :: "pb_worker_identity \<Rightarrow> worker_identity res" where
  "identity_from_wire w = checked check_worker_identity \<lparr>wi_worker_id = pwi_worker_id w, wi_hostname = pwi_hostname w,
     wi_agent_version = pwi_agent_version w, wi_protocol_version = pwi_protocol_version w\<rparr>"

definition os_to_wire :: "os_info \<Rightarrow> pb_os_info" where
  "os_to_wire i = \<lparr>pos_name = os_name i, pos_version = os_version i, pos_kernel = os_kernel i\<rparr>"

definition os_from_wire :: "pb_os_info \<Rightarrow> os_info res" where
  "os_from_wire w = checked check_os_info \<lparr>os_name = pos_name w, os_version = pos_version w, os_kernel = pos_kernel w\<rparr>"

definition container_runtime_to_wire :: "container_runtime_capability \<Rightarrow> pb_container_runtime" where
  "container_runtime_to_wire c = \<lparr>pcr_runtime = cr_runtime c, pcr_version = cr_version c,
     pcr_nvidia_runtime_available = cr_nvidia_runtime_available c\<rparr>"

definition container_runtime_from_wire :: "pb_container_runtime \<Rightarrow> container_runtime_capability res" where
  "container_runtime_from_wire w = checked check_container_runtime \<lparr>cr_runtime = pcr_runtime w, cr_version = pcr_version w,
     cr_nvidia_runtime_available = pcr_nvidia_runtime_available w\<rparr>"

definition network_interface_to_wire :: "network_interface_capability \<Rightarrow> pb_network_interface res" where
  "network_interface_to_wire n = map_res (\<lambda>mtu. \<lparr>pni_interface_id = ni_interface_id n, pni_name = ni_name n,
     pni_addresses = ni_addresses n, pni_mtu = mtu\<rparr>) (set_optional set_int32 (ni_mtu n))"

definition network_interface_from_wire :: "pb_network_interface \<Rightarrow> network_interface_capability res" where
  "network_interface_from_wire w = checked check_network_interface \<lparr>ni_interface_id = pni_interface_id w, ni_name = pni_name w,
     ni_addresses = pni_addresses w, ni_mtu = pni_mtu w\<rparr>"

definition runtime_platform_to_wire :: "runtime_platform_capability \<Rightarrow> pb_runtime_platform" where
  "runtime_platform_to_wire p = \<lparr>prp_backend = rpl_backend p, prp_platform = rpl_platform p, prp_image = rpl_image p\<rparr>"

definition runtime_platform_from_wire :: "pb_runtime_platform \<Rightarrow> runtime_platform_capability res" where
  "runtime_platform_from_wire w = checked check_runtime_platform \<lparr>rpl_backend = prp_backend w, rpl_platform = prp_platform w, rpl_image = prp_image w\<rparr>"

definition memory_pool_to_wire :: "memory_pool_capability \<Rightarrow> pb_memory_pool res" where
  "memory_pool_to_wire p = map_res (\<lambda>n. \<lparr>pmp_memory_pool_id = mp_memory_pool_id p, pmp_model = memory_model_to_wire (mp_model p),
     pmp_total_bytes = n\<rparr>) (set_int64 (mp_total_bytes p))"

definition memory_pool_from_wire :: "pb_memory_pool \<Rightarrow> memory_pool_capability res" where
  "memory_pool_from_wire w = bind_res (decode_enum wire_to_memory_model (pmp_model w) ''memory model'') (\<lambda>model.
     checked check_memory_pool \<lparr>mp_memory_pool_id = pmp_memory_pool_id w, mp_model = model, mp_total_bytes = pmp_total_bytes w\<rparr>)"

definition device_to_wire :: "device_capability \<Rightarrow> pb_device" where
  "device_to_wire d = \<lparr>pdc_identity = Some \<lparr>pdi_device_id = di_device_id (dc_identity d),
       pdi_kind = device_kind_to_wire (di_kind (dc_identity d)), pdi_local_locator = di_local_locator (dc_identity d)\<rparr>,
     pdc_vendor = dc_vendor d, pdc_model = dc_model d, pdc_compute_capability = dc_compute_capability d,
     pdc_memory_pool_id = dc_memory_pool_id d, pdc_supported_dtypes = dc_supported_dtypes d,
     pdc_driver_version = dc_driver_version d, pdc_platform_tags = dc_platform_tags d\<rparr>"

definition device_from_wire :: "pb_device \<Rightarrow> device_capability res" where
  "device_from_wire w = (let i = present pb_device_identity_default (pdc_identity w) in
     bind_res (decode_enum wire_to_device_kind (pdi_kind i) ''device kind'') (\<lambda>kind.
       checked check_device_capability \<lparr>dc_identity = \<lparr>di_device_id = pdi_device_id i, di_kind = kind, di_local_locator = pdi_local_locator i\<rparr>,
         dc_vendor = pdc_vendor w, dc_model = pdc_model w, dc_compute_capability = pdc_compute_capability w,
         dc_memory_pool_id = pdc_memory_pool_id w, dc_supported_dtypes = pdc_supported_dtypes w,
         dc_driver_version = pdc_driver_version w, dc_platform_tags = pdc_platform_tags w\<rparr>))"

definition capability_to_wire :: "worker_capability \<Rightarrow> pb_worker_capability res" where
  "capability_to_wire c =
     bind_res (traverse_res network_interface_to_wire (wc_network_interfaces c)) (\<lambda>nis.
     bind_res (traverse_res memory_pool_to_wire (wc_memory_pools c)) (\<lambda>pools.
       Inr \<lparr>pwc_architecture = wc_architecture c, pwc_os = Some (os_to_wire (wc_os c)),
         pwc_container_runtime = map_option container_runtime_to_wire (wc_container_runtime c),
         pwc_network_interfaces = nis, pwc_devices = map device_to_wire (wc_devices c), pwc_memory_pools = pools,
         pwc_runtime_platforms = map runtime_platform_to_wire (wc_runtime_platforms c),
         pwc_capability_revision = wc_capability_revision c\<rparr>))"

definition capability_from_wire :: "pb_worker_capability \<Rightarrow> worker_capability res" where
  "capability_from_wire w =
     bind_res (os_from_wire (present pb_os_info_default (pwc_os w))) (\<lambda>os.
     bind_res (set_optional container_runtime_from_wire (pwc_container_runtime w)) (\<lambda>cr.
     bind_res (traverse_res network_interface_from_wire (pwc_network_interfaces w)) (\<lambda>nis.
     bind_res (traverse_res device_from_wire (pwc_devices w)) (\<lambda>ds.
     bind_res (traverse_res memory_pool_from_wire (pwc_memory_pools w)) (\<lambda>pools.
     bind_res (traverse_res runtime_platform_from_wire (pwc_runtime_platforms w)) (\<lambda>rps.
       checked check_worker_capability \<lparr>wc_architecture = pwc_architecture w, wc_os = os, wc_container_runtime = cr,
         wc_network_interfaces = nis, wc_devices = ds, wc_memory_pools = pools, wc_runtime_platforms = rps,
         wc_capability_revision = pwc_capability_revision w\<rparr>))))))"


subsection \<open>Dynamic state\<close>

definition device_state_to_wire :: "device_state \<Rightarrow> pb_device_state" where
  "device_state_to_wire d = \<lparr>pds_device_id = dv_device_id d, pds_utilization = dv_utilization d, pds_temperature_c = dv_temperature_c d,
     pds_power_w = dv_power_w d, pds_availability = availability_to_wire (dv_availability d),
     pds_running_runtime_ids = dv_running_runtime_ids d\<rparr>"

definition device_state_from_wire :: "pb_device_state \<Rightarrow> device_state res" where
  "device_state_from_wire w = bind_res (decode_enum wire_to_availability (pds_availability w) ''device availability'') (\<lambda>a.
     checked check_device_state \<lparr>dv_device_id = pds_device_id w, dv_utilization = pds_utilization w, dv_temperature_c = pds_temperature_c w,
       dv_power_w = pds_power_w w, dv_availability = a, dv_running_runtime_ids = pds_running_runtime_ids w\<rparr>)"

definition memory_state_to_wire :: "memory_pool_state \<Rightarrow> pb_memory_state res" where
  "memory_state_to_wire m = map_res (\<lambda>n. \<lparr>pms_memory_pool_id = mps_memory_pool_id m, pms_available_bytes = n\<rparr>)
     (set_optional set_int64 (mps_available_bytes m))"

definition memory_state_from_wire :: "pb_memory_state \<Rightarrow> memory_pool_state res" where
  "memory_state_from_wire w = checked check_memory_pool_state \<lparr>mps_memory_pool_id = pms_memory_pool_id w, mps_available_bytes = pms_available_bytes w\<rparr>"

definition runtime_instance_to_wire :: "runtime_instance_state \<Rightarrow> pb_runtime_instance" where
  "runtime_instance_to_wire r = \<lparr>pri_runtime_id = rt_runtime_id r, pri_backend = rt_backend r, pri_execution_id = rt_execution_id r,
     pri_status = runtime_status_to_wire (rt_status r), pri_device_ids = rt_device_ids r, pri_container_id = rt_container_id r,
     pri_endpoint = rt_endpoint r, pri_model_local_name = rt_model_local_name r\<rparr>"

definition runtime_instance_from_wire :: "pb_runtime_instance \<Rightarrow> runtime_instance_state res" where
  "runtime_instance_from_wire w = bind_res (decode_enum wire_to_runtime_status (pri_status w) ''runtime status'') (\<lambda>st.
     checked check_runtime_instance \<lparr>rt_runtime_id = pri_runtime_id w, rt_backend = pri_backend w, rt_execution_id = pri_execution_id w,
       rt_status = st, rt_device_ids = pri_device_ids w, rt_container_id = pri_container_id w, rt_endpoint = pri_endpoint w,
       rt_model_local_name = pri_model_local_name w\<rparr>)"

definition model_entry_to_wire :: "model_inventory_entry \<Rightarrow> pb_model_entry res" where
  "model_entry_to_wire e = map_res (\<lambda>n. \<lparr>pme_local_name = me_local_name e, pme_model_id = me_model_id e, pme_revision = me_revision e,
     pme_size_bytes = n, pme_status = model_availability_to_wire (me_status e)\<rparr>) (set_optional set_int64 (me_size_bytes e))"

definition model_entry_from_wire :: "pb_model_entry \<Rightarrow> model_inventory_entry res" where
  "model_entry_from_wire w = bind_res (decode_enum wire_to_model_availability (pme_status w) ''model availability'') (\<lambda>st.
     checked check_model_entry \<lparr>me_local_name = pme_local_name w, me_model_id = pme_model_id w, me_revision = pme_revision w,
       me_size_bytes = pme_size_bytes w, me_status = st\<rparr>)"

definition state_to_wire :: "worker_state \<Rightarrow> pb_worker_state res" where
  "state_to_wire s =
     bind_res (traverse_res memory_state_to_wire (ws_memory_states s)) (\<lambda>ms.
     bind_res (traverse_res model_entry_to_wire (ws_models s)) (\<lambda>models.
       Inr \<lparr>pws_worker_id = ws_worker_id s, pws_device_states = map device_state_to_wire (ws_device_states s),
         pws_memory_states = ms, pws_runtime_instances = map runtime_instance_to_wire (ws_runtime_instances s), pws_models = models\<rparr>))"

definition state_from_wire :: "pb_worker_state \<Rightarrow> worker_state res" where
  "state_from_wire w =
     bind_res (traverse_res device_state_from_wire (pws_device_states w)) (\<lambda>ds.
     bind_res (traverse_res memory_state_from_wire (pws_memory_states w)) (\<lambda>ms.
     bind_res (traverse_res runtime_instance_from_wire (pws_runtime_instances w)) (\<lambda>rs.
     bind_res (traverse_res model_entry_from_wire (pws_models w)) (\<lambda>models.
       checked check_worker_state \<lparr>ws_worker_id = pws_worker_id w, ws_device_states = ds, ws_memory_states = ms,
         ws_runtime_instances = rs, ws_models = models\<rparr>))))"


subsection \<open>Requests and responses\<close>

definition register_request_to_wire :: "register_request \<Rightarrow> pb_register_request res" where
  "register_request_to_wire r =
     bind_res (capability_to_wire (rr_capability r)) (\<lambda>c.
     bind_res (state_to_wire (rr_initial_state r)) (\<lambda>s.
       Inr \<lparr>prr_protocol_version = rr_protocol_version r, prr_worker_id = wi_worker_id (rr_identity r),
         prr_instance_id = rr_instance_id r, prr_identity = Some (identity_to_wire (rr_identity r)),
         prr_capability_revision = wc_capability_revision (rr_capability r), prr_capability = Some c,
         prr_initial_state = Some s, prr_profiling_endpoint = rr_profiling_endpoint r\<rparr>))"

definition register_request_from_wire :: "pb_register_request \<Rightarrow> register_request res" where
  "register_request_from_wire w =
     then_res (raise_if (prr_protocol_version w \<noteq> CONTROL_PROTOCOL_VERSION) (ControlProtocolError ''unsupported control protocol version''))
     (bind_res (identity_from_wire (present pb_worker_identity_default (prr_identity w))) (\<lambda>identity.
      then_res (raise_if (prr_worker_id w \<noteq> wi_worker_id identity) (ControlProtocolError ''registration worker_id mismatch''))
     (bind_res (capability_from_wire (present pb_worker_capability_default (prr_capability w))) (\<lambda>capability.
      then_res (raise_if (prr_capability_revision w \<noteq> wc_capability_revision capability)
                  (ControlProtocolError ''registration capability_revision mismatch''))
     (bind_res (state_from_wire (present pb_worker_state_default (prr_initial_state w))) (\<lambda>state.
       checked check_register_request \<lparr>rr_protocol_version = prr_protocol_version w, rr_instance_id = prr_instance_id w,
         rr_identity = identity, rr_capability = capability, rr_initial_state = state,
         rr_profiling_endpoint = prr_profiling_endpoint w\<rparr>))))))"

definition register_response_to_wire :: "register_response \<Rightarrow> pb_register_response res" where
  "register_response_to_wire r = map_res (\<lambda>n. \<lparr>prs_session_id = rp_session_id r, prs_heartbeat_interval_ms = n,
     prs_server_protocol_version = rp_server_protocol_version r\<rparr>) (set_int32 (rp_heartbeat_interval_ms r))"

definition register_response_from_wire :: "pb_register_response \<Rightarrow> register_response res" where
  "register_response_from_wire w = make_register_response \<lparr>rp_session_id = prs_session_id w,
     rp_heartbeat_interval_ms = prs_heartbeat_interval_ms w, rp_server_protocol_version = prs_server_protocol_version w\<rparr>"

definition timestamp_from_ms :: "int \<Rightarrow> timestamp" where
  "timestamp_from_ms ms = \<lparr>ts_value = ms * 1000, ts_aware = True\<rparr>"

definition heartbeat_request_to_wire :: "(timestamp \<Rightarrow> int) \<Rightarrow> heartbeat_request \<Rightarrow> pb_heartbeat_request res" where
  "heartbeat_request_to_wire to_ms r =
     bind_res (set_int64 (hb_sequence_number r)) (\<lambda>n.
     bind_res (state_to_wire (hb_state r)) (\<lambda>s.
     bind_res (set_optional (set_int64 \<circ> to_ms) (hb_worker_reported_at r)) (\<lambda>ms.
       Inr \<lparr>phb_worker_id = hb_worker_id r, phb_instance_id = hb_instance_id r, phb_session_id = hb_session_id r,
         phb_sequence_number = n, phb_worker_reported_at_ms = ms, phb_capability_revision = hb_capability_revision r,
         phb_state = Some s\<rparr>)))"

definition heartbeat_request_from_wire :: "pb_heartbeat_request \<Rightarrow> heartbeat_request res" where
  "heartbeat_request_from_wire w =
     bind_res (state_from_wire (present pb_worker_state_default (phb_state w))) (\<lambda>s.
       checked check_heartbeat_request \<lparr>hb_worker_id = phb_worker_id w, hb_instance_id = phb_instance_id w,
         hb_session_id = phb_session_id w, hb_sequence_number = phb_sequence_number w,
         hb_capability_revision = phb_capability_revision w, hb_state = s,
         hb_worker_reported_at = map_option timestamp_from_ms (phb_worker_reported_at_ms w)\<rparr>)"

definition rejection_reason_from_wire :: "int \<Rightarrow> bool \<Rightarrow> rejection_reason option res" where
  "rejection_reason_from_wire v accepted =
     (if accepted then Inr None
      else case wire_to_rejection_reason v of
             None \<Rightarrow> Inl (ControlProtocolError ''rejected message carries unknown rejection reason'')
           | Some r \<Rightarrow> Inr (Some r))"

definition verdict_to_wire :: "verdict \<Rightarrow> pb_verdict" where
  "verdict_to_wire v = \<lparr>pvd_accepted = vd_accepted v, pvd_detail = vd_detail v, pvd_reason = rejection_reason_to_wire (vd_reason v)\<rparr>"

definition verdict_from_wire :: "string \<Rightarrow> pb_verdict \<Rightarrow> verdict res" where
  "verdict_from_wire what w = bind_res (rejection_reason_from_wire (pvd_reason w) (pvd_accepted w)) (\<lambda>reason.
     make_verdict what \<lparr>vd_accepted = pvd_accepted w, vd_detail = pvd_detail w, vd_reason = reason\<rparr>)"

definition update_request_to_wire :: "update_request \<Rightarrow> pb_update_request res" where
  "update_request_to_wire r =
     bind_res (capability_to_wire (uc_capability r)) (\<lambda>c.
     bind_res (state_to_wire (uc_state r)) (\<lambda>s.
       Inr \<lparr>puc_worker_id = uc_worker_id r, puc_instance_id = uc_instance_id r, puc_session_id = uc_session_id r,
         puc_capability = Some c, puc_state = Some s\<rparr>))"

definition update_request_from_wire :: "pb_update_request \<Rightarrow> update_request res" where
  "update_request_from_wire w =
     (case puc_state w of
        None \<Rightarrow> Inl (ControlProtocolError ''capability update must carry the state sampled atomically'')
      | Some st \<Rightarrow>
          bind_res (capability_from_wire (present pb_worker_capability_default (puc_capability w))) (\<lambda>c.
          bind_res (state_from_wire st) (\<lambda>s.
            checked check_update_request \<lparr>uc_worker_id = puc_worker_id w, uc_instance_id = puc_instance_id w,
              uc_session_id = puc_session_id w, uc_capability = c, uc_state = s\<rparr>)))"


subsection \<open>Servicer and client\<close>

definition through_servicer :: "('w \<Rightarrow> 'q res) \<Rightarrow> ('q \<Rightarrow> master \<Rightarrow> master \<times> 'r res) \<Rightarrow> ('r \<Rightarrow> 'v res)
    \<Rightarrow> 'w \<Rightarrow> master \<Rightarrow> master \<times> 'v res" where
  "through_servicer from_wire handler to_wire w m =
     (case from_wire w of Inl e \<Rightarrow> (m, servicer_status (Inl e))
      | Inr q \<Rightarrow> (let (m', r) = handler q m in (m', servicer_status (bind_res r to_wire))))"

definition through_client :: "('q \<Rightarrow> 'w res) \<Rightarrow> ('w \<Rightarrow> master \<Rightarrow> master \<times> 'v res) \<Rightarrow> ('v \<Rightarrow> 'r res)
    \<Rightarrow> 'q \<Rightarrow> master \<Rightarrow> master \<times> 'r res" where
  "through_client to_wire rpc from_wire q m =
     (case to_wire q of Inl e \<Rightarrow> (m, Inl e)
      | Inr w \<Rightarrow> (let (m', r) = rpc w m in (m', bind_res r from_wire)))"

definition client_register_worker :: "(string \<Rightarrow> string) \<Rightarrow> call_env \<Rightarrow> register_request \<Rightarrow> master \<Rightarrow> master \<times> register_response res" where
  "client_register_worker sha256 env = through_client register_request_to_wire
     (through_servicer register_request_from_wire (register_worker sha256 env) register_response_to_wire) register_response_from_wire"

definition client_heartbeat :: "(timestamp \<Rightarrow> int) \<Rightarrow> call_env \<Rightarrow> heartbeat_request \<Rightarrow> master \<Rightarrow> master \<times> verdict res" where
  "client_heartbeat to_ms env = through_client (heartbeat_request_to_wire to_ms)
     (through_servicer heartbeat_request_from_wire (heartbeat env) (Inr \<circ> verdict_to_wire)) (verdict_from_wire ''heartbeat'')"

definition client_update_capability :: "(string \<Rightarrow> string) \<Rightarrow> call_env \<Rightarrow> update_request \<Rightarrow> master \<Rightarrow> master \<times> verdict res" where
  "client_update_capability sha256 env = through_client update_request_to_wire
     (through_servicer update_request_from_wire (update_capability sha256 env) (Inr \<circ> verdict_to_wire)) (verdict_from_wire ''capability update'')"

subsection \<open>Enumerations read back\<close>

lemma device_kind_decodes [simp]: "decode_enum wire_to_device_kind (device_kind_to_wire k) f = Inr k"
  by (cases k) (simp_all add: decode_enum_def wire_to_device_kind_def inverted_def)

lemma memory_model_decodes [simp]: "decode_enum wire_to_memory_model (memory_model_to_wire k) f = Inr k"
  by (cases k) (simp_all add: decode_enum_def wire_to_memory_model_def inverted_def)

lemma availability_decodes [simp]: "decode_enum wire_to_availability (availability_to_wire k) f = Inr k"
  by (cases k) (simp_all add: decode_enum_def wire_to_availability_def inverted_def)

lemma runtime_status_decodes [simp]: "decode_enum wire_to_runtime_status (runtime_status_to_wire k) f = Inr k"
  by (cases k) (simp_all add: decode_enum_def wire_to_runtime_status_def inverted_def)

lemma model_availability_decodes [simp]: "decode_enum wire_to_model_availability (model_availability_to_wire k) f = Inr k"
  by (cases k) (simp_all add: decode_enum_def wire_to_model_availability_def inverted_def)

lemma rejection_reason_decodes [simp]: "wire_to_rejection_reason (rejection_reason_to_wire (Some k)) = Some k"
  by (cases k) (simp_all add: wire_to_rejection_reason_def inverted_def)


subsection \<open>Every mapper meets the contract\<close>

text \<open>What the integer fields of a message can hold.\<close>

definition capability_fits :: "worker_capability \<Rightarrow> bool" where
  "capability_fits c \<longleftrightarrow> list_all (\<lambda>n. pred_option int32 (ni_mtu n)) (wc_network_interfaces c)
     \<and> list_all (\<lambda>p. int64 (mp_total_bytes p)) (wc_memory_pools c)"

definition state_fits :: "worker_state \<Rightarrow> bool" where
  "state_fits s \<longleftrightarrow> list_all (\<lambda>m. pred_option int64 (mps_available_bytes m)) (ws_memory_states s)
     \<and> list_all (\<lambda>e. pred_option int64 (me_size_bytes e)) (ws_models s)"

text \<open>Rebuilding a record from its own fields.\<close>

lemma rebuilt [simp]:
  "\<lparr>wi_worker_id = wi_worker_id worker_identity_v, wi_hostname = wi_hostname worker_identity_v, wi_agent_version = wi_agent_version worker_identity_v, wi_protocol_version = wi_protocol_version worker_identity_v\<rparr> = worker_identity_v"
  "\<lparr>os_name = os_name os_info_v, os_version = os_version os_info_v, os_kernel = os_kernel os_info_v\<rparr> = os_info_v"
  "\<lparr>cr_runtime = cr_runtime container_runtime_capability_v, cr_version = cr_version container_runtime_capability_v, cr_nvidia_runtime_available = cr_nvidia_runtime_available container_runtime_capability_v\<rparr> = container_runtime_capability_v"
  "\<lparr>ni_interface_id = ni_interface_id network_interface_capability_v, ni_name = ni_name network_interface_capability_v, ni_addresses = ni_addresses network_interface_capability_v, ni_mtu = ni_mtu network_interface_capability_v\<rparr> = network_interface_capability_v"
  "\<lparr>rpl_backend = rpl_backend runtime_platform_capability_v, rpl_platform = rpl_platform runtime_platform_capability_v, rpl_image = rpl_image runtime_platform_capability_v\<rparr> = runtime_platform_capability_v"
  "\<lparr>mp_memory_pool_id = mp_memory_pool_id memory_pool_capability_v, mp_model = mp_model memory_pool_capability_v, mp_total_bytes = mp_total_bytes memory_pool_capability_v\<rparr> = memory_pool_capability_v"
  "\<lparr>di_device_id = di_device_id device_identity_v, di_kind = di_kind device_identity_v, di_local_locator = di_local_locator device_identity_v\<rparr> = device_identity_v"
  "\<lparr>dc_identity = dc_identity device_capability_v, dc_vendor = dc_vendor device_capability_v, dc_model = dc_model device_capability_v, dc_compute_capability = dc_compute_capability device_capability_v, dc_memory_pool_id = dc_memory_pool_id device_capability_v, dc_supported_dtypes = dc_supported_dtypes device_capability_v, dc_driver_version = dc_driver_version device_capability_v, dc_platform_tags = dc_platform_tags device_capability_v\<rparr> = device_capability_v"
  "\<lparr>wc_architecture = wc_architecture worker_capability_v, wc_os = wc_os worker_capability_v, wc_container_runtime = wc_container_runtime worker_capability_v, wc_network_interfaces = wc_network_interfaces worker_capability_v, wc_devices = wc_devices worker_capability_v, wc_memory_pools = wc_memory_pools worker_capability_v, wc_runtime_platforms = wc_runtime_platforms worker_capability_v, wc_capability_revision = wc_capability_revision worker_capability_v\<rparr> = worker_capability_v"
  "\<lparr>dv_device_id = dv_device_id device_state_v, dv_utilization = dv_utilization device_state_v, dv_temperature_c = dv_temperature_c device_state_v, dv_power_w = dv_power_w device_state_v, dv_availability = dv_availability device_state_v, dv_running_runtime_ids = dv_running_runtime_ids device_state_v\<rparr> = device_state_v"
  "\<lparr>mps_memory_pool_id = mps_memory_pool_id memory_pool_state_v, mps_available_bytes = mps_available_bytes memory_pool_state_v\<rparr> = memory_pool_state_v"
  "\<lparr>rt_runtime_id = rt_runtime_id runtime_instance_state_v, rt_backend = rt_backend runtime_instance_state_v, rt_execution_id = rt_execution_id runtime_instance_state_v, rt_status = rt_status runtime_instance_state_v, rt_device_ids = rt_device_ids runtime_instance_state_v, rt_container_id = rt_container_id runtime_instance_state_v, rt_endpoint = rt_endpoint runtime_instance_state_v, rt_model_local_name = rt_model_local_name runtime_instance_state_v\<rparr> = runtime_instance_state_v"
  "\<lparr>me_local_name = me_local_name model_inventory_entry_v, me_model_id = me_model_id model_inventory_entry_v, me_revision = me_revision model_inventory_entry_v, me_size_bytes = me_size_bytes model_inventory_entry_v, me_status = me_status model_inventory_entry_v\<rparr> = model_inventory_entry_v"
  "\<lparr>ws_worker_id = ws_worker_id worker_state_v, ws_device_states = ws_device_states worker_state_v, ws_memory_states = ws_memory_states worker_state_v, ws_runtime_instances = ws_runtime_instances worker_state_v, ws_models = ws_models worker_state_v\<rparr> = worker_state_v"
  "\<lparr>rr_protocol_version = rr_protocol_version register_request_v, rr_instance_id = rr_instance_id register_request_v, rr_identity = rr_identity register_request_v, rr_capability = rr_capability register_request_v, rr_initial_state = rr_initial_state register_request_v, rr_profiling_endpoint = rr_profiling_endpoint register_request_v\<rparr> = register_request_v"
  "\<lparr>uc_worker_id = uc_worker_id update_request_v, uc_instance_id = uc_instance_id update_request_v, uc_session_id = uc_session_id update_request_v, uc_capability = uc_capability update_request_v, uc_state = uc_state update_request_v\<rparr> = update_request_v"
  by simp_all

interpretation identity_codec: total_codec identity_to_wire identity_from_wire "\<lambda>i. check_worker_identity i = Inr ()"
  by unfold_locales (simp add: identity_to_wire_def identity_from_wire_def)

interpretation os_codec: total_codec os_to_wire os_from_wire "\<lambda>i. check_os_info i = Inr ()"
  by unfold_locales (simp add: os_to_wire_def os_from_wire_def)

interpretation container_codec: total_codec container_runtime_to_wire container_runtime_from_wire "\<lambda>c. check_container_runtime c = Inr ()"
  by unfold_locales (simp add: container_runtime_to_wire_def container_runtime_from_wire_def)

interpretation platform_codec: total_codec runtime_platform_to_wire runtime_platform_from_wire "\<lambda>p. check_runtime_platform p = Inr ()"
  by unfold_locales (simp add: runtime_platform_to_wire_def runtime_platform_from_wire_def)

interpretation device_codec: total_codec device_to_wire device_from_wire "\<lambda>d. check_device_capability d = Inr ()"
  by unfold_locales (simp add: device_to_wire_def device_from_wire_def Let_def)

interpretation device_state_codec: total_codec device_state_to_wire device_state_from_wire "\<lambda>d. check_device_state d = Inr ()"
  by unfold_locales (simp add: device_state_to_wire_def device_state_from_wire_def)

interpretation runtime_codec: total_codec runtime_instance_to_wire runtime_instance_from_wire "\<lambda>r. check_runtime_instance r = Inr ()"
  by unfold_locales (simp add: runtime_instance_to_wire_def runtime_instance_from_wire_def)

lemma set_optional_int32: "pred_option int32 v \<Longrightarrow> set_optional set_int32 v = Inr v"
  by (cases v) simp_all

lemma set_optional_int64: "pred_option int64 v \<Longrightarrow> set_optional set_int64 v = Inr v"
  by (cases v) simp_all

interpretation interface_codec: codec network_interface_to_wire network_interface_from_wire
  "\<lambda>n. check_network_interface n = Inr () \<and> pred_option int32 (ni_mtu n)"
  by unfold_locales (simp add: network_interface_to_wire_def network_interface_from_wire_def set_optional_int32)

interpretation pool_codec: codec memory_pool_to_wire memory_pool_from_wire
  "\<lambda>p. check_memory_pool p = Inr () \<and> int64 (mp_total_bytes p)"
  by unfold_locales (simp add: memory_pool_to_wire_def memory_pool_from_wire_def)

interpretation memory_state_codec: codec memory_state_to_wire memory_state_from_wire
  "\<lambda>m. check_memory_pool_state m = Inr () \<and> pred_option int64 (mps_available_bytes m)"
  by unfold_locales (simp add: memory_state_to_wire_def memory_state_from_wire_def set_optional_int64)

interpretation model_entry_codec: codec model_entry_to_wire model_entry_from_wire
  "\<lambda>e. check_model_entry e = Inr () \<and> pred_option int64 (me_size_bytes e)"
  by unfold_locales (simp add: model_entry_to_wire_def model_entry_from_wire_def set_optional_int64)

lemma check_capability_parts:
  assumes "check_worker_capability c = Inr ()"
  shows "check_os_info (wc_os c) = Inr ()" "pred_option (\<lambda>r. check_container_runtime r = Inr ()) (wc_container_runtime c)"
    "list_all (\<lambda>n. check_network_interface n = Inr ()) (wc_network_interfaces c)"
    "list_all (\<lambda>d. check_device_capability d = Inr ()) (wc_devices c)"
    "list_all (\<lambda>p. check_memory_pool p = Inr ()) (wc_memory_pools c)"
    "list_all (\<lambda>p. check_runtime_platform p = Inr ()) (wc_runtime_platforms c)"
  using assms by (auto simp: check_worker_capability_def for_res_Inr list_all_iff split: option.splits)

lemma check_state_parts:
  assumes "check_worker_state s = Inr ()"
  shows "list_all (\<lambda>d. check_device_state d = Inr ()) (ws_device_states s)"
    "list_all (\<lambda>m. check_memory_pool_state m = Inr ()) (ws_memory_states s)"
    "list_all (\<lambda>r. check_runtime_instance r = Inr ()) (ws_runtime_instances s)"
    "list_all (\<lambda>e. check_model_entry e = Inr ()) (ws_models s)"
  using assms by (auto simp: check_worker_state_def for_res_Inr list_all_iff)

lemma list_all_conj: "list_all P xs \<Longrightarrow> list_all Q xs \<Longrightarrow> list_all (\<lambda>x. P x \<and> Q x) xs"
  by (simp add: list_all_iff)

interpretation capability_codec: codec capability_to_wire capability_from_wire
  "\<lambda>c. check_worker_capability c = Inr () \<and> capability_fits c"
proof (unfold_locales, elim conjE)
  fix c assume ok: "check_worker_capability c = Inr ()" and fits: "capability_fits c"
  note parts = check_capability_parts [OF ok]
  obtain nis where nis: "traverse_res network_interface_to_wire (wc_network_interfaces c) = Inr nis"
    "traverse_res network_interface_from_wire nis = Inr (wc_network_interfaces c)"
    using interface_codec.list_reads_back [OF list_all_conj [OF parts(3)]] fits by (auto simp: capability_fits_def)
  obtain ps where ps: "traverse_res memory_pool_to_wire (wc_memory_pools c) = Inr ps"
    "traverse_res memory_pool_from_wire ps = Inr (wc_memory_pools c)"
    using pool_codec.list_reads_back [OF list_all_conj [OF parts(5)]] fits by (auto simp: capability_fits_def)
  show "\<exists>w. capability_to_wire c = Inr w \<and> capability_from_wire w = Inr c"
    by (simp add: capability_to_wire_def capability_from_wire_def nis ps ok os_codec.decodes parts(1)
        container_codec.option_decodes parts(2) device_codec.list_decodes parts(4) platform_codec.list_decodes parts(6))
qed

interpretation state_codec: codec state_to_wire state_from_wire "\<lambda>s. check_worker_state s = Inr () \<and> state_fits s"
proof (unfold_locales, elim conjE)
  fix s assume ok: "check_worker_state s = Inr ()" and fits: "state_fits s"
  note parts = check_state_parts [OF ok]
  obtain ms where ms: "traverse_res memory_state_to_wire (ws_memory_states s) = Inr ms"
    "traverse_res memory_state_from_wire ms = Inr (ws_memory_states s)"
    using memory_state_codec.list_reads_back [OF list_all_conj [OF parts(2)]] fits by (auto simp: state_fits_def)
  obtain es where es: "traverse_res model_entry_to_wire (ws_models s) = Inr es"
    "traverse_res model_entry_from_wire es = Inr (ws_models s)"
    using model_entry_codec.list_reads_back [OF list_all_conj [OF parts(4)]] fits by (auto simp: state_fits_def)
  show "\<exists>w. state_to_wire s = Inr w \<and> state_from_wire w = Inr s"
    by (simp add: state_to_wire_def state_from_wire_def ms es ok device_state_codec.list_decodes parts(1)
        runtime_codec.list_decodes parts(3))
qed

lemma check_register_parts:
  assumes "check_register_request r = Inr ()"
  shows "check_worker_identity (rr_identity r) = Inr ()" "check_worker_capability (rr_capability r) = Inr ()"
    "check_worker_state (rr_initial_state r) = Inr ()" "rr_protocol_version r = CONTROL_PROTOCOL_VERSION"
  using assms by (auto simp: check_register_request_def)

interpretation register_codec: codec register_request_to_wire register_request_from_wire
  "\<lambda>r. check_register_request r = Inr () \<and> capability_fits (rr_capability r) \<and> state_fits (rr_initial_state r)"
proof (unfold_locales, elim conjE)
  fix r assume ok: "check_register_request r = Inr ()" and fits: "capability_fits (rr_capability r)" "state_fits (rr_initial_state r)"
  note parts = check_register_parts [OF ok]
  obtain c where c: "capability_to_wire (rr_capability r) = Inr c" "capability_from_wire c = Inr (rr_capability r)"
    using capability_codec.reads_back parts(2) fits(1) by blast
  obtain s where s: "state_to_wire (rr_initial_state r) = Inr s" "state_from_wire s = Inr (rr_initial_state r)"
    using state_codec.reads_back parts(3) fits(2) by blast
  have i: "identity_from_wire (identity_to_wire (rr_identity r)) = Inr (rr_identity r)"
    by (rule identity_codec.decodes) (rule parts(1))
  show "\<exists>w. register_request_to_wire r = Inr w \<and> register_request_from_wire w = Inr r"
    using ok by (simp add: register_request_to_wire_def register_request_from_wire_def c s i parts(4) [symmetric])
qed

interpretation update_codec: codec update_request_to_wire update_request_from_wire
  "\<lambda>r. check_update_request r = Inr () \<and> capability_fits (uc_capability r) \<and> state_fits (uc_state r)"
proof (unfold_locales, elim conjE)
  fix r assume ok: "check_update_request r = Inr ()" and fits: "capability_fits (uc_capability r)" "state_fits (uc_state r)"
  have parts: "check_worker_capability (uc_capability r) = Inr ()" "check_worker_state (uc_state r) = Inr ()"
    using ok by (auto simp: check_update_request_def)
  obtain c where c: "capability_to_wire (uc_capability r) = Inr c" "capability_from_wire c = Inr (uc_capability r)"
    using capability_codec.reads_back parts(1) fits(1) by blast
  obtain s where s: "state_to_wire (uc_state r) = Inr s" "state_from_wire s = Inr (uc_state r)"
    using state_codec.reads_back parts(2) fits(2) by blast
  show "\<exists>w. update_request_to_wire r = Inr w \<and> update_request_from_wire w = Inr r"
    using ok by (simp add: update_request_to_wire_def update_request_from_wire_def c s)
qed

text \<open>A heartbeat comes back with its report time rounded to whole milliseconds and otherwise unchanged.\<close>

definition in_ms :: "(timestamp \<Rightarrow> int) \<Rightarrow> heartbeat_request \<Rightarrow> heartbeat_request" where
  "in_ms to_ms r = r\<lparr>hb_worker_reported_at := map_option (timestamp_from_ms \<circ> to_ms) (hb_worker_reported_at r)\<rparr>"

lemma in_ms_eq: "in_ms to_ms r = \<lparr>hb_worker_id = hb_worker_id r, hb_instance_id = hb_instance_id r, hb_session_id = hb_session_id r,
    hb_sequence_number = hb_sequence_number r, hb_capability_revision = hb_capability_revision r, hb_state = hb_state r,
    hb_worker_reported_at = map_option (timestamp_from_ms \<circ> to_ms) (hb_worker_reported_at r)\<rparr>"
  by (cases r) (simp add: in_ms_def)

definition heartbeat_fits :: "(timestamp \<Rightarrow> int) \<Rightarrow> heartbeat_request \<Rightarrow> bool" where
  "heartbeat_fits to_ms r \<longleftrightarrow> int64 (hb_sequence_number r) \<and> state_fits (hb_state r)
     \<and> pred_option (int64 \<circ> to_ms) (hb_worker_reported_at r)"

lemma check_heartbeat_in_ms: "check_heartbeat_request r = Inr () \<Longrightarrow> check_heartbeat_request (in_ms to_ms r) = Inr ()"
  by (auto simp: check_heartbeat_request_def in_ms_def require_aware_def timestamp_from_ms_def split: option.splits)

lemma heartbeat_request_decodes:
  assumes "check_heartbeat_request r = Inr ()" and "heartbeat_fits to_ms r"
  shows "\<exists>w. heartbeat_request_to_wire to_ms r = Inr w \<and> heartbeat_request_from_wire w = Inr (in_ms to_ms r)"
proof -
  have "check_worker_state (hb_state r) = Inr ()" using assms(1) by (auto simp: check_heartbeat_request_def)
  then obtain s where s: "state_to_wire (hb_state r) = Inr s" "state_from_wire s = Inr (hb_state r)"
    using state_codec.reads_back [of "hb_state r"] assms(2) by (auto simp: heartbeat_fits_def)
  have ms: "set_optional (set_int64 \<circ> to_ms) (hb_worker_reported_at r) = Inr (map_option to_ms (hb_worker_reported_at r))"
    using assms(2) by (cases "hb_worker_reported_at r") (simp_all add: heartbeat_fits_def)
  show ?thesis
    using check_heartbeat_in_ms [OF assms(1), of to_ms] assms(2)
    by (simp add: heartbeat_request_to_wire_def heartbeat_request_from_wire_def s ms heartbeat_fits_def in_ms_eq option.map_comp)
qed

lemma in_ms_fields [simp]: "hb_worker_id (in_ms to_ms r) = hb_worker_id r" "hb_instance_id (in_ms to_ms r) = hb_instance_id r"
  "hb_session_id (in_ms to_ms r) = hb_session_id r" "hb_sequence_number (in_ms to_ms r) = hb_sequence_number r"
  "hb_capability_revision (in_ms to_ms r) = hb_capability_revision r" "hb_state (in_ms to_ms r) = hb_state r"
  by (simp_all add: in_ms_def)

lemma heartbeat_in_ms [simp]: "heartbeat env (in_ms to_ms r) m = heartbeat env r m"
  unfolding heartbeat_def check_heartbeat_revision_def in_ms_fields by (rule refl)


subsection \<open>What does not fit is refused before it is sent\<close>

lemma traverse_res_first_fails:
  assumes "\<And>x. x \<in> set xs \<Longrightarrow> f x = (if P x then Inr (g x) else Inl e)"
  shows "traverse_res f xs = (if list_all P xs then Inr (map g xs) else Inl e)"
  using assms by (induction xs) auto

lemma set_optional_first_fails:
  assumes "\<And>x. f x = (if P x then Inr (g x) else Inl e)"
  shows "set_optional f v = (if pred_option P v then Inr (map_option g v) else Inl e)"
  using assms by (cases v) auto

abbreviation out_of_range :: exn where
  "out_of_range \<equiv> ValueError ''value out of range''"

lemma set_int_eq: "set_int32 i = (if int32 i then Inr (id i) else Inl out_of_range)" "set_int64 i = (if int64 i then Inr (id i) else Inl out_of_range)"
  by simp_all

lemma network_interface_to_wire_eq:
  "network_interface_to_wire n = (if pred_option int32 (ni_mtu n)
     then Inr \<lparr>pni_interface_id = ni_interface_id n, pni_name = ni_name n, pni_addresses = ni_addresses n, pni_mtu = ni_mtu n\<rparr>
     else Inl out_of_range)"
  by (cases "ni_mtu n") (simp_all add: network_interface_to_wire_def set_int32_def)

lemma memory_pool_to_wire_eq:
  "memory_pool_to_wire p = (if int64 (mp_total_bytes p)
     then Inr \<lparr>pmp_memory_pool_id = mp_memory_pool_id p, pmp_model = memory_model_to_wire (mp_model p), pmp_total_bytes = mp_total_bytes p\<rparr>
     else Inl out_of_range)"
  by (simp add: memory_pool_to_wire_def)

lemma memory_state_to_wire_eq:
  "memory_state_to_wire m = (if pred_option int64 (mps_available_bytes m)
     then Inr \<lparr>pms_memory_pool_id = mps_memory_pool_id m, pms_available_bytes = mps_available_bytes m\<rparr> else Inl out_of_range)"
  by (cases "mps_available_bytes m") (simp_all add: memory_state_to_wire_def set_int64_def)

lemma model_entry_to_wire_eq:
  "model_entry_to_wire e = (if pred_option int64 (me_size_bytes e)
     then Inr \<lparr>pme_local_name = me_local_name e, pme_model_id = me_model_id e, pme_revision = me_revision e,
       pme_size_bytes = me_size_bytes e, pme_status = model_availability_to_wire (me_status e)\<rparr> else Inl out_of_range)"
  by (cases "me_size_bytes e") (simp_all add: model_entry_to_wire_def set_int64_def)

lemma capability_to_wire_misfit: "\<not> capability_fits c \<Longrightarrow> capability_to_wire c = Inl out_of_range"
  by (auto simp: capability_to_wire_def capability_fits_def traverse_res_first_fails [OF network_interface_to_wire_eq]
      traverse_res_first_fails [OF memory_pool_to_wire_eq])

lemma state_to_wire_misfit: "\<not> state_fits s \<Longrightarrow> state_to_wire s = Inl out_of_range"
  by (auto simp: state_to_wire_def state_fits_def traverse_res_first_fails [OF memory_state_to_wire_eq]
      traverse_res_first_fails [OF model_entry_to_wire_eq])

lemma capability_state_misfit:
  assumes "check_worker_capability c = Inr ()" "\<not> (capability_fits c \<and> state_fits s)"
  shows "bind_res (capability_to_wire c) (\<lambda>cw. bind_res (state_to_wire s) (f cw)) = Inl out_of_range"
  using assms capability_codec.reads_back [of c]
  by (cases "capability_fits c") (auto simp: capability_to_wire_misfit state_to_wire_misfit)

lemma heartbeat_to_wire_misfit:
  assumes "check_heartbeat_request r = Inr ()" "\<not> heartbeat_fits to_ms r"
  shows "heartbeat_request_to_wire to_ms r = Inl out_of_range"
proof -
  have s: "check_worker_state (hb_state r) = Inr ()" using assms(1) by (auto simp: check_heartbeat_request_def)
  show ?thesis
  proof (cases "int64 (hb_sequence_number r) \<and> state_fits (hb_state r)")
    case True
    with assms(2) obtain t where "hb_worker_reported_at r = Some t" "\<not> int64 (to_ms t)"
      by (cases "hb_worker_reported_at r") (auto simp: heartbeat_fits_def)
    with True state_codec.reads_back [of "hb_state r"] s show ?thesis
      by (auto simp: heartbeat_request_to_wire_def)
  next
    case False
    then show ?thesis
      by (cases "int64 (hb_sequence_number r)") (simp_all add: heartbeat_request_to_wire_def state_to_wire_misfit)
  qed
qed


subsection \<open>A call through the wire\<close>

text \<open>A verdict the Master builds is one the client accepts.\<close>

lemma verdict_decodes:
  assumes "make_verdict what v = Inr v"
  shows "verdict_from_wire what' (verdict_to_wire v) = Inr v"
proof (cases "vd_accepted v")
  case True
  with assms have "vd_reason v = None" by (auto simp: make_verdict_def split: if_splits)
  with True show ?thesis
    by (simp add: verdict_from_wire_def verdict_to_wire_def rejection_reason_from_wire_def make_verdict_def)
next
  case False
  with assms obtain k where "vd_reason v = Some k" "vd_detail v \<noteq> []" by (auto simp: make_verdict_def split: if_splits)
  with False show ?thesis
    by (simp add: verdict_from_wire_def verdict_to_wire_def rejection_reason_from_wire_def make_verdict_def)
qed

lemma through_wire:
  assumes enc: "to_wire q = Inr w" and dec: "from_wire w = Inr q'"
    and reply: "\<And>r. snd (handler q' m) = Inr r \<Longrightarrow> \<exists>v. reply_to_wire r = Inr v \<and> reply_from_wire v = Inr r"
  shows "through_client to_wire (through_servicer from_wire handler reply_to_wire) reply_from_wire q m
     = (fst (handler q' m), servicer_status (snd (handler q' m)))"
proof -
  obtain m' r where h: "handler q' m = (m', r)" by fastforce
  show ?thesis
  proof (cases r)
    case (Inl e)
    then show ?thesis by (cases e) (simp_all add: through_client_def through_servicer_def enc dec h)
  next
    case (Inr a)
    with reply [of a] h obtain v where "reply_to_wire a = Inr v" "reply_from_wire v = Inr a" by auto
    with Inr show ?thesis by (simp add: through_client_def through_servicer_def enc dec h)
  qed
qed

lemma make_verdict_checked: "make_verdict what v = Inr r \<Longrightarrow> make_verdict what r = Inr r"
  by (auto simp: make_verdict_def split: if_splits)

lemma bind_st_verdict:
  assumes "snd (bind_st x f) = Inr r" and "\<And>a m. snd (f a m) = Inr r \<Longrightarrow> P"
  shows P
  using assms by (cases x; cases "snd x") (auto simp: bind_st_def)

lemma heartbeat_verdict: "snd (heartbeat env req m) = Inr v \<Longrightarrow> \<exists>what. make_verdict what v = Inr v"
  by (auto simp: heartbeat_def Let_def lift_st_def split: option.splits elim!: bind_st_verdict dest: make_verdict_checked)

lemma update_verdict: "snd (update_capability sha256 env req m) = Inr v \<Longrightarrow> \<exists>what. make_verdict what v = Inr v"
  by (auto simp: update_capability_def lift_st_def split: option.splits elim!: bind_st_verdict dest: make_verdict_checked)

lemma register_response_decodes:
  assumes "make_register_response r = Inr r" and "int32 (rp_heartbeat_interval_ms r)"
  shows "\<exists>v. register_response_to_wire r = Inr v \<and> register_response_from_wire v = Inr r"
  using assms by (cases r) (simp add: register_response_to_wire_def register_response_from_wire_def)

lemma registers_keep_config:
  "ms_config (fst (registry_upsert i c e m)) = ms_config m" "ms_config (fst (open_session w s f m)) = ms_config m"
  "ms_config (fst (states_record w st env m)) = ms_config m"
  by (simp_all add: registry_upsert_def open_session_def states_record_def Let_def split: sum.split)

lemma bind_st_reply:
  assumes "snd (bind_st x f) = Inr r"
  obtains a where "snd x = Inr a" "snd (f a (fst x)) = Inr r"
  using assms by (cases x; cases "snd x") (auto simp: bind_st_def)

lemma register_worker_reply:
  assumes "snd (register_worker sha256 env req m) = Inr r"
  shows "make_register_response r = Inr r" "rp_heartbeat_interval_ms r = mc_heartbeat_interval_ms (ms_config m)"
proof -
  have "\<exists>sid. make_register_response \<lparr>rp_session_id = sid, rp_heartbeat_interval_ms = mc_heartbeat_interval_ms (ms_config m),
      rp_server_protocol_version = CONTROL_PROTOCOL_VERSION\<rparr> = Inr r"
    using assms unfolding register_worker_def
    by (elim bind_st_reply) (auto simp: lift_st_def registers_keep_config)
  then show "make_register_response r = Inr r" "rp_heartbeat_interval_ms r = mc_heartbeat_interval_ms (ms_config m)"
    by (auto simp: make_register_response_def)
qed


subsection \<open>Properties\<close>

definition demo_update :: update_request where
  "demo_update = \<lparr>uc_worker_id = ''w'', uc_instance_id = ''i'', uc_session_id = ''s1'', uc_capability = demo_capability, uc_state = demo_state\<rparr>"

lemma demo_fits: "capability_fits demo_capability" "state_fits demo_state" "rr_capability demo_register = demo_capability"
  "rr_initial_state demo_register = demo_state"
  by (simp_all add: capability_fits_def state_fits_def demo_capability_def demo_base_def demo_pool_def demo_state_def demo_register_def int64_def int32_def)

lemma demo_interval: "ms_config (master_init c) = c" "mc_heartbeat_interval_ms demo_master_config = 5000" "int32 5000"
  by (simp_all add: master_init_def demo_master_config_def int32_def)

lemma demo_update_fields: "check_update_request demo_update = Inr ()" "uc_capability demo_update = demo_capability" "uc_state demo_update = demo_state"
  using demo_register_ok(1) by (simp_all add: demo_update_def check_update_request_def check_register_request_def demo_register_def)

lemma demo_update_accepted:
  assumes "f \<noteq> []"
  shows "snd (update_capability demo_hash (demo_call 1 f) demo_update demo_master) = Inr \<lparr>vd_accepted = True, vd_detail = [], vd_reason = None\<rparr>"
proof -
  have "update_admits demo_hash demo_update \<lparr>si_worker_id = ''w'', si_instance_id = ''i'', si_session_id = ''s1'', si_last_accepted_sequence = 0\<rparr>"
    (is "update_admits _ _ ?s")
    using demo_register_ok(2) by (simp add: update_admits_def register_admits_def demo_update_def demo_register_def)
  then have "f \<noteq> [] \<Longrightarrow> update_capability demo_hash (demo_call 1 f) demo_update demo_master
      = (updated (demo_call 1 f) demo_update \<lparr>wr_identity = demo_identity, wr_capability = demo_capability, wr_profiling_endpoint = None\<rparr>
           demo_master, Inr \<lparr>vd_accepted = True, vd_detail = [], vd_reason = None\<rparr>)"
    by (intro update_capability_accepted [where s = ?s]) (simp_all add: demo_update_def demo_master_fields)
  with assms show ?thesis by simp
qed

text \<open>[C17] A registration over the wire is a registration: for a well-formed request whose integers fit the
  message fields, the client gets exactly what the handler of the Master answers (a refusal as the
  status the servicer maps it to) and the Master ends in exactly the state the handler leaves.
  A request that does not fit raises at the client and the Master is not touched.\<close>

theorem register_over_the_wire:
  assumes "check_register_request req = Inr ()" and "int32 (mc_heartbeat_interval_ms (ms_config m))"
  shows "client_register_worker sha256 env req m =
     (if capability_fits (rr_capability req) \<and> state_fits (rr_initial_state req)
      then (fst (register_worker sha256 env req m), servicer_status (snd (register_worker sha256 env req m)))
      else (m, Inl (ValueError ''value out of range'')))"
proof (cases "capability_fits (rr_capability req) \<and> state_fits (rr_initial_state req)")
  case True
  with assms(1) obtain w where w: "register_request_to_wire req = Inr w" "register_request_from_wire w = Inr req"
    using register_codec.reads_back by blast
  have "client_register_worker sha256 env req m =
      (fst (register_worker sha256 env req m), servicer_status (snd (register_worker sha256 env req m)))"
    unfolding client_register_worker_def
    by (rule through_wire [where to_wire = "register_request_to_wire" and from_wire = register_request_from_wire and q' = req, OF w])
      (use assms(2) in \<open>auto intro!: register_response_decodes dest: register_worker_reply\<close>)
  with True show ?thesis by simp
next
  case False
  have "register_request_to_wire req = Inl out_of_range"
    unfolding register_request_to_wire_def
    by (rule capability_state_misfit [OF check_register_parts(2) [OF assms(1)] False])
  then show ?thesis unfolding if_not_P [OF False] by (simp add: client_register_worker_def through_client_def)
qed

theorem register_over_the_wire_witness:
  "client_register_worker demo_hash (demo_call 0 ''s1'') demo_register (master_init demo_master_config)
     = (demo_master, Inr \<lparr>rp_session_id = ''s1'', rp_heartbeat_interval_ms = 5000, rp_server_protocol_version = ''1''\<rparr>)"
  using register_over_the_wire [of demo_register "master_init demo_master_config" demo_hash "demo_call 0 ''s1''"]
  by (simp add: demo_fits demo_interval register_worker_admitted demo_master_eq CONTROL_PROTOCOL_VERSION_def)

text \<open>A heartbeat over the wire is a heartbeat: the report time is the only field that changes on
  the way, and the Master does not use it.\<close>

lemma heartbeat_over_the_wire:
  assumes "check_heartbeat_request req = Inr ()"
  shows "client_heartbeat to_ms env req m =
     (if heartbeat_fits to_ms req
      then (fst (heartbeat env req m), servicer_status (snd (heartbeat env req m)))
      else (m, Inl (ValueError ''value out of range'')))"
proof (cases "heartbeat_fits to_ms req")
  case True
  from heartbeat_request_decodes [OF assms True] obtain w
    where w: "heartbeat_request_to_wire to_ms req = Inr w" "heartbeat_request_from_wire w = Inr (in_ms to_ms req)" by blast
  have "client_heartbeat to_ms env req m = (fst (heartbeat env (in_ms to_ms req) m), servicer_status (snd (heartbeat env (in_ms to_ms req) m)))"
    unfolding client_heartbeat_def
    by (rule through_wire [where to_wire = "heartbeat_request_to_wire to_ms" and from_wire = heartbeat_request_from_wire and q' = "in_ms to_ms req", OF w]) (auto intro: verdict_decodes dest!: heartbeat_verdict)
  with True show ?thesis by simp
next
  case False
  with heartbeat_to_wire_misfit [OF assms False] show ?thesis by (simp add: client_heartbeat_def through_client_def)
qed

text \<open>A capability update over the wire is a capability update.\<close>

lemma update_over_the_wire:
  assumes "check_update_request req = Inr ()"
  shows "client_update_capability sha256 env req m =
     (if capability_fits (uc_capability req) \<and> state_fits (uc_state req)
      then (fst (update_capability sha256 env req m), servicer_status (snd (update_capability sha256 env req m)))
      else (m, Inl (ValueError ''value out of range'')))"
proof (cases "capability_fits (uc_capability req) \<and> state_fits (uc_state req)")
  case True
  with assms obtain w where w: "update_request_to_wire req = Inr w" "update_request_from_wire w = Inr req"
    using update_codec.reads_back by blast
  have "client_update_capability sha256 env req m =
      (fst (update_capability sha256 env req m), servicer_status (snd (update_capability sha256 env req m)))"
    unfolding client_update_capability_def
    by (rule through_wire [where to_wire = "update_request_to_wire" and from_wire = update_request_from_wire and q' = req, OF w]) (auto intro: verdict_decodes dest!: update_verdict)
  with True show ?thesis by simp
next
  case False
  have "check_worker_capability (uc_capability req) = Inr ()" using assms by (auto simp: check_update_request_def)
  then have "update_request_to_wire req = Inl out_of_range"
    unfolding update_request_to_wire_def by (rule capability_state_misfit [OF _ False])
  then show ?thesis unfolding if_not_P [OF False] by (simp add: client_update_capability_def through_client_def)
qed

end
