(* ===== verification/Profiling_Values.thy ===== *)
theory Profiling_Values
  imports Cluster
begin

section \<open>Profiling identities: signatures, models, environments and network pairs\<close>

text \<open>
  \<^verbatim>\<open>profiling/domain/hashing.py\<close>, \<^verbatim>\<open>signature.py\<close>, \<^verbatim>\<open>model.py\<close>, \<^verbatim>\<open>environment.py\<close> and \<^verbatim>\<open>network.py\<close>. Each dataclass is a record with
  a check for its \<^verbatim>\<open>__post_init__\<close> and, where it takes part in an identity, its canonical value: the
  object of its fields. The check of an object includes those of the objects it holds, which are
  constructed first.

  A Python float is finite, infinite or not a number. The text of a finite float in JSON is its
  \<^verbatim>\<open>repr\<close>, a parameter; so is SHA-256.
\<close>


subsection \<open>Floats and checks\<close>

datatype pyfloat = Fin rat | PInf | NInf | NaN

fun isfinite :: "pyfloat \<Rightarrow> bool" where
  "isfinite (Fin _) = True"
| "isfinite _ = False"

text \<open>Comparison with NaN is false.\<close>

fun float_le :: "pyfloat \<Rightarrow> pyfloat \<Rightarrow> bool" where
  "float_le (Fin x) (Fin y) = (x \<le> y)"
| "float_le NaN _ = False"
| "float_le _ NaN = False"
| "float_le NInf _ = True"
| "float_le _ PInf = True"
| "float_le _ _ = False"

fun float_less :: "pyfloat \<Rightarrow> pyfloat \<Rightarrow> bool" where
  "float_less (Fin x) (Fin y) = (x < y)"
| "float_less NaN _ = False"
| "float_less _ NaN = False"
| "float_less PInf _ = False"
| "float_less _ NInf = False"
| "float_less _ _ = True"

fun checks :: "unit res list \<Rightarrow> unit res" where
  "checks [] = Inr ()"
| "checks (c # cs) = then_res c (checks cs)"

lemma checks_Inr [res_simps]: "checks cs = Inr u \<longleftrightarrow> list_all (\<lambda>c. c = Inr ()) cs"
  by (induction cs) auto

definition positive :: "string \<Rightarrow> int \<Rightarrow> unit res" where
  "positive what i = raise_if (i \<le> 0) (ValueError what)"

definition absent_or :: "(string \<Rightarrow> 'a \<Rightarrow> unit res) \<Rightarrow> string \<Rightarrow> 'a option \<Rightarrow> unit res" where
  "absent_or check what v = (case v of None \<Rightarrow> Inr () | Some x \<Rightarrow> check what x)"

definition present_check :: "('a \<Rightarrow> unit res) \<Rightarrow> 'a option \<Rightarrow> unit res" where
  "present_check check v = (case v of None \<Rightarrow> Inr () | Some x \<Rightarrow> check x)"

lemma positive_Inr [simp, res_simps]: "positive what i = Inr u \<longleftrightarrow> 0 < i"
  by (auto simp: positive_def)

lemma absent_or_Inr [simp, res_simps]: "absent_or check what v = Inr u \<longleftrightarrow> (\<forall>x. v = Some x \<longrightarrow> check what x = Inr ())"
  by (auto simp: absent_or_def split: option.split)

lemma present_check_Inr [simp, res_simps]: "present_check check v = Inr u \<longleftrightarrow> (\<forall>x. v = Some x \<longrightarrow> check x = Inr ())"
  by (auto simp: present_check_def split: option.split)


subsection \<open>Canonical values (\<^verbatim>\<open>hashing.py\<close>)\<close>

datatype json_scalar = SBool bool | SInt int | SFloat pyfloat | SStr string | SNull

fun jfloat :: "(rat \<Rightarrow> string) \<Rightarrow> pyfloat \<Rightarrow> json" where
  "jfloat fr (Fin x) = JNum (fr x)"
| "jfloat fr PInf = JNum ''Infinity''"
| "jfloat fr NInf = JNum ''-Infinity''"
| "jfloat fr NaN = JNum ''NaN''"

fun jscalar :: "(rat \<Rightarrow> string) \<Rightarrow> json_scalar \<Rightarrow> json" where
  "jscalar fr (SBool b) = JBool b"
| "jscalar fr (SInt i) = JInt i"
| "jscalar fr (SFloat x) = jfloat fr x"
| "jscalar fr (SStr s) = JStr s"
| "jscalar fr SNull = JNull"

definition jitems :: "('v \<Rightarrow> json) \<Rightarrow> (string \<times> 'v) list \<Rightarrow> json" where
  "jitems f items = JList (map (\<lambda>(k, v). JList [JStr k, f v]) items)"

fun check_sorted_items :: "string \<Rightarrow> string option \<Rightarrow> (string \<times> 'v) list \<Rightarrow> unit res" where
  "check_sorted_items field previous [] = Inr ()"
| "check_sorted_items field previous ((k, v) # items) =
     then_res (raise_if (k = []) (ValueError (field @ '' keys must be non-empty strings'')))
     (then_res (raise_if (case previous of None \<Rightarrow> False | Some p \<Rightarrow> k \<le> p) (ValueError (field @ '' items must be sorted by unique key'')))
     (check_sorted_items field (Some k) items))"

definition check_normalized_items :: "string \<Rightarrow> (string \<times> 'v) list \<Rightarrow> unit res" where
  "check_normalized_items field items = check_sorted_items field None items"

text \<open>The items of a mapping, sorted by key: the keys of a mapping are distinct, so the values never
  decide the order.\<close>

definition normalized_items :: "string \<Rightarrow> (string \<times> 'v) list \<Rightarrow> (string \<times> 'v) list res" where
  "normalized_items field mapping =
     then_res (for_res (\<lambda>(k, v). raise_if (k = []) (ValueError (field @ '' keys must be non-empty strings''))) mapping)
     (let items = sort_key fst mapping in then_res (check_normalized_items field items) (Inr items))"

text \<open>\<^verbatim>\<open>json.dumps(..., allow_nan=False)\<close> refuses a float that is not finite.\<close>

fun finite_json :: "json \<Rightarrow> bool" where
  "finite_json (JNum t) = (t \<noteq> ''NaN'' \<and> t \<noteq> ''Infinity'' \<and> t \<noteq> ''-Infinity'')"
| "finite_json (JList xs) = list_all finite_json xs"
| "finite_json (JObj kvs) = list_all finite_json (map snd kvs)"
| "finite_json _ = True"

definition canonical_json :: "json \<Rightarrow> string res" where
  "canonical_json v = (if finite_json v then Inr (dumps v) else Inl (ValueError ''Out of range float values are not JSON compliant''))"

definition canonical_sha256 :: "(string \<Rightarrow> string) \<Rightarrow> json \<Rightarrow> string res" where
  "canonical_sha256 sha v = map_res sha (canonical_json v)"


subsection \<open>Workload signatures (\<^verbatim>\<open>signature.py\<close>)\<close>

datatype granularity = TRANSFORMER_LAYER | MODULE | OPERATOR

fun granularity_value :: "granularity \<Rightarrow> string" where
  "granularity_value TRANSFORMER_LAYER = ''transformer_layer''"
| "granularity_value MODULE = ''module''"
| "granularity_value OPERATOR = ''operator''"

datatype prof_phase = PHASE_PREFILL | PHASE_DECODE

fun prof_phase_value :: "prof_phase \<Rightarrow> string" where
  "prof_phase_value PHASE_PREFILL = ''prefill''"
| "prof_phase_value PHASE_DECODE = ''decode''"

datatype module_kind = MODULE_ATTENTION | MODULE_MLP | MODULE_NORM | MODULE_PROJECTION | MODULE_EMBEDDING | MODULE_LM_HEAD | MODULE_VISION_ENCODER | MODULE_PROJECTOR | MODULE_OTHER

fun module_kind_value :: "module_kind \<Rightarrow> string" where
  "module_kind_value MODULE_ATTENTION = ''attention''"
| "module_kind_value MODULE_MLP = ''mlp''"
| "module_kind_value MODULE_NORM = ''norm''"
| "module_kind_value MODULE_PROJECTION = ''projection''"
| "module_kind_value MODULE_EMBEDDING = ''embedding''"
| "module_kind_value MODULE_LM_HEAD = ''lm_head''"
| "module_kind_value MODULE_VISION_ENCODER = ''vision_encoder''"
| "module_kind_value MODULE_PROJECTOR = ''projector''"
| "module_kind_value MODULE_OTHER = ''other''"

datatype operator_kind = OP_GEMM | OP_ATTENTION | OP_NORM | OP_ROTARY | OP_ELEMENTWISE | OP_REDUCTION | OP_EMBEDDING | OP_KV_COPY | OP_CUSTOM

fun operator_kind_value :: "operator_kind \<Rightarrow> string" where
  "operator_kind_value OP_GEMM = ''gemm''"
| "operator_kind_value OP_ATTENTION = ''attention''"
| "operator_kind_value OP_NORM = ''norm''"
| "operator_kind_value OP_ROTARY = ''rotary''"
| "operator_kind_value OP_ELEMENTWISE = ''elementwise''"
| "operator_kind_value OP_REDUCTION = ''reduction''"
| "operator_kind_value OP_EMBEDDING = ''embedding''"
| "operator_kind_value OP_KV_COPY = ''kv_copy''"
| "operator_kind_value OP_CUSTOM = ''custom''"

datatype layer_position = EARLY | MIDDLE | LATE | SPECIAL

fun layer_position_value :: "layer_position \<Rightarrow> string" where
  "layer_position_value EARLY = ''early''"
| "layer_position_value MIDDLE = ''middle''"
| "layer_position_value LATE = ''late''"
| "layer_position_value SPECIAL = ''special''"

datatype norm_variant = RMS | LAYER | OTHER_NORM

fun norm_variant_value :: "norm_variant \<Rightarrow> string" where
  "norm_variant_value RMS = ''rms''"
| "norm_variant_value LAYER = ''layer''"
| "norm_variant_value OTHER_NORM = ''other''"

record layer_signature =
  tls_architecture_family :: string
  tls_layer_type :: string
  tls_hidden_size :: int
  tls_intermediate_size :: "int option"
  tls_num_attention_heads :: int
  tls_num_kv_heads :: "int option"
  tls_head_dim :: "int option"
  tls_dtype :: string
  tls_quantization :: "string option"
  tls_special_role :: "string option"

definition canonical_layer_signature :: "layer_signature \<Rightarrow> json" where
  "canonical_layer_signature x = JObj [
     (''architecture_family'', JStr (tls_architecture_family x)), (''layer_type'', JStr (tls_layer_type x)),
     (''hidden_size'', JInt (tls_hidden_size x)), (''intermediate_size'', jopt JInt (tls_intermediate_size x)),
     (''num_attention_heads'', JInt (tls_num_attention_heads x)), (''num_kv_heads'', jopt JInt (tls_num_kv_heads x)),
     (''head_dim'', jopt JInt (tls_head_dim x)), (''dtype'', JStr (tls_dtype x)), (''quantization'', jopt JStr (tls_quantization x)),
     (''special_role'', jopt JStr (tls_special_role x))]"

definition check_layer_signature :: "layer_signature \<Rightarrow> unit res" where
  "check_layer_signature s = checks [
     non_empty ''architecture_family'' (tls_architecture_family s), non_empty ''layer_type'' (tls_layer_type s), non_empty ''dtype'' (tls_dtype s),
     positive ''hidden_size'' (tls_hidden_size s), positive ''num_attention_heads'' (tls_num_attention_heads s),
     absent_or positive ''intermediate_size'' (tls_intermediate_size s),
     absent_or (\<lambda>what n. then_res (positive what n) (raise_if (tls_num_attention_heads s mod n \<noteq> 0)
       (ValueError ''num_attention_heads must be divisible by num_kv_heads''))) ''num_kv_heads'' (tls_num_kv_heads s),
     absent_or positive ''head_dim'' (tls_head_dim s), absent_or non_empty ''quantization'' (tls_quantization s),
     absent_or non_empty ''special_role'' (tls_special_role s)]"

record module_signature =
  mds_kind :: module_kind
  mds_architecture_family :: string
  mds_structural_parameters :: "(string \<times> json_scalar) list"
  mds_dtype :: string
  mds_quantization :: "string option"

definition canonical_module_signature :: "(rat \<Rightarrow> string) \<Rightarrow> module_signature \<Rightarrow> json" where
  "canonical_module_signature fr x = JObj [
     (''kind'', JStr (module_kind_value (mds_kind x))), (''architecture_family'', JStr (mds_architecture_family x)),
     (''structural_parameters'', jitems (jscalar fr) (mds_structural_parameters x)), (''dtype'', JStr (mds_dtype x)),
     (''quantization'', jopt JStr (mds_quantization x))]"

definition check_module_signature :: "module_signature \<Rightarrow> unit res" where
  "check_module_signature s = checks [
     non_empty ''architecture_family'' (mds_architecture_family s), non_empty ''dtype'' (mds_dtype s),
     absent_or non_empty ''quantization'' (mds_quantization s),
     check_normalized_items ''structural_parameters'' (mds_structural_parameters s)]"

record gemm_signature =
  gem_m :: int
  gem_n :: int
  gem_k :: int
  gem_dtype :: string
  gem_transpose_a :: bool
  gem_transpose_b :: bool

definition canonical_gemm_signature :: "gemm_signature \<Rightarrow> json" where
  "canonical_gemm_signature x = JObj [
     (''m'', JInt (gem_m x)), (''n'', JInt (gem_n x)), (''k'', JInt (gem_k x)), (''dtype'', JStr (gem_dtype x)),
     (''transpose_a'', JBool (gem_transpose_a x)), (''transpose_b'', JBool (gem_transpose_b x))]"

definition check_gemm_signature :: "gemm_signature \<Rightarrow> unit res" where
  "check_gemm_signature s = checks [
     positive ''m'' (gem_m s), positive ''n'' (gem_n s), positive ''k'' (gem_k s), non_empty ''dtype'' (gem_dtype s)]"

record attention_signature =
  att_batch_size :: int
  att_num_heads :: int
  att_num_kv_heads :: int
  att_head_dim :: int
  att_q_len :: int
  att_kv_len :: int
  att_dtype :: string
  att_phase :: prof_phase

definition canonical_attention_signature :: "attention_signature \<Rightarrow> json" where
  "canonical_attention_signature x = JObj [
     (''batch_size'', JInt (att_batch_size x)), (''num_heads'', JInt (att_num_heads x)), (''num_kv_heads'', JInt (att_num_kv_heads x)),
     (''head_dim'', JInt (att_head_dim x)), (''q_len'', JInt (att_q_len x)), (''kv_len'', JInt (att_kv_len x)), (''dtype'', JStr (att_dtype x)),
     (''phase'', JStr (prof_phase_value (att_phase x)))]"

definition check_attention_signature :: "attention_signature \<Rightarrow> unit res" where
  "check_attention_signature s = checks [
     positive ''batch_size'' (att_batch_size s), positive ''num_heads'' (att_num_heads s), positive ''num_kv_heads'' (att_num_kv_heads s), positive ''head_dim'' (att_head_dim s),
     positive ''q_len'' (att_q_len s), positive ''kv_len'' (att_kv_len s), non_empty ''dtype'' (att_dtype s), raise_if (att_num_heads s mod att_num_kv_heads s \<noteq> 0) (ValueError ''num_heads must be divisible by num_kv_heads'')]"

record norm_signature =
  nrm_batch_size :: int
  nrm_sequence_length :: int
  nrm_hidden_size :: int
  nrm_dtype :: string
  nrm_variant :: norm_variant

definition canonical_norm_signature :: "norm_signature \<Rightarrow> json" where
  "canonical_norm_signature x = JObj [
     (''batch_size'', JInt (nrm_batch_size x)), (''sequence_length'', JInt (nrm_sequence_length x)), (''hidden_size'', JInt (nrm_hidden_size x)),
     (''dtype'', JStr (nrm_dtype x)), (''variant'', JStr (norm_variant_value (nrm_variant x)))]"

definition check_norm_signature :: "norm_signature \<Rightarrow> unit res" where
  "check_norm_signature s = checks [
     positive ''batch_size'' (nrm_batch_size s), positive ''sequence_length'' (nrm_sequence_length s), positive ''hidden_size'' (nrm_hidden_size s), non_empty ''dtype'' (nrm_dtype s)]"

record embedding_signature =
  emb_batch_size :: int
  emb_sequence_length :: int
  emb_vocab_size :: int
  emb_embedding_dim :: int
  emb_dtype :: string

definition canonical_embedding_signature :: "embedding_signature \<Rightarrow> json" where
  "canonical_embedding_signature x = JObj [
     (''batch_size'', JInt (emb_batch_size x)), (''sequence_length'', JInt (emb_sequence_length x)), (''vocab_size'', JInt (emb_vocab_size x)),
     (''embedding_dim'', JInt (emb_embedding_dim x)), (''dtype'', JStr (emb_dtype x))]"

definition check_embedding_signature :: "embedding_signature \<Rightarrow> unit res" where
  "check_embedding_signature s = checks [
     positive ''batch_size'' (emb_batch_size s), positive ''sequence_length'' (emb_sequence_length s), positive ''vocab_size'' (emb_vocab_size s), positive ''embedding_dim'' (emb_embedding_dim s),
     non_empty ''dtype'' (emb_dtype s)]"

record rotary_signature =
  rot_batch_size :: int
  rot_sequence_length :: int
  rot_num_heads :: int
  rot_head_dim :: int
  rot_dtype :: string

definition canonical_rotary_signature :: "rotary_signature \<Rightarrow> json" where
  "canonical_rotary_signature x = JObj [
     (''batch_size'', JInt (rot_batch_size x)), (''sequence_length'', JInt (rot_sequence_length x)), (''num_heads'', JInt (rot_num_heads x)),
     (''head_dim'', JInt (rot_head_dim x)), (''dtype'', JStr (rot_dtype x))]"

definition check_rotary_signature :: "rotary_signature \<Rightarrow> unit res" where
  "check_rotary_signature s = checks [
     positive ''batch_size'' (rot_batch_size s), positive ''sequence_length'' (rot_sequence_length s), positive ''num_heads'' (rot_num_heads s), positive ''head_dim'' (rot_head_dim s),
     non_empty ''dtype'' (rot_dtype s)]"

record kv_copy_signature =
  kvc_batch_size :: int
  kvc_num_kv_heads :: int
  kvc_head_dim :: int
  kvc_context_length :: int
  kvc_dtype :: string

definition canonical_kv_copy_signature :: "kv_copy_signature \<Rightarrow> json" where
  "canonical_kv_copy_signature x = JObj [
     (''batch_size'', JInt (kvc_batch_size x)), (''num_kv_heads'', JInt (kvc_num_kv_heads x)), (''head_dim'', JInt (kvc_head_dim x)),
     (''context_length'', JInt (kvc_context_length x)), (''dtype'', JStr (kvc_dtype x))]"

definition check_kv_copy_signature :: "kv_copy_signature \<Rightarrow> unit res" where
  "check_kv_copy_signature s = checks [
     positive ''batch_size'' (kvc_batch_size s), positive ''num_kv_heads'' (kvc_num_kv_heads s), positive ''head_dim'' (kvc_head_dim s), positive ''context_length'' (kvc_context_length s),
     non_empty ''dtype'' (kvc_dtype s)]"

definition check_shape :: "string \<Rightarrow> int list \<Rightarrow> unit res" where
  "check_shape what shape = for_res (positive what) shape"

record generic_parameters =
  gen_operation :: string
  gen_input_shapes :: "int list list"
  gen_dtype :: string

definition canonical_generic_parameters :: "generic_parameters \<Rightarrow> json" where
  "canonical_generic_parameters x = JObj [
     (''operation'', JStr (gen_operation x)), (''input_shapes'', JList (map (\<lambda>s. JList (map JInt s)) (gen_input_shapes x))),
     (''dtype'', JStr (gen_dtype x))]"

definition check_generic_parameters :: "generic_parameters \<Rightarrow> unit res" where
  "check_generic_parameters s = checks [
     non_empty ''operation'' (gen_operation s), non_empty ''dtype'' (gen_dtype s), for_res (check_shape ''input_shapes'') (gen_input_shapes s)]"

record custom_parameters =
  cus_raw_name :: string
  cus_input_shapes :: "int list list"
  cus_input_dtypes :: "string list"
  cus_metadata :: "(string \<times> json_scalar) list"

definition canonical_custom_parameters :: "(rat \<Rightarrow> string) \<Rightarrow> custom_parameters \<Rightarrow> json" where
  "canonical_custom_parameters fr x = JObj [
     (''raw_name'', JStr (cus_raw_name x)), (''input_shapes'', JList (map (\<lambda>s. JList (map JInt s)) (cus_input_shapes x))),
     (''input_dtypes'', JList (map JStr (cus_input_dtypes x))), (''metadata'', jitems (jscalar fr) (cus_metadata x))]"

definition check_custom_parameters :: "custom_parameters \<Rightarrow> unit res" where
  "check_custom_parameters s = checks [
     non_empty ''raw_name'' (cus_raw_name s), for_res (check_shape ''input_shapes'') (cus_input_shapes s),
     for_res (non_empty ''input_dtypes'') (cus_input_dtypes s), check_normalized_items ''metadata'' (cus_metadata s)]"

datatype operator_parameters =
    Gemm gemm_signature
  | Attention attention_signature
  | Norm norm_signature
  | Embedding embedding_signature
  | Rotary rotary_signature
  | Kv_Copy kv_copy_signature
  | Generic generic_parameters
  | Custom custom_parameters

fun canonical_operator_parameters :: "(rat \<Rightarrow> string) \<Rightarrow> operator_parameters \<Rightarrow> json" where
  "canonical_operator_parameters fr (Gemm s) = canonical_gemm_signature s"
| "canonical_operator_parameters fr (Attention s) = canonical_attention_signature s"
| "canonical_operator_parameters fr (Norm s) = canonical_norm_signature s"
| "canonical_operator_parameters fr (Embedding s) = canonical_embedding_signature s"
| "canonical_operator_parameters fr (Rotary s) = canonical_rotary_signature s"
| "canonical_operator_parameters fr (Kv_Copy s) = canonical_kv_copy_signature s"
| "canonical_operator_parameters fr (Generic s) = canonical_generic_parameters s"
| "canonical_operator_parameters fr (Custom s) = canonical_custom_parameters fr s"

fun check_operator_parameters :: "operator_parameters \<Rightarrow> unit res" where
  "check_operator_parameters (Gemm s) = check_gemm_signature s"
| "check_operator_parameters (Attention s) = check_attention_signature s"
| "check_operator_parameters (Norm s) = check_norm_signature s"
| "check_operator_parameters (Embedding s) = check_embedding_signature s"
| "check_operator_parameters (Rotary s) = check_rotary_signature s"
| "check_operator_parameters (Kv_Copy s) = check_kv_copy_signature s"
| "check_operator_parameters (Generic s) = check_generic_parameters s"
| "check_operator_parameters (Custom s) = check_custom_parameters s"

fun parameters_allowed :: "operator_kind \<Rightarrow> operator_parameters \<Rightarrow> bool" where
  "parameters_allowed OP_GEMM (Gemm _) = True"
| "parameters_allowed OP_ATTENTION (Attention _) = True"
| "parameters_allowed OP_NORM (Norm _) = True"
| "parameters_allowed OP_ROTARY (Rotary _) = True"
| "parameters_allowed OP_ELEMENTWISE (Generic _) = True"
| "parameters_allowed OP_REDUCTION (Generic _) = True"
| "parameters_allowed OP_EMBEDDING (Embedding _) = True"
| "parameters_allowed OP_KV_COPY (Kv_Copy _) = True"
| "parameters_allowed OP_CUSTOM (Custom _) = True"
| "parameters_allowed _ _ = False"

record operator_signature =
  ops_kind :: operator_kind
  ops_parameters :: operator_parameters
  ops_backend_family :: string

definition canonical_operator_signature :: "(rat \<Rightarrow> string) \<Rightarrow> operator_signature \<Rightarrow> json" where
  "canonical_operator_signature fr x = JObj [
     (''kind'', JStr (operator_kind_value (ops_kind x))), (''parameters'', canonical_operator_parameters fr (ops_parameters x)),
     (''backend_family'', JStr (ops_backend_family x))]"

definition check_operator_signature :: "operator_signature \<Rightarrow> unit res" where
  "check_operator_signature s = checks [
     check_operator_parameters (ops_parameters s), non_empty ''backend_family'' (ops_backend_family s),
     raise_if (\<not> parameters_allowed (ops_kind s) (ops_parameters s)) (ValueError ''operator kind requires other parameters'')]"

definition layer_signature_id :: "(string \<Rightarrow> string) \<Rightarrow> layer_signature \<Rightarrow> string res" where
  "layer_signature_id sha s = canonical_sha256 sha (JList [JStr ''transformer_layer_signature'', canonical_layer_signature s])"

definition module_signature_id :: "(string \<Rightarrow> string) \<Rightarrow> (rat \<Rightarrow> string) \<Rightarrow> module_signature \<Rightarrow> string res" where
  "module_signature_id sha fr s = canonical_sha256 sha (JList [JStr ''module_signature'', canonical_module_signature fr s])"

definition operator_signature_id :: "(string \<Rightarrow> string) \<Rightarrow> (rat \<Rightarrow> string) \<Rightarrow> operator_signature \<Rightarrow> string res" where
  "operator_signature_id sha fr s = canonical_sha256 sha (JList [JStr ''operator_signature'', canonical_operator_signature fr s])"


subsection \<open>Models (\<^verbatim>\<open>model.py\<close>)\<close>

datatype stage_kind = STAGE_EMBEDDING | STAGE_LAYER_GROUP | STAGE_FINAL_NORM | STAGE_LM_HEAD | STAGE_VISION_ENCODER | STAGE_PROJECTOR | STAGE_OTHER

fun stage_kind_value :: "stage_kind \<Rightarrow> string" where
  "stage_kind_value STAGE_EMBEDDING = ''embedding''"
| "stage_kind_value STAGE_LAYER_GROUP = ''transformer_layer_group''"
| "stage_kind_value STAGE_FINAL_NORM = ''final_norm''"
| "stage_kind_value STAGE_LM_HEAD = ''lm_head''"
| "stage_kind_value STAGE_VISION_ENCODER = ''vision_encoder''"
| "stage_kind_value STAGE_PROJECTOR = ''projector''"
| "stage_kind_value STAGE_OTHER = ''other''"

record model_stage =
  mst_kind :: stage_kind
  mst_layer_count :: "int option"

definition canonical_model_stage :: "model_stage \<Rightarrow> json" where
  "canonical_model_stage x = JObj [
     (''kind'', JStr (stage_kind_value (mst_kind x))), (''layer_count'', jopt JInt (mst_layer_count x))]"

definition check_model_stage :: "model_stage \<Rightarrow> unit res" where
  "check_model_stage s =
     (if mst_kind s = STAGE_LAYER_GROUP
      then (case mst_layer_count s of
              None \<Rightarrow> Inl (ValueError ''transformer layer group stage requires layer_count'')
            | Some n \<Rightarrow> positive ''layer_count'' n)
      else raise_if (mst_layer_count s \<noteq> None) (ValueError ''layer_count is only valid for transformer layer group stages''))"

record model_reference =
  mref_model_id :: string
  mref_revision :: "string option"

definition canonical_model_reference :: "model_reference \<Rightarrow> json" where
  "canonical_model_reference x = JObj [
     (''model_id'', JStr (mref_model_id x)), (''revision'', jopt JStr (mref_revision x))]"

definition check_model_reference :: "model_reference \<Rightarrow> unit res" where
  "check_model_reference m = checks [non_empty ''model_id'' (mref_model_id m), absent_or non_empty ''revision'' (mref_revision m)]"

record model_characterization =
  mch_model :: model_reference
  mch_architecture_family :: string
  mch_num_layers :: int
  mch_hidden_size :: int
  mch_intermediate_size :: int
  mch_vocab_size :: int
  mch_num_attention_heads :: int
  mch_num_kv_heads :: int
  mch_head_dim :: "int option"
  mch_dtype :: string
  mch_quantization :: "string option"
  mch_tied_word_embeddings :: bool
  mch_stages :: "model_stage list"

definition grouped_layers :: "model_stage list \<Rightarrow> int" where
  "grouped_layers stages = sum_list (map (\<lambda>s. case mst_layer_count s of None \<Rightarrow> 0 | Some n \<Rightarrow> n)
     (filter (\<lambda>s. mst_kind s = STAGE_LAYER_GROUP) stages))"

definition check_model_characterization :: "model_characterization \<Rightarrow> unit res" where
  "check_model_characterization c = checks [
     check_model_reference (mch_model c), for_res check_model_stage (mch_stages c),
     non_empty ''architecture_family'' (mch_architecture_family c), positive ''num_layers'' (mch_num_layers c),
     positive ''hidden_size'' (mch_hidden_size c), positive ''intermediate_size'' (mch_intermediate_size c),
     positive ''vocab_size'' (mch_vocab_size c), positive ''num_attention_heads'' (mch_num_attention_heads c),
     positive ''num_kv_heads'' (mch_num_kv_heads c),
     raise_if (mch_num_attention_heads c mod mch_num_kv_heads c \<noteq> 0) (ValueError ''num_attention_heads must be divisible by num_kv_heads''),
     absent_or positive ''head_dim'' (mch_head_dim c), non_empty ''dtype'' (mch_dtype c),
     absent_or non_empty ''quantization'' (mch_quantization c),
     raise_if (mch_stages c = []) (ValueError ''stages must not be empty''),
     raise_if (grouped_layers (mch_stages c) \<noteq> mch_num_layers c) (ValueError ''transformer layer group stages do not cover num_layers'')]"

definition model_signature_id :: "(string \<Rightarrow> string) \<Rightarrow> model_characterization \<Rightarrow> string res" where
  "model_signature_id sha c = canonical_sha256 sha (JList [JStr ''model_signature'', JStr (mch_architecture_family c),
     JInt (mch_num_layers c), JInt (mch_hidden_size c), JInt (mch_intermediate_size c), JInt (mch_vocab_size c),
     JInt (mch_num_attention_heads c), JInt (mch_num_kv_heads c), jopt JInt (mch_head_dim c), JStr (mch_dtype c),
     jopt JStr (mch_quantization c), JBool (mch_tied_word_embeddings c), JList (map canonical_model_stage (mch_stages c))])"


subsection \<open>Environments (\<^verbatim>\<open>environment.py\<close>)\<close>

record performance_state =
  pst_power_mode :: "string option"
  pst_cpu_min_mhz :: "int option"
  pst_cpu_max_mhz :: "int option"
  pst_gpu_min_mhz :: "int option"
  pst_gpu_max_mhz :: "int option"
  pst_emc_min_mhz :: "int option"
  pst_emc_max_mhz :: "int option"
  pst_cpu_locked :: "bool option"
  pst_gpu_locked :: "bool option"
  pst_emc_locked :: "bool option"

definition canonical_performance_state :: "performance_state \<Rightarrow> json" where
  "canonical_performance_state x = JObj [
     (''power_mode'', jopt JStr (pst_power_mode x)), (''cpu_min_mhz'', jopt JInt (pst_cpu_min_mhz x)),
     (''cpu_max_mhz'', jopt JInt (pst_cpu_max_mhz x)), (''gpu_min_mhz'', jopt JInt (pst_gpu_min_mhz x)),
     (''gpu_max_mhz'', jopt JInt (pst_gpu_max_mhz x)), (''emc_min_mhz'', jopt JInt (pst_emc_min_mhz x)),
     (''emc_max_mhz'', jopt JInt (pst_emc_max_mhz x)), (''cpu_locked'', jopt JBool (pst_cpu_locked x)),
     (''gpu_locked'', jopt JBool (pst_gpu_locked x)), (''emc_locked'', jopt JBool (pst_emc_locked x))]"

definition check_range :: "string \<Rightarrow> int option \<Rightarrow> int option \<Rightarrow> bool option \<Rightarrow> unit res" where
  "check_range prefix minimum maximum locked =
     (case (minimum, maximum) of
        (Some lo, Some hi) \<Rightarrow> checks [
          raise_if (lo \<le> 0 \<or> hi \<le> 0) (ValueError (prefix @ '' frequencies must be positive'')),
          raise_if (lo > hi) (ValueError (prefix @ ''_min_mhz must not exceed max_mhz'')),
          raise_if (locked \<noteq> Some (lo = hi)) (ValueError (prefix @ ''_locked must be derived from min_mhz == max_mhz''))]
      | (None, None) \<Rightarrow> raise_if (locked \<noteq> None) (ValueError (prefix @ ''_locked must be None when its range is absent''))
      | _ \<Rightarrow> Inl (ValueError (prefix @ '' min/max frequency must both be present or absent'')))"

definition check_performance_state :: "performance_state \<Rightarrow> unit res" where
  "check_performance_state s = checks [
     absent_or non_empty ''power_mode'' (pst_power_mode s),
     check_range ''cpu'' (pst_cpu_min_mhz s) (pst_cpu_max_mhz s) (pst_cpu_locked s),
     check_range ''gpu'' (pst_gpu_min_mhz s) (pst_gpu_max_mhz s) (pst_gpu_locked s),
     check_range ''emc'' (pst_emc_min_mhz s) (pst_emc_max_mhz s) (pst_emc_locked s)]"

record performance_class =
  dpc_vendor :: string
  dpc_accelerator_model :: string
  dpc_memory_model :: memory_model
  dpc_backend_family :: string
  dpc_architecture :: "string option"
  dpc_dtype :: "string option"
  dpc_software_versions :: "(string \<times> string) list"

definition canonical_performance_class :: "performance_class \<Rightarrow> json" where
  "canonical_performance_class x = JObj [
     (''vendor'', JStr (dpc_vendor x)), (''accelerator_model'', JStr (dpc_accelerator_model x)),
     (''memory_model'', JStr (memory_model_value (dpc_memory_model x))), (''backend_family'', JStr (dpc_backend_family x)),
     (''architecture'', jopt JStr (dpc_architecture x)), (''dtype'', jopt JStr (dpc_dtype x)),
     (''software_versions'', jitems JStr (dpc_software_versions x))]"

definition check_performance_class :: "performance_class \<Rightarrow> unit res" where
  "check_performance_class c = checks [
     non_empty ''vendor'' (dpc_vendor c), non_empty ''accelerator_model'' (dpc_accelerator_model c),
     non_empty ''backend_family'' (dpc_backend_family c), absent_or non_empty ''architecture'' (dpc_architecture c),
     absent_or non_empty ''dtype'' (dpc_dtype c), check_normalized_items ''software_versions'' (dpc_software_versions c),
     for_res (\<lambda>(k, v). non_empty ''software_versions values'' v) (dpc_software_versions c)]"

definition device_performance_class_id :: "(string \<Rightarrow> string) \<Rightarrow> performance_class \<Rightarrow> string res" where
  "device_performance_class_id sha s = canonical_sha256 sha (JList [JStr ''device_performance_class'', canonical_performance_class s])"

record environment_fingerprint =
  enf_backend :: string
  enf_profiling_implementation_revision :: string
  enf_device_performance_class_id :: "string option"
  enf_device_performance_class :: "performance_class option"
  enf_capability_revision :: "string option"
  enf_torch_version :: "string option"
  enf_cuda_version :: "string option"
  enf_driver_version :: "string option"
  enf_backend_revision :: "string option"
  enf_performance_state :: "performance_state option"
  enf_model_revision :: "string option"
  enf_dtype :: "string option"
  enf_quantization :: "string option"
  enf_worker_id :: "string option"
  enf_device_id :: "string option"

definition canonical_environment_fingerprint :: "environment_fingerprint \<Rightarrow> json" where
  "canonical_environment_fingerprint x = JObj [
     (''backend'', JStr (enf_backend x)), (''profiling_implementation_revision'', JStr (enf_profiling_implementation_revision x)),
     (''device_performance_class_id'', jopt JStr (enf_device_performance_class_id x)),
     (''device_performance_class'', jopt canonical_performance_class (enf_device_performance_class x)),
     (''capability_revision'', jopt JStr (enf_capability_revision x)), (''torch_version'', jopt JStr (enf_torch_version x)),
     (''cuda_version'', jopt JStr (enf_cuda_version x)), (''driver_version'', jopt JStr (enf_driver_version x)),
     (''backend_revision'', jopt JStr (enf_backend_revision x)), (''performance_state'', jopt canonical_performance_state (enf_performance_state x)),
     (''model_revision'', jopt JStr (enf_model_revision x)), (''dtype'', jopt JStr (enf_dtype x)),
     (''quantization'', jopt JStr (enf_quantization x)), (''worker_id'', jopt JStr (enf_worker_id x)), (''device_id'', jopt JStr (enf_device_id x))]"

definition check_environment :: "(string \<Rightarrow> string) \<Rightarrow> environment_fingerprint \<Rightarrow> unit res" where
  "check_environment sha f = checks ([
     present_check check_performance_class (enf_device_performance_class f), present_check check_performance_state (enf_performance_state f),
     non_empty ''backend'' (enf_backend f), non_empty ''profiling_implementation_revision'' (enf_profiling_implementation_revision f),
     present_check (\<lambda>c. bind_res (device_performance_class_id sha c) (\<lambda>expected. raise_if (enf_device_performance_class_id f \<noteq> Some expected)
       (ValueError ''device_performance_class_id does not match the embedded DevicePerformanceClass''))) (enf_device_performance_class f)]
     @ map (\<lambda>(what, v). absent_or non_empty what v) [
       (''device_performance_class_id'', enf_device_performance_class_id f), (''capability_revision'', enf_capability_revision f), (''torch_version'', enf_torch_version f),
       (''cuda_version'', enf_cuda_version f), (''driver_version'', enf_driver_version f), (''backend_revision'', enf_backend_revision f),
       (''model_revision'', enf_model_revision f), (''dtype'', enf_dtype f), (''quantization'', enf_quantization f),
       (''worker_id'', enf_worker_id f), (''device_id'', enf_device_id f)])"

definition environment_fingerprint_id :: "(string \<Rightarrow> string) \<Rightarrow> environment_fingerprint \<Rightarrow> string res" where
  "environment_fingerprint_id sha f =
     (let compatibility = [JStr ''environment_fingerprint'', jopt JStr (enf_device_performance_class_id f), jopt JStr (enf_torch_version f),
        jopt JStr (enf_cuda_version f), jopt JStr (enf_driver_version f), JStr (enf_backend f), jopt JStr (enf_backend_revision f),
        jopt JStr (enf_model_revision f), jopt JStr (enf_dtype f), jopt JStr (enf_quantization f),
        JStr (enf_profiling_implementation_revision f)]
      in case enf_performance_state f of
        None \<Rightarrow> canonical_sha256 sha (JList compatibility)
      | Some p \<Rightarrow> canonical_sha256 sha (JList (compatibility @ [JStr ''performance_state'', canonical_performance_state p])))"

definition environment_instance_id :: "(string \<Rightarrow> string) \<Rightarrow> environment_fingerprint \<Rightarrow> string res" where
  "environment_instance_id sha s = canonical_sha256 sha (JList [JStr ''environment_instance'', canonical_environment_fingerprint s])"

record class_membership =
  dpm_device_performance_class_id :: string
  dpm_worker_id :: string
  dpm_device_id :: string
  dpm_verified :: bool
  dpm_verified_at :: "timestamp option"
  dpm_evidence_measurement_ids :: "string list"

definition check_class_membership :: "class_membership \<Rightarrow> unit res" where
  "check_class_membership m = checks [
     non_empty ''device_performance_class_id'' (dpm_device_performance_class_id m),
     raise_if (dpm_worker_id m = [] \<or> dpm_device_id m = []) (ValueError ''performance-class membership requires worker_id/device_id''),
     raise_if (dpm_verified m \<and> dpm_verified_at m = None) (ValueError ''verified membership requires verified_at''),
     raise_if (\<not> dpm_verified m \<and> dpm_verified_at m \<noteq> None) (ValueError ''unverified membership must not carry verified_at''),
     present_check (\<lambda>t. require_aware t ''verified_at'') (dpm_verified_at m),
     raise_if (\<not> distinct (dpm_evidence_measurement_ids m)) (ValueError ''evidence_measurement_ids must be unique'')]"


subsection \<open>Network pairs (\<^verbatim>\<open>network.py\<close>)\<close>

datatype path_class = SAME_HOST | WIRED_LAN | WIFI_LAN | OVERLAY | CROSS_SUBNET | OTHER_PATH

fun path_class_value :: "path_class \<Rightarrow> string" where
  "path_class_value SAME_HOST = ''same_host''"
| "path_class_value WIRED_LAN = ''wired_lan''"
| "path_class_value WIFI_LAN = ''wifi_lan''"
| "path_class_value OVERLAY = ''overlay''"
| "path_class_value CROSS_SUBNET = ''cross_subnet''"
| "path_class_value OTHER_PATH = ''other''"

datatype probe_kind = RTT | BANDWIDTH

fun probe_kind_value :: "probe_kind \<Rightarrow> string" where
  "probe_kind_value RTT = ''rtt''"
| "probe_kind_value BANDWIDTH = ''bandwidth''"

datatype net_transport = TCP | UDP

fun net_transport_value :: "net_transport \<Rightarrow> string" where
  "net_transport_value TCP = ''tcp''"
| "net_transport_value UDP = ''udp''"

datatype net_direction = FORWARD | REVERSE

fun net_direction_value :: "net_direction \<Rightarrow> string" where
  "net_direction_value FORWARD = ''forward''"
| "net_direction_value REVERSE = ''reverse''"

datatype net_regime = IDLE_SINGLE_FLOW

fun net_regime_value :: "net_regime \<Rightarrow> string" where
  "net_regime_value IDLE_SINGLE_FLOW = ''idle_single_flow''"

record endpoint_profile =
  nep_worker_id :: string
  nep_interface_id :: string
  nep_addresses :: "string list"
  nep_mtu :: "int option"
  nep_link_speed_mbps :: "pyfloat option"
  nep_interface_type :: "string option"
  nep_overlay_type :: "string option"

definition positive_float :: "string \<Rightarrow> pyfloat \<Rightarrow> unit res" where
  "positive_float what x = raise_if (float_le x (Fin 0)) (ValueError what)"

definition check_endpoint_profile :: "endpoint_profile \<Rightarrow> unit res" where
  "check_endpoint_profile e = checks [
     non_empty ''worker_id'' (nep_worker_id e), non_empty ''interface_id'' (nep_interface_id e),
     for_res (non_empty ''addresses'') (nep_addresses e), absent_or positive ''mtu'' (nep_mtu e),
     absent_or positive_float ''link_speed_mbps'' (nep_link_speed_mbps e),
     absent_or non_empty ''interface_type'' (nep_interface_type e), absent_or non_empty ''overlay_type'' (nep_overlay_type e)]"

record network_pair =
  npr_source_worker_id :: string
  npr_destination_worker_id :: string
  npr_source_interface_id :: "string option"
  npr_destination_interface_id :: "string option"

definition canonical_network_pair :: "network_pair \<Rightarrow> json" where
  "canonical_network_pair x = JObj [
     (''source_worker_id'', JStr (npr_source_worker_id x)), (''destination_worker_id'', JStr (npr_destination_worker_id x)),
     (''source_interface_id'', jopt JStr (npr_source_interface_id x)), (''destination_interface_id'', jopt JStr (npr_destination_interface_id x))]"

definition check_network_pair :: "network_pair \<Rightarrow> unit res" where
  "check_network_pair p = checks [
     non_empty ''source_worker_id'' (npr_source_worker_id p), non_empty ''destination_worker_id'' (npr_destination_worker_id p),
     absent_or non_empty ''source_interface_id'' (npr_source_interface_id p),
     absent_or non_empty ''destination_interface_id'' (npr_destination_interface_id p),
     raise_if (npr_source_worker_id p = npr_destination_worker_id p \<and> npr_source_interface_id p = npr_destination_interface_id p)
       (ValueError ''a pair must not connect an endpoint to itself'')]"

definition network_pair_signature_id :: "(string \<Rightarrow> string) \<Rightarrow> network_pair \<Rightarrow> string res" where
  "network_pair_signature_id sha s = canonical_sha256 sha (JList [JStr ''network_pair_signature'', canonical_network_pair s])"

end
