(* ===== verification/Profiling_Domain.thy ===== *)
theory Profiling_Domain
  imports Profiling_Values
begin

section \<open>Measurements, sessions, cases and experiments\<close>

text \<open>
  \<^verbatim>\<open>profiling/domain/measurement.py\<close>, \<^verbatim>\<open>session.py\<close>, \<^verbatim>\<open>experiment.py\<close> and \<^verbatim>\<open>snapshot.py\<close>: records and checks as in
  \<^verbatim>\<open>Profiling_Values\<close>, and the identities of cases, sessions and experiments. The measurement records are
  checked but never part of an identity.
\<close>


subsection \<open>Measurements (\<^verbatim>\<open>measurement.py\<close>)\<close>

datatype time_unit = SECONDS | MILLISECONDS | MICROSECONDS | NANOSECONDS

fun time_unit_value :: "time_unit \<Rightarrow> string" where
  "time_unit_value SECONDS = ''s''"
| "time_unit_value MILLISECONDS = ''ms''"
| "time_unit_value MICROSECONDS = ''us''"
| "time_unit_value NANOSECONDS = ''ns''"

record sample_summary =
  smm_mean :: pyfloat
  smm_median :: pyfloat
  smm_stddev :: pyfloat
  smm_minimum :: pyfloat
  smm_maximum :: pyfloat
  smm_p95 :: "pyfloat option"

definition finite_float :: "string \<Rightarrow> pyfloat \<Rightarrow> unit res" where
  "finite_float what x = raise_if (\<not> isfinite x) (ValueError what)"

definition check_sample_summary :: "sample_summary \<Rightarrow> unit res" where
  "check_sample_summary s = checks [
     finite_float ''mean'' (smm_mean s), finite_float ''median'' (smm_median s), finite_float ''stddev'' (smm_stddev s),
     finite_float ''minimum'' (smm_minimum s), finite_float ''maximum'' (smm_maximum s), absent_or finite_float ''p95'' (smm_p95 s),
     raise_if (float_less (smm_stddev s) (Fin 0)) (ValueError ''stddev must not be negative''),
     raise_if (float_less (smm_maximum s) (smm_minimum s)) (ValueError ''minimum must not exceed maximum''),
     present_check (\<lambda>p. raise_if (\<not> (float_le (smm_minimum s) p \<and> float_le p (smm_maximum s))) (ValueError ''p95 outside [min, max]''))
       (smm_p95 s)]"

record latency_metrics =
  ltm_summary :: sample_summary
  ltm_unit :: time_unit

record allocator_memory =
  alm_allocated_before :: int
  alm_reserved_before :: int
  alm_peak_allocated :: int
  alm_peak_reserved :: int
  alm_allocated_after :: int
  alm_reserved_after :: int

definition not_negative :: "string \<Rightarrow> int \<Rightarrow> unit res" where
  "not_negative what i = raise_if (i < 0) (ValueError what)"

lemma not_negative_Inr [simp, res_simps]: "not_negative what i = Inr u \<longleftrightarrow> 0 \<le> i"
  by (auto simp: not_negative_def)

definition check_allocator_memory :: "allocator_memory \<Rightarrow> unit res" where
  "check_allocator_memory m = checks [
     not_negative ''allocated_before'' (alm_allocated_before m), not_negative ''reserved_before'' (alm_reserved_before m), not_negative ''peak_allocated'' (alm_peak_allocated m),
     not_negative ''peak_reserved'' (alm_peak_reserved m), not_negative ''allocated_after'' (alm_allocated_after m), not_negative ''reserved_after'' (alm_reserved_after m)]"

record physical_memory =
  phm_pool_id :: string
  phm_used_before :: "int option"
  phm_used_peak :: "int option"
  phm_used_after :: "int option"

definition check_physical_memory :: "physical_memory \<Rightarrow> unit res" where
  "check_physical_memory m = checks [
     non_empty ''pool_id'' (phm_pool_id m), absent_or not_negative ''used_before'' (phm_used_before m),
     absent_or not_negative ''used_peak'' (phm_used_peak m), absent_or not_negative ''used_after'' (phm_used_after m)]"

record telemetry_sample =
  tes_device_id :: string
  tes_utilization :: "pyfloat option"
  tes_temperature_c :: "pyfloat option"
  tes_power_w :: "pyfloat option"
  tes_clock_mhz :: "pyfloat option"
  tes_emc_clock_mhz :: "pyfloat option"
  tes_memory_used_bytes :: "int option"

definition check_telemetry_sample :: "telemetry_sample \<Rightarrow> unit res" where
  "check_telemetry_sample t = checks [
     non_empty ''device_id'' (tes_device_id t),
     absent_or (\<lambda>what u. raise_if (\<not> (float_le (Fin 0) u \<and> float_le u (Fin 100))) (ValueError what)) ''utilization'' (tes_utilization t),
     absent_or (\<lambda>what p. raise_if (float_less p (Fin 0)) (ValueError what)) ''power_w'' (tes_power_w t),
     absent_or positive_float ''clock_mhz'' (tes_clock_mhz t), absent_or positive_float ''emc_clock_mhz'' (tes_emc_clock_mhz t),
     absent_or not_negative ''memory_used_bytes'' (tes_memory_used_bytes t)]"

record telemetry_context =
  tec_initial :: "telemetry_sample option"
  tec_final :: "telemetry_sample option"
  tec_contaminated :: "bool option"

record rtt_metrics =
  rtm_summary :: sample_summary
  rtm_unit :: time_unit
  rtm_packets_sent :: int
  rtm_packets_received :: int

definition check_rtt_metrics :: "rtt_metrics \<Rightarrow> unit res" where
  "check_rtt_metrics m = checks [
     check_sample_summary (rtm_summary m), positive ''packets_sent'' (rtm_packets_sent m), not_negative ''packets_received'' (rtm_packets_received m),
     raise_if (rtm_packets_received m > rtm_packets_sent m) (ValueError ''packets_received exceeds packets_sent'')]"

record bandwidth_metrics =
  bwm_bits_per_second :: pyfloat
  bwm_payload_bytes :: "int option"
  bwm_retransmits :: "int option"
  bwm_duration_s :: "pyfloat option"

definition check_bandwidth_metrics :: "bandwidth_metrics \<Rightarrow> unit res" where
  "check_bandwidth_metrics m = checks [
     raise_if (\<not> isfinite (bwm_bits_per_second m) \<or> float_less (bwm_bits_per_second m) (Fin 0))
       (ValueError ''bits_per_second must be finite and non-negative''),
     absent_or positive ''payload_bytes'' (bwm_payload_bytes m), absent_or not_negative ''retransmits'' (bwm_retransmits m),
     absent_or positive_float ''duration_s'' (bwm_duration_s m)]"

record measurement_metrics =
  mms_latency :: "latency_metrics option"
  mms_allocator :: "allocator_memory option"
  mms_physical :: "physical_memory option"
  mms_telemetry :: "telemetry_context option"
  mms_rtt :: "rtt_metrics option"
  mms_bandwidth :: "bandwidth_metrics option"

definition check_measurement_metrics :: "measurement_metrics \<Rightarrow> unit res" where
  "check_measurement_metrics m = checks [
     present_check (check_sample_summary \<circ> ltm_summary) (mms_latency m), present_check check_allocator_memory (mms_allocator m),
     present_check check_physical_memory (mms_physical m),
     present_check (\<lambda>t. checks [present_check check_telemetry_sample (tec_initial t), present_check check_telemetry_sample (tec_final t)]) (mms_telemetry m),
     present_check check_rtt_metrics (mms_rtt m), present_check check_bandwidth_metrics (mms_bandwidth m),
     raise_if (mms_latency m = None \<and> mms_allocator m = None \<and> mms_physical m = None \<and> mms_telemetry m = None
       \<and> mms_rtt m = None \<and> mms_bandwidth m = None) (ValueError ''measurement metrics must contain at least one observation'')]"

record measurement_quality =
  mqu_stationary :: bool
  mqu_drift_ratio :: pyfloat
  mqu_coefficient_of_variation :: pyfloat
  mqu_eligible_for_calibration :: bool

definition check_measurement_quality :: "measurement_quality \<Rightarrow> unit res" where
  "check_measurement_quality q = checks [
     raise_if (\<not> isfinite (mqu_drift_ratio q) \<or> float_less (mqu_drift_ratio q) (Fin 0)) (ValueError ''drift_ratio''),
     raise_if (\<not> isfinite (mqu_coefficient_of_variation q) \<or> float_less (mqu_coefficient_of_variation q) (Fin 0))
       (ValueError ''coefficient_of_variation''),
     raise_if (mqu_eligible_for_calibration q \<and> \<not> mqu_stationary q) (ValueError ''non-stationary measurements cannot be calibration data'')]"

record measurement_record =
  mrc_measurement_id :: string
  mrc_case_id :: string
  mrc_environment_fingerprint :: string
  mrc_started_at :: timestamp
  mrc_finished_at :: timestamp
  mrc_sample_count :: int
  mrc_samples :: "pyfloat list option"
  mrc_metrics :: measurement_metrics
  mrc_metadata :: "(string \<times> json_scalar) list"
  mrc_environment :: "environment_fingerprint option"
  mrc_quality :: "measurement_quality option"

definition check_measurement_record :: "(string \<Rightarrow> string) \<Rightarrow> measurement_record \<Rightarrow> unit res" where
  "check_measurement_record sha m = checks [
     check_measurement_metrics (mrc_metrics m), present_check (check_environment sha) (mrc_environment m),
     present_check check_measurement_quality (mrc_quality m),
     non_empty ''measurement_id'' (mrc_measurement_id m), non_empty ''case_id'' (mrc_case_id m),
     non_empty ''environment_fingerprint'' (mrc_environment_fingerprint m),
     present_check (\<lambda>e. bind_res (environment_fingerprint_id sha e) (\<lambda>i. raise_if (i \<noteq> mrc_environment_fingerprint m)
       (ValueError ''environment_fingerprint does not match the embedded EnvironmentFingerprint''))) (mrc_environment m),
     require_aware (mrc_started_at m) ''started_at'', require_aware (mrc_finished_at m) ''finished_at'',
     raise_if (ts_value (mrc_finished_at m) < ts_value (mrc_started_at m)) (ValueError ''finished_at must not precede started_at''),
     not_negative ''sample_count'' (mrc_sample_count m),
     present_check (\<lambda>xs. raise_if (int (length xs) \<noteq> mrc_sample_count m) (ValueError ''samples length does not match sample_count'')) (mrc_samples m),
     check_normalized_items ''metadata'' (mrc_metadata m)]"


subsection \<open>Session requests and facts (\<^verbatim>\<open>session.py\<close>)\<close>

datatype session_kind = MODEL_SESSION | OPERATOR_SESSION | NETWORK_SESSION

fun session_kind_value :: "session_kind \<Rightarrow> string" where
  "session_kind_value MODEL_SESSION = ''model''"
| "session_kind_value OPERATOR_SESSION = ''operator''"
| "session_kind_value NETWORK_SESSION = ''network''"

record session_request =
  psr_kind :: session_kind
  psr_device_ids :: "string list"
  psr_backend :: string
  psr_model :: "model_reference option"
  psr_dtype :: "string option"
  psr_quantization :: "string option"
  psr_target_layer_index :: "int option"

definition canonical_session_request :: "session_request \<Rightarrow> json" where
  "canonical_session_request x = JObj [
     (''kind'', JStr (session_kind_value (psr_kind x))), (''device_ids'', JList (map JStr (psr_device_ids x))), (''backend'', JStr (psr_backend x)),
     (''model'', jopt canonical_model_reference (psr_model x)), (''dtype'', jopt JStr (psr_dtype x)),
     (''quantization'', jopt JStr (psr_quantization x)), (''target_layer_index'', jopt JInt (psr_target_layer_index x))]"

definition check_session_request :: "session_request \<Rightarrow> unit res" where
  "check_session_request r = checks ([
     present_check check_model_reference (psr_model r), non_empty ''backend'' (psr_backend r), for_res (non_empty ''device_ids'') (psr_device_ids r)]
     @ (if psr_kind r = MODEL_SESSION then [
          raise_if (length (psr_device_ids r) \<noteq> 1) (ValueError ''model sessions require exactly one device_id''),
          raise_if (psr_model r = None) (ValueError ''model sessions require a model reference''),
          raise_if (psr_dtype r = None) (ValueError ''model sessions require the declared measurement dtype''),
          absent_or not_negative ''target_layer_index'' (psr_target_layer_index r)]
        else [
          raise_if (psr_model r \<noteq> None) (ValueError ''sessions must not carry a model reference''),
          raise_if (psr_kind r = OPERATOR_SESSION \<and> psr_device_ids r = []) (ValueError ''operator sessions require at least one device_id''),
          raise_if (psr_target_layer_index r \<noteq> None) (ValueError ''target_layer_index is only valid for model sessions'')])
     @ [absent_or non_empty ''dtype'' (psr_dtype r), absent_or non_empty ''quantization'' (psr_quantization r)])"

definition profiling_session_id :: "(string \<Rightarrow> string) \<Rightarrow> string \<Rightarrow> string \<Rightarrow> session_request \<Rightarrow> string res" where
  "profiling_session_id sha experiment_id worker_id request =
     then_res (non_empty ''experiment_id'' experiment_id) (then_res (non_empty ''worker_id'' worker_id)
     (canonical_sha256 sha (JList [JStr ''profiling_session'', JStr experiment_id, JStr worker_id, canonical_session_request request])))"

record layer_entry =
  len_index :: int
  len_module_path :: string
  len_signature :: layer_signature

definition check_layer_entry :: "layer_entry \<Rightarrow> unit res" where
  "check_layer_entry e = checks [check_layer_signature (len_signature e), not_negative ''index'' (len_index e), non_empty ''module_path'' (len_module_path e)]"

record module_entry =
  mde_name :: string
  mde_module_path :: string
  mde_kind :: module_kind
  mde_layer_index :: int
  mde_signature :: module_signature

definition check_module_entry :: "module_entry \<Rightarrow> unit res" where
  "check_module_entry e = checks [check_module_signature (mde_signature e), non_empty ''name'' (mde_name e),
     non_empty ''module_path'' (mde_module_path e), not_negative ''layer_index'' (mde_layer_index e)]"

record session_facts =
  msf_characterization :: model_characterization
  msf_layer_entries :: "layer_entry list"
  msf_module_entries :: "module_entry list"
  msf_operator_signatures :: "operator_signature list"
  msf_environment :: "environment_fingerprint option"

definition check_session_facts :: "(string \<Rightarrow> string) \<Rightarrow> session_facts \<Rightarrow> unit res" where
  "check_session_facts sha f = checks [
     check_model_characterization (msf_characterization f), for_res check_layer_entry (msf_layer_entries f),
     for_res check_module_entry (msf_module_entries f), for_res check_operator_signature (msf_operator_signatures f),
     present_check (check_environment sha) (msf_environment f),
     raise_if (int (length (msf_layer_entries f)) \<noteq> mch_num_layers (msf_characterization f))
       (ValueError ''layer enumeration does not cover the declared layers''),
     raise_if (\<not> distinct (map len_index (msf_layer_entries f))) (ValueError ''layer_entries indices must be unique'')]"


subsection \<open>Failures and outcomes (\<^verbatim>\<open>experiment.py\<close>)\<close>

datatype error_category = UNSUPPORTED_MODEL | UNSUPPORTED_GRANULARITY | UNSUPPORTED_PHASE | UNSUPPORTED_OPERATOR | DEVICE_BUSY | INSUFFICIENT_MEMORY | EXPORT_FAILED | PROFILER_FAILED | BENCHMARK_FAILED | NETWORK_UNREACHABLE | IPERF_UNAVAILABLE | TIMEOUT | ERROR_CANCELLED | UNSTABLE_PERFORMANCE_STATE | INTERNAL_ERROR

fun error_category_value :: "error_category \<Rightarrow> string" where
  "error_category_value UNSUPPORTED_MODEL = ''unsupported_model''"
| "error_category_value UNSUPPORTED_GRANULARITY = ''unsupported_granularity''"
| "error_category_value UNSUPPORTED_PHASE = ''unsupported_phase''"
| "error_category_value UNSUPPORTED_OPERATOR = ''unsupported_operator''"
| "error_category_value DEVICE_BUSY = ''device_busy''"
| "error_category_value INSUFFICIENT_MEMORY = ''insufficient_memory''"
| "error_category_value EXPORT_FAILED = ''export_failed''"
| "error_category_value PROFILER_FAILED = ''profiler_failed''"
| "error_category_value BENCHMARK_FAILED = ''benchmark_failed''"
| "error_category_value NETWORK_UNREACHABLE = ''network_unreachable''"
| "error_category_value IPERF_UNAVAILABLE = ''iperf_unavailable''"
| "error_category_value TIMEOUT = ''timeout''"
| "error_category_value ERROR_CANCELLED = ''cancelled''"
| "error_category_value UNSTABLE_PERFORMANCE_STATE = ''unstable_performance_state''"
| "error_category_value INTERNAL_ERROR = ''internal_error''"

record profiling_failure =
  pfl_category :: error_category
  pfl_message :: string
  pfl_details :: "(string \<times> json_scalar) list"

definition check_profiling_failure :: "profiling_failure \<Rightarrow> unit res" where
  "check_profiling_failure f = checks [non_empty ''failure message'' (pfl_message f), check_normalized_items ''details'' (pfl_details f)]"

record case_outcome =
  cou_record :: "measurement_record option"
  cou_failure :: "profiling_failure option"

definition make_case_outcome :: "case_outcome \<Rightarrow> case_outcome res" where
  "make_case_outcome c = then_res (raise_if ((cou_record c = None) = (cou_failure c = None))
     (ValueError ''a case outcome carries exactly one of record/failure'')) (Inr c)"

definition succeeded :: "case_outcome \<Rightarrow> bool" where
  "succeeded c \<longleftrightarrow> cou_record c \<noteq> None"

definition from_record :: "measurement_record \<Rightarrow> case_outcome res" where
  "from_record m = make_case_outcome \<lparr>cou_record = Some m, cou_failure = None\<rparr>"

definition from_failure :: "profiling_failure \<Rightarrow> case_outcome res" where
  "from_failure f = make_case_outcome \<lparr>cou_record = None, cou_failure = Some f\<rparr>"

datatype experiment_state = EXP_PENDING | EXP_RUNNING | EXP_COMPLETED | EXP_PARTIALLY_COMPLETED | EXP_CANCELLED | EXP_FAILED

fun experiment_state_value :: "experiment_state \<Rightarrow> string" where
  "experiment_state_value EXP_PENDING = ''pending''"
| "experiment_state_value EXP_RUNNING = ''running''"
| "experiment_state_value EXP_COMPLETED = ''completed''"
| "experiment_state_value EXP_PARTIALLY_COMPLETED = ''partially_completed''"
| "experiment_state_value EXP_CANCELLED = ''cancelled''"
| "experiment_state_value EXP_FAILED = ''failed''"

datatype case_state = CASE_PENDING | CASE_RUNNING | CASE_COMPLETED | CASE_FAILED | CASE_CANCELLED

fun case_state_value :: "case_state \<Rightarrow> string" where
  "case_state_value CASE_PENDING = ''pending''"
| "case_state_value CASE_RUNNING = ''running''"
| "case_state_value CASE_COMPLETED = ''completed''"
| "case_state_value CASE_FAILED = ''failed''"
| "case_state_value CASE_CANCELLED = ''cancelled''"


subsection \<open>Cases\<close>

record model_case_spec =
  mcs_granularity :: granularity
  mcs_device_ids :: "string list"
  mcs_dtype :: string
  mcs_backend :: string
  mcs_model :: "model_reference option"
  mcs_layer_signature :: "layer_signature option"
  mcs_module_signature :: "module_signature option"
  mcs_operator_signature :: "operator_signature option"
  mcs_phase :: prof_phase
  mcs_batch_size :: int
  mcs_sequence_length :: int
  mcs_context_length :: "int option"
  mcs_layer_index :: "int option"

definition canonical_model_case_spec :: "(rat \<Rightarrow> string) \<Rightarrow> model_case_spec \<Rightarrow> json" where
  "canonical_model_case_spec fr x = JObj [
     (''granularity'', JStr (granularity_value (mcs_granularity x))), (''device_ids'', JList (map JStr (mcs_device_ids x))),
     (''dtype'', JStr (mcs_dtype x)), (''backend'', JStr (mcs_backend x)), (''model'', jopt canonical_model_reference (mcs_model x)),
     (''layer_signature'', jopt canonical_layer_signature (mcs_layer_signature x)),
     (''module_signature'', jopt (canonical_module_signature fr) (mcs_module_signature x)),
     (''operator_signature'', jopt (canonical_operator_signature fr) (mcs_operator_signature x)), (''phase'', JStr (prof_phase_value (mcs_phase x))),
     (''batch_size'', JInt (mcs_batch_size x)), (''sequence_length'', JInt (mcs_sequence_length x)),
     (''context_length'', jopt JInt (mcs_context_length x)), (''layer_index'', jopt JInt (mcs_layer_index x))]"

definition check_phase :: "model_case_spec \<Rightarrow> unit res" where
  "check_phase s =
     (if mcs_phase s = PHASE_DECODE
      then (case mcs_context_length s of
              None \<Rightarrow> Inl (ValueError ''decode cases require context_length'')
            | Some n \<Rightarrow> raise_if (n < 1) (ValueError ''decode context_length must be positive''))
      else raise_if (mcs_context_length s \<noteq> None) (ValueError ''prefill cases must not carry context_length''))"

fun signature_present :: "model_case_spec \<Rightarrow> granularity \<Rightarrow> bool" where
  "signature_present s TRANSFORMER_LAYER = (mcs_layer_signature s \<noteq> None)"
| "signature_present s MODULE = (mcs_module_signature s \<noteq> None)"
| "signature_present s OPERATOR = (mcs_operator_signature s \<noteq> None)"

definition check_granularity :: "model_case_spec \<Rightarrow> unit res" where
  "check_granularity s = checks [
     raise_if (\<not> signature_present s (mcs_granularity s)) (ValueError ''granularity requires its matching signature to be present''),
     raise_if (list_ex (\<lambda>g. g \<noteq> mcs_granularity s \<and> signature_present s g) [TRANSFORMER_LAYER, MODULE, OPERATOR])
       (ValueError ''signatures of other granularities must be absent''),
     raise_if (mcs_granularity s \<noteq> OPERATOR \<and> mcs_model s = None) (ValueError ''granularity requires a model reference'')]"

definition check_model_case_spec :: "model_case_spec \<Rightarrow> unit res" where
  "check_model_case_spec s = checks [
     present_check check_model_reference (mcs_model s), present_check check_layer_signature (mcs_layer_signature s),
     present_check check_module_signature (mcs_module_signature s), present_check check_operator_signature (mcs_operator_signature s),
     raise_if (mcs_device_ids s = []) (ValueError ''device_ids must not be empty''),
     raise_if (length (mcs_device_ids s) \<noteq> 1) (ValueError ''model profiling cases are single-device''),
     for_res (non_empty ''device_ids'') (mcs_device_ids s), non_empty ''dtype'' (mcs_dtype s), non_empty ''backend'' (mcs_backend s),
     positive ''batch_size'' (mcs_batch_size s), positive ''sequence_length'' (mcs_sequence_length s),
     present_check (\<lambda>i. checks [
       raise_if (mcs_granularity s \<noteq> TRANSFORMER_LAYER) (ValueError ''layer_index is only valid for transformer-layer cases''),
       not_negative ''layer_index'' i]) (mcs_layer_index s),
     check_phase s, check_granularity s]"

record network_case_spec =
  ncs_probe_kind :: probe_kind
  ncs_source_worker_id :: string
  ncs_destination_worker_id :: string
  ncs_source_interface_id :: "string option"
  ncs_destination_interface_id :: "string option"
  ncs_path_class :: "path_class option"
  ncs_transport :: "net_transport option"
  ncs_direction :: "net_direction option"
  ncs_duration_s :: "pyfloat option"
  ncs_packet_count :: "int option"
  ncs_payload_bytes :: "int option"
  ncs_regime :: net_regime

definition canonical_network_case_spec :: "(rat \<Rightarrow> string) \<Rightarrow> network_case_spec \<Rightarrow> json" where
  "canonical_network_case_spec fr x = JObj [
     (''probe_kind'', JStr (probe_kind_value (ncs_probe_kind x))), (''source_worker_id'', JStr (ncs_source_worker_id x)),
     (''destination_worker_id'', JStr (ncs_destination_worker_id x)), (''source_interface_id'', jopt JStr (ncs_source_interface_id x)),
     (''destination_interface_id'', jopt JStr (ncs_destination_interface_id x)),
     (''path_class'', jopt (JStr \<circ> path_class_value) (ncs_path_class x)),
     (''transport'', jopt (JStr \<circ> net_transport_value) (ncs_transport x)),
     (''direction'', jopt (JStr \<circ> net_direction_value) (ncs_direction x)), (''duration_s'', jopt (jfloat fr) (ncs_duration_s x)),
     (''packet_count'', jopt JInt (ncs_packet_count x)), (''payload_bytes'', jopt JInt (ncs_payload_bytes x)),
     (''regime'', JStr (net_regime_value (ncs_regime x)))]"

definition check_probe :: "network_case_spec \<Rightarrow> unit res" where
  "check_probe s =
     (case ncs_probe_kind s of
        RTT \<Rightarrow> raise_if (ncs_transport s \<noteq> None \<or> ncs_direction s \<noteq> None \<or> ncs_duration_s s \<noteq> None \<or> ncs_payload_bytes s \<noteq> None)
                 (ValueError ''rtt cases must not set it'')
      | BANDWIDTH \<Rightarrow> checks [
          raise_if (ncs_transport s = None) (ValueError ''bandwidth cases require transport''),
          raise_if (ncs_direction s = None) (ValueError ''bandwidth cases require direction''),
          raise_if (ncs_duration_s s = None) (ValueError ''bandwidth cases require duration_s''),
          absent_or positive_float ''duration_s must be positive'' (ncs_duration_s s),
          raise_if (ncs_packet_count s \<noteq> None) (ValueError ''bandwidth cases must not set packet_count'')])"

definition check_network_case_spec :: "network_case_spec \<Rightarrow> unit res" where
  "check_network_case_spec s = checks [
     non_empty ''source_worker_id'' (ncs_source_worker_id s), non_empty ''destination_worker_id'' (ncs_destination_worker_id s),
     absent_or non_empty ''source_interface_id'' (ncs_source_interface_id s),
     absent_or non_empty ''destination_interface_id'' (ncs_destination_interface_id s),
     raise_if (ncs_source_worker_id s = ncs_destination_worker_id s \<and> ncs_source_interface_id s = ncs_destination_interface_id s)
       (ValueError ''a case must not probe an endpoint against itself''),
     absent_or positive ''packet_count'' (ncs_packet_count s), absent_or positive ''payload_bytes'' (ncs_payload_bytes s),
     check_probe s]"

datatype case_spec = Model_Case model_case_spec | Network_Case network_case_spec

fun canonical_case_spec :: "(rat \<Rightarrow> string) \<Rightarrow> case_spec \<Rightarrow> json" where
  "canonical_case_spec fr (Model_Case s) = canonical_model_case_spec fr s"
| "canonical_case_spec fr (Network_Case s) = canonical_network_case_spec fr s"

fun check_case_spec :: "case_spec \<Rightarrow> unit res" where
  "check_case_spec (Model_Case s) = check_model_case_spec s"
| "check_case_spec (Network_Case s) = check_network_case_spec s"

definition profiling_case_id :: "(string \<Rightarrow> string) \<Rightarrow> (rat \<Rightarrow> string) \<Rightarrow> string \<Rightarrow> case_spec \<Rightarrow> string res" where
  "profiling_case_id sha fr worker_id spec = then_res (non_empty ''worker_id'' worker_id)
     (canonical_sha256 sha (JList [JStr ''profiling_case'', JStr worker_id, canonical_case_spec fr spec]))"

definition profiling_experiment_id :: "(string \<Rightarrow> string) \<Rightarrow> string \<Rightarrow> string list \<Rightarrow> string res" where
  "profiling_experiment_id sha strategy_id case_ids = then_res (non_empty ''strategy_id'' strategy_id)
     (canonical_sha256 sha (JList [JStr ''profiling_experiment'', JStr strategy_id, JList (map JStr (sort case_ids))]))"

record profiling_case =
  pcs_case_id :: string
  pcs_worker_id :: string
  pcs_spec :: case_spec

definition check_profiling_case :: "profiling_case \<Rightarrow> unit res" where
  "check_profiling_case c = checks [
     check_case_spec (pcs_spec c), non_empty ''case_id'' (pcs_case_id c), non_empty ''worker_id'' (pcs_worker_id c),
     raise_if (case pcs_spec c of Network_Case s \<Rightarrow> pcs_worker_id c \<noteq> ncs_source_worker_id s | _ \<Rightarrow> False)
       (ValueError ''network cases execute on the source worker'')]"

definition case_for_spec :: "(string \<Rightarrow> string) \<Rightarrow> (rat \<Rightarrow> string) \<Rightarrow> string \<Rightarrow> case_spec \<Rightarrow> profiling_case res" where
  "case_for_spec sha fr worker_id spec = bind_res (profiling_case_id sha fr worker_id spec) (\<lambda>i.
     let c = \<lparr>pcs_case_id = i, pcs_worker_id = worker_id, pcs_spec = spec\<rparr> in then_res (check_profiling_case c) (Inr c))"


subsection \<open>Experiments\<close>

record profiling_experiment =
  pex_experiment_id :: string
  pex_strategy_id :: string
  pex_created_at :: timestamp
  pex_requested_by :: "string option"
  pex_case_ids :: "string list"
  pex_configuration_id :: "string option"

text \<open>The loops over ids that may not be empty or repeated.\<close>

definition check_ids_unique :: "string \<Rightarrow> string list \<Rightarrow> unit res" where
  "check_ids_unique what ids = then_res (for_res (non_empty what) ids) (raise_if (\<not> distinct ids) (ValueError what))"

definition check_profiling_experiment :: "profiling_experiment \<Rightarrow> unit res" where
  "check_profiling_experiment e = checks [
     non_empty ''experiment_id'' (pex_experiment_id e), non_empty ''strategy_id'' (pex_strategy_id e),
     absent_or non_empty ''configuration_id'' (pex_configuration_id e), require_aware (pex_created_at e) ''created_at'',
     absent_or non_empty ''requested_by'' (pex_requested_by e), check_ids_unique ''case_ids'' (pex_case_ids e)]"

definition experiment_for_cases :: "(string \<Rightarrow> string) \<Rightarrow> string \<Rightarrow> string list \<Rightarrow> timestamp \<Rightarrow> string option \<Rightarrow> profiling_experiment res" where
  "experiment_for_cases sha strategy_id case_ids created_at requested_by =
     (let ordered = dict_fromkeys case_ids in
      bind_res (profiling_experiment_id sha strategy_id ordered) (\<lambda>i.
        let e = \<lparr>pex_experiment_id = i, pex_strategy_id = strategy_id, pex_created_at = created_at, pex_requested_by = requested_by,
                 pex_case_ids = ordered, pex_configuration_id = Some i\<rparr>
        in then_res (check_profiling_experiment e) (Inr e)))"

record worker_device_target =
  wdt_worker_id :: string
  wdt_device_id :: string

definition check_worker_device_target :: "worker_device_target \<Rightarrow> unit res" where
  "check_worker_device_target t = checks [non_empty ''worker_id'' (wdt_worker_id t), non_empty ''device_id'' (wdt_device_id t)]"

record profiling_request =
  prq_kind :: session_kind
  prq_model :: "model_reference option"
  prq_dtype :: "string option"
  prq_worker_ids :: "string list"
  prq_device_ids :: "string list"
  prq_worker_device_targets :: "worker_device_target list"
  prq_missing_only :: bool
  prq_network_probe :: "probe_kind option"
  prq_bandwidth_path_classes :: "path_class list"
  prq_extra_bandwidth_pairs :: "network_pair list"
  prq_network_pairs :: "network_pair list"
  prq_requested_by :: "string option"

definition check_network_request :: "profiling_request \<Rightarrow> unit res" where
  "check_network_request r = checks [
     raise_if (prq_model r \<noteq> None) (ValueError ''network requests must not carry a model reference''),
     raise_if (prq_dtype r \<noteq> None) (ValueError ''network requests must not carry a dtype''),
     raise_if (prq_device_ids r \<noteq> []) (ValueError ''network requests must not carry device_ids''),
     raise_if (prq_worker_device_targets r \<noteq> []) (ValueError ''network requests must not carry worker_device_targets''),
     raise_if (\<not> prq_missing_only r) (ValueError ''missing_only=False is meaningless for network requests'')]"

definition check_model_family_request :: "profiling_request \<Rightarrow> unit res" where
  "check_model_family_request r = checks [
     raise_if (prq_model r = None) (ValueError ''requests require a model reference''),
     raise_if (prq_dtype r = None) (ValueError ''requests require the declared measurement dtype''),
     (if prq_worker_device_targets r \<noteq> []
      then raise_if (prq_worker_ids r \<noteq> [] \<or> prq_device_ids r \<noteq> []) (ValueError ''explicit worker_device_targets cannot be combined'')
      else raise_if (length (prq_worker_ids r) \<noteq> 1 \<or> prq_device_ids r = []) (ValueError ''requests require explicit worker_device_targets'')),
     raise_if (prq_network_probe r \<noteq> None) (ValueError ''requests must not select a network probe''),
     raise_if (prq_bandwidth_path_classes r \<noteq> [] \<or> prq_extra_bandwidth_pairs r \<noteq> [] \<or> prq_network_pairs r \<noteq> [])
       (ValueError ''requests must not carry network knobs'')]"

definition check_profiling_request :: "profiling_request \<Rightarrow> unit res" where
  "check_profiling_request r = checks [
     present_check check_model_reference (prq_model r), for_res check_worker_device_target (prq_worker_device_targets r),
     for_res check_network_pair (prq_extra_bandwidth_pairs r), for_res check_network_pair (prq_network_pairs r),
     check_ids_unique ''worker_ids'' (prq_worker_ids r), check_ids_unique ''device_ids'' (prq_device_ids r),
     raise_if (\<not> distinct (prq_worker_device_targets r)) (ValueError ''worker_device_targets must not contain duplicates''),
     raise_if (\<not> distinct (prq_network_pairs r)) (ValueError ''network_pairs must not contain duplicates''),
     raise_if (prq_network_pairs r \<noteq> [] \<and> prq_extra_bandwidth_pairs r \<noteq> [])
       (ValueError ''network_pairs cannot be combined with legacy extra_bandwidth_pairs''),
     absent_or non_empty ''requested_by'' (prq_requested_by r),
     (if prq_kind r = NETWORK_SESSION then check_network_request r else check_model_family_request r)]"

record case_status =
  cst_case_id :: string
  cst_worker_id :: string
  cst_state :: case_state
  cst_failure :: "profiling_failure option"

definition check_case_status :: "case_status \<Rightarrow> unit res" where
  "check_case_status c = checks [
     present_check check_profiling_failure (cst_failure c), non_empty ''case_id'' (cst_case_id c), non_empty ''worker_id'' (cst_worker_id c),
     raise_if (cst_failure c \<noteq> None \<and> \<not> (cst_state c = CASE_FAILED \<or> cst_state c = CASE_CANCELLED))
       (ValueError ''failure is only valid for failed/cancelled cases'')]"

record experiment_status =
  exs_experiment :: profiling_experiment
  exs_state :: experiment_state
  exs_cases :: "case_status list"

fun check_case_cover :: "string set \<Rightarrow> string set \<Rightarrow> case_status list \<Rightarrow> unit res" where
  "check_case_cover expected seen [] = raise_if (expected - seen \<noteq> {}) (ValueError ''experiment cases lack status'')"
| "check_case_cover expected seen (c # cs) =
     then_res (raise_if (cst_case_id c \<notin> expected) (ValueError ''status for case outside the experiment case set''))
     (then_res (raise_if (cst_case_id c \<in> seen) (ValueError ''duplicate case status''))
     (check_case_cover expected (insert (cst_case_id c) seen) cs))"

definition check_experiment_status :: "experiment_status \<Rightarrow> unit res" where
  "check_experiment_status s = checks [
     check_profiling_experiment (exs_experiment s), for_res check_case_status (exs_cases s),
     check_case_cover (set (pex_case_ids (exs_experiment s))) {} (exs_cases s)]"


subsection \<open>Profile snapshots (\<^verbatim>\<open>snapshot.py\<close>)\<close>

record path_profile =
  npp_pair :: network_pair
  npp_path_class :: path_class

record profile_snapshot =
  psn_snapshot_id :: string
  psn_created_at :: timestamp
  psn_model_characterizations :: "model_characterization list"
  psn_measurements :: "measurement_record list"
  psn_network_measurements :: "measurement_record list"
  psn_profiling_cases :: "profiling_case list"
  psn_layer_signatures :: "layer_signature list"
  psn_module_signatures :: "module_signature list"
  psn_operator_signatures :: "operator_signature list"
  psn_environment_fingerprints :: "environment_fingerprint list"
  psn_device_performance_classes :: "performance_class list"
  psn_device_performance_class_memberships :: "class_membership list"
  psn_network_endpoints :: "endpoint_profile list"
  psn_network_paths :: "path_profile list"

definition check_profile_snapshot :: "(string \<Rightarrow> string) \<Rightarrow> profile_snapshot \<Rightarrow> unit res" where
  "check_profile_snapshot sha s =
     (let records = psn_measurements s @ psn_network_measurements s in
      then_res (checks [
        non_empty ''snapshot_id'' (psn_snapshot_id s), require_aware (psn_created_at s) ''created_at'',
        raise_if (\<not> distinct (map mch_model (psn_model_characterizations s))) (ValueError ''duplicate model characterization''),
        raise_if (\<not> distinct (map mrc_measurement_id records)) (ValueError ''duplicate measurement_id in snapshot''),
        raise_if (list_ex (\<lambda>r. mrc_environment r = None) records) (ValueError ''snapshot measurements lack full environment fingerprints''),
        raise_if (list_ex (\<lambda>r. mrc_case_id r \<notin> pcs_case_id ` set (psn_profiling_cases s)) records)
          (ValueError ''snapshot measurements reference missing profiling cases'')])
      (bind_res (traverse_res (environment_fingerprint_id sha) (psn_environment_fingerprints s)) (\<lambda>fingerprint_ids.
       then_res (raise_if (list_ex (\<lambda>r. mrc_environment_fingerprint r \<notin> set fingerprint_ids) records)
                   (ValueError ''snapshot measurements reference missing environment fingerprints''))
       (bind_res (traverse_res (device_performance_class_id sha) (psn_device_performance_classes s)) (\<lambda>class_ids.
        then_res (for_res (\<lambda>f. raise_if (case enf_device_performance_class_id f of None \<Rightarrow> False | Some c \<Rightarrow> c \<notin> set class_ids)
                    (ValueError ''environment fingerprint references missing device performance class'')) (psn_environment_fingerprints s))
        (for_res (\<lambda>m. raise_if (dpm_device_performance_class_id m \<notin> set class_ids)
                    (ValueError ''performance-class membership references missing class'')) (psn_device_performance_class_memberships s)))))))"

end
