(* ===== verification/Network_Classifier.thy ===== *)
theory Network_Classifier
  imports Profiling_Domain "HOL-Library.Word"
begin

section \<open>Network endpoints and path classes\<close>

text \<open>
  \<^verbatim>\<open>profiling/network/classifier.py\<close>: interface kinds from name prefixes, IPv4 addresses, the choice of a probed
  interface, path classes, the enumeration of directed pairs and the sparse selection of bandwidth
  pairs. An IPv4 address is a 32-bit word; \<^verbatim>\<open>ipaddress.ip_address\<close> is modelled for what the code asks of
  it, whether a text is an IPv4 address and which. An IPv6 or malformed text is not one.
\<close>


subsection \<open>Interfaces\<close>

datatype interface_kind = IF_WIRED | IF_WIRELESS | IF_OVERLAY | IF_UNKNOWN

fun interface_kind_value :: "interface_kind \<Rightarrow> string" where
  "interface_kind_value IF_WIRED = ''wired''"
| "interface_kind_value IF_WIRELESS = ''wireless''"
| "interface_kind_value IF_OVERLAY = ''overlay''"
| "interface_kind_value IF_UNKNOWN = ''unknown''"

definition lower_char :: "char \<Rightarrow> char" where
  "lower_char c = (let n = of_char c :: nat in if 65 \<le> n \<and> n \<le> 90 then char_of (n + 32) else c)"

definition WIRELESS_PREFIXES :: "string list" where
  "WIRELESS_PREFIXES = [''wl'', ''wifi'']"

definition WIRED_PREFIXES :: "string list" where
  "WIRED_PREFIXES = [''eth'', ''en'']"

text \<open>Longest prefixes first.\<close>

definition OVERLAY_PREFIXES :: "(string \<times> string) list" where
  "OVERLAY_PREFIXES = [(''tailscale'', ''tailscale''), (''vxlan'', ''vxlan''), (''utun'', ''tunnel''), (''tun'', ''tunnel''),
     (''tap'', ''tunnel''), (''zt'', ''zerotier''), (''wg'', ''wireguard'')]"

definition classify_interface :: "string \<Rightarrow> interface_kind \<times> string option" where
  "classify_interface name = (let lowered = map lower_char name in
     case find (\<lambda>(prefix, _). startswith lowered prefix) OVERLAY_PREFIXES of
       Some (_, overlay_type) \<Rightarrow> (IF_OVERLAY, Some overlay_type)
     | None \<Rightarrow>
         if list_ex (startswith lowered) WIRELESS_PREFIXES then (IF_WIRELESS, None)
         else if list_ex (startswith lowered) WIRED_PREFIXES then (IF_WIRED, None)
         else (IF_UNKNOWN, None))"

record interface_facts =
  itf_interface_id :: string
  itf_name :: string
  itf_kind :: interface_kind
  itf_overlay_type :: "string option"
  itf_addresses :: "string list"
  itf_mtu :: "int option"

record worker_network_facts =
  wnf_worker_id :: string
  wnf_hostname :: string
  wnf_interfaces :: "interface_facts list"

definition check_worker_network_facts :: "worker_network_facts \<Rightarrow> unit res" where
  "check_worker_network_facts f = checks [non_empty ''worker_id'' (wnf_worker_id f), non_empty ''hostname'' (wnf_hostname f)]"

definition interface_facts_of :: "network_interface_capability \<Rightarrow> interface_facts" where
  "interface_facts_of c = (let (kind, overlay_type) = classify_interface (ni_name c) in
     \<lparr>itf_interface_id = ni_interface_id c, itf_name = ni_name c, itf_kind = kind, itf_overlay_type = overlay_type,
      itf_addresses = ni_addresses c, itf_mtu = ni_mtu c\<rparr>)"

definition facts_of_worker :: "worker_snapshot \<Rightarrow> worker_network_facts res" where
  "facts_of_worker w =
     (let f = \<lparr>wnf_worker_id = wi_worker_id (sn_identity w), wnf_hostname = wi_hostname (sn_identity w),
               wnf_interfaces = map interface_facts_of (wc_network_interfaces (sn_capability w))\<rparr>
      in then_res (check_worker_network_facts f) (Inr f))"

definition endpoint_profiles :: "worker_network_facts list \<Rightarrow> endpoint_profile list res" where
  "endpoint_profiles facts = traverse_res (\<lambda>e. then_res (check_endpoint_profile e) (Inr e))
     (concat (map (\<lambda>w. map (\<lambda>i. \<lparr>nep_worker_id = wnf_worker_id w, nep_interface_id = itf_interface_id i, nep_addresses = itf_addresses i,
        nep_mtu = itf_mtu i, nep_link_speed_mbps = None, nep_interface_type = Some (interface_kind_value (itf_kind i)),
        nep_overlay_type = itf_overlay_type i\<rparr>) (wnf_interfaces w)) facts))"


subsection \<open>IPv4 addresses\<close>

type_synonym ipv4 = "32 word"

fun split_dots :: "string \<Rightarrow> string list" where
  "split_dots [] = [[]]"
| "split_dots (c # s) = (case split_dots s of
     p # ps \<Rightarrow> if c = CHR ''.'' then [] # p # ps else (c # p) # ps
   | [] \<Rightarrow> [])"

definition octet :: "string \<Rightarrow> nat option" where
  "octet s = (if s \<noteq> [] \<and> list_all digit s \<and> length s \<le> 3 \<and> (hd s = CHR ''0'' \<longrightarrow> s = ''0'') \<and> str_nat s 0 \<le> 255
              then Some (str_nat s 0) else None)"

definition of_octets :: "nat \<Rightarrow> nat \<Rightarrow> nat \<Rightarrow> nat \<Rightarrow> ipv4" where
  "of_octets a b c d = word_of_nat (a * 2 ^ 24 + b * 2 ^ 16 + c * 2 ^ 8 + d)"

definition parse_ipv4 :: "string \<Rightarrow> ipv4 option" where
  "parse_ipv4 s = (case map octet (split_dots s) of
     [Some a, Some b, Some c, Some d] \<Rightarrow> Some (of_octets a b c d)
   | _ \<Rightarrow> None)"

definition show_ipv4 :: "ipv4 \<Rightarrow> string" where
  "show_ipv4 a = (let n = unat a in
     nat_str (n div 2 ^ 24) @ ''.'' @ nat_str (n div 2 ^ 16 mod 256) @ ''.'' @ nat_str (n div 2 ^ 8 mod 256) @ ''.'' @ nat_str (n mod 256))"

definition ipv4_addresses :: "string list \<Rightarrow> ipv4 list" where
  "ipv4_addresses xs = List.map_filter parse_ipv4 xs"

definition primary_ipv4_address :: "worker_network_facts \<Rightarrow> string option" where
  "primary_ipv4_address facts =
     (let candidates = concat (map (ipv4_addresses \<circ> itf_addresses) (wnf_interfaces facts))
      in if candidates = [] then None else Some (show_ipv4 (Min (set candidates))))"

definition selected_interface :: "worker_network_facts \<Rightarrow> string option \<Rightarrow> interface_facts option" where
  "selected_interface facts interface_id =
     (case interface_id of
        Some i \<Rightarrow> find (\<lambda>x. itf_interface_id x = i) (wnf_interfaces facts)
      | None \<Rightarrow> (case filter (\<lambda>x. ipv4_addresses (itf_addresses x) \<noteq> []) (wnf_interfaces facts) of [x] \<Rightarrow> Some x | _ \<Rightarrow> None))"

definition selected_ipv4_address :: "worker_network_facts \<Rightarrow> string option \<Rightarrow> string option" where
  "selected_ipv4_address facts interface_id =
     (case selected_interface facts interface_id of
        None \<Rightarrow> None
      | Some i \<Rightarrow> (case ipv4_addresses (itf_addresses i) of [] \<Rightarrow> None | a # _ \<Rightarrow> Some (show_ipv4 a)))"

definition probed_interface :: "worker_network_facts \<Rightarrow> interface_facts option" where
  "probed_interface facts =
     (case primary_ipv4_address facts of
        None \<Rightarrow> None
      | Some primary \<Rightarrow> find (\<lambda>i. primary \<in> set (map show_ipv4 (ipv4_addresses (itf_addresses i)))) (wnf_interfaces facts))"


subsection \<open>Path classes\<close>

text \<open>Shifting right by \<open>32 - p\<close> keeps the first \<open>p\<close> bits. Both texts come from \<^verbatim>\<open>str\<close> of an address, so they
  parse.\<close>

definition same_subnet :: "string \<Rightarrow> string \<Rightarrow> nat \<Rightarrow> bool" where
  "same_subnet left right prefix_length =
     (drop_bit (32 - prefix_length) (the (parse_ipv4 left)) = drop_bit (32 - prefix_length) (the (parse_ipv4 right)))"

definition path_interface :: "worker_network_facts \<Rightarrow> string option \<Rightarrow> interface_facts option" where
  "path_interface f i = (if i \<noteq> None then selected_interface f i else probed_interface f)"

definition path_address :: "worker_network_facts \<Rightarrow> string option \<Rightarrow> string option" where
  "path_address f i = (if i \<noteq> None then selected_ipv4_address f i else primary_ipv4_address f)"

definition classify_path :: "int \<Rightarrow> worker_network_facts \<Rightarrow> string option \<Rightarrow> worker_network_facts \<Rightarrow> string option \<Rightarrow> path_class res" where
  "classify_path prefix_length source source_interface_id destination destination_interface_id =
     (if \<not> (1 \<le> prefix_length \<and> prefix_length \<le> 32) then Inl (ValueError ''same_subnet_prefix_length must be within [1, 32]'')
      else if wnf_worker_id source = wnf_worker_id destination \<or> wnf_hostname source = wnf_hostname destination then Inr SAME_HOST
      else case (path_interface source source_interface_id, path_interface destination destination_interface_id) of
        (Some si, Some di) \<Rightarrow>
          if itf_kind si = IF_OVERLAY \<or> itf_kind di = IF_OVERLAY then Inr OVERLAY
          else (case (path_address source source_interface_id, path_address destination destination_interface_id) of
            (Some sa, Some da) \<Rightarrow>
              if \<not> same_subnet sa da (nat prefix_length) then Inr CROSS_SUBNET
              else if itf_kind si = IF_UNKNOWN \<or> itf_kind di = IF_UNKNOWN then Inr OTHER_PATH
              else if itf_kind si = IF_WIRELESS \<or> itf_kind di = IF_WIRELESS then Inr WIFI_LAN
              else Inr WIRED_LAN
          | _ \<Rightarrow> Inl (AssertionError ''source_address is not None and destination_address is not None''))
      | _ \<Rightarrow> Inr OTHER_PATH)"


subsection \<open>Pairs\<close>

definition make_pair :: "network_pair \<Rightarrow> network_pair res" where
  "make_pair p = then_res (check_network_pair p) (Inr p)"

definition enumerate_pairs :: "worker_network_facts list \<Rightarrow> network_pair list res" where
  "enumerate_pairs workers =
     then_res (raise_if (\<not> distinct (map wnf_worker_id workers)) (ValueError ''worker facts contain duplicate worker_id entries''))
     (traverse_res make_pair
        [\<lparr>npr_source_worker_id = wnf_worker_id s, npr_destination_worker_id = wnf_worker_id d, npr_source_interface_id = None,
          npr_destination_interface_id = None\<rparr>. s \<leftarrow> workers, d \<leftarrow> workers, wnf_worker_id s \<noteq> wnf_worker_id d])"

definition enumerate_probe_paths :: "worker_network_facts list \<Rightarrow> network_pair list res" where
  "enumerate_probe_paths workers =
     then_res (raise_if (\<not> distinct (map wnf_worker_id workers)) (ValueError ''worker facts contain duplicate worker_id entries''))
     (traverse_res make_pair
        [\<lparr>npr_source_worker_id = wnf_worker_id s, npr_destination_worker_id = wnf_worker_id d,
          npr_source_interface_id = Some (itf_interface_id si), npr_destination_interface_id = Some (itf_interface_id di)\<rparr>.
         s \<leftarrow> workers, d \<leftarrow> workers, wnf_worker_id s \<noteq> wnf_worker_id d,
         si \<leftarrow> wnf_interfaces s, ipv4_addresses (itf_addresses si) \<noteq> [],
         di \<leftarrow> wnf_interfaces d, ipv4_addresses (itf_addresses di) \<noteq> []])"

record classified_pair =
  cpr_pair :: network_pair
  cpr_path_class :: path_class

definition classify_pairs :: "int \<Rightarrow> worker_network_facts list \<Rightarrow> classified_pair list res" where
  "classify_pairs prefix_length workers =
     (let by_id = dict_of (map (\<lambda>w. (wnf_worker_id w, w)) workers) in
      bind_res (enumerate_pairs workers) (traverse_res (\<lambda>p.
        map_res (\<lambda>c. \<lparr>cpr_pair = p, cpr_path_class = c\<rparr>)
          (classify_path prefix_length (the (by_id (npr_source_worker_id p))) None (the (by_id (npr_destination_worker_id p))) None))))"

definition pair_order_key :: "network_pair \<Rightarrow> string list" where
  "pair_order_key p = [npr_source_worker_id p, npr_destination_worker_id p,
     case npr_source_interface_id p of None \<Rightarrow> [] | Some i \<Rightarrow> i, case npr_destination_interface_id p of None \<Rightarrow> [] | Some i \<Rightarrow> i]"

definition add_pair :: "network_pair \<Rightarrow> network_pair list \<Rightarrow> network_pair list" where
  "add_pair p selected = (if pair_order_key p \<in> pair_order_key ` set selected then selected else selected @ [p])"

definition class_representatives :: "nat \<Rightarrow> classified_pair list \<Rightarrow> path_class \<Rightarrow> network_pair list" where
  "class_representatives k classified c =
     take k (sort_key pair_order_key (map cpr_pair (filter (\<lambda>x. cpr_path_class x = c) classified)))"

definition select_bandwidth_pairs :: "int \<Rightarrow> network_pair list \<Rightarrow> classified_pair list \<Rightarrow> network_pair list res" where
  "select_bandwidth_pairs k extra_pairs classified =
     then_res (raise_if (k < 1) (ValueError ''representatives_per_class must be positive''))
     (let classes = sort_key path_class_value (dict_fromkeys (map cpr_path_class classified));
          representatives = concat (map (class_representatives (nat k) classified) classes)
      in Inr (fold add_pair (representatives @ extra_pairs) []))"


subsection \<open>Addresses read back\<close>

lemma nat_str_leading_zero: "hd (nat_str n) = CHR ''0'' \<Longrightarrow> n = 0"
proof (induction n rule: nat_str.induct)
  case (1 n)
  show ?case
  proof (cases "n < 10")
    case True
    with "1.prems" have "of_char (digit_char n) = (of_char (CHR ''0'') :: nat)" by (simp add: nat_str.simps [of n])
    with True show ?thesis by (simp add: of_char_digit)
  next
    case False
    with "1.prems" have "hd (nat_str (n div 10)) = CHR ''0''" by (simp add: nat_str.simps [of n])
    with "1.IH" [OF False] False show ?thesis by simp
  qed
qed

lemma nat_str_length: "n < 1000 \<Longrightarrow> length (nat_str n) \<le> 3"
  by (subst nat_str.simps, simp, subst nat_str.simps, simp, subst nat_str.simps, simp)

lemma octet_nat_str: "n < 256 \<Longrightarrow> octet (nat_str n) = Some n"
proof -
  assume n: "n < 256"
  have "list_all digit (nat_str n)" using nat_str_digits by (auto simp: list_all_iff digit_def)
  moreover have "hd (nat_str n) = CHR ''0'' \<Longrightarrow> nat_str n = ''0''"
    using nat_str_leading_zero [of n] by (simp add: nat_str.simps [of 0] digit_char_def char_of_def bit_simps)
  ultimately show ?thesis using n nat_str_length [of n] by (simp add: octet_def str_nat_nat_str)
qed

lemma split_dots_not_Nil [simp]: "split_dots s \<noteq> []"
  by (induction s) (auto split: list.splits)

lemma split_dots_append: "CHR ''.'' \<notin> set s \<Longrightarrow> split_dots (s @ CHR ''.'' # t) = s # split_dots t"
  by (induction s) (auto split: list.splits)

lemma split_dots_id: "CHR ''.'' \<notin> set s \<Longrightarrow> split_dots s = [s]"
  by (induction s) auto

lemma nat_str_no_dot: "CHR ''.'' \<notin> set (nat_str n)"
  using nat_str_digits [of _ n] by fastforce

lemma octets_value:
  fixes n :: nat
  shows "n div 16777216 * 16777216 + n div 65536 mod 256 * 65536 + n div 256 mod 256 * 256 + n mod 256 = n"
proof -
  have "n = n div 256 * 256 + n mod 256" by simp
  moreover have "n div 256 = n div 65536 * 256 + n div 256 mod 256"
    using div_mult_mod_eq [of "n div 256" 256] by (simp add: div_mult2_eq [symmetric])
  moreover have "n div 65536 = n div 16777216 * 256 + n div 65536 mod 256"
    using div_mult_mod_eq [of "n div 65536" 256] by (simp add: div_mult2_eq [symmetric])
  ultimately show ?thesis by linarith
qed

lemma parse_show_ipv4 [simp]: "parse_ipv4 (show_ipv4 a) = Some a"
proof -
  have "unat a < 2 ^ 32" using unsigned_less [of a] by simp
  then have n: "unat a div 16777216 < 256" by (simp add: less_mult_imp_div_less)
  have "(2 :: nat) ^ 24 = 16777216" "(2 :: nat) ^ 16 = 65536" "(2 :: nat) ^ 8 = 256" by simp_all
  then have "of_octets (unat a div 16777216) (unat a div 65536 mod 256) (unat a div 256 mod 256) (unat a mod 256) = a"
    unfolding of_octets_def using octets_value [of "unat a"] by (simp add: octets_value)
  with n show ?thesis
    by (simp add: parse_ipv4_def show_ipv4_def Let_def split_dots_append split_dots_id nat_str_no_dot octet_nat_str)
qed

lemma show_ipv4_inject [simp]: "show_ipv4 a = show_ipv4 b \<longleftrightarrow> a = b"
  by (metis option.inject parse_show_ipv4)


subsection \<open>The probed interface owns the primary address\<close>

lemma probed_interface_Some: "probed_interface f \<noteq> None \<longleftrightarrow> primary_ipv4_address f \<noteq> None"
proof (cases "concat (map (ipv4_addresses \<circ> itf_addresses) (wnf_interfaces f)) = []")
  case True
  then show ?thesis by (simp add: probed_interface_def primary_ipv4_address_def Let_def)
next
  case False
  let ?cs = "concat (map (ipv4_addresses \<circ> itf_addresses) (wnf_interfaces f))"
  have "Min (set ?cs) \<in> set ?cs" using False by (intro Min_in) auto
  then have "\<exists>i\<in>set (wnf_interfaces f). Min (set ?cs) \<in> set (ipv4_addresses (itf_addresses i))"
    unfolding set_concat set_map by auto
  then have "find (\<lambda>i. Min (set ?cs) \<in> set (ipv4_addresses (itf_addresses i))) (wnf_interfaces f) \<noteq> None"
    unfolding find_None_iff by blast
  moreover have "primary_ipv4_address f = Some (show_ipv4 (Min (set ?cs)))"
    using False unfolding primary_ipv4_address_def Let_def by (rule if_not_P)
  ultimately show ?thesis by (simp add: probed_interface_def image_iff del: set_concat)
qed

lemma same_subnet_sym: "same_subnet a b p = same_subnet b a p"
  by (auto simp: same_subnet_def)

lemma same_subnet_shown: "same_subnet (show_ipv4 a) (show_ipv4 b) p \<longleftrightarrow> drop_bit (32 - p) a = drop_bit (32 - p) b"
  by (simp add: same_subnet_def)


subsection \<open>Sparse selection\<close>

lemma add_pairs_keys:
  "distinct (map pair_order_key sel) \<Longrightarrow> distinct (map pair_order_key (fold add_pair ps sel))
     \<and> pair_order_key ` set (fold add_pair ps sel) = pair_order_key ` (set sel \<union> set ps)
     \<and> set (fold add_pair ps sel) \<subseteq> set sel \<union> set ps"
proof (induction ps arbitrary: sel)
  case (Cons p ps)
  from Cons.prems have "distinct (map pair_order_key (add_pair p sel))" by (auto simp: add_pair_def)
  moreover have "pair_order_key ` set (add_pair p sel) = pair_order_key ` (set sel \<union> {p})" "set (add_pair p sel) \<subseteq> set sel \<union> {p}"
    by (auto simp: add_pair_def)
  ultimately show ?case using Cons.IH [of "add_pair p sel"] by (simp add: image_Un) blast
qed simp

lemma add_pairs_fresh: "distinct (map pair_order_key (sel @ ps)) \<Longrightarrow> fold add_pair ps sel = sel @ ps"
  by (induction ps arbitrary: sel) (simp_all add: add_pair_def image_iff)

lemma sort_key_mset_unique:
  assumes "mset xs = mset ys" "distinct (map f xs)"
  shows "sort_key f xs = sort_key f ys"
proof -
  have inj: "inj_on f (set xs)" using assms(2) by (simp add: distinct_map)
  have "map f (sort_key f xs) = map f (sort_key f ys)"
    using assms(1) by (simp add: map_sort_key mset_map [symmetric] del: mset_map) (metis mset_map sorted_list_of_multiset_mset)
  moreover have "set (sort_key f xs) \<union> set (sort_key f ys) \<subseteq> set xs" using assms(1) by (auto dest: mset_eq_setD)
  ultimately show ?thesis using inj by (metis inj_on_map_eq_map inj_on_subset)
qed

lemma path_value_inject [simp]: "path_class_value x = path_class_value y \<longleftrightarrow> x = y"
  by (cases x; cases y) simp_all

lemma classes_unique:
  assumes "mset xs = mset ys"
  shows "sort_key path_class_value (dict_fromkeys (map cpr_path_class xs)) = sort_key path_class_value (dict_fromkeys (map cpr_path_class ys))"
proof (rule sort_key_mset_unique)
  have "set (map cpr_path_class xs) = set (map cpr_path_class ys)" using assms by (metis mset_map set_mset_mset)
  then show "mset (dict_fromkeys (map cpr_path_class xs)) = mset (dict_fromkeys (map cpr_path_class ys))"
    by (metis dict_fromkeys_props(1,2) set_eq_iff_mset_eq_distinct)
  show "distinct (map path_class_value (dict_fromkeys (map cpr_path_class xs)))"
    by (simp add: distinct_map inj_on_def)
qed

lemma class_representatives_perm:
  assumes "mset xs = mset ys" "distinct (map (pair_order_key \<circ> cpr_pair) xs)"
  shows "class_representatives k xs c = class_representatives k ys c"
proof -
  let ?f = "filter (\<lambda>x. cpr_path_class x = c)"
  have "mset (map cpr_pair (?f xs)) = mset (map cpr_pair (?f ys))" using assms(1) by (simp add: mset_filter)
  moreover have "distinct (map pair_order_key (map cpr_pair (?f xs)))"
    using distinct_map_filter [OF assms(2), of "\<lambda>x. cpr_path_class x = c"] by (simp add: comp_def)
  ultimately show ?thesis unfolding class_representatives_def by (metis sort_key_mset_unique)
qed

lemma class_representatives_class:
  assumes "distinct (map (pair_order_key \<circ> cpr_pair) xs)" "p \<in> set (class_representatives k xs c)" "\<lparr>cpr_pair = p, cpr_path_class = c'\<rparr> \<in> set xs"
  shows "c' = c"
proof -
  from assms(2) obtain x where x: "x \<in> set xs" "cpr_path_class x = c" "cpr_pair x = p"
    by (auto simp: class_representatives_def dest!: in_set_takeD)
  have "pair_order_key (cpr_pair x) = pair_order_key (cpr_pair \<lparr>cpr_pair = p, cpr_path_class = c'\<rparr>)" using x by simp
  then have "x = \<lparr>cpr_pair = p, cpr_path_class = c'\<rparr>"
    using assms(1,3) x(1) unfolding distinct_map by (metis comp_apply inj_onD)
  with x(2) show ?thesis by simp
qed

lemma distinct_key_representatives:
  assumes "distinct (map (pair_order_key \<circ> cpr_pair) xs)" "distinct cs"
  shows "distinct (map pair_order_key (concat (map (class_representatives k xs) cs)))"
  using assms(2)
proof (induction cs)
  case (Cons c cs)
  have keys: "inj_on (pair_order_key \<circ> cpr_pair) (set xs)" using assms(1) by (simp add: distinct_map)
  have "distinct (map pair_order_key (map cpr_pair (filter (\<lambda>x. cpr_path_class x = c) xs)))"
    using distinct_map_filter [OF assms(1), of "\<lambda>x. cpr_path_class x = c"] by (simp add: comp_def)
  then have "distinct (map pair_order_key (sort_key pair_order_key (map cpr_pair (filter (\<lambda>x. cpr_path_class x = c) xs))))"
    by (simp add: map_sort_key)
  then have "distinct (map pair_order_key (class_representatives k xs c))"
    unfolding class_representatives_def take_map [symmetric] by (rule distinct_take)
  moreover have "pair_order_key p \<noteq> pair_order_key q"
    if p: "p \<in> set (class_representatives k xs c)" and q: "q \<in> set (class_representatives k xs d)" and "d \<in> set cs" for p q d
  proof
    from p q obtain x y where x: "x \<in> set xs" "cpr_path_class x = c" "cpr_pair x = p" and y: "y \<in> set xs" "cpr_path_class y = d" "cpr_pair y = q"
      by (auto simp: class_representatives_def dest!: in_set_takeD)
    assume "pair_order_key p = pair_order_key q"
    then have "x = y" using x y keys by (metis comp_apply inj_onD)
    with x y Cons.prems that(3) show False by auto
  qed
  ultimately show ?case using Cons by auto
qed simp

definition with_class :: "classified_pair list \<Rightarrow> path_class \<Rightarrow> network_pair list" where
  "with_class xs c = map cpr_pair (filter (\<lambda>x. cpr_path_class x = c) xs)"

lemma selected_of_class:
  assumes "distinct (map (pair_order_key \<circ> cpr_pair) xs)" "distinct cs"
  shows "filter (\<lambda>p. p \<in> set (with_class xs c)) (concat (map (class_representatives k xs) cs)) = (if c \<in> set cs then class_representatives k xs c else [])"
  using assms(2)
proof (induction cs)
  case (Cons d cs)
  have "p \<in> set (with_class xs c) \<longleftrightarrow> d = c" if p: "p \<in> set (class_representatives k xs d)" for p
  proof -
    from p have "p \<in> set (with_class xs d)" by (auto simp: class_representatives_def with_class_def dest!: in_set_takeD)
    moreover have "x = y" if "x \<in> set xs" "y \<in> set xs" "cpr_pair x = cpr_pair y" for x y
      using assms(1) that unfolding distinct_map by (metis comp_apply inj_onD)
    ultimately show ?thesis by (auto simp: with_class_def)
  qed
  then have "filter (\<lambda>p. p \<in> set (with_class xs c)) (class_representatives k xs d) = (if d = c then class_representatives k xs d else [])"
    by (auto simp: filter_empty_conv intro!: filter_True)
  with Cons show ?case by auto
qed simp


lemma select_bandwidth_pairs_spec:
  assumes "1 \<le> k" and "distinct (map (pair_order_key \<circ> cpr_pair) xs)"
  shows "\<exists>sel. select_bandwidth_pairs k extra xs = Inr sel \<and> distinct (map pair_order_key sel)
      \<and> pair_order_key ` set sel = pair_order_key ` (\<Union>c. set (class_representatives (nat k) xs c)) \<union> pair_order_key ` set extra"
    and "\<exists>sel. select_bandwidth_pairs k [] xs = Inr sel
      \<and> (\<forall>c. length (filter (\<lambda>p. p \<in> set (with_class xs c)) sel) = min (nat k) (length (with_class xs c)))"
    and "mset ys = mset xs \<Longrightarrow> select_bandwidth_pairs k extra ys = select_bandwidth_pairs k extra xs"
proof -
  let ?cs = "sort_key path_class_value (dict_fromkeys (map cpr_path_class xs))"
  let ?reps = "concat (map (class_representatives (nat k) xs) ?cs)"
  have empty: "c \<notin> set ?cs \<Longrightarrow> filter (\<lambda>x. cpr_path_class x = c) xs = []" for c
    by (auto simp: filter_empty_conv)
  then have none: "c \<notin> set ?cs \<Longrightarrow> class_representatives (nat k) xs c = []" for c
    by (simp add: class_representatives_def)
  have reps: "set ?reps = (\<Union>c. set (class_representatives (nat k) xs c))"
  proof -
    have "(\<Union>c. set (class_representatives (nat k) xs c)) \<subseteq> (\<Union>c\<in>set ?cs. set (class_representatives (nat k) xs c))"
      using none by fastforce
    then show ?thesis by auto
  qed
  have sel: "select_bandwidth_pairs k e xs = Inr (fold add_pair (?reps @ e) [])" for e
    using assms(1) by (simp add: select_bandwidth_pairs_def Let_def)
  have "distinct (map pair_order_key (fold add_pair (?reps @ extra) []))
      \<and> pair_order_key ` set (fold add_pair (?reps @ extra) []) = pair_order_key ` (set [] \<union> set (?reps @ extra))"
    using add_pairs_keys [of "[]" "?reps @ extra"] by simp
  then show "\<exists>sel. select_bandwidth_pairs k extra xs = Inr sel \<and> distinct (map pair_order_key sel)
      \<and> pair_order_key ` set sel = pair_order_key ` (\<Union>c. set (class_representatives (nat k) xs c)) \<union> pair_order_key ` set extra"
    unfolding sel using reps by (simp add: image_Un del: set_concat)
  have "fold add_pair ?reps [] = ?reps"
    using add_pairs_fresh [of "[]" ?reps] distinct_key_representatives [OF assms(2), of ?cs] by simp
  moreover have "length (filter (\<lambda>p. p \<in> set (with_class xs c)) ?reps) = min (nat k) (length (with_class xs c))" for c
    using selected_of_class [OF assms(2), of ?cs c "nat k"] empty [of c]
    by (cases "c \<in> set ?cs") (simp_all add: class_representatives_def with_class_def min.commute)
  ultimately show "\<exists>sel. select_bandwidth_pairs k [] xs = Inr sel
      \<and> (\<forall>c. length (filter (\<lambda>p. p \<in> set (with_class xs c)) sel) = min (nat k) (length (with_class xs c)))"
    unfolding sel by simp
  assume "mset ys = mset xs"
  then have eq: "mset xs = mset ys" by simp
  have "class_representatives (nat k) xs = class_representatives (nat k) ys"
    by (rule ext) (rule class_representatives_perm [OF eq assms(2)])
  then show "select_bandwidth_pairs k extra ys = select_bandwidth_pairs k extra xs"
    unfolding select_bandwidth_pairs_def Let_def classes_unique [OF eq] by simp
qed


subsection \<open>Properties\<close>

definition lan_interface :: "string \<Rightarrow> interface_facts" where
  "lan_interface address = \<lparr>itf_interface_id = ''eth0'', itf_name = ''eth0'', itf_kind = IF_WIRED, itf_overlay_type = None,
     itf_addresses = [address], itf_mtu = None\<rparr>"

definition lan_worker :: "string \<Rightarrow> string \<Rightarrow> worker_network_facts" where
  "lan_worker w address = \<lparr>wnf_worker_id = w, wnf_hostname = w, wnf_interfaces = [lan_interface address]\<rparr>"

definition lan_pair :: "string \<Rightarrow> string \<Rightarrow> classified_pair" where
  "lan_pair s d = \<lparr>cpr_pair = \<lparr>npr_source_worker_id = s, npr_destination_worker_id = d, npr_source_interface_id = None,
     npr_destination_interface_id = None\<rparr>, cpr_path_class = WIRED_LAN\<rparr>"

lemma map_filter_single [simp]: "List.map_filter f [x] = (case f x of None \<Rightarrow> [] | Some y \<Rightarrow> [y])"
  by (auto simp: List.map_filter_def split: option.split)

lemma lan_worker_fields [simp]: "wnf_worker_id (lan_worker w s) = w" "wnf_hostname (lan_worker w s) = w"
  "wnf_interfaces (lan_worker w s) = [lan_interface s]" "itf_kind (lan_interface s) = IF_WIRED" "itf_addresses (lan_interface s) = [s]"
  "itf_interface_id (lan_interface s) = ''eth0''"
  by (simp_all add: lan_worker_def lan_interface_def)

lemma lan_worker_path:
  assumes "parse_ipv4 s = Some a"
  shows "path_interface (lan_worker w s) None = Some (lan_interface s)" "path_address (lan_worker w s) None = Some (show_ipv4 a)"
  using assms by (simp_all add: path_interface_def path_address_def probed_interface_def primary_ipv4_address_def ipv4_addresses_def)

lemma demo_addresses:
  "parse_ipv4 ''10.0.0.1'' = Some (of_octets 10 0 0 1)" "parse_ipv4 ''10.0.1.1'' = Some (of_octets 10 0 1 1)" "parse_ipv4 ''fe80::1'' = None"
  by (simp_all add: parse_ipv4_def octet_def digit_def)

text \<open>What the two ends of a path say about it: their hosts, the media of the interfaces the path uses (the named one, or
  the one that owns the smallest IPv4 address of the worker), and whether their addresses share the first \<open>p\<close> bits.\<close>

definition one_host :: "worker_network_facts \<Rightarrow> worker_network_facts \<Rightarrow> bool" where
  "one_host s d \<longleftrightarrow> wnf_worker_id s = wnf_worker_id d \<or> wnf_hostname s = wnf_hostname d"

definition path_medium :: "worker_network_facts \<Rightarrow> string option \<Rightarrow> interface_kind option" where
  "path_medium f i = map_option itf_kind (path_interface f i)"

definition subnet_relation :: "int \<Rightarrow> worker_network_facts \<Rightarrow> string option \<Rightarrow> worker_network_facts \<Rightarrow> string option \<Rightarrow> bool \<Rightarrow> bool" where
  "subnet_relation p s i d j same \<longleftrightarrow> (\<exists>a b. path_address s i = Some (show_ipv4 a) \<and> path_address d j = Some (show_ipv4 b)
     \<and> (drop_bit (nat (32 - p)) a = drop_bit (nat (32 - p)) b \<longleftrightarrow> same))"

lemma path_address_shown: "path_address f i = Some x \<Longrightarrow> \<exists>a. x = show_ipv4 a"
  by (auto simp: path_address_def selected_ipv4_address_def primary_ipv4_address_def Let_def split: if_splits option.splits list.splits)

lemma path_address_interface: "path_interface f i = None \<Longrightarrow> path_address f i = None"
  using probed_interface_Some [of f] by (auto simp: path_address_def path_interface_def selected_ipv4_address_def split: if_splits)

lemma classify_path_total: "\<lbrakk>1 \<le> p; p \<le> 32\<rbrakk> \<Longrightarrow> \<exists>c. classify_path p s None d None = Inr c"
  using probed_interface_Some [of s] probed_interface_Some [of d]
  by (auto simp: classify_path_def path_interface_def path_address_def split: option.splits)

lemma classify_path_cases:
  assumes "1 \<le> p" "p \<le> 32" "\<not> one_host s d"
  shows "path_medium s i = None \<or> path_medium d j = None \<Longrightarrow> classify_path p s i d j = Inr OTHER_PATH"
    and "\<lbrakk>path_medium s i = Some k; path_medium d j = Some l; k = IF_OVERLAY \<or> l = IF_OVERLAY\<rbrakk> \<Longrightarrow> classify_path p s i d j = Inr OVERLAY"
    and "\<lbrakk>path_medium s i = Some k; path_medium d j = Some l; k \<noteq> IF_OVERLAY; l \<noteq> IF_OVERLAY; subnet_relation p s i d j False\<rbrakk>
      \<Longrightarrow> classify_path p s i d j = Inr CROSS_SUBNET"
    and "\<lbrakk>path_medium s i = Some k; path_medium d j = Some l; k \<noteq> IF_OVERLAY; l \<noteq> IF_OVERLAY; subnet_relation p s i d j True\<rbrakk>
      \<Longrightarrow> classify_path p s i d j = Inr (if k = IF_UNKNOWN \<or> l = IF_UNKNOWN then OTHER_PATH
            else if k = IF_WIRELESS \<or> l = IF_WIRELESS then WIFI_LAN else WIRED_LAN)"
    and "\<lbrakk>path_medium s i = Some k; path_medium d j = Some l; k \<noteq> IF_OVERLAY; l \<noteq> IF_OVERLAY; path_address s i = None \<or> path_address d j = None\<rbrakk>
      \<Longrightarrow> \<exists>e. classify_path p s i d j = Inl e"
proof -
  have p: "32 - nat p = nat (32 - p)" using assms by simp
  note defs = classify_path_def path_medium_def one_host_def subnet_relation_def
  show "path_medium s i = None \<or> path_medium d j = None \<Longrightarrow> classify_path p s i d j = Inr OTHER_PATH"
    using assms by (auto simp: defs split: option.splits)
  show "\<lbrakk>path_medium s i = Some k; path_medium d j = Some l; k = IF_OVERLAY \<or> l = IF_OVERLAY\<rbrakk> \<Longrightarrow> classify_path p s i d j = Inr OVERLAY"
    using assms by (auto simp: defs)
  show "\<lbrakk>path_medium s i = Some k; path_medium d j = Some l; k \<noteq> IF_OVERLAY; l \<noteq> IF_OVERLAY; subnet_relation p s i d j False\<rbrakk>
      \<Longrightarrow> classify_path p s i d j = Inr CROSS_SUBNET"
    using assms by (auto simp: defs same_subnet_shown p)
  show "\<lbrakk>path_medium s i = Some k; path_medium d j = Some l; k \<noteq> IF_OVERLAY; l \<noteq> IF_OVERLAY; subnet_relation p s i d j True\<rbrakk>
      \<Longrightarrow> classify_path p s i d j = Inr (if k = IF_UNKNOWN \<or> l = IF_UNKNOWN then OTHER_PATH
            else if k = IF_WIRELESS \<or> l = IF_WIRELESS then WIFI_LAN else WIRED_LAN)"
    using assms by (auto simp: defs same_subnet_shown p)
  show "\<lbrakk>path_medium s i = Some k; path_medium d j = Some l; k \<noteq> IF_OVERLAY; l \<noteq> IF_OVERLAY; path_address s i = None \<or> path_address d j = None\<rbrakk>
      \<Longrightarrow> \<exists>e. classify_path p s i d j = Inl e"
    using assms by (auto simp: defs split: option.splits)
qed

text \<open>The situations a path can be in, each with its class: the cases exclude each other and cover every path.\<close>

lemma path_situation:
  assumes "1 \<le> p" "p \<le> 32"
  obtains "one_host s d" "classify_path p s i d j = Inr SAME_HOST"
  | "\<not> one_host s d" "path_medium s i = None \<or> path_medium d j = None" "classify_path p s i d j = Inr OTHER_PATH"
  | k l where "\<not> one_host s d" "path_medium s i = Some k" "path_medium d j = Some l" "k = IF_OVERLAY \<or> l = IF_OVERLAY"
      "classify_path p s i d j = Inr OVERLAY"
  | k l same where "\<not> one_host s d" "path_medium s i = Some k" "path_medium d j = Some l" "k \<noteq> IF_OVERLAY" "l \<noteq> IF_OVERLAY"
      "subnet_relation p s i d j same" "\<not> subnet_relation p s i d j (\<not> same)"
      "classify_path p s i d j = Inr (if \<not> same then CROSS_SUBNET else if k = IF_UNKNOWN \<or> l = IF_UNKNOWN then OTHER_PATH
            else if k = IF_WIRELESS \<or> l = IF_WIRELESS then WIFI_LAN else WIRED_LAN)"
  | k l e where "\<not> one_host s d" "path_medium s i = Some k" "path_medium d j = Some l" "k \<noteq> IF_OVERLAY" "l \<noteq> IF_OVERLAY"
      "\<not> subnet_relation p s i d j True" "\<not> subnet_relation p s i d j False" "classify_path p s i d j = Inl e"
proof (cases "one_host s d")
  case True
  with assms show thesis by (intro that(1)) (auto simp: classify_path_def one_host_def)
next
  case False
  note cls = classify_path_cases [OF assms False]
  show thesis
  proof (cases "path_medium s i = None \<or> path_medium d j = None")
    case True
    with False cls(1) show thesis by (intro that(2)) auto
  next
    case some: False
    then obtain k l where kl: "path_medium s i = Some k" "path_medium d j = Some l" by auto
    show thesis
    proof (cases "k = IF_OVERLAY \<or> l = IF_OVERLAY")
      case True
      with False kl cls(2) show thesis by (intro that(3)) auto
    next
      case plain: False
      show thesis
      proof (cases "path_address s i = None \<or> path_address d j = None")
        case True
        then have "\<not> subnet_relation p s i d j b" for b by (auto simp: subnet_relation_def)
        with False kl plain cls(5) [OF kl] True show thesis using that(5) by blast
      next
        case addr: False
        then obtain a b where ab: "path_address s i = Some (show_ipv4 a)" "path_address d j = Some (show_ipv4 b)"
          using path_address_shown by (metis not_None_eq)
        define same where "same = (drop_bit (nat (32 - p)) a = drop_bit (nat (32 - p)) b)"
        have "subnet_relation p s i d j same" "\<not> subnet_relation p s i d j (\<not> same)"
          using ab by (auto simp: subnet_relation_def same_def)
        with False kl plain cls(3,4) [OF kl] show thesis by (intro that(4) [of k l same]) (cases same; simp)+
      qed
    qed
  qed
qed

text \<open>[C28] The class of a path does not depend on its direction, classification by default routes never fails for a
  valid prefix length, and each of the six classes is explained by the facts of the two workers: same host exactly when
  worker or hostname agree; otherwise overlay exactly when both ends have a path interface and one of them is an
  overlay; cross-subnet exactly when, without overlay, the addresses differ in the first \<open>p\<close> bits; Wi-Fi LAN and wired
  LAN exactly when these bits agree and both media are known, with a wireless one among them or not; and other when an
  end has no path interface, or the addresses share a subnet and a medium is unknown.\<close>

theorem classify_path_sound:
  assumes "1 \<le> p" and "p \<le> 32"
  shows "classify_path p s i d j = classify_path p d j s i
    \<and> (\<exists>c. classify_path p s None d None = Inr c)
    \<and> (classify_path p s i d j = Inr SAME_HOST \<longleftrightarrow> one_host s d)
    \<and> (classify_path p s i d j = Inr OVERLAY \<longleftrightarrow> \<not> one_host s d \<and> path_medium s i \<noteq> None \<and> path_medium d j \<noteq> None
        \<and> Some IF_OVERLAY \<in> {path_medium s i, path_medium d j})
    \<and> (classify_path p s i d j = Inr CROSS_SUBNET \<longleftrightarrow> \<not> one_host s d \<and> None \<notin> {path_medium s i, path_medium d j}
        \<and> Some IF_OVERLAY \<notin> {path_medium s i, path_medium d j} \<and> subnet_relation p s i d j False)
    \<and> (classify_path p s i d j = Inr WIFI_LAN \<longleftrightarrow> \<not> one_host s d \<and> subnet_relation p s i d j True
        \<and> {path_medium s i, path_medium d j} \<subseteq> {Some IF_WIRED, Some IF_WIRELESS} \<and> Some IF_WIRELESS \<in> {path_medium s i, path_medium d j})
    \<and> (classify_path p s i d j = Inr WIRED_LAN \<longleftrightarrow> \<not> one_host s d \<and> subnet_relation p s i d j True
        \<and> {path_medium s i, path_medium d j} = {Some IF_WIRED})
    \<and> (classify_path p s i d j = Inr OTHER_PATH \<longleftrightarrow> \<not> one_host s d \<and> (None \<in> {path_medium s i, path_medium d j}
        \<or> Some IF_OVERLAY \<notin> {path_medium s i, path_medium d j} \<and> Some IF_UNKNOWN \<in> {path_medium s i, path_medium d j}
          \<and> subnet_relation p s i d j True))"
  (is "?sym \<and> ?total \<and> ?classes")
proof -
  have ?sym unfolding classify_path_def by (auto simp: same_subnet_sym split: option.splits)
  moreover have ?total using assms by (rule classify_path_total)
  moreover have ?classes
  proof (cases rule: path_situation [OF assms, of s d i j])
    case 1
    then show ?thesis by simp
  next
    case 2
    have "\<not> subnet_relation p s i d j b" for b
      using 2(2) path_address_interface by (auto simp: subnet_relation_def path_medium_def)
    with 2 show ?thesis by auto
  next
    case (3 k l)
    then show ?thesis by auto
  next
    case (4 k l same)
    then show ?thesis by (cases same; cases k; cases l) auto
  next
    case (5 k l e)
    then show ?thesis by auto
  qed
  ultimately show ?thesis by blast
qed

definition wifi_worker :: "string \<Rightarrow> string \<Rightarrow> worker_network_facts" where
  "wifi_worker w address = \<lparr>wnf_worker_id = w, wnf_hostname = w,
     wnf_interfaces = [(lan_interface address)\<lparr>itf_kind := IF_WIRELESS\<rparr>]\<rparr>"

lemma demo_media [simp]: "parse_ipv4 s = Some a \<Longrightarrow> path_medium (lan_worker w s) None = Some IF_WIRED"
  "parse_ipv4 s = Some a \<Longrightarrow> path_medium (wifi_worker w s) None = Some IF_WIRELESS"
  "parse_ipv4 s = Some a \<Longrightarrow> path_address (lan_worker w s) None = Some (show_ipv4 a)"
  "parse_ipv4 s = Some a \<Longrightarrow> path_address (wifi_worker w s) None = Some (show_ipv4 a)"
  by (simp_all add: path_medium_def lan_worker_path wifi_worker_def path_interface_def path_address_def probed_interface_def
      primary_ipv4_address_def ipv4_addresses_def)

lemma demo_hosts [simp]: "one_host (lan_worker v s) (lan_worker w t) \<longleftrightarrow> v = w" "one_host (lan_worker v s) (wifi_worker w t) \<longleftrightarrow> v = w"
  by (simp_all add: one_host_def wifi_worker_def)

theorem classify_path_sound_witness:
  "classify_path 24 (lan_worker ''a'' ''10.0.0.1'') None (lan_worker ''b'' ''10.0.0.1'') None = Inr WIRED_LAN
   \<and> classify_path 24 (lan_worker ''a'' ''10.0.0.1'') None (wifi_worker ''b'' ''10.0.0.1'') None = Inr WIFI_LAN
   \<and> classify_path 24 (lan_worker ''a'' ''10.0.0.1'') None (lan_worker ''b'' ''10.0.1.1'') None = Inr CROSS_SUBNET
   \<and> classify_path 24 (lan_worker ''a'' ''10.0.0.1'') None (lan_worker ''b'' ''fe80::1'') None = Inr OTHER_PATH
   \<and> classify_path 24 (lan_worker ''a'' ''10.0.0.1'') None (wifi_worker ''a'' ''10.0.1.1'') None = Inr SAME_HOST"
proof -
  note sound = classify_path_sound [where p = 24 and s = "lan_worker ''a'' ''10.0.0.1''" and i = None and j = None]
  have none: "path_medium (lan_worker ''b'' ''fe80::1'') None = None"
    by (simp add: path_medium_def path_interface_def probed_interface_def primary_ipv4_address_def ipv4_addresses_def demo_addresses)
  have diff: "drop_bit 8 (of_octets 10 0 0 1) \<noteq> drop_bit 8 (of_octets 10 0 1 1)" by (simp add: of_octets_def drop_bit_eq_div)
  show ?thesis
    using sound [where d = "lan_worker ''b'' ''10.0.0.1''", THEN conjunct2, THEN conjunct2] sound [where d = "wifi_worker ''b'' ''10.0.0.1''", THEN conjunct2, THEN conjunct2]
      sound [where d = "lan_worker ''b'' ''10.0.1.1''", THEN conjunct2, THEN conjunct2] sound [where d = "lan_worker ''b'' ''fe80::1''", THEN conjunct2, THEN conjunct2]
      sound [where d = "wifi_worker ''a'' ''10.0.1.1''", THEN conjunct2, THEN conjunct2]
    by (simp add: demo_addresses none diff subnet_relation_def del: One_nat_def)
qed

text \<open>Asking for an interface that has no IPv4 address makes classification fail with an assertion, where
  the documented class is OTHER.\<close>

lemma explicit_interface_without_ipv4:
  assumes "1 \<le> p" and "p \<le> 32" and "wnf_worker_id s \<noteq> wnf_worker_id d" and "wnf_hostname s \<noteq> wnf_hostname d"
    and "selected_interface s (Some i) = Some si" and "ipv4_addresses (itf_addresses si) = []" and "itf_kind si \<noteq> IF_OVERLAY"
    and "path_interface d j = Some di" and "itf_kind di \<noteq> IF_OVERLAY"
  shows "\<exists>msg. classify_path p s (Some i) d j = Inl (AssertionError msg)"
  using assms by (simp add: classify_path_def path_interface_def path_address_def selected_ipv4_address_def)

lemma explicit_interface_without_ipv4_witness:
  "\<exists>msg. classify_path 24 (lan_worker ''a'' ''fe80::1'') (Some ''eth0'') (lan_worker ''b'' ''10.0.1.1'') None = Inl (AssertionError msg)"
  by (rule explicit_interface_without_ipv4 [where si = "lan_interface ''fe80::1''" and di = "lan_interface ''10.0.1.1''"]) (simp_all add: lan_worker_path [OF demo_addresses(2)] selected_interface_def ipv4_addresses_def demo_addresses)

text \<open>[C29] Bandwidth probing is sparse and deterministic: for classified pairs with distinct endpoints, each
  class contributes its \<open>k\<close> smallest pairs or all it has, the explicit pairs are added, no pair is
  probed twice, and the order of the input does not matter.\<close>

theorem select_bandwidth_pairs_sparse:
  assumes "1 \<le> k" and "distinct (map (pair_order_key \<circ> cpr_pair) xs)"
  shows "(\<exists>sel. select_bandwidth_pairs k extra xs = Inr sel \<and> distinct (map pair_order_key sel)
      \<and> pair_order_key ` set sel = pair_order_key ` (\<Union>c. set (class_representatives (nat k) xs c)) \<union> pair_order_key ` set extra)
    \<and> (\<exists>sel. select_bandwidth_pairs k [] xs = Inr sel
      \<and> (\<forall>c. length (filter (\<lambda>p. p \<in> set (with_class xs c)) sel) = min (nat k) (length (with_class xs c))))
    \<and> (mset ys = mset xs \<longrightarrow> select_bandwidth_pairs k extra ys = select_bandwidth_pairs k extra xs)"
  using select_bandwidth_pairs_spec [OF assms] by blast

theorem select_bandwidth_pairs_sparse_witness:
  "select_bandwidth_pairs 1 [] [lan_pair ''b'' ''a'', lan_pair ''a'' ''b''] = select_bandwidth_pairs 1 [] [lan_pair ''a'' ''b'', lan_pair ''b'' ''a'']"
proof -
  have "distinct (map (pair_order_key \<circ> cpr_pair) [lan_pair ''a'' ''b'', lan_pair ''b'' ''a''])" by (simp add: lan_pair_def pair_order_key_def)
  moreover have "mset [lan_pair ''b'' ''a'', lan_pair ''a'' ''b''] = mset [lan_pair ''a'' ''b'', lan_pair ''b'' ''a'']" by simp
  ultimately show ?thesis using select_bandwidth_pairs_sparse [of 1 "[lan_pair ''a'' ''b'', lan_pair ''b'' ''a'']"] by blast
qed

end
