(* ===== verification/Profiling_Sessions.thy ===== *)
theory Profiling_Sessions
  imports Network_Classifier "HOL-Library.AList"
begin

section \<open>Worker-side profiling sessions and the case ledger\<close>

text \<open>
  \<^verbatim>\<open>control/worker/profiling_sessions.py\<close>: the registration gate, the store of sessions, and the ledger of case
  states of each session. A session's model handle and the callable that releases it are opaque: the
  callable is identified with the handle it closes, \<open>run_cleanup\<close> says what calling it gives, and the
  manager's field \<open>pm_cleanups\<close> records the calls. The two sources of fresh state and telemetry that a
  record only carries are left out, as is logging.

  A refusal of the protocol and an exception are different outcomes of an operation.
\<close>

datatype profiling_rejection = UNKNOWN_SESSION | STALE_REGISTRATION | SESSION_CLOSED | SESSION_KIND_MISMATCH | BUSY | UNKNOWN_CASE

datatype session_exn = Refused profiling_rejection | Raising exn

type_synonym 'a sres = "session_exn + 'a"

record registration_tokens =
  rgt_worker_id :: string
  rgt_instance_id :: string
  rgt_registration_session_id :: string

record ledger_entry =
  lde_state :: case_state
  lde_outcome :: "case_outcome option"
  lde_decided_at :: "timestamp option"

definition terminal_state :: "case_state \<Rightarrow> bool" where
  "terminal_state s \<longleftrightarrow> s = CASE_COMPLETED \<or> s = CASE_FAILED \<or> s = CASE_CANCELLED"

definition terminal :: "ledger_entry \<Rightarrow> bool" where
  "terminal e \<longleftrightarrow> terminal_state (lde_state e)"

record 'h session_record =
  sre_session_id :: string
  sre_request :: session_request
  sre_prepared_at :: timestamp
  sre_capability_revision :: "string option"
  sre_capability :: "worker_capability option"
  sre_worker_state :: "worker_state option"
  sre_performance_state :: "performance_state option"
  sre_session_facts :: "session_facts option"
  sre_network_facts :: "(string \<times> worker_network_facts) list"
  sre_model_handle :: "'h option"
  sre_model_cleanup :: "'h option"
  sre_cases :: "(string \<times> ledger_entry) list"
  sre_closed :: bool

definition record_kind :: "'h session_record \<Rightarrow> session_kind" where
  "record_kind r = psr_kind (sre_request r)"

definition record_device_ids :: "'h session_record \<Rightarrow> string list" where
  "record_device_ids r = psr_device_ids (sre_request r)"

record 'h session_manager =
  pm_sessions :: "(string \<times> 'h session_record) list"
  pm_cleanups :: "(string \<times> 'h) list"

definition manager_init :: "'h session_manager" where
  "manager_init = \<lparr>pm_sessions = [], pm_cleanups = []\<rparr>"

definition session_ids :: "'h session_manager \<Rightarrow> string list" where
  "session_ids m = map fst (pm_sessions m)"

definition open_session_count :: "'h session_manager \<Rightarrow> nat" where
  "open_session_count m = length (filter (\<lambda>(_, r). \<not> sre_closed r) (pm_sessions m))"


subsection \<open>The registration gate\<close>

definition validate_tokens :: "registration_tokens option \<Rightarrow> registration_tokens \<Rightarrow> registration_tokens sres" where
  "validate_tokens current request =
     (case current of
        None \<Rightarrow> Inl (Refused STALE_REGISTRATION)
      | Some c \<Rightarrow>
          if rgt_worker_id request \<noteq> rgt_worker_id c then Inl (Refused STALE_REGISTRATION)
          else if rgt_instance_id request \<noteq> rgt_instance_id c then Inl (Refused STALE_REGISTRATION)
          else if rgt_registration_session_id request \<noteq> rgt_registration_session_id c then Inl (Refused STALE_REGISTRATION)
          else Inr c)"


subsection \<open>Session lifecycle\<close>

definition peek :: "string \<Rightarrow> 'h session_manager \<Rightarrow> 'h session_record option" where
  "peek sid m = map_of (pm_sessions m) sid"

definition put_record :: "'h session_record \<Rightarrow> 'h session_manager \<Rightarrow> 'h session_manager" where
  "put_record r m = m\<lparr>pm_sessions := AList.update (sre_session_id r) r (pm_sessions m)\<rparr>"

text \<open>A new record starts with an empty ledger and open.\<close>

definition create_session :: "'h session_record \<Rightarrow> 'h session_manager \<Rightarrow> 'h session_manager \<times> 'h session_record sres" where
  "create_session r m =
     (if sre_session_id r \<in> set (session_ids m) then (m, Inl (Raising (ValueError ''profiling session already exists'')))
      else (let r' = r\<lparr>sre_cases := [], sre_closed := False\<rparr> in (put_record r' m, Inr r')))"

definition require_open_session :: "string \<Rightarrow> 'h session_manager \<Rightarrow> 'h session_record sres" where
  "require_open_session sid m =
     (case peek sid m of
        None \<Rightarrow> Inl (Refused UNKNOWN_SESSION)
      | Some r \<Rightarrow> if sre_closed r then Inl (Refused SESSION_CLOSED) else Inr r)"

definition close_session :: "('h \<Rightarrow> unit res) \<Rightarrow> string \<Rightarrow> 'h session_manager \<Rightarrow> 'h session_manager \<times> bool sres" where
  "close_session run_cleanup sid m =
     (case peek sid m of
        None \<Rightarrow> (m, Inr False)
      | Some r \<Rightarrow>
          if sre_closed r then (m, Inr False)
          else (let m1 = put_record (r\<lparr>sre_closed := True, sre_model_cleanup := None, sre_model_handle := None\<rparr>) m in
            case sre_model_cleanup r of
              None \<Rightarrow> (m1, Inr True)
            | Some h \<Rightarrow> (m1\<lparr>pm_cleanups := pm_cleanups m1 @ [(sid, h)]\<rparr>,
                         case run_cleanup h of Inl e \<Rightarrow> Inl (Raising e) | Inr _ \<Rightarrow> Inr True)))"

fun close_each :: "('h \<Rightarrow> unit res) \<Rightarrow> string list \<Rightarrow> 'h session_manager \<Rightarrow> 'h session_manager \<times> unit sres" where
  "close_each run_cleanup [] m = (m, Inr ())"
| "close_each run_cleanup (sid # sids) m =
     (case close_session run_cleanup sid m of
        (m', Inl e) \<Rightarrow> (m', Inl e)
      | (m', Inr _) \<Rightarrow> close_each run_cleanup sids m')"

definition close_all :: "('h \<Rightarrow> unit res) \<Rightarrow> 'h session_manager \<Rightarrow> 'h session_manager \<times> string list sres" where
  "close_all run_cleanup m =
     (let closed = map fst (filter (\<lambda>(_, r). \<not> sre_closed r) (pm_sessions m)) in
      case close_each run_cleanup closed m of
        (m', Inl e) \<Rightarrow> (m', Inl e)
      | (m', Inr _) \<Rightarrow> (m', Inr closed))"


subsection \<open>The case ledger\<close>

definition case_entry :: "string \<Rightarrow> string \<Rightarrow> 'h session_manager \<Rightarrow> ledger_entry option" where
  "case_entry sid cid m = (case peek sid m of None \<Rightarrow> None | Some r \<Rightarrow> map_of (sre_cases r) cid)"

definition put_case :: "'h session_record \<Rightarrow> string \<Rightarrow> ledger_entry \<Rightarrow> 'h session_manager \<Rightarrow> 'h session_manager" where
  "put_case r cid e m = put_record (r\<lparr>sre_cases := AList.update cid e (sre_cases r)\<rparr>) m"

definition decided :: "'h session_record \<Rightarrow> string \<Rightarrow> bool" where
  "decided r cid = (case map_of (sre_cases r) cid of None \<Rightarrow> False | Some e \<Rightarrow> terminal e)"

definition mark_running :: "string \<Rightarrow> string \<Rightarrow> 'h session_manager \<Rightarrow> 'h session_manager \<times> unit sres" where
  "mark_running sid cid m =
     (case require_open_session sid m of
        Inl e \<Rightarrow> (m, Inl e)
      | Inr r \<Rightarrow>
          if decided r cid then (m, Inl (Raising (ValueError ''case is already terminal'')))
          else (put_case r cid \<lparr>lde_state = CASE_RUNNING, lde_outcome = None, lde_decided_at = None\<rparr> m, Inr ()))"

definition decide_case :: "string \<Rightarrow> string \<Rightarrow> case_state \<Rightarrow> case_outcome \<Rightarrow> timestamp \<Rightarrow> 'h session_manager
    \<Rightarrow> 'h session_manager \<times> ledger_entry sres" where
  "decide_case sid cid state outcome now m =
     (if \<not> terminal_state state then (m, Inl (Raising (ValueError ''decide_case requires a terminal state'')))
      else case require_open_session sid m of
        Inl e \<Rightarrow> (m, Inl e)
      | Inr r \<Rightarrow>
          if decided r cid then (m, Inl (Raising (ValueError ''case already decided'')))
          else (let e = \<lparr>lde_state = state, lde_outcome = Some outcome, lde_decided_at = Some now\<rparr> in (put_case r cid e m, Inr e)))"

definition cancelled_outcome :: "string \<Rightarrow> string \<Rightarrow> case_outcome" where
  "cancelled_outcome sid cid = \<lparr>cou_record = None, cou_failure = Some \<lparr>pfl_category = ERROR_CANCELLED,
     pfl_message = ''case cancelled before execution'', pfl_details = [(''case_id'', SStr cid), (''session_id'', SStr sid)]\<rparr>\<rparr>"

definition cancel_case :: "string \<Rightarrow> string \<Rightarrow> timestamp \<Rightarrow> 'h session_manager \<Rightarrow> 'h session_manager \<times> ledger_entry sres" where
  "cancel_case sid cid now m =
     (case require_open_session sid m of
        Inl e \<Rightarrow> (m, Inl e)
      | Inr r \<Rightarrow>
          (case map_of (sre_cases r) cid of
             Some e \<Rightarrow>
               if terminal e then (m, Inr e)
               else (let c = \<lparr>lde_state = CASE_CANCELLED, lde_outcome = Some (cancelled_outcome sid cid), lde_decided_at = Some now\<rparr>
                     in (put_case r cid c m, Inr c))
           | None \<Rightarrow>
               (let c = \<lparr>lde_state = CASE_CANCELLED, lde_outcome = Some (cancelled_outcome sid cid), lde_decided_at = Some now\<rparr>
                in (put_case r cid c m, Inr c))))"

text \<open>The failure of a cancelled case is one its constructor accepts.\<close>

lemma cancelled_outcome_valid:
  "present_check check_profiling_failure (cou_failure (cancelled_outcome sid cid)) = Inr () \<and> is_ok (make_case_outcome (cancelled_outcome sid cid))"
  by (simp add: cancelled_outcome_def check_profiling_failure_def check_normalized_items_def non_empty_def make_case_outcome_def
      checks_Inr less_le_not_le)


subsection \<open>Runs of operations\<close>

datatype 'h session_op =
    Create "'h session_record"
  | Close string
  | Close_All
  | Mark_Running string string
  | Decide string string case_state case_outcome timestamp
  | Cancel string string timestamp

fun session_step :: "('h \<Rightarrow> unit res) \<Rightarrow> 'h session_op \<Rightarrow> 'h session_manager \<Rightarrow> 'h session_manager" where
  "session_step rc (Create r) m = fst (create_session r m)"
| "session_step rc (Close sid) m = fst (close_session rc sid m)"
| "session_step rc Close_All m = fst (close_all rc m)"
| "session_step rc (Mark_Running sid cid) m = fst (mark_running sid cid m)"
| "session_step rc (Decide sid cid st oc now) m = fst (decide_case sid cid st oc now m)"
| "session_step rc (Cancel sid cid now) m = fst (cancel_case sid cid now m)"

definition session_run :: "('h \<Rightarrow> unit res) \<Rightarrow> 'h session_op list \<Rightarrow> 'h session_manager \<Rightarrow> 'h session_manager" where
  "session_run rc ops m = fold (session_step rc) ops m"

text \<open>Sessions are stored under their own id.\<close>

definition keyed :: "'h session_manager \<Rightarrow> bool" where
  "keyed m \<longleftrightarrow> distinct (session_ids m) \<and> (\<forall>sid r. peek sid m = Some r \<longrightarrow> sre_session_id r = sid)"

lemma keyed_peek: "\<lbrakk>keyed m; peek sid m = Some r\<rbrakk> \<Longrightarrow> sre_session_id r = sid"
  by (simp add: keyed_def)

lemma peek_put [simp]: "peek sid (put_record r m) = (if sid = sre_session_id r then Some r else peek sid m)"
  by (simp add: peek_def put_record_def update_conv')

lemma peek_cleanups [simp]: "peek sid (m\<lparr>pm_cleanups := x\<rparr>) = peek sid m"
  by (simp add: peek_def)

lemma put_cleanups [simp]: "pm_cleanups (put_record r m) = pm_cleanups m"
  by (simp add: put_record_def)

lemma keyed_put: "keyed m \<Longrightarrow> keyed (put_record r m)"
  by (simp add: keyed_def) (simp add: put_record_def session_ids_def distinct_update)

lemma keyed_cleanups [simp]: "keyed (m\<lparr>pm_cleanups := x\<rparr>) = keyed m"
  by (simp add: keyed_def session_ids_def)

lemma peek_None: "peek sid m = None \<longleftrightarrow> sid \<notin> set (session_ids m)"
  by (auto simp: peek_def session_ids_def map_of_eq_None_iff)

text \<open>How an operation may change a session record: closed is final, a decided case keeps its entry, and a
  closed session keeps its whole ledger.\<close>

definition record_evolves :: "'h session_record \<Rightarrow> 'h session_record \<Rightarrow> bool" where
  "record_evolves r r' \<longleftrightarrow> (sre_closed r \<longrightarrow> sre_closed r' \<and> sre_cases r' = sre_cases r)
     \<and> (\<forall>cid e. map_of (sre_cases r) cid = Some e \<and> terminal e \<longrightarrow> map_of (sre_cases r') cid = Some e)"

definition evolves :: "'h session_manager \<Rightarrow> 'h session_manager \<Rightarrow> bool" where
  "evolves m m' \<longleftrightarrow> (\<forall>sid r. peek sid m = Some r \<longrightarrow> (\<exists>r'. peek sid m' = Some r' \<and> record_evolves r r'))"

text \<open>Sessions are stored under their own ids, and a cleanup that has run belongs to a closed session and
  has not run twice.\<close>

definition manager_ok :: "'h session_manager \<Rightarrow> bool" where
  "manager_ok m \<longleftrightarrow> keyed m \<and> distinct (map fst (pm_cleanups m))
     \<and> (\<forall>(sid, h) \<in> set (pm_cleanups m). \<exists>r. peek sid m = Some r \<and> sre_closed r)"

lemma record_evolves_refl [simp]: "record_evolves r r"
  by (simp add: record_evolves_def)

lemma record_evolves_trans: "\<lbrakk>record_evolves a b; record_evolves b c\<rbrakk> \<Longrightarrow> record_evolves a c"
  unfolding record_evolves_def by (metis (no_types, lifting))

lemma evolves_refl [simp]: "evolves m m"
  by (simp add: evolves_def)

lemma evolves_trans: "\<lbrakk>evolves a b; evolves b c\<rbrakk> \<Longrightarrow> evolves a c"
  unfolding evolves_def by (meson record_evolves_trans)

text \<open>Storing a record that evolves from the stored one, or a new one.\<close>

lemma put_record_step:
  assumes "\<And>r0. peek (sre_session_id r) m = Some r0 \<Longrightarrow> record_evolves r0 r"
  shows "evolves m (put_record r m)" "manager_ok m \<Longrightarrow> manager_ok (put_record r m)"
proof -
  show ev: "evolves m (put_record r m)" using assms by (auto simp: evolves_def)
  show "manager_ok (put_record r m)" if ok: "manager_ok m"
  proof -
    have "\<exists>r'. peek sid (put_record r m) = Some r' \<and> sre_closed r'" if h: "(sid, h) \<in> set (pm_cleanups m)" for sid h
    proof -
      from ok h obtain r1 where "peek sid m = Some r1" "sre_closed r1" by (auto simp: manager_ok_def)
      moreover from this ev obtain r2 where "peek sid (put_record r m) = Some r2" "record_evolves r1 r2"
        unfolding evolves_def by blast
      ultimately show ?thesis by (auto simp: record_evolves_def simp del: peek_put)
    qed
    with ok show ?thesis by (auto simp: manager_ok_def keyed_put simp del: peek_put)
  qed
qed

lemma close_session_step:
  assumes "manager_ok m"
  shows "evolves m (fst (close_session rc sid m)) \<and> manager_ok (fst (close_session rc sid m))"
proof (cases "\<exists>r. peek sid m = Some r \<and> \<not> sre_closed r")
  case False
  then have "fst (close_session rc sid m) = m" by (auto simp: close_session_def split: option.splits)
  with assms show ?thesis by simp
next
  case True
  then obtain r where r: "peek sid m = Some r" "\<not> sre_closed r" by blast
  have k: "keyed m" "sre_session_id r = sid" using assms keyed_peek r(1) by (auto simp: manager_ok_def)
  let ?r = "r\<lparr>sre_closed := True, sre_model_cleanup := None, sre_model_handle := None\<rparr>"
  have "record_evolves r ?r" using r(2) by (simp add: record_evolves_def)
  then have step: "evolves m (put_record ?r m)" "manager_ok (put_record ?r m)"
    using put_record_step [of ?r m] k r(1) assms by auto
  have fresh: "sid \<notin> fst ` set (pm_cleanups m)" using assms r by (force simp: manager_ok_def)
  show ?thesis
  proof (cases "sre_model_cleanup r")
    case None
    with r step show ?thesis by (simp add: close_session_def Let_def)
  next
    case (Some h)
    with step(2) fresh k(2) have "manager_ok ((put_record ?r m)\<lparr>pm_cleanups := pm_cleanups m @ [(sid, h)]\<rparr>)"
      by (auto simp: manager_ok_def)
    moreover have "evolves m ((put_record ?r m)\<lparr>pm_cleanups := pm_cleanups m @ [(sid, h)]\<rparr>)"
      using step(1) by (simp add: evolves_def)
    ultimately show ?thesis using r Some by (simp add: close_session_def Let_def)
  qed
qed

lemma close_each_step: "manager_ok m \<Longrightarrow> evolves m (fst (close_each rc sids m)) \<and> manager_ok (fst (close_each rc sids m))"
proof (induction sids arbitrary: m)
  case (Cons sid sids)
  obtain m' res where c: "close_session rc sid m = (m', res)" by fastforce
  from close_session_step [OF Cons.prems, of rc sid] c have s: "evolves m m'" "manager_ok m'" by auto
  show ?case
  proof (cases res)
    case (Inl e)
    with s c show ?thesis by simp
  next
    case (Inr b)
    with s c Cons.IH [OF s(2)] show ?thesis using evolves_trans [OF s(1)] by simp
  qed
qed simp

lemma put_case_step:
  assumes "manager_ok m" "require_open_session sid m = Inr r" "\<not> decided r cid"
  shows "evolves m (put_case r cid e m)" "manager_ok (put_case r cid e m)"
proof -
  from assms(2) have r: "peek sid m = Some r" "\<not> sre_closed r"
    by (auto simp: require_open_session_def split: option.splits if_splits)
  have k: "keyed m" "sre_session_id r = sid" using assms(1) keyed_peek r(1) by (auto simp: manager_ok_def)
  have "record_evolves r (r\<lparr>sre_cases := AList.update cid e (sre_cases r)\<rparr>)"
    using r(2) assms(3) by (auto simp: record_evolves_def update_conv' decided_def)
  then show "evolves m (put_case r cid e m)" "manager_ok (put_case r cid e m)"
    using put_record_step [of "r\<lparr>sre_cases := AList.update cid e (sre_cases r)\<rparr>" m] k r(1) assms(1) by (auto simp: put_case_def)
qed

lemma session_step_ok:
  assumes "manager_ok m"
  shows "evolves m (session_step rc op m) \<and> manager_ok (session_step rc op m)"
proof (cases op)
  case (Create r)
  show ?thesis
  proof (cases "peek (sre_session_id r) m")
    case None
    with assms put_record_step [of "r\<lparr>sre_cases := [], sre_closed := False\<rparr>" m] show ?thesis
      by (auto simp: Create create_session_def Let_def peek_None)
  next
    case (Some r0)
    then have "sre_session_id r \<in> set (session_ids m)" using peek_None [of "sre_session_id r" m] by simp
    with assms show ?thesis by (simp add: Create create_session_def)
  qed
next
  case (Close sid)
  with close_session_step [OF assms] show ?thesis by simp
next
  case Close_All
  with close_each_step [OF assms, of rc] show ?thesis
    by (auto simp: close_all_def Let_def case_prod_unfold split: sum.splits)
next
  case (Mark_Running sid cid)
  with assms show ?thesis by (auto simp: mark_running_def split: sum.splits intro: put_case_step)
next
  case (Decide sid cid st oc now)
  with assms show ?thesis by (auto simp: decide_case_def Let_def split: sum.splits intro: put_case_step)
next
  case (Cancel sid cid now)
  with assms show ?thesis
    by (auto simp: cancel_case_def Let_def decided_def split: sum.splits option.splits intro: put_case_step)
qed

lemma session_run_ok: "manager_ok m \<Longrightarrow> evolves m (session_run rc ops m) \<and> manager_ok (session_run rc ops m)"
proof (induction ops arbitrary: m)
  case (Cons op ops)
  from session_step_ok [OF Cons.prems, of rc op] Cons.IH [of "session_step rc op m"] show ?case
    using evolves_trans by (auto simp: session_run_def)
qed (simp add: session_run_def)

lemma manager_ok_init: "manager_ok manager_init"
  by (simp add: manager_ok_def manager_init_def keyed_def session_ids_def peek_def)


subsection \<open>Properties\<close>

definition demo_record :: "string \<Rightarrow> nat option \<Rightarrow> nat session_record" where
  "demo_record sid h = \<lparr>sre_session_id = sid, sre_request = \<lparr>psr_kind = NETWORK_SESSION, psr_device_ids = [], psr_backend = ''torch'', psr_model = None,
       psr_dtype = None, psr_quantization = None, psr_target_layer_index = None\<rparr>,
     sre_prepared_at = \<lparr>ts_value = 0, ts_aware = True\<rparr>, sre_capability_revision = None, sre_capability = None, sre_worker_state = None,
     sre_performance_state = None, sre_session_facts = None, sre_network_facts = [], sre_model_handle = h, sre_model_cleanup = h,
     sre_cases = [], sre_closed = False\<rparr>"

definition demo_cancelled :: "nat session_manager" where
  "demo_cancelled = session_run (\<lambda>_. Inr ()) [Create (demo_record ''s'' None), Cancel ''s'' ''c'' \<lparr>ts_value = 0, ts_aware = True\<rparr>] manager_init"

text \<open>[C26] The ledger only grows: from any well-formed manager, over any run of operations, a case that has
  been decided keeps exactly its entry, with its state, outcome and time; a closed session stays closed
  and keeps its whole ledger.\<close>

theorem ledger_append_only:
  assumes "manager_ok m" and "peek sid m = Some r"
  shows "\<exists>r'. peek sid (session_run rc ops m) = Some r'
     \<and> (\<forall>cid e. case_entry sid cid m = Some e \<and> terminal e \<longrightarrow> case_entry sid cid (session_run rc ops m) = Some e)
     \<and> (sre_closed r \<longrightarrow> sre_closed r' \<and> sre_cases r' = sre_cases r)"
proof -
  from session_run_ok [OF assms(1), of rc ops] assms(2)
  obtain r' where "peek sid (session_run rc ops m) = Some r'" "record_evolves r r'" by (auto simp: evolves_def)
  with assms(2) show ?thesis by (auto simp: record_evolves_def case_entry_def)
qed

theorem ledger_append_only_witness:
  "map_option lde_state (case_entry ''s'' ''c'' (session_run (\<lambda>_. Inr ()) [Mark_Running ''s'' ''c'', Close ''s''] demo_cancelled)) = Some CASE_CANCELLED"
proof -
  have ok: "manager_ok demo_cancelled" unfolding demo_cancelled_def using session_run_ok [OF manager_ok_init] by blast
  obtain r e where "peek ''s'' demo_cancelled = Some r" "case_entry ''s'' ''c'' demo_cancelled = Some e" "lde_state e = CASE_CANCELLED"
    by (simp add: demo_cancelled_def session_run_def create_session_def session_ids_def manager_init_def cancel_case_def
        require_open_session_def put_case_def case_entry_def demo_record_def Let_def)
  moreover from this(3) have "terminal e" by (simp add: terminal_def terminal_state_def)
  ultimately show ?thesis using ledger_append_only [OF ok, of "''s''" r "\<lambda>_. Inr ()" "[Mark_Running ''s'' ''c'', Close ''s'']"] by auto
qed

text \<open>A session's model is released exactly once: in every manager reached from the empty one, no session's
  cleanup has run twice and those that have run belong to closed sessions; closing an open session runs
  its cleanup, and closing again runs nothing.\<close>

lemma cleanup_exactly_once:
  assumes "m = session_run rc ops manager_init"
  shows "distinct (map fst (pm_cleanups m))
    \<and> (\<forall>(sid, h) \<in> set (pm_cleanups m). \<exists>r. peek sid m = Some r \<and> sre_closed r)
    \<and> (\<forall>sid r h. peek sid m = Some r \<and> \<not> sre_closed r \<and> sre_model_cleanup r = Some h \<longrightarrow>
         pm_cleanups (fst (close_session rc sid m)) = pm_cleanups m @ [(sid, h)]
         \<and> close_session rc sid (fst (close_session rc sid m)) = (fst (close_session rc sid m), Inr False))"
proof -
  have ok: "manager_ok m" using session_run_ok [OF manager_ok_init] assms by blast
  then have "sre_session_id r = sid" if "peek sid m = Some r" for sid r
    using keyed_peek that by (auto simp: manager_ok_def)
  with ok show ?thesis by (auto simp: manager_ok_def close_session_def Let_def)
qed

definition demo_prepared :: "nat session_manager" where
  "demo_prepared = session_run (\<lambda>_. Inr ()) [Create (demo_record ''s'' (Some 7))] manager_init"

end
