(* ===== verification/Runner_Environment.thy ===== *)
theory Runner_Environment
  imports Profiling_Sessions
begin

section \<open>The environment a measurement was taken in\<close>

text \<open>
  The internals of \<^verbatim>\<open>control/worker/profiling_runner.py\<close> that identify the environment of a measurement:
  the performance class of the device, the driver version, the performance state observed once per
  session, and the fingerprint composed of them; the environment a compute executor reports and the
  session it prepares (\<^verbatim>\<open>control/worker/compute_executor.py\<close>); the normalization of observed frequency
  ranges (\<^verbatim>\<open>control/worker/performance_state.py\<close>).

  What the torch installation of the host reports is the record \<open>host_torch\<close>; an executor's own live
  objects are the type variable \<open>'o\<close>.
\<close>

record compute_environment =
  cen_torch_version :: string
  cen_cuda_version :: "string option"
  cen_backend_revision :: string
  cen_target_device_id :: string
  cen_execution_device :: string

definition check_compute_environment :: "compute_environment \<Rightarrow> unit res" where
  "check_compute_environment e = checks [
     non_empty ''torch_version'' (cen_torch_version e), absent_or non_empty ''cuda_version'' (cen_cuda_version e),
     non_empty ''backend_revision'' (cen_backend_revision e), non_empty ''target_device_id'' (cen_target_device_id e),
     non_empty ''execution_device'' (cen_execution_device e)]"

record 'o prepared_session =
  pss_session_id :: string
  pss_target_device_id :: string
  pss_environment :: compute_environment
  pss_facts :: "session_facts option"
  pss_opaque :: "'o option"
  pss_closed :: bool

record host_torch =
  tor_version :: string
  tor_cuda :: "string option"

definition PROFILING_IMPLEMENTATION_REVISION :: string where
  "PROFILING_IMPLEMENTATION_REVISION = ''0.2.0''"


subsection \<open>Performance state\<close>

definition locked :: "(int \<times> int) option \<Rightarrow> bool option" where
  "locked v = map_option (\<lambda>(lo, hi). lo = hi) v"

definition normalize_performance_state :: "string option \<Rightarrow> (int \<times> int) option \<Rightarrow> (int \<times> int) option \<Rightarrow> (int \<times> int) option
    \<Rightarrow> performance_state res" where
  "normalize_performance_state power_mode cpu gpu emc =
     (let s = \<lparr>pst_power_mode = power_mode,
        pst_cpu_min_mhz = map_option fst cpu, pst_cpu_max_mhz = map_option snd cpu,
        pst_gpu_min_mhz = map_option fst gpu, pst_gpu_max_mhz = map_option snd gpu,
        pst_emc_min_mhz = map_option fst emc, pst_emc_max_mhz = map_option snd emc,
        pst_cpu_locked = locked cpu, pst_gpu_locked = locked gpu, pst_emc_locked = locked emc\<rparr>
      in then_res (check_performance_state s) (Inr s))"

definition device_named :: "string \<Rightarrow> worker_capability \<Rightarrow> device_capability option" where
  "device_named d c = find (\<lambda>candidate. di_device_id (dc_identity candidate) = d) (wc_devices c)"

text \<open>The reader's result is an argument; an observation that fails is an absent state.\<close>

definition observe_performance_state :: "performance_state res \<Rightarrow> worker_capability \<Rightarrow> string option \<Rightarrow> performance_state option" where
  "observe_performance_state reader capability device_id =
     (case device_id of
        None \<Rightarrow> None
      | Some d \<Rightarrow>
          (case device_named d capability of
             None \<Rightarrow> None
           | Some device \<Rightarrow>
               if ''tegra'' \<notin> set (dc_platform_tags device) then None
               else (case reader of Inl _ \<Rightarrow> None | Inr p \<Rightarrow> Some p)))"


subsection \<open>Fingerprints\<close>

definition session_driver_version :: "'h session_record \<Rightarrow> string option \<Rightarrow> string option" where
  "session_driver_version r device_id =
     (case (sre_capability r, device_id) of
        (Some c, Some d) \<Rightarrow> (case device_named d c of None \<Rightarrow> None | Some device \<Rightarrow> dc_driver_version device)
      | _ \<Rightarrow> None)"

definition used_torch_version :: "host_torch \<Rightarrow> compute_environment option \<Rightarrow> string" where
  "used_torch_version host env = (case env of None \<Rightarrow> tor_version host | Some e \<Rightarrow> cen_torch_version e)"

definition used_cuda_version :: "host_torch \<Rightarrow> compute_environment option \<Rightarrow> string option" where
  "used_cuda_version host env = (case env of None \<Rightarrow> tor_cuda host | Some e \<Rightarrow> cen_cuda_version e)"

text \<open>\<^verbatim>\<open>sorted(versions.items())\<close> with the key cuda before the key torch.\<close>

definition software_versions :: "string \<Rightarrow> string option \<Rightarrow> (string \<times> string) list" where
  "software_versions torch cuda =
     (case cuda of None \<Rightarrow> [] | Some c \<Rightarrow> [(''cuda'', c)]) @ [(''torch'', takeWhile (\<lambda>c. c \<noteq> CHR ''+'') torch)]"

definition pool_model :: "worker_capability \<Rightarrow> device_capability \<Rightarrow> memory_model" where
  "pool_model c device =
     (case find (\<lambda>candidate. Some (mp_memory_pool_id candidate) = dc_memory_pool_id device) (wc_memory_pools c) of
        None \<Rightarrow> DISCRETE | Some pool \<Rightarrow> mp_model pool)"

definition device_class_of :: "host_torch \<Rightarrow> 'h session_record \<Rightarrow> string option \<Rightarrow> string \<Rightarrow> string option \<Rightarrow> compute_environment option
    \<Rightarrow> performance_class option res" where
  "device_class_of host r device_id backend dtype env =
     (case (sre_capability r, device_id) of
        (Some c, Some d) \<Rightarrow>
          (case device_named d c of
             None \<Rightarrow> Inr None
           | Some device \<Rightarrow>
               (let pc = \<lparr>dpc_vendor = dc_vendor device, dpc_accelerator_model = dc_model device, dpc_memory_model = pool_model c device,
                  dpc_backend_family = backend, dpc_architecture = dc_compute_capability device, dpc_dtype = dtype,
                  dpc_software_versions = software_versions (used_torch_version host env) (used_cuda_version host env)\<rparr>
                in then_res (check_performance_class pc) (Inr (Some pc))))
      | _ \<Rightarrow> Inr None)"

definition fingerprint :: "(string \<Rightarrow> string) \<Rightarrow> host_torch \<Rightarrow> 'h session_record \<Rightarrow> registration_tokens \<Rightarrow> string \<Rightarrow> string option \<Rightarrow> string option
    \<Rightarrow> string option \<Rightarrow> string option \<Rightarrow> compute_environment option \<Rightarrow> environment_fingerprint res" where
  "fingerprint sha host r tokens backend device_id dtype quantization model_revision env =
     bind_res (device_class_of host r device_id backend dtype env) (\<lambda>pc.
     bind_res (case pc of None \<Rightarrow> Inr None | Some c \<Rightarrow> map_res Some (device_performance_class_id sha c)) (\<lambda>pc_id.
     let f = \<lparr>enf_backend = backend, enf_profiling_implementation_revision = PROFILING_IMPLEMENTATION_REVISION,
        enf_device_performance_class_id = pc_id, enf_device_performance_class = pc, enf_capability_revision = sre_capability_revision r,
        enf_torch_version = Some (used_torch_version host env), enf_cuda_version = used_cuda_version host env,
        enf_driver_version = session_driver_version r device_id, enf_backend_revision = map_option cen_backend_revision env,
        enf_performance_state = sre_performance_state r, enf_model_revision = model_revision, enf_dtype = dtype,
        enf_quantization = quantization, enf_worker_id = Some (rgt_worker_id tokens), enf_device_id = device_id\<rparr>
     in then_res (check_environment sha f) (Inr f)))"

definition model_fingerprint :: "(string \<Rightarrow> string) \<Rightarrow> host_torch \<Rightarrow> 'h session_record \<Rightarrow> registration_tokens \<Rightarrow> model_case_spec
    \<Rightarrow> model_characterization \<Rightarrow> compute_environment option \<Rightarrow> environment_fingerprint res" where
  "model_fingerprint sha host r tokens spec c env =
     fingerprint sha host r tokens (mcs_backend spec) (Some (hd (mcs_device_ids spec))) (Some (mcs_dtype spec))
       (mch_quantization c) (mref_revision (mch_model c)) env"


subsection \<open>What a fingerprint says\<close>

text \<open>Normalization derives the lock flags, so it fails only on an empty power mode or a bad range.\<close>

definition frequency_range_ok :: "(int \<times> int) option \<Rightarrow> bool" where
  "frequency_range_ok v = (case v of None \<Rightarrow> True | Some (lo, hi) \<Rightarrow> 0 < lo \<and> lo \<le> hi)"

lemma check_range_locked: "check_range p (map_option fst v) (map_option snd v) (locked v) = Inr () \<longleftrightarrow> frequency_range_ok v"
  by (auto simp: check_range_def frequency_range_ok_def locked_def checks_Inr split: option.split)

lemma normalize_performance_state_ok:
  "is_ok (normalize_performance_state mode cpu gpu emc) \<longleftrightarrow> mode \<noteq> Some [] \<and> frequency_range_ok cpu \<and> frequency_range_ok gpu \<and> frequency_range_ok emc"
  by (cases mode) (auto simp: normalize_performance_state_def check_performance_state_def Let_def is_ok_iff checks_Inr check_range_locked
      absent_or_def non_empty_def)

text \<open>A fingerprint that is returned is valid, names the worker and the device, and its class id is the
  hash of its class; a class is present exactly when the session knows the device.\<close>

lemma fingerprint_valid:
  assumes "fingerprint sha host r tokens backend d dtype q mrev env = Inr f"
  shows "check_environment sha f = Inr () \<and> enf_worker_id f = Some (rgt_worker_id tokens) \<and> enf_device_id f = d \<and> enf_backend f = backend
    \<and> (enf_device_performance_class f \<noteq> None \<longleftrightarrow> (\<exists>c x. sre_capability r = Some c \<and> d = Some x \<and> device_named x c \<noteq> None))"
  using assms
  by (auto simp: fingerprint_def device_class_of_def bind_res_Inr Let_def split: option.splits)

text \<open>The identity under which measurements are shared does not depend on the worker, the device or the
  revision of the whole capability.\<close>

lemma environment_fingerprint_id_shared:
  "environment_fingerprint_id sha (f\<lparr>enf_worker_id := w, enf_device_id := d, enf_capability_revision := c\<rparr>) = environment_fingerprint_id sha f"
  by (simp add: environment_fingerprint_id_def)

end
