(* ===== verification/Profiling_Messages.thy ===== *)
theory Profiling_Messages
  imports Profiling_Sessions
begin

section \<open>Messages of the profiling plane\<close>

text \<open>
  The requests and responses of \<^verbatim>\<open>protocol/profiling/mapper.py\<close> with the validation their constructors run.
  The three registration fields that every request to a Worker repeats are one \<open>registration_tokens\<close>.
  A handler builds a response with its constructor, so a response that its constructor refuses is an
  exception of the handler.
\<close>

definition check_tokens :: "registration_tokens \<Rightarrow> string \<Rightarrow> unit res" where
  "check_tokens t sid = checks [
     non_empty ''worker_id'' (rgt_worker_id t), non_empty ''instance_id'' (rgt_instance_id t),
     non_empty ''registration_session_id'' (rgt_registration_session_id t), non_empty ''profiling_session_id'' sid]"

definition built :: "('a \<Rightarrow> unit res) \<Rightarrow> 'a \<Rightarrow> 'a res" where
  "built check x = then_res (check x) (Inr x)"

lemma built_Inr [simp, res_simps]: "built check x = Inr y \<longleftrightarrow> check x = Inr () \<and> y = x"
  by (auto simp: built_def)


subsection \<open>PrepareProfilingSession\<close>

record prepare_request =
  prq_tokens :: registration_tokens
  prq_session_id :: string
  prq_session_request :: session_request
  prq_network_facts :: "worker_network_facts list"

definition check_prepare_request :: "prepare_request \<Rightarrow> unit res" where
  "check_prepare_request r = checks [
     check_tokens (prq_tokens r) (prq_session_id r),
     raise_if (psr_kind (prq_session_request r) = NETWORK_SESSION \<and> prq_network_facts r = [])
       (ValueError ''network sessions require Master-resolved network facts''),
     raise_if (psr_kind (prq_session_request r) \<noteq> NETWORK_SESSION \<and> prq_network_facts r \<noteq> [])
       (ValueError ''sessions must not carry network facts'')]"

record prepare_response =
  prr_accepted :: bool
  prr_detail :: string
  prr_reason :: "profiling_rejection option"
  prr_session_facts :: "session_facts option"
  prr_failure :: "profiling_failure option"

definition check_prepare_response :: "prepare_response \<Rightarrow> unit res" where
  "check_prepare_response r =
     (if \<not> prr_accepted r then checks [
        raise_if (prr_detail r = []) (ValueError ''a rejected prepare must carry a detail''),
        raise_if ((prr_reason r = None) = (prr_failure r = None))
          (ValueError ''a rejected prepare must carry exactly one of reason or failure''),
        raise_if (prr_session_facts r \<noteq> None) (ValueError ''a rejected prepare must not carry session facts'')]
      else checks [
        raise_if (prr_reason r \<noteq> None) (ValueError ''an accepted prepare must not carry a rejection reason''),
        raise_if (prr_failure r \<noteq> None) (ValueError ''an accepted prepare must not carry a failure'')])"


subsection \<open>RunProfilingCase\<close>

record run_request =
  rrq_tokens :: registration_tokens
  rrq_session_id :: string
  rrq_case :: profiling_case
  rrq_iperf_server_port :: "int option"

definition check_run_request :: "run_request \<Rightarrow> unit res" where
  "check_run_request r = checks [
     check_tokens (rrq_tokens r) (rrq_session_id r),
     raise_if (pcs_worker_id (rrq_case r) \<noteq> rgt_worker_id (rrq_tokens r)) (ValueError ''case/envelope worker_id mismatch''),
     present_check (\<lambda>p. raise_if (\<not> (1 \<le> p \<and> p \<le> 65535)) (ValueError ''iperf_server_port must be within [1, 65535]''))
       (rrq_iperf_server_port r)]"

record run_response =
  rrr_accepted :: bool
  rrr_detail :: string
  rrr_reason :: "profiling_rejection option"
  rrr_outcome :: "case_outcome option"

definition check_run_response :: "run_response \<Rightarrow> unit res" where
  "check_run_response r =
     (if \<not> rrr_accepted r then checks [
        raise_if (rrr_detail r = []) (ValueError ''a rejected run must carry a detail''),
        raise_if (rrr_reason r = None) (ValueError ''a rejected run must carry a reason''),
        raise_if (rrr_outcome r \<noteq> None) (ValueError ''a rejected run must not carry an outcome'')]
      else checks [
        raise_if (rrr_reason r \<noteq> None) (ValueError ''an accepted run must not carry a rejection reason''),
        raise_if (rrr_outcome r = None) (ValueError ''an accepted run must carry an outcome'')])"


subsection \<open>GetProfilingCase and CancelProfilingCase\<close>

text \<open>The two requests have the same fields and the same validation.\<close>

record case_request =
  crq_tokens :: registration_tokens
  crq_session_id :: string
  crq_case_id :: string

definition check_case_request :: "case_request \<Rightarrow> unit res" where
  "check_case_request r = checks [check_tokens (crq_tokens r) (crq_session_id r), non_empty ''case_id'' (crq_case_id r)]"

record get_response =
  grr_accepted :: bool
  grr_detail :: string
  grr_reason :: "profiling_rejection option"
  grr_case_state :: "case_state option"
  grr_outcome :: "case_outcome option"

definition check_get_response :: "get_response \<Rightarrow> unit res" where
  "check_get_response r =
     (if \<not> grr_accepted r then checks [
        raise_if (grr_detail r = []) (ValueError ''a rejected case query must carry a detail''),
        raise_if (grr_reason r = None) (ValueError ''a rejected case query must carry a reason''),
        raise_if (grr_case_state r \<noteq> None \<or> grr_outcome r \<noteq> None) (ValueError ''a rejected case query must not carry case data'')]
      else checks [
        raise_if (grr_reason r \<noteq> None) (ValueError ''an accepted case query must not carry a rejection reason''),
        (case grr_case_state r of
           None \<Rightarrow> Inl (ValueError ''an accepted case query must carry a case state'')
         | Some s \<Rightarrow>
             if terminal_state s then raise_if (grr_outcome r = None) (ValueError ''the case must carry its outcome'')
             else raise_if (grr_outcome r \<noteq> None) (ValueError ''the case must not carry an outcome yet''))])"

record cancel_response =
  cnr_accepted :: bool
  cnr_detail :: string
  cnr_reason :: "profiling_rejection option"
  cnr_case_state :: "case_state option"

definition check_cancel_response :: "cancel_response \<Rightarrow> unit res" where
  "check_cancel_response r =
     (if \<not> cnr_accepted r then checks [
        raise_if (cnr_detail r = []) (ValueError ''a rejected cancellation must carry a detail''),
        raise_if (cnr_reason r = None) (ValueError ''a rejected cancellation must carry a reason''),
        raise_if (cnr_case_state r \<noteq> None) (ValueError ''a rejected cancellation must not carry a case state'')]
      else checks [
        raise_if (cnr_reason r \<noteq> None) (ValueError ''an accepted cancellation must not carry a rejection reason''),
        raise_if (cnr_case_state r = None) (ValueError ''an accepted cancellation must carry the case state'')])"


subsection \<open>CloseProfilingSession and the temporary iperf3 servers\<close>

record close_request =
  clq_tokens :: registration_tokens
  clq_session_id :: string

definition check_close_request :: "close_request \<Rightarrow> unit res" where
  "check_close_request r = check_tokens (clq_tokens r) (clq_session_id r)"

record close_response =
  clr_accepted :: bool
  clr_detail :: string
  clr_reason :: "profiling_rejection option"

definition check_close_response :: "close_response \<Rightarrow> unit res" where
  "check_close_response r =
     (if \<not> clr_accepted r then checks [
        raise_if (clr_detail r = []) (ValueError ''a rejected close must carry a detail''),
        raise_if (clr_reason r = None) (ValueError ''a rejected close must carry a reason'')]
      else raise_if (clr_reason r \<noteq> None) (ValueError ''an accepted close must not carry a rejection reason''))"

record iperf_request =
  ipq_tokens :: registration_tokens
  ipq_server_id :: string
  ipq_port :: "int option"
  ipq_timeout_s :: pyfloat
  ipq_bind_address :: "string option"

definition check_server_tokens :: "registration_tokens \<Rightarrow> string \<Rightarrow> unit res" where
  "check_server_tokens t server = checks [
     raise_if (rgt_worker_id t = [] \<or> rgt_instance_id t = [] \<or> rgt_registration_session_id t = [])
       (ValueError ''iperf server request requires registration tokens''),
     non_empty ''server_id'' server]"

definition check_iperf_request :: "iperf_request \<Rightarrow> unit res" where
  "check_iperf_request r = checks [
     check_server_tokens (ipq_tokens r) (ipq_server_id r),
     present_check (\<lambda>p. raise_if (\<not> (1 \<le> p \<and> p \<le> 65535)) (ValueError ''port must be within [1, 65535]'')) (ipq_port r),
     raise_if (float_le (ipq_timeout_s r) (Fin 0)) (ValueError ''timeout_s must be positive''),
     absent_or non_empty ''bind_address'' (ipq_bind_address r)]"

record iperf_response =
  ipr_accepted :: bool
  ipr_detail :: string
  ipr_reason :: "profiling_rejection option"
  ipr_port :: "int option"

definition check_iperf_response :: "iperf_response \<Rightarrow> unit res" where
  "check_iperf_response r =
     (if ipr_accepted r
      then raise_if (ipr_reason r \<noteq> None \<or> ipr_port r = None) (ValueError ''accepted iperf prepare requires a port and no reason'')
      else raise_if (ipr_detail r = [] \<or> ipr_reason r = None \<or> ipr_port r \<noteq> None) (ValueError ''rejected iperf prepare requires detail/reason only''))"

record iperf_stop_request =
  isq_tokens :: registration_tokens
  isq_server_id :: string

definition check_iperf_stop_request :: "iperf_stop_request \<Rightarrow> unit res" where
  "check_iperf_stop_request r = check_server_tokens (isq_tokens r) (isq_server_id r)"

record iperf_stop_response =
  isr_accepted :: bool
  isr_detail :: string
  isr_reason :: "profiling_rejection option"

definition check_iperf_stop_response :: "iperf_stop_response \<Rightarrow> unit res" where
  "check_iperf_stop_response r = checks [
     raise_if (isr_accepted r \<and> isr_reason r \<noteq> None) (ValueError ''accepted iperf stop must not carry a reason''),
     raise_if (\<not> isr_accepted r \<and> (isr_detail r = [] \<or> isr_reason r = None)) (ValueError ''rejected iperf stop requires detail and reason'')]"


subsection \<open>Refusals\<close>

text \<open>The detail of a refusal names the session and the reason; it is never empty.\<close>

fun refusal_detail :: "profiling_rejection \<Rightarrow> string" where
  "refusal_detail UNKNOWN_SESSION = ''unknown profiling session; prepare it first''"
| "refusal_detail STALE_REGISTRATION = ''stale registration''"
| "refusal_detail SESSION_CLOSED = ''profiling session is closed''"
| "refusal_detail SESSION_KIND_MISMATCH = ''session kind mismatch''"
| "refusal_detail BUSY = ''device busy''"
| "refusal_detail UNKNOWN_CASE = ''session never dispatched case''"

lemma refusal_detail_nonempty [simp]: "refusal_detail r \<noteq> []"
  by (cases r) simp_all

definition prepare_refused :: "profiling_rejection \<Rightarrow> prepare_response res" where
  "prepare_refused reason = built check_prepare_response
     \<lparr>prr_accepted = False, prr_detail = refusal_detail reason, prr_reason = Some reason, prr_session_facts = None, prr_failure = None\<rparr>"

definition prepare_accepted :: "session_facts option \<Rightarrow> prepare_response res" where
  "prepare_accepted facts = built check_prepare_response
     \<lparr>prr_accepted = True, prr_detail = [], prr_reason = None, prr_session_facts = facts, prr_failure = None\<rparr>"

definition run_refused :: "profiling_rejection \<Rightarrow> run_response res" where
  "run_refused reason = built check_run_response
     \<lparr>rrr_accepted = False, rrr_detail = refusal_detail reason, rrr_reason = Some reason, rrr_outcome = None\<rparr>"

definition run_accepted :: "case_outcome \<Rightarrow> run_response res" where
  "run_accepted outcome = built check_run_response \<lparr>rrr_accepted = True, rrr_detail = [], rrr_reason = None, rrr_outcome = Some outcome\<rparr>"

definition get_refused :: "profiling_rejection \<Rightarrow> get_response res" where
  "get_refused reason = built check_get_response
     \<lparr>grr_accepted = False, grr_detail = refusal_detail reason, grr_reason = Some reason, grr_case_state = None, grr_outcome = None\<rparr>"

definition cancel_refused :: "profiling_rejection \<Rightarrow> cancel_response res" where
  "cancel_refused reason = built check_cancel_response
     \<lparr>cnr_accepted = False, cnr_detail = refusal_detail reason, cnr_reason = Some reason, cnr_case_state = None\<rparr>"

definition close_refused :: "profiling_rejection \<Rightarrow> close_response res" where
  "close_refused reason = built check_close_response \<lparr>clr_accepted = False, clr_detail = refusal_detail reason, clr_reason = Some reason\<rparr>"

definition iperf_refused :: "profiling_rejection \<Rightarrow> iperf_response res" where
  "iperf_refused reason = built check_iperf_response
     \<lparr>ipr_accepted = False, ipr_detail = refusal_detail reason, ipr_reason = Some reason, ipr_port = None\<rparr>"

definition iperf_accepted :: "int \<Rightarrow> iperf_response res" where
  "iperf_accepted port = built check_iperf_response \<lparr>ipr_accepted = True, ipr_detail = [], ipr_reason = None, ipr_port = Some port\<rparr>"

text \<open>None of these constructors raises.\<close>

lemma refusals_built [simp]:
  "prepare_refused r = Inr \<lparr>prr_accepted = False, prr_detail = refusal_detail r, prr_reason = Some r, prr_session_facts = None, prr_failure = None\<rparr>"
  "run_refused r = Inr \<lparr>rrr_accepted = False, rrr_detail = refusal_detail r, rrr_reason = Some r, rrr_outcome = None\<rparr>"
  "get_refused r = Inr \<lparr>grr_accepted = False, grr_detail = refusal_detail r, grr_reason = Some r, grr_case_state = None, grr_outcome = None\<rparr>"
  "cancel_refused r = Inr \<lparr>cnr_accepted = False, cnr_detail = refusal_detail r, cnr_reason = Some r, cnr_case_state = None\<rparr>"
  "close_refused r = Inr \<lparr>clr_accepted = False, clr_detail = refusal_detail r, clr_reason = Some r\<rparr>"
  "iperf_refused r = Inr \<lparr>ipr_accepted = False, ipr_detail = refusal_detail r, ipr_reason = Some r, ipr_port = None\<rparr>"
  by (simp_all add: prepare_refused_def run_refused_def get_refused_def cancel_refused_def close_refused_def iperf_refused_def built_def
      check_prepare_response_def check_run_response_def check_get_response_def check_cancel_response_def check_close_response_def
      check_iperf_response_def)

lemma accepted_built [simp]:
  "prepare_accepted f = Inr \<lparr>prr_accepted = True, prr_detail = [], prr_reason = None, prr_session_facts = f, prr_failure = None\<rparr>"
  "run_accepted c = Inr \<lparr>rrr_accepted = True, rrr_detail = [], rrr_reason = None, rrr_outcome = Some c\<rparr>"
  "iperf_accepted p = Inr \<lparr>ipr_accepted = True, ipr_detail = [], ipr_reason = None, ipr_port = Some p\<rparr>"
  by (simp_all add: prepare_accepted_def run_accepted_def iperf_accepted_def built_def check_prepare_response_def check_run_response_def
      check_iperf_response_def)

end
