(* ===== verification/Leases.thy ===== *)
theory Leases
  imports Cluster "HOL-Library.AList"
begin

section \<open>Device leases of the profiling Worker\<close>

text \<open>
  \<^verbatim>\<open>control/worker/profiling_leases.py\<close>: the table of leased devices, the checks a device has to pass, reservation
  with its rollback, and the release operations. The table is a dict: an association list in
  insertion order. Logging is left out. The runner calls the manager from one coroutine only, so
  operations do not interleave.
\<close>

record device_lease =
  dl_session_id :: string
  dl_device_id :: string

record lease_manager =
  lm_utilization_floor :: rat
  lm_min_available_bytes :: "int option"
  lm_memory_pool_resolver :: "(string \<Rightarrow> string list) option"
  lm_leased_by :: "(string \<times> string) list"

definition DEFAULT_UTILIZATION_FLOOR :: rat where
  "DEFAULT_UTILIZATION_FLOOR = 5"

definition make_lease_manager :: "rat \<Rightarrow> int option \<Rightarrow> (string \<Rightarrow> string list) option \<Rightarrow> lease_manager res" where
  "make_lease_manager floor_pct min_bytes resolver =
     then_res (raise_if (\<not> (0 \<le> floor_pct \<and> floor_pct \<le> 100)) (ValueError ''utilization_floor must be within [0, 100]''))
     (then_res (raise_if (negative min_bytes) (ValueError ''min_available_bytes must not be negative''))
     (then_res (raise_if (min_bytes \<noteq> None \<and> resolver = None) (ValueError ''a memory floor requires a memory_pool_resolver''))
     (Inr \<lparr>lm_utilization_floor = floor_pct, lm_min_available_bytes = min_bytes, lm_memory_pool_resolver = resolver, lm_leased_by = []\<rparr>)))"

definition leased_device_ids :: "lease_manager \<Rightarrow> string list" where
  "leased_device_ids lm = map fst (lm_leased_by lm)"

definition lease_on :: "string \<Rightarrow> string \<Rightarrow> device_lease" where
  "lease_on sid d = \<lparr>dl_session_id = sid, dl_device_id = d\<rparr>"

definition leases_for_session :: "string \<Rightarrow> lease_manager \<Rightarrow> device_lease list" where
  "leases_for_session sid lm = map (lease_on sid \<circ> fst) (filter (\<lambda>(d, holder). holder = sid) (lm_leased_by lm))"

definition check_memory :: "string \<Rightarrow> worker_state \<Rightarrow> lease_manager \<Rightarrow> unit res" where
  "check_memory d state lm =
     (case (lm_min_available_bytes lm, lm_memory_pool_resolver lm) of
        (Some floor_bytes, Some resolver) \<Rightarrow>
          (let available_by_pool = dict_of (map (\<lambda>p. (mps_memory_pool_id p, mps_available_bytes p)) (ws_memory_states state)) in
           for_res (\<lambda>pool. raise_if (case available_by_pool pool of Some (Some n) \<Rightarrow> n < floor_bytes | _ \<Rightarrow> False)
                      (DeviceBusyError ''memory pool below the floor'')) (resolver d))
      | _ \<Rightarrow> Inr ())"

definition check_device :: "string \<Rightarrow> string \<Rightarrow> device_state option \<Rightarrow> worker_state \<Rightarrow> lease_manager \<Rightarrow> unit res" where
  "check_device sid d device state lm =
     (case device of
        None \<Rightarrow> Inl (DeviceBusyError ''device is not reported by this Worker'')
      | Some dev \<Rightarrow>
          then_res (raise_if (case map_of (lm_leased_by lm) d of None \<Rightarrow> False | Some holder \<Rightarrow> holder \<noteq> sid)
                      (DeviceBusyError ''device is already leased by profiling session''))
          (then_res (raise_if (dv_availability dev \<noteq> AVAILABLE) (DeviceBusyError ''device availability''))
          (then_res (raise_if (dv_running_runtime_ids dev \<noteq> []) (DeviceBusyError ''device is serving running runtime(s)''))
          (then_res (raise_if (case dv_utilization dev of None \<Rightarrow> False | Some u \<Rightarrow> u > lm_utilization_floor lm)
                      (DeviceBusyError ''device utilization exceeds the reservation floor''))
          (check_memory d state lm)))))"

text \<open>The loop of \<^verbatim>\<open>acquire\<close>: the devices marked so far and the exception that ended it, if any.\<close>

fun mark_devices :: "string \<Rightarrow> worker_state \<Rightarrow> (string \<rightharpoonup> device_state) \<Rightarrow> string list \<Rightarrow> string list \<Rightarrow> lease_manager
    \<Rightarrow> lease_manager \<times> string list \<times> unit res" where
  "mark_devices sid state states acquired [] lm = (lm, acquired, Inr ())"
| "mark_devices sid state states acquired (d # ds) lm =
     (case check_device sid d (states d) state lm of
        Inl e \<Rightarrow> (lm, acquired, Inl e)
      | Inr _ \<Rightarrow> mark_devices sid state states (acquired @ [d]) ds
                  (lm\<lparr>lm_leased_by := AList.update d sid (lm_leased_by lm)\<rparr>))"

fun roll_back :: "string list \<Rightarrow> lease_manager \<Rightarrow> lease_manager" where
  "roll_back [] lm = lm"
| "roll_back (d # ds) lm = roll_back ds (lm\<lparr>lm_leased_by := AList.delete d (lm_leased_by lm)\<rparr>)"

definition acquire :: "string \<Rightarrow> string list \<Rightarrow> worker_state \<Rightarrow> lease_manager \<Rightarrow> lease_manager \<times> device_lease list res" where
  "acquire sid ids state lm =
     (if sid = [] then (lm, Inl (ValueError ''session_id must not be empty''))
      else let requested = dict_fromkeys ids in
      if requested = [] then (lm, Inl (ValueError ''a device lease requires at least one device_id''))
      else let states = dict_of (map (\<lambda>d. (dv_device_id d, d)) (ws_device_states state)) in
      case mark_devices sid state states [] requested lm of
        (lm', acquired, Inl e) \<Rightarrow> (roll_back acquired lm', Inl e)
      | (lm', acquired, Inr _) \<Rightarrow> (lm', Inr (map (lease_on sid) acquired)))"

fun delete_devices :: "string list \<Rightarrow> (string \<times> string) list \<Rightarrow> (string \<times> string) list" where
  "delete_devices [] t = t"
| "delete_devices (d # ds) t = delete_devices ds (AList.delete d t)"

definition release_session :: "string \<Rightarrow> lease_manager \<Rightarrow> lease_manager \<times> string list" where
  "release_session sid lm =
     (let released = map fst (filter (\<lambda>(d, holder). holder = sid) (lm_leased_by lm))
      in (lm\<lparr>lm_leased_by := delete_devices released (lm_leased_by lm)\<rparr>, released))"

definition release_all :: "lease_manager \<Rightarrow> lease_manager \<times> string list" where
  "release_all lm = (lm\<lparr>lm_leased_by := []\<rparr>, leased_device_ids lm)"


subsection \<open>The lease table\<close>

text \<open>A device has at most one holder: the keys of the table are distinct.\<close>

definition leases_ok :: "lease_manager \<Rightarrow> bool" where
  "leases_ok lm \<longleftrightarrow> distinct (leased_device_ids lm)"

definition holder :: "lease_manager \<Rightarrow> string \<Rightarrow> string option" where
  "holder lm d = map_of (lm_leased_by lm) d"

lemma update_append: "d \<notin> fst ` set t \<Longrightarrow> AList.update d v t = t @ [(d, v)]"
  by (induction t) auto

lemma delete_append [simp]: "AList.delete d (xs @ ys) = AList.delete d xs @ AList.delete d ys"
  by (simp add: AList.delete_eq)

lemma delete_absent [simp]: "d \<notin> fst ` set t \<Longrightarrow> AList.delete d t = t"
  by (induction t) auto

lemma delete_devices_eq: "delete_devices ds t = filter (\<lambda>(d, _). d \<notin> set ds) t"
  by (induction ds arbitrary: t) (auto simp: AList.delete_eq case_prod_unfold intro!: filter_cong)

lemma roll_back_eq: "roll_back ds lm = lm\<lparr>lm_leased_by := delete_devices ds (lm_leased_by lm)\<rparr>"
  by (induction ds arbitrary: lm) auto

lemma release_session_eq:
  assumes "leases_ok lm"
  shows "lm_leased_by (fst (release_session sid lm)) = filter (\<lambda>(d, s). s \<noteq> sid) (lm_leased_by lm)"
proof -
  have "\<lbrakk>(d, s) \<in> set (lm_leased_by lm); (d, s') \<in> set (lm_leased_by lm)\<rbrakk> \<Longrightarrow> s = s'" for d s s'
    using assms by (auto simp: leases_ok_def leased_device_ids_def dest: eq_key_imp_eq_value)
  then show ?thesis
    by (auto simp: release_session_def Let_def delete_devices_eq case_prod_unfold intro!: filter_cong)
qed


subsection \<open>Which devices can be reserved\<close>

definition memory_admits :: "worker_state \<Rightarrow> lease_manager \<Rightarrow> string \<Rightarrow> bool" where
  "memory_admits state lm d \<longleftrightarrow> (case (lm_min_available_bytes lm, lm_memory_pool_resolver lm) of
     (Some n, Some resolver) \<Rightarrow> (\<forall>pool\<in>set (resolver d). \<forall>p\<in>set (ws_memory_states state).
        mps_memory_pool_id p = pool \<longrightarrow> (case mps_available_bytes p of None \<Rightarrow> True | Some b \<Rightarrow> n \<le> b))
   | _ \<Rightarrow> True)"

definition reservable :: "string \<Rightarrow> worker_state \<Rightarrow> lease_manager \<Rightarrow> string \<Rightarrow> bool" where
  "reservable sid state lm d \<longleftrightarrow>
     (\<exists>dev\<in>set (ws_device_states state). dv_device_id dev = d \<and> dv_availability dev = AVAILABLE \<and> dv_running_runtime_ids dev = []
        \<and> (case dv_utilization dev of None \<Rightarrow> True | Some u \<Rightarrow> u \<le> lm_utilization_floor lm))
     \<and> (case holder lm d of None \<Rightarrow> True | Some s \<Rightarrow> s = sid) \<and> memory_admits state lm d"

lemma dict_of_map:
  assumes "distinct (map f xs)"
  shows "dict_of (map (\<lambda>x. (f x, g x)) xs) k = Some v \<longleftrightarrow> (\<exists>x\<in>set xs. f x = k \<and> g x = v)"
proof -
  have "distinct (map fst (rev (map (\<lambda>x. (f x, g x)) xs)))" using assms by (simp add: rev_map o_def distinct_map)
  then show ?thesis by (auto simp: dict_of_def map_of_eq_Some_iff)
qed

lemma dict_of_map_None: "dict_of (map (\<lambda>x. (f x, g x)) xs) k = None \<longleftrightarrow> k \<notin> f ` set xs"
  by (auto simp: dict_of_def map_of_eq_None_iff image_iff)

lemma check_state_distinct:
  assumes "check_worker_state state = Inr ()"
  shows "distinct (map dv_device_id (ws_device_states state))" "distinct (map mps_memory_pool_id (ws_memory_states state))"
  using assms by (auto simp: check_worker_state_def)

abbreviation reported :: "worker_state \<Rightarrow> string \<rightharpoonup> device_state" where
  "reported state \<equiv> dict_of (map (\<lambda>d. (dv_device_id d, d)) (ws_device_states state))"

lemma check_memory_Inr:
  assumes "check_worker_state state = Inr ()"
  shows "check_memory d state lm = Inr () \<longleftrightarrow> memory_admits state lm d"
proof -
  let ?av = "dict_of (map (\<lambda>p. (mps_memory_pool_id p, mps_available_bytes p)) (ws_memory_states state))"
  have av: "?av pool = Some v \<longleftrightarrow> (\<exists>p\<in>set (ws_memory_states state). mps_memory_pool_id p = pool \<and> mps_available_bytes p = v)" for pool v
    by (rule dict_of_map [OF check_state_distinct(2) [OF assms]])
  have "(case ?av pool of Some (Some b) \<Rightarrow> b < n | _ \<Rightarrow> False) \<longleftrightarrow> (\<exists>b. ?av pool = Some (Some b) \<and> b < n)" for pool n
    by (auto split: option.split)
  then show ?thesis
    by (cases "lm_min_available_bytes lm"; cases "lm_memory_pool_resolver lm")
      (fastforce simp: check_memory_def memory_admits_def for_res_raise_if Let_def av split: option.splits)+
qed

lemma check_device_Inr:
  assumes "check_worker_state state = Inr ()"
  shows "check_device sid d (reported state d) state lm = Inr () \<longleftrightarrow> reservable sid state lm d"
proof (cases "reported state d")
  case None
  then have "d \<notin> dv_device_id ` set (ws_device_states state)" by (simp only: dict_of_map_None not_False_eq_True)
  then have "\<not> reservable sid state lm d" by (auto simp: reservable_def)
  then show ?thesis unfolding None by (simp add: check_device_def)
next
  case (Some dev)
  then have dev: "dev \<in> set (ws_device_states state)" "dv_device_id dev = d"
    using dict_of_map [OF check_state_distinct(1) [OF assms], of "\<lambda>x. x"] by auto
  have unique: "dev' \<in> set (ws_device_states state) \<and> dv_device_id dev' = d \<longleftrightarrow> dev' = dev" for dev'
    using dev check_state_distinct(1) [OF assms] by (auto simp: distinct_map dest: inj_onD)
  then have "(\<exists>dev'\<in>set (ws_device_states state). dv_device_id dev' = d \<and> P dev') \<longleftrightarrow> P dev" for P by metis
  then have "reservable sid state lm d \<longleftrightarrow> dv_availability dev = AVAILABLE \<and> dv_running_runtime_ids dev = []
      \<and> (case dv_utilization dev of None \<Rightarrow> True | Some u \<Rightarrow> u \<le> lm_utilization_floor lm)
      \<and> (case holder lm d of None \<Rightarrow> True | Some s \<Rightarrow> s = sid) \<and> memory_admits state lm d"
    unfolding reservable_def by simp
  then show ?thesis
    by (auto simp: Some check_device_def check_memory_Inr [OF assms] holder_def split: option.split)
qed

lemma reservable_other:
  assumes "d \<noteq> d'"
  shows "reservable sid state (lm\<lparr>lm_leased_by := AList.update d sid (lm_leased_by lm)\<rparr>) d' \<longleftrightarrow> reservable sid state lm d'"
  using assms by (simp add: reservable_def memory_admits_def holder_def update_conv' split: option.split)

fun leased_to :: "string \<Rightarrow> string list \<Rightarrow> (string \<times> string) list \<Rightarrow> (string \<times> string) list" where
  "leased_to sid [] t = t"
| "leased_to sid (d # ds) t = leased_to sid ds (AList.update d sid t)"

lemma mark_devices_eq:
  assumes "check_worker_state state = Inr ()" and "distinct ds"
  shows "\<exists>e. mark_devices sid state (reported state) acquired ds lm =
     (let ok = takeWhile (reservable sid state lm) ds in
      (lm\<lparr>lm_leased_by := leased_to sid ok (lm_leased_by lm)\<rparr>, acquired @ ok,
       if list_all (reservable sid state lm) ds then Inr () else Inl e))"
  using assms(2)
proof (induction ds arbitrary: acquired lm)
  case (Cons d ds)
  show ?case
  proof (cases "reservable sid state lm d")
    case True
    let ?lm = "lm\<lparr>lm_leased_by := AList.update d sid (lm_leased_by lm)\<rparr>"
    have same: "d' \<in> set ds \<Longrightarrow> reservable sid state ?lm d' \<longleftrightarrow> reservable sid state lm d'" for d'
      using Cons.prems by (intro reservable_other) auto
    have "takeWhile (reservable sid state ?lm) ds = takeWhile (reservable sid state lm) ds"
      "list_all (reservable sid state ?lm) ds \<longleftrightarrow> list_all (reservable sid state lm) ds"
      using same by (auto intro: takeWhile_cong simp: list_all_iff)
    moreover have "check_device sid d (reported state d) state lm = Inr ()" using True check_device_Inr [OF assms(1)] by blast
    ultimately show ?thesis using Cons.IH [of "acquired @ [d]" ?lm] Cons.prems True by (simp add: Let_def)
  next
    case False
    then obtain e where "check_device sid d (reported state d) state lm = Inl e"
      using check_device_Inr [OF assms(1), of sid d lm] by (cases "check_device sid d (reported state d) state lm") auto
    then show ?thesis using False by auto
  qed
qed (simp add: Let_def)

lemma leased_to_fresh:
  assumes "distinct ds" and "set ds \<inter> fst ` set t = {}"
  shows "leased_to sid ds t = t @ map (\<lambda>d. (d, sid)) ds"
  using assms by (induction ds arbitrary: t) (auto simp: update_append)

lemma map_of_leased_to: "map_of (leased_to sid ds t) d = (if d \<in> set ds then Some sid else map_of t d)"
  by (induction ds arbitrary: t) (auto simp: update_conv')

lemma leased_to_distinct: "distinct (map fst t) \<Longrightarrow> distinct (map fst (leased_to sid ds t))"
  by (induction ds arbitrary: t) (auto simp: distinct_update)


subsection \<open>Reservation and release\<close>

lemma acquire_cases:
  assumes "check_worker_state state = Inr ()" and "sid \<noteq> []" and "ids \<noteq> []"
  shows "list_all (reservable sid state lm) ids \<Longrightarrow> acquire sid ids state lm =
      (lm\<lparr>lm_leased_by := leased_to sid (dict_fromkeys ids) (lm_leased_by lm)\<rparr>, Inr (map (lease_on sid) (dict_fromkeys ids)))"
    and "\<not> list_all (reservable sid state lm) ids \<Longrightarrow> \<exists>e. acquire sid ids state lm =
      (let ok = takeWhile (reservable sid state lm) (dict_fromkeys ids)
       in (lm\<lparr>lm_leased_by := delete_devices ok (leased_to sid ok (lm_leased_by lm))\<rparr>, Inl e))"
proof -
  let ?ok = "takeWhile (reservable sid state lm) (dict_fromkeys ids)"
  obtain e where e: "mark_devices sid state (reported state) [] (dict_fromkeys ids) lm =
     (lm\<lparr>lm_leased_by := leased_to sid ?ok (lm_leased_by lm)\<rparr>, ?ok,
       if list_all (reservable sid state lm) (dict_fromkeys ids) then Inr () else Inl e)"
    using mark_devices_eq [OF assms(1), of "dict_fromkeys ids" sid "[]" lm] by (auto simp: Let_def)
  have all: "list_all (reservable sid state lm) (dict_fromkeys ids) \<longleftrightarrow> list_all (reservable sid state lm) ids"
    by (simp add: list_all_iff)
  { assume "list_all (reservable sid state lm) ids"
    moreover from this have ok: "?ok = dict_fromkeys ids" by (simp only: list_all_iff takeWhile_eq_all_conv dict_fromkeys_props)
    ultimately show "acquire sid ids state lm =
      (lm\<lparr>lm_leased_by := leased_to sid (dict_fromkeys ids) (lm_leased_by lm)\<rparr>, Inr (map (lease_on sid) (dict_fromkeys ids)))"
      using assms e [unfolded ok] by (simp add: acquire_def Let_def all) }
  { assume "\<not> list_all (reservable sid state lm) ids"
    then have "acquire sid ids state lm = (lm\<lparr>lm_leased_by := delete_devices ?ok (leased_to sid ?ok (lm_leased_by lm))\<rparr>, Inl e)"
      using assms e by (simp add: acquire_def Let_def all roll_back_eq)
    then show "\<exists>e. acquire sid ids state lm = (let ok = ?ok in
        (lm\<lparr>lm_leased_by := delete_devices ok (leased_to sid ok (lm_leased_by lm))\<rparr>, Inl e))" by (auto simp: Let_def) }
qed

lemma reserved_by_nobody_else: "reservable sid state lm d \<Longrightarrow> holder lm d = None \<or> holder lm d = Some sid"
  by (auto simp: reservable_def split: option.splits)

lemma rolled_back:
  assumes "distinct ok" and "set ok \<inter> fst ` set t = {}"
  shows "delete_devices ok (leased_to sid ok t) = t"
  using assms by (force simp: leased_to_fresh delete_devices_eq filter_empty_conv intro!: filter_True)

lemma map_of_filter_key: "map_of (filter (\<lambda>(d, _). d \<notin> A) t) d = (if d \<in> A then None else map_of t d)"
  by (induction t) auto

lemma holder_None: "holder lm d = None \<longleftrightarrow> d \<notin> set (leased_device_ids lm)"
  by (auto simp: holder_def leased_device_ids_def map_of_eq_None_iff)

lemma acquire_empty: "sid = [] \<or> ids = [] \<Longrightarrow> \<exists>e. acquire sid ids state lm = (lm, Inl e)"
  by (auto simp: acquire_def)

lemma acquire_keeps_holder:
  assumes "check_worker_state state = Inr ()" "holder lm d = Some s" "sid = s \<Longrightarrow> d \<notin> set ids"
  shows "holder (fst (acquire sid ids state lm)) d = Some s"
proof (cases "sid = [] \<or> ids = []")
  case True
  with acquire_empty [OF True, of state lm] assms(2) show ?thesis by auto
next
  case False
  then have ne: "sid \<noteq> []" "ids \<noteq> []" by auto
  show ?thesis
  proof (cases "list_all (reservable sid state lm) ids")
    case True
    with assms(2,3) have "d \<notin> set ids" using reserved_by_nobody_else by (fastforce simp: list_all_iff)
    with True acquire_cases(1) [OF assms(1) ne True] assms(2) show ?thesis by (simp add: holder_def map_of_leased_to)
  next
    case bad: False
    have "d \<notin> set (takeWhile (reservable sid state lm) (dict_fromkeys ids))"
      using assms(2,3) reserved_by_nobody_else by (fastforce dest: set_takeWhileD)
    with acquire_cases(2) [OF assms(1) ne bad] assms(2) show ?thesis
      by (auto simp: holder_def Let_def map_of_leased_to delete_devices_eq map_of_filter_key)
  qed
qed

text \<open>The operations of the manager as calls, and a run of them.\<close>

datatype lease_call = Acquire string "string list" worker_state | Release_Session string | Release_All

fun lease_step :: "lease_call \<Rightarrow> lease_manager \<Rightarrow> lease_manager" where
  "lease_step (Acquire sid ids state) lm = fst (acquire sid ids state lm)"
| "lease_step (Release_Session sid) lm = fst (release_session sid lm)"
| "lease_step Release_All lm = fst (release_all lm)"

fun lease_run :: "lease_call list \<Rightarrow> lease_manager \<Rightarrow> lease_manager" where
  "lease_run [] lm = lm"
| "lease_run (c # cs) lm = lease_run cs (lease_step c lm)"

fun call_checked :: "lease_call \<Rightarrow> bool" where
  "call_checked (Acquire _ _ state) \<longleftrightarrow> check_worker_state state = Inr ()"
| "call_checked _ \<longleftrightarrow> True"

text \<open>Calls that may end the lease of session \<open>s\<close> on device \<open>d\<close>.\<close>

fun may_end :: "string \<Rightarrow> string \<Rightarrow> lease_call \<Rightarrow> bool" where
  "may_end s d (Acquire sid ids _) \<longleftrightarrow> sid = s \<and> d \<in> set ids"
| "may_end s d (Release_Session sid) \<longleftrightarrow> sid = s"
| "may_end s d Release_All \<longleftrightarrow> True"

lemma distinct_delete_devices: "distinct (map fst t) \<Longrightarrow> distinct (map fst (delete_devices ds t))"
  by (induction ds arbitrary: t) (auto simp: distinct_delete)

lemma leases_ok_acquire:
  assumes "leases_ok lm" "check_worker_state state = Inr ()"
  shows "leases_ok (fst (acquire sid ids state lm))"
proof (cases "sid = [] \<or> ids = []")
  case True
  with acquire_empty [OF True, of state lm] assms(1) show ?thesis by auto
next
  case False
  with acquire_cases [OF assms(2), of sid ids lm] assms(1) show ?thesis
    by (cases "list_all (reservable sid state lm) ids")
      (auto simp: leases_ok_def leased_device_ids_def Let_def leased_to_distinct distinct_delete_devices)
qed

lemma leases_ok_step: "\<lbrakk>leases_ok lm; call_checked c\<rbrakk> \<Longrightarrow> leases_ok (lease_step c lm)"
proof (cases c)
  case (Acquire sid ids state)
  then show "\<lbrakk>leases_ok lm; call_checked c\<rbrakk> \<Longrightarrow> leases_ok (lease_step c lm)" by (simp add: leases_ok_acquire)
qed (auto simp: release_session_def release_all_def leases_ok_def leased_device_ids_def Let_def distinct_delete_devices)

lemma lease_step_holder:
  assumes "leases_ok lm" "call_checked c" "holder lm d = Some s" "\<not> may_end s d c"
  shows "holder (lease_step c lm) d = Some s"
proof (cases c)
  case (Acquire sid ids state)
  with assms acquire_keeps_holder [of state lm d s sid ids] show ?thesis by auto
next
  case (Release_Session sid)
  have "map_of (filter (\<lambda>(d, s). s \<noteq> sid) t) d = Some s" if "map_of t d = Some s" "sid \<noteq> s" for t :: "(string \<times> string) list"
    using that by (induction t) (auto split: if_splits)
  with assms Release_Session show ?thesis by (auto simp: holder_def release_session_eq)
qed (use assms in auto)

lemma lease_run_holder:
  assumes "leases_ok lm" "list_all call_checked cs" "holder lm d = Some s" "\<not> list_ex (may_end s d) cs"
  shows "holder (lease_run cs lm) d = Some s"
  using assms by (induction cs arbitrary: lm) (auto simp: leases_ok_step lease_step_holder)


lemma acquire_spec:
  assumes "check_worker_state state = Inr ()" and "\<forall>d\<in>set ids. holder lm d \<noteq> Some sid"
  shows "if sid \<noteq> [] \<and> ids \<noteq> [] \<and> list_all (\<lambda>d. reservable sid state lm d \<and> holder lm d = None) ids
    then acquire sid ids state lm =
      (lm\<lparr>lm_leased_by := lm_leased_by lm @ map (\<lambda>d. (d, sid)) (dict_fromkeys ids)\<rparr>, Inr (map (lease_on sid) (dict_fromkeys ids)))
    else \<exists>e. acquire sid ids state lm = (lm, Inl e)"
proof (cases "sid = [] \<or> ids = []")
  case True
  then show ?thesis by (auto simp: acquire_def)
next
  case False
  then have ne: "sid \<noteq> []" "ids \<noteq> []" by auto
  have free: "reservable sid state lm d \<Longrightarrow> d \<in> set ids \<Longrightarrow> holder lm d = None" for d
    using assms(2) reserved_by_nobody_else by blast
  have fresh: "set ok \<inter> fst ` set (lm_leased_by lm) = {}" if "set ok \<subseteq> {d \<in> set ids. reservable sid state lm d}" for ok
    using that free holder_None [of lm] by (auto simp: leased_device_ids_def)
  show ?thesis
  proof (cases "list_all (reservable sid state lm) ids")
    case True
    then have "leased_to sid (dict_fromkeys ids) (lm_leased_by lm) = lm_leased_by lm @ map (\<lambda>d. (d, sid)) (dict_fromkeys ids)"
      by (intro leased_to_fresh fresh) (auto simp: list_all_iff)
    with acquire_cases(1) [OF assms(1) ne True] True free ne show ?thesis by (auto simp: list_all_iff)
  next
    case bad: False
    let ?ok = "takeWhile (reservable sid state lm) (dict_fromkeys ids)"
    have "delete_devices ?ok (leased_to sid ?ok (lm_leased_by lm)) = lm_leased_by lm"
      by (intro rolled_back fresh) (auto dest: set_takeWhileD)
    moreover have "\<not> list_all (\<lambda>d. reservable sid state lm d \<and> holder lm d = None) ids" using bad by (auto simp: list_all_iff)
    ultimately show ?thesis using acquire_cases(2) [OF assms(1) ne bad] by (auto simp: Let_def)
  qed
qed


subsection \<open>Properties\<close>

definition idle_device :: "string \<Rightarrow> device_availability \<Rightarrow> device_state" where
  "idle_device d a = \<lparr>dv_device_id = d, dv_utilization = Some 1, dv_temperature_c = None, dv_power_w = None, dv_availability = a,
     dv_running_runtime_ids = []\<rparr>"

definition two_gpus :: worker_state where
  "two_gpus = \<lparr>ws_worker_id = ''w'', ws_device_states = [idle_device ''gpu-0'' AVAILABLE, idle_device ''gpu-1'' UNAVAILABLE],
     ws_memory_states = [], ws_runtime_instances = [], ws_models = []\<rparr>"

definition demo_leases :: "(string \<times> string) list \<Rightarrow> lease_manager" where
  "demo_leases t = \<lparr>lm_utilization_floor = 5, lm_min_available_bytes = None, lm_memory_pool_resolver = None, lm_leased_by = t\<rparr>"

lemma two_gpus_checked [simp]: "check_worker_state two_gpus = Inr ()"
  by (simp add: two_gpus_def idle_device_def check_worker_state_def check_device_state_def non_empty_def)

lemma two_gpus_reservable:
  "reservable s two_gpus (demo_leases t) d \<longleftrightarrow> d = ''gpu-0'' \<and> (map_of t ''gpu-0'' = None \<or> map_of t ''gpu-0'' = Some s)"
  by (auto simp: reservable_def two_gpus_def idle_device_def memory_admits_def demo_leases_def holder_def split: option.splits)

text \<open>[C25] Reservation is all-or-nothing and never takes a device from another session: for a session
  that holds none of the requested devices, \<^verbatim>\<open>acquire\<close> succeeds exactly when devices are requested and
  each one is reported, available, without a running runtime, below the utilization and above the
  memory floor, and unleased. Then exactly these devices become leased to the session, in the order
  of the first mention; otherwise it raises and the table is exactly what it was.\<close>

theorem acquire_all_or_nothing:
  assumes "check_worker_state state = Inr ()" and "\<forall>d\<in>set ids. holder lm d \<noteq> Some sid"
  shows "if sid \<noteq> [] \<and> ids \<noteq> [] \<and> list_all (\<lambda>d. reservable sid state lm d \<and> holder lm d = None) ids
    then acquire sid ids state lm =
      (lm\<lparr>lm_leased_by := lm_leased_by lm @ map (\<lambda>d. (d, sid)) (dict_fromkeys ids)\<rparr>, Inr (map (lease_on sid) (dict_fromkeys ids)))
    else \<exists>e. acquire sid ids state lm = (lm, Inl e)"
  using assms by (rule acquire_spec)

theorem acquire_all_or_nothing_witness:
  "acquire ''s'' [''gpu-0'', ''gpu-0''] two_gpus (demo_leases []) = (demo_leases [(''gpu-0'', ''s'')], Inr [lease_on ''s'' ''gpu-0''])
   \<and> (\<exists>e. acquire ''s'' [''gpu-0'', ''gpu-1''] two_gpus (demo_leases []) = (demo_leases [], Inl e))"
  using acquire_all_or_nothing [of two_gpus "[''gpu-0'', ''gpu-0'']" "demo_leases []" "''s''"]
    acquire_all_or_nothing [of two_gpus "[''gpu-0'', ''gpu-1'']" "demo_leases []" "''s''"]
  by (simp add: two_gpus_reservable) (simp add: holder_def demo_leases_def dict_fromkeys_def)

text \<open>A lease lasts until it is given back: over any run of calls of any sessions, a device held by a
  session stays with it as long as the run has no release of that session, no release of everything
  and no further request of that session for that device. The table keeps one holder per device.\<close>

lemma lease_exclusive:
  assumes "leases_ok lm" and "list_all call_checked cs" and "holder lm d = Some s" and "\<not> list_ex (may_end s d) cs"
  shows "leases_ok (lease_run cs lm) \<and> holder (lease_run cs lm) d = Some s"
proof
  show "holder (lease_run cs lm) d = Some s" by (rule lease_run_holder [OF assms])
  show "leases_ok (lease_run cs lm)" using assms(1,2) by (induction cs arbitrary: lm) (auto simp: leases_ok_step)
qed

text \<open>Releasing a session undoes its reservation: when the session held nothing before, the table
  after a successful \<^verbatim>\<open>acquire\<close> and the release is the one before, the released devices are the
  requested ones, and a second release releases nothing.\<close>

lemma release_undoes_acquire:
  assumes "check_worker_state state = Inr ()" and "leases_ok lm" and "\<forall>d. holder lm d \<noteq> Some sid"
    and "acquire sid ids state lm = (lm', Inr leases)"
  shows "release_session sid lm' = (lm, dict_fromkeys ids) \<and> release_session sid lm = (lm, [])"
proof -
  have none: "filter (\<lambda>(d, h). h = sid) (lm_leased_by lm) = []" "filter (\<lambda>(d, s). s \<noteq> sid) (lm_leased_by lm) = lm_leased_by lm"
    using assms(2,3) by (auto simp: filter_empty_conv holder_def leases_ok_def leased_device_ids_def intro!: filter_True)
  have lm': "lm' = lm\<lparr>lm_leased_by := lm_leased_by lm @ map (\<lambda>d. (d, sid)) (dict_fromkeys ids)\<rparr>"
    using acquire_spec [OF assms(1), of ids lm sid] assms(3,4) by (auto split: if_splits)
  have ok: "leases_ok lm'" using leases_ok_acquire [OF assms(2,1), of sid ids] assms(4) by simp
  have "lm_leased_by (fst (release_session sid lm')) = lm_leased_by lm"
    unfolding release_session_eq [OF ok] by (simp add: lm' none filter_empty_conv)
  moreover have "snd (release_session sid lm') = dict_fromkeys ids"
    by (simp add: release_session_def Let_def lm' none filter_map o_def)
  moreover have "fst (release_session sid lm') = lm\<lparr>lm_leased_by := lm_leased_by (fst (release_session sid lm'))\<rparr>"
    by (simp add: release_session_def Let_def lm')
  ultimately have "release_session sid lm' = (lm, dict_fromkeys ids)" by (simp add: prod_eq_iff)
  moreover have "release_session sid lm = (lm, [])" by (simp add: release_session_def none Let_def)
  ultimately show ?thesis ..
qed

lemma release_undoes_acquire_witness:
  "release_session ''s'' (demo_leases [(''gpu-1'', ''t''), (''gpu-0'', ''s'')]) = (demo_leases [(''gpu-1'', ''t'')], [''gpu-0''])"
proof -
  have "acquire ''s'' [''gpu-0''] two_gpus (demo_leases [(''gpu-1'', ''t'')])
      = (demo_leases [(''gpu-1'', ''t''), (''gpu-0'', ''s'')], Inr [lease_on ''s'' ''gpu-0''])"
    using acquire_cases(1) [OF two_gpus_checked, of "''s''" "[''gpu-0'']" "demo_leases [(''gpu-1'', ''t'')]"]
    by (simp add: two_gpus_reservable) (simp add: demo_leases_def dict_fromkeys_def)
  from release_undoes_acquire [OF two_gpus_checked _ _ this] show ?thesis
    by (simp add: leases_ok_def leased_device_ids_def holder_def demo_leases_def dict_fromkeys_def)
qed

lemma set_takeWhile_fromkeys: "set (takeWhile P (dict_fromkeys xs)) = set (takeWhile P xs)"
proof (induction xs rule: rev_induct)
  case (snoc x xs)
  show ?case
  proof (cases "x \<in> set xs")
    case True
    then have "dict_fromkeys (xs @ [x]) = dict_fromkeys xs" by (simp add: dict_fromkeys_def)
    with snoc True show ?thesis by (auto simp: takeWhile_append takeWhile_eq_all_conv [THEN iffD2])
  next
    case False
    then have "dict_fromkeys (xs @ [x]) = dict_fromkeys xs @ [x]" by (simp add: dict_fromkeys_def)
    with snoc show ?thesis by (auto simp: takeWhile_append)
  qed
qed (simp add: dict_fromkeys_def)

text \<open>The rollback goes too far when a session asks again for devices it already holds. A request with a
  device that cannot be reserved raises, and it takes away exactly the leases on the requested devices listed
  before the first such device: the ones just marked and the ones the session held before the call alike,
  although the call is documented to leave nothing changed. Every other lease stays, also those the session holds
  on devices listed later.\<close>

lemma failed_reacquire_drops_lease:
  assumes "check_worker_state state = Inr ()" and "sid \<noteq> []" and "\<not> list_all (reservable sid state lm) ids"
  shows "\<exists>e lm'. acquire sid ids state lm = (lm', Inl e)
    \<and> (\<forall>d. holder lm' d = (if d \<in> set (takeWhile (reservable sid state lm) ids) then None else holder lm d))"
proof -
  have "ids \<noteq> []" using assms(3) by auto
  from acquire_cases(2) [OF assms(1,2) this assms(3)] show ?thesis
    by (auto simp: Let_def holder_def delete_devices_eq map_of_filter_key map_of_leased_to set_takeWhile_fromkeys)
qed

lemma demo_reacquire_drops_lease:
  "(\<exists>e lm'. acquire ''s'' [''gpu-0'', ''gpu-1''] two_gpus (demo_leases [(''gpu-0'', ''s'')]) = (lm', Inl e) \<and> holder lm' ''gpu-0'' = None)
   \<and> (\<exists>e lm'. acquire ''s'' [''gpu-1'', ''gpu-0''] two_gpus (demo_leases [(''gpu-0'', ''s'')]) = (lm', Inl e) \<and> holder lm' ''gpu-0'' = Some ''s'')"
proof -
  have held: "holder (demo_leases [(''gpu-0'', ''s'')]) ''gpu-0'' = Some ''s''" by (simp add: holder_def demo_leases_def)
  show ?thesis
    using failed_reacquire_drops_lease [OF two_gpus_checked, of "''s''" "demo_leases [(''gpu-0'', ''s'')]" "[''gpu-0'', ''gpu-1'']"]
      failed_reacquire_drops_lease [OF two_gpus_checked, of "''s''" "demo_leases [(''gpu-0'', ''s'')]" "[''gpu-1'', ''gpu-0'']"]
    by (auto simp: two_gpus_reservable held)
qed

end
