(* ===== verification/Profiling_Runner.thy ===== *)
theory Profiling_Runner
  imports Runner_Environment Profiling_Messages Leases Worker_Agent Runtime_Config
begin

section \<open>The Worker's profiling runner\<close>

text \<open>
  \<^verbatim>\<open>control/worker/profiling_runner.py\<close>, the class \<^verbatim>\<open>WorkerProfilingRunner\<close>: the handlers of the profiling calls
  over the lease table and the session manager. The handlers are coroutines of one event loop, so a
  handler runs undisturbed up to its next \<^verbatim>\<open>await\<close> and other handlers run while it waits. Each handler is
  therefore cut at its awaits: \<open>prepare_begin\<close> up to the inspection, \<open>prepare_inspected\<close> up to the
  preparation by the executor, \<open>prepare_loaded\<close> to the end; \<open>run_begin\<close> up to the measurement and
  \<open>run_resumed\<close> after it; \<open>close_begin\<close> and \<open>close_end\<close> around the cleanup; \<open>iperf_begin\<close> and \<open>iperf_end\<close>
  around the start of a server. What a handler keeps over an await is part of the runner's state, and
  what the awaited work gives is an argument of the next piece: any result of the inspector, of the
  executor and of the network profiler is covered. The cancellation of a call by its client ends a
  waiting handler (\<open>prepare_cancelled\<close>, \<open>run_cancelled\<close>, \<open>close_aborted\<close>).

  A piece returns the state it leaves and, unless it waits, the answer or the exception of the call.
  The lock that serializes preparations is the field \<open>rn_preparing\<close>: a preparation begins only when no
  other is under way. Logging and the two instruments that only sample while a measurement runs are
  left out. \<^verbatim>\<open>_execute_operator\<close> and \<^verbatim>\<open>_execute_model\<close> have no caller.
\<close>

subsection \<open>Errors of the profiling work\<close>

datatype work_exn = Profiling_Error profiling_failure | Unexpected string

definition profiling_error :: "error_category \<Rightarrow> string \<Rightarrow> (string \<times> json_scalar) list \<Rightarrow> work_exn" where
  "profiling_error category message details =
     Profiling_Error \<lparr>pfl_category = category, pfl_message = message, pfl_details = sort_key fst details\<rparr>"

text \<open>\<^verbatim>\<open>str(exc)\<close>, and the failure recorded for an exception: an error of the profiling code keeps its
  category, any other becomes an internal error.\<close>

fun work_text :: "work_exn \<Rightarrow> string" where
  "work_text (Profiling_Error f) = pfl_message f"
| "work_text (Unexpected message) = message"

fun failure_of :: "string \<Rightarrow> work_exn \<Rightarrow> profiling_failure" where
  "failure_of what (Profiling_Error f) = f"
| "failure_of what (Unexpected message) = \<lparr>pfl_category = INTERNAL_ERROR, pfl_message = what @ message, pfl_details = []\<rparr>"

fun exn_text :: "exn \<Rightarrow> string" where
  "exn_text (ValueError s) = s"
| "exn_text (KeyError s) = s"
| "exn_text (IndexError s) = s"
| "exn_text (RuntimeError s) = s"
| "exn_text (SessionError s) = s"
| "exn_text (PipelineError s) = s"
| "exn_text (ProtocolError s) = s"
| "exn_text (SequencingError s) = s"
| "exn_text (ModelSourceError s) = s"
| "exn_text (UnsupportedArchitectureError s) = s"
| "exn_text (WeightError s) = s"
| "exn_text (MissingWeightsError s) = s"
| "exn_text (ModelStoreError s) = s"
| "exn_text (ManifestError s) = s"
| "exn_text (DriverError s) = s"
| "exn_text (ControlProtocolError s) = s"
| "exn_text (DeviceBusyError s) = s"
| "exn_text (SessionRefused s) = s"
| "exn_text (AioRpcError s) = s"
| "exn_text (OSError s) = s"
| "exn_text (AssertionError s) = s"
| "exn_text (MockMasterError s) = s"
| "exn_text (ProfileStoreError s) = s"

definition unexpected :: "'a res \<Rightarrow> work_exn + 'a" where
  "unexpected r = (case r of Inl e \<Rightarrow> Inl (Unexpected (exn_text e)) | Inr x \<Rightarrow> Inr x)"

text \<open>An outcome of the session manager that a handler lets escape.\<close>

fun escape :: "session_exn \<Rightarrow> exn" where
  "escape (Refused r) = SessionRefused (refusal_detail r)"
| "escape (Raising e) = e"


subsection \<open>Model sources (\<^verbatim>\<open>profiling_model_loader.py\<close>)\<close>

record model_source =
  mso_path :: string
  mso_model_id :: "string option"
  mso_revision :: "string option"

definition ready_candidates :: "string \<Rightarrow> string option \<Rightarrow> model_inventory_entry list \<Rightarrow> model_inventory_entry list" where
  "ready_candidates model_id revision models =
     (let specific_revision = (revision \<noteq> None \<and> revision \<noteq> Some [] \<and> revision \<noteq> Some ''local'')
      in filter (\<lambda>entry. me_model_id entry = Some model_id \<and> me_status entry = READY
           \<and> (\<not> specific_revision \<or> me_revision entry = revision)) models)"

definition resolve_model_source :: "string \<Rightarrow> string \<Rightarrow> string option \<Rightarrow> model_inventory_entry list \<Rightarrow> work_exn + model_source" where
  "resolve_model_source model_root model_id revision models =
     (case ready_candidates model_id revision models of
        [] \<Rightarrow> Inl (profiling_error UNSUPPORTED_MODEL ''model has no READY snapshot in this worker's model store''
          [(''model_id'', SStr model_id), (''revision'', SStr (case revision of None \<Rightarrow> [] | Some r \<Rightarrow> r))])
      | [entry] \<Rightarrow> unexpected (map_res (\<lambda>path. \<lparr>mso_path = path, mso_model_id = me_model_id entry, mso_revision = me_revision entry\<rparr>)
          (host_path model_root (me_local_name entry)))
      | candidates \<Rightarrow> Inl (profiling_error UNSUPPORTED_MODEL ''model resolves to multiple local snapshots''
          [(''model_id'', SStr model_id), (''local_names'', SStr (concat (map (\<lambda>n. n @ '', '') (butlast (sort (map me_local_name candidates))))
             @ last (sort (map me_local_name candidates))))]))"


subsection \<open>State\<close>

text \<open>A preparation waits for the inspection or, with its lease taken, for the executor.\<close>

datatype preparation =
    Inspecting prepare_request registration_tokens
  | Loading prepare_request registration_tokens local_inspection "performance_state option"

fun preparation_session :: "preparation \<Rightarrow> string" where
  "preparation_session (Inspecting req tokens) = prq_session_id req"
| "preparation_session (Loading req tokens inspection ps) = prq_session_id req"

fun holds_lease :: "preparation \<Rightarrow> bool" where
  "holds_lease (Inspecting req tokens) = False"
| "holds_lease (Loading req tokens inspection ps) = True"

record running_case =
  rnc_session_id :: string
  rnc_case :: profiling_case
  rnc_worker_id :: string
  rnc_target_device_id :: string
  rnc_performance_state :: "performance_state option"
  rnc_fingerprint :: environment_fingerprint
  rnc_fingerprint_id :: string

record 'p iperf_server =
  ips_process :: 'p
  ips_port :: int

text \<open>Besides the stores of the code, the state has what waits (\<open>rn_preparing\<close>, \<open>rn_running\<close>, \<open>rn_closing\<close>,
  \<open>rn_starting\<close>) and two records of what happened: the executor sessions a cancelled preparation closed,
  and the measurements that were started.\<close>

record ('o, 'p) runner =
  rn_sessions :: "'o prepared_session session_manager"
  rn_leases :: lease_manager
  rn_preparing :: "preparation option"
  rn_running :: "running_case list"
  rn_closing :: "(string \<times> bool sres) list"
  rn_iperf_servers :: "(string \<times> 'p iperf_server) list"
  rn_starting :: "(iperf_request \<times> int) list"
  rn_discarded :: "'o prepared_session list"
  rn_measured :: "(string \<times> string) list"

record 'o runner_env =
  re_sha :: "string \<Rightarrow> string"
  re_torch :: host_torch
  re_model_root :: string
  re_cleanup :: "'o prepared_session \<Rightarrow> unit res"

definition runner_init :: "lease_manager \<Rightarrow> ('o, 'p) runner" where
  "runner_init leases = \<lparr>rn_sessions = manager_init, rn_leases = leases, rn_preparing = None, rn_running = [], rn_closing = [],
     rn_iperf_servers = [], rn_starting = [], rn_discarded = [], rn_measured = []\<rparr>"

definition release_leases :: "string \<Rightarrow> ('o, 'p) runner \<Rightarrow> ('o, 'p) runner" where
  "release_leases sid rn = rn\<lparr>rn_leases := fst (release_session sid (rn_leases rn))\<rparr>"


subsection \<open>PrepareProfilingSession\<close>

definition prepare_begin :: "registration_tokens option \<Rightarrow> prepare_request \<Rightarrow> ('o, 'p) runner
    \<Rightarrow> ('o, 'p) runner \<times> prepare_response res option" where
  "prepare_begin current req rn =
     (case validate_tokens current (prq_tokens req) of
        Inl (Refused reason) \<Rightarrow> (rn, Some (prepare_refused reason))
      | Inl (Raising e) \<Rightarrow> (rn, Some (Inl e))
      | Inr tokens \<Rightarrow>
          (case peek (prq_session_id req) (rn_sessions rn) of
             Some existing \<Rightarrow>
               (rn, Some (if sre_closed existing then prepare_refused SESSION_CLOSED
                          else if record_kind existing \<noteq> psr_kind (prq_session_request req) then prepare_refused SESSION_KIND_MISMATCH
                          else prepare_accepted (sre_session_facts existing)))
           | None \<Rightarrow> (rn\<lparr>rn_preparing := Some (Inspecting req tokens)\<rparr>, None)))"

text \<open>The failure path: the reservation is released and the failure is answered.\<close>

definition prepare_failed :: "string \<Rightarrow> work_exn \<Rightarrow> ('o, 'p) runner \<Rightarrow> ('o, 'p) runner \<times> prepare_response res option" where
  "prepare_failed sid e rn = ((release_leases sid rn)\<lparr>rn_preparing := None\<rparr>,
     Some (bind_res (built check_profiling_failure (failure_of ''session preparation failed: '' e)) (\<lambda>failure.
       built check_prepare_response \<lparr>prr_accepted = False, prr_detail = work_text e, prr_reason = None, prr_session_facts = None,
         prr_failure = Some failure\<rparr>)))"

definition new_record :: "prepare_request \<Rightarrow> local_inspection \<Rightarrow> performance_state option \<Rightarrow> (string \<times> worker_network_facts) list
    \<Rightarrow> 'o prepared_session option \<Rightarrow> timestamp \<Rightarrow> 'o prepared_session session_record" where
  "new_record req inspection ps facts prepared now = \<lparr>sre_session_id = prq_session_id req, sre_request = prq_session_request req, sre_prepared_at = now,
     sre_capability_revision = (let rev' = wc_capability_revision (li_capability inspection) in if rev' = [] then None else Some rev'),
     sre_capability = Some (li_capability inspection), sre_worker_state = Some (li_state inspection), sre_performance_state = ps,
     sre_session_facts = Option.bind prepared pss_facts, sre_network_facts = facts, sre_model_handle = prepared, sre_model_cleanup = prepared,
     sre_cases = [], sre_closed = False\<rparr>"

definition prepare_finish :: "'o runner_env \<Rightarrow> prepare_request \<Rightarrow> registration_tokens \<Rightarrow> local_inspection \<Rightarrow> performance_state option
    \<Rightarrow> (string \<times> worker_network_facts) list \<Rightarrow> 'o prepared_session option \<Rightarrow> timestamp \<Rightarrow> ('o, 'p) runner
    \<Rightarrow> ('o, 'p) runner \<times> prepare_response res option" where
  "prepare_finish env req tokens inspection ps facts prepared now rn0 =
     (let rn = rn0\<lparr>rn_preparing := None\<rparr>; sreq = prq_session_request req in
      case create_session (new_record req inspection ps facts prepared now) (rn_sessions rn) of
        (m, Inl e) \<Rightarrow> (rn\<lparr>rn_sessions := m\<rparr>, Some (Inl (escape e)))
      | (m, Inr r) \<Rightarrow>
          if psr_kind sreq \<noteq> MODEL_SESSION then (rn\<lparr>rn_sessions := m\<rparr>, Some (prepare_accepted (sre_session_facts r)))
          else (case prepared of
             None \<Rightarrow> (rn\<lparr>rn_sessions := m\<rparr>, Some (Inl (RuntimeError ''model compute executor returned no session facts'')))
           | Some h \<Rightarrow>
               (case pss_facts h of
                  None \<Rightarrow> (rn\<lparr>rn_sessions := m\<rparr>, Some (Inl (RuntimeError ''model compute executor returned no session facts'')))
                | Some fs \<Rightarrow>
                    (let c = msf_characterization fs in
                     case bind_res (fingerprint (re_sha env) (re_torch env) r tokens (psr_backend sreq) (Some (hd (psr_device_ids sreq)))
                            (psr_dtype sreq) (mch_quantization c) (mref_revision (mch_model c)) (Some (pss_environment h)))
                          (\<lambda>f. built (check_session_facts (re_sha env)) (fs\<lparr>msf_environment := Some f\<rparr>)) of
                       Inl e \<Rightarrow> (rn\<lparr>rn_sessions := m\<rparr>, Some (Inl e))
                     | Inr fs' \<Rightarrow> (rn\<lparr>rn_sessions := put_record (r\<lparr>sre_session_facts := Some fs'\<rparr>) m\<rparr>, Some (prepare_accepted (Some fs')))))))"

definition network_facts_dict :: "worker_network_facts list \<Rightarrow> (string \<times> worker_network_facts) list" where
  "network_facts_dict facts = fold (\<lambda>f. AList.update (wnf_worker_id f) f) facts []"

text \<open>After the inspection: a network session is created at once, any other session first reserves its
  devices. \<open>reader\<close> is what reading the performance state gives.\<close>

definition prepare_inspected :: "'o runner_env \<Rightarrow> local_inspection res \<Rightarrow> performance_state res \<Rightarrow> timestamp \<Rightarrow> ('o, 'p) runner
    \<Rightarrow> ('o, 'p) runner \<times> prepare_response res option" where
  "prepare_inspected env inspected reader now rn =
     (case rn_preparing rn of
        Some (Inspecting req tokens) \<Rightarrow>
          (let sid = prq_session_id req; sreq = prq_session_request req in
           case inspected of
             Inl e \<Rightarrow> (rn\<lparr>rn_preparing := None\<rparr>, Some (Inl e))
           | Inr inspection \<Rightarrow>
               if psr_kind sreq = NETWORK_SESSION then
                 (let facts = network_facts_dict (prq_network_facts req) in
                  if rgt_worker_id tokens \<notin> fst ` set facts
                  then (rn\<lparr>rn_preparing := None\<rparr>, Some (Inl (ValueError ''network session facts must include the executing worker'')))
                  else prepare_finish env req tokens inspection (observe_performance_state reader (li_capability inspection) None) facts None now rn)
               else
                 (case acquire sid (psr_device_ids sreq) (li_state inspection) (rn_leases rn) of
                    (lm, Inl (DeviceBusyError _)) \<Rightarrow> (rn\<lparr>rn_leases := lm, rn_preparing := None\<rparr>, Some (prepare_refused BUSY))
                  | (lm, Inl e) \<Rightarrow> (rn\<lparr>rn_leases := lm, rn_preparing := None\<rparr>, Some (Inl e))
                  | (lm, Inr _) \<Rightarrow>
                      (let rn1 = rn\<lparr>rn_leases := lm\<rparr>;
                           ps = observe_performance_state reader (li_capability inspection) (Some (hd (psr_device_ids sreq)));
                           source = (case psr_model sreq of
                              None \<Rightarrow> if psr_kind sreq = MODEL_SESSION then Inl (Unexpected []) else Inr ()
                            | Some model \<Rightarrow>
                                if psr_kind sreq = MODEL_SESSION
                                then (case resolve_model_source (re_model_root env) (mref_model_id model) (mref_revision model) (ws_models (li_state inspection)) of
                                        Inl e \<Rightarrow> Inl e | Inr _ \<Rightarrow> Inr ())
                                else Inr ())
                       in case source of
                            Inl e \<Rightarrow> prepare_failed sid e rn1
                          | Inr _ \<Rightarrow> (rn1\<lparr>rn_preparing := Some (Loading req tokens inspection ps)\<rparr>, None))))
      | _ \<Rightarrow> (rn, None))"

definition prepare_loaded :: "'o runner_env \<Rightarrow> work_exn + 'o prepared_session \<Rightarrow> timestamp \<Rightarrow> ('o, 'p) runner
    \<Rightarrow> ('o, 'p) runner \<times> prepare_response res option" where
  "prepare_loaded env result now rn =
     (case rn_preparing rn of
        Some (Loading req tokens inspection ps) \<Rightarrow>
          (case result of
             Inl e \<Rightarrow> prepare_failed (prq_session_id req) e rn
           | Inr prepared \<Rightarrow> prepare_finish env req tokens inspection ps [] (Some prepared) now rn)
      | _ \<Rightarrow> (rn, None))"

text \<open>The client cancels the call. Without a lease the handler just ends. While the executor prepares, the
  handler waits for the result, closes a session that was prepared, releases the lease and ends.\<close>

definition prepare_cancelled :: "work_exn + 'o prepared_session \<Rightarrow> ('o, 'p) runner \<Rightarrow> ('o, 'p) runner" where
  "prepare_cancelled result rn =
     (case rn_preparing rn of
        None \<Rightarrow> rn
      | Some (Inspecting req tokens) \<Rightarrow> rn\<lparr>rn_preparing := None\<rparr>
      | Some (Loading req tokens inspection ps) \<Rightarrow>
          (release_leases (prq_session_id req) rn)\<lparr>rn_preparing := None,
             rn_discarded := rn_discarded rn @ (case result of Inl _ \<Rightarrow> [] | Inr prepared \<Rightarrow> [prepared])\<rparr>)"


subsection \<open>RunProfilingCase\<close>

definition kind_mismatch :: "'h session_record \<Rightarrow> profiling_case \<Rightarrow> bool" where
  "kind_mismatch r c =
     (case pcs_spec c of
        Network_Case _ \<Rightarrow> record_kind r \<noteq> NETWORK_SESSION
      | Model_Case spec \<Rightarrow>
          record_kind r = NETWORK_SESSION
          \<or> (record_kind r = OPERATOR_SESSION \<and> mcs_granularity spec \<noteq> OPERATOR)
          \<or> (record_kind r = MODEL_SESSION \<and> mcs_granularity spec = OPERATOR))"

definition missing_devices :: "'h session_record \<Rightarrow> profiling_case \<Rightarrow> lease_manager \<Rightarrow> string list" where
  "missing_devices r c leases =
     (case pcs_spec c of
        Network_Case _ \<Rightarrow> []
      | Model_Case spec \<Rightarrow>
          filter (\<lambda>d. d \<notin> dl_device_id ` set (leases_for_session (sre_session_id r) leases)) (mcs_device_ids spec))"

text \<open>The part of \<^verbatim>\<open>_execute\<close> before its await: the fingerprint of the environment the measurement will be taken
  in. \<open>opened\<close> is what opening the instruments gives.\<close>

definition execute_network_start :: "'o runner_env \<Rightarrow> 'o prepared_session session_record \<Rightarrow> profiling_case \<Rightarrow> network_case_spec \<Rightarrow> registration_tokens
    \<Rightarrow> work_exn + running_case" where
  "execute_network_start env r c spec tokens =
     (if ncs_destination_worker_id spec \<notin> fst ` set (sre_network_facts r)
      then Inl (profiling_error NETWORK_UNREACHABLE ''no Master-resolved network facts for destination worker''
             [(''destination_worker_id'', SStr (ncs_destination_worker_id spec))])
      else unexpected
        (bind_res (fingerprint (re_sha env) (re_torch env) r tokens (if ncs_probe_kind spec = BANDWIDTH then ''iperf3'' else ''ping'') None None None None None) (\<lambda>f.
         bind_res (environment_fingerprint_id (re_sha env) f) (\<lambda>i.
         Inr \<lparr>rnc_session_id = sre_session_id r, rnc_case = c, rnc_worker_id = rgt_worker_id tokens, rnc_target_device_id = [],
           rnc_performance_state = sre_performance_state r, rnc_fingerprint = f, rnc_fingerprint_id = i\<rparr>))))"

definition execute_compute_start :: "'o runner_env \<Rightarrow> unit res \<Rightarrow> 'o prepared_session session_record \<Rightarrow> profiling_case \<Rightarrow> model_case_spec \<Rightarrow> registration_tokens
    \<Rightarrow> work_exn + running_case" where
  "execute_compute_start env opened r c spec tokens =
     (case sre_model_handle r of
        None \<Rightarrow> Inl (profiling_error INTERNAL_ERROR ''compute session carries no executor handle'' [])
      | Some h \<Rightarrow>
          if pss_target_device_id h \<noteq> hd (mcs_device_ids spec)
          then Inl (profiling_error INTERNAL_ERROR ''case targets a device other than the compute plane'' [])
          else if mcs_granularity spec \<noteq> OPERATOR \<and> pss_facts h = None
          then Inl (profiling_error INTERNAL_ERROR ''model compute session has no facts'' [])
          else unexpected
            (bind_res (if mcs_granularity spec = OPERATOR
               then fingerprint (re_sha env) (re_torch env) r tokens (mcs_backend spec) (Some (pss_target_device_id h)) (Some (mcs_dtype spec)) None None
                      (Some (pss_environment h))
               else model_fingerprint (re_sha env) (re_torch env) r tokens spec (msf_characterization (the (pss_facts h))) (Some (pss_environment h))) (\<lambda>f.
             bind_res (environment_fingerprint_id (re_sha env) f) (\<lambda>i.
             then_res opened
             (Inr \<lparr>rnc_session_id = sre_session_id r, rnc_case = c, rnc_worker_id = rgt_worker_id tokens, rnc_target_device_id = pss_target_device_id h,
               rnc_performance_state = sre_performance_state r, rnc_fingerprint = f, rnc_fingerprint_id = i\<rparr>)))))"

definition execute_start :: "'o runner_env \<Rightarrow> unit res \<Rightarrow> 'o prepared_session session_record \<Rightarrow> profiling_case \<Rightarrow> registration_tokens
    \<Rightarrow> work_exn + running_case" where
  "execute_start env opened r c tokens =
     (case pcs_spec c of
        Network_Case spec \<Rightarrow> execute_network_start env r c spec tokens
      | Model_Case spec \<Rightarrow> execute_compute_start env opened r c spec tokens)"

text \<open>The part after the await. The executor's record gets the fingerprint and, for compute cases, the
  physical and telemetry samples taken around it; an unstable performance state is reported with the
  environment it was seen in.\<close>

definition encode_performance_state :: "performance_state \<Rightarrow> string" where
  "encode_performance_state p =
     (case canonical_performance_state p of
        JObj kvs \<Rightarrow> dumps (JObj ((''__type__'', JStr ''PerformanceState'') # kvs))
      | j \<Rightarrow> dumps j)"

definition with_environment :: "running_case \<Rightarrow> profiling_failure \<Rightarrow> profiling_failure" where
  "with_environment rc f = f\<lparr>pfl_details := sort_key fst (fold (\<lambda>(k, v). AList.update k v)
     [(''environment_fingerprint'', SStr (rnc_fingerprint_id rc)), (''worker_id'', SStr (rnc_worker_id rc)),
      (''device_id'', SStr (rnc_target_device_id rc)),
      (''performance_state_json'', case rnc_performance_state rc of None \<Rightarrow> SNull | Some p \<Rightarrow> SStr (encode_performance_state p))]
     (pfl_details f))\<rparr>"

definition execute_finish :: "'o runner_env \<Rightarrow> running_case \<Rightarrow> work_exn + measurement_record \<Rightarrow> physical_memory option \<Rightarrow> telemetry_context option
    \<Rightarrow> work_exn + case_outcome" where
  "execute_finish env rc result physical telemetry =
     (case (pcs_spec (rnc_case rc), result) of
        (Network_Case _, Inl e) \<Rightarrow> Inl e
      | (Network_Case _, Inr m) \<Rightarrow> unexpected
          (bind_res (built (check_measurement_record (re_sha env))
             (m\<lparr>mrc_environment := Some (rnc_fingerprint rc), mrc_environment_fingerprint := rnc_fingerprint_id rc\<rparr>)) from_record)
      | (Model_Case _, Inl (Profiling_Error f)) \<Rightarrow>
          Inl (Profiling_Error (if pfl_category f = UNSTABLE_PERFORMANCE_STATE then with_environment rc f else f))
      | (Model_Case _, Inl e) \<Rightarrow> Inl e
      | (Model_Case _, Inr m) \<Rightarrow> unexpected
          (bind_res (built check_measurement_metrics ((mrc_metrics m)\<lparr>mms_physical := physical, mms_telemetry := telemetry\<rparr>)) (\<lambda>metrics.
           bind_res (built (check_measurement_record (re_sha env))
             (m\<lparr>mrc_environment := Some (rnc_fingerprint rc), mrc_environment_fingerprint := rnc_fingerprint_id rc, mrc_metrics := metrics\<rparr>)) from_record)))"

text \<open>The end of \<^verbatim>\<open>run_profiling_case\<close>: the outcome is decided in the ledger, unless the case was decided while it
  ran; then the recorded outcome is the answer.\<close>

definition run_outcome :: "work_exn + case_outcome \<Rightarrow> case_outcome res" where
  "run_outcome result =
     (case result of
        Inr outcome \<Rightarrow> Inr outcome
      | Inl e \<Rightarrow> bind_res (built check_profiling_failure (failure_of ''unexpected runner failure: '' e)) from_failure)"

definition run_decide :: "string \<Rightarrow> string \<Rightarrow> work_exn + case_outcome \<Rightarrow> timestamp \<Rightarrow> ('o, 'p) runner \<Rightarrow> ('o, 'p) runner \<times> run_response res" where
  "run_decide sid cid result now rn =
     (case run_outcome result of
        Inl e \<Rightarrow> (rn, Inl e)
      | Inr outcome \<Rightarrow>
          (case decide_case sid cid (if succeeded outcome then CASE_COMPLETED else CASE_FAILED) outcome now (rn_sessions rn) of
             (m, Inr _) \<Rightarrow> (rn\<lparr>rn_sessions := m\<rparr>, run_accepted outcome)
           | (m, Inl (Raising (ValueError msg))) \<Rightarrow>
               (rn\<lparr>rn_sessions := m\<rparr>,
                case case_entry sid cid m of
                  None \<Rightarrow> Inl (ValueError msg)
                | Some entry \<Rightarrow> (case lde_outcome entry of None \<Rightarrow> Inl (ValueError msg) | Some recorded \<Rightarrow> run_accepted recorded))
           | (m, Inl e) \<Rightarrow> (rn\<lparr>rn_sessions := m\<rparr>, Inl (escape e))))"

definition run_begin :: "'o runner_env \<Rightarrow> registration_tokens option \<Rightarrow> run_request \<Rightarrow> unit res \<Rightarrow> timestamp \<Rightarrow> ('o, 'p) runner
    \<Rightarrow> ('o, 'p) runner \<times> run_response res option" where
  "run_begin env current req opened now rn =
     (case validate_tokens current (rrq_tokens req) of
        Inl (Refused reason) \<Rightarrow> (rn, Some (run_refused reason))
      | Inl (Raising e) \<Rightarrow> (rn, Some (Inl e))
      | Inr tokens \<Rightarrow>
          (case require_open_session (rrq_session_id req) (rn_sessions rn) of
             Inl (Refused reason) \<Rightarrow> (rn, Some (run_refused reason))
           | Inl (Raising e) \<Rightarrow> (rn, Some (Inl e))
           | Inr r \<Rightarrow>
               (let c = rrq_case req; sid = sre_session_id r; cid = pcs_case_id c in
                if pcs_worker_id c \<noteq> rgt_worker_id tokens then (rn, Some (Inl (ValueError ''case is assigned to another worker'')))
                else if kind_mismatch r c then (rn, Some (run_refused SESSION_KIND_MISMATCH))
                else (case map_of (sre_cases r) cid of
                   Some entry \<Rightarrow>
                     if terminal entry
                     then (rn, Some (case lde_outcome entry of None \<Rightarrow> Inl (AssertionError []) | Some outcome \<Rightarrow> run_accepted outcome))
                     else (rn, Some (run_refused BUSY))
                 | None \<Rightarrow>
                     if record_kind r \<noteq> NETWORK_SESSION \<and> missing_devices r c (rn_leases rn) \<noteq> [] then (rn, Some (run_refused BUSY))
                     else (case mark_running sid cid (rn_sessions rn) of
                        (m, Inl e) \<Rightarrow> (rn\<lparr>rn_sessions := m\<rparr>, Some (Inl (escape e)))
                      | (m, Inr _) \<Rightarrow>
                          (let rn1 = rn\<lparr>rn_sessions := m\<rparr> in
                           case execute_start env opened r c tokens of
                             Inl e \<Rightarrow> map_prod id Some (run_decide sid cid (Inl e) now rn1)
                           | Inr rc \<Rightarrow> (rn1\<lparr>rn_running := rn_running rn1 @ [rc], rn_measured := rn_measured rn1 @ [(sid, cid)]\<rparr>, None)))))))"

definition remove_at :: "nat \<Rightarrow> 'a list \<Rightarrow> 'a list" where
  "remove_at i xs = take i xs @ drop (Suc i) xs"

definition run_resumed :: "'o runner_env \<Rightarrow> nat \<Rightarrow> work_exn + measurement_record \<Rightarrow> physical_memory option \<Rightarrow> telemetry_context option \<Rightarrow> timestamp
    \<Rightarrow> ('o, 'p) runner \<Rightarrow> ('o, 'p) runner \<times> run_response res option" where
  "run_resumed env i result physical telemetry now rn =
     (if i < length (rn_running rn)
      then (let rc = rn_running rn ! i in
            map_prod id Some (run_decide (rnc_session_id rc) (pcs_case_id (rnc_case rc)) (execute_finish env rc result physical telemetry) now
              (rn\<lparr>rn_running := remove_at i (rn_running rn)\<rparr>)))
      else (rn, None))"

text \<open>A cancelled call is no \<^verbatim>\<open>Exception\<close>: it leaves the handler without a decision in the ledger.\<close>

definition run_cancelled :: "nat \<Rightarrow> ('o, 'p) runner \<Rightarrow> ('o, 'p) runner" where
  "run_cancelled i rn = rn\<lparr>rn_running := remove_at i (rn_running rn)\<rparr>"


subsection \<open>GetProfilingCase, CancelProfilingCase and CloseProfilingSession\<close>

definition get_profiling_case :: "registration_tokens option \<Rightarrow> case_request \<Rightarrow> ('o, 'p) runner \<Rightarrow> get_response res" where
  "get_profiling_case current req rn =
     (case validate_tokens current (crq_tokens req) of
        Inl (Refused reason) \<Rightarrow> get_refused reason
      | Inl (Raising e) \<Rightarrow> Inl e
      | Inr _ \<Rightarrow>
          (case require_open_session (crq_session_id req) (rn_sessions rn) of
             Inl (Refused reason) \<Rightarrow> get_refused reason
           | Inl (Raising e) \<Rightarrow> Inl e
           | Inr r \<Rightarrow>
               (case map_of (sre_cases r) (crq_case_id req) of
                  None \<Rightarrow> get_refused UNKNOWN_CASE
                | Some entry \<Rightarrow> built check_get_response \<lparr>grr_accepted = True, grr_detail = [], grr_reason = None,
                    grr_case_state = Some (lde_state entry), grr_outcome = lde_outcome entry\<rparr>)))"

definition cancel_profiling_case :: "registration_tokens option \<Rightarrow> case_request \<Rightarrow> timestamp \<Rightarrow> ('o, 'p) runner
    \<Rightarrow> ('o, 'p) runner \<times> cancel_response res" where
  "cancel_profiling_case current req now rn =
     (case validate_tokens current (crq_tokens req) of
        Inl (Refused reason) \<Rightarrow> (rn, cancel_refused reason)
      | Inl (Raising e) \<Rightarrow> (rn, Inl e)
      | Inr _ \<Rightarrow>
          (case require_open_session (crq_session_id req) (rn_sessions rn) of
             Inl (Refused reason) \<Rightarrow> (rn, cancel_refused reason)
           | Inl (Raising e) \<Rightarrow> (rn, Inl e)
           | Inr r \<Rightarrow>
               (case cancel_case (sre_session_id r) (crq_case_id req) now (rn_sessions rn) of
                  (m, Inl e) \<Rightarrow> (rn\<lparr>rn_sessions := m\<rparr>, Inl (escape e))
                | (m, Inr entry) \<Rightarrow> (rn\<lparr>rn_sessions := m\<rparr>, built check_cancel_response
                    \<lparr>cnr_accepted = True, cnr_detail = [], cnr_reason = None, cnr_case_state = Some (lde_state entry)\<rparr>))))"

definition close_begin :: "'o runner_env \<Rightarrow> registration_tokens option \<Rightarrow> close_request \<Rightarrow> ('o, 'p) runner
    \<Rightarrow> ('o, 'p) runner \<times> close_response res option" where
  "close_begin env current req rn =
     (case validate_tokens current (clq_tokens req) of
        Inl (Refused reason) \<Rightarrow> (rn, Some (close_refused reason))
      | Inl (Raising e) \<Rightarrow> (rn, Some (Inl e))
      | Inr _ \<Rightarrow>
          (case close_session (re_cleanup env) (clq_session_id req) (rn_sessions rn) of
             (m, result) \<Rightarrow> (rn\<lparr>rn_sessions := m, rn_closing := rn_closing rn @ [(clq_session_id req, result)]\<rparr>, None)))"

definition close_end :: "nat \<Rightarrow> ('o, 'p) runner \<Rightarrow> ('o, 'p) runner \<times> close_response res option" where
  "close_end i rn =
     (if i < length (rn_closing rn)
      then (let (sid, result) = rn_closing rn ! i in
            ((release_leases sid rn)\<lparr>rn_closing := remove_at i (rn_closing rn)\<rparr>,
             Some (case result of
                     Inl e \<Rightarrow> Inl (escape e)
                   | Inr _ \<Rightarrow> built check_close_response \<lparr>clr_accepted = True, clr_detail = [], clr_reason = None\<rparr>)))
      else (rn, None))"

text \<open>A close cancelled before its cleanup thread starts: only the release in the \<^verbatim>\<open>finally\<close> clause runs.\<close>

definition close_aborted :: "registration_tokens option \<Rightarrow> close_request \<Rightarrow> ('o, 'p) runner \<Rightarrow> ('o, 'p) runner" where
  "close_aborted current req rn =
     (case validate_tokens current (clq_tokens req) of Inl _ \<Rightarrow> rn | Inr _ \<Rightarrow> release_leases (clq_session_id req) rn)"


subsection \<open>Temporary iperf3 servers\<close>

definition iperf_begin :: "registration_tokens option \<Rightarrow> iperf_request \<Rightarrow> int res \<Rightarrow> ('o, 'p) runner \<Rightarrow> ('o, 'p) runner \<times> iperf_response res option" where
  "iperf_begin current req available rn =
     (case validate_tokens current (ipq_tokens req) of
        Inl (Refused reason) \<Rightarrow> (rn, Some (iperf_refused reason))
      | Inl (Raising e) \<Rightarrow> (rn, Some (Inl e))
      | Inr _ \<Rightarrow>
          (case map_of (rn_iperf_servers rn) (ipq_server_id req) of
             Some existing \<Rightarrow> (rn, Some (iperf_accepted (ips_port existing)))
           | None \<Rightarrow>
               (case (case ipq_port req of Some p \<Rightarrow> Inr p | None \<Rightarrow> available) of
                  Inl e \<Rightarrow> (rn, Some (Inl e))
                | Inr port \<Rightarrow> (rn\<lparr>rn_starting := rn_starting rn @ [(req, port)]\<rparr>, None))))"

definition iperf_end :: "nat \<Rightarrow> 'p res \<Rightarrow> ('o, 'p) runner \<Rightarrow> ('o, 'p) runner \<times> iperf_response res option" where
  "iperf_end i started rn =
     (if i < length (rn_starting rn)
      then (let (req, port) = rn_starting rn ! i; rn1 = rn\<lparr>rn_starting := remove_at i (rn_starting rn)\<rparr> in
            case started of
              Inl e \<Rightarrow> (rn1, Some (iperf_refused BUSY))
            | Inr process \<Rightarrow> (rn1\<lparr>rn_iperf_servers := AList.update (ipq_server_id req) \<lparr>ips_process = process, ips_port = port\<rparr> (rn_iperf_servers rn1)\<rparr>,
                Some (iperf_accepted port)))
      else (rn, None))"

text \<open>Stopping a server, by request or by its timeout: the entry is removed and the process is stopped;
  \<open>stop\<close> is what stopping it gives.\<close>

definition stop_server :: "('p \<Rightarrow> unit res) \<Rightarrow> string \<Rightarrow> ('o, 'p) runner \<Rightarrow> ('o, 'p) runner \<times> unit res" where
  "stop_server stop server rn =
     (case map_of (rn_iperf_servers rn) server of
        None \<Rightarrow> (rn, Inr ())
      | Some server_entry \<Rightarrow> (rn\<lparr>rn_iperf_servers := AList.delete server (rn_iperf_servers rn)\<rparr>, stop (ips_process server_entry)))"

definition stop_iperf_server :: "registration_tokens option \<Rightarrow> ('p \<Rightarrow> unit res) \<Rightarrow> iperf_stop_request \<Rightarrow> ('o, 'p) runner
    \<Rightarrow> ('o, 'p) runner \<times> iperf_stop_response res" where
  "stop_iperf_server current stop req rn =
     (case validate_tokens current (isq_tokens req) of
        Inl (Refused reason) \<Rightarrow> (rn, built check_iperf_stop_response
          \<lparr>isr_accepted = False, isr_detail = refusal_detail reason, isr_reason = Some reason\<rparr>)
      | Inl (Raising e) \<Rightarrow> (rn, Inl e)
      | Inr _ \<Rightarrow> bind_st (stop_server stop (isq_server_id req) rn) (\<lambda>_ rn1.
          (rn1, built check_iperf_stop_response \<lparr>isr_accepted = True, isr_detail = [], isr_reason = None\<rparr>)))"


subsection \<open>Shutdown\<close>

text \<open>Every session is closed and its lease released even when a cleanup raises; the first exception is
  raised at the end.\<close>

fun shutdown_sessions :: "'o runner_env \<Rightarrow> string list \<Rightarrow> exn option \<Rightarrow> ('o, 'p) runner \<Rightarrow> ('o, 'p) runner \<times> exn option" where
  "shutdown_sessions env [] err rn = (rn, err)"
| "shutdown_sessions env (sid # sids) err rn =
     (case close_session (re_cleanup env) sid (rn_sessions rn) of
        (m, result) \<Rightarrow> shutdown_sessions env sids
          (case result of Inl e \<Rightarrow> (if err = None then Some (escape e) else err) | Inr _ \<Rightarrow> err)
          (release_leases sid (rn\<lparr>rn_sessions := m\<rparr>)))"

fun stop_servers :: "('p \<Rightarrow> unit res) \<Rightarrow> string list \<Rightarrow> ('o, 'p) runner \<Rightarrow> ('o, 'p) runner \<times> unit res" where
  "stop_servers stop [] rn = (rn, Inr ())"
| "stop_servers stop (s # ss) rn = bind_st (stop_server stop s rn) (\<lambda>_. stop_servers stop ss)"

definition shutdown :: "'o runner_env \<Rightarrow> ('p \<Rightarrow> unit res) \<Rightarrow> ('o, 'p) runner \<Rightarrow> ('o, 'p) runner \<times> unit res" where
  "shutdown env stop rn =
     (case shutdown_sessions env (session_ids (rn_sessions rn)) None rn of
        (rn1, err) \<Rightarrow>
          (case stop_servers stop (map fst (rn_iperf_servers rn1)) rn1 of
             (rn2, result) \<Rightarrow>
               (rn2\<lparr>rn_leases := fst (release_all (rn_leases rn2))\<rparr>,
                case result of Inl e \<Rightarrow> Inl e | Inr _ \<Rightarrow> (case err of None \<Rightarrow> Inr () | Some e \<Rightarrow> Inl e))))"


subsection \<open>Interleavings\<close>

text \<open>One event is one undisturbed piece of one handler. A preparation can begin only while no other holds
  the lock; the index of a waiting call says which one resumes. An answer to a run is recorded with its
  session and case.\<close>

datatype ('o, 'p) runner_event =
    Prepare_Begin "registration_tokens option" prepare_request
  | Prepare_Inspected "local_inspection res" "performance_state res" timestamp
  | Prepare_Loaded "work_exn + 'o prepared_session" timestamp
  | Prepare_Cancelled "work_exn + 'o prepared_session"
  | Run_Begin "registration_tokens option" run_request "unit res" timestamp
  | Run_End nat "work_exn + measurement_record" "physical_memory option" "telemetry_context option" timestamp
  | Run_Cancelled nat
  | Cancel_Case "registration_tokens option" case_request timestamp
  | Close_Begin "registration_tokens option" close_request
  | Close_End nat
  | Close_Aborted "registration_tokens option" close_request
  | Iperf_Begin "registration_tokens option" iperf_request "int res"
  | Iperf_End nat "'p res"
  | Iperf_Stop "'p \<Rightarrow> unit res" string

type_synonym run_answer = "string \<times> string \<times> run_response res"

definition run_answers :: "string \<Rightarrow> string \<Rightarrow> run_response res option \<Rightarrow> run_answer list" where
  "run_answers sid cid a = (case a of None \<Rightarrow> [] | Some r \<Rightarrow> [(sid, cid, r)])"

fun runner_step :: "'o runner_env \<Rightarrow> ('o, 'p) runner_event \<Rightarrow> ('o, 'p) runner \<Rightarrow> ('o, 'p) runner \<times> run_answer list" where
  "runner_step env (Prepare_Begin current req) rn = (if rn_preparing rn = None then fst (prepare_begin current req rn) else rn, [])"
| "runner_step env (Prepare_Inspected inspected reader now) rn = (fst (prepare_inspected env inspected reader now rn), [])"
| "runner_step env (Prepare_Loaded result now) rn = (fst (prepare_loaded env result now rn), [])"
| "runner_step env (Prepare_Cancelled result) rn = (prepare_cancelled result rn, [])"
| "runner_step env (Run_Begin current req opened now) rn =
     (case run_begin env current req opened now rn of
        (rn', a) \<Rightarrow> (rn', run_answers (rrq_session_id req) (pcs_case_id (rrq_case req)) a))"
| "runner_step env (Run_End i result physical telemetry now) rn =
     (case run_resumed env i result physical telemetry now rn of
        (rn', a) \<Rightarrow> (rn', run_answers (rnc_session_id (rn_running rn ! i)) (pcs_case_id (rnc_case (rn_running rn ! i))) a))"
| "runner_step env (Run_Cancelled i) rn = (run_cancelled i rn, [])"
| "runner_step env (Cancel_Case current req now) rn = (fst (cancel_profiling_case current req now rn), [])"
| "runner_step env (Close_Begin current req) rn = (fst (close_begin env current req rn), [])"
| "runner_step env (Close_End i) rn = (fst (close_end i rn), [])"
| "runner_step env (Close_Aborted current req) rn = (close_aborted current req rn, [])"
| "runner_step env (Iperf_Begin current req available) rn = (fst (iperf_begin current req available rn), [])"
| "runner_step env (Iperf_End i started) rn = (fst (iperf_end i started rn), [])"
| "runner_step env (Iperf_Stop stop server) rn = (fst (stop_server stop server rn), [])"

fun runner_run :: "'o runner_env \<Rightarrow> ('o, 'p) runner_event list \<Rightarrow> ('o, 'p) runner \<Rightarrow> ('o, 'p) runner \<times> run_answer list" where
  "runner_run env [] rn = (rn, [])"
| "runner_run env (ev # evs) rn =
     (case runner_step env ev rn of
        (rn1, as) \<Rightarrow> (case runner_run env evs rn1 of (rn2, bs) \<Rightarrow> (rn2, as @ bs)))"

text \<open>The inspector's states are valid: the constructor of a worker state checks it.\<close>

fun event_checked :: "('o, 'p) runner_event \<Rightarrow> bool" where
  "event_checked (Prepare_Inspected inspected reader now) =
     (case inspected of Inl _ \<Rightarrow> True | Inr inspection \<Rightarrow> check_worker_state (li_state inspection) = Inr ())"
| "event_checked _ = True"

end
