(* ===== verification/Runner_Leases.thy ===== *)
theory Runner_Leases
  imports Profiling_Runner
begin

section \<open>Leases of the profiling runner under interleaving\<close>

text \<open>
  Who may own a lease while handlers interleave. The first part lifts the operations of the session
  manager to a relation \<open>advances\<close> that all of them satisfy; the second part says which sessions may own
  leases and shows that every piece of a preparation keeps it so.
\<close>

subsection \<open>How the session manager advances\<close>

text \<open>Exactly the decided cases carry an outcome.\<close>

definition ledger_ok :: "'h session_manager \<Rightarrow> bool" where
  "ledger_ok m \<longleftrightarrow> (\<forall>sid cid e. case_entry sid cid m = Some e \<longrightarrow> (terminal e \<longleftrightarrow> lde_outcome e \<noteq> None))"

definition advances :: "'h session_manager \<Rightarrow> 'h session_manager \<Rightarrow> bool" where
  "advances m m' \<longleftrightarrow> evolves m m' \<and> manager_ok m' \<and> ledger_ok m'
     \<and> (\<forall>sid cid. case_entry sid cid m \<noteq> None \<longrightarrow> case_entry sid cid m' \<noteq> None)"

definition open_in :: "'h session_manager \<Rightarrow> string \<Rightarrow> bool" where
  "open_in m sid \<longleftrightarrow> (\<exists>r. peek sid m = Some r \<and> \<not> sre_closed r)"

lemma advances_refl: "\<lbrakk>manager_ok m; ledger_ok m\<rbrakk> \<Longrightarrow> advances m m"
  by (simp add: advances_def)

lemma advances_trans: "\<lbrakk>advances a b; advances b c\<rbrakk> \<Longrightarrow> advances a c"
  unfolding advances_def by (metis evolves_trans)

lemma advances_ok: "advances m m' \<Longrightarrow> manager_ok m' \<and> ledger_ok m'"
  by (simp add: advances_def)

lemma advances_decided:
  assumes "advances m m'" "case_entry sid cid m = Some e" "terminal e"
  shows "case_entry sid cid m' = Some e"
proof -
  from assms(2) obtain r where r: "peek sid m = Some r" "map_of (sre_cases r) cid = Some e"
    by (auto simp: case_entry_def split: option.splits)
  with assms(1) obtain r' where "peek sid m' = Some r'" "record_evolves r r'"
    unfolding advances_def evolves_def by blast
  with r assms(3) show ?thesis by (auto simp: case_entry_def record_evolves_def)
qed

lemma require_open_Inr: "require_open_session sid m = Inr r \<longleftrightarrow> peek sid m = Some r \<and> \<not> sre_closed r"
  by (auto simp: require_open_session_def split: option.splits)

lemma case_entry_put:
  "case_entry sid cid (put_record r m) = (if sid = sre_session_id r then map_of (sre_cases r) cid else case_entry sid cid m)"
  by (simp add: case_entry_def)

lemma case_entry_cleanups [simp]: "case_entry sid cid (m\<lparr>pm_cleanups := x\<rparr>) = case_entry sid cid m"
  by (simp add: case_entry_def)

lemma open_in_cleanups [simp]: "open_in (m\<lparr>pm_cleanups := x\<rparr>) = open_in m"
  by (auto simp: open_in_def)

lemma open_in_put: "open_in (put_record r m) sid \<longleftrightarrow> (if sid = sre_session_id r then \<not> sre_closed r else open_in m sid)"
  by (auto simp: open_in_def)

lemma put_put: "sre_session_id r = sre_session_id r' \<Longrightarrow> put_record r (put_record r' m) = put_record r m"
  by (simp add: put_record_def)

text \<open>Storing a record with the ledger of the stored one.\<close>

lemma advances_put_same:
  assumes "manager_ok m" "ledger_ok m" "peek (sre_session_id r) m = Some r0" "sre_cases r = sre_cases r0" "sre_closed r0 \<longrightarrow> sre_closed r"
  shows "advances m (put_record r m)"
proof -
  have "record_evolves r0 r" using assms(4,5) by (simp add: record_evolves_def)
  then have "evolves m (put_record r m)" "manager_ok (put_record r m)"
    using put_record_step [of r m] assms(1,3) by auto
  moreover have same: "case_entry sid cid (put_record r m) = case_entry sid cid m" for sid cid
    using assms(3,4) by (simp add: case_entry_put) (simp add: case_entry_def)
  ultimately show ?thesis using assms(2) by (auto simp: advances_def ledger_ok_def same)
qed

text \<open>Storing an entry for a case that is not decided.\<close>

lemma advances_put_case:
  assumes "manager_ok m" "ledger_ok m" "require_open_session sid m = Inr r" "\<not> decided r cid"
    and "terminal e \<longleftrightarrow> lde_outcome e \<noteq> None"
  shows "advances m (put_case r cid e m)"
    and "case_entry sid c (put_case r cid e m) = (if c = cid then Some e else case_entry sid c m)"
    and "open_in (put_case r cid e m) = open_in m"
proof -
  have r: "peek sid m = Some r" "\<not> sre_closed r" using assms(3) by (simp_all add: require_open_Inr)
  have k: "sre_session_id r = sid" using assms(1) r(1) keyed_peek by (auto simp: manager_ok_def)
  have entry: "case_entry s c (put_case r cid e m) = (if s = sid \<and> c = cid then Some e else case_entry s c m)" for s c
    using r(1) k by (simp add: put_case_def case_entry_put update_conv') (simp add: case_entry_def)
  then show "case_entry sid c (put_case r cid e m) = (if c = cid then Some e else case_entry sid c m)" by simp
  show "open_in (put_case r cid e m) = open_in m"
    using r k by (auto simp: put_case_def open_in_put fun_eq_iff) (auto simp: open_in_def)
  have "evolves m (put_case r cid e m)" "manager_ok (put_case r cid e m)"
    using put_case_step [OF assms(1,3,4)] by simp_all
  with assms(2,5) show "advances m (put_case r cid e m)" by (simp add: advances_def ledger_ok_def entry)
qed

lemma create_session_advances:
  assumes "manager_ok m" "ledger_ok m" "peek (sre_session_id r) m = None"
  shows "create_session r m = (put_record (r\<lparr>sre_cases := [], sre_closed := False\<rparr>) m, Inr (r\<lparr>sre_cases := [], sre_closed := False\<rparr>))"
    and "advances m (put_record (r\<lparr>sre_cases := [], sre_closed := False\<rparr>) m)"
proof -
  let ?r = "r\<lparr>sre_cases := [], sre_closed := False\<rparr>"
  show "create_session r m = (put_record ?r m, Inr ?r)"
    using assms(3) by (simp add: create_session_def Let_def peek_None [symmetric])
  have none: "case_entry (sre_session_id r) cid m = None" for cid using assms(3) by (simp add: case_entry_def)
  have "evolves m (put_record ?r m)" "manager_ok (put_record ?r m)" using put_record_step [of ?r m] assms by auto
  with assms(2) none show "advances m (put_record ?r m)" by (auto simp: advances_def ledger_ok_def case_entry_put)
qed

lemma mark_running_advances:
  assumes "manager_ok m" "ledger_ok m"
  shows "advances m (fst (mark_running sid cid m))" and "open_in (fst (mark_running sid cid m)) = open_in m"
    and "snd (mark_running sid cid m) = Inr () \<Longrightarrow> case_entry sid cid (fst (mark_running sid cid m)) \<noteq> None"
  using advances_put_case [OF assms] advances_refl [OF assms]
  by (auto simp: mark_running_def terminal_def terminal_state_def split: sum.splits)

lemma terminal_entry [simp]:
  "terminal \<lparr>lde_state = s, lde_outcome = x, lde_decided_at = t\<rparr> = terminal_state s"
  by (simp add: terminal_def)

lemma decide_case_advances:
  assumes "manager_ok m" "ledger_ok m"
  shows "advances m (fst (decide_case sid cid s x now m))" and "open_in (fst (decide_case sid cid s x now m)) = open_in m"
    and "snd (decide_case sid cid s x now m) = Inr e \<Longrightarrow>
      case_entry sid cid (fst (decide_case sid cid s x now m)) = Some e \<and> terminal e \<and> lde_outcome e = Some x"
  using advances_put_case [OF assms] advances_refl [OF assms]
  by (auto simp: decide_case_def Let_def split: sum.splits if_splits)

lemma cancel_case_advances:
  assumes "manager_ok m" "ledger_ok m"
  shows "advances m (fst (cancel_case sid cid now m))" and "open_in (fst (cancel_case sid cid now m)) = open_in m"
  using advances_put_case [OF assms] advances_refl [OF assms]
  by (auto simp: cancel_case_def Let_def decided_def terminal_state_def split: sum.splits option.splits)

lemma close_session_advances:
  assumes "manager_ok m" "ledger_ok m"
  shows "advances m (fst (close_session rc sid m))"
    and "open_in (fst (close_session rc sid m)) s \<longleftrightarrow> open_in m s \<and> s \<noteq> sid"
proof -
  have step: "evolves m (fst (close_session rc sid m))" "manager_ok (fst (close_session rc sid m))"
    using close_session_step [OF assms(1)] by auto
  have id: "sre_session_id r = sid" if "peek sid m = Some r" for r
    using that assms(1) keyed_peek by (auto simp: manager_ok_def)
  have entry: "case_entry s c (fst (close_session rc sid m)) = case_entry s c m" for s c
    using id by (auto simp: close_session_def Let_def case_entry_put split: option.splits) (auto simp: case_entry_def)
  with step assms(2) show "advances m (fst (close_session rc sid m))" by (simp add: advances_def ledger_ok_def)
  show "open_in (fst (close_session rc sid m)) s \<longleftrightarrow> open_in m s \<and> s \<noteq> sid"
    using id by (auto simp: close_session_def Let_def open_in_put split: option.splits) (auto simp: open_in_def)
qed


lemma no_new_sessions [simp]:
  assumes "manager_ok m"
  shows "peek s (fst (mark_running sid cid m)) = None \<longleftrightarrow> peek s m = None"
    and "peek s (fst (decide_case sid cid st x now m)) = None \<longleftrightarrow> peek s m = None"
    and "peek s (fst (cancel_case sid cid now m)) = None \<longleftrightarrow> peek s m = None"
    and "peek s (fst (close_session rc sid m)) = None \<longleftrightarrow> peek s m = None"
proof -
  have id: "sre_session_id r = sid" if "peek sid m = Some r" for r
    using that assms keyed_peek by (auto simp: manager_ok_def)
  show "peek s (fst (mark_running sid cid m)) = None \<longleftrightarrow> peek s m = None"
    using id by (auto simp: mark_running_def put_case_def require_open_Inr split: sum.splits)
  show "peek s (fst (decide_case sid cid st x now m)) = None \<longleftrightarrow> peek s m = None"
    using id by (auto simp: decide_case_def put_case_def Let_def require_open_Inr split: sum.splits)
  show "peek s (fst (cancel_case sid cid now m)) = None \<longleftrightarrow> peek s m = None"
    using id by (auto simp: cancel_case_def put_case_def Let_def require_open_Inr split: sum.splits option.splits)
  show "peek s (fst (close_session rc sid m)) = None \<longleftrightarrow> peek s m = None"
    using id by (auto simp: close_session_def Let_def split: option.splits)
qed


subsection \<open>Who owns a lease\<close>

lemma holder_release:
  assumes "leases_ok lm"
  shows "holder (fst (release_session sid lm)) d = (if holder lm d = Some sid then None else holder lm d)"
proof -
  have "map_of (filter (\<lambda>(d, s). s \<noteq> sid) t) d = (if map_of t d = Some sid then None else map_of t d)"
    if "distinct (map fst t)" for t :: "(string \<times> string) list"
    using that by (induction t) (auto simp: map_of_eq_None_iff split: if_splits)
  with assms show ?thesis by (simp add: holder_def release_session_eq leases_ok_def leased_device_ids_def)
qed

lemma leases_ok_release: "leases_ok lm \<Longrightarrow> leases_ok (fst (release_session sid lm))"
  by (simp add: release_session_def leases_ok_def leased_device_ids_def Let_def distinct_delete_devices)

lemma acquire_owner:
  assumes "check_worker_state state = Inr ()" "acquire sid ids state lm = (lm', r)" "holder lm' d = Some s"
  shows "holder lm d = Some s \<or> s = sid \<and> is_ok r"
proof (cases "sid = [] \<or> ids = []")
  case True
  with acquire_empty [OF True, of state lm] assms(2,3) show ?thesis by auto
next
  case False
  then have ne: "sid \<noteq> []" "ids \<noteq> []" by auto
  show ?thesis
  proof (cases "list_all (reservable sid state lm) ids")
    case True
    with acquire_cases(1) [OF assms(1) ne True] assms(2,3) show ?thesis
      by (auto simp: holder_def map_of_leased_to split: if_splits)
  next
    case bad: False
    with acquire_cases(2) [OF assms(1) ne bad] assms(2,3) show ?thesis
      by (auto simp: holder_def Let_def map_of_leased_to delete_devices_eq map_of_filter_key split: if_splits)
  qed
qed

definition owns :: "('o, 'p) runner \<Rightarrow> string \<Rightarrow> bool" where
  "owns rn s \<longleftrightarrow> open_in (rn_sessions rn) s \<or> s \<in> fst ` set (rn_closing rn)
     \<or> (\<exists>p. rn_preparing rn = Some p \<and> holds_lease p \<and> preparation_session p = s)"

definition runner_ok :: "('o, 'p) runner \<Rightarrow> bool" where
  "runner_ok rn \<longleftrightarrow> manager_ok (rn_sessions rn) \<and> ledger_ok (rn_sessions rn) \<and> leases_ok (rn_leases rn)
     \<and> (\<forall>p. rn_preparing rn = Some p \<longrightarrow> peek (preparation_session p) (rn_sessions rn) = None)
     \<and> (\<forall>d s. holder (rn_leases rn) d = Some s \<longrightarrow> owns rn s)"

lemma runner_okD:
  assumes "runner_ok rn"
  shows "manager_ok (rn_sessions rn)" "ledger_ok (rn_sessions rn)" "leases_ok (rn_leases rn)"
    "rn_preparing rn = Some p \<Longrightarrow> peek (preparation_session p) (rn_sessions rn) = None"
    "holder (rn_leases rn) d = Some s \<Longrightarrow> owns rn s"
  using assms by (simp_all add: runner_ok_def)

text \<open>Fields that ownership does not depend on.\<close>

lemma runner_ok_other [simp]:
  "runner_ok (rn\<lparr>rn_running := a\<rparr>) = runner_ok rn" "runner_ok (rn\<lparr>rn_iperf_servers := b\<rparr>) = runner_ok rn"
  "runner_ok (rn\<lparr>rn_starting := c\<rparr>) = runner_ok rn" "runner_ok (rn\<lparr>rn_discarded := e\<rparr>) = runner_ok rn"
  "runner_ok (rn\<lparr>rn_measured := f\<rparr>) = runner_ok rn"
  by (simp_all add: runner_ok_def owns_def)

lemma runner_ok_sessions:
  assumes "runner_ok rn" "advances (rn_sessions rn) m"
    and "\<And>s. peek s m = None \<longleftrightarrow> peek s (rn_sessions rn) = None" and "open_in m = open_in (rn_sessions rn)"
  shows "runner_ok (rn\<lparr>rn_sessions := m\<rparr>)"
  using assms by (auto simp: runner_ok_def owns_def advances_def)

lemma release_leases_fields [simp]:
  "rn_sessions (release_leases sid rn) = rn_sessions rn" "rn_preparing (release_leases sid rn) = rn_preparing rn"
  "rn_closing (release_leases sid rn) = rn_closing rn" "rn_measured (release_leases sid rn) = rn_measured rn"
  "rn_running (release_leases sid rn) = rn_running rn" "rn_discarded (release_leases sid rn) = rn_discarded rn"
  by (simp_all add: release_leases_def)

lemma holder_release_leases:
  "leases_ok (rn_leases rn) \<Longrightarrow> holder (rn_leases (release_leases sid rn)) d
     = (if holder (rn_leases rn) d = Some sid then None else holder (rn_leases rn) d)"
  by (simp add: release_leases_def holder_release)

text \<open>After releasing the leases of a session, its preparation and its close may end.\<close>

lemma runner_ok_release:
  assumes "runner_ok rn" "p' = rn_preparing rn \<or> p' = None \<and> (\<forall>p. rn_preparing rn = Some p \<longrightarrow> preparation_session p = sid \<or> \<not> holds_lease p)"
    and "set c' \<subseteq> set (rn_closing rn)" "\<And>s x. (s, x) \<in> set (rn_closing rn) \<Longrightarrow> s \<noteq> sid \<Longrightarrow> s \<in> fst ` set c'"
  shows "runner_ok ((release_leases sid rn)\<lparr>rn_preparing := p', rn_closing := c'\<rparr>)"
proof -
  note ok = runner_okD [OF assms(1)]
  have "owns ((release_leases sid rn)\<lparr>rn_preparing := p', rn_closing := c'\<rparr>) s"
    if "holder (rn_leases (release_leases sid rn)) d = Some s" for d s
  proof -
    from that ok(3) have "holder (rn_leases rn) d = Some s" "s \<noteq> sid" by (auto simp: holder_release_leases split: if_splits)
    with ok(5) assms(2,4) show ?thesis by (force simp: owns_def)
  qed
  with ok assms(2) show ?thesis
    by (auto simp: runner_ok_def) (simp_all add: release_leases_def leases_ok_release)
qed

lemma runner_ok_release_only: "runner_ok rn \<Longrightarrow> runner_ok (release_leases sid rn)"
  using runner_ok_release [of rn "rn_preparing rn" sid "rn_closing rn"] by (force simp: release_leases_def)


subsection \<open>Each handler keeps the invariant\<close>

definition good_step :: "('o, 'p) runner \<Rightarrow> ('o, 'p) runner \<Rightarrow> bool" where
  "good_step rn rn' \<longleftrightarrow> runner_ok rn' \<and> advances (rn_sessions rn) (rn_sessions rn')"

lemma good_step_refl: "runner_ok rn \<Longrightarrow> good_step rn rn"
  by (simp add: good_step_def advances_refl runner_okD)

lemma good_step_sessions:
  assumes "runner_ok rn" "advances (rn_sessions rn) m"
    and "\<And>s. peek s m = None \<longleftrightarrow> peek s (rn_sessions rn) = None" and "open_in m = open_in (rn_sessions rn)"
  shows "good_step rn (rn\<lparr>rn_sessions := m\<rparr>)"
  using runner_ok_sessions [OF assms] assms(2) by (simp add: good_step_def)

text \<open>A preparation that ends without a lease.\<close>

lemma good_step_unprepared:
  assumes "runner_ok rn" "rn_preparing rn = Some p" "\<not> holds_lease p"
  shows "good_step rn (rn\<lparr>rn_preparing := None\<rparr>)"
  using assms by (auto simp: good_step_def runner_ok_def owns_def advances_refl)

lemma prepare_begin_good:
  assumes "runner_ok rn" "rn_preparing rn = None"
  shows "good_step rn (fst (prepare_begin current req rn))"
proof -
  have "runner_ok (rn\<lparr>rn_preparing := Some (Inspecting req tokens)\<rparr>)" if "peek (prq_session_id req) (rn_sessions rn) = None" for tokens
    using assms that by (auto simp: runner_ok_def owns_def)
  then show ?thesis using good_step_refl [OF assms(1)]
    by (auto simp: prepare_begin_def good_step_def split: sum.splits session_exn.splits option.splits)
qed

lemma prepare_failed_good:
  assumes "runner_ok rn" "\<forall>p. rn_preparing rn = Some p \<longrightarrow> preparation_session p = sid"
  shows "good_step rn (fst (prepare_failed sid e rn))"
proof -
  have "runner_ok ((release_leases sid rn)\<lparr>rn_preparing := None, rn_closing := rn_closing rn\<rparr>)"
    using assms by (intro runner_ok_release) force+
  then show ?thesis using runner_okD(1,2) [OF assms(1)]
    by (simp add: prepare_failed_def good_step_def advances_refl release_leases_def)
qed

text \<open>The end of a preparation: whatever it answers, the session has been created and is open.\<close>

lemma created_good:
  assumes "runner_ok rn" "\<forall>p. rn_preparing rn = Some p \<longrightarrow> preparation_session p = sid" "peek sid (rn_sessions rn) = None"
    and "sre_session_id r = sid" "sre_cases r = []" "\<not> sre_closed r"
  shows "good_step rn (rn\<lparr>rn_preparing := None, rn_sessions := put_record r (rn_sessions rn)\<rparr>)"
proof -
  let ?m = "put_record r (rn_sessions rn)"
  have r: "r\<lparr>sre_cases := [], sre_closed := False\<rparr> = r" using assms(5,6) by simp
  note ok = runner_okD [OF assms(1)]
  have adv: "advances (rn_sessions rn) ?m"
    using create_session_advances(2) [OF ok(1,2), of r] assms(3,4) by (simp add: r)
  have op: "open_in ?m s \<longleftrightarrow> s = sid \<or> open_in (rn_sessions rn) s" for s
    using assms(3,4,6) by (auto simp: open_in_put open_in_def)
  have "owns (rn\<lparr>rn_preparing := None, rn_sessions := ?m\<rparr>) s" if "holder (rn_leases rn) d = Some s" for d s
    using ok(5) [OF that] assms(2) by (auto simp: owns_def op)
  with ok adv show ?thesis by (simp add: good_step_def runner_ok_def advances_def)
qed

lemma prepare_finish_good:
  assumes "runner_ok rn" "\<forall>p. rn_preparing rn = Some p \<longrightarrow> preparation_session p = prq_session_id req"
    and "peek (prq_session_id req) (rn_sessions rn) = None"
  shows "good_step rn (fst (prepare_finish env req tokens inspection ps facts prepared now rn))"
proof -
  let ?r = "new_record req inspection ps facts prepared now"
  have r: "sre_session_id ?r = prq_session_id req" "sre_cases ?r = []" "\<not> sre_closed ?r"
    "?r\<lparr>sre_cases := [], sre_closed := False\<rparr> = ?r" by (simp_all add: new_record_def)
  have created: "create_session ?r (rn_sessions rn) = (put_record ?r (rn_sessions rn), Inr ?r)"
    using create_session_advances(1) [OF runner_okD(1,2) [OF assms(1)], of ?r] assms(3) r(4) by (simp add: r(1))
  have good: "good_step rn (rn\<lparr>rn_preparing := None, rn_sessions := put_record r' (rn_sessions rn)\<rparr>)"
    if "sre_session_id r' = prq_session_id req" "sre_cases r' = []" "\<not> sre_closed r'" for r'
    using created_good [OF assms that] .
  show ?thesis
    using good r(1-3) created
    by (auto simp: prepare_finish_def Let_def put_put split: option.splits sum.splits)
qed

lemma prepare_inspected_good:
  assumes "runner_ok rn" "event_checked (Prepare_Inspected inspected reader now :: ('o, 'p) runner_event)"
  shows "good_step rn (fst (prepare_inspected env inspected reader now rn))"
proof (cases "rn_preparing rn")
  case None
  then show ?thesis using good_step_refl [OF assms(1)] by (simp add: prepare_inspected_def)
next
  case (Some p)
  show ?thesis
  proof (cases p)
    case (Loading req tokens inspection ps)
    with Some good_step_refl [OF assms(1)] show ?thesis by (simp add: prepare_inspected_def)
  next
    case (Inspecting req tokens)
    note ok = runner_okD [OF assms(1)]
    have fresh: "peek (prq_session_id req) (rn_sessions rn) = None" using ok(4) [OF Some] Inspecting by simp
    note ended = good_step_unprepared [OF assms(1) Some, unfolded Inspecting, simplified]
    show ?thesis
    proof (cases inspected)
      case (Inl e)
      with Some Inspecting ended show ?thesis by (simp add: prepare_inspected_def Let_def)
    next
      case (Inr inspection)
      show ?thesis
      proof (cases "psr_kind (prq_session_request req) = NETWORK_SESSION")
        case True
        with Some Inspecting Inr ended fresh show ?thesis
          by (auto simp: prepare_inspected_def Let_def intro: prepare_finish_good [OF assms(1)])
      next
        case False
        obtain lm res where acq: "acquire (prq_session_id req) (psr_device_ids (prq_session_request req)) (li_state inspection) (rn_leases rn) = (lm, res)"
          by fastforce
        have st: "check_worker_state (li_state inspection) = Inr ()" using assms(2) Inr by simp
        have lmok: "leases_ok lm" using leases_ok_acquire [OF ok(3) st] acq by (metis fst_conv)
        have own: "owns (rn\<lparr>rn_preparing := q\<rparr>) s"
          if "holder lm d = Some s" "q = None \<or> q = Some (Loading req tokens inspection x)" "is_ok res \<Longrightarrow> q \<noteq> None" for d s q x
          using acquire_owner [OF st acq that(1)] ok(5) [of d s] that(2,3) Some Inspecting by (auto simp: owns_def)
        have busy: "good_step rn (rn\<lparr>rn_leases := lm, rn_preparing := None\<rparr>)" if "\<not> is_ok res"
          using own [of _ _ None] that ok lmok by (auto simp: good_step_def runner_ok_def advances_refl owns_def)
        let ?load = "\<lambda>x. rn\<lparr>rn_leases := lm, rn_preparing := Some (Loading req tokens inspection x)\<rparr>"
        have load: "good_step rn (?load x)" for x
          using own [of _ _ "Some (Loading req tokens inspection x)"] ok lmok fresh by (auto simp: good_step_def runner_ok_def advances_refl owns_def)
        have failed: "good_step rn (fst (prepare_failed (prq_session_id req) e (rn\<lparr>rn_leases := lm\<rparr>)))" for e
        proof -
          have "prepare_failed (prq_session_id req) e (rn\<lparr>rn_leases := lm\<rparr>) = prepare_failed (prq_session_id req) e (?load None)"
            by (simp add: prepare_failed_def release_leases_def)
          then show ?thesis
            using prepare_failed_good [of "?load None" "prq_session_id req" e] load [of None] by (simp add: good_step_def)
        qed
        show ?thesis
          using Some Inspecting Inr False acq busy load failed
          by (cases res) (auto simp: prepare_inspected_def Let_def split: exn.splits sum.splits option.splits)
      qed
    qed
  qed
qed


lemma prepare_loaded_good:
  assumes "runner_ok rn"
  shows "good_step rn (fst (prepare_loaded env result now rn))"
proof (cases "\<exists>req tokens inspection ps. rn_preparing rn = Some (Loading req tokens inspection ps)")
  case False
  then show ?thesis using good_step_refl [OF assms] by (auto simp: prepare_loaded_def split: option.splits preparation.splits)
next
  case True
  then obtain req tokens inspection ps where p: "rn_preparing rn = Some (Loading req tokens inspection ps)" by blast
  then have fresh: "peek (prq_session_id req) (rn_sessions rn) = None" using runner_okD(4) [OF assms] by force
  show ?thesis
    using prepare_failed_good [OF assms, of "prq_session_id req"] prepare_finish_good [OF assms, of req] p fresh
    by (simp add: prepare_loaded_def split: sum.splits)
qed

lemma prepare_cancelled_good:
  assumes "runner_ok rn"
  shows "good_step rn (prepare_cancelled result rn)"
proof (cases "rn_preparing rn")
  case None
  with good_step_refl [OF assms] show ?thesis by (simp add: prepare_cancelled_def)
next
  case (Some p)
  show ?thesis
  proof (cases p)
    case (Inspecting req tokens)
    with good_step_unprepared [OF assms Some] Some show ?thesis by (simp add: prepare_cancelled_def)
  next
    case (Loading req tokens inspection ps)
    with Some have "good_step rn ((release_leases (prq_session_id req) rn)\<lparr>rn_preparing := None\<rparr>)"
      using prepare_failed_good [OF assms, of "prq_session_id req"] by (simp add: prepare_failed_def)
    moreover have "prepare_cancelled result rn = (release_leases (prq_session_id req) rn)\<lparr>rn_preparing := None,
        rn_discarded := rn_discarded rn @ (case result of Inl _ \<Rightarrow> [] | Inr x \<Rightarrow> [x])\<rparr>"
      using Some Loading by (simp add: prepare_cancelled_def)
    ultimately show ?thesis by (simp add: good_step_def)
  qed
qed

end
