(* ===== verification/Runner_Safety.thy ===== *)
theory Runner_Safety
  imports Runner_Leases
begin

section \<open>Safety of the profiling runner under interleaving\<close>

text \<open>
  What holds of the runner after any sequence of events: leases do not leak, a case is measured at most
  once and all accepted answers about it agree, and a shutdown releases everything.
\<close>

subsection \<open>Runs\<close>

text \<open>An accepted answer to a run carries the outcome of the ledger.\<close>

definition recorded :: "('o, 'p) runner \<Rightarrow> run_answer \<Rightarrow> bool" where
  "recorded rn a = (case a of (sid, cid, r) \<Rightarrow> \<forall>resp. r = Inr resp \<and> rrr_accepted resp \<longrightarrow>
     (\<exists>e. case_entry sid cid (rn_sessions rn) = Some e \<and> terminal e \<and> lde_outcome e = rrr_outcome resp))"

lemma recorded_later:
  assumes "recorded rn a" "advances (rn_sessions rn) (rn_sessions rn')"
  shows "recorded rn' a"
  using assms(1) advances_decided [OF assms(2)] by (fastforce simp: recorded_def split: prod.splits)

lemma run_decide_good:
  assumes "runner_ok rn"
  shows "good_step rn (fst (run_decide sid cid result now rn))"
    and "recorded (fst (run_decide sid cid result now rn)) (sid, cid, snd (run_decide sid cid result now rn))"
    and "rn_measured (fst (run_decide sid cid result now rn)) = rn_measured rn"
proof -
  note ok = runner_okD(1,2) [OF assms]
  note dec = decide_case_advances [OF ok, of sid cid]
  have good: "good_step rn (rn\<lparr>rn_sessions := fst (decide_case sid cid st x now (rn_sessions rn))\<rparr>)" for st x
    using good_step_sessions [OF assms dec(1) _ dec(2)] ok(1) by simp
  show "good_step rn (fst (run_decide sid cid result now rn))"
  proof (cases "run_outcome result")
    case (Inl e)
    then show ?thesis using good_step_refl [OF assms] by (simp add: run_decide_def)
  next
    case (Inr x)
    let ?st = "if succeeded x then CASE_COMPLETED else CASE_FAILED"
    obtain m r where d: "decide_case sid cid ?st x now (rn_sessions rn) = (m, r)" by fastforce
    with good [of ?st x] Inr show ?thesis
      by (simp add: run_decide_def split: sum.splits session_exn.splits exn.splits)
  qed
  show "recorded (fst (run_decide sid cid result now rn)) (sid, cid, snd (run_decide sid cid result now rn))"
  proof (cases "run_outcome result")
    case (Inl e)
    then show ?thesis by (simp add: run_decide_def recorded_def)
  next
    case (Inr x)
    let ?st = "if succeeded x then CASE_COMPLETED else CASE_FAILED"
    obtain m r where d: "decide_case sid cid ?st x now (rn_sessions rn) = (m, r)" by fastforce
    have fin: "case_entry sid cid m = Some e \<and> terminal e \<and> lde_outcome e = Some x" if "r = Inr e" for e
      using dec(3) [of ?st x now e] d that by simp
    have led: "terminal e" if "case_entry sid cid m = Some e" "lde_outcome e = Some y" for e y
      using dec(1) [of ?st x now] d that by (simp add: advances_def ledger_ok_def)
    show ?thesis using Inr d fin led
      by (auto simp: run_decide_def recorded_def split: sum.splits session_exn.splits exn.splits option.splits)
  qed
  show "rn_measured (fst (run_decide sid cid result now rn)) = rn_measured rn"
    by (simp add: run_decide_def split: sum.splits session_exn.splits exn.splits prod.splits)
qed


text \<open>A measurement that was started has an entry in the ledger, which keeps it from being started again.\<close>

definition measured_ok :: "('o, 'p) runner \<Rightarrow> bool" where
  "measured_ok rn \<longleftrightarrow> distinct (rn_measured rn) \<and> (\<forall>(sid, cid) \<in> set (rn_measured rn). case_entry sid cid (rn_sessions rn) \<noteq> None)"

lemma measured_ok_same:
  assumes "measured_ok rn" "advances (rn_sessions rn) (rn_sessions rn')" "rn_measured rn' = rn_measured rn"
  shows "measured_ok rn'"
  using assms by (auto simp: measured_ok_def advances_def)

definition safe_step :: "('o, 'p) runner \<Rightarrow> ('o, 'p) runner \<times> run_answer list \<Rightarrow> bool" where
  "safe_step rn p \<longleftrightarrow> good_step rn (fst p) \<and> measured_ok (fst p) \<and> (\<forall>a \<in> set (snd p). recorded (fst p) a)"

lemma safe_stepI:
  assumes "good_step rn rn'" "measured_ok rn" "rn_measured rn' = rn_measured rn" "\<And>a. a \<in> set as \<Longrightarrow> recorded rn' a"
  shows "safe_step rn (rn', as)"
  using assms measured_ok_same [of rn rn'] by (simp add: safe_step_def good_step_def)

lemma unaccepted_recorded [simp]:
  "recorded rn (sid, cid, Inl e)" "\<not> rrr_accepted x \<Longrightarrow> recorded rn (sid, cid, Inr x)"
  by (simp_all add: recorded_def)

lemmas run_answers_simps [simp] = run_answers_def

lemma run_begin_safe:
  assumes ok: "runner_ok rn" and meas: "measured_ok rn" and r: "require_open_session (rrq_session_id req) (rn_sessions rn) = Inr r"
    and tok: "validate_tokens current (rrq_tokens req) = Inr tokens"
  shows "safe_step rn (case run_begin env current req opened now rn of (rn', a) \<Rightarrow>
    (rn', run_answers (rrq_session_id req) (pcs_case_id (rrq_case req)) a))"
proof -
  let ?c = "rrq_case req" and ?sid = "rrq_session_id req"
  let ?cid = "pcs_case_id ?c"
  note mok = runner_okD(1,2) [OF ok]
  have idle: "safe_step rn (rn, [a])" if "recorded rn a" for a
    using that by (intro safe_stepI [OF good_step_refl [OF ok] meas refl]) simp
  have peek: "peek ?sid (rn_sessions rn) = Some r" using r by (simp add: require_open_Inr)
  have sid: "sre_session_id r = ?sid" using mok(1) peek keyed_peek by (auto simp: manager_ok_def)
  have entry: "case_entry ?sid ?cid (rn_sessions rn) = map_of (sre_cases r) ?cid" using peek by (simp add: case_entry_def)
  show ?thesis
  proof (cases "pcs_worker_id ?c \<noteq> rgt_worker_id tokens \<or> kind_mismatch r ?c")
    case True
    then show ?thesis using idle by (auto simp: run_begin_def tok r Let_def sid)
  next
    case ours: False
    show ?thesis
    proof (cases "map_of (sre_cases r) ?cid")
      case (Some e)
      have "recorded rn (?sid, ?cid, case lde_outcome e of None \<Rightarrow> Inl (AssertionError []) | Some x \<Rightarrow> run_accepted x)" if "terminal e"
        using that entry Some by (auto simp: recorded_def split: option.splits)
      with ours Some idle show ?thesis by (auto simp: run_begin_def tok r Let_def sid)
    next
      case None
      obtain m res where mark: "mark_running ?sid ?cid (rn_sessions rn) = (m, res)" by fastforce
      note adv = mark_running_advances [OF mok, of ?sid ?cid, unfolded mark, simplified]
      have g: "good_step rn (rn\<lparr>rn_sessions := m\<rparr>)"
        using good_step_sessions [OF ok adv(1) _ adv(2)] no_new_sessions(1) [OF mok(1), of _ ?sid ?cid] mark by simp
      show ?thesis
      proof (cases "record_kind r \<noteq> NETWORK_SESSION \<and> missing_devices r ?c (rn_leases rn) \<noteq> []")
        case True
        with ours None idle show ?thesis by (auto simp: run_begin_def tok r Let_def sid)
      next
        case leased: False
        show ?thesis
        proof (cases res)
          case (Inl e)
          have "safe_step rn (rn\<lparr>rn_sessions := m\<rparr>, [(?sid, ?cid, Inl (escape e))])"
            by (rule safe_stepI [OF g meas]) simp_all
          with ours None leased mark Inl show ?thesis by (auto simp: run_begin_def tok r Let_def sid)
        next
          case (Inr u)
          note goal = ours None leased mark Inr
          let ?rn1 = "rn\<lparr>rn_sessions := m\<rparr>"
          have ok1: "runner_ok ?rn1" using g by (simp add: good_step_def)
          show ?thesis
          proof (cases "execute_start env opened r ?c tokens")
            case (Inl e)
            obtain rn2 a where d: "run_decide ?sid ?cid (Inl e) now ?rn1 = (rn2, a)" by fastforce
            note dg = run_decide_good [OF ok1, of ?sid ?cid "Inl e" now, unfolded d, simplified]
            have "good_step rn rn2" using g dg(1) by (auto simp: good_step_def intro: advances_trans)
            then have "safe_step rn (rn2, [(?sid, ?cid, a)])" using dg(2,3) by (intro safe_stepI [OF _ meas]) simp_all
            with goal Inl d show ?thesis by (auto simp: run_begin_def tok r Let_def sid)
          next
            case run: (Inr rc)
            let ?rn2 = "?rn1\<lparr>rn_running := rn_running rn @ [rc], rn_measured := rn_measured rn @ [(?sid, ?cid)]\<rparr>"
            have "(?sid, ?cid) \<notin> set (rn_measured rn)" using meas entry None by (auto simp: measured_ok_def)
            moreover have "case_entry ?sid ?cid m \<noteq> None" using adv(3) Inr by simp
            ultimately have "measured_ok ?rn2" using measured_ok_same [OF meas, of ?rn1] adv(1) by (auto simp: measured_ok_def)
            moreover have "good_step rn ?rn2" using g by (simp add: good_step_def)
            ultimately have "safe_step rn (?rn2, [])" by (simp add: safe_step_def)
            with goal run show ?thesis by (auto simp: run_begin_def tok r Let_def sid)
          qed
        qed
      qed
    qed
  qed
qed


subsection \<open>Every event is safe\<close>

lemma run_begin_refused:
  assumes "runner_ok rn" "measured_ok rn"
    and "\<not> (\<exists>tokens r. validate_tokens current (rrq_tokens req) = Inr tokens \<and> require_open_session (rrq_session_id req) (rn_sessions rn) = Inr r)"
  shows "safe_step rn (case run_begin env current req opened now rn of (rn', a) \<Rightarrow>
    (rn', run_answers (rrq_session_id req) (pcs_case_id (rrq_case req)) a))"
proof -
  have idle: "safe_step rn (rn, [(sid, cid, a)])" if "recorded rn (sid, cid, a)" for sid cid a
    using that by (intro safe_stepI [OF good_step_refl [OF assms(1)] assms(2) refl]) simp
  show ?thesis using assms(3) by (auto simp: run_begin_def intro!: idle split: sum.split session_exn.split)
qed

lemma run_resumed_safe:
  assumes "runner_ok rn" "measured_ok rn"
  shows "safe_step rn (case run_resumed env i result physical telemetry now rn of (rn', a) \<Rightarrow>
    (rn', run_answers (rnc_session_id (rn_running rn ! i)) (pcs_case_id (rnc_case (rn_running rn ! i))) a))"
proof (cases "i < length (rn_running rn)")
  case False
  then show ?thesis using safe_stepI [OF good_step_refl [OF assms(1)] assms(2) refl, of "[]"] by (simp add: run_resumed_def)
next
  case True
  let ?rc = "rn_running rn ! i" and ?rn1 = "rn\<lparr>rn_running := remove_at i (rn_running rn)\<rparr>"
  have ok1: "runner_ok ?rn1" using assms(1) by simp
  note d = run_decide_good [OF ok1, of "rnc_session_id ?rc" "pcs_case_id (rnc_case ?rc)" "execute_finish env ?rc result physical telemetry" now]
  show ?thesis using True d by (auto simp: run_resumed_def Let_def good_step_def map_prod_def intro!: safe_stepI [OF _ assms(2)] split: prod.splits)
qed

lemma cancel_good:
  assumes "runner_ok rn"
  shows "good_step rn (fst (cancel_profiling_case current req now rn))"
    and "rn_measured (fst (cancel_profiling_case current req now rn)) = rn_measured rn"
proof -
  note ok = runner_okD(1,2) [OF assms]
  have "good_step rn (rn\<lparr>rn_sessions := fst (cancel_case sid cid now (rn_sessions rn))\<rparr>)" for sid cid
    using good_step_sessions [OF assms cancel_case_advances(1) [OF ok] _ cancel_case_advances(2) [OF ok]] ok(1) by simp
  then have "good_step rn (rn\<lparr>rn_sessions := m\<rparr>)" if "cancel_case sid cid now (rn_sessions rn) = (m, x)" for sid cid m x
    using that by (metis fst_conv)
  then show "good_step rn (fst (cancel_profiling_case current req now rn))"
    using good_step_refl [OF assms] by (auto simp: cancel_profiling_case_def split: sum.splits session_exn.splits prod.splits)
  show "rn_measured (fst (cancel_profiling_case current req now rn)) = rn_measured rn"
    by (simp add: cancel_profiling_case_def split: sum.splits session_exn.splits prod.splits)
qed

lemma close_begin_good:
  assumes "runner_ok rn"
  shows "good_step rn (fst (close_begin env current req rn))"
proof -
  note ok = runner_okD [OF assms]
  let ?sid = "clq_session_id req"
  obtain m x where c: "close_session (re_cleanup env) ?sid (rn_sessions rn) = (m, x)" by fastforce
  note adv = close_session_advances [OF ok(1,2), of "re_cleanup env" ?sid, unfolded c, simplified]
  have none: "peek s m = None \<longleftrightarrow> peek s (rn_sessions rn) = None" for s
    using no_new_sessions(4) [OF ok(1), of s "re_cleanup env" ?sid] c by simp
  have "owns (rn\<lparr>rn_sessions := m, rn_closing := rn_closing rn @ [(?sid, x)]\<rparr>) s" if "holder (rn_leases rn) d = Some s" for d s
    using ok(5) [OF that] adv(2) by (auto simp: owns_def)
  with ok adv(1) none have "good_step rn (rn\<lparr>rn_sessions := m, rn_closing := rn_closing rn @ [(?sid, x)]\<rparr>)"
    by (auto simp: good_step_def runner_ok_def advances_def)
  then show ?thesis using good_step_refl [OF assms] c by (simp add: close_begin_def split: sum.splits session_exn.splits)
qed

lemma in_remove_at: "x \<in> set xs \<Longrightarrow> x \<noteq> xs ! i \<Longrightarrow> x \<in> set (remove_at i xs)"
proof -
  assume x: "x \<in> set xs" "x \<noteq> xs ! i"
  then obtain j where "j < length xs" "x = xs ! j" "j \<noteq> i" by (metis in_set_conv_nth)
  then show ?thesis
    by (cases "j < i") (auto simp: remove_at_def in_set_conv_nth nth_append intro: exI [of _ j] exI [of _ "j - Suc i"])
qed

lemma close_end_good:
  assumes "runner_ok rn"
  shows "good_step rn (fst (close_end i rn))"
proof (cases "i < length (rn_closing rn)")
  case False
  then show ?thesis using good_step_refl [OF assms] by (simp add: close_end_def)
next
  case True
  obtain sid x where c: "rn_closing rn ! i = (sid, x)" by fastforce
  have sub: "set (remove_at i (rn_closing rn)) \<subseteq> set (rn_closing rn)"
    by (auto simp: remove_at_def dest: in_set_takeD in_set_dropD)
  have "runner_ok ((release_leases sid rn)\<lparr>rn_preparing := rn_preparing rn, rn_closing := remove_at i (rn_closing rn)\<rparr>)"
  proof (rule runner_ok_release [OF assms _ sub])
    show "s \<in> fst ` set (remove_at i (rn_closing rn))" if "(s, y) \<in> set (rn_closing rn)" "s \<noteq> sid" for s y
      using in_remove_at [OF that(1), of i] that(2) c by force
  qed simp
  then show ?thesis using True c advances_refl [OF runner_okD(1,2) [OF assms]]
    by (simp add: close_end_def good_step_def Let_def) (simp add: release_leases_def)
qed

lemma release_good: "runner_ok rn \<Longrightarrow> good_step rn (release_leases sid rn)"
  by (simp add: good_step_def runner_ok_release_only advances_refl runner_okD)

lemma measured_same:
  "rn_measured (fst (prepare_begin current req rn)) = rn_measured rn"
  "rn_measured (fst (prepare_inspected env inspected reader now rn)) = rn_measured rn"
  "rn_measured (fst (prepare_loaded env result now rn)) = rn_measured rn"
  "rn_measured (prepare_cancelled result rn) = rn_measured rn"
  "rn_measured (fst (close_begin env current creq rn)) = rn_measured rn"
  "rn_measured (fst (close_end i rn)) = rn_measured rn"
proof -
  have fin: "rn_measured (fst (prepare_finish env req tokens inspection ps facts prepared now rn)) = rn_measured rn"
    for req tokens inspection ps facts prepared rn
    by (auto simp: prepare_finish_def Let_def split: prod.splits sum.splits option.splits)
  have failed: "rn_measured (fst (prepare_failed sid e rn)) = rn_measured rn" for sid e rn
    by (simp add: prepare_failed_def)
  show "rn_measured (fst (prepare_inspected env inspected reader now rn)) = rn_measured rn"
    by (auto simp: prepare_inspected_def Let_def fin failed split: option.splits preparation.splits sum.splits prod.splits exn.splits)
  show "rn_measured (fst (prepare_loaded env result now rn)) = rn_measured rn"
    by (auto simp: prepare_loaded_def fin failed split: option.splits preparation.splits sum.splits)
  show "rn_measured (prepare_cancelled result rn) = rn_measured rn"
    by (auto simp: prepare_cancelled_def split: option.splits preparation.splits)
qed (auto simp: prepare_begin_def close_begin_def close_end_def Let_def split: option.splits sum.splits session_exn.splits prod.splits)

lemma other_step:
  assumes "runner_ok rn" "measured_ok rn" "rn_sessions rn' = rn_sessions rn" "runner_ok rn'" "rn_measured rn' = rn_measured rn"
  shows "safe_step rn (rn', [])"
  using assms by (intro safe_stepI) (simp_all add: good_step_def advances_refl runner_okD)

lemma runner_step_safe:
  assumes "runner_ok rn" "measured_ok rn" "event_checked ev"
  shows "safe_step rn (runner_step env ev rn)"
proof -
  have quiet: "safe_step rn (rn', [])" if "good_step rn rn'" "rn_measured rn' = rn_measured rn" for rn'
    using that by (intro safe_stepI [OF _ assms(2)]) simp_all
  show ?thesis
  proof (cases ev)
    case (Run_Begin current req opened now)
    then show ?thesis using run_begin_safe [OF assms(1,2)] run_begin_refused [OF assms(1,2), of current req]
      by (cases "\<exists>tokens r. validate_tokens current (rrq_tokens req) = Inr tokens
        \<and> require_open_session (rrq_session_id req) (rn_sessions rn) = Inr r") (auto simp del: run_answers_simps)
  next
    case (Iperf_Begin current req available)
    then show ?thesis
      by (auto simp: iperf_begin_def intro!: other_step [OF assms(1,2)] simp: assms(1) split: sum.splits session_exn.splits option.splits)
  next
    case (Iperf_End i started)
    then show ?thesis
      by (auto simp: iperf_end_def Let_def intro!: other_step [OF assms(1,2)] simp: assms(1) split: sum.splits prod.splits)
  next
    case (Iperf_Stop stop server)
    then show ?thesis by (auto simp: stop_server_def intro!: other_step [OF assms(1,2)] simp: assms(1) split: option.splits)
  qed (use assms in \<open>simp_all add: run_resumed_safe quiet prepare_begin_good prepare_inspected_good prepare_loaded_good prepare_cancelled_good
      measured_same cancel_good close_begin_good close_end_good run_cancelled_def good_step_refl close_aborted_def release_good
      other_step del: run_answers_simps split: sum.split\<close>)
qed


lemma runner_run_safe:
  assumes "runner_ok rn" "measured_ok rn" "list_all event_checked evs"
  shows "safe_step rn (runner_run env evs rn)"
  using assms
proof (induction evs arbitrary: rn)
  case Nil
  then show ?case by (simp add: safe_step_def good_step_refl)
next
  case (Cons ev evs)
  obtain rn1 as where s1: "runner_step env ev rn = (rn1, as)" by fastforce
  obtain rn2 bs where s2: "runner_run env evs rn1 = (rn2, bs)" by fastforce
  have one: "safe_step rn (rn1, as)" using runner_step_safe [of rn ev env] Cons.prems s1 by simp
  then have "safe_step rn1 (rn2, bs)" using Cons.IH [of rn1] Cons.prems(3) s2 by (simp add: safe_step_def good_step_def)
  with one have "safe_step rn (rn2, as @ bs)"
    by (auto simp: safe_step_def good_step_def intro: advances_trans recorded_later)
  with s1 s2 show ?case by simp
qed

lemma no_entry_init [simp]: "case_entry sid cid manager_init = None"
  by (simp add: case_entry_def peek_def manager_init_def)

lemma runner_init_ok:
  assumes "lm_leased_by lm = []"
  shows "runner_ok (runner_init lm)" "measured_ok (runner_init lm)"
  using assms
  by (simp_all add: runner_ok_def measured_ok_def runner_init_def manager_ok_init ledger_ok_def leases_ok_def leased_device_ids_def holder_def)

lemma reached_ok:
  assumes "lm_leased_by lm = []" "list_all event_checked evs" "runner_run env evs (runner_init lm) = (rn, as)"
  shows "runner_ok rn" "measured_ok rn" "\<forall>a \<in> set as. recorded rn a"
  using runner_run_safe [OF runner_init_ok [OF assms(1)] assms(2), of env] assms(3)
  by (simp_all add: safe_step_def good_step_def)


subsection \<open>Shutdown\<close>

lemma close_session_other:
  assumes "manager_ok m" "s \<noteq> sid"
  shows "peek s (fst (close_session rc sid m)) = peek s m"
  using assms keyed_peek [of m sid] by (auto simp: manager_ok_def close_session_def Let_def split: option.splits)

lemma close_session_cleanups:
  "set (pm_cleanups m) \<subseteq> set (pm_cleanups (fst (close_session rc sid m)))"
  "\<lbrakk>peek sid m = Some r; \<not> sre_closed r; sre_model_cleanup r = Some h\<rbrakk> \<Longrightarrow> (sid, h) \<in> set (pm_cleanups (fst (close_session rc sid m)))"
  by (auto simp: close_session_def Let_def split: option.splits)

lemma shutdown_sessions_closes:
  assumes "manager_ok (rn_sessions rn)" "ledger_ok (rn_sessions rn)" "shutdown_sessions env sids err rn = (rn', err')"
  shows "(\<forall>s. open_in (rn_sessions rn') s \<longleftrightarrow> open_in (rn_sessions rn) s \<and> s \<notin> set sids)
    \<and> set (pm_cleanups (rn_sessions rn)) \<subseteq> set (pm_cleanups (rn_sessions rn'))
    \<and> (\<forall>s r h. s \<in> set sids \<and> peek s (rn_sessions rn) = Some r \<and> \<not> sre_closed r \<and> sre_model_cleanup r = Some h
         \<longrightarrow> (s, h) \<in> set (pm_cleanups (rn_sessions rn')))"
  using assms
proof (induction sids arbitrary: rn err)
  case (Cons sid sids)
  obtain m res where c: "close_session (re_cleanup env) sid (rn_sessions rn) = (m, res)" by fastforce
  note adv = close_session_advances [OF Cons.prems(1,2), of "re_cleanup env" sid, unfolded c, simplified]
  note other = close_session_other [OF Cons.prems(1), of _ sid "re_cleanup env", unfolded c, simplified]
  note cl = close_session_cleanups [where m = "rn_sessions rn" and rc = "re_cleanup env" and sid = sid, unfolded c, simplified]
  let ?rn1 = "release_leases sid (rn\<lparr>rn_sessions := m\<rparr>)"
  from Cons.prems(3) c have sh: "shutdown_sessions env sids
      (case res of Inl e \<Rightarrow> if err = None then Some (escape e) else err | Inr _ \<Rightarrow> err) ?rn1 = (rn', err')" by simp
  have ih: "(\<forall>s. open_in (rn_sessions rn') s \<longleftrightarrow> open_in m s \<and> s \<notin> set sids) \<and> set (pm_cleanups m) \<subseteq> set (pm_cleanups (rn_sessions rn'))
    \<and> (\<forall>s r h. s \<in> set sids \<and> peek s m = Some r \<and> \<not> sre_closed r \<and> sre_model_cleanup r = Some h \<longrightarrow> (s, h) \<in> set (pm_cleanups (rn_sessions rn')))"
    using Cons.IH [OF _ _ sh] advances_ok [OF adv(1)] by (simp) blast
  have run: "(s, h) \<in> set (pm_cleanups (rn_sessions rn'))"
    if "s \<in> set (sid # sids)" "peek s (rn_sessions rn) = Some r" "\<not> sre_closed r" "sre_model_cleanup r = Some h" for s r h
  proof (cases "s = sid")
    case True
    with that cl(2) ih show ?thesis by blast
  next
    case False
    with that other have "s \<in> set sids" "peek s m = Some r" by auto
    with ih that(3,4) show ?thesis by blast
  qed
  from ih adv(2) have "\<forall>s. open_in (rn_sessions rn') s \<longleftrightarrow> open_in (rn_sessions rn) s \<and> s \<notin> set (sid # sids)" by auto
  with run cl(1) ih show ?case by blast
qed simp

lemma stop_server_eq:
  assumes "stop_server stop s rn = (rn', r)"
  shows "rn_sessions rn' = rn_sessions rn" "rn_iperf_servers rn' = filter (\<lambda>(k, _). k \<noteq> s) (rn_iperf_servers rn)"
proof -
  have "filter (\<lambda>(k, _). k \<noteq> s) xs = xs" if "map_of xs s = None" for xs :: "(string \<times> 'b iperf_server) list"
    using that by (force simp: map_of_eq_None_iff intro!: filter_True)
  with assms show "rn_iperf_servers rn' = filter (\<lambda>(k, _). k \<noteq> s) (rn_iperf_servers rn)"
    by (auto simp: stop_server_def AList.delete_eq eq_commute case_prod_unfold split: option.splits)
  show "rn_sessions rn' = rn_sessions rn" using assms by (auto simp: stop_server_def split: option.splits)
qed

lemma stop_servers_eq:
  assumes "stop_servers stop ss rn = (rn', r)"
  shows "rn_sessions rn' = rn_sessions rn \<and> (r = Inr () \<longrightarrow> rn_iperf_servers rn' = filter (\<lambda>(k, _). k \<notin> set ss) (rn_iperf_servers rn))"
  using assms
proof (induction ss arbitrary: rn)
  case Nil
  then show ?case by (auto simp: case_prod_unfold)
next
  case (Cons s ss)
  obtain rn1 r1 where s: "stop_server stop s rn = (rn1, r1)" by fastforce
  note e = stop_server_eq [OF s]
  show ?case
  proof (cases r1)
    case (Inl x)
    with Cons.prems s e show ?thesis by auto
  next
    case (Inr u)
    with Cons.prems s have "stop_servers stop ss rn1 = (rn', r)" by simp
    from Cons.IH [OF this] e show ?thesis by (auto simp: filter_filter case_prod_unfold intro!: filter_cong)
  qed
qed

lemma shutdown_spec:
  assumes "runner_ok rn" "shutdown env stop rn = (rn', r)"
  shows "lm_leased_by (rn_leases rn') = [] \<and> (\<forall>s x. peek s (rn_sessions rn') = Some x \<longrightarrow> sre_closed x)
    \<and> (\<forall>s x h. peek s (rn_sessions rn) = Some x \<and> \<not> sre_closed x \<and> sre_model_cleanup x = Some h \<longrightarrow> (s, h) \<in> set (pm_cleanups (rn_sessions rn')))
    \<and> (r = Inr () \<longrightarrow> rn_iperf_servers rn' = [])"
proof -
  note ok = runner_okD(1,2) [OF assms(1)]
  obtain rn1 err where s1: "shutdown_sessions env (session_ids (rn_sessions rn)) None rn = (rn1, err)" by fastforce
  obtain rn2 r2 where s2: "stop_servers stop (map fst (rn_iperf_servers rn1)) rn1 = (rn2, r2)" by fastforce
  have rn': "rn' = rn2\<lparr>rn_leases := fst (release_all (rn_leases rn2))\<rparr>" and r: "r = Inr () \<Longrightarrow> r2 = Inr ()"
    using assms(2) s1 s2 by (auto simp: shutdown_def split: sum.splits)
  note c = shutdown_sessions_closes [OF ok s1]
  note st = stop_servers_eq [OF s2]
  have ids: "s \<in> set (session_ids (rn_sessions rn))" if "peek s (rn_sessions rn) = Some x" for s x
    using that peek_None [of s "rn_sessions rn"] by auto
  then have "\<not> open_in (rn_sessions rn1) s" for s using c by (auto simp: open_in_def)
  then have "sre_closed x" if "peek s (rn_sessions rn') = Some x" for s x
    using that st rn' by (auto simp: open_in_def)
  moreover have "rn_iperf_servers rn' = []" if "r = Inr ()"
    using st r [OF that] rn' by (force simp: filter_empty_conv)
  ultimately show ?thesis using c ids st rn' by (auto simp: release_all_def)
qed


subsection \<open>Properties\<close>

definition demo_tokens :: registration_tokens where
  "demo_tokens = \<lparr>rgt_worker_id = ''w'', rgt_instance_id = ''i'', rgt_registration_session_id = ''g''\<rparr>"

definition demo_prepare :: prepare_request where
  "demo_prepare = \<lparr>prq_tokens = demo_tokens, prq_session_id = ''s'', prq_session_request = \<lparr>psr_kind = OPERATOR_SESSION, psr_device_ids = [''gpu-0''],
     psr_backend = ''torch'', psr_model = None, psr_dtype = None, psr_quantization = None, psr_target_layer_index = None\<rparr>, prq_network_facts = []\<rparr>"

definition demo_time :: timestamp where
  "demo_time = \<lparr>ts_value = 0, ts_aware = True\<rparr>"

definition demo_compute :: "nat prepared_session" where
  "demo_compute = \<lparr>pss_session_id = ''s'', pss_target_device_id = ''gpu-0'', pss_environment = \<lparr>cen_torch_version = ''2.4'', cen_cuda_version = None,
     cen_backend_revision = ''1'', cen_target_device_id = ''gpu-0'', cen_execution_device = ''cuda:0''\<rparr>, pss_facts = None, pss_opaque = None, pss_closed = False\<rparr>"

definition demo_runner_env :: "nat runner_env" where
  "demo_runner_env = \<lparr>re_sha = demo_hash, re_torch = \<lparr>tor_version = ''2.4'', tor_cuda = None\<rparr>, re_model_root = ''/models'', re_cleanup = (\<lambda>_. Inr ())\<rparr>"

definition demo_inspected :: "(nat, nat) runner_event" where
  "demo_inspected = Prepare_Inspected (Inr \<lparr>li_identity = demo_identity, li_capability = demo_base [], li_state = two_gpus\<rparr>) (Inl (OSError [])) demo_time"

definition demo_events :: "(nat, nat) runner_event list" where
  "demo_events = [Prepare_Begin (Some demo_tokens) demo_prepare, demo_inspected, Prepare_Loaded (Inr demo_compute) demo_time]"

text \<open>A network session in which a case to an unknown destination is run twice.\<close>

definition demo_network_prepare :: prepare_request where
  "demo_network_prepare = \<lparr>prq_tokens = demo_tokens, prq_session_id = ''n'', prq_session_request = \<lparr>psr_kind = NETWORK_SESSION, psr_device_ids = [],
     psr_backend = ''ping'', psr_model = None, psr_dtype = None, psr_quantization = None, psr_target_layer_index = None\<rparr>,
     prq_network_facts = [\<lparr>wnf_worker_id = ''w'', wnf_hostname = ''h'', wnf_interfaces = []\<rparr>]\<rparr>"

definition demo_network_case :: profiling_case where
  "demo_network_case = \<lparr>pcs_case_id = ''c'', pcs_worker_id = ''w'', pcs_spec = Network_Case \<lparr>ncs_probe_kind = RTT, ncs_source_worker_id = ''w'',
     ncs_destination_worker_id = ''x'', ncs_source_interface_id = None, ncs_destination_interface_id = None, ncs_path_class = None, ncs_transport = None,
     ncs_direction = None, ncs_duration_s = None, ncs_packet_count = Some 1, ncs_payload_bytes = None, ncs_regime = IDLE_SINGLE_FLOW\<rparr>\<rparr>"

definition demo_run_begin :: "(nat, nat) runner_event" where
  "demo_run_begin = Run_Begin (Some demo_tokens) \<lparr>rrq_tokens = demo_tokens, rrq_session_id = ''n'', rrq_case = demo_network_case,
     rrq_iperf_server_port = None\<rparr> (Inr ()) demo_time"

definition demo_case_events :: "(nat, nat) runner_event list" where
  "demo_case_events = [Prepare_Begin (Some demo_tokens) demo_network_prepare, demo_inspected, demo_run_begin, demo_run_begin]"

lemma demo_events_checked [simp]: "list_all event_checked demo_events" "list_all event_checked demo_case_events"
  by (simp_all add: demo_case_events_def demo_events_def demo_run_begin_def demo_inspected_def)

lemmas demo_defs = demo_tokens_def demo_prepare_def demo_time_def demo_inspected_def demo_network_prepare_def demo_network_case_def demo_run_begin_def
  demo_base_def runner_init_def manager_init_def

definition demo_answer :: run_response where
  "demo_answer = \<lparr>rrr_accepted = True, rrr_detail = [], rrr_reason = None, rrr_outcome = Some \<lparr>cou_record = None, cou_failure = Some
     \<lparr>pfl_category = NETWORK_UNREACHABLE, pfl_message = ''no Master-resolved network facts for destination worker'',
      pfl_details = [(''destination_worker_id'', SStr ''x'')]\<rparr>\<rparr>\<rparr>"

lemma demo_case_run:
  "\<exists>rn. runner_run demo_runner_env demo_case_events (runner_init (demo_leases [])) = (rn, [(''n'', ''c'', Inr demo_answer), (''n'', ''c'', Inr demo_answer)])"
  by (simp add: demo_case_events_def demo_defs prepare_begin_def validate_tokens_def peek_def prepare_inspected_def network_facts_dict_def
      prepare_finish_def create_session_def session_ids_def new_record_def put_record_def run_begin_def require_open_session_def
      kind_mismatch_def record_kind_def mark_running_def decided_def put_case_def execute_start_def execute_network_start_def
      run_decide_def run_outcome_def profiling_error_def check_profiling_failure_def built_def from_failure_def make_case_outcome_def
      decide_case_def terminal_state_def Let_def checks_Inr check_normalized_items_def non_empty_def demo_answer_def)

lemma demo_acquire: "acquire ''s'' [''gpu-0''] two_gpus (demo_leases []) = (demo_leases [(''gpu-0'', ''s'')], Inr [lease_on ''s'' ''gpu-0''])"
  using acquire_spec [of two_gpus "[''gpu-0'']" "demo_leases []" "''s''"]
  by (simp add: two_gpus_reservable) (simp add: holder_def demo_leases_def dict_fromkeys_def)

definition demo_opened_session :: "(nat, nat) runner" where
  "demo_opened_session = fst (runner_run demo_runner_env demo_events (runner_init (demo_leases [])))"

lemma demo_prepare_run:
  "runner_run demo_runner_env demo_events (runner_init (demo_leases [])) = (demo_opened_session, [])"
  "rn_closing demo_opened_session = []" "rn_preparing demo_opened_session = None" "rn_leases demo_opened_session = demo_leases [(''gpu-0'', ''s'')]"
  "map_option (\<lambda>r. (sre_closed r, sre_model_cleanup r)) (peek ''s'' (rn_sessions demo_opened_session)) = Some (False, Some demo_compute)"
  by (simp_all add: demo_opened_session_def demo_events_def demo_defs prepare_begin_def validate_tokens_def peek_def prepare_inspected_def demo_acquire
      prepare_loaded_def prepare_finish_def create_session_def session_ids_def new_record_def put_record_def Let_def)

text \<open>The converse does not hold. A close of the session that is being prepared does not take the lock of the
  preparation: it finds no session to close and releases the lease; the preparation then creates the
  session, which is open without the device it was prepared for.\<close>

definition demo_close :: close_request where
  "demo_close = \<lparr>clq_tokens = demo_tokens, clq_session_id = ''s''\<rparr>"

lemma close_during_prepare_loses_lease:
  assumes "rn = fst (runner_run demo_runner_env [Prepare_Begin (Some demo_tokens) demo_prepare, demo_inspected,
    Close_Begin (Some demo_tokens) demo_close, Close_End 0, Prepare_Loaded (Inr demo_compute) demo_time] (runner_init (demo_leases [])))"
  shows "open_in (rn_sessions rn) ''s'' \<and> holder (rn_leases rn) ''gpu-0'' = None"
proof -
  have "fst (release_session ''s'' (demo_leases [(''gpu-0'', ''s'')])) = demo_leases []" "holder (demo_leases []) ''gpu-0'' = None"
    by (simp_all add: release_session_def demo_leases_def holder_def)
  then show ?thesis unfolding assms
    by (simp add: demo_defs demo_close_def prepare_begin_def validate_tokens_def prepare_inspected_def demo_acquire open_in_def peek_def
      prepare_loaded_def prepare_finish_def create_session_def session_ids_def new_record_def put_record_def Let_def
      close_begin_def close_session_def close_end_def remove_at_def release_leases_def)
qed

text \<open>[C22] Leases do not leak, whatever the interleaving of calls, answers of the executor, failures and
  cancellations: in every state the runner reaches, a leased device belongs to a session that is open,
  to one that is being closed and whose lease is about to be released, or to the preparation that is
  under way. In particular, when no call waits, only open sessions hold devices.\<close>

theorem leases_never_leak:
  assumes "lm_leased_by lm = []" and "list_all event_checked evs" and "runner_run env evs (runner_init lm) = (rn, as)"
    and "holder (rn_leases rn) d = Some s"
  shows "(\<exists>r. peek s (rn_sessions rn) = Some r \<and> \<not> sre_closed r) \<or> s \<in> fst ` set (rn_closing rn)
    \<or> (\<exists>req tokens inspection ps. rn_preparing rn = Some (Loading req tokens inspection ps) \<and> prq_session_id req = s)"
proof -
  have "owns rn s" using runner_okD(5) [OF reached_ok(1) [OF assms(1-3)] assms(4)] .
  then consider "open_in (rn_sessions rn) s" | "s \<in> fst ` set (rn_closing rn)"
    | p where "rn_preparing rn = Some p" "holds_lease p" "preparation_session p = s" by (auto simp: owns_def)
  then show ?thesis
  proof cases
    case 1
    then show ?thesis by (simp add: open_in_def)
  next
    case (3 p)
    then show ?thesis by (cases p) auto
  qed simp
qed

theorem leases_never_leak_witness:
  "holder (rn_leases demo_opened_session) ''gpu-0'' = Some ''s'' \<and> (\<exists>r. peek ''s'' (rn_sessions demo_opened_session) = Some r \<and> \<not> sre_closed r)"
proof -
  have h: "holder (rn_leases demo_opened_session) ''gpu-0'' = Some ''s''" by (simp add: demo_prepare_run holder_def demo_leases_def)
  with leases_never_leak [OF _ demo_events_checked(1) demo_prepare_run(1) h] show ?thesis
    by (simp add: demo_prepare_run(2,3)) (simp add: demo_leases_def)
qed

text \<open>[C23] A case is measured at most once and is answered consistently: over any interleaving no measurement of
  a case is started twice in a session, every accepted answer to a run carries the outcome that the
  ledger has recorded for good, and two accepted answers about one case of one session, including
  retries and runs that were cancelled meanwhile, carry the same outcome.\<close>

theorem run_answers_agree:
  assumes "lm_leased_by lm = []" and "list_all event_checked evs" and "runner_run env evs (runner_init lm) = (rn, as)"
  shows "distinct (rn_measured rn)
    \<and> (\<forall>sid cid x. (sid, cid, Inr x) \<in> set as \<and> rrr_accepted x \<longrightarrow>
         (\<exists>e. case_entry sid cid (rn_sessions rn) = Some e \<and> terminal e \<and> lde_outcome e = rrr_outcome x))
    \<and> (\<forall>sid cid x y. (sid, cid, Inr x) \<in> set as \<and> rrr_accepted x \<and> (sid, cid, Inr y) \<in> set as \<and> rrr_accepted y
         \<longrightarrow> rrr_outcome x = rrr_outcome y)"
proof -
  note ok = reached_ok [OF assms]
  have rec: "\<exists>e. case_entry sid cid (rn_sessions rn) = Some e \<and> terminal e \<and> lde_outcome e = rrr_outcome x"
    if "(sid, cid, Inr x) \<in> set as" "rrr_accepted x" for sid cid x
    using ok(3) that by (fastforce simp: recorded_def)
  moreover have "rrr_outcome x = rrr_outcome y"
    if "(sid, cid, Inr x) \<in> set as" "rrr_accepted x" "(sid, cid, Inr y) \<in> set as" "rrr_accepted y" for sid cid x y
    using rec [OF that(1,2)] rec [OF that(3,4)] by auto
  ultimately show ?thesis using ok(2) unfolding measured_ok_def by blast
qed

theorem run_answers_agree_witness:
  "\<exists>rn. runner_run demo_runner_env demo_case_events (runner_init (demo_leases [])) = (rn, [(''n'', ''c'', Inr demo_answer), (''n'', ''c'', Inr demo_answer)])
    \<and> (\<exists>e. case_entry ''n'' ''c'' (rn_sessions rn) = Some e \<and> terminal e \<and> lde_outcome e = rrr_outcome demo_answer)"
proof -
  obtain rn where rn: "runner_run demo_runner_env demo_case_events (runner_init (demo_leases []))
      = (rn, [(''n'', ''c'', Inr demo_answer), (''n'', ''c'', Inr demo_answer)])" using demo_case_run by blast
  moreover have "rrr_accepted demo_answer" by (simp add: demo_answer_def)
  ultimately show ?thesis using run_answers_agree [OF _ demo_events_checked(2) rn] by (auto simp: demo_leases_def)
qed

text \<open>[C24] Shutdown releases everything even when cleanups fail: from any reachable state it ends with an empty
  lease table and every session closed, the cleanup of every session that was open has been called,
  and when it returns normally no iperf3 server is left.\<close>

theorem shutdown_releases_everything:
  assumes "lm_leased_by lm = []" and "list_all event_checked evs" and "runner_run env evs (runner_init lm) = (rn, as)"
    and "shutdown env stop rn = (rn', r)"
  shows "lm_leased_by (rn_leases rn') = [] \<and> (\<forall>s x. peek s (rn_sessions rn') = Some x \<longrightarrow> sre_closed x)
    \<and> (\<forall>s x h. peek s (rn_sessions rn) = Some x \<and> \<not> sre_closed x \<and> sre_model_cleanup x = Some h \<longrightarrow> (s, h) \<in> set (pm_cleanups (rn_sessions rn')))
    \<and> (r = Inr () \<longrightarrow> rn_iperf_servers rn' = [])"
  using shutdown_spec [OF reached_ok(1) [OF assms(1-3)] assms(4)] .

theorem shutdown_releases_everything_witness:
  "\<exists>rn' r. shutdown demo_runner_env (\<lambda>_. Inr ()) demo_opened_session = (rn', r) \<and> lm_leased_by (rn_leases rn') = []
    \<and> (''s'', demo_compute) \<in> set (pm_cleanups (rn_sessions rn'))"
proof -
  obtain rn' r where s: "shutdown demo_runner_env (\<lambda>_. Inr ()) demo_opened_session = (rn', r)" by fastforce
  have "lm_leased_by (demo_leases []) = []" by (simp add: demo_leases_def)
  from shutdown_releases_everything [OF this demo_events_checked(1) demo_prepare_run(1) s] demo_prepare_run(5)
  show ?thesis using s by auto
qed

end
