(* ===== verification/Payload_Codec.thy ===== *)
theory Payload_Codec
  imports Profiling_Domain
begin

section \<open>The payload codec\<close>

text \<open>
  \<^verbatim>\<open>profiling/codec.py\<close>: encoding of domain values as tagged JSON and the type-directed decoder. The codec works by
  reflection, so it is modelled over a universe of values \<open>pyval\<close> and of type hints \<open>hint\<close>, with a table
  that gives the fields of every dataclass (name, hint, default), the values of every enumeration and
  what the constructor's validation says of given fields. The hints that no profiling class uses (lists,
  dictionaries and \<^verbatim>\<open>Any\<close>) are left out, as are the paths in the messages of decoding errors.

  The text of a float and of a datetime, and reading them back, are functions of the standard library
  that the table carries; where a float is expected an integer is converted by \<open>ct_float_of_int\<close>,
  which is undefined on an integer that no float can hold (\<^verbatim>\<open>OverflowError\<close>, which the codec does not catch).
\<close>

datatype pyval =
    PNone
  | PBool bool
  | PInt int
  | PFloat pyfloat
  | PStr string
  | PEnum string string
  | PTime timestamp
  | PData string "(string \<times> pyval) list"
  | PTuple "pyval list"

datatype hint =
    HUnion "hint list"
  | HNone
  | HData string
  | HEnum string
  | HTime
  | HBool
  | HInt
  | HFloat
  | HStr
  | HTupleOf hint
  | HTuple "hint list"

type_synonym field_spec = "string \<times> hint \<times> pyval option"

record codec_table =
  ct_fields :: "string \<Rightarrow> field_spec list option"
  ct_enum :: "string \<Rightarrow> string list option"
  ct_init :: "string \<Rightarrow> (string \<times> pyval) list \<Rightarrow> unit res"
  ct_repr :: "rat \<Rightarrow> string"
  ct_parse_float :: "string \<Rightarrow> pyfloat"
  ct_float_of_int :: "int \<Rightarrow> pyfloat option"
  ct_isoformat :: "timestamp \<Rightarrow> string"
  ct_fromisoformat :: "string \<Rightarrow> timestamp option"

definition TYPE_TAG :: string where
  "TYPE_TAG = ''__type__''"

datatype codec_exn = Payload_Codec_Error | Overflow_Error | Escapes exn

type_synonym 'a dres = "codec_exn + 'a"

definition bind_dres :: "'a dres \<Rightarrow> ('a \<Rightarrow> 'b dres) \<Rightarrow> 'b dres" where
  "bind_dres r f = (case r of Inl e \<Rightarrow> Inl e | Inr x \<Rightarrow> f x)"

lemma bind_dres_simps [simp]: "bind_dres (Inl e) f = Inl e" "bind_dres (Inr x) f = f x"
  by (simp_all add: bind_dres_def)

lemma bind_dres_Inr: "bind_dres r f = Inr y \<longleftrightarrow> (\<exists>x. r = Inr x \<and> f x = Inr y)"
  by (cases r) auto

lemma bind_dres_cong [fundef_cong]: "\<lbrakk>r = r'; \<And>x. r' = Inr x \<Longrightarrow> f x = g x\<rbrakk> \<Longrightarrow> bind_dres r f = bind_dres r' g"
  by (cases r') auto


subsection \<open>Encoding\<close>

fun encode_payload :: "codec_table \<Rightarrow> pyval \<Rightarrow> json" where
  "encode_payload T PNone = JNull"
| "encode_payload T (PBool b) = JBool b"
| "encode_payload T (PInt i) = JInt i"
| "encode_payload T (PFloat x) = jfloat (ct_repr T) x"
| "encode_payload T (PStr s) = JStr s"
| "encode_payload T (PEnum c v) = JStr v"
| "encode_payload T (PTime t) = JStr (ct_isoformat T t)"
| "encode_payload T (PData c fs) = JObj ((TYPE_TAG, JStr c) # map (\<lambda>(n, v). (n, encode_payload T v)) fs)"
| "encode_payload T (PTuple vs) = JList (map (encode_payload T) vs)"

definition encode_json :: "codec_table \<Rightarrow> pyval \<Rightarrow> string dres" where
  "encode_json T v = (if finite_json (encode_payload T v) then Inr (dumps (encode_payload T v)) else Inl Payload_Codec_Error)"


subsection \<open>Decoding\<close>

lemma size_in_list [termination_simp]: "p \<in> set ps \<Longrightarrow> size p < size (JList ps)"
  by (induction ps) auto

lemma size_in_object [termination_simp]: "map_of kvs n = Some p \<Longrightarrow> size p < size (JObj kvs)"
  by (induction kvs) (auto split: if_splits)

fun is_data :: "hint \<Rightarrow> bool" where
  "is_data (HData c) = True"
| "is_data _ = False"

definition built_data :: "codec_table \<Rightarrow> string \<Rightarrow> (string \<times> pyval) list \<Rightarrow> pyval dres" where
  "built_data T c fs = (case ct_init T c fs of
     Inr _ \<Rightarrow> Inr (PData c fs) | Inl (ValueError _) \<Rightarrow> Inl Payload_Codec_Error | Inl e \<Rightarrow> Inl (Escapes e))"

definition extra_keys :: "field_spec list \<Rightarrow> (string \<times> json) list \<Rightarrow> bool" where
  "extra_keys specs kvs \<longleftrightarrow> (\<exists>k \<in> fst ` set kvs. k \<noteq> TYPE_TAG \<and> k \<notin> fst ` set specs)"

function (sequential) decode :: "codec_table \<Rightarrow> hint \<Rightarrow> json \<Rightarrow> pyval dres"
  and decode_first :: "codec_table \<Rightarrow> hint list \<Rightarrow> json \<Rightarrow> pyval dres"
  and decode_dataclass :: "codec_table \<Rightarrow> string \<Rightarrow> (string \<times> json) list \<Rightarrow> pyval dres"
  and decode_fields :: "codec_table \<Rightarrow> field_spec list \<Rightarrow> (string \<times> json) list \<Rightarrow> (string \<times> pyval) list dres"
  and decode_all :: "codec_table \<Rightarrow> hint \<Rightarrow> json list \<Rightarrow> pyval list dres"
  and decode_each :: "codec_table \<Rightarrow> hint list \<Rightarrow> json list \<Rightarrow> pyval list dres"
where
  "decode T (HUnion hs) p =
     (case p of
        JNull \<Rightarrow> if HNone \<in> set hs then Inr PNone else Inl Payload_Codec_Error
      | JObj kvs \<Rightarrow>
          if list_ex is_data hs then
            (case map_of kvs TYPE_TAG of
               Some (JStr tag) \<Rightarrow> if HData tag \<in> set hs then decode_dataclass T tag kvs else Inl Payload_Codec_Error
             | _ \<Rightarrow> Inl Payload_Codec_Error)
          else decode_first T hs p
      | _ \<Rightarrow> decode_first T hs p)"
| "decode T (HData c) p = (case p of JObj kvs \<Rightarrow> decode_dataclass T c kvs | _ \<Rightarrow> Inl Payload_Codec_Error)"
| "decode T (HEnum c) p =
     (case (p, ct_enum T c) of (JStr s, Some vs) \<Rightarrow> if s \<in> set vs then Inr (PEnum c s) else Inl Payload_Codec_Error | _ \<Rightarrow> Inl Payload_Codec_Error)"
| "decode T HTime p =
     (case p of JStr s \<Rightarrow> (case ct_fromisoformat T s of None \<Rightarrow> Inl Payload_Codec_Error | Some t \<Rightarrow> Inr (PTime t)) | _ \<Rightarrow> Inl Payload_Codec_Error)"
| "decode T HBool p = (case p of JBool b \<Rightarrow> Inr (PBool b) | _ \<Rightarrow> Inl Payload_Codec_Error)"
| "decode T HInt p = (case p of JInt i \<Rightarrow> Inr (PInt i) | _ \<Rightarrow> Inl Payload_Codec_Error)"
| "decode T HFloat p =
     (case p of
        JInt i \<Rightarrow> (case ct_float_of_int T i of None \<Rightarrow> Inl Overflow_Error | Some x \<Rightarrow> Inr (PFloat x))
      | JNum t \<Rightarrow> Inr (PFloat (ct_parse_float T t)) | _ \<Rightarrow> Inl Payload_Codec_Error)"
| "decode T HStr p = (case p of JStr s \<Rightarrow> Inr (PStr s) | _ \<Rightarrow> Inl Payload_Codec_Error)"
| "decode T (HTupleOf h) p = (case p of JList ps \<Rightarrow> bind_dres (decode_all T h ps) (\<lambda>vs. Inr (PTuple vs)) | _ \<Rightarrow> Inl Payload_Codec_Error)"
| "decode T (HTuple hs) p = (case p of JList ps \<Rightarrow> bind_dres (decode_each T hs ps) (\<lambda>vs. Inr (PTuple vs)) | _ \<Rightarrow> Inl Payload_Codec_Error)"
| "decode T HNone p = Inl Payload_Codec_Error"
| "decode_first T [] p = Inl Payload_Codec_Error"
| "decode_first T (h # hs) p = (case decode T h p of Inl Payload_Codec_Error \<Rightarrow> decode_first T hs p | r \<Rightarrow> r)"
| "decode_dataclass T c kvs =
     (if map_of kvs TYPE_TAG \<noteq> Some (JStr c) then Inl Payload_Codec_Error
      else case ct_fields T c of
        None \<Rightarrow> Inl Payload_Codec_Error
      | Some specs \<Rightarrow>
          bind_dres (decode_fields T specs kvs) (\<lambda>fs. if extra_keys specs kvs then Inl Payload_Codec_Error else built_data T c fs))"
| "decode_fields T [] kvs = Inr []"
| "decode_fields T ((n, h, d) # specs) kvs =
     (case map_of kvs n of
        None \<Rightarrow> (case d of None \<Rightarrow> Inl Payload_Codec_Error | Some v \<Rightarrow> bind_dres (decode_fields T specs kvs) (\<lambda>fs. Inr ((n, v) # fs)))
      | Some p \<Rightarrow> bind_dres (decode T h p) (\<lambda>v. bind_dres (decode_fields T specs kvs) (\<lambda>fs. Inr ((n, v) # fs))))"
| "decode_all T h [] = Inr []"
| "decode_all T h (p # ps) = bind_dres (decode T h p) (\<lambda>v. bind_dres (decode_all T h ps) (\<lambda>vs. Inr (v # vs)))"
| "decode_each T [] [] = Inr []"
| "decode_each T (h # hs) (p # ps) = bind_dres (decode T h p) (\<lambda>v. bind_dres (decode_each T hs ps) (\<lambda>vs. Inr (v # vs)))"
| "decode_each T _ _ = Inl Payload_Codec_Error"
  by pat_completeness auto

termination
  by (relation "measures
    [case_sum (\<lambda>x. case x of Inl (T, h, p) \<Rightarrow> size p | Inr (Inl (T, hs, p)) \<Rightarrow> size p | Inr (Inr (T, c, kvs)) \<Rightarrow> size (JObj kvs))
       (\<lambda>x. case x of Inl (T, fs, kvs) \<Rightarrow> size (JObj kvs) | Inr (Inl (T, h, ps)) \<Rightarrow> size (JList ps) | Inr (Inr (T, hs, ps)) \<Rightarrow> size (JList ps)),
     case_sum (\<lambda>x. case x of Inl _ \<Rightarrow> 2 | Inr (Inl _) \<Rightarrow> 2 | Inr (Inr _) \<Rightarrow> 1) (\<lambda>x. 0),
     case_sum (\<lambda>x. case x of Inl (T, h, p) \<Rightarrow> size h | Inr (Inl (T, hs, p)) \<Rightarrow> size_list size hs | Inr (Inr _) \<Rightarrow> 0)
       (\<lambda>x. case x of Inl (T, fs, kvs) \<Rightarrow> length fs | Inr _ \<Rightarrow> 0)]")
    (auto simp: size_in_object [simplified])


subsection \<open>Typed values\<close>

text \<open>The values a hint describes: an instance of a dataclass has the declared fields, in order, and has
  passed its validation.\<close>

inductive typed :: "codec_table \<Rightarrow> hint \<Rightarrow> pyval \<Rightarrow> bool" for T where
  typed_bool: "typed T HBool (PBool b)"
| typed_int: "typed T HInt (PInt i)"
| typed_float: "typed T HFloat (PFloat x)"
| typed_str: "typed T HStr (PStr s)"
| typed_time: "typed T HTime (PTime t)"
| typed_enum: "\<lbrakk>ct_enum T c = Some vs; v \<in> set vs\<rbrakk> \<Longrightarrow> typed T (HEnum c) (PEnum c v)"
| typed_data: "\<lbrakk>ct_fields T c = Some specs; list_all2 (\<lambda>s f. fst f = fst s \<and> typed T (fst (snd s)) (snd f)) specs fs; ct_init T c fs = Inr ()\<rbrakk>
    \<Longrightarrow> typed T (HData c) (PData c fs)"
| typed_tuple_of: "list_all (typed T h) vs \<Longrightarrow> typed T (HTupleOf h) (PTuple vs)"
| typed_tuple: "list_all2 (typed T) hs vs \<Longrightarrow> typed T (HTuple hs) (PTuple vs)"
| typed_none: "HNone \<in> set hs \<Longrightarrow> typed T (HUnion hs) PNone"
| typed_member: "\<lbrakk>h \<in> set hs; typed T h v\<rbrakk> \<Longrightarrow> typed T (HUnion hs) v"

inductive_cases typed_noneE [elim!]: "typed T HNone v"

definition defaults_ok :: "codec_table \<Rightarrow> bool" where
  "defaults_ok T \<longleftrightarrow> (\<forall>c specs n h v. ct_fields T c = Some specs \<and> (n, h, Some v) \<in> set specs \<longrightarrow> typed T h v)"

text \<open>The decoder returns only values of the hint.\<close>

lemma decode_sound:
  assumes "defaults_ok T"
  shows "decode T h p = Inr v \<Longrightarrow> typed T h v"
    and "decode_first T hs p = Inr v \<Longrightarrow> \<exists>h \<in> set hs. typed T h v"
    and "decode_dataclass T c kvs = Inr v \<Longrightarrow> typed T (HData c) v"
    and "\<lbrakk>decode_fields T specs kvs = Inr fs; \<forall>n h v. (n, h, Some v) \<in> set specs \<longrightarrow> typed T h v\<rbrakk>
      \<Longrightarrow> list_all2 (\<lambda>s f. fst f = fst s \<and> typed T (fst (snd s)) (snd f)) specs fs"
    and "decode_all T h ps = Inr vs \<Longrightarrow> list_all (typed T h) vs"
    and "decode_each T hs' ps' = Inr vs' \<Longrightarrow> list_all2 (typed T) hs' vs'"
  using assms
proof (induction T h p and T hs p and T c kvs and T specs kvs and T h ps and T hs' ps' arbitrary: v and v and v and fs and vs and vs'
    rule: decode_decode_first_decode_dataclass_decode_fields_decode_all_decode_each.induct)
  case (1 T hs p)
  then show ?case by (auto split: json.splits if_splits option.splits intro: typed.intros)
next
  case (14 T c kvs)
  then show ?case
    by (auto simp: bind_dres_Inr built_data_def defaults_ok_def split: if_splits option.splits sum.splits exn.splits intro!: typed_data)
next
  case (16 T n h d specs kvs)
  then show ?case by (fastforce simp: bind_dres_Inr split: option.splits)
qed (auto simp: bind_dres_Inr split: json.splits option.splits if_splits sum.splits codec_exn.splits intro: typed.intros)


subsection \<open>Unambiguous unions\<close>

text \<open>Which kinds of JSON values a hint accepts and which its values are encoded as. A union is decoded by
  trying its members in order, so a member must not accept what a later one produces; dataclasses are
  told apart by their tags.\<close>

datatype json_shape = S_Null | S_Bool | S_Int | S_Float | S_Str | S_List | S_Obj

fun shape_of :: "json \<Rightarrow> json_shape" where
  "shape_of JNull = S_Null"
| "shape_of (JBool _) = S_Bool"
| "shape_of (JInt _) = S_Int"
| "shape_of (JNum _) = S_Float"
| "shape_of (JStr _) = S_Str"
| "shape_of (JList _) = S_List"
| "shape_of (JObj _) = S_Obj"

fun produces :: "hint \<Rightarrow> json_shape list" where
  "produces HBool = [S_Bool]"
| "produces HInt = [S_Int]"
| "produces HFloat = [S_Float]"
| "produces HStr = [S_Str]"
| "produces (HEnum _) = [S_Str]"
| "produces HTime = [S_Str]"
| "produces (HTupleOf _) = [S_List]"
| "produces (HTuple _) = [S_List]"
| "produces (HData _) = [S_Obj]"
| "produces HNone = []"
| "produces (HUnion _) = []"

definition accepts :: "hint \<Rightarrow> json_shape list" where
  "accepts h = (if h = HFloat then [S_Int, S_Float] else produces h)"

fun is_union :: "hint \<Rightarrow> bool" where
  "is_union (HUnion _) = True"
| "is_union _ = False"

definition separable :: "hint list \<Rightarrow> bool" where
  "separable hs \<longleftrightarrow> \<not> list_ex is_union hs \<and> sorted_wrt (\<lambda>a b. is_data b \<or> set (accepts a) \<inter> set (produces b) = {}) hs"

fun wf_hint :: "hint \<Rightarrow> bool" where
  "wf_hint (HUnion hs) = (separable hs \<and> list_all wf_hint hs)"
| "wf_hint (HTupleOf h) = wf_hint h"
| "wf_hint (HTuple hs) = list_all wf_hint hs"
| "wf_hint _ = True"

definition wf_specs :: "field_spec list \<Rightarrow> bool" where
  "wf_specs specs \<longleftrightarrow> distinct (map fst specs) \<and> TYPE_TAG \<notin> set (map fst specs) \<and> list_all (\<lambda>(n, h, d). wf_hint h) specs"

definition wf_table :: "codec_table \<Rightarrow> bool" where
  "wf_table T \<longleftrightarrow> (\<forall>c specs. ct_fields T c = Some specs \<longrightarrow> wf_specs specs)"

text \<open>The library's texts of floats and datetimes can be read back.\<close>

fun float_literal :: "(rat \<Rightarrow> string) \<Rightarrow> pyfloat \<Rightarrow> string" where
  "float_literal fr (Fin x) = fr x"
| "float_literal fr PInf = ''Infinity''"
| "float_literal fr NInf = ''-Infinity''"
| "float_literal fr NaN = ''NaN''"

definition reads_back :: "codec_table \<Rightarrow> bool" where
  "reads_back T \<longleftrightarrow> (\<forall>x. ct_parse_float T (float_literal (ct_repr T) x) = x) \<and> (\<forall>t. ct_fromisoformat T (ct_isoformat T t) = Some t)"

lemma jfloat_literal: "jfloat fr x = JNum (float_literal fr x)"
  by (cases x) simp_all

lemma decode_rejects:
  assumes "shape_of p \<notin> set (accepts h)" "\<not> is_union h"
  shows "decode T h p = Inl Payload_Codec_Error"
  using assms by (cases h; cases p) (auto simp: accepts_def)

lemma encode_shape:
  assumes "typed T h v" "\<not> is_union h"
  shows "shape_of (key_sorted (encode_payload T v)) \<in> set (produces h)"
  using assms by (cases rule: typed.cases) (auto simp: jfloat_literal)

lemma decode_first_finds:
  assumes "h \<in> set hs" "separable hs" "\<not> is_data h" "shape_of p \<in> set (produces h)" "decode T h p = Inr v"
  shows "decode_first T hs p = Inr v"
  using assms
proof (induction hs)
  case (Cons a hs)
  show ?case
  proof (cases "a = h")
    case True
    with Cons.prems(5) show ?thesis by simp
  next
    case False
    with Cons.prems have "h \<in> set hs" "set (accepts a) \<inter> set (produces h) = {}" "\<not> is_union a" "separable hs"
      by (auto simp: separable_def)
    moreover from this Cons.prems(4) have "decode T a p = Inl Payload_Codec_Error" by (intro decode_rejects) auto
    ultimately show ?thesis using Cons.IH Cons.prems(3-5) by simp
  qed
qed simp

lemma decode_fields_finds:
  assumes "list_all2 (\<lambda>s f. fst f = fst s \<and> (\<exists>p. map_of kvs (fst f) = Some p \<and> decode T (fst (snd s)) p = Inr (snd f))) specs fs"
  shows "decode_fields T specs kvs = Inr fs"
  using assms by (induction rule: list_all2_induct) (auto simp: split_paired_all)

lemma decode_fields_present: "\<lbrakk>decode_fields T specs kvs = Inr fs; (n, h, None) \<in> set specs\<rbrakk> \<Longrightarrow> map_of kvs n \<noteq> None"
  by (induction specs arbitrary: fs) (auto simp: bind_dres_Inr split: option.splits)

lemma map_of_sort_key: "distinct (map fst xs) \<Longrightarrow> map_of (sort_key fst xs) = map_of xs"
  by (rule map_of_inject_set [THEN iffD2]) (simp_all add: distinct_map)


text \<open>The payload of an instance, with sorted keys.\<close>

definition object_of :: "codec_table \<Rightarrow> string \<Rightarrow> (string \<times> pyval) list \<Rightarrow> (string \<times> json) list" where
  "object_of T c fs = sort_key fst ((TYPE_TAG, JStr c) # map (\<lambda>(n, v). (n, key_sorted (encode_payload T v))) fs)"

lemma encode_object: "key_sorted (encode_payload T (PData c fs)) = JObj (object_of T c fs)"
  by (simp add: object_of_def comp_def case_prod_unfold)

lemma object_of_lookup:
  assumes "distinct (map fst fs)" "TYPE_TAG \<notin> fst ` set fs"
  shows "map_of (object_of T c fs) TYPE_TAG = Some (JStr c)"
    and "(n, v) \<in> set fs \<Longrightarrow> map_of (object_of T c fs) n = Some (key_sorted (encode_payload T v))"
    and "fst ` set (object_of T c fs) = insert TYPE_TAG (fst ` set fs)"
proof -
  let ?raw = "(TYPE_TAG, JStr c) # map (\<lambda>(n, v). (n, key_sorted (encode_payload T v))) fs"
  have d: "distinct (map fst ?raw)" using assms by (simp add: comp_def case_prod_unfold image_image)
  have m: "map_of (object_of T c fs) = map_of ?raw" unfolding object_of_def by (rule map_of_sort_key [OF d])
  show "map_of (object_of T c fs) TYPE_TAG = Some (JStr c)" by (simp add: m)
  show "map_of (object_of T c fs) n = Some (key_sorted (encode_payload T v))" if nv: "(n, v) \<in> set fs"
  proof -
    have "(n, key_sorted (encode_payload T v)) \<in> set ?raw" using nv by (auto intro: rev_image_eqI)
    with d show ?thesis unfolding m by (rule map_of_is_SomeI)
  qed
  show "fst ` set (object_of T c fs) = insert TYPE_TAG (fst ` set fs)"
    by (simp add: object_of_def image_image case_prod_unfold set_insort_key)
qed

lemma decode_encode:
  assumes "wf_table T" "reads_back T" "typed T h v" "wf_hint h"
  shows "decode T h (key_sorted (encode_payload T v)) = Inr v"
  using assms(3,4)
proof (induction rule: typed.induct)
  case (typed_data c specs fs)
  from typed_data.hyps(1) assms(1) have wf: "wf_specs specs" by (simp add: wf_table_def)
  have names: "map fst fs = map fst specs"
    using typed_data.IH by (induction rule: list_all2_induct) auto
  with wf have d: "distinct (map fst fs)" "TYPE_TAG \<notin> fst ` set fs"
    by (simp_all add: wf_specs_def) (metis image_set)
  note lookup = object_of_lookup [OF d, where T = T and c = c]
  have "list_all2 (\<lambda>s f. fst f = fst s \<and> (\<exists>p. map_of (object_of T c fs) (fst f) = Some p \<and> decode T (fst (snd s)) p = Inr (snd f))) specs fs"
  proof (rule list_all2_all_nthI)
    show "length specs = length fs" using names by (metis length_map)
    fix i assume i: "i < length specs"
    have f: "(fst (fs ! i), snd (fs ! i)) \<in> set fs" using i names by (metis length_map nth_mem prod.collapse)
    have "wf_hint (fst (snd (specs ! i)))" using wf i by (auto simp: wf_specs_def list_all_length case_prod_unfold)
    with list_all2_nthD [OF typed_data.IH i] lookup(2) [OF f]
    show "fst (fs ! i) = fst (specs ! i) \<and> (\<exists>p. map_of (object_of T c fs) (fst (fs ! i)) = Some p \<and> decode T (fst (snd (specs ! i))) p = Inr (snd (fs ! i)))"
      by simp
  qed
  then have "decode_fields T specs (object_of T c fs) = Inr fs" by (rule decode_fields_finds)
  moreover have "\<not> extra_keys specs (object_of T c fs)"
    using lookup(3) names by (auto simp: extra_keys_def) (metis image_eqI image_set fst_conv)
  ultimately show ?case using typed_data.hyps lookup(1) by (simp add: encode_object built_data_def del: encode_payload.simps key_sorted.simps)
next
  case (typed_tuple_of h vs)
  then have "decode_all T h (map key_sorted (map (encode_payload T) vs)) = Inr vs" by (induction vs) auto
  then show ?case by simp
next
  case (typed_tuple hs vs)
  from typed_tuple(1,2) have "decode_each T hs (map key_sorted (map (encode_payload T) vs)) = Inr vs"
    by (induction rule: list_all2_induct) auto
  then show ?case by simp
next
  case (typed_member h hs v)
  let ?p = "key_sorted (encode_payload T v)"
  from typed_member have wf: "separable hs" "\<not> is_union h" "wf_hint h" by (auto simp: separable_def list_all_iff list_ex_iff)
  then have dec: "decode T h ?p = Inr v" and shape: "shape_of ?p \<in> set (produces h)"
    using typed_member.IH encode_shape [OF typed_member.hyps(2)] by simp_all
  show ?case
  proof (cases "is_data h")
    case True
    then obtain c where c: "h = HData c" by (cases h) auto
    from typed_member.hyps(2) obtain fs where v: "v = PData c fs" unfolding c by (cases rule: typed.cases) auto
    from dec have dd: "decode_dataclass T c (object_of T c fs) = Inr v"
      by (simp add: v c encode_object del: encode_payload.simps key_sorted.simps)
    then have "map_of (object_of T c fs) TYPE_TAG = Some (JStr c)" by (auto split: if_splits)
    with dd typed_member.hyps(1) show ?thesis
      by (auto simp: v c encode_object list_ex_iff simp del: encode_payload.simps key_sorted.simps decode_dataclass.simps)
  next
    case False
    have "decode_first T hs ?p = Inr v" by (rule decode_first_finds [OF typed_member.hyps(1) wf(1) False shape dec])
    moreover have "shape_of ?p \<noteq> S_Null" "shape_of ?p \<noteq> S_Obj" using shape False by (cases h; auto)+
    ultimately show ?thesis by (cases ?p) auto
  qed
qed (use assms(2) in \<open>auto simp: reads_back_def jfloat_literal\<close>)

end
