(* ===== verification/Json_Reader.thy ===== *)
theory Json_Reader
  imports Canonical_Json "HOL-Library.AList"
begin

section \<open>Reading JSON text\<close>

text \<open>
  \<^verbatim>\<open>json.loads\<close> of the Python standard library, as the payload codec uses it: white space between tokens, string
  escapes, numbers by their grammar, and objects as dicts in which the last of several equal keys
  counts. A string is a list of characters below 256, so an escape above that is refused; so are a raw
  control character in a string and trailing text. The recursion has fuel, one unit per nesting level
  and per element; \<open>loads\<close> gives it the length of the text, which is always enough for a printed value.
\<close>

subsection \<open>Tokens\<close>

definition json_space :: "char \<Rightarrow> bool" where
  "json_space c \<longleftrightarrow> c = CHR 0x20 \<or> c = CHR 0x09 \<or> c = CHR 0x0A \<or> c = CHR 0x0D"

definition skip_space :: "string \<Rightarrow> string" where
  "skip_space s = dropWhile json_space s"

definition hex_char :: "char \<Rightarrow> bool" where
  "hex_char c \<longleftrightarrow> (let n = of_char c :: nat in (48 \<le> n \<and> n < 58) \<or> (97 \<le> n \<and> n < 103))"

text \<open>One character of a string; upper-case hexadecimal digits are read like lower-case ones.\<close>

definition lower_hex :: "char \<Rightarrow> char" where
  "lower_hex c = (let n = of_char c :: nat in if 65 \<le> n \<and> n < 71 then char_of (n + 32) else c)"

fun read_escape :: "string \<Rightarrow> (char \<times> string) option" where
  "read_escape [] = None"
| "read_escape (b # r) =
     (if b = CHR 0x22 \<or> b = CHR 0x5C \<or> b = CHR ''/'' then Some (b, r)
      else if b = CHR ''n'' then Some (CHR 0x0A, r)
      else if b = CHR ''r'' then Some (CHR 0x0D, r)
      else if b = CHR ''t'' then Some (CHR 0x09, r)
      else if b = CHR ''f'' then Some (CHR 0x0C, r)
      else if b = CHR ''b'' then Some (CHR 0x08, r)
      else if b = CHR ''u'' then
        (case r of
           x # y # h # l # q \<Rightarrow>
             if x = CHR ''0'' \<and> y = CHR ''0'' \<and> hex_char (lower_hex h) \<and> hex_char (lower_hex l)
             then Some (char_of (16 * unhex (lower_hex h) + unhex (lower_hex l)), q) else None
         | _ \<Rightarrow> None)
      else None)"

fun read_chars :: "nat \<Rightarrow> string \<Rightarrow> (string \<times> string) option" where
  "read_chars 0 s = None"
| "read_chars (Suc n) [] = None"
| "read_chars (Suc n) (a # r) =
     (if a = CHR 0x22 then Some ([], r)
      else if (of_char a :: nat) < 32 then None
      else case (if a = CHR 0x5C then read_escape r else Some (a, r)) of
        None \<Rightarrow> None
      | Some (c, q) \<Rightarrow> map_option (\<lambda>(s, q'). (c # s, q')) (read_chars n q))"

definition literal_char :: "char \<Rightarrow> bool" where
  "literal_char c \<longleftrightarrow> number_char c \<or> c = CHR ''E''"

definition without_sign :: "string \<Rightarrow> string" where
  "without_sign t = (case t of [] \<Rightarrow> [] | c # d \<Rightarrow> if c = CHR ''-'' then d else t)"

definition natural_literal :: "string \<Rightarrow> bool" where
  "natural_literal d \<longleftrightarrow> d \<noteq> [] \<and> list_all digit d \<and> (hd d = CHR ''0'' \<longrightarrow> length d = 1)"

definition int_literal :: "string \<Rightarrow> bool" where
  "int_literal t \<longleftrightarrow> natural_literal (without_sign t)"

definition int_value :: "string \<Rightarrow> int" where
  "int_value t = (if t \<noteq> [] \<and> hd t = CHR ''-'' then - int (str_nat (tl t) 0) else int (str_nat t 0))"

definition exponent_literal :: "string \<Rightarrow> bool" where
  "exponent_literal e \<longleftrightarrow> (case e of [] \<Rightarrow> False | c # d \<Rightarrow> (c = CHR ''e'' \<or> c = CHR ''E'')
     \<and> (let n = (case d of [] \<Rightarrow> [] | s # x \<Rightarrow> if s = CHR ''+'' \<or> s = CHR ''-'' then x else d) in n \<noteq> [] \<and> list_all digit n))"

text \<open>A number with a fraction, an exponent or both.\<close>

definition float_token :: "string \<Rightarrow> bool" where
  "float_token t \<longleftrightarrow> (let d = without_sign t; i = takeWhile digit d; r = dropWhile digit d in
     natural_literal i \<and> (case r of [] \<Rightarrow> False | c # f \<Rightarrow>
       if c = CHR ''.'' then takeWhile digit f \<noteq> [] \<and> (let e = dropWhile digit f in e = [] \<or> exponent_literal e)
       else exponent_literal r))"

definition read_number :: "string \<Rightarrow> (json \<times> string) option" where
  "read_number s = (let t = takeWhile literal_char s; r = dropWhile literal_char s in
     if int_literal t then Some (JInt (int_value t), r) else if float_token t then Some (JNum t, r) else None)"

definition after :: "string \<Rightarrow> string \<Rightarrow> string option" where
  "after w s = (if take (length w) s = w then Some (drop (length w) s) else None)"

definition read_literal :: "string \<Rightarrow> (json \<times> string) option" where
  "read_literal s =
     (case after ''null'' s of Some q \<Rightarrow> Some (JNull, q) | None \<Rightarrow>
      case after ''true'' s of Some q \<Rightarrow> Some (JBool True, q) | None \<Rightarrow>
      case after ''false'' s of Some q \<Rightarrow> Some (JBool False, q) | None \<Rightarrow>
      case after ''NaN'' s of Some q \<Rightarrow> Some (JNum ''NaN'', q) | None \<Rightarrow>
      case after ''Infinity'' s of Some q \<Rightarrow> Some (JNum ''Infinity'', q) | None \<Rightarrow>
      case after ''-Infinity'' s of Some q \<Rightarrow> Some (JNum ''-Infinity'', q) | None \<Rightarrow> read_number s)"


subsection \<open>Values\<close>

definition dict_items :: "(string \<times> 'v) list \<Rightarrow> (string \<times> 'v) list" where
  "dict_items kvs = fold (\<lambda>(k, v). AList.update k v) kvs []"

fun read_value :: "nat \<Rightarrow> string \<Rightarrow> (json \<times> string) option"
  and read_items :: "nat \<Rightarrow> string \<Rightarrow> (json list \<times> string) option"
  and read_pairs :: "nat \<Rightarrow> string \<Rightarrow> ((string \<times> json) list \<times> string) option"
where
  "read_value 0 s = None"
| "read_value (Suc n) s =
     (case skip_space s of
        [] \<Rightarrow> None
      | c # r \<Rightarrow>
          if c = CHR 0x22 then map_option (\<lambda>(x, q). (JStr x, q)) (read_chars (Suc (length r)) r)
          else if c = CHR ''['' then
            (case skip_space r of
               [] \<Rightarrow> None
             | d # q \<Rightarrow> if d = CHR '']'' then Some (JList [], q) else map_option (\<lambda>(xs, q). (JList xs, q)) (read_items n r))
          else if c = CHR ''{'' then
            (case skip_space r of
               [] \<Rightarrow> None
             | d # q \<Rightarrow> if d = CHR ''}'' then Some (JObj [], q) else map_option (\<lambda>(kvs, q). (JObj (dict_items kvs), q)) (read_pairs n r))
          else read_literal (c # r))"
| "read_items 0 s = None"
| "read_items (Suc n) s =
     (case read_value n s of
        None \<Rightarrow> None
      | Some (v, q) \<Rightarrow>
          (case skip_space q of
             [] \<Rightarrow> None
           | c # q' \<Rightarrow>
               if c = CHR '','' then map_option (\<lambda>(vs, q''). (v # vs, q'')) (read_items n q')
               else if c = CHR '']'' then Some ([v], q') else None))"
| "read_pairs 0 s = None"
| "read_pairs (Suc n) s =
     (case skip_space s of
        [] \<Rightarrow> None
      | a # r \<Rightarrow>
          if a \<noteq> CHR 0x22 then None
          else (case read_chars (Suc (length r)) r of
             None \<Rightarrow> None
           | Some (k, q) \<Rightarrow>
               (case skip_space q of
                  [] \<Rightarrow> None
                | b # q1 \<Rightarrow>
                    if b \<noteq> CHR '':'' then None
                    else (case read_value n q1 of
                       None \<Rightarrow> None
                     | Some (v, q2) \<Rightarrow>
                         (case skip_space q2 of
                            [] \<Rightarrow> None
                          | c # q3 \<Rightarrow>
                              if c = CHR '','' then map_option (\<lambda>(kvs, q4). ((k, v) # kvs, q4)) (read_pairs n q3)
                              else if c = CHR ''}'' then Some ([(k, v)], q3) else None)))))"

definition loads :: "string \<Rightarrow> json option" where
  "loads s = (case read_value (Suc (length s)) s of None \<Rightarrow> None | Some (v, q) \<Rightarrow> if skip_space q = [] then Some v else None)"


subsection \<open>Reading back what was printed\<close>

lemma hex_digit_read: "n < 16 \<Longrightarrow> hex_char (lower_hex (hex_digit n)) \<and> unhex (lower_hex (hex_digit n)) = n"
  by (simp add: hex_char_def lower_hex_def unhex_def hex_digit_def of_char_of take_bit_eq_mod Let_def)

lemma json_char_read:
  "(json_char c = [c] \<and> c \<noteq> CHR 0x22 \<and> c \<noteq> CHR 0x5C \<and> 32 \<le> (of_char c :: nat))
   \<or> (\<exists>e. json_char c = CHR 0x5C # e \<and> (\<forall>q. read_escape (e @ q) = Some (c, q)))"
proof (cases c rule: json_char_cases)
  case plain
  have "32 \<le> (of_char c :: nat)" using plain(3) by (rule contrapos_pp) (simp add: json_char_def Let_def)
  with plain show ?thesis by simp
next
  case hex
  have "of_char c div 16 < (16 :: nat)" "of_char c mod 16 < (16 :: nat)" by (simp_all add: less_mult_imp_div_less)
  then show ?thesis by (simp add: hex hex_digit_read)
qed (simp_all add: json_char_def)

lemma read_chars_printed: "length s < n \<Longrightarrow> read_chars n (concat (map json_char s) @ CHR 0x22 # r) = Some (s, r)"
proof (induction s arbitrary: n)
  case Nil
  then show ?case by (cases n) auto
next
  case (Cons c s)
  then obtain m where m: "n = Suc m" "length s < m" by (cases n) auto
  from Cons.IH [OF m(2)] json_char_read [of c] show ?case
    by (elim disjE exE conjE) (simp_all add: m(1))
qed

lemma json_char_nonempty: "0 < length (json_char c)"
  using json_char_head [of c] by auto

lemma length_json_chars: "length s \<le> length (concat (map json_char s))"
proof (induction s)
  case (Cons c s)
  with json_char_nonempty [of c] show ?case by (cases "json_char c") auto
qed simp

lemma read_chars_string: "read_chars (Suc (length (concat (map json_char s) @ CHR 0x22 # r))) (concat (map json_char s) @ CHR 0x22 # r) = Some (s, r)"
  using length_json_chars [of s] by (intro read_chars_printed) simp

lemma digit_literal: "digit c \<Longrightarrow> literal_char c"
  by (simp add: literal_char_def number_char_def)

lemma delimited_literal:
  assumes "list_all literal_char t" "delimited r"
  shows "takeWhile literal_char (t @ r) = t" "dropWhile literal_char (t @ r) = r"
proof -
  have "takeWhile literal_char r = []" "dropWhile literal_char r = r"
    using assms(2) by (auto simp: delimited_def literal_char_def number_char_def digit_def split: list.splits)
  with assms(1) show "takeWhile literal_char (t @ r) = t" "dropWhile literal_char (t @ r) = r"
    by (simp_all add: list_all_iff takeWhile_append2 dropWhile_append2)
qed

lemma nat_str_leading: "hd (nat_str n) = CHR ''0'' \<Longrightarrow> length (nat_str n) = 1"
proof (induction n rule: nat_str.induct)
  case (1 n)
  show ?case
  proof (cases "n < 10")
    case True
    then show ?thesis by (simp add: nat_str.simps [of n])
  next
    case False
    with "1.prems" have "hd (nat_str (n div 10)) = CHR ''0''" by (simp add: nat_str.simps [of n])
    with "1.IH" [OF False] have "length (nat_str (n div 10)) = 1" by simp
    moreover from this \<open>hd (nat_str (n div 10)) = CHR ''0''\<close> have "nat_str (n div 10) = ''0''" by (cases "nat_str (n div 10)") auto
    then have "n div 10 = 0" using str_nat_nat_str [of "n div 10"] by simp
    ultimately show ?thesis using False by simp
  qed
qed

lemma nat_str_literal: "natural_literal (nat_str n)"
  using nat_str_leading nat_str_digits by (auto simp: natural_literal_def list_all_iff digit_def)

lemma int_str_literal: "int_literal (int_str i)" "int_value (int_str i) = i" "list_all literal_char (int_str i)"
proof -
  obtain c s where h: "nat_str (nat i) = c # s" "digit c" using nat_str_head by blast
  have "c \<noteq> CHR ''-''" using h(2) by (auto simp: digit_def)
  with h(1) show "int_literal (int_str i)" "int_value (int_str i) = i"
    using nat_str_literal [of "nat i"] nat_str_literal [of "nat (- i)"] str_nat_nat_str [of "nat i"] str_nat_nat_str [of "nat (- i)"]
    by (auto simp: int_literal_def int_value_def int_str_def without_sign_def)
  show "list_all literal_char (int_str i)"
    using int_str_chars by (auto simp: list_all_iff literal_char_def number_char_def)
qed

lemma digits_literal: "list_all digit ds \<Longrightarrow> list_all literal_char ds"
  by (auto simp: list_all_iff digit_literal)

lemma exponent_chars:
  assumes "exponent_literal e"
  shows "list_all literal_char e" "\<not> digit (hd e)" "e \<noteq> []"
proof -
  from assms obtain c d where e: "e = c # d" "c = CHR ''e'' \<or> c = CHR ''E''" by (auto simp: exponent_literal_def split: list.splits)
  have "list_all literal_char d"
  proof (cases d)
    case (Cons s x)
    with assms e show ?thesis
      by (cases "s = CHR ''+'' \<or> s = CHR ''-''")
        (auto simp: exponent_literal_def Let_def literal_char_def number_char_def intro!: digits_literal)
  qed simp
  with e show "list_all literal_char e" "\<not> digit (hd e)" "e \<noteq> []" by (auto simp: literal_char_def number_char_def digit_def)
qed

lemma float_token_chars:
  assumes "float_token t"
  shows "list_all literal_char t" "\<not> int_literal t"
proof -
  let ?d = "without_sign t"
  obtain i r where ir: "i = takeWhile digit ?d" "r = dropWhile digit ?d" by blast
  have d: "?d = i @ r" by (simp add: ir)
  have form: "case r of [] \<Rightarrow> False | c # f \<Rightarrow> if c = CHR ''.''
      then takeWhile digit f \<noteq> [] \<and> (dropWhile digit f = [] \<or> exponent_literal (dropWhile digit f)) else exponent_literal r"
    using assms unfolding float_token_def Let_def ir by simp
  then have ne: "r \<noteq> []" by auto
  then have "\<not> digit (hd r)" using ir(2) hd_dropWhile by blast
  with ne have "\<not> list_all digit r" by (cases r) auto
  then show "\<not> int_literal t" by (simp add: int_literal_def natural_literal_def d)
  have "list_all literal_char i" using ir(1) by (auto simp: list_all_iff dest: set_takeWhileD digit_literal)
  moreover have "list_all literal_char r"
  proof (cases r)
    case (Cons c f)
    show ?thesis
    proof (cases "c = CHR ''.''")
      case True
      have "f = takeWhile digit f @ dropWhile digit f" by simp
      moreover have "list_all literal_char (takeWhile digit f)" by (auto simp: list_all_iff dest: set_takeWhileD digit_literal)
      moreover have "list_all literal_char (dropWhile digit f)"
        using form Cons True exponent_chars(1) by (cases "dropWhile digit f = []") (simp_all del: dropWhile_eq_Nil_conv)
      ultimately have "list_all literal_char f" by (metis list_all_append)
      with Cons True show ?thesis by (simp add: literal_char_def number_char_def)
    next
      case False
      with form Cons have "exponent_literal r" by simp
      then show ?thesis by (rule exponent_chars(1))
    qed
  qed simp
  ultimately have "list_all literal_char ?d" by (simp add: d)
  then show "list_all literal_char t" by (auto simp: without_sign_def literal_char_def number_char_def split: list.splits if_splits)
qed


lemma read_number_int: "delimited r \<Longrightarrow> read_number (int_str i @ r) = Some (JInt i, r)"
  using int_str_literal [of i] delimited_literal [of "int_str i" r] by (simp add: read_number_def)

lemma read_number_float: "\<lbrakk>float_token t; delimited r\<rbrakk> \<Longrightarrow> read_number (t @ r) = Some (JNum t, r)"
  using float_token_chars [of t] delimited_literal [of t r] by (simp add: read_number_def)

text \<open>The text of a number starts with a digit or with a minus and a digit.\<close>

definition number_start :: "string \<Rightarrow> bool" where
  "number_start t \<longleftrightarrow> (\<exists>c d. without_sign t = c # d \<and> digit c)"

lemma int_str_start: "number_start (int_str i)"
  using int_str_literal(1) [of i] by (cases "without_sign (int_str i)") (auto simp: number_start_def int_literal_def natural_literal_def)

lemma float_token_start: "float_token t \<Longrightarrow> number_start t"
proof -
  assume "float_token t"
  then have "natural_literal (takeWhile digit (without_sign t))" by (simp add: float_token_def Let_def)
  then have "takeWhile digit (without_sign t) \<noteq> []" by (simp add: natural_literal_def)
  then show ?thesis by (cases "without_sign t") (auto simp: number_start_def split: if_splits)
qed

lemma number_start_head:
  assumes "number_start t"
  obtains c d where "t = c # d" "digit c" | c d where "t = CHR ''-'' # c # d" "digit c"
  using assms by (auto simp: number_start_def without_sign_def split: list.splits if_splits)

lemma digit_distinct: "digit c \<Longrightarrow> c \<notin> {CHR ''n'', CHR ''t'', CHR ''f'', CHR ''N'', CHR ''I'', CHR ''-'', CHR 0x22, CHR ''['', CHR ''{'', CHR 0x20, CHR 0x09, CHR 0x0A, CHR 0x0D}"
  by (auto simp: digit_def)

lemma read_literal_number: "number_start t \<Longrightarrow> read_literal (t @ r) = read_number (t @ r)"
proof (erule number_start_head)
  fix c d
  assume t: "t = c # d" "digit c"
  from digit_distinct [OF t(2)] show ?thesis by (simp add: t(1) read_literal_def after_def)
next
  fix c d
  assume t: "t = CHR ''-'' # c # d" "digit c"
  from digit_distinct [OF t(2)] show ?thesis by (simp add: t(1) read_literal_def after_def)
qed

text \<open>A value that prints to text: its objects have increasing keys and its floats are numbers of the grammar.\<close>

fun readable :: "json \<Rightarrow> bool" where
  "readable (JList xs) = list_all readable xs"
| "readable (JObj kvs) = (sorted_wrt (<) (map fst kvs) \<and> list_all readable (map snd kvs))"
| "readable (JNum t) = float_token t"
| "readable _ = True"

lemma dumps_obj_readable:
  assumes "sorted_wrt (<) (map fst kvs)"
  shows "dumps (JObj kvs) = ''{'' @ comma_join (map (\<lambda>(k, v). json_string k @ '':'' @ dumps v) kvs) @ ''}''"
proof -
  have "sorted (map fst (map (\<lambda>(k, v). (k, dumps v)) kvs))"
    using assms by (simp add: comp_def case_prod_unfold strict_sorted_imp_sorted)
  then have "sort_key fst (map (\<lambda>(k, v). (k, dumps v)) kvs) = map (\<lambda>(k, v). (k, dumps v)) kvs" by (rule sort_key_id_if_sorted)
  then show ?thesis by (simp add: comp_def case_prod_unfold)
qed

lemma dumps_start: "readable v \<Longrightarrow> \<exists>c s. dumps v = c # s \<and> \<not> json_space c \<and> c \<noteq> CHR '']'' \<and> c \<noteq> CHR ''}''"
proof (cases v)
  case (JInt i)
  show ?thesis by (rule number_start_head [OF int_str_start [of i]]) (auto simp: JInt json_space_def digit_def)
next
  case (JNum t)
  assume "readable v"
  with JNum have "number_start t" by (simp add: float_token_start)
  then show ?thesis by (rule number_start_head) (auto simp: JNum json_space_def digit_def)
qed (auto simp: json_string_def json_space_def)

lemma skip_space_delimited: "delimited r \<Longrightarrow> skip_space r = r"
  by (auto simp: skip_space_def delimited_def json_space_def split: list.splits)

lemma dict_items_distinct: "distinct (map fst kvs) \<Longrightarrow> dict_items kvs = kvs"
proof -
  have "fold (\<lambda>(k, v). AList.update k v) kvs acc = acc @ kvs" if "distinct (map fst (acc @ kvs))" for acc
    using that
  proof (induction kvs arbitrary: acc)
    case (Cons p kvs)
    obtain k v where p: "p = (k, v)" by fastforce
    with Cons.prems have "AList.update k v acc = acc @ [(k, v)]" by (induction acc) auto
    with Cons.IH [of "acc @ [p]"] Cons.prems p show ?case by simp
  qed simp
  then show "distinct (map fst kvs) \<Longrightarrow> dict_items kvs = kvs" by (simp add: dict_items_def)
qed


lemma read_items_printed:
  assumes "\<And>x n q. \<lbrakk>x \<in> set xs; delimited q; length (dumps x) \<le> n\<rbrakk> \<Longrightarrow> read_value n (dumps x @ q) = Some (x, q)"
    and "xs \<noteq> []" "length (comma_join (map dumps xs)) < n"
  shows "read_items n (comma_join (map dumps xs) @ CHR '']'' # r) = Some (xs, r)"
  using assms
proof (induction xs arbitrary: n)
  case (Cons x xs)
  then obtain m where m: "n = Suc m" "length (comma_join (map dumps (x # xs))) \<le> m" by (cases n) auto
  have len: "length (dumps x) \<le> m" using m(2) by (simp add: comma_join_Cons split: if_splits)
  show ?case
  proof (cases "xs = []")
    case True
    from Cons.prems(1) [OF _ _ len, of "CHR '']'' # r"] show ?thesis
      by (simp add: m(1) True delimited_def skip_space_def json_space_def)
  next
    case False
    then have "read_items m (comma_join (map dumps xs) @ CHR '']'' # r) = Some (xs, r)"
      using m(2) Cons.prems(1) by (intro Cons.IH) (auto simp: comma_join_Cons)
    moreover have "read_value m (dumps x @ CHR '','' # comma_join (map dumps xs) @ CHR '']'' # r)
        = Some (x, CHR '','' # comma_join (map dumps xs) @ CHR '']'' # r)"
      using Cons.prems(1) [OF _ _ len] by (simp add: delimited_def)
    ultimately show ?thesis using False by (simp add: m(1) comma_join_Cons skip_space_def json_space_def)
  qed
qed simp

abbreviation print_pair :: "string \<times> json \<Rightarrow> string" where
  "print_pair \<equiv> \<lambda>(k, v). json_string k @ '':'' @ dumps v"

lemma json_string_eq: "json_string k = CHR 0x22 # concat (map json_char k) @ [CHR 0x22]"
  by (simp add: json_string_def)

lemma skip_space_sign: "\<not> json_space c \<Longrightarrow> skip_space (c # r) = c # r"
  by (simp add: skip_space_def)

lemmas sign_facts = skip_space_sign json_space_def

lemma read_pairs_step:
  assumes "read_value m (dumps v @ q) = Some (v, q)" "q = c # q'" "\<not> json_space c"
  shows "read_pairs (Suc m) (print_pair (k, v) @ q) =
    (if c = CHR '','' then map_option (\<lambda>(kvs, q4). ((k, v) # kvs, q4)) (read_pairs m q') else if c = CHR ''}'' then Some ([(k, v)], q') else None)"
proof -
  have "read_chars (Suc (length (concat (map json_char k) @ CHR 0x22 # CHR '':'' # dumps v @ q))) (concat (map json_char k) @ CHR 0x22 # CHR '':'' # dumps v @ q)
      = Some (k, CHR '':'' # dumps v @ q)" by (rule read_chars_string)
  with assms show ?thesis by (simp add: json_string_eq sign_facts)
qed

lemma read_pairs_printed:
  assumes "\<And>k x n q. \<lbrakk>(k, x) \<in> set kvs; delimited q; length (dumps x) \<le> n\<rbrakk> \<Longrightarrow> read_value n (dumps x @ q) = Some (x, q)"
    and "kvs \<noteq> []" "length (comma_join (map print_pair kvs)) < n"
  shows "read_pairs n (comma_join (map print_pair kvs) @ CHR ''}'' # r) = Some (kvs, r)"
  using assms
proof (induction kvs arbitrary: n)
  case (Cons p kvs)
  obtain k x where p: "p = (k, x)" by fastforce
  from Cons.prems obtain m where m: "n = Suc m" "length (comma_join (map print_pair (p # kvs))) \<le> m" by (cases n) auto
  have len: "length (dumps x) \<le> m" using m(2) by (simp add: p comma_join_Cons split: if_splits)
  show ?case
  proof (cases "kvs = []")
    case True
    from Cons.prems(1) [OF _ _ len, of k "CHR ''}'' # r"] have "read_value m (dumps x @ CHR ''}'' # r) = Some (x, CHR ''}'' # r)"
      by (simp add: p delimited_def)
    from read_pairs_step [OF this refl] show ?thesis by (simp add: m(1) p True json_space_def)
  next
    case False
    let ?q = "comma_join (map print_pair kvs) @ CHR ''}'' # r"
    have "read_pairs m ?q = Some (kvs, r)" using False m(2) Cons.prems(1) by (intro Cons.IH) (auto simp: p comma_join_Cons)
    moreover from Cons.prems(1) [OF _ _ len, of k "CHR '','' # ?q"]
    have "read_value m (dumps x @ CHR '','' # ?q) = Some (x, CHR '','' # ?q)" by (simp add: p delimited_def)
    from read_pairs_step [OF this refl, of k]
    have "read_pairs (Suc m) (print_pair (k, x) @ CHR '','' # ?q) = map_option (\<lambda>(kvs, q4). ((k, x) # kvs, q4)) (read_pairs m ?q)"
      by (simp add: json_space_def)
    ultimately show ?thesis using False by (simp add: m(1) p comma_join_Cons)
  qed
qed simp

lemma read_literal_words:
  "delimited r \<Longrightarrow> read_literal (''null'' @ r) = Some (JNull, r)"
  "delimited r \<Longrightarrow> read_literal (''true'' @ r) = Some (JBool True, r)"
  "delimited r \<Longrightarrow> read_literal (''false'' @ r) = Some (JBool False, r)"
  by (simp_all add: read_literal_def after_def)

lemma read_value_number:
  assumes "number_start t" "read_number (t @ r) = Some (v, r)"
  shows "read_value (Suc n) (t @ r) = Some (v, r)"
proof (rule number_start_head [OF assms(1)])
  fix c d
  assume t: "t = c # d" "digit c"
  from digit_distinct [OF t(2)] read_literal_number [OF assms(1), of r] assms(2) show ?thesis by (simp add: t(1) sign_facts)
next
  fix c d
  assume t: "t = CHR ''-'' # c # d" "digit c"
  from read_literal_number [OF assms(1), of r] assms(2) show ?thesis by (simp add: t(1) sign_facts)
qed

theorem read_value_printed: "\<lbrakk>readable v; delimited r; length (dumps v) \<le> n\<rbrakk> \<Longrightarrow> read_value n (dumps v @ r) = Some (v, r)"
proof (induction v arbitrary: r n)
  case JNull
  then obtain m where "n = Suc m" by (cases n) auto
  with JNull read_literal_words(1) [of r] show ?case by (simp add: sign_facts)
next
  case (JBool b)
  then obtain m where "n = Suc m" by (cases n) (auto split: if_splits)
  with JBool read_literal_words(2,3) [of r] show ?case by (simp add: sign_facts)
next
  case (JInt i)
  then obtain m where "n = Suc m" using dumps_start [of "JInt i"] by (cases n) auto
  with JInt read_value_number [OF int_str_start read_number_int] show ?case by simp
next
  case (JNum t)
  then obtain m where "n = Suc m" using dumps_start [of "JNum t"] by (cases n) auto
  with JNum read_value_number [OF float_token_start read_number_float] show ?case by simp
next
  case (JStr s)
  then obtain m where m: "n = Suc m" by (cases n) (auto simp: json_string_eq)
  from read_chars_string [of s r] show ?case by (simp add: m json_string_eq sign_facts)
next
  case (JList xs)
  then obtain m where m: "n = Suc m" by (cases n) auto
  show ?case
  proof (cases "xs = []")
    case False
    with JList m have "read_items m (comma_join (map dumps xs) @ CHR '']'' # r) = Some (xs, r)"
      by (intro read_items_printed) (auto simp: list_all_iff)
    moreover obtain c s where "comma_join (map dumps xs) = c # s" "\<not> json_space c" "c \<noteq> CHR '']''"
      using False JList.prems(1) dumps_start [of "hd xs"] by (cases xs) (auto simp: comma_join_Cons)
    ultimately show ?thesis by (simp add: m sign_facts)
  qed (simp add: m sign_facts)
next
  case (JObj kvs)
  then obtain m where m: "n = Suc m" by (cases n) auto
  have sorted: "sorted_wrt (<) (map fst kvs)" using JObj.prems(1) by simp
  show ?case
  proof (cases "kvs = []")
    case False
    have "length (comma_join (map print_pair kvs)) < m"
      using JObj.prems(3) unfolding dumps_obj_readable [OF sorted] m by simp
    with JObj.prems(1) JObj.IH False have "read_pairs m (comma_join (map print_pair kvs) @ CHR ''}'' # r) = Some (kvs, r)"
      by (intro read_pairs_printed) (auto simp: list_all_iff)
    moreover obtain s where "comma_join (map print_pair kvs) = CHR 0x22 # s"
      using False by (cases kvs) (auto simp: comma_join_Cons json_string_eq)
    moreover have "dict_items kvs = kvs" using sorted by (simp add: dict_items_distinct strict_sorted_iff)
    ultimately show ?thesis unfolding dumps_obj_readable [OF sorted] by (simp add: m sign_facts)
  qed (simp add: m sign_facts)
qed

corollary loads_dumps:
  assumes "readable (key_sorted v)"
  shows "loads (dumps v) = Some (key_sorted v)"
  using read_value_printed [OF assms, of "[]" "Suc (length (dumps v))"]
  by (simp add: loads_def dumps_key_sorted delimited_def skip_space_def)

end
