(* ===== verification/Payload_Json.thy ===== *)
theory Payload_Json
  imports Payload_Codec Json_Reader
begin

section \<open>Payloads as text\<close>

text \<open>
  \<^verbatim>\<open>decode_payload\<close> and \<^verbatim>\<open>decode_json\<close> of \<^verbatim>\<open>profiling/codec.py\<close> over the reader of JSON text, and the round trip
  through the text. A class is named by its \<^verbatim>\<open>__name__\<close>.
\<close>

fun instance_of :: "string \<Rightarrow> pyval \<Rightarrow> bool" where
  "instance_of c (PData d _) = (d = c)"
| "instance_of c _ = False"

definition decode_payload :: "codec_table \<Rightarrow> string \<Rightarrow> json \<Rightarrow> pyval dres" where
  "decode_payload T c p = bind_dres (decode T (HData c) p) (\<lambda>v. if instance_of c v then Inr v else Inl Payload_Codec_Error)"

definition decode_json :: "codec_table \<Rightarrow> string \<Rightarrow> string \<Rightarrow> pyval dres" where
  "decode_json T c text = (case loads text of None \<Rightarrow> Inl Payload_Codec_Error | Some p \<Rightarrow> decode_payload T c p)"

text \<open>What the codec relies on of the texts of floats and datetimes: they can be read back, and the text of
  a finite float is a number of the JSON grammar with a fraction or an exponent.\<close>

definition standard_texts :: "codec_table \<Rightarrow> bool" where
  "standard_texts T \<longleftrightarrow> reads_back T \<and> (\<forall>x. float_token (ct_repr T x))"

lemma typed_instance: "typed T (HData c) v \<Longrightarrow> instance_of c v"
  by (cases rule: typed.cases) auto

lemma decode_payload_eq: "defaults_ok T \<Longrightarrow> decode_payload T c p = decode T (HData c) p"
  using typed_instance decode_sound(1) [of T "HData c" p] by (cases "decode T (HData c) p") (auto simp: decode_payload_def)


subsection \<open>The text of a typed value can be read\<close>

lemma finite_key_sorted: "finite_json (key_sorted v) \<longleftrightarrow> finite_json v"
  by (induction v rule: key_sorted.induct) (auto simp: list_all_iff)

lemma sorted_object:
  assumes "distinct (map fst fs)" "TYPE_TAG \<notin> fst ` set fs"
  shows "sorted_wrt (<) (map fst (object_of T c fs))"
proof -
  have "map fst (object_of T c fs) = sort (TYPE_TAG # map fst fs)"
    unfolding object_of_def by (simp only: map_sort_key) (simp add: comp_def case_prod_unfold)
  with assms show ?thesis by (simp only: strict_sorted_iff sorted_sort distinct_sort) (simp add: image_set [symmetric] del: image_set)
qed

lemma typed_readable:
  assumes "wf_table T" "standard_texts T" "typed T h v"
  shows "finite_json (key_sorted (encode_payload T v)) \<Longrightarrow> readable (key_sorted (encode_payload T v))"
  using assms(3)
proof (induction rule: typed.induct)
  case (typed_float x)
  with assms(2) show ?case by (cases x) (auto simp: standard_texts_def)
next
  case (typed_data c specs fs)
  from typed_data.hyps(1) assms(1) have wf: "wf_specs specs" by (simp add: wf_table_def)
  have names: "map fst fs = map fst specs"
    using typed_data.IH by (induction rule: list_all2_induct) auto
  with wf have d: "distinct (map fst fs)" "TYPE_TAG \<notin> fst ` set fs"
    by (simp_all add: wf_specs_def) (metis image_set)
  have vals: "snd ` set (object_of T c fs) = insert (JStr c) ((\<lambda>f. key_sorted (encode_payload T (snd f))) ` set fs)"
    by (simp add: object_of_def image_image case_prod_unfold set_insort_key)
  have "list_all (\<lambda>j. finite_json j) (map snd (object_of T c fs))"
    using typed_data.prems unfolding encode_object by simp
  then have fin: "finite_json (key_sorted (encode_payload T (snd f)))" if "f \<in> set fs" for f
    using that vals by (auto simp: list_all_iff)
  have "readable (key_sorted (encode_payload T (snd f)))" if "f \<in> set fs" for f
  proof -
    from typed_data.IH that have "finite_json (key_sorted (encode_payload T (snd f))) \<longrightarrow> readable (key_sorted (encode_payload T (snd f)))"
      by (auto simp: list_all2_conv_all_nth in_set_conv_nth)
    with fin [OF that] show ?thesis by simp
  qed
  then have "list_all readable (map snd (object_of T c fs))" using vals by (auto simp: list_all_iff)
  with sorted_object [OF d] show ?case unfolding encode_object by simp
next
  case (typed_tuple_of h vs)
  then show ?case by (auto simp: list_all_iff)
next
  case (typed_tuple hs vs)
  then show ?case by (simp add: list_all_length list_all2_conv_all_nth)
qed simp_all

lemma decode_json_encoded:
  assumes "wf_table T" "defaults_ok T" "standard_texts T" "typed T (HData c) v" "encode_json T v = Inr text"
  shows "decode_json T c text = Inr v"
proof -
  from assms(5) have fin: "finite_json (encode_payload T v)" and printed: "text = dumps (encode_payload T v)"
    by (auto simp: encode_json_def split: if_splits)
  from fin have "readable (key_sorted (encode_payload T v))"
    by (intro typed_readable [OF assms(1,3,4)]) (simp add: finite_key_sorted)
  then have "loads text = Some (key_sorted (encode_payload T v))" unfolding printed by (rule loads_dumps)
  moreover have "decode T (HData c) (key_sorted (encode_payload T v)) = Inr v"
    using assms(1,3,4) by (intro decode_encode) (simp_all add: standard_texts_def)
  ultimately show ?thesis by (simp add: decode_json_def decode_payload_eq [OF assms(2)])
qed

text \<open>An integer that no float can hold, where a float is expected, is not refused with the codec's error: the
  overflow escapes, also from a union.\<close>

lemma float_overflow_escapes:
  assumes "ct_float_of_int T i = None"
  shows "decode T HFloat (JInt i) = Inl Overflow_Error" "decode T (HUnion [HFloat, HNone]) (JInt i) = Inl Overflow_Error"
  using assms by simp_all

end
