(* ===== verification/Profiling_Identity.thy ===== *)
theory Profiling_Identity
  imports Profiling_Domain
begin

section \<open>Profiling identities identify\<close>

text \<open>
  The identities of \<^verbatim>\<open>profiling/domain\<close> are SHA-256 digests of canonical JSON. The locale \<open>canonical_form\<close> is what makes a
  canonical value usable in an identity: from its text the value can be read back. Every dataclass
  that takes part in an identity is an instance; lists and optional values inherit it.
\<close>

text \<open>What the code relies on of \<^verbatim>\<open>repr\<close> of a finite float: it determines the float, and it is the text of a
  number with a point or an exponent.\<close>

definition repr_ok :: "(rat \<Rightarrow> string) \<Rightarrow> bool" where
  "repr_ok fr \<longleftrightarrow> inj fr \<and> (\<forall>x. float_text (fr x))"

locale canonical_form =
  fixes canon :: "'a \<Rightarrow> json"
  assumes reads_back: "key_sorted (canon x) = key_sorted (canon y) \<Longrightarrow> x = y"
    and well_formed: "finite_json (canon x) \<Longrightarrow> distinct_keys (canon x)"
    and not_null: "canon x \<noteq> JNull"
begin

lemma inject: "key_sorted (canon x) = key_sorted (canon y) \<longleftrightarrow> x = y"
  using reads_back by blast

lemma list_inject: "map (\<lambda>x. key_sorted (canon x)) xs = map (\<lambda>x. key_sorted (canon x)) ys \<longleftrightarrow> xs = ys"
  by (rule inj_map_eq_map) (simp add: inj_def inject)

lemma null_sorted: "key_sorted (canon x) \<noteq> JNull"
  using not_null [of x] by (cases "canon x") simp_all

lemma option_inject: "key_sorted (jopt canon u) = key_sorted (jopt canon v) \<longleftrightarrow> u = v"
  using null_sorted null_sorted [symmetric] by (cases u; cases v) (simp_all add: jopt_def inject)

lemma option_well_formed: "finite_json (jopt canon v) \<Longrightarrow> distinct_keys (jopt canon v)"
  by (cases v) (simp_all add: jopt_def well_formed)

lemma items_inject: "key_sorted (jitems canon xs) = key_sorted (jitems canon ys) \<longleftrightarrow> xs = ys"
proof -
  have "inj (\<lambda>(k, v). JList [JStr k, key_sorted (canon v)])" by (auto simp: inj_def inject)
  then show ?thesis by (simp add: jitems_def comp_def case_prod_unfold inj_map_eq_map)
qed

lemma items_well_formed: "finite_json (jitems canon xs) \<Longrightarrow> distinct_keys (jitems canon xs)"
  by (auto simp: jitems_def list_all_iff well_formed split: prod.splits)

end


subsection \<open>Scalars and items\<close>

lemma not_float_text: "\<not> float_text ''NaN''" "\<not> float_text ''Infinity''" "\<not> float_text ''-Infinity''"
  by (simp_all add: float_text_def number_char_def digit_def)

lemma repr_not_special:
  assumes "repr_ok fr"
  shows "fr x \<noteq> ''NaN''" "fr x \<noteq> ''Infinity''" "fr x \<noteq> ''-Infinity''"
  using assms not_float_text unfolding repr_ok_def by metis+

lemma jfloat_form:
  assumes "repr_ok fr"
  shows "canonical_form (jfloat fr)"
proof
  fix x y
  show "key_sorted (jfloat fr x) = key_sorted (jfloat fr y) \<Longrightarrow> x = y"
    using assms repr_not_special [OF assms] repr_not_special [OF assms, symmetric]
    by (cases x; cases y) (auto simp: repr_ok_def dest: injD)
  show "finite_json (jfloat fr x) \<Longrightarrow> distinct_keys (jfloat fr x)"
    using assms by (cases x) (auto simp: repr_ok_def)
  show "jfloat fr x \<noteq> JNull" by (cases x) simp_all
qed

text \<open>A scalar may be null, so \<open>jscalar\<close> is not an instance as it stands; its items still are.\<close>

fun float_str :: "(rat \<Rightarrow> string) \<Rightarrow> pyfloat \<Rightarrow> string" where
  "float_str fr (Fin x) = fr x"
| "float_str fr PInf = ''Infinity''"
| "float_str fr NInf = ''-Infinity''"
| "float_str fr NaN = ''NaN''"

lemma jfloat_eq: "jfloat fr x = JNum (float_str fr x)"
  by (cases x) simp_all

lemma jscalar_inject:
  assumes "repr_ok fr"
  shows "key_sorted (jscalar fr a) = key_sorted (jscalar fr b) \<longleftrightarrow> a = b"
proof -
  have "float_str fr x = float_str fr y \<longleftrightarrow> x = y" for x y
    using canonical_form.inject [OF jfloat_form [OF assms], of x y] by (simp add: jfloat_eq)
  then show ?thesis by (cases a; cases b) (simp_all add: jfloat_eq)
qed

lemma scalar_items_inject:
  assumes "repr_ok fr"
  shows "key_sorted (jitems (jscalar fr) xs) = key_sorted (jitems (jscalar fr) ys) \<longleftrightarrow> xs = ys"
proof -
  have "inj (\<lambda>(k, v). JList [JStr k, key_sorted (jscalar fr v)])" by (auto simp: inj_def jscalar_inject [OF assms])
  then show ?thesis by (simp add: jitems_def comp_def case_prod_unfold inj_map_eq_map)
qed

lemma scalar_items_well_formed:
  assumes "repr_ok fr"
  shows "finite_json (jitems (jscalar fr) xs) \<Longrightarrow> distinct_keys (jitems (jscalar fr) xs)"
proof -
  have "finite_json (jscalar fr v) \<Longrightarrow> distinct_keys (jscalar fr v)" for v
    using canonical_form.well_formed [OF jfloat_form [OF assms]] by (cases v) simp_all
  then show "finite_json (jitems (jscalar fr) xs) \<Longrightarrow> distinct_keys (jitems (jscalar fr) xs)"
    by (auto simp: jitems_def list_all_iff split: prod.splits)
qed

interpretation str: canonical_form JStr
  by unfold_locales simp_all

interpretation int: canonical_form JInt
  by unfold_locales simp_all

interpretation bool: canonical_form JBool
  by unfold_locales simp_all

lemma strings_inject [simp]: "map JStr xs = map JStr ys \<longleftrightarrow> xs = ys"
  by (rule inj_map_eq_map) (simp add: inj_def)

lemma shapes_inject [simp]: "map (\<lambda>s. JList (map JInt s)) xs = map (\<lambda>s. JList (map JInt s)) ys \<longleftrightarrow> xs = ys"
  by (rule inj_map_eq_map) (simp add: inj_def int.list_inject [simplified])


subsection \<open>Enumerations\<close>

lemma granularity_value_inject [simp]: "granularity_value x = granularity_value y \<longleftrightarrow> x = y"
  by (cases x; cases y) simp_all

lemma prof_phase_value_inject [simp]: "prof_phase_value x = prof_phase_value y \<longleftrightarrow> x = y"
  by (cases x; cases y) simp_all

lemma module_kind_value_inject [simp]: "module_kind_value x = module_kind_value y \<longleftrightarrow> x = y"
  by (cases x; cases y) simp_all

lemma operator_kind_value_inject [simp]: "operator_kind_value x = operator_kind_value y \<longleftrightarrow> x = y"
  by (cases x; cases y) simp_all

lemma norm_variant_value_inject [simp]: "norm_variant_value x = norm_variant_value y \<longleftrightarrow> x = y"
  by (cases x; cases y) simp_all

lemma stage_kind_value_inject [simp]: "stage_kind_value x = stage_kind_value y \<longleftrightarrow> x = y"
  by (cases x; cases y) simp_all

lemma path_class_value_inject [simp]: "path_class_value x = path_class_value y \<longleftrightarrow> x = y"
  by (cases x; cases y) simp_all

lemma probe_kind_value_inject [simp]: "probe_kind_value x = probe_kind_value y \<longleftrightarrow> x = y"
  by (cases x; cases y) simp_all

lemma net_transport_value_inject [simp]: "net_transport_value x = net_transport_value y \<longleftrightarrow> x = y"
  by (cases x; cases y) simp_all

lemma net_direction_value_inject [simp]: "net_direction_value x = net_direction_value y \<longleftrightarrow> x = y"
  by (cases x; cases y) simp_all

lemma net_regime_value_inject [simp]: "net_regime_value x = net_regime_value y \<longleftrightarrow> x = y"
  by (cases x; cases y) simp_all

lemma session_kind_value_inject [simp]: "session_kind_value x = session_kind_value y \<longleftrightarrow> x = y"
  by (cases x; cases y) simp_all

interpretation path_class: canonical_form "JStr \<circ> path_class_value"
  by unfold_locales simp_all

interpretation net_transport: canonical_form "JStr \<circ> net_transport_value"
  by unfold_locales simp_all

interpretation net_direction: canonical_form "JStr \<circ> net_direction_value"
  by unfold_locales simp_all


subsection \<open>Dataclasses without floats\<close>

lemmas field_injects = str.option_inject int.option_inject bool.option_inject str.items_inject str.list_inject int.list_inject

interpretation layer_signature: canonical_form canonical_layer_signature
proof
  fix x y assume eq: "key_sorted (canonical_layer_signature x) = key_sorted (canonical_layer_signature y)"
  show "x = y"
    using obj_readback [OF eq [unfolded canonical_layer_signature_def] refl]
    by (cases x; cases y) (simp add: field_injects comp_def del: key_sorted.simps(2))
qed (simp_all add: canonical_layer_signature_def str.option_well_formed int.option_well_formed bool.option_well_formed str.items_well_formed list_all_iff)

interpretation gemm_signature: canonical_form canonical_gemm_signature
proof
  fix x y assume eq: "key_sorted (canonical_gemm_signature x) = key_sorted (canonical_gemm_signature y)"
  show "x = y"
    using obj_readback [OF eq [unfolded canonical_gemm_signature_def] refl]
    by (cases x; cases y) (simp add: field_injects comp_def del: key_sorted.simps(2))
qed (simp_all add: canonical_gemm_signature_def str.option_well_formed int.option_well_formed bool.option_well_formed str.items_well_formed list_all_iff)

interpretation attention_signature: canonical_form canonical_attention_signature
proof
  fix x y assume eq: "key_sorted (canonical_attention_signature x) = key_sorted (canonical_attention_signature y)"
  show "x = y"
    using obj_readback [OF eq [unfolded canonical_attention_signature_def] refl]
    by (cases x; cases y) (simp add: field_injects comp_def del: key_sorted.simps(2))
qed (simp_all add: canonical_attention_signature_def str.option_well_formed int.option_well_formed bool.option_well_formed str.items_well_formed list_all_iff)

interpretation norm_signature: canonical_form canonical_norm_signature
proof
  fix x y assume eq: "key_sorted (canonical_norm_signature x) = key_sorted (canonical_norm_signature y)"
  show "x = y"
    using obj_readback [OF eq [unfolded canonical_norm_signature_def] refl]
    by (cases x; cases y) (simp add: field_injects comp_def del: key_sorted.simps(2))
qed (simp_all add: canonical_norm_signature_def str.option_well_formed int.option_well_formed bool.option_well_formed str.items_well_formed list_all_iff)

interpretation embedding_signature: canonical_form canonical_embedding_signature
proof
  fix x y assume eq: "key_sorted (canonical_embedding_signature x) = key_sorted (canonical_embedding_signature y)"
  show "x = y"
    using obj_readback [OF eq [unfolded canonical_embedding_signature_def] refl]
    by (cases x; cases y) (simp add: field_injects comp_def del: key_sorted.simps(2))
qed (simp_all add: canonical_embedding_signature_def str.option_well_formed int.option_well_formed bool.option_well_formed str.items_well_formed list_all_iff)

interpretation rotary_signature: canonical_form canonical_rotary_signature
proof
  fix x y assume eq: "key_sorted (canonical_rotary_signature x) = key_sorted (canonical_rotary_signature y)"
  show "x = y"
    using obj_readback [OF eq [unfolded canonical_rotary_signature_def] refl]
    by (cases x; cases y) (simp add: field_injects comp_def del: key_sorted.simps(2))
qed (simp_all add: canonical_rotary_signature_def str.option_well_formed int.option_well_formed bool.option_well_formed str.items_well_formed list_all_iff)

interpretation kv_copy_signature: canonical_form canonical_kv_copy_signature
proof
  fix x y assume eq: "key_sorted (canonical_kv_copy_signature x) = key_sorted (canonical_kv_copy_signature y)"
  show "x = y"
    using obj_readback [OF eq [unfolded canonical_kv_copy_signature_def] refl]
    by (cases x; cases y) (simp add: field_injects comp_def del: key_sorted.simps(2))
qed (simp_all add: canonical_kv_copy_signature_def str.option_well_formed int.option_well_formed bool.option_well_formed str.items_well_formed list_all_iff)

interpretation generic_parameters: canonical_form canonical_generic_parameters
proof
  fix x y assume eq: "key_sorted (canonical_generic_parameters x) = key_sorted (canonical_generic_parameters y)"
  show "x = y"
    using obj_readback [OF eq [unfolded canonical_generic_parameters_def] refl]
    by (cases x; cases y) (simp add: field_injects comp_def del: key_sorted.simps(2))
qed (simp_all add: canonical_generic_parameters_def str.option_well_formed int.option_well_formed bool.option_well_formed str.items_well_formed list_all_iff)

interpretation model_stage: canonical_form canonical_model_stage
proof
  fix x y assume eq: "key_sorted (canonical_model_stage x) = key_sorted (canonical_model_stage y)"
  show "x = y"
    using obj_readback [OF eq [unfolded canonical_model_stage_def] refl]
    by (cases x; cases y) (simp add: field_injects comp_def del: key_sorted.simps(2))
qed (simp_all add: canonical_model_stage_def str.option_well_formed int.option_well_formed bool.option_well_formed str.items_well_formed list_all_iff)

interpretation model_reference: canonical_form canonical_model_reference
proof
  fix x y assume eq: "key_sorted (canonical_model_reference x) = key_sorted (canonical_model_reference y)"
  show "x = y"
    using obj_readback [OF eq [unfolded canonical_model_reference_def] refl]
    by (cases x; cases y) (simp add: field_injects comp_def del: key_sorted.simps(2))
qed (simp_all add: canonical_model_reference_def str.option_well_formed int.option_well_formed bool.option_well_formed str.items_well_formed list_all_iff)

interpretation performance_state: canonical_form canonical_performance_state
proof
  fix x y assume eq: "key_sorted (canonical_performance_state x) = key_sorted (canonical_performance_state y)"
  show "x = y"
    using obj_readback [OF eq [unfolded canonical_performance_state_def] refl]
    by (cases x; cases y) (simp add: field_injects comp_def del: key_sorted.simps(2))
qed (simp_all add: canonical_performance_state_def str.option_well_formed int.option_well_formed bool.option_well_formed str.items_well_formed list_all_iff)

interpretation performance_class: canonical_form canonical_performance_class
proof
  fix x y assume eq: "key_sorted (canonical_performance_class x) = key_sorted (canonical_performance_class y)"
  show "x = y"
    using obj_readback [OF eq [unfolded canonical_performance_class_def] refl]
    by (cases x; cases y) (simp add: field_injects comp_def del: key_sorted.simps(2))
qed (simp_all add: canonical_performance_class_def str.option_well_formed int.option_well_formed bool.option_well_formed str.items_well_formed list_all_iff)

interpretation network_pair: canonical_form canonical_network_pair
proof
  fix x y assume eq: "key_sorted (canonical_network_pair x) = key_sorted (canonical_network_pair y)"
  show "x = y"
    using obj_readback [OF eq [unfolded canonical_network_pair_def] refl]
    by (cases x; cases y) (simp add: field_injects comp_def del: key_sorted.simps(2))
qed (simp_all add: canonical_network_pair_def str.option_well_formed int.option_well_formed bool.option_well_formed str.items_well_formed list_all_iff)

lemmas well_formed_fields = str.option_well_formed int.option_well_formed bool.option_well_formed str.items_well_formed

interpretation session_request: canonical_form canonical_session_request
proof
  fix x y assume eq: "key_sorted (canonical_session_request x) = key_sorted (canonical_session_request y)"
  show "x = y"
    using obj_readback [OF eq [unfolded canonical_session_request_def] refl]
    by (cases x; cases y) (simp add: field_injects model_reference.option_inject model_reference.option_well_formed comp_def del: key_sorted.simps(2))
qed (simp_all add: canonical_session_request_def well_formed_fields list_all_iff model_reference.option_inject model_reference.option_well_formed)

interpretation environment_fingerprint: canonical_form canonical_environment_fingerprint
proof
  fix x y assume eq: "key_sorted (canonical_environment_fingerprint x) = key_sorted (canonical_environment_fingerprint y)"
  show "x = y"
    using obj_readback [OF eq [unfolded canonical_environment_fingerprint_def] refl]
    by (cases x; cases y) (simp add: field_injects performance_class.option_inject performance_class.option_well_formed performance_state.option_inject performance_state.option_well_formed comp_def del: key_sorted.simps(2))
qed (simp_all add: canonical_environment_fingerprint_def well_formed_fields list_all_iff performance_class.option_inject performance_class.option_well_formed performance_state.option_inject performance_state.option_well_formed)


subsection \<open>Dataclasses with floats\<close>

lemmas float_injects = scalar_items_inject canonical_form.option_inject [OF jfloat_form]

lemmas float_well_formed = scalar_items_well_formed canonical_form.option_well_formed [OF jfloat_form]

lemma module_signature_form:
  assumes fr: "repr_ok fr"
  shows "canonical_form (canonical_module_signature fr)"
proof
  fix x y assume eq: "key_sorted (canonical_module_signature fr x) = key_sorted (canonical_module_signature fr y)"
  show "x = y"
    using obj_readback [OF eq [unfolded canonical_module_signature_def] refl]
    by (cases x; cases y) (simp add: field_injects float_injects [OF fr]  comp_def del: key_sorted.simps(2))
qed (simp_all add: canonical_module_signature_def well_formed_fields float_well_formed [OF fr] list_all_iff )

lemma custom_parameters_form:
  assumes fr: "repr_ok fr"
  shows "canonical_form (canonical_custom_parameters fr)"
proof
  fix x y assume eq: "key_sorted (canonical_custom_parameters fr x) = key_sorted (canonical_custom_parameters fr y)"
  show "x = y"
    using obj_readback [OF eq [unfolded canonical_custom_parameters_def] refl]
    by (cases x; cases y) (simp add: field_injects float_injects [OF fr]  comp_def del: key_sorted.simps(2))
qed (simp_all add: canonical_custom_parameters_def well_formed_fields float_well_formed [OF fr] list_all_iff )

lemma network_case_spec_form:
  assumes fr: "repr_ok fr"
  shows "canonical_form (canonical_network_case_spec fr)"
proof
  fix x y assume eq: "key_sorted (canonical_network_case_spec fr x) = key_sorted (canonical_network_case_spec fr y)"
  show "x = y"
    using obj_readback [OF eq [unfolded canonical_network_case_spec_def] refl]
    by (cases x; cases y) (simp add: field_injects float_injects [OF fr] path_class.option_inject [unfolded comp_def] net_transport.option_inject [unfolded comp_def] net_direction.option_inject [unfolded comp_def] path_class.option_well_formed [unfolded comp_def] net_transport.option_well_formed [unfolded comp_def] net_direction.option_well_formed [unfolded comp_def] comp_def del: key_sorted.simps(2))
qed (simp_all add: canonical_network_case_spec_def comp_def well_formed_fields float_well_formed [OF fr] list_all_iff path_class.option_inject [unfolded comp_def] net_transport.option_inject [unfolded comp_def] net_direction.option_inject [unfolded comp_def] path_class.option_well_formed [unfolded comp_def] net_transport.option_well_formed [unfolded comp_def] net_direction.option_well_formed [unfolded comp_def])

text \<open>The kinds of operator parameters have different fields.\<close>

fun has_key :: "string \<Rightarrow> json \<Rightarrow> bool" where
  "has_key k (JObj kvs) \<longleftrightarrow> k \<in> fst ` set kvs"
| "has_key k _ \<longleftrightarrow> False"

lemma has_key_sorted [simp]: "has_key k (key_sorted v) = has_key k v"
  by (cases v) (force simp: image_iff)+

definition fields_of :: "json \<Rightarrow> bool list" where
  "fields_of v = map (\<lambda>k. has_key k v) [''m'', ''q_len'', ''variant'', ''vocab_size'', ''context_length'', ''operation'', ''raw_name'']"

lemma fields_of_sorted: "key_sorted u = key_sorted v \<Longrightarrow> fields_of u = fields_of v"
  unfolding fields_of_def by (metis (no_types, lifting) has_key_sorted)

lemmas parameter_defs = canonical_gemm_signature_def canonical_attention_signature_def canonical_norm_signature_def
  canonical_embedding_signature_def canonical_rotary_signature_def canonical_kv_copy_signature_def canonical_generic_parameters_def
  canonical_custom_parameters_def

lemma parameter_fields:
  "fields_of (canonical_operator_parameters fr p) = (case p of
     Gemm _ \<Rightarrow> [True, False, False, False, False, False, False]
   | Attention _ \<Rightarrow> [False, True, False, False, False, False, False]
   | Norm _ \<Rightarrow> [False, False, True, False, False, False, False]
   | Embedding _ \<Rightarrow> [False, False, False, True, False, False, False]
   | Rotary _ \<Rightarrow> [False, False, False, False, False, False, False]
   | Kv_Copy _ \<Rightarrow> [False, False, False, False, True, False, False]
   | Generic _ \<Rightarrow> [False, False, False, False, False, True, False]
   | Custom _ \<Rightarrow> [False, False, False, False, False, False, True])"
  by (cases p) (simp_all add: fields_of_def parameter_defs)

lemma operator_parameters_form:
  assumes fr: "repr_ok fr"
  shows "canonical_form (canonical_operator_parameters fr)"
proof
  note injects = gemm_signature.inject attention_signature.inject norm_signature.inject embedding_signature.inject rotary_signature.inject
    kv_copy_signature.inject generic_parameters.inject canonical_form.inject [OF custom_parameters_form [OF fr]]
  fix x y assume eq: "key_sorted (canonical_operator_parameters fr x) = key_sorted (canonical_operator_parameters fr y)"
  from fields_of_sorted [OF eq] eq show "x = y"
    unfolding parameter_fields by (cases x; cases y) (simp_all add: injects)
next
  fix x assume "finite_json (canonical_operator_parameters fr x)"
  then show "distinct_keys (canonical_operator_parameters fr x)"
    using canonical_form.well_formed [OF custom_parameters_form [OF fr]]
    by (cases x) (simp_all add: gemm_signature.well_formed attention_signature.well_formed norm_signature.well_formed
        embedding_signature.well_formed rotary_signature.well_formed kv_copy_signature.well_formed generic_parameters.well_formed)
next
  fix x show "canonical_operator_parameters fr x \<noteq> JNull" by (cases x) (simp_all add: parameter_defs)
qed

lemma operator_signature_form:
  assumes fr: "repr_ok fr"
  shows "canonical_form (canonical_operator_signature fr)"
proof
  fix x y assume eq: "key_sorted (canonical_operator_signature fr x) = key_sorted (canonical_operator_signature fr y)"
  show "x = y"
    using obj_readback [OF eq [unfolded canonical_operator_signature_def] refl]
    by (cases x; cases y) (simp add: field_injects float_injects [OF fr] canonical_form.inject [OF operator_parameters_form [OF fr]] canonical_form.well_formed [OF operator_parameters_form [OF fr]] comp_def del: key_sorted.simps(2))
qed (simp_all add: canonical_operator_signature_def well_formed_fields float_well_formed [OF fr] list_all_iff canonical_form.inject [OF operator_parameters_form [OF fr]] canonical_form.well_formed [OF operator_parameters_form [OF fr]])

lemma model_case_spec_form:
  assumes fr: "repr_ok fr"
  shows "canonical_form (canonical_model_case_spec fr)"
proof
  fix x y assume eq: "key_sorted (canonical_model_case_spec fr x) = key_sorted (canonical_model_case_spec fr y)"
  show "x = y"
    using obj_readback [OF eq [unfolded canonical_model_case_spec_def] refl]
    by (cases x; cases y) (simp add: field_injects float_injects [OF fr] model_reference.option_inject model_reference.option_well_formed layer_signature.option_inject layer_signature.option_well_formed canonical_form.option_inject [OF module_signature_form [OF fr]] canonical_form.option_well_formed [OF module_signature_form [OF fr]] canonical_form.option_inject [OF operator_signature_form [OF fr]] canonical_form.option_well_formed [OF operator_signature_form [OF fr]] comp_def del: key_sorted.simps(2))
qed (simp_all add: canonical_model_case_spec_def well_formed_fields float_well_formed [OF fr] list_all_iff model_reference.option_inject model_reference.option_well_formed layer_signature.option_inject layer_signature.option_well_formed canonical_form.option_inject [OF module_signature_form [OF fr]] canonical_form.option_well_formed [OF module_signature_form [OF fr]] canonical_form.option_inject [OF operator_signature_form [OF fr]] canonical_form.option_well_formed [OF operator_signature_form [OF fr]])

lemma case_spec_form:
  assumes fr: "repr_ok fr"
  shows "canonical_form (canonical_case_spec fr)"
proof
  note forms = model_case_spec_form [OF fr] network_case_spec_form [OF fr]
  have keys: "has_key ''granularity'' (canonical_case_spec fr s) \<longleftrightarrow> (case s of Model_Case _ \<Rightarrow> True | Network_Case _ \<Rightarrow> False)" for s
    by (cases s) (simp_all add: canonical_model_case_spec_def canonical_network_case_spec_def)
  fix x y assume eq: "key_sorted (canonical_case_spec fr x) = key_sorted (canonical_case_spec fr y)"
  then have "has_key ''granularity'' (canonical_case_spec fr x) = has_key ''granularity'' (canonical_case_spec fr y)"
    by (metis has_key_sorted)
  with eq show "x = y" unfolding keys by (cases x; cases y) (simp_all add: forms [THEN canonical_form.inject])
next
  note forms = model_case_spec_form [OF fr] network_case_spec_form [OF fr]
  fix x show "finite_json (canonical_case_spec fr x) \<Longrightarrow> distinct_keys (canonical_case_spec fr x)"
    by (cases x) (simp_all add: forms [THEN canonical_form.well_formed])
  show "canonical_case_spec fr x \<noteq> JNull"
    by (cases x) (simp_all add: canonical_model_case_spec_def canonical_network_case_spec_def)
qed


subsection \<open>From equal digests to equal values\<close>

text \<open>Two different texts with the same digest are what SHA-256 is relied on to avoid.\<close>

definition collision_free :: "(string \<Rightarrow> string) \<Rightarrow> json \<Rightarrow> json \<Rightarrow> bool" where
  "collision_free sha u v \<longleftrightarrow> (sha (dumps u) = sha (dumps v) \<longrightarrow> dumps u = dumps v)"

lemma digest_inject:
  assumes "canonical_sha256 sha u = Inr i" "canonical_sha256 sha v = Inr j" "collision_free sha u v"
    and "finite_json u \<Longrightarrow> distinct_keys u" "finite_json v \<Longrightarrow> distinct_keys v"
  shows "i = j \<longleftrightarrow> key_sorted u = key_sorted v"
proof -
  from assms(1,2) have fin: "finite_json u" "finite_json v" and ij: "i = sha (dumps u)" "j = sha (dumps v)"
    by (auto simp: canonical_sha256_def canonical_json_def split: if_splits)
  have "dumps u = dumps v \<longleftrightarrow> key_sorted u = key_sorted v" using dumps_reads_back assms(4,5) fin by blast
  then show ?thesis using ij assms(3) by (auto simp: collision_free_def)
qed

text \<open>The values whose text is hashed.\<close>

definition case_value :: "(rat \<Rightarrow> string) \<Rightarrow> string \<Rightarrow> case_spec \<Rightarrow> json" where
  "case_value fr w s = JList [JStr ''profiling_case'', JStr w, canonical_case_spec fr s]"

definition session_value :: "string \<Rightarrow> string \<Rightarrow> session_request \<Rightarrow> json" where
  "session_value e w r = JList [JStr ''profiling_session'', JStr e, JStr w, canonical_session_request r]"

definition experiment_value :: "string \<Rightarrow> string list \<Rightarrow> json" where
  "experiment_value st ids = JList [JStr ''profiling_experiment'', JStr st, JList (map JStr (sort ids))]"

lemma experiment_for_cases_id:
  assumes "experiment_for_cases sha st ids now who = Inr x"
  shows "canonical_sha256 sha (experiment_value st (dict_fromkeys ids)) = Inr (pex_experiment_id x)"
  using assms by (auto simp: experiment_for_cases_def profiling_experiment_id_def experiment_value_def Let_def bind_res_Inr)

lemma sorted_ids_eq: "sort (dict_fromkeys xs) = sort (dict_fromkeys ys) \<longleftrightarrow> set xs = set ys"
proof
  assume "sort (dict_fromkeys xs) = sort (dict_fromkeys ys)"
  then show "set xs = set ys" by (metis dict_fromkeys_props(2) set_sort)
next
  assume "set xs = set ys"
  then show "sort (dict_fromkeys xs) = sort (dict_fromkeys ys)"
    by (metis dict_fromkeys_props(1,2) distinct_sort set_sort sorted_distinct_set_unique sorted_sort)
qed


subsection \<open>A representation of floats\<close>

definition demo_repr :: "rat \<Rightarrow> string" where
  "demo_repr x = int_str (fst (quotient_of x)) @ ''e'' @ int_str (snd (quotient_of x))"

lemma demo_repr_ok: "repr_ok demo_repr"
proof -
  have tw: "takeWhile (\<lambda>c. c \<noteq> CHR ''e'') (int_str i @ ''e'' @ s) = int_str i" for i s
    using int_str_chars [of "CHR ''e''" i] by (subst takeWhile_append2) (auto simp: digit_def)
  have "inj demo_repr"
  proof (rule injI)
    fix x y assume eq: "demo_repr x = demo_repr y"
    then have a: "int_str (fst (quotient_of x)) = int_str (fst (quotient_of y))" unfolding demo_repr_def using tw by metis
    with eq have "int_str (snd (quotient_of x)) = int_str (snd (quotient_of y))" by (simp add: demo_repr_def)
    with a have "quotient_of x = quotient_of y"
      using int_str_delimited [of _ "[]" _ "[]"] by (simp add: prod_eq_iff delimited_def)
    then show "x = y" by (rule quotient_of_inject)
  qed
  moreover have "float_text (demo_repr x)" for x
    using int_str_head [of "fst (quotient_of x)"] int_str_chars
    by (auto simp: float_text_def demo_repr_def list_all_iff number_char_def)
  ultimately show ?thesis by (simp add: repr_ok_def)
qed

definition demo_case :: "string \<Rightarrow> case_spec" where
  "demo_case dst = Network_Case \<lparr>ncs_probe_kind = RTT, ncs_source_worker_id = ''a'', ncs_destination_worker_id = dst, ncs_source_interface_id = None,
     ncs_destination_interface_id = None, ncs_path_class = Some WIRED_LAN, ncs_transport = None, ncs_direction = None, ncs_duration_s = None,
     ncs_packet_count = Some 5, ncs_payload_bytes = None, ncs_regime = IDLE_SINGLE_FLOW\<rparr>"

definition demo_session :: session_request where
  "demo_session = \<lparr>psr_kind = NETWORK_SESSION, psr_device_ids = [], psr_backend = ''iperf3'', psr_model = None, psr_dtype = None,
     psr_quantization = None, psr_target_layer_index = None\<rparr>"

lemma demo_case_id: "w \<noteq> [] \<Longrightarrow> profiling_case_id demo_hash demo_repr w (demo_case d) = Inr (demo_hash (dumps (case_value demo_repr w (demo_case d))))"
  by (simp add: profiling_case_id_def case_value_def canonical_sha256_def canonical_json_def demo_case_def canonical_network_case_spec_def
      jopt_def non_empty_def del: dumps.simps)

lemma demo_session_id: "\<lbrakk>e \<noteq> []; w \<noteq> []\<rbrakk> \<Longrightarrow> profiling_session_id demo_hash e w demo_session = Inr (demo_hash (dumps (session_value e w demo_session)))"
  by (simp add: profiling_session_id_def session_value_def canonical_sha256_def canonical_json_def demo_session_def canonical_session_request_def
      jopt_def non_empty_def del: dumps.simps)


subsection \<open>Properties\<close>

text \<open>[C27] A case id identifies its case: for two case requests that have ids, on which SHA-256 does not
  collide, the ids are equal exactly when the worker and every field of the specification are equal,
  whatever the kind of the case and of the operator parameters in it.\<close>

theorem case_id_identifies:
  assumes "repr_ok fr" and "profiling_case_id sha fr w s = Inr i" and "profiling_case_id sha fr w' s' = Inr i'"
    and "collision_free sha (case_value fr w s) (case_value fr w' s')"
  shows "i = i' \<longleftrightarrow> w = w' \<and> s = s'"
proof -
  note form = case_spec_form [OF assms(1)]
  from assms(2,3) have "canonical_sha256 sha (case_value fr w s) = Inr i" "canonical_sha256 sha (case_value fr w' s') = Inr i'"
    by (simp_all add: profiling_case_id_def case_value_def)
  then have "i = i' \<longleftrightarrow> key_sorted (case_value fr w s) = key_sorted (case_value fr w' s')"
    by (rule digest_inject [OF _ _ assms(4)]) (simp_all add: case_value_def canonical_form.well_formed [OF form])
  then show ?thesis by (simp add: case_value_def canonical_form.inject [OF form])
qed

theorem case_id_identifies_witness:
  "profiling_case_id demo_hash demo_repr ''a'' (demo_case ''b'') \<noteq> profiling_case_id demo_hash demo_repr ''a'' (demo_case ''c'')"
proof -
  have "demo_case ''b'' \<noteq> demo_case ''c''" by (simp add: demo_case_def)
  then show ?thesis
    using case_id_identifies [OF demo_repr_ok demo_case_id demo_case_id, of "''a''" "''a''" "''b''" "''c''"]
    by (simp add: demo_case_id collision_free_def demo_hash_def)
qed

text \<open>A session id identifies experiment, worker and the whole request.\<close>

lemma session_id_identifies:
  assumes "profiling_session_id sha e w r = Inr i" and "profiling_session_id sha e' w' r' = Inr i'"
    and "collision_free sha (session_value e w r) (session_value e' w' r')"
  shows "i = i' \<longleftrightarrow> e = e' \<and> w = w' \<and> r = r'"
proof -
  from assms(1,2) have "canonical_sha256 sha (session_value e w r) = Inr i" "canonical_sha256 sha (session_value e' w' r') = Inr i'"
    by (simp_all add: profiling_session_id_def session_value_def)
  then have "i = i' \<longleftrightarrow> key_sorted (session_value e w r) = key_sorted (session_value e' w' r')"
    by (rule digest_inject [OF _ _ assms(3)]) (simp_all add: session_value_def session_request.well_formed)
  then show ?thesis by (simp add: session_value_def session_request.inject)
qed

lemma session_id_identifies_witness:
  "profiling_session_id demo_hash ''e'' ''a'' demo_session \<noteq> profiling_session_id demo_hash ''e'' ''b'' demo_session"
  using session_id_identifies [OF demo_session_id demo_session_id, of "''e''" "''a''" "''e''" "''b''"]
  by (simp add: demo_session_id collision_free_def demo_hash_def)

text \<open>An experiment is its strategy and its set of cases: the ids of two experiments built from lists of
  case ids are equal exactly when the strategies are and the lists have the same elements, so neither
  the order in which a strategy emits cases nor a repetition changes the experiment. The stored list
  has no repetition and keeps the order of first emission.\<close>

lemma experiment_id_identifies:
  assumes "experiment_for_cases sha st ids now who = Inr x" and "experiment_for_cases sha st' ids' now' who' = Inr x'"
    and "collision_free sha (experiment_value st (dict_fromkeys ids)) (experiment_value st' (dict_fromkeys ids'))"
  shows "(pex_experiment_id x = pex_experiment_id x' \<longleftrightarrow> st = st' \<and> set ids = set ids')
    \<and> pex_case_ids x = dict_fromkeys ids \<and> check_profiling_experiment x = Inr ()"
proof

  have "pex_experiment_id x = pex_experiment_id x' \<longleftrightarrow>
      key_sorted (experiment_value st (dict_fromkeys ids)) = key_sorted (experiment_value st' (dict_fromkeys ids'))"
    by (rule digest_inject [OF assms(1,2) [THEN experiment_for_cases_id] assms(3)]) (simp_all add: experiment_value_def list_all_iff)
  then show "pex_experiment_id x = pex_experiment_id x' \<longleftrightarrow> st = st' \<and> set ids = set ids'"
    by (simp add: experiment_value_def comp_def sorted_ids_eq)
  show "pex_case_ids x = dict_fromkeys ids \<and> check_profiling_experiment x = Inr ()"
    using assms(1) by (auto simp: experiment_for_cases_def Let_def bind_res_Inr)
qed

end
