(* ===== verification/Payload_Classes.thy ===== *)
theory Payload_Classes
  imports Payload_Json Profiling_Identity Network_Classifier
begin

section \<open>The classes of the profiling payloads\<close>

text \<open>
  The fields of every dataclass that crosses the profiling protocol or the profile store, in declaration
  order, with type hints and defaults, as \<^verbatim>\<open>dataclasses.fields\<close> and \<^verbatim>\<open>get_type_hints\<close> give them to the codec: the
  classes reachable from the payloads the mapper and the store decode. The type aliases of
  \<^verbatim>\<open>hashing.py\<close>, \<^verbatim>\<open>signature.py\<close> and \<^verbatim>\<open>experiment.py\<close> are resolved. The validation of the classes (\<^verbatim>\<open>__post_init__\<close>)
  stays a component of the table: what is shown here holds for any.
\<close>

subsection \<open>Type aliases\<close>

definition json_scalar_hint :: hint where
  "json_scalar_hint = HUnion [HBool, HInt, HFloat, HStr, HNone]"

definition structural_value_hint :: hint where
  "structural_value_hint = HUnion [HInt, HFloat, HStr, HBool]"

definition operator_parameters_hint :: hint where
  "operator_parameters_hint = HUnion (map HData [''GemmSignature'', ''AttentionSignature'', ''NormSignature'', ''EmbeddingSignature'', ''RotarySignature'',
     ''KvCopySignature'', ''GenericOperatorParameters'', ''CustomOperatorParameters''])"

definition case_spec_hint :: hint where
  "case_spec_hint = HUnion [HData ''ModelCaseSpec'', HData ''NetworkCaseSpec'']"

subsection \<open>\<^verbatim>\<open>profiling/domain/signature.py\<close>\<close>

definition operator_signature_fields :: "field_spec list" where
  "operator_signature_fields = [
    (''kind'', HEnum ''OperatorKind'', None), (''parameters'', operator_parameters_hint, None), (''backend_family'', HStr, None)]"

definition transformer_layer_signature_fields :: "field_spec list" where
  "transformer_layer_signature_fields = [
    (''architecture_family'', HStr, None), (''layer_type'', HStr, None), (''hidden_size'', HInt, None),
    (''intermediate_size'', HUnion [HInt, HNone], None), (''num_attention_heads'', HInt, None), (''num_kv_heads'', HUnion [HInt, HNone], None),
    (''head_dim'', HUnion [HInt, HNone], None), (''dtype'', HStr, None), (''quantization'', HUnion [HStr, HNone], None),
    (''special_role'', HUnion [HStr, HNone], Some PNone)]"

definition module_signature_fields :: "field_spec list" where
  "module_signature_fields = [
    (''kind'', HEnum ''ModuleKind'', None), (''architecture_family'', HStr, None),
    (''structural_parameters'', HTupleOf (HTuple [HStr, structural_value_hint]), None), (''dtype'', HStr, None),
    (''quantization'', HUnion [HStr, HNone], None)]"

definition gemm_signature_fields :: "field_spec list" where
  "gemm_signature_fields = [
    (''m'', HInt, None), (''n'', HInt, None), (''k'', HInt, None), (''dtype'', HStr, None), (''transpose_a'', HBool, Some (PBool False)),
    (''transpose_b'', HBool, Some (PBool False))]"

definition attention_signature_fields :: "field_spec list" where
  "attention_signature_fields = [
    (''batch_size'', HInt, None), (''num_heads'', HInt, None), (''num_kv_heads'', HInt, None), (''head_dim'', HInt, None), (''q_len'', HInt, None),
    (''kv_len'', HInt, None), (''dtype'', HStr, None), (''phase'', HEnum ''InferencePhase'', None)]"

definition norm_signature_fields :: "field_spec list" where
  "norm_signature_fields = [
    (''batch_size'', HInt, None), (''sequence_length'', HInt, None), (''hidden_size'', HInt, None), (''dtype'', HStr, None),
    (''variant'', HEnum ''NormVariant'', None)]"

definition embedding_signature_fields :: "field_spec list" where
  "embedding_signature_fields = [
    (''batch_size'', HInt, None), (''sequence_length'', HInt, None), (''vocab_size'', HInt, None), (''embedding_dim'', HInt, None),
    (''dtype'', HStr, None)]"

definition rotary_signature_fields :: "field_spec list" where
  "rotary_signature_fields = [
    (''batch_size'', HInt, None), (''sequence_length'', HInt, None), (''num_heads'', HInt, None), (''head_dim'', HInt, None),
    (''dtype'', HStr, None)]"

definition kv_copy_signature_fields :: "field_spec list" where
  "kv_copy_signature_fields = [
    (''batch_size'', HInt, None), (''num_kv_heads'', HInt, None), (''head_dim'', HInt, None), (''context_length'', HInt, None),
    (''dtype'', HStr, None)]"

definition generic_operator_parameters_fields :: "field_spec list" where
  "generic_operator_parameters_fields = [
    (''operation'', HStr, None), (''input_shapes'', HTupleOf (HTupleOf HInt), None), (''dtype'', HStr, None)]"

definition custom_operator_parameters_fields :: "field_spec list" where
  "custom_operator_parameters_fields = [
    (''raw_name'', HStr, None), (''input_shapes'', HTupleOf (HTupleOf HInt), None), (''input_dtypes'', HTupleOf HStr, None),
    (''metadata'', HTupleOf (HTuple [HStr, json_scalar_hint]), Some (PTuple []))]"

subsection \<open>\<^verbatim>\<open>profiling/domain/model.py\<close>\<close>

definition model_reference_fields :: "field_spec list" where
  "model_reference_fields = [
    (''model_id'', HStr, None), (''revision'', HUnion [HStr, HNone], Some PNone)]"

definition model_characterization_fields :: "field_spec list" where
  "model_characterization_fields = [
    (''model'', HData ''ModelReference'', None), (''architecture_family'', HStr, None), (''num_layers'', HInt, None), (''hidden_size'', HInt, None),
    (''intermediate_size'', HInt, None), (''vocab_size'', HInt, None), (''num_attention_heads'', HInt, None), (''num_kv_heads'', HInt, None),
    (''head_dim'', HUnion [HInt, HNone], None), (''dtype'', HStr, None), (''quantization'', HUnion [HStr, HNone], None),
    (''tied_word_embeddings'', HBool, None), (''stages'', HTupleOf (HData ''ModelStage''), None)]"

definition model_stage_fields :: "field_spec list" where
  "model_stage_fields = [
    (''kind'', HEnum ''StageKind'', None), (''layer_count'', HUnion [HInt, HNone], Some PNone)]"

subsection \<open>\<^verbatim>\<open>profiling/domain/environment.py\<close>\<close>

definition performance_state_fields :: "field_spec list" where
  "performance_state_fields = [
    (''power_mode'', HUnion [HStr, HNone], Some PNone), (''cpu_min_mhz'', HUnion [HInt, HNone], Some PNone),
    (''cpu_max_mhz'', HUnion [HInt, HNone], Some PNone), (''gpu_min_mhz'', HUnion [HInt, HNone], Some PNone),
    (''gpu_max_mhz'', HUnion [HInt, HNone], Some PNone), (''emc_min_mhz'', HUnion [HInt, HNone], Some PNone),
    (''emc_max_mhz'', HUnion [HInt, HNone], Some PNone), (''cpu_locked'', HUnion [HBool, HNone], Some PNone),
    (''gpu_locked'', HUnion [HBool, HNone], Some PNone), (''emc_locked'', HUnion [HBool, HNone], Some PNone)]"

definition environment_fingerprint_fields :: "field_spec list" where
  "environment_fingerprint_fields = [
    (''backend'', HStr, None), (''profiling_implementation_revision'', HStr, None),
    (''device_performance_class_id'', HUnion [HStr, HNone], Some PNone),
    (''device_performance_class'', HUnion [HData ''DevicePerformanceClass'', HNone], Some PNone),
    (''capability_revision'', HUnion [HStr, HNone], Some PNone), (''torch_version'', HUnion [HStr, HNone], Some PNone),
    (''cuda_version'', HUnion [HStr, HNone], Some PNone), (''driver_version'', HUnion [HStr, HNone], Some PNone),
    (''backend_revision'', HUnion [HStr, HNone], Some PNone), (''performance_state'', HUnion [HData ''PerformanceState'', HNone], Some PNone),
    (''model_revision'', HUnion [HStr, HNone], Some PNone), (''dtype'', HUnion [HStr, HNone], Some PNone),
    (''quantization'', HUnion [HStr, HNone], Some PNone), (''worker_id'', HUnion [HStr, HNone], Some PNone),
    (''device_id'', HUnion [HStr, HNone], Some PNone)]"

definition device_performance_class_fields :: "field_spec list" where
  "device_performance_class_fields = [
    (''vendor'', HStr, None), (''accelerator_model'', HStr, None), (''memory_model'', HEnum ''MemoryModel'', None), (''backend_family'', HStr, None),
    (''architecture'', HUnion [HStr, HNone], Some PNone), (''dtype'', HUnion [HStr, HNone], Some PNone),
    (''software_versions'', HTupleOf (HTuple [HStr, HStr]), Some (PTuple []))]"

definition device_performance_class_membership_fields :: "field_spec list" where
  "device_performance_class_membership_fields = [
    (''device_performance_class_id'', HStr, None), (''worker_id'', HStr, None), (''device_id'', HStr, None), (''verified'', HBool, None),
    (''verified_at'', HUnion [HTime, HNone], Some PNone), (''evidence_measurement_ids'', HTupleOf HStr, Some (PTuple []))]"

subsection \<open>\<^verbatim>\<open>profiling/domain/network.py\<close>\<close>

definition network_pair_fields :: "field_spec list" where
  "network_pair_fields = [
    (''source_worker_id'', HStr, None), (''destination_worker_id'', HStr, None), (''source_interface_id'', HUnion [HStr, HNone], Some PNone),
    (''destination_interface_id'', HUnion [HStr, HNone], Some PNone)]"

definition network_endpoint_profile_fields :: "field_spec list" where
  "network_endpoint_profile_fields = [
    (''worker_id'', HStr, None), (''interface_id'', HStr, None), (''addresses'', HTupleOf HStr, Some (PTuple [])),
    (''mtu'', HUnion [HInt, HNone], Some PNone), (''link_speed_mbps'', HUnion [HFloat, HNone], Some PNone),
    (''interface_type'', HUnion [HStr, HNone], Some PNone), (''overlay_type'', HUnion [HStr, HNone], Some PNone)]"

subsection \<open>\<^verbatim>\<open>profiling/domain/measurement.py\<close>\<close>

definition measurement_record_fields :: "field_spec list" where
  "measurement_record_fields = [
    (''measurement_id'', HStr, None), (''case_id'', HStr, None), (''environment_fingerprint'', HStr, None), (''started_at'', HTime, None),
    (''finished_at'', HTime, None), (''sample_count'', HInt, None), (''samples'', HUnion [HTupleOf HFloat, HNone], None),
    (''metrics'', HData ''MeasurementMetrics'', None), (''metadata'', HTupleOf (HTuple [HStr, json_scalar_hint]), Some (PTuple [])),
    (''environment'', HUnion [HData ''EnvironmentFingerprint'', HNone], Some PNone),
    (''quality'', HUnion [HData ''MeasurementQuality'', HNone], Some PNone)]"

definition measurement_metrics_fields :: "field_spec list" where
  "measurement_metrics_fields = [
    (''latency'', HUnion [HData ''LatencyMetrics'', HNone], Some PNone),
    (''allocator_memory'', HUnion [HData ''AllocatorMemoryMetrics'', HNone], Some PNone),
    (''physical_memory'', HUnion [HData ''PhysicalMemoryMetrics'', HNone], Some PNone),
    (''telemetry'', HUnion [HData ''TelemetryContextMetrics'', HNone], Some PNone), (''rtt'', HUnion [HData ''RttMetrics'', HNone], Some PNone),
    (''bandwidth'', HUnion [HData ''BandwidthMetrics'', HNone], Some PNone)]"

definition measurement_quality_fields :: "field_spec list" where
  "measurement_quality_fields = [
    (''stationary'', HBool, None), (''drift_ratio'', HFloat, None), (''coefficient_of_variation'', HFloat, None),
    (''eligible_for_calibration'', HBool, None)]"

definition latency_metrics_fields :: "field_spec list" where
  "latency_metrics_fields = [
    (''summary'', HData ''SampleSummary'', None), (''unit'', HEnum ''TimeUnit'', None)]"

definition allocator_memory_metrics_fields :: "field_spec list" where
  "allocator_memory_metrics_fields = [
    (''allocated_before'', HInt, None), (''reserved_before'', HInt, None), (''peak_allocated'', HInt, None), (''peak_reserved'', HInt, None),
    (''allocated_after'', HInt, None), (''reserved_after'', HInt, None)]"

definition physical_memory_metrics_fields :: "field_spec list" where
  "physical_memory_metrics_fields = [
    (''pool_id'', HStr, None), (''used_before'', HUnion [HInt, HNone], None), (''used_peak'', HUnion [HInt, HNone], None),
    (''used_after'', HUnion [HInt, HNone], None)]"

definition telemetry_context_metrics_fields :: "field_spec list" where
  "telemetry_context_metrics_fields = [
    (''initial'', HUnion [HData ''TelemetrySample'', HNone], Some PNone), (''final'', HUnion [HData ''TelemetrySample'', HNone], Some PNone),
    (''contaminated'', HUnion [HBool, HNone], Some PNone)]"

definition rtt_metrics_fields :: "field_spec list" where
  "rtt_metrics_fields = [
    (''summary'', HData ''SampleSummary'', None), (''unit'', HEnum ''TimeUnit'', None), (''packets_sent'', HInt, None),
    (''packets_received'', HInt, None)]"

definition bandwidth_metrics_fields :: "field_spec list" where
  "bandwidth_metrics_fields = [
    (''bits_per_second'', HFloat, None), (''payload_bytes'', HUnion [HInt, HNone], Some PNone), (''retransmits'', HUnion [HInt, HNone], Some PNone),
    (''duration_s'', HUnion [HFloat, HNone], Some PNone)]"

definition sample_summary_fields :: "field_spec list" where
  "sample_summary_fields = [
    (''mean'', HFloat, None), (''median'', HFloat, None), (''stddev'', HFloat, None), (''minimum'', HFloat, None), (''maximum'', HFloat, None),
    (''p95'', HUnion [HFloat, HNone], None)]"

definition telemetry_sample_fields :: "field_spec list" where
  "telemetry_sample_fields = [
    (''device_id'', HStr, None), (''utilization'', HUnion [HFloat, HNone], Some PNone), (''temperature_c'', HUnion [HFloat, HNone], Some PNone),
    (''power_w'', HUnion [HFloat, HNone], Some PNone), (''clock_mhz'', HUnion [HFloat, HNone], Some PNone),
    (''emc_clock_mhz'', HUnion [HFloat, HNone], Some PNone), (''memory_used_bytes'', HUnion [HInt, HNone], Some PNone)]"

subsection \<open>\<^verbatim>\<open>profiling/domain/session.py\<close>\<close>

definition profiling_session_request_fields :: "field_spec list" where
  "profiling_session_request_fields = [
    (''kind'', HEnum ''ProfilingSessionKind'', None), (''device_ids'', HTupleOf HStr, Some (PTuple [])), (''backend'', HStr, Some (PStr ''torch'')),
    (''model'', HUnion [HData ''ModelReference'', HNone], Some PNone), (''dtype'', HUnion [HStr, HNone], Some PNone),
    (''quantization'', HUnion [HStr, HNone], Some PNone), (''target_layer_index'', HUnion [HInt, HNone], Some PNone)]"

definition model_session_facts_fields :: "field_spec list" where
  "model_session_facts_fields = [
    (''characterization'', HData ''ModelCharacterization'', None), (''layer_entries'', HTupleOf (HData ''LayerEntry''), None),
    (''module_entries'', HTupleOf (HData ''ModuleEntry''), None), (''operator_signatures'', HTupleOf (HData ''OperatorSignature''), None),
    (''environment'', HUnion [HData ''EnvironmentFingerprint'', HNone], Some PNone)]"

definition layer_entry_fields :: "field_spec list" where
  "layer_entry_fields = [
    (''index'', HInt, None), (''module_path'', HStr, None), (''signature'', HData ''TransformerLayerSignature'', None)]"

definition module_entry_fields :: "field_spec list" where
  "module_entry_fields = [
    (''name'', HStr, None), (''module_path'', HStr, None), (''kind'', HEnum ''ModuleKind'', None), (''layer_index'', HInt, None),
    (''signature'', HData ''ModuleSignature'', None)]"

subsection \<open>\<^verbatim>\<open>profiling/domain/experiment.py\<close>\<close>

definition profiling_failure_fields :: "field_spec list" where
  "profiling_failure_fields = [
    (''category'', HEnum ''ProfilingErrorCategory'', None), (''message'', HStr, None),
    (''details'', HTupleOf (HTuple [HStr, json_scalar_hint]), Some (PTuple []))]"

definition profiling_case_fields :: "field_spec list" where
  "profiling_case_fields = [
    (''case_id'', HStr, None), (''worker_id'', HStr, None), (''spec'', case_spec_hint, None)]"

definition case_outcome_fields :: "field_spec list" where
  "case_outcome_fields = [
    (''record'', HUnion [HData ''MeasurementRecord'', HNone], Some PNone), (''failure'', HUnion [HData ''ProfilingFailure'', HNone], Some PNone)]"

definition profiling_request_fields :: "field_spec list" where
  "profiling_request_fields = [
    (''kind'', HEnum ''ProfilingSessionKind'', None), (''model'', HUnion [HData ''ModelReference'', HNone], Some PNone),
    (''dtype'', HUnion [HStr, HNone], Some PNone), (''worker_ids'', HTupleOf HStr, Some (PTuple [])),
    (''device_ids'', HTupleOf HStr, Some (PTuple [])), (''worker_device_targets'', HTupleOf (HData ''WorkerDeviceTarget''), Some (PTuple [])),
    (''missing_only'', HBool, Some (PBool True)), (''network_probe'', HUnion [HEnum ''ProbeKind'', HNone], Some PNone),
    (''bandwidth_path_classes'', HTupleOf (HEnum ''NetworkPathClass''), Some (PTuple [])),
    (''extra_bandwidth_pairs'', HTupleOf (HData ''NetworkPair''), Some (PTuple [])),
    (''network_pairs'', HTupleOf (HData ''NetworkPair''), Some (PTuple [])), (''requested_by'', HUnion [HStr, HNone], Some PNone)]"

definition experiment_status_fields :: "field_spec list" where
  "experiment_status_fields = [
    (''experiment'', HData ''ProfilingExperiment'', None), (''state'', HEnum ''ExperimentState'', None),
    (''cases'', HTupleOf (HData ''CaseStatus''), None)]"

definition model_case_spec_fields :: "field_spec list" where
  "model_case_spec_fields = [
    (''granularity'', HEnum ''ProfilingGranularity'', None), (''device_ids'', HTupleOf HStr, None), (''dtype'', HStr, None),
    (''backend'', HStr, Some (PStr ''torch'')), (''model'', HUnion [HData ''ModelReference'', HNone], Some PNone),
    (''layer_signature'', HUnion [HData ''TransformerLayerSignature'', HNone], Some PNone),
    (''module_signature'', HUnion [HData ''ModuleSignature'', HNone], Some PNone),
    (''operator_signature'', HUnion [HData ''OperatorSignature'', HNone], Some PNone),
    (''phase'', HEnum ''InferencePhase'', Some (PEnum ''InferencePhase'' ''prefill'')), (''batch_size'', HInt, Some (PInt 1)),
    (''sequence_length'', HInt, Some (PInt 512)), (''context_length'', HUnion [HInt, HNone], Some PNone),
    (''layer_index'', HUnion [HInt, HNone], Some PNone)]"

definition network_case_spec_fields :: "field_spec list" where
  "network_case_spec_fields = [
    (''probe_kind'', HEnum ''ProbeKind'', None), (''source_worker_id'', HStr, None), (''destination_worker_id'', HStr, None),
    (''source_interface_id'', HUnion [HStr, HNone], Some PNone), (''destination_interface_id'', HUnion [HStr, HNone], Some PNone),
    (''path_class'', HUnion [HEnum ''NetworkPathClass'', HNone], Some PNone), (''transport'', HUnion [HEnum ''NetworkTransport'', HNone], Some PNone),
    (''direction'', HUnion [HEnum ''NetworkDirection'', HNone], Some PNone), (''duration_s'', HUnion [HFloat, HNone], Some PNone),
    (''packet_count'', HUnion [HInt, HNone], Some PNone), (''payload_bytes'', HUnion [HInt, HNone], Some PNone),
    (''regime'', HEnum ''NetworkMeasurementRegime'', Some (PEnum ''NetworkMeasurementRegime'' ''idle_single_flow''))]"

definition worker_device_target_fields :: "field_spec list" where
  "worker_device_target_fields = [
    (''worker_id'', HStr, None), (''device_id'', HStr, None)]"

definition profiling_experiment_fields :: "field_spec list" where
  "profiling_experiment_fields = [
    (''experiment_id'', HStr, None), (''strategy_id'', HStr, None), (''created_at'', HTime, None), (''requested_by'', HUnion [HStr, HNone], None),
    (''case_ids'', HTupleOf HStr, None), (''configuration_id'', HUnion [HStr, HNone], Some PNone)]"

definition case_status_fields :: "field_spec list" where
  "case_status_fields = [
    (''case_id'', HStr, None), (''worker_id'', HStr, None), (''state'', HEnum ''CaseState'', None),
    (''failure'', HUnion [HData ''ProfilingFailure'', HNone], Some PNone)]"

subsection \<open>\<^verbatim>\<open>profiling/domain/snapshot.py\<close>\<close>

definition profile_snapshot_fields :: "field_spec list" where
  "profile_snapshot_fields = [
    (''snapshot_id'', HStr, None), (''created_at'', HTime, None), (''model_characterizations'', HTupleOf (HData ''ModelCharacterization''), None),
    (''measurements'', HTupleOf (HData ''MeasurementRecord''), None), (''network_measurements'', HTupleOf (HData ''MeasurementRecord''), None),
    (''profiling_cases'', HTupleOf (HData ''ProfilingCase''), Some (PTuple [])),
    (''layer_signatures'', HTupleOf (HData ''TransformerLayerSignature''), Some (PTuple [])),
    (''module_signatures'', HTupleOf (HData ''ModuleSignature''), Some (PTuple [])),
    (''operator_signatures'', HTupleOf (HData ''OperatorSignature''), Some (PTuple [])),
    (''environment_fingerprints'', HTupleOf (HData ''EnvironmentFingerprint''), Some (PTuple [])),
    (''device_performance_classes'', HTupleOf (HData ''DevicePerformanceClass''), Some (PTuple [])),
    (''device_performance_class_memberships'', HTupleOf (HData ''DevicePerformanceClassMembership''), Some (PTuple [])),
    (''network_endpoints'', HTupleOf (HData ''NetworkEndpointProfile''), Some (PTuple [])),
    (''network_paths'', HTupleOf (HData ''NetworkPathProfile''), Some (PTuple []))]"

definition network_path_profile_fields :: "field_spec list" where
  "network_path_profile_fields = [
    (''pair'', HData ''NetworkPair'', None), (''path_class'', HEnum ''NetworkPathClass'', None)]"

subsection \<open>\<^verbatim>\<open>profiling/network/classifier.py\<close>\<close>

definition worker_network_facts_fields :: "field_spec list" where
  "worker_network_facts_fields = [
    (''worker_id'', HStr, None), (''hostname'', HStr, None), (''interfaces'', HTupleOf (HData ''InterfaceFacts''), None)]"

definition interface_facts_fields :: "field_spec list" where
  "interface_facts_fields = [
    (''interface_id'', HStr, None), (''name'', HStr, None), (''kind'', HEnum ''InterfaceKind'', None), (''overlay_type'', HUnion [HStr, HNone], None),
    (''addresses'', HTupleOf HStr, None), (''mtu'', HUnion [HInt, HNone], None)]"

subsection \<open>\<^verbatim>\<open>protocol/profiling/mapper.py\<close>\<close>

definition network_facts_batch_fields :: "field_spec list" where
  "network_facts_batch_fields = [
    (''facts'', HTupleOf (HData ''WorkerNetworkFacts''), None)]"


subsection \<open>The tables\<close>

definition profiling_classes :: "(string \<times> field_spec list) list" where
  "profiling_classes = [
    (''OperatorSignature'', operator_signature_fields),
    (''TransformerLayerSignature'', transformer_layer_signature_fields),
    (''ModuleSignature'', module_signature_fields),
    (''GemmSignature'', gemm_signature_fields),
    (''AttentionSignature'', attention_signature_fields),
    (''NormSignature'', norm_signature_fields),
    (''EmbeddingSignature'', embedding_signature_fields),
    (''RotarySignature'', rotary_signature_fields),
    (''KvCopySignature'', kv_copy_signature_fields),
    (''GenericOperatorParameters'', generic_operator_parameters_fields),
    (''CustomOperatorParameters'', custom_operator_parameters_fields),
    (''ModelReference'', model_reference_fields),
    (''ModelCharacterization'', model_characterization_fields),
    (''ModelStage'', model_stage_fields),
    (''PerformanceState'', performance_state_fields),
    (''EnvironmentFingerprint'', environment_fingerprint_fields),
    (''DevicePerformanceClass'', device_performance_class_fields),
    (''DevicePerformanceClassMembership'', device_performance_class_membership_fields),
    (''NetworkPair'', network_pair_fields),
    (''NetworkEndpointProfile'', network_endpoint_profile_fields),
    (''MeasurementRecord'', measurement_record_fields),
    (''MeasurementMetrics'', measurement_metrics_fields),
    (''MeasurementQuality'', measurement_quality_fields),
    (''LatencyMetrics'', latency_metrics_fields),
    (''AllocatorMemoryMetrics'', allocator_memory_metrics_fields),
    (''PhysicalMemoryMetrics'', physical_memory_metrics_fields),
    (''TelemetryContextMetrics'', telemetry_context_metrics_fields),
    (''RttMetrics'', rtt_metrics_fields),
    (''BandwidthMetrics'', bandwidth_metrics_fields),
    (''SampleSummary'', sample_summary_fields),
    (''TelemetrySample'', telemetry_sample_fields),
    (''ProfilingSessionRequest'', profiling_session_request_fields),
    (''ModelSessionFacts'', model_session_facts_fields),
    (''LayerEntry'', layer_entry_fields),
    (''ModuleEntry'', module_entry_fields),
    (''ProfilingFailure'', profiling_failure_fields),
    (''ProfilingCase'', profiling_case_fields),
    (''CaseOutcome'', case_outcome_fields),
    (''ProfilingRequest'', profiling_request_fields),
    (''ExperimentStatus'', experiment_status_fields),
    (''ModelCaseSpec'', model_case_spec_fields),
    (''NetworkCaseSpec'', network_case_spec_fields),
    (''WorkerDeviceTarget'', worker_device_target_fields),
    (''ProfilingExperiment'', profiling_experiment_fields),
    (''CaseStatus'', case_status_fields),
    (''ProfileSnapshot'', profile_snapshot_fields),
    (''NetworkPathProfile'', network_path_profile_fields),
    (''WorkerNetworkFacts'', worker_network_facts_fields),
    (''InterfaceFacts'', interface_facts_fields),
    (''NetworkFactsBatch'', network_facts_batch_fields)]"


definition profiling_enums :: "(string \<times> string list) list" where
  "profiling_enums = [
    (''ProfilingGranularity'', map granularity_value [TRANSFORMER_LAYER, MODULE, OPERATOR]),
    (''InferencePhase'', map prof_phase_value [PHASE_PREFILL, PHASE_DECODE]),
    (''ModuleKind'', map module_kind_value [MODULE_ATTENTION, MODULE_MLP, MODULE_NORM, MODULE_PROJECTION, MODULE_EMBEDDING, MODULE_LM_HEAD,
      MODULE_VISION_ENCODER, MODULE_PROJECTOR, MODULE_OTHER]),
    (''OperatorKind'', map operator_kind_value [OP_GEMM, OP_ATTENTION, OP_NORM, OP_ROTARY, OP_ELEMENTWISE, OP_REDUCTION, OP_EMBEDDING,
      OP_KV_COPY, OP_CUSTOM]),
    (''NormVariant'', map norm_variant_value [RMS, LAYER, OTHER_NORM]),
    (''StageKind'', map stage_kind_value [STAGE_EMBEDDING, STAGE_LAYER_GROUP, STAGE_FINAL_NORM, STAGE_LM_HEAD, STAGE_VISION_ENCODER,
      STAGE_PROJECTOR, STAGE_OTHER]),
    (''MemoryModel'', map memory_model_value [DISCRETE, SHARED]),
    (''NetworkPathClass'', map path_class_value [SAME_HOST, WIRED_LAN, WIFI_LAN, OVERLAY, CROSS_SUBNET, OTHER_PATH]),
    (''ProbeKind'', map probe_kind_value [RTT, BANDWIDTH]),
    (''NetworkTransport'', map net_transport_value [TCP, UDP]),
    (''NetworkDirection'', map net_direction_value [FORWARD, REVERSE]),
    (''NetworkMeasurementRegime'', map net_regime_value [IDLE_SINGLE_FLOW]),
    (''TimeUnit'', map time_unit_value [SECONDS, MILLISECONDS, MICROSECONDS, NANOSECONDS]),
    (''ProfilingSessionKind'', map session_kind_value [MODEL_SESSION, OPERATOR_SESSION, NETWORK_SESSION]),
    (''ProfilingErrorCategory'', map error_category_value [UNSUPPORTED_MODEL, UNSUPPORTED_GRANULARITY, UNSUPPORTED_PHASE, UNSUPPORTED_OPERATOR,
      DEVICE_BUSY, INSUFFICIENT_MEMORY, EXPORT_FAILED, PROFILER_FAILED, BENCHMARK_FAILED, NETWORK_UNREACHABLE, IPERF_UNAVAILABLE, TIMEOUT,
      ERROR_CANCELLED, UNSTABLE_PERFORMANCE_STATE, INTERNAL_ERROR]),
    (''ExperimentState'', map experiment_state_value [EXP_PENDING, EXP_RUNNING, EXP_COMPLETED, EXP_PARTIALLY_COMPLETED, EXP_CANCELLED, EXP_FAILED]),
    (''CaseState'', map case_state_value [CASE_PENDING, CASE_RUNNING, CASE_COMPLETED, CASE_FAILED, CASE_CANCELLED]),
    (''InterfaceKind'', map interface_kind_value [IF_WIRED, IF_WIRELESS, IF_OVERLAY, IF_UNKNOWN])]"


text \<open>The codec's table of these classes: what remains open are the validations and the library.\<close>

definition profiling_table :: "codec_table \<Rightarrow> codec_table" where
  "profiling_table L = L\<lparr>ct_fields := map_of profiling_classes, ct_enum := map_of profiling_enums\<rparr>"

lemmas class_fields =
  operator_signature_fields_def transformer_layer_signature_fields_def module_signature_fields_def gemm_signature_fields_def attention_signature_fields_def
  norm_signature_fields_def embedding_signature_fields_def rotary_signature_fields_def kv_copy_signature_fields_def generic_operator_parameters_fields_def
  custom_operator_parameters_fields_def model_reference_fields_def model_characterization_fields_def model_stage_fields_def performance_state_fields_def
  environment_fingerprint_fields_def device_performance_class_fields_def device_performance_class_membership_fields_def network_pair_fields_def network_endpoint_profile_fields_def
  measurement_record_fields_def measurement_metrics_fields_def measurement_quality_fields_def latency_metrics_fields_def allocator_memory_metrics_fields_def
  physical_memory_metrics_fields_def telemetry_context_metrics_fields_def rtt_metrics_fields_def bandwidth_metrics_fields_def sample_summary_fields_def
  telemetry_sample_fields_def profiling_session_request_fields_def model_session_facts_fields_def layer_entry_fields_def module_entry_fields_def
  profiling_failure_fields_def profiling_case_fields_def case_outcome_fields_def profiling_request_fields_def experiment_status_fields_def
  model_case_spec_fields_def network_case_spec_fields_def worker_device_target_fields_def profiling_experiment_fields_def case_status_fields_def
  profile_snapshot_fields_def network_path_profile_fields_def worker_network_facts_fields_def interface_facts_fields_def network_facts_batch_fields_def

lemmas payload_aliases = json_scalar_hint_def structural_value_hint_def operator_parameters_hint_def case_spec_hint_def

text \<open>The unions of these classes are unambiguous: the comment of \<^verbatim>\<open>_decode_union\<close>, checked for every field.\<close>

lemma profiling_classes_wf: "list_all (\<lambda>(c, specs). wf_specs specs) profiling_classes"
  by code_simp

lemma profiling_table_wf: "wf_table (profiling_table L)"
  using profiling_classes_wf by (auto simp: wf_table_def profiling_table_def list_all_iff dest: map_of_SomeD)

text \<open>The defaults are values of their hints.\<close>

fun plain_default :: "hint \<Rightarrow> pyval \<Rightarrow> bool" where
  "plain_default (HUnion hs) PNone = (HNone \<in> set hs)"
| "plain_default (HTupleOf h) (PTuple vs) = (vs = [])"
| "plain_default HBool (PBool b) = True"
| "plain_default HInt (PInt i) = True"
| "plain_default HStr (PStr s) = True"
| "plain_default (HEnum c) (PEnum d v) = (d = c \<and> (case map_of profiling_enums c of None \<Rightarrow> False | Some vs \<Rightarrow> v \<in> set vs))"
| "plain_default _ _ = False"

lemma plain_default_typed: "plain_default h v \<Longrightarrow> typed (profiling_table L) h v"
  by (induction h v rule: plain_default.induct) (auto simp: profiling_table_def split: option.splits intro: typed.intros)

lemma profiling_defaults: "list_all (\<lambda>(c, specs). list_all (\<lambda>(n, h, d). case d of None \<Rightarrow> True | Some v \<Rightarrow> plain_default h v) specs) profiling_classes"
  by code_simp

lemma profiling_table_defaults: "defaults_ok (profiling_table L)"
  unfolding defaults_ok_def
proof (intro allI impI)
  fix c specs n h v
  assume "ct_fields (profiling_table L) c = Some specs \<and> (n, h, Some v) \<in> set specs"
  then have "(c, specs) \<in> set profiling_classes" "(n, h, Some v) \<in> set specs" by (auto simp: profiling_table_def dest: map_of_SomeD)
  then have "plain_default h v" using profiling_defaults unfolding list_all_iff by fastforce
  then show "typed (profiling_table L) h v" by (rule plain_default_typed)
qed


subsection \<open>A library and a validation\<close>

definition demo_parse :: "string \<Rightarrow> pyfloat" where
  "demo_parse t = (if t = ''Infinity'' then PInf else if t = ''-Infinity'' then NInf else if t = ''NaN'' then NaN
     else Fin (of_int (int_value (takeWhile (\<lambda>c. c \<noteq> CHR ''e'') t)) / of_int (int_value (tl (dropWhile (\<lambda>c. c \<noteq> CHR ''e'') t)))))"

definition demo_texts :: codec_table where
  "demo_texts = \<lparr>ct_fields = Map.empty, ct_enum = Map.empty,
     ct_init = (\<lambda>c fs. if c = ''ProfilingFailure'' \<and> map_of fs ''message'' = Some (PStr []) then Inl (ValueError ''message must not be empty'') else Inr ()),
     ct_repr = demo_repr, ct_parse_float = demo_parse,
     ct_float_of_int = (\<lambda>i. if \<bar>i\<bar> < 2 ^ 1024 then Some (Fin (of_int i)) else None),
     ct_isoformat = (\<lambda>t. int_str (ts_value t) @ (if ts_aware t then ''Z'' else [])),
     ct_fromisoformat = (\<lambda>s. if s \<noteq> [] \<and> last s = CHR ''Z'' then Some \<lparr>ts_value = int_value (butlast s), ts_aware = True\<rparr>
        else Some \<lparr>ts_value = int_value s, ts_aware = False\<rparr>)\<rparr>"

lemma int_str_no_letter: "CHR ''e'' \<notin> set (int_str i)" "CHR ''Z'' \<notin> set (int_str i)" "CHR ''I'' \<notin> set (int_str i)" "CHR ''N'' \<notin> set (int_str i)"
  by (auto simp: digit_def dest: int_str_chars)

lemma demo_repr_split:
  "takeWhile (\<lambda>c. c \<noteq> CHR ''e'') (demo_repr x) = int_str (fst (quotient_of x))"
  "dropWhile (\<lambda>c. c \<noteq> CHR ''e'') (demo_repr x) = CHR ''e'' # int_str (snd (quotient_of x))"
proof -
  have "\<forall>c \<in> set (int_str (fst (quotient_of x))). c \<noteq> CHR ''e''" using int_str_no_letter(1) by metis
  then show "takeWhile (\<lambda>c. c \<noteq> CHR ''e'') (demo_repr x) = int_str (fst (quotient_of x))"
    "dropWhile (\<lambda>c. c \<noteq> CHR ''e'') (demo_repr x) = CHR ''e'' # int_str (snd (quotient_of x))"
    by (simp_all add: demo_repr_def takeWhile_append2 dropWhile_append2)
qed

lemma demo_repr_finite: "demo_repr r \<noteq> ''Infinity''" "demo_repr r \<noteq> ''-Infinity''" "demo_repr r \<noteq> ''NaN''"
proof -
  have "CHR ''I'' \<notin> set (demo_repr r)" "CHR ''N'' \<notin> set (demo_repr r)" using int_str_no_letter(3,4) by (auto simp: demo_repr_def)
  then show "demo_repr r \<noteq> ''Infinity''" "demo_repr r \<noteq> ''-Infinity''" "demo_repr r \<noteq> ''NaN''" by auto
qed

lemma demo_parse_repr: "demo_parse (float_literal demo_repr x) = x"
proof (cases x)
  case (Fin r)
  have "of_int (fst (quotient_of r)) / of_int (snd (quotient_of r)) = r"
    by (rule quotient_of_div [symmetric]) simp
  then show ?thesis by (simp add: Fin demo_parse_def demo_repr_finite demo_repr_split int_str_literal(2))
qed (simp_all add: demo_parse_def)

lemma demo_texts_standard: "standard_texts demo_texts"
proof -
  have "ct_fromisoformat demo_texts (ct_isoformat demo_texts t) = Some t" for t
  proof -
    have "int_str (ts_value t) \<noteq> []" using int_str_head [of "ts_value t"] by auto
    moreover from this have "last (int_str (ts_value t)) \<noteq> CHR ''Z''" using int_str_no_letter(2) last_in_set by metis
    ultimately show ?thesis by (cases t) (simp add: demo_texts_def int_str_literal(2))
  qed
  moreover have "float_token (demo_repr x)" for x
  proof -
    have "0 < snd (quotient_of x)" by (simp add: quotient_of_denom_pos')
    then have d: "list_all digit (int_str (snd (quotient_of x)))" "int_str (snd (quotient_of x)) \<noteq> []"
      using nat_str_digits nat_str_not_Nil by (auto simp: int_str_def list_all_iff digit_def)
    obtain c s where cs: "int_str (fst (quotient_of x)) = c # s" using int_str_head by blast
    let ?u = "without_sign (int_str (fst (quotient_of x)))"
    have u: "natural_literal ?u" using int_str_literal(1) by (simp add: int_literal_def)
    have "without_sign (demo_repr x) = ?u @ CHR ''e'' # int_str (snd (quotient_of x))" by (simp add: demo_repr_def cs without_sign_def)
    moreover have "takeWhile digit (?u @ CHR ''e'' # r) = ?u" "dropWhile digit (?u @ CHR ''e'' # r) = CHR ''e'' # r" for r
      using u by (simp_all add: natural_literal_def list_all_iff takeWhile_append2 dropWhile_append2) (simp_all add: digit_def)
    moreover obtain a b where "int_str (snd (quotient_of x)) = a # b" "digit a" using d by (cases "int_str (snd (quotient_of x))") auto
    ultimately show ?thesis using d u by (auto simp: float_token_def exponent_literal_def digit_def)
  qed
  ultimately show ?thesis using demo_parse_repr by (simp add: standard_texts_def reads_back_def) (simp add: demo_texts_def)
qed


definition demo_failure :: pyval where
  "demo_failure = PData ''ProfilingFailure'' [(''category'', PEnum ''ProfilingErrorCategory'' ''timeout''), (''message'', PStr ''late''),
     (''details'', PTuple [PTuple [PStr ''limit'', PInt 3], PTuple [PStr ''ratio'', PFloat (Fin (1 / 2))]])]"

lemma demo_failure_typed: "typed (profiling_table demo_texts) (HData ''ProfilingFailure'') demo_failure"
proof -
  let ?T = "profiling_table demo_texts"
  have "typed ?T (HTuple [HStr, json_scalar_hint]) (PTuple [PStr ''limit'', PInt 3])"
    "typed ?T (HTuple [HStr, json_scalar_hint]) (PTuple [PStr ''ratio'', PFloat (Fin (1 / 2))])"
    by (auto simp: json_scalar_hint_def intro!: typed_tuple typed_str intro: typed_member [of HInt] typed_member [of HFloat] typed_int typed_float)
  then have "typed ?T (HTupleOf (HTuple [HStr, json_scalar_hint])) (PTuple [PTuple [PStr ''limit'', PInt 3], PTuple [PStr ''ratio'', PFloat (Fin (1 / 2))]])"
    by (intro typed_tuple_of) simp
  moreover have "ct_fields ?T ''ProfilingFailure'' = Some profiling_failure_fields" by (simp add: profiling_table_def profiling_classes_def)
  moreover have "typed ?T (HEnum ''ProfilingErrorCategory'') (PEnum ''ProfilingErrorCategory'' ''timeout'')"
    by (rule typed_enum, simp add: profiling_table_def profiling_enums_def) simp
  ultimately show ?thesis unfolding demo_failure_def
    by (intro typed_data) (auto simp: profiling_failure_fields_def profiling_table_def demo_texts_def intro: typed_str)
qed


subsection \<open>Properties\<close>

text \<open>[C19] A payload survives the trip through its text: whatever the validations, for a library whose texts of floats
  and datetimes can be read back, a well-typed instance of any profiling class that \<^verbatim>\<open>encode_json\<close> prints is read
  by \<^verbatim>\<open>decode_json\<close> as the same value. Unions, nested objects, optional fields and the sorting of keys included.\<close>

theorem payload_round_trip:
  assumes "standard_texts L" "typed (profiling_table L) (HData c) v" "encode_json (profiling_table L) v = Inr text"
  shows "decode_json (profiling_table L) c text = Inr v"
proof -
  have "standard_texts (profiling_table L)" using assms(1) by (simp add: standard_texts_def reads_back_def profiling_table_def)
  from decode_json_encoded [OF profiling_table_wf profiling_table_defaults this assms(2,3)] show ?thesis .
qed

theorem payload_round_trip_witness:
  "decode_json (profiling_table demo_texts) ''ProfilingFailure'' (dumps (encode_payload (profiling_table demo_texts) demo_failure)) = Inr demo_failure"
  by (rule payload_round_trip [OF demo_texts_standard demo_failure_typed])
    (simp add: encode_json_def demo_failure_def profiling_table_def demo_texts_def demo_repr_finite del: dumps.simps)

text \<open>[C20] The decoder returns only valid values: whatever the text, what \<^verbatim>\<open>decode_json\<close> returns for a class is an
  instance of it with exactly the declared fields, each a value of its declared type (enumeration members, variants of
  unions and defaults included), that passed the validation of every dataclass in it.\<close>

theorem decode_json_typed:
  assumes "decode_json (profiling_table L) c text = Inr v"
  shows "typed (profiling_table L) (HData c) v"
  using assms decode_sound(1) [OF profiling_table_defaults]
  by (auto simp: decode_json_def decode_payload_eq [OF profiling_table_defaults] split: option.splits)

theorem decode_json_typed_witness:
  "typed (profiling_table demo_texts) (HData ''NetworkPair'')
     (PData ''NetworkPair'' [(''source_worker_id'', PStr ''a''), (''destination_worker_id'', PStr ''b''), (''source_interface_id'', PNone),
        (''destination_interface_id'', PStr ''eth0'')])"
  by (rule decode_json_typed [of _ _ "''{'' @ json_string ''source_worker_id'' @ '' : '' @ json_string ''a'' @ '','' @ json_string ''__type__'' @ '':''
        @ json_string ''NetworkPair'' @ '','' @ json_string ''destination_interface_id'' @ '':'' @ json_string ''eth0'' @ '', ''
        @ json_string ''destination_worker_id'' @ '':'' @ json_string ''b'' @ ''}''"]) code_simp

text \<open>[C21] Decoding is strict: a payload that \<^verbatim>\<open>decode_payload\<close> accepts for a class is an object tagged with the name of
  the class, has no key beside the tag and the declared fields, and has every field that has no default.\<close>

theorem decode_payload_strict:
  assumes "decode_payload (profiling_table L) c p = Inr v"
  shows "\<exists>kvs specs. p = JObj kvs \<and> map_of kvs TYPE_TAG = Some (JStr c) \<and> map_of profiling_classes c = Some specs
    \<and> fst ` set kvs \<subseteq> insert TYPE_TAG (fst ` set specs) \<and> {n. \<exists>h. (n, h, None) \<in> set specs} \<subseteq> fst ` set kvs"
proof -
  let ?T = "profiling_table L"
  from assms have "decode ?T (HData c) p = Inr v" by (simp add: decode_payload_eq [OF profiling_table_defaults])
  then obtain kvs where p: "p = JObj kvs" and "decode_dataclass ?T c kvs = Inr v" by (auto split: json.splits)
  then obtain specs fs where d: "map_of kvs TYPE_TAG = Some (JStr c)" "ct_fields ?T c = Some specs" "decode_fields ?T specs kvs = Inr fs" "\<not> extra_keys specs kvs"
    by (auto simp: bind_dres_Inr split: if_splits option.splits)
  from d(4) have "fst ` set kvs \<subseteq> insert TYPE_TAG (fst ` set specs)" by (auto simp: extra_keys_def)
  moreover have "{n. \<exists>h. (n, h, None) \<in> set specs} \<subseteq> fst ` set kvs" using decode_fields_present [OF d(3)] by (auto simp: map_of_eq_None_iff)
  ultimately show ?thesis using p d(1,2) by (simp add: profiling_table_def)
qed

theorem decode_payload_strict_witness:
  "\<exists>kvs specs. key_sorted (encode_payload (profiling_table demo_texts) demo_failure) = JObj kvs \<and> map_of kvs TYPE_TAG = Some (JStr ''ProfilingFailure'')
    \<and> map_of profiling_classes ''ProfilingFailure'' = Some specs
    \<and> fst ` set kvs \<subseteq> insert TYPE_TAG (fst ` set specs) \<and> {n. \<exists>h. (n, h, None) \<in> set specs} \<subseteq> fst ` set kvs"
proof (rule decode_payload_strict)
  show "decode_payload (profiling_table demo_texts) ''ProfilingFailure'' (key_sorted (encode_payload (profiling_table demo_texts) demo_failure)) = Inr demo_failure"
    unfolding decode_payload_eq [OF profiling_table_defaults]
    using demo_texts_standard by (intro decode_encode [OF profiling_table_wf _ demo_failure_typed]) (simp_all add: standard_texts_def reads_back_def profiling_table_def)
qed

end
