(* ===== verification/Session_Plan.thy ===== *)
theory Session_Plan
  imports Profiling_Messages Profiling_Identity "HOL-Library.Sublist"
begin

section \<open>Planning of profiling sessions\<close>

text \<open>
  The pure part of \<^verbatim>\<open>control/master/profiling_controller.py\<close>: how the cases of one worker are grouped into sessions, the
  typed failures the controller records, and the verdict over the final states of an experiment. A group
  key is a tuple whose first component is the kind of session; here it is a datatype.
\<close>

subsection \<open>Groups\<close>

definition case_session_kind :: "profiling_case \<Rightarrow> session_kind" where
  "case_session_kind c = (case pcs_spec c of
     Network_Case _ \<Rightarrow> NETWORK_SESSION
   | Model_Case s \<Rightarrow> if mcs_granularity s = OPERATOR then OPERATOR_SESSION else MODEL_SESSION)"

datatype group_key = Network_Group | Operator_Group string string | Model_Group string "model_reference option" string string "int option"

definition first_device :: "model_case_spec \<Rightarrow> string res" where
  "first_device s = (case mcs_device_ids s of [] \<Rightarrow> Inl (IndexError ''tuple index out of range'') | d # _ \<Rightarrow> Inr d)"

definition target_layer :: "model_case_spec \<Rightarrow> int option" where
  "target_layer s = (if mcs_granularity s = TRANSFORMER_LAYER then mcs_layer_index s else Some 0)"

definition group_key_of :: "profiling_case \<Rightarrow> group_key res" where
  "group_key_of c = (case pcs_spec c of
     Network_Case _ \<Rightarrow> Inr Network_Group
   | Model_Case s \<Rightarrow> bind_res (first_device s) (\<lambda>d.
       Inr (if mcs_granularity s = OPERATOR then Operator_Group (mcs_backend s) d
            else Model_Group (mcs_backend s) (mcs_model s) (mcs_dtype s) d (target_layer s))))"

fun model_spec :: "case_spec \<Rightarrow> model_case_spec option" where
  "model_spec (Model_Case s) = Some s"
| "model_spec (Network_Case _) = None"

definition network_session :: session_request where
  "network_session = \<lparr>psr_kind = NETWORK_SESSION, psr_device_ids = [], psr_backend = ''torch'', psr_model = None, psr_dtype = None,
     psr_quantization = None, psr_target_layer_index = None\<rparr>"

definition session_request_for :: "profiling_case list \<Rightarrow> session_request res" where
  "session_request_for cases =
     (case List.map_filter (model_spec \<circ> pcs_spec) cases of
        [] \<Rightarrow> built check_session_request network_session
      | first # rest \<Rightarrow>
          (let devices = sort (remdups (concat (map mcs_device_ids (first # rest)))) in
           if length devices \<noteq> 1 then Inl (ValueError ''device-bound profiling sessions require exactly one target device'')
           else if mcs_granularity first = OPERATOR
           then built check_session_request (network_session\<lparr>psr_kind := OPERATOR_SESSION, psr_device_ids := devices, psr_backend := mcs_backend first\<rparr>)
           else if mcs_model first = None then Inl (ValueError ''model session cases must carry a model reference and dtype'')
           else built check_session_request \<lparr>psr_kind = MODEL_SESSION, psr_device_ids = devices, psr_backend = mcs_backend first, psr_model = mcs_model first,
                  psr_dtype = Some (mcs_dtype first), psr_quantization = None, psr_target_layer_index = target_layer first\<rparr>))"

record session_plan =
  spl_session_id :: string
  spl_session_request :: session_request
  spl_cases :: "profiling_case list"

fun into_group :: "'k \<Rightarrow> 'c \<Rightarrow> ('k \<times> 'c list) list \<Rightarrow> ('k \<times> 'c list) list" where
  "into_group k c [] = [(k, [c])]"
| "into_group k c ((k', cs) # gs) = (if k' = k then (k', cs @ [c]) # gs else (k', cs) # into_group k c gs)"

fun group_cases :: "(group_key \<times> profiling_case list) list \<Rightarrow> profiling_case list \<Rightarrow> (group_key \<times> profiling_case list) list res" where
  "group_cases gs [] = Inr gs"
| "group_cases gs (c # cs) = bind_res (group_key_of c) (\<lambda>k. group_cases (into_group k c gs) cs)"

definition plan_of_group :: "(string \<Rightarrow> string) \<Rightarrow> string \<Rightarrow> string \<Rightarrow> group_key \<times> profiling_case list \<Rightarrow> session_plan res" where
  "plan_of_group sha e w g = bind_res (session_request_for (snd g)) (\<lambda>request.
     bind_res (profiling_session_id sha e w request) (\<lambda>i.
     Inr \<lparr>spl_session_id = i, spl_session_request = request, spl_cases = snd g\<rparr>))"

definition plan_sessions :: "(string \<Rightarrow> string) \<Rightarrow> string \<Rightarrow> string \<Rightarrow> profiling_case list \<Rightarrow> session_plan list res" where
  "plan_sessions sha e w cases = bind_res (group_cases [] cases) (traverse_res (plan_of_group sha e w))"


subsection \<open>Failures and verdicts\<close>

fun rejection_category :: "profiling_rejection \<Rightarrow> error_category" where
  "rejection_category BUSY = DEVICE_BUSY"
| "rejection_category STALE_REGISTRATION = NETWORK_UNREACHABLE"
| "rejection_category UNKNOWN_SESSION = INTERNAL_ERROR"
| "rejection_category SESSION_CLOSED = INTERNAL_ERROR"
| "rejection_category SESSION_KIND_MISMATCH = INTERNAL_ERROR"
| "rejection_category UNKNOWN_CASE = INTERNAL_ERROR"

fun rejection_value :: "profiling_rejection \<Rightarrow> string" where
  "rejection_value UNKNOWN_SESSION = ''unknown_session''"
| "rejection_value STALE_REGISTRATION = ''stale_session''"
| "rejection_value SESSION_CLOSED = ''session_closed''"
| "rejection_value SESSION_KIND_MISMATCH = ''session_kind_mismatch''"
| "rejection_value BUSY = ''device_busy''"
| "rejection_value UNKNOWN_CASE = ''unknown_case''"

definition rejection_failure :: "profiling_rejection option \<Rightarrow> string \<Rightarrow> string \<Rightarrow> profiling_failure" where
  "rejection_failure reason detail what = (case reason of
     None \<Rightarrow> \<lparr>pfl_category = INTERNAL_ERROR, pfl_message = what @ '' refused by the worker'', pfl_details = [(''detail'', SStr detail)]\<rparr>
   | Some r \<Rightarrow> \<lparr>pfl_category = rejection_category r, pfl_message = what @ '' refused by the worker: '' @ rejection_value r,
       pfl_details = [(''detail'', SStr detail), (''rejection'', SStr (rejection_value r))]\<rparr>)"

text \<open>A lost call has the name of its status code, if it has one, and a detail text.\<close>

definition transport_failure :: "string option \<Rightarrow> string option \<Rightarrow> string \<Rightarrow> profiling_failure" where
  "transport_failure code detail what =
     (let name = (case code of None \<Rightarrow> ''unknown'' | Some c \<Rightarrow> c) in
      \<lparr>pfl_category = (if code = Some ''DEADLINE_EXCEEDED'' then TIMEOUT else NETWORK_UNREACHABLE), pfl_message = what @ '' transport failed: '' @ name,
       pfl_details = [(''grpc_code'', SStr name), (''transport_detail'', case detail of None \<Rightarrow> SNull | Some d \<Rightarrow> SStr d)]\<rparr>)"

definition plain_failure :: "error_category \<Rightarrow> string \<Rightarrow> profiling_failure" where
  "plain_failure category message = \<lparr>pfl_category = category, pfl_message = message, pfl_details = []\<rparr>"

definition unexpected_failure :: "string \<Rightarrow> string \<Rightarrow> profiling_failure" where
  "unexpected_failure what shown = plain_failure INTERNAL_ERROR (what @ '' raised '' @ shown)"

definition terminal_experiment_state :: "case_state list \<Rightarrow> experiment_state res" where
  "terminal_experiment_state states =
     (if states = [] then Inr EXP_COMPLETED
      else if list_all (\<lambda>s. s = CASE_COMPLETED) states then Inr EXP_COMPLETED
      else if list_all (\<lambda>s. s = CASE_CANCELLED) states then Inr EXP_CANCELLED
      else if list_all (\<lambda>s. s = CASE_FAILED) states then Inr EXP_FAILED
      else if list_all terminal_state states then Inr EXP_PARTIALLY_COMPLETED
      else Inl (ValueError ''non-terminal case state in a finished experiment''))"

definition terminal_experiment :: "experiment_state \<Rightarrow> bool" where
  "terminal_experiment s \<longleftrightarrow> s = EXP_COMPLETED \<or> s = EXP_PARTIALLY_COMPLETED \<or> s = EXP_CANCELLED \<or> s = EXP_FAILED"

lemma failures_valid:
  "what \<noteq> [] \<Longrightarrow> check_profiling_failure (rejection_failure reason detail what) = Inr ()"
  "what \<noteq> [] \<Longrightarrow> check_profiling_failure (transport_failure code text what) = Inr ()"
  "message \<noteq> [] \<Longrightarrow> check_profiling_failure (plain_failure category message) = Inr ()"
  "check_profiling_failure (unexpected_failure what shown) = Inr ()"
  by (auto simp: check_profiling_failure_def rejection_failure_def transport_failure_def plain_failure_def unexpected_failure_def non_empty_def
      check_normalized_items_def Let_def split: option.splits)

lemma terminal_experiment_total:
  "list_all terminal_state states \<Longrightarrow> \<exists>e. terminal_experiment_state states = Inr e \<and> terminal_experiment e"
  by (auto simp: terminal_experiment_state_def terminal_experiment_def)


subsection \<open>The plan is a function of each case\<close>

lemma valid_model_case:
  assumes "check_profiling_case c = Inr ()" "pcs_spec c = Model_Case s"
  obtains d where "mcs_device_ids s = [d]" "d \<noteq> []" "mcs_backend s \<noteq> []" "mcs_dtype s \<noteq> []" "mcs_granularity s \<noteq> OPERATOR \<Longrightarrow> mcs_model s \<noteq> None"
    "present_check check_model_reference (mcs_model s) = Inr ()" "absent_or not_negative ''target_layer_index'' (target_layer s) = Inr ()"
proof -
  from assms have "check_model_case_spec s = Inr ()" by (auto simp: check_profiling_case_def)
  then have checks: "length (mcs_device_ids s) = 1" "for_res (non_empty ''device_ids'') (mcs_device_ids s) = Inr ()" "mcs_backend s \<noteq> []" "mcs_dtype s \<noteq> []"
    "check_granularity s = Inr ()" "present_check check_model_reference (mcs_model s) = Inr ()"
    "present_check (\<lambda>i. checks [raise_if (mcs_granularity s \<noteq> TRANSFORMER_LAYER) (ValueError ''layer_index is only valid for transformer-layer cases''),
       not_negative ''layer_index'' i]) (mcs_layer_index s) = Inr ()"
    by (auto simp: check_model_case_spec_def non_empty_def)
  then obtain d where d: "mcs_device_ids s = [d]" "d \<noteq> []" by (auto simp: length_Suc_conv non_empty_def)
  show thesis
  proof (rule that [OF d])
    show "mcs_granularity s \<noteq> OPERATOR \<Longrightarrow> mcs_model s \<noteq> None" using checks(5) by (auto simp: check_granularity_def)
    show "absent_or not_negative ''target_layer_index'' (target_layer s) = Inr ()"
      using checks(7) by (auto simp: target_layer_def absent_or_def present_check_def split: option.splits)
  qed (use checks in simp_all)
qed

text \<open>The request of the group of a case, from the case alone.\<close>

definition own_request :: "profiling_case \<Rightarrow> session_request" where
  "own_request c = (case pcs_spec c of
     Network_Case _ \<Rightarrow> network_session
   | Model_Case s \<Rightarrow>
       if mcs_granularity s = OPERATOR then network_session\<lparr>psr_kind := OPERATOR_SESSION, psr_device_ids := mcs_device_ids s, psr_backend := mcs_backend s\<rparr>
       else \<lparr>psr_kind = MODEL_SESSION, psr_device_ids = mcs_device_ids s, psr_backend = mcs_backend s, psr_model = mcs_model s,
              psr_dtype = Some (mcs_dtype s), psr_quantization = None, psr_target_layer_index = target_layer s\<rparr>)"

lemma group_key_total: "check_profiling_case c = Inr () \<Longrightarrow> \<exists>k. group_key_of c = Inr k"
proof (cases "pcs_spec c")
  case (Model_Case s)
  assume "check_profiling_case c = Inr ()"
  then obtain d where "mcs_device_ids s = [d]" using Model_Case by (rule valid_model_case)
  then show ?thesis by (simp add: group_key_of_def Model_Case first_device_def)
qed (simp add: group_key_of_def)

lemma same_key_same_request:
  assumes "check_profiling_case c = Inr ()" "check_profiling_case d = Inr ()" "group_key_of c = Inr k" "group_key_of d = Inr k"
  shows "own_request c = own_request d" "(model_spec (pcs_spec c) = None) = (model_spec (pcs_spec d) = None)"
    "\<And>s t. \<lbrakk>pcs_spec c = Model_Case s; pcs_spec d = Model_Case t\<rbrakk> \<Longrightarrow> mcs_device_ids s = mcs_device_ids t"
proof -
  have "own_request c = own_request d \<and> (model_spec (pcs_spec c) = None) = (model_spec (pcs_spec d) = None)
    \<and> (\<forall>s t. pcs_spec c = Model_Case s \<longrightarrow> pcs_spec d = Model_Case t \<longrightarrow> mcs_device_ids s = mcs_device_ids t)"
  proof (cases "pcs_spec c"; cases "pcs_spec d")
    fix s t
    assume specs: "pcs_spec c = Model_Case s" "pcs_spec d = Model_Case t"
    obtain x where x: "mcs_device_ids s = [x]" by (rule valid_model_case [OF assms(1) specs(1)])
    obtain y where y: "mcs_device_ids t = [y]" by (rule valid_model_case [OF assms(2) specs(2)])
    from assms(3,4) x y specs show ?thesis
      by (auto simp: group_key_of_def first_device_def own_request_def split: if_splits)
  qed (use assms(3,4) in \<open>auto simp: group_key_of_def own_request_def bind_res_Inr split: if_splits\<close>)
  then show "own_request c = own_request d" "(model_spec (pcs_spec c) = None) = (model_spec (pcs_spec d) = None)"
    "\<And>s t. \<lbrakk>pcs_spec c = Model_Case s; pcs_spec d = Model_Case t\<rbrakk> \<Longrightarrow> mcs_device_ids s = mcs_device_ids t" by simp_all
qed

lemma same_request_same_key:
  assumes "check_profiling_case c = Inr ()" "check_profiling_case d = Inr ()" "own_request c = own_request d"
  shows "group_key_of c = group_key_of d"
proof (cases "pcs_spec c"; cases "pcs_spec d")
  fix s t
  assume specs: "pcs_spec c = Model_Case s" "pcs_spec d = Model_Case t"
  obtain x where x: "mcs_device_ids s = [x]" by (rule valid_model_case [OF assms(1) specs(1)])
  obtain y where y: "mcs_device_ids t = [y]" by (rule valid_model_case [OF assms(2) specs(2)])
  from assms(3) x y specs show ?thesis
    by (auto simp: group_key_of_def first_device_def own_request_def network_session_def split: if_splits)
qed (use assms(3) in \<open>auto simp: group_key_of_def own_request_def network_session_def split: if_splits\<close>)

lemma own_request_valid:
  assumes "check_profiling_case c = Inr ()"
  shows "check_session_request (own_request c) = Inr ()"
proof (cases "pcs_spec c")
  case (Model_Case s)
  show ?thesis
    by (rule valid_model_case [OF assms Model_Case])
      (auto simp: own_request_def Model_Case check_session_request_def network_session_def non_empty_def absent_or_def present_check_def)
qed (simp add: own_request_def check_session_request_def network_session_def non_empty_def absent_or_def present_check_def)

lemma into_group_map:
  assumes "distinct ks"
  shows "into_group k c (map (\<lambda>k. (k, f k)) ks) =
    (if k \<in> set ks then map (\<lambda>k'. (k', if k' = k then f k' @ [c] else f k')) ks else map (\<lambda>k. (k, f k)) ks @ [(k, [c])])"
  using assms by (induction ks) auto

lemma group_cases_append: "group_cases gs (xs @ ys) = bind_res (group_cases gs xs) (\<lambda>gs'. group_cases gs' ys)"
proof (induction xs arbitrary: gs)
  case (Cons x xs)
  then show ?case by (cases "group_key_of x") simp_all
qed simp

text \<open>The groups in the order of their first case, each with its cases in the given order.\<close>

definition cases_keyed :: "profiling_case list \<Rightarrow> group_key \<Rightarrow> profiling_case list" where
  "cases_keyed cases k = filter (\<lambda>c. group_key_of c = Inr k) cases"

lemma dict_fromkeys_snoc: "dict_fromkeys (xs @ [x]) = (if x \<in> set xs then dict_fromkeys xs else dict_fromkeys xs @ [x])"
  by (simp add: dict_fromkeys_def)

lemma group_cases_eq:
  assumes "list_all2 (\<lambda>c k. group_key_of c = Inr k) cases keys"
  shows "group_cases [] cases = Inr (map (\<lambda>k. (k, cases_keyed cases k)) (dict_fromkeys keys))"
  using assms
proof (induction cases arbitrary: keys rule: rev_induct)
  case Nil
  then show ?case by (simp add: dict_fromkeys_def)
next
  case (snoc c cases)
  from snoc.prems obtain ks k where keys: "keys = ks @ [k]" "list_all2 (\<lambda>c k. group_key_of c = Inr k) cases ks" "group_key_of c = Inr k"
    by (auto simp: list_all2_append1 list_all2_Cons1)
  have none: "cases_keyed cases k = []" if "k \<notin> set ks"
    using that keys(2) by (auto simp: cases_keyed_def filter_empty_conv list_all2_conv_all_nth in_set_conv_nth)
  have "cases_keyed (cases @ [c]) k' = (if k' = k then cases_keyed cases k' @ [c] else cases_keyed cases k')" for k'
    using keys(3) by (auto simp: cases_keyed_def)
  then show ?case
    using keys none by (auto simp: group_cases_append snoc.IH into_group_map dict_fromkeys_snoc)
qed

lemma session_id_total: "\<lbrakk>e \<noteq> []; w \<noteq> []\<rbrakk> \<Longrightarrow> \<exists>i. profiling_session_id sha e w r = Inr i"
  by (simp add: profiling_session_id_def non_empty_def canonical_sha256_def canonical_json_def canonical_session_request_def jopt_def canonical_model_reference_def
      list_all_iff split: option.split del: dumps.simps)

lemma sorted_singleton: "set xs = {x} \<Longrightarrow> sort (remdups xs) = [x]" for x :: "'a :: linorder"
  using sorted_list_of_set_sort_remdups [of xs] by simp

lemma session_request_for_group:
  assumes "list_all (\<lambda>c. check_profiling_case c = Inr () \<and> group_key_of c = Inr k) cases" "c \<in> set cases"
  shows "session_request_for cases = Inr (own_request c)"
proof (cases "List.map_filter (model_spec \<circ> pcs_spec) cases")
  case Nil
  then have "model_spec (pcs_spec c) = None" using assms(2) by (auto simp: map_filter_def filter_empty_conv)
  then show ?thesis using own_request_valid [of c] assms by (cases "pcs_spec c") (auto simp: session_request_for_def Nil own_request_def built_def list_all_iff)
next
  case (Cons first rest)
  then have "first \<in> set (List.map_filter (model_spec \<circ> pcs_spec) cases)" by simp
  then obtain d where d: "d \<in> set cases" "pcs_spec d = Model_Case first" by (auto simp: map_filter_def elim: model_spec.elims)
  have valid: "check_profiling_case d = Inr ()" "group_key_of d = Inr k" using assms(1) d by (auto simp: list_all_iff)
  obtain x where x: "mcs_device_ids first = [x]" "mcs_granularity first \<noteq> OPERATOR \<Longrightarrow> mcs_model first \<noteq> None" by (rule valid_model_case [OF valid(1) d(2)]) blast
  have "mcs_device_ids s = [x]" if "s \<in> set (first # rest)" for s
  proof -
    from that Cons have "s \<in> set (List.map_filter (model_spec \<circ> pcs_spec) cases)" by simp
    then obtain t where t: "t \<in> set cases" "pcs_spec t = Model_Case s" by (auto simp: map_filter_def elim: model_spec.elims)
    then show ?thesis using same_key_same_request(3) [OF valid(1) _ valid(2) _ d(2) t(2)] assms(1) x(1) by (auto simp: list_all_iff)
  qed
  then have "set (concat (map mcs_device_ids (first # rest))) = {x}" by auto
  then have devices: "sort (remdups (concat (map mcs_device_ids (first # rest)))) = [x]" by (rule sorted_singleton)
  have "own_request c = own_request d" using same_key_same_request(1) [OF _ valid(1) _ valid(2)] assms by (auto simp: list_all_iff)
  moreover have "session_request_for cases = built check_session_request (own_request d)"
    unfolding session_request_for_def Cons list.case devices Let_def using x d by (auto simp: own_request_def)
  ultimately show ?thesis using own_request_valid [OF valid(1)] by (simp add: built_def)
qed

lemma plan_of_group_eq:
  assumes "list_all (\<lambda>c. check_profiling_case c = Inr () \<and> group_key_of c = Inr k) cases" "c \<in> set cases" "e \<noteq> []" "w \<noteq> []"
  obtains i where "profiling_session_id sha e w (own_request c) = Inr i"
    "plan_of_group sha e w (k, cases) = Inr \<lparr>spl_session_id = i, spl_session_request = own_request c, spl_cases = cases\<rparr>"
  using session_id_total [OF assms(3,4), of sha "own_request c"] session_request_for_group [OF assms(1,2)] that by (auto simp: plan_of_group_def)

text \<open>The key of a group determines its request and is determined by it.\<close>

lemma keyed_valid: "list_all (\<lambda>c. check_profiling_case c = Inr ()) cases \<Longrightarrow> list_all (\<lambda>c. check_profiling_case c = Inr () \<and> group_key_of c = Inr k) (cases_keyed cases k)"
  by (auto simp: list_all_iff cases_keyed_def)

lemma mset_keyed:
  assumes "list_all2 (\<lambda>c k. group_key_of c = Inr k) cases keys" "distinct ks" "set keys \<subseteq> set ks"
  shows "mset (concat (map (cases_keyed cases) ks)) = mset cases"
  using assms
proof (induction cases keys rule: list_all2_induct)
  case Nil
  then show ?case by (simp add: cases_keyed_def)
next
  case (Cons c cases k keys)
  have same: "cases_keyed (c # cases) k' = (if k' = k then c # cases_keyed cases k' else cases_keyed cases k')" for k'
    using Cons.hyps(1) by (auto simp: cases_keyed_def)
  have other: "map (cases_keyed (c # cases)) ks = map (cases_keyed cases) ks" if "k \<notin> set ks" for ks using that same by auto
  have "mset (concat (map (cases_keyed (c # cases)) ks)) = mset (concat (map (cases_keyed cases) ks)) + {#c#}" if "distinct ks" "k \<in> set ks" for ks
    using that by (induction ks) (auto simp: same other)
  with Cons show ?case by simp
qed

lemma plan_sessions_eq:
  assumes valid: "list_all (\<lambda>c. check_profiling_case c = Inr ()) cases" and "e \<noteq> []" "w \<noteq> []"
  obtains ks plans where "plan_sessions sha e w cases = Inr plans" "distinct ks"
    "list_all2 (\<lambda>k p. cases_keyed cases k \<noteq> [] \<and> spl_cases p = cases_keyed cases k
       \<and> (\<forall>c \<in> set (cases_keyed cases k). spl_session_request p = own_request c \<and> profiling_session_id sha e w (own_request c) = Inr (spl_session_id p))) ks plans"
    "mset (concat (map (cases_keyed cases) ks)) = mset cases"
proof -
  have "\<exists>k. group_key_of c = Inr k" if "c \<in> set cases" for c using valid that group_key_total by (auto simp: list_all_iff)
  then obtain key where key: "\<And>c. c \<in> set cases \<Longrightarrow> group_key_of c = Inr (key c)" by metis
  let ?keys = "map key cases"
  let ?ks = "dict_fromkeys ?keys"
  have keys: "list_all2 (\<lambda>c k. group_key_of c = Inr k) cases ?keys" using key by (simp add: list_all2_map2 list_all2_same)
  have ne: "cases_keyed cases k \<noteq> []" if "k \<in> set ?ks" for k using that key by (auto simp: cases_keyed_def filter_empty_conv)
  let ?ok = "\<lambda>k p. cases_keyed cases k \<noteq> [] \<and> spl_cases p = cases_keyed cases k
       \<and> (\<forall>c \<in> set (cases_keyed cases k). spl_session_request p = own_request c \<and> profiling_session_id sha e w (own_request c) = Inr (spl_session_id p))"
  have "\<exists>p. plan_of_group sha e w (k, cases_keyed cases k) = Inr p \<and> ?ok k p" if k: "k \<in> set ?ks" for k
  proof -
    have all: "list_all (\<lambda>c. check_profiling_case c = Inr () \<and> group_key_of c = Inr k) (cases_keyed cases k)" by (rule keyed_valid [OF valid])
    from ne [OF k] obtain c where c: "c \<in> set (cases_keyed cases k)" by (cases "cases_keyed cases k") auto
    obtain i where i: "profiling_session_id sha e w (own_request c) = Inr i"
      "plan_of_group sha e w (k, cases_keyed cases k) = Inr \<lparr>spl_session_id = i, spl_session_request = own_request c, spl_cases = cases_keyed cases k\<rparr>"
      by (rule plan_of_group_eq [OF all c assms(2,3)])
    have "own_request d = own_request c" if "d \<in> set (cases_keyed cases k)" for d
      using same_key_same_request(1) [of d c k] all c that by (auto simp: list_all_iff)
    with i ne [OF k] show ?thesis by auto
  qed
  then obtain plan where plan: "\<And>k. k \<in> set ?ks \<Longrightarrow> plan_of_group sha e w (k, cases_keyed cases k) = Inr (plan k) \<and> ?ok k (plan k)" by metis
  show thesis
  proof (rule that)
    have "traverse_res (plan_of_group sha e w) (map (\<lambda>k. (k, cases_keyed cases k)) ?ks) = Inr (map plan ?ks)"
      using plan by (simp add: traverse_res_Inr list_all2_map1 list_all2_map2 list_all2_same)
    then show "plan_sessions sha e w cases = Inr (map plan ?ks)" by (simp add: plan_sessions_def group_cases_eq [OF keys])
    show "list_all2 ?ok ?ks (map plan ?ks)" unfolding list_all2_map2 list_all2_same using plan by auto
    show "mset (concat (map (cases_keyed cases) ?ks)) = mset cases" by (rule mset_keyed [OF keys]) simp_all
  qed simp
qed

text \<open>[C36] Planning the sessions of a Worker's valid cases always succeeds. The plans share the cases out, every case in
  exactly one plan and the cases of a plan in their order; plans have different requests; and the request and the
  session id of a case depend on the case, the experiment and the Worker alone, so running and cancelling an
  experiment name the same session whatever other cases are still open.\<close>

theorem session_plan_stable:
  assumes "list_all (\<lambda>c. check_profiling_case c = Inr ()) cases" "e \<noteq> []" "w \<noteq> []"
  shows "\<exists>plans. plan_sessions sha e w cases = Inr plans \<and> mset (concat (map spl_cases plans)) = mset cases
    \<and> distinct (map spl_session_request plans)
    \<and> (\<forall>p \<in> set plans. spl_cases p \<noteq> [] \<and> subseq (spl_cases p) cases
         \<and> (\<forall>c \<in> set (spl_cases p). spl_session_request p = own_request c \<and> profiling_session_id sha e w (own_request c) = Inr (spl_session_id p)))"
proof -
  obtain ks plans where p: "plan_sessions sha e w cases = Inr plans" "distinct ks" "mset (concat (map (cases_keyed cases) ks)) = mset cases"
    and ok: "list_all2 (\<lambda>k p. cases_keyed cases k \<noteq> [] \<and> spl_cases p = cases_keyed cases k
       \<and> (\<forall>c \<in> set (cases_keyed cases k). spl_session_request p = own_request c \<and> profiling_session_id sha e w (own_request c) = Inr (spl_session_id p))) ks plans"
    by (rule plan_sessions_eq [OF assms])
  have "map spl_cases plans = map (cases_keyed cases) ks" using ok by (auto simp: list_all2_conv_all_nth intro: nth_equalityI)
  moreover have "distinct (map spl_session_request plans)"
    unfolding distinct_conv_nth
  proof (intro allI impI)
    fix i j
    assume ij: "i < length (map spl_session_request plans)" "j < length (map spl_session_request plans)" "i \<noteq> j"
    have len: "length ks = length plans" using ok by (rule list_all2_lengthD)
    have here: "cases_keyed cases (ks ! l) \<noteq> [] \<and> (\<forall>c \<in> set (cases_keyed cases (ks ! l)). spl_session_request (plans ! l) = own_request c)"
      if "l < length plans" for l
      using list_all2_nthD2 [OF ok that] by auto
    obtain c d where cd: "c \<in> set (cases_keyed cases (ks ! i))" "d \<in> set (cases_keyed cases (ks ! j))" "spl_session_request (plans ! i) = own_request c" "spl_session_request (plans ! j) = own_request d"
      using here [of i] here [of j] ij by (metis length_map list.set_sel(1))
    have "ks ! i \<noteq> ks ! j" using ij p(2) len by (simp add: nth_eq_iff_index_eq)
    then have "group_key_of c \<noteq> group_key_of d" using cd by (auto simp: cases_keyed_def)
    then have "own_request c \<noteq> own_request d" using same_request_same_key [of c d] cd assms(1) by (auto simp: cases_keyed_def list_all_iff)
    then show "map spl_session_request plans ! i \<noteq> map spl_session_request plans ! j" using ij cd by simp
  qed
  moreover have "\<forall>p \<in> set plans. spl_cases p \<noteq> [] \<and> subseq (spl_cases p) cases
         \<and> (\<forall>c \<in> set (spl_cases p). spl_session_request p = own_request c \<and> profiling_session_id sha e w (own_request c) = Inr (spl_session_id p))"
  proof
    fix q
    assume "q \<in> set plans"
    then obtain k where "cases_keyed cases k \<noteq> [] \<and> spl_cases q = cases_keyed cases k
       \<and> (\<forall>c \<in> set (cases_keyed cases k). spl_session_request q = own_request c \<and> profiling_session_id sha e w (own_request c) = Inr (spl_session_id q))"
      using ok by (auto simp: list_all2_conv_all_nth in_set_conv_nth)
    then show "spl_cases q \<noteq> [] \<and> subseq (spl_cases q) cases
         \<and> (\<forall>c \<in> set (spl_cases q). spl_session_request q = own_request c \<and> profiling_session_id sha e w (own_request c) = Inr (spl_session_id q))"
      by (simp add: cases_keyed_def)
  qed
  ultimately show ?thesis using p by auto
qed

definition demo_planned_case :: profiling_case where
  "demo_planned_case = \<lparr>pcs_case_id = ''c'', pcs_worker_id = ''a'', pcs_spec = demo_case ''b''\<rparr>"

theorem session_plan_stable_witness:
  "\<exists>plans. plan_sessions demo_hash ''e'' ''a'' [demo_planned_case] = Inr plans \<and> mset (concat (map spl_cases plans)) = {#demo_planned_case#}"
proof -
  have "check_profiling_case demo_planned_case = Inr ()"
    by (simp add: demo_planned_case_def check_profiling_case_def demo_case_def check_network_case_spec_def check_probe_def non_empty_def absent_or_def present_check_def)
  then show ?thesis using session_plan_stable [of "[demo_planned_case]" "''e''" "''a''" demo_hash] by auto
qed

end
