(* ===== verification/Coroutine.thy ===== *)
theory Coroutine
  imports Prelude
begin

section \<open>Coroutines over shared state\<close>

text \<open>
  The \<^verbatim>\<open>async\<close> functions of the Master run on one event loop: between two awaits a coroutine has the shared state to
  itself, at an await any other coroutine may change it. A coroutine is a tree: it has finished, or it awaits
  the answer to a call and goes on from the state it then finds. An action is what an \<^verbatim>\<open>async\<close> function does when it
  is entered: it changes the state and leaves a coroutine. As the trees are well founded, a coroutine
  finishes after finitely many answers.

  Exceptions are results, so that \<^verbatim>\<open>try\<close>, \<^verbatim>\<open>except\<close> and \<^verbatim>\<open>finally\<close> are combinators. Cancellation of a coroutine from outside is
  left out.
\<close>

datatype ('c, 'r, 's, 'a) co = Finished 'a | Awaits 'c "'r \<Rightarrow> 's \<Rightarrow> 's \<times> ('c, 'r, 's, 'a) co"

type_synonym ('c, 'r, 's, 'a) action = "'s \<Rightarrow> 's \<times> ('c, 'r, 's, 'a res) co"

primrec and_then :: "('c, 'r, 's, 'a) co \<Rightarrow> ('a \<Rightarrow> 's \<Rightarrow> 's \<times> ('c, 'r, 's, 'b) co) \<Rightarrow> 's \<Rightarrow> 's \<times> ('c, 'r, 's, 'b) co" where
  "and_then (Finished x) h = h x"
| "and_then (Awaits c k) h = (\<lambda>s. (s, Awaits c (\<lambda>r s1. (\<lambda>(s2, go). go s2) (map_prod id (\<lambda>co. and_then co h) (k r s1)))))"

lemma and_then_Awaits: "and_then (Awaits c k) h s = (s, Awaits c (\<lambda>r s1. case k r s1 of (s2, co) \<Rightarrow> and_then co h s2))"
  by (simp add: fun_eq_iff case_prod_unfold)

definition attempt :: "('c, 'r, 's, 'a) action \<Rightarrow> ('a res \<Rightarrow> ('c, 'r, 's, 'b) action) \<Rightarrow> ('c, 'r, 's, 'b) action" where
  "attempt m h s = (case m s of (s', co) \<Rightarrow> and_then co h s')"

definition done_with :: "'a res \<Rightarrow> ('c, 'r, 's, 'a) action" where
  "done_with x s = (s, Finished x)"

definition do_now :: "('s \<Rightarrow> 's \<times> 'a res) \<Rightarrow> ('c, 'r, 's, 'a) action" where
  "do_now f s = (case f s of (s', x) \<Rightarrow> (s', Finished x))"

definition look :: "('s \<Rightarrow> 'a res) \<Rightarrow> ('c, 'r, 's, 'a) action" where
  "look f s = (s, Finished (f s))"

definition call_for :: "'c \<Rightarrow> ('c, 'r, 's, 'r) action" where
  "call_for c s = (s, Awaits c (\<lambda>r s1. (s1, Finished (Inr r))))"

definition and_run :: "('c, 'r, 's, 'a) action \<Rightarrow> ('a \<Rightarrow> ('c, 'r, 's, 'b) action) \<Rightarrow> ('c, 'r, 's, 'b) action" where
  "and_run m f = attempt m (\<lambda>x. case x of Inl e \<Rightarrow> done_with (Inl e) | Inr y \<Rightarrow> f y)"

text \<open>A raise of the clean-up replaces the result of the body.\<close>

definition finally_do :: "('c, 'r, 's, 'a) action \<Rightarrow> ('c, 'r, 's, 'b) action \<Rightarrow> ('c, 'r, 's, 'a) action" where
  "finally_do m cleanup = attempt m (\<lambda>x. attempt cleanup (\<lambda>y. case y of Inl e \<Rightarrow> done_with (Inl e) | Inr _ \<Rightarrow> done_with x))"

primrec for_each :: "('a \<Rightarrow> ('c, 'r, 's, 'b) action) \<Rightarrow> 'a list \<Rightarrow> ('c, 'r, 's, 'b list) action" where
  "for_each f [] = done_with (Inr [])"
| "for_each f (x # xs) = and_run (f x) (\<lambda>y. and_run (for_each f xs) (\<lambda>ys. done_with (Inr (y # ys))))"


subsection \<open>Rely and guarantee\<close>

text \<open>\<open>behaves R G C Q co s\<close>: started from \<open>s\<close>, if the state changes only by \<open>R\<close> while the coroutine waits and the answer to
  a call is one of those \<open>C\<close> admits for it, the coroutine changes the state only by \<open>G\<close>, makes only calls that \<open>C\<close> admits an
  answer for, and finishes with a result and a state in \<open>Q\<close>.\<close>

primrec behaves :: "('s \<Rightarrow> 's \<Rightarrow> bool) \<Rightarrow> ('s \<Rightarrow> 's \<Rightarrow> bool) \<Rightarrow> ('c \<Rightarrow> bool) \<Rightarrow> ('c \<Rightarrow> 'r \<Rightarrow> bool) \<Rightarrow> ('a \<Rightarrow> 's \<Rightarrow> bool)
    \<Rightarrow> ('c, 'r, 's, 'a) co \<Rightarrow> 's \<Rightarrow> bool" where
  "behaves R G C A Q (Finished x) = Q x"
| "behaves R G C A Q (Awaits c k) = (\<lambda>s. C c \<and> (\<forall>r s1. A c r \<longrightarrow> R s s1 \<longrightarrow> (\<lambda>(s2, ok). G s1 s2 \<and> ok s2) (map_prod id (behaves R G C A Q) (k r s1))))"

lemma behaves_Awaits:
  "behaves R G C A Q (Awaits c k) s \<longleftrightarrow>
     C c \<and> (\<forall>r s1 s2 co. A c r \<longrightarrow> R s s1 \<longrightarrow> k r s1 = (s2, co) \<longrightarrow> G s1 s2 \<and> behaves R G C A Q co s2)"
  by (simp add: case_prod_unfold) (metis prod.collapse fst_conv snd_conv)

declare behaves.simps(2) [simp del] and_then.simps(2) [simp del]

text \<open>Waiting longer: a change by the environment does no harm.\<close>

lemma behaves_stable:
  assumes "behaves R G C A Q co s" "R s s'" "\<And>a b c. R a b \<Longrightarrow> R b c \<Longrightarrow> R a c" "\<And>x a b. Q x a \<Longrightarrow> R a b \<Longrightarrow> Q x b"
  shows "behaves R G C A Q co s'"
proof (cases co)
  case (Awaits c k)
  with assms(1-3) show ?thesis unfolding Awaits behaves_Awaits by blast
qed (use assms in simp)

lemma behaves_mono:
  assumes "behaves R G C A Q co s" "\<And>x s. Q x s \<Longrightarrow> Q' x s"
  shows "behaves R G C A Q' co s"
  using assms(1)
proof (induction co arbitrary: s)
  case (Awaits c k)
  have "behaves R G C A Q' co s2" if "k r s1 = (s2, co)" "behaves R G C A Q co s2" for r s1 s2 co
  proof -
    have "co \<in> Basic_BNFs.snds (k r s1)" using that(1) by simp
    with that(2) show ?thesis using Awaits.IH [of "k r" "k r s1" co s2] by blast
  qed
  with Awaits.prems show ?case unfolding behaves_Awaits by blast
qed (use assms(2) in simp)

text \<open>One coroutine among others: what it may rely on and what it promises.\<close>

locale cooperation =
  fixes R G :: "'s \<Rightarrow> 's \<Rightarrow> bool" and C :: "'c \<Rightarrow> bool" and A :: "'c \<Rightarrow> 'r \<Rightarrow> bool"
  assumes relies_refl: "R s s" and relies_trans: "\<lbrakk>R s t; R t u\<rbrakk> \<Longrightarrow> R s u"
    and promises_refl: "G s s" and promises_trans: "\<lbrakk>G s t; G t u\<rbrakk> \<Longrightarrow> G s u"
begin

definition triple :: "('s \<Rightarrow> bool) \<Rightarrow> ('c, 'r, 's, 'a) action \<Rightarrow> ('a res \<Rightarrow> 's \<Rightarrow> bool) \<Rightarrow> bool" where
  "triple P m Q \<longleftrightarrow> (\<forall>s s' co. P s \<longrightarrow> m s = (s', co) \<longrightarrow> G s s' \<and> behaves R G C A Q co s')"

lemma tripleD: "\<lbrakk>triple P m Q; P s; m s = (s', co)\<rbrakk> \<Longrightarrow> G s s' \<and> behaves R G C A Q co s'"
  by (simp add: triple_def)

lemma behaves_and_then:
  assumes "behaves R G C A Q' co s" "\<And>x. triple (Q' x) (h x) Q" "and_then co h s = (s', co')"
  shows "G s s' \<and> behaves R G C A Q co' s'"
  using assms(1,3)
proof (induction co arbitrary: s s' co')
  case (Finished x)
  with assms(2) [of x] show ?case by (simp add: triple_def)
next
  case (Awaits c k)
  have calls: "C c" and step: "\<And>r s1 s2 co. \<lbrakk>A c r; R s s1; k r s1 = (s2, co)\<rbrakk> \<Longrightarrow> G s1 s2 \<and> behaves R G C A Q' co s2"
    using Awaits.prems(1) by (simp_all add: behaves_Awaits)
  from Awaits.prems(2) have co': "s' = s" "co' = Awaits c (\<lambda>r s1. case k r s1 of (s2, co) \<Rightarrow> and_then co h s2)"
    by (simp_all add: and_then_Awaits)
  have "G s1 s3 \<and> behaves R G C A Q co3 s3" if "A c r" "R s s1" "(case k r s1 of (s2, co) \<Rightarrow> and_then co h s2) = (s3, co3)" for r s1 s3 co3
  proof -
    obtain s2 co where k: "k r s1 = (s2, co)" by fastforce
    with that(3) have "and_then co h s2 = (s3, co3)" by simp
    moreover from step [OF that(1,2) k] have "G s1 s2" "behaves R G C A Q' co s2" by simp_all
    moreover have "co \<in> Basic_BNFs.snds (k r s1)" using k by simp
    ultimately show ?thesis using Awaits.IH [of "k r" "k r s1" co s2 s3 co3] promises_trans by (metis rangeI)
  qed
  with calls co' promises_refl show ?case by (simp add: behaves_Awaits)
qed

lemma attempt_rule:
  assumes "triple P m Q'" "\<And>x. triple (Q' x) (h x) Q"
  shows "triple P (attempt m h) Q"
  unfolding triple_def
proof (intro allI impI)
  fix s s' co
  assume "P s" and run: "attempt m h s = (s', co)"
  obtain s1 co1 where m: "m s = (s1, co1)" by fastforce
  from tripleD [OF assms(1) \<open>P s\<close> m] have "G s s1" "behaves R G C A Q' co1 s1" by simp_all
  moreover from run m have "and_then co1 h s1 = (s', co)" by (simp add: attempt_def)
  ultimately show "G s s' \<and> behaves R G C A Q co s'"
    using behaves_and_then [where Q' = Q' and h = h, OF _ assms(2)] promises_trans by meson
qed

lemma done_rule: "(\<And>s. P s \<Longrightarrow> Q x s) \<Longrightarrow> triple P (done_with x) Q"
  by (auto simp: triple_def done_with_def promises_refl)

lemma do_now_rule: "(\<And>s s' x. \<lbrakk>P s; f s = (s', x)\<rbrakk> \<Longrightarrow> G s s' \<and> Q x s') \<Longrightarrow> triple P (do_now f) Q"
  by (auto simp: triple_def do_now_def split: prod.splits)

lemma look_rule: "(\<And>s. P s \<Longrightarrow> Q (f s) s) \<Longrightarrow> triple P (look f) Q"
  by (auto simp: triple_def look_def promises_refl)

lemma call_rule: "\<lbrakk>\<And>s. P s \<Longrightarrow> C c; \<And>s s' r. \<lbrakk>P s; A c r; R s s'\<rbrakk> \<Longrightarrow> Q (Inr r) s'\<rbrakk> \<Longrightarrow> triple P (call_for c) Q"
  by (auto simp: triple_def call_for_def promises_refl behaves_Awaits)

lemma chain_rule:
  assumes "triple P m Q'" "\<And>y. triple (Q' (Inr y)) (f y) Q" "\<And>e s. Q' (Inl e) s \<Longrightarrow> Q (Inl e) s"
  shows "triple P (and_run m f) Q"
  unfolding and_run_def
  by (rule attempt_rule [OF assms(1)]) (auto split: sum.split intro: assms(2) done_rule assms(3))

lemma finally_rule:
  assumes "triple P m Q'" "\<And>x. triple (Q' x) cleanup (\<lambda>y s. case y of Inl e \<Rightarrow> Q (Inl e) s | Inr _ \<Rightarrow> Q x s)"
  shows "triple P (finally_do m cleanup) Q"
  unfolding finally_do_def
  by (rule attempt_rule [OF assms(1)], rule attempt_rule [OF assms(2)]) (auto split: sum.split intro: done_rule)

lemma weaken_rule: "\<lbrakk>triple P' m Q; \<And>s. P s \<Longrightarrow> P' s\<rbrakk> \<Longrightarrow> triple P m Q"
  unfolding triple_def by blast

lemma conseq_rule: "\<lbrakk>triple P' m Q'; \<And>s. P s \<Longrightarrow> P' s; \<And>x s. Q' x s \<Longrightarrow> Q x s\<rbrakk> \<Longrightarrow> triple P m Q"
  unfolding triple_def using behaves_mono [where Q = Q' and Q' = Q] by meson

lemma assume_rule: "(\<And>s. P s \<Longrightarrow> triple ((=) s) m Q) \<Longrightarrow> triple P m Q"
  by (auto simp: triple_def)

text \<open>A loop: \<open>I ys xs\<close> holds when the results \<open>ys\<close> are there and the items \<open>xs\<close> are still to come.\<close>

lemma for_each_rule:
  assumes "\<And>x xs ys. set (x # xs) \<subseteq> M \<Longrightarrow> triple (I ys (x # xs)) (f x) (\<lambda>r s. case r of Inl e \<Rightarrow> E e s | Inr y \<Rightarrow> I (ys @ [y]) xs s)"
    and "set xs \<subseteq> M"
  shows "triple (I ys xs) (for_each f xs) (\<lambda>r s. case r of Inl e \<Rightarrow> E e s | Inr zs \<Rightarrow> I (ys @ zs) [] s)"
  using assms(2)
proof (induction xs arbitrary: ys)
  case Nil
  then show ?case by (auto intro!: done_rule)
next
  case (Cons x xs)
  show ?case
    unfolding for_each.simps
  proof (rule chain_rule [OF assms(1) [OF Cons.prems]], simp_all)
    fix y
    have "triple (I (ys @ [y]) xs) (for_each f xs) (\<lambda>r s. case r of Inl e \<Rightarrow> E e s | Inr zs \<Rightarrow> I ((ys @ [y]) @ zs) [] s)"
      using Cons.IH [of "ys @ [y]"] Cons.prems by simp
    then show "triple (I (ys @ [y]) xs) (and_run (for_each f xs) (\<lambda>zs. done_with (Inr (y # zs)))) (\<lambda>r s. case r of Inl e \<Rightarrow> E e s | Inr zs \<Rightarrow> I (ys @ zs) [] s)"
      by (rule chain_rule) (auto intro!: done_rule)
  qed
qed

end


subsection \<open>Bounded waiting\<close>

text \<open>\<open>finishes_in n co\<close>: the coroutine finishes after at most \<open>n\<close> answers, whatever they are and whatever state it finds.\<close>

primrec finishes_in :: "('c, 'r, 's, 'a) co \<Rightarrow> nat \<Rightarrow> bool" where
  "finishes_in (Finished x) = (\<lambda>n. True)"
| "finishes_in (Awaits c k) = (\<lambda>n. 0 < n \<and> (\<forall>r s. snd (map_prod id finishes_in (k r s)) (n - 1)))"

lemma finishes_in_Awaits: "finishes_in (Awaits c k) n \<longleftrightarrow> 0 < n \<and> (\<forall>r s s' co. k r s = (s', co) \<longrightarrow> finishes_in co (n - 1))"
  by simp (metis prod.collapse snd_conv)

declare finishes_in.simps(2) [simp del]

definition bounded :: "nat \<Rightarrow> ('c, 'r, 's, 'a) action \<Rightarrow> bool" where
  "bounded n m \<longleftrightarrow> (\<forall>s s' co. m s = (s', co) \<longrightarrow> finishes_in co n)"

lemma finishes_in_mono: "\<lbrakk>finishes_in co m; m \<le> n\<rbrakk> \<Longrightarrow> finishes_in co n"
proof (induction co arbitrary: m n)
  case (Awaits c k)
  have "finishes_in co (n - 1)" if "k r s = (s', co)" for r s s' co
  proof -
    have "finishes_in co (m - 1)" using Awaits.prems(1) that by (auto simp: finishes_in_Awaits)
    moreover have "co \<in> Basic_BNFs.snds (k r s)" using that by simp
    ultimately show ?thesis using Awaits.IH [of "k r" "k r s" co "m - 1" "n - 1"] Awaits.prems(2) by (meson diff_le_mono rangeI)
  qed
  with Awaits.prems show ?case by (auto simp: finishes_in_Awaits)
qed simp

lemma finishes_in_and_then: "\<lbrakk>finishes_in co m; \<And>x. bounded n (h x); and_then co h s = (s', co')\<rbrakk> \<Longrightarrow> finishes_in co' (m + n)"
proof (induction co arbitrary: m s s' co')
  case (Finished x)
  then have "finishes_in co' n" by (auto simp: bounded_def)
  then show ?case by (rule finishes_in_mono) simp
next
  case (Awaits c k)
  have co': "co' = Awaits c (\<lambda>r s1. case k r s1 of (s2, co) \<Rightarrow> and_then co h s2)" using Awaits.prems(3) by (simp add: and_then_Awaits)
  have m: "0 < m" using Awaits.prems(1) by (simp add: finishes_in_Awaits)
  have "finishes_in co3 (m + n - 1)" if "(case k r s1 of (s2, co) \<Rightarrow> and_then co h s2) = (s3, co3)" for r s1 s3 co3
  proof -
    obtain s2 co where k: "k r s1 = (s2, co)" by fastforce
    with that have "and_then co h s2 = (s3, co3)" by simp
    moreover have "finishes_in co (m - 1)" using Awaits.prems(1) k by (auto simp: finishes_in_Awaits)
    moreover have "co \<in> Basic_BNFs.snds (k r s1)" using k by simp
    ultimately have "finishes_in co3 (m - 1 + n)" using Awaits.IH [of "k r" "k r s1" co "m - 1" s2 s3 co3] Awaits.prems(2) by (meson rangeI)
    with m show ?thesis by simp
  qed
  with m show ?case by (simp add: finishes_in_Awaits co')
qed

lemma bounded_attempt: "\<lbrakk>bounded m a; \<And>x. bounded n (h x)\<rbrakk> \<Longrightarrow> bounded (m + n) (attempt a h)"
  unfolding bounded_def [of "m + n"] attempt_def
  by (auto split: prod.splits intro!: finishes_in_and_then [where h = h]) (simp add: bounded_def)

lemma bounded_simple: "bounded n (done_with x)" "bounded n (do_now f)" "bounded n (look g)"
  by (auto simp: bounded_def done_with_def do_now_def look_def split: prod.splits)

lemma bounded_call: "bounded (Suc n) (call_for c)"
  by (auto simp: bounded_def call_for_def finishes_in_Awaits)

lemma bounded_mono: "\<lbrakk>bounded m a; m \<le> n\<rbrakk> \<Longrightarrow> bounded n a"
  unfolding bounded_def by (meson finishes_in_mono)

lemma bounded_chain: "\<lbrakk>bounded m a; \<And>x. bounded n (f x)\<rbrakk> \<Longrightarrow> bounded (m + n) (and_run a f)"
  unfolding and_run_def by (rule bounded_attempt) (auto split: sum.split intro: bounded_simple)

lemma bounded_finally: "\<lbrakk>bounded m a; bounded n b\<rbrakk> \<Longrightarrow> bounded (m + n) (finally_do a b)"
  unfolding finally_do_def
  by (rule bounded_attempt, assumption, rule bounded_mono [OF bounded_attempt [where m = n and n = 0]]) (auto split: sum.split intro: bounded_simple)

lemma bounded_for_each: "(\<And>x. x \<in> set xs \<Longrightarrow> bounded (n x) (f x)) \<Longrightarrow> bounded (sum_list (map n xs)) (for_each f xs)"
proof (induction xs)
  case (Cons x xs)
  have "bounded (sum_list (map n xs) + 0) (and_run (for_each f xs) (\<lambda>ys. done_with (Inr (y # ys))))" for y
    using Cons by (intro bounded_chain) (auto intro: bounded_simple)
  with Cons.prems show ?case by (auto intro: bounded_chain)
qed (simp add: bounded_simple)


subsection \<open>Coroutines side by side\<close>

text \<open>An event answers the call a coroutine waits for, or is a change by the rest of the program.\<close>

inductive interleaved :: "('s \<Rightarrow> 's \<Rightarrow> bool) \<Rightarrow> ('c \<Rightarrow> 'r \<Rightarrow> bool) \<Rightarrow> 's \<times> ('c, 'r, 's, 'a) co list \<Rightarrow> 's \<times> ('c, 'r, 's, 'a) co list \<Rightarrow> bool" for env A where
  stays: "interleaved env A p p"
| elsewhere: "\<lbrakk>interleaved env A p (s, cs); env s s'\<rbrakk> \<Longrightarrow> interleaved env A p (s', cs)"
| answered: "\<lbrakk>interleaved env A p (s, cs); i < length cs; cs ! i = Awaits c k; A c r; k r s = (s', co)\<rbrakk> \<Longrightarrow> interleaved env A p (s', cs[i := co])"

theorem side_by_side:
  assumes "interleaved env A (s, cs) (s', cs')"
    and coop: "\<And>i. i < length cs \<Longrightarrow> cooperation (R i) (G i)"
    and start: "\<And>i. i < length cs \<Longrightarrow> behaves (R i) (G i) (C i) A (Q i) (cs ! i) s"
    and env: "\<And>i s t. \<lbrakk>i < length cs; env s t\<rbrakk> \<Longrightarrow> R i s t"
    and others: "\<And>i j s t. \<lbrakk>i < length cs; j < length cs; i \<noteq> j; G i s t\<rbrakk> \<Longrightarrow> R j s t"
    and stable: "\<And>i x s t. \<lbrakk>i < length cs; Q i x s; R i s t\<rbrakk> \<Longrightarrow> Q i x t"
  shows "length cs' = length cs \<and> (\<forall>i < length cs. behaves (R i) (G i) (C i) A (Q i) (cs' ! i) s')"
  using assms(1)
proof (induction "(s, cs)" "(s', cs')" arbitrary: s' cs')
  case stays
  with start show ?case by simp
next
  case (elsewhere t cs1 u)
  have "behaves (R i) (G i) (C i) A (Q i) (cs1 ! i) u" if i: "i < length cs" for i
  proof (rule behaves_stable)
    show "behaves (R i) (G i) (C i) A (Q i) (cs1 ! i) t" using elsewhere i by simp
  qed (use env [OF i elsewhere(3)] cooperation.relies_trans [OF coop [OF i]] stable [OF i] in blast)+
  with elsewhere show ?case by simp
next
  case (answered t cs1 i c k r u co)
  have len: "length cs1 = length cs" and all: "\<And>j. j < length cs \<Longrightarrow> behaves (R j) (G j) (C j) A (Q j) (cs1 ! j) t" using answered by simp_all
  have i: "i < length cs" using answered(3) len by simp
  have "R i t t" by (rule cooperation.relies_refl [OF coop [OF i]])
  with all [OF i] answered(4-6) have step: "G i t u" "behaves (R i) (G i) (C i) A (Q i) co u" by (auto simp: behaves_Awaits)
  have "behaves (R j) (G j) (C j) A (Q j) (cs1[i := co] ! j) u" if j: "j < length cs" for j
  proof (cases "j = i")
    case False
    have "behaves (R j) (G j) (C j) A (Q j) (cs1 ! j) u"
      by (rule behaves_stable [OF all [OF j] others [OF i j _ step(1)]])
        (use False cooperation.relies_trans [OF coop [OF j]] stable [OF j] in blast)+
    with False show ?thesis by simp
  qed (use step(2) i len in simp)
  with len show ?case by simp
qed

text \<open>What holds of every change holds from the start to the end.\<close>

lemma side_by_side_changes:
  assumes "interleaved env A (s, cs) (s', cs')"
    and coop: "\<And>i. i < length cs \<Longrightarrow> cooperation (R i) (G i)"
    and start: "\<And>i. i < length cs \<Longrightarrow> behaves (R i) (G i) (C i) A (Q i) (cs ! i) s"
    and env: "\<And>i s t. \<lbrakk>i < length cs; env s t\<rbrakk> \<Longrightarrow> R i s t"
    and others: "\<And>i j s t. \<lbrakk>i < length cs; j < length cs; i \<noteq> j; G i s t\<rbrakk> \<Longrightarrow> R j s t"
    and stable: "\<And>i x s t. \<lbrakk>i < length cs; Q i x s; R i s t\<rbrakk> \<Longrightarrow> Q i x t"
    and T: "\<And>s. T s s" "\<And>s t u. \<lbrakk>T s t; T t u\<rbrakk> \<Longrightarrow> T s u" "\<And>s t. env s t \<Longrightarrow> T s t" "\<And>i s t. \<lbrakk>i < length cs; G i s t\<rbrakk> \<Longrightarrow> T s t"
  shows "T s s'"
  using assms(1)
proof (induction "(s, cs)" "(s', cs')" arbitrary: s' cs')
  case stays
  then show ?case by (simp add: T(1))
next
  case (elsewhere t cs1 u)
  then show ?case using T(2) [OF _ T(3)] by blast
next
  case (answered t cs1 i c k r u co)
  have b: "length cs1 = length cs \<and> (\<forall>i < length cs. behaves (R i) (G i) (C i) A (Q i) (cs1 ! i) t)"
    by (rule side_by_side [OF answered(1) coop start env others stable])
  with answered(3) have i: "i < length cs" by simp
  have "R i t t" by (rule cooperation.relies_refl [OF coop [OF i]])
  moreover have "behaves (R i) (G i) (C i) A (Q i) (Awaits c k) t" using b i answered(4) by metis
  ultimately have "G i t u" using answered(5,6) unfolding behaves_Awaits by blast
  with answered(2) show ?case using T(2) [OF _ T(4) [OF i]] by blast
qed

end
