(* ===== verification/Profile_Store.thy ===== *)
theory Profile_Store
  imports Profiling_Domain "HOL-Library.AList" "HOL-Library.Product_Lexorder"
begin

section \<open>The profile store\<close>

text \<open>
  \<^verbatim>\<open>profiling/store/base.py\<close> and \<^verbatim>\<open>profiling/store/sqlite.py\<close>: the Master's persistent store. A table is an association list
  under its primary key, in insertion order; a row holds the object of its \<^verbatim>\<open>payload\<close> column (the payload codec
  gives the text back as the same object, so equal texts are equal objects) and the derived columns that
  queries use. Where the text cannot be made, because a float is not finite, the operation raises before
  it touches the database.

  Transactions are Python's: a \<^verbatim>\<open>with\<close> block on the connection commits when it is left, also when it is nested
  in another one, and an exception rolls back to the last commit. The store's own checks are the only
  exceptions; errors of the database file are left out.
\<close>

subsection \<open>Rows and tables\<close>

record stored_case =
  stc_case :: profiling_case
  stc_state :: case_state
  stc_failure :: "profiling_failure option"

record stored_experiment =
  ste_experiment :: profiling_experiment
  ste_state :: experiment_state

record measurement_row =
  mrw_record :: measurement_record
  mrw_environment_instance_id :: "string option"
  mrw_model_id :: "string option"
  mrw_model_revision :: "string option"
  mrw_layer_signature_id :: "string option"
  mrw_module_signature_id :: "string option"
  mrw_operator_signature_id :: "string option"
  mrw_network_pair_id :: "string option"
  mrw_probe_kind :: "probe_kind option"
  mrw_started_at :: string

record profile_store =
  st_experiments :: "(string \<times> stored_experiment) list"
  st_cases :: "(string \<times> stored_case) list"
  st_measurements :: "(string \<times> measurement_row) list"
  st_samples :: "((string \<times> nat) \<times> pyfloat) list"
  st_characterizations :: "(string \<times> model_characterization) list"
  st_layers :: "(string \<times> layer_signature) list"
  st_modules :: "(string \<times> module_signature) list"
  st_operators :: "(string \<times> operator_signature) list"
  st_endpoints :: "((string \<times> string) \<times> endpoint_profile) list"
  st_path_classes :: "path_class list"
  st_pairs :: "(string \<times> network_pair \<times> path_class option) list"
  st_fingerprints :: "(string \<times> environment_fingerprint) list"
  st_instances :: "(string \<times> environment_fingerprint) list"
  st_classes :: "(string \<times> performance_class) list"
  st_memberships :: "((string \<times> string \<times> string) \<times> class_membership) list"

definition store_init :: profile_store where
  "store_init = \<lparr>st_experiments = [], st_cases = [], st_measurements = [], st_samples = [], st_characterizations = [], st_layers = [],
     st_modules = [], st_operators = [], st_endpoints = [], st_path_classes = [], st_pairs = [], st_fingerprints = [], st_instances = [],
     st_classes = [], st_memberships = []\<rparr>"

text \<open>The functions of the library the store uses: SHA-256 of the canonical text, the texts of floats and
  of datetimes.\<close>

record store_library =
  lib_sha :: "string \<Rightarrow> string"
  lib_repr :: "rat \<Rightarrow> string"
  lib_iso :: "timestamp \<Rightarrow> string"

text \<open>\<^verbatim>\<open>INSERT OR IGNORE\<close> skips a row whose key exists and a row that violates \<^verbatim>\<open>NOT NULL\<close>; a skipped row must then be
  there with the same payload.\<close>

definition insert_verified :: "('r \<Rightarrow> 'p) \<Rightarrow> bool \<Rightarrow> 'k \<Rightarrow> 'r \<Rightarrow> ('k \<times> 'r) list \<Rightarrow> (('k \<times> 'r) list \<times> bool) res" where
  "insert_verified payload null_violation k row t =
     (case map_of t k of
        None \<Rightarrow> if null_violation then Inl (ProfileStoreError ''insert was ignored but no row exists'') else Inr (t @ [(k, row)], True)
      | Some stored \<Rightarrow> if payload stored = payload row then Inr (t, False)
                        else Inl (ProfileStoreError ''the same canonical id maps to different content''))"

definition not_serializable :: exn where
  "not_serializable = ValueError ''payload is not JSON-serializable''"

fun finite_scalar :: "json_scalar \<Rightarrow> bool" where
  "finite_scalar (SFloat x) = isfinite x"
| "finite_scalar _ = True"

definition finite_failure :: "profiling_failure \<Rightarrow> bool" where
  "finite_failure f \<longleftrightarrow> list_all (\<lambda>(k, v). finite_scalar v) (pfl_details f)"

definition finite_summary :: "sample_summary \<Rightarrow> bool" where
  "finite_summary s \<longleftrightarrow> list_all isfinite [smm_mean s, smm_median s, smm_stddev s, smm_minimum s, smm_maximum s] \<and> pred_option isfinite (smm_p95 s)"

definition finite_telemetry :: "telemetry_sample \<Rightarrow> bool" where
  "finite_telemetry t \<longleftrightarrow> list_all (pred_option isfinite) [tes_utilization t, tes_temperature_c t, tes_power_w t, tes_clock_mhz t, tes_emc_clock_mhz t]"

definition finite_metrics :: "measurement_metrics \<Rightarrow> bool" where
  "finite_metrics m \<longleftrightarrow> pred_option (finite_summary \<circ> ltm_summary) (mms_latency m) \<and> pred_option (finite_summary \<circ> rtm_summary) (mms_rtt m)
     \<and> pred_option (\<lambda>t. pred_option finite_telemetry (tec_initial t) \<and> pred_option finite_telemetry (tec_final t)) (mms_telemetry m)
     \<and> pred_option (\<lambda>b. isfinite (bwm_bits_per_second b) \<and> pred_option isfinite (bwm_duration_s b)) (mms_bandwidth m)"

definition finite_record :: "measurement_record \<Rightarrow> bool" where
  "finite_record r \<longleftrightarrow> pred_option (list_all isfinite) (mrc_samples r) \<and> finite_metrics (mrc_metrics r)
     \<and> list_all (\<lambda>(k, v). finite_scalar v) (mrc_metadata r)
     \<and> pred_option (\<lambda>q. isfinite (mqu_drift_ratio q) \<and> isfinite (mqu_coefficient_of_variation q)) (mrc_quality r)"


subsection \<open>Cases and experiments\<close>

definition append_case :: "store_library \<Rightarrow> profiling_case \<Rightarrow> profile_store \<Rightarrow> profile_store \<times> bool res" where
  "append_case L c s =
     (if \<not> finite_json (canonical_case_spec (lib_repr L) (pcs_spec c)) then (s, Inl not_serializable)
      else case insert_verified stc_case False (pcs_case_id c) \<lparr>stc_case = c, stc_state = CASE_PENDING, stc_failure = None\<rparr> (st_cases s) of
        Inl e \<Rightarrow> (s, Inl e)
      | Inr (t, inserted) \<Rightarrow> (s\<lparr>st_cases := t\<rparr>, Inr inserted))"

definition update_case_state :: "string \<Rightarrow> case_state \<Rightarrow> profiling_failure option \<Rightarrow> profile_store \<Rightarrow> profile_store \<times> unit res" where
  "update_case_state i state failure s =
     (if \<not> pred_option finite_failure failure then (s, Inl not_serializable)
      else case map_of (st_cases s) i of
        None \<Rightarrow> (s, Inl (ProfileStoreError ''unknown profiling case''))
      | Some row \<Rightarrow> (s\<lparr>st_cases := AList.update i (row\<lparr>stc_state := state, stc_failure := failure\<rparr>) (st_cases s)\<rparr>, Inr ()))"

definition get_case :: "string \<Rightarrow> profile_store \<Rightarrow> stored_case option" where
  "get_case i s = map_of (st_cases s) i"

definition append_experiment :: "profiling_experiment \<Rightarrow> profile_store \<Rightarrow> profile_store \<times> bool res" where
  "append_experiment e s =
     (case insert_verified ste_experiment False (pex_experiment_id e) \<lparr>ste_experiment = e, ste_state = EXP_PENDING\<rparr> (st_experiments s) of
        Inl x \<Rightarrow> (s, Inl x)
      | Inr (t, inserted) \<Rightarrow> (s\<lparr>st_experiments := t\<rparr>, Inr inserted))"

definition update_experiment_state :: "string \<Rightarrow> experiment_state \<Rightarrow> profile_store \<Rightarrow> profile_store \<times> unit res" where
  "update_experiment_state i state s =
     (case map_of (st_experiments s) i of
        None \<Rightarrow> (s, Inl (ProfileStoreError ''unknown experiment''))
      | Some row \<Rightarrow> (s\<lparr>st_experiments := AList.update i (row\<lparr>ste_state := state\<rparr>) (st_experiments s)\<rparr>, Inr ()))"

definition get_experiment :: "string \<Rightarrow> profile_store \<Rightarrow> stored_experiment option" where
  "get_experiment i s = map_of (st_experiments s) i"


subsection \<open>Registries under canonical ids\<close>

definition store_characterization :: "store_library \<Rightarrow> model_characterization \<Rightarrow> profile_store \<Rightarrow> profile_store \<times> string res" where
  "store_characterization L c s =
     bind_st (lift_st (model_signature_id (lib_sha L) c) s) (\<lambda>i s.
       case insert_verified id (mref_revision (mch_model c) = None) i c (st_characterizations s) of
         Inl e \<Rightarrow> (s, Inl e)
       | Inr (t, _) \<Rightarrow> (s\<lparr>st_characterizations := t\<rparr>, Inr i))"

definition store_layer_signature :: "store_library \<Rightarrow> layer_signature \<Rightarrow> profile_store \<Rightarrow> profile_store \<times> string res" where
  "store_layer_signature L x s =
     bind_st (lift_st (layer_signature_id (lib_sha L) x) s) (\<lambda>i s.
       case insert_verified id False i x (st_layers s) of Inl e \<Rightarrow> (s, Inl e) | Inr (t, _) \<Rightarrow> (s\<lparr>st_layers := t\<rparr>, Inr i))"

definition store_module_signature :: "store_library \<Rightarrow> module_signature \<Rightarrow> profile_store \<Rightarrow> profile_store \<times> string res" where
  "store_module_signature L x s =
     bind_st (lift_st (module_signature_id (lib_sha L) (lib_repr L) x) s) (\<lambda>i s.
       case insert_verified id False i x (st_modules s) of Inl e \<Rightarrow> (s, Inl e) | Inr (t, _) \<Rightarrow> (s\<lparr>st_modules := t\<rparr>, Inr i))"

definition store_operator_signature :: "store_library \<Rightarrow> operator_signature \<Rightarrow> profile_store \<Rightarrow> profile_store \<times> string res" where
  "store_operator_signature L x s =
     bind_st (lift_st (operator_signature_id (lib_sha L) (lib_repr L) x) s) (\<lambda>i s.
       case insert_verified id False i x (st_operators s) of Inl e \<Rightarrow> (s, Inl e) | Inr (t, _) \<Rightarrow> (s\<lparr>st_operators := t\<rparr>, Inr i))"

definition store_network_endpoint :: "endpoint_profile \<Rightarrow> profile_store \<Rightarrow> profile_store \<times> (string \<times> string) res" where
  "store_network_endpoint p s =
     (if \<not> pred_option isfinite (nep_link_speed_mbps p) then (s, Inl not_serializable)
      else (s\<lparr>st_endpoints := AList.update (nep_worker_id p, nep_interface_id p) p (st_endpoints s)\<rparr>, Inr (nep_worker_id p, nep_interface_id p)))"

text \<open>The reference table of path classes and the pair are rolled back together when the pair conflicts.\<close>

definition store_path_classification :: "store_library \<Rightarrow> network_pair \<Rightarrow> path_class \<Rightarrow> profile_store \<Rightarrow> profile_store \<times> string res" where
  "store_path_classification L pair c s =
     bind_st (lift_st (network_pair_signature_id (lib_sha L) pair) s) (\<lambda>i s.
       case insert_verified fst False i (pair, None) (st_pairs s) of
         Inl e \<Rightarrow> (s, Inl e)
       | Inr (t, _) \<Rightarrow> (s\<lparr>st_path_classes := (if c \<in> set (st_path_classes s) then st_path_classes s else st_path_classes s @ [c]),
           st_pairs := map (\<lambda>(k, p, old). (k, p, if k = i then Some c else old)) t\<rparr>, Inr i))"

definition store_performance_class :: "store_library \<Rightarrow> performance_class \<Rightarrow> profile_store \<Rightarrow> profile_store \<times> string res" where
  "store_performance_class L c s =
     bind_st (lift_st (device_performance_class_id (lib_sha L) c) s) (\<lambda>i s.
       case insert_verified id False i c (st_classes s) of Inl e \<Rightarrow> (s, Inl e) | Inr (t, _) \<Rightarrow> (s\<lparr>st_classes := t\<rparr>, Inr i))"

definition membership_key :: "class_membership \<Rightarrow> string \<times> string \<times> string" where
  "membership_key m = (dpm_device_performance_class_id m, dpm_worker_id m, dpm_device_id m)"

text \<open>A verified membership is never taken back, and an unverified one with evidence is not replaced by one without.\<close>

definition store_performance_class_membership :: "class_membership \<Rightarrow> profile_store \<Rightarrow> profile_store" where
  "store_performance_class_membership m s =
     (let write = s\<lparr>st_memberships := AList.update (membership_key m) m (st_memberships s)\<rparr> in
      case map_of (st_memberships s) (membership_key m) of
        None \<Rightarrow> write
      | Some current \<Rightarrow>
          if dpm_verified current \<and> \<not> dpm_verified m then s
          else if \<not> dpm_verified m \<and> dpm_evidence_measurement_ids current \<noteq> [] \<and> dpm_evidence_measurement_ids m = [] then s
          else write)"

definition compatibility_fingerprint :: "environment_fingerprint \<Rightarrow> environment_fingerprint" where
  "compatibility_fingerprint f = f\<lparr>enf_capability_revision := None, enf_worker_id := None, enf_device_id := None\<rparr>"

definition class_membership_of :: "timestamp \<Rightarrow> environment_fingerprint \<Rightarrow> profile_store \<Rightarrow> class_membership res option" where
  "class_membership_of now f s =
     (case (enf_device_performance_class_id f, enf_worker_id f, enf_device_id f) of
        (Some c, Some w, Some d) \<Rightarrow>
          (let is_reference = \<not> list_ex (\<lambda>((c', _), _). c' = c) (st_memberships s);
               m = \<lparr>dpm_device_performance_class_id = c, dpm_worker_id = w, dpm_device_id = d, dpm_verified = is_reference,
                    dpm_verified_at = (if is_reference then Some now else None), dpm_evidence_measurement_ids = []\<rparr>
           in Some (then_res (check_class_membership m) (Inr m)))
      | _ \<Rightarrow> None)"

text \<open>The class is committed on its own; the two fingerprint tables and the membership are committed
  together, so a conflict in the second table takes the row of the first one back.\<close>

definition store_environment_fingerprint :: "store_library \<Rightarrow> timestamp \<Rightarrow> environment_fingerprint \<Rightarrow> profile_store \<Rightarrow> profile_store \<times> string res" where
  "store_environment_fingerprint L now f s =
     bind_st (lift_st (environment_fingerprint_id (lib_sha L) f) s) (\<lambda>i s.
     bind_st (lift_st (environment_instance_id (lib_sha L) f) s) (\<lambda>j s.
     bind_st (case enf_device_performance_class f of None \<Rightarrow> (s, Inr []) | Some c \<Rightarrow> store_performance_class L c s) (\<lambda>_ s.
       case insert_verified id False i (compatibility_fingerprint f) (st_fingerprints s) of
         Inl e \<Rightarrow> (s, Inl e)
       | Inr (t, _) \<Rightarrow>
           (case insert_verified id False j f (st_instances s) of
              Inl e \<Rightarrow> (s, Inl e)
            | Inr (u, _) \<Rightarrow>
                (let s' = s\<lparr>st_fingerprints := t, st_instances := u\<rparr> in
                 case class_membership_of now f s' of
                   None \<Rightarrow> (s', Inr i)
                 | Some (Inl e) \<Rightarrow> (s, Inl e)
                 | Some (Inr m) \<Rightarrow> (store_performance_class_membership m s', Inr i))))))"


subsection \<open>Measurements\<close>

definition opt_id :: "('a \<Rightarrow> string res) \<Rightarrow> 'a option \<Rightarrow> string option res" where
  "opt_id f x = (case x of None \<Rightarrow> Inr None | Some a \<Rightarrow> map_res Some (f a))"

definition spec_pair :: "network_case_spec \<Rightarrow> network_pair" where
  "spec_pair s = \<lparr>npr_source_worker_id = ncs_source_worker_id s, npr_destination_worker_id = ncs_destination_worker_id s,
     npr_source_interface_id = ncs_source_interface_id s, npr_destination_interface_id = ncs_destination_interface_id s\<rparr>"

definition measurement_columns :: "store_library \<Rightarrow> measurement_record \<Rightarrow> profiling_case \<Rightarrow> measurement_row res" where
  "measurement_columns L r c =
     bind_res (opt_id (environment_instance_id (lib_sha L)) (mrc_environment r)) (\<lambda>instance.
     let row = \<lparr>mrw_record = r, mrw_environment_instance_id = instance, mrw_model_id = None, mrw_model_revision = None, mrw_layer_signature_id = None,
                mrw_module_signature_id = None, mrw_operator_signature_id = None, mrw_network_pair_id = None, mrw_probe_kind = None,
                mrw_started_at = lib_iso L (mrc_started_at r)\<rparr>
     in case pcs_spec c of
       Model_Case s \<Rightarrow>
         bind_res (opt_id (layer_signature_id (lib_sha L)) (mcs_layer_signature s)) (\<lambda>layer.
         bind_res (opt_id (module_signature_id (lib_sha L) (lib_repr L)) (mcs_module_signature s)) (\<lambda>module.
         bind_res (opt_id (operator_signature_id (lib_sha L) (lib_repr L)) (mcs_operator_signature s)) (\<lambda>operator.
         Inr (row\<lparr>mrw_model_id := map_option mref_model_id (mcs_model s), mrw_model_revision := Option.bind (mcs_model s) mref_revision,
                  mrw_layer_signature_id := layer, mrw_module_signature_id := module, mrw_operator_signature_id := operator\<rparr>))))
     | Network_Case s \<Rightarrow>
         then_res (check_network_pair (spec_pair s))
         (bind_res (network_pair_signature_id (lib_sha L) (spec_pair s)) (\<lambda>pair.
         Inr (row\<lparr>mrw_network_pair_id := Some pair, mrw_probe_kind := Some (ncs_probe_kind s)\<rparr>))))"

text \<open>The environment of the measurement is committed first, also when the measurement is then refused.\<close>

definition append_measurement :: "store_library \<Rightarrow> timestamp \<Rightarrow> measurement_record \<Rightarrow> profile_store \<Rightarrow> profile_store \<times> bool res" where
  "append_measurement L now r s =
     (if \<not> finite_record r then (s, Inl not_serializable)
      else bind_st (case mrc_environment r of None \<Rightarrow> (s, Inr []) | Some f \<Rightarrow> store_environment_fingerprint L now f s) (\<lambda>_ s.
        case map_of (st_cases s) (mrc_case_id r) of
          None \<Rightarrow> (s, Inl (ProfileStoreError ''measurement references unknown case''))
        | Some c \<Rightarrow>
            bind_st (lift_st (measurement_columns L r (stc_case c)) s) (\<lambda>row s.
              case insert_verified mrw_record False (mrc_measurement_id r) row (st_measurements s) of
                Inl e \<Rightarrow> (s, Inl e)
              | Inr (t, inserted) \<Rightarrow>
                  (s\<lparr>st_measurements := t,
                     st_samples := st_samples s @ (case mrc_samples r of
                       Some xs \<Rightarrow> if inserted then map (\<lambda>(j, x). ((mrc_measurement_id r, j), x)) (enumerate 0 xs) else []
                     | None \<Rightarrow> [])\<rparr>, Inr inserted))))"

definition get_measurement :: "string \<Rightarrow> profile_store \<Rightarrow> measurement_record option" where
  "get_measurement i s = map_option mrw_record (map_of (st_measurements s) i)"

record measurement_query =
  mqy_case_id :: "string option"
  mqy_environment_fingerprint_id :: "string option"
  mqy_model_id :: "string option"
  mqy_revision :: "string option"
  mqy_layer_signature_id :: "string option"
  mqy_module_signature_id :: "string option"
  mqy_operator_signature_id :: "string option"
  mqy_network_pair_id :: "string option"
  mqy_probe_kind :: "probe_kind option"

text \<open>A filter that is given compares its column; a \<^verbatim>\<open>NULL\<close> column never matches.\<close>

definition column_matches :: "'a option \<Rightarrow> 'a option \<Rightarrow> bool" where
  "column_matches wanted column \<longleftrightarrow> wanted = None \<or> column = wanted"

definition row_matches :: "measurement_query \<Rightarrow> measurement_row \<Rightarrow> bool" where
  "row_matches q r \<longleftrightarrow> column_matches (mqy_case_id q) (Some (mrc_case_id (mrw_record r)))
     \<and> column_matches (mqy_environment_fingerprint_id q) (Some (mrc_environment_fingerprint (mrw_record r)))
     \<and> column_matches (mqy_model_id q) (mrw_model_id r) \<and> column_matches (mqy_revision q) (mrw_model_revision r)
     \<and> column_matches (mqy_layer_signature_id q) (mrw_layer_signature_id r) \<and> column_matches (mqy_module_signature_id q) (mrw_module_signature_id r)
     \<and> column_matches (mqy_operator_signature_id q) (mrw_operator_signature_id r) \<and> column_matches (mqy_network_pair_id q) (mrw_network_pair_id r)
     \<and> column_matches (mqy_probe_kind q) (mrw_probe_kind r)"

text \<open>\<^verbatim>\<open>ORDER BY started_at, measurement_id\<close>: the ids are unique, so two stable sorts give the order.\<close>

definition chronological :: "(string \<times> measurement_row) list \<Rightarrow> measurement_record list" where
  "chronological rows = map (mrw_record \<circ> snd) (sort_key (mrw_started_at \<circ> snd) (sort_key fst rows))"

definition query_measurements :: "measurement_query \<Rightarrow> profile_store \<Rightarrow> measurement_record list" where
  "query_measurements q s = chronological (filter (row_matches q \<circ> snd) (st_measurements s))"

definition any_measurement :: measurement_query where
  "any_measurement = \<lparr>mqy_case_id = None, mqy_environment_fingerprint_id = None, mqy_model_id = None, mqy_revision = None, mqy_layer_signature_id = None,
     mqy_module_signature_id = None, mqy_operator_signature_id = None, mqy_network_pair_id = None, mqy_probe_kind = None\<rparr>"

definition by_key :: "('k :: linorder \<times> 'v) list \<Rightarrow> 'v list" where
  "by_key t = map snd (sort_key fst t)"

definition performance_class_memberships :: "string \<Rightarrow> profile_store \<Rightarrow> class_membership list" where
  "performance_class_memberships c s = by_key (filter (\<lambda>((c', _), _). c' = c) (st_memberships s))"

definition membership_verified :: "string option \<Rightarrow> string option \<Rightarrow> string option \<Rightarrow> profile_store \<Rightarrow> bool" where
  "membership_verified c w d s =
     (case (c, w, d) of
        (Some c, Some w, Some d) \<Rightarrow> (case map_of (st_memberships s) (c, w, d) of None \<Rightarrow> False | Some m \<Rightarrow> dpm_verified m)
      | _ \<Rightarrow> False)"

definition reusable_record :: "environment_fingerprint \<Rightarrow> profile_store \<Rightarrow> measurement_record \<Rightarrow> bool" where
  "reusable_record f s r \<longleftrightarrow> pred_option mqu_eligible_for_calibration (mrc_quality r)
     \<and> (case mrc_environment r of
          None \<Rightarrow> False
        | Some e \<Rightarrow> (enf_worker_id e = enf_worker_id f \<and> enf_device_id e = enf_device_id f)
            \<or> (membership_verified (enf_device_performance_class_id f) (enf_worker_id f) (enf_device_id f) s
               \<and> membership_verified (enf_device_performance_class_id f) (enf_worker_id e) (enf_device_id e) s))"

definition measured_operator :: "profile_store \<Rightarrow> measurement_record \<Rightarrow> operator_signature option" where
  "measured_operator s r = Option.bind (get_case (mrc_case_id r) s) (\<lambda>c.
     case pcs_spec (stc_case c) of Model_Case m \<Rightarrow> mcs_operator_signature m | Network_Case _ \<Rightarrow> None)"

definition measured_operator_signature_ids_for_environment :: "store_library \<Rightarrow> environment_fingerprint \<Rightarrow> profile_store \<Rightarrow> string set res" where
  "measured_operator_signature_ids_for_environment L f s =
     (if enf_worker_id f = None \<or> enf_device_id f = None then Inr {}
      else bind_res (environment_fingerprint_id (lib_sha L) f) (\<lambda>i.
        map_res set (traverse_res (operator_signature_id (lib_sha L) (lib_repr L))
          (List.map_filter (measured_operator s)
            (filter (reusable_record f s) (query_measurements (any_measurement\<lparr>mqy_environment_fingerprint_id := Some i\<rparr>) s))))))"


subsection \<open>The snapshot\<close>

definition is_network :: "measurement_record \<Rightarrow> bool" where
  "is_network r \<longleftrightarrow> mms_rtt (mrc_metrics r) \<noteq> None \<or> mms_bandwidth (mrc_metrics r) \<noteq> None"

definition snapshot_contents :: "string \<Rightarrow> timestamp \<Rightarrow> profile_store \<Rightarrow> profile_snapshot" where
  "snapshot_contents i created s =
     (let records = chronological (st_measurements s) in
      \<lparr>psn_snapshot_id = i, psn_created_at = created, psn_model_characterizations = by_key (st_characterizations s),
       psn_measurements = filter (Not \<circ> is_network) records, psn_network_measurements = filter is_network records,
       psn_profiling_cases = map stc_case (by_key (st_cases s)), psn_layer_signatures = by_key (st_layers s),
       psn_module_signatures = by_key (st_modules s), psn_operator_signatures = by_key (st_operators s),
       psn_environment_fingerprints = by_key (st_instances s), psn_device_performance_classes = by_key (st_classes s),
       psn_device_performance_class_memberships = by_key (st_memberships s), psn_network_endpoints = by_key (st_endpoints s),
       psn_network_paths = List.map_filter (\<lambda>(p, c). map_option (\<lambda>c. \<lparr>npp_pair = p, npp_path_class = c\<rparr>) c) (by_key (st_pairs s))\<rparr>)"

definition store_snapshot :: "store_library \<Rightarrow> string \<Rightarrow> timestamp \<Rightarrow> profile_store \<Rightarrow> profile_snapshot res" where
  "store_snapshot L i created s = then_res (check_profile_snapshot (lib_sha L) (snapshot_contents i created s)) (Inr (snapshot_contents i created s))"


subsection \<open>Calls of the store\<close>

datatype store_op =
    Append_Case profiling_case
  | Update_Case string case_state "profiling_failure option"
  | Append_Measurement timestamp measurement_record
  | Append_Experiment profiling_experiment
  | Update_Experiment string experiment_state
  | Store_Characterization model_characterization
  | Store_Layer layer_signature
  | Store_Module module_signature
  | Store_Operator operator_signature
  | Store_Endpoint endpoint_profile
  | Store_Path network_pair path_class
  | Store_Fingerprint timestamp environment_fingerprint
  | Store_Class performance_class
  | Store_Membership class_membership

fun store_step :: "store_library \<Rightarrow> store_op \<Rightarrow> profile_store \<Rightarrow> profile_store" where
  "store_step L (Append_Case c) s = fst (append_case L c s)"
| "store_step L (Update_Case i st f) s = fst (update_case_state i st f s)"
| "store_step L (Append_Measurement now r) s = fst (append_measurement L now r s)"
| "store_step L (Append_Experiment e) s = fst (append_experiment e s)"
| "store_step L (Update_Experiment i st) s = fst (update_experiment_state i st s)"
| "store_step L (Store_Characterization c) s = fst (store_characterization L c s)"
| "store_step L (Store_Layer x) s = fst (store_layer_signature L x s)"
| "store_step L (Store_Module x) s = fst (store_module_signature L x s)"
| "store_step L (Store_Operator x) s = fst (store_operator_signature L x s)"
| "store_step L (Store_Endpoint p) s = fst (store_network_endpoint p s)"
| "store_step L (Store_Path p c) s = fst (store_path_classification L p c s)"
| "store_step L (Store_Fingerprint now f) s = fst (store_environment_fingerprint L now f s)"
| "store_step L (Store_Class c) s = fst (store_performance_class L c s)"
| "store_step L (Store_Membership m) s = store_performance_class_membership m s"

definition store_run :: "store_library \<Rightarrow> store_op list \<Rightarrow> profile_store \<Rightarrow> profile_store" where
  "store_run L ops s = fold (store_step L) ops s"

text \<open>An argument exists only when its constructor accepted it.\<close>

fun op_valid :: "store_library \<Rightarrow> store_op \<Rightarrow> bool" where
  "op_valid L (Append_Measurement now r) \<longleftrightarrow> check_measurement_record (lib_sha L) r = Inr ()"
| "op_valid L (Store_Membership m) \<longleftrightarrow> check_class_membership m = Inr ()"
| "op_valid L _ \<longleftrightarrow> True"


subsection \<open>Inserting\<close>

declare map_of_eq_Some_iff [simp del] Some_eq_map_of_iff [simp del]

lemma insert_verified_Inr:
  "insert_verified pay nv k row t = Inr (t', b) \<longleftrightarrow>
     (map_of t k = None \<and> \<not> nv \<and> b \<and> t' = t @ [(k, row)]) \<or> (\<exists>w. map_of t k = Some w \<and> pay w = pay row \<and> \<not> b \<and> t' = t)"
  by (auto simp: insert_verified_def split: option.splits)

text \<open>\<open>extends pay t t'\<close>: the rows of \<open>t\<close> are still in \<open>t'\<close>, with the same payloads.\<close>

definition extends :: "('r \<Rightarrow> 'p) \<Rightarrow> ('k \<times> 'r) list \<Rightarrow> ('k \<times> 'r) list \<Rightarrow> bool" where
  "extends pay t t' \<longleftrightarrow> (\<forall>k r. map_of t k = Some r \<longrightarrow> (\<exists>r'. map_of t' k = Some r' \<and> pay r' = pay r))"

lemma extends_refl [simp, intro]: "extends pay t t"
  by (simp add: extends_def)

lemma extends_trans: "\<lbrakk>extends pay t u; extends pay u v\<rbrakk> \<Longrightarrow> extends pay t v"
  unfolding extends_def by metis

lemma insert_verified_extends: "insert_verified pay nv k row t = Inr (t', b) \<Longrightarrow> extends pay' t t'"
  by (auto simp: insert_verified_Inr extends_def map_add_def split: option.splits)

lemma update_extends: "\<lbrakk>map_of t k = Some r; pay r' = pay r\<rbrakk> \<Longrightarrow> extends pay t (AList.update k r' t)"
  by (auto simp: extends_def update_conv')

text \<open>What the store never changes: every table but the endpoints, the classes of paths and the memberships
  only grows, and a case or an experiment keeps its definition.\<close>

definition grows :: "profile_store \<Rightarrow> profile_store \<Rightarrow> bool" where
  "grows s s' \<longleftrightarrow> extends ste_experiment (st_experiments s) (st_experiments s') \<and> extends stc_case (st_cases s) (st_cases s')
     \<and> extends id (st_measurements s) (st_measurements s') \<and> (\<exists>xs. st_samples s' = st_samples s @ xs)
     \<and> extends id (st_characterizations s) (st_characterizations s') \<and> extends id (st_layers s) (st_layers s')
     \<and> extends id (st_modules s) (st_modules s') \<and> extends id (st_operators s) (st_operators s')
     \<and> extends fst (st_pairs s) (st_pairs s') \<and> extends id (st_fingerprints s) (st_fingerprints s')
     \<and> extends id (st_instances s) (st_instances s') \<and> extends id (st_classes s) (st_classes s')
     \<and> (\<forall>k m. map_of (st_memberships s) k = Some m \<and> dpm_verified m \<longrightarrow> (\<exists>m'. map_of (st_memberships s') k = Some m' \<and> dpm_verified m'))"

lemma grows_refl [simp, intro]: "grows s s"
  by (simp add: grows_def)

lemma grows_trans: "\<lbrakk>grows s t; grows t u\<rbrakk> \<Longrightarrow> grows s u"
  unfolding grows_def by (elim conjE, intro conjI) (erule (1) extends_trans | force | meson)+

lemmas store_ops = append_case_def update_case_state_def append_experiment_def update_experiment_state_def store_characterization_def
  store_layer_signature_def store_module_signature_def store_operator_signature_def store_network_endpoint_def store_path_classification_def
  store_performance_class_def

lemma map_of_reclassified: "map_of (map (\<lambda>(k, p, old). (k, p, if k = i then Some c else old)) t) k
    = map_option (\<lambda>(p, old). (p, if k = i then Some c else old)) (map_of t k)"
  by (induction t) auto

lemma reclassified_extends: "extends fst t (map (\<lambda>(k, p, old). (k, p, if k = i then Some c else old)) t)"
  by (auto simp: extends_def map_of_reclassified)

lemma simple_ops_grow:
  "grows s (fst (append_case L c s))" "grows s (fst (update_case_state i st f s))" "grows s (fst (append_experiment e s))"
  "grows s (fst (update_experiment_state i st' s))" "grows s (fst (store_characterization L ch s))" "grows s (fst (store_layer_signature L ls s))"
  "grows s (fst (store_module_signature L ms s))" "grows s (fst (store_operator_signature L os s))" "grows s (fst (store_network_endpoint p s))"
  "grows s (fst (store_performance_class L pc s))"
  by (auto simp: store_ops grows_def split: sum.splits option.splits intro: insert_verified_extends update_extends)

lemma path_grows: "grows s (fst (store_path_classification L p c s))"
  by (auto simp: store_path_classification_def grows_def split: sum.splits option.splits
      intro: extends_trans [OF insert_verified_extends reclassified_extends])

lemma membership_grows: "grows s (store_performance_class_membership m s)"
  by (auto simp: store_performance_class_membership_def grows_def Let_def update_conv' split: option.splits)

lemma fingerprint_grows: "grows s (fst (store_environment_fingerprint L now f s))"
proof -
  obtain s1 r1 where s1: "(case enf_device_performance_class f of None \<Rightarrow> (s, Inr []) | Some c \<Rightarrow> store_performance_class L c s) = (s1, r1)" by fastforce
  have g1: "grows s s1" using s1 simple_ops_grow(10) [of s L] by (auto split: option.splits) (metis fst_conv)
  have "grows s1 (s1\<lparr>st_fingerprints := t, st_instances := u\<rparr>)"
    if "insert_verified id False i (compatibility_fingerprint f) (st_fingerprints s1) = Inr (t, b)" "insert_verified id False j f (st_instances s1) = Inr (u, b')" for i j t u b b'
    using that by (auto simp: grows_def intro: insert_verified_extends)
  with g1 membership_grows show ?thesis
    by (auto simp: store_environment_fingerprint_def s1 Let_def bind_st_def lift_st_def split: sum.splits option.splits intro: grows_trans)
      (blast intro: grows_trans)+
qed

lemma measurement_grows: "grows s (fst (append_measurement L now r s))"
proof -
  obtain s1 r1 where s1: "(case mrc_environment r of None \<Rightarrow> (s, Inr []) | Some f \<Rightarrow> store_environment_fingerprint L now f s) = (s1, r1)" by fastforce
  have g1: "grows s s1" using s1 fingerprint_grows [of s L now] by (auto split: option.splits) (metis fst_conv)
  have "grows s1 (s1\<lparr>st_measurements := t, st_samples := st_samples s1 @ xs\<rparr>)" "grows s1 (s1\<lparr>st_measurements := t\<rparr>)"
    if "insert_verified mrw_record False i row (st_measurements s1) = Inr (t, b)" for i row t b xs
    using that by (auto simp: grows_def intro: insert_verified_extends)
  with g1 show ?thesis
    by (auto simp: append_measurement_def s1 bind_st_def lift_st_def split: sum.splits option.splits intro: grows_trans)
qed

lemma store_step_grows: "grows s (store_step L op s)"
  by (cases op) (simp_all add: simple_ops_grow path_grows membership_grows fingerprint_grows measurement_grows)

lemma store_run_grows: "grows s (store_run L ops s)"
  unfolding store_run_def by (induction ops arbitrary: s) (auto intro: grows_trans store_step_grows)

end
