(* ===== verification/Profiling_Controller.thy ===== *)
theory Profiling_Controller
  imports Session_Plan Coroutine Profile_Store Network_Classifier Master_Service
begin

section \<open>The profiling controller\<close>

text \<open>
  \<^verbatim>\<open>control/master/profiling_controller.py\<close>: dispatching and cancelling experiments. An \<^verbatim>\<open>async\<close> method is an action of theory
  Coroutine over the Master's world; every \<^verbatim>\<open>await\<close> of it is a call of \<open>rpc_call\<close>, and the answer is what the network and the
  Worker make of it. Between two awaits no time passes, so all the clocks a method reads there are those of \<open>pw_call\<close>.

  A dict is a list of pairs. The texts of failures quote an identifier by \<open>quoted\<close>, which leaves the escapes of
  \<^verbatim>\<open>repr\<close> out; the text of an exception that a call raises comes with the answer. References to sections of a design
  document are left out of the texts, and so is logging.
\<close>

record world =
  pw_store :: profile_store
  pw_master :: master
  pw_call :: call_env
  pw_inspections :: nat

record dispatch_tokens =
  dtk_tokens :: registration_tokens
  dtk_endpoint :: string

record iperf_lease =
  ilz_target :: dispatch_tokens
  ilz_server_id :: string
  ilz_port :: int

record case_report =
  crp_case_id :: string
  crp_worker_id :: string
  crp_state :: case_state
  crp_outcome :: "case_outcome option"
  crp_detail :: string

record experiment_report =
  erp_experiment_id :: string
  erp_state :: experiment_state
  erp_cases :: "case_report list"

text \<open>What a coroutine can wait for: the start of its task, a call over the channel to an endpoint, a sleep, the
  closing of a channel. A call is answered by its response, is lost with a status code and details, or raises.\<close>

datatype rpc_call =
    Start
  | Call_Prepare string prepare_request
  | Call_Run string run_request
  | Call_Get string case_request
  | Call_Cancel string case_request
  | Call_Close string close_request
  | Call_Iperf string iperf_request
  | Call_Stop string iperf_stop_request
  | Sleep rat
  | Close_Channel string

datatype rpc_answer =
    Lost "string option" "string option"
  | Raised string
  | Prepared prepare_response
  | Ran run_response
  | Got get_response
  | Cancelled cancel_response
  | Closed close_response
  | Served iperf_response
  | Stopped iperf_stop_response
  | Resumed

type_synonym 'a task = "(rpc_call, rpc_answer, world, 'a) action"

definition not_understood :: exn where
  "not_understood = RuntimeError ''unexpected answer''"

definition quoted :: "string \<Rightarrow> string" where
  "quoted s = CHR 0x27 # s @ [CHR 0x27]"

definition await_resumed :: "rpc_call \<Rightarrow> unit task" where
  "await_resumed c = and_run (call_for c) (\<lambda>a. done_with (if a = Resumed then Inr () else Inl not_understood))"

definition on_store :: "(profile_store \<Rightarrow> profile_store \<times> 'a res) \<Rightarrow> world \<Rightarrow> world \<times> 'a res" where
  "on_store f w = (case f (pw_store w) of (s, r) \<Rightarrow> (w\<lparr>pw_store := s\<rparr>, r))"


subsection \<open>Shared helpers\<close>

definition resolve_tokens :: "string \<Rightarrow> world \<Rightarrow> profiling_failure + dispatch_tokens" where
  "resolve_tokens worker w =
     (case map_of (ms_registry (pw_master w)) worker of
        None \<Rightarrow> Inl (plain_failure NETWORK_UNREACHABLE (''worker '' @ quoted worker @ '' is not registered''))
      | Some record \<Rightarrow>
          (case wr_profiling_endpoint record of
             None \<Rightarrow> Inl (plain_failure NETWORK_UNREACHABLE (''worker '' @ quoted worker @ '' does not host the profiling service''))
           | Some endpoint \<Rightarrow>
               (case map_of (ms_sessions (pw_master w)) worker of
                  None \<Rightarrow> Inl (plain_failure NETWORK_UNREACHABLE (''worker '' @ quoted worker @ '' has no active registration session''))
                | Some info \<Rightarrow> Inr \<lparr>dtk_tokens = \<lparr>rgt_worker_id = worker, rgt_instance_id = si_instance_id info,
                    rgt_registration_session_id = si_session_id info\<rparr>, dtk_endpoint = endpoint\<rparr>)))"

definition cluster_network_facts :: "world \<Rightarrow> (string \<times> worker_network_facts) list res" where
  "cluster_network_facts w =
     bind_res (build_snapshot (pw_call w) (pw_master w)) (\<lambda>snapshot.
       traverse_res (\<lambda>x. map_res (Pair (wi_worker_id (sn_identity x))) (facts_of_worker x)) (cs_workers snapshot))"

definition settle :: "profiling_case \<Rightarrow> case_state \<Rightarrow> profiling_failure option \<Rightarrow> case_outcome res \<Rightarrow> string \<Rightarrow> world \<Rightarrow> world \<times> case_report res" where
  "settle c state failure outcome detail w =
     bind_st (on_store (update_case_state (pcs_case_id c) state failure) w) (\<lambda>_ w.
       (w, map_res (\<lambda>x. \<lparr>crp_case_id = pcs_case_id c, crp_worker_id = pcs_worker_id c, crp_state = state, crp_outcome = Some x, crp_detail = detail\<rparr>) outcome))"

definition record_failure :: "profiling_case \<Rightarrow> profiling_failure \<Rightarrow> string \<Rightarrow> world \<Rightarrow> world \<times> case_report res" where
  "record_failure c failure detail = settle c CASE_FAILED (Some failure) (from_failure failure) detail"

definition record_cancelled :: "profiling_case \<Rightarrow> string \<Rightarrow> world \<Rightarrow> world \<times> case_report res" where
  "record_cancelled c detail = (let failure = plain_failure ERROR_CANCELLED ''case cancelled by the Master''
     in settle c CASE_CANCELLED (Some failure) (from_failure failure) detail)"

definition record_failures :: "profiling_case list \<Rightarrow> profiling_failure \<Rightarrow> string \<Rightarrow> case_report list task" where
  "record_failures cases failure detail = for_each (\<lambda>c. do_now (record_failure c failure detail)) cases"


subsection \<open>Outcomes\<close>

definition expected_device :: "profiling_case \<Rightarrow> string option res" where
  "expected_device c = (case pcs_spec c of Model_Case s \<Rightarrow> map_res Some (first_device s) | Network_Case _ \<Rightarrow> Inr None)"

definition attributed :: "profiling_case \<Rightarrow> string option \<Rightarrow> measurement_record \<Rightarrow> bool" where
  "attributed c device r = (case mrc_environment r of
     None \<Rightarrow> False
   | Some e \<Rightarrow> enf_worker_id e = Some (pcs_worker_id c) \<and> enf_device_id e = device)"

definition attribution_failure :: "profiling_case \<Rightarrow> string option \<Rightarrow> profiling_failure" where
  "attribution_failure c device = (plain_failure INTERNAL_ERROR ''measurement lacks a complete, correctly attributed EnvironmentFingerprint'')
     \<lparr>pfl_details := [(''expected_device_id'', case device of None \<Rightarrow> SNull | Some d \<Rightarrow> SStr d), (''expected_worker_id'', SStr (pcs_worker_id c))]\<rparr>"

definition persist_record :: "store_library \<Rightarrow> profiling_case \<Rightarrow> case_outcome \<Rightarrow> measurement_record \<Rightarrow> world \<Rightarrow> world \<times> case_report res" where
  "persist_record L c outcome r w =
     (if mrc_case_id r \<noteq> pcs_case_id c
      then record_failure c (plain_failure INTERNAL_ERROR (''result of case '' @ quoted (pcs_case_id c) @ '' arrived under record case_id '' @ quoted (mrc_case_id r)))
             ''protocol violation; measurement not persisted'' w
      else bind_st (lift_st (expected_device c) w) (\<lambda>device w.
        if \<not> attributed c device r then record_failure c (attribution_failure c device) ''protocol violation; measurement not persisted'' w
        else (case on_store (append_measurement L (ce_wall (pw_call w)) r) w of
            (w, Inl (ProfileStoreError e)) \<Rightarrow>
              record_failure c (plain_failure INTERNAL_ERROR (''persisting the measurement failed: '' @ e)) ''store failure; the case replays on resume'' w
          | (w, Inl e) \<Rightarrow> (w, Inl e)
          | (w, Inr _) \<Rightarrow> settle c CASE_COMPLETED None (Inr outcome) [] w)))"

definition persist_outcome :: "store_library \<Rightarrow> profiling_case \<Rightarrow> case_outcome \<Rightarrow> world \<Rightarrow> world \<times> case_report res" where
  "persist_outcome L c outcome w = (case cou_record outcome of
     Some r \<Rightarrow> persist_record L c outcome r w
   | None \<Rightarrow> settle c CASE_FAILED (cou_failure outcome) (Inr outcome) [] w)"


subsection \<open>Preparing a session\<close>

definition DEVICE_BUSY_BACKOFF :: "rat list" where
  "DEVICE_BUSY_BACKOFF = [1, 2, 4, 8]"

definition answered_busy :: "prepare_response \<Rightarrow> bool" where
  "answered_busy r \<longleftrightarrow> prr_reason r = Some BUSY \<or> (case prr_failure r of None \<Rightarrow> False | Some f \<Rightarrow> pfl_category f = DEVICE_BUSY)"

definition prepare_verdict :: "prepare_response \<Rightarrow> profiling_failure + prepare_response" where
  "prepare_verdict r =
     (if prr_accepted r then Inr r
      else case prr_failure r of
        Some f \<Rightarrow> Inl f
      | None \<Rightarrow> Inl (rejection_failure (prr_reason r) (prr_detail r) ''PrepareProfilingSession''))"

primrec prepare_attempts :: "string \<Rightarrow> prepare_request \<Rightarrow> rat list \<Rightarrow> (profiling_failure + prepare_response) task" where
  "prepare_attempts endpoint request [] = and_run (call_for (Call_Prepare endpoint request)) (\<lambda>a. case a of
     Lost code detail \<Rightarrow> done_with (Inr (Inl (transport_failure code detail ''PrepareProfilingSession'')))
   | Raised shown \<Rightarrow> done_with (Inr (Inl (unexpected_failure ''PrepareProfilingSession'' shown)))
   | Prepared r \<Rightarrow> done_with (Inr (prepare_verdict r))
   | _ \<Rightarrow> done_with (Inl not_understood))"
| "prepare_attempts endpoint request (delay # delays) = and_run (call_for (Call_Prepare endpoint request)) (\<lambda>a. case a of
     Lost code detail \<Rightarrow> done_with (Inr (Inl (transport_failure code detail ''PrepareProfilingSession'')))
   | Raised shown \<Rightarrow> done_with (Inr (Inl (unexpected_failure ''PrepareProfilingSession'' shown)))
   | Prepared r \<Rightarrow>
       if \<not> prr_accepted r \<and> answered_busy r
       then and_run (await_resumed (Sleep delay)) (\<lambda>_. prepare_attempts endpoint request delays)
       else done_with (Inr (prepare_verdict r))
   | _ \<Rightarrow> done_with (Inl not_understood))"

definition prepare_session :: "dispatch_tokens \<Rightarrow> string \<Rightarrow> session_request \<Rightarrow> worker_network_facts list \<Rightarrow> (profiling_failure + prepare_response) task" where
  "prepare_session t sid request facts =
     and_run (done_with (built check_prepare_request \<lparr>prq_tokens = dtk_tokens t, prq_session_id = sid, prq_session_request = request, prq_network_facts = facts\<rparr>))
       (\<lambda>q. prepare_attempts (dtk_endpoint t) q DEVICE_BUSY_BACKOFF)"


subsection \<open>Closing a session\<close>

primrec close_attempts :: "string \<Rightarrow> close_request \<Rightarrow> nat \<Rightarrow> profiling_failure option \<Rightarrow> profiling_failure option task" where
  "close_attempts endpoint request 0 failure = done_with (if failure = None then Inl (AssertionError []) else Inr failure)"
| "close_attempts endpoint request (Suc n) failure = and_run (call_for (Call_Close endpoint request)) (\<lambda>a. case a of
     Lost code detail \<Rightarrow> close_attempts endpoint request n (Some (transport_failure code detail ''CloseProfilingSession''))
   | Raised shown \<Rightarrow> close_attempts endpoint request n (Some (unexpected_failure ''CloseProfilingSession'' shown))
   | Closed r \<Rightarrow>
       if clr_accepted r then done_with (Inr None)
       else close_attempts endpoint request n (Some (rejection_failure (clr_reason r) (clr_detail r) ''CloseProfilingSession''))
   | _ \<Rightarrow> done_with (Inl not_understood))"

definition close_remote_session :: "dispatch_tokens \<Rightarrow> string \<Rightarrow> profiling_failure option task" where
  "close_remote_session t sid = and_run (done_with (built check_close_request \<lparr>clq_tokens = dtk_tokens t, clq_session_id = sid\<rparr>))
     (\<lambda>q. close_attempts (dtk_endpoint t) q 2 None)"

text \<open>The clean-up runs in a task of its own.\<close>

definition close_session_uncancelled :: "dispatch_tokens \<Rightarrow> string \<Rightarrow> profiling_failure option task" where
  "close_session_uncancelled t sid = and_run (await_resumed Start) (\<lambda>_. close_remote_session t sid)"


subsection \<open>The iperf3 server at the destination\<close>

fun plus_seconds :: "pyfloat \<Rightarrow> rat \<Rightarrow> pyfloat" where
  "plus_seconds (Fin x) y = Fin (x + y)"
| "plus_seconds x y = x"

definition iperf_request_for :: "(string \<Rightarrow> string) \<Rightarrow> profiling_case \<Rightarrow> network_case_spec \<Rightarrow> dispatch_tokens \<Rightarrow> string \<Rightarrow> iperf_request res" where
  "iperf_request_for sha c s t address =
     bind_res (canonical_sha256 sha (JList [JStr ''iperf_server'', JStr (pcs_case_id c)])) (\<lambda>server.
       built check_iperf_request \<lparr>ipq_tokens = dtk_tokens t, ipq_server_id = server, ipq_port = None,
         ipq_timeout_s = plus_seconds (case ncs_duration_s s of None \<Rightarrow> Fin 0 | Some d \<Rightarrow> d) 30, ipq_bind_address = Some address\<rparr>)"

definition destination_address :: "network_case_spec \<Rightarrow> world \<Rightarrow> string option res" where
  "destination_address s w = bind_res (cluster_network_facts w) (\<lambda>facts.
     Inr (Option.bind (map_of facts (ncs_destination_worker_id s)) (\<lambda>f. selected_ipv4_address f (ncs_destination_interface_id s))))"

definition closing_with :: "string \<Rightarrow> 'a \<Rightarrow> 'a task" where
  "closing_with endpoint x = and_run (await_resumed (Close_Channel endpoint)) (\<lambda>_. done_with (Inr x))"

definition request_iperf_server :: "(string \<Rightarrow> string) \<Rightarrow> profiling_case \<Rightarrow> network_case_spec \<Rightarrow> dispatch_tokens \<Rightarrow> string \<Rightarrow> (profiling_failure + iperf_lease) task" where
  "request_iperf_server sha c s t address =
     and_run (done_with (iperf_request_for sha c s t address)) (\<lambda>q. and_run (call_for (Call_Iperf (dtk_endpoint t) q)) (\<lambda>answer. case answer of
       Lost code detail \<Rightarrow> closing_with (dtk_endpoint t) (Inl (transport_failure code detail ''PrepareIperfServer''))
     | Raised shown \<Rightarrow> closing_with (dtk_endpoint t) (Inl (unexpected_failure ''PrepareIperfServer'' shown))
     | Served r \<Rightarrow>
         (if \<not> ipr_accepted r then closing_with (dtk_endpoint t) (Inl (rejection_failure (ipr_reason r) (ipr_detail r) ''PrepareIperfServer''))
          else case ipr_port r of
            None \<Rightarrow> closing_with (dtk_endpoint t) (Inl (rejection_failure (ipr_reason r) (ipr_detail r) ''PrepareIperfServer''))
          | Some port \<Rightarrow> done_with (Inr (Inr \<lparr>ilz_target = t, ilz_server_id = ipq_server_id q, ilz_port = port\<rparr>)))
     | _ \<Rightarrow> done_with (Inl not_understood)))"

definition prepare_remote_iperf_server :: "(string \<Rightarrow> string) \<Rightarrow> profiling_case \<Rightarrow> network_case_spec \<Rightarrow> (profiling_failure + iperf_lease) task" where
  "prepare_remote_iperf_server sha c s =
     and_run (look (\<lambda>w. Inr (resolve_tokens (ncs_destination_worker_id s) w))) (\<lambda>resolved. case resolved of
       Inl failure \<Rightarrow> done_with (Inr (Inl failure))
     | Inr t \<Rightarrow> and_run (look (destination_address s)) (\<lambda>address. case address of
         None \<Rightarrow> closing_with (dtk_endpoint t) (Inl (plain_failure NETWORK_UNREACHABLE
           ''bandwidth destination has no unambiguous IPv4 probe path; set destination_interface_id explicitly on multi-NIC workers''))
       | Some a \<Rightarrow> request_iperf_server sha c s t a))"

text \<open>A refusal to stop, or any exception of the call, is only logged.\<close>

definition stop_remote_iperf_server :: "iperf_lease \<Rightarrow> unit task" where
  "stop_remote_iperf_server lease =
     and_run (done_with (built check_iperf_stop_request \<lparr>isq_tokens = dtk_tokens (ilz_target lease), isq_server_id = ilz_server_id lease\<rparr>)) (\<lambda>q.
     and_run (call_for (Call_Stop (dtk_endpoint (ilz_target lease)) q)) (\<lambda>_. await_resumed (Close_Channel (dtk_endpoint (ilz_target lease)))))"


subsection \<open>Running one case\<close>

fun bandwidth_spec :: "case_spec \<Rightarrow> network_case_spec option" where
  "bandwidth_spec (Network_Case s) = (if ncs_probe_kind s = BANDWIDTH then Some s else None)"
| "bandwidth_spec (Model_Case _) = None"

definition iperf_server_for :: "(string \<Rightarrow> string) \<Rightarrow> profiling_case \<Rightarrow> (profiling_failure + iperf_lease option) task" where
  "iperf_server_for sha c = (case bandwidth_spec (pcs_spec c) of
     None \<Rightarrow> done_with (Inr (Inr None))
   | Some s \<Rightarrow> and_run (prepare_remote_iperf_server sha c s) (\<lambda>x. done_with (Inr (map_sum id Some x))))"

text \<open>The handlers of the call record the failure before the server is stopped.\<close>

definition dispatch_case :: "string \<Rightarrow> run_request \<Rightarrow> profiling_case \<Rightarrow> (case_report + run_response) task" where
  "dispatch_case endpoint q c = and_run (call_for (Call_Run endpoint q)) (\<lambda>a. case a of
     Lost code detail \<Rightarrow> and_run (do_now (record_failure c (transport_failure code detail ''RunProfilingCase'') ''run lost'')) (\<lambda>r. done_with (Inr (Inl r)))
   | Raised shown \<Rightarrow> and_run (do_now (record_failure c (unexpected_failure ''RunProfilingCase'' shown) ''run raised'')) (\<lambda>r. done_with (Inr (Inl r)))
   | Ran r \<Rightarrow> done_with (Inr (Inr r))
   | _ \<Rightarrow> done_with (Inl not_understood))"

definition finish_case :: "store_library \<Rightarrow> profiling_case \<Rightarrow> run_response \<Rightarrow> world \<Rightarrow> world \<times> case_report res" where
  "finish_case L c r =
     (if \<not> rrr_accepted r then record_failure c (rejection_failure (rrr_reason r) (rrr_detail r) ''RunProfilingCase'') ''run refused by the worker''
      else case rrr_outcome r of
        None \<Rightarrow> record_failure c (plain_failure INTERNAL_ERROR ''accepted run response carries no outcome'') ''protocol violation''
      | Some outcome \<Rightarrow> persist_outcome L c outcome)"

definition run_with_lease :: "store_library \<Rightarrow> dispatch_tokens \<Rightarrow> string \<Rightarrow> profiling_case \<Rightarrow> iperf_lease option \<Rightarrow> case_report task" where
  "run_with_lease L t sid c lease =
     and_run (done_with (built check_run_request \<lparr>rrq_tokens = dtk_tokens t, rrq_session_id = sid, rrq_case = c,
         rrq_iperf_server_port = map_option ilz_port lease\<rparr>)) (\<lambda>q.
     and_run (finally_do (dispatch_case (dtk_endpoint t) q c) (case lease of None \<Rightarrow> done_with (Inr ()) | Some l \<Rightarrow> stop_remote_iperf_server l)) (\<lambda>x. case x of
       Inl report \<Rightarrow> done_with (Inr report)
     | Inr response \<Rightarrow> do_now (finish_case L c response)))"

definition run_case :: "store_library \<Rightarrow> dispatch_tokens \<Rightarrow> string \<Rightarrow> profiling_case \<Rightarrow> case_report task" where
  "run_case L t sid c =
     and_run (do_now (on_store (update_case_state (pcs_case_id c) CASE_RUNNING None))) (\<lambda>_.
     and_run (iperf_server_for (lib_sha L) c) (\<lambda>prepared. case prepared of
       Inl failure \<Rightarrow> do_now (record_failure c failure ''destination iperf3 server preparation failed'')
     | Inr lease \<Rightarrow> run_with_lease L t sid c lease))"


subsection \<open>Running one session and one Worker\<close>

definition join_comma :: "string list \<Rightarrow> string" where
  "join_comma xs = (case xs of [] \<Rightarrow> [] | x # ys \<Rightarrow> x @ concat (map (\<lambda>y. '', '' @ y) ys))"

definition missing_facts :: "(string \<times> worker_network_facts) list \<Rightarrow> network_case_spec \<Rightarrow> string list" where
  "missing_facts facts s = sort (filter (\<lambda>i. map_of facts i = None) [ncs_source_worker_id s, ncs_destination_worker_id s])"

definition missing_facts_failure :: "string list \<Rightarrow> profiling_failure" where
  "missing_facts_failure missing = (plain_failure NETWORK_UNREACHABLE (''no cluster facts for network peer(s): '' @ join_comma (map quoted missing)))
     \<lparr>pfl_details := [(''missing_worker_ids'', SStr (join_comma missing))]\<rparr>"

text \<open>The dispatchable cases, the Workers whose facts they need, and the reports of the others.\<close>

primrec split_by_facts :: "(string \<times> worker_network_facts) list \<Rightarrow> profiling_case list \<Rightarrow> (profiling_case list \<times> string list \<times> case_report list) task" where
  "split_by_facts facts [] = done_with (Inr ([], [], []))"
| "split_by_facts facts (c # cs) = (case pcs_spec c of
     Model_Case _ \<Rightarrow> done_with (Inl (ValueError ''network session case carries a non-network spec''))
   | Network_Case s \<Rightarrow>
       if missing_facts facts s \<noteq> []
       then and_run (do_now (record_failure c (missing_facts_failure (missing_facts facts s)) ''not dispatched'')) (\<lambda>r.
            and_run (split_by_facts facts cs) (\<lambda>(ds, needed, rs). done_with (Inr (ds, needed, r # rs))))
       else and_run (split_by_facts facts cs) (\<lambda>(ds, needed, rs). done_with (Inr (c # ds, ncs_source_worker_id s # ncs_destination_worker_id s # needed, rs))))"

definition resolve_network_facts :: "(string \<times> worker_network_facts) list \<Rightarrow> profiling_case list
    \<Rightarrow> (profiling_case list \<times> worker_network_facts list \<times> case_report list) task" where
  "resolve_network_facts facts cases = and_run (split_by_facts facts cases) (\<lambda>(ds, needed, rs).
     done_with (map_res (\<lambda>fs. (ds, fs, rs)) (traverse_res (\<lambda>i. case map_of facts i of None \<Rightarrow> Inl (KeyError i) | Some f \<Rightarrow> Inr f) (sort (remdups needed)))))"

definition dispatch_session :: "store_library \<Rightarrow> dispatch_tokens \<Rightarrow> session_plan \<Rightarrow> profiling_case list \<Rightarrow> worker_network_facts list \<Rightarrow> case_report list task" where
  "dispatch_session L t plan cases facts =
     finally_do
       (and_run (prepare_session t (spl_session_id plan) (spl_session_request plan) facts) (\<lambda>prepared. case prepared of
          Inl failure \<Rightarrow> record_failures cases failure ''session prepare failed''
        | Inr _ \<Rightarrow> for_each (run_case L t (spl_session_id plan)) cases))
       (close_session_uncancelled t (spl_session_id plan))"

definition run_session :: "store_library \<Rightarrow> dispatch_tokens \<Rightarrow> (string \<times> worker_network_facts) list \<Rightarrow> session_plan \<Rightarrow> case_report list task" where
  "run_session L t network_facts plan =
     (if psr_kind (spl_session_request plan) = NETWORK_SESSION
      then and_run (resolve_network_facts network_facts (spl_cases plan)) (\<lambda>(cases, facts, failures).
        if cases = [] then done_with (Inr failures)
        else and_run (dispatch_session L t plan cases facts) (\<lambda>rs. done_with (Inr (failures @ rs))))
      else dispatch_session L t plan (spl_cases plan) [])"

definition run_worker :: "store_library \<Rightarrow> string \<Rightarrow> string \<Rightarrow> profiling_case list \<Rightarrow> (string \<times> worker_network_facts) list \<Rightarrow> case_report list task" where
  "run_worker L e worker cases network_facts =
     and_run (look (\<lambda>w. Inr (resolve_tokens worker w))) (\<lambda>resolved. case resolved of
       Inl failure \<Rightarrow> record_failures cases failure ''not dispatched''
     | Inr t \<Rightarrow> finally_do
         (and_run (done_with (plan_sessions (lib_sha L) e worker cases)) (\<lambda>plans.
          and_run (for_each (run_session L t network_facts) plans) (\<lambda>rss. done_with (Inr (concat rss)))))
         (await_resumed (Close_Channel (dtk_endpoint t))))"


subsection \<open>Running an experiment\<close>

definition require_experiment :: "string \<Rightarrow> world \<Rightarrow> stored_experiment res" where
  "require_experiment i w = (case get_experiment i (pw_store w) of
     None \<Rightarrow> Inl (ValueError ''unknown experiment: create it first'')
   | Some stored \<Rightarrow> Inr stored)"

definition stored_report :: "string \<Rightarrow> string \<Rightarrow> stored_case \<Rightarrow> case_report res" where
  "stored_report detail i c =
     map_res (\<lambda>outcome. \<lparr>crp_case_id = i, crp_worker_id = pcs_worker_id (stc_case c), crp_state = stc_state c, crp_outcome = outcome, crp_detail = detail\<rparr>)
       (case stc_failure c of None \<Rightarrow> Inr None | Some f \<Rightarrow> map_res Some (from_failure f))"

definition stored_case_of :: "profile_store \<Rightarrow> string \<Rightarrow> stored_case res" where
  "stored_case_of s i = (case get_case i s of
     None \<Rightarrow> Inl (ValueError ''the experiment references a case which is not persisted'')
   | Some c \<Rightarrow> Inr c)"

definition report_from_store :: "stored_experiment \<Rightarrow> world \<Rightarrow> experiment_report res" where
  "report_from_store stored w =
     map_res (\<lambda>rs. \<lparr>erp_experiment_id = pex_experiment_id (ste_experiment stored), erp_state = ste_state stored, erp_cases = rs\<rparr>)
       (traverse_res (\<lambda>i. bind_res (stored_case_of (pw_store w) i) (stored_report ''replayed from the store; nothing dispatched'' i))
         (pex_case_ids (ste_experiment stored)))"

text \<open>Every case of the experiment: the report of a decided case, or the case that is still open.\<close>

definition load_cases :: "string \<Rightarrow> profile_store \<Rightarrow> string list \<Rightarrow> (case_report + profiling_case) list res" where
  "load_cases detail s ids = traverse_res (\<lambda>i. bind_res (stored_case_of s i) (\<lambda>c.
     if terminal_state (stc_state c) then map_res Inl (stored_report detail i c) else Inr (Inr (stc_case c)))) ids"

definition decided_cases :: "(case_report + profiling_case) list \<Rightarrow> case_report list" where
  "decided_cases xs = List.map_filter (\<lambda>x. case x of Inl r \<Rightarrow> Some r | Inr _ \<Rightarrow> None) xs"

definition open_cases :: "(case_report + profiling_case) list \<Rightarrow> profiling_case list" where
  "open_cases xs = List.map_filter (\<lambda>x. case x of Inl _ \<Rightarrow> None | Inr c \<Rightarrow> Some c) xs"

definition by_worker :: "profiling_case list \<Rightarrow> (string \<times> profiling_case list) list" where
  "by_worker cases = sort_key fst (fold (\<lambda>c. into_group (pcs_worker_id c) c) cases [])"

record dispatching =
  dsp_experiment :: profiling_experiment
  dsp_reports :: "case_report list"
  dsp_workers :: "(string \<times> profiling_case list) list"
  dsp_facts :: "(string \<times> worker_network_facts) list"

text \<open>\<^verbatim>\<open>run_experiment\<close> up to \<^verbatim>\<open>asyncio.gather\<close>: the report of an experiment that is over, or what is dispatched.\<close>

definition run_experiment_begin :: "string \<Rightarrow> world \<Rightarrow> world \<times> (experiment_report + dispatching) res" where
  "run_experiment_begin i w =
     bind_st (lift_st (require_experiment i w) w) (\<lambda>stored w.
       if terminal_experiment (ste_state stored) then (w, map_res Inl (report_from_store stored w))
       else bind_st (lift_st (load_cases ''terminal in the store; replayed without re-dispatch'' (pw_store w) (pex_case_ids (ste_experiment stored))) w) (\<lambda>loaded w.
            bind_st (on_store (update_experiment_state i EXP_RUNNING) w) (\<lambda>_ w.
            bind_st (lift_st (if list_ex (\<lambda>c. case_session_kind c = NETWORK_SESSION) (open_cases loaded) then cluster_network_facts w else Inr []) w) (\<lambda>facts w.
            (w, Inr (Inr \<lparr>dsp_experiment = ste_experiment stored, dsp_reports = decided_cases loaded, dsp_workers = by_worker (open_cases loaded), dsp_facts = facts\<rparr>))))))"

text \<open>The coroutines that \<^verbatim>\<open>gather\<close> starts, one per Worker.\<close>

definition dispatched_workers :: "store_library \<Rightarrow> dispatching \<Rightarrow> (rpc_call, rpc_answer, world, case_report list res) co list" where
  "dispatched_workers L d = map (\<lambda>(worker, cases). Awaits Start (\<lambda>_. run_worker L (pex_experiment_id (dsp_experiment d)) worker cases (dsp_facts d))) (dsp_workers d)"

definition reports_in_order :: "string list \<Rightarrow> case_report list \<Rightarrow> case_report list res" where
  "reports_in_order ids rs = traverse_res (\<lambda>i. case dict_of (map (\<lambda>r. (crp_case_id r, r)) rs) i of None \<Rightarrow> Inl (KeyError i) | Some r \<Rightarrow> Inr r) ids"

definition finish_experiment :: "string \<Rightarrow> case_report list \<Rightarrow> (case_state list \<Rightarrow> experiment_state res) \<Rightarrow> world \<Rightarrow> world \<times> experiment_report res" where
  "finish_experiment i cases verdict w =
     bind_st (lift_st (verdict (map crp_state cases)) w) (\<lambda>state w.
     bind_st (on_store (update_experiment_state i state) w) (\<lambda>_ w.
     (w, Inr \<lparr>erp_experiment_id = i, erp_state = state, erp_cases = cases\<rparr>)))"

definition run_experiment_end :: "dispatching \<Rightarrow> case_report list list \<Rightarrow> world \<Rightarrow> world \<times> experiment_report res" where
  "run_experiment_end d chunks w =
     bind_st (lift_st (reports_in_order (pex_case_ids (dsp_experiment d)) (dsp_reports d @ concat chunks)) w) (\<lambda>cases w.
     finish_experiment (pex_experiment_id (dsp_experiment d)) cases terminal_experiment_state w)"


subsection \<open>Cancelling\<close>

definition fetch_outcome :: "dispatch_tokens \<Rightarrow> string \<Rightarrow> string \<Rightarrow> case_outcome option task" where
  "fetch_outcome t sid i = (case built check_case_request \<lparr>crq_tokens = dtk_tokens t, crq_session_id = sid, crq_case_id = i\<rparr> of
     Inl _ \<Rightarrow> done_with (Inr None)
   | Inr q \<Rightarrow> and_run (call_for (Call_Get (dtk_endpoint t) q)) (\<lambda>a. case a of
       Lost _ _ \<Rightarrow> done_with (Inr None)
     | Raised _ \<Rightarrow> done_with (Inr None)
     | Got r \<Rightarrow> done_with (Inr (if grr_accepted r then grr_outcome r else None))
     | _ \<Rightarrow> done_with (Inl not_understood)))"

definition shown_state :: "case_state option \<Rightarrow> string" where
  "shown_state s = (case s of None \<Rightarrow> ''?'' | Some s \<Rightarrow> case_state_value s)"

definition settle_lost_race :: "store_library \<Rightarrow> profiling_case \<Rightarrow> case_state option \<Rightarrow> case_outcome option \<Rightarrow> world \<Rightarrow> world \<times> case_report res" where
  "settle_lost_race L c state outcome w = (case outcome of
     None \<Rightarrow> record_cancelled c (''worker reported '' @ shown_state state @ '' but its outcome could not be fetched; recorded Master-side'') w
   | Some x \<Rightarrow> bind_st (persist_outcome L c x w) (\<lambda>r w.
       (w, Inr (r\<lparr>crp_detail := ''cancellation lost the race: the case was already '' @ case_state_value (crp_state r) @ '' on the worker''\<rparr>))))"

definition cancel_remote_case :: "store_library \<Rightarrow> dispatch_tokens \<Rightarrow> string \<Rightarrow> profiling_case \<Rightarrow> case_report task" where
  "cancel_remote_case L t sid c =
     and_run (done_with (built check_case_request \<lparr>crq_tokens = dtk_tokens t, crq_session_id = sid, crq_case_id = pcs_case_id c\<rparr>)) (\<lambda>q.
     and_run (call_for (Call_Cancel (dtk_endpoint t) q)) (\<lambda>a. case a of
       Lost _ _ \<Rightarrow> do_now (record_cancelled c ''worker unreachable during cancellation (call lost)'')
     | Raised shown \<Rightarrow> do_now (record_cancelled c (''worker unreachable during cancellation ('' @ shown @ '')''))
     | Cancelled r \<Rightarrow>
         if \<not> cnr_accepted r
         then do_now (record_cancelled c (''cancellation refused ('' @ (case cnr_reason r of None \<Rightarrow> ''?'' | Some x \<Rightarrow> rejection_value x) @ '': '' @ cnr_detail r @ ''); recorded Master-side''))
         else if cnr_case_state r = Some CASE_CANCELLED then do_now (record_cancelled c ''cancelled on the worker'')
         else and_run (fetch_outcome t sid (pcs_case_id c)) (\<lambda>outcome. do_now (settle_lost_race L c (cnr_case_state r) outcome))
     | _ \<Rightarrow> done_with (Inl not_understood)))"

text \<open>The session of each case is read off the plan for all cases of the experiment. The sessions are closed in
  the order of the cases; in the code their order is that of a set.\<close>

definition session_of_case :: "session_plan list \<Rightarrow> string \<rightharpoonup> string" where
  "session_of_case plans = dict_of (concat (map (\<lambda>p. map (\<lambda>c. (pcs_case_id c, spl_session_id p)) (spl_cases p)) plans))"

definition cancel_worker :: "store_library \<Rightarrow> string \<Rightarrow> string \<Rightarrow> profiling_case list \<Rightarrow> profiling_case list \<Rightarrow> case_report list task" where
  "cancel_worker L e worker active all_cases =
     and_run (look (\<lambda>w. Inr (resolve_tokens worker w))) (\<lambda>resolved. case resolved of
       Inl failure \<Rightarrow> for_each (\<lambda>c. do_now (record_cancelled c (''worker unreachable ('' @ pfl_message failure @ ''); recorded Master-side''))) active
     | Inr t \<Rightarrow>
         and_run (done_with (plan_sessions (lib_sha L) e worker all_cases)) (\<lambda>plans.
         and_run (done_with (traverse_res (\<lambda>c. case session_of_case plans (pcs_case_id c) of None \<Rightarrow> Inl (KeyError (pcs_case_id c)) | Some sid \<Rightarrow> Inr (c, sid)) active)) (\<lambda>sessions.
         finally_do (for_each (\<lambda>(c, sid). cancel_remote_case L t sid c) sessions)
           (finally_do (for_each (close_session_uncancelled t) (dict_fromkeys (map snd sessions))) (await_resumed (Close_Channel (dtk_endpoint t)))))))"

text \<open>\<^verbatim>\<open>cancel_experiment\<close> before and after its \<^verbatim>\<open>gather\<close>.\<close>

record cancelling =
  cnl_experiment :: profiling_experiment
  cnl_reports :: "case_report list"
  cnl_workers :: "(string \<times> profiling_case list) list"
  cnl_all_cases :: "profiling_case list"

definition cancel_experiment_begin :: "string \<Rightarrow> world \<Rightarrow> (experiment_report + cancelling) res" where
  "cancel_experiment_begin i w =
     bind_res (require_experiment i w) (\<lambda>stored.
       if terminal_experiment (ste_state stored) then map_res Inl (report_from_store stored w)
       else (let ids = pex_case_ids (ste_experiment stored) in
         bind_res (load_cases ''terminal in the store; untouched by cancellation'' (pw_store w) ids) (\<lambda>loaded.
         bind_res (traverse_res (stored_case_of (pw_store w)) ids) (\<lambda>all_cases.
         Inr (Inr \<lparr>cnl_experiment = ste_experiment stored, cnl_reports = decided_cases loaded, cnl_workers = by_worker (open_cases loaded),
           cnl_all_cases = map stc_case all_cases\<rparr>)))))"

definition cancelled_workers :: "store_library \<Rightarrow> cancelling \<Rightarrow> (rpc_call, rpc_answer, world, case_report list res) co list" where
  "cancelled_workers L d = map (\<lambda>(worker, cases). Awaits Start (\<lambda>_. cancel_worker L (pex_experiment_id (cnl_experiment d)) worker cases (cnl_all_cases d))) (cnl_workers d)"

definition cancel_experiment_end :: "cancelling \<Rightarrow> case_report list list \<Rightarrow> world \<Rightarrow> world \<times> experiment_report res" where
  "cancel_experiment_end d chunks w =
     (let cancelled_any = list_ex (\<lambda>r. crp_state r = CASE_CANCELLED) (concat chunks) in
      bind_st (lift_st (reports_in_order (pex_case_ids (cnl_experiment d)) (cnl_reports d @ concat chunks)) w) (\<lambda>cases w.
      finish_experiment (pex_experiment_id (cnl_experiment d)) cases (\<lambda>states. if cancelled_any then Inr EXP_CANCELLED else terminal_experiment_state states) w))"


subsection \<open>Inspecting a model\<close>

definition MODEL_INSPECTION_SCOPE :: string where
  "MODEL_INSPECTION_SCOPE = ''model-inspection''"

definition inspection_session_id :: "(string \<Rightarrow> string) \<Rightarrow> dispatch_tokens \<Rightarrow> session_request \<Rightarrow> world \<Rightarrow> world \<times> string res" where
  "inspection_session_id sha t request w =
     (let n = Suc (pw_inspections w);
          scope = MODEL_INSPECTION_SCOPE @ '':'' @ rgt_registration_session_id (dtk_tokens t) @ '':'' @ nat_str n
      in (w\<lparr>pw_inspections := n\<rparr>, profiling_session_id sha scope (rgt_worker_id (dtk_tokens t)) request))"

definition inspected :: "string \<Rightarrow> profiling_failure + prepare_response \<Rightarrow> profiling_failure + session_facts" where
  "inspected worker prepared = (case prepared of
     Inl failure \<Rightarrow> Inl failure
   | Inr r \<Rightarrow> (case prr_session_facts r of
       None \<Rightarrow> Inl (plain_failure INTERNAL_ERROR (''accepted model inspection on worker '' @ quoted worker @ '' carries no session facts''))
     | Some facts \<Rightarrow> Inr facts))"

definition inspect_model :: "store_library \<Rightarrow> string \<Rightarrow> session_request \<Rightarrow> (profiling_failure + session_facts) task" where
  "inspect_model L worker request =
     (if psr_kind request \<noteq> MODEL_SESSION then done_with (Inl (ValueError ''inspect_model requires a MODEL session request''))
      else and_run (look (\<lambda>w. Inr (resolve_tokens worker w))) (\<lambda>resolved. case resolved of
        Inl failure \<Rightarrow> done_with (Inr (Inl failure))
      | Inr t \<Rightarrow> and_run (do_now (inspection_session_id (lib_sha L) t request)) (\<lambda>sid.
          attempt (and_run (prepare_session t sid request []) (\<lambda>prepared. done_with (Inr (inspected worker prepared)))) (\<lambda>result.
          attempt (finally_do (close_session_uncancelled t sid) (await_resumed (Close_Channel (dtk_endpoint t)))) (\<lambda>closed.
          done_with (case closed of
            Inl e \<Rightarrow> Inl e
          | Inr None \<Rightarrow> result
          | Inr (Some failure) \<Rightarrow> map_res (\<lambda>_. Inl failure) result))))))"

end
