(* ===== verification/Controller_Bounds.thy ===== *)
theory Controller_Bounds
  imports Profiling_Controller
begin

section \<open>How long the controller waits\<close>

text \<open>
  The coroutines of \<^verbatim>\<open>run_experiment\<close>, \<^verbatim>\<open>cancel_experiment\<close> and \<^verbatim>\<open>inspect_model\<close> finish after a number of awaits that is
  bounded in the number of cases, whatever the network and the Workers answer. The lemmas are about the actions of
  theory Profiling_Controller, one bound each.
\<close>

text \<open>Actions that wait for nothing, and what they come to.\<close>

definition at_once :: "('a res \<Rightarrow> bool) \<Rightarrow> ('c, 'r, 's, 'a) action \<Rightarrow> bool" where
  "at_once P m \<longleftrightarrow> (\<forall>s. \<exists>s' x. m s = (s', Finished x) \<and> P x)"

lemma at_once_simple: "P x \<Longrightarrow> at_once P (done_with x)" "(\<And>s. P (snd (f s))) \<Longrightarrow> at_once P (do_now f)" "(\<And>s. P (g s)) \<Longrightarrow> at_once P (look g)"
  by (auto simp: at_once_def done_with_def do_now_def look_def split: prod.splits) (metis snd_conv)

lemma at_once_chain:
  assumes "at_once P' m" "\<And>y. P' (Inr y) \<Longrightarrow> at_once P (f y)" "\<And>e. P' (Inl e) \<Longrightarrow> P (Inl e)"
  shows "at_once P (and_run m f)"
  unfolding at_once_def
proof
  fix s
  obtain s' x where m: "m s = (s', Finished x)" "P' x" using assms(1) by (auto simp: at_once_def) metis
  then show "\<exists>s' x. and_run m f s = (s', Finished x) \<and> P x"
  proof (cases x)
    case (Inr y)
    with m assms(2) [of y] show ?thesis by (auto simp: and_run_def attempt_def at_once_def)
  qed (use m assms(3) in \<open>auto simp: and_run_def attempt_def done_with_def\<close>)
qed

lemma bounded_at_once:
  assumes "at_once P m" "\<And>y. P (Inr y) \<Longrightarrow> bounded n (f y)"
  shows "bounded n (and_run m f)"
  unfolding bounded_def
proof (intro allI impI)
  fix s s' co
  assume run: "and_run m f s = (s', co)"
  obtain t x where m: "m s = (t, Finished x)" "P x" using assms(1) by (auto simp: at_once_def) metis
  show "finishes_in co n"
  proof (cases x)
    case (Inr y)
    with m run assms(2) [of y] show ?thesis by (auto simp: and_run_def attempt_def bounded_def)
  qed (use m run in \<open>auto simp: and_run_def attempt_def done_with_def\<close>)
qed

lemma bounded_now: "(\<And>y. x = Inr y \<Longrightarrow> bounded n (f y)) \<Longrightarrow> bounded n (and_run (done_with x) f)"
  "(\<And>y. bounded n (f y)) \<Longrightarrow> bounded n (and_run (do_now g) f)" "(\<And>y. bounded n (f y)) \<Longrightarrow> bounded n (and_run (look h) f)"
  by (rule bounded_at_once [where P = "\<lambda>z. z = x"], rule at_once_simple, simp, blast)
    (rule bounded_at_once [where P = "\<lambda>_. True"], rule at_once_simple, simp_all)+

lemma bounded_answer: "(\<And>a. bounded n (f a)) \<Longrightarrow> bounded (Suc n) (and_run (call_for c) f)"
  using bounded_chain [OF bounded_call [of 0 c], of n f] by simp

lemma bounded_resumed: "bounded (Suc n) (await_resumed c)"
  unfolding await_resumed_def by (rule bounded_answer) (rule bounded_simple)

lemma bounded_after: "(\<And>a. bounded n (f a)) \<Longrightarrow> bounded (Suc n) (and_run (await_resumed c) f)"
  using bounded_chain [OF bounded_resumed [of 0 c], of n f] by simp


subsection \<open>Sessions\<close>

lemma prepare_attempts_bounded: "bounded (Suc (2 * length delays)) (prepare_attempts endpoint q delays)"
  by (induction delays) (auto intro!: bounded_answer bounded_after split: rpc_answer.split intro: bounded_simple)

lemma prepare_session_bounded: "bounded 9 (prepare_session t sid request facts)"
  unfolding prepare_session_def
  by (rule bounded_now) (use prepare_attempts_bounded [where delays = DEVICE_BUSY_BACKOFF] in \<open>simp add: DEVICE_BUSY_BACKOFF_def\<close>)

lemma close_attempts_bounded: "bounded n (close_attempts endpoint q n failure)"
  by (induction n arbitrary: failure) (auto intro!: bounded_answer split: rpc_answer.split intro: bounded_simple)

lemma close_session_bounded: "bounded 3 (close_session_uncancelled t sid)"
proof -
  have "bounded 2 (close_remote_session t sid)" unfolding close_remote_session_def by (rule bounded_now) (rule close_attempts_bounded)
  then have "bounded (Suc 2) (close_session_uncancelled t sid)" unfolding close_session_uncancelled_def by (rule bounded_after)
  then show ?thesis by simp
qed

lemma closing_with_bounded: "bounded (Suc 0) (closing_with endpoint x)"
  unfolding closing_with_def by (rule bounded_after) (rule bounded_simple)

lemma prepare_iperf_bounded: "bounded 2 (prepare_remote_iperf_server sha c s)"
proof -
  have request: "bounded 2 (request_iperf_server sha c s t address)" for t address
  proof -
    have "bounded (Suc (Suc 0)) (request_iperf_server sha c s t address)"
      unfolding request_iperf_server_def
      by (rule bounded_now, rule bounded_answer) (auto split: rpc_answer.split option.split intro: bounded_simple closing_with_bounded)
    then show ?thesis by (simp add: numeral_2_eq_2)
  qed
  have close: "bounded 2 (closing_with endpoint x)" for endpoint x by (rule bounded_mono [OF closing_with_bounded]) simp
  show ?thesis
    unfolding prepare_remote_iperf_server_def
    by (auto intro!: bounded_now split: sum.split option.split simp: bounded_simple close request)
qed

lemma run_case_bounded: "bounded 5 (run_case L t sid c)"
proof -
  have dispatch: "bounded 1 (dispatch_case endpoint q c)" for endpoint q
    unfolding dispatch_case_def One_nat_def by (rule bounded_answer) (auto split: rpc_answer.split intro: bounded_simple bounded_now)
  have "bounded (Suc (Suc 0)) (stop_remote_iperf_server l)" for l
    unfolding stop_remote_iperf_server_def by (rule bounded_now, rule bounded_answer, rule bounded_resumed)
  then have stop: "bounded 2 (stop_remote_iperf_server l)" for l by (simp add: numeral_2_eq_2)
  have lease: "bounded (1 + 2 + 0) (run_with_lease L t sid c lease)" for lease
    unfolding run_with_lease_def
    by (intro bounded_now bounded_chain bounded_finally dispatch) (auto split: option.split sum.split intro: bounded_simple stop)
  have "bounded (2 + 0) (and_run (prepare_remote_iperf_server sha c s) (\<lambda>x. done_with (Inr (map_sum id Some x))))" for sha s
    by (intro bounded_chain prepare_iperf_bounded bounded_simple)
  then have server: "bounded 2 (iperf_server_for sha c)" for sha
    by (simp add: iperf_server_for_def bounded_simple split: option.split)
  have "bounded (2 + 3) (and_run (iperf_server_for (lib_sha L) c) (\<lambda>prepared. case prepared of
      Inl failure \<Rightarrow> do_now (record_failure c failure ''destination iperf3 server preparation failed'')
    | Inr lease \<Rightarrow> run_with_lease L t sid c lease))"
    using server lease by (intro bounded_chain) (auto split: sum.split simp: bounded_simple numeral_3_eq_3)
  then show ?thesis unfolding run_case_def by (intro bounded_now) simp
qed

lemma bounded_each: "(\<And>x. bounded k (f x)) \<Longrightarrow> bounded (k * length xs) (for_each f xs)"
  using bounded_for_each [of xs "\<lambda>_. k" f] by (simp add: sum_list_triv mult.commute)

lemma record_failures_bounded: "bounded n (record_failures cases failure detail)"
  unfolding record_failures_def by (rule bounded_mono [OF bounded_each [where k = 0]]) (simp_all add: bounded_simple)

lemma dispatch_session_bounded: "bounded (12 + 5 * length cases) (dispatch_session L t plan cases facts)"
proof -
  have "bounded (9 + 5 * length cases + 3) (dispatch_session L t plan cases facts)"
    unfolding dispatch_session_def
    by (intro bounded_finally bounded_chain prepare_session_bounded close_session_bounded)
      (auto split: sum.split intro: record_failures_bounded bounded_each run_case_bounded)
  then show ?thesis by (simp add: add.commute add.left_commute)
qed

lemma split_at_once: "at_once (\<lambda>x. case x of Inr (ds, needed, rs) \<Rightarrow> length ds \<le> length cases | Inl _ \<Rightarrow> True) (split_by_facts facts cases)"
proof (induction cases)
  case Nil
  then show ?case by (simp add: at_once_simple)
next
  case (Cons c cs)
  show ?case
  proof (cases "pcs_spec c")
    case (Network_Case s)
    have "at_once (\<lambda>x. case x of Inr (ds, needed, rs) \<Rightarrow> length ds \<le> length (c # cs) | Inl _ \<Rightarrow> True)
        (and_run (split_by_facts facts cs) (\<lambda>(ds, needed, rs). done_with (Inr (g ds needed rs))))"
      if "\<And>ds needed rs. length (fst (g ds needed rs)) \<le> Suc (length ds)" for g
    proof (rule at_once_chain [OF Cons.IH])
      fix y :: "profiling_case list \<times> string list \<times> case_report list"
      assume y: "case Inr y of Inr (ds, needed, rs) \<Rightarrow> length ds \<le> length cs | Inl _ \<Rightarrow> True"
      obtain ds needed rs where "y = (ds, needed, rs)" by (cases y)
      with y that [of ds needed rs] show "at_once (\<lambda>x. case x of Inr (ds, needed, rs) \<Rightarrow> length ds \<le> length (c # cs) | Inl _ \<Rightarrow> True)
          (case y of (ds, needed, rs) \<Rightarrow> done_with (Inr (g ds needed rs)))"
        by (auto intro!: at_once_simple split: prod.split)
    qed simp
    note step = this
    show ?thesis
      unfolding split_by_facts.simps Network_Case
      by (auto intro!: step at_once_chain [where P' = "\<lambda>_. True"] at_once_simple)
  qed (simp add: at_once_simple)
qed

lemma run_session_bounded: "bounded (12 + 5 * length (spl_cases plan)) (run_session L t facts plan)"
proof -
  let ?n = "12 + 5 * length (spl_cases plan)"
  have now: "at_once (\<lambda>x. case x of Inr (ds, fs, rs) \<Rightarrow> length ds \<le> length (spl_cases plan) | Inl _ \<Rightarrow> True) (resolve_network_facts facts (spl_cases plan))"
    unfolding resolve_network_facts_def
    by (rule at_once_chain [OF split_at_once]) (auto intro!: at_once_simple simp: map_res_def split: sum.splits)
  have session: "bounded ?n (and_run (dispatch_session L t plan cases fs) (\<lambda>rs. done_with (Inr (failures @ rs))))" if "length cases \<le> length (spl_cases plan)" for cases fs failures
  proof -
    have "bounded (12 + 5 * length cases + 0) (and_run (dispatch_session L t plan cases fs) (\<lambda>rs. done_with (Inr (failures @ rs))))"
      by (intro bounded_chain dispatch_session_bounded bounded_simple)
    then show ?thesis by (rule bounded_mono) (use that in simp)
  qed
  show ?thesis
    unfolding run_session_def
    by (auto intro!: bounded_at_once [OF now] dispatch_session_bounded session intro: bounded_simple)
qed


subsection \<open>Workers\<close>

lemma into_group_sizes: "list_all (\<lambda>g. snd g \<noteq> []) gs \<Longrightarrow> list_all (\<lambda>g. snd g \<noteq> []) (into_group k c gs)"
  "length (concat (map snd (into_group k c gs))) = Suc (length (concat (map snd gs)))"
  by (induction k c gs rule: into_group.induct) auto

lemma group_cases_sizes: "\<lbrakk>group_cases gs cases = Inr hs; list_all (\<lambda>g. snd g \<noteq> []) gs\<rbrakk>
    \<Longrightarrow> list_all (\<lambda>g. snd g \<noteq> []) hs \<and> length (concat (map snd hs)) = length (concat (map snd gs)) + length cases"
proof (induction cases arbitrary: gs)
  case (Cons c cases)
  then obtain k where k: "group_key_of c = Inr k" "group_cases (into_group k c gs) cases = Inr hs" by (auto simp: bind_res_Inr)
  from Cons.IH [OF k(2)] Cons.prems(2) show ?case using into_group_sizes [where k = k and c = c and gs = gs] by simp
qed simp

lemma nonempty_parts: "list_all (\<lambda>xs. xs \<noteq> []) xss \<Longrightarrow> length xss \<le> length (concat xss)"
  by (induction xss) (auto simp: neq_Nil_conv)

lemma plan_sessions_sizes:
  assumes "plan_sessions sha e w cases = Inr plans"
  shows "12 * length plans + 5 * length (concat (map spl_cases plans)) \<le> 17 * length cases"
proof -
  obtain gs where gs: "group_cases [] cases = Inr gs" "list_all2 (\<lambda>g p. plan_of_group sha e w g = Inr p) gs plans"
    using assms by (auto simp: plan_sessions_def bind_res_Inr traverse_res_Inr)
  have "map spl_cases plans = map snd gs"
    using gs(2) by (induction rule: list_all2_induct) (auto simp: plan_of_group_def bind_res_Inr split: prod.splits)
  moreover have "list_all (\<lambda>g. snd g \<noteq> []) gs" "length (concat (map snd gs)) = length cases" using group_cases_sizes [OF gs(1)] by simp_all
  moreover have "length plans = length gs" using gs(2) by (simp add: list_all2_lengthD)
  ultimately show ?thesis using nonempty_parts [of "map snd gs"] by (simp add: list_all_iff)
qed

lemma run_worker_bounded: "bounded (17 * length cases + 1) (run_worker L e worker cases facts)"
proof -
  have "bounded (17 * length cases) (and_run (done_with (plan_sessions (lib_sha L) e worker cases)) (\<lambda>plans.
      and_run (for_each (run_session L t facts) plans) (\<lambda>rss. done_with (Inr (concat rss)))))" for t
  proof (rule bounded_now)
    fix plans
    assume "plan_sessions (lib_sha L) e worker cases = Inr plans"
    then have le: "(\<Sum>p \<leftarrow> plans. 12 + 5 * length (spl_cases p)) + 0 \<le> 17 * length cases"
      using plan_sessions_sizes [of "lib_sha L" e worker cases plans] by (simp add: sum_list_addf sum_list_triv sum_list_const_mult length_concat comp_def)
    show "bounded (17 * length cases) (and_run (for_each (run_session L t facts) plans) (\<lambda>rss. done_with (Inr (concat rss))))"
      by (rule bounded_mono [OF bounded_chain [OF bounded_for_each bounded_simple(1)] le]) (rule run_session_bounded)
  qed
  note work = bounded_finally [OF this bounded_resumed [of 0]]
  show ?thesis
    unfolding run_worker_def
    by (intro bounded_now) (use work in \<open>auto split: sum.split intro!: record_failures_bounded\<close>)
qed

lemma cancel_remote_case_bounded: "bounded 2 (cancel_remote_case L t sid c)"
proof -
  have fetch: "bounded (Suc 0) (and_run (fetch_outcome t sid i) (\<lambda>x. do_now (f x)))" for i and f :: "case_outcome option \<Rightarrow> world \<Rightarrow> world \<times> case_report res"
  proof -
    have "bounded (Suc 0) (fetch_outcome t sid i)"
      unfolding fetch_outcome_def by (auto split: sum.split rpc_answer.split intro!: bounded_answer intro: bounded_simple)
    from bounded_chain [OF this bounded_simple(2), of 0] show ?thesis by simp
  qed
  have "bounded (Suc (Suc 0)) (cancel_remote_case L t sid c)"
    unfolding cancel_remote_case_def
    by (rule bounded_now, rule bounded_answer) (auto split: rpc_answer.split intro: bounded_simple fetch)
  then show ?thesis by (simp add: numeral_2_eq_2)
qed

lemma traverse_length: "traverse_res f xs = Inr ys \<Longrightarrow> length ys = length xs"
  by (auto simp: traverse_res_Inr dest: list_all2_lengthD)

lemma cancel_worker_bounded: "bounded (5 * length active + 1) (cancel_worker L e worker active cases)"
proof -
  have work: "bounded (5 * length active + 1) (finally_do (for_each (\<lambda>(c, sid). cancel_remote_case L t sid c) sessions)
      (finally_do (for_each (close_session_uncancelled t) (dict_fromkeys (map snd sessions))) (await_resumed (Close_Channel (dtk_endpoint t)))))"
    if "length sessions = length active" for t and sessions :: "(profiling_case \<times> string) list"
  proof -
    have few: "length (dict_fromkeys (map snd sessions)) \<le> length active"
      using card_length [of "map snd sessions"] that by (metis distinct_card dict_fromkeys_props(1,2) length_map)
    have "bounded (2 * length sessions + (3 * length (dict_fromkeys (map snd sessions)) + Suc 0)) (finally_do (for_each (\<lambda>(c, sid). cancel_remote_case L t sid c) sessions)
        (finally_do (for_each (close_session_uncancelled t) (dict_fromkeys (map snd sessions))) (await_resumed (Close_Channel (dtk_endpoint t)))))"
      by (intro bounded_finally bounded_each bounded_resumed close_session_bounded) (simp add: cancel_remote_case_bounded split: prod.split)
    then show ?thesis by (rule bounded_mono) (use few that in simp)
  qed
  have lost: "bounded n (for_each (\<lambda>c. do_now (g c)) active)" for n and g :: "profiling_case \<Rightarrow> world \<Rightarrow> world \<times> case_report res"
    by (rule bounded_mono [OF bounded_each [where k = 0]]) (simp_all add: bounded_simple)
  show ?thesis
    unfolding cancel_worker_def
    by (rule bounded_now) (use work in \<open>auto split: sum.split intro!: bounded_now lost dest!: traverse_length\<close>)
qed

lemma inspect_model_bounded: "bounded 13 (inspect_model L worker request)"
proof -
  have "bounded ((9 + 0) + ((3 + 1) + 0)) (attempt (and_run (prepare_session t sid request []) (\<lambda>prepared. done_with (Inr (inspected worker prepared)))) (\<lambda>result.
          attempt (finally_do (close_session_uncancelled t sid) (await_resumed (Close_Channel (dtk_endpoint t)))) (\<lambda>closed. done_with (f result closed))))"
    for t sid and f :: "(profiling_failure + session_facts) res \<Rightarrow> profiling_failure option res \<Rightarrow> (profiling_failure + session_facts) res"
    by (intro bounded_attempt bounded_chain bounded_finally prepare_session_bounded close_session_bounded bounded_simple) (simp add: bounded_resumed)
  then show ?thesis
    unfolding inspect_model_def
    by (auto split: sum.split intro!: bounded_now intro: bounded_simple)
qed

text \<open>[C35] The controller never waits for ever. Whatever the calls are answered, lost or answered out of place,
  and whatever the rest of the Master does meanwhile, the coroutine that \<^verbatim>\<open>run_experiment\<close> starts for a Worker with n cases
  finishes after at most 17 n + 2 awaits (its retries of a busy device and of a refused close included), the one that
  \<^verbatim>\<open>cancel_experiment\<close> starts after at most 5 n + 2, and \<^verbatim>\<open>inspect_model\<close> after at most 13.\<close>

theorem controller_waits_bounded:
  "list_all2 (\<lambda>(worker, cases) co. finishes_in co (17 * length cases + 2)) (dsp_workers d) (dispatched_workers L d)
   \<and> list_all2 (\<lambda>(worker, cases) co. finishes_in co (5 * length cases + 2)) (cnl_workers x) (cancelled_workers L x)
   \<and> bounded 13 (inspect_model L worker request)"
proof -
  have start: "finishes_in (Awaits Start (\<lambda>_. m)) (n + 2)" if "bounded (n + 1) m" for n and m :: "'a task"
    using that by (simp add: finishes_in_Awaits bounded_def)
  show ?thesis
    unfolding dispatched_workers_def cancelled_workers_def list_all2_map2
    using start [OF run_worker_bounded] start [OF cancel_worker_bounded] inspect_model_bounded
    by (auto simp: list_all2_same split: prod.split)
qed

end
