(* ===== verification/Experiment_Admin.thy ===== *)
theory Experiment_Admin
  imports Profiling_Controller
begin

section \<open>Creating experiments and recording facts\<close>

text \<open>
  The methods of \<^verbatim>\<open>ProfilingController\<close> that wait for nothing: creating an experiment, reading its status, the questions
  that planning asks, recording what an inspection found, and the profile snapshot. \<open>ce_fresh\<close> is the
  value of \<^verbatim>\<open>uuid4\<close>. A set of ids is the list of its elements.
\<close>

subsection \<open>Creating an experiment\<close>

definition canonical_id_of :: "store_library \<Rightarrow> profiling_case \<Rightarrow> string res" where
  "canonical_id_of L c = profiling_case_id (lib_sha L) (lib_repr L) (pcs_worker_id c) (pcs_spec c)"

definition canonical_case :: "store_library \<Rightarrow> profiling_case \<Rightarrow> profiling_case res" where
  "canonical_case L c = bind_res (canonical_id_of L c) (\<lambda>i. built check_profiling_case (c\<lparr>pcs_case_id := i\<rparr>))"

definition executed_case :: "store_library \<Rightarrow> string \<Rightarrow> string list \<Rightarrow> profiling_case \<Rightarrow> profiling_case res" where
  "executed_case L nonce fresh c =
     (if pcs_case_id c \<notin> set fresh then Inr c
      else bind_res (canonical_id_of L c) (\<lambda>i.
        bind_res (canonical_sha256 (lib_sha L) (JList [JStr ''profiling_case_execution'', JStr i, JStr nonce])) (\<lambda>j.
        built check_profiling_case (c\<lparr>pcs_case_id := j\<rparr>))))"

definition fresh_case_ids :: "bool \<Rightarrow> bool \<Rightarrow> string list \<Rightarrow> profile_store \<Rightarrow> string list" where
  "fresh_case_ids force rerun ids s =
     (if force then ids
      else if rerun then filter (\<lambda>i. case get_case i s of None \<Rightarrow> False | Some c \<Rightarrow> terminal_state (stc_state c)) ids
      else [])"

text \<open>The cases of the experiment and its id: those of the configuration, or new ones.\<close>

definition execution_of :: "store_library \<Rightarrow> string \<Rightarrow> string \<Rightarrow> bool \<Rightarrow> bool \<Rightarrow> string list \<Rightarrow> profiling_case list \<Rightarrow> profiling_case list
    \<Rightarrow> (profiling_case list \<times> string) res" where
  "execution_of L nonce configuration force rerun fresh cases canonical =
     (if force \<or> fresh \<noteq> [] then
        bind_res (traverse_res (executed_case L nonce fresh) canonical) (\<lambda>xs.
        map_res (Pair xs) (canonical_sha256 (lib_sha L) (JList [JStr ''profiling_execution'', JStr configuration, JStr nonce])))
      else Inr (if rerun then canonical else cases, configuration))"

text \<open>\<^verbatim>\<open>setdefault\<close>: the first case of each id.\<close>

primrec first_of_each :: "profiling_case list \<Rightarrow> profiling_case list" where
  "first_of_each [] = []"
| "first_of_each (c # cs) = c # filter (\<lambda>d. pcs_case_id d \<noteq> pcs_case_id c) (first_of_each cs)"

primrec append_cases :: "store_library \<Rightarrow> profiling_case list \<Rightarrow> world \<Rightarrow> world \<times> unit res" where
  "append_cases L [] w = (w, Inr ())"
| "append_cases L (c # cs) w = bind_st (on_store (append_case L c) w) (\<lambda>_. append_cases L cs)"

definition persist_experiment :: "store_library \<Rightarrow> profiling_case list \<Rightarrow> profiling_experiment \<Rightarrow> world \<Rightarrow> world \<times> profiling_experiment res" where
  "persist_experiment L unique e w =
     (case get_experiment (pex_experiment_id e) (pw_store w) of
        Some stored \<Rightarrow> (w, Inr (ste_experiment stored))
      | None \<Rightarrow> bind_st (append_cases L unique w) (\<lambda>_ w.
          bind_st (on_store (append_experiment e) w) (\<lambda>_ w. (w, Inr e))))"

definition create_experiment :: "store_library \<Rightarrow> string \<Rightarrow> profiling_case list \<Rightarrow> string option \<Rightarrow> bool \<Rightarrow> bool \<Rightarrow> world \<Rightarrow> world \<times> profiling_experiment res" where
  "create_experiment L strategy cases requested_by force rerun w =
     bind_st (lift_st (traverse_res (canonical_id_of L) cases) w) (\<lambda>ids w.
     let configuration_ids = sort (remdups ids) in
     bind_st (lift_st (profiling_experiment_id (lib_sha L) strategy configuration_ids) w) (\<lambda>configuration w.
     bind_st (lift_st (traverse_res (canonical_case L) cases) w) (\<lambda>canonical w.
     let existing = get_experiment configuration (pw_store w);
         fresh = fresh_case_ids force rerun configuration_ids (pw_store w) in
     if \<not> force \<and> fresh = [] \<and> existing \<noteq> None then (w, Inr (ste_experiment (the existing)))
     else bind_st (lift_st (execution_of L (ce_fresh (pw_call w)) configuration force rerun fresh cases canonical) w) (\<lambda>(execution, i) w.
     bind_st (lift_st (built check_profiling_experiment \<lparr>pex_experiment_id = i, pex_strategy_id = strategy, pex_created_at = ce_wall (pw_call w),
         pex_requested_by = requested_by, pex_case_ids = map pcs_case_id (first_of_each execution), pex_configuration_id = Some configuration\<rparr>) w) (\<lambda>e w.
     persist_experiment L (first_of_each execution) e w)))))"


subsection \<open>Reading back and planning\<close>

definition status_of_case :: "profile_store \<Rightarrow> string \<Rightarrow> case_status res" where
  "status_of_case s i = bind_res (stored_case_of s i) (\<lambda>c.
     built check_case_status \<lparr>cst_case_id = i, cst_worker_id = pcs_worker_id (stc_case c), cst_state = stc_state c, cst_failure = stc_failure c\<rparr>)"

definition read_status :: "string \<Rightarrow> world \<Rightarrow> experiment_status option res" where
  "read_status i w =
     (case get_experiment i (pw_store w) of
        None \<Rightarrow> Inr None
      | Some stored \<Rightarrow> bind_res (traverse_res (status_of_case (pw_store w)) (pex_case_ids (ste_experiment stored))) (\<lambda>cs.
          map_res Some (built check_experiment_status \<lparr>exs_experiment = ste_experiment stored, exs_state = ste_state stored, exs_cases = cs\<rparr>)))"

definition profiling_worker_ids :: "world \<Rightarrow> string list" where
  "profiling_worker_ids w = sort (map (wi_worker_id \<circ> wr_identity) (filter (\<lambda>r. wr_profiling_endpoint r \<noteq> None) (map snd (ms_registry (pw_master w)))))"

definition profiling_device_ids :: "string \<Rightarrow> world \<Rightarrow> string list" where
  "profiling_device_ids worker w =
     (case map_of (ms_registry (pw_master w)) worker of
        None \<Rightarrow> []
      | Some r \<Rightarrow> if wr_profiling_endpoint r = None then [] else device_ids (wr_capability r))"

text \<open>The measured canonical cases of one device: what rerunning a configuration may leave out.\<close>

definition of_this_device :: "store_library \<Rightarrow> environment_fingerprint \<Rightarrow> string \<Rightarrow> measurement_record \<Rightarrow> bool res" where
  "of_this_device L f i r =
     (if \<not> pred_option mqu_eligible_for_calibration (mrc_quality r) then Inr False
      else case mrc_environment r of
        None \<Rightarrow> Inr False
      | Some e \<Rightarrow> if enf_worker_id e \<noteq> enf_worker_id f \<or> enf_device_id e \<noteq> enf_device_id f then Inr False
          else map_res (\<lambda>j. j = i) (environment_fingerprint_id (lib_sha L) e))"

definition reusable_model_case :: "profile_store \<Rightarrow> measurement_record \<Rightarrow> profiling_case option" where
  "reusable_model_case s r = Option.bind (get_case (mrc_case_id r) s) (\<lambda>c.
     case pcs_spec (stc_case c) of
       Model_Case m \<Rightarrow> if mcs_granularity m = MODULE \<or> mcs_granularity m = TRANSFORMER_LAYER then Some (stc_case c) else None
     | Network_Case _ \<Rightarrow> None)"

definition measured_id :: "store_library \<Rightarrow> environment_fingerprint \<Rightarrow> string \<Rightarrow> profile_store \<Rightarrow> measurement_record \<Rightarrow> string option res" where
  "measured_id L f i s r = bind_res (of_this_device L f i r) (\<lambda>here.
     if \<not> here then Inr None
     else case reusable_model_case s r of None \<Rightarrow> Inr None | Some c \<Rightarrow> map_res Some (canonical_id_of L c))"

definition is_missing :: "store_library \<Rightarrow> string set \<Rightarrow> profiling_case \<Rightarrow> bool res" where
  "is_missing L measured c = (case pcs_spec c of
     Network_Case _ \<Rightarrow> Inr True
   | Model_Case m \<Rightarrow> if mcs_granularity m = OPERATOR then Inr True else map_res (\<lambda>i. i \<notin> measured) (canonical_id_of L c))"

definition missing_model_cases_for_environment :: "store_library \<Rightarrow> profiling_case list \<Rightarrow> environment_fingerprint \<Rightarrow> world \<Rightarrow> profiling_case list res" where
  "missing_model_cases_for_environment L planned f w =
     (if enf_worker_id f = None \<or> enf_device_id f = None then Inr planned
      else bind_res (environment_fingerprint_id (lib_sha L) f) (\<lambda>i.
        bind_res (traverse_res (measured_id L f i (pw_store w)) (query_measurements (any_measurement\<lparr>mqy_environment_fingerprint_id := Some i\<rparr>) (pw_store w))) (\<lambda>measured.
        map_res (\<lambda>flags. map fst (filter snd (zip planned flags))) (traverse_res (is_missing L (set (List.map_filter id measured))) planned))))"


subsection \<open>Recording facts\<close>

primrec store_each :: "('a \<Rightarrow> profile_store \<Rightarrow> profile_store \<times> 'b res) \<Rightarrow> 'a list \<Rightarrow> world \<Rightarrow> world \<times> unit res" where
  "store_each f [] w = (w, Inr ())"
| "store_each f (x # xs) w = bind_st (on_store (f x) w) (\<lambda>_. store_each f xs)"

definition record_model_facts :: "store_library \<Rightarrow> session_facts \<Rightarrow> world \<Rightarrow> world \<times> unit res" where
  "record_model_facts L facts w =
     bind_st (on_store (store_characterization L (msf_characterization facts)) w) (\<lambda>_ w.
     bind_st (store_each (\<lambda>x. store_layer_signature L (len_signature x)) (msf_layer_entries facts) w) (\<lambda>_ w.
     bind_st (store_each (\<lambda>x. store_module_signature L (mde_signature x)) (msf_module_entries facts) w) (\<lambda>_ w.
     bind_st (store_each (store_operator_signature L) (msf_operator_signatures facts) w) (\<lambda>_ w.
     case msf_environment facts of
       None \<Rightarrow> (w, Inr ())
     | Some f \<Rightarrow> bind_st (on_store (store_environment_fingerprint L (ce_wall (pw_call w)) f) w) (\<lambda>_ w. (w, Inr ()))))))"

definition record_network_characterization :: "store_library \<Rightarrow> endpoint_profile list \<Rightarrow> classified_pair list \<Rightarrow> world \<Rightarrow> world \<times> unit res" where
  "record_network_characterization L endpoints pairs w =
     bind_st (store_each store_network_endpoint endpoints w) (\<lambda>_ w.
     store_each (\<lambda>p. store_path_classification L (cpr_pair p) (cpr_path_class p)) pairs w)"


subsection \<open>The profile snapshot\<close>

text \<open>Tuples are compared component by component.\<close>

definition model_keys :: "model_characterization list \<Rightarrow> (string \<times> string) list" where
  "model_keys cs = sort_key fst (sort_key snd (map (\<lambda>c. (mref_model_id (mch_model c), case mref_revision (mch_model c) of None \<Rightarrow> [] | Some r \<Rightarrow> r)) cs))"

definition snapshot_id_of :: "store_library \<Rightarrow> timestamp \<Rightarrow> profile_snapshot \<Rightarrow> string res" where
  "snapshot_id_of L created s = canonical_sha256 (lib_sha L) (JList [JStr ''profile_snapshot'', JStr (lib_iso L created),
     JList (map (\<lambda>(i, r). JList [JStr i, JStr r]) (model_keys (psn_model_characterizations s))),
     JList (map JStr (sort (map mrc_measurement_id (psn_measurements s)))),
     JList (map JStr (sort (map mrc_measurement_id (psn_network_measurements s))))])"

definition build_profile_snapshot :: "store_library \<Rightarrow> world \<Rightarrow> profile_snapshot res" where
  "build_profile_snapshot L w =
     bind_res (store_snapshot L ''provisional'' (ce_wall (pw_call w)) (pw_store w)) (\<lambda>s.
     bind_res (snapshot_id_of L (ce_wall (pw_call w)) s) (\<lambda>i.
     built (check_profile_snapshot (lib_sha L)) (s\<lparr>psn_snapshot_id := i\<rparr>)))"

end
