(* ===== verification/Store_Safety.thy ===== *)
theory Store_Safety
  imports Profile_Store Profiling_Identity
begin

section \<open>Correctness of the profile store\<close>

text \<open>
  The invariant of the store's tables (keys, references between the tables) over any run of calls with
  valid arguments, and the properties that rest on it: what is stored stays, appending a measurement twice is
  appending it once, when a snapshot can be built, and which model characterizations the registry refuses.
\<close>

subsection \<open>The invariant\<close>

declare map_of_eq_Some_iff [simp del] Some_eq_map_of_iff [simp del]

lemma canonical_sha256_total: "finite_json v \<Longrightarrow> canonical_sha256 sha v = Inr (sha (dumps v))"
  by (simp add: canonical_sha256_def canonical_json_def)

lemma finite_jopt: "\<lbrakk>\<And>x. v = Some x \<Longrightarrow> finite_json (f x)\<rbrakk> \<Longrightarrow> finite_json (jopt f v)"
  by (cases v) (auto simp: jopt_def)

lemma finite_jopt_atoms [simp]: "finite_json (jopt JStr v)" "finite_json (jopt JInt i)" "finite_json (jopt JBool b)"
  by (auto intro!: finite_jopt)

lemma finite_environment [simp]:
  "finite_json (canonical_performance_class c)" "finite_json (canonical_performance_state p)" "finite_json (canonical_environment_fingerprint f)"
  by (auto simp: canonical_performance_class_def canonical_performance_state_def canonical_environment_fingerprint_def jitems_def list_all_iff
      intro!: finite_jopt)

lemma environment_ids_total: "\<exists>i. environment_fingerprint_id sha f = Inr i" "\<exists>i. environment_instance_id sha f = Inr i" "\<exists>i. device_performance_class_id sha c = Inr i"
  by (auto simp: environment_fingerprint_id_def environment_instance_id_def device_performance_class_id_def canonical_sha256_total Let_def split: option.splits)

definition class_stored :: "store_library \<Rightarrow> profile_store \<Rightarrow> performance_class \<Rightarrow> bool" where
  "class_stored L s c \<longleftrightarrow> (\<exists>k. device_performance_class_id (lib_sha L) c = Inr k \<and> map_of (st_classes s) k = Some c)"

definition environment_stored :: "store_library \<Rightarrow> profile_store \<Rightarrow> environment_fingerprint \<Rightarrow> bool" where
  "environment_stored L s f \<longleftrightarrow> (\<exists>k. environment_instance_id (lib_sha L) f = Inr k \<and> map_of (st_instances s) k = Some f)"

definition row_ok :: "store_library \<Rightarrow> profile_store \<Rightarrow> string \<Rightarrow> measurement_row \<Rightarrow> bool" where
  "row_ok L s k row \<longleftrightarrow> mrc_measurement_id (mrw_record row) = k \<and> map_of (st_cases s) (mrc_case_id (mrw_record row)) \<noteq> None
     \<and> (\<forall>f. mrc_environment (mrw_record row) = Some f \<longrightarrow> environment_stored L s f
          \<and> environment_fingerprint_id (lib_sha L) f = Inr (mrc_environment_fingerprint (mrw_record row)))"

definition store_ok :: "store_library \<Rightarrow> profile_store \<Rightarrow> bool" where
  "store_ok L s \<longleftrightarrow> distinct (map fst (st_cases s)) \<and> distinct (map fst (st_measurements s)) \<and> distinct (map fst (st_instances s))
     \<and> distinct (map fst (st_classes s)) \<and> distinct (map fst (st_memberships s))
     \<and> (\<forall>k c. map_of (st_cases s) k = Some c \<longrightarrow> pcs_case_id (stc_case c) = k)
     \<and> (\<forall>k row. map_of (st_measurements s) k = Some row \<longrightarrow> row_ok L s k row)
     \<and> (\<forall>k f. map_of (st_instances s) k = Some f \<longrightarrow> environment_instance_id (lib_sha L) f = Inr k
          \<and> pred_option (class_stored L s) (enf_device_performance_class f))
     \<and> (\<forall>k c. map_of (st_classes s) k = Some c \<longrightarrow> device_performance_class_id (lib_sha L) c = Inr k)
     \<and> (\<forall>k m. map_of (st_memberships s) k = Some m \<longrightarrow> membership_key m = k \<and> check_class_membership m = Inr ())"

lemma store_ok_init: "store_ok L store_init"
  by (simp add: store_ok_def store_init_def)

lemma insert_verified_keys: "\<lbrakk>insert_verified pay nv k row t = Inr (t', b); distinct (map fst t)\<rbrakk> \<Longrightarrow> distinct (map fst t')"
  by (auto simp: insert_verified_Inr map_of_eq_None_iff)

lemma insert_verified_lookup: "\<lbrakk>insert_verified pay nv k row t = Inr (t', b); map_of t' k' = Some r\<rbrakk> \<Longrightarrow> map_of t k' = Some r \<or> (k' = k \<and> r = row)"
  by (auto simp: insert_verified_Inr map_add_def split: option.splits if_splits)

lemma insert_verified_present: "insert_verified id nv k row t = Inr (t', b) \<Longrightarrow> map_of t' k = Some row"
  by (auto simp: insert_verified_Inr map_add_def)

lemma insert_verified_again: "insert_verified pay nv k row t = Inr (t', b) \<Longrightarrow> insert_verified pay nv k row t' = Inr (t', False)"
  by (auto simp: insert_verified_Inr map_add_def)

text \<open>The parts of the invariant outside the table that an operation changes are monotone in the store.\<close>

lemma grows_class_stored: "\<lbrakk>grows s s'; class_stored L s c\<rbrakk> \<Longrightarrow> class_stored L s' c"
  by (auto simp: grows_def extends_def class_stored_def)

lemma grows_environment_stored: "\<lbrakk>grows s s'; environment_stored L s f\<rbrakk> \<Longrightarrow> environment_stored L s' f"
  by (auto simp: grows_def extends_def environment_stored_def)

lemma grows_case: "\<lbrakk>grows s s'; map_of (st_cases s) k = Some c\<rbrakk> \<Longrightarrow> \<exists>c'. map_of (st_cases s') k = Some c' \<and> stc_case c' = stc_case c"
  by (simp add: grows_def extends_def)

lemma grows_row_ok:
  assumes "grows s s'" "row_ok L s k row"
  shows "row_ok L s' k row"
proof -
  have "map_of (st_cases s') (mrc_case_id (mrw_record row)) \<noteq> None" using assms(2) grows_case [OF assms(1)] by (fastforce simp: row_ok_def)
  with assms grows_environment_stored [OF assms(1)] show ?thesis by (simp add: row_ok_def)
qed

lemma store_okI:
  assumes "store_ok L s" "grows s s'"
    and "distinct (map fst (st_cases s'))" "\<And>k c. map_of (st_cases s') k = Some c \<Longrightarrow> pcs_case_id (stc_case c) = k"
    and "distinct (map fst (st_measurements s'))" "\<And>k r. map_of (st_measurements s') k = Some r \<Longrightarrow> map_of (st_measurements s) k = Some r \<or> row_ok L s' k r"
    and "distinct (map fst (st_instances s'))" "\<And>k f. map_of (st_instances s') k = Some f \<Longrightarrow> map_of (st_instances s) k = Some f
      \<or> environment_instance_id (lib_sha L) f = Inr k \<and> pred_option (class_stored L s') (enf_device_performance_class f)"
    and "distinct (map fst (st_classes s'))" "\<And>k c. map_of (st_classes s') k = Some c \<Longrightarrow> map_of (st_classes s) k = Some c \<or> device_performance_class_id (lib_sha L) c = Inr k"
    and "distinct (map fst (st_memberships s'))" "\<And>k m. map_of (st_memberships s') k = Some m \<Longrightarrow> map_of (st_memberships s) k = Some m
      \<or> membership_key m = k \<and> check_class_membership m = Inr ()"
  shows "store_ok L s'"
proof -
  have "row_ok L s' k r" if "map_of (st_measurements s') k = Some r" for k r
    using assms(6) [OF that] assms(1) grows_row_ok [OF assms(2)] unfolding store_ok_def by blast
  moreover have "environment_instance_id (lib_sha L) f = Inr k \<and> pred_option (class_stored L s') (enf_device_performance_class f)"
    if "map_of (st_instances s') k = Some f" for k f
  proof -
    have "environment_instance_id (lib_sha L) f = Inr k \<and> pred_option (class_stored L s) (enf_device_performance_class f)" if "map_of (st_instances s) k = Some f"
      using assms(1) that by (simp add: store_ok_def)
    with assms(8) [OF that] grows_class_stored [OF assms(2)] show ?thesis
      using option.pred_mono_strong [of "class_stored L s" "enf_device_performance_class f" "class_stored L s'"] by blast
  qed
  moreover have "device_performance_class_id (lib_sha L) c = Inr k" if "map_of (st_classes s') k = Some c" for k c
    using assms(10) [OF that] assms(1) unfolding store_ok_def by blast
  moreover have "membership_key m = k \<and> check_class_membership m = Inr ()" if "map_of (st_memberships s') k = Some m" for k m
    using assms(12) [OF that] assms(1) unfolding store_ok_def by blast
  ultimately show ?thesis using assms(3,4,5,7,9,11) by (simp add: store_ok_def)
qed

lemma store_ok_case: "store_ok L s \<Longrightarrow> store_ok L (fst (append_case L c s))"
proof (rule store_okI [OF _ simple_ops_grow(1)])
  assume ok: "store_ok L s"
  then show "distinct (map fst (st_cases (fst (append_case L c s))))"
    by (auto simp: store_ok_def append_case_def split: sum.splits intro: insert_verified_keys)
  show "pcs_case_id (stc_case x) = k" if "map_of (st_cases (fst (append_case L c s))) k = Some x" for k x
    using that ok by (auto simp: store_ok_def append_case_def split: sum.splits if_splits dest!: insert_verified_lookup)
qed (auto simp: store_ok_def append_case_def split: sum.splits if_splits)

lemma store_ok_case_state: "store_ok L s \<Longrightarrow> store_ok L (fst (update_case_state i st f s))"
  by (rule store_okI [OF _ simple_ops_grow(2)])
    (auto simp: store_ok_def update_case_state_def update_conv' distinct_update split: option.splits if_splits)

lemma store_ok_other:
  assumes "store_ok L s" "grows s s'" "st_cases s' = st_cases s" "st_measurements s' = st_measurements s" "st_instances s' = st_instances s"
    "st_classes s' = st_classes s" "st_memberships s' = st_memberships s"
  shows "store_ok L s'"
  using assms by (intro store_okI [OF assms(1,2)]) (auto simp: store_ok_def)

lemma store_ok_class: "store_ok L s \<Longrightarrow> store_ok L (fst (store_performance_class L c s))"
  by (rule store_okI [OF _ simple_ops_grow(10)])
    (auto simp: store_ok_def store_performance_class_def split: sum.splits intro: insert_verified_keys dest: insert_verified_lookup)

lemma class_stored_after: "store_performance_class L c s = (s', Inr i) \<Longrightarrow> class_stored L s' c"
  by (auto simp: store_performance_class_def class_stored_def split: sum.splits dest: insert_verified_present)

lemma store_ok_membership: "\<lbrakk>store_ok L s; check_class_membership m = Inr ()\<rbrakk> \<Longrightarrow> store_ok L (store_performance_class_membership m s)"
  by (rule store_okI [OF _ membership_grows])
    (auto simp: store_ok_def store_performance_class_membership_def Let_def update_conv' distinct_update split: option.splits if_splits)


text \<open>What storing a fingerprint does when it succeeds: the class first, then both fingerprint tables, then
  the membership.\<close>

definition class_step :: "store_library \<Rightarrow> environment_fingerprint \<Rightarrow> profile_store \<Rightarrow> profile_store \<times> string res" where
  "class_step L f s = (case enf_device_performance_class f of None \<Rightarrow> (s, Inr []) | Some c \<Rightarrow> store_performance_class L c s)"

definition with_membership :: "timestamp \<Rightarrow> environment_fingerprint \<Rightarrow> profile_store \<Rightarrow> profile_store" where
  "with_membership now f s = (case class_membership_of now f s of Some (Inr m) \<Rightarrow> store_performance_class_membership m s | _ \<Rightarrow> s)"

lemma class_step_ok:
  assumes "class_step L f s = (s1, r)"
  shows "grows s s1" "store_ok L s \<Longrightarrow> store_ok L s1" "r = Inr x \<Longrightarrow> pred_option (class_stored L s1) (enf_device_performance_class f)"
  using assms simple_ops_grow(10) [of s L] store_ok_class [of L s] class_stored_after [of L _ s s1]
  by (auto simp: class_step_def split: option.splits) (metis fst_conv)+

lemma class_membership_valid: "class_membership_of now f s = Some (Inr m) \<Longrightarrow> check_class_membership m = Inr ()"
  by (auto simp: class_membership_of_def Let_def split: option.splits)

lemma store_fingerprint_cases:
  assumes "store_environment_fingerprint L now f s = (s', r)"
  obtains (failed) e r' where "r = Inl e" "class_step L f s = (s', r')"
  | (stored) i j s1 x t u b b' where "environment_fingerprint_id (lib_sha L) f = Inr i" "environment_instance_id (lib_sha L) f = Inr j"
      "class_step L f s = (s1, Inr x)" "insert_verified id False i (compatibility_fingerprint f) (st_fingerprints s1) = Inr (t, b)"
      "insert_verified id False j f (st_instances s1) = Inr (u, b')" "r = Inr i"
      "\<And>e. class_membership_of now f (s1\<lparr>st_fingerprints := t, st_instances := u\<rparr>) \<noteq> Some (Inl e)"
      "s' = with_membership now f (s1\<lparr>st_fingerprints := t, st_instances := u\<rparr>)"
proof -
  obtain i j where ij: "environment_fingerprint_id (lib_sha L) f = Inr i" "environment_instance_id (lib_sha L) f = Inr j"
    using environment_ids_total by metis
  obtain s1 r1 where s1: "class_step L f s = (s1, r1)" by fastforce
  note e = assms [unfolded store_environment_fingerprint_def class_step_def [symmetric] s1 ij lift_st_def bind_st_simps]
  show thesis
  proof (cases r1)
    case (Inl x)
    with e s1 failed [of x r1] show ?thesis by simp
  next
    case (Inr x)
    note s1 = s1 [unfolded Inr]
    note e = e [unfolded Inr bind_st_simps]
    show ?thesis
    proof (cases "insert_verified id False i (compatibility_fingerprint f) (st_fingerprints s1)")
      case (Inl y)
      with e s1 failed [of y "Inr x"] show ?thesis by simp
    next
      case t: (Inr p)
      obtain t b where p: "p = (t, b)" by fastforce
      show ?thesis
      proof (cases "insert_verified id False j f (st_instances s1)")
        case (Inl y)
        with e s1 t p failed [of y "Inr x"] show ?thesis by simp
      next
        case u: (Inr q)
        obtain u b' where q: "q = (u, b')" by fastforce
        let ?s2 = "s1\<lparr>st_fingerprints := t, st_instances := u\<rparr>"
        note e = e [unfolded t u p q sum.case prod.case Let_def]
        note go = stored [OF ij s1 t [unfolded p] u [unfolded q]]
        show ?thesis
        proof (cases "\<exists>y. class_membership_of now f ?s2 = Some (Inl y)")
          case True
          with e s1 failed [where r' = "Inr x"] show ?thesis by auto
        next
          case False
          with e have "r = Inr i" "s' = with_membership now f ?s2" by (auto simp: with_membership_def split: option.splits sum.splits)
          with False go show ?thesis by blast
        qed
      qed
    qed
  qed
qed

lemma store_ok_tables:
  assumes "store_ok L s" "pred_option (class_stored L s) (enf_device_performance_class f)" "environment_instance_id (lib_sha L) f = Inr j"
    "insert_verified id False i (compatibility_fingerprint f) (st_fingerprints s) = Inr (t, b)" "insert_verified id False j f (st_instances s) = Inr (u, b')"
  shows "store_ok L (s\<lparr>st_fingerprints := t, st_instances := u\<rparr>)" (is "store_ok L ?s2")
proof -
  have g: "grows s ?s2" using assms(4,5) by (auto simp: grows_def intro: insert_verified_extends)
  have "pred_option (class_stored L ?s2) (enf_device_performance_class f)"
    using assms(2) grows_class_stored [OF g] by (cases "enf_device_performance_class f") auto
  then show ?thesis
    using assms(1,3,5) by (intro store_okI [OF assms(1) g]) (auto simp: store_ok_def intro: insert_verified_keys dest: insert_verified_lookup)
qed

lemma store_ok_fingerprint:
  assumes "store_ok L s"
  shows "store_ok L (fst (store_environment_fingerprint L now f s))"
proof -
  obtain s' r where e: "store_environment_fingerprint L now f s = (s', r)" by fastforce
  then show ?thesis
  proof (cases rule: store_fingerprint_cases)
    case (failed x r')
    with class_step_ok(2) [OF failed(2) assms] e show ?thesis by simp
  next
    case (stored i j s1 x t u b b')
    let ?s2 = "s1\<lparr>st_fingerprints := t, st_instances := u\<rparr>"
    have "store_ok L ?s2"
      by (rule store_ok_tables [OF class_step_ok(2) [OF stored(3) assms] class_step_ok(3) [OF stored(3) refl] stored(2,4,5)])
    then show ?thesis
      using store_ok_membership class_membership_valid e stored(8) by (auto simp: with_membership_def split: option.splits sum.splits)
  qed
qed

lemma with_membership_fields [simp]:
  "st_cases (with_membership now f s) = st_cases s" "st_measurements (with_membership now f s) = st_measurements s"
  "st_fingerprints (with_membership now f s) = st_fingerprints s" "st_instances (with_membership now f s) = st_instances s"
  "st_classes (with_membership now f s) = st_classes s"
  by (auto simp: with_membership_def store_performance_class_membership_def Let_def split: option.splits sum.splits)

lemma class_step_fields:
  assumes "class_step L f s = (s1, r)"
  shows "st_cases s1 = st_cases s" "st_measurements s1 = st_measurements s" "st_fingerprints s1 = st_fingerprints s" "st_instances s1 = st_instances s"
    "st_memberships s1 = st_memberships s"
  using assms by (auto simp: class_step_def store_performance_class_def bind_st_def lift_st_def split: option.splits sum.splits prod.splits)

lemma environment_stored_after:
  assumes "store_environment_fingerprint L now f s = (s', Inr i)"
  shows "environment_stored L s' f"
  using assms
proof (cases rule: store_fingerprint_cases)
  case (stored i j s1 x t u b b')
  then show ?thesis by (auto simp: environment_stored_def dest: insert_verified_present)
qed simp

definition environment_step :: "store_library \<Rightarrow> timestamp \<Rightarrow> measurement_record \<Rightarrow> profile_store \<Rightarrow> profile_store \<times> string res" where
  "environment_step L now r s = (case mrc_environment r of None \<Rightarrow> (s, Inr []) | Some f \<Rightarrow> store_environment_fingerprint L now f s)"

definition sample_rows :: "measurement_record \<Rightarrow> bool \<Rightarrow> ((string \<times> nat) \<times> pyfloat) list" where
  "sample_rows r inserted = (case mrc_samples r of
     Some xs \<Rightarrow> if inserted then map (\<lambda>(j, x). ((mrc_measurement_id r, j), x)) (enumerate 0 xs) else [] | None \<Rightarrow> [])"

lemma append_measurement_cases:
  assumes "append_measurement L now r s = (s', res)"
  obtains (unserializable) e where "s' = s" "res = Inl e"
  | (refused) e r1 where "environment_step L now r s = (s', r1)" "res = Inl e"
  | (appended) x s1 c row t b where "finite_record r" "environment_step L now r s = (s1, Inr x)" "map_of (st_cases s1) (mrc_case_id r) = Some c"
      "measurement_columns L r (stc_case c) = Inr row" "insert_verified mrw_record False (mrc_measurement_id r) row (st_measurements s1) = Inr (t, b)"
      "s' = s1\<lparr>st_measurements := t, st_samples := st_samples s1 @ sample_rows r b\<rparr>" "res = Inr b"
proof -
  obtain s1 r1 where s1: "environment_step L now r s = (s1, r1)" by fastforce
  show thesis
  proof (cases "finite_record r")
    case False
    with assms show ?thesis by (intro unserializable) (auto simp: append_measurement_def)
  next
    case True
    note e = assms [unfolded append_measurement_def environment_step_def [symmetric] s1 if_not_P [of "\<not> finite_record r"], simplified True, simplified]
    show ?thesis
    proof (cases r1)
      case (Inl x)
      with e s1 refused [of r1 x] show ?thesis by simp
    next
      case (Inr x)
      note s1 = s1 [unfolded Inr]
      note e = e [folded sample_rows_def, unfolded Inr bind_st_simps lift_st_def]
      show ?thesis
      proof (cases "map_of (st_cases s1) (mrc_case_id r)")
        case None
        with e s1 refused [of "Inr x"] show ?thesis by auto
      next
        case c: (Some c)
        show ?thesis
        proof (cases "measurement_columns L r (stc_case c)")
          case (Inl y)
          with e s1 c refused [of "Inr x" y] show ?thesis by simp
        next
          case row: (Inr row)
          with e s1 c refused [of "Inr x"] appended [OF True s1 c row] show ?thesis by (auto split: sum.splits)
        qed
      qed
    qed
  qed
qed

lemma columns_record: "measurement_columns L r c = Inr row \<Longrightarrow> mrw_record row = r"
  by (cases "pcs_spec c") (auto simp: measurement_columns_def Let_def bind_res_Inr)

lemma environment_step_ok:
  assumes "environment_step L now r s = (s1, res)"
  shows "grows s s1" "store_ok L s \<Longrightarrow> store_ok L s1" "res = Inr x \<Longrightarrow> pred_option (environment_stored L s1) (mrc_environment r)"
    "st_cases s1 = st_cases s" "st_measurements s1 = st_measurements s"
proof -
  show "grows s s1" "store_ok L s \<Longrightarrow> store_ok L s1" "res = Inr x \<Longrightarrow> pred_option (environment_stored L s1) (mrc_environment r)"
    using assms fingerprint_grows [of s L now] store_ok_fingerprint [of L s now] environment_stored_after [of L now _ s s1]
    by (auto simp: environment_step_def split: option.splits) (metis fst_conv)+
  show "st_cases s1 = st_cases s" "st_measurements s1 = st_measurements s"
    using assms by (auto simp: environment_step_def split: option.splits elim!: store_fingerprint_cases dest: class_step_fields)
qed

lemma valid_record_environment:
  "\<lbrakk>check_measurement_record sha r = Inr (); mrc_environment r = Some f\<rbrakk> \<Longrightarrow> environment_fingerprint_id sha f = Inr (mrc_environment_fingerprint r)"
  using environment_ids_total(1) [of sha f] by (auto simp: check_measurement_record_def)

lemma store_ok_measurement:
  assumes "store_ok L s" "check_measurement_record (lib_sha L) r = Inr ()"
  shows "store_ok L (fst (append_measurement L now r s))"
proof -
  obtain s' res where e: "append_measurement L now r s = (s', res)" by fastforce
  then show ?thesis
  proof (cases rule: append_measurement_cases)
    case (appended x s1 c row t b)
    have ok1: "store_ok L s1" using environment_step_ok(2) [OF appended(2) assms(1)] .
    have g: "grows s1 s'" using appended(5,6) by (auto simp: grows_def intro: insert_verified_extends)
    have rec: "mrw_record row = r" by (rule columns_record [OF appended(4)])
    have "row_ok L s' (mrc_measurement_id r) row"
      using environment_step_ok(3) [OF appended(2)] appended(3,6) valid_record_environment [OF assms(2)] grows_environment_stored [OF g]
      by (auto simp: row_ok_def rec)
    then have "store_ok L s'"
      using ok1 appended(5,6) by (intro store_okI [OF ok1 g]) (auto simp: store_ok_def intro: insert_verified_keys dest: insert_verified_lookup)
    with e show ?thesis by simp
  qed (use e assms(1) environment_step_ok(2) in auto)
qed

lemma store_ok_step:
  assumes "store_ok L s" "op_valid L op"
  shows "store_ok L (store_step L op s)"
proof (cases op)
  case (Append_Measurement now r)
  with assms store_ok_measurement show ?thesis by simp
next
  case (Store_Membership m)
  with assms store_ok_membership show ?thesis by simp
next
  case (Append_Experiment e)
  then show ?thesis using store_step_grows [of s L op] assms(1)
    by (intro store_ok_other [OF assms(1)]) (auto simp: append_experiment_def split: sum.splits)
next
  case (Update_Experiment i st)
  then show ?thesis using store_step_grows [of s L op] assms(1)
    by (intro store_ok_other [OF assms(1)]) (auto simp: update_experiment_state_def split: option.splits)
next
  case (Store_Path p c)
  then show ?thesis using store_step_grows [of s L op] assms(1)
    by (intro store_ok_other [OF assms(1)]) (auto simp: store_path_classification_def split: sum.splits)
qed (use assms(1) store_step_grows [of s L op] in \<open>auto simp: store_ok_case store_ok_case_state store_ok_class store_ok_fingerprint
    store_characterization_def store_layer_signature_def store_module_signature_def store_operator_signature_def store_network_endpoint_def
    split: sum.splits intro!: store_ok_other [OF assms(1)]\<close>)

lemma store_ok_run: "list_all (op_valid L) ops \<Longrightarrow> store_ok L s \<Longrightarrow> store_ok L (store_run L ops s)"
  unfolding store_run_def by (induction ops arbitrary: s) (auto intro: store_ok_step)


subsection \<open>Reading the tables\<close>

lemma set_by_key [simp]: "set (by_key t) = snd ` set t"
  by (simp add: by_key_def)

lemma set_chronological [simp]: "set (chronological rows) = (mrw_record \<circ> snd) ` set rows"
  by (simp add: chronological_def)

lemma mset_chronological: "mset (chronological rows) = mset (map (mrw_record \<circ> snd) rows)"
  by (simp add: chronological_def mset_map)

lemma distinct_mset_cong: "mset xs = mset ys \<Longrightarrow> distinct xs = distinct ys"
  by (metis mset_eq_imp_distinct_iff)

lemma store_okD:
  assumes "store_ok L s"
  shows "(k, row) \<in> set (st_measurements s) \<Longrightarrow> row_ok L s k row" "(k, c) \<in> set (st_classes s) \<Longrightarrow> device_performance_class_id (lib_sha L) c = Inr k"
    "(k, x) \<in> set (st_cases s) \<Longrightarrow> pcs_case_id (stc_case x) = k"
  using assms by (simp_all add: store_ok_def map_of_eq_Some_iff)

lemma class_ids_of:
  assumes "store_ok L s"
  shows "traverse_res (device_performance_class_id (lib_sha L)) (by_key (st_classes s)) = Inr (map fst (sort_key fst (st_classes s)))"
proof -
  have "list_all2 (\<lambda>x y. device_performance_class_id (lib_sha L) x = Inr y) (map snd cs) (map fst cs)" if "set cs \<subseteq> set (st_classes s)" for cs
    using that store_okD(2) [OF assms] by (induction cs) auto
  then show ?thesis by (auto simp: traverse_res_Inr by_key_def)
qed

lemma fingerprint_ids_of: "\<exists>ids. traverse_res (environment_fingerprint_id sha) fs = Inr ids \<and> (\<forall>f \<in> set fs. \<forall>i. environment_fingerprint_id sha f = Inr i \<longrightarrow> i \<in> set ids)"
proof (induction fs)
  case (Cons f fs)
  obtain i where "environment_fingerprint_id sha f = Inr i" using environment_ids_total(1) by blast
  with Cons show ?case by auto
qed simp

lemma distinct_measurement_ids:
  assumes "store_ok L s"
  shows "distinct (map mrc_measurement_id (filter (Not \<circ> is_network) (chronological (st_measurements s)) @ filter is_network (chronological (st_measurements s))))"
proof -
  let ?c = "chronological (st_measurements s)"
  have "mset (filter (Not \<circ> is_network) ?c @ filter is_network ?c) = mset ?c" by (simp add: comp_def)
  then have "mset (map mrc_measurement_id (filter (Not \<circ> is_network) ?c @ filter is_network ?c)) = mset (map (mrc_measurement_id \<circ> mrw_record \<circ> snd) (st_measurements s))"
    by (metis mset_chronological mset_map map_map comp_assoc)
  moreover have "map (mrc_measurement_id \<circ> mrw_record \<circ> snd) (st_measurements s) = map fst (st_measurements s)"
    using store_okD(1) [OF assms] by (auto simp: row_ok_def)
  ultimately have "distinct (map mrc_measurement_id (filter (Not \<circ> is_network) ?c @ filter is_network ?c)) \<longleftrightarrow> distinct (map fst (st_measurements s))"
    by (metis distinct_mset_cong)
  with assms show ?thesis by (simp add: store_ok_def)
qed

lemma for_res_is_ok: "is_ok (for_res f xs) \<longleftrightarrow> (\<forall>x \<in> set xs. f x = Inr ())"
  by (auto simp: is_ok_iff for_res_Inr)

text \<open>Exactly what can keep a snapshot from being built.\<close>

definition snapshot_possible :: "profile_store \<Rightarrow> bool" where
  "snapshot_possible s \<longleftrightarrow> distinct (map (mch_model \<circ> snd) (st_characterizations s))
     \<and> (\<forall>(k, row) \<in> set (st_measurements s). mrc_environment (mrw_record row) \<noteq> None)
     \<and> (\<forall>(k, f) \<in> set (st_instances s). pred_option (\<lambda>c. c \<in> fst ` set (st_classes s)) (enf_device_performance_class_id f))
     \<and> (\<forall>(k, m) \<in> set (st_memberships s). dpm_device_performance_class_id m \<in> fst ` set (st_classes s))"

lemma snapshot_fields:
  "psn_snapshot_id (snapshot_contents i created s) = i" "psn_created_at (snapshot_contents i created s) = created"
  "set (psn_environment_fingerprints (snapshot_contents i created s)) = snd ` set (st_instances s)"
  "set (psn_device_performance_class_memberships (snapshot_contents i created s)) = snd ` set (st_memberships s)"
  by (simp_all add: snapshot_contents_def Let_def)

lemma absent_or_member: "(case x of None \<Rightarrow> False | Some c \<Rightarrow> c \<notin> A) \<longleftrightarrow> \<not> pred_option (\<lambda>c. c \<in> A) x"
  by (cases x) auto

lemma snapshot_is_ok_iff:
  assumes "store_ok L s"
  shows "is_ok (store_snapshot L i created s) \<longleftrightarrow> i \<noteq> [] \<and> ts_aware created \<and> snapshot_possible s"
proof -
  let ?n = "snapshot_contents i created s"
  let ?records = "psn_measurements ?n @ psn_network_measurements ?n"
  have records: "set ?records = (mrw_record \<circ> snd) ` set (st_measurements s)" by (auto simp: snapshot_contents_def Let_def)
  obtain ids where ids: "traverse_res (environment_fingerprint_id (lib_sha L)) (psn_environment_fingerprints ?n) = Inr ids"
    and covered: "\<And>f j. \<lbrakk>f \<in> snd ` set (st_instances s); environment_fingerprint_id (lib_sha L) f = Inr j\<rbrakk> \<Longrightarrow> j \<in> set ids"
    using fingerprint_ids_of [of "lib_sha L" "psn_environment_fingerprints ?n"] by (auto simp: snapshot_contents_def Let_def)
  have classes: "traverse_res (device_performance_class_id (lib_sha L)) (psn_device_performance_classes ?n) = Inr (map fst (sort_key fst (st_classes s)))"
    using class_ids_of [OF assms] by (simp add: snapshot_contents_def Let_def)
  have models: "distinct (map mch_model (psn_model_characterizations ?n)) \<longleftrightarrow> distinct (map (mch_model \<circ> snd) (st_characterizations s))"
    by (rule distinct_mset_cong) (simp add: snapshot_contents_def Let_def by_key_def image_mset.compositionality comp_def)
  have cases: "\<not> list_ex (\<lambda>r. mrc_case_id r \<notin> pcs_case_id ` set (psn_profiling_cases ?n)) ?records"
  proof -
    have "mrc_case_id (mrw_record row) \<in> pcs_case_id ` set (psn_profiling_cases ?n)" if "(k, row) \<in> set (st_measurements s)" for k row
    proof -
      from store_okD(1) [OF assms that] obtain c where "map_of (st_cases s) (mrc_case_id (mrw_record row)) = Some c" by (auto simp: row_ok_def)
      then have c: "(mrc_case_id (mrw_record row), c) \<in> set (st_cases s)" by (rule map_of_SomeD)
      with store_okD(3) [OF assms c] show ?thesis by (force simp: snapshot_contents_def Let_def)
    qed
    then show ?thesis unfolding list_ex_iff records by auto
  qed
  have fingerprints: "\<not> list_ex (\<lambda>r. mrc_environment_fingerprint r \<notin> set ids) ?records" if "\<forall>(k, row) \<in> set (st_measurements s). mrc_environment (mrw_record row) \<noteq> None"
  proof -
    have "mrc_environment_fingerprint (mrw_record row) \<in> set ids" if row: "(k, row) \<in> set (st_measurements s)" for k row
    proof -
      from that \<open>\<forall>(k, row) \<in> _. _\<close> obtain f where "mrc_environment (mrw_record row) = Some f" by auto
      with store_okD(1) [OF assms row] have "environment_stored L s f" "environment_fingerprint_id (lib_sha L) f = Inr (mrc_environment_fingerprint (mrw_record row))"
        by (simp_all add: row_ok_def)
      then show ?thesis by (intro covered) (auto simp: environment_stored_def dest!: map_of_SomeD intro: rev_image_eqI)
    qed
    then show ?thesis unfolding list_ex_iff records by auto
  qed
  have envs: "list_ex (\<lambda>r. mrc_environment r = None) ?records \<longleftrightarrow> \<not> (\<forall>(k, row) \<in> set (st_measurements s). mrc_environment (mrw_record row) \<noteq> None)"
    unfolding list_ex_iff records by fastforce
  have "distinct (map mrc_measurement_id ?records)" using distinct_measurement_ids [OF assms] by (simp add: snapshot_contents_def Let_def)
  note facts = this models cases envs
  show ?thesis
  proof (cases "\<forall>(k, row) \<in> set (st_measurements s). mrc_environment (mrw_record row) \<noteq> None")
    case True
    with facts fingerprints [OF True] show ?thesis
      unfolding store_snapshot_def check_profile_snapshot_def ids classes Let_def snapshot_possible_def
      by (simp add: is_ok_iff for_res_Inr non_empty_def require_aware_def snapshot_fields absent_or_member case_prod_unfold del: list_ex_append)
  next
    case False
    with facts show ?thesis
      unfolding store_snapshot_def check_profile_snapshot_def Let_def snapshot_possible_def by (simp add: is_ok_iff del: list_ex_append)
  qed
qed



subsection \<open>Storing again\<close>

lemma update_same: "map_of t k = Some v \<Longrightarrow> AList.update k v t = t"
  by (induction t) auto

lemma insert_present: "map_of t k = Some r \<Longrightarrow> insert_verified pay nv k r t = Inr (t, False)"
  by (simp add: insert_verified_def)

text \<open>Everything a fingerprint needs is there already.\<close>

definition settled :: "store_library \<Rightarrow> timestamp \<Rightarrow> environment_fingerprint \<Rightarrow> profile_store \<Rightarrow> bool" where
  "settled L now f s \<longleftrightarrow> pred_option (class_stored L s) (enf_device_performance_class f) \<and> environment_stored L s f
     \<and> (\<exists>i. environment_fingerprint_id (lib_sha L) f = Inr i \<and> map_of (st_fingerprints s) i = Some (compatibility_fingerprint f))
     \<and> (\<forall>e. class_membership_of now f s \<noteq> Some (Inl e)) \<and> with_membership now f s = s"

lemma class_step_settled: "pred_option (class_stored L s) (enf_device_performance_class f) \<Longrightarrow> \<exists>x. class_step L f s = (s, Inr x)"
  by (auto simp: class_step_def store_performance_class_def class_stored_def insert_present split: option.splits)

lemma store_settled:
  assumes "settled L now f s"
  shows "\<exists>i. store_environment_fingerprint L now f s = (s, Inr i)"
proof -
  from assms obtain i j where ids: "environment_fingerprint_id (lib_sha L) f = Inr i" "environment_instance_id (lib_sha L) f = Inr j"
    and rows: "map_of (st_fingerprints s) i = Some (compatibility_fingerprint f)" "map_of (st_instances s) j = Some f"
    by (auto simp: settled_def environment_stored_def)
  obtain x where x: "class_step L f s = (s, Inr x)" using assms class_step_settled [of L s f] by (auto simp: settled_def)
  have m: "\<And>e. class_membership_of now f s \<noteq> Some (Inl e)" "with_membership now f s = s" using assms by (simp_all add: settled_def)
  show ?thesis
    unfolding store_environment_fingerprint_def class_step_def [symmetric] ids x lift_st_def bind_st_simps insert_present [OF rows(1)] insert_present [OF rows(2)]
    using m by (auto simp: Let_def with_membership_def split: option.splits sum.splits)
qed

lemma membership_settles:
  assumes "store_ok L s" "class_membership_of now f s = Some (Inr m)"
  shows "\<forall>e. class_membership_of now' f (with_membership now f s) \<noteq> Some (Inl e)" "with_membership now' f (with_membership now f s) = with_membership now f s"
proof -
  let ?s = "with_membership now f s"
  obtain c w d where f: "enf_device_performance_class_id f = Some c" "enf_worker_id f = Some w" "enf_device_id f = Some d"
    using assms(2) by (auto simp: class_membership_of_def split: option.splits)
  have key: "membership_key m = (c, w, d)" using assms(2) f by (auto simp: class_membership_of_def Let_def membership_key_def)
  have ok: "store_ok L ?s" using store_ok_membership [OF assms(1) class_membership_valid [OF assms(2)]] by (simp add: with_membership_def assms(2))
  have "map_of (st_memberships ?s) (c, w, d) \<noteq> None"
    using key by (auto simp: with_membership_def assms(2) store_performance_class_membership_def Let_def update_conv' split: option.splits)
  then obtain m1 where m1: "map_of (st_memberships ?s) (c, w, d) = Some m1" by blast
  then have valid: "membership_key m1 = (c, w, d)" "check_class_membership m1 = Inr ()" using ok by (simp_all add: store_ok_def)
  have there: "list_ex (\<lambda>((c', _), _). c' = c) (st_memberships ?s)" using map_of_SomeD [OF m1] by (force simp: list_ex_iff)
  let ?m = "\<lparr>dpm_device_performance_class_id = c, dpm_worker_id = w, dpm_device_id = d, dpm_verified = False, dpm_verified_at = None,
     dpm_evidence_measurement_ids = []\<rparr>"
  have "check_class_membership ?m = Inr ()" using valid by (auto simp: check_class_membership_def membership_key_def)
  then have again: "class_membership_of now' f ?s = Some (Inr ?m)" using f there by (simp add: class_membership_of_def)
  then show "\<forall>e. class_membership_of now' f ?s \<noteq> Some (Inl e)" by simp
  have "m1 = ?m" if "\<not> dpm_verified m1" "dpm_evidence_measurement_ids m1 = []"
    using valid that by (cases m1) (auto simp: check_class_membership_def membership_key_def)
  then show "with_membership now' f ?s = ?s"
    using m1 unfolding with_membership_def [of now' f ?s] again
    by (auto simp: store_performance_class_membership_def membership_key_def update_same)
qed

lemma stored_settled:
  assumes "store_ok L s" "store_environment_fingerprint L now f s = (s', Inr i)"
  shows "settled L now' f s'"
  using assms(2)
proof (cases rule: store_fingerprint_cases)
  case (stored i j s1 x t u b b')
  let ?s2 = "s1\<lparr>st_fingerprints := t, st_instances := u\<rparr>"
  have ok: "store_ok L s'" using store_ok_fingerprint [OF assms(1), of now f] assms(2) by simp
  have g: "grows s1 s'" using stored(4,5,8) by (auto simp: grows_def intro: insert_verified_extends)
      (auto simp: with_membership_def store_performance_class_membership_def Let_def update_conv' split: option.splits sum.splits)
  have "pred_option (class_stored L s') (enf_device_performance_class f)"
    using class_step_ok(3) [OF stored(3)] grows_class_stored [OF g] by (cases "enf_device_performance_class f") auto
  moreover have "environment_stored L s' f" by (rule environment_stored_after [OF assms(2)])
  moreover have "map_of (st_fingerprints s') i = Some (compatibility_fingerprint f)" using insert_verified_present [OF stored(4)] by (simp add: stored(8))
  moreover have "(\<forall>e. class_membership_of now' f s' \<noteq> Some (Inl e)) \<and> with_membership now' f s' = s'"
  proof (cases "class_membership_of now f ?s2")
    case None
    then have "class_membership_of now' f s' = None" by (auto simp: stored(8) with_membership_def class_membership_of_def Let_def split: option.splits)
    then show ?thesis by (simp add: with_membership_def)
  next
    case (Some r)
    with stored(7) obtain m where m: "class_membership_of now f ?s2 = Some (Inr m)" by (cases r) auto
    have "store_ok L ?s2"
      by (rule store_ok_tables [OF class_step_ok(2) [OF stored(3) assms(1)] class_step_ok(3) [OF stored(3) refl] stored(2,4,5)])
    from membership_settles [OF this m] show ?thesis by (simp add: stored(8))
  qed
  ultimately show ?thesis using stored(1) by (auto simp: settled_def)
qed simp


lemma with_membership_same: "with_membership now f s = s \<longleftrightarrow> st_memberships (with_membership now f s) = st_memberships s"
proof
  have "with_membership now f s = s\<lparr>st_memberships := st_memberships (with_membership now f s)\<rparr>"
    by (simp add: with_membership_def store_performance_class_membership_def Let_def split: option.split sum.split)
  then show "with_membership now f s = s" if "st_memberships (with_membership now f s) = st_memberships s" unfolding that by simp
qed simp

lemma with_membership_measured:
  "class_membership_of now f (s\<lparr>st_measurements := t, st_samples := u\<rparr>) = class_membership_of now f s"
  "st_memberships (with_membership now f (s\<lparr>st_measurements := t, st_samples := u\<rparr>)) = st_memberships (with_membership now f s)"
  by (simp_all add: with_membership_def class_membership_of_def store_performance_class_membership_def Let_def split: option.splits sum.splits)

lemma settled_measured: "settled L now f (s\<lparr>st_measurements := t, st_samples := u\<rparr>) = settled L now f s"
  by (simp add: settled_def with_membership_same with_membership_measured class_stored_def [abs_def] environment_stored_def)


subsection \<open>Model characterizations\<close>

definition characterizations_ok :: "store_library \<Rightarrow> profile_store \<Rightarrow> bool" where
  "characterizations_ok L s \<longleftrightarrow> distinct (map fst (st_characterizations s))
     \<and> (\<forall>(i, c) \<in> set (st_characterizations s). model_signature_id (lib_sha L) c = Inr i \<and> mref_revision (mch_model c) \<noteq> None)"

text \<open>Tables that environments and measurements leave alone.\<close>

definition other_tables :: "profile_store \<Rightarrow> (string \<times> stored_experiment) list \<times> (string \<times> model_characterization) list" where
  "other_tables s = (st_experiments s, st_characterizations s)"

lemma other_tables_same: "other_tables (fst (store_environment_fingerprint L now f s)) = other_tables s"
  "other_tables (fst (append_measurement L now r s)) = other_tables s"
proof -
  have tables: "other_tables (s\<lparr>st_fingerprints := t, st_instances := u\<rparr>) = other_tables s" "other_tables (s\<lparr>st_measurements := v, st_samples := x\<rparr>) = other_tables s"
    for s t u v x by (simp_all add: other_tables_def)
  have m: "other_tables (with_membership now f s) = other_tables s" for now f s
    by (auto simp: with_membership_def store_performance_class_membership_def Let_def other_tables_def split: option.splits sum.splits)
  have c: "other_tables s1 = other_tables s" if "class_step L f s = (s1, r)" for f s1 r s
    using that by (auto simp: class_step_def store_performance_class_def bind_st_def lift_st_def other_tables_def split: option.splits sum.splits prod.splits)
  have f: "other_tables s' = other_tables s" if "store_environment_fingerprint L now f s = (s', r)" for now f r s s'
    using that by (cases rule: store_fingerprint_cases) (auto simp: m tables dest: c)
  then show "other_tables (fst (store_environment_fingerprint L now f s)) = other_tables s" by (metis prod.collapse)
  have e: "other_tables s1 = other_tables s" if "environment_step L now r s = (s1, x)" for x s1
    using that f by (auto simp: environment_step_def split: option.splits)
  obtain s' x where a: "append_measurement L now r s = (s', x)" by fastforce
  then show "other_tables (fst (append_measurement L now r s)) = other_tables s"
    by (cases rule: append_measurement_cases) (auto simp: a tables dest: e)
qed

lemma characterizations_same:
  "st_characterizations (fst (store_environment_fingerprint L now f s)) = st_characterizations s"
  "st_characterizations (fst (append_measurement L now r s)) = st_characterizations s" "st_experiments (fst (append_measurement L now r s)) = st_experiments s"
  using other_tables_same(1) [of L now f s] other_tables_same(2) [of L now r s] by (simp_all add: other_tables_def)

lemma characterizations_ok_store: "characterizations_ok L s \<Longrightarrow> characterizations_ok L (fst (store_characterization L c s))"
  by (auto simp: characterizations_ok_def store_characterization_def insert_verified_Inr map_of_eq_None_iff split: sum.splits)

lemma characterizations_ok_step: "characterizations_ok L s \<Longrightarrow> characterizations_ok L (store_step L op s)"
proof (cases op)
  case (Store_Characterization c)
  then show "characterizations_ok L s \<Longrightarrow> ?thesis" by (simp add: characterizations_ok_store)
qed (auto simp: characterizations_ok_def characterizations_same append_case_def update_case_state_def append_experiment_def update_experiment_state_def
    store_layer_signature_def store_module_signature_def store_operator_signature_def store_network_endpoint_def store_path_classification_def
    store_performance_class_def store_performance_class_membership_def Let_def split: sum.splits option.splits)

lemma characterizations_ok_run: "characterizations_ok L (store_run L ops store_init)"
proof -
  have "characterizations_ok L s \<Longrightarrow> characterizations_ok L (store_run L ops s)" for s
    unfolding store_run_def by (induction ops arbitrary: s) (auto intro: characterizations_ok_step)
  moreover have "characterizations_ok L store_init" by (simp add: characterizations_ok_def store_init_def)
  ultimately show ?thesis by blast
qed

lemma model_signature_total: "\<exists>i. model_signature_id sha c = Inr i"
proof -
  have "finite_json (canonical_model_stage st)" for st by (simp add: canonical_model_stage_def)
  then show ?thesis by (simp add: model_signature_id_def canonical_sha256_total list_all_iff)
qed

lemma model_signature_ignores_name: "model_signature_id sha (c\<lparr>mch_model := m\<rparr>) = model_signature_id sha c"
  by (simp add: model_signature_id_def)



subsection \<open>A store with one measurement\<close>

definition demo_library :: store_library where
  "demo_library = \<lparr>lib_sha = demo_hash, lib_repr = demo_repr, lib_iso = (\<lambda>t. int_str (ts_value t))\<rparr>"

definition demo_time :: timestamp where
  "demo_time = \<lparr>ts_value = 0, ts_aware = True\<rparr>"

definition demo_environment :: environment_fingerprint where
  "demo_environment = \<lparr>enf_backend = ''iperf3'', enf_profiling_implementation_revision = ''1'', enf_device_performance_class_id = None,
     enf_device_performance_class = None, enf_capability_revision = None, enf_torch_version = None, enf_cuda_version = None, enf_driver_version = None,
     enf_backend_revision = None, enf_performance_state = None, enf_model_revision = None, enf_dtype = None, enf_quantization = None,
     enf_worker_id = Some ''a'', enf_device_id = None\<rparr>"

definition demo_fingerprint :: string where
  "demo_fingerprint = projr (environment_fingerprint_id demo_hash demo_environment)"

definition demo_measurement :: measurement_record where
  "demo_measurement = \<lparr>mrc_measurement_id = ''m'', mrc_case_id = ''c'', mrc_environment_fingerprint = demo_fingerprint, mrc_started_at = demo_time,
     mrc_finished_at = demo_time, mrc_sample_count = 1, mrc_samples = Some [Fin 1],
     mrc_metrics = \<lparr>mms_latency = None, mms_allocator = None, mms_physical = None, mms_telemetry = None, mms_rtt = None,
       mms_bandwidth = Some \<lparr>bwm_bits_per_second = Fin 1, bwm_payload_bytes = None, bwm_retransmits = None, bwm_duration_s = None\<rparr>\<rparr>,
     mrc_metadata = [], mrc_environment = Some demo_environment, mrc_quality = None\<rparr>"

definition demo_stored_case :: profiling_case where
  "demo_stored_case = \<lparr>pcs_case_id = ''c'', pcs_worker_id = ''a'', pcs_spec = demo_case ''b''\<rparr>"

lemma demo_fingerprint_id: "environment_fingerprint_id demo_hash demo_environment = Inr demo_fingerprint" "demo_fingerprint \<noteq> []"
proof -
  obtain i where i: "environment_fingerprint_id demo_hash demo_environment = Inr i" using environment_ids_total(1) by blast
  then show "environment_fingerprint_id demo_hash demo_environment = Inr demo_fingerprint" by (simp add: demo_fingerprint_def)
  from i have "i \<noteq> []" by (auto simp: environment_fingerprint_id_def demo_environment_def canonical_sha256_def canonical_json_def demo_hash_def split: if_splits)
  with i show "demo_fingerprint \<noteq> []" by (simp add: demo_fingerprint_def)
qed

lemma demo_measurement_valid: "check_measurement_record demo_hash demo_measurement = Inr ()"
  using demo_fingerprint_id
  by (simp add: check_measurement_record_def demo_measurement_def check_measurement_metrics_def check_bandwidth_metrics_def check_environment_def
      demo_time_def require_aware_def non_empty_def present_check_def absent_or_def check_normalized_items_def)
    (simp add: demo_environment_def)

lemma demo_case_appended:
  "append_case demo_library demo_stored_case store_init =
     (store_init\<lparr>st_cases := [(''c'', \<lparr>stc_case = demo_stored_case, stc_state = CASE_PENDING, stc_failure = None\<rparr>)]\<rparr>, Inr True)"
  by (simp add: append_case_def demo_stored_case_def demo_case_def canonical_network_case_spec_def jopt_def insert_verified_def store_init_def demo_library_def)

lemma pair_id_total: "\<exists>k. network_pair_signature_id sha p = Inr k"
proof -
  have "finite_json (canonical_network_pair p)" by (simp add: canonical_network_pair_def)
  then show ?thesis by (simp add: network_pair_signature_id_def canonical_sha256_total)
qed

lemma demo_measurement_fields:
  "mrc_measurement_id demo_measurement = ''m''" "mrc_case_id demo_measurement = ''c''" "mrc_environment demo_measurement = Some demo_environment"
  by (simp_all add: demo_measurement_def)

lemma demo_environment_fields: "enf_device_performance_class demo_environment = None" "enf_device_performance_class_id demo_environment = None"
  by (simp_all add: demo_environment_def)

lemma demo_environment_stored:
  assumes "st_fingerprints s = []" "st_instances s = []" "environment_instance_id demo_hash demo_environment = Inr j"
  shows "store_environment_fingerprint demo_library demo_time demo_environment s =
    (s\<lparr>st_fingerprints := [(demo_fingerprint, compatibility_fingerprint demo_environment)], st_instances := [(j, demo_environment)]\<rparr>, Inr demo_fingerprint)"
  using assms demo_fingerprint_id(1)
  by (simp add: store_environment_fingerprint_def demo_library_def insert_verified_def class_membership_of_def demo_environment_fields)

lemma demo_append:
  "\<exists>s'. append_measurement demo_library demo_time demo_measurement (store_run demo_library [Append_Case demo_stored_case] store_init) = (s', Inr True)"
proof -
  let ?s = "store_run demo_library [Append_Case demo_stored_case] store_init"
  obtain j where j: "environment_instance_id demo_hash demo_environment = Inr j" using environment_ids_total(2) by blast
  obtain n where n: "pcs_spec demo_stored_case = Network_Case n" "check_network_pair (spec_pair n) = Inr ()"
    by (simp add: demo_stored_case_def demo_case_def check_network_pair_def spec_pair_def non_empty_def absent_or_def)
  obtain k where k: "network_pair_signature_id demo_hash (spec_pair n) = Inr k" using pair_id_total by blast
  have s: "?s = store_init\<lparr>st_cases := [(''c'', \<lparr>stc_case = demo_stored_case, stc_state = CASE_PENDING, stc_failure = None\<rparr>)]\<rparr>"
    by (simp add: store_run_def demo_case_appended)
  note env = demo_environment_stored [OF _ _ j, of ?s]
  have "\<exists>row. measurement_columns demo_library demo_measurement demo_stored_case = Inr row"
    using j n k by (simp add: measurement_columns_def opt_id_def demo_library_def demo_measurement_def)
  moreover have "finite_record demo_measurement" by (simp add: finite_record_def demo_measurement_def finite_metrics_def)
  moreover have "st_fingerprints ?s = []" "st_instances ?s = []" "st_measurements ?s = []" by (simp_all add: s) (simp_all add: store_init_def)
  moreover have "map_of (st_cases ?s) ''c'' = Some \<lparr>stc_case = demo_stored_case, stc_state = CASE_PENDING, stc_failure = None\<rparr>" by (simp add: s)
  ultimately show ?thesis
    using env by (auto simp: append_measurement_def demo_measurement_fields insert_verified_def)
qed

lemma demo_ops_valid: "list_all (op_valid demo_library) [Append_Case demo_stored_case, Append_Measurement demo_time demo_measurement]"
  using demo_measurement_valid by (simp add: demo_library_def)


subsection \<open>Properties\<close>

text \<open>[C30] The store is append-only: over any further run of calls every experiment and case keeps its definition,
  every measurement, its samples, every signature, characterization, fingerprint and performance class stays as it
  is under its id, and a verified membership of a performance class stays verified.\<close>

theorem store_append_only:
  "grows (store_run L earlier store_init) (store_run L (earlier @ later) store_init)"
  using store_run_grows [of "store_run L earlier store_init" L later] by (simp add: store_run_def)

text \<open>[C31] Appending a measurement again is a replay: in any store reached by calls with valid arguments, once
  \<^verbatim>\<open>append_measurement\<close> has accepted a record, appending it again at any later time returns \<^verbatim>\<open>False\<close> and changes nothing in
  the store, the memberships of performance classes included.\<close>

theorem append_measurement_replays:
  assumes "list_all (op_valid L) ops" "append_measurement L now r (store_run L ops store_init) = (s, Inr b)"
  shows "append_measurement L later r s = (s, Inr False)"
proof -
  have ok: "store_ok L (store_run L ops store_init)" using store_ok_run [OF assms(1) store_ok_init] .
  from assms(2) show ?thesis
  proof (cases rule: append_measurement_cases)
    case (appended x s1 c row t b')
    have "\<exists>y. environment_step L later r s = (s, Inr y)"
    proof (cases "mrc_environment r")
      case (Some f)
      with appended(2) have "store_environment_fingerprint L now f (store_run L ops store_init) = (s1, Inr x)" by (simp add: environment_step_def)
      then have "settled L later f s" unfolding appended(6) settled_measured by (rule stored_settled [OF ok])
      then show ?thesis using store_settled by (auto simp: environment_step_def Some)
    qed (simp add: environment_step_def)
    moreover have "sample_rows r False = []" by (simp add: sample_rows_def split: option.splits)
    ultimately show ?thesis
      using appended(1,3,4) insert_verified_again [OF appended(5)]
      by (auto simp: append_measurement_def environment_step_def [symmetric] sample_rows_def [symmetric] appended(6))
  qed simp_all
qed

theorem append_measurement_replays_witness:
  "\<exists>s. append_measurement demo_library demo_time demo_measurement (store_run demo_library [Append_Case demo_stored_case] store_init) = (s, Inr True)
     \<and> append_measurement demo_library demo_time demo_measurement s = (s, Inr False)"
proof -
  obtain s where s: "append_measurement demo_library demo_time demo_measurement (store_run demo_library [Append_Case demo_stored_case] store_init) = (s, Inr True)"
    using demo_append by blast
  with append_measurement_replays [OF _ s, of demo_time] show ?thesis by auto
qed

text \<open>[C32] When a snapshot can be built: for any store reached by calls with valid arguments \<^verbatim>\<open>build_snapshot\<close> succeeds exactly
  when its id is not empty, its time is aware, no two characterizations are of the same model, every measurement
  carries its environment, and the classes that stored environments and memberships name are stored. The other checks of
  the snapshot (unique measurement ids, cases and fingerprints of all measurements) never fail.\<close>

theorem snapshot_built_iff:
  assumes "list_all (op_valid L) ops"
  shows "is_ok (store_snapshot L i created (store_run L ops store_init)) \<longleftrightarrow>
    i \<noteq> [] \<and> ts_aware created \<and> snapshot_possible (store_run L ops store_init)"
  by (rule snapshot_is_ok_iff [OF store_ok_run [OF assms store_ok_init]])

theorem snapshot_built_iff_witness:
  "is_ok (store_snapshot demo_library ''s'' demo_time (store_run demo_library [Append_Case demo_stored_case] store_init))"
  using snapshot_built_iff [of demo_library "[Append_Case demo_stored_case]" "''s''" demo_time]
  by (simp add: store_run_def demo_case_appended snapshot_possible_def demo_time_def) (simp add: store_init_def)

lemma two_structures_block_snapshots:
  assumes "store_ok L s" "map_of (st_characterizations s) i = Some c" "map_of (st_characterizations s) j = Some d"
    and "i \<noteq> j" "mch_model d = mch_model c"
  shows "\<not> is_ok (store_snapshot L k created s)"
proof -
  have "\<not> distinct (map (mch_model \<circ> snd) (st_characterizations s))"
  proof
    assume "distinct (map (mch_model \<circ> snd) (st_characterizations s))"
    then have "inj_on (mch_model \<circ> snd) (set (st_characterizations s))" by (simp add: distinct_map)
    from inj_onD [OF this _ map_of_SomeD [OF assms(3)] map_of_SomeD [OF assms(2)]] assms(4,5) show False by simp
  qed
  then show ?thesis by (simp add: snapshot_is_ok_iff [OF assms(1)] snapshot_possible_def)
qed

lemma second_structure_accepted:
  assumes "characterizations_ok L s" "(i, c) \<in> set (st_characterizations s)"
    and "mch_model d = mch_model c" "model_signature_id (lib_sha L) d = Inr j" "j \<notin> fst ` set (st_characterizations s)"
  shows "store_characterization L d s = (s\<lparr>st_characterizations := st_characterizations s @ [(j, d)]\<rparr>, Inr j)"
proof -
  have "mref_revision (mch_model d) \<noteq> None" using assms(1-3) by (auto simp: characterizations_ok_def)
  moreover have "map_of (st_characterizations s) j = None" using assms(5) by (simp add: map_of_eq_None_iff)
  ultimately show ?thesis using assms(4) by (simp add: store_characterization_def insert_verified_def)
qed

text \<open>[C33] Which characterizations the store cannot hold, in any store reached by calls with valid arguments: a second
  model with the same structure under another name (the id leaves the name out and the payload does not) and a model
  without a revision are refused, and the store stays as it is. Another structure of a stored model, such as
  another dtype, whose id is not stored yet is accepted and stored, and from then on no snapshot can be built, whatever
  further valid calls the store gets.\<close>

theorem characterizations_collide:
  assumes "list_all (op_valid L) ops" "(i, c) \<in> set (st_characterizations (store_run L ops store_init))"
  shows "(mch_model d \<noteq> mch_model c \<and> d\<lparr>mch_model := mch_model c\<rparr> = c
      \<longrightarrow> (\<exists>e. store_characterization L d (store_run L ops store_init) = (store_run L ops store_init, Inl (ProfileStoreError e))))
    \<and> (mref_revision (mch_model d) = None
      \<longrightarrow> (\<exists>e. store_characterization L d (store_run L ops store_init) = (store_run L ops store_init, Inl (ProfileStoreError e))))
    \<and> (mch_model d = mch_model c \<and> model_signature_id (lib_sha L) d = Inr j
        \<and> j \<notin> fst ` set (st_characterizations (store_run L ops store_init))
      \<longrightarrow> snd (store_characterization L d (store_run L ops store_init)) = Inr j
        \<and> (\<forall>later k created. list_all (op_valid L) later
             \<longrightarrow> \<not> is_ok (store_snapshot L k created (store_run L (ops @ Store_Characterization d # later) store_init))))"
proof -
  let ?s = "store_run L ops store_init"
  have ch: "characterizations_ok L ?s" by (rule characterizations_ok_run)
  have row: "map_of (st_characterizations ?s) i = Some c" "model_signature_id (lib_sha L) c = Inr i"
    using ch assms(2) by (auto simp: characterizations_ok_def map_of_eq_Some_iff)
  have "\<exists>e. store_characterization L d ?s = (?s, Inl (ProfileStoreError e))" if "mch_model d \<noteq> mch_model c" "d\<lparr>mch_model := mch_model c\<rparr> = c"
  proof -
    have "model_signature_id (lib_sha L) d = Inr i" using row(2) model_signature_ignores_name [where c = d and m = "mch_model c" and sha = "lib_sha L"] that(2) by simp
    with row(1) that(1) show ?thesis by (auto simp: store_characterization_def insert_verified_def)
  qed
  moreover have "\<exists>e. store_characterization L d ?s = (?s, Inl (ProfileStoreError e))" if "mref_revision (mch_model d) = None"
  proof -
    obtain n where n: "model_signature_id (lib_sha L) d = Inr n" using model_signature_total by blast
    have "map_of (st_characterizations ?s) n \<noteq> Some d" using ch that by (auto simp: characterizations_ok_def dest!: map_of_SomeD)
    with n that show ?thesis by (auto simp: store_characterization_def insert_verified_def split: option.splits)
  qed
  moreover have "snd (store_characterization L d ?s) = Inr j
      \<and> (\<forall>later k created. list_all (op_valid L) later
           \<longrightarrow> \<not> is_ok (store_snapshot L k created (store_run L (ops @ Store_Characterization d # later) store_init)))"
    if d: "mch_model d = mch_model c" "model_signature_id (lib_sha L) d = Inr j" "j \<notin> fst ` set (st_characterizations ?s)"
  proof (intro conjI allI impI)
    note accepted = second_structure_accepted [OF ch assms(2) d]
    show "snd (store_characterization L d ?s) = Inr j" by (simp add: accepted)
    fix later k created assume later: "list_all (op_valid L) later"
    let ?s1 = "?s\<lparr>st_characterizations := st_characterizations ?s @ [(j, d)]\<rparr>"
    let ?s2 = "store_run L (ops @ Store_Characterization d # later) store_init"
    have "?s2 = store_run L later ?s1" by (simp add: store_run_def) (simp add: accepted store_run_def [symmetric])
    then have "extends id (st_characterizations ?s1) (st_characterizations ?s2)"
      using store_run_grows [of ?s1 L later] by (simp add: grows_def)
    moreover have new: "map_of (st_characterizations ?s) j = None" using d(3) by (simp add: map_of_eq_None_iff)
    moreover have "map_of (st_characterizations ?s1) i = Some c" "map_of (st_characterizations ?s1) j = Some d"
      using row(1) new by (simp_all add: map_add_def)
    ultimately have both: "map_of (st_characterizations ?s2) i = Some c" "map_of (st_characterizations ?s2) j = Some d"
      by (auto simp: extends_def)
    have "i \<noteq> j" using d(3) assms(2) by force
    moreover have "store_ok L ?s2" using assms(1) later by (intro store_ok_run store_ok_init) simp
    ultimately show "\<not> is_ok (store_snapshot L k created ?s2)" using two_structures_block_snapshots both d(1) by blast
  qed
  ultimately show ?thesis by blast
qed


definition demo_model :: "string \<Rightarrow> string \<Rightarrow> model_characterization" where
  "demo_model name dtype = \<lparr>mch_model = \<lparr>mref_model_id = name, mref_revision = Some ''r''\<rparr>, mch_architecture_family = ''llama'', mch_num_layers = 1,
     mch_hidden_size = 8, mch_intermediate_size = 16, mch_vocab_size = 32, mch_num_attention_heads = 2, mch_num_kv_heads = 1, mch_head_dim = None,
     mch_dtype = dtype, mch_quantization = None, mch_tied_word_embeddings = False, mch_stages = [\<lparr>mst_kind = STAGE_LAYER_GROUP, mst_layer_count = Some 1\<rparr>]\<rparr>"

lemma demo_models_differ: "model_signature_id demo_hash (demo_model n ''fp16'') \<noteq> model_signature_id demo_hash (demo_model n' ''bf16'')"
  using json_string_inject [of "''fp16''" "[]" "''bf16''" "[]"]
  by (auto simp: model_signature_id_def demo_model_def canonical_sha256_def canonical_json_def canonical_model_stage_def demo_hash_def)

theorem characterizations_collide_witness:
  "let one = [Store_Characterization (demo_model ''base'' ''fp16'')]; s = store_run demo_library one store_init in
   (\<exists>e. store_characterization demo_library (demo_model ''tuned'' ''fp16'') s = (s, Inl (ProfileStoreError e)))
   \<and> is_ok (snd (store_characterization demo_library (demo_model ''base'' ''bf16'') s))
   \<and> \<not> is_ok (store_snapshot demo_library ''s'' demo_time
         (store_run demo_library (one @ [Store_Characterization (demo_model ''base'' ''bf16''), Append_Case demo_stored_case]) store_init))"
proof -
  let ?one = "[Store_Characterization (demo_model ''base'' ''fp16'')]"
  let ?s = "store_run demo_library ?one store_init"
  obtain i where i: "model_signature_id demo_hash (demo_model ''base'' ''fp16'') = Inr i" using model_signature_total by blast
  obtain j where j: "model_signature_id demo_hash (demo_model ''base'' ''bf16'') = Inr j" using model_signature_total by blast
  have "i \<noteq> j" using demo_models_differ [of "''base''" "''base''"] i j by simp
  moreover have chars: "st_characterizations ?s = [(i, demo_model ''base'' ''fp16'')]"
    using i by (simp add: store_run_def store_characterization_def demo_library_def insert_verified_def store_init_def) (simp add: demo_model_def)
  moreover have "list_all (op_valid demo_library) ?one" "list_all (op_valid demo_library) [Append_Case demo_stored_case]"
    using demo_ops_valid by simp_all
  ultimately show ?thesis
    using characterizations_collide [of demo_library ?one i "demo_model ''base'' ''fp16''" "demo_model ''tuned'' ''fp16''" j]
      characterizations_collide [of demo_library ?one i "demo_model ''base'' ''fp16''" "demo_model ''base'' ''bf16''" j] j
    by (auto simp: Let_def demo_model_def demo_library_def)
qed

end
