(* ===== verification/Controller_Safety.thy ===== *)
theory Controller_Safety
  imports Profiling_Controller Store_Safety
begin

section \<open>What a run of an experiment guarantees\<close>

text \<open>
  The coroutine of a Worker is verified against what it may rely on: while it waits, the rest of the Master keeps
  the cases it is responsible for as they are, the store only grows and the control plane takes legal steps.
  In turn it touches no other case. So the coroutines of all Workers go together, in any interleaving of
  their awaits.
\<close>

declare map_of_eq_Some_iff [simp del] Some_eq_map_of_iff [simp del]

subsection \<open>Persisting a measurement\<close>

definition case_ok :: "store_library \<Rightarrow> profiling_case \<Rightarrow> bool" where
  "case_ok L c \<longleftrightarrow> check_profiling_case c = Inr () \<and> finite_json (canonical_case_spec (lib_repr L) (pcs_spec c))"

lemma finite_jopt_iff: "finite_json (jopt f v) \<longleftrightarrow> pred_option (finite_json \<circ> f) v"
  by (cases v) (auto simp: jopt_def)

lemma canonical_sha256_finite: "finite_json v \<Longrightarrow> \<exists>i. canonical_sha256 sha v = Inr i"
  by (auto simp: canonical_sha256_total)

lemma layer_signature_finite: "finite_json (canonical_layer_signature s)"
  by (simp add: canonical_layer_signature_def finite_jopt_iff pred_option_def)

lemma opt_id_total: "pred_option (\<lambda>x. \<exists>i. f x = Inr i) v \<Longrightarrow> \<exists>i. opt_id f v = Inr i"
  by (cases v) (auto simp: opt_id_def)

lemma measurement_columns_total:
  assumes "case_ok L c"
  shows "\<exists>row. measurement_columns L r c = Inr row"
proof (cases "pcs_spec c")
  case (Network_Case s)
  have "check_network_pair (spec_pair s) = Inr ()"
    using assms Network_Case by (auto simp: case_ok_def check_profiling_case_def check_network_case_spec_def check_network_pair_def spec_pair_def)
  then show ?thesis
    using environment_ids_total(2) [of "lib_sha L"] pair_id_total [of "lib_sha L" "spec_pair s"] opt_id_total [of "environment_instance_id (lib_sha L)" "mrc_environment r"]
    by (force simp: measurement_columns_def Network_Case Let_def pred_option_def)
next
  case (Model_Case s)
  have fin: "pred_option (finite_json \<circ> canonical_module_signature (lib_repr L)) (mcs_module_signature s)"
    "pred_option (finite_json \<circ> canonical_operator_signature (lib_repr L)) (mcs_operator_signature s)"
    using assms Model_Case by (simp_all add: case_ok_def canonical_model_case_spec_def finite_jopt_iff)
  have "\<exists>i. opt_id (environment_instance_id (lib_sha L)) (mrc_environment r) = Inr i"
    using environment_ids_total(2) [of "lib_sha L"] by (intro opt_id_total) (simp add: pred_option_def)
  moreover have "\<exists>i. opt_id (layer_signature_id (lib_sha L)) (mcs_layer_signature s) = Inr i"
    by (intro opt_id_total) (auto simp: pred_option_def layer_signature_id_def layer_signature_finite intro: canonical_sha256_finite)
  moreover have "\<exists>i. opt_id (module_signature_id (lib_sha L) (lib_repr L)) (mcs_module_signature s) = Inr i"
    using fin(1) by (intro opt_id_total) (auto simp: pred_option_def module_signature_id_def intro: canonical_sha256_finite)
  moreover have "\<exists>i. opt_id (operator_signature_id (lib_sha L) (lib_repr L)) (mcs_operator_signature s) = Inr i"
    using fin(2) by (intro opt_id_total) (auto simp: pred_option_def operator_signature_id_def intro: canonical_sha256_finite)
  ultimately show ?thesis by (auto simp: measurement_columns_def Model_Case Let_def)
qed

lemma insert_verified_error: "insert_verified pay nv k row t = Inl e \<Longrightarrow> \<exists>m. e = ProfileStoreError m"
  by (auto simp: insert_verified_def split: option.splits if_splits)

lemma insert_verified_found: "insert_verified pay nv k row t = Inr (t', b) \<Longrightarrow> \<exists>row'. map_of t' k = Some row' \<and> pay row' = pay row"
  by (auto simp: insert_verified_Inr map_add_def)

lemma fingerprint_result:
  assumes "check_environment (lib_sha L) f = Inr ()" "ts_aware now" "store_environment_fingerprint L now f s = (s', r)"
  shows "(\<exists>x. r = Inr x) \<or> (\<exists>m. r = Inl (ProfileStoreError m))"
proof -
  have "check_class_membership m = Inr ()"
    if "enf_device_performance_class_id f = Some c" "enf_worker_id f = Some w" "enf_device_id f = Some d"
      "m = \<lparr>dpm_device_performance_class_id = c, dpm_worker_id = w, dpm_device_id = d, dpm_verified = b,
         dpm_verified_at = (if b then Some now else None), dpm_evidence_measurement_ids = []\<rparr>" for c w d b m
    using assms(1,2) that by (auto simp: check_environment_def check_class_membership_def require_aware_def)
  then have member: "class_membership_of now f t \<noteq> Some (Inl e)" for t e
    by (auto simp: class_membership_of_def Let_def split: option.splits)
  obtain i j where ids: "environment_fingerprint_id (lib_sha L) f = Inr i" "environment_instance_id (lib_sha L) f = Inr j"
    using environment_ids_total by metis
  obtain s1 r1 where s1: "class_step L f s = (s1, r1)" by fastforce
  have r1: "(\<exists>x. r1 = Inr x) \<or> (\<exists>m. r1 = Inl (ProfileStoreError m))"
    using s1 environment_ids_total(3) [of "lib_sha L"]
    by (auto simp: class_step_def store_performance_class_def lift_st_def bind_st_def split: option.splits sum.splits dest!: insert_verified_error)
  show ?thesis
    using assms(3) r1 member
    by (auto simp: store_environment_fingerprint_def ids class_step_def [symmetric] s1 Let_def split: sum.splits option.splits dest!: insert_verified_error)
qed

lemma append_measurement_result:
  assumes "check_measurement_record (lib_sha L) r = Inr ()" "finite_record r" "ts_aware now"
    "map_of (st_cases s) (mrc_case_id r) = Some row" "case_ok L (stc_case row)" "append_measurement L now r s = (s', x)"
  shows "(\<exists>b. x = Inr b) \<or> (\<exists>m. x = Inl (ProfileStoreError m))"
    and "x = Inr b \<Longrightarrow> get_measurement (mrc_measurement_id r) s' = Some r"
    and "st_cases s' = st_cases s"
proof -
  obtain s1 r1 where s1: "environment_step L now r s = (s1, r1)" by fastforce
  have r1: "(\<exists>x. r1 = Inr x) \<or> (\<exists>m. r1 = Inl (ProfileStoreError m))"
    using s1 assms(1,3) fingerprint_result [of L _ now s s1 r1]
    by (auto simp: environment_step_def check_measurement_record_def split: option.splits)
  have same: "st_cases s1 = st_cases s" by (rule environment_step_ok(4) [OF s1])
  obtain cols where cols: "measurement_columns L r (stc_case row) = Inr cols" using measurement_columns_total [OF assms(5)] by blast
  note e = assms(6) [unfolded append_measurement_def environment_step_def [symmetric] s1, simplified assms(2), simplified]
  show "(\<exists>b. x = Inr b) \<or> (\<exists>m. x = Inl (ProfileStoreError m))"
    using e r1 assms(4) cols by (auto simp: same split: sum.splits dest!: insert_verified_error)
  have "st_cases s' = st_cases s1"
    using e r1 assms(4) [folded same] cols by (auto split: sum.splits)
  then show "st_cases s' = st_cases s" by (simp add: same)
  show "get_measurement (mrc_measurement_id r) s' = Some r" if "x = Inr b"
    using e r1 assms(4) cols that columns_record [OF cols] by (auto simp: same get_measurement_def split: sum.splits dest!: insert_verified_found)
qed


subsection \<open>What a coroutine relies on and promises\<close>

definition world_ok :: "store_library \<Rightarrow> world \<Rightarrow> bool" where
  "world_ok L w \<longleftrightarrow> reachable (lib_sha L) (pw_master w) \<and> env_ok (pw_call w)"

definition case_row :: "string \<Rightarrow> world \<Rightarrow> stored_case option" where
  "case_row i w = map_of (st_cases (pw_store w)) i"

definition leaves :: "store_library \<Rightarrow> string set \<Rightarrow> world \<Rightarrow> world \<Rightarrow> bool" where
  "leaves L ids s t \<longleftrightarrow> (world_ok L s \<longrightarrow> world_ok L t) \<and> grows (pw_store s) (pw_store t) \<and> (\<forall>i \<in> ids. case_row i t = case_row i s)"

definition touches :: "string set \<Rightarrow> world \<Rightarrow> world \<Rightarrow> bool" where
  "touches ids s t \<longleftrightarrow> pw_master t = pw_master s \<and> pw_call t = pw_call s \<and> st_experiments (pw_store t) = st_experiments (pw_store s)
     \<and> grows (pw_store s) (pw_store t) \<and> (\<forall>i. i \<notin> ids \<longrightarrow> case_row i t = case_row i s)"

definition failure_ok :: "profiling_failure \<Rightarrow> bool" where
  "failure_ok f \<longleftrightarrow> check_profiling_failure f = Inr () \<and> finite_failure f"

definition outcome_ok :: "store_library \<Rightarrow> case_outcome \<Rightarrow> bool" where
  "outcome_ok L x \<longleftrightarrow> make_case_outcome x = Inr x \<and> pred_option failure_ok (cou_failure x)
     \<and> pred_option (\<lambda>r. check_measurement_record (lib_sha L) r = Inr () \<and> finite_record r) (cou_record x)"

text \<open>The answers a call can have. An \<open>accepted_answer\<close> is a response that the constructors accept, or a failed call; tasks,
  sleeps and the closing of channels resume. The controller relies on two things more that no constructor checks
  (\<open>within_limits\<close>): the numbers of failures and records are finite, so that the codec can write them again, and
  the port of an iperf3 server is a port.\<close>

definition accepted_outcome :: "store_library \<Rightarrow> case_outcome \<Rightarrow> bool" where
  "accepted_outcome L x \<longleftrightarrow> make_case_outcome x = Inr x \<and> pred_option (\<lambda>f. check_profiling_failure f = Inr ()) (cou_failure x)
     \<and> pred_option (\<lambda>r. check_measurement_record (lib_sha L) r = Inr ()) (cou_record x)"

definition finite_outcome :: "case_outcome \<Rightarrow> bool" where
  "finite_outcome x \<longleftrightarrow> pred_option finite_failure (cou_failure x) \<and> pred_option finite_record (cou_record x)"

fun accepted_answer :: "store_library \<Rightarrow> rpc_call \<Rightarrow> rpc_answer \<Rightarrow> bool" where
  "accepted_answer L (Call_Prepare _ _) a = (case a of Lost _ _ \<Rightarrow> True | Raised _ \<Rightarrow> True
     | Prepared r \<Rightarrow> check_prepare_response r = Inr () \<and> pred_option (\<lambda>f. check_profiling_failure f = Inr ()) (prr_failure r) | _ \<Rightarrow> False)"
| "accepted_answer L (Call_Run _ _) a = (case a of Lost _ _ \<Rightarrow> True | Raised _ \<Rightarrow> True
     | Ran r \<Rightarrow> check_run_response r = Inr () \<and> pred_option (accepted_outcome L) (rrr_outcome r) | _ \<Rightarrow> False)"
| "accepted_answer L (Call_Get _ _) a = (case a of Lost _ _ \<Rightarrow> True | Raised _ \<Rightarrow> True
     | Got r \<Rightarrow> check_get_response r = Inr () \<and> pred_option (accepted_outcome L) (grr_outcome r) | _ \<Rightarrow> False)"
| "accepted_answer L (Call_Cancel _ _) a = (case a of Lost _ _ \<Rightarrow> True | Raised _ \<Rightarrow> True | Cancelled r \<Rightarrow> check_cancel_response r = Inr () | _ \<Rightarrow> False)"
| "accepted_answer L (Call_Close _ _) a = (case a of Lost _ _ \<Rightarrow> True | Raised _ \<Rightarrow> True | Closed r \<Rightarrow> check_close_response r = Inr () | _ \<Rightarrow> False)"
| "accepted_answer L (Call_Iperf _ _) a = (case a of Lost _ _ \<Rightarrow> True | Raised _ \<Rightarrow> True | Served r \<Rightarrow> check_iperf_response r = Inr () | _ \<Rightarrow> False)"
| "accepted_answer L (Call_Stop _ _) a = (case a of Lost _ _ \<Rightarrow> True | Raised _ \<Rightarrow> True | Stopped r \<Rightarrow> check_iperf_stop_response r = Inr () | _ \<Rightarrow> False)"
| "accepted_answer L _ a = (a = Resumed)"

fun within_limits :: "rpc_answer \<Rightarrow> bool" where
  "within_limits (Prepared r) = pred_option finite_failure (prr_failure r)"
| "within_limits (Ran r) = pred_option finite_outcome (rrr_outcome r)"
| "within_limits (Got r) = pred_option finite_outcome (grr_outcome r)"
| "within_limits (Served r) = pred_option (\<lambda>p. 1 \<le> p \<and> p \<le> 65535) (ipr_port r)"
| "within_limits _ = True"

definition may_answer :: "store_library \<Rightarrow> rpc_call \<Rightarrow> rpc_answer \<Rightarrow> bool" where
  "may_answer L c a \<longleftrightarrow> accepted_answer L c a \<and> within_limits a"

lemma may_answer_eq: "may_answer L = (\<lambda>c a. accepted_answer L c a \<and> within_limits a)"
  by (simp add: fun_eq_iff may_answer_def)

lemma outcome_ok_split: "outcome_ok L x \<longleftrightarrow> accepted_outcome L x \<and> finite_outcome x"
  by (cases "cou_failure x"; cases "cou_record x") (auto simp: outcome_ok_def accepted_outcome_def finite_outcome_def failure_ok_def)

lemma pred_option_both: "pred_option P x \<and> pred_option Q x \<longleftrightarrow> pred_option (\<lambda>y. P y \<and> Q y) x"
  by (cases x) auto

lemma may_answer_simps [simp]:
  "may_answer L (Call_Prepare u p) a = (case a of Lost _ _ \<Rightarrow> True | Raised _ \<Rightarrow> True
     | Prepared r \<Rightarrow> check_prepare_response r = Inr () \<and> pred_option failure_ok (prr_failure r) | _ \<Rightarrow> False)"
  "may_answer L (Call_Run u q) a = (case a of Lost _ _ \<Rightarrow> True | Raised _ \<Rightarrow> True
     | Ran r \<Rightarrow> check_run_response r = Inr () \<and> pred_option (outcome_ok L) (rrr_outcome r) | _ \<Rightarrow> False)"
  "may_answer L (Call_Get u g) a = (case a of Lost _ _ \<Rightarrow> True | Raised _ \<Rightarrow> True
     | Got r \<Rightarrow> check_get_response r = Inr () \<and> pred_option (outcome_ok L) (grr_outcome r) | _ \<Rightarrow> False)"
  "may_answer L (Call_Cancel u cq) a = (case a of Lost _ _ \<Rightarrow> True | Raised _ \<Rightarrow> True | Cancelled r \<Rightarrow> check_cancel_response r = Inr () | _ \<Rightarrow> False)"
  "may_answer L (Call_Close u cl) a = (case a of Lost _ _ \<Rightarrow> True | Raised _ \<Rightarrow> True | Closed r \<Rightarrow> check_close_response r = Inr () | _ \<Rightarrow> False)"
  "may_answer L (Call_Iperf u ip) a = (case a of Lost _ _ \<Rightarrow> True | Raised _ \<Rightarrow> True
     | Served r \<Rightarrow> check_iperf_response r = Inr () \<and> pred_option (\<lambda>p. 1 \<le> p \<and> p \<le> 65535) (ipr_port r) | _ \<Rightarrow> False)"
  "may_answer L (Call_Stop u st) a = (case a of Lost _ _ \<Rightarrow> True | Raised _ \<Rightarrow> True | Stopped r \<Rightarrow> check_iperf_stop_response r = Inr () | _ \<Rightarrow> False)"
  by (cases a; simp add: may_answer_def pred_option_both outcome_ok_split [abs_def] failure_ok_def [abs_def])+

lemma may_answer_resumes [simp]: "may_answer L Start a = (a = Resumed)" "may_answer L (Sleep d) a = (a = Resumed)"
  "may_answer L (Close_Channel u) a = (a = Resumed)"
  by (auto simp: may_answer_def)

text \<open>A coroutine runs no case but its own.\<close>

fun runs_only :: "profiling_case set \<Rightarrow> rpc_call \<Rightarrow> bool" where
  "runs_only cases (Call_Run _ q) \<longleftrightarrow> rrq_case q \<in> cases"
| "runs_only cases _ \<longleftrightarrow> True"

lemma leaves_refl: "leaves L ids s s"
  by (auto simp: leaves_def)

lemma leaves_trans: "\<lbrakk>leaves L ids s t; leaves L ids t u\<rbrakk> \<Longrightarrow> leaves L ids s u"
  by (auto simp: leaves_def intro: grows_trans)

lemma touches_refl: "touches ids s s"
  by (auto simp: touches_def)

lemma touches_trans: "\<lbrakk>touches ids s t; touches ids t u\<rbrakk> \<Longrightarrow> touches ids s u"
  by (auto simp: touches_def intro: grows_trans)

interpretation job: cooperation "leaves L ids" "touches ids" "runs_only cases" "may_answer L" for L ids cases
  by unfold_locales (rule leaves_refl, erule (1) leaves_trans, rule touches_refl, erule (1) touches_trans)

lemma touches_leaves: "\<lbrakk>touches ids s t; ids \<inter> ids' = {}\<rbrakk> \<Longrightarrow> leaves L ids' s t"
  by (auto simp: touches_def leaves_def world_ok_def)

text \<open>\<open>present cases w\<close>: the cases are stored, as they are.\<close>

definition present :: "profiling_case set \<Rightarrow> world \<Rightarrow> bool" where
  "present cases w \<longleftrightarrow> (\<forall>c \<in> cases. \<exists>row. case_row (pcs_case_id c) w = Some row \<and> stc_case row = c)"

definition ready :: "store_library \<Rightarrow> profiling_case set \<Rightarrow> world \<Rightarrow> bool" where
  "ready L cases w \<longleftrightarrow> world_ok L w \<and> present cases w"

text \<open>A report that tells what the store holds.\<close>

definition truthful :: "case_report \<Rightarrow> world \<Rightarrow> bool" where
  "truthful r w \<longleftrightarrow> terminal_state (crp_state r)
     \<and> (\<exists>row. case_row (crp_case_id r) w = Some row \<and> stc_state row = crp_state r
          \<and> (\<exists>x. crp_outcome r = Some x \<and> make_case_outcome x = Inr x \<and> stc_failure row = cou_failure x
               \<and> (case cou_record x of None \<Rightarrow> crp_state r \<noteq> CASE_COMPLETED
                  | Some m \<Rightarrow> crp_state r = CASE_COMPLETED \<and> get_measurement (mrc_measurement_id m) (pw_store w) = Some m)))"

lemma grows_measurement: "\<lbrakk>grows s t; get_measurement i s = Some r\<rbrakk> \<Longrightarrow> get_measurement i t = Some r"
  unfolding grows_def extends_def get_measurement_def by fastforce

lemma truthful_stable: "\<lbrakk>truthful r s; grows (pw_store s) (pw_store t); case_row (crp_case_id r) t = case_row (crp_case_id r) s\<rbrakk> \<Longrightarrow> truthful r t"
  unfolding truthful_def by (auto split: option.splits dest: grows_measurement) (metis grows_measurement option.inject)+

lemma present_grows: "\<lbrakk>present cases s; grows (pw_store s) (pw_store t)\<rbrakk> \<Longrightarrow> present cases t"
  unfolding present_def case_row_def grows_def extends_def by metis

lemma ready_leaves: "\<lbrakk>ready L cases s; leaves L ids s t\<rbrakk> \<Longrightarrow> ready L cases t"
  by (auto simp: ready_def leaves_def intro: present_grows)

lemma ready_touches: "\<lbrakk>ready L cases s; touches ids s t\<rbrakk> \<Longrightarrow> ready L cases t"
  by (auto simp: ready_def touches_def world_ok_def intro: present_grows)


subsection \<open>Deciding a case\<close>

text \<open>\<open>settles\<close>: a step that decides a case, reports it truthfully and touches nothing else.\<close>

definition settles :: "store_library \<Rightarrow> profiling_case set \<Rightarrow> profiling_case \<Rightarrow> (world \<Rightarrow> world \<times> case_report res) \<Rightarrow> bool" where
  "settles L cases c f \<longleftrightarrow> (\<forall>w. ready L cases w \<longrightarrow>
     (\<exists>w' r. f w = (w', Inr r) \<and> touches {pcs_case_id c} w w' \<and> crp_case_id r = pcs_case_id c \<and> truthful r w'))"

lemma settlesD:
  assumes "settles L cases c f" "ready L cases w"
  obtains w' r where "f w = (w', Inr r)" "touches {pcs_case_id c} w w'" "crp_case_id r = pcs_case_id c" "truthful r w'"
  using assms unfolding settles_def by blast

lemma update_case_result:
  assumes "case_row (pcs_case_id c) w = Some row" "pred_option finite_failure f"
  obtains w' where "on_store (update_case_state (pcs_case_id c) state f) w = (w', Inr ())" "touches {pcs_case_id c} w w'"
    "case_row (pcs_case_id c) w' = Some (row\<lparr>stc_state := state, stc_failure := f\<rparr>)" "st_measurements (pw_store w') = st_measurements (pw_store w)"
proof -
  let ?s = "(pw_store w)\<lparr>st_cases := AList.update (pcs_case_id c) (row\<lparr>stc_state := state, stc_failure := f\<rparr>) (st_cases (pw_store w))\<rparr>"
  have u: "update_case_state (pcs_case_id c) state f (pw_store w) = (?s, Inr ())" using assms by (simp add: update_case_state_def case_row_def)
  have "grows (pw_store w) ?s" using simple_ops_grow(2) [of "pw_store w" "pcs_case_id c" state f] by (simp add: u)
  with u assms(1) show thesis
    by (intro that [of "w\<lparr>pw_store := ?s\<rparr>"]) (simp_all add: on_store_def touches_def case_row_def update_conv')
qed

lemma settle_settles:
  assumes "c \<in> cases" "pred_option finite_failure f" "terminal_state state" "make_case_outcome x = Inr x" "f = cou_failure x"
    "cou_record x = None" "state \<noteq> CASE_COMPLETED"
  shows "settles L cases c (settle c state f (Inr x) detail)"
  unfolding settles_def
proof (intro allI impI)
  fix w
  assume "ready L cases w"
  then obtain row where row: "case_row (pcs_case_id c) w = Some row" using assms(1) by (auto simp: ready_def present_def)
  obtain w' where w': "on_store (update_case_state (pcs_case_id c) state f) w = (w', Inr ())" "touches {pcs_case_id c} w w'"
    "case_row (pcs_case_id c) w' = Some (row\<lparr>stc_state := state, stc_failure := f\<rparr>)" by (rule update_case_result [OF row assms(2)])
  with assms(3-) show "\<exists>w' r. settle c state f (Inr x) detail w = (w', Inr r) \<and> touches {pcs_case_id c} w w' \<and> crp_case_id r = pcs_case_id c \<and> truthful r w'"
    by (simp add: settle_def truthful_def)
qed

lemma record_failure_settles: "\<lbrakk>c \<in> cases; failure_ok f\<rbrakk> \<Longrightarrow> settles L cases c (record_failure c f detail)"
  using settle_settles [of c cases "Some f" CASE_FAILED "\<lparr>cou_record = None, cou_failure = Some f\<rparr>" L detail]
  by (simp add: record_failure_def from_failure_def make_case_outcome_def failure_ok_def terminal_state_def)

lemma failures_ok:
  "failure_ok (rejection_failure reason detail ''PrepareProfilingSession'')" "failure_ok (rejection_failure reason detail ''RunProfilingCase'')"
  "failure_ok (rejection_failure reason detail ''PrepareIperfServer'')"
  "failure_ok (transport_failure code text' ''PrepareProfilingSession'')" "failure_ok (transport_failure code text' ''RunProfilingCase'')"
  "failure_ok (transport_failure code text' ''PrepareIperfServer'')" "failure_ok (unexpected_failure what shown)" "message \<noteq> [] \<Longrightarrow> failure_ok (plain_failure category message)"
  by (simp_all add: failure_ok_def failures_valid)
    (auto simp: finite_failure_def rejection_failure_def transport_failure_def unexpected_failure_def plain_failure_def Let_def split: option.split)

lemma record_cancelled_settles: "c \<in> cases \<Longrightarrow> settles L cases c (record_cancelled c detail)"
  using settle_settles [of c cases "Some (plain_failure ERROR_CANCELLED ''case cancelled by the Master'')" CASE_CANCELLED
      "\<lparr>cou_record = None, cou_failure = Some (plain_failure ERROR_CANCELLED ''case cancelled by the Master'')\<rparr>" L detail]
  by (simp add: record_cancelled_def from_failure_def make_case_outcome_def plain_failure_def finite_failure_def Let_def terminal_state_def)

lemma settles_if: "\<lbrakk>b \<Longrightarrow> settles L cases c f; \<not> b \<Longrightarrow> settles L cases c g\<rbrakk> \<Longrightarrow> settles L cases c (\<lambda>w. if b then f w else g w)"
  by (simp add: settles_def)

lemma missing_and_attribution_ok: "failure_ok (missing_facts_failure missing)" "failure_ok (attribution_failure c device)"
  by (auto simp: failure_ok_def missing_facts_failure_def attribution_failure_def plain_failure_def check_profiling_failure_def non_empty_def
      check_normalized_items_def finite_failure_def split: option.split)

lemma expected_device_total: "case_ok L c \<Longrightarrow> \<exists>d. expected_device c = Inr d"
  by (cases "pcs_spec c") (auto simp: expected_device_def case_ok_def first_device_def elim!: valid_model_case)

lemma persist_record_settles:
  assumes c: "c \<in> cases" "case_ok L c" and x: "outcome_ok L x" "cou_record x = Some r"
  shows "settles L cases c (persist_record L c x r)"
  unfolding settles_def
proof (intro allI impI)
  fix w
  assume ready: "ready L cases w"
  let ?goal = "\<lambda>f. \<exists>w' r. f = (w', Inr r) \<and> touches {pcs_case_id c} w w' \<and> crp_case_id r = pcs_case_id c \<and> truthful r w'"
  have failed: "?goal (record_failure c f detail w)" if "failure_ok f" for f detail
    using record_failure_settles [OF c(1) that] ready by (auto simp: settles_def)
  obtain device where device: "expected_device c = Inr device" using expected_device_total [OF c(2)] by blast
  show "?goal (persist_record L c x r w)"
  proof (cases "mrc_case_id r = pcs_case_id c \<and> attributed c device r")
    case False
    with device show ?thesis
      using failed failures_ok(8) missing_and_attribution_ok by (auto simp: persist_record_def)
  next
    case True
    obtain row where row: "case_row (pcs_case_id c) w = Some row" "stc_case row = c" using ready c(1) by (auto simp: ready_def present_def)
    obtain s y where s: "append_measurement L (ce_wall (pw_call w)) r (pw_store w) = (s, y)" by fastforce
    let ?w = "w\<lparr>pw_store := s\<rparr>"
    have res: "(\<exists>b. y = Inr b) \<or> (\<exists>m. y = Inl (ProfileStoreError m))" "\<And>b. y = Inr b \<Longrightarrow> get_measurement (mrc_measurement_id r) s = Some r"
      "st_cases s = st_cases (pw_store w)" "st_experiments s = st_experiments (pw_store w)"
      using ready row c x append_measurement_result [of L r "ce_wall (pw_call w)" "pw_store w" row s y] True characterizations_same(3) [of L "ce_wall (pw_call w)" r "pw_store w"]
      by (auto simp: s ready_def world_ok_def env_ok_def outcome_ok_def case_row_def)
    have t: "touches {pcs_case_id c} w ?w" using measurement_grows [of "pw_store w" L "ce_wall (pw_call w)" r] res(3,4) by (simp add: s touches_def case_row_def)
    have row': "case_row (pcs_case_id c) ?w = Some row" using row(1) res(3) by (simp add: case_row_def)
    have eq: "persist_record L c x r w = (case y of
        Inl (ProfileStoreError e) \<Rightarrow> record_failure c (plain_failure INTERNAL_ERROR (''persisting the measurement failed: '' @ e)) ''store failure; the case replays on resume'' ?w
      | Inl e \<Rightarrow> (?w, Inl e) | Inr _ \<Rightarrow> settle c CASE_COMPLETED None (Inr x) [] ?w)"
      using True device by (simp add: persist_record_def on_store_def s split: sum.split exn.split)
    from res(1) show ?thesis
    proof (elim disjE exE)
      fix m
      assume m: "y = Inl (ProfileStoreError m)"
      have ok: "failure_ok (plain_failure INTERNAL_ERROR (''persisting the measurement failed: '' @ m))" by (rule failures_ok) simp
      obtain w' z where f: "record_failure c (plain_failure INTERNAL_ERROR (''persisting the measurement failed: '' @ m)) ''store failure; the case replays on resume'' ?w = (w', Inr z)"
        "touches {pcs_case_id c} ?w w'" "crp_case_id z = pcs_case_id c" "truthful z w'"
        by (rule settlesD [OF record_failure_settles [OF c(1) ok] ready_touches [OF ready t]])
      show ?thesis unfolding eq m sum.case exn.case f(1) using f(3,4) touches_trans [OF t f(2)] by blast
    next
      fix b
      assume b: "y = Inr b"
      have none: "pred_option finite_failure None" by simp
      obtain w' where w': "on_store (update_case_state (pcs_case_id c) CASE_COMPLETED None) ?w = (w', Inr ())" "touches {pcs_case_id c} ?w w'"
        "case_row (pcs_case_id c) w' = Some (row\<lparr>stc_state := CASE_COMPLETED, stc_failure := None\<rparr>)" "st_measurements (pw_store w') = st_measurements (pw_store ?w)"
        by (rule update_case_result [OF row' none])
      have "cou_failure x = None" "make_case_outcome x = Inr x" using x by (auto simp: outcome_ok_def make_case_outcome_def)
      with w' b res(2) x(2) touches_trans [OF t w'(2)] show ?thesis
        by (simp add: eq settle_def truthful_def get_measurement_def terminal_state_def)
    qed
  qed
qed

lemma persist_outcome_settles: "\<lbrakk>c \<in> cases; case_ok L c; outcome_ok L x\<rbrakk> \<Longrightarrow> settles L cases c (persist_outcome L c x)"
proof (cases "cou_record x")
  case None
  assume "c \<in> cases" "outcome_ok L x"
  with None settle_settles [of c cases "cou_failure x" CASE_FAILED x L "[]"] show ?thesis
    by (cases "cou_failure x") (simp_all add: persist_outcome_def outcome_ok_def failure_ok_def terminal_state_def make_case_outcome_def settles_def)
next
  case (Some r)
  assume "c \<in> cases" "case_ok L c" "outcome_ok L x"
  from persist_record_settles [OF this Some] Some show ?thesis by (simp add: persist_outcome_def settles_def)
qed

lemma finish_case_settles:
  assumes "c \<in> cases" "case_ok L c" "pred_option (outcome_ok L) (rrr_outcome r)"
  shows "settles L cases c (finish_case L c r)"
  using assms record_failure_settles [OF assms(1) failures_ok(2)] record_failure_settles [OF assms(1) failures_ok(8)] persist_outcome_settles [OF assms(1,2)]
  by (cases "rrr_outcome r") (simp_all add: finish_case_def)

lemma settle_lost_race_settles:
  assumes "c \<in> cases" "case_ok L c" "pred_option (outcome_ok L) x"
  shows "settles L cases c (settle_lost_race L c state x)"
proof (cases x)
  case (Some y)
  with assms(3) have "settles L cases c (persist_outcome L c y)" by (intro persist_outcome_settles assms) simp
  then show ?thesis unfolding settles_def settle_lost_race_def Some by (fastforce simp: truthful_def split: option.splits)
qed (use record_cancelled_settles [OF assms(1)] in \<open>simp add: settle_lost_race_def settles_def\<close>)


subsection \<open>Waiting\<close>

text \<open>\<open>frame\<close>: what a coroutine wants to remember while it waits.\<close>

definition frame :: "store_library \<Rightarrow> string set \<Rightarrow> (world \<Rightarrow> bool) \<Rightarrow> bool" where
  "frame L ids F \<longleftrightarrow> (\<forall>s t. F s \<longrightarrow> leaves L ids s t \<longrightarrow> F t)"

definition steady :: "store_library \<Rightarrow> profiling_case set \<Rightarrow> (world \<Rightarrow> bool) \<Rightarrow> world \<Rightarrow> bool" where
  "steady L cases F w \<longleftrightarrow> ready L cases w \<and> F w"

lemma steady_leaves: "\<lbrakk>frame L ids F; steady L cases F s; leaves L ids s t\<rbrakk> \<Longrightarrow> steady L cases F t"
  unfolding steady_def frame_def using ready_leaves by blast

definition yields :: "store_library \<Rightarrow> profiling_case set \<Rightarrow> (world \<Rightarrow> bool) \<Rightarrow> ('a \<Rightarrow> bool) \<Rightarrow> 'a res \<Rightarrow> world \<Rightarrow> bool" where
  "yields L cases F good r w \<longleftrightarrow> steady L cases F w \<and> (\<exists>x. r = Inr x \<and> good x)"

lemma then_rule:
  assumes "job.triple L ids cs P m (yields L cases F good)" "\<And>x. good x \<Longrightarrow> job.triple L ids cs (steady L cases F) (f x) Q"
  shows "job.triple L ids cs P (and_run m f) Q"
proof (rule job.chain_rule [OF assms(1)])
  show "job.triple L ids cs (yields L cases F good (Inr y)) (f y) Q" for y
    using assms(2) [of y] by (auto simp: job.triple_def yields_def)
qed (simp add: yields_def)

lemma yield_rule: "good x \<Longrightarrow> job.triple L ids cs (steady L cases F) (done_with (Inr x)) (yields L cases F good)"
  by (rule job.done_rule) (simp add: yields_def)

lemma call_yields:
  assumes "frame L ids F" "runs_only cs c"
  shows "job.triple L ids cs (steady L cases F) (call_for c) (yields L cases F (may_answer L c))"
  using assms by (intro job.call_rule) (auto simp: yields_def intro: steady_leaves)

lemma resumed_yields:
  assumes "frame L ids F" "c = Start \<or> c = Sleep d \<or> c = Close_Channel e"
  shows "job.triple L ids cs (steady L cases F) (await_resumed c) (yields L cases F (\<lambda>_. True))"
  unfolding await_resumed_def
  by (rule then_rule [OF call_yields [OF assms(1)]]) (use assms(2) in \<open>auto intro!: yield_rule\<close>)

lemma look_yields: "(\<And>w. steady L cases F w \<Longrightarrow> \<exists>x. f w = Inr x \<and> good x) \<Longrightarrow> job.triple L ids cs (steady L cases F) (look f) (yields L cases F good)"
  by (rule job.look_rule) (simp add: yields_def)

definition tokens_ok :: "string \<Rightarrow> dispatch_tokens \<Rightarrow> bool" where
  "tokens_ok worker t \<longleftrightarrow> worker \<noteq> [] \<and> rgt_worker_id (dtk_tokens t) = worker \<and> rgt_instance_id (dtk_tokens t) \<noteq> [] \<and> rgt_registration_session_id (dtk_tokens t) \<noteq> []"

lemma check_tokens_ok: "\<lbrakk>tokens_ok worker t; sid \<noteq> []\<rbrakk> \<Longrightarrow> check_tokens (dtk_tokens t) sid = Inr ()"
  by (auto simp: tokens_ok_def check_tokens_def)

lemma resolve_tokens_ok:
  assumes "world_ok L w"
  shows "case resolve_tokens worker w of Inl f \<Rightarrow> failure_ok f | Inr t \<Rightarrow> tokens_ok worker t"
proof (cases "resolve_tokens worker w")
  case (Inl f)
  then have "\<exists>m. m \<noteq> [] \<and> f = plain_failure NETWORK_UNREACHABLE m" by (auto simp: resolve_tokens_def split: option.splits)
  with Inl failures_ok(8) show ?thesis by auto
next
  case (Inr t)
  then obtain r info where r: "map_of (ms_registry (pw_master w)) worker = Some r" "map_of (ms_sessions (pw_master w)) worker = Some info"
    "t = \<lparr>dtk_tokens = \<lparr>rgt_worker_id = worker, rgt_instance_id = si_instance_id info, rgt_registration_session_id = si_session_id info\<rparr>, dtk_endpoint = the (wr_profiling_endpoint r)\<rparr>"
    by (auto simp: resolve_tokens_def split: option.splits)
  have "master_ok (lib_sha L) (pw_master w)" using assms reachable_ok by (auto simp: world_ok_def)
  from master_okD [OF this r(1)] r(2) obtain e where "entry_ok (lib_sha L) worker r info e" by (metis option.inject)
  with Inr r(3) show ?thesis by (simp add: tokens_ok_def entry_ok_def)
qed

lemma network_facts_total:
  assumes "world_ok L w"
  shows "\<exists>facts. cluster_network_facts w = Inr facts"
proof -
  let ?m = "pw_master w" and ?env = "pw_call w"
  have m: "master_ok (lib_sha L) ?m" and env: "env_ok ?env" using assms reachable_ok by (auto simp: world_ok_def)
  have "\<exists>f. facts_of_worker (snapshot_of ?env ?m i) = Inr f" if "i \<in> set (sort (map fst (ms_registry ?m)))" for i
  proof -
    from that obtain r where "map_of (ms_registry ?m) i = Some r" by (metis domD dom_map_of_conv_image_fst list.set_map set_sort)
    then show ?thesis
      by (auto simp: facts_of_worker_def check_worker_network_facts_def snapshot_of_def entry_ok_def Let_def elim!: master_okD [OF m])
  qed
  then obtain g where "\<And>i. i \<in> set (sort (map fst (ms_registry ?m))) \<Longrightarrow> facts_of_worker (snapshot_of ?env ?m i) = Inr (g i)" by metis
  then have "traverse_res (\<lambda>x. map_res (Pair (wi_worker_id (sn_identity x))) (facts_of_worker x)) (map (snapshot_of ?env ?m) (sort (map fst (ms_registry ?m))))
      = Inr (map (\<lambda>i. (wi_worker_id (sn_identity (snapshot_of ?env ?m i)), g i)) (sort (map fst (ms_registry ?m))))"
    by (simp add: traverse_res_Inr list_all2_map1 list_all2_map2 list_all2_same)
  then show ?thesis by (simp add: cluster_network_facts_def build_snapshot_ok [OF m env])
qed


subsection \<open>Sessions\<close>

definition prepared_ok :: "profiling_failure + prepare_response \<Rightarrow> bool" where
  "prepared_ok x \<longleftrightarrow> (\<forall>f. x = Inl f \<longrightarrow> failure_ok f)"

lemma prepared_Inl: "failure_ok f \<Longrightarrow> prepared_ok (Inl f)"
  by (simp add: prepared_ok_def)

lemma prepare_verdict_ok: "pred_option failure_ok (prr_failure r) \<Longrightarrow> prepared_ok (prepare_verdict r)"
  using failures_ok(1) by (auto simp: prepare_verdict_def prepared_ok_def split: option.splits)

lemma prepare_attempts_yields:
  assumes "frame L ids F"
  shows "job.triple L ids cs (steady L cases F) (prepare_attempts endpoint q delays) (yields L cases F prepared_ok)"
proof (induction delays)
  case Nil
  show ?case
    unfolding prepare_attempts.simps
    by (rule then_rule [OF call_yields [OF assms]])
      (auto split: rpc_answer.splits intro!: yield_rule prepare_verdict_ok prepared_Inl failures_ok)
next
  case (Cons d delays)
  show ?case
    unfolding prepare_attempts.simps
    by (rule then_rule [OF call_yields [OF assms]])
      (auto split: rpc_answer.splits intro!: yield_rule prepare_verdict_ok then_rule [OF resumed_yields [OF assms]] Cons.IH prepared_Inl failures_ok)
qed

lemma prepare_session_yields:
  assumes "frame L ids F" "tokens_ok worker t" "sid \<noteq> []" "psr_kind request = NETWORK_SESSION \<longleftrightarrow> facts \<noteq> []"
  shows "job.triple L ids cs (steady L cases F) (prepare_session t sid request facts) (yields L cases F prepared_ok)"
proof -
  let ?q = "\<lparr>prq_tokens = dtk_tokens t, prq_session_id = sid, prq_session_request = request, prq_network_facts = facts\<rparr>"
  have "built check_prepare_request ?q = Inr ?q" using assms(2-4) by (simp add: check_prepare_request_def check_tokens_ok)
  then show ?thesis
    unfolding prepare_session_def
    by (simp only:) (rule then_rule [OF yield_rule [where good = "\<lambda>_. True"]], simp, rule prepare_attempts_yields [OF assms(1)])
qed

lemma close_attempts_yields:
  assumes "frame L ids F"
  shows "n \<noteq> 0 \<or> failure \<noteq> None \<Longrightarrow> job.triple L ids cs (steady L cases F) (close_attempts endpoint q n failure) (yields L cases F (\<lambda>_. True))"
proof (induction n arbitrary: failure)
  case 0
  then show ?case by (auto intro!: yield_rule)
next
  case (Suc n)
  show ?case
    unfolding close_attempts.simps
    by (rule then_rule [OF call_yields [OF assms]]) (auto split: rpc_answer.splits intro!: yield_rule Suc.IH)
qed

lemma close_session_yields:
  assumes "frame L ids F" "tokens_ok worker t" "sid \<noteq> []"
  shows "job.triple L ids cs (steady L cases F) (close_session_uncancelled t sid) (yields L cases F (\<lambda>_. True))"
proof -
  let ?q = "\<lparr>clq_tokens = dtk_tokens t, clq_session_id = sid\<rparr>"
  have "built check_close_request ?q = Inr ?q" using assms(2,3) by (simp add: check_close_request_def check_tokens_ok)
  then show ?thesis
    unfolding close_session_uncancelled_def close_remote_session_def
    by (simp only:) (intro then_rule [OF resumed_yields [OF assms(1)]] then_rule [OF yield_rule [where good = "\<lambda>_. True"]] close_attempts_yields [OF assms(1)], auto)
qed


subsection \<open>The iperf3 server\<close>

definition lease_ok :: "iperf_lease \<Rightarrow> bool" where
  "lease_ok l \<longleftrightarrow> (\<exists>worker. tokens_ok worker (ilz_target l)) \<and> ilz_server_id l \<noteq> [] \<and> 1 \<le> ilz_port l \<and> ilz_port l \<le> 65535"

definition lease_answer_ok :: "profiling_failure + iperf_lease \<Rightarrow> bool" where
  "lease_answer_ok x \<longleftrightarrow> (case x of Inl f \<Rightarrow> failure_ok f | Inr l \<Rightarrow> lease_ok l)"

lemma lease_answer_simps [simp]: "lease_answer_ok (Inl f) = failure_ok f" "lease_answer_ok (Inr l) = lease_ok l"
  by (simp_all add: lease_answer_ok_def)

lemma closing_yields:
  assumes "frame L ids F" "good x"
  shows "job.triple L ids cs (steady L cases F) (closing_with endpoint x) (yields L cases F good)"
  unfolding closing_with_def
  by (rule then_rule [OF resumed_yields [OF assms(1)]]) (auto intro: yield_rule assms(2))

lemma show_ipv4_nonempty: "show_ipv4 a \<noteq> []"
  by (simp add: show_ipv4_def Let_def)

lemma selected_address_nonempty: "selected_ipv4_address f i = Some a \<Longrightarrow> a \<noteq> []"
  by (auto simp: selected_ipv4_address_def show_ipv4_nonempty split: option.splits list.splits)

lemma iperf_request_ok:
  assumes "case_ok L c" "pcs_spec c = Network_Case s" "ncs_probe_kind s = BANDWIDTH" "tokens_ok worker t" "a \<noteq> []" "\<And>x. lib_sha L x \<noteq> []"
  shows "\<exists>q. iperf_request_for (lib_sha L) c s t a = Inr q \<and> ipq_server_id q \<noteq> []"
proof -
  obtain d where d: "ncs_duration_s s = Some d" "\<not> float_le d (Fin 0)"
    using assms(1-3) by (auto simp: case_ok_def check_profiling_case_def check_network_case_spec_def check_probe_def positive_float_def)
  then have "\<not> float_le (plus_seconds d 30) (Fin 0)" by (cases d) auto
  then show ?thesis
    using assms(4-6) d(1)
    by (simp add: iperf_request_for_def canonical_sha256_total check_iperf_request_def check_server_tokens_def tokens_ok_def del: dumps.simps)
qed

lemma request_server_yields:
  assumes F: "frame L ids F" and c: "case_ok L c" "pcs_spec c = Network_Case s" "ncs_probe_kind s = BANDWIDTH" and sha: "\<And>x. lib_sha L x \<noteq> []"
    and t: "tokens_ok worker t" "a \<noteq> []"
  shows "job.triple L ids cs (steady L cases F) (request_iperf_server (lib_sha L) c s t a) (yields L cases F lease_answer_ok)"
proof -
  obtain q where q: "iperf_request_for (lib_sha L) c s t a = Inr q" "ipq_server_id q \<noteq> []" using iperf_request_ok [OF c t sha] by blast
  show ?thesis
    unfolding request_iperf_server_def q(1)
    by (rule then_rule [OF yield_rule [where good = "\<lambda>x. x = q"]], simp, rule then_rule [OF call_yields [OF F]])
      (use t q(2) in \<open>auto split: rpc_answer.splits option.splits intro!: closing_yields [OF F] yield_rule failures_ok simp: lease_ok_def\<close>)
qed

lemma prepare_remote_yields:
  assumes F: "frame L ids F" and c: "case_ok L c" "pcs_spec c = Network_Case s" "ncs_probe_kind s = BANDWIDTH" and sha: "\<And>x. lib_sha L x \<noteq> []"
  shows "job.triple L ids cs (steady L cases F) (prepare_remote_iperf_server (lib_sha L) c s) (yields L cases F lease_answer_ok)"
proof -
  let ?w = "ncs_destination_worker_id s"
  let ?resolved = "\<lambda>x. case x of Inl f \<Rightarrow> failure_ok f | Inr t \<Rightarrow> tokens_ok ?w t"
  have resolve: "job.triple L ids cs (steady L cases F) (look (\<lambda>w. Inr (resolve_tokens ?w w))) (yields L cases F ?resolved)"
    using resolve_tokens_ok [of L _ ?w] by (intro look_yields) (simp add: steady_def ready_def)
  have address: "job.triple L ids cs (steady L cases F) (look (destination_address s)) (yields L cases F (\<lambda>a. a \<noteq> Some []))"
    using network_facts_total [of L] selected_address_nonempty
    by (intro look_yields) (fastforce simp: steady_def ready_def destination_address_def bind_eq_Some_conv)
  show ?thesis
    unfolding prepare_remote_iperf_server_def
    by (rule then_rule [OF resolve])
      (auto split: sum.splits option.splits intro!: yield_rule then_rule [OF address] closing_yields [OF F] request_server_yields [OF F c sha] failures_ok)
qed

lemma stop_remote_yields:
  assumes "frame L ids F" "lease_ok l"
  shows "job.triple L ids cs (steady L cases F) (stop_remote_iperf_server l) (yields L cases F (\<lambda>_. True))"
proof -
  let ?q = "\<lparr>isq_tokens = dtk_tokens (ilz_target l), isq_server_id = ilz_server_id l\<rparr>"
  have "built check_iperf_stop_request ?q = Inr ?q" using assms(2) by (auto simp: lease_ok_def tokens_ok_def check_iperf_stop_request_def check_server_tokens_def)
  then show ?thesis
    unfolding stop_remote_iperf_server_def
    by (simp only:) (intro then_rule [OF yield_rule [where good = "\<lambda>_. True"]] then_rule [OF call_yields [OF assms(1)]] resumed_yields [OF assms(1)], auto)
qed


subsection \<open>One case\<close>

definition keeps :: "store_library \<Rightarrow> string set \<Rightarrow> profiling_case \<Rightarrow> (world \<Rightarrow> bool) \<Rightarrow> bool" where
  "keeps L ids c F \<longleftrightarrow> pcs_case_id c \<in> ids \<and> frame L ids F \<and> (\<forall>s t. F s \<longrightarrow> touches {pcs_case_id c} s t \<longrightarrow> F t)"

lemma keepsD: "keeps L ids c F \<Longrightarrow> frame L ids F"
  by (simp add: keeps_def)

definition concluded :: "store_library \<Rightarrow> profiling_case set \<Rightarrow> (world \<Rightarrow> bool) \<Rightarrow> profiling_case \<Rightarrow> case_report res \<Rightarrow> world \<Rightarrow> bool" where
  "concluded L cases F c r w \<longleftrightarrow> steady L cases F w \<and> (\<exists>rep. r = Inr rep \<and> crp_case_id rep = pcs_case_id c \<and> truthful rep w)"

lemma frame_truthful: "\<lbrakk>frame L ids F; crp_case_id rep \<in> ids\<rbrakk> \<Longrightarrow> frame L ids (\<lambda>w. F w \<and> truthful rep w)"
  unfolding frame_def by (meson leaves_def truthful_stable)

lemma touches_more: "\<lbrakk>touches {i} s t; i \<in> ids\<rbrakk> \<Longrightarrow> touches ids s t"
  by (auto simp: touches_def)

lemma settle_rule:
  assumes "settles L cases c f" "keeps L ids c F"
  shows "job.triple L ids cs (steady L cases F) (do_now f) (concluded L cases F c)"
proof (rule job.do_now_rule)
  fix s s' x
  assume pre: "steady L cases F s" and f: "f s = (s', x)"
  then obtain r where "x = Inr r" "touches {pcs_case_id c} s s'" "crp_case_id r = pcs_case_id c" "truthful r s'"
    using settlesD [OF assms(1)] unfolding steady_def by (metis prod.inject)
  moreover from this pre assms(2) have "touches ids s s'" "steady L cases F s'"
    unfolding keeps_def steady_def using touches_more ready_touches by metis+
  ultimately show "touches ids s s' \<and> concluded L cases F c x s'" by (simp add: concluded_def)
qed

lemma running_yields:
  assumes "c \<in> cases" "keeps L ids c F"
  shows "job.triple L ids cs (steady L cases F) (do_now (on_store (update_case_state (pcs_case_id c) CASE_RUNNING None))) (yields L cases F (\<lambda>_. True))"
proof (rule job.do_now_rule)
  fix s s' x
  assume pre: "steady L cases F s" and f: "on_store (update_case_state (pcs_case_id c) CASE_RUNNING None) s = (s', x)"
  obtain row where row: "case_row (pcs_case_id c) s = Some row" using pre assms(1) by (auto simp: steady_def ready_def present_def)
  have none: "pred_option finite_failure None" by simp
  from update_case_result [OF row none, of CASE_RUNNING] f have t: "x = Inr ()" "touches {pcs_case_id c} s s'" by (metis prod.inject)+
  with pre assms(2) have "touches ids s s'" "steady L cases F s'"
    unfolding keeps_def steady_def using touches_more ready_touches by metis+
  with t(1) show "touches ids s s' \<and> yields L cases F (\<lambda>_. True) x s'" by (simp add: yields_def)
qed

definition dispatched :: "store_library \<Rightarrow> profiling_case set \<Rightarrow> (world \<Rightarrow> bool) \<Rightarrow> profiling_case \<Rightarrow> (case_report + run_response) res \<Rightarrow> world \<Rightarrow> bool" where
  "dispatched L cases F c x w \<longleftrightarrow> steady L cases F w \<and> (case x of
     Inl _ \<Rightarrow> False
   | Inr (Inl rep) \<Rightarrow> crp_case_id rep = pcs_case_id c \<and> truthful rep w
   | Inr (Inr r) \<Rightarrow> pred_option (outcome_ok L) (rrr_outcome r))"

lemma report_rule:
  assumes "job.triple L ids cs P m (concluded L cases F c)"
  shows "job.triple L ids cs P (and_run m (\<lambda>r. done_with (Inr (Inl r)))) (dispatched L cases F c)"
  by (rule job.chain_rule [OF assms]) (auto intro!: job.done_rule simp: concluded_def dispatched_def)

lemma dispatch_case_rule:
  assumes "c \<in> cases" "keeps L ids c F" "rrq_case q = c" "c \<in> cs"
  shows "job.triple L ids cs (steady L cases F) (dispatch_case endpoint q c) (dispatched L cases F c)"
proof -
  have run: "runs_only cs (Call_Run endpoint q)" using assms(3,4) by simp
  have done': "job.triple L ids cs (steady L cases F) (done_with (Inr (Inr r))) (dispatched L cases F c)" if "pred_option (outcome_ok L) (rrr_outcome r)" for r
    using that by (intro job.done_rule) (simp add: dispatched_def)
  show ?thesis
    unfolding dispatch_case_def
    by (rule then_rule [OF call_yields [OF keepsD [OF assms(2)] run]])
      (auto split: rpc_answer.splits intro!: done' report_rule settle_rule [OF _ assms(2)] record_failure_settles [OF assms(1)] failures_ok)
qed

lemma clean_up_rule:
  assumes "keeps L ids c F" "\<And>F'. frame L ids F' \<Longrightarrow> job.triple L ids cs (steady L cases F') m (yields L cases F' (\<lambda>_. True))"
  shows "job.triple L ids cs (dispatched L cases F c x) m (\<lambda>y w. case y of Inl e \<Rightarrow> dispatched L cases F c (Inl e) w | Inr _ \<Rightarrow> dispatched L cases F c x w)"
proof -
  consider (report) rep where "x = Inr (Inl rep)" "crp_case_id rep = pcs_case_id c" | (response) r where "x = Inr (Inr r)" "pred_option (outcome_ok L) (rrr_outcome r)" | (no) "\<And>w. \<not> dispatched L cases F c x w"
    by (cases x; cases "projr x"; force simp: dispatched_def)
  then show ?thesis
  proof cases
    case report
    with assms(1) have "frame L ids (\<lambda>w. F w \<and> truthful rep w)" by (intro frame_truthful) (simp_all add: keeps_def)
    from assms(2) [OF this] show ?thesis
      by (rule job.conseq_rule) (auto simp: dispatched_def report steady_def yields_def)
  next
    case response
    from assms(2) [OF keepsD [OF assms(1)]] show ?thesis
      by (rule job.conseq_rule [where P' = "steady L cases F"]) (auto simp: dispatched_def response yields_def)
  qed (simp add: job.triple_def)
qed

lemma run_with_lease_rule:
  assumes "c \<in> cases" "case_ok L c" "keeps L ids c F" "c \<in> cs" "tokens_ok (pcs_worker_id c) t" "sid \<noteq> []" "pred_option lease_ok lease"
  shows "job.triple L ids cs (steady L cases F) (run_with_lease L t sid c lease) (concluded L cases F c)"
proof -
  let ?q = "\<lparr>rrq_tokens = dtk_tokens t, rrq_session_id = sid, rrq_case = c, rrq_iperf_server_port = map_option ilz_port lease\<rparr>"
  have q: "built check_run_request ?q = Inr ?q"
    using assms(5-7) by (cases lease) (auto simp: check_run_request_def check_tokens_ok [OF assms(5,6)] tokens_ok_def lease_ok_def)
  have stop: "job.triple L ids cs (steady L cases F') (case lease of None \<Rightarrow> done_with (Inr ()) | Some l \<Rightarrow> stop_remote_iperf_server l) (yields L cases F' (\<lambda>_. True))"
    if "frame L ids F'" for F'
    using assms(7) by (cases lease) (auto intro!: yield_rule stop_remote_yields [OF that])
  have finish: "job.triple L ids cs (dispatched L cases F c (Inr y)) (case y of Inl r \<Rightarrow> done_with (Inr r) | Inr r \<Rightarrow> do_now (finish_case L c r)) (concluded L cases F c)" for y
  proof (cases y)
    case (Inl r)
    then show ?thesis by (auto intro!: job.done_rule simp: dispatched_def concluded_def)
  next
    case (Inr r)
    show ?thesis
    proof (cases "pred_option (outcome_ok L) (rrr_outcome r)")
      case True
      show ?thesis
        unfolding Inr sum.case
        by (rule job.weaken_rule [OF settle_rule [OF finish_case_settles [OF assms(1,2) True] assms(3)]]) (simp add: dispatched_def)
    qed (simp add: Inr job.triple_def dispatched_def)
  qed
  show ?thesis
    unfolding run_with_lease_def q
    by (rule then_rule [OF yield_rule [where good = "\<lambda>x. x = ?q"]], simp)
      (rule job.chain_rule [OF job.finally_rule [OF dispatch_case_rule [OF assms(1,3) _ assms(4)] clean_up_rule [OF assms(3) stop]] finish];
        simp add: dispatched_def)
qed

lemma run_case_rule:
  assumes "c \<in> cases" "case_ok L c" "keeps L ids c F" "c \<in> cs" "tokens_ok (pcs_worker_id c) t" "sid \<noteq> []" "\<And>x. lib_sha L x \<noteq> []"
  shows "job.triple L ids cs (steady L cases F) (run_case L t sid c) (concluded L cases F c)"
proof -
  let ?good = "\<lambda>x. case x of Inl f \<Rightarrow> failure_ok f | Inr l \<Rightarrow> pred_option lease_ok l"
  have server: "job.triple L ids cs (steady L cases F) (iperf_server_for (lib_sha L) c) (yields L cases F ?good)"
  proof (cases "bandwidth_spec (pcs_spec c)")
    case None
    then show ?thesis by (simp add: iperf_server_for_def) (rule yield_rule, simp)
  next
    case (Some s)
    then have spec: "pcs_spec c = Network_Case s" "ncs_probe_kind s = BANDWIDTH" by (cases "pcs_spec c"; auto split: if_splits)+
    show ?thesis
      unfolding iperf_server_for_def Some option.case
      by (rule then_rule [OF prepare_remote_yields [OF keepsD [OF assms(3)] assms(2) spec assms(7)]]) (auto intro!: yield_rule simp: lease_answer_ok_def split: sum.splits)
  qed
  show ?thesis
    unfolding run_case_def
    by (rule then_rule [OF running_yields [OF assms(1,3)]], rule then_rule [OF server])
      (auto split: sum.splits intro!: settle_rule [OF record_failure_settles [OF assms(1)] assms(3)] run_with_lease_rule assms)
qed


subsection \<open>Many cases\<close>

abbreviation with_reports :: "(world \<Rightarrow> bool) \<Rightarrow> case_report list \<Rightarrow> world \<Rightarrow> bool" where
  "with_reports F reps \<equiv> \<lambda>w. F w \<and> (\<forall>rep \<in> set reps. truthful rep w)"

definition covers :: "store_library \<Rightarrow> profiling_case set \<Rightarrow> (world \<Rightarrow> bool) \<Rightarrow> profiling_case list \<Rightarrow> case_report list res \<Rightarrow> world \<Rightarrow> bool" where
  "covers L cases F cs r w \<longleftrightarrow> (\<exists>reps. r = Inr reps \<and> mset (map crp_case_id reps) = mset (map pcs_case_id cs) \<and> steady L cases (with_reports F reps) w)"

lemma frame_reports: "\<lbrakk>frame L ids F; crp_case_id ` set reps \<subseteq> ids\<rbrakk> \<Longrightarrow> frame L ids (with_reports F reps)"
proof (induction reps)
  case (Cons rep reps)
  then have "frame L ids (\<lambda>w. (F w \<and> (\<forall>rep \<in> set reps. truthful rep w)) \<and> truthful rep w)" by (intro frame_truthful) auto
  then show ?case by (simp add: conj_ac cong: conj_cong)
qed simp

lemma keeps_reports:
  assumes "keeps L ids c F" "crp_case_id ` set reps \<subseteq> ids - {pcs_case_id c}"
  shows "keeps L ids c (with_reports F reps)"
proof -
  have "truthful rep t" if "rep \<in> set reps" "truthful rep s" "touches {pcs_case_id c} s t" for rep s t
    using that assms(2) by (intro truthful_stable [of rep s t]) (auto simp: touches_def)
  with assms frame_reports [of L ids F reps] show ?thesis unfolding keeps_def by blast
qed

lemma mset_map_image: "mset (map f xs) = mset (map g ys) \<Longrightarrow> f ` set xs = g ` set ys"
  by (metis mset_eq_setD list.set_map)

text \<open>Going on after reports: they stay true.\<close>

lemma covers_chain:
  assumes "job.triple L ids cs P m (covers L cases F xs)"
    and "\<And>reps. mset (map crp_case_id reps) = mset (map pcs_case_id xs) \<Longrightarrow> job.triple L ids cs (steady L cases (with_reports F reps)) (f reps) Q"
  shows "job.triple L ids cs P (and_run m f) Q"
proof (rule job.chain_rule [OF assms(1)])
  fix y
  show "job.triple L ids cs (covers L cases F xs (Inr y)) (f y) Q"
  proof (cases "mset (map crp_case_id y) = mset (map pcs_case_id xs)")
    case True
    show ?thesis by (rule job.weaken_rule [OF assms(2) [OF True]]) (simp add: covers_def)
  qed (simp add: covers_def job.triple_def)
qed (simp add: covers_def)

lemma covers_done:
  "\<lbrakk>mset (map crp_case_id reps) = mset (map pcs_case_id xs); \<And>w. G w \<Longrightarrow> with_reports F reps w\<rbrakk>
    \<Longrightarrow> job.triple L ids cs (steady L cases G) (done_with (Inr reps)) (covers L cases F xs)"
  by (rule job.done_rule) (simp add: covers_def steady_def)

lemma covers_cleanup:
  assumes "frame L ids F" "pcs_case_id ` set xs \<subseteq> ids" "\<And>F'. frame L ids F' \<Longrightarrow> job.triple L ids cs (steady L cases F') m (yields L cases F' (\<lambda>_. True))"
  shows "job.triple L ids cs (covers L cases F xs x) m (\<lambda>y w. case y of Inl e \<Rightarrow> covers L cases F xs (Inl e) w | Inr _ \<Rightarrow> covers L cases F xs x w)"
proof -
  consider (reps) reps where "x = Inr reps" "mset (map crp_case_id reps) = mset (map pcs_case_id xs)" | (no) "\<And>w. \<not> covers L cases F xs x w"
    by (cases x; force simp: covers_def)
  then show ?thesis
  proof cases
    case reps
    with assms(2) have "crp_case_id ` set reps \<subseteq> ids" using mset_map_image [OF reps(2)] by simp
    from assms(3) [OF frame_reports [OF assms(1) this]] show ?thesis
      by (rule job.conseq_rule) (use reps in \<open>auto simp: covers_def yields_def\<close>)
  qed (simp add: job.triple_def)
qed

text \<open>Blocks of cases one after the other.\<close>

lemma for_each_covers:
  assumes "\<And>x F'. \<lbrakk>x \<in> set xs; \<forall>c \<in> set (g x). keeps L ids c F'\<rbrakk> \<Longrightarrow> job.triple L ids cs (steady L cases F') (f x) (covers L cases F' (g x))"
    and "distinct (map pcs_case_id (concat (map g xs)))" "\<forall>c \<in> set (concat (map g xs)). keeps L ids c F"
  shows "job.triple L ids cs (steady L cases F) (for_each f xs)
    (\<lambda>r w. \<exists>rss. r = Inr rss \<and> covers L cases F (concat (map g xs)) (Inr (concat rss)) w)"
  using assms
proof (induction xs arbitrary: F)
  case Nil
  then show ?case by (auto intro!: job.done_rule simp: covers_def)
next
  case (Cons x xs)
  have first: "job.triple L ids cs (steady L cases F) (f x) (covers L cases F (g x))" using Cons.prems(1) [of x F] Cons.prems(3) by simp
  show ?case
    unfolding for_each.simps
  proof (rule covers_chain [OF first])
    fix reps :: "case_report list"
    assume reps: "mset (map crp_case_id reps) = mset (map pcs_case_id (g x))"
    have keep: "\<forall>c \<in> set (concat (map g xs)). keeps L ids c (with_reports F reps)"
    proof
      fix c
      assume c: "c \<in> set (concat (map g xs))"
      have "pcs_case_id c \<notin> pcs_case_id ` set (g x)" using Cons.prems(2) c by auto
      moreover have "pcs_case_id ` set (g x) \<subseteq> ids" using Cons.prems(3) by (auto simp: keeps_def)
      ultimately have "crp_case_id ` set reps \<subseteq> ids - {pcs_case_id c}" using mset_map_image [OF reps] by blast
      then show "keeps L ids c (with_reports F reps)" using Cons.prems(3) c by (intro keeps_reports) auto
    qed
    have rest: "job.triple L ids cs (steady L cases (with_reports F reps)) (for_each f xs)
      (\<lambda>r w. \<exists>rss. r = Inr rss \<and> covers L cases (with_reports F reps) (concat (map g xs)) (Inr (concat rss)) w)"
      using Cons.prems(1,2) by (intro Cons.IH [OF _ _ keep]) auto
    show "job.triple L ids cs (steady L cases (with_reports F reps)) (and_run (for_each f xs) (\<lambda>ys. done_with (Inr (reps # ys))))
      (\<lambda>r w. \<exists>rss. r = Inr rss \<and> covers L cases F (concat (map g (x # xs))) (Inr (concat rss)) w)"
      by (rule job.chain_rule [OF rest]) (use reps in \<open>auto intro!: job.done_rule simp: covers_def steady_def\<close>)
  qed
qed

text \<open>A single case is a block.\<close>

lemma for_each_decided:
  assumes "\<And>c F'. \<lbrakk>c \<in> set xs; keeps L ids c F'\<rbrakk> \<Longrightarrow> job.triple L ids cs (steady L cases F') (f c) (concluded L cases F' c)"
    and "distinct (map pcs_case_id xs)" "\<forall>c \<in> set xs. keeps L ids c F"
  shows "job.triple L ids cs (steady L cases F) (for_each f xs) (covers L cases F xs)"
  using assms
proof (induction xs arbitrary: F)
  case Nil
  then show ?case by (auto intro!: covers_done)
next
  case (Cons x xs)
  have "job.triple L ids cs (steady L cases F) (f x) (concluded L cases F x)" using Cons.prems(1) [of x F] Cons.prems(3) by simp
  then show ?case
    unfolding for_each.simps
  proof (rule job.chain_rule)
    fix rep
    show "job.triple L ids cs (concluded L cases F x (Inr rep)) (and_run (for_each f xs) (\<lambda>ys. done_with (Inr (rep # ys)))) (covers L cases F (x # xs))"
    proof (cases "crp_case_id rep = pcs_case_id x")
      case True
      have keep: "\<forall>c \<in> set xs. keeps L ids c (with_reports F [rep])"
      proof
        fix c
        assume "c \<in> set xs"
        then have "keeps L ids c F" "pcs_case_id x \<noteq> pcs_case_id c" using Cons.prems(2,3) by auto
        moreover have "pcs_case_id x \<in> ids" using Cons.prems(3) by (simp add: keeps_def)
        ultimately show "keeps L ids c (with_reports F [rep])" using True by (intro keeps_reports) simp_all
      qed
      have "job.triple L ids cs (steady L cases (with_reports F [rep])) (for_each f xs) (covers L cases (with_reports F [rep]) xs)"
        using Cons.prems(1,2) by (intro Cons.IH [OF _ _ keep]) auto
      then have rest: "job.triple L ids cs (concluded L cases F x (Inr rep)) (for_each f xs) (covers L cases (with_reports F [rep]) xs)"
        by (rule job.weaken_rule) (simp add: concluded_def steady_def)
      show ?thesis
        by (rule covers_chain [OF rest], rule covers_done) (simp_all add: True)
    qed (simp add: concluded_def job.triple_def)
  qed (simp add: concluded_def)
qed


subsection \<open>One session\<close>

lemma record_failures_covers:
  assumes "failure_ok f" "distinct (map pcs_case_id xs)" "set xs \<subseteq> cases" "\<forall>c \<in> set xs. keeps L ids c F"
  shows "job.triple L ids cs (steady L cases F) (record_failures xs f detail) (covers L cases F xs)"
  unfolding record_failures_def
  by (rule for_each_decided [OF _ assms(2,4)]) (use assms(1,3) in \<open>auto intro!: settle_rule record_failure_settles\<close>)

definition splits :: "store_library \<Rightarrow> profiling_case set \<Rightarrow> (world \<Rightarrow> bool) \<Rightarrow> ('i \<Rightarrow> bool) \<Rightarrow> profiling_case list
    \<Rightarrow> (profiling_case list \<times> 'i list \<times> case_report list) res \<Rightarrow> world \<Rightarrow> bool" where
  "splits L cases F good xs r w \<longleftrightarrow> (\<exists>ds needed rs. r = Inr (ds, needed, rs) \<and> mset (map pcs_case_id ds) + mset (map crp_case_id rs) = mset (map pcs_case_id xs)
     \<and> set ds \<subseteq> set xs \<and> (ds \<noteq> [] \<longrightarrow> needed \<noteq> []) \<and> (\<forall>i \<in> set needed. good i) \<and> steady L cases (with_reports F rs) w)"

lemma missing_facts_Nil: "missing_facts facts s = [] \<longleftrightarrow> map_of facts (ncs_source_worker_id s) \<noteq> None \<and> map_of facts (ncs_destination_worker_id s) \<noteq> None"
proof -
  have "missing_facts facts s = [] \<longleftrightarrow> set (missing_facts facts s) = {}" by simp
  then show ?thesis by (auto simp: missing_facts_def simp del: set_empty)
qed

lemma keep_rest:
  assumes "\<forall>c \<in> set (x # xs). keeps L ids c F" "distinct (map pcs_case_id (x # xs))" "crp_case_id rep = pcs_case_id x"
  shows "\<forall>c \<in> set xs. keeps L ids c (with_reports F [rep])"
proof
  fix c
  assume "c \<in> set xs"
  then have "keeps L ids c F" "pcs_case_id x \<noteq> pcs_case_id c" using assms(1,2) by auto
  moreover have "pcs_case_id x \<in> ids" using assms(1) by (simp add: keeps_def)
  ultimately show "keeps L ids c (with_reports F [rep])" using assms(3) by (intro keeps_reports) simp_all
qed

lemma split_by_facts_splits:
  assumes "distinct (map pcs_case_id xs)" "set xs \<subseteq> cases" "\<forall>c \<in> set xs. keeps L ids c F" "\<forall>c \<in> set xs. \<exists>s. pcs_spec c = Network_Case s"
  shows "job.triple L ids cs (steady L cases F) (split_by_facts facts xs) (splits L cases F (\<lambda>i. map_of facts i \<noteq> None) xs)"
  using assms
proof (induction xs arbitrary: F)
  case Nil
  then show ?case by (auto intro!: job.done_rule simp: splits_def)
next
  case (Cons x xs)
  then obtain s where s: "pcs_spec x = Network_Case s" by auto
  show ?case
  proof (cases "missing_facts facts s = []")
    case True
    have "job.triple L ids cs (steady L cases F) (split_by_facts facts xs) (splits L cases F (\<lambda>i. map_of facts i \<noteq> None) xs)"
      using Cons.prems by (intro Cons.IH) auto
    with True show ?thesis
      unfolding split_by_facts.simps s case_spec.case
      by (simp, elim job.chain_rule) (auto intro!: job.done_rule simp: splits_def missing_facts_Nil)
  next
    case False
    have first: "job.triple L ids cs (steady L cases F) (do_now (record_failure x (missing_facts_failure (missing_facts facts s)) ''not dispatched'')) (concluded L cases F x)"
      using Cons.prems by (intro settle_rule record_failure_settles missing_and_attribution_ok) auto
    have "job.triple L ids cs (concluded L cases F x (Inr rep)) (and_run (split_by_facts facts xs) (\<lambda>(ds, needed, rs). done_with (Inr (ds, needed, rep # rs))))
        (splits L cases F (\<lambda>i. map_of facts i \<noteq> None) (x # xs))" for rep
    proof (cases "crp_case_id rep = pcs_case_id x")
      case True
      have "job.triple L ids cs (steady L cases (with_reports F [rep])) (split_by_facts facts xs) (splits L cases (with_reports F [rep]) (\<lambda>i. map_of facts i \<noteq> None) xs)"
        using Cons.prems keep_rest [OF Cons.prems(3,1) True] by (intro Cons.IH) auto
      then have rest: "job.triple L ids cs (concluded L cases F x (Inr rep)) (split_by_facts facts xs) (splits L cases (with_reports F [rep]) (\<lambda>i. map_of facts i \<noteq> None) xs)"
        by (rule job.weaken_rule) (simp add: concluded_def steady_def)
      show ?thesis by (rule job.chain_rule [OF rest]) (auto intro!: job.done_rule simp: splits_def steady_def True)
    qed (simp add: concluded_def job.triple_def)
    with False show ?thesis
      unfolding split_by_facts.simps s case_spec.case
      by (simp, intro job.chain_rule [OF first]) (auto simp: concluded_def)
  qed
qed

lemma resolve_facts_splits:
  assumes "distinct (map pcs_case_id xs)" "set xs \<subseteq> cases" "\<forall>c \<in> set xs. keeps L ids c F" "\<forall>c \<in> set xs. \<exists>s. pcs_spec c = Network_Case s"
  shows "job.triple L ids cs (steady L cases F) (resolve_network_facts facts xs) (splits L cases F (\<lambda>_. True) xs)"
  unfolding resolve_network_facts_def
proof (rule job.chain_rule [OF split_by_facts_splits [OF assms]])
  fix y :: "profiling_case list \<times> string list \<times> case_report list"
  obtain ds needed rs where y: "y = (ds, needed, rs)" by (cases y)
  let ?fetch = "\<lambda>i. case map_of facts i of None \<Rightarrow> Inl (KeyError i) | Some f \<Rightarrow> Inr f"
  have "\<exists>fs. traverse_res ?fetch (sort (remdups needed)) = Inr fs \<and> (needed \<noteq> [] \<longrightarrow> fs \<noteq> [])" if "\<forall>i \<in> set needed. map_of facts i \<noteq> None"
  proof -
    have "?fetch i = Inr (the (map_of facts i))" if "i \<in> set (sort (remdups needed))" for i
      using that \<open>\<forall>i \<in> set needed. map_of facts i \<noteq> None\<close> by auto
    then have "traverse_res ?fetch (sort (remdups needed)) = Inr (map (\<lambda>i. the (map_of facts i)) (sort (remdups needed)))" by (rule traverse_res_total)
    then show ?thesis by (metis list.map_disc_iff mset.simps(1) mset_sort mset_zero_iff remdups_eq_nil_iff)
  qed
  then show "job.triple L ids cs (splits L cases F (\<lambda>i. map_of facts i \<noteq> None) xs (Inr y))
    (case y of (ds, needed, rs) \<Rightarrow> done_with (map_res (\<lambda>fs. (ds, fs, rs)) (traverse_res ?fetch (sort (remdups needed))))) (splits L cases F (\<lambda>_. True) xs)"
    unfolding y prod.case by (intro job.done_rule) (fastforce simp: splits_def)
qed (simp add: splits_def)

definition plan_ok :: "store_library \<Rightarrow> string \<Rightarrow> session_plan \<Rightarrow> bool" where
  "plan_ok L worker p \<longleftrightarrow> spl_session_id p \<noteq> []
     \<and> (\<forall>c \<in> set (spl_cases p). case_ok L c \<and> pcs_worker_id c = worker
         \<and> (psr_kind (spl_session_request p) = NETWORK_SESSION \<longleftrightarrow> (\<exists>s. pcs_spec c = Network_Case s)))"

lemma dispatch_session_covers:
  assumes p: "plan_ok L worker p" and t: "tokens_ok worker t" and sha: "\<And>x. lib_sha L x \<noteq> []"
    and xs: "set xs \<subseteq> set (spl_cases p)" "distinct (map pcs_case_id xs)" "set xs \<subseteq> cases" "set xs \<subseteq> cs" "\<forall>c \<in> set xs. keeps L ids c F"
    and F: "frame L ids F" and facts: "psr_kind (spl_session_request p) = NETWORK_SESSION \<longleftrightarrow> facts \<noteq> []"
  shows "job.triple L ids cs (steady L cases F) (dispatch_session L t p xs facts) (covers L cases F xs)"
proof -
  have sid: "spl_session_id p \<noteq> []" using p by (simp add: plan_ok_def)
  have run: "job.triple L ids cs (steady L cases F) (for_each (run_case L t (spl_session_id p)) xs) (covers L cases F xs)"
  proof (rule for_each_decided [OF _ xs(2,5)])
    fix c F'
    assume c: "c \<in> set xs" "keeps L ids c F'"
    with p xs(1,3,4) have "c \<in> cases" "case_ok L c" "c \<in> cs" "pcs_worker_id c = worker" by (auto simp: plan_ok_def)
    then show "job.triple L ids cs (steady L cases F') (run_case L t (spl_session_id p) c) (concluded L cases F' c)"
      using run_case_rule [OF _ _ c(2) _ _ sid sha] t by blast
  qed
  have body: "job.triple L ids cs (steady L cases F)
      (and_run (prepare_session t (spl_session_id p) (spl_session_request p) facts) (\<lambda>prepared. case prepared of
          Inl failure \<Rightarrow> record_failures xs failure ''session prepare failed''
        | Inr _ \<Rightarrow> for_each (run_case L t (spl_session_id p)) xs)) (covers L cases F xs)"
    by (rule then_rule [OF prepare_session_yields [OF F t sid facts]])
      (auto split: sum.split simp: prepared_ok_def intro!: run record_failures_covers [OF _ xs(2,3,5)])
  have ids: "pcs_case_id ` set xs \<subseteq> ids" using xs(5) by (auto simp: keeps_def)
  show ?thesis
    unfolding dispatch_session_def
    by (rule job.finally_rule [OF body covers_cleanup [OF F ids close_session_yields [OF _ t sid]]])
qed

lemma run_session_covers:
  assumes p: "plan_ok L worker p" and t: "tokens_ok worker t" and sha: "\<And>x. lib_sha L x \<noteq> []"
    and xs: "distinct (map pcs_case_id (spl_cases p))" "set (spl_cases p) \<subseteq> cases" "set (spl_cases p) \<subseteq> cs" "\<forall>c \<in> set (spl_cases p). keeps L ids c F"
    and F: "frame L ids F" and ne: "spl_cases p \<noteq> []"
  shows "job.triple L ids cs (steady L cases F) (run_session L t facts p) (covers L cases F (spl_cases p))"
proof (cases "psr_kind (spl_session_request p) = NETWORK_SESSION")
  case False
  then show ?thesis
    unfolding run_session_def by simp (rule dispatch_session_covers [OF p t sha subset_refl xs F], simp)
next
  case True
  let ?xs = "spl_cases p"
  have net: "\<forall>c \<in> set ?xs. \<exists>s. pcs_spec c = Network_Case s" using p True by (simp add: plan_ok_def)
  have "job.triple L ids cs (splits L cases F (\<lambda>_. True) ?xs (Inr (ds, fs, rs)))
      (if ds = [] then done_with (Inr rs) else and_run (dispatch_session L t p ds fs) (\<lambda>rs'. done_with (Inr (rs @ rs')))) (covers L cases F ?xs)" for ds fs rs
  proof (cases "mset (map pcs_case_id ds) + mset (map crp_case_id rs) = mset (map pcs_case_id ?xs) \<and> set ds \<subseteq> set ?xs \<and> (ds \<noteq> [] \<longrightarrow> fs \<noteq> [])")
    case ok: True
    have sub: "mset (map pcs_case_id (spl_cases p)) = mset (map crp_case_id rs @ map pcs_case_id ds)" using ok by (simp add: ac_simps)
    then have dist: "distinct (map crp_case_id rs @ map pcs_case_id ds)" using xs(1) by (metis mset_eq_imp_distinct_iff)
    have ids: "pcs_case_id ` set ?xs \<subseteq> ids" using xs(4) by (auto simp: keeps_def)
    have rs: "crp_case_id ` set rs \<subseteq> ids" using mset_eq_setD [OF sub] ids by auto
    have keep: "\<forall>c \<in> set ds. keeps L ids c (with_reports F rs)"
    proof
      fix c
      assume c: "c \<in> set ds"
      then have "crp_case_id ` set rs \<subseteq> ids - {pcs_case_id c}" using rs dist by auto
      with c ok xs(4) show "keeps L ids c (with_reports F rs)" by (intro keeps_reports) auto
    qed
    show ?thesis
    proof (cases "ds = []")
      case True
      with ok show ?thesis by (auto intro!: job.done_rule simp: covers_def splits_def)
    next
      case False
      have "job.triple L ids cs (steady L cases (with_reports F rs)) (dispatch_session L t p ds fs) (covers L cases (with_reports F rs) ds)"
        using ok xs(2,3) dist keep True False by (intro dispatch_session_covers [OF p t sha] frame_reports F rs) auto
      then have "job.triple L ids cs (splits L cases F (\<lambda>_. True) ?xs (Inr (ds, fs, rs))) (dispatch_session L t p ds fs) (covers L cases (with_reports F rs) ds)"
        by (rule job.weaken_rule) (simp add: splits_def)
      then have "job.triple L ids cs (splits L cases F (\<lambda>_. True) ?xs (Inr (ds, fs, rs))) (and_run (dispatch_session L t p ds fs) (\<lambda>rs'. done_with (Inr (rs @ rs')))) (covers L cases F ?xs)"
        by (rule covers_chain, intro covers_done) (use ok in \<open>auto simp: ac_simps\<close>)
      with False show ?thesis by simp
    qed
  qed (auto simp: splits_def job.triple_def)
  then show ?thesis
    unfolding run_session_def if_P [OF True]
    by (intro job.chain_rule [OF resolve_facts_splits [OF xs(1,2,4) net]]) (auto simp: splits_def)
qed


subsection \<open>One Worker\<close>

definition library_ok :: "store_library \<Rightarrow> bool" where
  "library_ok L \<longleftrightarrow> (\<forall>x. lib_sha L x \<noteq> [])"

lemma session_id_nonempty: "\<lbrakk>profiling_session_id sha e w r = Inr i; \<And>x. sha x \<noteq> []\<rbrakk> \<Longrightarrow> i \<noteq> []"
  by (auto simp: profiling_session_id_def canonical_sha256_def bind_res_Inr map_res_def split: sum.splits)

lemma own_request_network: "psr_kind (own_request c) = NETWORK_SESSION \<longleftrightarrow> (\<exists>s. pcs_spec c = Network_Case s)"
  by (cases "pcs_spec c") (simp_all add: own_request_def network_session_def)

lemma plans_ok:
  assumes "list_all (case_ok L) xs" "\<forall>c \<in> set xs. pcs_worker_id c = worker" "e \<noteq> []" "worker \<noteq> []" "library_ok L"
  obtains plans where "plan_sessions (lib_sha L) e worker xs = Inr plans" "mset (concat (map spl_cases plans)) = mset xs"
    "\<And>p. p \<in> set plans \<Longrightarrow> plan_ok L worker p \<and> spl_cases p \<noteq> []"
proof -
  have valid: "list_all (\<lambda>c. check_profiling_case c = Inr ()) xs" using assms(1) by (auto simp: list_all_iff case_ok_def)
  obtain ks plans where p: "plan_sessions (lib_sha L) e worker xs = Inr plans" "distinct ks" "mset (concat (map (cases_keyed xs) ks)) = mset xs"
    and ok: "list_all2 (\<lambda>k p. cases_keyed xs k \<noteq> [] \<and> spl_cases p = cases_keyed xs k
       \<and> (\<forall>c \<in> set (cases_keyed xs k). spl_session_request p = own_request c \<and> profiling_session_id (lib_sha L) e worker (own_request c) = Inr (spl_session_id p))) ks plans"
    by (rule plan_sessions_eq [OF valid assms(3,4)])
  show thesis
  proof (rule that [OF p(1)])
    have "map spl_cases plans = map (cases_keyed xs) ks" using ok by (auto simp: list_all2_conv_all_nth intro: nth_equalityI)
    with p(3) show "mset (concat (map spl_cases plans)) = mset xs" by simp
    fix p
    assume "p \<in> set plans"
    then obtain k where k: "cases_keyed xs k \<noteq> []" "spl_cases p = cases_keyed xs k"
      "\<And>c. c \<in> set (cases_keyed xs k) \<Longrightarrow> spl_session_request p = own_request c \<and> profiling_session_id (lib_sha L) e worker (own_request c) = Inr (spl_session_id p)"
      using ok by (auto simp: list_all2_conv_all_nth in_set_conv_nth)
    then have "spl_session_id p \<noteq> []" using session_id_nonempty assms(5) unfolding library_ok_def by (metis list.set_sel(1))
    moreover have "case_ok L c \<and> pcs_worker_id c = worker" if "c \<in> set (spl_cases p)" for c
      using that k(2) assms(1,2) by (auto simp: cases_keyed_def list_all_iff)
    moreover have "psr_kind (spl_session_request p) = NETWORK_SESSION \<longleftrightarrow> (\<exists>s. pcs_spec c = Network_Case s)" if "c \<in> set (spl_cases p)" for c
      using that k(2) k(3) [of c] own_request_network [of c] by simp
    ultimately show "plan_ok L worker p \<and> spl_cases p \<noteq> []" using k(1,2) by (simp add: plan_ok_def)
  qed
qed

definition batch_ok :: "store_library \<Rightarrow> string \<Rightarrow> profiling_case list \<Rightarrow> bool" where
  "batch_ok L worker xs \<longleftrightarrow> list_all (case_ok L) xs \<and> (\<forall>c \<in> set xs. pcs_worker_id c = worker) \<and> distinct (map pcs_case_id xs)"

abbreviation ids_of :: "profiling_case list \<Rightarrow> string set" where
  "ids_of xs \<equiv> pcs_case_id ` set xs"

lemma run_worker_covers:
  assumes "batch_ok L worker xs" "e \<noteq> []" "library_ok L"
  shows "job.triple L (ids_of xs) (set xs) (steady L (set xs) (\<lambda>_. True)) (run_worker L e worker xs facts) (covers L (set xs) (\<lambda>_. True) xs)"
proof -
  let ?F = "\<lambda>_ :: world. True"
  have F: "frame L (ids_of xs) ?F" by (simp add: frame_def)
  have keep: "\<forall>c \<in> set xs. keeps L (ids_of xs) c ?F" by (simp add: keeps_def F)
  have xs: "list_all (case_ok L) xs" "\<forall>c \<in> set xs. pcs_worker_id c = worker" "distinct (map pcs_case_id xs)" using assms(1) by (simp_all add: batch_ok_def)
  have resolve: "job.triple L (ids_of xs) (set xs) (steady L (set xs) ?F) (look (\<lambda>w. Inr (resolve_tokens worker w)))
      (yields L (set xs) ?F (\<lambda>x. case x of Inl f \<Rightarrow> failure_ok f | Inr t \<Rightarrow> tokens_ok worker t))"
    using resolve_tokens_ok [of L _ worker] by (intro look_yields) (simp add: steady_def ready_def)
  have sha: "\<And>x. lib_sha L x \<noteq> []" using assms(3) by (simp add: library_ok_def)
  have sessions: "job.triple L (ids_of xs) (set xs) (steady L (set xs) ?F)
      (and_run (done_with (plan_sessions (lib_sha L) e worker xs)) (\<lambda>plans. and_run (for_each (run_session L t facts) plans) (\<lambda>rss. done_with (Inr (concat rss)))))
      (covers L (set xs) ?F xs)" if t: "tokens_ok worker t" for t
  proof -
    obtain plans where p: "plan_sessions (lib_sha L) e worker xs = Inr plans" "mset (concat (map spl_cases plans)) = mset xs"
      "\<And>p. p \<in> set plans \<Longrightarrow> plan_ok L worker p \<and> spl_cases p \<noteq> []"
      using plans_ok [OF xs(1,2) assms(2) _ assms(3)] t by (auto simp: tokens_ok_def)
    have sets: "set (concat (map spl_cases plans)) = set xs" by (rule mset_eq_setD [OF p(2)])
    have dist: "distinct (map pcs_case_id (concat (map spl_cases plans)))" using p(2) xs(3) by (metis mset_eq_imp_distinct_iff mset_map)
    have one: "job.triple L (ids_of xs) (set xs) (steady L (set xs) F') (run_session L t facts q) (covers L (set xs) F' (spl_cases q))"
      if q: "q \<in> set plans" "\<forall>c \<in> set (spl_cases q). keeps L (ids_of xs) c F'" for q F'
    proof -
      have "distinct (map pcs_case_id (spl_cases q))" using dist q(1) by (simp add: distinct_concat_iff map_concat)
      moreover have "frame L (ids_of xs) F'" using q p(3) [OF q(1)] by (cases "spl_cases q") (auto simp: keeps_def)
      moreover have "set (spl_cases q) \<subseteq> set xs" using sets q(1) by auto
      ultimately show ?thesis using p(3) [OF q(1)] q(2) by (intro run_session_covers [OF _ t sha]) simp_all
    qed
    have all: "job.triple L (ids_of xs) (set xs) (steady L (set xs) ?F) (for_each (run_session L t facts) plans)
        (\<lambda>r w. \<exists>rss. r = Inr rss \<and> covers L (set xs) ?F (concat (map spl_cases plans)) (Inr (concat rss)) w)"
      by (rule for_each_covers [OF one dist]) (use keep sets in auto)
    show ?thesis
      unfolding p(1)
      by (rule then_rule [OF yield_rule [where good = "\<lambda>x. x = plans"]], simp, simp, rule job.chain_rule [OF all])
        (use p(2) in \<open>auto intro!: job.done_rule simp: covers_def\<close>)
  qed
  have close: "job.triple L (ids_of xs) (set xs) (steady L (set xs) F') (await_resumed (Close_Channel endpoint)) (yields L (set xs) F' (\<lambda>_. True))"
    if "frame L (ids_of xs) F'" for F' endpoint by (rule resumed_yields [OF that]) simp
  show ?thesis
    unfolding run_worker_def
    by (rule then_rule [OF resolve])
      (auto split: sum.splits intro!: record_failures_covers [OF _ xs(3) _ keep] job.finally_rule [OF sessions covers_cleanup [OF F _ close]])
qed


subsection \<open>The Workers side by side\<close>

lemma into_group_mset: "mset (concat (map snd (into_group k c gs))) = add_mset c (mset (concat (map snd gs)))"
  by (induction k c gs rule: into_group.induct) auto

lemma into_group_keys: "\<lbrakk>\<forall>(k', xs) \<in> set gs. \<forall>x \<in> set xs. f x = k'; f c = k\<rbrakk> \<Longrightarrow> \<forall>(k', xs) \<in> set (into_group k c gs). \<forall>x \<in> set xs. f x = k'"
  by (induction k c gs rule: into_group.induct) auto

lemma by_worker_props:
  "mset (concat (map snd (by_worker cases))) = mset cases" "\<forall>(w, xs) \<in> set (by_worker cases). \<forall>c \<in> set xs. pcs_worker_id c = w"
proof -
  have m: "mset (concat (map snd (fold (\<lambda>c. into_group (pcs_worker_id c) c) cases gs))) = mset (concat (map snd gs)) + mset cases" for gs
    by (induction cases arbitrary: gs) (auto simp: into_group_mset)
  have "mset (concat (map snd (sort_key fst gs))) = mset (concat (map snd gs))" for gs :: "(string \<times> profiling_case list) list"
    by (simp only: mset_concat map_map sum_mset_sum_list [symmetric] mset_map mset_sort)
  with m [of "[]"] show "mset (concat (map snd (by_worker cases))) = mset cases" by (simp add: by_worker_def)
  have "\<forall>(w, xs) \<in> set (fold (\<lambda>c. into_group (pcs_worker_id c) c) cases gs). \<forall>c \<in> set xs. pcs_worker_id c = w"
    if "\<forall>(w, xs) \<in> set gs. \<forall>c \<in> set xs. pcs_worker_id c = w" for gs
    using that
  proof (induction cases arbitrary: gs)
    case (Cons c cases)
    have "\<forall>(w, xs) \<in> set (into_group (pcs_worker_id c) c gs). \<forall>c \<in> set xs. pcs_worker_id c = w"
      by (rule into_group_keys [OF Cons.prems refl])
    from Cons.IH [OF this] show ?case by simp
  qed simp
  from this [of "[]"] show "\<forall>(w, xs) \<in> set (by_worker cases). \<forall>c \<in> set xs. pcs_worker_id c = w" by (simp add: by_worker_def)
qed

lemma job_cooperation: "cooperation (leaves L ids) (touches ids)"
  by unfold_locales (rule leaves_refl, erule (1) leaves_trans, rule touches_refl, erule (1) touches_trans)

lemma covers_stable:
  assumes "covers L cases (\<lambda>_. True) xs r s" "leaves L (ids_of xs) s t"
  shows "covers L cases (\<lambda>_. True) xs r t"
proof -
  from assms(1) obtain reps where r: "r = Inr reps" "mset (map crp_case_id reps) = mset (map pcs_case_id xs)" "steady L cases (with_reports (\<lambda>_. True) reps) s"
    by (auto simp: covers_def)
  have "frame L (ids_of xs) (with_reports (\<lambda>_. True) reps)"
    using mset_map_image [OF r(2)] by (intro frame_reports) (auto simp: frame_def)
  with r assms(2) steady_leaves show ?thesis by (auto simp: covers_def)
qed

lemma started_worker_behaves:
  assumes "batch_ok L worker xs" "e \<noteq> []" "library_ok L" "ready L (set xs) w"
  shows "behaves (leaves L (ids_of xs)) (touches (ids_of xs)) (runs_only (set xs)) (may_answer L) (covers L (set xs) (\<lambda>_. True) xs) (Awaits Start (\<lambda>_. run_worker L e worker xs facts)) w"
  unfolding behaves_Awaits
proof (intro conjI allI impI)
  fix r s1 s2 co
  assume "leaves L (ids_of xs) w s1" "run_worker L e worker xs facts s1 = (s2, co)"
  moreover from this assms(4) have "steady L (set xs) (\<lambda>_. True) s1" by (auto simp: steady_def intro: ready_leaves)
  ultimately show "touches (ids_of xs) s1 s2" "behaves (leaves L (ids_of xs)) (touches (ids_of xs)) (runs_only (set xs)) (may_answer L) (covers L (set xs) (\<lambda>_. True) xs) co s2"
    using job.tripleD [OF run_worker_covers [OF assms(1-3)]] by metis+
qed simp

text \<open>What becomes of the coroutines of a dispatched experiment.\<close>

definition dispatch_ok :: "store_library \<Rightarrow> dispatching \<Rightarrow> world \<Rightarrow> bool" where
  "dispatch_ok L d w0 \<longleftrightarrow> library_ok L \<and> pex_experiment_id (dsp_experiment d) \<noteq> []
     \<and> distinct (map pcs_case_id (concat (map snd (dsp_workers d))))
     \<and> (\<forall>(worker, xs) \<in> set (dsp_workers d). batch_ok L worker xs \<and> ready L (set xs) w0)"

definition batch :: "dispatching \<Rightarrow> nat \<Rightarrow> profiling_case list" where
  "batch d i = snd (dsp_workers d ! i)"

lemma batch_in: "i < length (dsp_workers d) \<Longrightarrow> (fst (dsp_workers d ! i), batch d i) \<in> set (dsp_workers d)"
  by (simp add: batch_def)

lemma batches_disjoint:
  assumes "dispatch_ok L d w0" "i < length (dsp_workers d)" "j < length (dsp_workers d)" "i \<noteq> j"
  shows "ids_of (batch d i) \<inter> ids_of (batch d j) = {}"
proof -
  have *: "ids_of (snd (ws ! i)) \<inter> ids_of (snd (ws ! j)) = {}"
    if "distinct (map pcs_case_id (concat (map snd ws)))" "i < length ws" "j < length ws" "i < j" for i j and ws :: "(string \<times> profiling_case list) list"
  proof -
    have "snd (ws ! j) \<in> set (drop (Suc i) (map snd ws))" using that nth_mem [of "j - Suc i" "drop (Suc i) ws"] by (simp add: drop_map)
    moreover have "concat (map snd ws) = concat (take i (map snd ws)) @ snd (ws ! i) @ concat (drop (Suc i) (map snd ws))"
      using that(2) id_take_nth_drop [of i "map snd ws"] by (metis concat.simps(2) concat_append length_map nth_map)
    ultimately show ?thesis using that(1) by auto
  qed
  show ?thesis
    using * [OF _ assms(2,3)] * [OF _ assms(3,2)] assms(1,4) unfolding batch_def dispatch_ok_def by (cases "i < j") auto
qed

lemma children: "length (dispatched_workers L d) = length (dsp_workers d)"
  "i < length (dsp_workers d) \<Longrightarrow> dispatched_workers L d ! i
     = Awaits Start (\<lambda>_. run_worker L (pex_experiment_id (dsp_experiment d)) (fst (dsp_workers d ! i)) (batch d i) (dsp_facts d))"
  by (simp_all add: dispatched_workers_def batch_def case_prod_unfold)

lemma env_part: "i < length (dsp_workers d) \<Longrightarrow> ids_of (batch d i) \<subseteq> all \<Longrightarrow> leaves L all s t \<Longrightarrow> leaves L (ids_of (batch d i)) s t"
  by (auto simp: leaves_def)

lemma children_start:
  "\<lbrakk>dispatch_ok L d w0; i < length (dispatched_workers L d)\<rbrakk> \<Longrightarrow>
     behaves (leaves L (ids_of (batch d i))) (touches (ids_of (batch d i))) (runs_only (set (batch d i))) (may_answer L) (covers L (set (batch d i)) (\<lambda>_. True) (batch d i)) (dispatched_workers L d ! i) w0"
  using batch_in [of i d] by (simp add: children dispatch_ok_def) (blast intro: started_worker_behaves)

lemma children_run:
  assumes ok: "dispatch_ok L d w0" and run: "interleaved (leaves L all) (may_answer L) (w0, dispatched_workers L d) (w, kids)"
    and all: "ids_of (concat (map snd (dsp_workers d))) \<subseteq> all"
  shows "length kids = length (dsp_workers d)"
    "i < length (dsp_workers d) \<Longrightarrow> behaves (leaves L (ids_of (batch d i))) (touches (ids_of (batch d i))) (runs_only (set (batch d i))) (may_answer L)
       (covers L (set (batch d i)) (\<lambda>_. True) (batch d i)) (kids ! i) w"
    "D \<inter> ids_of (concat (map snd (dsp_workers d))) = {} \<Longrightarrow> D \<subseteq> all \<Longrightarrow> leaves L D w0 w"
proof -
  have sub: "i < length (dsp_workers d) \<Longrightarrow> ids_of (batch d i) \<subseteq> ids_of (concat (map snd (dsp_workers d)))" for i
    using batch_in [of i d] by force
  note env = env_part [OF _ order_trans [OF sub all]]
  note others = touches_leaves [OF _ batches_disjoint [OF ok]]
  have "length kids = length (dispatched_workers L d) \<and> (\<forall>i < length (dispatched_workers L d).
      behaves (leaves L (ids_of (batch d i))) (touches (ids_of (batch d i))) (runs_only (set (batch d i))) (may_answer L) (covers L (set (batch d i)) (\<lambda>_. True) (batch d i)) (kids ! i) w)"
    by (rule side_by_side [OF run job_cooperation children_start [OF ok]])
      (auto simp: children intro: env others covers_stable)
  then show "length kids = length (dsp_workers d)"
    "i < length (dsp_workers d) \<Longrightarrow> behaves (leaves L (ids_of (batch d i))) (touches (ids_of (batch d i))) (runs_only (set (batch d i))) (may_answer L)
       (covers L (set (batch d i)) (\<lambda>_. True) (batch d i)) (kids ! i) w" by (simp_all add: children)
  assume D: "D \<inter> ids_of (concat (map snd (dsp_workers d))) = {}" "D \<subseteq> all"
  show "leaves L D w0 w"
  proof (rule side_by_side_changes [OF run job_cooperation children_start [OF ok]])
    show "leaves L D s t" if "i < length (dispatched_workers L d)" "touches (ids_of (batch d i)) s t" for i s t
      using that sub [of i] D(1) by (intro touches_leaves) (auto simp: children)
  qed (use D(2) in \<open>auto simp: children leaves_def [of L D] leaves_def [of L all] intro: env others covers_stable leaves_trans grows_trans\<close>)
qed

end
