(* ===== verification/Experiment_Safety.thy ===== *)
theory Experiment_Safety
  imports Controller_Safety
begin

section \<open>Whole experiments\<close>

text \<open>
  \<^verbatim>\<open>run_experiment\<close> from its first store access to its report: what it dispatches, what the Workers' coroutines leave
  behind in any interleaving, and what the report and the store then say. The number of awaits of a Worker's
  coroutine is bounded in the number of its cases.
\<close>

declare map_of_eq_Some_iff [simp del] Some_eq_map_of_iff [simp del]

subsection \<open>Before the dispatch\<close>

definition resumable :: "store_library \<Rightarrow> string \<Rightarrow> stored_experiment \<Rightarrow> world \<Rightarrow> bool" where
  "resumable L e stored w \<longleftrightarrow> library_ok L \<and> world_ok L w \<and> get_experiment e (pw_store w) = Some stored
     \<and> \<not> terminal_experiment (ste_state stored)
     \<and> check_profiling_experiment (ste_experiment stored) = Inr () \<and> pex_experiment_id (ste_experiment stored) = e
     \<and> (\<forall>i \<in> set (pex_case_ids (ste_experiment stored)). \<exists>row. case_row i w = Some row \<and> case_ok L (stc_case row) \<and> pcs_case_id (stc_case row) = i)"

definition over :: "string \<Rightarrow> world \<Rightarrow> bool" where
  "over i w \<longleftrightarrow> (\<exists>row. case_row i w = Some row \<and> terminal_state (stc_state row))"

text \<open>What a report says of a case is what the store says.\<close>

definition agrees :: "case_report \<Rightarrow> world \<Rightarrow> bool" where
  "agrees r w \<longleftrightarrow> terminal_state (crp_state r) \<and> (\<exists>row. case_row (crp_case_id r) w = Some row \<and> stc_state row = crp_state r)"

lemma truthful_agrees: "truthful r w \<Longrightarrow> agrees r w"
  by (auto simp: truthful_def agrees_def)

lemma load_cases_result:
  assumes "\<forall>i \<in> set ids. \<exists>row. case_row i w = Some row \<and> case_ok L (stc_case row) \<and> pcs_case_id (stc_case row) = i"
  obtains loaded where "load_cases detail (pw_store w) ids = Inr loaded"
    "map crp_case_id (decided_cases loaded) = filter (\<lambda>i. over i w) ids" "\<forall>r \<in> set (decided_cases loaded). agrees r w"
    "map pcs_case_id (open_cases loaded) = filter (\<lambda>i. \<not> over i w) ids"
    "\<forall>c \<in> set (open_cases loaded). case_ok L c \<and> (\<exists>row. case_row (pcs_case_id c) w = Some row \<and> stc_case row = c)"
proof -
  have "\<exists>loaded. load_cases detail (pw_store w) ids = Inr loaded
    \<and> map crp_case_id (decided_cases loaded) = filter (\<lambda>i. over i w) ids \<and> (\<forall>r \<in> set (decided_cases loaded). agrees r w)
    \<and> map pcs_case_id (open_cases loaded) = filter (\<lambda>i. \<not> over i w) ids
    \<and> (\<forall>c \<in> set (open_cases loaded). case_ok L c \<and> (\<exists>row. case_row (pcs_case_id c) w = Some row \<and> stc_case row = c))"
    using assms
  proof (induction ids)
    case Nil
    then show ?case by (simp add: load_cases_def decided_cases_def open_cases_def map_filter_simps)
  next
    case (Cons i ids)
    then obtain loaded where IH: "load_cases detail (pw_store w) ids = Inr loaded"
      "map crp_case_id (decided_cases loaded) = filter (\<lambda>i. over i w) ids" "\<forall>r \<in> set (decided_cases loaded). agrees r w"
      "map pcs_case_id (open_cases loaded) = filter (\<lambda>i. \<not> over i w) ids"
      "\<forall>c \<in> set (open_cases loaded). case_ok L c \<and> (\<exists>row. case_row (pcs_case_id c) w = Some row \<and> stc_case row = c)" by auto
    obtain row where row: "case_row i w = Some row" "case_ok L (stc_case row)" "pcs_case_id (stc_case row) = i" using Cons.prems by auto
    then have get: "get_case i (pw_store w) = Some row" by (simp add: get_case_def case_row_def)
    show ?case
    proof (cases "terminal_state (stc_state row)")
      case True
      obtain r where r: "stored_report detail i row = Inr r" "crp_case_id r = i" "crp_state r = stc_state row"
        by (cases "stc_failure row") (simp_all add: stored_report_def from_failure_def make_case_outcome_def)
      have "over i w" "agrees r w" using True row(1) r by (auto simp: over_def agrees_def)
      with IH r get True show ?thesis
        by (intro exI [of _ "Inl r # loaded"]) (simp add: load_cases_def stored_case_of_def decided_cases_def open_cases_def map_filter_simps)
    next
      case False
      have "\<not> over i w" using False row(1) by (auto simp: over_def)
      with IH row get False show ?thesis
        by (intro exI [of _ "Inr (stc_case row) # loaded"]) (simp add: load_cases_def stored_case_of_def decided_cases_def open_cases_def map_filter_simps)
    qed
  qed
  with that show thesis by blast
qed

lemma update_experiment_result:
  assumes "get_experiment e (pw_store w) = Some stored"
  obtains w' where "on_store (update_experiment_state e state) w = (w', Inr ())" "pw_master w' = pw_master w" "pw_call w' = pw_call w"
    "\<forall>i. case_row i w' = case_row i w" "get_experiment e (pw_store w') = Some (stored\<lparr>ste_state := state\<rparr>)"
  using assms that by (simp add: on_store_def update_experiment_state_def get_experiment_def case_row_def update_conv')

definition started_with :: "store_library \<Rightarrow> stored_experiment \<Rightarrow> world \<Rightarrow> dispatching \<Rightarrow> world \<Rightarrow> bool" where
  "started_with L stored w d w0 \<longleftrightarrow> dsp_experiment d = ste_experiment stored \<and> dispatch_ok L d w0 \<and> (\<forall>i. case_row i w0 = case_row i w)
     \<and> mset (map pcs_case_id (concat (map snd (dsp_workers d)))) = mset (filter (\<lambda>i. \<not> over i w) (pex_case_ids (ste_experiment stored)))
     \<and> map crp_case_id (dsp_reports d) = filter (\<lambda>i. over i w) (pex_case_ids (ste_experiment stored)) \<and> (\<forall>r \<in> set (dsp_reports d). agrees r w)
     \<and> (\<exists>s. get_experiment (pex_experiment_id (ste_experiment stored)) (pw_store w0) = Some s)"

lemma run_experiment_begins:
  assumes "resumable L e stored w"
  obtains w0 d where "run_experiment_begin e w = (w0, Inr (Inr d))" "started_with L stored w d w0"
proof -
  let ?ids = "pex_case_ids (ste_experiment stored)"
  have exp: "e \<noteq> []" "distinct ?ids" "pex_experiment_id (ste_experiment stored) = e" and stored: "get_experiment e (pw_store w) = Some stored"
    and world: "world_ok L w" "library_ok L" "\<not> terminal_experiment (ste_state stored)"
    and rows: "\<forall>i \<in> set ?ids. \<exists>row. case_row i w = Some row \<and> case_ok L (stc_case row) \<and> pcs_case_id (stc_case row) = i"
    using assms by (auto simp: resumable_def check_profiling_experiment_def check_ids_unique_def)
  obtain loaded where loaded: "load_cases ''terminal in the store; replayed without re-dispatch'' (pw_store w) ?ids = Inr loaded"
    "map crp_case_id (decided_cases loaded) = filter (\<lambda>i. over i w) ?ids" "\<forall>r \<in> set (decided_cases loaded). agrees r w"
    "map pcs_case_id (open_cases loaded) = filter (\<lambda>i. \<not> over i w) ?ids"
    "\<forall>c \<in> set (open_cases loaded). case_ok L c \<and> (\<exists>row. case_row (pcs_case_id c) w = Some row \<and> stc_case row = c)"
    by (rule load_cases_result [OF rows])
  obtain w0 where w0: "on_store (update_experiment_state e EXP_RUNNING) w = (w0, Inr ())" "pw_master w0 = pw_master w" "pw_call w0 = pw_call w"
    "\<forall>i. case_row i w0 = case_row i w" "get_experiment e (pw_store w0) = Some (stored\<lparr>ste_state := EXP_RUNNING\<rparr>)"
    by (rule update_experiment_result [OF stored, of EXP_RUNNING])
  have world0: "world_ok L w0" using world(1) w0(2,3) by (simp add: world_ok_def)
  obtain facts where facts: "(if list_ex (\<lambda>c. case_session_kind c = NETWORK_SESSION) (open_cases loaded) then cluster_network_facts w0 else Inr []) = Inr facts"
    using network_facts_total [OF world0] by (cases "list_ex (\<lambda>c. case_session_kind c = NETWORK_SESSION) (open_cases loaded)") auto
  let ?d = "\<lparr>dsp_experiment = ste_experiment stored, dsp_reports = decided_cases loaded, dsp_workers = by_worker (open_cases loaded), dsp_facts = facts\<rparr>"
  have begins: "run_experiment_begin e w = (w0, Inr (Inr ?d))"
    using stored world(3) loaded(1) w0(1) facts by (simp add: run_experiment_begin_def require_experiment_def lift_st_def)
  have m: "mset (concat (map snd (by_worker (open_cases loaded)))) = mset (open_cases loaded)" by (rule by_worker_props)
  have dist: "distinct (map pcs_case_id (open_cases loaded))" unfolding loaded(4) using exp(2) by simp
  then have dist': "distinct (map pcs_case_id (concat (map snd (by_worker (open_cases loaded)))))" using m by (metis mset_eq_imp_distinct_iff mset_map)
  have "batch_ok L worker xs \<and> ready L (set xs) w0" if b: "(worker, xs) \<in> set (by_worker (open_cases loaded))" for worker xs
  proof -
    have sub: "set xs \<subseteq> set (open_cases loaded)" using mset_eq_setD [OF m] b by force
    have "distinct (map pcs_case_id xs)" using dist' b by (auto simp: map_concat distinct_concat_iff)
    then show ?thesis
      using sub loaded(5) by_worker_props(2) [of "open_cases loaded"] b world0 w0(4) by (fastforce simp: batch_ok_def list_all_iff ready_def present_def)
  qed
  then have "dispatch_ok L ?d w0" using world(2) exp dist' by (auto simp: dispatch_ok_def)
  moreover have "mset (map pcs_case_id (concat (map snd (by_worker (open_cases loaded))))) = mset (filter (\<lambda>i. \<not> over i w) ?ids)"
    using m loaded(4) by (metis mset_map)
  ultimately have "started_with L stored w ?d w0" using loaded(2,3) w0(4,5) exp(3) by (simp add: started_with_def)
  with begins that show thesis by blast
qed


subsection \<open>After the dispatch\<close>

lemma reports_in_order_total:
  assumes "set ids \<subseteq> crp_case_id ` set rs"
  obtains cases where "reports_in_order ids rs = Inr cases" "map crp_case_id cases = ids" "set cases \<subseteq> set rs"
proof -
  have one: "\<exists>r. (case dict_of (map (\<lambda>r. (crp_case_id r, r)) rs) i of None \<Rightarrow> Inl (KeyError i) | Some r \<Rightarrow> Inr r) = Inr r \<and> crp_case_id r = i \<and> r \<in> set rs"
    if "i \<in> set ids" for i
  proof -
    have "dict_of (map (\<lambda>r. (crp_case_id r, r)) rs) i \<noteq> None"
      using that assms by (auto simp: dict_of_def map_of_eq_None_iff image_image)
    then obtain r where r: "dict_of (map (\<lambda>r. (crp_case_id r, r)) rs) i = Some r" by blast
    then have "(i, r) \<in> set (rev (map (\<lambda>r. (crp_case_id r, r)) rs))" unfolding dict_of_def by (rule map_of_SomeD)
    with r show ?thesis by auto
  qed
  then have "\<forall>i \<in> set ids. \<exists>r. (case dict_of (map (\<lambda>r. (crp_case_id r, r)) rs) i of None \<Rightarrow> Inl (KeyError i) | Some r \<Rightarrow> Inr r) = Inr r \<and> crp_case_id r = i \<and> r \<in> set rs"
    by blast
  then obtain f where f: "\<forall>i \<in> set ids. (case dict_of (map (\<lambda>r. (crp_case_id r, r)) rs) i of None \<Rightarrow> Inl (KeyError i) | Some r \<Rightarrow> Inr r) = Inr (f i) \<and> crp_case_id (f i) = i \<and> f i \<in> set rs"
    by (rule bchoice [THEN exE])
  show thesis
  proof (rule that [of "map f ids"])
    show "reports_in_order ids rs = Inr (map f ids)" unfolding reports_in_order_def by (rule traverse_res_total) (use f in blast)
    show "map crp_case_id (map f ids) = ids" using f by (simp add: map_idI)
    show "set (map f ids) \<subseteq> set rs" using f by auto
  qed
qed

lemma children_finished:
  assumes start: "started_with L stored w d w0" and run: "interleaved (leaves L (set (pex_case_ids (ste_experiment stored)))) (may_answer L) (w0, dispatched_workers L d) (w1, kids)"
  shows "i < length kids \<Longrightarrow> kids ! i = Finished x \<Longrightarrow> covers L (set (batch d i)) (\<lambda>_. True) (batch d i) x w1"
    and "i < length kids \<Longrightarrow> kids ! i = Awaits (Call_Run endpoint q) k \<Longrightarrow> rrq_case q \<in> set (batch d i)"
    and "length kids = length (dsp_workers d)" "over j w \<Longrightarrow> j \<in> set (pex_case_ids (ste_experiment stored)) \<Longrightarrow> case_row j w1 = case_row j w"
    and "\<exists>s. get_experiment (pex_experiment_id (ste_experiment stored)) (pw_store w1) = Some s"
proof -
  let ?ids = "pex_case_ids (ste_experiment stored)"
  have ok: "dispatch_ok L d w0" using start by (simp add: started_with_def)
  have part: "ids_of (concat (map snd (dsp_workers d))) = {i \<in> set ?ids. \<not> over i w}"
    using start mset_eq_setD [of "map pcs_case_id (concat (map snd (dsp_workers d)))" "filter (\<lambda>i. \<not> over i w) ?ids"] by (auto simp: started_with_def)
  then have sub: "ids_of (concat (map snd (dsp_workers d))) \<subseteq> set ?ids" by blast
  note kids = children_run [OF ok run sub]
  show "length kids = length (dsp_workers d)" by (rule kids(1))
  show "i < length kids \<Longrightarrow> kids ! i = Finished x \<Longrightarrow> covers L (set (batch d i)) (\<lambda>_. True) (batch d i) x w1"
    using kids(1) kids(2) [of i] by simp
  show "i < length kids \<Longrightarrow> kids ! i = Awaits (Call_Run endpoint q) k \<Longrightarrow> rrq_case q \<in> set (batch d i)"
    using kids(1) kids(2) [of i] by (simp add: behaves_Awaits)
  have "leaves L {i \<in> set ?ids. over i w} w0 w1" by (rule kids(3)) (use part in auto)
  then have l: "\<And>i. i \<in> set ?ids \<Longrightarrow> over i w \<Longrightarrow> case_row i w1 = case_row i w0" "grows (pw_store w0) (pw_store w1)" by (auto simp: leaves_def)
  show "over j w \<Longrightarrow> j \<in> set ?ids \<Longrightarrow> case_row j w1 = case_row j w" using l(1) start by (simp add: started_with_def)
  show "\<exists>s. get_experiment (pex_experiment_id (ste_experiment stored)) (pw_store w1) = Some s"
  proof -
    obtain s where s: "map_of (st_experiments (pw_store w0)) (pex_experiment_id (ste_experiment stored)) = Some s"
      using start by (auto simp: started_with_def get_experiment_def)
    have "extends ste_experiment (st_experiments (pw_store w0)) (st_experiments (pw_store w1))" using l(2) by (simp add: grows_def)
    with s show ?thesis by (auto simp: get_experiment_def extends_def)
  qed
qed

lemma set_concat_nth: "f ` set (concat xss) = (\<Union>i < length xss. f ` set (xss ! i))"
proof -
  have "set (concat xss) = (\<Union>i < length xss. set (xss ! i))" by (auto simp: set_conv_nth [of xss])
  then show ?thesis by (simp add: image_UN)
qed

lemma agrees_row: "\<lbrakk>agrees r s; case_row (crp_case_id r) t = case_row (crp_case_id r) s\<rbrakk> \<Longrightarrow> agrees r t"
  by (simp add: agrees_def)

lemma run_experiment_ends:
  assumes start: "started_with L stored w d w0" and run: "interleaved (leaves L (set (pex_case_ids (ste_experiment stored)))) (may_answer L) (w0, dispatched_workers L d) (w1, map (\<lambda>rs. Finished (Inr rs)) chunks)"
  obtains w2 report where "run_experiment_end d chunks w1 = (w2, Inr report)" "map crp_case_id (erp_cases report) = pex_case_ids (ste_experiment stored)"
    "terminal_experiment (erp_state report)" "map_option ste_state (get_experiment (pex_experiment_id (ste_experiment stored)) (pw_store w2)) = Some (erp_state report)"
    "\<forall>r \<in> set (erp_cases report). agrees r w2"
proof -
  let ?ids = "pex_case_ids (ste_experiment stored)" and ?e = "pex_experiment_id (ste_experiment stored)"
  note kids = children_finished [OF start run]
  have len: "length chunks = length (dsp_workers d)" using kids(3) by simp
  have chunk: "mset (map crp_case_id (chunks ! i)) = mset (map pcs_case_id (batch d i)) \<and> (\<forall>r \<in> set (chunks ! i). agrees r w1)" if "i < length chunks" for i
    using kids(1) [of i] that truthful_agrees by (auto simp: covers_def steady_def)
  have open_ids: "crp_case_id ` set (concat chunks) = {i \<in> set ?ids. \<not> over i w}"
  proof -
    have "crp_case_id ` set (concat chunks) = (\<Union>i < length chunks. crp_case_id ` set (chunks ! i))" by (rule set_concat_nth)
    also have "\<dots> = (\<Union>i < length (dsp_workers d). pcs_case_id ` set (batch d i))"
      using chunk len mset_map_image by (metis (no_types, lifting) SUP_cong lessThan_iff)
    also have "\<dots> = pcs_case_id ` set (concat (map snd (dsp_workers d)))" unfolding set_concat_nth by (simp add: batch_def)
    also have "\<dots> = {i \<in> set ?ids. \<not> over i w}"
      using start mset_eq_setD [of "map pcs_case_id (concat (map snd (dsp_workers d)))" "filter (\<lambda>i. \<not> over i w) ?ids"] by (auto simp: started_with_def)
    finally show ?thesis .
  qed
  have "map crp_case_id (dsp_reports d) = filter (\<lambda>i. over i w) ?ids" using start by (simp add: started_with_def)
  then have old: "crp_case_id ` set (dsp_reports d) = {i \<in> set ?ids. over i w}" by (metis list.set_map set_filter)
  have agree: "\<forall>r \<in> set (dsp_reports d @ concat chunks). agrees r w1"
  proof
    fix r
    assume "r \<in> set (dsp_reports d @ concat chunks)"
    then have "r \<in> set (dsp_reports d) \<or> (\<exists>i < length chunks. r \<in> set (chunks ! i))" by (auto simp: set_conv_nth [of chunks])
    then consider "r \<in> set (dsp_reports d)" | i where "i < length chunks" "r \<in> set (chunks ! i)" by blast
    then show "agrees r w1"
    proof cases
      case 1
      then have "agrees r w" "over (crp_case_id r) w" "crp_case_id r \<in> set ?ids" using start old by (auto simp: started_with_def)
      then show ?thesis using kids(4) agrees_row by blast
    qed (use chunk in blast)
  qed
  obtain cases where cases: "reports_in_order ?ids (dsp_reports d @ concat chunks) = Inr cases" "map crp_case_id cases = ?ids" "set cases \<subseteq> set (dsp_reports d @ concat chunks)"
    by (rule reports_in_order_total [of ?ids "dsp_reports d @ concat chunks"]) (use open_ids old in \<open>auto simp: image_Un\<close>)
  have agree: "\<forall>r \<in> set cases. agrees r w1" using agree cases(3) by blast
  then have "list_all terminal_state (map crp_state cases)" by (simp add: list_all_iff agrees_def)
  then obtain state where state: "terminal_experiment_state (map crp_state cases) = Inr state" "terminal_experiment state"
    using terminal_experiment_total by blast
  obtain s where s: "get_experiment ?e (pw_store w1) = Some s" using kids(5) by blast
  obtain w2 where w2: "on_store (update_experiment_state ?e state) w1 = (w2, Inr ())" "pw_master w2 = pw_master w1" "pw_call w2 = pw_call w1"
    "\<forall>i. case_row i w2 = case_row i w1" "get_experiment ?e (pw_store w2) = Some (s\<lparr>ste_state := state\<rparr>)"
    by (rule update_experiment_result [OF s, of state])
  have d: "dsp_experiment d = ste_experiment stored" using start by (simp add: started_with_def)
  show thesis
  proof (rule that)
    show "run_experiment_end d chunks w1 = (w2, Inr \<lparr>erp_experiment_id = ?e, erp_state = state, erp_cases = cases\<rparr>)"
      using cases(1) state(1) w2(1) by (simp add: run_experiment_end_def d finish_experiment_def lift_st_def)
  qed (use cases(2) state(2) w2(4,5) agree agrees_row in \<open>auto\<close>)
qed

text \<open>The limits are not checked: a Worker may answer with any port, and one outside the range ends the run of the
  case with an exception before the server that was started for it is stopped.\<close>

lemma port_out_of_range_escapes:
  assumes "\<not> (1 \<le> p \<and> p \<le> 65535)"
  shows "accepted_answer L (Call_Iperf u q) (Served \<lparr>ipr_accepted = True, ipr_detail = [], ipr_reason = None, ipr_port = Some p\<rparr>)"
    and "\<exists>e. run_with_lease L t sid c (Some \<lparr>ilz_target = target, ilz_server_id = i, ilz_port = p\<rparr>) w = (w, Finished (Inl e))"
proof -
  show "accepted_answer L (Call_Iperf u q) (Served \<lparr>ipr_accepted = True, ipr_detail = [], ipr_reason = None, ipr_port = Some p\<rparr>)"
    by (simp add: check_iperf_response_def)
  let ?q = "\<lparr>rrq_tokens = dtk_tokens t, rrq_session_id = sid, rrq_case = c, rrq_iperf_server_port = Some p\<rparr>"
  have "check_run_request ?q \<noteq> Inr ()" using assms by (auto simp: check_run_request_def present_check_def)
  then obtain e where "built check_run_request ?q = Inl e" by (cases "check_run_request ?q") (auto simp: built_def)
  then show "\<exists>e. run_with_lease L t sid c (Some \<lparr>ilz_target = target, ilz_server_id = i, ilz_port = p\<rparr>) w = (w, Finished (Inl e))"
    by (simp add: run_with_lease_def and_run_def attempt_def done_with_def)
qed

text \<open>[C34] A run of an experiment decides every case and tells the truth about it, whichever calls fail and whatever the
  Workers answer within two limits. If the experiment is not over, its cases are stored and valid and the control plane is
  in a reachable state, \<^verbatim>\<open>run_experiment\<close> always gets as far as \<^verbatim>\<open>gather\<close>. From then on, let every answer be a failed call or a
  response its constructor accepts (\<open>accepted_answer\<close>) whose failures and records carry finite numbers and whose iperf3
  port lies in 1..65535 (\<open>within_limits\<close>). The controller does not check these limits: \<^verbatim>\<open>PrepareIperfServerResponse\<close> admits any
  port and \<^verbatim>\<open>json.loads\<close> reads \<^verbatim>\<open>NaN\<close>, and a port outside the range does end the run of the Worker with an exception
  (\<open>port_out_of_range_escapes\<close>). Within them, in every interleaving of the Workers'
  coroutines and of any activity of the Master that leaves the states of these cases alone: no coroutine ends with an exception;
  no call runs a case that was decided before, and the row of such a case is never rewritten; and when all coroutines have
  finished, the rest of \<^verbatim>\<open>run_experiment\<close> succeeds with one report per case, in order, each in a terminal state that is the state the
  store holds, and the experiment is stored in the terminal state that is reported.\<close>

theorem run_experiment_decides_all:
  assumes "resumable L e stored w"
  shows "\<exists>w0 d. run_experiment_begin e w = (w0, Inr (Inr d))
    \<and> (\<forall>w1 kids. interleaved (leaves L (set (pex_case_ids (ste_experiment stored)))) (\<lambda>c a. accepted_answer L c a \<and> within_limits a)
          (w0, dispatched_workers L d) (w1, kids) \<longrightarrow>
        (\<forall>x. Finished x \<in> set kids \<longrightarrow> is_ok x)
      \<and> (\<forall>endpoint q k. Awaits (Call_Run endpoint q) k \<in> set kids \<longrightarrow> \<not> over (pcs_case_id (rrq_case q)) w)
      \<and> (\<forall>i \<in> set (pex_case_ids (ste_experiment stored)). over i w \<longrightarrow> case_row i w1 = case_row i w)
      \<and> (\<forall>chunks. kids = map (\<lambda>rs. Finished (Inr rs)) chunks \<longrightarrow>
           (\<exists>w2 report. run_experiment_end d chunks w1 = (w2, Inr report) \<and> map crp_case_id (erp_cases report) = pex_case_ids (ste_experiment stored)
              \<and> terminal_experiment (erp_state report) \<and> map_option ste_state (get_experiment e (pw_store w2)) = Some (erp_state report)
              \<and> (\<forall>r \<in> set (erp_cases report). agrees r w2))))"
proof -
  let ?ids = "pex_case_ids (ste_experiment stored)"
  obtain w0 d where d: "run_experiment_begin e w = (w0, Inr (Inr d))" "started_with L stored w d w0" by (rule run_experiment_begins [OF assms])
  have e: "pex_experiment_id (ste_experiment stored) = e" using assms by (simp add: resumable_def)
  have part: "pcs_case_id ` set (batch d i) \<subseteq> {i. \<not> over i w}" if "i < length (dsp_workers d)" for i
  proof -
    have "set (batch d i) \<subseteq> set (concat (map snd (dsp_workers d)))" using batch_in [OF that] by force
    then show ?thesis
      using d(2) mset_eq_setD [of "map pcs_case_id (concat (map snd (dsp_workers d)))" "filter (\<lambda>i. \<not> over i w) ?ids"] by (fastforce simp: started_with_def)
  qed
  show ?thesis
  proof (rule exI [of _ w0], rule exI [of _ d], rule conjI, rule d(1), intro allI impI)
    fix w1 kids
    assume "interleaved (leaves L (set ?ids)) (\<lambda>c a. accepted_answer L c a \<and> within_limits a) (w0, dispatched_workers L d) (w1, kids)"
    note run = this [folded may_answer_eq]
    note k = children_finished [OF d(2) run]
    have "\<forall>x. Finished x \<in> set kids \<longrightarrow> is_ok x"
      using k(1) by (fastforce simp: in_set_conv_nth covers_def)
    moreover have "\<forall>endpoint q c. Awaits (Call_Run endpoint q) c \<in> set kids \<longrightarrow> \<not> over (pcs_case_id (rrq_case q)) w"
      using k(2,3) part by (fastforce simp: in_set_conv_nth)
    moreover have "\<forall>i \<in> set ?ids. over i w \<longrightarrow> case_row i w1 = case_row i w" using k(4) by blast
    moreover have "\<exists>w2 report. run_experiment_end d chunks w1 = (w2, Inr report) \<and> map crp_case_id (erp_cases report) = ?ids
              \<and> terminal_experiment (erp_state report) \<and> map_option ste_state (get_experiment e (pw_store w2)) = Some (erp_state report)
              \<and> (\<forall>r \<in> set (erp_cases report). agrees r w2)" if "kids = map (\<lambda>rs. Finished (Inr rs)) chunks" for chunks
      by (rule run_experiment_ends [OF d(2) run [unfolded that], unfolded e]) blast
    ultimately show "(\<forall>x. Finished x \<in> set kids \<longrightarrow> is_ok x)
      \<and> (\<forall>endpoint q k. Awaits (Call_Run endpoint q) k \<in> set kids \<longrightarrow> \<not> over (pcs_case_id (rrq_case q)) w)
      \<and> (\<forall>i \<in> set ?ids. over i w \<longrightarrow> case_row i w1 = case_row i w)
      \<and> (\<forall>chunks. kids = map (\<lambda>rs. Finished (Inr rs)) chunks \<longrightarrow>
           (\<exists>w2 report. run_experiment_end d chunks w1 = (w2, Inr report) \<and> map crp_case_id (erp_cases report) = ?ids
              \<and> terminal_experiment (erp_state report) \<and> map_option ste_state (get_experiment e (pw_store w2)) = Some (erp_state report)
              \<and> (\<forall>r \<in> set (erp_cases report). agrees r w2)))" by blast
  qed
qed

definition demo_experiment :: profiling_experiment where
  "demo_experiment = \<lparr>pex_experiment_id = ''e'', pex_strategy_id = ''s'', pex_created_at = demo_time, pex_requested_by = None,
     pex_case_ids = [''c'', ''d''], pex_configuration_id = None\<rparr>"

definition demo_decided_case :: profiling_case where
  "demo_decided_case = demo_stored_case\<lparr>pcs_case_id := ''d''\<rparr>"

definition demo_resumed :: world where
  "demo_resumed = \<lparr>pw_store = store_init\<lparr>
       st_cases := [(''c'', \<lparr>stc_case = demo_stored_case, stc_state = CASE_RUNNING, stc_failure = None\<rparr>),
                    (''d'', \<lparr>stc_case = demo_decided_case, stc_state = CASE_COMPLETED, stc_failure = None\<rparr>)],
       st_experiments := [(''e'', \<lparr>ste_experiment = demo_experiment, ste_state = EXP_RUNNING\<rparr>)]\<rparr>,
     pw_master = demo_master, pw_call = demo_call 12 ''x'', pw_inspections = 0\<rparr>"

lemma demo_resumable: "resumable demo_library ''e'' \<lparr>ste_experiment = demo_experiment, ste_state = EXP_RUNNING\<rparr> demo_resumed"
proof -
  have "case_ok demo_library demo_stored_case" "case_ok demo_library demo_decided_case"
    by (simp_all add: case_ok_def demo_stored_case_def demo_decided_case_def demo_case_def check_profiling_case_def check_network_case_spec_def
      check_probe_def non_empty_def absent_or_def present_check_def canonical_network_case_spec_def jopt_def)
  then show ?thesis
    by (simp add: resumable_def library_ok_def demo_library_def demo_hash_def world_ok_def demo_resumed_def get_experiment_def terminal_experiment_def
      check_profiling_experiment_def check_ids_unique_def demo_experiment_def non_empty_def absent_or_def require_aware_def demo_time_def case_row_def
      demo_stored_case_def demo_decided_case_def)
qed

theorem run_experiment_decides_all_witness:
  "\<exists>w0 d. run_experiment_begin ''e'' demo_resumed = (w0, Inr (Inr d))
    \<and> (\<forall>w1 chunks. interleaved (leaves demo_library {''c'', ''d''}) (\<lambda>c a. accepted_answer demo_library c a \<and> within_limits a) (w0, dispatched_workers demo_library d) (w1, map (\<lambda>rs. Finished (Inr rs)) chunks) \<longrightarrow>
        (\<exists>w2 report. run_experiment_end d chunks w1 = (w2, Inr report) \<and> map crp_case_id (erp_cases report) = [''c'', ''d'']))"
proof -
  have ids: "pex_case_ids (ste_experiment \<lparr>ste_experiment = demo_experiment, ste_state = EXP_RUNNING\<rparr>) = [''c'', ''d'']" by (simp add: demo_experiment_def)
  obtain w0 d where d: "run_experiment_begin ''e'' demo_resumed = (w0, Inr (Inr d))"
    and run: "\<And>w1 chunks. interleaved (leaves demo_library {''c'', ''d''}) (\<lambda>c a. accepted_answer demo_library c a \<and> within_limits a) (w0, dispatched_workers demo_library d) (w1, map (\<lambda>rs. Finished (Inr rs)) chunks)
      \<Longrightarrow> \<exists>w2 report. run_experiment_end d chunks w1 = (w2, Inr report) \<and> map crp_case_id (erp_cases report) = [''c'', ''d'']"
    using run_experiment_decides_all [OF demo_resumable] unfolding ids list.set by (elim exE conjE) (metis (no_types, lifting))
  then show ?thesis by blast
qed

end
