(* ===== verification/Admin_Safety.thy ===== *)
theory Admin_Safety
  imports Experiment_Admin Experiment_Safety
begin

section \<open>Experiments from their creation on\<close>

text \<open>
  Creating an experiment keeps the cases and the experiments of the store well-formed, can be repeated, and leaves an
  experiment that \<^verbatim>\<open>run_experiment\<close> can run to its end.
\<close>

declare map_of_eq_Some_iff [simp del] Some_eq_map_of_iff [simp del]

definition row_valid :: "store_library \<Rightarrow> string \<Rightarrow> stored_case \<Rightarrow> bool" where
  "row_valid L i row \<longleftrightarrow> pcs_case_id (stc_case row) = i \<and> case_ok L (stc_case row) \<and> present_check check_profiling_failure (stc_failure row) = Inr ()
     \<and> (stc_failure row \<noteq> None \<longrightarrow> stc_state row = CASE_FAILED \<or> stc_state row = CASE_CANCELLED)"

definition stored_ok :: "profile_store \<Rightarrow> string \<Rightarrow> stored_experiment \<Rightarrow> bool" where
  "stored_ok s i row \<longleftrightarrow> pex_experiment_id (ste_experiment row) = i \<and> check_profiling_experiment (ste_experiment row) = Inr ()
     \<and> (\<forall>j \<in> set (pex_case_ids (ste_experiment row)). get_case j s \<noteq> None)"

definition well_stored :: "store_library \<Rightarrow> profile_store \<Rightarrow> bool" where
  "well_stored L s \<longleftrightarrow> (\<forall>i row. get_case i s = Some row \<longrightarrow> row_valid L i row) \<and> (\<forall>i row. get_experiment i s = Some row \<longrightarrow> stored_ok s i row)"

lemma well_stored_resumable:
  assumes "well_stored L (pw_store w)" "library_ok L" "world_ok L w" "get_experiment i (pw_store w) = Some stored" "\<not> terminal_experiment (ste_state stored)"
  shows "resumable L i stored w"
proof -
  have ok: "stored_ok (pw_store w) i stored" using assms(1,4) by (simp add: well_stored_def)
  have "\<exists>row. case_row j w = Some row \<and> case_ok L (stc_case row) \<and> pcs_case_id (stc_case row) = j"
    if j: "j \<in> set (pex_case_ids (ste_experiment stored))" for j
  proof -
    obtain row where "get_case j (pw_store w) = Some row" using ok j by (auto simp: stored_ok_def)
    then show ?thesis using assms(1) by (auto simp: well_stored_def row_valid_def case_row_def get_case_def)
  qed
  then show ?thesis using assms ok by (simp add: resumable_def stored_ok_def)
qed


subsection \<open>Reading the status\<close>

lemma check_case_cover_ids:
  "check_case_cover E seen cs = Inr () \<longleftrightarrow> distinct (map cst_case_id cs) \<and> set (map cst_case_id cs) \<subseteq> E - seen \<and> E \<subseteq> seen \<union> set (map cst_case_id cs)"
proof (induction E seen cs rule: check_case_cover.induct)
  case (2 E seen c cs)
  then show ?case by (auto simp: insert_absorb) (metis imageI)+
qed auto

lemma read_status_total:
  assumes "well_stored L (pw_store w)"
  shows "\<exists>st. read_status i w = Inr st \<and> map_option exs_state st = map_option ste_state (get_experiment i (pw_store w))
    \<and> (\<forall>x. st = Some x \<longrightarrow> map (\<lambda>c. Some (cst_state c)) (exs_cases x) = map (\<lambda>j. map_option stc_state (get_case j (pw_store w))) (pex_case_ids (exs_experiment x)))"
proof (cases "get_experiment i (pw_store w)")
  case (Some stored)
  let ?ids = "pex_case_ids (ste_experiment stored)" and ?s = "pw_store w"
  have ok: "stored_ok ?s i stored" using assms Some by (simp add: well_stored_def)
  let ?st = "\<lambda>j. let row = the (get_case j ?s) in \<lparr>cst_case_id = j, cst_worker_id = pcs_worker_id (stc_case row), cst_state = stc_state row, cst_failure = stc_failure row\<rparr>"
  have exp: "check_profiling_experiment (ste_experiment stored) = Inr ()" using ok by (simp add: stored_ok_def)
  then have ids: "distinct ?ids" "\<And>j. j \<in> set ?ids \<Longrightarrow> j \<noteq> []"
    by (auto simp: check_profiling_experiment_def check_ids_unique_def for_res_Inr)
  have one: "status_of_case ?s j = Inr (?st j) \<and> check_case_status (?st j) = Inr () \<and> get_case j ?s \<noteq> None" if j: "j \<in> set ?ids" for j
  proof -
    obtain row where row: "get_case j ?s = Some row" using ok j by (auto simp: stored_ok_def)
    then have r: "row_valid L j row" using assms by (simp add: well_stored_def)
    then have "pcs_worker_id (stc_case row) \<noteq> []" by (auto simp: row_valid_def case_ok_def check_profiling_case_def)
    with row r ids(2) [OF j] show ?thesis
      by (auto simp: status_of_case_def stored_case_of_def check_case_status_def row_valid_def built_def)
  qed
  then have all: "traverse_res (status_of_case ?s) ?ids = Inr (map ?st ?ids)" by (intro traverse_res_total) blast
  have "check_experiment_status \<lparr>exs_experiment = ste_experiment stored, exs_state = ste_state stored, exs_cases = map ?st ?ids\<rparr> = Inr ()"
    using exp ids(1) one by (simp add: check_experiment_status_def check_case_cover_ids for_res_Inr comp_def Let_def)
  then have "read_status i w = Inr (Some \<lparr>exs_experiment = ste_experiment stored, exs_state = ste_state stored, exs_cases = map ?st ?ids\<rparr>)"
    by (simp add: read_status_def Some all built_def)
  moreover have "map (\<lambda>j. Some (stc_state (the (get_case j ?s)))) ?ids = map (\<lambda>j. map_option stc_state (get_case j ?s)) ?ids"
    using one by (auto simp: option.expand option.map_sel)
  ultimately show ?thesis using Some by (simp add: Let_def comp_def)
qed (simp add: read_status_def)


subsection \<open>Appending\<close>

lemma append_case_keeps:
  assumes "well_stored L s" "check_profiling_case c = Inr ()" "append_case L c s = (s', x)"
  shows "well_stored L s' \<and> grows s s' \<and> st_experiments s' = st_experiments s \<and> (is_ok x \<longrightarrow> get_case (pcs_case_id c) s' \<noteq> None)"
proof -
  have g: "grows s s'" using store_step_grows [of s L "Append_Case c"] assms(3) by simp
  consider "s' = s" "\<not> is_ok x" | "s' = s" "get_case (pcs_case_id c) s \<noteq> None"
    | "map_of (st_cases s) (pcs_case_id c) = None" "s' = s\<lparr>st_cases := st_cases s @ [(pcs_case_id c, \<lparr>stc_case = c, stc_state = CASE_PENDING, stc_failure = None\<rparr>)]\<rparr>"
        "finite_json (canonical_case_spec (lib_repr L) (pcs_spec c))"
  proof (cases "finite_json (canonical_case_spec (lib_repr L) (pcs_spec c))")
    case True
    then show thesis
      using assms(3) that
      by (cases "map_of (st_cases s) (pcs_case_id c)") (auto simp: append_case_def insert_verified_def get_case_def split: if_splits)
  qed (use assms(3) that(1) in \<open>auto simp: append_case_def\<close>)
  then show ?thesis
  proof cases
    case 3
    have new: "get_case i s' = (if i = pcs_case_id c then Some \<lparr>stc_case = c, stc_state = CASE_PENDING, stc_failure = None\<rparr> else get_case i s)" for i
      using 3(1,2) by (auto simp: get_case_def map_add_def split: option.split)
    have exps: "st_experiments s' = st_experiments s" using 3(2) by simp
    have "well_stored L s'"
      using assms(1,2) 3(3) exps by (auto simp: well_stored_def new row_valid_def case_ok_def stored_ok_def get_experiment_def split: if_splits)
    with g new exps show ?thesis by simp
  qed (use assms(1) g in auto)
qed

lemma append_cases_keep:
  assumes "well_stored L (pw_store w)" "list_all (\<lambda>c. check_profiling_case c = Inr ()) cs" "append_cases L cs w = (w', x)"
  shows "well_stored L (pw_store w') \<and> grows (pw_store w) (pw_store w') \<and> pw_master w' = pw_master w \<and> pw_call w' = pw_call w
    \<and> st_experiments (pw_store w') = st_experiments (pw_store w) \<and> (is_ok x \<longrightarrow> (\<forall>c \<in> set cs. get_case (pcs_case_id c) (pw_store w') \<noteq> None))"
  using assms
proof (induction cs arbitrary: w)
  case (Cons c cs)
  obtain s y where c: "append_case L c (pw_store w) = (s, y)" by fastforce
  have k: "well_stored L s \<and> grows (pw_store w) s \<and> st_experiments s = st_experiments (pw_store w) \<and> (is_ok y \<longrightarrow> get_case (pcs_case_id c) s \<noteq> None)"
    by (rule append_case_keeps [OF Cons.prems(1) _ c]) (use Cons.prems(2) in simp)
  show ?case
  proof (cases y)
    case (Inr b)
    then have rest: "append_cases L cs (w\<lparr>pw_store := s\<rparr>) = (w', x)" using Cons.prems(3) c by (simp add: on_store_def)
    have IH: "well_stored L (pw_store w') \<and> grows s (pw_store w') \<and> pw_master w' = pw_master w \<and> pw_call w' = pw_call w
      \<and> st_experiments (pw_store w') = st_experiments s \<and> (is_ok x \<longrightarrow> (\<forall>c \<in> set cs. get_case (pcs_case_id c) (pw_store w') \<noteq> None))"
      using Cons.IH [OF _ _ rest] k Cons.prems(2) by simp
    have "extends stc_case (st_cases s) (st_cases (pw_store w'))" using IH by (simp add: grows_def)
    then have "get_case (pcs_case_id c) (pw_store w') \<noteq> None" using k Inr by (auto simp: extends_def get_case_def)
    with IH k show ?thesis using grows_trans by auto
  qed (use Cons.prems(3) c k in \<open>auto simp: on_store_def\<close>)
qed simp

lemma append_experiment_keeps:
  assumes "well_stored L s" "check_profiling_experiment e = Inr ()" "get_experiment (pex_experiment_id e) s = None"
    and "\<forall>j \<in> set (pex_case_ids e). get_case j s \<noteq> None" "append_experiment e s = (s', x)"
  shows "well_stored L s' \<and> grows s s' \<and> x = Inr True \<and> get_experiment (pex_experiment_id e) s' = Some \<lparr>ste_experiment = e, ste_state = EXP_PENDING\<rparr>"
proof -
  have g: "grows s s'" using store_step_grows [of s L "Append_Experiment e"] assms(5) by simp
  have s': "x = Inr True" "s' = s\<lparr>st_experiments := st_experiments s @ [(pex_experiment_id e, \<lparr>ste_experiment = e, ste_state = EXP_PENDING\<rparr>)]\<rparr>"
    using assms(3,5) by (simp_all add: append_experiment_def insert_verified_def get_experiment_def)
  then have new: "get_experiment i s' = (if i = pex_experiment_id e then Some \<lparr>ste_experiment = e, ste_state = EXP_PENDING\<rparr> else get_experiment i s)" "get_case i s' = get_case i s" for i
    using assms(3) by (auto simp: get_experiment_def get_case_def map_add_def split: option.split)
  then have "well_stored L s'" using assms(1,2,4) by (auto simp: well_stored_def stored_ok_def)
  with g s' new show ?thesis by simp
qed

lemma set_first_of_each: "set (first_of_each cs) \<subseteq> set cs"
  by (induction cs) auto

lemma persist_experiment_keeps:
  assumes "well_stored L (pw_store w)" "list_all (\<lambda>c. check_profiling_case c = Inr ()) unique" "check_profiling_experiment e = Inr ()"
    and "pex_case_ids e = map pcs_case_id unique" "persist_experiment L unique e w = (w', x)"
  shows "well_stored L (pw_store w') \<and> grows (pw_store w) (pw_store w') \<and> pw_master w' = pw_master w \<and> pw_call w' = pw_call w
    \<and> (\<forall>y. x = Inr y \<longrightarrow> (\<exists>stored. get_experiment (pex_experiment_id e) (pw_store w') = Some stored \<and> ste_experiment stored = y))"
proof (cases "get_experiment (pex_experiment_id e) (pw_store w)")
  case None
  obtain w1 y where cs: "append_cases L unique w = (w1, y)" by fastforce
  note k = append_cases_keep [OF assms(1,2) cs]
  show ?thesis
  proof (cases y)
    case (Inr u)
    obtain s z where s: "append_experiment e (pw_store w1) = (s, z)" by fastforce
    have "well_stored L s \<and> grows (pw_store w1) s \<and> z = Inr True \<and> get_experiment (pex_experiment_id e) s = Some \<lparr>ste_experiment = e, ste_state = EXP_PENDING\<rparr>"
      by (rule append_experiment_keeps [OF _ assms(3) _ _ s]) (use k Inr None assms(4) in \<open>auto simp: get_experiment_def\<close>)
    moreover from this have "w' = w1\<lparr>pw_store := s\<rparr>" "x = Inr e" using assms(5) None cs Inr s by (simp_all add: persist_experiment_def on_store_def)
    ultimately show ?thesis using k grows_trans by auto
  qed (use assms(5) None cs k in \<open>auto simp: persist_experiment_def\<close>)
qed (use assms(1,5) in \<open>auto simp: persist_experiment_def\<close>)


subsection \<open>Creating\<close>

lemma canonical_case_ok: "canonical_case L c = Inr d \<Longrightarrow> check_profiling_case d = Inr () \<and> pcs_worker_id d = pcs_worker_id c \<and> pcs_spec d = pcs_spec c"
  by (auto simp: canonical_case_def bind_res_Inr)

lemma executed_case_ok: "\<lbrakk>executed_case L nonce fresh c = Inr d; check_profiling_case c = Inr ()\<rbrakk> \<Longrightarrow> check_profiling_case d = Inr ()"
  by (auto simp: executed_case_def bind_res_Inr split: if_splits)

lemma execution_valid:
  assumes "execution_of L nonce configuration force rerun fresh cases canonical = Inr (execution, i)"
    and "list_all (\<lambda>c. check_profiling_case c = Inr ()) cases" "list_all (\<lambda>c. check_profiling_case c = Inr ()) canonical"
  shows "list_all (\<lambda>c. check_profiling_case c = Inr ()) (first_of_each execution)"
proof -
  have "list_all (\<lambda>c. check_profiling_case c = Inr ()) execution"
  proof (cases "force \<or> fresh \<noteq> []")
    case True
    then have "list_all2 (\<lambda>c d. executed_case L nonce fresh c = Inr d) canonical execution"
      using assms(1) by (auto simp: execution_of_def bind_res_Inr traverse_res_Inr)
    then show ?thesis using assms(3) by (induction rule: list_all2_induct) (auto intro: executed_case_ok)
  qed (use assms in \<open>auto simp: execution_of_def split: if_splits\<close>)
  then show ?thesis using set_first_of_each [of execution] by (auto simp: list_all_iff)
qed

lemma grows_experiment:
  assumes "grows s t" "get_experiment i s = Some stored"
  obtains stored2 where "get_experiment i t = Some stored2" "ste_experiment stored2 = ste_experiment stored"
proof -
  have "extends ste_experiment (st_experiments s) (st_experiments t)" using assms(1) by (simp add: grows_def)
  with assms(2) that show thesis by (auto simp: extends_def get_experiment_def)
qed

definition configured :: "store_library \<Rightarrow> string \<Rightarrow> profiling_case list \<Rightarrow> string \<Rightarrow> bool" where
  "configured L strategy cases configuration \<longleftrightarrow> (\<exists>ids. traverse_res (canonical_id_of L) cases = Inr ids
     \<and> profiling_experiment_id (lib_sha L) strategy (sort (remdups ids)) = Inr configuration) \<and> is_ok (traverse_res (canonical_case L) cases)"

lemma configured_known:
  "\<lbrakk>configured L strategy cases configuration; get_experiment configuration (pw_store w) = Some stored\<rbrakk>
    \<Longrightarrow> create_experiment L strategy cases requested_by False False w = (w, Inr (ste_experiment stored))"
  by (auto simp: configured_def is_ok_iff create_experiment_def fresh_case_ids_def)

lemma create_experiment_cases:
  assumes "create_experiment L strategy cases requested_by force rerun w = (w', x)" "list_all (\<lambda>c. check_profiling_case c = Inr ()) cases"
  obtains (failed) m where "w' = w" "x = Inl m"
  | (known) configuration stored where "configured L strategy cases configuration" "w' = w" "get_experiment configuration (pw_store w) = Some stored" "x = Inr (ste_experiment stored)"
  | (created) unique e where "persist_experiment L unique e w = (w', x)" "list_all (\<lambda>c. check_profiling_case c = Inr ()) unique" "check_profiling_experiment e = Inr ()"
      "pex_case_ids e = map pcs_case_id unique" "\<not> force \<Longrightarrow> \<not> rerun \<Longrightarrow> configured L strategy cases (pex_experiment_id e)"
proof (cases "\<exists>m. x = Inl m \<and> w' = w")
  case False
  obtain ids where ids: "traverse_res (canonical_id_of L) cases = Inr ids"
    using assms(1) False by (cases "traverse_res (canonical_id_of L) cases") (auto simp: create_experiment_def)
  obtain configuration where configuration: "profiling_experiment_id (lib_sha L) strategy (sort (remdups ids)) = Inr configuration"
    using assms(1) False ids by (cases "profiling_experiment_id (lib_sha L) strategy (sort (remdups ids))") (auto simp: create_experiment_def)
  obtain canonical where canonical: "traverse_res (canonical_case L) cases = Inr canonical"
    using assms(1) False ids configuration by (cases "traverse_res (canonical_case L) cases") (auto simp: create_experiment_def)
  have configured: "configured L strategy cases configuration" using ids configuration canonical by (simp add: configured_def)
  let ?fresh = "fresh_case_ids force rerun (sort (remdups ids)) (pw_store w)"
  note run = assms(1) [unfolded create_experiment_def ids configuration canonical bind_lift_st sum.case Let_def]
  show thesis
  proof (cases "\<not> force \<and> ?fresh = [] \<and> get_experiment configuration (pw_store w) \<noteq> None")
    case True
    then obtain stored where "get_experiment configuration (pw_store w) = Some stored" by blast
    then show thesis using run True by (intro known [OF configured]) auto
  next
    case fresh: False
    obtain execution i where execution: "execution_of L (ce_fresh (pw_call w)) configuration force rerun ?fresh cases canonical = Inr (execution, i)"
      using run fresh False by (cases "execution_of L (ce_fresh (pw_call w)) configuration force rerun ?fresh cases canonical") auto
    have valid: "list_all (\<lambda>c. check_profiling_case c = Inr ()) (first_of_each execution)"
    proof (rule execution_valid [OF execution assms(2)])
      have "list_all2 (\<lambda>c d. canonical_case L c = Inr d) cases canonical" using canonical by (simp add: traverse_res_Inr)
      then show "list_all (\<lambda>c. check_profiling_case c = Inr ()) canonical"
        by (induction rule: list_all2_induct) (auto dest: canonical_case_ok)
    qed
    let ?e = "\<lparr>pex_experiment_id = i, pex_strategy_id = strategy, pex_created_at = ce_wall (pw_call w), pex_requested_by = requested_by,
      pex_case_ids = map pcs_case_id (first_of_each execution), pex_configuration_id = Some configuration\<rparr>"
    have rest: "(case built check_profiling_experiment ?e of Inl m \<Rightarrow> (w, Inl m) | Inr e \<Rightarrow> persist_experiment L (first_of_each execution) e w) = (w', x)"
      using run execution unfolding if_not_P [OF fresh] by simp
    have "built check_profiling_experiment ?e \<noteq> Inl m" for m
    proof
      assume "built check_profiling_experiment ?e = Inl m"
      with rest have "w' = w \<and> x = Inl m" by simp
      with False show False by blast
    qed
    then obtain f where f: "built check_profiling_experiment ?e = Inr f" by (metis sum.exhaust)
    then have e: "check_profiling_experiment ?e = Inr ()" "f = ?e" by simp_all
    with rest f have e: "check_profiling_experiment ?e = Inr ()" "persist_experiment L (first_of_each execution) ?e w = (w', x)" by simp_all
    show thesis
    proof (rule created [OF e(2) valid e(1)])
      show "configured L strategy cases (pex_experiment_id ?e)" if "\<not> force" "\<not> rerun"
        using that execution configured by (simp add: execution_of_def fresh_case_ids_def)
    qed simp
  qed
qed (use failed in blast)

text \<open>[C37] Creating an experiment out of valid cases keeps the stored cases and experiments well-formed and loses nothing, also
  when it fails halfway. The experiment it returns is stored under its id with exactly this definition and, unless a former
  run has ended it, \<^verbatim>\<open>run_experiment\<close> can run it to its end: it is \<open>resumable\<close>, which the property of \<^verbatim>\<open>run_experiment\<close> asks for.
  If neither a new execution was forced nor a rerun of decided cases asked for, then asking for the same cases again, likewise without
  either, at any later time and with any requester, returns the same experiment and changes nothing. With force or rerun a
  repetition may create another experiment, as documented. And the status of every experiment can be read and is what the store holds.\<close>

theorem created_experiment_runs:
  assumes "well_stored L (pw_store w)" "library_ok L" "world_ok L w" "list_all (\<lambda>c. check_profiling_case c = Inr ()) cases"
    and "create_experiment L strategy cases requested_by force rerun w = (w', x)"
  shows "well_stored L (pw_store w') \<and> grows (pw_store w) (pw_store w')
    \<and> (\<forall>e. x = Inr e \<longrightarrow> (\<exists>i stored. get_experiment i (pw_store w') = Some stored \<and> pex_experiment_id e = i \<and> ste_experiment stored = e
          \<and> (terminal_experiment (ste_state stored) \<or> resumable L i stored w')))
    \<and> (\<forall>e w2 someone. x = Inr e \<and> \<not> force \<and> \<not> rerun \<and> grows (pw_store w') (pw_store w2) \<longrightarrow>
          create_experiment L strategy cases someone False False w2 = (w2, Inr e))
    \<and> (\<forall>i. \<exists>st. read_status i w' = Inr st \<and> map_option exs_state st = map_option ste_state (get_experiment i (pw_store w')))"
proof -
  have kept: "well_stored L (pw_store w') \<and> grows (pw_store w) (pw_store w') \<and> world_ok L w'
    \<and> (\<forall>e. x = Inr e \<longrightarrow> (\<exists>i stored. get_experiment i (pw_store w') = Some stored \<and> ste_experiment stored = e
          \<and> (\<not> force \<longrightarrow> \<not> rerun \<longrightarrow> configured L strategy cases i)))"
  proof (rule create_experiment_cases [OF assms(5,4)])
    fix unique e
    assume created: "persist_experiment L unique e w = (w', x)" "list_all (\<lambda>c. check_profiling_case c = Inr ()) unique" "check_profiling_experiment e = Inr ()"
      "pex_case_ids e = map pcs_case_id unique" "\<lbrakk>\<not> force; \<not> rerun\<rbrakk> \<Longrightarrow> configured L strategy cases (pex_experiment_id e)"
    note k = persist_experiment_keeps [OF assms(1) created(2,3,4,1)]
    then have "world_ok L w'" using assms(3) by (simp add: world_ok_def)
    with k created(5) show ?thesis by blast
  qed (use assms(1,3) in \<open>simp, blast\<close>)
  have stored: "\<exists>i stored. get_experiment i (pw_store w') = Some stored \<and> pex_experiment_id e = i \<and> ste_experiment stored = e
      \<and> (terminal_experiment (ste_state stored) \<or> resumable L i stored w')" if x: "x = Inr e" for e
  proof -
    obtain i stored where i: "get_experiment i (pw_store w') = Some stored" "ste_experiment stored = e" using kept x by blast
    have "pex_experiment_id e = i" using kept i by (auto simp: well_stored_def stored_ok_def)
    moreover have "terminal_experiment (ste_state stored) \<or> resumable L i stored w'"
      using well_stored_resumable [of L w' i stored] kept assms(2) i(1) by blast
    ultimately show ?thesis using i by blast
  qed
  have again: "create_experiment L strategy cases someone False False w2 = (w2, Inr e)"
    if x: "x = Inr e" "\<not> force" "\<not> rerun" and later: "grows (pw_store w') (pw_store w2)" for e w2 someone
  proof -
    obtain i stored where i: "get_experiment i (pw_store w') = Some stored" "ste_experiment stored = e" "configured L strategy cases i" using kept x by blast
    obtain stored2 where "get_experiment i (pw_store w2) = Some stored2" "ste_experiment stored2 = e"
      by (rule grows_experiment [OF later i(1)]) (use i(2) in simp)
    with configured_known [OF i(3)] show ?thesis by blast
  qed
  have "\<exists>st. read_status i w' = Inr st \<and> map_option exs_state st = map_option ste_state (get_experiment i (pw_store w'))" for i
    using read_status_total [of L w' i] kept by blast
  with kept stored again show ?thesis by simp
qed

definition demo_new :: world where
  "demo_new = demo_resumed\<lparr>pw_store := store_init\<rparr>"

theorem created_experiment_runs_witness:
  "\<exists>w' e i stored. create_experiment demo_library ''s'' [demo_stored_case] None False False demo_new = (w', Inr e)
    \<and> get_experiment i (pw_store w') = Some stored \<and> pex_experiment_id e = i
    \<and> create_experiment demo_library ''s'' [demo_stored_case] (Some ''x'') False False w' = (w', Inr e)"
proof -
  have ok: "well_stored demo_library (pw_store demo_new)" "library_ok demo_library" "world_ok demo_library demo_new"
    "list_all (\<lambda>c. check_profiling_case c = Inr ()) [demo_stored_case]"
    using demo_resumable by (auto simp: well_stored_def demo_new_def store_init_def get_case_def get_experiment_def resumable_def world_ok_def case_ok_def
      demo_resumed_def case_row_def demo_experiment_def)
  obtain w' x where run: "create_experiment demo_library ''s'' [demo_stored_case] None False False demo_new = (w', x)" by fastforce
  have valid: "case_ok demo_library demo_stored_case" "pcs_worker_id demo_stored_case \<noteq> []"
    using demo_resumable by (auto simp: resumable_def demo_resumed_def case_row_def demo_experiment_def demo_stored_case_def)
  obtain i where i: "canonical_id_of demo_library demo_stored_case = Inr i" "i \<noteq> []"
    using valid canonical_sha256_finite [of "JList [JStr ''profiling_case'', JStr (pcs_worker_id demo_stored_case), canonical_case_spec demo_repr (pcs_spec demo_stored_case)]" demo_hash]
    by (auto simp: canonical_id_of_def profiling_case_id_def case_ok_def demo_library_def canonical_sha256_def demo_hash_def non_empty_def)
  obtain j where j: "profiling_experiment_id demo_hash ''s'' [i] = Inr j" "j \<noteq> []"
    using canonical_sha256_finite [of "JList [JStr ''profiling_experiment'', JStr ''s'', JList (map JStr (sort [i]))]" demo_hash]
    by (auto simp: profiling_experiment_id_def canonical_sha256_def demo_hash_def non_empty_def)
  have "canonical_case demo_library demo_stored_case = Inr (demo_stored_case\<lparr>pcs_case_id := i\<rparr>)"
    using i valid(1) by (simp add: canonical_case_def built_def case_ok_def check_profiling_case_def split: case_spec.splits)
  moreover have "pcs_case_id demo_stored_case = ''c''" by (simp add: demo_stored_case_def)
  ultimately have "is_ok x"
    using run i j valid(1)
    by (auto simp: create_experiment_def fresh_case_ids_def execution_of_def built_def check_profiling_experiment_def check_ids_unique_def demo_new_def demo_resumed_def
      store_init_def get_experiment_def persist_experiment_def on_store_def append_case_def append_experiment_def insert_verified_def case_ok_def demo_library_def
      non_empty_def absent_or_def require_aware_def demo_call_def)
  then obtain e where x: "x = Inr e" by (auto simp: is_ok_iff)
  note c = created_experiment_runs [OF ok run]
  then have "create_experiment demo_library ''s'' [demo_stored_case] (Some ''x'') False False w' = (w', Inr e)" using x by blast
  then show ?thesis using c run x by blast
qed

end
