(* ===== verification/Class_Verification.thy ===== *)
theory Class_Verification
  imports Experiment_Admin
begin

section \<open>Verifying devices of one performance class\<close>

text \<open>
  \<^verbatim>\<open>profiling/operator/verification.py\<close> and the methods of \<^verbatim>\<open>ProfilingController\<close> around it: which operators are measured
  on a new device of a known class, against which measurements of a verified device they are compared, and how the verdict is
  recorded. A dict is a list of pairs in which the last pair of a key counts; floats have no rounding.
\<close>

subsection \<open>The suite\<close>

definition DEFAULT_VERIFICATION_TOLERANCE :: pyfloat where
  "DEFAULT_VERIFICATION_TOLERANCE = Fin (15 / 100)"

definition verification_suite :: "string \<Rightarrow> string \<Rightarrow> int \<Rightarrow> int \<Rightarrow> int \<Rightarrow> int \<Rightarrow> int \<Rightarrow> int \<Rightarrow> int \<Rightarrow> int \<Rightarrow> int \<Rightarrow> operator_signature list res" where
  "verification_suite dtype family gemm_dim batch heads kv_heads head_dim len norm_batch norm_tokens norm_hidden =
     traverse_res (\<lambda>(kind, parameters). built check_operator_signature \<lparr>ops_kind = kind, ops_parameters = parameters, ops_backend_family = family\<rparr>)
       [(OP_GEMM, Gemm \<lparr>gem_m = gemm_dim, gem_n = gemm_dim, gem_k = gemm_dim, gem_dtype = dtype, gem_transpose_a = False, gem_transpose_b = True\<rparr>),
        (OP_ATTENTION, Attention \<lparr>att_batch_size = batch, att_num_heads = heads, att_num_kv_heads = kv_heads, att_head_dim = head_dim,
           att_q_len = len, att_kv_len = len, att_dtype = dtype, att_phase = PHASE_PREFILL\<rparr>),
        (OP_NORM, Norm \<lparr>nrm_batch_size = norm_batch, nrm_sequence_length = norm_tokens, nrm_hidden_size = norm_hidden, nrm_dtype = dtype,
           nrm_variant = RMS\<rparr>)]"

fun work_size :: "operator_parameters \<Rightarrow> int" where
  "work_size (Gemm p) = gem_m p * gem_n p * gem_k p"
| "work_size (Attention p) = att_batch_size p * att_num_heads p * att_q_len p * att_kv_len p * att_head_dim p"
| "work_size (Norm p) = nrm_batch_size p * nrm_sequence_length p * nrm_hidden_size p"
| "work_size _ = 0"

definition operator_id :: "store_library \<Rightarrow> operator_signature \<Rightarrow> string res" where
  "operator_id L = operator_signature_id (lib_sha L) (lib_repr L)"

definition ordered_signatures :: "(string \<times> operator_signature) list \<Rightarrow> (string \<times> operator_signature) list" where
  "ordered_signatures pairs = map (\<lambda>i. (i, the (dict_of pairs i))) (sort (remdups (map fst pairs)))"

definition ordered_by_work :: "operator_kind \<Rightarrow> (string \<times> operator_signature) list \<Rightarrow> operator_signature list" where
  "ordered_by_work kind ordered =
     map snd (sort_key (work_size \<circ> ops_parameters \<circ> snd) (sort_key fst (filter (\<lambda>(i, s). ops_kind s = kind) ordered)))"

definition select_suite :: "(string \<times> operator_signature) list \<Rightarrow> operator_signature list" where
  "select_suite ordered =
     (let gemms = ordered_by_work OP_GEMM ordered; attentions = ordered_by_work OP_ATTENTION ordered; norms = ordered_by_work OP_NORM ordered in
      if gemms \<noteq> [] \<and> length gemms = length ordered
      then dict_fromkeys (map ((!) gemms) [0, length gemms div 2, length gemms - 1])
      else (if gemms = [] then [] else [gemms ! (length gemms div 2)])
         @ (if attentions = [] then [] else [attentions ! (length attentions div 2)])
         @ (if norms = [] then [] else [last norms]))"

definition select_verification_signatures :: "store_library \<Rightarrow> operator_signature list \<Rightarrow> operator_signature list res" where
  "select_verification_signatures L signatures =
     map_res (\<lambda>ids. select_suite (ordered_signatures (zip ids signatures))) (traverse_res (operator_id L) signatures)"


subsection \<open>The verdict\<close>

record verification_comparison =
  vcm_operator_signature_id :: string
  vcm_reference_mean_ms :: rat
  vcm_candidate_mean_ms :: rat
  vcm_relative_deviation :: rat
  vcm_within_tolerance :: bool

record class_verification =
  vrf_tolerance :: pyfloat
  vrf_comparisons :: "verification_comparison list"
  vrf_max_relative_deviation :: rat
  vrf_compatible :: bool

record verification_plan =
  vpl_candidate_environment :: environment_fingerprint
  vpl_signatures :: "operator_signature list"
  vpl_reference_measurements :: "measurement_record list"
  vpl_reference_worker_id :: string
  vpl_reference_device_id :: string
  vpl_tolerance :: pyfloat

fun positive_finite :: "pyfloat \<Rightarrow> rat option" where
  "positive_finite (Fin x) = (if 0 < x then Some x else None)"
| "positive_finite _ = None"

definition check_verification_plan :: "verification_plan \<Rightarrow> unit res" where
  "check_verification_plan p = checks [
     raise_if (vpl_signatures p = []) (ValueError ''verification plan must not be empty''),
     raise_if (length (vpl_signatures p) \<noteq> length (vpl_reference_measurements p)) (ValueError ''verification signatures and reference measurements must align''),
     raise_if (vpl_reference_worker_id p = [] \<or> vpl_reference_device_id p = []) (ValueError ''verification reference provenance must be complete''),
     raise_if (positive_finite (vpl_tolerance p) = None) (ValueError ''verification tolerance must be finite and positive'')]"

definition plan_references :: "store_library \<Rightarrow> verification_plan \<Rightarrow> (string \<times> measurement_record) list res" where
  "plan_references L p = map_res (\<lambda>ids. zip ids (vpl_reference_measurements p)) (traverse_res (operator_id L) (vpl_signatures p))"

definition latency_mean_ms :: "measurement_record \<Rightarrow> rat res" where
  "latency_mean_ms r = (case mms_latency (mrc_metrics r) of
     None \<Rightarrow> Inl (ValueError ''record carries no latency observation'')
   | Some l \<Rightarrow> (case positive_finite (smm_mean (ltm_summary l)) of
       None \<Rightarrow> Inl (ValueError ''record has a non-positive mean'')
     | Some x \<Rightarrow> Inr x))"

definition compare_means :: "rat \<Rightarrow> (string \<rightharpoonup> measurement_record) \<Rightarrow> (string \<rightharpoonup> measurement_record) \<Rightarrow> string \<Rightarrow> verification_comparison res" where
  "compare_means tolerance references candidates i =
     bind_res (latency_mean_ms (the (references i))) (\<lambda>r.
     bind_res (latency_mean_ms (the (candidates i))) (\<lambda>c.
     let deviation = \<bar>c - r\<bar> / r in
     Inr \<lparr>vcm_operator_signature_id = i, vcm_reference_mean_ms = r, vcm_candidate_mean_ms = c, vcm_relative_deviation = deviation,
       vcm_within_tolerance = (deviation \<le> tolerance)\<rparr>))"

definition verify_performance_class :: "(string \<times> measurement_record) list \<Rightarrow> (string \<times> measurement_record) list \<Rightarrow> pyfloat \<Rightarrow> class_verification res" where
  "verify_performance_class references candidates tolerance =
     (if references = [] then Inl (ValueError ''verification suite must not be empty'')
      else case positive_finite tolerance of
        None \<Rightarrow> Inl (ValueError ''tolerance must be finite and positive'')
      | Some t \<Rightarrow>
          if fst ` set references \<noteq> fst ` set candidates then Inl (ValueError ''reference and candidate must cover the same suite signatures'')
          else map_res (\<lambda>cs. \<lparr>vrf_tolerance = tolerance, vrf_comparisons = cs, vrf_max_relative_deviation = Max (set (map vcm_relative_deviation cs)),
                 vrf_compatible = list_all vcm_within_tolerance cs\<rparr>)
            (traverse_res (compare_means t (dict_of references) (dict_of candidates)) (sort (remdups (map fst references)))))"


subsection \<open>Planning against a verified device\<close>

text \<open>The operator a stored measurement is about.\<close>

definition measured_signature_id :: "store_library \<Rightarrow> string \<Rightarrow> profile_store \<Rightarrow> string option res" where
  "measured_signature_id L i s = (case Option.bind (get_case i s) (\<lambda>c.
       case pcs_spec (stc_case c) of Model_Case m \<Rightarrow> mcs_operator_signature m | Network_Case _ \<Rightarrow> None) of
     None \<Rightarrow> Inr None
   | Some signature \<Rightarrow> map_res Some (operator_id L signature))"

definition baseline_of :: "store_library \<Rightarrow> string \<Rightarrow> string \<Rightarrow> (string \<times> string) list \<Rightarrow> string set \<Rightarrow> profile_store \<Rightarrow> measurement_record
    \<Rightarrow> ((string \<times> string) \<times> string \<times> measurement_record) option res" where
  "baseline_of L class compatible sources wanted s r =
     (case (mrc_quality r, mrc_environment r) of
        (Some q, Some e) \<Rightarrow>
          (if \<not> mqu_eligible_for_calibration q then Inr None
           else case (enf_device_performance_class_id e, enf_worker_id e, enf_device_id e) of
             (Some class', Some worker, Some device) \<Rightarrow>
               if class' \<noteq> class then Inr None
               else bind_res (environment_fingerprint_id (lib_sha L) e) (\<lambda>i.
                 if i \<noteq> compatible \<or> (worker, device) \<notin> set sources then Inr None
                 else bind_res (measured_signature_id L (mrc_case_id r) s) (\<lambda>signature. case signature of
                   Some j \<Rightarrow> Inr (if j \<in> wanted then Some ((worker, device), j, r) else None)
                 | None \<Rightarrow> Inr None))
           | _ \<Rightarrow> Inr None)
      | _ \<Rightarrow> Inr None)"

definition source_records :: "((string \<times> string) \<times> string \<times> measurement_record) list \<Rightarrow> string \<times> string \<Rightarrow> (string \<times> measurement_record) list" where
  "source_records found source = map snd (filter (\<lambda>x. fst x = source) found)"

definition complete_sources :: "string set \<Rightarrow> ((string \<times> string) \<times> string \<times> measurement_record) list \<Rightarrow> (string \<times> string) list" where
  "complete_sources wanted found =
     sort_key fst (sort_key snd (filter (\<lambda>source. fst ` set (source_records found source) = wanted) (remdups (map fst found))))"

definition plan_with :: "store_library \<Rightarrow> environment_fingerprint \<Rightarrow> operator_signature list \<Rightarrow> pyfloat \<Rightarrow> string list
    \<Rightarrow> ((string \<times> string) \<times> string \<times> measurement_record) list \<Rightarrow> verification_plan option res" where
  "plan_with L f suite tolerance ids found =
     (case complete_sources (set ids) found of
        [] \<Rightarrow> Inr None
      | source # _ \<Rightarrow> map_res Some (built check_verification_plan \<lparr>vpl_candidate_environment = f, vpl_signatures = suite,
          vpl_reference_measurements = map (\<lambda>i. the (dict_of (source_records found source) i)) ids,
          vpl_reference_worker_id = fst source, vpl_reference_device_id = snd source, vpl_tolerance = tolerance\<rparr>))"

definition plan_performance_class_verification :: "store_library \<Rightarrow> environment_fingerprint \<Rightarrow> operator_signature list \<Rightarrow> pyfloat \<Rightarrow> world \<Rightarrow> verification_plan option res" where
  "plan_performance_class_verification L f signatures tolerance w =
     (case (enf_device_performance_class_id f, enf_worker_id f, enf_device_id f) of
        (Some class, Some worker, Some device) \<Rightarrow>
          (let memberships = performance_class_memberships class (pw_store w);
               sources = map (\<lambda>m. (dpm_worker_id m, dpm_device_id m)) (filter dpm_verified memberships) in
           case find (\<lambda>m. dpm_worker_id m = worker \<and> dpm_device_id m = device) memberships of
             None \<Rightarrow> Inr None
           | Some candidate \<Rightarrow>
               if dpm_verified candidate \<or> dpm_evidence_measurement_ids candidate \<noteq> [] \<or> sources = [] then Inr None
               else bind_res (select_verification_signatures L signatures) (\<lambda>suite.
                 if suite = [] then Inr None
                 else bind_res (traverse_res (operator_id L) suite) (\<lambda>ids.
                   bind_res (environment_fingerprint_id (lib_sha L) f) (\<lambda>compatible.
                   bind_res (traverse_res (baseline_of L class compatible sources (set ids) (pw_store w))
                     (query_measurements (any_measurement\<lparr>mqy_environment_fingerprint_id := Some compatible\<rparr>) (pw_store w))) (\<lambda>found.
                   plan_with L f suite tolerance ids (List.map_filter id found))))))
      | _ \<Rightarrow> Inr None)"


subsection \<open>Recording the verdict\<close>

definition record_performance_class_verification :: "store_library \<Rightarrow> environment_fingerprint \<Rightarrow> class_verification \<Rightarrow> string list \<Rightarrow> world \<Rightarrow> world \<times> unit res" where
  "record_performance_class_verification L f verification evidence w =
     (case (enf_device_performance_class_id f, enf_worker_id f, enf_device_id f) of
        (Some class, Some worker, Some device) \<Rightarrow>
          bind_st (on_store (store_environment_fingerprint L (ce_wall (pw_call w)) f) w) (\<lambda>_ w.
          bind_st (lift_st (built check_class_membership \<lparr>dpm_device_performance_class_id = class, dpm_worker_id = worker, dpm_device_id = device,
              dpm_verified = vrf_compatible verification, dpm_verified_at = (if vrf_compatible verification then Some (ce_wall (pw_call w)) else None),
              dpm_evidence_measurement_ids = evidence\<rparr>) w) (\<lambda>m w.
          (w\<lparr>pw_store := store_performance_class_membership m (pw_store w)\<rparr>, Inr ())))
      | _ \<Rightarrow> (w, Inl (ValueError ''performance-class verification requires class, worker, and device ids'')))"

definition candidate_of :: "store_library \<Rightarrow> environment_fingerprint \<Rightarrow> string set \<Rightarrow> profile_store \<Rightarrow> case_report \<Rightarrow> (string \<times> measurement_record) option res" where
  "candidate_of L f wanted s report =
     (case Option.bind (crp_outcome report) cou_record of
        None \<Rightarrow> Inr None
      | Some r \<Rightarrow> (case mrc_environment r of
          None \<Rightarrow> Inr None
        | Some e \<Rightarrow> if enf_worker_id e \<noteq> enf_worker_id f \<or> enf_device_id e \<noteq> enf_device_id f then Inr None
            else bind_res (environment_fingerprint_id (lib_sha L) e) (\<lambda>i.
              bind_res (environment_fingerprint_id (lib_sha L) f) (\<lambda>j.
              if i \<noteq> j then Inr None
              else bind_res (measured_signature_id L (crp_case_id report) s) (\<lambda>signature. case signature of
                Some k \<Rightarrow> Inr (if k \<in> wanted then Some (k, r) else None)
              | None \<Rightarrow> Inr None)))))"

definition complete_performance_class_verification :: "store_library \<Rightarrow> verification_plan \<Rightarrow> experiment_report \<Rightarrow> world \<Rightarrow> world \<times> class_verification option res" where
  "complete_performance_class_verification L p report w =
     (let f = vpl_candidate_environment p in
      if enf_worker_id f = None \<or> enf_device_id f = None then (w, Inr None)
      else bind_st (lift_st (traverse_res (operator_id L) (vpl_signatures p)) w) (\<lambda>ids w.
        bind_st (lift_st (traverse_res (candidate_of L f (set ids) (pw_store w)) (erp_cases report)) w) (\<lambda>found w.
        let candidates = List.map_filter id found in
        if fst ` set candidates \<noteq> set ids then (w, Inr None)
        else bind_st (lift_st (bind_res (plan_references L p) (\<lambda>references. verify_performance_class references candidates (vpl_tolerance p))) w) (\<lambda>verification w.
          bind_st (record_performance_class_verification L f verification (map (\<lambda>i. mrc_measurement_id (the (dict_of candidates i))) ids) w) (\<lambda>_ w.
          (w, Inr (Some verification)))))))"

end
