(* ===== verification/Class_Evidence.thy ===== *)
theory Class_Evidence
  imports Class_Verification Store_Safety
begin

section \<open>Evidence for a performance class\<close>

text \<open>
  What a verified membership rests on: the measurements that a plan of theory Class_Verification compares, followed from the
  store to the report and to the verdict that is recorded.
\<close>

subsection \<open>Only evidence makes a device verified\<close>

declare map_of_eq_Some_iff [simp del] Some_eq_map_of_iff [simp del]

definition verified_in :: "profile_store \<Rightarrow> string \<times> string \<times> string \<Rightarrow> bool" where
  "verified_in s k \<longleftrightarrow> (\<exists>m. map_of (st_memberships s) k = Some m \<and> dpm_verified m)"

text \<open>What a comparison within the tolerance says of two measurements.\<close>

definition close_means :: "pyfloat \<Rightarrow> measurement_record \<Rightarrow> measurement_record \<Rightarrow> bool" where
  "close_means tolerance r c \<longleftrightarrow> (\<exists>t x y. positive_finite tolerance = Some t \<and> latency_mean_ms r = Inr x \<and> latency_mean_ms c = Inr y \<and> \<bar>y - x\<bar> \<le> t * x)"

lemma positive_finite_Some: "positive_finite v = Some x \<longleftrightarrow> v = Fin x \<and> 0 < x"
  by (cases v) auto

lemma latency_mean_positive: "latency_mean_ms r = Inr x \<Longrightarrow> 0 < x"
  by (auto simp: latency_mean_ms_def positive_finite_Some split: option.splits)

lemma compare_means_close:
  assumes "compare_means t references candidates i = Inr c" "vcm_within_tolerance c" "positive_finite tolerance = Some t"
  shows "close_means tolerance (the (references i)) (the (candidates i))"
proof -
  obtain x y where xy: "latency_mean_ms (the (references i)) = Inr x" "latency_mean_ms (the (candidates i)) = Inr y" "\<bar>y - x\<bar> / x \<le> t"
    using assms(1,2) by (auto simp: compare_means_def bind_res_Inr Let_def)
  then have "\<bar>y - x\<bar> \<le> t * x" using latency_mean_positive [OF xy(1)] by (simp add: pos_divide_le_eq)
  with xy assms(3) show ?thesis by (auto simp: close_means_def)
qed

lemma traverse_res_each: "\<lbrakk>traverse_res f xs = Inr ys; x \<in> set xs\<rbrakk> \<Longrightarrow> \<exists>y \<in> set ys. f x = Inr y"
  by (induction xs arbitrary: ys) (auto simp: bind_res_Inr)

lemma verify_compatible:
  assumes "verify_performance_class references candidates tolerance = Inr v" "vrf_compatible v" "i \<in> fst ` set references"
  shows "close_means tolerance (the (dict_of references i)) (the (dict_of candidates i)) \<and> i \<in> fst ` set candidates"
proof -
  obtain t cs where t: "positive_finite tolerance = Some t" "fst ` set references = fst ` set candidates"
    "traverse_res (compare_means t (dict_of references) (dict_of candidates)) (sort (remdups (map fst references))) = Inr cs" "list_all vcm_within_tolerance cs"
    using assms(1,2) by (auto simp: verify_performance_class_def split: if_splits option.splits)
  have "i \<in> set (sort (remdups (map fst references)))" using assms(3) by simp
  from traverse_res_each [OF t(3) this] obtain c where c: "c \<in> set cs" "compare_means t (dict_of references) (dict_of candidates) i = Inr c" by blast
  then have "vcm_within_tolerance c" using t(4) by (simp add: list_all_iff)
  then show ?thesis using compare_means_close [OF c(2) _ t(1)] t(2) assms(3) by blast
qed

lemma dict_of_Some: "i \<in> fst ` set xs \<Longrightarrow> \<exists>v. dict_of xs i = Some v \<and> (i, v) \<in> set xs"
proof -
  assume "i \<in> fst ` set xs"
  then have "dict_of xs i \<noteq> None" by (simp add: dict_of_def map_of_eq_None_iff)
  then obtain v where "dict_of xs i = Some v" by blast
  moreover from this have "(i, v) \<in> set (rev xs)" unfolding dict_of_def by (rule map_of_SomeD)
  ultimately show ?thesis by simp
qed

text \<open>A measurement of the reference, on a device that is verified for the class and in a compatible environment.\<close>

definition trusted :: "store_library \<Rightarrow> profile_store \<Rightarrow> environment_fingerprint \<Rightarrow> operator_signature \<Rightarrow> measurement_record \<Rightarrow> bool" where
  "trusted L s f signature r \<longleftrightarrow> r \<in> (mrw_record \<circ> snd) ` set (st_measurements s)
     \<and> (\<exists>j. operator_id L signature = Inr j \<and> measured_signature_id L (mrc_case_id r) s = Inr (Some j))
     \<and> (\<exists>e class m. mrc_environment r = Some e \<and> enf_device_performance_class_id f = Some class \<and> enf_device_performance_class_id e = Some class
          \<and> environment_fingerprint_id (lib_sha L) e = environment_fingerprint_id (lib_sha L) f
          \<and> m \<in> set (performance_class_memberships class s) \<and> dpm_verified m \<and> enf_worker_id e = Some (dpm_worker_id m) \<and> enf_device_id e = Some (dpm_device_id m))"

text \<open>A measurement of the candidate that the report carries.\<close>

definition offered :: "store_library \<Rightarrow> profile_store \<Rightarrow> experiment_report \<Rightarrow> environment_fingerprint \<Rightarrow> operator_signature \<Rightarrow> measurement_record \<Rightarrow> bool" where
  "offered L s report f signature r \<longleftrightarrow> (\<exists>c \<in> set (erp_cases report). Option.bind (crp_outcome c) cou_record = Some r
     \<and> (\<exists>j. operator_id L signature = Inr j \<and> measured_signature_id L (crp_case_id c) s = Inr (Some j)))
     \<and> (\<exists>e. mrc_environment r = Some e \<and> enf_worker_id e = enf_worker_id f \<and> enf_device_id e = enf_device_id f
          \<and> environment_fingerprint_id (lib_sha L) e = environment_fingerprint_id (lib_sha L) f)"

lemma baseline_of_Some:
  assumes "baseline_of L class compatible sources wanted s r = Inr (Some x)"
  obtains e worker device j where "x = ((worker, device), j, r)" "mrc_environment r = Some e" "enf_device_performance_class_id e = Some class"
    "enf_worker_id e = Some worker" "enf_device_id e = Some device" "environment_fingerprint_id (lib_sha L) e = Inr compatible"
    "(worker, device) \<in> set sources" "measured_signature_id L (mrc_case_id r) s = Inr (Some j)"
  using assms that by (auto simp: baseline_of_def bind_res_Inr split: option.splits if_splits)

lemma in_query: "r \<in> set (query_measurements q s) \<Longrightarrow> r \<in> (mrw_record \<circ> snd) ` set (st_measurements s)"
  by (auto simp: query_measurements_def chronological_def)

lemma plan_sound:
  assumes "plan_performance_class_verification L f signatures tolerance w = Inr (Some p)"
  obtains ids where "traverse_res (operator_id L) (vpl_signatures p) = Inr ids" "vpl_signatures p \<noteq> []" "vpl_candidate_environment p = f" "vpl_tolerance p = tolerance"
    "length (vpl_reference_measurements p) = length ids"
    "\<And>n. n < length ids \<Longrightarrow> trusted L (pw_store w) f (vpl_signatures p ! n) (vpl_reference_measurements p ! n)"
proof -
  obtain cl worker device where key: "enf_device_performance_class_id f = Some cl" "enf_worker_id f = Some worker" "enf_device_id f = Some device"
    using assms by (auto simp: plan_performance_class_verification_def split: option.splits)
  let ?members = "performance_class_memberships cl (pw_store w)"
  let ?sources = "map (\<lambda>m. (dpm_worker_id m, dpm_device_id m)) (filter dpm_verified ?members)"
  obtain suite ids compatible found where suite: "suite \<noteq> []" "traverse_res (operator_id L) suite = Inr ids" "environment_fingerprint_id (lib_sha L) f = Inr compatible"
    "traverse_res (baseline_of L cl compatible ?sources (set ids) (pw_store w))
       (query_measurements (any_measurement\<lparr>mqy_environment_fingerprint_id := Some compatible\<rparr>) (pw_store w)) = Inr found"
    "plan_with L f suite tolerance ids (List.map_filter id found) = Inr (Some p)"
    using assms by (auto simp: plan_performance_class_verification_def key Let_def bind_res_Inr split: option.splits if_splits)
  let ?found = "List.map_filter id found"
  obtain source rest where source: "complete_sources (set ids) ?found = source # rest"
    and p: "vpl_candidate_environment p = f" "vpl_signatures p = suite" "vpl_tolerance p = tolerance"
      "vpl_reference_measurements p = map (\<lambda>i. the (dict_of (source_records ?found source) i)) ids"
    using suite(5) by (auto simp: plan_with_def split: list.splits)
  have "source \<in> set (complete_sources (set ids) ?found)" using source by simp
  then have cover: "fst ` set (source_records ?found source) = set ids" by (auto simp: complete_sources_def)
  have len: "length ids = length suite" using suite(2) by (rule traverse_res_length)
  have "trusted L (pw_store w) f (suite ! n) (vpl_reference_measurements p ! n)" if n: "n < length ids" for n
  proof -
    let ?r = "the (dict_of (source_records ?found source) (ids ! n))"
    have "ids ! n \<in> fst ` set (source_records ?found source)" using n cover by simp
    then have "(ids ! n, ?r) \<in> set (source_records ?found source)" using dict_of_Some by fastforce
    then have "Some (source, ids ! n, ?r) \<in> set found" by (auto simp: source_records_def List.map_filter_def)
    then obtain r where r: "r \<in> set (query_measurements (any_measurement\<lparr>mqy_environment_fingerprint_id := Some compatible\<rparr>) (pw_store w))"
      "baseline_of L cl compatible ?sources (set ids) (pw_store w) r = Inr (Some (source, ids ! n, ?r))"
      using traverse_res_set [OF suite(4)] by blast
    have id: "operator_id L (suite ! n) = Inr (ids ! n)" using suite(2) n len by (auto simp: traverse_res_Inr list_all2_conv_all_nth)
    show ?thesis
    proof (rule baseline_of_Some [OF r(2)])
      fix e worker device j
      assume b: "(source, ids ! n, ?r) = ((worker, device), j, r)" "mrc_environment r = Some e" "enf_device_performance_class_id e = Some cl"
        "enf_worker_id e = Some worker" "enf_device_id e = Some device" "environment_fingerprint_id (lib_sha L) e = Inr compatible"
        "(worker, device) \<in> set ?sources" "measured_signature_id L (mrc_case_id r) (pw_store w) = Inr (Some j)"
      have "?r = r" "j = ids ! n" using b(1) unfolding prod.inject by blast+
      moreover obtain m where "m \<in> set ?members" "dpm_verified m" "worker = dpm_worker_id m" "device = dpm_device_id m" using b(7) by auto
      ultimately show ?thesis
        using b(2-6,8) in_query [OF r(1)] id key suite(3) n by (auto simp: trusted_def p(4))
    qed
  qed
  with that [of ids] show thesis using suite(1,2) len p by simp
qed

lemma membership_verifies:
  "verified_in (store_performance_class_membership m s) k \<Longrightarrow> verified_in s k \<or> (k = membership_key m \<and> dpm_verified m)"
  by (auto simp: verified_in_def store_performance_class_membership_def Let_def update_conv' split: option.splits if_splits)

lemma memberships_of_other_tables: "st_memberships s' = st_memberships s \<Longrightarrow> verified_in s' k = verified_in s k"
  by (simp add: verified_in_def)

lemma fingerprint_verifies:
  assumes "store_environment_fingerprint L now f s = (s', x)" "verified_in s' k" "\<not> verified_in s k"
  shows "enf_device_performance_class_id f = Some (fst k) \<and> \<not> list_ex (\<lambda>((c, _), _). c = fst k) (st_memberships s)"
proof -
  have cls: "store_performance_class L c t = (t', y) \<Longrightarrow> st_memberships t' = st_memberships t" for c t t' y
    by (auto simp: store_performance_class_def split: sum.splits)
  consider "st_memberships s' = st_memberships s"
    | t m where "st_memberships t = st_memberships s" "class_membership_of now f t = Some (Inr m)" "s' = store_performance_class_membership m t"
  proof -
    obtain s1 y where s1: "(case enf_device_performance_class f of None \<Rightarrow> (s, Inr []) | Some c \<Rightarrow> store_performance_class L c s) = (s1, y)" by fastforce
    then have m1: "st_memberships s1 = st_memberships s" by (cases "enf_device_performance_class f") (auto dest: cls)
    show thesis
    proof (cases "\<exists>i j b. environment_fingerprint_id (lib_sha L) f = Inr i \<and> environment_instance_id (lib_sha L) f = Inr j \<and> y = Inr b")
      case True
      then obtain i j b where run: "environment_fingerprint_id (lib_sha L) f = Inr i" "environment_instance_id (lib_sha L) f = Inr j" "y = Inr b" by blast
      show thesis
      proof (cases "insert_verified id False i (compatibility_fingerprint f) (st_fingerprints s1)")
        case (Inr t)
        show thesis
        proof (cases "insert_verified id False j f (st_instances s1)")
          case (Inr u)
          let ?t = "s1\<lparr>st_fingerprints := fst t, st_instances := fst u\<rparr>"
          have s': "(s', x) = (case class_membership_of now f ?t of None \<Rightarrow> (?t, Inr i) | Some (Inl e) \<Rightarrow> (s1, Inl e)
              | Some (Inr m) \<Rightarrow> (store_performance_class_membership m ?t, Inr i))"
            using assms(1) s1 run Inr \<open>_ = Inr t\<close> by (simp add: store_environment_fingerprint_def Let_def case_prod_unfold)
          have m: "st_memberships ?t = st_memberships s" using m1 by simp
          show thesis
          proof (cases "class_membership_of now f ?t")
            case (Some z)
            show thesis
            proof (cases z)
              case (Inr k)
              with Some s' show thesis by (intro that(2) [OF m, of k]) simp_all
            qed (use s' Some m1 that(1) in simp)
          qed (use s' m that(1) in simp)
        qed (use assms(1) s1 run Inr m1 that(1) in \<open>auto simp: store_environment_fingerprint_def\<close>)
      qed (use assms(1) s1 run m1 that(1) in \<open>auto simp: store_environment_fingerprint_def\<close>)
    next
      case False
      then have "st_memberships s' = st_memberships s"
        using assms(1) s1 m1
        by (cases "environment_fingerprint_id (lib_sha L) f"; cases "environment_instance_id (lib_sha L) f"; cases y)
          (auto simp: store_environment_fingerprint_def)
      then show thesis by (rule that(1))
    qed
  qed
  then show ?thesis
  proof cases
    case (2 t m)
    have "k = membership_key m \<and> dpm_verified m"
      using membership_verifies [of m t k] 2(1,3) assms(2,3) memberships_of_other_tables by blast
    with 2(1,2) show ?thesis
      by (auto simp: class_membership_of_def membership_key_def Let_def split: option.splits if_splits)
  qed (use assms memberships_of_other_tables in blast)
qed

lemma record_verifies:
  assumes "record_performance_class_verification L f v evidence w = (w', x)" "verified_in (pw_store w') k" "\<not> verified_in (pw_store w) k"
    and "list_ex (\<lambda>((c, _), _). Some c = enf_device_performance_class_id f) (st_memberships (pw_store w))"
  shows "x = Inr () \<and> vrf_compatible v \<and> enf_device_performance_class_id f = Some (fst k) \<and> enf_worker_id f = Some (fst (snd k)) \<and> enf_device_id f = Some (snd (snd k))"
proof -
  obtain cl worker device where key: "enf_device_performance_class_id f = Some cl" "enf_worker_id f = Some worker" "enf_device_id f = Some device"
    using assms(1-3) by (auto simp: record_performance_class_verification_def split: option.splits)
  obtain s1 y where s1: "store_environment_fingerprint L (ce_wall (pw_call w)) f (pw_store w) = (s1, y)" by fastforce
  have old: "\<not> verified_in s1 k"
  proof
    assume "verified_in s1 k"
    from fingerprint_verifies [OF s1 this assms(3)] show False using assms(4) key(1) by (auto simp: list_ex_iff)
  qed
  let ?m = "\<lparr>dpm_device_performance_class_id = cl, dpm_worker_id = worker, dpm_device_id = device, dpm_verified = vrf_compatible v,
    dpm_verified_at = (if vrf_compatible v then Some (ce_wall (pw_call w)) else None), dpm_evidence_measurement_ids = evidence\<rparr>"
  have "w' = w\<lparr>pw_store := s1\<rparr> \<or> (x = Inr () \<and> w' = w\<lparr>pw_store := store_performance_class_membership ?m s1\<rparr>)"
    using assms(1) s1
    by (cases y; cases "check_class_membership ?m") (auto simp: record_performance_class_verification_def key on_store_def built_def)
  with old assms(2) membership_verifies [of ?m s1 k] key show ?thesis by (auto simp: membership_key_def)
qed

lemma candidate_of_Some:
  assumes "candidate_of L f wanted s c = Inr (Some (j, r))" "operator_id L signature = Inr j" "c \<in> set (erp_cases report)"
  shows "offered L s report f signature r"
  using assms by (auto simp: candidate_of_def offered_def bind_res_Inr split: option.splits if_splits)

lemma complete_sound:
  assumes "complete_performance_class_verification L p report w = (w', x)" "w' \<noteq> w" "traverse_res (operator_id L) (vpl_signatures p) = Inr ids"
    and "length (vpl_reference_measurements p) = length ids"
  obtains v evidence candidates y where "record_performance_class_verification L (vpl_candidate_environment p) v evidence w = (w', y)" "y = Inr () \<Longrightarrow> x = Inr (Some v)"
    "verify_performance_class (zip ids (vpl_reference_measurements p)) candidates (vpl_tolerance p) = Inr v" "fst ` set candidates = set ids"
    "\<And>j r. (j, r) \<in> set candidates \<Longrightarrow> \<exists>c \<in> set (erp_cases report). candidate_of L (vpl_candidate_environment p) (set ids) (pw_store w) c = Inr (Some (j, r))"
proof -
  let ?f = "vpl_candidate_environment p"
  obtain found where found: "traverse_res (candidate_of L ?f (set ids) (pw_store w)) (erp_cases report) = Inr found"
    using assms(1-3) by (cases "traverse_res (candidate_of L ?f (set ids) (pw_store w)) (erp_cases report)")
      (auto simp: complete_performance_class_verification_def Let_def split: if_splits)
  have cover: "fst ` set (List.map_filter id found) = set ids"
    using assms(1-3) found by (auto simp: complete_performance_class_verification_def Let_def split: if_splits)
  obtain v where v: "verify_performance_class (zip ids (vpl_reference_measurements p)) (List.map_filter id found) (vpl_tolerance p) = Inr v"
    using assms(1-3) found cover
    by (cases "verify_performance_class (zip ids (vpl_reference_measurements p)) (List.map_filter id found) (vpl_tolerance p)")
      (auto simp: complete_performance_class_verification_def Let_def plan_references_def split: if_splits)
  let ?evidence = "map (\<lambda>i. mrc_measurement_id (the (dict_of (List.map_filter id found) i))) ids"
  obtain w1 y where y: "record_performance_class_verification L ?f v ?evidence w = (w1, y)" by fastforce
  have "w1 = w' \<and> (y = Inr () \<longrightarrow> x = Inr (Some v))"
    using assms(1-3) found cover v y
    by (cases y) (auto simp: complete_performance_class_verification_def Let_def plan_references_def split: if_splits)
  moreover have "\<exists>c \<in> set (erp_cases report). candidate_of L ?f (set ids) (pw_store w) c = Inr (Some (j, r))" if "(j, r) \<in> set (List.map_filter id found)" for j r
  proof -
    have "Some (j, r) \<in> set found" using that by (auto simp: List.map_filter_def)
    then show ?thesis using traverse_res_set [OF found] by blast
  qed
  ultimately show thesis using that y v cover by blast
qed

lemma class_still_known:
  assumes "trusted L s0 f signature r" "distinct (map fst (st_memberships s0))" "grows s0 s"
  shows "list_ex (\<lambda>((c, _), _). Some c = enf_device_performance_class_id f) (st_memberships s)"
proof -
  obtain cl m where m: "enf_device_performance_class_id f = Some cl" "m \<in> set (performance_class_memberships cl s0)" "dpm_verified m"
    using assms(1) by (auto simp: trusted_def)
  then obtain k where k: "(k, m) \<in> set (st_memberships s0)" "fst k = cl" by (auto simp: performance_class_memberships_def by_key_def)
  then have "map_of (st_memberships s0) k = Some m" using assms(2) by (simp add: map_of_is_SomeI)
  then obtain m' where "map_of (st_memberships s) k = Some m'" using assms(3) m(3) unfolding grows_def by blast
  then have "(k, m') \<in> set (st_memberships s)" by (rule map_of_SomeD)
  with k(2) m(1) show ?thesis by (auto simp: list_ex_iff intro!: bexI [of _ "(k, m')"] split: prod.splits)
qed

text \<open>[C38] Completing a verification plan verifies a device only through evidence. (The first device of a class is verified
  without any, when \<^verbatim>\<open>store_environment_fingerprint\<close> stores it; this property is about the others.) Take a plan that
  \<^verbatim>\<open>plan_performance_class_verification\<close> made, and complete it at any later time with any report. If a membership is verified then
  and was not before, it is the one of the device the plan is about, the verdict is positive and is the result of
  the call; and for every operator of the suite, which is not empty, the store held a measurement of a device that was verified for the
  class in a compatible environment when the plan was made, the report carries a measurement of this operator on the candidate device, and
  the two means differ by no more than the tolerance relative to the mean of the verified device. Like the code, the
  comparison reads the two means as they are, without their units.\<close>

theorem verified_by_evidence:
  assumes "plan_performance_class_verification L f signatures tolerance w0 = Inr (Some p)" "distinct (map fst (st_memberships (pw_store w0)))"
    and "grows (pw_store w0) (pw_store w)"
    and "complete_performance_class_verification L p report w = (w', x)" "verified_in (pw_store w') k" "\<not> verified_in (pw_store w) k"
  shows "enf_device_performance_class_id f = Some (fst k) \<and> enf_worker_id f = Some (fst (snd k)) \<and> enf_device_id f = Some (snd (snd k))
    \<and> (\<exists>v. x = Inr (Some v) \<and> vrf_compatible v) \<and> vpl_signatures p \<noteq> []
    \<and> (\<forall>signature \<in> set (vpl_signatures p). \<exists>r c. trusted L (pw_store w0) f signature r \<and> offered L (pw_store w) report f signature c \<and> close_means tolerance r c)"
proof -
  obtain ids where ids: "traverse_res (operator_id L) (vpl_signatures p) = Inr ids" "vpl_signatures p \<noteq> []" "vpl_candidate_environment p = f" "vpl_tolerance p = tolerance"
    "length (vpl_reference_measurements p) = length ids"
    and trust: "\<And>n. n < length ids \<Longrightarrow> trusted L (pw_store w0) f (vpl_signatures p ! n) (vpl_reference_measurements p ! n)"
    by (rule plan_sound [OF assms(1)]) blast
  have len: "length ids = length (vpl_signatures p)" using ids(1) by (rule traverse_res_length)
  have known: "list_ex (\<lambda>((c, _), _). Some c = enf_device_performance_class_id f) (st_memberships (pw_store w))"
    by (rule class_still_known [OF trust [of 0] assms(2,3)]) (use ids(2) len in simp)
  have "w' \<noteq> w" using assms(5,6) by blast
  then obtain v evidence candidates y where v: "record_performance_class_verification L f v evidence w = (w', y)" "y = Inr () \<Longrightarrow> x = Inr (Some v)"
    "verify_performance_class (zip ids (vpl_reference_measurements p)) candidates tolerance = Inr v"
    and candidates: "\<And>j r. (j, r) \<in> set candidates \<Longrightarrow> \<exists>c \<in> set (erp_cases report). candidate_of L f (set ids) (pw_store w) c = Inr (Some (j, r))"
    using complete_sound [OF assms(4) _ ids(1,5)] unfolding ids(3,4) by metis
  note new = record_verifies [OF v(1) assms(5,6) known]
  have "\<exists>r c. trusted L (pw_store w0) f signature r \<and> offered L (pw_store w) report f signature c \<and> close_means tolerance r c"
    if sig: "signature \<in> set (vpl_signatures p)" for signature
  proof -
    obtain n where n: "n < length ids" "vpl_signatures p ! n = signature" using sig len by (auto simp: in_set_conv_nth)
    have id: "operator_id L signature = Inr (ids ! n)" using ids(1) n len by (auto simp: traverse_res_Inr list_all2_conv_all_nth)
    have mem: "ids ! n \<in> fst ` set (zip ids (vpl_reference_measurements p))" using n(1) ids(5) by (simp flip: set_map)
    obtain r where r: "dict_of (zip ids (vpl_reference_measurements p)) (ids ! n) = Some r" "(ids ! n, r) \<in> set (zip ids (vpl_reference_measurements p))"
      using dict_of_Some [OF mem] by blast
    have close: "close_means tolerance r (the (dict_of candidates (ids ! n)))" "ids ! n \<in> fst ` set candidates"
      using verify_compatible [OF v(3) _ mem] new r(1) by simp_all
    obtain c where c: "dict_of candidates (ids ! n) = Some c" "(ids ! n, c) \<in> set candidates" using dict_of_Some [OF close(2)] by blast
    obtain m where m: "m < length ids" "ids ! m = ids ! n" "vpl_reference_measurements p ! m = r" using r(2) ids(5) by (auto simp: in_set_zip)
    have "operator_id L (vpl_signatures p ! m) = operator_id L signature" using ids(1) id m(1,2) len by (auto simp: traverse_res_Inr list_all2_conv_all_nth)
    then have "trusted L (pw_store w0) f signature r" using trust [OF m(1)] m(3) by (simp add: trusted_def)
    moreover have "offered L (pw_store w) report f signature c" using candidates [OF c(2)] candidate_of_Some [OF _ id] by blast
    ultimately show ?thesis using close(1) c(1) by auto
  qed
  with new v(2) ids(2) show ?thesis by blast
qed

definition demo_operator :: operator_signature where
  "demo_operator = \<lparr>ops_kind = OP_GEMM, ops_parameters = Gemm \<lparr>gem_m = 8, gem_n = 8, gem_k = 8, gem_dtype = ''bf16'', gem_transpose_a = False, gem_transpose_b = True\<rparr>,
     ops_backend_family = ''torch''\<rparr>"

definition demo_operator_case :: profiling_case where
  "demo_operator_case = \<lparr>pcs_case_id = ''c'', pcs_worker_id = ''a'', pcs_spec = Model_Case \<lparr>mcs_granularity = OPERATOR, mcs_device_ids = [''d''], mcs_dtype = ''bf16'',
     mcs_backend = ''torch'', mcs_model = None, mcs_layer_signature = None, mcs_module_signature = None, mcs_operator_signature = Some demo_operator,
     mcs_phase = PHASE_PREFILL, mcs_batch_size = 1, mcs_sequence_length = 8, mcs_context_length = None, mcs_layer_index = None\<rparr>\<rparr>"

definition demo_device_environment :: "string \<Rightarrow> environment_fingerprint" where
  "demo_device_environment worker = demo_environment\<lparr>enf_device_performance_class_id := Some ''k'', enf_worker_id := Some worker, enf_device_id := Some ''d''\<rparr>"

definition demo_latency :: "string \<Rightarrow> string \<Rightarrow> rat \<Rightarrow> measurement_record" where
  "demo_latency i worker mean = demo_measurement\<lparr>mrc_measurement_id := i,
     mrc_environment_fingerprint := projr (environment_fingerprint_id demo_hash (demo_device_environment worker)),
     mrc_metrics := \<lparr>mms_latency = Some \<lparr>ltm_summary = \<lparr>smm_mean = Fin mean, smm_median = Fin mean, smm_stddev = Fin 0, smm_minimum = Fin mean,
         smm_maximum = Fin mean, smm_p95 = None\<rparr>, ltm_unit = MILLISECONDS\<rparr>, mms_allocator = None, mms_physical = None, mms_telemetry = None,
       mms_rtt = None, mms_bandwidth = None\<rparr>,
     mrc_environment := Some (demo_device_environment worker),
     mrc_quality := Some \<lparr>mqu_stationary = True, mqu_drift_ratio = Fin 0, mqu_coefficient_of_variation = Fin 0, mqu_eligible_for_calibration = True\<rparr>\<rparr>"

definition demo_membership :: "string \<Rightarrow> bool \<Rightarrow> class_membership" where
  "demo_membership worker verified = \<lparr>dpm_device_performance_class_id = ''k'', dpm_worker_id = worker, dpm_device_id = ''d'', dpm_verified = verified,
     dpm_verified_at = (if verified then Some demo_time else None), dpm_evidence_measurement_ids = []\<rparr>"

definition demo_class_world :: "call_env \<Rightarrow> master \<Rightarrow> world" where
  "demo_class_world env m = \<lparr>pw_store = store_init\<lparr>
       st_cases := [(''c'', \<lparr>stc_case = demo_operator_case, stc_state = CASE_COMPLETED, stc_failure = None\<rparr>)],
       st_measurements := [(''m'', \<lparr>mrw_record = demo_latency ''m'' ''a'' 10, mrw_environment_instance_id = None, mrw_model_id = None, mrw_model_revision = None,
         mrw_layer_signature_id = None, mrw_module_signature_id = None, mrw_operator_signature_id = None, mrw_network_pair_id = None, mrw_probe_kind = None,
         mrw_started_at = []\<rparr>)],
       st_memberships := [((''k'', ''a'', ''d''), demo_membership ''a'' True), ((''k'', ''b'', ''d''), demo_membership ''b'' False)]\<rparr>,
     pw_master = m, pw_call = env, pw_inspections = 0\<rparr>"

definition demo_class_report :: experiment_report where
  "demo_class_report = \<lparr>erp_experiment_id = ''e'', erp_state = EXP_COMPLETED, erp_cases = [\<lparr>crp_case_id = ''c'', crp_worker_id = ''b'', crp_state = CASE_COMPLETED,
     crp_outcome = Some \<lparr>cou_record = Some (demo_latency ''n'' ''b'' 11), cou_failure = None\<rparr>, crp_detail = []\<rparr>]\<rparr>"

lemma demo_operator_id: "\<exists>j. operator_id demo_library demo_operator = Inr j"
  by (simp add: operator_id_def operator_signature_id_def demo_operator_def canonical_operator_signature_def canonical_gemm_signature_def demo_library_def canonical_sha256_total)

lemma demo_device_ids: "\<exists>i. \<forall>worker. environment_fingerprint_id demo_hash (demo_device_environment worker) = Inr i"
proof -
  obtain i where "environment_fingerprint_id demo_hash (demo_device_environment ''a'') = Inr i" using environment_ids_total(1) by blast
  then show ?thesis by (simp add: environment_fingerprint_id_def demo_device_environment_def)
qed

definition demo_plan :: verification_plan where
  "demo_plan = \<lparr>vpl_candidate_environment = demo_device_environment ''b'', vpl_signatures = [demo_operator],
     vpl_reference_measurements = [demo_latency ''m'' ''a'' 10], vpl_reference_worker_id = ''a'', vpl_reference_device_id = ''d'',
     vpl_tolerance = DEFAULT_VERIFICATION_TOLERANCE\<rparr>"

lemma demo_env_fields:
  "enf_device_performance_class_id (demo_device_environment w) = Some ''k''" "enf_worker_id (demo_device_environment w) = Some w"
  "enf_device_id (demo_device_environment w) = Some ''d''" "enf_device_performance_class (demo_device_environment w) = None"
  by (simp_all add: demo_device_environment_def demo_environment_def)

lemma demo_latency_fields:
  "mrc_environment (demo_latency i w x) = Some (demo_device_environment w)" "mrc_case_id (demo_latency i w x) = ''c''"
  "mrc_measurement_id (demo_latency i w x) = i"
  "mrc_quality (demo_latency i w x) = Some \<lparr>mqu_stationary = True, mqu_drift_ratio = Fin 0, mqu_coefficient_of_variation = Fin 0, mqu_eligible_for_calibration = True\<rparr>"
  "mrc_environment_fingerprint (demo_latency i w x) = projr (environment_fingerprint_id demo_hash (demo_device_environment w))"
  by (simp_all add: demo_latency_def demo_measurement_def)

lemma demo_sha: "lib_sha demo_library = demo_hash"
  by (simp add: demo_library_def)

lemma demo_planned:
  "plan_performance_class_verification demo_library (demo_device_environment ''b'') [demo_operator] DEFAULT_VERIFICATION_TOLERANCE (demo_class_world env m) = Inr (Some demo_plan)"
proof -
  obtain j where j: "operator_id demo_library demo_operator = Inr j" using demo_operator_id by blast
  obtain i where env: "\<And>worker. environment_fingerprint_id demo_hash (demo_device_environment worker) = Inr i" using demo_device_ids by blast
  let ?w = "demo_class_world env m"
  have members: "performance_class_memberships ''k'' (pw_store ?w) = [demo_membership ''a'' True, demo_membership ''b'' False]"
    by (simp add: performance_class_memberships_def by_key_def demo_class_world_def less_eq_prod_def)
  have query: "query_measurements (any_measurement\<lparr>mqy_environment_fingerprint_id := Some i\<rparr>) (pw_store ?w) = [demo_latency ''m'' ''a'' 10]"
    by (simp add: query_measurements_def demo_class_world_def row_matches_def column_matches_def any_measurement_def chronological_def demo_latency_fields env)
  have suite: "select_verification_signatures demo_library [demo_operator] = Inr [demo_operator]"
    using j by (simp add: select_verification_signatures_def ordered_signatures_def dict_of_def select_suite_def ordered_by_work_def Let_def demo_operator_def dict_fromkeys_def)
  have signature: "measured_signature_id demo_library ''c'' (pw_store ?w) = Inr (Some j)"
    using j by (simp add: measured_signature_id_def get_case_def demo_class_world_def demo_operator_case_def)
  have base: "baseline_of demo_library ''k'' i [(''a'', ''d'')] {j} (pw_store ?w) (demo_latency ''m'' ''a'' 10) = Inr (Some ((''a'', ''d''), j, demo_latency ''m'' ''a'' 10))"
    using signature env by (simp add: baseline_of_def demo_latency_fields demo_env_fields demo_sha)
  have records: "source_records [((''a'', ''d''), j, r)] (''a'', ''d'') = [(j, r)]" for r by (simp add: source_records_def)
  show ?thesis
    by (simp add: env records plan_performance_class_verification_def demo_env_fields members suite j Let_def demo_membership_def query base demo_sha plan_with_def
      complete_sources_def map_filter_simps dict_of_def built_def check_verification_plan_def DEFAULT_VERIFICATION_TOLERANCE_def demo_plan_def)
qed

lemma demo_completed:
  "\<exists>w' v. complete_performance_class_verification demo_library demo_plan demo_class_report (demo_class_world (demo_call 1 ''x'') m) = (w', Inr (Some v))
    \<and> verified_in (pw_store w') (''k'', ''b'', ''d'')"
proof -
  obtain j where j: "operator_id demo_library demo_operator = Inr j" using demo_operator_id by blast
  let ?w = "demo_class_world (demo_call 1 ''x'') m" and ?f = "demo_device_environment ''b''" and ?c = "demo_latency ''n'' ''b'' 11"
  have signature: "measured_signature_id demo_library ''c'' (pw_store ?w) = Inr (Some j)"
    using j by (simp add: measured_signature_id_def get_case_def demo_class_world_def demo_operator_case_def)
  have candidate: "traverse_res (candidate_of demo_library ?f {j} (pw_store ?w)) (erp_cases demo_class_report) = Inr [Some (j, ?c)]"
    using signature demo_device_ids
    by (auto simp: demo_class_report_def candidate_of_def demo_latency_fields demo_env_fields demo_sha)
  have means: "latency_mean_ms (demo_latency i v x) = (case positive_finite (Fin x) of None \<Rightarrow> Inl (ValueError ''record has a non-positive mean'') | Some y \<Rightarrow> Inr y)" for i v x
    by (simp add: latency_mean_ms_def demo_latency_def)
  obtain v where v: "verify_performance_class [(j, demo_latency ''m'' ''a'' 10)] [(j, ?c)] DEFAULT_VERIFICATION_TOLERANCE = Inr v" "vrf_compatible v"
    by (simp add: verify_performance_class_def DEFAULT_VERIFICATION_TOLERANCE_def dict_of_def compare_means_def means Let_def)
  obtain i j' where ids: "environment_fingerprint_id demo_hash ?f = Inr i" "environment_instance_id demo_hash ?f = Inr j'" using environment_ids_total by blast
  obtain w' where w': "record_performance_class_verification demo_library ?f v [''n''] ?w = (w', Inr ())" "verified_in (pw_store w') (''k'', ''b'', ''d'')"
    using ids v(2)
    by (simp add: record_performance_class_verification_def demo_env_fields on_store_def store_environment_fingerprint_def demo_sha insert_verified_def
      demo_class_world_def store_init_def class_membership_of_def check_class_membership_def non_empty_def built_def demo_call_def require_aware_def present_check_def
      store_performance_class_membership_def membership_key_def demo_membership_def verified_in_def update_conv' Let_def)
  have "complete_performance_class_verification demo_library demo_plan demo_class_report ?w = (w', Inr (Some v))"
    using j candidate v(1) w'(1)
    by (simp add: complete_performance_class_verification_def demo_plan_def demo_env_fields Let_def map_filter_simps plan_references_def dict_of_def demo_latency_fields)
  with w'(2) show ?thesis by blast
qed

theorem verified_by_evidence_witness:
  "\<exists>w' x r c. complete_performance_class_verification demo_library demo_plan demo_class_report (demo_class_world (demo_call 1 ''x'') demo_master) = (w', x)
    \<and> verified_in (pw_store w') (''k'', ''b'', ''d'') \<and> close_means DEFAULT_VERIFICATION_TOLERANCE r c
    \<and> trusted demo_library (pw_store (demo_class_world (demo_call 1 ''x'') demo_master)) (demo_device_environment ''b'') demo_operator r"
proof -
  let ?w = "demo_class_world (demo_call 1 ''x'') demo_master"
  obtain w' v where w': "complete_performance_class_verification demo_library demo_plan demo_class_report ?w = (w', Inr (Some v))" "verified_in (pw_store w') (''k'', ''b'', ''d'')"
    using demo_completed by blast
  have "distinct (map fst (st_memberships (pw_store ?w)))" "\<not> verified_in (pw_store ?w) (''k'', ''b'', ''d'')"
    by (simp_all add: demo_class_world_def verified_in_def demo_membership_def)
  from verified_by_evidence [OF demo_planned this(1) grows_refl w'(1,2) this(2)] w' show ?thesis by (fastforce simp: demo_plan_def)
qed

end
