(* ===== verification/Normalizer.thy ===== *)
theory Normalizer
  imports Profiling_Messages
begin

section \<open>Operator normalization\<close>

text \<open>
  The raw operator graph of \<^verbatim>\<open>profiling/operator/extractor.py\<close> with its validation and \<^verbatim>\<open>profiling/operator/normalizer.py\<close>:
  every recorded occurrence becomes one operator of the stable vocabulary, typed where the recorded shapes determine the
  parameters and \<^verbatim>\<open>CUSTOM\<close> with its raw identity otherwise. Running a module under torch to record the graph is left out.
\<close>

subsection \<open>Raw graphs\<close>

record raw_occurrence =
  rop_order :: int
  rop_operation :: string
  rop_input_shapes :: "int list list"
  rop_input_dtypes :: "string list"
  rop_output_shapes :: "int list list"
  rop_output_dtypes :: "string list"

definition check_raw_occurrence :: "raw_occurrence \<Rightarrow> unit res" where
  "check_raw_occurrence x = checks [
     not_negative ''order'' (rop_order x), non_empty ''operation'' (rop_operation x),
     raise_if (length (rop_input_shapes x) \<noteq> length (rop_input_dtypes x)) (ValueError ''input_shapes and input_dtypes must be aligned''),
     raise_if (length (rop_output_shapes x) \<noteq> length (rop_output_dtypes x)) (ValueError ''output_shapes and output_dtypes must be aligned''),
     for_res (check_shape ''raw shapes must have positive dimensions'') (rop_input_shapes x @ rop_output_shapes x)]"

record raw_graph =
  rgr_extractor :: string
  rgr_operations :: "raw_occurrence list"

definition check_raw_graph :: "raw_graph \<Rightarrow> unit res" where
  "check_raw_graph g = checks [
     for_res check_raw_occurrence (rgr_operations g), non_empty ''extractor'' (rgr_extractor g),
     for_res (\<lambda>(expected, x). raise_if (rop_order x \<noteq> int expected) (ValueError ''operations must be sequentially ordered from 0''))
       (List.enumerate 0 (rgr_operations g))]"


subsection \<open>The vocabulary\<close>

definition GEMM_OPERATIONS :: "string list" where
  "GEMM_OPERATIONS = [''mm'', ''addmm'', ''linear'', ''matmul'']"

definition ATTENTION_OPERATIONS :: "string list" where
  "ATTENTION_OPERATIONS = [''scaled_dot_product_attention'', ''_scaled_dot_product_flash_attention'', ''_scaled_dot_product_cudnn_attention'',
     ''_scaled_dot_product_efficient_attention'']"

definition NORM_OPERATIONS :: "(string \<times> norm_variant) list" where
  "NORM_OPERATIONS = [(''rms_norm'', RMS), (''layer_norm'', LAYER), (''native_layer_norm'', LAYER)]"

definition EMBEDDING_OPERATIONS :: "string list" where
  "EMBEDDING_OPERATIONS = [''embedding'']"

definition ELEMENTWISE_OPERATIONS :: "string list" where
  "ELEMENTWISE_OPERATIONS = [''add'', ''sub'', ''rsub'', ''mul'', ''div'', ''neg'', ''abs'', ''clamp'', ''exp'', ''log'', ''pow'', ''rsqrt'', ''sqrt'',
     ''reciprocal'', ''gelu'', ''relu'', ''sigmoid'', ''silu'', ''tanh'']"

definition REDUCTION_OPERATIONS :: "string list" where
  "REDUCTION_OPERATIONS = [''mean'', ''sum'', ''amax'', ''amin'', ''prod'']"

definition UNKNOWN_DTYPE :: string where
  "UNKNOWN_DTYPE = ''unknown''"

definition canonical_operation_name :: "string \<Rightarrow> string" where
  "canonical_operation_name raw =
     takeWhile (\<lambda>c. c \<noteq> CHR ''.'')
       (case find (startswith raw) [''aten::'', ''aten.''] of Some p \<Rightarrow> drop (length p) raw | None \<Rightarrow> raw)"


subsection \<open>Typed parameters\<close>

text \<open>\<open>accepted\<close> is \<^verbatim>\<open>try\<close>/\<^verbatim>\<open>except ValueError: return None\<close> around a constructor; a constructor raises nothing else.\<close>

definition accepted :: "('a \<Rightarrow> unit res) \<Rightarrow> 'a \<Rightarrow> 'a option" where
  "accepted check x = (case built check x of Inl _ \<Rightarrow> None | Inr y \<Rightarrow> Some y)"

definition first_dtype :: "raw_occurrence \<Rightarrow> string" where
  "first_dtype x = (case rop_input_dtypes x of [] \<Rightarrow> UNKNOWN_DTYPE | d # _ \<Rightarrow> d)"

definition generic_parameters_of :: "string \<Rightarrow> raw_occurrence \<Rightarrow> operator_parameters res" where
  "generic_parameters_of name x = map_res Generic (built check_generic_parameters
     \<lparr>gen_operation = name, gen_input_shapes = rop_input_shapes x, gen_dtype = first_dtype x\<rparr>)"

definition product_gemm :: "string \<Rightarrow> int list \<Rightarrow> int list \<Rightarrow> gemm_signature option" where
  "product_gemm dtype a b = (case (a, b) of
     ([m, k], [k2, n]) \<Rightarrow> if k \<noteq> k2 then None
       else accepted check_gemm_signature \<lparr>gem_m = m, gem_n = n, gem_k = k, gem_dtype = dtype, gem_transpose_a = False, gem_transpose_b = False\<rparr>
   | _ \<Rightarrow> None)"

definition linear_gemm :: "string \<Rightarrow> int list \<Rightarrow> int list \<Rightarrow> gemm_signature option" where
  "linear_gemm dtype input weight = (case weight of
     [n, weight_k] \<Rightarrow> if input = [] \<or> weight_k \<noteq> last input then None
       else accepted check_gemm_signature \<lparr>gem_m = prod_list (butlast input), gem_n = n, gem_k = last input, gem_dtype = dtype,
              gem_transpose_a = False, gem_transpose_b = True\<rparr>
   | _ \<Rightarrow> None)"

definition gemm_parameters :: "raw_occurrence \<Rightarrow> string \<Rightarrow> gemm_signature option" where
  "gemm_parameters x name =
     (let dtype = first_dtype x in
      if name = ''linear'' then (case rop_input_shapes x of input # weight # _ \<Rightarrow> linear_gemm dtype input weight | _ \<Rightarrow> None)
      else if name = ''mm'' \<or> name = ''matmul'' then (case rop_input_shapes x of [a, b] \<Rightarrow> product_gemm dtype a b | _ \<Rightarrow> None)
      else if name = ''addmm'' then (case rop_input_shapes x of [_, a, b] \<Rightarrow> product_gemm dtype a b | _ \<Rightarrow> None)
      else None)"

definition attention_parameters :: "raw_occurrence \<Rightarrow> prof_phase option \<Rightarrow> attention_signature option" where
  "attention_parameters x phase = (case phase of
     None \<Rightarrow> None
   | Some ph \<Rightarrow> (case rop_input_shapes x of
       [b, h, q, d] # [b1, g, l, d1] # [b2, _, l2, d2] # _ \<Rightarrow>
         if b \<noteq> b1 \<or> b \<noteq> b2 \<or> l \<noteq> l2 \<or> d \<noteq> d1 \<or> d \<noteq> d2 then None
         else accepted check_attention_signature \<lparr>att_batch_size = b, att_num_heads = h, att_num_kv_heads = g, att_head_dim = d,
                att_q_len = q, att_kv_len = l, att_dtype = first_dtype x, att_phase = ph\<rparr>
     | _ \<Rightarrow> None))"

definition norm_parameters :: "raw_occurrence \<Rightarrow> norm_variant \<Rightarrow> norm_signature option" where
  "norm_parameters x variant = (case rop_input_shapes x of
     [b, n, d] # _ \<Rightarrow>
       accepted check_norm_signature \<lparr>nrm_batch_size = b, nrm_sequence_length = n, nrm_hidden_size = d,
         nrm_dtype = first_dtype x, nrm_variant = variant\<rparr>
   | _ \<Rightarrow> None)"

definition embedding_parameters :: "raw_occurrence \<Rightarrow> embedding_signature option" where
  "embedding_parameters x = (case rop_input_shapes x of
     [v, d] # [b, n] # _ \<Rightarrow>
       accepted check_embedding_signature \<lparr>emb_batch_size = b, emb_sequence_length = n, emb_vocab_size = v,
         emb_embedding_dim = d, emb_dtype = first_dtype x\<rparr>
   | _ \<Rightarrow> None)"


subsection \<open>Normalization\<close>

definition custom_of :: "raw_occurrence \<Rightarrow> (operator_kind \<times> operator_parameters) res" where
  "custom_of x = map_res (\<lambda>p. (OP_CUSTOM, Custom p)) (built check_custom_parameters
     \<lparr>cus_raw_name = rop_operation x, cus_input_shapes = rop_input_shapes x, cus_input_dtypes = rop_input_dtypes x, cus_metadata = []\<rparr>)"

definition typed_or_custom :: "operator_kind \<Rightarrow> ('p \<Rightarrow> operator_parameters) \<Rightarrow> 'p option \<Rightarrow> raw_occurrence \<Rightarrow> (operator_kind \<times> operator_parameters) res" where
  "typed_or_custom kind wrap typed x = (case typed of Some p \<Rightarrow> Inr (kind, wrap p) | None \<Rightarrow> custom_of x)"

definition classify_operation :: "raw_occurrence \<Rightarrow> prof_phase option \<Rightarrow> (operator_kind \<times> operator_parameters) res" where
  "classify_operation x phase =
     (let name = canonical_operation_name (rop_operation x) in
      if name \<in> set GEMM_OPERATIONS then typed_or_custom OP_GEMM Gemm (gemm_parameters x name) x
      else if name \<in> set ATTENTION_OPERATIONS then typed_or_custom OP_ATTENTION Attention (attention_parameters x phase) x
      else case map_of NORM_OPERATIONS name of
        Some variant \<Rightarrow> typed_or_custom OP_NORM Norm (norm_parameters x variant) x
      | None \<Rightarrow>
          if name \<in> set EMBEDDING_OPERATIONS then typed_or_custom OP_EMBEDDING Embedding (embedding_parameters x) x
          else if name \<in> set ELEMENTWISE_OPERATIONS then map_res (Pair OP_ELEMENTWISE) (generic_parameters_of name x)
          else if name \<in> set REDUCTION_OPERATIONS then map_res (Pair OP_REDUCTION) (generic_parameters_of name x)
          else custom_of x)"

record normalized_operator =
  nop_order :: int
  nop_raw_operation :: string
  nop_kind :: operator_kind
  nop_signature :: operator_signature

record normalized_graph =
  ngr_extractor :: string
  ngr_operators :: "normalized_operator list"

definition normalize_one :: "string \<Rightarrow> prof_phase option \<Rightarrow> raw_occurrence \<Rightarrow> normalized_operator res" where
  "normalize_one family phase x =
     bind_res (classify_operation x phase) (\<lambda>(kind, parameters).
     bind_res (built check_operator_signature \<lparr>ops_kind = kind, ops_parameters = parameters, ops_backend_family = family\<rparr>) (\<lambda>signature.
     Inr \<lparr>nop_order = rop_order x, nop_raw_operation = rop_operation x, nop_kind = kind, nop_signature = signature\<rparr>))"

definition normalize :: "string \<Rightarrow> prof_phase option \<Rightarrow> raw_graph \<Rightarrow> normalized_graph res" where
  "normalize family phase g =
     then_res (non_empty ''backend_family'' family)
     (map_res (\<lambda>ops. \<lparr>ngr_extractor = rgr_extractor g, ngr_operators = ops\<rparr>) (traverse_res (normalize_one family phase) (rgr_operations g)))"

definition unique_operator_signatures :: "normalized_graph list \<Rightarrow> operator_signature list" where
  "unique_operator_signatures graphs = dict_fromkeys (concat (map (map nop_signature \<circ> ngr_operators) graphs))"

text \<open>What the loader of a model session gives as the operators of the representative layer: \<^verbatim>\<open>_extract_operator_signatures\<close> of
  \<^verbatim>\<open>control/worker/profiling_model_loader.py\<close> over the graphs the extractors recorded.\<close>

definition extract_operator_signatures :: "raw_graph list \<Rightarrow> operator_signature list res" where
  "extract_operator_signatures graphs = map_res unique_operator_signatures (traverse_res (normalize ''torch'' None) graphs)"


subsection \<open>What a signature may claim\<close>

text \<open>The facts an occurrence records, and what typed parameters may say of them: no dimension, dtype or phase that was not
  recorded. The weight of a matrix product has \<open>n * k\<close> elements in either layout.\<close>

fun carries :: "prof_phase option \<Rightarrow> raw_occurrence \<Rightarrow> operator_parameters \<Rightarrow> bool" where
  "carries phase x (Gemm p) \<longleftrightarrow> gem_dtype p = first_dtype x
     \<and> (\<exists>a \<in> set (rop_input_shapes x). \<exists>b \<in> set (rop_input_shapes x).
          prod_list a = gem_m p * gem_k p \<and> last a = gem_k p \<and> b = (if gem_transpose_b p then [gem_n p, gem_k p] else [gem_k p, gem_n p]))"
| "carries phase x (Attention p) \<longleftrightarrow> att_dtype p = first_dtype x \<and> phase = Some (att_phase p)
     \<and> (\<exists>h rest. rop_input_shapes x = [att_batch_size p, att_num_heads p, att_q_len p, att_head_dim p]
          # [att_batch_size p, att_num_kv_heads p, att_kv_len p, att_head_dim p] # [att_batch_size p, h, att_kv_len p, att_head_dim p] # rest)"
| "carries phase x (Norm p) \<longleftrightarrow> nrm_dtype p = first_dtype x
     \<and> (\<exists>rest. rop_input_shapes x = [nrm_batch_size p, nrm_sequence_length p, nrm_hidden_size p] # rest)"
| "carries phase x (Embedding p) \<longleftrightarrow> emb_dtype p = first_dtype x
     \<and> (\<exists>rest. rop_input_shapes x = [emb_vocab_size p, emb_embedding_dim p] # [emb_batch_size p, emb_sequence_length p] # rest)"
| "carries phase x (Generic p) \<longleftrightarrow> gen_dtype p = first_dtype x \<and> gen_input_shapes p = rop_input_shapes x
     \<and> gen_operation p = canonical_operation_name (rop_operation x)"
| "carries phase x (Custom p) \<longleftrightarrow> cus_raw_name p = rop_operation x \<and> cus_input_shapes p = rop_input_shapes x
     \<and> cus_input_dtypes p = rop_input_dtypes x \<and> cus_metadata p = []"
| "carries phase x _ \<longleftrightarrow> False"

lemma accepted_Some [simp]: "accepted check v = Some y \<longleftrightarrow> check v = Inr () \<and> y = v"
  by (cases "check v") (auto simp: accepted_def built_def)

lemma product_gemm_Some:
  assumes "product_gemm dtype a b = Some p"
  shows "check_gemm_signature p = Inr ()" "gem_dtype p = dtype" "a = [gem_m p, gem_k p]" "b = [gem_k p, gem_n p]" "\<not> gem_transpose_b p"
  using assms by (auto simp: product_gemm_def split: list.splits if_splits)

lemma linear_gemm_Some:
  assumes "linear_gemm dtype a b = Some p"
  shows "check_gemm_signature p = Inr ()" "gem_dtype p = dtype" "prod_list a = gem_m p * gem_k p" "last a = gem_k p"
    "b = [gem_n p, gem_k p]" "gem_transpose_b p"
proof -
  have "a \<noteq> [] \<Longrightarrow> prod_list a = prod_list (butlast a) * last a"
    by (metis append_butlast_last_id prod_list.append prod_list.Cons prod_list.Nil mult.right_neutral)
  with assms show "check_gemm_signature p = Inr ()" "gem_dtype p = dtype" "prod_list a = gem_m p * gem_k p" "last a = gem_k p"
    "b = [gem_n p, gem_k p]" "gem_transpose_b p"
    by (auto simp: linear_gemm_def split: list.splits if_splits)
qed

lemma gemm_carries:
  "\<lbrakk>check_gemm_signature p = Inr (); gem_dtype p = first_dtype x; a \<in> set (rop_input_shapes x); b \<in> set (rop_input_shapes x);
    prod_list a = gem_m p * gem_k p; last a = gem_k p; b = (if gem_transpose_b p then [gem_n p, gem_k p] else [gem_k p, gem_n p])\<rbrakk>
   \<Longrightarrow> check_gemm_signature p = Inr () \<and> carries phase x (Gemm p)"
  unfolding carries.simps by blast

lemma product_carries:
  assumes "product_gemm (first_dtype x) a b = Some p" and "a \<in> set (rop_input_shapes x)" "b \<in> set (rop_input_shapes x)"
  shows "check_gemm_signature p = Inr () \<and> carries phase x (Gemm p)"
  using product_gemm_Some [OF assms(1)] assms(2,3) by (intro gemm_carries [of p x a b]) simp_all

lemma linear_carries:
  assumes "linear_gemm (first_dtype x) a b = Some p" and "a \<in> set (rop_input_shapes x)" "b \<in> set (rop_input_shapes x)"
  shows "check_gemm_signature p = Inr () \<and> carries phase x (Gemm p)"
  using linear_gemm_Some [OF assms(1)] assms(2,3) by (intro gemm_carries [of p x a b]) simp_all

lemma gemm_parameters_Some:
  assumes "gemm_parameters x name = Some p"
  shows "check_gemm_signature p = Inr () \<and> carries phase x (Gemm p)"
proof -
  from assms consider (linear) a b r where "rop_input_shapes x = a # b # r" "linear_gemm (first_dtype x) a b = Some p"
    | (plain) a b r where "rop_input_shapes x = r @ [a, b]" "product_gemm (first_dtype x) a b = Some p"
    by (fastforce simp: gemm_parameters_def Let_def split: if_splits list.splits)
  then show ?thesis
  proof cases
    case linear
    from linear(2) show ?thesis by (rule linear_carries) (simp_all add: linear(1))
  next
    case plain
    from plain(2) show ?thesis by (rule product_carries) (simp_all add: plain(1))
  qed
qed

lemma attention_parameters_Some:
  assumes "attention_parameters x phase = Some p"
  shows "check_attention_signature p = Inr () \<and> carries phase x (Attention p)"
  using assms by (auto simp: attention_parameters_def split: option.splits list.splits if_splits)

lemma norm_parameters_Some:
  assumes "norm_parameters x v = Some p"
  shows "check_norm_signature p = Inr () \<and> carries phase x (Norm p)"
  using assms by (auto simp: norm_parameters_def split: list.splits)

lemma embedding_parameters_Some:
  assumes "embedding_parameters x = Some p"
  shows "check_embedding_signature p = Inr () \<and> carries phase x (Embedding p)"
  using assms by (auto simp: embedding_parameters_def split: list.splits)


subsection \<open>Nothing is lost and nothing is guessed\<close>

definition labelled :: "raw_graph \<Rightarrow> bool" where
  "labelled g \<longleftrightarrow> (\<forall>x \<in> set (rgr_operations g). [] \<notin> set (rop_input_dtypes x))"

lemma first_dtype_labelled: "[] \<notin> set (rop_input_dtypes x) \<Longrightarrow> first_dtype x \<noteq> []"
  by (auto simp: first_dtype_def UNKNOWN_DTYPE_def split: list.splits)

lemma custom_of_ok:
  assumes "check_raw_occurrence x = Inr ()" "[] \<notin> set (rop_input_dtypes x)"
  obtains c where "custom_of x = Inr (OP_CUSTOM, Custom c)" "check_custom_parameters c = Inr ()" "carries phase x (Custom c)"
proof
  let ?c = "\<lparr>cus_raw_name = rop_operation x, cus_input_shapes = rop_input_shapes x, cus_input_dtypes = rop_input_dtypes x, cus_metadata = []\<rparr>"
  have "for_res (check_shape what) (rop_input_shapes x) = Inr ()" for what
    using assms(1) by (auto simp: check_raw_occurrence_def checks_Inr for_res_Inr check_shape_def)
  moreover have "for_res (non_empty what) (rop_input_dtypes x) = Inr ()" for what using assms(2) by (auto simp: for_res_Inr)
  moreover have "check_normalized_items what [] = Inr ()" for what by (simp add: check_normalized_items_def)
  moreover have "rop_operation x \<noteq> []" using assms(1) by (auto simp: check_raw_occurrence_def checks_Inr)
  ultimately show "check_custom_parameters ?c = Inr ()" by (simp add: check_custom_parameters_def checks_Inr)
  then show "custom_of x = Inr (OP_CUSTOM, Custom ?c)" by (simp add: custom_of_def built_def)
  show "carries phase x (Custom ?c)" by simp
qed

lemma generic_of_ok:
  assumes "check_raw_occurrence x = Inr ()" "[] \<notin> set (rop_input_dtypes x)" "canonical_operation_name (rop_operation x) \<noteq> []"
  obtains c where "generic_parameters_of (canonical_operation_name (rop_operation x)) x = Inr (Generic c)"
    "check_generic_parameters c = Inr ()" "carries phase x (Generic c)"
proof
  let ?c = "\<lparr>gen_operation = canonical_operation_name (rop_operation x), gen_input_shapes = rop_input_shapes x, gen_dtype = first_dtype x\<rparr>"
  have "for_res (check_shape what) (rop_input_shapes x) = Inr ()" for what
    using assms(1) by (auto simp: check_raw_occurrence_def checks_Inr for_res_Inr check_shape_def)
  with assms(3) first_dtype_labelled [OF assms(2)] show "check_generic_parameters ?c = Inr ()"
    by (simp add: check_generic_parameters_def checks_Inr)
  then show "generic_parameters_of (canonical_operation_name (rop_operation x)) x = Inr (Generic ?c)"
    by (simp add: generic_parameters_of_def built_def)
  show "carries phase x (Generic ?c)" by simp
qed

definition honest :: "prof_phase option \<Rightarrow> raw_occurrence \<Rightarrow> operator_kind \<times> operator_parameters \<Rightarrow> bool" where
  "honest phase x c \<longleftrightarrow> check_operator_parameters (snd c) = Inr () \<and> parameters_allowed (fst c) (snd c) \<and> carries phase x (snd c)"

lemma typed_or_custom_ok:
  assumes "check_raw_occurrence x = Inr ()" "[] \<notin> set (rop_input_dtypes x)"
    and "\<And>p. typed = Some p \<Longrightarrow> honest phase x (kind, wrap p)"
  shows "\<exists>c. typed_or_custom kind wrap typed x = Inr c \<and> honest phase x c"
proof (cases typed)
  case None
  obtain c where "custom_of x = Inr (OP_CUSTOM, Custom c)" "check_custom_parameters c = Inr ()" "carries phase x (Custom c)"
    by (rule custom_of_ok [OF assms(1,2)])
  with None show ?thesis by (simp add: typed_or_custom_def honest_def)
next
  case (Some p)
  with assms(3) show ?thesis by (simp add: typed_or_custom_def)
qed

lemma classify_operation_ok:
  assumes "check_raw_occurrence x = Inr ()" "[] \<notin> set (rop_input_dtypes x)"
  shows "\<exists>c. classify_operation x phase = Inr c \<and> honest phase x c"
proof -
  let ?name = "canonical_operation_name (rop_operation x)"
  note typed = typed_or_custom_ok [OF assms, where phase = phase]
  have "\<exists>c. typed_or_custom OP_GEMM Gemm (gemm_parameters x ?name) x = Inr c \<and> honest phase x c"
    by (rule typed) (use gemm_parameters_Some in \<open>auto simp: honest_def\<close>)
  moreover have "\<exists>c. typed_or_custom OP_ATTENTION Attention (attention_parameters x phase) x = Inr c \<and> honest phase x c"
    by (rule typed) (use attention_parameters_Some in \<open>auto simp: honest_def\<close>)
  moreover have "\<exists>c. typed_or_custom OP_NORM Norm (norm_parameters x v) x = Inr c \<and> honest phase x c" for v
    by (rule typed) (use norm_parameters_Some in \<open>auto simp: honest_def\<close>)
  moreover have "\<exists>c. typed_or_custom OP_EMBEDDING Embedding (embedding_parameters x) x = Inr c \<and> honest phase x c"
    by (rule typed) (use embedding_parameters_Some in \<open>auto simp: honest_def\<close>)
  moreover have "\<exists>c. map_res (Pair k) (generic_parameters_of ?name x) = Inr c \<and> honest phase x c"
    if "?name \<in> set ELEMENTWISE_OPERATIONS \<or> ?name \<in> set REDUCTION_OPERATIONS" "k = OP_ELEMENTWISE \<or> k = OP_REDUCTION" for k
  proof -
    from that(1) have "?name \<noteq> []" by (auto simp: ELEMENTWISE_OPERATIONS_def REDUCTION_OPERATIONS_def)
    then obtain c where "generic_parameters_of ?name x = Inr (Generic c)" "check_generic_parameters c = Inr ()" "carries phase x (Generic c)"
      by (rule generic_of_ok [OF assms])
    with that(2) show ?thesis by (auto simp: honest_def)
  qed
  moreover have "\<exists>c. custom_of x = Inr c \<and> honest phase x c" using typed [of None] by (auto simp: typed_or_custom_def)
  ultimately show ?thesis unfolding classify_operation_def Let_def by (auto split: option.split)
qed

lemma normalize_one_ok:
  assumes "check_raw_occurrence x = Inr ()" "[] \<notin> set (rop_input_dtypes x)" "family \<noteq> []"
  shows "\<exists>p. normalize_one family phase x = Inr p \<and> nop_order p = rop_order x \<and> nop_raw_operation p = rop_operation x
    \<and> nop_kind p = ops_kind (nop_signature p) \<and> ops_backend_family (nop_signature p) = family
    \<and> check_operator_signature (nop_signature p) = Inr () \<and> carries phase x (ops_parameters (nop_signature p))"
proof -
  obtain kind parameters where "classify_operation x phase = Inr (kind, parameters)" "honest phase x (kind, parameters)"
    using classify_operation_ok [OF assms(1,2)] by fastforce
  with assms(3) show ?thesis by (auto simp: normalize_one_def honest_def built_def check_operator_signature_def non_empty_def)
qed

text \<open>Without a phase no attention operator is typed.\<close>

lemma normalize_no_phase:
  assumes "normalize family None g = Inr n" "p \<in> set (ngr_operators n)"
  shows "ops_kind (nop_signature p) \<noteq> OP_ATTENTION"
proof -
  from assms obtain x where "normalize_one family None x = Inr p"
    by (auto simp: normalize_def dest!: traverse_res_set)
  then obtain kind parameters where c: "classify_operation x None = Inr (kind, parameters)" and k: "ops_kind (nop_signature p) = kind"
    by (auto simp: normalize_one_def bind_res_Inr split: prod.splits)
  have "attention_parameters x None = None" by (simp add: attention_parameters_def)
  with c have "kind \<noteq> OP_ATTENTION"
    by (auto simp: classify_operation_def Let_def typed_or_custom_def custom_of_def split: if_splits option.splits)
  with k show ?thesis by simp
qed

lemma extracted_without_attention:
  assumes "extract_operator_signatures graphs = Inr xs" "s \<in> set xs"
  shows "ops_kind s \<noteq> OP_ATTENTION"
proof -
  from assms obtain ns where ns: "traverse_res (normalize ''torch'' None) graphs = Inr ns" and "s \<in> set (unique_operator_signatures ns)"
    by (auto simp: extract_operator_signatures_def)
  then obtain n p where "n \<in> set ns" "p \<in> set (ngr_operators n)" "s = nop_signature p" by (auto simp: unique_operator_signatures_def)
  with traverse_res_set [OF ns] normalize_no_phase show ?thesis by blast
qed

text \<open>Normalization loses no operator and guesses no fact. For every valid raw graph with named dtypes it succeeds, keeps
  the order and the raw name of every occurrence, gives each a valid signature of the declared kind, and the parameters of a
  signature are recorded facts: the shapes and the first dtype of the occurrence, the phase of the workload for attention,
  and the whole raw identity when no typed parameters apply.\<close>

lemma normalize_keeps_every_operator:
  assumes "check_raw_graph g = Inr ()" and "labelled g" and "family \<noteq> []"
  shows "\<exists>n. normalize family phase g = Inr n \<and> ngr_extractor n = rgr_extractor g
    \<and> list_all2 (\<lambda>x p. nop_order p = rop_order x \<and> nop_raw_operation p = rop_operation x \<and> nop_kind p = ops_kind (nop_signature p)
        \<and> ops_backend_family (nop_signature p) = family \<and> check_operator_signature (nop_signature p) = Inr ()
        \<and> carries phase x (ops_parameters (nop_signature p))) (rgr_operations g) (ngr_operators n)
    \<and> set (unique_operator_signatures [n]) = nop_signature ` set (ngr_operators n) \<and> distinct (unique_operator_signatures [n])"
    (is "\<exists>n. _ \<and> _ \<and> list_all2 ?R _ _ \<and> _ \<and> _")
proof -
  have "\<forall>x \<in> set (rgr_operations g). \<exists>p. normalize_one family phase x = Inr p \<and> ?R x p"
    using assms by (intro ballI normalize_one_ok) (auto simp: check_raw_graph_def checks_Inr for_res_Inr labelled_def)
  then obtain f where f: "normalize_one family phase x = Inr (f x) \<and> ?R x (f x)" if "x \<in> set (rgr_operations g)" for x by metis
  then have "traverse_res (normalize_one family phase) (rgr_operations g) = Inr (map f (rgr_operations g))"
    by (intro traverse_res_total) auto
  with assms(3) have "normalize family phase g = Inr \<lparr>ngr_extractor = rgr_extractor g, ngr_operators = map f (rgr_operations g)\<rparr>"
    by (simp add: normalize_def non_empty_def)
  moreover from f have "list_all2 ?R (rgr_operations g) (map f (rgr_operations g))"
    by (simp add: list_all2_conv_all_nth)
  ultimately show ?thesis by (auto simp: unique_operator_signatures_def)
qed

definition demo_raw :: raw_graph where
  "demo_raw = \<lparr>rgr_extractor = ''torch_export'', rgr_operations = [
     \<lparr>rop_order = 0, rop_operation = ''aten.linear.default'', rop_input_shapes = [[1, 8, 16], [32, 16]], rop_input_dtypes = [''bf16'', ''bf16''],
      rop_output_shapes = [], rop_output_dtypes = []\<rparr>,
     \<lparr>rop_order = 1, rop_operation = ''aten.bmm.default'', rop_input_shapes = [[4, 8, 16], [4, 16, 8]], rop_input_dtypes = [''bf16'', ''bf16''],
      rop_output_shapes = [], rop_output_dtypes = []\<rparr>]\<rparr>"

lemma demo_raw_normalizes:
  "\<exists>n. normalize ''torch'' None demo_raw = Inr n \<and> length (ngr_operators n) = 2"
proof -
  have "check_raw_graph demo_raw = Inr ()"
    by (simp add: demo_raw_def check_raw_graph_def check_raw_occurrence_def check_shape_def positive_def not_negative_def non_empty_def)
  moreover have "labelled demo_raw" by (simp add: labelled_def demo_raw_def)
  ultimately obtain n where "normalize ''torch'' None demo_raw = Inr n"
    and "list_all2 (\<lambda>x p. nop_order p = rop_order x) (rgr_operations demo_raw) (ngr_operators n)"
    using normalize_keeps_every_operator [of demo_raw "''torch''" None] by (auto simp: list_all2_conv_all_nth)
  then show ?thesis by (auto simp: demo_raw_def dest!: list_all2_lengthD)
qed

lemma demo_raw_typed:
  "map_res (map (ops_parameters \<circ> nop_signature) \<circ> ngr_operators) (normalize ''torch'' None demo_raw) = Inr [
     Gemm \<lparr>gem_m = 8, gem_n = 32, gem_k = 16, gem_dtype = ''bf16'', gem_transpose_a = False, gem_transpose_b = True\<rparr>,
     Custom \<lparr>cus_raw_name = ''aten.bmm.default'', cus_input_shapes = [[4, 8, 16], [4, 16, 8]], cus_input_dtypes = [''bf16'', ''bf16''], cus_metadata = []\<rparr>]"
  by code_simp

end
