(* ===== verification/Strategy.thy ===== *)
theory Strategy
  imports Network_Classifier Profiling_Runner Class_Verification Normalizer
begin

section \<open>Planning what to measure\<close>

text \<open>
  \<^verbatim>\<open>profiling/strategy/default.py\<close> with the planning helpers it composes: \<^verbatim>\<open>operator/planning.py\<close>, \<^verbatim>\<open>model/planning.py\<close> and the
  case builders of \<^verbatim>\<open>network/profiler.py\<close>. A plan is a list of cases; a dict that only keeps the first value of a key is
  \<open>first_pairs\<close>. Errors are those of the profiling code (\<open>work_exn\<close>), because the operator builder raises a typed error.
\<close>

subsection \<open>Results and dicts\<close>

definition bind_work :: "work_exn + 'a \<Rightarrow> ('a \<Rightarrow> work_exn + 'b) \<Rightarrow> work_exn + 'b" where
  "bind_work r f = (case r of Inl e \<Rightarrow> Inl e | Inr x \<Rightarrow> f x)"

fun traverse_work :: "('a \<Rightarrow> work_exn + 'b) \<Rightarrow> 'a list \<Rightarrow> work_exn + 'b list" where
  "traverse_work f [] = Inr []"
| "traverse_work f (x # xs) = bind_work (f x) (\<lambda>y. bind_work (traverse_work f xs) (\<lambda>ys. Inr (y # ys)))"

text \<open>\<^verbatim>\<open>setdefault\<close> in a loop.\<close>

primrec first_pairs :: "('k \<times> 'v) list \<Rightarrow> ('k \<times> 'v) list" where
  "first_pairs [] = []"
| "first_pairs (p # ps) = p # filter (\<lambda>q. fst q \<noteq> fst p) (first_pairs ps)"


subsection \<open>Operator cases (\<^verbatim>\<open>operator/planning.py\<close>)\<close>

fun parameters_dtype :: "operator_parameters \<Rightarrow> work_exn + string" where
  "parameters_dtype (Gemm p) = Inr (gem_dtype p)"
| "parameters_dtype (Attention p) = Inr (att_dtype p)"
| "parameters_dtype (Norm p) = Inr (nrm_dtype p)"
| "parameters_dtype (Embedding p) = Inr (emb_dtype p)"
| "parameters_dtype (Rotary p) = Inr (rot_dtype p)"
| "parameters_dtype (Kv_Copy p) = Inr (kvc_dtype p)"
| "parameters_dtype (Generic p) = Inr (gen_dtype p)"
| "parameters_dtype (Custom p) = Inl (profiling_error UNSUPPORTED_OPERATOR ''carries no single workload dtype'' [])"

fun case_batch_size :: "operator_parameters \<Rightarrow> int" where
  "case_batch_size (Attention p) = att_batch_size p"
| "case_batch_size (Norm p) = nrm_batch_size p"
| "case_batch_size (Embedding p) = emb_batch_size p"
| "case_batch_size (Rotary p) = rot_batch_size p"
| "case_batch_size (Kv_Copy p) = kvc_batch_size p"
| "case_batch_size _ = 1"

fun case_sequence_length :: "operator_parameters \<Rightarrow> int" where
  "case_sequence_length (Attention p) = att_q_len p"
| "case_sequence_length (Gemm p) = gem_m p"
| "case_sequence_length (Kv_Copy p) = kvc_context_length p"
| "case_sequence_length (Norm p) = nrm_sequence_length p"
| "case_sequence_length (Embedding p) = emb_sequence_length p"
| "case_sequence_length (Rotary p) = rot_sequence_length p"
| "case_sequence_length _ = 512"

fun case_phase :: "operator_parameters \<Rightarrow> prof_phase \<times> int option" where
  "case_phase (Attention p) = (att_phase p, if att_phase p = PHASE_DECODE then Some (att_kv_len p - att_q_len p) else None)"
| "case_phase _ = (PHASE_PREFILL, None)"

definition operator_workload :: "operator_signature \<Rightarrow> string \<Rightarrow> string \<Rightarrow> model_case_spec" where
  "operator_workload s device dtype =
     \<lparr>mcs_granularity = OPERATOR, mcs_device_ids = [device], mcs_dtype = dtype, mcs_backend = ops_backend_family s, mcs_model = None,
      mcs_layer_signature = None, mcs_module_signature = None, mcs_operator_signature = Some s, mcs_phase = fst (case_phase (ops_parameters s)),
      mcs_batch_size = case_batch_size (ops_parameters s), mcs_sequence_length = case_sequence_length (ops_parameters s),
      mcs_context_length = snd (case_phase (ops_parameters s)), mcs_layer_index = None\<rparr>"

fun is_custom :: "operator_parameters \<Rightarrow> bool" where
  "is_custom (Custom p) = True"
| "is_custom _ = False"

definition operator_case_spec :: "operator_signature \<Rightarrow> string \<Rightarrow> work_exn + model_case_spec" where
  "operator_case_spec s device =
     (if is_custom (ops_parameters s)
      then Inl (profiling_error UNSUPPORTED_OPERATOR ''custom operator has no synthetic workload''
             [(''kind'', SStr (operator_kind_value (ops_kind s)))])
      else bind_work (parameters_dtype (ops_parameters s)) (\<lambda>dtype. unexpected (built check_model_case_spec (operator_workload s device dtype))))"

record incremental_plan =
  ipl_reused :: "operator_signature list"
  ipl_missing :: "operator_signature list"

definition unique_by_id :: "store_library \<Rightarrow> operator_signature list \<Rightarrow> (string \<times> operator_signature) list res" where
  "unique_by_id L signatures = map_res (\<lambda>ids. first_pairs (zip ids signatures)) (traverse_res (operator_id L) signatures)"

definition plan_incremental_profiling :: "store_library \<Rightarrow> operator_signature list \<Rightarrow> string set \<Rightarrow> incremental_plan res" where
  "plan_incremental_profiling L signatures measured_ids =
     map_res (\<lambda>unique. \<lparr>ipl_reused = map snd (filter (\<lambda>p. fst p \<in> measured_ids) unique),
         ipl_missing = map snd (filter (\<lambda>p. fst p \<notin> measured_ids) unique)\<rparr>)
       (unique_by_id L signatures)"


subsection \<open>Layer positions (\<^verbatim>\<open>model/planning.py\<close>)\<close>

definition DEFAULT_PREFILL_SEQUENCE_LENGTHS :: "int list" where
  "DEFAULT_PREFILL_SEQUENCE_LENGTHS = [128, 512, 2048]"

definition representative_layer_positions :: "int \<Rightarrow> (layer_position \<times> int) list res" where
  "representative_layer_positions num_layers =
     then_res (positive ''num_layers'' num_layers)
     (let candidates = [(0, EARLY)] @ (if 3 \<le> num_layers then [(num_layers div 2, MIDDLE)] else [])
            @ (if 2 \<le> num_layers then [(num_layers - 1, LATE)] else [])
      in Inr (map prod.swap (first_pairs candidates)))"


subsection \<open>The model plan\<close>

definition INITIAL_BENCHMARK_OPERATOR_KINDS :: "operator_kind list" where
  "INITIAL_BENCHMARK_OPERATOR_KINDS = [OP_GEMM, OP_ATTENTION, OP_NORM]"

definition SPARSE_MODULE_KINDS :: "module_kind list" where
  "SPARSE_MODULE_KINDS = [MODULE_ATTENTION, MODULE_MLP]"

definition DEFAULT_MODULE_SEQUENCE_LENGTH :: int where
  "DEFAULT_MODULE_SEQUENCE_LENGTH = 512"

definition validated_device_ids :: "string list \<Rightarrow> string list res" where
  "validated_device_ids devices =
     then_res (raise_if (devices = []) (ValueError ''device_ids must not be empty''))
     (then_res (for_res (\<lambda>(seen, d). then_res (raise_if (d = []) (ValueError ''device_ids must not contain empty entries''))
          (raise_if (d \<in> set seen) (ValueError ''duplicate device_id'')))
        (zip (map (\<lambda>i. take i devices) [0..<length devices]) devices))
     (Inr devices))"

definition benchmarkable :: "operator_signature \<Rightarrow> bool" where
  "benchmarkable s \<longleftrightarrow> \<not> is_custom (ops_parameters s) \<and> ops_kind s \<in> set INITIAL_BENCHMARK_OPERATOR_KINDS"

definition split_operator_signatures :: "store_library \<Rightarrow> operator_signature list \<Rightarrow> (operator_signature list \<times> operator_signature list) res" where
  "split_operator_signatures L signatures =
     map_res (\<lambda>unique. (filter benchmarkable (map snd unique), filter (\<lambda>s. \<not> benchmarkable s) (map snd unique))) (unique_by_id L signatures)"

definition sparse_module_signatures :: "store_library \<Rightarrow> module_entry list \<Rightarrow> module_signature list res" where
  "sparse_module_signatures L entries =
     (let signatures = map mde_signature (filter (\<lambda>e. mde_kind e \<in> set SPARSE_MODULE_KINDS) entries)
      in map_res (\<lambda>ids. map snd (first_pairs (zip ids signatures))) (traverse_res (module_signature_id (lib_sha L) (lib_repr L)) signatures))"

definition module_workload :: "model_characterization \<Rightarrow> string \<Rightarrow> module_signature \<Rightarrow> model_case_spec" where
  "module_workload ch device s =
     \<lparr>mcs_granularity = MODULE, mcs_device_ids = [device], mcs_dtype = mch_dtype ch, mcs_backend = ''torch'', mcs_model = Some (mch_model ch),
      mcs_layer_signature = None, mcs_module_signature = Some s, mcs_operator_signature = None, mcs_phase = PHASE_PREFILL,
      mcs_batch_size = 1, mcs_sequence_length = DEFAULT_MODULE_SEQUENCE_LENGTH, mcs_context_length = None, mcs_layer_index = None\<rparr>"

definition layer_workload :: "model_characterization \<Rightarrow> string \<Rightarrow> layer_signature \<Rightarrow> int \<Rightarrow> int \<Rightarrow> model_case_spec" where
  "layer_workload ch device s index len =
     \<lparr>mcs_granularity = TRANSFORMER_LAYER, mcs_device_ids = [device], mcs_dtype = mch_dtype ch, mcs_backend = ''torch'',
      mcs_model = Some (mch_model ch), mcs_layer_signature = Some s, mcs_module_signature = None, mcs_operator_signature = None,
      mcs_phase = PHASE_PREFILL, mcs_batch_size = 1, mcs_sequence_length = len, mcs_context_length = None, mcs_layer_index = Some index\<rparr>"

definition planned_case :: "store_library \<Rightarrow> string \<Rightarrow> model_case_spec \<Rightarrow> profiling_case res" where
  "planned_case L worker spec = bind_res (built check_model_case_spec spec) (\<lambda>s. case_for_spec (lib_sha L) (lib_repr L) worker (Model_Case s))"

definition operator_cases :: "store_library \<Rightarrow> string \<Rightarrow> string \<Rightarrow> operator_signature list \<Rightarrow> work_exn + profiling_case list" where
  "operator_cases L worker device missing = traverse_work (\<lambda>s.
     bind_work (operator_case_spec s device) (\<lambda>spec. unexpected (case_for_spec (lib_sha L) (lib_repr L) worker (Model_Case spec)))) missing"

definition module_cases :: "store_library \<Rightarrow> string \<Rightarrow> session_facts \<Rightarrow> string \<Rightarrow> profiling_case list res" where
  "module_cases L worker f device = bind_res (sparse_module_signatures L (msf_module_entries f))
     (traverse_res (\<lambda>s. planned_case L worker (module_workload (msf_characterization f) device s)))"

definition layer_cases :: "store_library \<Rightarrow> string \<Rightarrow> session_facts \<Rightarrow> (layer_position \<times> int) list \<Rightarrow> string \<Rightarrow> profiling_case list res" where
  "layer_cases L worker f positions device =
     (let entries = dict_of (map (\<lambda>e. (len_index e, e)) (msf_layer_entries f)) in
      map_res concat (traverse_res (\<lambda>(_, index). case entries index of
          None \<Rightarrow> Inl (ValueError ''layer enumeration is missing an index required by the positional plan'')
        | Some e \<Rightarrow> traverse_res (\<lambda>len. planned_case L worker (layer_workload (msf_characterization f) device (len_signature e) index len))
            DEFAULT_PREFILL_SEQUENCE_LENGTHS) positions))"

record model_plan =
  mpl_worker_id :: string
  mpl_cases :: "profiling_case list"
  mpl_operator_reuse :: "(string \<times> incremental_plan) list"
  mpl_deferred :: "operator_signature list"

definition check_model_plan :: "model_plan \<Rightarrow> unit res" where
  "check_model_plan p = checks [
     non_empty ''worker_id'' (mpl_worker_id p),
     raise_if (list_ex (\<lambda>c. pcs_worker_id c \<noteq> mpl_worker_id p) (mpl_cases p)) (ValueError ''model plan cases must be assigned to worker'')]"

definition device_operator_plan :: "store_library \<Rightarrow> string \<Rightarrow> (string \<rightharpoonup> string set) \<Rightarrow> operator_signature list \<Rightarrow> string
    \<Rightarrow> work_exn + (incremental_plan \<times> profiling_case list)" where
  "device_operator_plan L worker measured signatures device =
     bind_work (unexpected (plan_incremental_profiling L signatures (case measured device of None \<Rightarrow> {} | Some xs \<Rightarrow> xs))) (\<lambda>plan.
     bind_work (operator_cases L worker device (ipl_missing plan)) (\<lambda>cases. Inr (plan, cases)))"

definition plan_model_cases :: "store_library \<Rightarrow> string \<Rightarrow> session_facts \<Rightarrow> string list \<Rightarrow> (string \<rightharpoonup> string set) \<Rightarrow> work_exn + model_plan" where
  "plan_model_cases L worker f ids measured =
     bind_work (unexpected (validated_device_ids ids)) (\<lambda>devices.
     bind_work (unexpected (split_operator_signatures L (msf_operator_signatures f))) (\<lambda>(signatures, deferred).
     bind_work (traverse_work (device_operator_plan L worker measured signatures) devices) (\<lambda>ops.
     bind_work (unexpected (traverse_res (module_cases L worker f) devices)) (\<lambda>modules.
     bind_work (unexpected (representative_layer_positions (mch_num_layers (msf_characterization f)))) (\<lambda>positions.
     bind_work (unexpected (traverse_res (layer_cases L worker f positions) devices)) (\<lambda>layers.
     unexpected (built check_model_plan \<lparr>mpl_worker_id = worker, mpl_cases = concat (map snd ops) @ concat modules @ concat layers,
       mpl_operator_reuse = zip devices (map fst ops), mpl_deferred = deferred\<rparr>)))))))"


subsection \<open>Network cases (\<^verbatim>\<open>network/profiler.py\<close>)\<close>

definition known_pair :: "worker_network_facts list \<Rightarrow> network_pair \<Rightarrow> (worker_network_facts \<times> worker_network_facts) res" where
  "known_pair workers p =
     (let by_id = dict_of (map (\<lambda>w. (wnf_worker_id w, w)) workers) in
      case (by_id (npr_source_worker_id p), by_id (npr_destination_worker_id p)) of
        (Some s, Some d) \<Rightarrow> Inr (s, d)
      | _ \<Rightarrow> Inl (ValueError ''explicit pair references unknown worker(s)''))"

definition classify_known :: "int \<Rightarrow> worker_network_facts list \<Rightarrow> network_pair \<Rightarrow> path_class res" where
  "classify_known subnet workers p = bind_res (known_pair workers p) (\<lambda>(s, d).
     classify_path subnet s (npr_source_interface_id p) d (npr_destination_interface_id p))"

definition rtt_spec :: "network_pair \<Rightarrow> path_class \<Rightarrow> int option \<Rightarrow> network_case_spec" where
  "rtt_spec p c packet_count =
     \<lparr>ncs_probe_kind = RTT, ncs_source_worker_id = npr_source_worker_id p, ncs_destination_worker_id = npr_destination_worker_id p,
      ncs_source_interface_id = npr_source_interface_id p, ncs_destination_interface_id = npr_destination_interface_id p,
      ncs_path_class = Some c, ncs_transport = None, ncs_direction = None, ncs_duration_s = None, ncs_packet_count = packet_count,
      ncs_payload_bytes = None, ncs_regime = IDLE_SINGLE_FLOW\<rparr>"

definition bandwidth_spec_of :: "network_pair \<Rightarrow> path_class \<Rightarrow> net_transport \<Rightarrow> net_direction \<Rightarrow> pyfloat \<Rightarrow> int option \<Rightarrow> network_case_spec" where
  "bandwidth_spec_of p c transport direction duration payload =
     \<lparr>ncs_probe_kind = BANDWIDTH, ncs_source_worker_id = npr_source_worker_id p, ncs_destination_worker_id = npr_destination_worker_id p,
      ncs_source_interface_id = npr_source_interface_id p, ncs_destination_interface_id = npr_destination_interface_id p,
      ncs_path_class = Some c, ncs_transport = Some transport, ncs_direction = Some direction, ncs_duration_s = Some duration,
      ncs_packet_count = None, ncs_payload_bytes = payload, ncs_regime = IDLE_SINGLE_FLOW\<rparr>"

definition network_case :: "store_library \<Rightarrow> string \<Rightarrow> network_case_spec \<Rightarrow> profiling_case res" where
  "network_case L worker spec = bind_res (built check_network_case_spec spec) (\<lambda>s. case_for_spec (lib_sha L) (lib_repr L) worker (Network_Case s))"

definition rtt_matrix_cases :: "store_library \<Rightarrow> int \<Rightarrow> int option \<Rightarrow> network_pair list option \<Rightarrow> worker_network_facts list \<Rightarrow> profiling_case list res" where
  "rtt_matrix_cases L subnet packet_count pairs workers =
     bind_res (case pairs of None \<Rightarrow> enumerate_probe_paths workers | Some ps \<Rightarrow> Inr ps)
     (traverse_res (\<lambda>p. bind_res (classify_known subnet workers p) (\<lambda>c.
        network_case L (npr_source_worker_id p) (rtt_spec p c packet_count))))"

definition bandwidth_cases :: "store_library \<Rightarrow> int \<Rightarrow> int \<Rightarrow> network_pair list \<Rightarrow> net_transport \<Rightarrow> pyfloat \<Rightarrow> int option \<Rightarrow> bool
    \<Rightarrow> path_class list option \<Rightarrow> worker_network_facts list \<Rightarrow> profiling_case list res" where
  "bandwidth_cases L subnet k extra_pairs transport duration payload include_reverse path_classes workers =
     bind_res (classify_pairs subnet workers) (\<lambda>classified.
     bind_res (select_bandwidth_pairs k extra_pairs
        (case path_classes of None \<Rightarrow> classified | Some allowed \<Rightarrow> filter (\<lambda>x. cpr_path_class x \<in> set allowed) classified)) (\<lambda>selected.
     map_res concat (traverse_res (\<lambda>p. bind_res (classify_known subnet workers p) (\<lambda>c.
        traverse_res (\<lambda>direction. network_case L (npr_source_worker_id p) (bandwidth_spec_of p c transport direction duration payload))
          (if include_reverse then [FORWARD, REVERSE] else [FORWARD]))) selected)))"


subsection \<open>The network plan\<close>

record default_strategy =
  dfs_representatives_per_class :: int
  dfs_bandwidth_duration_s :: pyfloat
  dfs_same_subnet_prefix_length :: int

definition check_default_strategy :: "default_strategy \<Rightarrow> unit res" where
  "check_default_strategy s = checks [
     positive ''representatives_per_class'' (dfs_representatives_per_class s),
     raise_if (float_le (dfs_bandwidth_duration_s s) (Fin 0)) (ValueError ''bandwidth_duration_s must be positive''),
     raise_if (\<not> (1 \<le> dfs_same_subnet_prefix_length s \<and> dfs_same_subnet_prefix_length s \<le> 32))
       (ValueError ''same_subnet_prefix_length must be within [1, 32]'')]"

record network_plan =
  npl_endpoint_profiles :: "endpoint_profile list"
  npl_classified_pairs :: "classified_pair list"
  npl_cases :: "profiling_case list"

definition plan_network_cases :: "store_library \<Rightarrow> default_strategy \<Rightarrow> network_pair list option \<Rightarrow> network_pair list \<Rightarrow> path_class list option
    \<Rightarrow> worker_network_facts list \<Rightarrow> network_plan res" where
  "plan_network_cases L st rtt_pairs extra_pairs path_classes workers =
     (let subnet = dfs_same_subnet_prefix_length st in
      bind_res (endpoint_profiles workers) (\<lambda>profiles.
      bind_res (classify_pairs subnet workers) (\<lambda>classified.
      bind_res (rtt_matrix_cases L subnet None rtt_pairs workers) (\<lambda>rtt.
      bind_res (bandwidth_cases L subnet (dfs_representatives_per_class st) extra_pairs TCP (dfs_bandwidth_duration_s st) None True path_classes workers)
        (\<lambda>bandwidth. Inr \<lparr>npl_endpoint_profiles = profiles, npl_classified_pairs = classified, npl_cases = rtt @ bandwidth\<rparr>)))))"

end
