(* ===== verification/Plan_Lemmas.thy ===== *)
theory Plan_Lemmas
  imports Strategy
begin

section \<open>What the builders of cases give\<close>

text \<open>
  The case lists of theory \<open>Strategy\<close> read as sets of specifications: \<open>operator_work\<close>, \<open>module_work\<close> and \<open>layer_work\<close> for one model,
  the probed paths and the flows per path class for the network. The theorems over them are in \<open>Strategy_Safety\<close>.
\<close>

subsection \<open>Dicts by identity\<close>

lemma bind_work_Inr: "bind_work r f = Inr y \<longleftrightarrow> (\<exists>x. r = Inr x \<and> f x = Inr y)"
  by (cases r) (auto simp: bind_work_def)

lemma unexpected_Inr [simp]: "unexpected r = Inr x \<longleftrightarrow> r = Inr x"
  by (cases r) (auto simp: unexpected_def)

lemma traverse_work_Inr: "traverse_work f xs = Inr ys \<longleftrightarrow> list_all2 (\<lambda>x y. f x = Inr y) xs ys"
  by (induction xs arbitrary: ys) (auto simp: bind_work_Inr list_all2_Cons1)

lemma first_pairs_props:
  fixes ps :: "('k \<times> 'v) list"
  shows "set (first_pairs ps) \<subseteq> set ps" "distinct (map fst (first_pairs ps))" "fst ` set (first_pairs ps) = fst ` set ps"
proof (induction ps)
  case (Cons p ps)
  have other: "fst ` set (filter (\<lambda>q. fst q \<noteq> fst p) qs) = fst ` set qs - {fst p}" for qs :: "('k \<times> 'v) list" by force
  show "set (first_pairs (p # ps)) \<subseteq> set (p # ps)" using Cons(1) by auto
  have "distinct (map fst (filter P (first_pairs ps)))" for P using Cons(2) by (rule distinct_map_filter)
  then show "distinct (map fst (first_pairs (p # ps)))" by auto
  show "fst ` set (first_pairs (p # ps)) = fst ` set (p # ps)" using Cons(3) other by auto
qed simp_all

definition ids_distinguish :: "('a \<Rightarrow> 'i res) \<Rightarrow> 'a list \<Rightarrow> bool" where
  "ids_distinguish identity xs \<longleftrightarrow> (\<forall>x \<in> set xs. \<forall>y \<in> set xs. identity x = identity y \<longrightarrow> x = y)"

lemma first_by_id:
  assumes "traverse_res identity xs = Inr ids"
  shows "(i, x) \<in> set (first_pairs (zip ids xs)) \<Longrightarrow> identity x = Inr i \<and> x \<in> set xs"
    and "distinct (map snd (first_pairs (zip ids xs)))"
    and "ids_distinguish identity xs \<Longrightarrow> snd ` set (first_pairs (zip ids xs)) = set xs"
proof -
  have all2: "list_all2 (\<lambda>x i. identity x = Inr i) xs ids" using assms by (simp add: traverse_res_Inr)
  have zipped: "identity x = Inr i \<and> x \<in> set xs" if "(i, x) \<in> set (zip ids xs)" for i x
    using that all2 by (auto simp: list_all2_conv_all_nth set_zip)
  show first: "identity x = Inr i \<and> x \<in> set xs" if "(i, x) \<in> set (first_pairs (zip ids xs))" for i x
    using that first_pairs_props(1) zipped by blast
  have "inj_on snd (set (first_pairs (zip ids xs)))"
  proof (rule inj_onI)
    fix p q assume p: "p \<in> set (first_pairs (zip ids xs))" and q: "q \<in> set (first_pairs (zip ids xs))" and eq: "snd p = snd q"
    have "identity (snd p) = Inr (fst p)" using first [of "fst p" "snd p"] p by simp
    moreover have "identity (snd q) = Inr (fst q)" using first [of "fst q" "snd q"] q by simp
    ultimately show "p = q" using eq by (simp add: prod_eq_iff)
  qed
  moreover have "distinct (first_pairs (zip ids xs))" using first_pairs_props(2) [of "zip ids xs"] unfolding distinct_map by blast
  ultimately show "distinct (map snd (first_pairs (zip ids xs)))" by (simp add: distinct_map)
  assume sep: "ids_distinguish identity xs"
  show "snd ` set (first_pairs (zip ids xs)) = set xs"
  proof (intro equalityI subsetI)
    fix x assume "x \<in> set xs"
    then obtain n where n: "n < length xs" "x = xs ! n" by (metis in_set_conv_nth)
    then have "identity x = Inr (ids ! n)" "n < length ids" using all2 by (auto simp: list_all2_conv_all_nth)
    then have "(ids ! n, x) \<in> set (zip ids xs)" using n by (auto simp: set_zip)
    then have "ids ! n \<in> fst ` set (zip ids xs)" by (metis fst_conv imageI)
    then have "ids ! n \<in> fst ` set (first_pairs (zip ids xs))" by (simp only: first_pairs_props(3))
    then obtain y where "(ids ! n, y) \<in> set (first_pairs (zip ids xs))"  by auto
    moreover from this have "y = x" using first sep \<open>identity x = Inr (ids ! n)\<close> \<open>x \<in> set xs\<close> by (fastforce simp: ids_distinguish_def)
    ultimately show "x \<in> snd ` set (first_pairs (zip ids xs))" by force
  qed (use first in auto)
qed

lemma list_all2_member: "\<lbrakk>list_all2 R xs ys; x \<in> set xs\<rbrakk> \<Longrightarrow> \<exists>y \<in> set ys. R x y"
  by (induction rule: list_all2_induct) auto

lemma distinct_product:
  assumes "distinct ds" "\<And>d. d \<in> set ds \<Longrightarrow> distinct (f d)"
    and "\<And>d x e y. \<lbrakk>x \<in> set (f d); y \<in> set (f e); g d x = g e y\<rbrakk> \<Longrightarrow> d = e \<and> x = y"
  shows "distinct (concat (map (\<lambda>d. map (g d) (f d)) ds))"
  using assms(1,2)
proof (induction ds)
  case (Cons d ds)
  have "inj_on (g d) (set (f d))" using assms(3) by (auto simp: inj_on_def)
  with Cons have "distinct (map (g d) (f d))" by (simp add: distinct_map)
  moreover have "set (map (g d) (f d)) \<inter> set (concat (map (\<lambda>d. map (g d) (f d)) ds)) = {}"
    using assms(3) Cons.prems(1) by fastforce
  ultimately show ?case using Cons by simp
qed simp


subsection \<open>Operators\<close>

definition already_measured :: "store_library \<Rightarrow> (string \<rightharpoonup> string set) \<Rightarrow> string \<Rightarrow> operator_signature \<Rightarrow> bool" where
  "already_measured L measured d s \<longleftrightarrow> (\<exists>i xs. operator_id L s = Inr i \<and> measured d = Some xs \<and> i \<in> xs)"

lemma unique_by_id_Inr:
  assumes "unique_by_id L xs = Inr u"
  shows "(i, s) \<in> set u \<Longrightarrow> operator_id L s = Inr i \<and> s \<in> set xs" "distinct (map snd u)"
    "ids_distinguish (operator_id L) xs \<Longrightarrow> snd ` set u = set xs"
  using assms first_by_id [of "operator_id L" xs] by (auto simp: unique_by_id_def)

lemma plan_incremental_spec:
  assumes "plan_incremental_profiling L xs measured = Inr p" "ids_distinguish (operator_id L) xs"
  shows "set (ipl_missing p) = {s \<in> set xs. \<not> (\<exists>i. operator_id L s = Inr i \<and> i \<in> measured)}"
    "set (ipl_reused p) = {s \<in> set xs. \<exists>i. operator_id L s = Inr i \<and> i \<in> measured}"
    "distinct (ipl_missing p)" "distinct (ipl_reused p)"
proof -
  from assms(1) obtain u where u: "unique_by_id L xs = Inr u"
    and p: "p = \<lparr>ipl_reused = map snd (filter (\<lambda>p. fst p \<in> measured) u), ipl_missing = map snd (filter (\<lambda>p. fst p \<notin> measured) u)\<rparr>"
    by (auto simp: plan_incremental_profiling_def)
  note spec = unique_by_id_Inr [OF u]
  have named: "(\<exists>i. (i, s) \<in> set u \<and> P i) \<longleftrightarrow> s \<in> set xs \<and> (\<exists>i. operator_id L s = Inr i \<and> P i)" for s P
  proof
    assume "s \<in> set xs \<and> (\<exists>i. operator_id L s = Inr i \<and> P i)"
    then obtain i where i: "s \<in> snd ` set u" "operator_id L s = Inr i" "P i" using spec(3) [OF assms(2)] by auto
    then obtain j where "(j, s) \<in> set u" by auto
    with i spec(1) [of j s] show "\<exists>i. (i, s) \<in> set u \<and> P i" by auto
  qed (use spec(1) in blast)
  have kept: "s \<in> set (map snd (filter (\<lambda>p. P (fst p)) u)) \<longleftrightarrow> (\<exists>i. (i, s) \<in> set u \<and> P i)" for s P by force
  show "set (ipl_missing p) = {s \<in> set xs. \<not> (\<exists>i. operator_id L s = Inr i \<and> i \<in> measured)}"
  proof (rule set_eqI)
    fix s
    have "s \<in> set xs \<Longrightarrow> \<exists>i. operator_id L s = Inr i" using named [of s "\<lambda>_. True"] spec(3) [OF assms(2)] by force
    then show "s \<in> set (ipl_missing p) \<longleftrightarrow> s \<in> {s \<in> set xs. \<not> (\<exists>i. operator_id L s = Inr i \<and> i \<in> measured)}"
      using kept [of s "\<lambda>i. i \<notin> measured"] named [of s "\<lambda>i. i \<notin> measured"] by (auto simp: p)
  qed
  show "set (ipl_reused p) = {s \<in> set xs. \<exists>i. operator_id L s = Inr i \<and> i \<in> measured}"
    using kept [of _ "\<lambda>i. i \<in> measured"] named [of _ "\<lambda>i. i \<in> measured"] by (auto simp: p)
  show "distinct (ipl_missing p)" "distinct (ipl_reused p)" using spec(2) by (simp_all add: p distinct_map_filter)
qed

definition operator_spec :: "string \<Rightarrow> operator_signature \<Rightarrow> model_case_spec" where
  "operator_spec d s = operator_workload s d (case parameters_dtype (ops_parameters s) of Inr t \<Rightarrow> t | Inl _ \<Rightarrow> [])"

lemma parameters_dtype_total: "\<not> is_custom p \<Longrightarrow> \<exists>t. parameters_dtype p = Inr t"
  by (cases p) auto

lemma operator_case_spec_Inr: "operator_case_spec s d = Inr spec \<Longrightarrow> spec = operator_spec d s \<and> check_model_case_spec spec = Inr ()"
  by (auto simp: operator_case_spec_def operator_spec_def bind_work_Inr split: if_splits)

definition well_planned :: "store_library \<Rightarrow> string \<Rightarrow> profiling_case \<Rightarrow> bool" where
  "well_planned L w c \<longleftrightarrow> check_profiling_case c = Inr () \<and> pcs_worker_id c = w
     \<and> profiling_case_id (lib_sha L) (lib_repr L) w (pcs_spec c) = Inr (pcs_case_id c)"

lemma case_for_spec_Inr: "case_for_spec (lib_sha L) (lib_repr L) w s = Inr c \<Longrightarrow> pcs_spec c = s \<and> well_planned L w c"
  by (auto simp: case_for_spec_def well_planned_def Let_def bind_res_Inr)

lemma planned_case_Inr: "planned_case L w s = Inr c \<Longrightarrow> pcs_spec c = Model_Case s \<and> well_planned L w c"
  by (auto simp: planned_case_def bind_res_Inr dest!: case_for_spec_Inr)

lemma all2_specs:
  assumes "list_all2 (\<lambda>x c. pcs_spec c = g x \<and> P c) xs cs"
  shows "map pcs_spec cs = map g xs \<and> (\<forall>c \<in> set cs. P c)"
  using assms by (induction rule: list_all2_induct) auto

lemma operator_cases_Inr:
  assumes "operator_cases L w d xs = Inr cs"
  shows "map pcs_spec cs = map (\<lambda>s. Model_Case (operator_spec d s)) xs \<and> (\<forall>c \<in> set cs. well_planned L w c)"
proof -
  from assms have "list_all2 (\<lambda>s c. pcs_spec c = Model_Case (operator_spec d s) \<and> well_planned L w c) xs cs"
    unfolding operator_cases_def traverse_work_Inr
    by (rule list_all2_mono) (auto simp: bind_work_Inr dest!: operator_case_spec_Inr case_for_spec_Inr)
  then show ?thesis by (rule all2_specs)
qed



subsection \<open>Modules and layers\<close>

lemma sparse_module_signatures_Inr:
  assumes "sparse_module_signatures L es = Inr xs"
  shows "distinct xs" "ids_distinguish (module_signature_id (lib_sha L) (lib_repr L)) (map mde_signature es)
     \<Longrightarrow> set xs = mde_signature ` {e \<in> set es. mde_kind e \<in> set SPARSE_MODULE_KINDS}"
proof -
  let ?sparse = "map mde_signature (filter (\<lambda>e. mde_kind e \<in> set SPARSE_MODULE_KINDS) es)"
  from assms obtain ids where ids: "traverse_res (module_signature_id (lib_sha L) (lib_repr L)) ?sparse = Inr ids"
    and xs: "xs = map snd (first_pairs (zip ids ?sparse))"
    by (auto simp: sparse_module_signatures_def Let_def)
  show "distinct xs" using first_by_id(2) [OF ids] by (simp add: xs)
  assume "ids_distinguish (module_signature_id (lib_sha L) (lib_repr L)) (map mde_signature es)"
  then have "ids_distinguish (module_signature_id (lib_sha L) (lib_repr L)) ?sparse" by (auto simp: ids_distinguish_def)
  from first_by_id(3) [OF ids this] show "set xs = mde_signature ` {e \<in> set es. mde_kind e \<in> set SPARSE_MODULE_KINDS}" by (simp add: xs)
qed

lemma module_cases_Inr:
  assumes "module_cases L w f d = Inr cs"
  obtains xs where "sparse_module_signatures L (msf_module_entries f) = Inr xs"
    "map pcs_spec cs = map (\<lambda>s. Model_Case (module_workload (msf_characterization f) d s)) xs" "\<forall>c \<in> set cs. well_planned L w c"
proof -
  from assms obtain xs where xs: "sparse_module_signatures L (msf_module_entries f) = Inr xs"
    and "list_all2 (\<lambda>s c. planned_case L w (module_workload (msf_characterization f) d s) = Inr c) xs cs"
    by (auto simp: module_cases_def bind_res_Inr traverse_res_Inr)
  then have "list_all2 (\<lambda>s c. pcs_spec c = Model_Case (module_workload (msf_characterization f) d s) \<and> well_planned L w c) xs cs"
    by (auto elim!: list_all2_mono dest!: planned_case_Inr)
  from all2_specs [OF this] show ?thesis using that [OF xs] by blast
qed

lemma representative_positions_Inr:
  assumes "representative_layer_positions n = Inr ps"
  shows "distinct (map snd ps)" "snd ` set ps = {0, n div 2, n - 1}" "0 < n"
proof -
  have "first_pairs [] = []" by simp
  from assms have n: "0 < n" and ps: "ps = map prod.swap (first_pairs ([(0, EARLY)] @ (if 3 \<le> n then [(n div 2, MIDDLE)] else [])
      @ (if 2 \<le> n then [(n - 1, LATE)] else [])))"
    by (simp_all add: representative_layer_positions_def Let_def)
  show "0 < n" by (rule n)
  show "distinct (map snd ps)" unfolding ps by (simp only: map_map comp_def snd_swap) (rule first_pairs_props(2))
  have "snd ` set ps = fst ` set (first_pairs ([(0, EARLY)] @ (if 3 \<le> n then [(n div 2, MIDDLE)] else []) @ (if 2 \<le> n then [(n - 1, LATE)] else [])))"
    unfolding ps by (simp only: set_map image_image snd_swap)
  then show "snd ` set ps = {0, n div 2, n - 1}"
    using n by (cases "n = 1"; cases "n = 2") (auto simp: first_pairs_props(3))
qed

lemma entry_lookup:
  assumes "distinct (map len_index es)"
  shows "dict_of (map (\<lambda>e. (len_index e, e)) es) i = Some e \<longleftrightarrow> e \<in> set es \<and> len_index e = i"
proof -
  have "map fst (rev (map (\<lambda>e. (len_index e, e)) es)) = rev (map len_index es)" by (simp add: rev_map comp_def)
  with assms have "distinct (map fst (rev (map (\<lambda>e. (len_index e, e)) es)))" by simp
  from map_of_eq_Some_iff [OF this] show ?thesis by (auto simp: dict_of_def)
qed

definition layer_spec :: "session_facts \<Rightarrow> string \<Rightarrow> layer_entry \<times> int \<Rightarrow> case_spec" where
  "layer_spec f d p = Model_Case (layer_workload (msf_characterization f) d (len_signature (fst p)) (len_index (fst p)) (snd p))"

definition entries_at :: "session_facts \<Rightarrow> int list \<Rightarrow> layer_entry list" where
  "entries_at f indices = map (\<lambda>i. the (dict_of (map (\<lambda>e. (len_index e, e)) (msf_layer_entries f)) i)) indices"

lemma layer_cases_Inr:
  assumes "layer_cases L w f ps d = Inr cs" and dist: "distinct (map len_index (msf_layer_entries f))"
  shows "map pcs_spec cs = map (layer_spec f d) (List.product (entries_at f (map snd ps)) DEFAULT_PREFILL_SEQUENCE_LENGTHS)"
    "\<forall>c \<in> set cs. well_planned L w c"
    "\<forall>i \<in> snd ` set ps. \<exists>e \<in> set (msf_layer_entries f). len_index e = i"
proof -
  let ?m = "dict_of (map (\<lambda>e. (len_index e, e)) (msf_layer_entries f))"
  let ?at = "\<lambda>(_ :: layer_position, i). case ?m i of
      None \<Rightarrow> Inl (ValueError ''layer enumeration is missing an index required by the positional plan'')
    | Some e \<Rightarrow> traverse_res (\<lambda>len. planned_case L w (layer_workload (msf_characterization f) d (len_signature e) i len)) DEFAULT_PREFILL_SEQUENCE_LENGTHS"
  have one: "map pcs_spec c = map (layer_spec f d) (map (Pair (the (?m (snd p)))) DEFAULT_PREFILL_SEQUENCE_LENGTHS)
      \<and> (\<forall>x \<in> set c. well_planned L w x) \<and> (\<exists>e \<in> set (msf_layer_entries f). len_index e = snd p)" if "?at p = Inr c" for p c
  proof -
    obtain q i where p: "p = (q, i)" by force
    from that obtain e where e: "?m i = Some e" and
      "list_all2 (\<lambda>len x. planned_case L w (layer_workload (msf_characterization f) d (len_signature e) i len) = Inr x) DEFAULT_PREFILL_SEQUENCE_LENGTHS c"
      by (auto simp: p traverse_res_Inr split: option.splits)
    moreover have "e \<in> set (msf_layer_entries f) \<and> len_index e = i" using e entry_lookup [OF dist] by simp
    ultimately have "list_all2 (\<lambda>len x. pcs_spec x = layer_spec f d (e, len) \<and> well_planned L w x) DEFAULT_PREFILL_SEQUENCE_LENGTHS c"
      by (auto elim!: list_all2_mono simp: layer_spec_def dest!: planned_case_Inr)
    from all2_specs [OF this] show ?thesis using \<open>e \<in> set (msf_layer_entries f) \<and> len_index e = i\<close> by (auto simp: p e comp_def)
  qed
  from assms(1) obtain css where css: "list_all2 (\<lambda>p c. ?at p = Inr c) ps css" and cs: "cs = concat css"
    by (auto simp: layer_cases_def Let_def traverse_res_Inr)
  from css have all: "list_all2 (\<lambda>p c. map pcs_spec c = map (layer_spec f d) (map (Pair (the (?m (snd p)))) DEFAULT_PREFILL_SEQUENCE_LENGTHS)
      \<and> (\<forall>x \<in> set c. well_planned L w x) \<and> (\<exists>e \<in> set (msf_layer_entries f). len_index e = snd p)) ps css"
    by (rule list_all2_mono) (rule one)
  then show "map pcs_spec cs = map (layer_spec f d) (List.product (entries_at f (map snd ps)) DEFAULT_PREFILL_SEQUENCE_LENGTHS)"
    unfolding cs entries_at_def by (induction rule: list_all2_induct) simp_all
  from all show "\<forall>c \<in> set cs. well_planned L w c" unfolding cs by (induction rule: list_all2_induct) auto
  from all show "\<forall>i \<in> snd ` set ps. \<exists>e \<in> set (msf_layer_entries f). len_index e = i" by (induction rule: list_all2_induct) auto
qed



subsection \<open>The whole model plan\<close>

lemma split_operator_signatures_Inr:
  assumes "split_operator_signatures L xs = Inr (good, deferred)" "ids_distinguish (operator_id L) xs"
  shows "set good = {s \<in> set xs. benchmarkable s}" "set deferred = {s \<in> set xs. \<not> benchmarkable s}"
proof -
  from assms(1) obtain u where u: "unique_by_id L xs = Inr u" and gd: "good = filter benchmarkable (map snd u)"
    "deferred = filter (\<lambda>s. \<not> benchmarkable s) (map snd u)"
    by (auto simp: split_operator_signatures_def)
  with unique_by_id_Inr(3) [OF u assms(2)] show "set good = {s \<in> set xs. benchmarkable s}" "set deferred = {s \<in> set xs. \<not> benchmarkable s}"
    by auto
qed

lemma device_operator_plan_Inr:
  assumes "device_operator_plan L w measured xs d = Inr (ip, cs)" "ids_distinguish (operator_id L) xs"
  shows "map pcs_spec cs = map (\<lambda>s. Model_Case (operator_spec d s)) (ipl_missing ip)" "\<forall>c \<in> set cs. well_planned L w c"
    "set (ipl_missing ip) = {s \<in> set xs. \<not> already_measured L measured d s}"
    "set (ipl_reused ip) = {s \<in> set xs. already_measured L measured d s}" "distinct (ipl_missing ip)"
proof -
  let ?ids = "case measured d of None \<Rightarrow> {} | Some xs \<Rightarrow> xs"
  from assms(1) have ip: "plan_incremental_profiling L xs ?ids = Inr ip" and cs: "operator_cases L w d (ipl_missing ip) = Inr cs"
    by (auto simp: device_operator_plan_def bind_work_Inr)
  have "(\<exists>i. operator_id L s = Inr i \<and> i \<in> ?ids) \<longleftrightarrow> already_measured L measured d s" for s
    by (auto simp: already_measured_def split: option.split)
  with plan_incremental_spec [OF ip assms(2)] operator_cases_Inr [OF cs]
  show "map pcs_spec cs = map (\<lambda>s. Model_Case (operator_spec d s)) (ipl_missing ip)" "\<forall>c \<in> set cs. well_planned L w c"
    "set (ipl_missing ip) = {s \<in> set xs. \<not> already_measured L measured d s}"
    "set (ipl_reused ip) = {s \<in> set xs. already_measured L measured d s}" "distinct (ipl_missing ip)"
    by simp_all
qed

lemma per_device:
  assumes "list_all2 (\<lambda>d cs. map pcs_spec cs = map (g d) (f d) \<and> (\<forall>c \<in> set cs. P c)) ds css"
  shows "map pcs_spec (concat css) = concat (map (\<lambda>d. map (g d) (f d)) ds)" "\<forall>c \<in> set (concat css). P c"
  using assms by (induction rule: list_all2_induct) auto

lemma validated_device_ids_Inr: "validated_device_ids ds = Inr x \<Longrightarrow> x = ds \<and> ds \<noteq> [] \<and> distinct ds"
proof -
  assume ok: "validated_device_ids ds = Inr x"
  then have "\<forall>p \<in> set (zip (map (\<lambda>i. take i ds) [0..<length ds]) ds). snd p \<notin> set (fst p)"
    by (auto simp: validated_device_ids_def for_res_Inr split: prod.splits)
  then have "ds ! i \<notin> set (take i ds)" if "i < length ds" for i using that by (force simp: set_zip)
  then have "ds ! j \<noteq> ds ! i" if "j < i" "i < length ds" for i j using that by (metis in_set_conv_nth length_take min.absorb4 nth_take)
  then have "distinct ds" unfolding distinct_conv_nth by (metis nat_neq_iff)
  with ok show ?thesis by (auto simp: validated_device_ids_def)
qed

lemma device_of_specs:
  "mcs_device_ids (operator_spec d s) = [d]" "mcs_operator_signature (operator_spec d s) = Some s" "mcs_granularity (operator_spec d s) = OPERATOR"
  by (simp_all add: operator_spec_def operator_workload_def)

lemma operator_spec_inject: "operator_spec d s = operator_spec e t \<longleftrightarrow> d = e \<and> s = t"
  by (metis device_of_specs(1,2) list.inject option.inject)

lemma module_workload_inject: "module_workload ch d s = module_workload ch e t \<longleftrightarrow> d = e \<and> s = t"
  by (auto simp: module_workload_def)

lemma layer_spec_inject:
  assumes "distinct (map len_index (msf_layer_entries f))" "fst p \<in> set (msf_layer_entries f)" "fst q \<in> set (msf_layer_entries f)"
  shows "layer_spec f d p = layer_spec f e q \<longleftrightarrow> d = e \<and> p = q"
proof
  assume eq: "layer_spec f d p = layer_spec f e q"
  then have "len_index (fst p) = len_index (fst q)" "d = e" "snd p = snd q" by (simp_all add: layer_spec_def layer_workload_def)
  with assms show "d = e \<and> p = q" by (auto simp: distinct_map prod_eq_iff dest: inj_onD)
qed simp

definition operator_work :: "store_library \<Rightarrow> session_facts \<Rightarrow> (string \<rightharpoonup> string set) \<Rightarrow> string set \<Rightarrow> case_spec set" where
  "operator_work L f measured devices = {Model_Case (operator_spec d s) |d s.
     d \<in> devices \<and> s \<in> set (msf_operator_signatures f) \<and> benchmarkable s \<and> \<not> already_measured L measured d s}"

definition module_work :: "session_facts \<Rightarrow> string set \<Rightarrow> case_spec set" where
  "module_work f devices = {Model_Case (module_workload (msf_characterization f) d (mde_signature e)) |d e.
     d \<in> devices \<and> e \<in> set (msf_module_entries f) \<and> mde_kind e \<in> set SPARSE_MODULE_KINDS}"

definition layer_work :: "session_facts \<Rightarrow> string set \<Rightarrow> case_spec set" where
  "layer_work f devices = (let n = mch_num_layers (msf_characterization f) in
     {layer_spec f d (e, len) |d e len. d \<in> devices \<and> e \<in> set (msf_layer_entries f) \<and> len_index e \<in> {0, n div 2, n - 1}
        \<and> len \<in> set DEFAULT_PREFILL_SEQUENCE_LENGTHS})"

lemma operator_part:
  assumes "traverse_work (device_operator_plan L w measured xs) ds = Inr ops" "distinct ds" "ids_distinguish (operator_id L) xs"
    and "set xs = {s \<in> set (msf_operator_signatures f). benchmarkable s}"
  shows "pcs_spec ` set (concat (map snd ops)) = operator_work L f measured (set ds)" "distinct (map pcs_spec (concat (map snd ops)))"
    "\<forall>c \<in> set (concat (map snd ops)). well_planned L w c"
    "list_all2 (\<lambda>d ip. set (ipl_reused ip) = {s \<in> set xs. already_measured L measured d s}) ds (map fst ops)"
proof -
  define missing where "missing d = (case device_operator_plan L w measured xs d of Inr (ip, cs) \<Rightarrow> ipl_missing ip | Inl _ \<Rightarrow> [])" for d
  have all: "list_all2 (\<lambda>d p. device_operator_plan L w measured xs d = Inr p) ds ops" using assms(1) by (simp add: traverse_work_Inr)
  then have "list_all2 (\<lambda>d cs. map pcs_spec cs = map (\<lambda>s. Model_Case (operator_spec d s)) (missing d) \<and> (\<forall>c \<in> set cs. well_planned L w c)) ds (map snd ops)"
    unfolding list_all2_map2 by (rule list_all2_mono) (use device_operator_plan_Inr(1,2) [OF _ assms(3)] in \<open>fastforce simp: missing_def\<close>)
  note parts = per_device [OF this]
  show "\<forall>c \<in> set (concat (map snd ops)). well_planned L w c" by (rule parts(2))
  have mis: "set (missing d) = {s \<in> set xs. \<not> already_measured L measured d s} \<and> distinct (missing d)" if d: "d \<in> set ds" for d
  proof -
    obtain ip cs where "device_operator_plan L w measured xs d = Inr (ip, cs)"
      using list_all2_member [OF all d] by auto
    with device_operator_plan_Inr(3,5) [OF this assms(3)] show ?thesis by (simp add: missing_def)
  qed
  show "distinct (map pcs_spec (concat (map snd ops)))" unfolding parts(1)
    by (rule distinct_product) (use assms(2) mis in \<open>auto simp: operator_spec_inject\<close>)
  have "pcs_spec ` set (concat (map snd ops)) = set (map pcs_spec (concat (map snd ops)))" by simp
  also have "\<dots> = (\<Union>d \<in> set ds. (\<lambda>s. Model_Case (operator_spec d s)) ` set (missing d))" unfolding parts(1) by simp
  finally show "pcs_spec ` set (concat (map snd ops)) = operator_work L f measured (set ds)"
    using mis assms(4) by (auto simp: operator_work_def)
  from all show "list_all2 (\<lambda>d ip. set (ipl_reused ip) = {s \<in> set xs. already_measured L measured d s}) ds (map fst ops)"
    unfolding list_all2_map2 by (rule list_all2_mono) (use device_operator_plan_Inr(4) [OF _ assms(3)] in \<open>metis prod.collapse\<close>)
qed

lemma module_part:
  assumes "traverse_res (module_cases L w f) ds = Inr css" "distinct ds"
    and "ids_distinguish (module_signature_id (lib_sha L) (lib_repr L)) (map mde_signature (msf_module_entries f))"
  shows "pcs_spec ` set (concat css) = module_work f (set ds)" "distinct (map pcs_spec (concat css))" "\<forall>c \<in> set (concat css). well_planned L w c"
proof -
  define ms where "ms = (case sparse_module_signatures L (msf_module_entries f) of Inr xs \<Rightarrow> xs | Inl _ \<Rightarrow> [])"
  have all: "list_all2 (\<lambda>d cs. module_cases L w f d = Inr cs) ds css" using assms(1) by (simp add: traverse_res_Inr)
  then have "list_all2 (\<lambda>d cs. map pcs_spec cs = map (\<lambda>s. Model_Case (module_workload (msf_characterization f) d s)) ms \<and> (\<forall>c \<in> set cs. well_planned L w c)) ds css"
    by (rule list_all2_mono) (erule module_cases_Inr, simp add: ms_def)
  note parts = per_device [OF this]
  show "\<forall>c \<in> set (concat css). well_planned L w c" by (rule parts(2))
  have ms: "set ms = mde_signature ` {e \<in> set (msf_module_entries f). mde_kind e \<in> set SPARSE_MODULE_KINDS} \<and> distinct ms" if d: "d \<in> set ds" for d
  proof -
    obtain cs where "module_cases L w f d = Inr cs" using list_all2_member [OF all d] by auto
    then obtain xs where xs: "sparse_module_signatures L (msf_module_entries f) = Inr xs" by (rule module_cases_Inr)
    with sparse_module_signatures_Inr [OF xs] assms(3) show ?thesis by (simp add: ms_def)
  qed
  show "distinct (map pcs_spec (concat css))" unfolding parts(1)
    by (rule distinct_product) (use assms(2) ms in \<open>auto simp: module_workload_inject\<close>)
  have "pcs_spec ` set (concat css) = set (map pcs_spec (concat css))" by simp
  also have "\<dots> = (\<Union>d \<in> set ds. (\<lambda>s. Model_Case (module_workload (msf_characterization f) d s)) ` set ms)" unfolding parts(1) by simp
  finally show "pcs_spec ` set (concat css) = module_work f (set ds)" using ms by (auto simp: module_work_def)
qed

lemma layer_part:
  assumes "traverse_res (layer_cases L w f ps) ds = Inr css" "distinct ds" "ds \<noteq> []"
    and "representative_layer_positions (mch_num_layers (msf_characterization f)) = Inr ps"
    and dist: "distinct (map len_index (msf_layer_entries f))"
  shows "pcs_spec ` set (concat css) = layer_work f (set ds)" "distinct (map pcs_spec (concat css))" "\<forall>c \<in> set (concat css). well_planned L w c"
proof -
  let ?n = "mch_num_layers (msf_characterization f)"
  let ?es = "entries_at f (map snd ps)"
  have all: "list_all2 (\<lambda>d cs. layer_cases L w f ps d = Inr cs) ds css" using assms(1) by (simp add: traverse_res_Inr)
  then have "list_all2 (\<lambda>d cs. map pcs_spec cs = map (layer_spec f d) (List.product ?es DEFAULT_PREFILL_SEQUENCE_LENGTHS) \<and> (\<forall>c \<in> set cs. well_planned L w c)) ds css"
    by (rule list_all2_mono) (use layer_cases_Inr(1,2) [OF _ dist] in blast)
  note parts = per_device [OF this]
  show "\<forall>c \<in> set (concat css). well_planned L w c" by (rule parts(2))
  note pos = representative_positions_Inr [OF assms(4)]
  from assms(3) have "hd ds \<in> set ds" by simp
  then obtain d cs where "layer_cases L w f ps d = Inr cs" using list_all2_member [OF all] by blast
  from layer_cases_Inr(3) [OF this dist] have found: "\<exists>e \<in> set (msf_layer_entries f). len_index e = i" if "i \<in> snd ` set ps" for i
    using that by blast
  have at: "the (dict_of (map (\<lambda>e. (len_index e, e)) (msf_layer_entries f)) (len_index e)) = e" if "e \<in> set (msf_layer_entries f)" for e
    using entry_lookup [OF dist, of "len_index e" e] that by simp
  have es: "set ?es = {e \<in> set (msf_layer_entries f). len_index e \<in> {0, ?n div 2, ?n - 1}}"
    unfolding entries_at_def set_map pos(2) [symmetric] using found at by (force simp: image_iff)
  have "map len_index ?es = map snd ps"
    unfolding entries_at_def map_map using found at by (intro map_cong) (auto simp: comp_def, metis imageI snd_conv)
  then have des: "distinct ?es" using pos(1) by (metis distinct_map)
  show "distinct (map pcs_spec (concat css))" unfolding parts(1)
    by (rule distinct_product) (use assms(2) es des layer_spec_inject [OF dist] in
        \<open>auto simp: distinct_product DEFAULT_PREFILL_SEQUENCE_LENGTHS_def List.distinct_product\<close>)
  have "pcs_spec ` set (concat css) = set (map pcs_spec (concat css))" by simp
  also have "\<dots> = (\<Union>d \<in> set ds. layer_spec f d ` (set ?es \<times> set DEFAULT_PREFILL_SEQUENCE_LENGTHS))" unfolding parts(1) by simp
  finally show "pcs_spec ` set (concat css) = layer_work f (set ds)" unfolding es by (fastforce simp: layer_work_def Let_def)
qed


subsection \<open>The network plan\<close>

lemma traverse_res_mono: "\<lbrakk>traverse_res f xs = Inr ys; \<And>x y. \<lbrakk>x \<in> set xs; f x = Inr y\<rbrakk> \<Longrightarrow> R x y\<rbrakk> \<Longrightarrow> list_all2 R xs ys"
  unfolding traverse_res_Inr by (auto simp: list_all2_conv_all_nth)

lemma network_case_Inr: "network_case L w s = Inr c \<Longrightarrow> pcs_spec c = Network_Case s \<and> well_planned L w c"
  by (auto simp: network_case_def bind_res_Inr dest!: case_for_spec_Inr)

lemma network_case_source: "network_case L w s = Inr c \<Longrightarrow> w = ncs_source_worker_id s"
  by (auto simp: network_case_def bind_res_Inr case_for_spec_def Let_def check_profiling_case_def checks_Inr)

text \<open>The directed interface paths between two Workers.\<close>

definition probe_paths :: "worker_network_facts list \<Rightarrow> (string \<times> string \<times> string \<times> string) set" where
  "probe_paths workers = {(wnf_worker_id s, itf_interface_id si, wnf_worker_id d, itf_interface_id di) |s si d di.
     s \<in> set workers \<and> d \<in> set workers \<and> wnf_worker_id s \<noteq> wnf_worker_id d \<and> si \<in> set (wnf_interfaces s) \<and> di \<in> set (wnf_interfaces d)
     \<and> ipv4_addresses (itf_addresses si) \<noteq> [] \<and> ipv4_addresses (itf_addresses di) \<noteq> []}"

fun rtt_path :: "case_spec \<Rightarrow> (string \<times> string \<times> string \<times> string) option" where
  "rtt_path (Network_Case s) = (if ncs_probe_kind s = RTT
     then (case (ncs_source_interface_id s, ncs_destination_interface_id s) of
       (Some si, Some di) \<Rightarrow> Some (ncs_source_worker_id s, si, ncs_destination_worker_id s, di) | _ \<Rightarrow> None)
     else None)"
| "rtt_path (Model_Case s) = None"

fun flow_of :: "case_spec \<Rightarrow> (net_direction \<times> path_class) option" where
  "flow_of (Network_Case s) = (if ncs_probe_kind s = BANDWIDTH
     then (case (ncs_direction s, ncs_path_class s) of (Some d, Some c) \<Rightarrow> Some (d, c) | _ \<Rightarrow> None) else None)"
| "flow_of (Model_Case s) = None"

definition path_of_pair :: "network_pair \<Rightarrow> (string \<times> string \<times> string \<times> string) option" where
  "path_of_pair p = (case (npr_source_interface_id p, npr_destination_interface_id p) of
     (Some si, Some di) \<Rightarrow> Some (npr_source_worker_id p, si, npr_destination_worker_id p, di) | _ \<Rightarrow> None)"

lemma made_pairs: "traverse_res make_pair ps = Inr qs \<Longrightarrow> qs = ps"
  by (induction ps arbitrary: qs) (auto simp: make_pair_def bind_res_Inr)

lemma probe_paths_Inr:
  assumes "enumerate_probe_paths workers = Inr ps"
  shows "path_of_pair ` set ps = Some ` probe_paths workers" "distinct (map wnf_worker_id workers)"
proof -
  from assms made_pairs have "ps = [\<lparr>npr_source_worker_id = wnf_worker_id s, npr_destination_worker_id = wnf_worker_id d,
          npr_source_interface_id = Some (itf_interface_id si), npr_destination_interface_id = Some (itf_interface_id di)\<rparr>.
         s \<leftarrow> workers, d \<leftarrow> workers, wnf_worker_id s \<noteq> wnf_worker_id d,
         si \<leftarrow> wnf_interfaces s, ipv4_addresses (itf_addresses si) \<noteq> [],
         di \<leftarrow> wnf_interfaces d, ipv4_addresses (itf_addresses di) \<noteq> []]"
    unfolding enumerate_probe_paths_def by (fastforce simp del: set_concat)
  then show "path_of_pair ` set ps = Some ` probe_paths workers"
    by (auto simp: path_of_pair_def probe_paths_def image_iff; blast)
  from assms show "distinct (map wnf_worker_id workers)" by (auto simp: enumerate_probe_paths_def)
qed

lemma rtt_matrix_Inr:
  assumes "rtt_matrix_cases L subnet n pairs workers = Inr cs" "(case pairs of None \<Rightarrow> enumerate_probe_paths workers | Some qs \<Rightarrow> Inr qs) = Inr ps"
  shows "list_all2 (\<lambda>p c. (\<exists>k. classify_known subnet workers p = Inr k \<and> pcs_spec c = Network_Case (rtt_spec p k n))
    \<and> well_planned L (npr_source_worker_id p) c) ps cs"
proof -
  from assms have "traverse_res (\<lambda>p. bind_res (classify_known subnet workers p) (\<lambda>k.
        network_case L (npr_source_worker_id p) (rtt_spec p k n))) ps = Inr cs"
    by (simp add: rtt_matrix_cases_def)
  then show ?thesis by (rule traverse_res_mono) (auto simp: bind_res_Inr dest!: network_case_Inr)
qed

definition two_flows :: "net_transport \<Rightarrow> pyfloat \<Rightarrow> int option \<Rightarrow> network_pair \<Rightarrow> path_class \<Rightarrow> case_spec list" where
  "two_flows transport duration payload p c =
     map (\<lambda>d. Network_Case (bandwidth_spec_of p c transport d duration payload)) [FORWARD, REVERSE]"

lemma bandwidth_flows:
  assumes "bind_res (classify_known subnet workers p) (\<lambda>c. traverse_res (\<lambda>d. network_case L (npr_source_worker_id p)
      (bandwidth_spec_of p c transport d duration payload)) [FORWARD, REVERSE]) = Inr cs"
  shows "(\<exists>k. classify_known subnet workers p = Inr k \<and> map pcs_spec cs = two_flows transport duration payload p k)
    \<and> (\<forall>c \<in> set cs. well_planned L (npr_source_worker_id p) c)"
  using assms by (auto simp: bind_res_Inr two_flows_def dest!: network_case_Inr)

lemma bandwidth_cases_Inr:
  assumes "bandwidth_cases L subnet k extra transport duration payload True classes workers = Inr cs"
  obtains classified selected css where "classify_pairs subnet workers = Inr classified"
    "select_bandwidth_pairs k extra (case classes of None \<Rightarrow> classified | Some allowed \<Rightarrow> filter (\<lambda>x. cpr_path_class x \<in> set allowed) classified) = Inr selected"
    "cs = concat css"
    "list_all2 (\<lambda>p cs. (\<exists>c. classify_known subnet workers p = Inr c \<and> map pcs_spec cs = two_flows transport duration payload p c)
       \<and> (\<forall>c \<in> set cs. well_planned L (npr_source_worker_id p) c)) selected css"
proof -
  from assms obtain classified selected css where a: "classify_pairs subnet workers = Inr classified"
    "select_bandwidth_pairs k extra (case classes of None \<Rightarrow> classified | Some allowed \<Rightarrow> filter (\<lambda>x. cpr_path_class x \<in> set allowed) classified) = Inr selected"
    "cs = concat css" and t: "traverse_res (\<lambda>p. bind_res (classify_known subnet workers p) (\<lambda>c. traverse_res (\<lambda>d. network_case L (npr_source_worker_id p)
      (bandwidth_spec_of p c transport d duration payload)) [FORWARD, REVERSE])) selected = Inr css"
    unfolding bandwidth_cases_def by (auto simp: bind_res_Inr simp del: traverse_res.simps)
  show ?thesis by (rule that [OF a]) (rule traverse_res_mono [OF t], rule bandwidth_flows)
qed

lemma enumerate_pairs_Inr:
  assumes "enumerate_pairs workers = Inr ps"
  shows "ps = concat (map (\<lambda>s. map (\<lambda>d. \<lparr>npr_source_worker_id = wnf_worker_id s, npr_destination_worker_id = wnf_worker_id d,
      npr_source_interface_id = None, npr_destination_interface_id = None\<rparr>) (filter (\<lambda>d. wnf_worker_id s \<noteq> wnf_worker_id d) workers)) workers)"
    "distinct (map wnf_worker_id workers)"
proof -
  from assms have "traverse_res make_pair [\<lparr>npr_source_worker_id = wnf_worker_id s, npr_destination_worker_id = wnf_worker_id d, npr_source_interface_id = None,
          npr_destination_interface_id = None\<rparr>. s \<leftarrow> workers, d \<leftarrow> workers, wnf_worker_id s \<noteq> wnf_worker_id d] = Inr ps"
    unfolding enumerate_pairs_def by simp
  from made_pairs [OF this] have "ps = [\<lparr>npr_source_worker_id = wnf_worker_id s, npr_destination_worker_id = wnf_worker_id d, npr_source_interface_id = None,
          npr_destination_interface_id = None\<rparr>. s \<leftarrow> workers, d \<leftarrow> workers, wnf_worker_id s \<noteq> wnf_worker_id d]" .
  moreover have "concat (map (\<lambda>d. if P d then [g d] else []) ds) = map g (filter P ds)" for P and g :: "worker_network_facts \<Rightarrow> network_pair" and ds
    by (induction ds) auto
  ultimately show "ps = concat (map (\<lambda>s. map (\<lambda>d. \<lparr>npr_source_worker_id = wnf_worker_id s, npr_destination_worker_id = wnf_worker_id d,
      npr_source_interface_id = None, npr_destination_interface_id = None\<rparr>) (filter (\<lambda>d. wnf_worker_id s \<noteq> wnf_worker_id d) workers)) workers)"
    by simp
  from assms show "distinct (map wnf_worker_id workers)" by (simp add: enumerate_pairs_def)
qed

lemma classify_pairs_Inr:
  assumes "classify_pairs subnet workers = Inr xs"
  obtains ps where "enumerate_pairs workers = Inr ps" "map cpr_pair xs = ps"
    "\<And>x. x \<in> set xs \<Longrightarrow> classify_path subnet (the (dict_of (map (\<lambda>w. (wnf_worker_id w, w)) workers) (npr_source_worker_id (cpr_pair x)))) None
      (the (dict_of (map (\<lambda>w. (wnf_worker_id w, w)) workers) (npr_destination_worker_id (cpr_pair x)))) None = Inr (cpr_path_class x)"
proof -
  let ?by = "dict_of (map (\<lambda>w. (wnf_worker_id w, w)) workers)"
  let ?f = "\<lambda>p. classify_path subnet (the (?by (npr_source_worker_id p))) None (the (?by (npr_destination_worker_id p))) None"
  from assms obtain ps where ps: "enumerate_pairs workers = Inr ps" and "traverse_res (\<lambda>p. map_res (\<lambda>c. \<lparr>cpr_pair = p, cpr_path_class = c\<rparr>) (?f p)) ps = Inr xs"
    by (auto simp: classify_pairs_def Let_def bind_res_Inr)
  then have all: "list_all2 (\<lambda>p x. cpr_pair x = p \<and> ?f (cpr_pair x) = Inr (cpr_path_class x)) ps xs"
    unfolding traverse_res_Inr by (auto elim!: list_all2_mono)
  then have "map cpr_pair xs = ps" by (induction rule: list_all2_induct) auto
  moreover from all have "\<forall>x \<in> set xs. ?f (cpr_pair x) = Inr (cpr_path_class x)" by (induction rule: list_all2_induct) auto
  ultimately show ?thesis using that [OF ps] by blast
qed

text \<open>The class a pair is selected for is the class its cases carry.\<close>

lemma classified_known:
  assumes "classify_pairs subnet workers = Inr xs" "x \<in> set xs"
  shows "classify_known subnet workers (cpr_pair x) = Inr (cpr_path_class x)"
proof -
  let ?by = "dict_of (map (\<lambda>w. (wnf_worker_id w, w)) workers)"
  from assms(1) obtain ps where ps: "enumerate_pairs workers = Inr ps" "map cpr_pair xs = ps" and
    cls: "\<And>x. x \<in> set xs \<Longrightarrow> classify_path subnet (the (?by (npr_source_worker_id (cpr_pair x)))) None
      (the (?by (npr_destination_worker_id (cpr_pair x)))) None = Inr (cpr_path_class x)"
    by (rule classify_pairs_Inr) blast
  from assms(2) ps(2) have "cpr_pair x \<in> set ps" by auto
  then obtain s d where sd: "s \<in> set workers" "d \<in> set workers" "npr_source_worker_id (cpr_pair x) = wnf_worker_id s"
    "npr_destination_worker_id (cpr_pair x) = wnf_worker_id d" "npr_source_interface_id (cpr_pair x) = None" "npr_destination_interface_id (cpr_pair x) = None"
    unfolding enumerate_pairs_Inr(1) [OF ps(1)] by auto
  have "?by (wnf_worker_id w) \<noteq> None" if "w \<in> set workers" for w
    using that by (simp add: dict_of_def map_of_eq_None_iff image_image)
  from this [OF sd(1)] this [OF sd(2)] sd cls [OF assms(2)] show ?thesis by (auto simp: classify_known_def known_pair_def Let_def)
qed

lemma classified_distinct:
  assumes "classify_pairs subnet workers = Inr xs"
  shows "distinct (map (pair_order_key \<circ> cpr_pair) xs)"
proof -
  from assms obtain ps where ps: "enumerate_pairs workers = Inr ps" "map cpr_pair xs = ps" by (rule classify_pairs_Inr)
  note e = enumerate_pairs_Inr [OF ps(1)]
  have inj: "inj_on wnf_worker_id (set workers)" and dw: "distinct workers" using e(2) by (simp_all add: distinct_map)
  have "map pair_order_key ps = concat (map (\<lambda>s. map (\<lambda>d. [wnf_worker_id s, wnf_worker_id d, [], []])
      (filter (\<lambda>d. d \<in> set workers \<and> s \<in> set workers \<and> wnf_worker_id s \<noteq> wnf_worker_id d) workers)) workers)"
    unfolding e(1) map_concat map_map
    by (intro arg_cong [where f = concat] map_cong refl) (auto simp: pair_order_key_def comp_def cong: filter_cong)
  moreover have "distinct \<dots>"
    by (rule distinct_product) (use dw inj in \<open>auto dest: inj_onD\<close>)
  ultimately show ?thesis using ps(2) by (metis map_map)
qed


lemma selected_among:
  assumes "select_bandwidth_pairs k extra xs = Inr sel"
  shows "set sel \<subseteq> cpr_pair ` set xs \<union> set extra"
proof -
  let ?cs = "sort_key path_class_value (dict_fromkeys (map cpr_path_class xs))"
  let ?reps = "concat (map (class_representatives (nat k) xs) ?cs)"
  have "set (class_representatives (nat k) xs c) \<subseteq> cpr_pair ` set xs" for c
    by (auto simp: class_representatives_def dest!: in_set_takeD)
  then have "set ?reps \<subseteq> cpr_pair ` set xs" by auto
  moreover have "sel = fold add_pair (?reps @ extra) []" using assms by (auto simp: select_bandwidth_pairs_def Let_def)
  then have "set sel \<subseteq> set (?reps @ extra)" using add_pairs_keys [of "[]" "?reps @ extra"] by (simp del: set_concat set_append)
  ultimately show ?thesis by auto
qed

lemma rtt_paths_of:
  assumes "list_all2 (\<lambda>p c. (\<exists>k. classify_known subnet workers p = Inr k \<and> pcs_spec c = Network_Case (rtt_spec p k n)) \<and> P p c) ps cs"
  shows "map (rtt_path \<circ> pcs_spec) cs = map path_of_pair ps" "\<forall>c \<in> set cs. flow_of (pcs_spec c) = None"
  using assms by (induction rule: list_all2_induct) (auto simp: rtt_spec_def path_of_pair_def split: option.split)

lemma in_two_flows:
  "s \<in> set (two_flows transport duration payload p c) \<Longrightarrow> rtt_path s = None \<and> (\<exists>n. s = Network_Case n \<and> ncs_source_worker_id n = npr_source_worker_id p)"
  by (auto simp: two_flows_def bandwidth_spec_of_def)

lemma flows_of:
  assumes "list_all2 (\<lambda>p cs. (\<exists>c. classify_known subnet workers p = Inr c \<and> map pcs_spec cs = two_flows transport duration payload p c) \<and> P p cs) ps css"
  shows "filter (\<lambda>c. flow_of (pcs_spec c) = Some (d, k)) (concat css) = [] \<longleftrightarrow> filter (\<lambda>p. classify_known subnet workers p = Inr k) ps = []"
    and "length (filter (\<lambda>c. flow_of (pcs_spec c) = Some (d, k)) (concat css)) = length (filter (\<lambda>p. classify_known subnet workers p = Inr k) ps)"
    and "\<forall>c \<in> set (concat css). rtt_path (pcs_spec c) = None"
proof -
  show count: "length (filter (\<lambda>c. flow_of (pcs_spec c) = Some (d, k)) (concat css)) = length (filter (\<lambda>p. classify_known subnet workers p = Inr k) ps)"
    using assms
  proof (induction rule: list_all2_induct)
    case (Cons p ps cs css)
    then obtain c where c: "classify_known subnet workers p = Inr c" "map pcs_spec cs = two_flows transport duration payload p c" by blast
    then obtain x y where "cs = [x, y]" "pcs_spec x = Network_Case (bandwidth_spec_of p c transport FORWARD duration payload)"
      "pcs_spec y = Network_Case (bandwidth_spec_of p c transport REVERSE duration payload)"
      by (auto simp: two_flows_def Cons_eq_map_conv map_eq_Cons_conv)
    with c(1) Cons.IH show ?case by (cases d) (auto simp: bandwidth_spec_of_def)
  qed simp
  then show "filter (\<lambda>c. flow_of (pcs_spec c) = Some (d, k)) (concat css) = [] \<longleftrightarrow> filter (\<lambda>p. classify_known subnet workers p = Inr k) ps = []"
    by (metis length_0_conv)
  show "\<forall>c \<in> set (concat css). rtt_path (pcs_spec c) = None"
    using assms
  proof (induction rule: list_all2_induct)
    case (Cons p ps cs css)
    then obtain c where "map pcs_spec cs = two_flows transport duration payload p c" by blast
    then have "pcs_spec ` set cs = set (two_flows transport duration payload p c)" by (metis set_map)
    then have "pcs_spec x \<in> set (two_flows transport duration payload p c)" if "x \<in> set cs" for x using that by blast
    then have "\<forall>x \<in> set cs. rtt_path (pcs_spec x) = None" using in_two_flows by blast
    with Cons.IH show ?case by auto
  qed simp
qed

text \<open>Every case runs on the Worker its flow starts from.\<close>

definition on_source :: "store_library \<Rightarrow> profiling_case \<Rightarrow> bool" where
  "on_source L c \<longleftrightarrow> (\<exists>s. pcs_spec c = Network_Case s \<and> well_planned L (ncs_source_worker_id s) c)"

lemma on_source_rtt:
  "list_all2 (\<lambda>p c. (\<exists>k. Q p k \<and> pcs_spec c = Network_Case (rtt_spec p k n)) \<and> well_planned L (npr_source_worker_id p) c) ps cs
   \<Longrightarrow> \<forall>c \<in> set cs. on_source L c"
  by (induction rule: list_all2_induct) (auto simp: on_source_def rtt_spec_def)

lemma on_source_flows:
  assumes "list_all2 (\<lambda>p cs. (\<exists>c. Q p c \<and> map pcs_spec cs = two_flows transport duration payload p c)
     \<and> (\<forall>c \<in> set cs. well_planned L (npr_source_worker_id p) c)) ps css"
  shows "\<forall>c \<in> set (concat css). on_source L c"
  using assms
proof (induction rule: list_all2_induct)
  case (Cons p ps cs css)
  then obtain k where "map pcs_spec cs = two_flows transport duration payload p k" by blast
  then have "pcs_spec ` set cs = set (two_flows transport duration payload p k)" by (metis set_map)
  then have "pcs_spec c \<in> set (two_flows transport duration payload p k)" if "c \<in> set cs" for c using that by blast
  then have "\<exists>s. pcs_spec c = Network_Case s \<and> ncs_source_worker_id s = npr_source_worker_id p" if "c \<in> set cs" for c
    using that in_two_flows by blast
  with Cons show ?case by (fastforce simp: on_source_def)
qed simp

end
