(* ===== verification/Strategy_Safety.thy ===== *)
theory Strategy_Safety
  imports Plan_Lemmas
begin

section \<open>Plans ask for the right work\<close>

text \<open>
  A model plan asks for every piece of work once, the network plan is dense in round trips and sparse in bandwidth, and planning
  succeeds on the facts of a standard model.
\<close>

text \<open>[C39] Every model plan that is built asks for exactly the work that is needed, each piece once: for every device the benchmarkable operators
  without a measurement, one module case per attention or MLP shape, and the first, middle and last layer at each of the three
  lengths. Every case is valid, bears its content hash and belongs to the planned worker; every other operator is reported as
  deferred or as reused. The signature hashes are assumed to tell the signatures of the model apart.\<close>

theorem model_plan_asks_each_piece_once:
  assumes "check_session_facts (lib_sha L) f = Inr ()"
    and "ids_distinguish (operator_id L) (msf_operator_signatures f)"
    and "ids_distinguish (module_signature_id (lib_sha L) (lib_repr L)) (map mde_signature (msf_module_entries f))"
    and "plan_model_cases L worker f devices measured = Inr p"
  shows "pcs_spec ` set (mpl_cases p) = operator_work L f measured (set devices) \<union> module_work f (set devices) \<union> layer_work f (set devices)
    \<and> distinct (map pcs_spec (mpl_cases p)) \<and> (\<forall>c \<in> set (mpl_cases p). well_planned L worker c)
    \<and> set (mpl_deferred p) = {s \<in> set (msf_operator_signatures f). \<not> benchmarkable s}
    \<and> list_all2 (\<lambda>d (e, ip). e = d \<and> set (ipl_reused ip) = {s \<in> set (msf_operator_signatures f). benchmarkable s \<and> already_measured L measured d s})
        devices (mpl_operator_reuse p)"
proof -
  from assms(1) have dist: "distinct (map len_index (msf_layer_entries f))" by (simp add: check_session_facts_def checks_Inr)
  from assms(4) obtain ds good deferred ops modules positions layers where
    devices: "validated_device_ids devices = Inr ds" and split: "split_operator_signatures L (msf_operator_signatures f) = Inr (good, deferred)"
    and ops: "traverse_work (device_operator_plan L worker measured good) ds = Inr ops"
    and modules: "traverse_res (module_cases L worker f) ds = Inr modules"
    and positions: "representative_layer_positions (mch_num_layers (msf_characterization f)) = Inr positions"
    and layers: "traverse_res (layer_cases L worker f positions) ds = Inr layers"
    and p: "p = \<lparr>mpl_worker_id = worker, mpl_cases = concat (map snd ops) @ concat modules @ concat layers,
       mpl_operator_reuse = zip ds (map fst ops), mpl_deferred = deferred\<rparr>"
    unfolding plan_model_cases_def bind_work_Inr unexpected_Inr built_Inr by (auto simp: bind_work_Inr)
  from validated_device_ids_Inr [OF devices] have ds: "ds = devices" and d: "devices \<noteq> []" "distinct devices" by simp_all
  note good = split_operator_signatures_Inr [OF split assms(2)]
  have "ids_distinguish (operator_id L) good" using assms(2) good(1) by (simp add: ids_distinguish_def)
  note o = operator_part [OF ops [unfolded ds] d(2) this good(1)] and m = module_part [OF modules [unfolded ds] d(2) assms(3)]
    and l = layer_part [OF layers [unfolded ds] d(2,1) positions dist]
  have "operator_work L f measured D \<inter> module_work f D = {}" "operator_work L f measured D \<inter> layer_work f D = {}"
    "module_work f D \<inter> layer_work f D = {}" for D
    by (auto simp: operator_work_def module_work_def layer_work_def Let_def layer_spec_def layer_workload_def module_workload_def
        operator_spec_def operator_workload_def)
  then have "distinct (map pcs_spec (mpl_cases p))" using o(1,2) m(1,2) l(1,2) by (simp add: p Int_Un_distrib)
  moreover have "list_all2 (\<lambda>d (e, ip). e = d \<and> set (ipl_reused ip) = {s \<in> set (msf_operator_signatures f). benchmarkable s \<and> already_measured L measured d s})
        devices (mpl_operator_reuse p)"
    using o(4) good(1) by (auto simp: p ds list_all2_conv_all_nth)
  ultimately show ?thesis using o(1,3) m(1,3) l(1,3) good(2) by (auto simp: p image_Un)
qed

text \<open>The loader of a model session normalizes without a phase, so no attention operator ever becomes a case.\<close>

lemma attention_never_planned:
  assumes "extract_operator_signatures graphs = Inr (msf_operator_signatures f)"
  shows "Model_Case m \<in> operator_work L f measured D \<Longrightarrow> \<exists>s. mcs_operator_signature m = Some s \<and> ops_kind s \<noteq> OP_ATTENTION"
  using extracted_without_attention [OF assms] by (auto simp: operator_work_def device_of_specs)

text \<open>One decode operator whose cache is empty is a valid signature and ends the planning of the whole model.\<close>

lemma decode_without_context_refused:
  assumes "ops_parameters s = Attention a" "att_phase a = PHASE_DECODE" "att_kv_len a \<le> att_q_len a"
  shows "\<exists>e. operator_case_spec s d = Inl (Unexpected e)"
proof -
  let ?w = "operator_workload s d (att_dtype a)"
  have "check_phase ?w \<noteq> Inr ()" using assms by (simp add: check_phase_def operator_workload_def)
  then have "check_model_case_spec ?w \<noteq> Inr ()" by (auto simp: check_model_case_spec_def checks_Inr)
  then obtain e where "built check_model_case_spec ?w = Inl e" by (cases "check_model_case_spec ?w") (auto simp: built_def)
  then show ?thesis using assms(1) by (simp add: operator_case_spec_def bind_work_def unexpected_def)
qed



text \<open>The default network plan is dense in round trips and sparse in bandwidth. Every directed pair of IPv4 interfaces of two
  Workers is probed for its round trip and nothing else is; per path class exactly the allowed number of pairs, as far as there are
  that many, gets a bandwidth case in each direction; every case is valid and runs on the Worker the flow starts from.\<close>

lemma network_plan_dense_and_sparse:
  assumes "check_default_strategy st = Inr ()" and "plan_network_cases L st None [] None workers = Inr p"
  shows "(\<forall>c \<in> set (npl_cases p). on_source L c)
    \<and> {q. \<exists>c \<in> set (npl_cases p). rtt_path (pcs_spec c) = Some q} = probe_paths workers
    \<and> (\<forall>k d. length (filter (\<lambda>c. flow_of (pcs_spec c) = Some (d, k)) (npl_cases p))
         = min (nat (dfs_representatives_per_class st)) (length (filter (\<lambda>x. cpr_path_class x = k) (npl_classified_pairs p))))"
proof -
  let ?subnet = "dfs_same_subnet_prefix_length st" and ?k = "dfs_representatives_per_class st"
  from assms(2) obtain classified rtt bandwidth where cl: "classify_pairs ?subnet workers = Inr classified"
    and rtt: "rtt_matrix_cases L ?subnet None None workers = Inr rtt"
    and bw: "bandwidth_cases L ?subnet ?k [] TCP (dfs_bandwidth_duration_s st) None True None workers = Inr bandwidth"
    and p: "npl_classified_pairs p = classified" "npl_cases p = rtt @ bandwidth"
    by (auto simp: plan_network_cases_def Let_def bind_res_Inr)
  from rtt obtain ps where ps: "enumerate_probe_paths workers = Inr ps" by (auto simp: rtt_matrix_cases_def bind_res_Inr)
  then have "(case None of None \<Rightarrow> enumerate_probe_paths workers | Some qs \<Rightarrow> Inr qs) = Inr ps" by simp
  note R = rtt_matrix_Inr [OF rtt this]
  from bw obtain selected css where sel: "select_bandwidth_pairs ?k [] classified = Inr selected" and css: "bandwidth = concat css" and
    B: "list_all2 (\<lambda>p cs. (\<exists>c. classify_known ?subnet workers p = Inr c \<and> map pcs_spec cs = two_flows TCP (dfs_bandwidth_duration_s st) None p c)
       \<and> (\<forall>c \<in> set cs. well_planned L (npr_source_worker_id p) c)) selected css"
    by (rule bandwidth_cases_Inr) (use cl in auto)
  have "\<forall>c \<in> set (npl_cases p). on_source L c"
    using on_source_rtt [OF R] on_source_flows [OF B] by (auto simp: p css)
  moreover have "{q. \<exists>c \<in> set (npl_cases p). rtt_path (pcs_spec c) = Some q} = probe_paths workers"
  proof -
    have "(rtt_path \<circ> pcs_spec) ` set rtt = path_of_pair ` set ps" using rtt_paths_of(1) [OF R] by (metis set_map)
    then have "rtt_path ` pcs_spec ` set rtt = Some ` probe_paths workers" using probe_paths_Inr(1) [OF ps] by (simp add: image_comp)
    then have "(\<exists>c \<in> set rtt. rtt_path (pcs_spec c) = Some q) \<longleftrightarrow> q \<in> probe_paths workers" for q
      unfolding set_eq_iff image_iff by (drule_tac x = "Some q" in spec) (auto simp: eq_commute [of "Some q"])
    moreover have "rtt_path (pcs_spec c) = None" if "c \<in> set bandwidth" for c using flows_of(3) [OF B] that by (auto simp: css)
    ultimately have "(\<exists>c \<in> set (npl_cases p). rtt_path (pcs_spec c) = Some q) \<longleftrightarrow> q \<in> probe_paths workers" for q
      unfolding p set_append bex_Un by (metis option.distinct(1))
    then show ?thesis by (simp add: set_eq_iff)
  qed
  moreover have "length (filter (\<lambda>c. flow_of (pcs_spec c) = Some (d, k)) (npl_cases p))
      = min (nat ?k) (length (filter (\<lambda>x. cpr_path_class x = k) classified))" for k d
  proof -
    have "1 \<le> ?k" using assms(1) by (simp add: check_default_strategy_def checks_Inr)
    note spec = select_bandwidth_pairs_spec [OF this classified_distinct [OF cl]]
    from spec(2) sel have "length (filter (\<lambda>p. p \<in> set (with_class classified k)) selected) = min (nat ?k) (length (with_class classified k))" by auto
    moreover have "set selected \<subseteq> cpr_pair ` set classified" using selected_among [OF sel] by simp
    then have "filter (\<lambda>p. p \<in> set (with_class classified k)) selected = filter (\<lambda>p. classify_known ?subnet workers p = Inr k) selected"
      by (intro filter_cong) (use classified_known [OF cl] in \<open>fastforce simp: with_class_def\<close>)+
    moreover have "filter (\<lambda>c. flow_of (pcs_spec c) = Some (d, k)) rtt = []" using rtt_paths_of(2) [OF R] by (auto simp: filter_empty_conv)
    ultimately show ?thesis using flows_of(2) [OF B, of d k] by (simp add: p css with_class_def)
  qed
  ultimately show ?thesis by (simp add: p)
qed



subsection \<open>Planning succeeds\<close>

lemma traverse_work_succeeds: "(\<And>x. x \<in> set xs \<Longrightarrow> \<exists>y. f x = Inr y) \<Longrightarrow> \<exists>ys. traverse_work f xs = Inr ys"
  by (induction xs) (auto simp: bind_work_Inr; blast)+

lemma traverse_res_succeeds: "(\<And>x. x \<in> set xs \<Longrightarrow> \<exists>y. f x = Inr y) \<Longrightarrow> \<exists>ys. traverse_res f xs = Inr ys"
  by (induction xs) (auto simp: bind_res_Inr; blast)+

lemma case_for_model_spec_succeeds:
  assumes "check_model_case_spec s = Inr ()" "finite_json (canonical_model_case_spec fr s)" "w \<noteq> []" "\<And>t. sha t \<noteq> []"
  shows "\<exists>c. case_for_spec sha fr w (Model_Case s) = Inr c"
  using assms by (auto simp: case_for_spec_def profiling_case_id_def canonical_sha256_def canonical_json_def Let_def check_profiling_case_def
      non_empty_def bind_res_Inr checks_Inr)

lemma finite_option: "finite_json (jopt JInt i)" "finite_json (jopt JStr t)"
  by (simp_all add: jopt_def split: option.split)

lemma finite_parameters: "\<not> is_custom p \<Longrightarrow> finite_json (canonical_operator_parameters fr p)"
  by (cases p) (simp_all add: canonical_gemm_signature_def canonical_attention_signature_def canonical_norm_signature_def
      canonical_embedding_signature_def canonical_rotary_signature_def canonical_kv_copy_signature_def canonical_generic_parameters_def list_all_iff)

lemma finite_signatures:
  "\<not> is_custom (ops_parameters s) \<Longrightarrow> finite_json (canonical_operator_signature fr s)" "finite_json (canonical_layer_signature l)"
  "finite_json (canonical_model_reference m)"
  by (simp_all add: canonical_operator_signature_def finite_parameters canonical_layer_signature_def canonical_model_reference_def finite_option)

text \<open>Decode attention with a cache of at least one position.\<close>

definition has_context :: "operator_signature \<Rightarrow> bool" where
  "has_context s \<longleftrightarrow> (case ops_parameters s of Attention a \<Rightarrow> att_phase a = PHASE_DECODE \<longrightarrow> att_q_len a < att_kv_len a | _ \<Rightarrow> True)"

lemma benchmarkable_cases:
  assumes "benchmarkable s" "check_operator_signature s = Inr ()"
  obtains g where "ops_parameters s = Gemm g" | a where "ops_parameters s = Attention a" | n where "ops_parameters s = Norm n"
  using assms by (cases "ops_kind s"; cases "ops_parameters s")
    (auto simp: benchmarkable_def INITIAL_BENCHMARK_OPERATOR_KINDS_def check_operator_signature_def checks_Inr)

lemma operator_spec_ok:
  assumes "check_operator_signature s = Inr ()" "benchmarkable s" "has_context s" "d \<noteq> []"
  shows "check_model_case_spec (operator_spec d s) = Inr ()" "operator_case_spec s d = Inr (operator_spec d s)"
proof -
  have "check_operator_parameters (ops_parameters s) = Inr ()" "ops_backend_family s \<noteq> []"
    using assms(1) by (auto simp: check_operator_signature_def checks_Inr)
  with assms(2,1) show ok: "check_model_case_spec (operator_spec d s) = Inr ()"
  proof (cases rule: benchmarkable_cases)
    case (2 a)
    with assms \<open>check_operator_parameters (ops_parameters s) = Inr ()\<close> \<open>ops_backend_family s \<noteq> []\<close> show ?thesis
      by (cases "att_phase a") (simp_all add: operator_spec_def operator_workload_def check_model_case_spec_def checks_Inr for_res_Inr check_phase_def
          check_granularity_def has_context_def check_attention_signature_def)
  qed (simp_all add: assms operator_spec_def operator_workload_def check_model_case_spec_def checks_Inr for_res_Inr check_phase_def
      check_granularity_def check_gemm_signature_def check_norm_signature_def)
  have nc: "\<not> is_custom (ops_parameters s)" using assms(2) by (simp add: benchmarkable_def)
  then obtain t where "parameters_dtype (ops_parameters s) = Inr t" using parameters_dtype_total by blast
  with nc ok show "operator_case_spec s d = Inr (operator_spec d s)"
    by (simp add: operator_case_spec_def operator_spec_def bind_work_def unexpected_def built_def)
qed

lemma operator_case_succeeds:
  assumes "check_operator_signature s = Inr ()" "benchmarkable s" "has_context s" "d \<noteq> []" "w \<noteq> []" "\<And>t. sha t \<noteq> []"
  shows "\<exists>c. case_for_spec sha fr w (Model_Case (operator_spec d s)) = Inr c"
proof (rule case_for_model_spec_succeeds [OF operator_spec_ok(1) [OF assms(1-4)] _ assms(5,6)])
  show "finite_json (canonical_model_case_spec fr (operator_spec d s))"
    using assms(2) finite_signatures(1) by (simp add: canonical_model_case_spec_def operator_spec_def operator_workload_def benchmarkable_def finite_option)
      (simp add: jopt_def)
qed

lemma planned_module_succeeds:
  assumes "check_module_signature s = Inr ()" "finite_json (canonical_module_signature (lib_repr L) s)" "check_model_characterization ch = Inr ()"
    "d \<noteq> []" "w \<noteq> []" "\<And>t. lib_sha L t \<noteq> []"
  shows "\<exists>c. planned_case L w (module_workload ch d s) = Inr c"
proof -
  have ok: "check_model_case_spec (module_workload ch d s) = Inr ()"
    using assms by (simp add: module_workload_def check_model_case_spec_def checks_Inr for_res_Inr check_phase_def check_granularity_def
        check_model_characterization_def DEFAULT_MODULE_SEQUENCE_LENGTH_def)
  have "finite_json (canonical_model_case_spec (lib_repr L) (module_workload ch d s))"
    using assms(2) by (simp add: canonical_model_case_spec_def module_workload_def finite_option) (simp add: jopt_def finite_signatures)
  from case_for_model_spec_succeeds [OF ok this assms(5,6)] ok show ?thesis by (auto simp: planned_case_def built_def)
qed

lemma planned_layer_succeeds:
  assumes "check_layer_signature s = Inr ()" "check_model_characterization ch = Inr ()" "0 \<le> i" "0 < len"
    "d \<noteq> []" "w \<noteq> []" "\<And>t. lib_sha L t \<noteq> []"
  shows "\<exists>c. planned_case L w (layer_workload ch d s i len) = Inr c"
proof -
  have ok: "check_model_case_spec (layer_workload ch d s i len) = Inr ()"
    using assms by (simp add: layer_workload_def check_model_case_spec_def checks_Inr for_res_Inr check_phase_def check_granularity_def
        check_model_characterization_def)
  have "finite_json (canonical_model_case_spec (lib_repr L) (layer_workload ch d s i len))"
    by (simp add: canonical_model_case_spec_def layer_workload_def finite_option) (simp add: jopt_def finite_signatures)
  from case_for_model_spec_succeeds [OF ok this assms(6,7)] ok show ?thesis by (auto simp: planned_case_def built_def)
qed

text \<open>Planning succeeds on valid facts whose hashes exist, whose decode operators have a context and whose layers cover the
  sampled positions.\<close>

lemma validated_device_ids_ok: "\<lbrakk>ds \<noteq> []; distinct ds; [] \<notin> set ds\<rbrakk> \<Longrightarrow> validated_device_ids ds = Inr ds"
proof -
  assume ds: "ds \<noteq> []" "distinct ds" "[] \<notin> set ds"
  have "snd p \<noteq> [] \<and> snd p \<notin> set (fst p)" if p: "p \<in> set (zip (map (\<lambda>i. take i ds) [0..<length ds]) ds)" for p
  proof -
    from p obtain i where i: "i < length ds" "p = (take i ds, ds ! i)" by (auto simp: set_zip)
    then have "ds ! i \<notin> set (take i ds)" using ds(2) by (auto simp: in_set_conv_nth nth_eq_iff_index_eq)
    moreover from i have "ds ! i \<in> set ds" by simp
    with ds(3) have "ds ! i \<noteq> []" by metis
    ultimately show ?thesis using i by simp
  qed
  with ds(1) show ?thesis by (auto simp: validated_device_ids_def for_res_Inr)
qed

lemma operator_id_finite: "finite_json (canonical_operator_signature (lib_repr L) s) \<Longrightarrow> \<exists>i. operator_id L s = Inr i"
  by (simp add: operator_id_def operator_signature_id_def canonical_sha256_def canonical_json_def)

lemma unique_by_id_succeeds:
  assumes "\<forall>s \<in> set xs. \<exists>i. operator_id L s = Inr i"
  shows "\<exists>u. unique_by_id L xs = Inr u \<and> snd ` set u \<subseteq> set xs"
proof -
  from assms traverse_res_succeeds [of xs "operator_id L"] obtain ids where ids: "traverse_res (operator_id L) xs = Inr ids" by blast
  then have "unique_by_id L xs = Inr (first_pairs (zip ids xs))" by (simp add: unique_by_id_def)
  moreover have "snd ` set (first_pairs (zip ids xs)) \<subseteq> set xs" using first_by_id(1) [OF ids] by auto
  ultimately show ?thesis by blast
qed

lemma device_plan_succeeds:
  assumes "\<forall>s \<in> set xs. check_operator_signature s = Inr () \<and> benchmarkable s \<and> has_context s" "d \<noteq> []" "w \<noteq> []" "\<And>t. lib_sha L t \<noteq> []"
  shows "\<exists>p. device_operator_plan L w measured xs d = Inr p"
proof -
  have "\<forall>s \<in> set xs. \<exists>i. operator_id L s = Inr i"
    using assms(1) by (auto intro!: operator_id_finite finite_signatures simp: benchmarkable_def)
  from unique_by_id_succeeds [OF this] obtain u where u: "unique_by_id L xs = Inr u" "snd ` set u \<subseteq> set xs" by blast
  obtain ip where ip: "plan_incremental_profiling L xs (case measured d of None \<Rightarrow> {} | Some ids \<Rightarrow> ids) = Inr ip" and "set (ipl_missing ip) \<subseteq> set xs"
    using u by (auto simp: plan_incremental_profiling_def)
  have each: "\<exists>c. bind_work (operator_case_spec s d) (\<lambda>spec. unexpected (case_for_spec (lib_sha L) (lib_repr L) w (Model_Case spec))) = Inr c"
    if "s \<in> set (ipl_missing ip)" for s
  proof -
    from that \<open>set (ipl_missing ip) \<subseteq> set xs\<close> assms(1) have s: "check_operator_signature s = Inr ()" "benchmarkable s" "has_context s" by auto
    from operator_case_succeeds [OF this assms(2,3), of "lib_sha L"] assms(4) obtain c where "case_for_spec (lib_sha L) (lib_repr L) w (Model_Case (operator_spec d s)) = Inr c"
      by blast
    with operator_spec_ok(2) [OF s assms(2)] show ?thesis by (simp add: bind_work_def unexpected_def)
  qed
  have "\<exists>cs. operator_cases L w d (ipl_missing ip) = Inr cs" unfolding operator_cases_def by (intro traverse_work_succeeds each)
  then obtain cs where "operator_cases L w d (ipl_missing ip) = Inr cs" by blast
  with ip show ?thesis by (simp add: device_operator_plan_def bind_work_def unexpected_def)
qed

lemma module_cases_succeed:
  assumes "\<forall>e \<in> set (msf_module_entries f). check_module_signature (mde_signature e) = Inr ()
      \<and> finite_json (canonical_module_signature (lib_repr L) (mde_signature e))"
    "check_model_characterization (msf_characterization f) = Inr ()" "d \<noteq> []" "w \<noteq> []" "\<And>t. lib_sha L t \<noteq> []"
  shows "\<exists>cs. module_cases L w f d = Inr cs"
proof -
  let ?xs = "map mde_signature (filter (\<lambda>e. mde_kind e \<in> set SPARSE_MODULE_KINDS) (msf_module_entries f))"
  have "\<exists>ids. traverse_res (module_signature_id (lib_sha L) (lib_repr L)) ?xs = Inr ids"
    by (rule traverse_res_succeeds) (use assms(1) in \<open>auto simp: module_signature_id_def canonical_sha256_def canonical_json_def\<close>)
  then obtain ids where ids: "traverse_res (module_signature_id (lib_sha L) (lib_repr L)) ?xs = Inr ids" by blast
  have each: "\<exists>c. planned_case L w (module_workload (msf_characterization f) d s) = Inr c" if "s \<in> set (map snd (first_pairs (zip ids ?xs)))" for s
  proof -
    from that first_by_id(1) [OF ids] have "s \<in> set ?xs" by auto
    then obtain e where "e \<in> set (msf_module_entries f)" "s = mde_signature e" by auto
    with assms show ?thesis by (intro planned_module_succeeds) auto
  qed
  have "\<exists>cs. traverse_res (\<lambda>s. planned_case L w (module_workload (msf_characterization f) d s)) (map snd (first_pairs (zip ids ?xs))) = Inr cs"
    by (intro traverse_res_succeeds each)
  with ids show ?thesis by (simp add: module_cases_def sparse_module_signatures_def Let_def)
qed

lemma layer_cases_succeed:
  assumes "\<forall>i \<in> snd ` set ps. \<exists>e \<in> set (msf_layer_entries f). len_index e = i" "distinct (map len_index (msf_layer_entries f))"
    "for_res check_layer_entry (msf_layer_entries f) = Inr ()"
    "check_model_characterization (msf_characterization f) = Inr ()" "d \<noteq> []" "w \<noteq> []" "\<And>t. lib_sha L t \<noteq> []"
  shows "\<exists>cs. layer_cases L w f ps d = Inr cs"
proof -
  let ?m = "dict_of (map (\<lambda>e. (len_index e, e)) (msf_layer_entries f))"
  have "\<exists>c. (case p of (_, i) \<Rightarrow> case ?m i of
      None \<Rightarrow> Inl (ValueError ''layer enumeration is missing an index required by the positional plan'')
    | Some e \<Rightarrow> traverse_res (\<lambda>len. planned_case L w (layer_workload (msf_characterization f) d (len_signature e) i len)) DEFAULT_PREFILL_SEQUENCE_LENGTHS) = Inr c"
    if p: "p \<in> set ps" for p
  proof -
    obtain q i where qi: "p = (q, i)" by force
    with assms(1) p obtain e where e: "e \<in> set (msf_layer_entries f)" "len_index e = i" by force
    with assms(3) have "check_layer_signature (len_signature e) = Inr ()" "0 \<le> i"
      by (auto simp: for_res_Inr check_layer_entry_def checks_Inr)
    then have "\<exists>c. planned_case L w (layer_workload (msf_characterization f) d (len_signature e) i len) = Inr c"
      if "len \<in> set DEFAULT_PREFILL_SEQUENCE_LENGTHS" for len
      using assms(4-7) that by (intro planned_layer_succeeds) (auto simp: DEFAULT_PREFILL_SEQUENCE_LENGTHS_def)
    then have "\<exists>cs. traverse_res (\<lambda>len. planned_case L w (layer_workload (msf_characterization f) d (len_signature e) i len)) DEFAULT_PREFILL_SEQUENCE_LENGTHS = Inr cs"
      by (intro traverse_res_succeeds)
    moreover have "?m i = Some e" using entry_lookup [OF assms(2)] e by simp
    ultimately show ?thesis by (simp add: qi)
  qed
  from traverse_res_succeeds [OF this] show ?thesis by (simp add: layer_cases_def Let_def)
qed

lemma operator_worker:
  assumes "traverse_work (device_operator_plan L w measured xs) ds = Inr ops" "p \<in> set ops" "c \<in> set (snd p)"
  shows "pcs_worker_id c = w"
proof -
  from assms(1) have "list_all2 (\<lambda>d p. \<forall>c \<in> set (snd p). pcs_worker_id c = w) ds ops" unfolding traverse_work_Inr
    by (rule list_all2_mono) (auto simp: device_operator_plan_def bind_work_Inr well_planned_def dest!: operator_cases_Inr)
  then have "\<forall>p \<in> set ops. \<forall>c \<in> set (snd p). pcs_worker_id c = w" by (induction rule: list_all2_induct) auto
  with assms(2,3) show ?thesis by blast
qed

lemma module_worker:
  assumes "traverse_res (module_cases L w f) ds = Inr css" "cs \<in> set css" "c \<in> set cs"
  shows "pcs_worker_id c = w"
  using assms by (auto simp: well_planned_def elim: module_cases_Inr dest!: traverse_res_set)

lemma layer_worker:
  assumes "traverse_res (layer_cases L w f ps) ds = Inr css" "distinct (map len_index (msf_layer_entries f))" "cs \<in> set css" "c \<in> set cs"
  shows "pcs_worker_id c = w"
  using assms layer_cases_Inr(2) by (fastforce simp: well_planned_def dest!: traverse_res_set)

lemma plan_model_cases_succeeds:
  assumes ok: "check_session_facts (lib_sha L) f = Inr ()" and "\<And>t. lib_sha L t \<noteq> []" "w \<noteq> []"
    and devices: "devices \<noteq> []" "distinct devices" "[] \<notin> set devices"
    and ops: "\<forall>s \<in> set (msf_operator_signatures f). finite_json (canonical_operator_signature (lib_repr L) s) \<and> has_context s"
    and modules: "\<forall>e \<in> set (msf_module_entries f). finite_json (canonical_module_signature (lib_repr L) (mde_signature e))"
    and layers: "\<forall>i \<in> {0, mch_num_layers (msf_characterization f) div 2, mch_num_layers (msf_characterization f) - 1}.
      \<exists>e \<in> set (msf_layer_entries f). len_index e = i"
  shows "\<exists>p. plan_model_cases L w f devices measured = Inr p"
proof -
  from ok have ch: "check_model_characterization (msf_characterization f) = Inr ()" and le: "for_res check_layer_entry (msf_layer_entries f) = Inr ()"
    and me: "\<forall>e \<in> set (msf_module_entries f). check_module_signature (mde_signature e) = Inr ()"
    and os: "\<forall>s \<in> set (msf_operator_signatures f). check_operator_signature s = Inr ()" and dist: "distinct (map len_index (msf_layer_entries f))"
    by (auto simp: check_session_facts_def checks_Inr for_res_Inr check_module_entry_def)
  from ch have "0 < mch_num_layers (msf_characterization f)" by (simp add: check_model_characterization_def checks_Inr)
  then obtain ps where ps: "representative_layer_positions (mch_num_layers (msf_characterization f)) = Inr ps"
    by (auto simp: representative_layer_positions_def positive_def)
  from ops have "\<forall>s \<in> set (msf_operator_signatures f). \<exists>i. operator_id L s = Inr i" using operator_id_finite by blast
  from unique_by_id_succeeds [OF this] obtain u where u: "unique_by_id L (msf_operator_signatures f) = Inr u" "snd ` set u \<subseteq> set (msf_operator_signatures f)"
    by blast
  let ?good = "filter benchmarkable (map snd u)"
  have split: "split_operator_signatures L (msf_operator_signatures f) = Inr (?good, filter (\<lambda>s. \<not> benchmarkable s) (map snd u))"
    using u(1) by (simp add: split_operator_signatures_def)
  have od: "\<exists>p. device_operator_plan L w measured ?good d = Inr p" if "d \<in> set devices" for d
    using that devices(3) u(2) os ops assms(2,3) by (intro device_plan_succeeds) auto
  have "\<exists>os. traverse_work (device_operator_plan L w measured ?good) devices = Inr os" by (intro traverse_work_succeeds od)
  then obtain os where op: "traverse_work (device_operator_plan L w measured ?good) devices = Inr os" by blast
  have md: "\<exists>cs. module_cases L w f d = Inr cs" if "d \<in> set devices" for d
    using that devices(3) me modules ch assms(2,3) by (intro module_cases_succeed) auto
  have "\<exists>ms. traverse_res (module_cases L w f) devices = Inr ms" by (intro traverse_res_succeeds md)
  then obtain ms where mo: "traverse_res (module_cases L w f) devices = Inr ms" by blast
  have ld: "\<exists>cs. layer_cases L w f ps d = Inr cs" if "d \<in> set devices" for d
    using that devices(3) dist le ch assms(2,3) layers representative_positions_Inr(2) [OF ps] by (intro layer_cases_succeed) auto
  have "\<exists>ls. traverse_res (layer_cases L w f ps) devices = Inr ls" by (intro traverse_res_succeeds ld)
  then obtain ls where la: "traverse_res (layer_cases L w f ps) devices = Inr ls" by blast
  let ?p = "\<lparr>mpl_worker_id = w, mpl_cases = concat (map snd os) @ concat ms @ concat ls, mpl_operator_reuse = zip devices (map fst os),
    mpl_deferred = filter (\<lambda>s. \<not> benchmarkable s) (map snd u)\<rparr>"
  have "\<forall>c \<in> set (mpl_cases ?p). pcs_worker_id c = w"
    using operator_worker [OF op] module_worker [OF mo] layer_worker [OF la dist] by auto
  then have "check_model_plan ?p = Inr ()" using assms(3) by (auto simp: check_model_plan_def checks_Inr list_ex_iff)
  with validated_device_ids_ok [OF devices] split op mo ps la show ?thesis
    by (simp add: plan_model_cases_def bind_work_def unexpected_def built_def)
qed


subsection \<open>Instances\<close>

definition plan_library :: store_library where
  "plan_library = \<lparr>lib_sha = demo_hash, lib_repr = demo_repr, lib_iso = (\<lambda>t. [])\<rparr>"

definition small_model :: model_characterization where
  "small_model = \<lparr>mch_model = \<lparr>mref_model_id = ''m'', mref_revision = None\<rparr>, mch_architecture_family = ''llama'', mch_num_layers = 2,
     mch_hidden_size = 8, mch_intermediate_size = 16, mch_vocab_size = 32, mch_num_attention_heads = 2, mch_num_kv_heads = 1, mch_head_dim = None,
     mch_dtype = ''fp16'', mch_quantization = None, mch_tied_word_embeddings = False, mch_stages = [\<lparr>mst_kind = STAGE_LAYER_GROUP, mst_layer_count = Some 2\<rparr>]\<rparr>"

definition small_layer :: "int \<Rightarrow> layer_entry" where
  "small_layer i = \<lparr>len_index = i, len_module_path = ''layers'', len_signature = \<lparr>tls_architecture_family = ''llama'', tls_layer_type = ''decoder'',
     tls_hidden_size = 8, tls_intermediate_size = None, tls_num_attention_heads = 2, tls_num_kv_heads = None, tls_head_dim = None, tls_dtype = ''fp16'',
     tls_quantization = None, tls_special_role = None\<rparr>\<rparr>"

definition small_module :: "module_kind \<Rightarrow> module_entry" where
  "small_module k = \<lparr>mde_name = ''mlp'', mde_module_path = ''layers.0.mlp'', mde_kind = k, mde_layer_index = 0,
     mde_signature = \<lparr>mds_kind = k, mds_architecture_family = ''llama'', mds_structural_parameters = [], mds_dtype = ''fp16'', mds_quantization = None\<rparr>\<rparr>"

definition small_operators :: "operator_signature list" where
  "small_operators = [\<lparr>ops_kind = OP_GEMM, ops_parameters = Gemm \<lparr>gem_m = 8, gem_n = 8, gem_k = 8, gem_dtype = ''fp16'', gem_transpose_a = False,
       gem_transpose_b = True\<rparr>, ops_backend_family = ''torch''\<rparr>,
     \<lparr>ops_kind = OP_CUSTOM, ops_parameters = Custom \<lparr>cus_raw_name = ''bmm'', cus_input_shapes = [], cus_input_dtypes = [], cus_metadata = []\<rparr>,
      ops_backend_family = ''torch''\<rparr>]"

definition small_facts :: session_facts where
  "small_facts = \<lparr>msf_characterization = small_model, msf_layer_entries = [small_layer 0, small_layer 1],
     msf_module_entries = [small_module MODULE_MLP, small_module MODULE_NORM, small_module MODULE_MLP],
     msf_operator_signatures = small_operators, msf_environment = None\<rparr>"

lemma small_facts_ok: "check_session_facts (lib_sha plan_library) small_facts = Inr ()"
  by (simp add: small_facts_def small_model_def small_layer_def small_module_def small_operators_def check_session_facts_def check_model_characterization_def
     check_model_reference_def check_model_stage_def grouped_layers_def check_layer_entry_def check_layer_signature_def check_module_entry_def check_module_signature_def
     check_operator_signature_def check_gemm_signature_def check_custom_parameters_def checks_Inr for_res_Inr check_normalized_items_def)

lemma small_operators_apart: "ids_distinguish (operator_id plan_library) (msf_operator_signatures small_facts)"
proof -
  have "operator_id plan_library (small_operators ! 0) \<noteq> operator_id plan_library (small_operators ! 1)" by code_simp
  then show ?thesis by (auto simp: ids_distinguish_def small_facts_def small_operators_def)
qed

lemma small_modules_apart:
  "ids_distinguish (module_signature_id (lib_sha plan_library) (lib_repr plan_library)) (map mde_signature (msf_module_entries small_facts))"
proof -
  let ?id = "module_signature_id (lib_sha plan_library) (lib_repr plan_library)"
  have "?id (mde_signature (small_module MODULE_MLP)) \<noteq> ?id (mde_signature (small_module MODULE_NORM))" by code_simp
  then show ?thesis by (auto simp: ids_distinguish_def small_facts_def)
qed

lemma small_plan: "\<exists>p. plan_model_cases plan_library ''w'' small_facts [''d''] (\<lambda>_. None) = Inr p"
proof (rule plan_model_cases_succeeds [OF small_facts_ok])
  show "\<forall>s \<in> set (msf_operator_signatures small_facts). finite_json (canonical_operator_signature (lib_repr plan_library) s) \<and> has_context s"
    by (simp add: small_facts_def small_operators_def has_context_def canonical_operator_signature_def canonical_gemm_signature_def
        canonical_custom_parameters_def jitems_def)
  show "\<forall>e \<in> set (msf_module_entries small_facts). finite_json (canonical_module_signature (lib_repr plan_library) (mde_signature e))"
    by (simp add: small_facts_def small_module_def canonical_module_signature_def jitems_def finite_option)
qed (simp_all add: plan_library_def demo_hash_def small_facts_def small_model_def small_layer_def)

theorem model_plan_asks_each_piece_once_witness:
  "\<exists>p. plan_model_cases plan_library ''w'' small_facts [''d''] (\<lambda>_. None) = Inr p \<and> distinct (map pcs_spec (mpl_cases p))
     \<and> layer_spec small_facts ''d'' (small_layer 1, 2048) \<in> pcs_spec ` set (mpl_cases p)"
proof -
  from small_plan obtain p where p: "plan_model_cases plan_library ''w'' small_facts [''d''] (\<lambda>_. None) = Inr p" by blast
  have "layer_spec small_facts ''d'' (small_layer 1, 2048) \<in> layer_work small_facts {''d''}"
    by (force simp: layer_work_def Let_def small_facts_def small_model_def small_layer_def DEFAULT_PREFILL_SEQUENCE_LENGTHS_def)
  with model_plan_asks_each_piece_once [OF small_facts_ok small_operators_apart small_modules_apart p] p show ?thesis by auto
qed

definition lan_strategy :: default_strategy where
  "lan_strategy = \<lparr>dfs_representatives_per_class = 1, dfs_bandwidth_duration_s = Fin 5, dfs_same_subnet_prefix_length = 24\<rparr>"

abbreviation lan_a :: worker_network_facts where "lan_a \<equiv> lan_worker ''a'' ''10.0.0.1''"
abbreviation lan_b :: worker_network_facts where "lan_b \<equiv> lan_worker ''b'' ''10.0.1.1''"

lemma lan_ends:
  "path_interface lan_a (Some ''eth0'') = Some (lan_interface ''10.0.0.1'')" "path_address lan_a (Some ''eth0'') = Some (show_ipv4 (of_octets 10 0 0 1))"
  "path_interface lan_b (Some ''eth0'') = Some (lan_interface ''10.0.1.1'')" "path_address lan_b (Some ''eth0'') = Some (show_ipv4 (of_octets 10 0 1 1))"
  by (simp_all add: path_interface_def path_address_def selected_interface_def selected_ipv4_address_def ipv4_addresses_def demo_addresses)

lemma lan_classes:
  assumes "i = None \<or> i = Some ''eth0''" "j = None \<or> j = Some ''eth0''"
  shows "classify_path 24 lan_a i lan_b j = Inr CROSS_SUBNET" "classify_path 24 lan_b i lan_a j = Inr CROSS_SUBNET"
proof -
  have "\<not> same_subnet (show_ipv4 (of_octets 10 0 0 1)) (show_ipv4 (of_octets 10 0 1 1)) 24"
    "\<not> same_subnet (show_ipv4 (of_octets 10 0 1 1)) (show_ipv4 (of_octets 10 0 0 1)) 24"
    by (simp_all add: same_subnet_shown of_octets_def drop_bit_eq_div)
  then show "classify_path 24 lan_a i lan_b j = Inr CROSS_SUBNET" "classify_path 24 lan_b i lan_a j = Inr CROSS_SUBNET"
    using assms lan_ends lan_worker_path [OF demo_addresses(1), of "''a''"] lan_worker_path [OF demo_addresses(2), of "''b''"]
    by (auto simp: classify_path_def)
qed

lemma network_case_succeeds:
  assumes "check_network_case_spec s = Inr ()" "finite_json (canonical_network_case_spec (lib_repr L) s)" "\<And>t. lib_sha L t \<noteq> []"
  shows "\<exists>c. network_case L (ncs_source_worker_id s) s = Inr c"
  using assms by (auto simp: network_case_def case_for_spec_def profiling_case_id_def canonical_sha256_def canonical_json_def Let_def check_profiling_case_def
      bind_res_Inr checks_Inr check_network_case_spec_def)

lemma lan_cases:
  assumes "npr_source_worker_id p \<noteq> []" "npr_destination_worker_id p \<noteq> []" "npr_source_worker_id p \<noteq> npr_destination_worker_id p"
    "npr_source_interface_id p \<noteq> Some []" "npr_destination_interface_id p \<noteq> Some []"
  shows "\<exists>c. network_case plan_library (npr_source_worker_id p) (rtt_spec p k None) = Inr c"
    "\<exists>c. network_case plan_library (npr_source_worker_id p) (bandwidth_spec_of p k TCP d (Fin 5) None) = Inr c"
proof -
  have "\<exists>c. network_case plan_library (ncs_source_worker_id s) s = Inr c" if "s = rtt_spec p k None \<or> s = bandwidth_spec_of p k TCP d (Fin 5) None" for s
  proof (rule network_case_succeeds)
    show "check_network_case_spec s = Inr ()"
      using that assms by (auto simp: rtt_spec_def bandwidth_spec_of_def check_network_case_spec_def checks_Inr check_probe_def positive_float_def)
    have "demo_repr 5 \<noteq> ''NaN''" "demo_repr 5 \<noteq> ''Infinity''" "demo_repr 5 \<noteq> ''-Infinity''"
      using demo_repr_ok repr_not_special by blast+
    with that show "finite_json (canonical_network_case_spec (lib_repr plan_library) s)"
      by (auto simp: rtt_spec_def bandwidth_spec_of_def canonical_network_case_spec_def finite_option)
        (auto simp: jopt_def plan_library_def split: option.split)
    show "lib_sha plan_library t \<noteq> []" for t by (simp add: plan_library_def demo_hash_def)
  qed
  from this [of "rtt_spec p k None"] this [of "bandwidth_spec_of p k TCP d (Fin 5) None"]
  show "\<exists>c. network_case plan_library (npr_source_worker_id p) (rtt_spec p k None) = Inr c"
    "\<exists>c. network_case plan_library (npr_source_worker_id p) (bandwidth_spec_of p k TCP d (Fin 5) None) = Inr c"
    by (simp_all add: rtt_spec_def bandwidth_spec_of_def)
qed

definition lan_link :: "string \<Rightarrow> string \<Rightarrow> string option \<Rightarrow> network_pair" where
  "lan_link s d i = \<lparr>npr_source_worker_id = s, npr_destination_worker_id = d, npr_source_interface_id = i, npr_destination_interface_id = i\<rparr>"

lemma lan_plan: "\<exists>p. plan_network_cases plan_library lan_strategy None [] None [lan_a, lan_b] = Inr p
  \<and> npl_classified_pairs p = [\<lparr>cpr_pair = lan_link ''a'' ''b'' None, cpr_path_class = CROSS_SUBNET\<rparr>, \<lparr>cpr_pair = lan_link ''b'' ''a'' None, cpr_path_class = CROSS_SUBNET\<rparr>]"
proof -
  have profiles: "\<exists>es. endpoint_profiles [lan_a, lan_b] = Inr es"
    by (simp add: endpoint_profiles_def check_endpoint_profile_def non_empty_def absent_or_def lan_interface_def)
  have pairs: "enumerate_pairs [lan_a, lan_b] = Inr [lan_link ''a'' ''b'' None, lan_link ''b'' ''a'' None]"
    by (simp add: enumerate_pairs_def make_pair_def check_network_pair_def non_empty_def absent_or_def lan_link_def)
  have paths: "enumerate_probe_paths [lan_a, lan_b] = Inr [lan_link ''a'' ''b'' (Some ''eth0''), lan_link ''b'' ''a'' (Some ''eth0'')]"
    by (simp add: enumerate_probe_paths_def make_pair_def check_network_pair_def non_empty_def absent_or_def lan_link_def ipv4_addresses_def demo_addresses)
  let ?cl = "[\<lparr>cpr_pair = lan_link ''a'' ''b'' None, cpr_path_class = CROSS_SUBNET\<rparr>, \<lparr>cpr_pair = lan_link ''b'' ''a'' None, cpr_path_class = CROSS_SUBNET\<rparr>]"
  have cl: "classify_pairs 24 [lan_a, lan_b] = Inr ?cl"
    by (simp add: classify_pairs_def pairs dict_of_def lan_link_def lan_classes)
  have known: "classify_known 24 [lan_a, lan_b] (lan_link s d i) = Inr CROSS_SUBNET"
    if "(s, d) = (''a'', ''b'') \<or> (s, d) = (''b'', ''a'')" "i = None \<or> i = Some ''eth0''" for s d i
    using that by (auto simp: classify_known_def known_pair_def dict_of_def lan_link_def lan_classes)
  have ab: "\<exists>c. network_case plan_library s (rtt_spec (lan_link s d i) k None) = Inr c"
    "\<exists>c. network_case plan_library s (bandwidth_spec_of (lan_link s d i) k TCP e (Fin 5) None) = Inr c"
    if "(s, d) = (''a'', ''b'') \<or> (s, d) = (''b'', ''a'')" "i = None \<or> i = Some ''eth0''" for s d i k e
  proof -
    have src: "npr_source_worker_id (lan_link s d i) = s" by (simp add: lan_link_def)
    have "npr_source_worker_id (lan_link s d i) \<noteq> []" "npr_destination_worker_id (lan_link s d i) \<noteq> []"
      "npr_source_worker_id (lan_link s d i) \<noteq> npr_destination_worker_id (lan_link s d i)"
      "npr_source_interface_id (lan_link s d i) \<noteq> Some []" "npr_destination_interface_id (lan_link s d i) \<noteq> Some []"
      using that by (auto simp: lan_link_def)
    from lan_cases [OF this] show "\<exists>c. network_case plan_library s (rtt_spec (lan_link s d i) k None) = Inr c"
      "\<exists>c. network_case plan_library s (bandwidth_spec_of (lan_link s d i) k TCP e (Fin 5) None) = Inr c" unfolding src .
  qed
  obtain r1 r2 where r: "network_case plan_library ''a'' (rtt_spec (lan_link ''a'' ''b'' (Some ''eth0'')) CROSS_SUBNET None) = Inr r1"
    "network_case plan_library ''b'' (rtt_spec (lan_link ''b'' ''a'' (Some ''eth0'')) CROSS_SUBNET None) = Inr r2"
    using ab(1) [of "''a''" "''b''" "Some ''eth0''" CROSS_SUBNET] ab(1) [of "''b''" "''a''" "Some ''eth0''" CROSS_SUBNET] by auto
  have rtt: "rtt_matrix_cases plan_library 24 None None [lan_a, lan_b] = Inr [r1, r2]"
    using r by (simp add: rtt_matrix_cases_def paths known) (simp add: lan_link_def)
  obtain b1 b2 where b: "network_case plan_library ''a'' (bandwidth_spec_of (lan_link ''a'' ''b'' None) CROSS_SUBNET TCP FORWARD (Fin 5) None) = Inr b1"
    "network_case plan_library ''a'' (bandwidth_spec_of (lan_link ''a'' ''b'' None) CROSS_SUBNET TCP REVERSE (Fin 5) None) = Inr b2"
    using ab(2) [of "''a''" "''b''" None CROSS_SUBNET FORWARD] ab(2) [of "''a''" "''b''" None CROSS_SUBNET REVERSE] by auto
  have sel: "select_bandwidth_pairs 1 [] ?cl = Inr [lan_link ''a'' ''b'' None]"
    by (simp add: select_bandwidth_pairs_def dict_fromkeys_def class_representatives_def sort_key_def add_pair_def pair_order_key_def lan_link_def)
  have "bandwidth_cases plan_library 24 1 [] TCP (Fin 5) None True None [lan_a, lan_b] = Inr [b1, b2]"
    using b by (simp add: bandwidth_cases_def cl sel known) (simp add: lan_link_def)
  with profiles cl rtt show ?thesis by (auto simp: plan_network_cases_def lan_strategy_def)
qed

lemma lan_plan_dense_and_sparse:
  "\<exists>p. plan_network_cases plan_library lan_strategy None [] None [lan_a, lan_b] = Inr p
     \<and> length (filter (\<lambda>c. flow_of (pcs_spec c) = Some (REVERSE, CROSS_SUBNET)) (npl_cases p)) = 1"
proof -
  obtain p where p: "plan_network_cases plan_library lan_strategy None [] None [lan_a, lan_b] = Inr p" and
    "npl_classified_pairs p = [\<lparr>cpr_pair = lan_link ''a'' ''b'' None, cpr_path_class = CROSS_SUBNET\<rparr>, \<lparr>cpr_pair = lan_link ''b'' ''a'' None, cpr_path_class = CROSS_SUBNET\<rparr>]"
    using lan_plan by blast
  moreover have "check_default_strategy lan_strategy = Inr ()" by (simp add: check_default_strategy_def lan_strategy_def)
  ultimately show ?thesis using network_plan_dense_and_sparse [OF _ p] by (auto simp: lan_strategy_def)
qed

end
