(* ===== verification/Benchmark.thy ===== *)
theory Benchmark
  imports Profiling_Runner
begin

section \<open>The benchmark harness\<close>

text \<open>
  \<^verbatim>\<open>profiling/benchmark/sampling.py\<close>, \<^verbatim>\<open>profiling/benchmark/harness.py\<close> and \<^verbatim>\<open>summarize_samples\<close> of \<^verbatim>\<open>profiling/domain/measurement.py\<close>:
  how often a workload is warmed up and measured and what is kept of it. The workload, the timer and the instruments are actions on
  an arbitrary world, each of which may raise. Durations are rationals without rounding; the square root of the standard deviation
  and the text of a float are parameters. The two clocks of a result are arguments. The branches for a sampling policy
  without a warmup rule are left out: \<^verbatim>\<open>DurationSamplingPolicy\<close> is the only policy of the repository.
\<close>

subsection \<open>Statistics\<close>

record statistics_library =
  stl_root :: "rat \<Rightarrow> rat"
  stl_repr :: "rat \<Rightarrow> string"

definition mean_of :: "rat list \<Rightarrow> rat" where
  "mean_of xs = sum_list xs / of_nat (length xs)"

definition median_of :: "rat list \<Rightarrow> rat" where
  "median_of xs = (let ordered = sort xs; n = length xs in
     if odd n then ordered ! (n div 2) else (ordered ! (n div 2 - 1) + ordered ! (n div 2)) / 2)"

definition stdev_of :: "statistics_library \<Rightarrow> rat list \<Rightarrow> rat" where
  "stdev_of S xs = (if length xs < 2 then 0
     else stl_root S (sum_list (map (\<lambda>x. (x - mean_of xs) * (x - mean_of xs)) xs) / of_nat (length xs - 1)))"

definition percentile_95 :: "nat \<Rightarrow> rat list \<Rightarrow> rat option" where
  "percentile_95 min_samples xs =
     (if min_samples \<le> length xs then Some (sort xs ! (min (nat \<lceil>95 / 100 * (of_nat (length xs) :: rat)\<rceil>) (length xs) - 1)) else None)"

definition finite_samples :: "pyfloat list \<Rightarrow> rat list res" where
  "finite_samples xs = traverse_res (\<lambda>x. case x of Fin r \<Rightarrow> Inr r | _ \<Rightarrow> Inl (ValueError ''samples must be finite'')) xs"

definition summarize_samples :: "statistics_library \<Rightarrow> int \<Rightarrow> pyfloat list \<Rightarrow> sample_summary res" where
  "summarize_samples S p95_min_samples samples =
     then_res (raise_if (samples = []) (ValueError ''cannot summarize an empty sample series''))
     (then_res (raise_if (p95_min_samples < 1) (ValueError ''p95_min_samples must be positive''))
     (bind_res (finite_samples samples) (\<lambda>xs.
     built check_sample_summary \<lparr>smm_mean = Fin (mean_of xs), smm_median = Fin (median_of xs), smm_stddev = Fin (stdev_of S xs),
       smm_minimum = Fin (hd (sort xs)), smm_maximum = Fin (last (sort xs)),
       smm_p95 = map_option Fin (percentile_95 (nat p95_min_samples) xs)\<rparr>)))"


subsection \<open>The sampling policy\<close>

record sampling_state =
  sms_warmup_runs :: int
  sms_measured_runs :: int
  sms_accumulated_ms :: rat

record sampling_policy =
  dsp_min_warmups :: int
  dsp_max_warmups :: int
  dsp_window_size :: int
  dsp_relative_tolerance :: pyfloat
  dsp_stable_windows_required :: int
  dsp_legacy_fixed_warmup :: bool
  dsp_enforce_stationarity :: bool
  dsp_min_runs :: int
  dsp_max_runs :: int
  dsp_target_duration_ms :: pyfloat

definition check_sampling_policy :: "sampling_policy \<Rightarrow> unit res" where
  "check_sampling_policy p = checks [
     raise_if (dsp_min_warmups p < 0) (ValueError ''min_warmups/min_warmup_runs must not be negative''),
     raise_if (dsp_max_warmups p < dsp_min_warmups p) (ValueError ''max_warmup_runs must not be below min_warmup_runs''),
     raise_if (dsp_window_size p < 1) (ValueError ''window_size must be positive''),
     raise_if (\<not> isfinite (dsp_relative_tolerance p) \<or> float_less (dsp_relative_tolerance p) (Fin 0))
       (ValueError ''relative_tolerance must be finite and non-negative''),
     raise_if (dsp_stable_windows_required p < 1) (ValueError ''stable_windows_required must be positive''),
     raise_if (dsp_min_runs p < 1) (ValueError ''min_runs must be at least 1''),
     raise_if (dsp_max_runs p < dsp_min_runs p) (ValueError ''max_runs must not be below min_runs''),
     raise_if (\<not> isfinite (dsp_target_duration_ms p) \<or> float_le (dsp_target_duration_ms p) (Fin 0))
       (ValueError ''target_duration_ms must be positive and finite'')]"

definition make_sampling_policy :: "int \<Rightarrow> int option \<Rightarrow> int \<Rightarrow> pyfloat \<Rightarrow> int \<Rightarrow> bool option \<Rightarrow> int option \<Rightarrow> int \<Rightarrow> int \<Rightarrow> pyfloat \<Rightarrow> sampling_policy res" where
  "make_sampling_policy min_warmup_runs max_warmup_runs window_size tolerance stable_windows enforce min_warmups min_runs max_runs target =
     (let legacy_fixed = min_warmups \<noteq> None \<and> max_warmup_runs = None;
          lower = (case min_warmups of Some n \<Rightarrow> n | None \<Rightarrow> min_warmup_runs);
          upper = (case max_warmup_runs of Some n \<Rightarrow> n | None \<Rightarrow> if legacy_fixed then lower else 50)
      in built check_sampling_policy \<lparr>dsp_min_warmups = lower, dsp_max_warmups = upper, dsp_window_size = window_size,
        dsp_relative_tolerance = tolerance, dsp_stable_windows_required = stable_windows, dsp_legacy_fixed_warmup = legacy_fixed,
        dsp_enforce_stationarity = (case enforce of None \<Rightarrow> \<not> legacy_fixed | Some b \<Rightarrow> b), dsp_min_runs = min_runs, dsp_max_runs = max_runs,
        dsp_target_duration_ms = target\<rparr>)"

definition samples_between :: "nat \<Rightarrow> nat \<Rightarrow> 'a list \<Rightarrow> 'a list" where
  "samples_between i j xs = take (j - i) (drop i xs)"

definition window_stable :: "sampling_policy \<Rightarrow> rat list \<Rightarrow> nat \<Rightarrow> bool" where
  "window_stable p samples offset =
     (let width = nat (dsp_window_size p); stop = length samples - offset;
          current = median_of (samples_between (stop - width) stop samples);
          previous = median_of (samples_between (stop - 2 * width) (stop - width) samples)
      in \<not> float_less (dsp_relative_tolerance p) (Fin (\<bar>current - previous\<bar> / max \<bar>current\<bar> (1 / 10 ^ 12))))"

definition warmup_converged :: "sampling_policy \<Rightarrow> rat list \<Rightarrow> bool" where
  "warmup_converged p samples =
     (let count = int (length samples); required = 2 * dsp_window_size p + dsp_stable_windows_required p - 1 in
      if dsp_legacy_fixed_warmup p then dsp_min_warmups p \<le> count
      else if count < max (dsp_min_warmups p) required then False
      else list_all (window_stable p samples) [0..<nat (dsp_stable_windows_required p)])"

definition should_continue_warmup :: "sampling_policy \<Rightarrow> rat list \<Rightarrow> bool" where
  "should_continue_warmup p samples =
     (if int (length samples) < dsp_min_warmups p then True
      else if warmup_converged p samples then False
      else int (length samples) < dsp_max_warmups p)"

definition should_continue :: "sampling_policy \<Rightarrow> sampling_state \<Rightarrow> bool" where
  "should_continue p s =
     (if dsp_max_runs p \<le> sms_measured_runs s then False
      else if sms_measured_runs s < dsp_min_runs p then True
      else float_less (Fin (sms_accumulated_ms s)) (dsp_target_duration_ms p))"


subsection \<open>Actions\<close>

type_synonym ('w, 'a) activity = "'w \<Rightarrow> 'w \<times> (work_exn + 'a)"

definition bind_act :: "'w \<times> (work_exn + 'a) \<Rightarrow> ('a \<Rightarrow> ('w, 'b) activity) \<Rightarrow> 'w \<times> (work_exn + 'b)" where
  "bind_act r f = (case r of (w, Inl e) \<Rightarrow> (w, Inl e) | (w, Inr x) \<Rightarrow> f x w)"

lemma bind_act_simps [simp]: "bind_act (w, Inl e) f = (w, Inl e)" "bind_act (w, Inr x) f = f x w"
  by (simp_all add: bind_act_def)

lemma bind_act_cong [fundef_cong]:
  "\<lbrakk>r = r'; \<And>w x. r' = (w, Inr x) \<Longrightarrow> f x w = g x w\<rbrakk> \<Longrightarrow> bind_act r f = bind_act r' g"
  by (auto simp: bind_act_def split: prod.split sum.split)

lemma bind_act_eq: "bind_act r f = (v, y) \<longleftrightarrow> (\<exists>e. r = (v, Inl e) \<and> y = Inl e) \<or> (\<exists>w x. r = (w, Inr x) \<and> f x w = (v, y))"
  by (cases r; cases "snd r") auto

record 'w bench =
  bch_prepare :: "('w, unit) activity"
  bch_run_once :: "('w, unit) activity"
  bch_reset :: "('w, unit) activity"
  bch_cleanup :: "('w, unit) activity"
  bch_timer_start :: "('w, unit) activity"
  bch_timer_stop :: "('w, pyfloat) activity"
  bch_stationarity_reliable :: bool
  bch_memory :: "(('w, unit) activity \<times> ('w, allocator_memory) activity) option"
  bch_physical :: "(('w, unit) activity \<times> ('w, unit) activity \<times> ('w, physical_memory) activity) option"
  bch_telemetry :: "(('w, unit) activity \<times> ('w, telemetry_context) activity) option"
  bch_environment_check :: "('w, unit) activity option"

text \<open>\<^verbatim>\<open>_guard\<close>: an error of the profiling code passes, any other is wrapped.\<close>

fun wrapped :: "string \<Rightarrow> work_exn \<Rightarrow> work_exn" where
  "wrapped message (Profiling_Error f) = Profiling_Error f"
| "wrapped message (Unexpected text) = profiling_error BENCHMARK_FAILED (message @ '': '' @ text) []"

definition guarded :: "('w, 'a) activity \<Rightarrow> string \<Rightarrow> ('w, 'a) activity" where
  "guarded act message w = (case act w of (v, Inl e) \<Rightarrow> (v, Inl (wrapped message e)) | (v, Inr x) \<Rightarrow> (v, Inr x))"

definition optionally :: "('w, 'a) activity option \<Rightarrow> string \<Rightarrow> ('w, 'a option) activity" where
  "optionally act message w = (case act of None \<Rightarrow> (w, Inr None) | Some a \<Rightarrow> bind_act (guarded a message w) (\<lambda>x w. (w, Inr (Some x))))"


subsection \<open>The steps of a run\<close>

definition validate_environment :: "'w bench \<Rightarrow> ('w, unit) activity" where
  "validate_environment b w =
     bind_act (optionally (bch_environment_check b) ''environment check failed'' w) (\<lambda>_ w.
     bind_act (optionally (map_option fst (bch_telemetry b)) ''telemetry capture failed'' w) (\<lambda>_ w. (w, Inr ())))"

definition timed_iteration :: "'w bench \<Rightarrow> string \<Rightarrow> ('w, rat) activity" where
  "timed_iteration b phase w =
     bind_act (guarded (bch_timer_start b) (''timer start failed during '' @ phase) w) (\<lambda>_ w.
     bind_act (guarded (bch_run_once b) (''workload '' @ phase @ '' run failed'') w) (\<lambda>_ w.
     bind_act (guarded (bch_timer_stop b) (''timer stop failed during '' @ phase) w) (\<lambda>elapsed w.
     case elapsed of
       Fin x \<Rightarrow> if x < 0 then (w, Inl (profiling_error BENCHMARK_FAILED ''timer returned an invalid elapsed duration'' [])) else (w, Inr x)
     | _ \<Rightarrow> (w, Inl (profiling_error BENCHMARK_FAILED ''timer returned an invalid elapsed duration'' [])))))"

fun fixed_warmup :: "'w bench \<Rightarrow> nat \<Rightarrow> ('w, unit) activity" where
  "fixed_warmup b 0 w = (w, Inr ())"
| "fixed_warmup b (Suc n) w = bind_act (guarded (bch_run_once b) ''workload warmup run failed'' w) (\<lambda>_ w. fixed_warmup b n w)"

function warmup_loop :: "'w bench \<Rightarrow> sampling_policy \<Rightarrow> rat list \<Rightarrow> ('w, rat list) activity" where
  "warmup_loop b p samples w =
     (if should_continue_warmup p samples
      then bind_act (timed_iteration b ''warmup'' w) (\<lambda>x w. warmup_loop b p (samples @ [x]) w)
      else (w, Inr samples))"
  by pat_completeness auto

termination
  by (relation "measure (\<lambda>(b, p, samples, w). nat (max (dsp_min_warmups p) (dsp_max_warmups p) - int (length samples)))")
    (auto simp: should_continue_warmup_def split: if_splits)

definition warmup :: "'w bench \<Rightarrow> sampling_policy \<Rightarrow> ('w, rat list \<times> bool) activity" where
  "warmup b p w =
     (if dsp_legacy_fixed_warmup p \<or> \<not> bch_stationarity_reliable b
      then bind_act (fixed_warmup b (nat (dsp_min_warmups p)) w) (\<lambda>_ w. (w, Inr ([], True)))
      else bind_act (warmup_loop b p [] w) (\<lambda>samples w. (w, Inr (samples, warmup_converged p samples))))"

function measure_loop :: "'w bench \<Rightarrow> sampling_policy \<Rightarrow> sampling_state \<Rightarrow> rat list \<Rightarrow> ('w, rat list) activity" where
  "measure_loop b p s samples w =
     (if should_continue p s
      then bind_act (timed_iteration b ''measured'' w) (\<lambda>x w.
           bind_act (optionally (map_option (fst \<circ> snd) (bch_physical b)) ''physical memory probe poll failed'' w) (\<lambda>_ w.
           measure_loop b p \<lparr>sms_warmup_runs = sms_warmup_runs s, sms_measured_runs = sms_measured_runs s + 1,
             sms_accumulated_ms = sms_accumulated_ms s + x\<rparr> (samples @ [x]) w))
      else (w, Inr samples))"
  by pat_completeness auto

termination
  by (relation "measure (\<lambda>(b, p, s, samples, w). nat (dsp_max_runs p - sms_measured_runs s))") (auto simp: should_continue_def split: if_splits)

definition measure_runs :: "'w bench \<Rightarrow> sampling_policy \<Rightarrow> ('w, rat list) activity" where
  "measure_runs b p = measure_loop b p \<lparr>sms_warmup_runs = dsp_min_warmups p, sms_measured_runs = 0, sms_accumulated_ms = 0\<rparr> []"

text \<open>\<^verbatim>\<open>json.dumps\<close> of the samples.\<close>

fun spaced :: "string list \<Rightarrow> string" where
  "spaced [] = []"
| "spaced [s] = s"
| "spaced (s # t # r) = s @ '', '' @ spaced (t # r)"

definition samples_json :: "statistics_library \<Rightarrow> rat list \<Rightarrow> json_scalar" where
  "samples_json S xs = SStr (''['' @ spaced (map (stl_repr S) xs) @ '']'')"

definition summary_of :: "statistics_library \<Rightarrow> rat list \<Rightarrow> work_exn + sample_summary" where
  "summary_of S xs = unexpected (summarize_samples S 5 (map Fin xs))"

definition unstable_warmup :: "statistics_library \<Rightarrow> rat list \<Rightarrow> sampling_policy \<Rightarrow> work_exn" where
  "unstable_warmup S xs p = (case (if xs = [] then Inr None else map_sum id Some (summary_of S xs)) of
     Inl e \<Rightarrow> e
   | Inr summary \<Rightarrow> profiling_error UNSTABLE_PERFORMANCE_STATE ''benchmark warmup did not converge before its run limit''
       [(''actual_warmup_runs'', SInt (int (length xs))), (''requested_min_warmup_runs'', SInt (dsp_min_warmups p)),
        (''warmup_converged'', SBool False),
        (''warmup_median_ms'', case summary of None \<Rightarrow> SNull | Some m \<Rightarrow> SFloat (smm_median m)), (''warmup_samples_ms_json'', samples_json S xs)])"

definition quality_of :: "statistics_library \<Rightarrow> rat list \<Rightarrow> work_exn + measurement_quality" where
  "quality_of S xs = (case summary_of S xs of
     Inl e \<Rightarrow> Inl e
   | Inr _ \<Rightarrow>
       (let coefficient = stdev_of S xs / max \<bar>mean_of xs\<bar> (1 / 10 ^ 12); split = length xs div 2;
            first = median_of (take split xs); second = median_of (drop split xs);
            drift = (if split = 0 then 0 else \<bar>second - first\<bar> / Max {\<bar>first\<bar>, \<bar>second\<bar>, 1 / 10 ^ 12});
            stationary = (drift \<le> 5 / 100)
        in unexpected (built check_measurement_quality \<lparr>mqu_stationary = stationary, mqu_drift_ratio = Fin drift,
             mqu_coefficient_of_variation = Fin coefficient, mqu_eligible_for_calibration = stationary\<rparr>)))"

definition unstable_measurement :: "statistics_library \<Rightarrow> rat list \<Rightarrow> measurement_quality \<Rightarrow> int \<Rightarrow> bool \<Rightarrow> work_exn" where
  "unstable_measurement S xs q warmups converged =
     profiling_error UNSTABLE_PERFORMANCE_STATE ''measured latency samples changed performance state during the run''
       [(''actual_warmup_runs'', SInt warmups), (''warmup_converged'', SBool converged), (''measured_runs'', SInt (int (length xs))),
        (''stationary'', SBool (mqu_stationary q)), (''drift_ratio'', SFloat (mqu_drift_ratio q)),
        (''coefficient_of_variation'', SFloat (mqu_coefficient_of_variation q)), (''samples_ms_json'', samples_json S xs)]"


subsection \<open>The run\<close>

record benchmark_result =
  bmr_started_at :: timestamp
  bmr_finished_at :: timestamp
  bmr_warmup_runs :: int
  bmr_measured_runs :: int
  bmr_samples_ms :: "rat list"
  bmr_summary :: sample_summary
  bmr_allocator_memory :: "allocator_memory option"
  bmr_physical_memory :: "physical_memory option"
  bmr_telemetry :: "telemetry_context option"
  bmr_requested_min_warmup_runs :: int
  bmr_warmup_converged :: bool
  bmr_quality :: "measurement_quality option"

record run_facts =
  rft_samples :: "rat list"
  rft_warmups :: int
  rft_converged :: bool
  rft_allocator :: "allocator_memory option"
  rft_physical :: "physical_memory option"
  rft_telemetry :: "telemetry_context option"
  rft_quality :: "measurement_quality option"

definition judge_quality :: "statistics_library \<Rightarrow> 'w bench \<Rightarrow> sampling_policy \<Rightarrow> rat list \<Rightarrow> int \<Rightarrow> bool \<Rightarrow> work_exn + measurement_quality option" where
  "judge_quality S b p xs warmups converged =
     (if xs = [] \<or> \<not> bch_stationarity_reliable b then Inr None
      else case quality_of S xs of
        Inl e \<Rightarrow> Inl e
      | Inr q \<Rightarrow> if \<not> mqu_stationary q \<and> dsp_enforce_stationarity p then Inl (unstable_measurement S xs q warmups converged) else Inr (Some q))"

definition closing_part :: "statistics_library \<Rightarrow> 'w bench \<Rightarrow> sampling_policy \<Rightarrow> int \<Rightarrow> bool \<Rightarrow> rat list \<Rightarrow> ('w, run_facts) activity" where
  "closing_part S b p warmups converged samples w =
     bind_act (optionally (map_option snd (bch_memory b)) ''memory instrumentation close failed'' w) (\<lambda>allocator w.
     bind_act (optionally (map_option (snd \<circ> snd) (bch_physical b)) ''physical memory probe close failed'' w) (\<lambda>physical w.
     bind_act (optionally (map_option snd (bch_telemetry b)) ''telemetry capture failed'' w) (\<lambda>telemetry w.
     bind_act (w, judge_quality S b p samples warmups converged) (\<lambda>quality w.
     (w, Inr \<lparr>rft_samples = samples, rft_warmups = warmups, rft_converged = converged, rft_allocator = allocator, rft_physical = physical,
       rft_telemetry = telemetry, rft_quality = quality\<rparr>)))))"

definition measured_part :: "statistics_library \<Rightarrow> 'w bench \<Rightarrow> sampling_policy \<Rightarrow> int \<Rightarrow> bool \<Rightarrow> ('w, run_facts) activity" where
  "measured_part S b p warmups converged w =
     bind_act (guarded (bch_reset b) ''workload reset failed'' w) (\<lambda>_ w.
     bind_act (optionally (map_option fst (bch_memory b)) ''memory instrumentation open failed'' w) (\<lambda>_ w.
     bind_act (optionally (map_option fst (bch_physical b)) ''physical memory probe open failed'' w) (\<lambda>_ w.
     bind_act (measure_runs b p w) (closing_part S b p warmups converged))))"

definition run_body :: "statistics_library \<Rightarrow> 'w bench \<Rightarrow> sampling_policy \<Rightarrow> ('w, run_facts) activity" where
  "run_body S b p w =
     bind_act (validate_environment b w) (\<lambda>_ w.
     bind_act (warmup b p w) (\<lambda>(warmups, converged) w.
     if \<not> converged then (w, Inl (unstable_warmup S warmups p))
     else measured_part S b p (if warmups \<noteq> [] then int (length warmups) else dsp_min_warmups p) converged w))"

text \<open>\<^verbatim>\<open>finally\<close>: a failing cleanup is reported only when nothing failed before it.\<close>

definition finish_with_cleanup :: "'w bench \<Rightarrow> 'w \<times> (work_exn + 'a) \<Rightarrow> 'w \<times> (work_exn + 'a)" where
  "finish_with_cleanup b r = (case r of (w, body) \<Rightarrow> (case bch_cleanup b w of
     (v, Inr _) \<Rightarrow> (v, body)
   | (v, Inl e) \<Rightarrow> (v, case body of Inl first \<Rightarrow> Inl first
       | Inr _ \<Rightarrow> Inl (profiling_error BENCHMARK_FAILED (''workload cleanup failed: '' @ work_text e) []))))"

definition run_benchmark :: "statistics_library \<Rightarrow> 'w bench \<Rightarrow> sampling_policy \<Rightarrow> timestamp \<Rightarrow> timestamp \<Rightarrow> ('w, benchmark_result) activity" where
  "run_benchmark S b p started finished w =
     bind_act (guarded (bch_prepare b) ''workload prepare failed'' w) (\<lambda>_ w.
     bind_act (finish_with_cleanup b (run_body S b p w)) (\<lambda>r w.
     if rft_samples r = [] then (w, Inl (profiling_error BENCHMARK_FAILED ''sampling policy produced no measured runs'' []))
     else
     bind_act (w, summary_of S (rft_samples r)) (\<lambda>summary w.
     (w, Inr \<lparr>bmr_started_at = started, bmr_finished_at = finished, bmr_warmup_runs = rft_warmups r, bmr_measured_runs = int (length (rft_samples r)),
        bmr_samples_ms = rft_samples r, bmr_summary = summary, bmr_allocator_memory = rft_allocator r, bmr_physical_memory = rft_physical r,
        bmr_telemetry = rft_telemetry r, bmr_requested_min_warmup_runs = dsp_min_warmups p, bmr_warmup_converged = rft_converged r,
        bmr_quality = rft_quality r\<rparr>))))"

declare warmup_loop.simps [simp del] measure_loop.simps [simp del]

end
