(* ===== verification/Benchmark_Safety.thy ===== *)
theory Benchmark_Safety
  imports Benchmark
begin

section \<open>The lifecycle of a benchmark\<close>

text \<open>
  What a run does to its workload, whatever the workload, the timer and the instruments do: the world is extended by a log of the
  calls to the workload, and the logged run is compared with the run itself (\<open>shadows\<close>), step by step.
\<close>

subsection \<open>Logged runs\<close>

datatype workload_call = C_Prepare | C_Run | C_Reset | C_Cleanup

definition logging :: "workload_call \<Rightarrow> ('w, 'a) activity \<Rightarrow> ('w \<times> workload_call list, 'a) activity" where
  "logging c act s = (case s of (w, l) \<Rightarrow> (case act w of (v, r) \<Rightarrow> ((v, l @ [c]), r)))"

definition silent :: "('w, 'a) activity \<Rightarrow> ('w \<times> workload_call list, 'a) activity" where
  "silent act s = (case s of (w, l) \<Rightarrow> (case act w of (v, r) \<Rightarrow> ((v, l), r)))"

definition logged :: "'w bench \<Rightarrow> ('w \<times> workload_call list) bench" where
  "logged b = \<lparr>bch_prepare = logging C_Prepare (bch_prepare b), bch_run_once = logging C_Run (bch_run_once b),
     bch_reset = logging C_Reset (bch_reset b), bch_cleanup = logging C_Cleanup (bch_cleanup b), bch_timer_start = silent (bch_timer_start b),
     bch_timer_stop = silent (bch_timer_stop b), bch_stationarity_reliable = bch_stationarity_reliable b,
     bch_memory = map_option (map_prod silent silent) (bch_memory b),
     bch_physical = map_option (map_prod silent (map_prod silent silent)) (bch_physical b),
     bch_telemetry = map_option (map_prod silent silent) (bch_telemetry b), bch_environment_check = map_option silent (bch_environment_check b)\<rparr>"

text \<open>The logged action does what the action does and appends calls that satisfy \<open>P\<close> together with the result.\<close>

definition shadows :: "('w \<times> workload_call list, 'a) activity \<Rightarrow> ('w, 'a) activity \<Rightarrow> (workload_call list \<Rightarrow> work_exn + 'a \<Rightarrow> bool) \<Rightarrow> bool" where
  "shadows a' a P \<longleftrightarrow> (\<forall>w l. \<exists>t. a' (w, l) = ((fst (a w), l @ t), snd (a w)) \<and> P t (snd (a w)))"

lemma shadows_weaken: "\<lbrakk>shadows a' a P; \<And>t r. P t r \<Longrightarrow> Q t r\<rbrakk> \<Longrightarrow> shadows a' a Q"
  unfolding shadows_def by meson

lemma shadows_logging: "shadows (logging c a) a (\<lambda>t r. t = [c])"
  by (simp add: shadows_def logging_def split: prod.split)

lemma shadows_silent: "shadows (silent a) a (\<lambda>t r. t = [])"
  by (simp add: shadows_def silent_def split: prod.split)

lemma shadows_return: "P [] r \<Longrightarrow> shadows (\<lambda>s. (s, r)) (\<lambda>w. (w, r)) P"
  by (simp add: shadows_def)

lemma shadows_bind:
  assumes a: "shadows a' a P" and f: "\<And>x. shadows (f' x) (f x) (Q x)"
    and err: "\<And>t e. P t (Inl e) \<Longrightarrow> R t (Inl e)" and ok: "\<And>t x u r. \<lbrakk>P t (Inr x); Q x u r\<rbrakk> \<Longrightarrow> R (t @ u) r"
  shows "shadows (\<lambda>s. bind_act (a' s) f') (\<lambda>w. bind_act (a w) f) R"
  unfolding shadows_def
proof (intro allI)
  fix w l
  obtain v r where aw: "a w = (v, r)" by force
  from a aw obtain t where t: "a' (w, l) = ((v, l @ t), r)" "P t r" unfolding shadows_def by (metis fst_conv snd_conv)
  show "\<exists>t. bind_act (a' (w, l)) f' = ((fst (bind_act (a w) f), l @ t), snd (bind_act (a w) f)) \<and> R t (snd (bind_act (a w) f))"
  proof (cases r)
    case (Inl e)
    with t aw err show ?thesis by (intro exI [of _ t]) simp
  next
    case (Inr x)
    from f obtain u where "f' x (v, l @ t) = ((fst (f x v), (l @ t) @ u), snd (f x v))" "Q x u (snd (f x v))" unfolding shadows_def by blast
    with t aw Inr ok show ?thesis by (intro exI [of _ "t @ u"]) simp
  qed
qed

lemma shadows_guarded:
  assumes "shadows a' a P"
  shows "shadows (guarded a' m) (guarded a m) (\<lambda>t r. case r of Inl e \<Rightarrow> (\<exists>d. P t (Inl d) \<and> e = wrapped m d) | Inr x \<Rightarrow> P t (Inr x))"
  unfolding shadows_def
proof (intro allI)
  fix w l
  obtain v r where aw: "a w = (v, r)" by force
  from assms aw obtain t where "a' (w, l) = ((v, l @ t), r)" "P t r" unfolding shadows_def by (metis fst_conv snd_conv)
  with aw show "\<exists>t. guarded a' m (w, l) = ((fst (guarded a m w), l @ t), snd (guarded a m w))
      \<and> (case snd (guarded a m w) of Inl e \<Rightarrow> \<exists>d. P t (Inl d) \<and> e = wrapped m d | Inr x \<Rightarrow> P t (Inr x))"
    by (intro exI [of _ t]) (auto simp: guarded_def split: sum.split)
qed

definition typed_result :: "work_exn + 'a \<Rightarrow> bool" where
  "typed_result r \<longleftrightarrow> (\<forall>e. r = Inl e \<longrightarrow> (\<exists>f. e = Profiling_Error f))"

lemma typed_result_simps [simp]:
  "typed_result (Inr x)" "typed_result (Inl e) \<longleftrightarrow> (\<exists>f. e = Profiling_Error f)" "\<exists>f. profiling_error c m d = Profiling_Error f" "\<exists>f. wrapped m e = Profiling_Error f"
  by (simp_all add: typed_result_def profiling_error_def) (cases e, simp_all add: profiling_error_def)

text \<open>A guarded call logs what the call logs and fails only with an error of the profiling code.\<close>

lemma guarded_logging: "shadows (guarded (logging c a) m) (guarded a m) (\<lambda>t r. t = [c] \<and> typed_result r)"
  by (rule shadows_weaken [OF shadows_guarded [OF shadows_logging]]) (auto split: sum.splits)

lemma guarded_silent: "shadows (guarded (silent a) m) (guarded a m) (\<lambda>t r. t = [] \<and> typed_result r)"
  by (rule shadows_weaken [OF shadows_guarded [OF shadows_silent]]) (auto split: sum.splits)

lemma optionally_silent: "shadows (optionally (map_option silent a) m) (optionally a m) (\<lambda>t r. t = [] \<and> typed_result r)"
proof (cases a)
  case None
  have "shadows (\<lambda>w. (w, Inr None)) (\<lambda>w. (w, Inr None)) (\<lambda>t r. t = [] \<and> typed_result r)" by (rule shadows_return) simp
  with None show ?thesis by (simp add: optionally_def [abs_def])
next
  case (Some act)
  have "shadows (\<lambda>s. bind_act (guarded (silent act) m s) (\<lambda>x w. (w, Inr (Some x)))) (\<lambda>w. bind_act (guarded act m w) (\<lambda>x w. (w, Inr (Some x))))
      (\<lambda>t r. t = [] \<and> typed_result r)"
    by (rule shadows_bind [OF guarded_silent, where Q = "\<lambda>x t r. t = [] \<and> typed_result r"]) (auto intro: shadows_return simp: typed_result_def)
  with Some show ?thesis by (simp add: optionally_def [abs_def])
qed

text \<open>An instrument before the rest of the run changes nothing of what is said about the rest, errors apart.\<close>

lemma optional_then:
  assumes "\<And>x. shadows (f' x) (f x) P" and "\<And>d. P [] (Inl (Profiling_Error d))"
  shows "shadows (\<lambda>w. bind_act (optionally (map_option silent a) m w) f') (\<lambda>w. bind_act (optionally a m w) f) P"
  by (rule shadows_bind [OF optionally_silent assms(1)]) (auto simp: assms(2))

lemma logged_simps [simp]:
  "bch_prepare (logged b) = logging C_Prepare (bch_prepare b)" "bch_run_once (logged b) = logging C_Run (bch_run_once b)"
  "bch_reset (logged b) = logging C_Reset (bch_reset b)" "bch_cleanup (logged b) = logging C_Cleanup (bch_cleanup b)"
  "bch_timer_start (logged b) = silent (bch_timer_start b)" "bch_timer_stop (logged b) = silent (bch_timer_stop b)"
  "bch_stationarity_reliable (logged b) = bch_stationarity_reliable b" "bch_environment_check (logged b) = map_option silent (bch_environment_check b)"
  "map_option fst (bch_memory (logged b)) = map_option silent (map_option fst (bch_memory b))"
  "map_option snd (bch_memory (logged b)) = map_option silent (map_option snd (bch_memory b))"
  "map_option fst (bch_physical (logged b)) = map_option silent (map_option fst (bch_physical b))"
  "map_option (fst \<circ> snd) (bch_physical (logged b)) = map_option silent (map_option (fst \<circ> snd) (bch_physical b))"
  "map_option (snd \<circ> snd) (bch_physical (logged b)) = map_option silent (map_option (snd \<circ> snd) (bch_physical b))"
  "map_option fst (bch_telemetry (logged b)) = map_option silent (map_option fst (bch_telemetry b))"
  "map_option snd (bch_telemetry (logged b)) = map_option silent (map_option snd (bch_telemetry b))"
  by (simp_all add: logged_def option.map_comp comp_def)


subsection \<open>Iterations and loops\<close>

text \<open>One timed iteration calls the workload once when it succeeds, at most once otherwise.\<close>

definition one_run :: "workload_call list \<Rightarrow> work_exn + rat \<Rightarrow> bool" where
  "one_run t r \<longleftrightarrow> typed_result r \<and> (t = [] \<or> t = [C_Run]) \<and> (\<forall>x. r = Inr x \<longrightarrow> t = [C_Run] \<and> 0 \<le> x)"

lemma timed_iteration_shadows: "shadows (timed_iteration (logged b) phase) (timed_iteration b phase) one_run"
proof -
  have stop: "shadows (\<lambda>s. bind_act (guarded (silent (bch_timer_stop b)) m s) (\<lambda>elapsed w. case elapsed of
       Fin x \<Rightarrow> if x < 0 then (w, Inl (profiling_error BENCHMARK_FAILED n [])) else (w, Inr x)
     | _ \<Rightarrow> (w, Inl (profiling_error BENCHMARK_FAILED n []))))
     (\<lambda>s. bind_act (guarded (bch_timer_stop b) m s) (\<lambda>elapsed w. case elapsed of
       Fin x \<Rightarrow> if x < 0 then (w, Inl (profiling_error BENCHMARK_FAILED n [])) else (w, Inr x)
     | _ \<Rightarrow> (w, Inl (profiling_error BENCHMARK_FAILED n [])))) (\<lambda>t r. t = [] \<and> typed_result r \<and> (\<forall>x. r = Inr x \<longrightarrow> 0 \<le> x))" for m n
    by (rule shadows_bind [OF guarded_silent, where Q = "\<lambda>x t r. t = [] \<and> typed_result r \<and> (\<forall>x. r = Inr x \<longrightarrow> 0 \<le> x)"])
      (auto intro!: shadows_return simp: shadows_def typed_result_def profiling_error_def split: pyfloat.split)
  show ?thesis unfolding timed_iteration_def [abs_def] logged_simps
    by (rule shadows_bind [OF guarded_silent shadows_bind [OF guarded_logging stop, where R = one_run]]) (auto simp: one_run_def typed_result_def)
qed

lemma fixed_warmup_shadows:
  "shadows (fixed_warmup (logged b) n) (fixed_warmup b n) (\<lambda>t r. typed_result r \<and> set t \<subseteq> {C_Run} \<and> (\<forall>x. r = Inr x \<longrightarrow> t = replicate n C_Run))"
proof (induction n)
  case 0
  have "shadows (\<lambda>w. (w, Inr ())) (\<lambda>w. (w, Inr ())) (\<lambda>t r. typed_result r \<and> set t \<subseteq> {C_Run} \<and> (\<forall>x. r = Inr x \<longrightarrow> t = replicate 0 C_Run))"
    by (rule shadows_return) simp
  then show ?case by (simp add: fixed_warmup.simps(1) [abs_def])
next
  case (Suc n)
  show ?case unfolding fixed_warmup.simps(2) [abs_def] logged_simps
    by (rule shadows_bind [OF guarded_logging Suc.IH]) auto
qed

definition ran :: "('a \<Rightarrow> bool) \<Rightarrow> ('a \<Rightarrow> nat) \<Rightarrow> workload_call list \<Rightarrow> work_exn + 'a \<Rightarrow> bool" where
  "ran good runs t r \<longleftrightarrow> typed_result r \<and> set t \<subseteq> {C_Run} \<and> (\<forall>x. r = Inr x \<longrightarrow> good x \<and> t = replicate (runs x) C_Run)"

lemma warmup_loop_shadows:
  "shadows (warmup_loop (logged b) p samples) (warmup_loop b p samples)
     (ran (\<lambda>xs. length samples \<le> length xs \<and> \<not> should_continue_warmup p xs
        \<and> (int (length samples) \<le> max (dsp_min_warmups p) (dsp_max_warmups p) \<longrightarrow> int (length xs) \<le> max (dsp_min_warmups p) (dsp_max_warmups p)))
        (\<lambda>xs. length xs - length samples))"
proof (induction "nat (max (dsp_min_warmups p) (dsp_max_warmups p) - int (length samples))" arbitrary: samples rule: less_induct)
  case less
  show ?case
  proof (cases "should_continue_warmup p samples")
    case False
    then have eq: "warmup_loop (logged b) p samples = (\<lambda>w. (w, Inr samples))" "warmup_loop b p samples = (\<lambda>w. (w, Inr samples))"
      by (simp_all add: fun_eq_iff warmup_loop.simps)
    show ?thesis unfolding eq by (rule shadows_return) (simp add: ran_def False)
  next
    case True
    then have eq: "warmup_loop (logged b) p samples = (\<lambda>w. bind_act (timed_iteration (logged b) ''warmup'' w) (\<lambda>x. warmup_loop (logged b) p (samples @ [x])))"
      "warmup_loop b p samples = (\<lambda>w. bind_act (timed_iteration b ''warmup'' w) (\<lambda>x. warmup_loop b p (samples @ [x])))"
      by (simp_all add: fun_eq_iff warmup_loop.simps [of _ _ samples])
    from True have small: "int (length samples) < max (dsp_min_warmups p) (dsp_max_warmups p)"
      by (auto simp: should_continue_warmup_def split: if_splits)
    show ?thesis unfolding eq
    proof (rule shadows_bind [OF timed_iteration_shadows less.hyps])
      show "nat (max (dsp_min_warmups p) (dsp_max_warmups p) - int (length (samples @ [x])))
          < nat (max (dsp_min_warmups p) (dsp_max_warmups p) - int (length samples))" for x using small by auto
    qed (use small in \<open>auto simp: one_run_def ran_def replicate_append_same Suc_diff_Suc simp flip: replicate_Suc\<close>)
  qed
qed


lemma warmup_shadows:
  assumes "0 \<le> dsp_min_warmups p" "dsp_min_warmups p \<le> dsp_max_warmups p" "1 \<le> dsp_window_size p" "1 \<le> dsp_stable_windows_required p"
  shows "shadows (warmup (logged b) p) (warmup b p) (\<lambda>t r. typed_result r \<and> set t \<subseteq> {C_Run} \<and> (\<forall>ws converged. r = Inr (ws, converged) \<and> converged \<longrightarrow>
     (let n = (if ws \<noteq> [] then int (length ws) else dsp_min_warmups p) in
      t = replicate (nat n) C_Run \<and> dsp_min_warmups p \<le> n \<and> n \<le> dsp_max_warmups p)))"
proof (cases "dsp_legacy_fixed_warmup p \<or> \<not> bch_stationarity_reliable b")
  case True
  show ?thesis using True unfolding warmup_def [abs_def] logged_simps
    apply (simp only: if_True)
    by (rule shadows_bind [OF fixed_warmup_shadows shadows_return, where Q = "\<lambda>x t r. t = [] \<and> r = Inr ([], True)"]) (use assms in auto)
next
  case False
  then have flags: "(dsp_legacy_fixed_warmup p \<or> \<not> bch_stationarity_reliable b) = False" by simp
  have none: "\<not> warmup_converged p []" if "\<not> dsp_legacy_fixed_warmup p" using that assms by (simp add: warmup_converged_def Let_def)
  show ?thesis unfolding warmup_def [abs_def] logged_simps flags if_False
    by (rule shadows_bind [OF warmup_loop_shadows [where samples = "[]"] shadows_return, where Q = "\<lambda>ws t r. t = [] \<and> r = Inr (ws, warmup_converged p ws)"])
      (use assms none False in \<open>auto simp: ran_def Let_def should_continue_warmup_def split: if_splits\<close>)
qed

text \<open>The measurement loop ends, between the two bounds, and not before the target duration unless at the upper bound.\<close>

definition measured_well :: "sampling_policy \<Rightarrow> rat list \<Rightarrow> bool" where
  "measured_well p xs \<longleftrightarrow> dsp_min_runs p \<le> int (length xs) \<and> int (length xs) \<le> dsp_max_runs p
     \<and> (int (length xs) < dsp_max_runs p \<longrightarrow> \<not> float_less (Fin (sum_list xs)) (dsp_target_duration_ms p))"

definition measured_from :: "sampling_policy \<Rightarrow> rat list \<Rightarrow> rat list \<Rightarrow> bool" where
  "measured_from p samples xs \<longleftrightarrow> length samples \<le> length xs \<and> measured_well p xs
     \<and> ((\<forall>x \<in> set samples. 0 \<le> x) \<longrightarrow> (\<forall>x \<in> set xs. 0 \<le> x))"

lemma measure_loop_shadows:
  assumes "dsp_min_runs p \<le> dsp_max_runs p" "sms_measured_runs s = int (length samples)" "sms_accumulated_ms s = sum_list samples"
    "int (length samples) \<le> dsp_max_runs p"
  shows "shadows (measure_loop (logged b) p s samples) (measure_loop b p s samples) (ran (measured_from p samples) (\<lambda>xs. length xs - length samples))"
  using assms(2-4)
proof (induction "nat (dsp_max_runs p - int (length samples))" arbitrary: s samples rule: less_induct)
  case less
  show ?case
  proof (cases "should_continue p s")
    case False
    then have eq: "measure_loop (logged b) p s samples = (\<lambda>w. (w, Inr samples))" "measure_loop b p s samples = (\<lambda>w. (w, Inr samples))"
      by (simp_all add: fun_eq_iff measure_loop.simps)
    show ?thesis unfolding eq
      by (rule shadows_return) (use False less.prems assms(1) in \<open>auto simp: ran_def measured_from_def measured_well_def should_continue_def split: if_splits\<close>)
  next
    case True
    let ?s = "\<lambda>x. \<lparr>sms_warmup_runs = sms_warmup_runs s, sms_measured_runs = sms_measured_runs s + 1, sms_accumulated_ms = sms_accumulated_ms s + x\<rparr>"
    from True have eq: "measure_loop c p s samples = (\<lambda>w. bind_act (timed_iteration c ''measured'' w) (\<lambda>x w.
         bind_act (optionally (map_option (fst \<circ> snd) (bch_physical c)) ''physical memory probe poll failed'' w) (\<lambda>_.
         measure_loop c p (?s x) (samples @ [x]))))" for c :: "'v bench"
      by (simp add: fun_eq_iff measure_loop.simps [of _ _ s])
    from True have small: "int (length samples) < dsp_max_runs p" using less.prems by (auto simp: should_continue_def split: if_splits)
    have next_run: "shadows (measure_loop (logged b) p (?s x) (samples @ [x])) (measure_loop b p (?s x) (samples @ [x]))
        (ran (measured_from p (samples @ [x])) (\<lambda>xs. length xs - length (samples @ [x])))" for x
      by (rule less.hyps) (use small less.prems in auto)
    have polled: "shadows (\<lambda>w. bind_act (optionally (map_option silent (map_option (fst \<circ> snd) (bch_physical b))) m w)
          (\<lambda>_. measure_loop (logged b) p (?s x) (samples @ [x])))
        (\<lambda>w. bind_act (optionally (map_option (fst \<circ> snd) (bch_physical b)) m w) (\<lambda>_. measure_loop b p (?s x) (samples @ [x])))
        (ran (measured_from p (samples @ [x])) (\<lambda>xs. length xs - length (samples @ [x])))" for x m
      by (rule shadows_bind [OF optionally_silent next_run]) (auto simp: ran_def)
    show ?thesis unfolding eq logged_simps
      by (rule shadows_bind [OF timed_iteration_shadows polled]) (auto simp: one_run_def ran_def measured_from_def Suc_diff_Suc simp flip: replicate_Suc)
  qed
qed

lemma measure_runs_shadows:
  assumes "0 \<le> dsp_max_runs p" "dsp_min_runs p \<le> dsp_max_runs p"
  shows "shadows (measure_runs (logged b) p) (measure_runs b p) (ran (\<lambda>xs. measured_well p xs \<and> (\<forall>x \<in> set xs. 0 \<le> x)) length)"
  unfolding measure_runs_def
  by (rule shadows_weaken [OF measure_loop_shadows]) (use assms in \<open>auto simp: ran_def measured_from_def\<close>)


subsection \<open>Statistics of finite samples do not fail\<close>

lemma finite_samples_Fin [simp]: "finite_samples (map Fin xs) = Inr xs"
  by (simp add: finite_samples_def traverse_res_Inr list_all2_conv_all_nth)

lemma summary_of_ok:
  assumes "xs \<noteq> []" "\<And>x. 0 \<le> x \<Longrightarrow> 0 \<le> stl_root S x"
  shows "\<exists>m. summary_of S xs = Inr m"
proof -
  have "0 \<le> sum_list (map (\<lambda>x. (x - mean_of xs) * (x - mean_of xs)) xs)" by (rule sum_list_nonneg) auto
  then have sd: "0 \<le> stdev_of S xs" using assms(2) by (simp add: stdev_of_def)
  have bounds: "hd (sort xs) \<le> y \<and> y \<le> last (sort xs)" if "y \<in> set xs" for y
  proof -
    from that obtain i where i: "i < length (sort xs)" "y = sort xs ! i" by (metis in_set_conv_nth set_sort)
    then have "sort xs ! 0 \<le> sort xs ! i" "sort xs ! i \<le> sort xs ! (length xs - 1)" by (auto intro!: sorted_nth_mono)
    moreover have "sort xs \<noteq> []" using assms(1) by (metis set_empty set_sort)
    ultimately show ?thesis using i by (simp add: hd_conv_nth last_conv_nth)
  qed
  have "last (sort xs) \<in> set xs" using assms(1) by (metis last_in_set set_empty set_sort)
  then have "hd (sort xs) \<le> last (sort xs)" using bounds by blast
  moreover have "hd (sort xs) \<le> q \<and> q \<le> last (sort xs)" if "percentile_95 n xs = Some q" for n q
  proof -
    from that have q: "q = sort xs ! (min (nat \<lceil>95 / 100 * (of_nat (length xs) :: rat)\<rceil>) (length xs) - 1)"
      by (auto simp: percentile_95_def split: if_splits)
    have "min (nat \<lceil>95 / 100 * (of_nat (length xs) :: rat)\<rceil>) (length xs) - 1 < length (sort xs)" using assms(1) by (cases xs) auto
    then have "q \<in> set (sort xs)" unfolding q by (rule nth_mem)
    then show ?thesis using bounds by simp
  qed
  ultimately show ?thesis using assms(1) sd
    by (auto simp: summary_of_def summarize_samples_def check_sample_summary_def checks_Inr finite_float_def absent_or_def present_check_def
        built_def unexpected_def split: option.split)
qed

lemma quality_built:
  "\<lbrakk>0 \<le> c; 0 \<le> d\<rbrakk> \<Longrightarrow> \<exists>q. unexpected (built check_measurement_quality \<lparr>mqu_stationary = b, mqu_drift_ratio = Fin d, mqu_coefficient_of_variation = Fin c,
     mqu_eligible_for_calibration = b\<rparr>) = Inr q \<and> mqu_eligible_for_calibration q = mqu_stationary q"
  by (simp add: check_measurement_quality_def built_def unexpected_def)

lemma quality_of_ok:
  assumes "xs \<noteq> []" "\<And>x. 0 \<le> x \<Longrightarrow> 0 \<le> stl_root S x"
  shows "\<exists>q. quality_of S xs = Inr q \<and> mqu_eligible_for_calibration q = mqu_stationary q"
proof -
  obtain m where m: "summary_of S xs = Inr m" using summary_of_ok [OF assms] by blast
  have "0 \<le> sum_list (map (\<lambda>x. (x - mean_of xs) * (x - mean_of xs)) xs)" by (rule sum_list_nonneg) auto
  then have "0 \<le> stdev_of S xs" using assms(2) by (simp add: stdev_of_def)
  then have c: "0 \<le> stdev_of S xs / max \<bar>mean_of xs\<bar> (1 / 10 ^ 12)" by (intro divide_nonneg_nonneg) auto
  have "0 \<le> Max {\<bar>x\<bar>, \<bar>y\<bar>, 1 / 10 ^ 12 :: rat}" for x y by (rule order_trans [of _ "1 / 10 ^ 12"]) auto
  then have d: "0 \<le> \<bar>y - x\<bar> / Max {\<bar>x\<bar>, \<bar>y\<bar>, 1 / 10 ^ 12 :: rat}" for x y by (intro divide_nonneg_nonneg) auto
  show ?thesis unfolding quality_of_def m sum.case Let_def
    by (rule quality_built [OF c]) (use d in \<open>simp del: Max_insert\<close>)
qed


subsection \<open>The whole run\<close>

definition clean_facts :: "sampling_policy \<Rightarrow> run_facts \<Rightarrow> bool" where
  "clean_facts p x \<longleftrightarrow> rft_converged x \<and> dsp_min_warmups p \<le> rft_warmups x \<and> rft_warmups x \<le> dsp_max_warmups p
     \<and> measured_well p (rft_samples x) \<and> (\<forall>s \<in> set (rft_samples x). 0 \<le> s)
     \<and> (\<forall>q. rft_quality x = Some q \<longrightarrow> dsp_enforce_stationarity p \<longrightarrow> mqu_stationary q)"

definition body_calls :: "sampling_policy \<Rightarrow> workload_call list \<Rightarrow> work_exn + run_facts \<Rightarrow> bool" where
  "body_calls p t r \<longleftrightarrow> typed_result r \<and> set t \<subseteq> {C_Run, C_Reset} \<and> (\<forall>x. r = Inr x \<longrightarrow> clean_facts p x
     \<and> t = replicate (nat (rft_warmups x)) C_Run @ [C_Reset] @ replicate (length (rft_samples x)) C_Run)"

lemma judge_quality_ok:
  assumes "\<And>x. 0 \<le> x \<Longrightarrow> 0 \<le> stl_root S x"
  shows "typed_result (judge_quality S b p xs n c)"
    "judge_quality S b p xs n c = Inr (Some q) \<Longrightarrow> dsp_enforce_stationarity p \<Longrightarrow> mqu_stationary q"
  using quality_of_ok [of xs S] assms
  by (auto simp: judge_quality_def unstable_measurement_def split: sum.splits if_splits)

lemma unstable_warmup_typed:
  assumes "\<And>x. 0 \<le> x \<Longrightarrow> 0 \<le> stl_root S x"
  shows "\<exists>f. unstable_warmup S xs p = Profiling_Error f"
  using summary_of_ok [of xs S] assms by (cases "xs = []") (auto simp: unstable_warmup_def)

definition closed_well :: "sampling_policy \<Rightarrow> int \<Rightarrow> rat list \<Rightarrow> workload_call list \<Rightarrow> work_exn + run_facts \<Rightarrow> bool" where
  "closed_well p n samples t r \<longleftrightarrow> typed_result r \<and> t = [] \<and> (\<forall>x. r = Inr x \<longrightarrow> rft_samples x = samples \<and> rft_warmups x = n \<and> rft_converged x
     \<and> (\<forall>q. rft_quality x = Some q \<longrightarrow> dsp_enforce_stationarity p \<longrightarrow> mqu_stationary q))"

lemma closing_shadows:
  assumes root: "\<And>x. 0 \<le> x \<Longrightarrow> 0 \<le> stl_root S x"
  shows "shadows (closing_part S (logged b) p n True samples) (closing_part S b p n True samples) (closed_well p n samples)"
proof -
  have judged: "judge_quality S (logged b) p samples n True = judge_quality S b p samples n True" by (simp add: judge_quality_def)
  have verdict: "shadows (\<lambda>w. bind_act (w, judge_quality S b p samples n True) (\<lambda>quality w. (w, Inr (f quality))))
     (\<lambda>w. bind_act (w, judge_quality S b p samples n True) (\<lambda>quality w. (w, Inr (f quality)))) (closed_well p n samples)"
    if "\<And>quality. rft_samples (f quality) = samples \<and> rft_warmups (f quality) = n \<and> rft_converged (f quality) \<and> rft_quality (f quality) = quality" for f
    using judge_quality_ok [OF root, of b p samples n True] that
    by (cases "judge_quality S b p samples n True") (auto simp: shadows_def bind_act_def closed_well_def)
  show ?thesis unfolding closing_part_def [abs_def] logged_simps judged
    by (intro optional_then verdict) (auto simp: closed_well_def)
qed

lemma measured_part_shadows:
  assumes policy: "0 \<le> dsp_max_runs p" "dsp_min_runs p \<le> dsp_max_runs p" and root: "\<And>x. 0 \<le> x \<Longrightarrow> 0 \<le> stl_root S x"
  shows "shadows (measured_part S (logged b) p n True) (measured_part S b p n True)
   (\<lambda>t r. typed_result r \<and> set t \<subseteq> {C_Run, C_Reset} \<and> (\<forall>x. r = Inr x \<longrightarrow> (dsp_min_warmups p \<le> n \<and> n \<le> dsp_max_warmups p \<longrightarrow> clean_facts p x)
     \<and> rft_warmups x = n \<and> t = [C_Reset] @ replicate (length (rft_samples x)) C_Run))"
proof -
  let ?R = "\<lambda>t r. typed_result r \<and> set t \<subseteq> {C_Run} \<and> (\<forall>x. r = Inr x \<longrightarrow> (dsp_min_warmups p \<le> n \<and> n \<le> dsp_max_warmups p \<longrightarrow> clean_facts p x)
    \<and> rft_warmups x = n \<and> t = replicate (length (rft_samples x)) C_Run)"
  have "shadows (\<lambda>w. bind_act (measure_runs (logged b) p w) (closing_part S (logged b) p n True))
      (\<lambda>w. bind_act (measure_runs b p w) (closing_part S b p n True)) ?R"
    by (rule shadows_bind [OF measure_runs_shadows [OF policy] closing_shadows [OF root]])
      (auto simp: ran_def clean_facts_def closed_well_def)
  then show ?thesis unfolding measured_part_def [abs_def] logged_simps
    by (intro shadows_bind [OF guarded_logging, where Q = "\<lambda>_. ?R"] optional_then) auto
qed

lemma run_body_shadows:
  assumes "check_sampling_policy p = Inr ()" and root: "\<And>x. 0 \<le> x \<Longrightarrow> 0 \<le> stl_root S x"
  shows "shadows (run_body S (logged b) p) (run_body S b p) (body_calls p)"
proof -
  from assms(1) have p: "0 \<le> dsp_min_warmups p" "dsp_min_warmups p \<le> dsp_max_warmups p" "1 \<le> dsp_window_size p" "1 \<le> dsp_stable_windows_required p"
    "0 \<le> dsp_max_runs p" "dsp_min_runs p \<le> dsp_max_runs p"
    by (auto simp: check_sampling_policy_def checks_Inr)
  let ?W = "\<lambda>t r. typed_result r \<and> set t \<subseteq> {C_Run} \<and> (\<forall>ws converged. r = Inr (ws, converged) \<and> converged \<longrightarrow>
     (let n = (if ws \<noteq> [] then int (length ws) else dsp_min_warmups p) in
      t = replicate (nat n) C_Run \<and> dsp_min_warmups p \<le> n \<and> n \<le> dsp_max_warmups p))"
  let ?next = "\<lambda>b (ws, converged) w. if \<not> converged then (w, Inl (unstable_warmup S ws p))
     else measured_part S b p (if ws \<noteq> [] then int (length ws) else dsp_min_warmups p) converged w"
  let ?M = "\<lambda>(ws, converged) t r. let n = (if ws \<noteq> [] then int (length ws) else dsp_min_warmups p) in
     typed_result r \<and> set t \<subseteq> {C_Run, C_Reset} \<and> (\<forall>x. r = Inr x \<longrightarrow> converged \<and> (dsp_min_warmups p \<le> n \<and> n \<le> dsp_max_warmups p \<longrightarrow> clean_facts p x)
       \<and> rft_warmups x = n \<and> t = [C_Reset] @ replicate (length (rft_samples x)) C_Run)"
  have next_part: "shadows (?next (logged b) x) (?next b x) (?M x)" for x
  proof (cases x)
    case (Pair ws converged)
    show ?thesis
    proof (cases converged)
      case True
      with Pair measured_part_shadows [OF p(5,6) root, of b "if ws \<noteq> [] then int (length ws) else dsp_min_warmups p"]
      show ?thesis by (simp add: Let_def)
    next
      case False
      have "shadows (\<lambda>w. (w, Inl (unstable_warmup S ws p))) (\<lambda>w. (w, Inl (unstable_warmup S ws p))) (?M (ws, False))"
        by (rule shadows_return) (use unstable_warmup_typed [OF root] in \<open>auto simp: Let_def\<close>)
      with Pair False show ?thesis by simp
    qed
  qed
  have checked: "shadows (validate_environment (logged b)) (validate_environment b) (\<lambda>t r. t = [] \<and> typed_result r)"
    unfolding validate_environment_def [abs_def] logged_simps
    by (intro optional_then shadows_return) auto
  have "shadows (\<lambda>w. bind_act (warmup (logged b) p w) (?next (logged b))) (\<lambda>w. bind_act (warmup b p w) (?next b)) (body_calls p)"
    by (rule shadows_bind [OF warmup_shadows [OF p(1-4)] next_part]) (auto simp: body_calls_def Let_def split: if_splits)
  then have "shadows (\<lambda>w. bind_act (validate_environment (logged b) w) (\<lambda>_ w. bind_act (warmup (logged b) p w) (?next (logged b))))
      (\<lambda>w. bind_act (validate_environment b w) (\<lambda>_ w. bind_act (warmup b p w) (?next b))) (body_calls p)"
    by (intro shadows_bind [OF checked, where Q = "\<lambda>_. body_calls p"]) (auto simp: body_calls_def)
  then show ?thesis unfolding run_body_def [abs_def] .
qed

text \<open>The log of a whole run.\<close>

definition lifecycle :: "sampling_policy \<Rightarrow> workload_call list \<Rightarrow> work_exn + benchmark_result \<Rightarrow> bool" where
  "lifecycle p t r \<longleftrightarrow> typed_result r
     \<and> (t = [C_Prepare] \<and> (\<exists>e. r = Inl e) \<or> (\<exists>u. t = C_Prepare # u @ [C_Cleanup] \<and> set u \<subseteq> {C_Run, C_Reset}))
     \<and> (\<forall>x. r = Inr x \<longrightarrow>
          t = [C_Prepare] @ replicate (nat (bmr_warmup_runs x)) C_Run @ [C_Reset] @ replicate (nat (bmr_measured_runs x)) C_Run @ [C_Cleanup]
          \<and> bmr_measured_runs x = int (length (bmr_samples_ms x)) \<and> measured_well p (bmr_samples_ms x) \<and> (\<forall>s \<in> set (bmr_samples_ms x). 0 \<le> s)
          \<and> dsp_min_warmups p \<le> bmr_warmup_runs x \<and> bmr_warmup_runs x \<le> dsp_max_warmups p
          \<and> (\<forall>q. bmr_quality x = Some q \<longrightarrow> dsp_enforce_stationarity p \<longrightarrow> mqu_stationary q))"

lemma finish_shadows:
  assumes "shadows a' a P"
  shows "shadows (\<lambda>s. finish_with_cleanup (logged b) (a' s)) (\<lambda>w. finish_with_cleanup b (a w))
    (\<lambda>t r. \<exists>u d. t = u @ [C_Cleanup] \<and> P u d \<and> (r = d \<or> (\<exists>x. d = Inr x) \<and> (\<exists>f. r = Inl (Profiling_Error f))))"
  unfolding shadows_def
proof (intro allI)
  fix w l
  obtain v r where aw: "a w = (v, r)" by force
  from assms aw obtain t where t: "a' (w, l) = ((v, l @ t), r)" "P t r" unfolding shadows_def by (metis fst_conv snd_conv)
  obtain v' c where c: "bch_cleanup b v = (v', c)" by force
  show "\<exists>t. finish_with_cleanup (logged b) (a' (w, l)) = ((fst (finish_with_cleanup b (a w)), l @ t), snd (finish_with_cleanup b (a w)))
      \<and> (\<exists>u d. t = u @ [C_Cleanup] \<and> P u d \<and> (snd (finish_with_cleanup b (a w)) = d
          \<or> (\<exists>x. d = Inr x) \<and> (\<exists>f. snd (finish_with_cleanup b (a w)) = Inl (Profiling_Error f))))"
    by (rule exI [of _ "t @ [C_Cleanup]"])
      (use t aw c in \<open>auto simp: finish_with_cleanup_def logging_def profiling_error_def split: sum.split\<close>)
qed

definition result_part :: "statistics_library \<Rightarrow> sampling_policy \<Rightarrow> timestamp \<Rightarrow> timestamp \<Rightarrow> run_facts \<Rightarrow> work_exn + benchmark_result" where
  "result_part S p started finished r =
     (if rft_samples r = [] then Inl (profiling_error BENCHMARK_FAILED ''sampling policy produced no measured runs'' [])
      else map_sum id (\<lambda>summary. \<lparr>bmr_started_at = started, bmr_finished_at = finished, bmr_warmup_runs = rft_warmups r,
        bmr_measured_runs = int (length (rft_samples r)), bmr_samples_ms = rft_samples r, bmr_summary = summary,
        bmr_allocator_memory = rft_allocator r, bmr_physical_memory = rft_physical r, bmr_telemetry = rft_telemetry r,
        bmr_requested_min_warmup_runs = dsp_min_warmups p, bmr_warmup_converged = rft_converged r, bmr_quality = rft_quality r\<rparr>)
        (summary_of S (rft_samples r)))"

lemma run_benchmark_parts:
  "run_benchmark S b p started finished w =
     bind_act (guarded (bch_prepare b) ''workload prepare failed'' w) (\<lambda>_ w.
     bind_act (finish_with_cleanup b (run_body S b p w)) (\<lambda>r w. (w, result_part S p started finished r)))"
proof -
  have "(if rft_samples r = [] then (v, Inl (profiling_error BENCHMARK_FAILED ''sampling policy produced no measured runs'' []))
     else bind_act (v, summary_of S (rft_samples r)) (\<lambda>summary w.
     (w, Inr \<lparr>bmr_started_at = started, bmr_finished_at = finished, bmr_warmup_runs = rft_warmups r, bmr_measured_runs = int (length (rft_samples r)),
        bmr_samples_ms = rft_samples r, bmr_summary = summary, bmr_allocator_memory = rft_allocator r, bmr_physical_memory = rft_physical r,
        bmr_telemetry = rft_telemetry r, bmr_requested_min_warmup_runs = dsp_min_warmups p, bmr_warmup_converged = rft_converged r,
        bmr_quality = rft_quality r\<rparr>))) = (v, result_part S p started finished r)" for r and v :: 'a
    by (cases "summary_of S (rft_samples r)") (simp_all add: result_part_def)
  then show ?thesis by (simp only: run_benchmark_def)
qed

lemma benchmark_shadows:
  assumes policy: "check_sampling_policy p = Inr ()" and root: "\<And>x. 0 \<le> x \<Longrightarrow> 0 \<le> stl_root S x"
  shows "shadows (run_benchmark S (logged b) p started finished) (run_benchmark S b p started finished) (lifecycle p)"
proof -
  let ?F = "\<lambda>t r. \<exists>u d. t = u @ [C_Cleanup] \<and> body_calls p u d \<and> (r = d \<or> (\<exists>x. d = Inr x) \<and> (\<exists>f. r = Inl (Profiling_Error f)))"
  have sound: "typed_result (result_part S p started finished x) \<and> (\<forall>y. result_part S p started finished x = Inr y \<longrightarrow>
      bmr_warmup_runs y = rft_warmups x \<and> bmr_measured_runs y = int (length (rft_samples x))
      \<and> bmr_samples_ms y = rft_samples x \<and> bmr_quality y = rft_quality x)" for x
  proof (cases "rft_samples x = []")
    case False
    then obtain m where "summary_of S (rft_samples x) = Inr m" using summary_of_ok root by blast
    with False show ?thesis by (auto simp: result_part_def)
  qed (simp add: result_part_def)
  have body: "shadows (\<lambda>s. bind_act (finish_with_cleanup (logged b) (run_body S (logged b) p s)) (\<lambda>r w. (w, result_part S p started finished r)))
      (\<lambda>w. bind_act (finish_with_cleanup b (run_body S b p w)) (\<lambda>r w. (w, result_part S p started finished r)))
      (\<lambda>t r. lifecycle p (C_Prepare # t) r)"
  proof (rule shadows_bind [OF finish_shadows [OF run_body_shadows [OF policy root]]])
    show "shadows (\<lambda>w. (w, result_part S p started finished x)) (\<lambda>w. (w, result_part S p started finished x))
        (\<lambda>t r. t = [] \<and> r = result_part S p started finished x)" for x
      by (rule shadows_return) simp
    show "lifecycle p (C_Prepare # t) (Inl e)" if "?F t (Inl e)" for t e
      using that by (auto simp: lifecycle_def body_calls_def)
    show "lifecycle p (C_Prepare # (t @ u)) r" if "?F t (Inr x)" "u = [] \<and> r = result_part S p started finished x" for t x u r
      using that sound [of x] by (auto simp: lifecycle_def body_calls_def clean_facts_def)
  qed
  show ?thesis unfolding run_benchmark_parts [abs_def] logged_simps
    by (rule shadows_bind [OF guarded_logging body]) (auto simp: lifecycle_def)
qed

text \<open>[C40] The lifecycle of a benchmark, whatever the workload, the timer and the instruments do, for every sampling policy the
  constructor accepts, with durations as exact rationals and a square root that is not negative. The workload is prepared once
  and first. If that succeeds it is cleaned up exactly once, as the last call, also when anything before has failed; if it fails
  nothing else is called. Every failure is a typed profiling error. And a
  result comes only out of the full sequence: as many warmup runs as it reports, within the bounds of the policy, one reset, as
  many measured runs as it has samples, within the bounds and up to the target duration unless at the upper bound, no
  negative sample, and a stationary series if the policy enforces it and stationarity could be judged. The run itself is
  the same with and without the log of the calls.\<close>

theorem benchmark_lifecycle:
  assumes "check_sampling_policy p = Inr ()" "\<And>x. 0 \<le> x \<Longrightarrow> 0 \<le> stl_root S x"
  shows "\<exists>calls. run_benchmark S (logged b) p started finished (w, [])
      = ((fst (run_benchmark S b p started finished w), calls), snd (run_benchmark S b p started finished w))
    \<and> lifecycle p calls (snd (run_benchmark S b p started finished w))"
  using benchmark_shadows [OF assms, of b started finished] unfolding shadows_def by (metis append_Nil)

definition demo_policy :: sampling_policy where
  "demo_policy = \<lparr>dsp_min_warmups = 1, dsp_max_warmups = 1, dsp_window_size = 1, dsp_relative_tolerance = Fin 0, dsp_stable_windows_required = 1,
     dsp_legacy_fixed_warmup = True, dsp_enforce_stationarity = False, dsp_min_runs = 1, dsp_max_runs = 5, dsp_target_duration_ms = Fin 15\<rparr>"

text \<open>A workload that counts its runs, takes ten milliseconds each time and fails from the run \<open>n\<close> on.\<close>

definition demo_bench :: "nat \<Rightarrow> nat bench" where
  "demo_bench n = \<lparr>bch_prepare = (\<lambda>w. (w, Inr ())),
     bch_run_once = (\<lambda>w. if n \<le> w then (w, Inl (Unexpected ''boom'')) else (w + 1, Inr ())), bch_reset = (\<lambda>w. (w, Inr ())),
     bch_cleanup = (\<lambda>w. (w, Inr ())), bch_timer_start = (\<lambda>w. (w, Inr ())), bch_timer_stop = (\<lambda>w. (w, Inr (Fin 10))),
     bch_stationarity_reliable = True, bch_memory = None, bch_physical = None, bch_telemetry = None, bch_environment_check = None\<rparr>"

definition demo_stats :: statistics_library where
  "demo_stats = \<lparr>stl_root = (\<lambda>x. x), stl_repr = (\<lambda>_. ''10.0'')\<rparr>"

lemma demo_benchmark_runs:
  "map_sum (\<lambda>_. ()) (\<lambda>x. (bmr_warmup_runs x, bmr_measured_runs x))
     (snd (run_benchmark demo_stats (demo_bench 9) demo_policy \<lparr>ts_value = 0, ts_aware = True\<rparr> \<lparr>ts_value = 1, ts_aware = True\<rparr> 0)) = Inr (1, 2)"
  by code_simp

theorem benchmark_lifecycle_witness:
  "\<exists>x s. run_benchmark demo_stats (logged (demo_bench 9)) demo_policy \<lparr>ts_value = 0, ts_aware = True\<rparr> \<lparr>ts_value = 1, ts_aware = True\<rparr> (0, [])
     = ((s, [C_Prepare, C_Run, C_Reset, C_Run, C_Run, C_Cleanup]), Inr x)"
proof -
  let ?r = "run_benchmark demo_stats (demo_bench 9) demo_policy \<lparr>ts_value = 0, ts_aware = True\<rparr> \<lparr>ts_value = 1, ts_aware = True\<rparr> 0"
  obtain x where x: "snd ?r = Inr x" "bmr_warmup_runs x = 1" "bmr_measured_runs x = 2"
    using demo_benchmark_runs by (cases "snd ?r") auto
  have policy: "check_sampling_policy demo_policy = Inr ()" by code_simp
  have root: "0 \<le> y \<Longrightarrow> 0 \<le> stl_root demo_stats y" for y by (simp add: demo_stats_def)
  have "\<exists>calls. run_benchmark demo_stats (logged (demo_bench 9)) demo_policy \<lparr>ts_value = 0, ts_aware = True\<rparr> \<lparr>ts_value = 1, ts_aware = True\<rparr> (0, [])
      = ((fst ?r, calls), snd ?r) \<and> lifecycle demo_policy calls (snd ?r)"
    by (rule benchmark_lifecycle [OF policy]) (rule root)
  then obtain calls where calls: "run_benchmark demo_stats (logged (demo_bench 9)) demo_policy \<lparr>ts_value = 0, ts_aware = True\<rparr> \<lparr>ts_value = 1, ts_aware = True\<rparr> (0, [])
      = ((fst ?r, calls), snd ?r)" "lifecycle demo_policy calls (snd ?r)" by blast
  have "calls = [C_Prepare] @ replicate (nat (bmr_warmup_runs x)) C_Run @ [C_Reset] @ replicate (nat (bmr_measured_runs x)) C_Run @ [C_Cleanup]"
    using calls(2) x(1) unfolding lifecycle_def by blast
  then have "calls = [C_Prepare, C_Run, C_Reset, C_Run, C_Run, C_Cleanup]" by (simp only: x(2,3)) (simp add: eval_nat_numeral)
  with calls(1) x(1) show ?thesis by metis
qed

end
