(* ===== verification/Spec2Isabelle.thy ===== *)
theory Spec2Isabelle
  imports Boundary Manifest Remote Control_Mapper Runner_Safety Payload_Classes Controller_Bounds Admin_Safety Class_Evidence Strategy_Safety Benchmark_Safety
begin

text \<open>
  EdgeShard runs a decoder language model as a pipeline of shards on several machines. The program has two
  planes. The data plane loads a contiguous range of decoder blocks per process, keeps a session with a
  key-value cache in each, and passes hidden states from stage to stage over gRPC until the last stage
  returns logits. The control plane registers workers with a Master, tracks their capability, state and
  liveness, and hands the cluster's resources to profiling runs. Paths below are relative to
  \<^verbatim>\<open>src/src/edgeshard\<close>.

  \<^bold>\<open>Data plane.\<close>
  \<^item> \<^theory_text>\<open>Model_Spec\<close> models \<^verbatim>\<open>model/spec.py\<close> and \<^verbatim>\<open>model/layout.py\<close>: block ranges, shard specifications, layouts.
  \<^item> \<^theory_text>\<open>Weights\<close> models \<^verbatim>\<open>model/weights/safetensors.py\<close>: which tensors of a checkpoint a shard selects, how their
    names are renumbered, and the load loop. The selected tensors are exactly the stored tensors of the shard.
  \<^item> \<^theory_text>\<open>Shard\<close> models \<^verbatim>\<open>model/adapters\<close> and \<^verbatim>\<open>inference/{state,session,shard}.py\<close>: the skeleton, the session table
    (locale \<open>session_table\<close>) and one step of a shard.
  \<^item> \<^theory_text>\<open>Wire\<close> models \<^verbatim>\<open>protocol/{domain,tensor_codec,protobuf_mapper}.py\<close>: messages, their validation, and the mapping
    to wire messages whose integers have 32 and 64 bits.
  \<^item> \<^theory_text>\<open>Pipeline\<close> models \<^verbatim>\<open>inference/{pipeline,generation}.py\<close> over an abstract stage transport (locale
    \<open>stage_transport\<close>), \<^theory_text>\<open>Boundary\<close> the serialized transport of \<^verbatim>\<open>protocol/boundary.py\<close>, which is an
    interpretation of that locale.
  \<^item> \<^theory_text>\<open>Reference\<close> is the abstract specification: the undivided decoder and greedy generation with it.
    \<^theory_text>\<open>Partition\<close> shows that a chain of shards simulates it step by step: the caches of the stages together are
    the cache of the decoder.
  \<^item> \<^theory_text>\<open>Runtime_Config\<close>, \<^theory_text>\<open>Manifest\<close>, \<^theory_text>\<open>Shard_Server\<close> and \<^theory_text>\<open>Remote\<close> model the runtime configuration, the deployment
    manifest and the configurations generated from it, the runtime processes with their servicer and downstream
    client, and the remote pipeline of the mock master. The theorem of this theory composes them.

  \<^bold>\<open>Control plane.\<close>
  \<^item> \<^theory_text>\<open>Canonical_Json\<close> models the canonical JSON text that identities are hashes of; \<^theory_text>\<open>Cluster\<close> models \<^verbatim>\<open>cluster/*.py\<close>: the
    records, their validation and the revision of a capability, which ignores enumeration orders and nothing else.
  \<^item> \<^theory_text>\<open>Control_Messages\<close> and \<^theory_text>\<open>Control_Mapper\<close> model \<^verbatim>\<open>protocol/control/mapper.py\<close> with its client and servicer: the requests and
    responses and their way over the wire. \<^theory_text>\<open>Codec\<close> holds what the hand-written mappers share.
  \<^item> \<^theory_text>\<open>Master_Service\<close> models \<^verbatim>\<open>control/master/{config,registry,sessions,state_store,liveness,snapshot,service}.py\<close>. Its
    invariant is proved for every reachable state of the step relation over registrations, heartbeats, capability
    updates and liveness ticks; the session lemmas speak about whole sequences of calls.
  \<^item> \<^theory_text>\<open>Worker_Agent\<close> models \<^verbatim>\<open>control/worker/master_client.py\<close> and the assembly part of \<^verbatim>\<open>control/worker/agent.py\<close>. The locale
    \<open>control_service\<close> states what an agent relies on; the Master in a world with other processes is its interpretation.

  \<^bold>\<open>Profiling on a Worker.\<close>
  \<^item> \<^theory_text>\<open>Profiling_Values\<close>, \<^theory_text>\<open>Profiling_Domain\<close> and \<^theory_text>\<open>Profiling_Identity\<close> model \<^verbatim>\<open>profiling/domain\<close>: every dataclass with its
    validation and the content hashes, which identify cases, sessions and signatures (locale \<open>canonical_form\<close>).
  \<^item> \<^theory_text>\<open>Leases\<close> and \<^theory_text>\<open>Profiling_Sessions\<close> model \<^verbatim>\<open>control/worker/profiling_leases.py\<close> and \<^verbatim>\<open>profiling_sessions.py\<close>: the table of
    leased devices and the sessions with their ledger of case outcomes.
  \<^item> \<^theory_text>\<open>Profiling_Messages\<close> models the messages of the Worker plane (\<^verbatim>\<open>protocol/profiling/mapper.py\<close>), \<^theory_text>\<open>Runner_Environment\<close> and
    \<^theory_text>\<open>Profiling_Runner\<close> the runner of \<^verbatim>\<open>control/worker/profiling_runner.py\<close>. A handler is cut at its awaits into steps, so
    that an execution is any interleaving of steps. \<^theory_text>\<open>Runner_Leases\<close> and \<^theory_text>\<open>Runner_Safety\<close> show that leases do not leak and
    that answers agree.
  \<^item> \<^theory_text>\<open>Benchmark\<close> models \<^verbatim>\<open>profiling/benchmark\<close>: the lifecycle of one benchmark over an arbitrary workload, timer and
    instruments. \<^theory_text>\<open>Benchmark_Safety\<close> compares it with the same run that logs its calls.
  \<^item> \<^theory_text>\<open>Normalizer\<close> models \<^verbatim>\<open>profiling/operator/normalizer.py\<close>: no recorded operator is lost and no fact about it is guessed.

  \<^bold>\<open>Profiling on the Master.\<close>
  \<^item> \<^theory_text>\<open>Payload_Codec\<close>, \<^theory_text>\<open>Json_Reader\<close>, \<^theory_text>\<open>Payload_Json\<close> and \<^theory_text>\<open>Payload_Classes\<close> model \<^verbatim>\<open>profiling/codec.py\<close> with the reader of JSON text
    and the table of the classes that cross the wire or are stored: encoding, strict decoding and the round trip.
  \<^item> \<^theory_text>\<open>Network_Classifier\<close> models \<^verbatim>\<open>profiling/network/classifier.py\<close>: the class of a path and the sparse choice of pairs.
    \<^theory_text>\<open>Strategy\<close> models \<^verbatim>\<open>profiling/strategy\<close> with the planning helpers and the builders of the probe cases; \<^theory_text>\<open>Plan_Lemmas\<close> and
    \<^theory_text>\<open>Strategy_Safety\<close> say what a plan asks for.
  \<^item> \<^theory_text>\<open>Profile_Store\<close> models \<^verbatim>\<open>profiling/store/sqlite.py\<close> with a table as an association list; \<^theory_text>\<open>Store_Safety\<close> shows its
    invariant over any run of calls, that nothing stored changes, and when a snapshot can be built.
  \<^item> \<^theory_text>\<open>Coroutine\<close> models coroutines: a tree that is finished or does a step on the shared state and waits for an answer.
    What may happen during a wait is a relation (rely), what a coroutine does between two waits another (guarantee);
    the locale \<open>cooperation\<close> shows that jobs whose relations fit can be interleaved in any order, and its interpretation
    \<open>job\<close> is the one of the controller.
  \<^item> \<^theory_text>\<open>Session_Plan\<close>, \<^theory_text>\<open>Profiling_Controller\<close> and \<^theory_text>\<open>Experiment_Admin\<close> model \<^verbatim>\<open>control/master/profiling_controller.py\<close>: how cases are
    grouped into sessions, the coroutines that run and cancel experiments and inspect a model, and the methods that
    wait for nothing. \<^theory_text>\<open>Controller_Safety\<close>, \<^theory_text>\<open>Experiment_Safety\<close>, \<^theory_text>\<open>Controller_Bounds\<close> and \<^theory_text>\<open>Admin_Safety\<close> show that every case is
    decided once in any interleaving, that the number of awaits is linear, and that a created experiment can be run.
  \<^item> \<^theory_text>\<open>Class_Verification\<close> models \<^verbatim>\<open>profiling/operator/verification.py\<close> and the methods of the controller around it;
    \<^theory_text>\<open>Class_Evidence\<close> follows a verdict to the measurements it rests on.

  \<^bold>\<open>State, errors, numbers.\<close> A dataclass is a record, an enumeration a datatype, a dict a map or, where its order is
  observable, an association list. Code that may raise returns \<open>exn + 'a\<close>; a handler that changes state before it
  raises returns the state it leaves with the result. Python integers are \<^typ>\<open>int\<close>; the ranges of the wire fields are
  checked where a message is built. Floating-point numbers are exact rationals, without rounding, with infinities
  and NaN as values of their own (\<open>pyfloat\<close>) wherever the code can receive them; telemetry, delays and thresholds of
  the control plane are finite.

  \<^bold>\<open>Parameters.\<close> The Hugging Face modules and their execution, safetensors and protobuf bytes, SHA-256, the text of
  floats and timestamps, clocks, identifier factories and the network are arguments of the definitions, with the
  laws the code relies on as hypotheses of the theorems that need them. Each such theorem has an instance with
  concrete functions. The conversion of a parameter to a dtype is a function of the library (\<open>hf_cast\<close>) and the
  devices a host has are a predicate (\<open>hf_has_device\<close>); moving a tensor keeps its values. The pipeline theorems
  compare with the decoder on the converted checkpoint and ask for one dtype in all stages; a device may differ
  from stage to stage.

  \<^bold>\<open>Bounds and fuel.\<close> The decoding loop runs for the requested number of tokens. The agent's loops may run forever;
  they carry a bound on their rounds, reaching it is a result of its own, and the theorems hold for every bound.
  The reader of JSON text has the length of the text as fuel and uses one unit per nesting level and element. The coroutines
  need no bound: a run of an experiment of \<open>n\<close> cases waits at most \<open>17 * n + 2\<close> times, a cancellation \<open>5 * n + 2\<close> times
  and the inspection of a model 13 times, and that is proved.

  \<^bold>\<open>Simplifications.\<close> Between two awaits a coroutine or handler runs alone. The cancellation of a coroutine of the
  Master by its caller is left out; on the Worker the cancellation of a handler is a step. The shutdown of the
  runner closes its sessions in one step, without the awaits in between; it is called when the server has stopped.
  The texts of failures leave out references to sections of a design document, and details that only a log shows.

  \<^bold>\<open>Not modelled.\<close> Process startup, readiness polling, Docker, YAML, the SQL text and the files of SQLite, telemetry
  probes, ping and iperf3 processes, the torch kernels, exporters and model profilers, the admin commands above
  the profiling controller, the wire mapping of the profiling messages, argument parsing, logging.
\<close>


section \<open>From an accepted manifest to generated tokens\<close>

text \<open>The runtime processes a deployment starts: one per generated configuration, in pipeline order.\<close>

lemma make_node_Inr:
  assumes "make_node hf params cfg dir get_tensor c = Inr n"
  shows "nd_config n = c" and "build_shard_module hf params cfg dir get_tensor c = Inr (nd_module n)"
  using assms by (auto simp: make_node_def bind_res_Inr Let_def)

lemma build_shard_module_Inr:
  assumes "build_shard_module hf params cfg dir get_tensor c = Inr m" and "index_from_source dir = Inr idx"
    and dt: "rc_dtype c = dt"
  shows "stage_holds hf (stored_as hf dt idx get_tensor) (cfg_tie_word_embeddings cfg) m"
    and "sm_sessions m = Map.empty"
    and "br_start (spec_blocks (sm_shard m)) = sc_start_block (rc_shard c)"
    and "br_end (spec_blocks (sm_shard m)) = sc_end_block (rc_shard c)"
    and "include_input_stage (sm_shard m) = sc_include_input_stage (rc_shard c)"
    and "include_output_stage (sm_shard m) = sc_include_output_stage (rc_shard c)"
proof -
  from assms(1) dt obtain b dev where b: "section_blocks (rc_shard c) = Inr b"
    and build: "shard_build hf params cfg dir get_tensor dt dev
      \<lparr>spec_model_id = ms_id (rc_model c), spec_blocks = b,
       include_input_stage = sc_include_input_stage (rc_shard c),
       include_output_stage = sc_include_output_stage (rc_shard c)\<rparr> = Inr m"
    by (auto simp: build_shard_module_def bind_res_Inr)
  from b have rng: "range_ok b" and bb: "br_start b = sc_start_block (rc_shard c)" "br_end b = sc_end_block (rc_shard c)"
    by (auto simp: section_blocks_def make_block_range_Inr range_ok_def)
  note holds = shard_build_holds [OF build _ assms(2)]
  from holds(1,3) rng show "stage_holds hf (stored_as hf dt idx get_tensor) (cfg_tie_word_embeddings cfg) m" "sm_sessions m = Map.empty"
    by simp_all
  from holds(2) rng bb show "br_start (spec_blocks (sm_shard m)) = sc_start_block (rc_shard c)"
    "br_end (spec_blocks (sm_shard m)) = sc_end_block (rc_shard c)"
    "include_input_stage (sm_shard m) = sc_include_input_stage (rc_shard c)"
    "include_output_stage (sm_shard m) = sc_include_output_stage (rc_shard c)" by simp_all
qed

lemma wired_nth:
  assumes "nodes \<noteq> []"
    and "\<And>i. i < length nodes \<Longrightarrow> node_stage (nodes ! i) = k + int i
      \<and> (has_downstream (nodes ! i) \<longleftrightarrow> Suc i < length nodes)
      \<and> (is_final_stage (nd_config (nodes ! i)) \<longleftrightarrow> Suc i = length nodes)"
  shows "wired k nodes"
  using assms
proof (induction nodes arbitrary: k)
  case Nil
  then show ?case by simp
next
  case (Cons n rest)
  from Cons.prems(2) [of 0] have n: "node_stage n = k" "has_downstream n \<longleftrightarrow> rest \<noteq> []" "is_final_stage (nd_config n) \<longleftrightarrow> rest = []"
    by auto
  have "wired (k + 1) rest" if "rest \<noteq> []"
  proof (rule Cons.IH [OF that])
    show "node_stage (rest ! i) = k + 1 + int i \<and> (has_downstream (rest ! i) \<longleftrightarrow> Suc i < length rest)
        \<and> (is_final_stage (nd_config (rest ! i)) \<longleftrightarrow> Suc i = length rest)" if "i < length rest" for i
      using Cons.prems(2) [of "Suc i"] that by simp
  qed
  with n show ?case by (simp add: wired_Cons)
qed

lemma chain_of_blocks:
  assumes "\<forall>m\<in>set ms. range_ok (spec_blocks (sm_shard m))" and "ms \<noteq> []"
    and "concat (map (\<lambda>m. block_indices (spec_blocks (sm_shard m))) ms) = [0..e - 1]"
  shows "chain 0 ms e"
proof -
  obtain m rest where "ms = m # rest" using assms(2) by (cases ms) auto
  with assms(1,3) have "[0..e - 1] \<noteq> []" by (auto simp: block_indices_def range_ok_def)
  then have "0 \<le> e" by auto
  with chain_concat [OF assms(1)] assms(3) show ?thesis by simp
qed


lemma deployed_modules:
  assumes man: "validate_manifest man = Inr man'" and cfgs: "write_runtime_configs man' = Inr cfgs" "cfgs \<noteq> []"
    and nodes: "list_all2 (\<lambda>(rid, c) n. make_node hf params cfg dir get_tensor c = Inr n) cfgs nodes"
    and idx: "index_from_source dir = Inr idx" and dt: "\<forall>(rid, c)\<in>set cfgs. rc_dtype c = dt"
  shows "wired 0 nodes" and "\<forall>n\<in>set nodes. rs_execution_id (rc_runtime (nd_config n)) = man_execution_id man'"
    and "\<forall>n\<in>set nodes. stage_holds hf (stored_as hf dt idx get_tensor) (cfg_tie_word_embeddings cfg) (nd_module n)"
    and "chain 0 (map nd_module nodes) (sc_end_block (rc_shard (snd (last cfgs))))"
    and "\<And>i. i < length nodes \<Longrightarrow> (include_input_stage (sm_shard (nd_module (nodes ! i))) \<longleftrightarrow> i = 0)
      \<and> (include_output_stage (sm_shard (nd_module (nodes ! i))) \<longleftrightarrow> i = length nodes - 1)"
proof -
  from nodes have len: "length nodes = length cfgs" by (simp add: list_all2_lengthD)
  have node: "make_node hf params cfg dir get_tensor (snd (cfgs ! i)) = Inr (nodes ! i)" if "i < length nodes" for i
    using nodes that by (auto simp: list_all2_conv_all_nth split_beta)
  note mk = make_node_Inr [OF node]
  have dt_nth: "rc_dtype (snd (cfgs ! i)) = dt" if "i < length nodes" for i
    using dt that len by (auto simp: split_beta)
  note built = build_shard_module_Inr [OF mk(2) idx dt_nth]
  from manifest_configs [OF man] cfgs(1) have each: "let c = snd (cfgs ! i) in
         validate_config c = Inr c \<and> rs_runtime_id (rc_runtime c) = man_pipeline man' ! i
         \<and> rs_execution_id (rc_runtime c) = man_execution_id man'
         \<and> ps_stage_index (rc_pipeline c) = int i \<and> ps_stage_count (rc_pipeline c) = int (length cfgs)
         \<and> ps_next_endpoint (rc_pipeline c) =
             (if i + 1 < length cfgs then Some (man_pipeline man' ! (i + 1) @ '':50051'') else None)
         \<and> sc_start_block (rc_shard c) < sc_end_block (rc_shard c)
         \<and> (sc_include_input_stage (rc_shard c) \<longleftrightarrow> i = 0)
         \<and> (sc_include_output_stage (rc_shard c) \<longleftrightarrow> i = length cfgs - 1)" if "i < length cfgs" for i
    using that by (metis (no_types, lifting) sum.inject(2))
  have cover: "concat (map (\<lambda>(rid, c). [sc_start_block (rc_shard c)..sc_end_block (rc_shard c) - 1]) cfgs)
         = [0..sc_end_block (rc_shard (snd (last cfgs))) - 1]"
    using manifest_configs [OF man] cfgs by auto
  show "wired 0 nodes"
  proof (rule wired_nth)
    show "nodes \<noteq> []" using len cfgs(2) by auto
    show "node_stage (nodes ! i) = 0 + int i \<and> (has_downstream (nodes ! i) \<longleftrightarrow> Suc i < length nodes)
        \<and> (is_final_stage (nd_config (nodes ! i)) \<longleftrightarrow> Suc i = length nodes)" if "i < length nodes" for i
      using each [of i] that mk(1) [OF that] by (auto simp: len Let_def node_stage_def has_downstream_def is_final_stage_def)
  qed
  show "\<forall>n\<in>set nodes. rs_execution_id (rc_runtime (nd_config n)) = man_execution_id man'"
    using each mk(1) len by (auto simp: in_set_conv_nth Let_def)
  show hold: "\<forall>n\<in>set nodes. stage_holds hf (stored_as hf dt idx get_tensor) (cfg_tie_word_embeddings cfg) (nd_module n)"
    using built(1) by (auto simp: in_set_conv_nth)
  have "map (\<lambda>m. block_indices (spec_blocks (sm_shard m))) (map nd_module nodes)
      = map (\<lambda>(rid, c). [sc_start_block (rc_shard c)..sc_end_block (rc_shard c) - 1]) cfgs"
    using built(3,4) by (intro nth_equalityI) (simp_all add: len block_indices_def split_beta)
  then show "chain 0 (map nd_module nodes) (sc_end_block (rc_shard (snd (last cfgs))))"
    using hold cover len cfgs(2) by (intro chain_of_blocks) (auto simp: stage_holds_def Let_def)
  show "\<And>i. i < length nodes \<Longrightarrow> (include_input_stage (sm_shard (nd_module (nodes ! i))) \<longleftrightarrow> i = 0)
      \<and> (include_output_stage (sm_shard (nd_module (nodes ! i))) \<longleftrightarrow> i = length nodes - 1)"
    using each built(5,6) by (simp add: len Let_def)
qed


lemma opened_simps [simp]:
  "nd_config (opened sid n) = nd_config n" "sm_shard (nd_module (opened sid n)) = sm_shard (nd_module n)"
  by (simp_all add: opened_def)

lemma opened_holds [simp]:
  "stage_holds hf ck tied (nd_module (opened sid n)) = stage_holds hf ck tied (nd_module n)"
  by (simp add: opened_def stage_holds_def)

lemma chain_opened: "chain a (map nd_module (map (opened sid) nodes)) e \<longleftrightarrow> chain a (map nd_module nodes) e"
  by (induction nodes arbitrary: a) simp_all

lemma deployment_serving:
  assumes d: "decoder_ok d" and hf: "runs_decoder hf d"
    and man: "validate_manifest man = Inr man'" and cfgs: "write_runtime_configs man' = Inr cfgs" "cfgs \<noteq> []"
    and nodes: "list_all2 (\<lambda>(rid, c) n. make_node hf params cfg dir get_tensor c = Inr n) cfgs nodes"
    and idx: "index_from_source dir = Inr idx" and dt: "\<forall>(rid, c)\<in>set cfgs. rc_dtype c = dt"
    and created: "rp_create_session link \<lparr>rp_execution_id = man_execution_id man', rp_clocks = Map.empty, rp_nodes = nodes\<rparr> sid
      = (rp, Inr ())"
  shows "serving hf d (stored_as hf dt idx get_tensor) (cfg_tie_word_embeddings cfg) (sc_end_block (rc_shard (snd (last cfgs))))
      (man_execution_id man') sid (\<lambda>_. dec_empty d) 0 0 (rp_nodes rp)"
    and "rp_execution_id rp = man_execution_id man'" and "length (rp_nodes rp) = length nodes"
proof -
  note mods = deployed_modules [OF man cfgs nodes idx dt]
  from created have "srv_create_session link (man_execution_id man') sid nodes = (rp_nodes rp, Inr ())"
    and eid: "rp_execution_id rp = man_execution_id man'"
    by (auto simp: rp_create_session_def deliver_Inr split: prod.splits)
  then have rp: "rp_nodes rp = map (opened sid) nodes" using srv_create_success [OF mods(1)] by blast
  let ?ms = "map nd_module (map (opened sid) nodes)"
  have "running hf d (stored_as hf dt idx get_tensor) (cfg_tie_word_embeddings cfg) (sc_end_block (rc_shard (snd (last cfgs)))) sid
      (\<lambda>_. dec_empty d) 0 0 ?ms"
  proof (rule running_start [OF d hf])
    show "?ms \<noteq> []" using mods(1) by auto
    show "chain 0 ?ms (sc_end_block (rc_shard (snd (last cfgs))))" using mods(4) by (simp only: chain_opened)
    show "\<forall>m\<in>set ?ms. stage_holds hf (stored_as hf dt idx get_tensor) (cfg_tie_word_embeddings cfg) m" using mods(3) by auto
    show "(include_input_stage (sm_shard (?ms ! i)) \<longleftrightarrow> i = 0) \<and> (include_output_stage (sm_shard (?ms ! i)) \<longleftrightarrow> i = length ?ms - 1)"
      if "i < length ?ms" for i using mods(5) [of i] that by simp
    show "\<forall>m\<in>set ?ms. \<exists>s. sm_sessions m sid = Some s \<and> kv_cache s = hf_new_cache (sm_hf m) \<and> sequence_length s = 0 \<and> sess_step s = 0"
      by (auto simp: opened_def)
  qed
  moreover have "wired 0 (map (opened sid) nodes)" using mods(1) by (subst wired_cong [of _ nodes]) simp_all
  ultimately show "serving hf d (stored_as hf dt idx get_tensor) (cfg_tie_word_embeddings cfg) (sc_end_block (rc_shard (snd (last cfgs))))
      (man_execution_id man') sid (\<lambda>_. dec_empty d) 0 0 (rp_nodes rp)"
    using mods(2) by (simp add: serving_def rp)
  show "rp_execution_id rp = man_execution_id man'" "length (rp_nodes rp) = length nodes" by (simp_all add: eid rp)
qed

lemma partition_bounds_end:
  assumes "validate_partition_bounds cfg man = Inr ()" and "validate_manifest man0 = Inr man"
    and "write_runtime_configs man = Inr cfgs" and "cfgs \<noteq> []"
  shows "sc_end_block (rc_shard (snd (last cfgs))) = cfg_num_hidden_layers cfg"
proof -
  from validate_manifest_Inr [OF assms(2)] obtain n rts shards where n: "resolved_local_name (man_model man) = Inr n"
    "validate_local_name n = Inr n" and st: "staged man rts shards" and eid: "man_execution_id man \<noteq> []" by metis
  let ?N = "length (man_pipeline man)"
  note nth = staged_nth [OF st]
  from write_runtime_configs_staged [OF st eid n] assms(3) have cfgs: "cfgs
      = map (\<lambda>i. (man_pipeline man ! i, stage_config man n rts shards i)) [0..<?N]" by simp
  with assms(4) have N: "?N \<noteq> 0" by auto
  then have "last cfgs = (man_pipeline man ! (?N - 1), stage_config man n rts shards (?N - 1))" by (simp add: cfgs last_map)
  then have "sc_end_block (rc_shard (snd (last cfgs))) = mf_end (shards ! (?N - 1))" by (simp add: stage_config_def)
  moreover from N have "last rts = rts ! (?N - 1)" using nth(1) by (metis last_conv_nth length_0_conv)
  moreover have "mr_shard (rts ! (?N - 1)) = Some (shards ! (?N - 1))" using nth(3) [of "?N - 1"] N by simp
  moreover have "pipeline_runtimes man = Inr rts" using st by (simp add: staged_def)
  ultimately show ?thesis using assms(1)
    by (auto simp: validate_partition_bounds_def bind_res_Inr inspect_standard split: if_splits)
qed

text \<open>[C2] A deployment in one dtype generates the tokens of the model it deploys. Take a manifest the master
  accepts, whose partition matches the model and whose runtimes all ask for the same dtype; start one runtime
  process per generated configuration, each on the device its configuration names, on copies of one
  checkpoint; open a session and generate through the entry process with every call delivered: the tokens
  are those of the undivided decoder on that checkpoint converted to that dtype, and nothing raises. The
  manifest does not require the common dtype; runtimes of different dtypes hand torch a hidden state of one
  dtype for weights of another, and nothing is claimed of them.\<close>

theorem deployment_generates_reference:
  assumes "decoder_ok d" and "runs_decoder hf d" and "wire_env_ok env" and "\<forall>j. link j = Delivered"
    and "validate_manifest man = Inr man'" and "validate_partition_bounds cfg man' = Inr ()"
    and "write_runtime_configs man' = Inr cfgs" and "cfgs \<noteq> []"
    and "list_all2 (\<lambda>(rid, c) n. make_node hf params cfg dir get_tensor c = Inr n) cfgs nodes"
    and "index_from_source dir = Inr idx" and "\<forall>(rid, c)\<in>set cfgs. rc_dtype c = dt" and "sid \<noteq> []"
    and "rp_create_session link \<lparr>rp_execution_id = man_execution_id man', rp_clocks = Map.empty, rp_nodes = nodes\<rparr> sid
      = (rp, Inr ())"
    and "prompt \<noteq> []" and "list_all int64 prompt" and "\<forall>x. int64 (argmax x)"
    and "0 \<le> n" and "n + 1 < 2 ^ 31" and "int (length prompt) + n < 2 ^ 63" and "int (length nodes) < 2 ^ 31"
  shows "\<exists>rp'. remote_generate env link argmax rp sid [map Long prompt] n
    = (rp', Inr (ref_generate d (stored_as hf dt idx get_tensor) (cfg_tie_word_embeddings cfg) (cfg_num_hidden_layers cfg)
                   argmax [map Long prompt] (nat n)))"
proof -
  note srv = deployment_serving [OF assms(1,2,5,7,8,9,10,11,13)]
  from validate_manifest_Inr [OF assms(5)] have eid: "man_execution_id man' \<noteq> []" by metis
  have "sc_end_block (rc_shard (snd (last cfgs))) = cfg_num_hidden_layers cfg"
    by (rule partition_bounds_end [OF assms(6,5,7,8)])
  with srv(1) have "serving hf d (stored_as hf dt idx get_tensor) (cfg_tie_word_embeddings cfg) (cfg_num_hidden_layers cfg)
      (man_execution_id man') sid (\<lambda>_. dec_empty d) 0 0 (rp_nodes rp)" by simp
  from remote_generate_reference [OF assms(1-4) eid assms(12,16) this srv(2) assms(14,15,17-19)] srv(3) assms(20)
  show ?thesis by simp
qed


definition demo_cfgs :: "(string \<times> runtime_config) list" where
  "demo_cfgs = projr (write_runtime_configs demo_accepted)"

definition demo_node :: "runtime_config \<Rightarrow> (string, int \<Rightarrow> int, string) runtime_node res" where
  "demo_node c = make_node demo_hf demo_params demo_config demo_snapshot (\<lambda>f n. n) c"

definition demo_nodes :: "(string, int \<Rightarrow> int, string) runtime_node list" where
  "demo_nodes = map (\<lambda>(rid, c). projr (demo_node c)) demo_cfgs"

definition demo_remote :: "(string, int \<Rightarrow> int, string) remote_pipeline" where
  "demo_remote = \<lparr>rp_execution_id = man_execution_id demo_accepted, rp_clocks = Map.empty, rp_nodes = demo_nodes\<rparr>"

lemma demo_cfgs_written: "write_runtime_configs demo_accepted = Inr demo_cfgs"
proof -
  have "is_ok (write_runtime_configs demo_accepted)" by code_simp
  then show ?thesis by (auto simp: demo_cfgs_def is_ok_iff)
qed

lemma demo_nodes_made:
  "list_all2 (\<lambda>(rid, c) n. make_node demo_hf demo_params demo_config demo_snapshot (\<lambda>f n. n) c = Inr n)
     demo_cfgs demo_nodes"
proof -
  have "list_all (\<lambda>(rid, c). is_ok (demo_node c)) demo_cfgs" by code_simp
  then show ?thesis
    by (auto simp: demo_nodes_def list_all_iff list_all2_conv_all_nth demo_node_def is_ok_iff split_beta dest!: nth_mem)
qed

lemma demo_one_dtype: "\<forall>(rid, c)\<in>set demo_cfgs. rc_dtype c = Bf16"
proof -
  have "list_all (\<lambda>(rid, c). rc_dtype c = Bf16) demo_cfgs" by code_simp
  then show ?thesis by (simp add: list_all_iff)
qed

lemma demo_facts:
  "demo_cfgs \<noteq> []" "validate_partition_bounds demo_config demo_accepted = Inr ()" "length demo_nodes = 2"
  "snd (rp_create_session (\<lambda>_. Delivered) demo_remote ''s'') = Inr ()"
  by code_simp+

theorem deployment_generates_reference_witness:
  "\<exists>rp'. remote_generate demo_env (\<lambda>_. Delivered) demo_argmax
      (fst (rp_create_session (\<lambda>_. Delivered) demo_remote ''s'')) ''s'' [map Long [1, 2]] 3
    = (rp', Inr (ref_generate demo_decoder (stored_as demo_hf Bf16 demo_index (\<lambda>f n. n)) True 2 demo_argmax [map Long [1, 2]] 3))"
proof -
  have am: "\<forall>x. int64 (demo_argmax x)" by (auto simp: demo_argmax_def int64_def split: cell.splits)
  have "rp_create_session (\<lambda>_. Delivered) \<lparr>rp_execution_id = man_execution_id demo_accepted, rp_clocks = Map.empty,
      rp_nodes = demo_nodes\<rparr> ''s'' = (fst (rp_create_session (\<lambda>_. Delivered) demo_remote ''s''), Inr ())"
    using demo_facts(4) by (simp add: prod_eq_iff demo_remote_def)
  from deployment_generates_reference [OF demo_decoder_ok demo_hf_runs demo_env_ok _ demo_manifest_accepted demo_facts(2)
      demo_cfgs_written demo_facts(1) demo_nodes_made demo_load(1) demo_one_dtype _ this _ _ am, of "[1, 2]" 3]
  show ?thesis by (simp add: demo_facts(3) demo_config_def int64_def)
qed


theorem srv_create_session_all_or_nothing_witness:
  "srv_create_session (\<lambda>_. Delivered) ''e'' ''s'' demo_nodes = (map (opened ''s'') demo_nodes, Inr ())
   \<and> (\<exists>e. srv_create_session (\<lambda>k. if k = 1 then RequestLost else Delivered) ''e'' ''s'' demo_nodes = (demo_nodes, Inl e))"
proof -
  have w: "wired 0 demo_nodes" by code_simp
  have "list_all (\<lambda>n. rs_execution_id (rc_runtime (nd_config n)) = ''e'' \<and> sm_sessions (nd_module n) ''s'' = None) demo_nodes"
    by code_simp
  then have ok: "\<forall>n\<in>set demo_nodes. rs_execution_id (rc_runtime (nd_config n)) = ''e'' \<and> sm_sessions (nd_module n) ''s'' = None"
    by (simp add: list_all_iff)
  show ?thesis
  proof
    show "srv_create_session (\<lambda>_. Delivered) ''e'' ''s'' demo_nodes = (map (opened ''s'') demo_nodes, Inr ())"
      using srv_create_session_all_or_nothing [OF w, of "\<lambda>_. Delivered" "''e''" "''s''"] ok by simp
    have "\<not> (\<forall>k. 0 < k \<and> k < int (length demo_nodes) \<longrightarrow> (if k = 1 then RequestLost else Delivered) = Delivered)"
      by (auto simp: demo_facts(3) intro: exI [of _ 1])
    then show "\<exists>e. srv_create_session (\<lambda>k. if k = 1 then RequestLost else Delivered) ''e'' ''s'' demo_nodes = (demo_nodes, Inl e)"
      using srv_create_session_all_or_nothing [OF w, of "\<lambda>k. if k = 1 then RequestLost else Delivered" "''e''" "''s''"]
      by (simp only: if_False simp_thms) simp
  qed
qed

end
